(* ===== verification/Wire.thy ===== *)
theory Wire
  imports Prelude
begin

text \<open>
  The two encodings of an action. The value that \<^verbatim>\<open>encoding/json\<close> receives is a \<open>jval\<close>
  (struct fields in declaration order, map keys sorted, \<^verbatim>\<open>omitempty\<close> fields left out); the
  sequence of calls that a \<^verbatim>\<open>MarshalMsgpack\<close> method makes on its \<^verbatim>\<open>msgpack.Encoder\<close> is a list of
  tokens. \<open>toks_of\<close> is the canonical token sequence of a value. The third-party encoder is the
  interface \<open>msgpack_codec\<close>: each token has a self-delimiting byte string. The theory ends with
  an implementation of the MessagePack format for which that contract holds.
\<close>

section \<open>JSON values and encoder calls\<close>

datatype jval =
    JNull
  | JBool bool
  | JInt int
  | JStr string
  | JArr "jval list"
  | JObj "(string \<times> jval) list"

datatype tok =
    NilT
  | BoolT bool
  | IntT int
  | Str string
  | ArrayLen nat
  | MapLen nat

fun toks_of :: "jval \<Rightarrow> tok list"
and toks_list :: "jval list \<Rightarrow> tok list"
and toks_fields :: "(string \<times> jval) list \<Rightarrow> tok list" where
  "toks_of JNull = [NilT]"
| "toks_of (JBool b) = [BoolT b]"
| "toks_of (JInt i) = [IntT i]"
| "toks_of (JStr s) = [Str s]"
| "toks_of (JArr vs) = ArrayLen (length vs) # toks_list vs"
| "toks_of (JObj fs) = MapLen (length fs) # toks_fields fs"
| "toks_list [] = []"
| "toks_list (v # vs) = toks_of v @ toks_list vs"
| "toks_fields [] = []"
| "toks_fields ((k, v) # fs) = Str k # toks_of v @ toks_fields fs"

lemma toks_fields_append [simp]: "toks_fields (xs @ ys) = toks_fields xs @ toks_fields ys"
  by (induction xs) auto

lemma toks_list_map: "toks_list (map f xs) = concat (map (\<lambda>x. toks_of (f x)) xs)"
  by (induction xs) simp_all

text \<open>A value's tokens end by themselves: no value's sequence is a proper prefix of another's.\<close>

lemma toks_prefix:
  "toks_of v @ r = toks_of w @ s \<Longrightarrow> v = w \<and> r = s"
  "length vs = length ws \<Longrightarrow> toks_list vs @ r = toks_list ws @ s \<Longrightarrow> vs = ws \<and> r = s"
  "length fs = length gs \<Longrightarrow> toks_fields fs @ r = toks_fields gs @ s \<Longrightarrow> fs = gs \<and> r = s"
proof (induction v and vs and fs arbitrary: w r s and ws r s and gs r s
    rule: toks_of_toks_list_toks_fields.induct)
  case 1 then show ?case by (cases w) auto
next
  case 2 then show ?case by (cases w) auto
next
  case 3 then show ?case by (cases w) auto
next
  case 4 then show ?case by (cases w) auto
next
  case (5 vs) 
  then obtain ws where "w = JArr ws" "length vs = length ws" by (cases w) auto
  with 5 show ?case by auto
next
  case (6 fs)
  then obtain gs where "w = JObj gs" "length fs = length gs" by (cases w) auto
  with 6 show ?case by auto
next
  case 7 then show ?case by simp
next
  case 9 then show ?case by simp
next
  case (8 v vs)
  from 8(3) obtain w ws' where [simp]: "ws = w # ws'" by (cases ws) simp_all
  from 8(3,4) have "toks_of v @ (toks_list vs @ r) = toks_of w @ (toks_list ws' @ s)"
    and len: "length vs = length ws'" by simp_all
  then have "v = w" "toks_list vs @ r = toks_list ws' @ s" using 8(1) by blast+
  with 8(2) len show ?case by simp
next
  case (10 k v fs)
  from 10(3) obtain l w gs' where [simp]: "gs = (l, w) # gs'" by (cases gs) auto
  from 10(3,4) have "toks_of v @ (toks_fields fs @ r) = toks_of w @ (toks_fields gs' @ s)"
    and len: "length fs = length gs'" and "k = l" by simp_all
  then have "v = w" "toks_fields fs @ r = toks_fields gs' @ s" using 10(1) by blast+
  with 10(2) len \<open>k = l\<close> show ?case by simp
qed

lemma toks_of_inj: "toks_of v = toks_of w \<longleftrightarrow> v = w"
  using toks_prefix(1) [of v "[]" w "[]"] by auto

section \<open>Calls on the encoder\<close>

text \<open>
  One definition per method of the encoder that the marshalers call. \<^verbatim>\<open>EncodeInt\<close> and \<^verbatim>\<open>EncodeUint\<close>
  (with \<^verbatim>\<open>UseCompactInts\<close>) write the shortest form of the number, so both are one token.
\<close>

definition EncodeMapLen :: "nat \<Rightarrow> tok list" where "EncodeMapLen n = [MapLen n]"
definition EncodeArrayLen :: "nat \<Rightarrow> tok list" where "EncodeArrayLen n = [ArrayLen n]"
definition EncodeString :: "string \<Rightarrow> tok list" where "EncodeString s = [Str s]"
definition EncodeBool :: "bool \<Rightarrow> tok list" where "EncodeBool b = [BoolT b]"
definition EncodeNil :: "tok list" where "EncodeNil = [NilT]"
definition EncodeInt :: "i64 \<Rightarrow> tok list" where "EncodeInt w = [IntT (sint w)]"
definition EncodeUint :: "u64 \<Rightarrow> tok list" where "EncodeUint w = [IntT (uint w)]"

text \<open>\<^verbatim>\<open>Encode\<close> of a pointer and of a slice: a nil one is the nil token.\<close>

definition EncodePtr :: "('a \<Rightarrow> tok list) \<Rightarrow> 'a option \<Rightarrow> tok list" where
  "EncodePtr f p = (case p of None \<Rightarrow> EncodeNil | Some x \<Rightarrow> f x)"

definition EncodeSlice :: "('a \<Rightarrow> tok list) \<Rightarrow> 'a list option \<Rightarrow> tok list" where
  "EncodeSlice f p =
     (case p of None \<Rightarrow> EncodeNil
      | Some xs \<Rightarrow> EncodeArrayLen (length xs) @ concat (map f xs))"

text \<open>\<^verbatim>\<open>for _, pair := range pairs { e.EncodeString(pair.k); e.Encode(pair.v) }\<close>\<close>

definition EncodePairs :: "(string \<times> tok list) list \<Rightarrow> tok list" where
  "EncodePairs ps = concat (map (\<lambda>(k, v). EncodeString k @ v) ps)"

text \<open>
  The corresponding JSON values. \<open>omit\<close> is an \<^verbatim>\<open>omitempty\<close> pointer field.
\<close>

definition json_int :: "i64 \<Rightarrow> jval" where "json_int w = JInt (sint w)"
definition json_uint :: "u64 \<Rightarrow> jval" where "json_uint w = JInt (uint w)"

definition json_ptr :: "('a \<Rightarrow> jval) \<Rightarrow> 'a option \<Rightarrow> jval" where
  "json_ptr f p = (case p of None \<Rightarrow> JNull | Some x \<Rightarrow> f x)"

definition json_slice :: "('a \<Rightarrow> jval) \<Rightarrow> 'a list option \<Rightarrow> jval" where
  "json_slice f p = (case p of None \<Rightarrow> JNull | Some xs \<Rightarrow> JArr (map f xs))"

definition omit :: "string \<Rightarrow> ('a \<Rightarrow> jval) \<Rightarrow> 'a option \<Rightarrow> (string \<times> jval) list" where
  "omit k f p = (case p of None \<Rightarrow> [] | Some x \<Rightarrow> [(k, f x)])"

definition omit_empty :: "string \<Rightarrow> ('a \<Rightarrow> jval) \<Rightarrow> 'a list option \<Rightarrow> (string \<times> jval) list" where
  "omit_empty k f p = (case p of Some (x # xs) \<Rightarrow> [(k, JArr (map f (x # xs)))] | _ \<Rightarrow> [])"

text \<open>
  The encoder writes a struct without a marshaler as a map of its tagged fields in declaration
  order, leaving out \<^verbatim>\<open>omitempty\<close> fields that are empty; a Go map is written to JSON in the order
  of its keys.
\<close>

definition EncodeStruct :: "(string \<times> tok list) list \<Rightarrow> tok list" where
  "EncodeStruct ps = EncodeMapLen (length ps) @ EncodePairs ps"

definition enc_omit :: "string \<Rightarrow> ('a \<Rightarrow> tok list) \<Rightarrow> 'a option \<Rightarrow> (string \<times> tok list) list" where
  "enc_omit k f p = (case p of None \<Rightarrow> [] | Some x \<Rightarrow> [(k, f x)])"

definition enc_omit_empty :: "string \<Rightarrow> ('a \<Rightarrow> tok list) \<Rightarrow> 'a list option
    \<Rightarrow> (string \<times> tok list) list" where
  "enc_omit_empty k f p =
     (case p of Some (x # xs) \<Rightarrow> [(k, EncodeSlice f (Some (x # xs)))] | _ \<Rightarrow> [])"

definition json_map :: "(string \<times> jval) list \<Rightarrow> jval" where
  "json_map fs = JObj (sort_key fst fs)"

lemmas enc_defs = EncodeMapLen_def [abs_def] EncodeArrayLen_def [abs_def]
  EncodeString_def [abs_def] EncodeBool_def [abs_def] EncodeNil_def EncodeInt_def [abs_def]
  EncodeUint_def [abs_def] EncodePairs_def [abs_def] EncodeStruct_def [abs_def]
  json_int_def [abs_def] json_uint_def [abs_def]

lemma json_int_inj [simp]: "json_int v = json_int w \<longleftrightarrow> v = w"
  by (auto simp: json_int_def dest: signed_word_eqI)

lemma json_uint_inj [simp]: "json_uint v = json_uint w \<longleftrightarrow> v = w"
  by (auto simp: json_uint_def dest: unsigned_word_eqI)

text \<open>
  The \<open>wire\<close> collection rewrites the tokens of a JSON value to the encoder's calls; a struct's
  own lemma, which says that its marshalers agree, joins it.
\<close>

named_theorems wire

lemma toks_ptr [wire]: "toks_of (json_ptr g p) = EncodePtr (\<lambda>x. toks_of (g x)) p"
  by (simp add: EncodePtr_def json_ptr_def enc_defs split: option.splits)

lemma toks_slice [wire]: "toks_of (json_slice g p) = EncodeSlice (\<lambda>x. toks_of (g x)) p"
  by (simp add: EncodeSlice_def json_slice_def enc_defs toks_list_map split: option.splits)

lemma toks_omit [wire]:
  "toks_fields (omit k g p) = EncodePairs (enc_omit k (\<lambda>x. toks_of (g x)) p)"
  "length (omit k g p) = length (enc_omit k f p)"
  by (simp_all add: omit_def enc_omit_def enc_defs split: option.splits)

lemma toks_omit_empty [wire]:
  "toks_fields (omit_empty k g p) = EncodePairs (enc_omit_empty k (\<lambda>x. toks_of (g x)) p)"
  "length (omit_empty k g p) = length (enc_omit_empty k f p)"
  by (simp_all add: omit_empty_def enc_omit_empty_def EncodeSlice_def enc_defs toks_list_map
      split: option.splits list.splits)

section \<open>The third-party encoder\<close>

text \<open>What the MessagePack format can carry: 64-bit integers and 32-bit lengths.\<close>

fun tok_ok :: "tok \<Rightarrow> bool" where
  "tok_ok (IntT i) \<longleftrightarrow> - (2 ^ 63) \<le> i \<and> i < 2 ^ 64"
| "tok_ok (Str s) \<longleftrightarrow> length s < 2 ^ 32"
| "tok_ok (ArrayLen n) \<longleftrightarrow> n < 2 ^ 32"
| "tok_ok (MapLen n) \<longleftrightarrow> n < 2 ^ 32"
| "tok_ok _ \<longleftrightarrow> True"

definition enc_all :: "(tok \<Rightarrow> byte list) \<Rightarrow> tok list \<Rightarrow> byte list" where
  "enc_all enc ts = concat (map enc ts)"

lemma enc_all_simps [simp]:
  "enc_all enc [] = []"
  "enc_all enc (t # ts) = enc t @ enc_all enc ts"
  "enc_all enc (ts @ us) = enc_all enc ts @ enc_all enc us"
  by (simp_all add: enc_all_def)

locale msgpack_codec =
  fixes enc :: "tok \<Rightarrow> byte list"
    and dec :: "byte list \<Rightarrow> (tok \<times> byte list) option"
  assumes dec_enc: "tok_ok t \<Longrightarrow> dec (enc t @ bs) = Some (t, bs)"
begin

lemma enc_step:
  "tok_ok t \<Longrightarrow> tok_ok u \<Longrightarrow> enc t @ r = enc u @ s \<Longrightarrow> t = u \<and> r = s"
  by (metis dec_enc option.inject prod.inject)

lemma enc_all_prefix:
  "list_all tok_ok ts \<Longrightarrow> list_all tok_ok us \<Longrightarrow> length ts \<le> length us \<Longrightarrow>
   enc_all enc ts @ r = enc_all enc us @ s \<Longrightarrow>
   \<exists>vs. us = ts @ vs \<and> r = enc_all enc vs @ s"
proof (induction ts arbitrary: us)
  case (Cons t ts)
  then obtain u us' where us: "us = u # us'" by (cases us) auto
  have "t = u \<and> enc_all enc ts @ r = enc_all enc us' @ s"
    using Cons.prems us by (intro enc_step) simp_all
  then show ?case using Cons us by fastforce
qed simp

text \<open>A value can be read back from the bytes, whatever follows them.\<close>

lemma value_prefix:
  assumes "list_all tok_ok (toks_of v)" "list_all tok_ok (toks_of w)"
    and "enc_all enc (toks_of v) @ r = enc_all enc (toks_of w) @ s"
  shows "v = w \<and> r = s"
proof -
  have *: "v = w \<and> r = s"
    if ok: "list_all tok_ok (toks_of v)" "list_all tok_ok (toks_of w)"
      and eq: "enc_all enc (toks_of v) @ r = enc_all enc (toks_of w) @ s"
      and le: "length (toks_of v) \<le> length (toks_of w)" for v w r s
  proof -
    obtain us where us: "toks_of w = toks_of v @ us" "r = enc_all enc us @ s"
      using enc_all_prefix [OF ok le eq] by blast
    then have "toks_of v @ us = toks_of w @ []" by simp
    then have "v = w \<and> us = []" by (rule toks_prefix(1))
    then show ?thesis using us by simp
  qed
  show ?thesis
    using * [of v w r s] * [of w v s r] assms nat_le_linear by metis
qed

end

section \<open>The MessagePack format\<close>

definition str_bytes :: "string \<Rightarrow> byte list" where
  "str_bytes s = map (\<lambda>c. of_nat (of_char c)) s"

definition bytes_str :: "byte list \<Rightarrow> string" where
  "bytes_str bs = map (\<lambda>b. char_of (unat b)) bs"

text \<open>The first byte of a token, as a number below 256, and the bytes after it.\<close>

fun mp_parts :: "tok \<Rightarrow> nat \<times> byte list" where
  "mp_parts NilT = (0xc0, [])"
| "mp_parts (BoolT b) = (if b then 0xc3 else 0xc2, [])"
| "mp_parts (IntT i) =
     (if 0 \<le> i then
        (if i < 2 ^ 7 then (nat i, [])
         else if i < 2 ^ 8 then (0xcc, be_bytes 1 (nat i))
         else if i < 2 ^ 16 then (0xcd, be_bytes 2 (nat i))
         else if i < 2 ^ 32 then (0xce, be_bytes 4 (nat i))
         else (0xcf, be_bytes 8 (nat i)))
      else
        (if - 32 \<le> i then (nat (256 + i), [])
         else if - (2 ^ 7) \<le> i then (0xd0, be_bytes 1 (nat (2 ^ 8 + i)))
         else if - (2 ^ 15) \<le> i then (0xd1, be_bytes 2 (nat (2 ^ 16 + i)))
         else if - (2 ^ 31) \<le> i then (0xd2, be_bytes 4 (nat (2 ^ 32 + i)))
         else (0xd3, be_bytes 8 (nat (2 ^ 64 + i)))))"
| "mp_parts (Str s) =
     (if length s < 32 then (160 + length s, str_bytes s)
      else if length s < 2 ^ 8 then (0xd9, be_bytes 1 (length s) @ str_bytes s)
      else if length s < 2 ^ 16 then (0xda, be_bytes 2 (length s) @ str_bytes s)
      else (0xdb, be_bytes 4 (length s) @ str_bytes s))"
| "mp_parts (ArrayLen n) =
     (if n < 16 then (144 + n, [])
      else if n < 2 ^ 16 then (0xdc, be_bytes 2 n)
      else (0xdd, be_bytes 4 n))"
| "mp_parts (MapLen n) =
     (if n < 16 then (128 + n, [])
      else if n < 2 ^ 16 then (0xde, be_bytes 2 n)
      else (0xdf, be_bytes 4 n))"

definition mp_enc :: "tok \<Rightarrow> byte list" where
  "mp_enc t = of_nat (fst (mp_parts t)) # snd (mp_parts t)"

definition dec_be :: "nat \<Rightarrow> byte list \<Rightarrow> (nat \<Rightarrow> byte list \<Rightarrow> (tok \<times> byte list) option)
    \<Rightarrow> (tok \<times> byte list) option" where
  "dec_be n bs f = (if length bs < n then None else f (be_val (take n bs)) (drop n bs))"

definition dec_str :: "nat \<Rightarrow> byte list \<Rightarrow> (tok \<times> byte list) option" where
  "dec_str n bs =
     (if length bs < n then None else Some (Str (bytes_str (take n bs)), drop n bs))"

definition dec_signed :: "nat \<Rightarrow> byte list \<Rightarrow> (tok \<times> byte list) option" where
  "dec_signed n bs = dec_be n bs (\<lambda>x rest.
     Some (IntT (if x < 2 ^ (8 * n - 1) then int x else int x - 2 ^ (8 * n)), rest))"

definition dec_head :: "nat \<Rightarrow> byte list \<Rightarrow> (tok \<times> byte list) option" where
  "dec_head h bs =
     (if h < 0x80 then Some (IntT (int h), bs)
      else if h < 0x90 then Some (MapLen (h - 0x80), bs)
      else if h < 0xa0 then Some (ArrayLen (h - 0x90), bs)
      else if h < 0xc0 then dec_str (h - 0xa0) bs
      else if h = 0xc0 then Some (NilT, bs)
      else if h = 0xc2 then Some (BoolT False, bs)
      else if h = 0xc3 then Some (BoolT True, bs)
      else if h = 0xcc then dec_be 1 bs (\<lambda>x r. Some (IntT (int x), r))
      else if h = 0xcd then dec_be 2 bs (\<lambda>x r. Some (IntT (int x), r))
      else if h = 0xce then dec_be 4 bs (\<lambda>x r. Some (IntT (int x), r))
      else if h = 0xcf then dec_be 8 bs (\<lambda>x r. Some (IntT (int x), r))
      else if h = 0xd0 then dec_signed 1 bs
      else if h = 0xd1 then dec_signed 2 bs
      else if h = 0xd2 then dec_signed 4 bs
      else if h = 0xd3 then dec_signed 8 bs
      else if h = 0xd9 then dec_be 1 bs dec_str
      else if h = 0xda then dec_be 2 bs dec_str
      else if h = 0xdb then dec_be 4 bs dec_str
      else if h = 0xdc then dec_be 2 bs (\<lambda>x r. Some (ArrayLen x, r))
      else if h = 0xdd then dec_be 4 bs (\<lambda>x r. Some (ArrayLen x, r))
      else if h = 0xde then dec_be 2 bs (\<lambda>x r. Some (MapLen x, r))
      else if h = 0xdf then dec_be 4 bs (\<lambda>x r. Some (MapLen x, r))
      else if 0xe0 \<le> h then Some (IntT (int h - 256), bs)
      else None)"

fun mp_dec :: "byte list \<Rightarrow> (tok \<times> byte list) option" where
  "mp_dec [] = None"
| "mp_dec (b # bs) = dec_head (unat b) bs"

declare be_bytes.simps [simp del]

lemma dec_be_be_bytes: "x < 256 ^ n \<Longrightarrow> dec_be n (be_bytes n x @ bs) f = f x bs"
  by (simp add: dec_be_def be_val_be_bytes)

lemma dec_signed_be_bytes:
  assumes "- (2 ^ (8 * n - 1)) \<le> i" "i < 0" "0 < n"
  shows "dec_signed n (be_bytes n (nat (2 ^ (8 * n) + i)) @ bs) = Some (IntT i, bs)"
proof -
  let ?H = "2 ^ (8 * n - 1) :: int"
  have H: "2 ^ (8 * n) = 2 * ?H"
    using assms(3) by (simp flip: power_Suc)
  have lo: "?H \<le> 2 ^ (8 * n) + i" using assms(1) H by simp
  have "nat (2 ^ (8 * n) + i) < 2 ^ (8 * n)"
    using assms(2) by (simp add: nat_less_iff)
  then have "nat (2 ^ (8 * n) + i) < 256 ^ n" by (simp add: power_mult)
  moreover have "\<not> nat (2 ^ (8 * n) + i) < 2 ^ (8 * n - 1)"
    using lo by (simp add: nat_less_iff not_less)
  moreover have "0 \<le> 2 ^ (8 * n) + i" using lo by (smt (verit) zero_le_power)
  ultimately show ?thesis
    by (simp add: dec_signed_def dec_be_be_bytes)
qed

lemma bytes_str_bytes [simp]: "bytes_str (str_bytes s) = s"
  by (induction s) (simp_all add: bytes_str_def str_bytes_def unat_of_nat take_bit_nat_eq_self)

lemma dec_str_bytes: "dec_str (length s) (str_bytes s @ bs) = Some (Str s, bs)"
proof -
  have "length (str_bytes s) = length s" by (simp add: str_bytes_def)
  then show ?thesis by (simp add: dec_str_def)
qed

lemma dec_head_nonneg:
  assumes "0 \<le> i" "i < 2 ^ 64" "mp_parts (IntT i) = (h, p)"
  shows "h < 256 \<and> dec_head h (p @ bs) = Some (IntT i, bs)"
proof -
  consider "i < 2 ^ 7" | "2 ^ 7 \<le> i" "i < 2 ^ 8" | "2 ^ 8 \<le> i" "i < 2 ^ 16"
    | "2 ^ 16 \<le> i" "i < 2 ^ 32" | "2 ^ 32 \<le> i" by linarith
  then show ?thesis
  proof cases
    case 1
    then have "h = nat i" "p = []" using assms(1,3) by simp_all
    then show ?thesis using 1 assms(1) by (simp add: dec_head_def nat_less_iff)
  next
    case 2
    then have "h = 0xcc" "p = be_bytes 1 (nat i)" using assms(1,3) by simp_all
    then show ?thesis using 2 assms(1) dec_be_be_bytes [of "nat i" 1 bs] by (simp add: dec_head_def nat_less_iff)
  next
    case 3
    then have "h = 0xcd" "p = be_bytes 2 (nat i)" using assms(1,3) by simp_all
    then show ?thesis using 3 assms(1) dec_be_be_bytes [of "nat i" 2 bs] by (simp add: dec_head_def nat_less_iff)
  next
    case 4
    then have "h = 0xce" "p = be_bytes 4 (nat i)" using assms(1,3) by simp_all
    then show ?thesis using 4 assms(1) dec_be_be_bytes [of "nat i" 4 bs] by (simp add: dec_head_def nat_less_iff)
  next
    case 5
    then have "h = 0xcf" "p = be_bytes 8 (nat i)" using assms(1,3) by simp_all
    then show ?thesis using assms(1,2) dec_be_be_bytes [of "nat i" 8 bs] by (simp add: dec_head_def nat_less_iff)
  qed
qed

lemma dec_head_neg:
  assumes "i < 0" "- (2 ^ 63) \<le> i" "mp_parts (IntT i) = (h, p)"
  shows "h < 256 \<and> dec_head h (p @ bs) = Some (IntT i, bs)"
proof -
  consider "- 32 \<le> i" | "i < - 32" "- (2 ^ 7) \<le> i" | "i < - (2 ^ 7)" "- (2 ^ 15) \<le> i"
    | "i < - (2 ^ 15)" "- (2 ^ 31) \<le> i" | "i < - (2 ^ 31)" by linarith
  then show ?thesis
  proof cases
    case 1
    then have "h = nat (256 + i)" "p = []" using assms by auto
    then show ?thesis using 1 assms(1) by (simp add: dec_head_def nat_less_iff nat_eq_iff)
  next
    case 2
    then show ?thesis
      using assms dec_signed_be_bytes [of 1 i bs] by (auto simp: dec_head_def)
  next
    case 3
    then show ?thesis
      using assms dec_signed_be_bytes [of 2 i bs] by (auto simp: dec_head_def)
  next
    case 4
    then show ?thesis
      using assms dec_signed_be_bytes [of 4 i bs] by (auto simp: dec_head_def)
  next
    case 5
    then show ?thesis
      using assms dec_signed_be_bytes [of 8 i bs] by (auto simp: dec_head_def)
  qed
qed

lemma dec_head_str:
  assumes "length s < 2 ^ 32" "mp_parts (Str s) = (h, p)"
  shows "h < 256 \<and> dec_head h (p @ bs) = Some (Str s, bs)"
proof -
  consider "length s < 32" | "32 \<le> length s" "length s < 2 ^ 8"
    | "2 ^ 8 \<le> length s" "length s < 2 ^ 16" | "2 ^ 16 \<le> length s" by linarith
  then show ?thesis
    using assms by cases (auto simp: dec_head_def dec_be_be_bytes dec_str_bytes)
qed

lemma dec_head_len:
  assumes "n < 2 ^ 32"
  shows "mp_parts (ArrayLen n) = (h, p) \<Longrightarrow> h < 256 \<and> dec_head h (p @ bs) = Some (ArrayLen n, bs)"
    and "mp_parts (MapLen n) = (h, p) \<Longrightarrow> h < 256 \<and> dec_head h (p @ bs) = Some (MapLen n, bs)"
  using assms by (auto simp: dec_head_def dec_be_be_bytes split: if_splits)

lemma dec_head_parts:
  assumes "tok_ok t" "mp_parts t = (h, p)"
  shows "h < 256 \<and> dec_head h (p @ bs) = Some (t, bs)"
proof (cases t)
  case NilT
  then show ?thesis using assms by (auto simp: dec_head_def)
next
  case (BoolT b)
  then show ?thesis using assms by (cases b) (auto simp: dec_head_def)
next
  case (IntT i)
  then show ?thesis
    using assms dec_head_nonneg [of i h p bs] dec_head_neg [of i h p bs]
    by (cases "0 \<le> i") (simp_all del: mp_parts.simps)
qed (use assms dec_head_str dec_head_len in \<open>simp_all del: mp_parts.simps\<close>)

interpretation mp: msgpack_codec mp_enc mp_dec
proof
  fix t bs
  assume "tok_ok t"
  moreover obtain h p where parts: "mp_parts t = (h, p)" by fastforce
  ultimately have "h < 256" and dec: "dec_head h (p @ bs) = Some (t, bs)"
    using dec_head_parts by blast+
  then have "unat (of_nat h :: byte) = h" by (simp add: unat_of_nat take_bit_nat_eq_self)
  then show "mp_dec (mp_enc t @ bs) = Some (t, bs)"
    using dec by (simp add: mp_enc_def parts)
qed

end
