(* ===== verification/L1Wire.thy ===== *)
theory L1Wire
  imports Wire
begin

text \<open>
  The L1 actions of \<^verbatim>\<open>signing/l1_action.go\<close>, \<^verbatim>\<open>signing/legacy_management_actions.go\<close> and the
  L1 half of \<^verbatim>\<open>signing/account_management_actions.go\<close>. Each struct is a record; its
  \<^verbatim>\<open>MarshalMsgpack\<close> is the sequence of encoder calls it makes, its \<^verbatim>\<open>MarshalJSON\<close> the value it gives
  to \<^verbatim>\<open>encoding/json\<close>. The two are written separately in Go and separately here; the lemma \<^verbatim>\<open>X_wire\<close>
  of a struct \<^verbatim>\<open>X\<close> states that the calls spell exactly the JSON value.
\<close>

section \<open>Orders and cancels\<close>

record CancelWire =
  cw_Asset :: i64
  cw_OID :: u64

definition CancelWire_MarshalMsgpack :: "CancelWire \<Rightarrow> tok list" where
  "CancelWire_MarshalMsgpack a =
     EncodeMapLen 2 @ EncodeString ''a'' @ EncodeInt (cw_Asset a) @ EncodeString ''o'' @ EncodeUint (cw_OID a)"

definition CancelWire_MarshalJSON :: "CancelWire \<Rightarrow> jval" where
  "CancelWire_MarshalJSON a =
     JObj [(''a'', json_int (cw_Asset a)), (''o'', json_uint (cw_OID a))]"

lemma CancelWire_wire [wire]:
  "CancelWire_MarshalMsgpack = (\<lambda>a. toks_of (CancelWire_MarshalJSON a))"
  by (rule ext) (simp add: CancelWire_MarshalMsgpack_def CancelWire_MarshalJSON_def enc_defs wire)

record CancelAction =
  ca_Cancels :: "CancelWire list option"

definition CancelAction_MarshalMsgpack :: "CancelAction \<Rightarrow> tok list" where
  "CancelAction_MarshalMsgpack a =
     EncodeMapLen 2 @ EncodeString ''type'' @ EncodeString ''cancel'' @ EncodeString ''cancels'' @
     EncodeSlice CancelWire_MarshalMsgpack (ca_Cancels a)"

definition CancelAction_MarshalJSON :: "CancelAction \<Rightarrow> jval" where
  "CancelAction_MarshalJSON a =
     JObj [(''type'', JStr ''cancel''),
       (''cancels'', json_slice CancelWire_MarshalJSON (ca_Cancels a))]"

lemma CancelAction_wire [wire]:
  "CancelAction_MarshalMsgpack = (\<lambda>a. toks_of (CancelAction_MarshalJSON a))"
  by (rule ext) (simp add: CancelAction_MarshalMsgpack_def CancelAction_MarshalJSON_def enc_defs wire)

record BuilderWire =
  bw_Address :: string
  bw_Fee :: u64

definition BuilderWire_MarshalMsgpack :: "BuilderWire \<Rightarrow> tok list" where
  "BuilderWire_MarshalMsgpack a =
     EncodeMapLen 2 @ EncodeString ''b'' @ EncodeString (bw_Address a) @ EncodeString ''f'' @ EncodeUint (bw_Fee a)"

definition BuilderWire_MarshalJSON :: "BuilderWire \<Rightarrow> jval" where
  "BuilderWire_MarshalJSON a =
     JObj [(''b'', JStr (bw_Address a)), (''f'', json_uint (bw_Fee a))]"

lemma BuilderWire_wire [wire]:
  "BuilderWire_MarshalMsgpack = (\<lambda>a. toks_of (BuilderWire_MarshalJSON a))"
  by (rule ext) (simp add: BuilderWire_MarshalMsgpack_def BuilderWire_MarshalJSON_def enc_defs wire)

record LimitOrderType =
  lo_TIF :: string

definition LimitOrderType_MarshalMsgpack :: "LimitOrderType \<Rightarrow> tok list" where
  "LimitOrderType_MarshalMsgpack a =
     EncodeMapLen 1 @ EncodeString ''limit'' @ EncodeMapLen 1 @ EncodeString ''tif'' @ EncodeString (lo_TIF a)"

definition LimitOrderType_MarshalJSON :: "LimitOrderType \<Rightarrow> jval" where
  "LimitOrderType_MarshalJSON a =
     JObj [(''limit'', JObj [(''tif'', JStr (lo_TIF a))])]"

lemma LimitOrderType_wire [wire]:
  "LimitOrderType_MarshalMsgpack = (\<lambda>a. toks_of (LimitOrderType_MarshalJSON a))"
  by (rule ext) (simp add: LimitOrderType_MarshalMsgpack_def LimitOrderType_MarshalJSON_def enc_defs wire)

record TriggerOrderType =
  to_IsMarket :: bool
  to_TriggerPx :: string
  to_TPSL :: string

definition TriggerOrderType_MarshalMsgpack :: "TriggerOrderType \<Rightarrow> tok list" where
  "TriggerOrderType_MarshalMsgpack a =
     EncodeMapLen 1 @ EncodeString ''trigger'' @ EncodeMapLen 3 @
     EncodePairs [(''isMarket'', EncodeBool (to_IsMarket a)), (''triggerPx'', EncodeString (to_TriggerPx a)),
       (''tpsl'', EncodeString (to_TPSL a))]"

definition TriggerOrderType_MarshalJSON :: "TriggerOrderType \<Rightarrow> jval" where
  "TriggerOrderType_MarshalJSON a =
     JObj [(''trigger'', JObj [(''isMarket'', JBool (to_IsMarket a)),
       (''triggerPx'', JStr (to_TriggerPx a)), (''tpsl'', JStr (to_TPSL a))])]"

lemma TriggerOrderType_wire [wire]:
  "TriggerOrderType_MarshalMsgpack = (\<lambda>a. toks_of (TriggerOrderType_MarshalJSON a))"
  by (rule ext) (simp add: TriggerOrderType_MarshalMsgpack_def TriggerOrderType_MarshalJSON_def enc_defs wire)

text \<open>The interface \<^verbatim>\<open>OrderTypeWire\<close> and its two implementations.\<close>

datatype OrderTypeWire = Limit LimitOrderType | Trigger TriggerOrderType

fun OrderTypeWire_MarshalMsgpack :: "OrderTypeWire \<Rightarrow> tok list" where
  "OrderTypeWire_MarshalMsgpack (Limit l) = LimitOrderType_MarshalMsgpack l"
| "OrderTypeWire_MarshalMsgpack (Trigger t) = TriggerOrderType_MarshalMsgpack t"

fun OrderTypeWire_MarshalJSON :: "OrderTypeWire \<Rightarrow> jval" where
  "OrderTypeWire_MarshalJSON (Limit l) = LimitOrderType_MarshalJSON l"
| "OrderTypeWire_MarshalJSON (Trigger t) = TriggerOrderType_MarshalJSON t"

lemma OrderTypeWire_wire [wire]:
  "OrderTypeWire_MarshalMsgpack = (\<lambda>t. toks_of (OrderTypeWire_MarshalJSON t))"
proof
  fix t
  show "OrderTypeWire_MarshalMsgpack t = toks_of (OrderTypeWire_MarshalJSON t)"
    by (cases t) (simp_all add: wire)
qed

record OrderWire =
  ow_Asset :: i64
  ow_IsBuy :: bool
  ow_Price :: string
  ow_Size :: string
  ow_ReduceOnly :: bool
  ow_Type :: "OrderTypeWire option"
  ow_Cloid :: "string option"

definition OrderWire_MarshalMsgpack :: "OrderWire \<Rightarrow> tok list" where
  "OrderWire_MarshalMsgpack a =
     EncodeMapLen (if (ow_Cloid a) \<noteq> None then 7 else 6) @
     EncodePairs [(''a'', EncodeInt (ow_Asset a)), (''b'', EncodeBool (ow_IsBuy a)),
       (''p'', EncodeString (ow_Price a)), (''s'', EncodeString (ow_Size a)),
       (''r'', EncodeBool (ow_ReduceOnly a)),
       (''t'', EncodePtr OrderTypeWire_MarshalMsgpack (ow_Type a))] @
     (case (ow_Cloid a) of Some c \<Rightarrow> EncodeString ''c'' @ EncodeString c | None \<Rightarrow> [])"

definition OrderWire_MarshalJSON :: "OrderWire \<Rightarrow> jval" where
  "OrderWire_MarshalJSON a =
     JObj ([(''a'', json_int (ow_Asset a)), (''b'', JBool (ow_IsBuy a)), (''p'', JStr (ow_Price a)),
       (''s'', JStr (ow_Size a)), (''r'', JBool (ow_ReduceOnly a)),
       (''t'', json_ptr OrderTypeWire_MarshalJSON (ow_Type a))] @ omit ''c'' JStr (ow_Cloid a))"

lemma OrderWire_wire [wire]:
  "OrderWire_MarshalMsgpack = (\<lambda>a. toks_of (OrderWire_MarshalJSON a))"
  by (rule ext) (simp add: OrderWire_MarshalMsgpack_def OrderWire_MarshalJSON_def enc_defs wire enc_omit_def omit_def split: option.splits)

record OrderAction =
  oa_Orders :: "OrderWire list option"
  oa_Grouping :: string
  oa_Builder :: "BuilderWire option"

definition OrderAction_MarshalMsgpack :: "OrderAction \<Rightarrow> tok list" where
  "OrderAction_MarshalMsgpack a =
     EncodeMapLen (if (oa_Builder a) \<noteq> None then 4 else 3) @
     EncodePairs [(''type'', EncodeString ''order''),
       (''orders'', EncodeSlice OrderWire_MarshalMsgpack (oa_Orders a)),
       (''grouping'', EncodeString (oa_Grouping a))] @
     (case (oa_Builder a) of
        Some b \<Rightarrow> EncodeString ''builder'' @ BuilderWire_MarshalMsgpack b
      | None \<Rightarrow> [])"

definition OrderAction_MarshalJSON :: "OrderAction \<Rightarrow> jval" where
  "OrderAction_MarshalJSON a =
     JObj ([(''type'', JStr ''order''),
       (''orders'', json_slice OrderWire_MarshalJSON (oa_Orders a)),
       (''grouping'', JStr (oa_Grouping a))] @
       omit ''builder'' BuilderWire_MarshalJSON (oa_Builder a))"

lemma OrderAction_wire [wire]:
  "OrderAction_MarshalMsgpack = (\<lambda>a. toks_of (OrderAction_MarshalJSON a))"
  by (rule ext) (simp add: OrderAction_MarshalMsgpack_def OrderAction_MarshalJSON_def enc_defs wire enc_omit_def omit_def split: option.splits)

record CancelByCloidWire =
  cc_Asset :: i64
  cc_Cloid :: string

definition CancelByCloidWire_MarshalMsgpack :: "CancelByCloidWire \<Rightarrow> tok list" where
  "CancelByCloidWire_MarshalMsgpack a =
     EncodeMapLen 2 @ EncodeString ''asset'' @ EncodeInt (cc_Asset a) @ EncodeString ''cloid'' @ EncodeString (cc_Cloid a)"

definition CancelByCloidWire_MarshalJSON :: "CancelByCloidWire \<Rightarrow> jval" where
  "CancelByCloidWire_MarshalJSON a =
     JObj [(''asset'', json_int (cc_Asset a)), (''cloid'', JStr (cc_Cloid a))]"

lemma CancelByCloidWire_wire [wire]:
  "CancelByCloidWire_MarshalMsgpack = (\<lambda>a. toks_of (CancelByCloidWire_MarshalJSON a))"
  by (rule ext) (simp add: CancelByCloidWire_MarshalMsgpack_def CancelByCloidWire_MarshalJSON_def enc_defs wire)

record CancelByCloidAction =
  cca_Cancels :: "CancelByCloidWire list option"

definition CancelByCloidAction_MarshalMsgpack :: "CancelByCloidAction \<Rightarrow> tok list" where
  "CancelByCloidAction_MarshalMsgpack a =
     EncodeMapLen 2 @ EncodeString ''type'' @ EncodeString ''cancelByCloid'' @ EncodeString ''cancels'' @
     EncodeSlice CancelByCloidWire_MarshalMsgpack (cca_Cancels a)"

definition CancelByCloidAction_MarshalJSON :: "CancelByCloidAction \<Rightarrow> jval" where
  "CancelByCloidAction_MarshalJSON a =
     JObj [(''type'', JStr ''cancelByCloid''),
       (''cancels'', json_slice CancelByCloidWire_MarshalJSON (cca_Cancels a))]"

lemma CancelByCloidAction_wire [wire]:
  "CancelByCloidAction_MarshalMsgpack = (\<lambda>a. toks_of (CancelByCloidAction_MarshalJSON a))"
  by (rule ext) (simp add: CancelByCloidAction_MarshalMsgpack_def CancelByCloidAction_MarshalJSON_def enc_defs wire)

record ScheduleCancelAction =
  sc_Time :: "u64 option"

definition ScheduleCancelAction_MarshalMsgpack :: "ScheduleCancelAction \<Rightarrow> tok list" where
  "ScheduleCancelAction_MarshalMsgpack a =
     EncodeMapLen (if (sc_Time a) \<noteq> None then 2 else 1) @ EncodeString ''type'' @ EncodeString ''scheduleCancel'' @
     (case (sc_Time a) of Some t \<Rightarrow> EncodeString ''time'' @ EncodeUint t | None \<Rightarrow> [])"

definition ScheduleCancelAction_MarshalJSON :: "ScheduleCancelAction \<Rightarrow> jval" where
  "ScheduleCancelAction_MarshalJSON a =
     JObj ([(''type'', JStr ''scheduleCancel'')] @ omit ''time'' json_uint (sc_Time a))"

lemma ScheduleCancelAction_wire [wire]:
  "ScheduleCancelAction_MarshalMsgpack = (\<lambda>a. toks_of (ScheduleCancelAction_MarshalJSON a))"
  by (rule ext) (simp add: ScheduleCancelAction_MarshalMsgpack_def ScheduleCancelAction_MarshalJSON_def enc_defs wire enc_omit_def omit_def split: option.splits)

section \<open>TWAP orders\<close>

text \<open>
  \<^verbatim>\<open>encodeCompactUint\<close>: a number of at most \<^verbatim>\<open>MaxInt64\<close> is converted to \<^verbatim>\<open>int64\<close> first.
\<close>

definition encodeCompactUint :: "u64 \<Rightarrow> tok list" where
  "encodeCompactUint v =
     (if v \<le> drop_bit 1 (- 1) then EncodeInt v else EncodeUint v)"

lemma encodeCompactUint_wire [wire]: "encodeCompactUint v = toks_of (json_uint v)"
proof (cases "v \<le> drop_bit 1 (- 1)")
  case True
  have "uint (drop_bit 1 (- 1) :: u64) = 2 ^ 63 - 1"
    by (simp add: mask_eq_exp_minus_1)
  then have "uint v < 2 ^ 63" using True by (simp add: word_le_def)
  moreover have "- (2 ^ 63) \<le> uint v" by (rule order_trans [OF _ uint_ge_0]) simp
  ultimately have "sint v = uint v"
    by (simp add: sint_uint signed_take_bit_int_eq_self)
  then show ?thesis by (simp add: encodeCompactUint_def enc_defs True)
qed (simp add: encodeCompactUint_def enc_defs)

record TWAPWire =
  tw_Asset :: i64
  tw_IsBuy :: bool
  tw_Size :: string
  tw_ReduceOnly :: bool
  tw_Minutes :: u64
  tw_Randomize :: bool

definition TWAPWire_MarshalMsgpack :: "TWAPWire \<Rightarrow> tok list" where
  "TWAPWire_MarshalMsgpack a =
     EncodeMapLen 6 @
     EncodePairs [(''a'', EncodeInt (tw_Asset a)), (''b'', EncodeBool (tw_IsBuy a)),
       (''s'', EncodeString (tw_Size a)), (''r'', EncodeBool (tw_ReduceOnly a)),
       (''m'', encodeCompactUint (tw_Minutes a)), (''t'', EncodeBool (tw_Randomize a))]"

definition TWAPWire_MarshalJSON :: "TWAPWire \<Rightarrow> jval" where
  "TWAPWire_MarshalJSON a =
     JObj [(''a'', json_int (tw_Asset a)), (''b'', JBool (tw_IsBuy a)), (''s'', JStr (tw_Size a)),
       (''r'', JBool (tw_ReduceOnly a)), (''m'', json_uint (tw_Minutes a)), (''t'', JBool (tw_Randomize a))]"

lemma TWAPWire_wire [wire]:
  "TWAPWire_MarshalMsgpack = (\<lambda>a. toks_of (TWAPWire_MarshalJSON a))"
  by (rule ext) (simp add: TWAPWire_MarshalMsgpack_def TWAPWire_MarshalJSON_def enc_defs wire)

record TWAPOrderAction =
  ta_TWAP :: TWAPWire

definition TWAPOrderAction_MarshalMsgpack :: "TWAPOrderAction \<Rightarrow> tok list" where
  "TWAPOrderAction_MarshalMsgpack a =
     EncodeMapLen 2 @ EncodeString ''type'' @ EncodeString ''twapOrder'' @ EncodeString ''twap'' @ TWAPWire_MarshalMsgpack (ta_TWAP a)"

definition TWAPOrderAction_MarshalJSON :: "TWAPOrderAction \<Rightarrow> jval" where
  "TWAPOrderAction_MarshalJSON a =
     JObj [(''type'', JStr ''twapOrder''), (''twap'', TWAPWire_MarshalJSON (ta_TWAP a))]"

lemma TWAPOrderAction_wire [wire]:
  "TWAPOrderAction_MarshalMsgpack = (\<lambda>a. toks_of (TWAPOrderAction_MarshalJSON a))"
  by (rule ext) (simp add: TWAPOrderAction_MarshalMsgpack_def TWAPOrderAction_MarshalJSON_def enc_defs wire)

record TWAPCancelAction =
  tc_Asset :: i64
  tc_TWAPID :: u64

definition TWAPCancelAction_MarshalMsgpack :: "TWAPCancelAction \<Rightarrow> tok list" where
  "TWAPCancelAction_MarshalMsgpack a =
     EncodeMapLen 3 @ EncodePairs [(''type'', EncodeString ''twapCancel''),
       (''a'', EncodeInt (tc_Asset a)), (''t'', encodeCompactUint (tc_TWAPID a))]"

definition TWAPCancelAction_MarshalJSON :: "TWAPCancelAction \<Rightarrow> jval" where
  "TWAPCancelAction_MarshalJSON a =
     JObj [(''type'', JStr ''twapCancel''), (''a'', json_int (tc_Asset a)),
       (''t'', json_uint (tc_TWAPID a))]"

lemma TWAPCancelAction_wire [wire]:
  "TWAPCancelAction_MarshalMsgpack = (\<lambda>a. toks_of (TWAPCancelAction_MarshalJSON a))"
  by (rule ext) (simp add: TWAPCancelAction_MarshalMsgpack_def TWAPCancelAction_MarshalJSON_def enc_defs wire)

section \<open>Subaccounts and vaults\<close>

record SubaccountTransferAction =
  st_SubaccountUser :: string
  st_IsDeposit :: bool
  st_USD :: u64

definition SubaccountTransferAction_MarshalMsgpack :: "SubaccountTransferAction \<Rightarrow> tok list" where
  "SubaccountTransferAction_MarshalMsgpack a =
     EncodeMapLen 4 @ EncodePairs [(''type'', EncodeString ''subAccountTransfer''),
       (''subAccountUser'', EncodeString (st_SubaccountUser a)), (''isDeposit'', EncodeBool (st_IsDeposit a))] @
     EncodeString ''usd'' @ EncodeUint (st_USD a)"

definition SubaccountTransferAction_MarshalJSON :: "SubaccountTransferAction \<Rightarrow> jval" where
  "SubaccountTransferAction_MarshalJSON a =
     JObj [(''type'', JStr ''subAccountTransfer''), (''subAccountUser'', JStr (st_SubaccountUser a)),
       (''isDeposit'', JBool (st_IsDeposit a)), (''usd'', json_uint (st_USD a))]"

lemma SubaccountTransferAction_wire [wire]:
  "SubaccountTransferAction_MarshalMsgpack = (\<lambda>a. toks_of (SubaccountTransferAction_MarshalJSON a))"
  by (rule ext) (simp add: SubaccountTransferAction_MarshalMsgpack_def SubaccountTransferAction_MarshalJSON_def enc_defs wire)

record SubaccountSpotTransferAction =
  ss_SubaccountUser :: string
  ss_Token :: string
  ss_Amount :: string
  ss_IsDeposit :: bool

definition SubaccountSpotTransferAction_MarshalMsgpack :: "SubaccountSpotTransferAction \<Rightarrow> tok list" where
  "SubaccountSpotTransferAction_MarshalMsgpack a =
     EncodeMapLen 5 @ EncodePairs [(''type'', EncodeString ''subAccountSpotTransfer''),
       (''subAccountUser'', EncodeString (ss_SubaccountUser a)), (''isDeposit'', EncodeBool (ss_IsDeposit a)),
       (''token'', EncodeString (ss_Token a)), (''amount'', EncodeString (ss_Amount a))]"

definition SubaccountSpotTransferAction_MarshalJSON :: "SubaccountSpotTransferAction \<Rightarrow> jval" where
  "SubaccountSpotTransferAction_MarshalJSON a =
     JObj [(''type'', JStr ''subAccountSpotTransfer''), (''subAccountUser'', JStr (ss_SubaccountUser a)),
       (''isDeposit'', JBool (ss_IsDeposit a)), (''token'', JStr (ss_Token a)), (''amount'', JStr (ss_Amount a))]"

lemma SubaccountSpotTransferAction_wire [wire]:
  "SubaccountSpotTransferAction_MarshalMsgpack = (\<lambda>a. toks_of (SubaccountSpotTransferAction_MarshalJSON a))"
  by (rule ext) (simp add: SubaccountSpotTransferAction_MarshalMsgpack_def SubaccountSpotTransferAction_MarshalJSON_def enc_defs wire)

record VaultTransferAction =
  vt_VaultAddress :: string
  vt_IsDeposit :: bool
  vt_USD :: u64

definition VaultTransferAction_MarshalMsgpack :: "VaultTransferAction \<Rightarrow> tok list" where
  "VaultTransferAction_MarshalMsgpack a =
     EncodeMapLen 4 @ EncodePairs [(''type'', EncodeString ''vaultTransfer''),
       (''vaultAddress'', EncodeString (vt_VaultAddress a)), (''isDeposit'', EncodeBool (vt_IsDeposit a))] @
     EncodeString ''usd'' @ EncodeUint (vt_USD a)"

definition VaultTransferAction_MarshalJSON :: "VaultTransferAction \<Rightarrow> jval" where
  "VaultTransferAction_MarshalJSON a =
     JObj [(''type'', JStr ''vaultTransfer''), (''vaultAddress'', JStr (vt_VaultAddress a)),
       (''isDeposit'', JBool (vt_IsDeposit a)), (''usd'', json_uint (vt_USD a))]"

lemma VaultTransferAction_wire [wire]:
  "VaultTransferAction_MarshalMsgpack = (\<lambda>a. toks_of (VaultTransferAction_MarshalJSON a))"
  by (rule ext) (simp add: VaultTransferAction_MarshalMsgpack_def VaultTransferAction_MarshalJSON_def enc_defs wire)

section \<open>Order modification, margin and request weight\<close>

record ModifyWire =
  mw_OID :: u64
  mw_Cloid :: "string option"
  mw_Order :: OrderWire

definition ModifyWire_MarshalMsgpack :: "ModifyWire \<Rightarrow> tok list" where
  "ModifyWire_MarshalMsgpack a =
     EncodeMapLen 2 @ EncodeString ''oid'' @
     (case (mw_Cloid a) of Some c \<Rightarrow> EncodeString c | None \<Rightarrow> EncodeUint (mw_OID a)) @
     EncodeString ''order'' @ OrderWire_MarshalMsgpack (mw_Order a)"

definition ModifyWire_MarshalJSON :: "ModifyWire \<Rightarrow> jval" where
  "ModifyWire_MarshalJSON a =
     JObj [(''oid'', case (mw_Cloid a) of Some c \<Rightarrow> JStr c | None \<Rightarrow> json_uint (mw_OID a)),
       (''order'', OrderWire_MarshalJSON (mw_Order a))]"

lemma ModifyWire_wire [wire]:
  "ModifyWire_MarshalMsgpack = (\<lambda>a. toks_of (ModifyWire_MarshalJSON a))"
  by (rule ext) (simp add: ModifyWire_MarshalMsgpack_def ModifyWire_MarshalJSON_def enc_defs wire split: option.splits)

record BatchModifyAction =
  bm_Modifies :: "ModifyWire list option"

definition BatchModifyAction_MarshalMsgpack :: "BatchModifyAction \<Rightarrow> tok list" where
  "BatchModifyAction_MarshalMsgpack a =
     EncodeMapLen 2 @ EncodeString ''type'' @ EncodeString ''batchModify'' @ EncodeString ''modifies'' @
     EncodeSlice ModifyWire_MarshalMsgpack (bm_Modifies a)"

definition BatchModifyAction_MarshalJSON :: "BatchModifyAction \<Rightarrow> jval" where
  "BatchModifyAction_MarshalJSON a =
     JObj [(''type'', JStr ''batchModify''),
       (''modifies'', json_slice ModifyWire_MarshalJSON (bm_Modifies a))]"

lemma BatchModifyAction_wire [wire]:
  "BatchModifyAction_MarshalMsgpack = (\<lambda>a. toks_of (BatchModifyAction_MarshalJSON a))"
  by (rule ext) (simp add: BatchModifyAction_MarshalMsgpack_def BatchModifyAction_MarshalJSON_def enc_defs wire)

record UpdateLeverageAction =
  ul_Asset :: i64
  ul_IsCross :: bool
  ul_Leverage :: u64

definition UpdateLeverageAction_MarshalMsgpack :: "UpdateLeverageAction \<Rightarrow> tok list" where
  "UpdateLeverageAction_MarshalMsgpack a =
     EncodeMapLen 4 @ EncodeString ''type'' @ EncodeString ''updateLeverage'' @ EncodeString ''asset'' @ EncodeInt (ul_Asset a) @
     EncodeString ''isCross'' @ EncodeBool (ul_IsCross a) @ EncodeString ''leverage'' @ EncodeUint (ul_Leverage a)"

definition UpdateLeverageAction_MarshalJSON :: "UpdateLeverageAction \<Rightarrow> jval" where
  "UpdateLeverageAction_MarshalJSON a =
     JObj [(''type'', JStr ''updateLeverage''), (''asset'', json_int (ul_Asset a)),
       (''isCross'', JBool (ul_IsCross a)), (''leverage'', json_uint (ul_Leverage a))]"

lemma UpdateLeverageAction_wire [wire]:
  "UpdateLeverageAction_MarshalMsgpack = (\<lambda>a. toks_of (UpdateLeverageAction_MarshalJSON a))"
  by (rule ext) (simp add: UpdateLeverageAction_MarshalMsgpack_def UpdateLeverageAction_MarshalJSON_def enc_defs wire)

record UpdateIsolatedMarginAction =
  ui_Asset :: i64
  ui_IsBuy :: bool
  ui_NTLI :: i64

definition UpdateIsolatedMarginAction_MarshalMsgpack :: "UpdateIsolatedMarginAction \<Rightarrow> tok list" where
  "UpdateIsolatedMarginAction_MarshalMsgpack a =
     EncodeMapLen 4 @ EncodeString ''type'' @ EncodeString ''updateIsolatedMargin'' @ EncodeString ''asset'' @ EncodeInt (ui_Asset a) @
     EncodeString ''isBuy'' @ EncodeBool (ui_IsBuy a) @ EncodeString ''ntli'' @ EncodeInt (ui_NTLI a)"

definition UpdateIsolatedMarginAction_MarshalJSON :: "UpdateIsolatedMarginAction \<Rightarrow> jval" where
  "UpdateIsolatedMarginAction_MarshalJSON a =
     JObj [(''type'', JStr ''updateIsolatedMargin''), (''asset'', json_int (ui_Asset a)),
       (''isBuy'', JBool (ui_IsBuy a)), (''ntli'', json_int (ui_NTLI a))]"

lemma UpdateIsolatedMarginAction_wire [wire]:
  "UpdateIsolatedMarginAction_MarshalMsgpack = (\<lambda>a. toks_of (UpdateIsolatedMarginAction_MarshalJSON a))"
  by (rule ext) (simp add: UpdateIsolatedMarginAction_MarshalMsgpack_def UpdateIsolatedMarginAction_MarshalJSON_def enc_defs wire)

record TopUpIsolatedOnlyMarginAction =
  tu_Asset :: i64
  tu_Leverage :: string

definition TopUpIsolatedOnlyMarginAction_MarshalMsgpack :: "TopUpIsolatedOnlyMarginAction \<Rightarrow> tok list" where
  "TopUpIsolatedOnlyMarginAction_MarshalMsgpack a =
     EncodeMapLen 3 @ EncodePairs [(''type'', EncodeString ''topUpIsolatedOnlyMargin''),
       (''asset'', EncodeInt (tu_Asset a)), (''leverage'', EncodeString (tu_Leverage a))]"

definition TopUpIsolatedOnlyMarginAction_MarshalJSON :: "TopUpIsolatedOnlyMarginAction \<Rightarrow> jval" where
  "TopUpIsolatedOnlyMarginAction_MarshalJSON a =
     JObj [(''type'', JStr ''topUpIsolatedOnlyMargin''), (''asset'', json_int (tu_Asset a)),
       (''leverage'', JStr (tu_Leverage a))]"

lemma TopUpIsolatedOnlyMarginAction_wire [wire]:
  "TopUpIsolatedOnlyMarginAction_MarshalMsgpack = (\<lambda>a. toks_of (TopUpIsolatedOnlyMarginAction_MarshalJSON a))"
  by (rule ext) (simp add: TopUpIsolatedOnlyMarginAction_MarshalMsgpack_def TopUpIsolatedOnlyMarginAction_MarshalJSON_def enc_defs wire)

record ReserveRequestWeightAction =
  rr_Weight :: u64

definition ReserveRequestWeightAction_MarshalMsgpack :: "ReserveRequestWeightAction \<Rightarrow> tok list" where
  "ReserveRequestWeightAction_MarshalMsgpack a =
     EncodeMapLen 2 @ EncodeString ''type'' @ EncodeString ''reserveRequestWeight'' @ EncodeString ''weight'' @ EncodeUint (rr_Weight a)"

definition ReserveRequestWeightAction_MarshalJSON :: "ReserveRequestWeightAction \<Rightarrow> jval" where
  "ReserveRequestWeightAction_MarshalJSON a =
     JObj [(''type'', JStr ''reserveRequestWeight''), (''weight'', json_uint (rr_Weight a))]"

lemma ReserveRequestWeightAction_wire [wire]:
  "ReserveRequestWeightAction_MarshalMsgpack = (\<lambda>a. toks_of (ReserveRequestWeightAction_MarshalJSON a))"
  by (rule ext) (simp add: ReserveRequestWeightAction_MarshalMsgpack_def ReserveRequestWeightAction_MarshalJSON_def enc_defs wire)

definition NoopAction_MarshalMsgpack :: "tok list" where
  "NoopAction_MarshalMsgpack =
     EncodeMapLen 1 @ EncodeString ''type'' @ EncodeString ''noop''"

definition NoopAction_MarshalJSON :: "jval" where
  "NoopAction_MarshalJSON =
     JObj [(''type'', JStr ''noop'')]"

lemma NoopAction_wire [wire]: "NoopAction_MarshalMsgpack = toks_of NoopAction_MarshalJSON"
  by (simp add: NoopAction_MarshalMsgpack_def NoopAction_MarshalJSON_def enc_defs wire)

section \<open>Account management\<close>

record SetReferrerAction =
  sr_Code :: string

definition SetReferrerAction_MarshalMsgpack :: "SetReferrerAction \<Rightarrow> tok list" where
  "SetReferrerAction_MarshalMsgpack a =
     EncodeMapLen 2 @ EncodeString ''type'' @ EncodeString ''setReferrer'' @ EncodeString ''code'' @ EncodeString (sr_Code a)"

definition SetReferrerAction_MarshalJSON :: "SetReferrerAction \<Rightarrow> jval" where
  "SetReferrerAction_MarshalJSON a =
     JObj [(''type'', JStr ''setReferrer''), (''code'', JStr (sr_Code a))]"

lemma SetReferrerAction_wire [wire]:
  "SetReferrerAction_MarshalMsgpack = (\<lambda>a. toks_of (SetReferrerAction_MarshalJSON a))"
  by (rule ext) (simp add: SetReferrerAction_MarshalMsgpack_def SetReferrerAction_MarshalJSON_def enc_defs wire)

record CreateSubAccountAction =
  cs_Name :: string

definition CreateSubAccountAction_MarshalMsgpack :: "CreateSubAccountAction \<Rightarrow> tok list" where
  "CreateSubAccountAction_MarshalMsgpack a =
     EncodeMapLen 2 @ EncodeString ''type'' @ EncodeString ''createSubAccount'' @ EncodeString ''name'' @ EncodeString (cs_Name a)"

definition CreateSubAccountAction_MarshalJSON :: "CreateSubAccountAction \<Rightarrow> jval" where
  "CreateSubAccountAction_MarshalJSON a =
     JObj [(''type'', JStr ''createSubAccount''), (''name'', JStr (cs_Name a))]"

lemma CreateSubAccountAction_wire [wire]:
  "CreateSubAccountAction_MarshalMsgpack = (\<lambda>a. toks_of (CreateSubAccountAction_MarshalJSON a))"
  by (rule ext) (simp add: CreateSubAccountAction_MarshalMsgpack_def CreateSubAccountAction_MarshalJSON_def enc_defs wire)

text \<open>The pairs' values are interfaces there, so the same list gives the map's length.\<close>

definition marshalAccountMap :: "(string \<times> tok list) list \<Rightarrow> tok list" where
  "marshalAccountMap pairs = EncodeMapLen (length pairs) @ EncodePairs pairs"

lemma marshalAccountMap_wire:
  "list_all2 (\<lambda>(k, ts) (l, v). k = l \<and> ts = toks_of v) ps fs \<Longrightarrow>
   marshalAccountMap ps = toks_of (JObj fs)"
proof -
  assume *: "list_all2 (\<lambda>(k, ts) (l, v). k = l \<and> ts = toks_of v) ps fs"
  then have "EncodePairs ps = toks_fields fs"
    by (induction rule: list_all2_induct) (auto simp: enc_defs)
  then show ?thesis
    using list_all2_lengthD [OF *] by (simp add: marshalAccountMap_def enc_defs)
qed

record CreateVaultAction =
  cv_Name :: string
  cv_Description :: string
  cv_InitialUSD :: u64
  cv_Nonce :: u64

definition CreateVaultAction_MarshalMsgpack :: "CreateVaultAction \<Rightarrow> tok list" where
  "CreateVaultAction_MarshalMsgpack a =
     marshalAccountMap [(''type'', EncodeString ''createVault''), (''name'', EncodeString (cv_Name a)),
       (''description'', EncodeString (cv_Description a)), (''initialUsd'', EncodeUint (cv_InitialUSD a)),
       (''nonce'', EncodeUint (cv_Nonce a))]"

definition CreateVaultAction_MarshalJSON :: "CreateVaultAction \<Rightarrow> jval" where
  "CreateVaultAction_MarshalJSON a =
     JObj [(''type'', JStr ''createVault''), (''name'', JStr (cv_Name a)), (''description'', JStr (cv_Description a)),
       (''initialUsd'', json_uint (cv_InitialUSD a)), (''nonce'', json_uint (cv_Nonce a))]"

lemma CreateVaultAction_wire [wire]:
  "CreateVaultAction_MarshalMsgpack = (\<lambda>a. toks_of (CreateVaultAction_MarshalJSON a))"
  by (rule ext) (simp add: CreateVaultAction_MarshalMsgpack_def CreateVaultAction_MarshalJSON_def marshalAccountMap_def enc_defs wire)

record VaultModifyAction =
  vm_VaultAddress :: string
  vm_AllowDeposits :: "bool option"
  vm_AlwaysCloseOnWithdraw :: "bool option"

definition VaultModifyAction_MarshalMsgpack :: "VaultModifyAction \<Rightarrow> tok list" where
  "VaultModifyAction_MarshalMsgpack a =
     marshalAccountMap [(''type'', EncodeString ''vaultModify''), (''vaultAddress'', EncodeString (vm_VaultAddress a)),
       (''allowDeposits'', EncodePtr EncodeBool (vm_AllowDeposits a)),
       (''alwaysCloseOnWithdraw'', EncodePtr EncodeBool (vm_AlwaysCloseOnWithdraw a))]"

definition VaultModifyAction_MarshalJSON :: "VaultModifyAction \<Rightarrow> jval" where
  "VaultModifyAction_MarshalJSON a =
     JObj [(''type'', JStr ''vaultModify''), (''vaultAddress'', JStr (vm_VaultAddress a)),
       (''allowDeposits'', json_ptr JBool (vm_AllowDeposits a)),
       (''alwaysCloseOnWithdraw'', json_ptr JBool (vm_AlwaysCloseOnWithdraw a))]"

lemma VaultModifyAction_wire [wire]:
  "VaultModifyAction_MarshalMsgpack = (\<lambda>a. toks_of (VaultModifyAction_MarshalJSON a))"
  by (rule ext) (simp add: VaultModifyAction_MarshalMsgpack_def VaultModifyAction_MarshalJSON_def marshalAccountMap_def enc_defs wire)

record VaultDistributeAction =
  vd_VaultAddress :: string
  vd_USD :: u64

definition VaultDistributeAction_MarshalMsgpack :: "VaultDistributeAction \<Rightarrow> tok list" where
  "VaultDistributeAction_MarshalMsgpack a =
     marshalAccountMap [(''type'', EncodeString ''vaultDistribute''), (''vaultAddress'', EncodeString (vd_VaultAddress a)),
       (''usd'', EncodeUint (vd_USD a))]"

definition VaultDistributeAction_MarshalJSON :: "VaultDistributeAction \<Rightarrow> jval" where
  "VaultDistributeAction_MarshalJSON a =
     JObj [(''type'', JStr ''vaultDistribute''), (''vaultAddress'', JStr (vd_VaultAddress a)),
       (''usd'', json_uint (vd_USD a))]"

lemma VaultDistributeAction_wire [wire]:
  "VaultDistributeAction_MarshalMsgpack = (\<lambda>a. toks_of (VaultDistributeAction_MarshalJSON a))"
  by (rule ext) (simp add: VaultDistributeAction_MarshalMsgpack_def VaultDistributeAction_MarshalJSON_def marshalAccountMap_def enc_defs wire)

record SubAccountModifyAction =
  sm_SubAccountUser :: string
  sm_Name :: string

definition SubAccountModifyAction_MarshalMsgpack :: "SubAccountModifyAction \<Rightarrow> tok list" where
  "SubAccountModifyAction_MarshalMsgpack a =
     marshalAccountMap [(''type'', EncodeString ''subAccountModify''),
       (''subAccountUser'', EncodeString (sm_SubAccountUser a)), (''name'', EncodeString (sm_Name a))]"

definition SubAccountModifyAction_MarshalJSON :: "SubAccountModifyAction \<Rightarrow> jval" where
  "SubAccountModifyAction_MarshalJSON a =
     JObj [(''type'', JStr ''subAccountModify''), (''subAccountUser'', JStr (sm_SubAccountUser a)),
       (''name'', JStr (sm_Name a))]"

lemma SubAccountModifyAction_wire [wire]:
  "SubAccountModifyAction_MarshalMsgpack = (\<lambda>a. toks_of (SubAccountModifyAction_MarshalJSON a))"
  by (rule ext) (simp add: SubAccountModifyAction_MarshalMsgpack_def SubAccountModifyAction_MarshalJSON_def marshalAccountMap_def enc_defs wire)

record SetDisplayNameAction =
  sd_DisplayName :: string

definition SetDisplayNameAction_MarshalMsgpack :: "SetDisplayNameAction \<Rightarrow> tok list" where
  "SetDisplayNameAction_MarshalMsgpack a =
     marshalAccountMap [(''type'', EncodeString ''setDisplayName''), (''displayName'', EncodeString (sd_DisplayName a))]"

definition SetDisplayNameAction_MarshalJSON :: "SetDisplayNameAction \<Rightarrow> jval" where
  "SetDisplayNameAction_MarshalJSON a =
     JObj [(''type'', JStr ''setDisplayName''), (''displayName'', JStr (sd_DisplayName a))]"

lemma SetDisplayNameAction_wire [wire]:
  "SetDisplayNameAction_MarshalMsgpack = (\<lambda>a. toks_of (SetDisplayNameAction_MarshalJSON a))"
  by (rule ext) (simp add: SetDisplayNameAction_MarshalMsgpack_def SetDisplayNameAction_MarshalJSON_def marshalAccountMap_def enc_defs wire)

end
