(* ===== verification/Externals.thy ===== *)
theory Externals
  imports Wire
begin

text \<open>
  What the program takes from code that is not in its repository, and the two standard library
  parsers whose grammar it does not depend on: the functions are fields of a record that every
  definition using them receives, so that a theorem holds whatever they compute. \<open>sample_lib\<close>
  is one concrete choice, on which the witnesses evaluate.
\<close>

record lib =
  rat_sign :: "string \<Rightarrow> int option"      \<comment> \<open>\<^verbatim>\<open>new(big.Rat).SetString(s)\<close>, then \<^verbatim>\<open>Sign\<close>\<close>
  ParseIP :: "string \<Rightarrow> bool"             \<comment> \<open>\<^verbatim>\<open>net.ParseIP(s) != nil\<close>\<close>
  IsHexAddress :: "string \<Rightarrow> bool"        \<comment> \<open>go-ethereum \<^verbatim>\<open>common.IsHexAddress\<close>\<close>
  Hex :: "address \<Rightarrow> string"              \<comment> \<open>go-ethereum \<^verbatim>\<open>Address.Hex\<close> (checksummed)\<close>
  NewFromString :: "string \<Rightarrow> rat option" \<comment> \<open>shopspring \<^verbatim>\<open>decimal.NewFromString\<close>, its value\<close>

text \<open>
  Documented of \<^verbatim>\<open>Address.Hex\<close>: up to the case of its letters it is \<^verbatim>\<open>0x\<close> and the 40 digits.
\<close>

definition hex_text :: "address \<Rightarrow> string" where
  "hex_text a = ''0x'' @ hex_encode (word_bytes 20 a)"

definition hex_lib :: "lib \<Rightarrow> bool" where
  "hex_lib L \<longleftrightarrow> (\<forall>a. to_lower (Hex L a) = hex_text a)"

lemma hex_text_inj [simp]: "hex_text a = hex_text b \<longleftrightarrow> a = b"
  by (simp add: hex_text_def word_bytes_inj)

lemma to_lower_hex_text [simp]: "to_lower (hex_text a) = hex_text a"
proof -
  have "to_lower ''0x'' = ''0x''" by (simp add: to_lower_def lower_char_def)
  then show ?thesis unfolding hex_text_def by (simp only: to_lower_append to_lower_hex_encode)
qed

section \<open>A concrete choice\<close>

definition is_digit :: "char \<Rightarrow> bool" where
  "is_digit c \<longleftrightarrow> 48 \<le> (of_char c :: nat) \<and> (of_char c :: nat) \<le> 57"

text \<open>A decimal numeral with an optional minus sign and an optional fraction.\<close>

definition parse_decimal :: "string \<Rightarrow> rat option" where
  "parse_decimal s =
     (let neg = has_prefix s ''-'';
          body = (if neg then tl s else s);
          whole = takeWhile is_digit body;
          rest = dropWhile is_digit body;
          frac = tl rest
      in if whole = [] \<or> \<not> (rest = [] \<or> hd rest = CHR ''.'' \<and> frac \<noteq> [] \<and> list_all is_digit frac)
         then None
         else Some ((if neg then - 1 else 1) *
           (of_nat (read_nat (whole @ frac)) / 10 ^ length frac)))"

definition dotted_quad :: "string \<Rightarrow> bool" where
  "dotted_quad s \<longleftrightarrow> length (filter (\<lambda>c. c = CHR ''.'') s) = 3 \<and>
     list_all (\<lambda>c. is_digit c \<or> c = CHR ''.'') s"

definition hex_address_text :: "string \<Rightarrow> bool" where
  "hex_address_text s \<longleftrightarrow>
     (let d = (if has_prefix s ''0x'' then drop 2 s else s)
      in length d = 40 \<and> list_all (\<lambda>c. hex_value c \<noteq> None) d)"

definition sample_lib :: lib where
  "sample_lib = \<lparr>
     rat_sign = (\<lambda>s. map_option (\<lambda>q. if q > 0 then 1 else if q < 0 then - 1 else 0)
       (parse_decimal s)),
     ParseIP = dotted_quad, IsHexAddress = hex_address_text, Hex = hex_text,
     NewFromString = parse_decimal \<rparr>"

lemma hex_lib_sample: "hex_lib sample_lib"
  by (simp add: hex_lib_def sample_lib_def)

section \<open>Fallible encodings\<close>

definition toks_res :: "jval res \<Rightarrow> tok list res" where
  "toks_res r = map_sum (\<lambda>e. e) toks_of r"

lemma toks_res_simps [simp]:
  "toks_res (Inr v) = Inr (toks_of v)"
  "toks_res (Inl e) = Inl e"
  by (simp_all add: toks_res_def)

lemma toks_res_bind [simp]: "toks_res (bind_res r f) = bind_res r (\<lambda>x. toks_res (f x))"
  by (cases r) simp_all

lemma bind_res_cong: "r = s \<Longrightarrow> (\<And>x. s = Inr x \<Longrightarrow> f x = g x) \<Longrightarrow> bind_res r f = bind_res s g"
  by (cases s) simp_all

end
