(* ===== verification/AdvancedWire.thy ===== *)
theory AdvancedWire
  imports Externals "HOL-Library.Multiset"
begin

text \<open>
  The L1 actions of \<^verbatim>\<open>signing/advanced_actions.go\<close> and \<^verbatim>\<open>signing/compat_actions.go\<close>. Their
  marshalers validate first, so both encodings are results: the lemma \<^verbatim>\<open>X_wire\<close> of an action says
  that both fail with the same error or that the encoder's calls spell the JSON value. The two
  validator actions send their JSON through a Go map, so there the JSON has the same fields in the
  order of their keys.
\<close>

section \<open>Agent and validator actions\<close>

definition AgentEnableDexAbstractionAction_MarshalMsgpack :: "tok list" where
  "AgentEnableDexAbstractionAction_MarshalMsgpack =
     EncodeMapLen 1 @ EncodeString ''type'' @ EncodeString ''agentEnableDexAbstraction''"

definition AgentEnableDexAbstractionAction_MarshalJSON :: "jval" where
  "AgentEnableDexAbstractionAction_MarshalJSON =
     JObj [(''type'', JStr ''agentEnableDexAbstraction'')]"

lemma AgentEnableDexAbstractionAction_wire [wire]: "AgentEnableDexAbstractionAction_MarshalMsgpack = toks_of AgentEnableDexAbstractionAction_MarshalJSON"
  by (simp add: AgentEnableDexAbstractionAction_MarshalMsgpack_def AgentEnableDexAbstractionAction_MarshalJSON_def enc_defs wire)

record AgentSetAbstractionAction =
  ag_Abstraction :: string

definition AgentSetAbstractionAction_MarshalMsgpack :: "AgentSetAbstractionAction \<Rightarrow> tok list" where
  "AgentSetAbstractionAction_MarshalMsgpack a =
     EncodeMapLen 2 @ EncodeString ''type'' @ EncodeString ''agentSetAbstraction'' @ EncodeString ''abstraction'' @ EncodeString (ag_Abstraction a)"

definition AgentSetAbstractionAction_MarshalJSON :: "AgentSetAbstractionAction \<Rightarrow> jval" where
  "AgentSetAbstractionAction_MarshalJSON a =
     JObj [(''type'', JStr ''agentSetAbstraction''), (''abstraction'', JStr (ag_Abstraction a))]"

lemma AgentSetAbstractionAction_wire [wire]:
  "AgentSetAbstractionAction_MarshalMsgpack = (\<lambda>a. toks_of (AgentSetAbstractionAction_MarshalJSON a))"
  by (rule ext) (simp add: AgentSetAbstractionAction_MarshalMsgpack_def AgentSetAbstractionAction_MarshalJSON_def enc_defs wire)

record AgentSendAssetAction =
  as_Destination :: string
  as_SourceDEX :: string
  as_DestinationDEX :: string
  as_Token :: string
  as_Amount :: string
  as_FromSubAccount :: string
  as_Nonce :: u64

definition AgentSendAssetAction_validate :: "lib \<Rightarrow> AgentSendAssetAction \<Rightarrow> unit res" where
  "AgentSendAssetAction_validate L a =
     (if \<not> IsHexAddress L (as_Destination a) \<or> (as_Token a) = '''' \<or> (as_Nonce a) = 0
      then Inl ''agent send asset requires destination, token, and nonce''
      else if (as_FromSubAccount a) \<noteq> '''' \<and> \<not> IsHexAddress L (as_FromSubAccount a)
      then Inl ''agent send asset subaccount is not an address''
      else case rat_sign L (as_Amount a) of
          None \<Rightarrow> Inl ''agent send asset amount must be a positive decimal string''
        | Some s \<Rightarrow> guard_res (s > 0) ''agent send asset amount must be a positive decimal string'')"

definition AgentSendAssetAction_MarshalMsgpack :: "lib \<Rightarrow> AgentSendAssetAction \<Rightarrow> tok list res" where
  "AgentSendAssetAction_MarshalMsgpack L a =
     bind_res (AgentSendAssetAction_validate L a) (\<lambda>_. Inr (EncodeMapLen 8 @
       EncodePairs [(''type'', EncodeString ''agentSendAsset''),
         (''destination'', EncodeString (to_lower (as_Destination a))),
         (''sourceDex'', EncodeString (as_SourceDEX a)),
         (''destinationDex'', EncodeString (as_DestinationDEX a)), (''token'', EncodeString (as_Token a)),
         (''amount'', EncodeString (as_Amount a)),
         (''fromSubAccount'', EncodeString (to_lower (as_FromSubAccount a))),
         (''nonce'', EncodeUint (as_Nonce a))]))"

definition AgentSendAssetAction_MarshalJSON :: "lib \<Rightarrow> AgentSendAssetAction \<Rightarrow> jval res" where
  "AgentSendAssetAction_MarshalJSON L a =
     bind_res (AgentSendAssetAction_validate L a) (\<lambda>_. Inr (JObj
       [(''type'', JStr ''agentSendAsset''), (''destination'', JStr (to_lower (as_Destination a))),
        (''sourceDex'', JStr (as_SourceDEX a)), (''destinationDex'', JStr (as_DestinationDEX a)),
        (''token'', JStr (as_Token a)), (''amount'', JStr (as_Amount a)),
        (''fromSubAccount'', JStr (to_lower (as_FromSubAccount a))), (''nonce'', json_uint (as_Nonce a))]))"

lemma AgentSendAssetAction_wire: "AgentSendAssetAction_MarshalMsgpack L a = toks_res (AgentSendAssetAction_MarshalJSON L a)"
  by (simp add: AgentSendAssetAction_MarshalMsgpack_def AgentSendAssetAction_MarshalJSON_def enc_defs wire numeral_eq_Suc)

record AuthorizeAQAV2RoleAction =
  aq_Token :: u64
  aq_Role :: string

definition AuthorizeAQAV2RoleAction_validate :: "AuthorizeAQAV2RoleAction \<Rightarrow> unit res" where
  "AuthorizeAQAV2RoleAction_validate a =
     guard_res (\<not> ((aq_Role a) \<noteq> ''technical'' \<and> (aq_Role a) \<noteq> ''treasury''))
       (''unsupported AQA v2 role '' @ quote (aq_Role a))"

definition AuthorizeAQAV2RoleAction_MarshalMsgpack :: "AuthorizeAQAV2RoleAction \<Rightarrow> tok list res" where
  "AuthorizeAQAV2RoleAction_MarshalMsgpack a =
     bind_res (AuthorizeAQAV2RoleAction_validate a) (\<lambda>_. Inr (EncodeMapLen 3 @
       EncodePairs [(''type'', EncodeString ''authorizeAqav2Role''),
         (''token'', EncodeUint (aq_Token a)), (''role'', EncodeString (aq_Role a))]))"

definition AuthorizeAQAV2RoleAction_MarshalJSON :: "AuthorizeAQAV2RoleAction \<Rightarrow> jval res" where
  "AuthorizeAQAV2RoleAction_MarshalJSON a =
     bind_res (AuthorizeAQAV2RoleAction_validate a) (\<lambda>_. Inr (JObj
       [(''type'', JStr ''authorizeAqav2Role''), (''token'', json_uint (aq_Token a)),
        (''role'', JStr (aq_Role a))]))"

lemma AuthorizeAQAV2RoleAction_wire: "AuthorizeAQAV2RoleAction_MarshalMsgpack a = toks_res (AuthorizeAQAV2RoleAction_MarshalJSON a)"
  by (simp add: AuthorizeAQAV2RoleAction_MarshalMsgpack_def AuthorizeAQAV2RoleAction_MarshalJSON_def enc_defs wire numeral_eq_Suc)

record HIP3LiquidatorTransferAction =
  hl_DEX :: string
  hl_NTL :: u64
  hl_IsDeposit :: bool

definition hip3LiquidatorMinimumNTL :: u64 where "hip3LiquidatorMinimumNTL = 1000000000"

definition HIP3LiquidatorTransferAction_validate :: "HIP3LiquidatorTransferAction \<Rightarrow> unit res" where
  "HIP3LiquidatorTransferAction_validate a =
     (if blank (hl_DEX a) then Inl ''HIP-3 liquidator DEX is required''
      else if (hl_NTL a) = 0 \<or> (hl_NTL a) mod hip3LiquidatorMinimumNTL \<noteq> 0
      then Inl (''HIP-3 liquidator notional must be a positive multiple of '' @
        show_nat (unat hip3LiquidatorMinimumNTL))
      else Inr ())"

definition HIP3LiquidatorTransferAction_MarshalMsgpack :: "HIP3LiquidatorTransferAction \<Rightarrow> tok list res" where
  "HIP3LiquidatorTransferAction_MarshalMsgpack a =
     bind_res (HIP3LiquidatorTransferAction_validate a) (\<lambda>_. Inr (EncodeMapLen 4 @
       EncodePairs [(''type'', EncodeString ''hip3LiquidatorTransfer''),
         (''dex'', EncodeString (hl_DEX a)), (''ntl'', EncodeUint (hl_NTL a)),
         (''isDeposit'', EncodeBool (hl_IsDeposit a))]))"

definition HIP3LiquidatorTransferAction_MarshalJSON :: "HIP3LiquidatorTransferAction \<Rightarrow> jval res" where
  "HIP3LiquidatorTransferAction_MarshalJSON a =
     bind_res (HIP3LiquidatorTransferAction_validate a) (\<lambda>_. Inr (JObj
       [(''type'', JStr ''hip3LiquidatorTransfer''), (''dex'', JStr (hl_DEX a)),
        (''ntl'', json_uint (hl_NTL a)), (''isDeposit'', JBool (hl_IsDeposit a))]))"

lemma HIP3LiquidatorTransferAction_wire: "HIP3LiquidatorTransferAction_MarshalMsgpack a = toks_res (HIP3LiquidatorTransferAction_MarshalJSON a)"
  by (simp add: HIP3LiquidatorTransferAction_MarshalMsgpack_def HIP3LiquidatorTransferAction_MarshalJSON_def enc_defs wire numeral_eq_Suc)

section \<open>Outcome shares\<close>

record SplitOutcome =
  so_Outcome :: u64
  so_Amount :: string

record MergeOutcome =
  mo_Outcome :: u64
  mo_Amount :: "string option"

record MergeQuestion =
  mq_Question :: u64
  mq_Amount :: "string option"

record NegateOutcome =
  no_Question :: u64
  no_Outcome :: u64
  no_Amount :: string

record UserOutcomeAction =
  uo_Split :: "SplitOutcome option"
  uo_Merge :: "MergeOutcome option"
  uo_Question :: "MergeQuestion option"
  uo_Negate :: "NegateOutcome option"

text \<open>The \<^verbatim>\<open>json\<close> tags of the four variants.\<close>

definition outcome_json :: "string \<Rightarrow> u64 \<Rightarrow> jval \<Rightarrow> jval" where
  "outcome_json k n amount = JObj [(k, json_uint n), (''amount'', amount)]"

definition NegateOutcome_json :: "NegateOutcome \<Rightarrow> jval" where
  "NegateOutcome_json n = JObj [(''question'', json_uint (no_Question n)),
     (''outcome'', json_uint (no_Outcome n)), (''amount'', JStr (no_Amount n))]"

definition validPositiveDecimal :: "lib \<Rightarrow> string \<Rightarrow> bool" where
  "validPositiveDecimal L v = (case rat_sign L v of None \<Rightarrow> False | Some s \<Rightarrow> s > 0)"

definition optional_amount :: "lib \<Rightarrow> string option \<Rightarrow> bool" where
  "optional_amount L v = (case v of None \<Rightarrow> True | Some s \<Rightarrow> validPositiveDecimal L s)"

definition count_variants :: "UserOutcomeAction \<Rightarrow> nat" where
  "count_variants a =
     (if uo_Split a \<noteq> None then 1 else 0) + (if uo_Merge a \<noteq> None then 1 else 0) +
     (if uo_Question a \<noteq> None then 1 else 0) + (if uo_Negate a \<noteq> None then 1 else 0)"

definition UserOutcomeAction_validate :: "lib \<Rightarrow> UserOutcomeAction \<Rightarrow> unit res" where
  "UserOutcomeAction_validate L a =
     bind_res (case (uo_Split a) of None \<Rightarrow> Inr ()
         | Some v \<Rightarrow> guard_res (validPositiveDecimal L (so_Amount v))
             ''split outcome amount must be a positive decimal string'') (\<lambda>_.
      bind_res (case (uo_Merge a) of None \<Rightarrow> Inr ()
         | Some v \<Rightarrow> guard_res (optional_amount L (mo_Amount v))
             ''merge outcome amount must be a positive decimal string or nil'') (\<lambda>_.
      bind_res (case (uo_Question a) of None \<Rightarrow> Inr ()
         | Some v \<Rightarrow> guard_res (optional_amount L (mq_Amount v))
             ''merge question amount must be a positive decimal string or nil'') (\<lambda>_.
      bind_res (case (uo_Negate a) of None \<Rightarrow> Inr ()
         | Some v \<Rightarrow> guard_res (validPositiveDecimal L (no_Amount v))
             ''negate outcome amount must be a positive decimal string'') (\<lambda>_.
      guard_res (count_variants a = 1) ''exactly one user outcome variant is required''))))"

definition encodeOutcomeFields :: "string \<Rightarrow> u64 \<Rightarrow> string \<Rightarrow> tok list \<Rightarrow> tok list" where
  "encodeOutcomeFields k1 v1 k2 v2 =
     EncodeMapLen 2 @ EncodeString k1 @ EncodeUint v1 @ EncodeString k2 @ v2"

text \<open>
  The last case of both marshalers dereferences the fourth variant without a test; the validation
  leaves no other.
\<close>

definition UserOutcomeAction_MarshalMsgpack :: "lib \<Rightarrow> UserOutcomeAction \<Rightarrow> tok list res" where
  "UserOutcomeAction_MarshalMsgpack L a =
     bind_res (UserOutcomeAction_validate L a) (\<lambda>_.
       let head = EncodeMapLen 2 @ EncodeString ''type'' @ EncodeString ''userOutcome'' in
       case (uo_Split a) of
         Some v \<Rightarrow> Inr (head @ EncodeString ''splitOutcome'' @
           encodeOutcomeFields ''outcome'' (so_Outcome v) ''amount'' (EncodeString (so_Amount v)))
       | None \<Rightarrow> (case (uo_Merge a) of
         Some v \<Rightarrow> Inr (head @ EncodeString ''mergeOutcome'' @
           encodeOutcomeFields ''outcome'' (mo_Outcome v) ''amount''
             (EncodePtr EncodeString (mo_Amount v)))
       | None \<Rightarrow> (case (uo_Question a) of
         Some v \<Rightarrow> Inr (head @ EncodeString ''mergeQuestion'' @
           encodeOutcomeFields ''question'' (mq_Question v) ''amount''
             (EncodePtr EncodeString (mq_Amount v)))
       | None \<Rightarrow> (case (uo_Negate a) of
         Some v \<Rightarrow> Inr (head @ EncodeString ''negateOutcome'' @ EncodeMapLen 3 @
           EncodePairs [(''question'', EncodeUint (no_Question v)),
             (''outcome'', EncodeUint (no_Outcome v)), (''amount'', EncodeString (no_Amount v))])
       | None \<Rightarrow> Inl ''nil pointer dereference''))))"

definition UserOutcomeAction_MarshalJSON :: "lib \<Rightarrow> UserOutcomeAction \<Rightarrow> jval res" where
  "UserOutcomeAction_MarshalJSON L a =
     bind_res (UserOutcomeAction_validate L a) (\<lambda>_.
       case (uo_Split a) of
         Some v \<Rightarrow> Inr (JObj [(''type'', JStr ''userOutcome''), (''splitOutcome'',
           outcome_json ''outcome'' (so_Outcome v) (JStr (so_Amount v)))])
       | None \<Rightarrow> (case (uo_Merge a) of
         Some v \<Rightarrow> Inr (JObj [(''type'', JStr ''userOutcome''), (''mergeOutcome'',
           outcome_json ''outcome'' (mo_Outcome v) (json_ptr JStr (mo_Amount v)))])
       | None \<Rightarrow> (case (uo_Question a) of
         Some v \<Rightarrow> Inr (JObj [(''type'', JStr ''userOutcome''), (''mergeQuestion'',
           outcome_json ''question'' (mq_Question v) (json_ptr JStr (mq_Amount v)))])
       | None \<Rightarrow> Inr (JObj [(''type'', JStr ''userOutcome''), (''negateOutcome'',
           json_ptr NegateOutcome_json (uo_Negate a))]))))"

lemma UserOutcomeAction_validate_ok:
  "UserOutcomeAction_validate L a = Inr u \<longleftrightarrow>
     count_variants a = 1 \<and>
     (\<forall>v. uo_Split a = Some v \<longrightarrow> validPositiveDecimal L (so_Amount v)) \<and>
     (\<forall>v. uo_Merge a = Some v \<longrightarrow> optional_amount L (mo_Amount v)) \<and>
     (\<forall>v. uo_Question a = Some v \<longrightarrow> optional_amount L (mq_Amount v)) \<and>
     (\<forall>v. uo_Negate a = Some v \<longrightarrow> validPositiveDecimal L (no_Amount v))"
  by (auto simp: UserOutcomeAction_validate_def split: option.splits)

lemma UserOutcomeAction_wire:
  "UserOutcomeAction_MarshalMsgpack L a = toks_res (UserOutcomeAction_MarshalJSON L a)"
proof (cases "UserOutcomeAction_validate L a")
  case (Inr u)
  then have "count_variants a = 1" by (simp add: UserOutcomeAction_validate_ok)
  then show ?thesis
    by (auto simp: UserOutcomeAction_MarshalMsgpack_def UserOutcomeAction_MarshalJSON_def Inr
        count_variants_def encodeOutcomeFields_def outcome_json_def NegateOutcome_json_def
        json_ptr_def EncodePtr_def enc_defs split: option.splits if_splits)
qed (simp add: UserOutcomeAction_MarshalMsgpack_def UserOutcomeAction_MarshalJSON_def)

record ValidatorL1StreamAction =
  vs_RiskFreeRate :: string

definition ValidatorL1StreamAction_MarshalMsgpack :: "ValidatorL1StreamAction \<Rightarrow> tok list" where
  "ValidatorL1StreamAction_MarshalMsgpack a =
     EncodeMapLen 2 @ EncodeString ''type'' @ EncodeString ''validatorL1Stream'' @ EncodeString ''riskFreeRate'' @
     EncodeString (vs_RiskFreeRate a)"

definition ValidatorL1StreamAction_MarshalJSON :: "ValidatorL1StreamAction \<Rightarrow> jval" where
  "ValidatorL1StreamAction_MarshalJSON a =
     JObj [(''type'', JStr ''validatorL1Stream''), (''riskFreeRate'', JStr (vs_RiskFreeRate a))]"

lemma ValidatorL1StreamAction_wire [wire]:
  "ValidatorL1StreamAction_MarshalMsgpack = (\<lambda>a. toks_of (ValidatorL1StreamAction_MarshalJSON a))"
  by (rule ext) (simp add: ValidatorL1StreamAction_MarshalMsgpack_def ValidatorL1StreamAction_MarshalJSON_def enc_defs wire)

definition ClaimRewardsAction_MarshalMsgpack :: "tok list" where
  "ClaimRewardsAction_MarshalMsgpack =
     EncodeMapLen 1 @ EncodeString ''type'' @ EncodeString ''claimRewards''"

definition ClaimRewardsAction_MarshalJSON :: "jval" where
  "ClaimRewardsAction_MarshalJSON =
     JObj [(''type'', JStr ''claimRewards'')]"

lemma ClaimRewardsAction_wire [wire]: "ClaimRewardsAction_MarshalMsgpack = toks_of ClaimRewardsAction_MarshalJSON"
  by (simp add: ClaimRewardsAction_MarshalMsgpack_def ClaimRewardsAction_MarshalJSON_def enc_defs wire)

section \<open>HyperEVM and gossip\<close>

record EVMUserModifyAction =
  em_UsingBigBlocks :: bool

definition EVMUserModifyAction_MarshalMsgpack :: "EVMUserModifyAction \<Rightarrow> tok list" where
  "EVMUserModifyAction_MarshalMsgpack a =
     EncodeMapLen 2 @ EncodeString ''type'' @ EncodeString ''evmUserModify'' @ EncodeString ''usingBigBlocks'' @
     EncodeBool (em_UsingBigBlocks a)"

definition EVMUserModifyAction_MarshalJSON :: "EVMUserModifyAction \<Rightarrow> jval" where
  "EVMUserModifyAction_MarshalJSON a =
     JObj [(''type'', JStr ''evmUserModify''), (''usingBigBlocks'', JBool (em_UsingBigBlocks a))]"

lemma EVMUserModifyAction_wire [wire]:
  "EVMUserModifyAction_MarshalMsgpack = (\<lambda>a. toks_of (EVMUserModifyAction_MarshalJSON a))"
  by (rule ext) (simp add: EVMUserModifyAction_MarshalMsgpack_def EVMUserModifyAction_MarshalJSON_def enc_defs wire)

record GossipPriorityBidAction =
  gp_SlotID :: u64
  gp_IP :: string
  gp_MaxGas :: u64

definition minimumGossipPriorityBidGas :: u64 where "minimumGossipPriorityBidGas = 10000000"

definition GossipPriorityBidAction_validate :: "lib \<Rightarrow> GossipPriorityBidAction \<Rightarrow> unit res" where
  "GossipPriorityBidAction_validate L a =
     (if (gp_SlotID a) > 1 then Inl ''gossip priority slot ID must be 0 or 1''
      else if \<not> ParseIP L (gp_IP a) then Inl ''gossip priority IP is invalid''
      else if (gp_MaxGas a) < minimumGossipPriorityBidGas
      then Inl (''gossip priority max gas must be at least '' @
        show_nat (unat minimumGossipPriorityBidGas) @ '' wei'')
      else Inr ())"

definition GossipPriorityBidAction_MarshalMsgpack :: "lib \<Rightarrow> GossipPriorityBidAction \<Rightarrow> tok list res" where
  "GossipPriorityBidAction_MarshalMsgpack L a =
     bind_res (GossipPriorityBidAction_validate L a) (\<lambda>_. Inr (EncodeMapLen 4 @
       EncodePairs [(''type'', EncodeString ''gossipPriorityBid''),
         (''slotId'', EncodeUint (gp_SlotID a)), (''ip'', EncodeString (gp_IP a)),
         (''maxGas'', EncodeUint (gp_MaxGas a))]))"

definition GossipPriorityBidAction_MarshalJSON :: "lib \<Rightarrow> GossipPriorityBidAction \<Rightarrow> jval res" where
  "GossipPriorityBidAction_MarshalJSON L a =
     bind_res (GossipPriorityBidAction_validate L a) (\<lambda>_. Inr (JObj
       [(''type'', JStr ''gossipPriorityBid''), (''slotId'', json_uint (gp_SlotID a)),
        (''ip'', JStr (gp_IP a)), (''maxGas'', json_uint (gp_MaxGas a))]))"

lemma GossipPriorityBidAction_wire: "GossipPriorityBidAction_MarshalMsgpack L a = toks_res (GossipPriorityBidAction_MarshalJSON L a)"
  by (simp add: GossipPriorityBidAction_MarshalMsgpack_def GossipPriorityBidAction_MarshalJSON_def enc_defs wire numeral_eq_Suc)

record FinalizeEVMCreate =
  fc_Nonce :: u64

text \<open>The interface \<^verbatim>\<open>FinalizeEVMContractInput\<close> and its three implementations.\<close>

datatype FinalizeEVMContractInput =
    EVMCreate FinalizeEVMCreate
  | EVMFirstStorageSlot
  | EVMCustomStorageSlot

fun marshalFinalizeEVM :: "FinalizeEVMContractInput \<Rightarrow> tok list" where
  "marshalFinalizeEVM (EVMCreate v) =
     EncodeMapLen 1 @ EncodeString ''create'' @ EncodeMapLen 1 @ EncodeString ''nonce'' @
     EncodeUint (fc_Nonce v)"
| "marshalFinalizeEVM EVMFirstStorageSlot = EncodeString ''firstStorageSlot''"
| "marshalFinalizeEVM EVMCustomStorageSlot = EncodeString ''customStorageSlot''"

fun jsonFinalizeEVM :: "FinalizeEVMContractInput \<Rightarrow> jval" where
  "jsonFinalizeEVM (EVMCreate v) =
     json_map [(''create'', json_map [(''nonce'', json_uint (fc_Nonce v))])]"
| "jsonFinalizeEVM EVMFirstStorageSlot = JStr ''firstStorageSlot''"
| "jsonFinalizeEVM EVMCustomStorageSlot = JStr ''customStorageSlot''"

lemma finalize_wire [wire]: "marshalFinalizeEVM = (\<lambda>v. toks_of (jsonFinalizeEVM v))"
proof
  fix v
  show "marshalFinalizeEVM v = toks_of (jsonFinalizeEVM v)"
    by (cases v) (simp_all add: json_map_def enc_defs)
qed

record FinalizeEVMContractAction =
  fe_Token :: u64
  fe_Input :: "FinalizeEVMContractInput option"

definition FinalizeEVMContractAction_validate :: "FinalizeEVMContractAction \<Rightarrow> unit res" where
  "FinalizeEVMContractAction_validate a =
     guard_res ((fe_Input a) \<noteq> None) ''finalize EVM contract input is required''"

definition FinalizeEVMContractAction_MarshalMsgpack :: "FinalizeEVMContractAction \<Rightarrow> tok list res" where
  "FinalizeEVMContractAction_MarshalMsgpack a =
     bind_res (FinalizeEVMContractAction_validate a) (\<lambda>_. Inr (EncodeMapLen 3 @ EncodeString ''type'' @
       EncodeString ''finalizeEvmContract'' @ EncodeString ''token'' @ EncodeUint (fe_Token a) @ EncodeString ''input'' @
       marshalFinalizeEVM (the (fe_Input a))))"

definition FinalizeEVMContractAction_MarshalJSON :: "FinalizeEVMContractAction \<Rightarrow> jval res" where
  "FinalizeEVMContractAction_MarshalJSON a =
     bind_res (FinalizeEVMContractAction_validate a) (\<lambda>_. Inr (JObj
       [(''type'', JStr ''finalizeEvmContract''), (''token'', json_uint (fe_Token a)),
        (''input'', jsonFinalizeEVM (the (fe_Input a)))]))"

lemma FinalizeEVMContractAction_wire: "FinalizeEVMContractAction_MarshalMsgpack a = toks_res (FinalizeEVMContractAction_MarshalJSON a)"
  by (simp add: FinalizeEVMContractAction_MarshalMsgpack_def FinalizeEVMContractAction_MarshalJSON_def enc_defs wire numeral_eq_Suc)

section \<open>Validator management\<close>

record CValidatorProfile =
  cp_NodeIP :: string
  cp_Name :: string
  cp_Description :: string
  cp_DelegationsDisabled :: bool
  cp_CommissionBPS :: u64
  cp_Signer :: address

definition CValidatorProfile_validateRequired :: "lib \<Rightarrow> CValidatorProfile \<Rightarrow> unit res" where
  "CValidatorProfile_validateRequired L a =
     guard_res (\<not> (\<not> ParseIP L (cp_NodeIP a) \<or> (cp_Name a) = '''' \<or> (cp_Description a) = '''' \<or> (cp_Signer a) = 0))
       ''validator profile requires valid IP, name, description, and signer''"

definition CValidatorProfile_MarshalJSON :: "lib \<Rightarrow> CValidatorProfile \<Rightarrow> jval res" where
  "CValidatorProfile_MarshalJSON L a =
     bind_res (CValidatorProfile_validateRequired L a) (\<lambda>_. Inr (JObj
       [(''node_ip'', JObj [(''Ip'', JStr (cp_NodeIP a))]), (''name'', JStr (cp_Name a)),
        (''description'', JStr (cp_Description a)),
        (''delegations_disabled'', JBool (cp_DelegationsDisabled a)),
        (''commission_bps'', json_uint (cp_CommissionBPS a)),
        (''signer'', JStr (to_lower (Hex L (cp_Signer a))))]))"

definition CValidatorProfile_MarshalMsgpack :: "lib \<Rightarrow> CValidatorProfile \<Rightarrow> tok list res" where
  "CValidatorProfile_MarshalMsgpack L a =
     bind_res (CValidatorProfile_validateRequired L a) (\<lambda>_. Inr (EncodeMapLen 6 @
       EncodePairs [(''node_ip'', EncodeStruct [(''Ip'', EncodeString (cp_NodeIP a))]),
         (''name'', EncodeString (cp_Name a)), (''description'', EncodeString (cp_Description a)),
         (''delegations_disabled'', EncodeBool (cp_DelegationsDisabled a)),
         (''commission_bps'', EncodeUint (cp_CommissionBPS a)),
         (''signer'', EncodeString (to_lower (Hex L (cp_Signer a))))]))"

lemma CValidatorProfile_wire: "CValidatorProfile_MarshalMsgpack L a = toks_res (CValidatorProfile_MarshalJSON L a)"
  by (simp add: CValidatorProfile_MarshalMsgpack_def CValidatorProfile_MarshalJSON_def enc_defs wire numeral_eq_Suc)

record CValidatorRegister =
  cr_Profile :: CValidatorProfile
  cr_Unjailed :: bool
  cr_InitialWei :: u64

definition CValidatorRegister_validate :: "lib \<Rightarrow> CValidatorRegister \<Rightarrow> unit res" where
  "CValidatorRegister_validate L a =
     bind_res (CValidatorProfile_validateRequired L (cr_Profile a))
       (\<lambda>_. guard_res ((cr_InitialWei a) \<noteq> 0) ''validator initial wei must be positive'')"

record CValidatorChangeProfile =
  cg_NodeIP :: "string option"
  cg_Name :: "string option"
  cg_Description :: "string option"
  cg_Unjailed :: bool
  cg_DisableDelegations :: "bool option"
  cg_CommissionBPS :: "u64 option"
  cg_Signer :: "address option"

definition CValidatorChangeProfile_validate :: "lib \<Rightarrow> CValidatorChangeProfile \<Rightarrow> unit res" where
  "CValidatorChangeProfile_validate L a =
     (if case (cg_NodeIP a) of Some ip \<Rightarrow> \<not> ParseIP L ip | None \<Rightarrow> False then Inl ''validator node IP is invalid''
      else if (cg_Signer a) = Some 0 then Inl ''validator signer is invalid''
      else Inr ())"

text \<open>
  \<^verbatim>\<open>wire()\<close> and the tags of its struct: the two interface fields hold a one-field struct and a
  string, or nil. Nil fields stay as explicit nulls.
\<close>

record cValidatorChangeProfileWire =
  cgw_NodeIP :: "string option"
  cgw_Name :: "string option"
  cgw_Description :: "string option"
  cgw_Unjailed :: bool
  cgw_DisableDelegations :: "bool option"
  cgw_CommissionBPS :: "u64 option"
  cgw_Signer :: "string option"

definition CValidatorChangeProfile_wire ::
    "lib \<Rightarrow> CValidatorChangeProfile \<Rightarrow> cValidatorChangeProfileWire" where
  "CValidatorChangeProfile_wire L a =
     \<lparr> cgw_NodeIP = cg_NodeIP a, cgw_Name = cg_Name a, cgw_Description = cg_Description a,
       cgw_Unjailed = cg_Unjailed a, cgw_DisableDelegations = cg_DisableDelegations a,
       cgw_CommissionBPS = cg_CommissionBPS a,
       cgw_Signer = map_option (\<lambda>s. to_lower (Hex L s)) (cg_Signer a) \<rparr>"

definition ip_toks :: "string \<Rightarrow> tok list" where
  "ip_toks ip = EncodeStruct [(''Ip'', EncodeString ip)]"

definition ip_json :: "string \<Rightarrow> jval" where
  "ip_json ip = JObj [(''Ip'', JStr ip)]"

lemma ip_wire [wire]: "ip_toks = (\<lambda>ip. toks_of (ip_json ip))"
  by (rule ext) (simp add: ip_toks_def ip_json_def enc_defs)

definition cValidatorChangeProfileWire_MarshalMsgpack :: "cValidatorChangeProfileWire \<Rightarrow> tok list" where
  "cValidatorChangeProfileWire_MarshalMsgpack a =
     EncodeStruct [(''node_ip'', EncodePtr ip_toks (cgw_NodeIP a)), (''name'', EncodePtr EncodeString (cgw_Name a)),
       (''description'', EncodePtr EncodeString (cgw_Description a)), (''unjailed'', EncodeBool (cgw_Unjailed a)),
       (''disable_delegations'', EncodePtr EncodeBool (cgw_DisableDelegations a)),
       (''commission_bps'', EncodePtr EncodeUint (cgw_CommissionBPS a)),
       (''signer'', EncodePtr EncodeString (cgw_Signer a))]"

definition cValidatorChangeProfileWire_MarshalJSON :: "cValidatorChangeProfileWire \<Rightarrow> jval" where
  "cValidatorChangeProfileWire_MarshalJSON a =
     JObj [(''node_ip'', json_ptr ip_json (cgw_NodeIP a)), (''name'', json_ptr JStr (cgw_Name a)),
       (''description'', json_ptr JStr (cgw_Description a)), (''unjailed'', JBool (cgw_Unjailed a)),
       (''disable_delegations'', json_ptr JBool (cgw_DisableDelegations a)),
       (''commission_bps'', json_ptr json_uint (cgw_CommissionBPS a)),
       (''signer'', json_ptr JStr (cgw_Signer a))]"

lemma cValidatorChangeProfileWire_wire [wire]:
  "cValidatorChangeProfileWire_MarshalMsgpack = (\<lambda>a. toks_of (cValidatorChangeProfileWire_MarshalJSON a))"
  by (rule ext) (simp add: cValidatorChangeProfileWire_MarshalMsgpack_def cValidatorChangeProfileWire_MarshalJSON_def enc_defs wire)

text \<open>
  \<^verbatim>\<open>CValidatorVariant\<close>: \<^verbatim>\<open>marshalCValidator\<close> writes the variant's key and value,
  \<^verbatim>\<open>jsonCValidator\<close> returns a map of one entry.
\<close>

datatype CValidatorVariant =
    Unregister
  | Register CValidatorRegister
  | ChangeProfile CValidatorChangeProfile

fun marshalCValidator :: "lib \<Rightarrow> CValidatorVariant \<Rightarrow> tok list res" where
  "marshalCValidator L Unregister = Inr (EncodeString ''unregister'' @ EncodeNil)"
| "marshalCValidator L (Register a) =
     bind_res (CValidatorRegister_validate L a) (\<lambda>_.
     bind_res (CValidatorProfile_MarshalMsgpack L (cr_Profile a)) (\<lambda>p.
     Inr (EncodeString ''register'' @
       EncodeStruct [(''profile'', p), (''unjailed'', EncodeBool (cr_Unjailed a)),
         (''initial_wei'', EncodeUint (cr_InitialWei a))])))"
| "marshalCValidator L (ChangeProfile a) =
     bind_res (CValidatorChangeProfile_validate L a) (\<lambda>_.
     Inr (EncodeString ''changeProfile'' @
       cValidatorChangeProfileWire_MarshalMsgpack (CValidatorChangeProfile_wire L a)))"

fun jsonCValidator :: "lib \<Rightarrow> CValidatorVariant \<Rightarrow> (string \<times> jval) list res" where
  "jsonCValidator L Unregister = Inr [(''unregister'', JNull)]"
| "jsonCValidator L (Register a) =
     bind_res (CValidatorRegister_validate L a) (\<lambda>_.
     bind_res (CValidatorProfile_MarshalJSON L (cr_Profile a)) (\<lambda>p.
     Inr [(''register'', JObj [(''profile'', p), (''unjailed'', JBool (cr_Unjailed a)),
       (''initial_wei'', json_uint (cr_InitialWei a))])]))"
| "jsonCValidator L (ChangeProfile a) =
     bind_res (CValidatorChangeProfile_validate L a) (\<lambda>_.
     Inr [(''changeProfile'',
       cValidatorChangeProfileWire_MarshalJSON (CValidatorChangeProfile_wire L a))])"

record CValidatorAction =
  cva_Variant :: "CValidatorVariant option"

definition CValidatorAction_validate :: "CValidatorAction \<Rightarrow> unit res" where
  "CValidatorAction_validate a =
     guard_res ((cva_Variant a) \<noteq> None) ''validator action variant is required''"

definition CValidatorAction_MarshalMsgpack :: "lib \<Rightarrow> CValidatorAction \<Rightarrow> tok list res" where
  "CValidatorAction_MarshalMsgpack L a =
     bind_res (CValidatorAction_validate a) (\<lambda>_.
      bind_res (marshalCValidator L (the (cva_Variant a))) (\<lambda>v.
      Inr (EncodeMapLen 2 @ EncodeString ''type'' @ EncodeString ''CValidatorAction'' @ v)))"

definition CValidatorAction_MarshalJSON :: "lib \<Rightarrow> CValidatorAction \<Rightarrow> jval res" where
  "CValidatorAction_MarshalJSON L a =
     bind_res (CValidatorAction_validate a) (\<lambda>_.
      bind_res (jsonCValidator L (the (cva_Variant a))) (\<lambda>v.
      Inr (json_map ((''type'', JStr ''CValidatorAction'') # v))))"

datatype CSignerVariant = JailSelf | UnjailSelf

fun marshalCSigner :: "CSignerVariant \<Rightarrow> tok list" where
  "marshalCSigner JailSelf = EncodeString ''jailSelf'' @ EncodeNil"
| "marshalCSigner UnjailSelf = EncodeString ''unjailSelf'' @ EncodeNil"

fun jsonCSigner :: "CSignerVariant \<Rightarrow> (string \<times> jval) list" where
  "jsonCSigner JailSelf = [(''jailSelf'', JNull)]"
| "jsonCSigner UnjailSelf = [(''unjailSelf'', JNull)]"

record CSignerAction =
  csa_Variant :: "CSignerVariant option"

definition CSignerAction_validate :: "CSignerAction \<Rightarrow> unit res" where
  "CSignerAction_validate a =
     guard_res ((csa_Variant a) \<noteq> None) ''validator signer action variant is required''"

definition CSignerAction_MarshalMsgpack :: "CSignerAction \<Rightarrow> tok list res" where
  "CSignerAction_MarshalMsgpack a =
     bind_res (CSignerAction_validate a) (\<lambda>_.
      Inr (EncodeMapLen 2 @ EncodeString ''type'' @ EncodeString ''CSignerAction'' @ marshalCSigner (the (csa_Variant a))))"

definition CSignerAction_MarshalJSON :: "CSignerAction \<Rightarrow> jval res" where
  "CSignerAction_MarshalJSON a =
     bind_res (CSignerAction_validate a) (\<lambda>_.
      Inr (json_map ((''type'', JStr ''CSignerAction'') # jsonCSigner (the (csa_Variant a)))))"

text \<open>
  What the two encodings of a validator action have in common: the fields. The encoder has the
  type first, the JSON object the two keys in order.
\<close>

definition fields_res :: "(string \<times> jval) list res \<Rightarrow> tok list res" where
  "fields_res r = map_sum (\<lambda>e. e) toks_fields r"

lemma fields_res_simps [simp]:
  "fields_res (Inr v) = Inr (toks_fields v)"
  "fields_res (Inl e) = Inl e"
  "fields_res (bind_res r f) = bind_res r (\<lambda>x. fields_res (f x))"
  by (simp_all add: fields_res_def) (cases r; simp)

lemma bind_toks_res: "bind_res (toks_res r) f = bind_res r (\<lambda>v. f (toks_of v))"
  by (cases r) simp_all

lemma marshalCValidator_wire: "marshalCValidator L v = fields_res (jsonCValidator L v)"
  by (cases v) (simp_all add: CValidatorProfile_wire bind_toks_res enc_defs wire)

lemma marshalCSigner_wire: "marshalCSigner v = toks_fields (jsonCSigner v)"
  by (cases v) (simp_all add: enc_defs)

lemma jsonCValidator_one:
  "jsonCValidator L v = Inr fs \<Longrightarrow> length fs = 1 \<and> fst (hd fs) \<noteq> ''type''"
  by (cases v) auto

lemma jsonCSigner_one: "length (jsonCSigner v) = 1 \<and> fst (hd (jsonCSigner v)) \<noteq> ''type''"
  by (cases v) auto

text \<open>Two values are the same up to the order of the top object's fields.\<close>

definition reordered :: "jval \<Rightarrow> jval \<Rightarrow> bool" where
  "reordered v w \<longleftrightarrow> v = w \<or> (\<exists>fs gs. v = JObj fs \<and> w = JObj gs \<and> mset fs = mset gs)"

definition same_value :: "tok list \<Rightarrow> jval \<Rightarrow> bool" where
  "same_value ts j \<longleftrightarrow> (\<exists>v. ts = toks_of v \<and> reordered v j)"

lemma reordered_refl [simp]: "reordered v v"
  by (simp add: reordered_def)

lemma reordered_json_map: "reordered (JObj fs) (json_map fs)"
  by (auto simp: reordered_def json_map_def)

lemma rel_toks_res: "rel_sum (=) same_value (toks_res r) r"
  by (cases r) (auto simp: same_value_def)

lemma CValidatorAction_wire:
  "rel_sum (=) same_value (CValidatorAction_MarshalMsgpack L a) (CValidatorAction_MarshalJSON L a)"
proof (cases "CValidatorAction_validate a")
  case (Inr u)
  show ?thesis
  proof (cases "jsonCValidator L (the (cva_Variant a))")
    case (Inr fs)
    have "length fs = 1" using jsonCValidator_one [OF Inr] by simp
    then have "CValidatorAction_MarshalMsgpack L a =
        Inr (toks_of (JObj ((''type'', JStr ''CValidatorAction'') # fs)))"
      using Inr \<open>CValidatorAction_validate a = Inr u\<close>
      by (simp add: CValidatorAction_MarshalMsgpack_def marshalCValidator_wire enc_defs)
    then show ?thesis
      using Inr \<open>CValidatorAction_validate a = Inr u\<close> reordered_json_map
      by (auto simp: CValidatorAction_MarshalJSON_def same_value_def simp del: toks_of.simps)
  qed (simp add: CValidatorAction_MarshalMsgpack_def CValidatorAction_MarshalJSON_def
      marshalCValidator_wire Inr)
qed (simp add: CValidatorAction_MarshalMsgpack_def CValidatorAction_MarshalJSON_def)

lemma CSignerAction_wire:
  "rel_sum (=) same_value (CSignerAction_MarshalMsgpack a) (CSignerAction_MarshalJSON a)"
proof (cases "CSignerAction_validate a")
  case (Inr u)
  let ?fs = "jsonCSigner (the (csa_Variant a))"
  have "CSignerAction_MarshalMsgpack a =
      Inr (toks_of (JObj ((''type'', JStr ''CSignerAction'') # ?fs)))"
    using jsonCSigner_one [of "the (csa_Variant a)"]
    by (simp add: CSignerAction_MarshalMsgpack_def marshalCSigner_wire enc_defs Inr)
  then show ?thesis
    using reordered_json_map
    by (auto simp: CSignerAction_MarshalJSON_def same_value_def Inr simp del: toks_of.simps)
qed (simp add: CSignerAction_MarshalMsgpack_def CSignerAction_MarshalJSON_def)

end
