(* ===== verification/DeployWire.thy ===== *)
theory DeployWire
  imports Externals "HOL-Library.Multiset"
begin

text \<open>
  The deployment actions of \<^verbatim>\<open>signing/deploy_actions.go\<close>: the HIP-3 perpetual DEX variants
  and the HIP-1/HIP-2 spot variants, what each validates, and the two encodings. The second half
  characterises the validators: a tuple list is accepted exactly when its keys are present, its
  values valid and its keys strictly increasing.
\<close>

section \<open>Decimals, coins and sorted tuples\<close>

text \<open>8-bit struct fields.\<close>

definition EncodeUint8 :: "u8 \<Rightarrow> tok list" where "EncodeUint8 w = [IntT (uint w)]"
definition EncodeInt8 :: "8 word \<Rightarrow> tok list" where "EncodeInt8 w = [IntT (sint w)]"
definition json_uint8 :: "u8 \<Rightarrow> jval" where "json_uint8 w = JInt (uint w)"
definition json_int8 :: "8 word \<Rightarrow> jval" where "json_int8 w = JInt (sint w)"

lemma eight_bit_wire [wire]:
  "EncodeUint8 = (\<lambda>w. toks_of (json_uint8 w))" "EncodeInt8 = (\<lambda>w. toks_of (json_int8 w))"
  by (simp_all add: fun_eq_iff EncodeUint8_def EncodeInt8_def json_uint8_def json_int8_def)

definition validDEX :: "string \<Rightarrow> unit res" where
  "validDEX dex =
     guard_res (\<not> blank dex) ''dex is required''"

definition validCoin :: "string \<Rightarrow> unit res" where
  "validCoin coin =
     guard_res (\<not> blank coin) ''coin is required''"

definition positiveDecimal :: "lib \<Rightarrow> string \<Rightarrow> bool" where
  "positiveDecimal L s =
     (case NewFromString L s of None \<Rightarrow> False | Some d \<Rightarrow> d > 0)"

definition unsignedDecimal :: "lib \<Rightarrow> string \<Rightarrow> bool" where
  "unsignedDecimal L s =
     (case NewFromString L s of None \<Rightarrow> False | Some d \<Rightarrow> \<not> d < 0)"

definition validCoinPrice :: "lib \<Rightarrow> string \<Rightarrow> string \<Rightarrow> unit res" where
  "validCoinPrice L coin price =
     bind_res (validCoin coin) (\<lambda>_.
      guard_res (positiveDecimal L price) ''oracle price must be a positive decimal string'')"

definition lowerAddressPtr :: "string option \<Rightarrow> string option" where
  "lowerAddressPtr a =
     map_option to_lower a"

record StringPair =
  sp_Key :: string
  sp_Value :: string

definition StringPair_MarshalMsgpack :: "StringPair \<Rightarrow> tok list" where
  "StringPair_MarshalMsgpack a =
     EncodeArrayLen 2 @ EncodeString (sp_Key a) @ EncodeString (sp_Value a)"

definition StringPair_MarshalJSON :: "StringPair \<Rightarrow> jval" where
  "StringPair_MarshalJSON a =
     JArr [JStr (sp_Key a), JStr (sp_Value a)]"

lemma StringPair_wire [wire]:
  "StringPair_MarshalMsgpack = (\<lambda>a. toks_of (StringPair_MarshalJSON a))"
  by (rule ext) (simp add: StringPair_MarshalMsgpack_def StringPair_MarshalJSON_def enc_defs wire)

record StringUintPair =
  su_Key :: string
  su_Value :: u64

definition StringUintPair_MarshalMsgpack :: "StringUintPair \<Rightarrow> tok list" where
  "StringUintPair_MarshalMsgpack a =
     EncodeArrayLen 2 @ EncodeString (su_Key a) @ EncodeUint (su_Value a)"

definition StringUintPair_MarshalJSON :: "StringUintPair \<Rightarrow> jval" where
  "StringUintPair_MarshalJSON a =
     JArr [JStr (su_Key a), json_uint (su_Value a)]"

lemma StringUintPair_wire [wire]:
  "StringUintPair_MarshalMsgpack = (\<lambda>a. toks_of (StringUintPair_MarshalJSON a))"
  by (rule ext) (simp add: StringUintPair_MarshalMsgpack_def StringUintPair_MarshalJSON_def enc_defs wire)

record StringBoolPair =
  sb_Key :: string
  sb_Value :: bool

definition StringBoolPair_MarshalMsgpack :: "StringBoolPair \<Rightarrow> tok list" where
  "StringBoolPair_MarshalMsgpack a =
     EncodeArrayLen 2 @ EncodeString (sb_Key a) @ EncodeBool (sb_Value a)"

definition StringBoolPair_MarshalJSON :: "StringBoolPair \<Rightarrow> jval" where
  "StringBoolPair_MarshalJSON a =
     JArr [JStr (sb_Key a), JBool (sb_Value a)]"

lemma StringBoolPair_wire [wire]:
  "StringBoolPair_MarshalMsgpack = (\<lambda>a. toks_of (StringBoolPair_MarshalJSON a))"
  by (rule ext) (simp add: StringBoolPair_MarshalMsgpack_def StringBoolPair_MarshalJSON_def enc_defs wire)

text \<open>
  The loop of the tuple validators: check the element, compare its key with the last one (the
  empty string before the first), remember it.
\<close>

fun sorted_loop :: "('a \<Rightarrow> string) \<Rightarrow> ('a \<Rightarrow> unit res) \<Rightarrow> string \<Rightarrow> string \<Rightarrow> 'a list \<Rightarrow> unit res" where
  "sorted_loop key check msg prev [] = Inr ()"
| "sorted_loop key check msg prev (v # vs) =
     bind_res (check v) (\<lambda>_.
     if prev \<noteq> '''' \<and> key v \<le> prev then Inl msg else sorted_loop key check msg (key v) vs)"

definition tuples_msg :: string where
  "tuples_msg = ''tuples must be lexicographically sorted with no duplicates''"

definition validSortedDecimalPairs :: "lib \<Rightarrow> StringPair list \<Rightarrow> bool \<Rightarrow> unit res" where
  "validSortedDecimalPairs L values nonEmpty =
     (if nonEmpty \<and> values = [] then Inl ''values are required''
      else sorted_loop sp_Key (\<lambda>v. bind_res (validCoin (sp_Key v)) (\<lambda>_.
        guard_res (NewFromString L (sp_Value v) \<noteq> None) (sp_Key v @ '' is not a decimal'')))
        tuples_msg '''' values)"

definition validSortedUnsignedDecimalPairs :: "lib \<Rightarrow> StringPair list \<Rightarrow> unit res" where
  "validSortedUnsignedDecimalPairs L values =
     sorted_loop sp_Key (\<lambda>v. bind_res (validCoin (sp_Key v)) (\<lambda>_.
        guard_res (unsignedDecimal L (sp_Value v)) (sp_Key v @ '' is not an unsigned decimal'')))
        tuples_msg '''' values"

definition validSortedUintPairs :: "StringUintPair list \<Rightarrow> unit res" where
  "validSortedUintPairs values =
     sorted_loop su_Key (\<lambda>v. validCoin (su_Key v)) tuples_msg '''' values"

definition SortStringPairs :: "StringPair list \<Rightarrow> StringPair list" where
  "SortStringPairs values =
     sort_key sp_Key values"

section \<open>HIP-3 perpetual DEX variants\<close>

definition validMarginMode :: "string \<Rightarrow> bool \<Rightarrow> bool" where
  "validMarginMode m normal \<longleftrightarrow>
     m = ''strictIsolated'' \<or> m = ''noCross'' \<or> normal \<and> m = ''normal''"

record PerpDexSchemaInput =
  pd_FullName :: string
  pd_CollateralToken :: u64
  pd_OracleUpdater :: "string option"

definition PerpDexSchemaInput_validate :: "lib \<Rightarrow> PerpDexSchemaInput \<Rightarrow> unit res" where
  "PerpDexSchemaInput_validate L a =
     (if blank (pd_FullName a) then Inl ''perp dex full name is required''
      else if (case (pd_OracleUpdater a) of Some u \<Rightarrow> \<not> IsHexAddress L u | None \<Rightarrow> False)
      then Inl ''oracle updater is not an address''
      else Inr ())"

definition PerpDexSchemaInput_MarshalMsgpack :: "PerpDexSchemaInput \<Rightarrow> tok list" where
  "PerpDexSchemaInput_MarshalMsgpack a =
     EncodeMapLen 3 @ EncodePairs [(''fullName'', EncodeString (pd_FullName a)),
       (''collateralToken'', EncodeUint (pd_CollateralToken a)),
       (''oracleUpdater'', EncodePtr EncodeString (lowerAddressPtr (pd_OracleUpdater a)))]"

definition PerpDexSchemaInput_MarshalJSON :: "PerpDexSchemaInput \<Rightarrow> jval" where
  "PerpDexSchemaInput_MarshalJSON a =
     JObj [(''fullName'', JStr (pd_FullName a)), (''collateralToken'', json_uint (pd_CollateralToken a)),
       (''oracleUpdater'', json_ptr JStr (lowerAddressPtr (pd_OracleUpdater a)))]"

lemma PerpDexSchemaInput_wire [wire]:
  "PerpDexSchemaInput_MarshalMsgpack = (\<lambda>a. toks_of (PerpDexSchemaInput_MarshalJSON a))"
  by (rule ext) (simp add: PerpDexSchemaInput_MarshalMsgpack_def PerpDexSchemaInput_MarshalJSON_def enc_defs wire)

record RegisterAssetRequest =
  ra_Coin :: string
  ra_SzDecimals :: u8
  ra_OraclePx :: string
  ra_MarginTableID :: u64
  ra_OnlyIsolated :: bool

definition RegisterAssetRequest_MarshalMsgpack :: "RegisterAssetRequest \<Rightarrow> tok list" where
  "RegisterAssetRequest_MarshalMsgpack a =
     EncodeStruct [(''coin'', EncodeString (ra_Coin a)), (''szDecimals'', EncodeUint8 (ra_SzDecimals a)),
       (''oraclePx'', EncodeString (ra_OraclePx a)), (''marginTableId'', EncodeUint (ra_MarginTableID a)),
       (''onlyIsolated'', EncodeBool (ra_OnlyIsolated a))]"

definition RegisterAssetRequest_MarshalJSON :: "RegisterAssetRequest \<Rightarrow> jval" where
  "RegisterAssetRequest_MarshalJSON a =
     JObj [(''coin'', JStr (ra_Coin a)), (''szDecimals'', json_uint8 (ra_SzDecimals a)),
       (''oraclePx'', JStr (ra_OraclePx a)), (''marginTableId'', json_uint (ra_MarginTableID a)),
       (''onlyIsolated'', JBool (ra_OnlyIsolated a))]"

lemma RegisterAssetRequest_wire [wire]:
  "RegisterAssetRequest_MarshalMsgpack = (\<lambda>a. toks_of (RegisterAssetRequest_MarshalJSON a))"
  by (rule ext) (simp add: RegisterAssetRequest_MarshalMsgpack_def RegisterAssetRequest_MarshalJSON_def enc_defs wire)

definition RegisterAssetRequest_validate :: "lib \<Rightarrow> RegisterAssetRequest \<Rightarrow> unit res" where
  "RegisterAssetRequest_validate L a =
     bind_res (validCoinPrice L (ra_Coin a) (ra_OraclePx a)) (\<lambda>_.
      guard_res ((ra_MarginTableID a) \<noteq> 0) ''margin table ID must be non-zero'')"

record RegisterAssetRequest2 =
  rb_Coin :: string
  rb_SzDecimals :: u8
  rb_OraclePx :: string
  rb_MarginTableID :: u64
  rb_MarginMode :: string

definition RegisterAssetRequest2_MarshalMsgpack :: "RegisterAssetRequest2 \<Rightarrow> tok list" where
  "RegisterAssetRequest2_MarshalMsgpack a =
     EncodeStruct [(''coin'', EncodeString (rb_Coin a)), (''szDecimals'', EncodeUint8 (rb_SzDecimals a)),
       (''oraclePx'', EncodeString (rb_OraclePx a)), (''marginTableId'', EncodeUint (rb_MarginTableID a)),
       (''marginMode'', EncodeString (rb_MarginMode a))]"

definition RegisterAssetRequest2_MarshalJSON :: "RegisterAssetRequest2 \<Rightarrow> jval" where
  "RegisterAssetRequest2_MarshalJSON a =
     JObj [(''coin'', JStr (rb_Coin a)), (''szDecimals'', json_uint8 (rb_SzDecimals a)),
       (''oraclePx'', JStr (rb_OraclePx a)), (''marginTableId'', json_uint (rb_MarginTableID a)),
       (''marginMode'', JStr (rb_MarginMode a))]"

lemma RegisterAssetRequest2_wire [wire]:
  "RegisterAssetRequest2_MarshalMsgpack = (\<lambda>a. toks_of (RegisterAssetRequest2_MarshalJSON a))"
  by (rule ext) (simp add: RegisterAssetRequest2_MarshalMsgpack_def RegisterAssetRequest2_MarshalJSON_def enc_defs wire)

definition RegisterAssetRequest2_validate :: "lib \<Rightarrow> RegisterAssetRequest2 \<Rightarrow> unit res" where
  "RegisterAssetRequest2_validate L a =
     bind_res (validCoinPrice L (rb_Coin a) (rb_OraclePx a)) (\<lambda>_.
      bind_res (guard_res ((rb_MarginTableID a) \<noteq> 0) ''margin table ID must be non-zero'') (\<lambda>_.
      guard_res (validMarginMode (rb_MarginMode a) True) ''invalid margin mode''))"

definition marshalRegisterAsset ::
    "u64 option \<Rightarrow> tok list \<Rightarrow> string \<Rightarrow> PerpDexSchemaInput option \<Rightarrow> tok list" where
  "marshalRegisterAsset maxGas assetRequest dex schema =
     EncodeMapLen 4 @ EncodePairs [(''maxGas'', EncodePtr EncodeUint maxGas),
       (''assetRequest'', assetRequest), (''dex'', EncodeString dex),
       (''schema'', EncodePtr PerpDexSchemaInput_MarshalMsgpack schema)]"

record RegisterAsset =
  rg_MaxGas :: "u64 option"
  rg_AssetRequest :: RegisterAssetRequest
  rg_DEX :: string
  rg_Schema :: "PerpDexSchemaInput option"

definition RegisterAsset_validatePerpDeploy :: "lib \<Rightarrow> RegisterAsset \<Rightarrow> unit res" where
  "RegisterAsset_validatePerpDeploy L a =
     bind_res (validDEX (rg_DEX a)) (\<lambda>_.
      bind_res (RegisterAssetRequest_validate L (rg_AssetRequest a)) (\<lambda>_.
      case (rg_Schema a) of Some s \<Rightarrow> PerpDexSchemaInput_validate L s | None \<Rightarrow> Inr ()))"

definition RegisterAsset_MarshalMsgpack :: "RegisterAsset \<Rightarrow> tok list" where
  "RegisterAsset_MarshalMsgpack a =
     marshalRegisterAsset (rg_MaxGas a) (RegisterAssetRequest_MarshalMsgpack (rg_AssetRequest a))
       (rg_DEX a) (rg_Schema a)"

definition RegisterAsset_MarshalJSON :: "RegisterAsset \<Rightarrow> jval" where
  "RegisterAsset_MarshalJSON a =
     JObj [(''maxGas'', json_ptr json_uint (rg_MaxGas a)),
       (''assetRequest'', RegisterAssetRequest_MarshalJSON (rg_AssetRequest a)), (''dex'', JStr (rg_DEX a)),
       (''schema'', json_ptr PerpDexSchemaInput_MarshalJSON (rg_Schema a))]"

lemma RegisterAsset_wire [wire]:
  "RegisterAsset_MarshalMsgpack = (\<lambda>a. toks_of (RegisterAsset_MarshalJSON a))"
  by (rule ext) (simp add: RegisterAsset_MarshalMsgpack_def RegisterAsset_MarshalJSON_def enc_defs wire marshalRegisterAsset_def)

record RegisterAsset2 =
  rh_MaxGas :: "u64 option"
  rh_AssetRequest :: RegisterAssetRequest2
  rh_DEX :: string
  rh_Schema :: "PerpDexSchemaInput option"

definition RegisterAsset2_validatePerpDeploy :: "lib \<Rightarrow> RegisterAsset2 \<Rightarrow> unit res" where
  "RegisterAsset2_validatePerpDeploy L a =
     bind_res (validDEX (rh_DEX a)) (\<lambda>_.
      bind_res (RegisterAssetRequest2_validate L (rh_AssetRequest a)) (\<lambda>_.
      case (rh_Schema a) of Some s \<Rightarrow> PerpDexSchemaInput_validate L s | None \<Rightarrow> Inr ()))"

definition RegisterAsset2_MarshalMsgpack :: "RegisterAsset2 \<Rightarrow> tok list" where
  "RegisterAsset2_MarshalMsgpack a =
     marshalRegisterAsset (rh_MaxGas a) (RegisterAssetRequest2_MarshalMsgpack (rh_AssetRequest a))
       (rh_DEX a) (rh_Schema a)"

definition RegisterAsset2_MarshalJSON :: "RegisterAsset2 \<Rightarrow> jval" where
  "RegisterAsset2_MarshalJSON a =
     JObj [(''maxGas'', json_ptr json_uint (rh_MaxGas a)),
       (''assetRequest'', RegisterAssetRequest2_MarshalJSON (rh_AssetRequest a)), (''dex'', JStr (rh_DEX a)),
       (''schema'', json_ptr PerpDexSchemaInput_MarshalJSON (rh_Schema a))]"

lemma RegisterAsset2_wire [wire]:
  "RegisterAsset2_MarshalMsgpack = (\<lambda>a. toks_of (RegisterAsset2_MarshalJSON a))"
  by (rule ext) (simp add: RegisterAsset2_MarshalMsgpack_def RegisterAsset2_MarshalJSON_def enc_defs wire marshalRegisterAsset_def)

definition pairs_toks :: "StringPair list option \<Rightarrow> tok list" where
  "pairs_toks = EncodeSlice StringPair_MarshalMsgpack"

definition pairs_json :: "StringPair list option \<Rightarrow> jval" where
  "pairs_json = json_slice StringPair_MarshalJSON"

lemma pairs_wire [wire]: "pairs_toks = (\<lambda>p. toks_of (pairs_json p))"
  by (simp add: pairs_toks_def pairs_json_def wire)

record SetOracle =
  sor_DEX :: string
  sor_OraclePxs :: "StringPair list option"
  sor_MarkPxs :: "StringPair list option list option"
  sor_ExternalPerpPxs :: "StringPair list option"

definition SetOracle_MarshalMsgpack :: "SetOracle \<Rightarrow> tok list" where
  "SetOracle_MarshalMsgpack a =
     EncodeStruct [(''dex'', EncodeString (sor_DEX a)), (''oraclePxs'', pairs_toks (sor_OraclePxs a)),
       (''markPxs'', EncodeSlice pairs_toks (sor_MarkPxs a)),
       (''externalPerpPxs'', pairs_toks (sor_ExternalPerpPxs a))]"

definition SetOracle_MarshalJSON :: "SetOracle \<Rightarrow> jval" where
  "SetOracle_MarshalJSON a =
     JObj [(''dex'', JStr (sor_DEX a)), (''oraclePxs'', pairs_json (sor_OraclePxs a)),
       (''markPxs'', json_slice pairs_json (sor_MarkPxs a)),
       (''externalPerpPxs'', pairs_json (sor_ExternalPerpPxs a))]"

lemma SetOracle_wire [wire]:
  "SetOracle_MarshalMsgpack = (\<lambda>a. toks_of (SetOracle_MarshalJSON a))"
  by (rule ext) (simp add: SetOracle_MarshalMsgpack_def SetOracle_MarshalJSON_def enc_defs wire)

fun mark_prices_loop :: "lib \<Rightarrow> nat \<Rightarrow> StringPair list option list \<Rightarrow> unit res" where
  "mark_prices_loop L i [] = Inr ()"
| "mark_prices_loop L i (p # ps) =
     bind_res (wrap_res (''mark prices '' @ show_nat i)
       (validSortedUnsignedDecimalPairs L (elems p))) (\<lambda>_. mark_prices_loop L (Suc i) ps)"

definition SetOracle_validatePerpDeploy :: "lib \<Rightarrow> SetOracle \<Rightarrow> unit res" where
  "SetOracle_validatePerpDeploy L a =
     bind_res (validDEX (sor_DEX a)) (\<lambda>_.
      bind_res (wrap_res ''oracle prices''
        (validSortedUnsignedDecimalPairs L (elems (sor_OraclePxs a)))) (\<lambda>_.
      bind_res (wrap_res ''external perp prices''
        (validSortedUnsignedDecimalPairs L (elems (sor_ExternalPerpPxs a)))) (\<lambda>_.
      mark_prices_loop L 0 (elems (sor_MarkPxs a)))))"

record SetFundingMultipliers =
  fm_Values :: "StringPair list option"

definition SetFundingMultipliers_MarshalMsgpack :: "SetFundingMultipliers \<Rightarrow> tok list" where
  "SetFundingMultipliers_MarshalMsgpack a =
     EncodeSlice StringPair_MarshalMsgpack (fm_Values a)"

definition SetFundingMultipliers_MarshalJSON :: "SetFundingMultipliers \<Rightarrow> jval" where
  "SetFundingMultipliers_MarshalJSON a =
     json_slice StringPair_MarshalJSON (fm_Values a)"

lemma SetFundingMultipliers_wire [wire]:
  "SetFundingMultipliers_MarshalMsgpack = (\<lambda>a. toks_of (SetFundingMultipliers_MarshalJSON a))"
  by (rule ext) (simp add: SetFundingMultipliers_MarshalMsgpack_def SetFundingMultipliers_MarshalJSON_def enc_defs wire)

definition SetFundingMultipliers_validatePerpDeploy :: "lib \<Rightarrow> SetFundingMultipliers \<Rightarrow> unit res" where
  "SetFundingMultipliers_validatePerpDeploy L a =
     validSortedUnsignedDecimalPairs L (elems (fm_Values a))"

record SetFundingInterestRates =
  fi_Values :: "StringPair list option"

definition SetFundingInterestRates_MarshalMsgpack :: "SetFundingInterestRates \<Rightarrow> tok list" where
  "SetFundingInterestRates_MarshalMsgpack a =
     EncodeSlice StringPair_MarshalMsgpack (fi_Values a)"

definition SetFundingInterestRates_MarshalJSON :: "SetFundingInterestRates \<Rightarrow> jval" where
  "SetFundingInterestRates_MarshalJSON a =
     json_slice StringPair_MarshalJSON (fi_Values a)"

lemma SetFundingInterestRates_wire [wire]:
  "SetFundingInterestRates_MarshalMsgpack = (\<lambda>a. toks_of (SetFundingInterestRates_MarshalJSON a))"
  by (rule ext) (simp add: SetFundingInterestRates_MarshalMsgpack_def SetFundingInterestRates_MarshalJSON_def enc_defs wire)

definition SetFundingInterestRates_validatePerpDeploy :: "lib \<Rightarrow> SetFundingInterestRates \<Rightarrow> unit res" where
  "SetFundingInterestRates_validatePerpDeploy L a =
     bind_res (validSortedDecimalPairs L (elems (fi_Values a)) False) (\<lambda>_.
      guard_res (list_all (\<lambda>p. case NewFromString L (sp_Value p) of None \<Rightarrow> True
          | Some d \<Rightarrow> \<not> \<bar>d\<bar> > 1 / 100) (elems (fi_Values a)))
        ''funding interest rate out of range'')"

record HaltTrading =
  ht_Coin :: string
  ht_IsHalted :: bool

definition HaltTrading_MarshalMsgpack :: "HaltTrading \<Rightarrow> tok list" where
  "HaltTrading_MarshalMsgpack a =
     EncodeStruct [(''coin'', EncodeString (ht_Coin a)), (''isHalted'', EncodeBool (ht_IsHalted a))]"

definition HaltTrading_MarshalJSON :: "HaltTrading \<Rightarrow> jval" where
  "HaltTrading_MarshalJSON a =
     JObj [(''coin'', JStr (ht_Coin a)), (''isHalted'', JBool (ht_IsHalted a))]"

lemma HaltTrading_wire [wire]:
  "HaltTrading_MarshalMsgpack = (\<lambda>a. toks_of (HaltTrading_MarshalJSON a))"
  by (rule ext) (simp add: HaltTrading_MarshalMsgpack_def HaltTrading_MarshalJSON_def enc_defs wire)

definition HaltTrading_validatePerpDeploy :: "lib \<Rightarrow> HaltTrading \<Rightarrow> unit res" where
  "HaltTrading_validatePerpDeploy L a =
     validCoin (ht_Coin a)"

record SetMarginTableIDs =
  mt_Values :: "StringUintPair list option"

definition SetMarginTableIDs_MarshalMsgpack :: "SetMarginTableIDs \<Rightarrow> tok list" where
  "SetMarginTableIDs_MarshalMsgpack a =
     EncodeSlice StringUintPair_MarshalMsgpack (mt_Values a)"

definition SetMarginTableIDs_MarshalJSON :: "SetMarginTableIDs \<Rightarrow> jval" where
  "SetMarginTableIDs_MarshalJSON a =
     json_slice StringUintPair_MarshalJSON (mt_Values a)"

lemma SetMarginTableIDs_wire [wire]:
  "SetMarginTableIDs_MarshalMsgpack = (\<lambda>a. toks_of (SetMarginTableIDs_MarshalJSON a))"
  by (rule ext) (simp add: SetMarginTableIDs_MarshalMsgpack_def SetMarginTableIDs_MarshalJSON_def enc_defs wire)

definition SetMarginTableIDs_validatePerpDeploy :: "lib \<Rightarrow> SetMarginTableIDs \<Rightarrow> unit res" where
  "SetMarginTableIDs_validatePerpDeploy L a =
     bind_res (validSortedUintPairs (elems (mt_Values a))) (\<lambda>_.
      guard_res (list_all (\<lambda>v. su_Value v \<noteq> 0) (elems (mt_Values a)))
        ''margin table ID must be non-zero'')"

record RawMarginTier =
  rt_LowerBound :: u64
  rt_MaxLeverage :: u8

definition RawMarginTier_MarshalMsgpack :: "RawMarginTier \<Rightarrow> tok list" where
  "RawMarginTier_MarshalMsgpack a =
     EncodeStruct [(''lowerBound'', EncodeUint (rt_LowerBound a)), (''maxLeverage'', EncodeUint8 (rt_MaxLeverage a))]"

definition RawMarginTier_MarshalJSON :: "RawMarginTier \<Rightarrow> jval" where
  "RawMarginTier_MarshalJSON a =
     JObj [(''lowerBound'', json_uint (rt_LowerBound a)), (''maxLeverage'', json_uint8 (rt_MaxLeverage a))]"

lemma RawMarginTier_wire [wire]:
  "RawMarginTier_MarshalMsgpack = (\<lambda>a. toks_of (RawMarginTier_MarshalJSON a))"
  by (rule ext) (simp add: RawMarginTier_MarshalMsgpack_def RawMarginTier_MarshalJSON_def enc_defs wire)

record RawMarginTable =
  rm_Description :: string
  rm_MarginTiers :: "RawMarginTier list option"

definition RawMarginTable_MarshalMsgpack :: "RawMarginTable \<Rightarrow> tok list" where
  "RawMarginTable_MarshalMsgpack a =
     EncodeStruct [(''description'', EncodeString (rm_Description a)),
       (''marginTiers'', EncodeSlice RawMarginTier_MarshalMsgpack (rm_MarginTiers a))]"

definition RawMarginTable_MarshalJSON :: "RawMarginTable \<Rightarrow> jval" where
  "RawMarginTable_MarshalJSON a =
     JObj [(''description'', JStr (rm_Description a)),
       (''marginTiers'', json_slice RawMarginTier_MarshalJSON (rm_MarginTiers a))]"

lemma RawMarginTable_wire [wire]:
  "RawMarginTable_MarshalMsgpack = (\<lambda>a. toks_of (RawMarginTable_MarshalJSON a))"
  by (rule ext) (simp add: RawMarginTable_MarshalMsgpack_def RawMarginTable_MarshalJSON_def enc_defs wire)

record InsertMarginTable =
  im_DEX :: string
  im_MarginTable :: RawMarginTable

definition InsertMarginTable_MarshalMsgpack :: "InsertMarginTable \<Rightarrow> tok list" where
  "InsertMarginTable_MarshalMsgpack a =
     EncodeStruct [(''dex'', EncodeString (im_DEX a)),
       (''marginTable'', RawMarginTable_MarshalMsgpack (im_MarginTable a))]"

definition InsertMarginTable_MarshalJSON :: "InsertMarginTable \<Rightarrow> jval" where
  "InsertMarginTable_MarshalJSON a =
     JObj [(''dex'', JStr (im_DEX a)),
       (''marginTable'', RawMarginTable_MarshalJSON (im_MarginTable a))]"

lemma InsertMarginTable_wire [wire]:
  "InsertMarginTable_MarshalMsgpack = (\<lambda>a. toks_of (InsertMarginTable_MarshalJSON a))"
  by (rule ext) (simp add: InsertMarginTable_MarshalMsgpack_def InsertMarginTable_MarshalJSON_def enc_defs wire)

fun tiers_loop :: "RawMarginTier option \<Rightarrow> RawMarginTier list \<Rightarrow> unit res" where
  "tiers_loop prior [] = Inr ()"
| "tiers_loop prior (x # xs) =
     (if rt_MaxLeverage x < 1 \<or> rt_MaxLeverage x > 50 then Inl ''max leverage out of range''
      else if (case prior of None \<Rightarrow> False | Some p \<Rightarrow>
          rt_LowerBound x \<le> rt_LowerBound p \<or> rt_MaxLeverage x > rt_MaxLeverage p)
      then Inl ''margin tiers must increase lower bound and decrease max leverage''
      else tiers_loop (Some x) xs)"

definition InsertMarginTable_validatePerpDeploy :: "lib \<Rightarrow> InsertMarginTable \<Rightarrow> unit res" where
  "InsertMarginTable_validatePerpDeploy L a =
     (let tiers = elems (rm_MarginTiers (im_MarginTable a)) in
      bind_res (validDEX (im_DEX a)) (\<lambda>_.
      if tiers = [] \<or> length tiers > 3 then Inl ''margin table must contain one to three tiers''
      else if blank (rm_Description (im_MarginTable a))
      then Inl ''margin table description is required''
      else tiers_loop None tiers))"

record SetFeeRecipient =
  fr_DEX :: string
  fr_FeeRecipient :: string

definition SetFeeRecipient_validatePerpDeploy :: "lib \<Rightarrow> SetFeeRecipient \<Rightarrow> unit res" where
  "SetFeeRecipient_validatePerpDeploy L a =
     bind_res (validDEX (fr_DEX a)) (\<lambda>_.
      guard_res (IsHexAddress L (fr_FeeRecipient a)) ''fee recipient is not an address'')"

definition SetFeeRecipient_MarshalMsgpack :: "SetFeeRecipient \<Rightarrow> tok list" where
  "SetFeeRecipient_MarshalMsgpack a =
     EncodeMapLen 2 @ EncodeString ''dex'' @ EncodeString (fr_DEX a) @ EncodeString ''feeRecipient'' @
     EncodeString (to_lower (fr_FeeRecipient a))"

definition SetFeeRecipient_MarshalJSON :: "SetFeeRecipient \<Rightarrow> jval" where
  "SetFeeRecipient_MarshalJSON a =
     JObj [(''dex'', JStr (fr_DEX a)), (''feeRecipient'', JStr (to_lower (fr_FeeRecipient a)))]"

lemma SetFeeRecipient_wire [wire]:
  "SetFeeRecipient_MarshalMsgpack = (\<lambda>a. toks_of (SetFeeRecipient_MarshalJSON a))"
  by (rule ext) (simp add: SetFeeRecipient_MarshalMsgpack_def SetFeeRecipient_MarshalJSON_def enc_defs wire)

record SetOpenInterestCaps =
  oi_Values :: "StringUintPair list option"

definition SetOpenInterestCaps_MarshalMsgpack :: "SetOpenInterestCaps \<Rightarrow> tok list" where
  "SetOpenInterestCaps_MarshalMsgpack a =
     EncodeSlice StringUintPair_MarshalMsgpack (oi_Values a)"

definition SetOpenInterestCaps_MarshalJSON :: "SetOpenInterestCaps \<Rightarrow> jval" where
  "SetOpenInterestCaps_MarshalJSON a =
     json_slice StringUintPair_MarshalJSON (oi_Values a)"

lemma SetOpenInterestCaps_wire [wire]:
  "SetOpenInterestCaps_MarshalMsgpack = (\<lambda>a. toks_of (SetOpenInterestCaps_MarshalJSON a))"
  by (rule ext) (simp add: SetOpenInterestCaps_MarshalMsgpack_def SetOpenInterestCaps_MarshalJSON_def enc_defs wire)

definition SetOpenInterestCaps_validatePerpDeploy :: "lib \<Rightarrow> SetOpenInterestCaps \<Rightarrow> unit res" where
  "SetOpenInterestCaps_validatePerpDeploy L a =
     bind_res (validSortedUintPairs (elems (oi_Values a))) (\<lambda>_.
      guard_res (list_all (\<lambda>v. su_Value v \<noteq> 0) (elems (oi_Values a)))
        ''open interest cap must be positive'')"

record SubDeployerInput =
  sdi_Variant :: string
  sdi_User :: string
  sdi_Allowed :: bool

definition SubDeployerInput_MarshalMsgpack :: "SubDeployerInput \<Rightarrow> tok list" where
  "SubDeployerInput_MarshalMsgpack a =
     EncodeMapLen 3 @ EncodePairs [(''variant'', EncodeString (sdi_Variant a)),
       (''user'', EncodeString (to_lower (sdi_User a))), (''allowed'', EncodeBool (sdi_Allowed a))]"

definition SubDeployerInput_MarshalJSON :: "SubDeployerInput \<Rightarrow> jval" where
  "SubDeployerInput_MarshalJSON a =
     JObj [(''variant'', JStr (sdi_Variant a)), (''user'', JStr (to_lower (sdi_User a))),
       (''allowed'', JBool (sdi_Allowed a))]"

lemma SubDeployerInput_wire [wire]:
  "SubDeployerInput_MarshalMsgpack = (\<lambda>a. toks_of (SubDeployerInput_MarshalJSON a))"
  by (rule ext) (simp add: SubDeployerInput_MarshalMsgpack_def SubDeployerInput_MarshalJSON_def enc_defs wire)

record SetSubDeployers =
  ssd_DEX :: string
  ssd_SubDeployers :: "SubDeployerInput list option"

definition SetSubDeployers_MarshalMsgpack :: "SetSubDeployers \<Rightarrow> tok list" where
  "SetSubDeployers_MarshalMsgpack a =
     EncodeStruct [(''dex'', EncodeString (ssd_DEX a)),
       (''subDeployers'', EncodeSlice SubDeployerInput_MarshalMsgpack (ssd_SubDeployers a))]"

definition SetSubDeployers_MarshalJSON :: "SetSubDeployers \<Rightarrow> jval" where
  "SetSubDeployers_MarshalJSON a =
     JObj [(''dex'', JStr (ssd_DEX a)),
       (''subDeployers'', json_slice SubDeployerInput_MarshalJSON (ssd_SubDeployers a))]"

lemma SetSubDeployers_wire [wire]:
  "SetSubDeployers_MarshalMsgpack = (\<lambda>a. toks_of (SetSubDeployers_MarshalJSON a))"
  by (rule ext) (simp add: SetSubDeployers_MarshalMsgpack_def SetSubDeployers_MarshalJSON_def enc_defs wire)

fun sub_deployers_loop :: "lib \<Rightarrow> string \<Rightarrow> string \<Rightarrow> SubDeployerInput list \<Rightarrow> unit res" where
  "sub_deployers_loop L lastVariant lastUser [] = Inr ()"
| "sub_deployers_loop L lastVariant lastUser (s # ss) =
     (if blank (sdi_Variant s) \<or> \<not> IsHexAddress L (sdi_User s)
      then Inl ''sub deployer variant and address are required''
      else let user = to_lower (sdi_User s) in
        if lastVariant \<noteq> '''' \<and> (sdi_Variant s < lastVariant \<or>
            sdi_Variant s = lastVariant \<and> user \<le> lastUser)
        then Inl ''sub deployers must be strictly sorted by variant and user''
        else sub_deployers_loop L (sdi_Variant s) user ss)"

definition SetSubDeployers_validatePerpDeploy :: "lib \<Rightarrow> SetSubDeployers \<Rightarrow> unit res" where
  "SetSubDeployers_validatePerpDeploy L a =
     bind_res (validDEX (ssd_DEX a)) (\<lambda>_.
      if elems (ssd_SubDeployers a) = [] then Inl ''sub deployers are required''
      else sub_deployers_loop L '''' '''' (elems (ssd_SubDeployers a)))"

record CoinMarginMode =
  cmm_Coin :: string
  cmm_Mode :: string

definition CoinMarginMode_MarshalMsgpack :: "CoinMarginMode \<Rightarrow> tok list" where
  "CoinMarginMode_MarshalMsgpack a =
     EncodeArrayLen 2 @ EncodeString (cmm_Coin a) @ EncodeString (cmm_Mode a)"

definition CoinMarginMode_MarshalJSON :: "CoinMarginMode \<Rightarrow> jval" where
  "CoinMarginMode_MarshalJSON a =
     JArr [JStr (cmm_Coin a), JStr (cmm_Mode a)]"

lemma CoinMarginMode_wire [wire]:
  "CoinMarginMode_MarshalMsgpack = (\<lambda>a. toks_of (CoinMarginMode_MarshalJSON a))"
  by (rule ext) (simp add: CoinMarginMode_MarshalMsgpack_def CoinMarginMode_MarshalJSON_def enc_defs wire)

record SetMarginModes =
  smm_Values :: "CoinMarginMode list option"

definition SetMarginModes_MarshalMsgpack :: "SetMarginModes \<Rightarrow> tok list" where
  "SetMarginModes_MarshalMsgpack a =
     EncodeSlice CoinMarginMode_MarshalMsgpack (smm_Values a)"

definition SetMarginModes_MarshalJSON :: "SetMarginModes \<Rightarrow> jval" where
  "SetMarginModes_MarshalJSON a =
     json_slice CoinMarginMode_MarshalJSON (smm_Values a)"

lemma SetMarginModes_wire [wire]:
  "SetMarginModes_MarshalMsgpack = (\<lambda>a. toks_of (SetMarginModes_MarshalJSON a))"
  by (rule ext) (simp add: SetMarginModes_MarshalMsgpack_def SetMarginModes_MarshalJSON_def enc_defs wire)

definition SetMarginModes_validatePerpDeploy :: "lib \<Rightarrow> SetMarginModes \<Rightarrow> unit res" where
  "SetMarginModes_validatePerpDeploy L a =
     sorted_loop cmm_Coin (\<lambda>v. bind_res (validCoin (cmm_Coin v)) (\<lambda>_.
        guard_res (validMarginMode (cmm_Mode v) False)
          ''margin mode must be strictIsolated or noCross''))
        ''margin modes must be strictly sorted'' '''' (elems (smm_Values a))"

record SetFeeScale =
  fs_DEX :: string
  fs_Scale :: string

definition SetFeeScale_MarshalMsgpack :: "SetFeeScale \<Rightarrow> tok list" where
  "SetFeeScale_MarshalMsgpack a =
     EncodeStruct [(''dex'', EncodeString (fs_DEX a)), (''scale'', EncodeString (fs_Scale a))]"

definition SetFeeScale_MarshalJSON :: "SetFeeScale \<Rightarrow> jval" where
  "SetFeeScale_MarshalJSON a =
     JObj [(''dex'', JStr (fs_DEX a)), (''scale'', JStr (fs_Scale a))]"

lemma SetFeeScale_wire [wire]:
  "SetFeeScale_MarshalMsgpack = (\<lambda>a. toks_of (SetFeeScale_MarshalJSON a))"
  by (rule ext) (simp add: SetFeeScale_MarshalMsgpack_def SetFeeScale_MarshalJSON_def enc_defs wire)

definition SetFeeScale_validatePerpDeploy :: "lib \<Rightarrow> SetFeeScale \<Rightarrow> unit res" where
  "SetFeeScale_validatePerpDeploy L a =
     bind_res (validDEX (fs_DEX a)) (\<lambda>_.
      guard_res (case NewFromString L (fs_Scale a) of None \<Rightarrow> False | Some d \<Rightarrow> \<not> (d < 0 \<or> d > 3))
        ''fee scale must be between 0 and 3'')"

record SetGrowthModes =
  sg_Values :: "StringBoolPair list option"

definition SetGrowthModes_MarshalMsgpack :: "SetGrowthModes \<Rightarrow> tok list" where
  "SetGrowthModes_MarshalMsgpack a =
     EncodeSlice StringBoolPair_MarshalMsgpack (sg_Values a)"

definition SetGrowthModes_MarshalJSON :: "SetGrowthModes \<Rightarrow> jval" where
  "SetGrowthModes_MarshalJSON a =
     json_slice StringBoolPair_MarshalJSON (sg_Values a)"

lemma SetGrowthModes_wire [wire]:
  "SetGrowthModes_MarshalMsgpack = (\<lambda>a. toks_of (SetGrowthModes_MarshalJSON a))"
  by (rule ext) (simp add: SetGrowthModes_MarshalMsgpack_def SetGrowthModes_MarshalJSON_def enc_defs wire)

definition SetGrowthModes_validatePerpDeploy :: "lib \<Rightarrow> SetGrowthModes \<Rightarrow> unit res" where
  "SetGrowthModes_validatePerpDeploy L a =
     sorted_loop sb_Key (\<lambda>v. validCoin (sb_Key v))
        ''growth modes must be strictly sorted'' '''' (elems (sg_Values a))"

text \<open>
  \<^verbatim>\<open>utf8.RuneCountInString\<close>: a well-formed sequence is one rune, any other byte is one.
\<close>

definition cont :: "nat \<Rightarrow> nat \<Rightarrow> nat \<Rightarrow> bool" where "cont lo hi b \<longleftrightarrow> lo \<le> b \<and> b \<le> hi"

definition rune_len :: "nat list \<Rightarrow> nat" where
  "rune_len bs = (case bs of
       b # c # d # e # _ \<Rightarrow>
         (if cont 0xc2 0xdf b \<and> cont 0x80 0xbf c then 2
          else if (b = 0xe0 \<and> cont 0xa0 0xbf c \<or> b = 0xed \<and> cont 0x80 0x9f c \<or>
              (cont 0xe1 0xec b \<or> cont 0xee 0xef b) \<and> cont 0x80 0xbf c) \<and> cont 0x80 0xbf d then 3
          else if (b = 0xf0 \<and> cont 0x90 0xbf c \<or> b = 0xf4 \<and> cont 0x80 0x8f c \<or>
              cont 0xf1 0xf3 b \<and> cont 0x80 0xbf c) \<and> cont 0x80 0xbf d \<and> cont 0x80 0xbf e then 4
          else 1)
     | [b, c, d] \<Rightarrow>
         (if cont 0xc2 0xdf b \<and> cont 0x80 0xbf c then 2
          else if (b = 0xe0 \<and> cont 0xa0 0xbf c \<or> b = 0xed \<and> cont 0x80 0x9f c \<or>
              (cont 0xe1 0xec b \<or> cont 0xee 0xef b) \<and> cont 0x80 0xbf c) \<and> cont 0x80 0xbf d then 3
          else 1)
     | [b, c] \<Rightarrow> (if cont 0xc2 0xdf b \<and> cont 0x80 0xbf c then 2 else 1)
     | _ \<Rightarrow> 1)"

fun rune_count_bytes :: "nat list \<Rightarrow> nat" where
  "rune_count_bytes [] = 0"
| "rune_count_bytes (b # bs) = Suc (rune_count_bytes (drop (rune_len (b # bs) - 1) bs))"

definition RuneCountInString :: "string \<Rightarrow> nat" where
  "RuneCountInString s = rune_count_bytes (map of_char s)"

lemma RuneCountInString_le: "RuneCountInString s \<le> length s"
proof -
  have "rune_count_bytes bs \<le> length bs" for bs
    by (induction bs rule: rune_count_bytes.induct) (auto intro: le_trans)
  then show ?thesis by (metis RuneCountInString_def length_map)
qed

record SetPerpAnnotation =
  spa_Coin :: string
  spa_Category :: string
  spa_Description :: string
  spa_DisplayName :: "string option"
  spa_Keywords :: "string list option"

definition SetPerpAnnotation_MarshalMsgpack :: "SetPerpAnnotation \<Rightarrow> tok list" where
  "SetPerpAnnotation_MarshalMsgpack a =
     EncodeStruct [(''coin'', EncodeString (spa_Coin a)), (''category'', EncodeString (spa_Category a)),
       (''description'', EncodeString (spa_Description a)),
       (''displayName'', EncodePtr EncodeString (spa_DisplayName a)),
       (''keywords'', EncodeSlice EncodeString (spa_Keywords a))]"

definition SetPerpAnnotation_MarshalJSON :: "SetPerpAnnotation \<Rightarrow> jval" where
  "SetPerpAnnotation_MarshalJSON a =
     JObj [(''coin'', JStr (spa_Coin a)), (''category'', JStr (spa_Category a)),
       (''description'', JStr (spa_Description a)), (''displayName'', json_ptr JStr (spa_DisplayName a)),
       (''keywords'', json_slice JStr (spa_Keywords a))]"

lemma SetPerpAnnotation_wire [wire]:
  "SetPerpAnnotation_MarshalMsgpack = (\<lambda>a. toks_of (SetPerpAnnotation_MarshalJSON a))"
  by (rule ext) (simp add: SetPerpAnnotation_MarshalMsgpack_def SetPerpAnnotation_MarshalJSON_def enc_defs wire)

definition SetPerpAnnotation_validatePerpDeploy :: "lib \<Rightarrow> SetPerpAnnotation \<Rightarrow> unit res" where
  "SetPerpAnnotation_validatePerpDeploy L a =
     bind_res (validCoin (spa_Coin a)) (\<lambda>_.
      if RuneCountInString (spa_Category a) > 15 \<or> RuneCountInString (spa_Description a) > 400
      then Inl ''annotation category or description exceeds protocol limit''
      else guard_res (list_all (\<lambda>k. \<not> blank k) (elems (spa_Keywords a))) ''annotation keyword is empty'')"

text \<open>\<^verbatim>\<open>DisableDEX\<close> is a string.\<close>

type_synonym DisableDEX = string

definition DisableDEX_MarshalMsgpack :: "DisableDEX \<Rightarrow> tok list" where
  "DisableDEX_MarshalMsgpack a =
     EncodeString a"

definition DisableDEX_MarshalJSON :: "DisableDEX \<Rightarrow> jval" where
  "DisableDEX_MarshalJSON a =
     JStr a"

lemma DisableDEX_wire [wire]:
  "DisableDEX_MarshalMsgpack = (\<lambda>a. toks_of (DisableDEX_MarshalJSON a))"
  by (rule ext) (simp add: DisableDEX_MarshalMsgpack_def DisableDEX_MarshalJSON_def enc_defs wire)

definition DisableDEX_validatePerpDeploy :: "lib \<Rightarrow> DisableDEX \<Rightarrow> unit res" where
  "DisableDEX_validatePerpDeploy L a =
     validDEX a"

datatype PerpDeployVariant =
    PRegisterAsset RegisterAsset
  | PRegisterAsset2 RegisterAsset2
  | PSetOracle SetOracle
  | PSetFundingMultipliers SetFundingMultipliers
  | PSetFundingInterestRates SetFundingInterestRates
  | PHaltTrading HaltTrading
  | PSetMarginTableIDs SetMarginTableIDs
  | PInsertMarginTable InsertMarginTable
  | PSetFeeRecipient SetFeeRecipient
  | PSetOpenInterestCaps SetOpenInterestCaps
  | PSetSubDeployers SetSubDeployers
  | PSetMarginModes SetMarginModes
  | PSetFeeScale SetFeeScale
  | PSetGrowthModes SetGrowthModes
  | PSetPerpAnnotation SetPerpAnnotation
  | PDisableDEX DisableDEX

fun perpDeployKey :: "PerpDeployVariant \<Rightarrow> string" where
  "perpDeployKey (PRegisterAsset a) = ''registerAsset''"
| "perpDeployKey (PRegisterAsset2 a) = ''registerAsset2''"
| "perpDeployKey (PSetOracle a) = ''setOracle''"
| "perpDeployKey (PSetFundingMultipliers a) = ''setFundingMultipliers''"
| "perpDeployKey (PSetFundingInterestRates a) = ''setFundingInterestRates''"
| "perpDeployKey (PHaltTrading a) = ''haltTrading''"
| "perpDeployKey (PSetMarginTableIDs a) = ''setMarginTableIds''"
| "perpDeployKey (PInsertMarginTable a) = ''insertMarginTable''"
| "perpDeployKey (PSetFeeRecipient a) = ''setFeeRecipient''"
| "perpDeployKey (PSetOpenInterestCaps a) = ''setOpenInterestCaps''"
| "perpDeployKey (PSetSubDeployers a) = ''setSubDeployers''"
| "perpDeployKey (PSetMarginModes a) = ''setMarginModes''"
| "perpDeployKey (PSetFeeScale a) = ''setFeeScale''"
| "perpDeployKey (PSetGrowthModes a) = ''setGrowthModes''"
| "perpDeployKey (PSetPerpAnnotation a) = ''setPerpAnnotation''"
| "perpDeployKey (PDisableDEX a) = ''disableDex''"

fun validatePerpDeploy :: "lib \<Rightarrow> PerpDeployVariant \<Rightarrow> unit res" where
  "validatePerpDeploy L (PRegisterAsset a) = RegisterAsset_validatePerpDeploy L a"
| "validatePerpDeploy L (PRegisterAsset2 a) = RegisterAsset2_validatePerpDeploy L a"
| "validatePerpDeploy L (PSetOracle a) = SetOracle_validatePerpDeploy L a"
| "validatePerpDeploy L (PSetFundingMultipliers a) = SetFundingMultipliers_validatePerpDeploy L a"
| "validatePerpDeploy L (PSetFundingInterestRates a) = SetFundingInterestRates_validatePerpDeploy L a"
| "validatePerpDeploy L (PHaltTrading a) = HaltTrading_validatePerpDeploy L a"
| "validatePerpDeploy L (PSetMarginTableIDs a) = SetMarginTableIDs_validatePerpDeploy L a"
| "validatePerpDeploy L (PInsertMarginTable a) = InsertMarginTable_validatePerpDeploy L a"
| "validatePerpDeploy L (PSetFeeRecipient a) = SetFeeRecipient_validatePerpDeploy L a"
| "validatePerpDeploy L (PSetOpenInterestCaps a) = SetOpenInterestCaps_validatePerpDeploy L a"
| "validatePerpDeploy L (PSetSubDeployers a) = SetSubDeployers_validatePerpDeploy L a"
| "validatePerpDeploy L (PSetMarginModes a) = SetMarginModes_validatePerpDeploy L a"
| "validatePerpDeploy L (PSetFeeScale a) = SetFeeScale_validatePerpDeploy L a"
| "validatePerpDeploy L (PSetGrowthModes a) = SetGrowthModes_validatePerpDeploy L a"
| "validatePerpDeploy L (PSetPerpAnnotation a) = SetPerpAnnotation_validatePerpDeploy L a"
| "validatePerpDeploy L (PDisableDEX a) = DisableDEX_validatePerpDeploy L a"

fun PerpDeployVariant_MarshalMsgpack :: "PerpDeployVariant \<Rightarrow> tok list" where
  "PerpDeployVariant_MarshalMsgpack (PRegisterAsset a) = RegisterAsset_MarshalMsgpack a"
| "PerpDeployVariant_MarshalMsgpack (PRegisterAsset2 a) = RegisterAsset2_MarshalMsgpack a"
| "PerpDeployVariant_MarshalMsgpack (PSetOracle a) = SetOracle_MarshalMsgpack a"
| "PerpDeployVariant_MarshalMsgpack (PSetFundingMultipliers a) = SetFundingMultipliers_MarshalMsgpack a"
| "PerpDeployVariant_MarshalMsgpack (PSetFundingInterestRates a) = SetFundingInterestRates_MarshalMsgpack a"
| "PerpDeployVariant_MarshalMsgpack (PHaltTrading a) = HaltTrading_MarshalMsgpack a"
| "PerpDeployVariant_MarshalMsgpack (PSetMarginTableIDs a) = SetMarginTableIDs_MarshalMsgpack a"
| "PerpDeployVariant_MarshalMsgpack (PInsertMarginTable a) = InsertMarginTable_MarshalMsgpack a"
| "PerpDeployVariant_MarshalMsgpack (PSetFeeRecipient a) = SetFeeRecipient_MarshalMsgpack a"
| "PerpDeployVariant_MarshalMsgpack (PSetOpenInterestCaps a) = SetOpenInterestCaps_MarshalMsgpack a"
| "PerpDeployVariant_MarshalMsgpack (PSetSubDeployers a) = SetSubDeployers_MarshalMsgpack a"
| "PerpDeployVariant_MarshalMsgpack (PSetMarginModes a) = SetMarginModes_MarshalMsgpack a"
| "PerpDeployVariant_MarshalMsgpack (PSetFeeScale a) = SetFeeScale_MarshalMsgpack a"
| "PerpDeployVariant_MarshalMsgpack (PSetGrowthModes a) = SetGrowthModes_MarshalMsgpack a"
| "PerpDeployVariant_MarshalMsgpack (PSetPerpAnnotation a) = SetPerpAnnotation_MarshalMsgpack a"
| "PerpDeployVariant_MarshalMsgpack (PDisableDEX a) = DisableDEX_MarshalMsgpack a"

fun PerpDeployVariant_MarshalJSON :: "PerpDeployVariant \<Rightarrow> jval" where
  "PerpDeployVariant_MarshalJSON (PRegisterAsset a) = RegisterAsset_MarshalJSON a"
| "PerpDeployVariant_MarshalJSON (PRegisterAsset2 a) = RegisterAsset2_MarshalJSON a"
| "PerpDeployVariant_MarshalJSON (PSetOracle a) = SetOracle_MarshalJSON a"
| "PerpDeployVariant_MarshalJSON (PSetFundingMultipliers a) = SetFundingMultipliers_MarshalJSON a"
| "PerpDeployVariant_MarshalJSON (PSetFundingInterestRates a) = SetFundingInterestRates_MarshalJSON a"
| "PerpDeployVariant_MarshalJSON (PHaltTrading a) = HaltTrading_MarshalJSON a"
| "PerpDeployVariant_MarshalJSON (PSetMarginTableIDs a) = SetMarginTableIDs_MarshalJSON a"
| "PerpDeployVariant_MarshalJSON (PInsertMarginTable a) = InsertMarginTable_MarshalJSON a"
| "PerpDeployVariant_MarshalJSON (PSetFeeRecipient a) = SetFeeRecipient_MarshalJSON a"
| "PerpDeployVariant_MarshalJSON (PSetOpenInterestCaps a) = SetOpenInterestCaps_MarshalJSON a"
| "PerpDeployVariant_MarshalJSON (PSetSubDeployers a) = SetSubDeployers_MarshalJSON a"
| "PerpDeployVariant_MarshalJSON (PSetMarginModes a) = SetMarginModes_MarshalJSON a"
| "PerpDeployVariant_MarshalJSON (PSetFeeScale a) = SetFeeScale_MarshalJSON a"
| "PerpDeployVariant_MarshalJSON (PSetGrowthModes a) = SetGrowthModes_MarshalJSON a"
| "PerpDeployVariant_MarshalJSON (PSetPerpAnnotation a) = SetPerpAnnotation_MarshalJSON a"
| "PerpDeployVariant_MarshalJSON (PDisableDEX a) = DisableDEX_MarshalJSON a"

lemma PerpDeployVariant_wire [wire]: "PerpDeployVariant_MarshalMsgpack = (\<lambda>v. toks_of (PerpDeployVariant_MarshalJSON v))"
proof
  fix v
  show "PerpDeployVariant_MarshalMsgpack v = toks_of (PerpDeployVariant_MarshalJSON v)"
    by (cases v) (simp_all only: PerpDeployVariant_MarshalMsgpack.simps PerpDeployVariant_MarshalJSON.simps
      RegisterAsset_wire RegisterAsset2_wire SetOracle_wire SetFundingMultipliers_wire SetFundingInterestRates_wire HaltTrading_wire SetMarginTableIDs_wire InsertMarginTable_wire SetFeeRecipient_wire SetOpenInterestCaps_wire SetSubDeployers_wire SetMarginModes_wire SetFeeScale_wire SetGrowthModes_wire SetPerpAnnotation_wire DisableDEX_wire)
qed

section \<open>HIP-1 and HIP-2 spot variants\<close>

record TokenSpec =
  ts_Name :: string
  ts_SzDecimals :: u8
  ts_WeiDecimals :: u8

definition TokenSpec_MarshalMsgpack :: "TokenSpec \<Rightarrow> tok list" where
  "TokenSpec_MarshalMsgpack a =
     EncodeStruct [(''name'', EncodeString (ts_Name a)), (''szDecimals'', EncodeUint8 (ts_SzDecimals a)),
       (''weiDecimals'', EncodeUint8 (ts_WeiDecimals a))]"

definition TokenSpec_MarshalJSON :: "TokenSpec \<Rightarrow> jval" where
  "TokenSpec_MarshalJSON a =
     JObj [(''name'', JStr (ts_Name a)), (''szDecimals'', json_uint8 (ts_SzDecimals a)),
       (''weiDecimals'', json_uint8 (ts_WeiDecimals a))]"

lemma TokenSpec_wire [wire]:
  "TokenSpec_MarshalMsgpack = (\<lambda>a. toks_of (TokenSpec_MarshalJSON a))"
  by (rule ext) (simp add: TokenSpec_MarshalMsgpack_def TokenSpec_MarshalJSON_def enc_defs wire)

record RegisterToken2 =
  rk_Spec :: TokenSpec
  rk_MaxGas :: u64
  rk_FullName :: "string option"

definition RegisterToken2_MarshalMsgpack :: "RegisterToken2 \<Rightarrow> tok list" where
  "RegisterToken2_MarshalMsgpack a =
     EncodeStruct ([(''spec'', TokenSpec_MarshalMsgpack (rk_Spec a)), (''maxGas'', EncodeUint (rk_MaxGas a))] @
       enc_omit ''fullName'' EncodeString (rk_FullName a))"

definition RegisterToken2_MarshalJSON :: "RegisterToken2 \<Rightarrow> jval" where
  "RegisterToken2_MarshalJSON a =
     JObj ([(''spec'', TokenSpec_MarshalJSON (rk_Spec a)), (''maxGas'', json_uint (rk_MaxGas a))] @
       omit ''fullName'' JStr (rk_FullName a))"

lemma RegisterToken2_wire [wire]:
  "RegisterToken2_MarshalMsgpack = (\<lambda>a. toks_of (RegisterToken2_MarshalJSON a))"
  by (rule ext) (simp add: RegisterToken2_MarshalMsgpack_def RegisterToken2_MarshalJSON_def enc_defs wire omit_def enc_omit_def split: option.splits)

definition RegisterToken2_validateSpotDeploy :: "lib \<Rightarrow> RegisterToken2 \<Rightarrow> unit res" where
  "RegisterToken2_validateSpotDeploy L a =
     guard_res (\<not> blank (ts_Name (rk_Spec a))) ''token name is required''"

record AddressWei =
  aw_User :: string
  aw_Wei :: string

definition AddressWei_MarshalMsgpack :: "AddressWei \<Rightarrow> tok list" where
  "AddressWei_MarshalMsgpack a =
     EncodeArrayLen 2 @ EncodeString (to_lower (aw_User a)) @ EncodeString (aw_Wei a)"

definition AddressWei_MarshalJSON :: "AddressWei \<Rightarrow> jval" where
  "AddressWei_MarshalJSON a =
     JArr [JStr (to_lower (aw_User a)), JStr (aw_Wei a)]"

lemma AddressWei_wire [wire]:
  "AddressWei_MarshalMsgpack = (\<lambda>a. toks_of (AddressWei_MarshalJSON a))"
  by (rule ext) (simp add: AddressWei_MarshalMsgpack_def AddressWei_MarshalJSON_def enc_defs wire)

record TokenWei =
  tkw_Token :: u64
  tkw_Wei :: string

definition TokenWei_MarshalMsgpack :: "TokenWei \<Rightarrow> tok list" where
  "TokenWei_MarshalMsgpack a =
     EncodeArrayLen 2 @ EncodeUint (tkw_Token a) @ EncodeString (tkw_Wei a)"

definition TokenWei_MarshalJSON :: "TokenWei \<Rightarrow> jval" where
  "TokenWei_MarshalJSON a =
     JArr [json_uint (tkw_Token a), JStr (tkw_Wei a)]"

lemma TokenWei_wire [wire]:
  "TokenWei_MarshalMsgpack = (\<lambda>a. toks_of (TokenWei_MarshalJSON a))"
  by (rule ext) (simp add: TokenWei_MarshalMsgpack_def TokenWei_MarshalJSON_def enc_defs wire)

record AddressBlacklist =
  ab_User :: string
  ab_Blacklisted :: bool

definition AddressBlacklist_MarshalMsgpack :: "AddressBlacklist \<Rightarrow> tok list" where
  "AddressBlacklist_MarshalMsgpack a =
     EncodeArrayLen 2 @ EncodeString (to_lower (ab_User a)) @ EncodeBool (ab_Blacklisted a)"

definition AddressBlacklist_MarshalJSON :: "AddressBlacklist \<Rightarrow> jval" where
  "AddressBlacklist_MarshalJSON a =
     JArr [JStr (to_lower (ab_User a)), JBool (ab_Blacklisted a)]"

lemma AddressBlacklist_wire [wire]:
  "AddressBlacklist_MarshalMsgpack = (\<lambda>a. toks_of (AddressBlacklist_MarshalJSON a))"
  by (rule ext) (simp add: AddressBlacklist_MarshalMsgpack_def AddressBlacklist_MarshalJSON_def enc_defs wire)

record UserGenesis =
  ug_Token :: u64
  ug_UserAndWei :: "AddressWei list option"
  ug_ExistingTokenAndWei :: "TokenWei list option"
  ug_BlacklistUsers :: "AddressBlacklist list option"

definition UserGenesis_MarshalMsgpack :: "UserGenesis \<Rightarrow> tok list" where
  "UserGenesis_MarshalMsgpack a =
     EncodeStruct ([(''token'', EncodeUint (ug_Token a)),
       (''userAndWei'', EncodeSlice AddressWei_MarshalMsgpack (ug_UserAndWei a)),
       (''existingTokenAndWei'', EncodeSlice TokenWei_MarshalMsgpack (ug_ExistingTokenAndWei a))] @
       enc_omit_empty ''blacklistUsers'' AddressBlacklist_MarshalMsgpack (ug_BlacklistUsers a))"

definition UserGenesis_MarshalJSON :: "UserGenesis \<Rightarrow> jval" where
  "UserGenesis_MarshalJSON a =
     JObj ([(''token'', json_uint (ug_Token a)),
       (''userAndWei'', json_slice AddressWei_MarshalJSON (ug_UserAndWei a)),
       (''existingTokenAndWei'', json_slice TokenWei_MarshalJSON (ug_ExistingTokenAndWei a))] @
       omit_empty ''blacklistUsers'' AddressBlacklist_MarshalJSON (ug_BlacklistUsers a))"

lemma UserGenesis_wire [wire]:
  "UserGenesis_MarshalMsgpack = (\<lambda>a. toks_of (UserGenesis_MarshalJSON a))"
  by (rule ext) (simp add: UserGenesis_MarshalMsgpack_def UserGenesis_MarshalJSON_def enc_defs wire omit_empty_def enc_omit_empty_def EncodeSlice_def toks_list_map split: option.splits list.splits)

definition UserGenesis_validateSpotDeploy :: "lib \<Rightarrow> UserGenesis \<Rightarrow> unit res" where
  "UserGenesis_validateSpotDeploy L a =
     bind_res (guard_res (list_all (\<lambda>p. IsHexAddress L (aw_User p) \<and> unsignedDecimal L (aw_Wei p))
        (elems (ug_UserAndWei a))) ''invalid user genesis allocation'') (\<lambda>_.
      bind_res (guard_res (list_all (\<lambda>p. unsignedDecimal L (tkw_Wei p))
        (elems (ug_ExistingTokenAndWei a))) ''invalid existing token genesis allocation'') (\<lambda>_.
      guard_res (list_all (\<lambda>p. IsHexAddress L (ab_User p)) (elems (ug_BlacklistUsers a)))
        ''invalid blacklist address''))"

record Genesis =
  gn_Token :: u64
  gn_MaxSupply :: string
  gn_NoHyperliquidity :: bool

definition Genesis_MarshalMsgpack :: "Genesis \<Rightarrow> tok list" where
  "Genesis_MarshalMsgpack a =
     EncodeStruct ([(''token'', EncodeUint (gn_Token a)), (''maxSupply'', EncodeString (gn_MaxSupply a))] @
       (if (gn_NoHyperliquidity a) then [(''noHyperliquidity'', EncodeBool True)] else []))"

definition Genesis_MarshalJSON :: "Genesis \<Rightarrow> jval" where
  "Genesis_MarshalJSON a =
     JObj ([(''token'', json_uint (gn_Token a)), (''maxSupply'', JStr (gn_MaxSupply a))] @
       (if (gn_NoHyperliquidity a) then [(''noHyperliquidity'', JBool True)] else []))"

lemma Genesis_wire [wire]:
  "Genesis_MarshalMsgpack = (\<lambda>a. toks_of (Genesis_MarshalJSON a))"
  by (rule ext) (simp add: Genesis_MarshalMsgpack_def Genesis_MarshalJSON_def enc_defs wire)

definition Genesis_validateSpotDeploy :: "lib \<Rightarrow> Genesis \<Rightarrow> unit res" where
  "Genesis_validateSpotDeploy L a =
     guard_res (unsignedDecimal L (gn_MaxSupply a)) ''max supply must be an unsigned decimal string''"

record RegisterSpot =
  rs_Tokens :: "u64 \<times> u64"

definition RegisterSpot_MarshalMsgpack :: "RegisterSpot \<Rightarrow> tok list" where
  "RegisterSpot_MarshalMsgpack a =
     EncodeStruct ([(''tokens'', EncodeArrayLen 2 @ EncodeUint (fst (rs_Tokens a)) @ EncodeUint (snd (rs_Tokens a)))])"

definition RegisterSpot_MarshalJSON :: "RegisterSpot \<Rightarrow> jval" where
  "RegisterSpot_MarshalJSON a =
     JObj [(''tokens'', JArr [json_uint (fst (rs_Tokens a)), json_uint (snd (rs_Tokens a))])]"

lemma RegisterSpot_wire [wire]:
  "RegisterSpot_MarshalMsgpack = (\<lambda>a. toks_of (RegisterSpot_MarshalJSON a))"
  by (rule ext) (simp add: RegisterSpot_MarshalMsgpack_def RegisterSpot_MarshalJSON_def enc_defs wire)

definition RegisterSpot_validateSpotDeploy :: "lib \<Rightarrow> RegisterSpot \<Rightarrow> unit res" where
  "RegisterSpot_validateSpotDeploy L a =
     guard_res (fst (rs_Tokens a) \<noteq> snd (rs_Tokens a)) ''base and quote token must differ''"

record RegisterHyperliquidity =
  rl_Spot :: u64
  rl_StartPx :: string
  rl_OrderSz :: string
  rl_NOrders :: u64
  rl_NSeededLevels :: "u64 option"

definition RegisterHyperliquidity_MarshalMsgpack :: "RegisterHyperliquidity \<Rightarrow> tok list" where
  "RegisterHyperliquidity_MarshalMsgpack a =
     EncodeStruct ([(''spot'', EncodeUint (rl_Spot a)), (''startPx'', EncodeString (rl_StartPx a)),
       (''orderSz'', EncodeString (rl_OrderSz a)), (''nOrders'', EncodeUint (rl_NOrders a))] @
       enc_omit ''nSeededLevels'' EncodeUint (rl_NSeededLevels a))"

definition RegisterHyperliquidity_MarshalJSON :: "RegisterHyperliquidity \<Rightarrow> jval" where
  "RegisterHyperliquidity_MarshalJSON a =
     JObj ([(''spot'', json_uint (rl_Spot a)), (''startPx'', JStr (rl_StartPx a)),
       (''orderSz'', JStr (rl_OrderSz a)), (''nOrders'', json_uint (rl_NOrders a))] @
       omit ''nSeededLevels'' json_uint (rl_NSeededLevels a))"

lemma RegisterHyperliquidity_wire [wire]:
  "RegisterHyperliquidity_MarshalMsgpack = (\<lambda>a. toks_of (RegisterHyperliquidity_MarshalJSON a))"
  by (rule ext) (simp add: RegisterHyperliquidity_MarshalMsgpack_def RegisterHyperliquidity_MarshalJSON_def enc_defs wire omit_def enc_omit_def split: option.splits)

definition RegisterHyperliquidity_validateSpotDeploy :: "lib \<Rightarrow> RegisterHyperliquidity \<Rightarrow> unit res" where
  "RegisterHyperliquidity_validateSpotDeploy L a =
     guard_res (positiveDecimal L (rl_StartPx a) \<and> positiveDecimal L (rl_OrderSz a))
       ''start price and order size must be positive decimal strings''"

record SetDeployerTradingFeeShare =
  df_Token :: u64
  df_Share :: string

definition SetDeployerTradingFeeShare_MarshalMsgpack :: "SetDeployerTradingFeeShare \<Rightarrow> tok list" where
  "SetDeployerTradingFeeShare_MarshalMsgpack a =
     EncodeStruct [(''token'', EncodeUint (df_Token a)), (''share'', EncodeString (df_Share a))]"

definition SetDeployerTradingFeeShare_MarshalJSON :: "SetDeployerTradingFeeShare \<Rightarrow> jval" where
  "SetDeployerTradingFeeShare_MarshalJSON a =
     JObj [(''token'', json_uint (df_Token a)), (''share'', JStr (df_Share a))]"

lemma SetDeployerTradingFeeShare_wire [wire]:
  "SetDeployerTradingFeeShare_MarshalMsgpack = (\<lambda>a. toks_of (SetDeployerTradingFeeShare_MarshalJSON a))"
  by (rule ext) (simp add: SetDeployerTradingFeeShare_MarshalMsgpack_def SetDeployerTradingFeeShare_MarshalJSON_def enc_defs wire)

definition SetDeployerTradingFeeShare_validateSpotDeploy :: "lib \<Rightarrow> SetDeployerTradingFeeShare \<Rightarrow> unit res" where
  "SetDeployerTradingFeeShare_validateSpotDeploy L a =
     (if (df_Share a) = '''' \<or> last (df_Share a) \<noteq> CHR 0x25 then Inl ''fee share must be a percentage string''
      else guard_res (case NewFromString L (butlast (df_Share a)) of None \<Rightarrow> False
          | Some d \<Rightarrow> \<not> (d < 0 \<or> d > 100)) ''fee share must be between 0% and 100%'')"

record EnableQuoteToken =
  eq_Token :: u64

definition EnableQuoteToken_MarshalMsgpack :: "EnableQuoteToken \<Rightarrow> tok list" where
  "EnableQuoteToken_MarshalMsgpack a =
     EncodeStruct [(''token'', EncodeUint (eq_Token a))]"

definition EnableQuoteToken_MarshalJSON :: "EnableQuoteToken \<Rightarrow> jval" where
  "EnableQuoteToken_MarshalJSON a =
     JObj [(''token'', json_uint (eq_Token a))]"

lemma EnableQuoteToken_wire [wire]:
  "EnableQuoteToken_MarshalMsgpack = (\<lambda>a. toks_of (EnableQuoteToken_MarshalJSON a))"
  by (rule ext) (simp add: EnableQuoteToken_MarshalMsgpack_def EnableQuoteToken_MarshalJSON_def enc_defs wire)

definition EnableQuoteToken_validateSpotDeploy :: "lib \<Rightarrow> EnableQuoteToken \<Rightarrow> unit res" where
  "EnableQuoteToken_validateSpotDeploy L a =
     Inr ()"

record DisableQuoteToken =
  dq_Token :: u64

definition DisableQuoteToken_MarshalMsgpack :: "DisableQuoteToken \<Rightarrow> tok list" where
  "DisableQuoteToken_MarshalMsgpack a =
     EncodeStruct [(''token'', EncodeUint (dq_Token a))]"

definition DisableQuoteToken_MarshalJSON :: "DisableQuoteToken \<Rightarrow> jval" where
  "DisableQuoteToken_MarshalJSON a =
     JObj [(''token'', json_uint (dq_Token a))]"

lemma DisableQuoteToken_wire [wire]:
  "DisableQuoteToken_MarshalMsgpack = (\<lambda>a. toks_of (DisableQuoteToken_MarshalJSON a))"
  by (rule ext) (simp add: DisableQuoteToken_MarshalMsgpack_def DisableQuoteToken_MarshalJSON_def enc_defs wire)

definition DisableQuoteToken_validateSpotDeploy :: "lib \<Rightarrow> DisableQuoteToken \<Rightarrow> unit res" where
  "DisableQuoteToken_validateSpotDeploy L a =
     Inr ()"

record EnableAlignedQuoteToken =
  ea_Token :: u64

definition EnableAlignedQuoteToken_MarshalMsgpack :: "EnableAlignedQuoteToken \<Rightarrow> tok list" where
  "EnableAlignedQuoteToken_MarshalMsgpack a =
     EncodeStruct [(''token'', EncodeUint (ea_Token a))]"

definition EnableAlignedQuoteToken_MarshalJSON :: "EnableAlignedQuoteToken \<Rightarrow> jval" where
  "EnableAlignedQuoteToken_MarshalJSON a =
     JObj [(''token'', json_uint (ea_Token a))]"

lemma EnableAlignedQuoteToken_wire [wire]:
  "EnableAlignedQuoteToken_MarshalMsgpack = (\<lambda>a. toks_of (EnableAlignedQuoteToken_MarshalJSON a))"
  by (rule ext) (simp add: EnableAlignedQuoteToken_MarshalMsgpack_def EnableAlignedQuoteToken_MarshalJSON_def enc_defs wire)

definition EnableAlignedQuoteToken_validateSpotDeploy :: "lib \<Rightarrow> EnableAlignedQuoteToken \<Rightarrow> unit res" where
  "EnableAlignedQuoteToken_validateSpotDeploy L a =
     Inr ()"

record EnableFreezePrivilege =
  ef_Token :: u64

definition EnableFreezePrivilege_MarshalMsgpack :: "EnableFreezePrivilege \<Rightarrow> tok list" where
  "EnableFreezePrivilege_MarshalMsgpack a =
     EncodeStruct [(''token'', EncodeUint (ef_Token a))]"

definition EnableFreezePrivilege_MarshalJSON :: "EnableFreezePrivilege \<Rightarrow> jval" where
  "EnableFreezePrivilege_MarshalJSON a =
     JObj [(''token'', json_uint (ef_Token a))]"

lemma EnableFreezePrivilege_wire [wire]:
  "EnableFreezePrivilege_MarshalMsgpack = (\<lambda>a. toks_of (EnableFreezePrivilege_MarshalJSON a))"
  by (rule ext) (simp add: EnableFreezePrivilege_MarshalMsgpack_def EnableFreezePrivilege_MarshalJSON_def enc_defs wire)

definition EnableFreezePrivilege_validateSpotDeploy :: "lib \<Rightarrow> EnableFreezePrivilege \<Rightarrow> unit res" where
  "EnableFreezePrivilege_validateSpotDeploy L a =
     Inr ()"

record RevokeFreezePrivilege =
  rf_Token :: u64

definition RevokeFreezePrivilege_MarshalMsgpack :: "RevokeFreezePrivilege \<Rightarrow> tok list" where
  "RevokeFreezePrivilege_MarshalMsgpack a =
     EncodeStruct [(''token'', EncodeUint (rf_Token a))]"

definition RevokeFreezePrivilege_MarshalJSON :: "RevokeFreezePrivilege \<Rightarrow> jval" where
  "RevokeFreezePrivilege_MarshalJSON a =
     JObj [(''token'', json_uint (rf_Token a))]"

lemma RevokeFreezePrivilege_wire [wire]:
  "RevokeFreezePrivilege_MarshalMsgpack = (\<lambda>a. toks_of (RevokeFreezePrivilege_MarshalJSON a))"
  by (rule ext) (simp add: RevokeFreezePrivilege_MarshalMsgpack_def RevokeFreezePrivilege_MarshalJSON_def enc_defs wire)

definition RevokeFreezePrivilege_validateSpotDeploy :: "lib \<Rightarrow> RevokeFreezePrivilege \<Rightarrow> unit res" where
  "RevokeFreezePrivilege_validateSpotDeploy L a =
     Inr ()"

record RequestEVMContract =
  re_Token :: u64
  re_Address :: string
  re_EVMExtraWeiDecimals :: "8 word"

definition RequestEVMContract_validateSpotDeploy :: "lib \<Rightarrow> RequestEVMContract \<Rightarrow> unit res" where
  "RequestEVMContract_validateSpotDeploy L a =
     (if \<not> IsHexAddress L (re_Address a) then Inl ''EVM contract address is invalid''
      else guard_res (\<not> (sint (re_EVMExtraWeiDecimals a) < - 2 \<or> sint (re_EVMExtraWeiDecimals a) > 18))
        ''EVM extra wei decimals must be between -2 and 18'')"

definition RequestEVMContract_MarshalMsgpack :: "RequestEVMContract \<Rightarrow> tok list" where
  "RequestEVMContract_MarshalMsgpack a =
     EncodeMapLen 3 @ EncodePairs [(''token'', EncodeUint (re_Token a)),
       (''address'', EncodeString (to_lower (re_Address a))),
       (''evmExtraWeiDecimals'', EncodeInt8 (re_EVMExtraWeiDecimals a))]"

definition RequestEVMContract_MarshalJSON :: "RequestEVMContract \<Rightarrow> jval" where
  "RequestEVMContract_MarshalJSON a =
     JObj [(''token'', json_uint (re_Token a)), (''address'', JStr (to_lower (re_Address a))),
       (''evmExtraWeiDecimals'', json_int8 (re_EVMExtraWeiDecimals a))]"

lemma RequestEVMContract_wire [wire]:
  "RequestEVMContract_MarshalMsgpack = (\<lambda>a. toks_of (RequestEVMContract_MarshalJSON a))"
  by (rule ext) (simp add: RequestEVMContract_MarshalMsgpack_def RequestEVMContract_MarshalJSON_def enc_defs wire)

record FreezeUser =
  fu_Token :: u64
  fu_User :: string
  fu_Freeze :: bool

definition FreezeUser_validateSpotDeploy :: "lib \<Rightarrow> FreezeUser \<Rightarrow> unit res" where
  "FreezeUser_validateSpotDeploy L a =
     guard_res (IsHexAddress L (fu_User a)) ''freeze user is not an address''"

definition FreezeUser_MarshalMsgpack :: "FreezeUser \<Rightarrow> tok list" where
  "FreezeUser_MarshalMsgpack a =
     EncodeMapLen 3 @ EncodePairs [(''token'', EncodeUint (fu_Token a)),
       (''user'', EncodeString (to_lower (fu_User a))), (''freeze'', EncodeBool (fu_Freeze a))]"

definition FreezeUser_MarshalJSON :: "FreezeUser \<Rightarrow> jval" where
  "FreezeUser_MarshalJSON a =
     JObj [(''token'', json_uint (fu_Token a)), (''user'', JStr (to_lower (fu_User a))),
       (''freeze'', JBool (fu_Freeze a))]"

lemma FreezeUser_wire [wire]:
  "FreezeUser_MarshalMsgpack = (\<lambda>a. toks_of (FreezeUser_MarshalJSON a))"
  by (rule ext) (simp add: FreezeUser_MarshalMsgpack_def FreezeUser_MarshalJSON_def enc_defs wire)

datatype SpotDeployVariant =
    SRegisterToken2 RegisterToken2
  | SUserGenesis UserGenesis
  | SGenesis Genesis
  | SRegisterSpot RegisterSpot
  | SRegisterHyperliquidity RegisterHyperliquidity
  | SSetDeployerTradingFeeShare SetDeployerTradingFeeShare
  | SEnableQuoteToken EnableQuoteToken
  | SDisableQuoteToken DisableQuoteToken
  | SRequestEVMContract RequestEVMContract
  | SEnableAlignedQuoteToken EnableAlignedQuoteToken
  | SEnableFreezePrivilege EnableFreezePrivilege
  | SFreezeUser FreezeUser
  | SRevokeFreezePrivilege RevokeFreezePrivilege

fun spotDeployKey :: "SpotDeployVariant \<Rightarrow> string" where
  "spotDeployKey (SRegisterToken2 a) = ''registerToken2''"
| "spotDeployKey (SUserGenesis a) = ''userGenesis''"
| "spotDeployKey (SGenesis a) = ''genesis''"
| "spotDeployKey (SRegisterSpot a) = ''registerSpot''"
| "spotDeployKey (SRegisterHyperliquidity a) = ''registerHyperliquidity''"
| "spotDeployKey (SSetDeployerTradingFeeShare a) = ''setDeployerTradingFeeShare''"
| "spotDeployKey (SEnableQuoteToken a) = ''enableQuoteToken''"
| "spotDeployKey (SDisableQuoteToken a) = ''disableQuoteToken''"
| "spotDeployKey (SRequestEVMContract a) = ''requestEvmContract''"
| "spotDeployKey (SEnableAlignedQuoteToken a) = ''enableAlignedQuoteToken''"
| "spotDeployKey (SEnableFreezePrivilege a) = ''enableFreezePrivilege''"
| "spotDeployKey (SFreezeUser a) = ''freezeUser''"
| "spotDeployKey (SRevokeFreezePrivilege a) = ''revokeFreezePrivilege''"

fun validateSpotDeploy :: "lib \<Rightarrow> SpotDeployVariant \<Rightarrow> unit res" where
  "validateSpotDeploy L (SRegisterToken2 a) = RegisterToken2_validateSpotDeploy L a"
| "validateSpotDeploy L (SUserGenesis a) = UserGenesis_validateSpotDeploy L a"
| "validateSpotDeploy L (SGenesis a) = Genesis_validateSpotDeploy L a"
| "validateSpotDeploy L (SRegisterSpot a) = RegisterSpot_validateSpotDeploy L a"
| "validateSpotDeploy L (SRegisterHyperliquidity a) = RegisterHyperliquidity_validateSpotDeploy L a"
| "validateSpotDeploy L (SSetDeployerTradingFeeShare a) = SetDeployerTradingFeeShare_validateSpotDeploy L a"
| "validateSpotDeploy L (SEnableQuoteToken a) = EnableQuoteToken_validateSpotDeploy L a"
| "validateSpotDeploy L (SDisableQuoteToken a) = DisableQuoteToken_validateSpotDeploy L a"
| "validateSpotDeploy L (SRequestEVMContract a) = RequestEVMContract_validateSpotDeploy L a"
| "validateSpotDeploy L (SEnableAlignedQuoteToken a) = EnableAlignedQuoteToken_validateSpotDeploy L a"
| "validateSpotDeploy L (SEnableFreezePrivilege a) = EnableFreezePrivilege_validateSpotDeploy L a"
| "validateSpotDeploy L (SFreezeUser a) = FreezeUser_validateSpotDeploy L a"
| "validateSpotDeploy L (SRevokeFreezePrivilege a) = RevokeFreezePrivilege_validateSpotDeploy L a"

fun SpotDeployVariant_MarshalMsgpack :: "SpotDeployVariant \<Rightarrow> tok list" where
  "SpotDeployVariant_MarshalMsgpack (SRegisterToken2 a) = RegisterToken2_MarshalMsgpack a"
| "SpotDeployVariant_MarshalMsgpack (SUserGenesis a) = UserGenesis_MarshalMsgpack a"
| "SpotDeployVariant_MarshalMsgpack (SGenesis a) = Genesis_MarshalMsgpack a"
| "SpotDeployVariant_MarshalMsgpack (SRegisterSpot a) = RegisterSpot_MarshalMsgpack a"
| "SpotDeployVariant_MarshalMsgpack (SRegisterHyperliquidity a) = RegisterHyperliquidity_MarshalMsgpack a"
| "SpotDeployVariant_MarshalMsgpack (SSetDeployerTradingFeeShare a) = SetDeployerTradingFeeShare_MarshalMsgpack a"
| "SpotDeployVariant_MarshalMsgpack (SEnableQuoteToken a) = EnableQuoteToken_MarshalMsgpack a"
| "SpotDeployVariant_MarshalMsgpack (SDisableQuoteToken a) = DisableQuoteToken_MarshalMsgpack a"
| "SpotDeployVariant_MarshalMsgpack (SRequestEVMContract a) = RequestEVMContract_MarshalMsgpack a"
| "SpotDeployVariant_MarshalMsgpack (SEnableAlignedQuoteToken a) = EnableAlignedQuoteToken_MarshalMsgpack a"
| "SpotDeployVariant_MarshalMsgpack (SEnableFreezePrivilege a) = EnableFreezePrivilege_MarshalMsgpack a"
| "SpotDeployVariant_MarshalMsgpack (SFreezeUser a) = FreezeUser_MarshalMsgpack a"
| "SpotDeployVariant_MarshalMsgpack (SRevokeFreezePrivilege a) = RevokeFreezePrivilege_MarshalMsgpack a"

fun SpotDeployVariant_MarshalJSON :: "SpotDeployVariant \<Rightarrow> jval" where
  "SpotDeployVariant_MarshalJSON (SRegisterToken2 a) = RegisterToken2_MarshalJSON a"
| "SpotDeployVariant_MarshalJSON (SUserGenesis a) = UserGenesis_MarshalJSON a"
| "SpotDeployVariant_MarshalJSON (SGenesis a) = Genesis_MarshalJSON a"
| "SpotDeployVariant_MarshalJSON (SRegisterSpot a) = RegisterSpot_MarshalJSON a"
| "SpotDeployVariant_MarshalJSON (SRegisterHyperliquidity a) = RegisterHyperliquidity_MarshalJSON a"
| "SpotDeployVariant_MarshalJSON (SSetDeployerTradingFeeShare a) = SetDeployerTradingFeeShare_MarshalJSON a"
| "SpotDeployVariant_MarshalJSON (SEnableQuoteToken a) = EnableQuoteToken_MarshalJSON a"
| "SpotDeployVariant_MarshalJSON (SDisableQuoteToken a) = DisableQuoteToken_MarshalJSON a"
| "SpotDeployVariant_MarshalJSON (SRequestEVMContract a) = RequestEVMContract_MarshalJSON a"
| "SpotDeployVariant_MarshalJSON (SEnableAlignedQuoteToken a) = EnableAlignedQuoteToken_MarshalJSON a"
| "SpotDeployVariant_MarshalJSON (SEnableFreezePrivilege a) = EnableFreezePrivilege_MarshalJSON a"
| "SpotDeployVariant_MarshalJSON (SFreezeUser a) = FreezeUser_MarshalJSON a"
| "SpotDeployVariant_MarshalJSON (SRevokeFreezePrivilege a) = RevokeFreezePrivilege_MarshalJSON a"

lemma SpotDeployVariant_wire [wire]: "SpotDeployVariant_MarshalMsgpack = (\<lambda>v. toks_of (SpotDeployVariant_MarshalJSON v))"
proof
  fix v
  show "SpotDeployVariant_MarshalMsgpack v = toks_of (SpotDeployVariant_MarshalJSON v)"
    by (cases v) (simp_all only: SpotDeployVariant_MarshalMsgpack.simps SpotDeployVariant_MarshalJSON.simps
      RegisterToken2_wire UserGenesis_wire Genesis_wire RegisterSpot_wire RegisterHyperliquidity_wire SetDeployerTradingFeeShare_wire EnableQuoteToken_wire DisableQuoteToken_wire RequestEVMContract_wire EnableAlignedQuoteToken_wire EnableFreezePrivilege_wire FreezeUser_wire RevokeFreezePrivilege_wire)
qed

section \<open>The two actions\<close>

text \<open>
  \<^verbatim>\<open>marshalDeployJSON\<close> writes the two-field object itself; \<open>key\<close> is the closure its callers pass.
\<close>

definition marshalDeployJSON ::
    "string \<Rightarrow> 'v option \<Rightarrow> ('v option \<Rightarrow> string res) \<Rightarrow> ('v \<Rightarrow> jval) \<Rightarrow> jval res" where
  "marshalDeployJSON kind variant key json =
     bind_res (key variant) (\<lambda>k.
     Inr (JObj [(''type'', JStr kind), (k, json_ptr json variant)]))"

record PerpDeployAction =
  pda_Variant :: "PerpDeployVariant option"

definition PerpDeployAction_MarshalMsgpack :: "lib \<Rightarrow> PerpDeployAction \<Rightarrow> tok list res" where
  "PerpDeployAction_MarshalMsgpack L a =
     (case (pda_Variant a) of
        None \<Rightarrow> Inl ''perpDeploy variant is required''
      | Some v \<Rightarrow> bind_res (validatePerpDeploy L v) (\<lambda>_.
          Inr (EncodeMapLen 2 @ EncodeString ''type'' @ EncodeString ''perpDeploy'' @ EncodeString (perpDeployKey v) @ PerpDeployVariant_MarshalMsgpack v)))"

definition PerpDeployAction_MarshalJSON :: "lib \<Rightarrow> PerpDeployAction \<Rightarrow> jval res" where
  "PerpDeployAction_MarshalJSON L a =
     marshalDeployJSON ''perpDeploy'' (pda_Variant a) (\<lambda>v. case v of
         None \<Rightarrow> Inl ''perpDeploy variant is required''
       | Some p \<Rightarrow> bind_res (validatePerpDeploy L p) (\<lambda>_. Inr (perpDeployKey p))) PerpDeployVariant_MarshalJSON"

lemma PerpDeployAction_wire: "PerpDeployAction_MarshalMsgpack L a = toks_res (PerpDeployAction_MarshalJSON L a)"
proof (cases "pda_Variant a")
  case (Some v)
  then show ?thesis
    by (cases "validatePerpDeploy L v") (simp_all add: PerpDeployAction_MarshalMsgpack_def PerpDeployAction_MarshalJSON_def
        marshalDeployJSON_def json_ptr_def enc_defs wire numeral_eq_Suc)
qed (simp add: PerpDeployAction_MarshalMsgpack_def PerpDeployAction_MarshalJSON_def marshalDeployJSON_def)

record SpotDeployAction =
  sda_Variant :: "SpotDeployVariant option"

definition SpotDeployAction_MarshalMsgpack :: "lib \<Rightarrow> SpotDeployAction \<Rightarrow> tok list res" where
  "SpotDeployAction_MarshalMsgpack L a =
     (case (sda_Variant a) of
        None \<Rightarrow> Inl ''spotDeploy variant is required''
      | Some v \<Rightarrow> bind_res (validateSpotDeploy L v) (\<lambda>_.
          Inr (EncodeMapLen 2 @ EncodeString ''type'' @ EncodeString ''spotDeploy'' @ EncodeString (spotDeployKey v) @ SpotDeployVariant_MarshalMsgpack v)))"

definition SpotDeployAction_MarshalJSON :: "lib \<Rightarrow> SpotDeployAction \<Rightarrow> jval res" where
  "SpotDeployAction_MarshalJSON L a =
     marshalDeployJSON ''spotDeploy'' (sda_Variant a) (\<lambda>v. case v of
         None \<Rightarrow> Inl ''spotDeploy variant is required''
       | Some p \<Rightarrow> bind_res (validateSpotDeploy L p) (\<lambda>_. Inr (spotDeployKey p))) SpotDeployVariant_MarshalJSON"

lemma SpotDeployAction_wire: "SpotDeployAction_MarshalMsgpack L a = toks_res (SpotDeployAction_MarshalJSON L a)"
proof (cases "sda_Variant a")
  case (Some v)
  then show ?thesis
    by (cases "validateSpotDeploy L v") (simp_all add: SpotDeployAction_MarshalMsgpack_def SpotDeployAction_MarshalJSON_def
        marshalDeployJSON_def json_ptr_def enc_defs wire numeral_eq_Suc)
qed (simp add: SpotDeployAction_MarshalMsgpack_def SpotDeployAction_MarshalJSON_def marshalDeployJSON_def)

section \<open>What the validators accept\<close>

lemma validCoin_ok [simp]: "validCoin c = Inr u \<longleftrightarrow> \<not> blank c"
  by (simp add: validCoin_def)

lemma validDEX_ok [simp]: "validDEX c = Inr u \<longleftrightarrow> \<not> blank c"
  by (simp add: validDEX_def)

lemma sorted_loop_from:
  assumes "\<And>v. check v = Inr () \<Longrightarrow> key v \<noteq> ''''" and "prev \<noteq> ''''"
  shows "sorted_loop key check msg prev vs = Inr () \<longleftrightarrow>
    list_all (\<lambda>v. check v = Inr ()) vs \<and> sorted_wrt (<) (prev # map key vs)"
  using assms(2)
proof (induction vs arbitrary: prev)
  case (Cons v vs)
  show ?case
  proof (cases "check v")
    case (Inr u)
    then have "key v \<noteq> ''''" using assms(1) by simp
    then show ?thesis
      using Cons.IH [of "key v"] Cons.prems Inr
      by (auto simp: not_le intro: less_trans)
  qed simp
qed simp

lemma sorted_loop_ok:
  assumes "\<And>v. check v = Inr () \<Longrightarrow> key v \<noteq> ''''"
  shows "sorted_loop key check msg '''' vs = Inr () \<longleftrightarrow>
    list_all (\<lambda>v. check v = Inr ()) vs \<and> sorted_wrt (<) (map key vs)"
proof (cases vs)
  case (Cons v ws)
  show ?thesis
  proof (cases "check v")
    case (Inr u)
    then have "key v \<noteq> ''''" using assms by simp
    then show ?thesis
      using sorted_loop_from [OF assms, where prev = "key v"] Inr Cons by simp
  qed (simp add: Cons)
qed simp

lemma blank_key: "\<not> blank k \<Longrightarrow> k \<noteq> ''''"
  by auto

lemma validSortedDecimalPairs_ok:
  "validSortedDecimalPairs L vs False = Inr () \<longleftrightarrow>
     list_all (\<lambda>v. \<not> blank (sp_Key v) \<and> NewFromString L (sp_Value v) \<noteq> None) vs \<and>
     sorted_wrt (<) (map sp_Key vs)"
  unfolding validSortedDecimalPairs_def
  by (subst if_not_P, simp, subst sorted_loop_ok) (auto dest: blank_key)

lemma validSortedUnsignedDecimalPairs_ok:
  "validSortedUnsignedDecimalPairs L vs = Inr () \<longleftrightarrow>
     list_all (\<lambda>v. \<not> blank (sp_Key v) \<and> unsignedDecimal L (sp_Value v)) vs \<and>
     sorted_wrt (<) (map sp_Key vs)"
  unfolding validSortedUnsignedDecimalPairs_def
  by (subst sorted_loop_ok) (auto dest: blank_key)

lemma validSortedUintPairs_ok:
  "validSortedUintPairs vs = Inr () \<longleftrightarrow>
     list_all (\<lambda>v. \<not> blank (su_Key v)) vs \<and> sorted_wrt (<) (map su_Key vs)"
  unfolding validSortedUintPairs_def
  by (subst sorted_loop_ok) (auto dest: blank_key)

lemma mark_prices_loop_ok:
  "mark_prices_loop L i ps = Inr () \<longleftrightarrow>
     list_all (\<lambda>p. validSortedUnsignedDecimalPairs L (elems p) = Inr ()) ps"
  by (induction ps arbitrary: i) auto

text \<open>Sub-deployers are ordered by the pair of variant and user.\<close>

definition sub_deployer_less :: "SubDeployerInput \<Rightarrow> SubDeployerInput \<Rightarrow> bool" where
  "sub_deployer_less s t \<longleftrightarrow> sdi_Variant s < sdi_Variant t \<or>
     sdi_Variant s = sdi_Variant t \<and> to_lower (sdi_User s) < to_lower (sdi_User t)"

lemma sub_deployer_less_trans:
  "sub_deployer_less s t \<Longrightarrow> sub_deployer_less t u \<Longrightarrow> sub_deployer_less s u"
  by (auto simp: sub_deployer_less_def)

definition sub_deployer_ok :: "lib \<Rightarrow> SubDeployerInput \<Rightarrow> bool" where
  "sub_deployer_ok L s \<longleftrightarrow> \<not> blank (sdi_Variant s) \<and> IsHexAddress L (sdi_User s)"

lemma sub_deployers_from:
  "sdi_Variant s \<noteq> '''' \<Longrightarrow>
   sub_deployers_loop L (sdi_Variant s) (to_lower (sdi_User s)) ss = Inr () \<longleftrightarrow>
     list_all (sub_deployer_ok L) ss \<and> sorted_wrt sub_deployer_less (s # ss)"
proof (induction ss arbitrary: s)
  case (Cons x xs)
  have less: "sub_deployer_less s x \<longleftrightarrow> \<not> (sdi_Variant x < sdi_Variant s \<or>
      sdi_Variant x = sdi_Variant s \<and> to_lower (sdi_User x) \<le> to_lower (sdi_User s))"
    by (auto simp: sub_deployer_less_def)
  show ?case
  proof (cases "sub_deployer_ok L x")
    case True
    then have "sdi_Variant x \<noteq> ''''" by (auto simp: sub_deployer_ok_def)
    then show ?thesis
      using Cons True less by (auto simp: sub_deployer_ok_def Let_def intro: sub_deployer_less_trans)
  qed (auto simp: sub_deployer_ok_def)
qed simp

lemma sub_deployers_ok:
  "sub_deployers_loop L '''' '''' ss = Inr () \<longleftrightarrow>
     list_all (sub_deployer_ok L) ss \<and> sorted_wrt sub_deployer_less ss"
proof (cases ss)
  case (Cons x xs)
  show ?thesis
  proof (cases "sub_deployer_ok L x")
    case True
    then have "sdi_Variant x \<noteq> ''''" by (auto simp: sub_deployer_ok_def)
    then show ?thesis
      using sub_deployers_from [of x L xs] True Cons by (simp add: sub_deployer_ok_def Let_def)
  qed (auto simp: sub_deployer_ok_def Cons)
qed simp

text \<open>Margin tiers: leverage between 1 and 50, never rising; lower bounds strictly increasing.\<close>

definition tier_ok :: "RawMarginTier \<Rightarrow> bool" where
  "tier_ok x \<longleftrightarrow> 1 \<le> rt_MaxLeverage x \<and> rt_MaxLeverage x \<le> 50"

definition tier_less :: "RawMarginTier \<Rightarrow> RawMarginTier \<Rightarrow> bool" where
  "tier_less x y \<longleftrightarrow> rt_LowerBound x < rt_LowerBound y \<and> rt_MaxLeverage y \<le> rt_MaxLeverage x"

lemma tiers_loop_step:
  "tiers_loop prior (x # xs) =
     (if \<not> tier_ok x then Inl ''max leverage out of range''
      else if (case prior of None \<Rightarrow> False | Some p \<Rightarrow> \<not> tier_less p x)
      then Inl ''margin tiers must increase lower bound and decrease max leverage''
      else tiers_loop (Some x) xs)"
proof -
  have "tier_ok x \<longleftrightarrow> \<not> (rt_MaxLeverage x < 1 \<or> rt_MaxLeverage x > 50)"
    by (simp only: tier_ok_def de_Morgan_disj not_less)
  moreover have "tier_less p x \<longleftrightarrow> \<not> (rt_LowerBound x \<le> rt_LowerBound p \<or>
      rt_MaxLeverage x > rt_MaxLeverage p)" for p
    by (simp only: tier_less_def de_Morgan_disj not_less not_le)
  ultimately show ?thesis by (simp only: tiers_loop.simps not_not)
qed

lemma tier_less_trans: "tier_less x y \<Longrightarrow> tier_less y z \<Longrightarrow> tier_less x z"
  by (auto simp: tier_less_def)

lemma tiers_loop_from:
  "tiers_loop (Some p) xs = Inr () \<longleftrightarrow> list_all tier_ok xs \<and> sorted_wrt tier_less (p # xs)"
proof (induction xs arbitrary: p)
  case (Cons x xs)
  show ?case
    using Cons.IH [of x] tier_less_trans [of p x]
    by (auto simp: tiers_loop_step simp del: tiers_loop.simps(2))
qed simp

lemma tiers_loop_ok:
  "tiers_loop None xs = Inr () \<longleftrightarrow> list_all tier_ok xs \<and> sorted_wrt tier_less xs"
  by (cases xs) (auto simp: tiers_loop_from tiers_loop_step simp del: tiers_loop.simps(2))

lemma SortStringPairs_perm: "mset (SortStringPairs vs) = mset vs"
  by (simp add: SortStringPairs_def)

lemma SortStringPairs_sorted: "sorted (map sp_Key (SortStringPairs vs))"
  by (simp add: SortStringPairs_def)

end
