(* ===== verification/L1Action.thy ===== *)
theory L1Action
  imports L1Wire AdvancedWire DeployWire
begin

text \<open>
  The closed set of L1 actions of \<^verbatim>\<open>signing/l1_contract.go\<close> and how one is hashed
  (\<^verbatim>\<open>signing/l1_action.go\<close>): its MessagePack bytes, the big-endian nonce, the vault marker and
  the optional expiry. The two central facts are that the signed bytes spell the JSON that is sent,
  and that the hashed byte string determines action, nonce, vault and expiry.
\<close>

section \<open>The closed set\<close>

datatype L1Action =
    LCancel CancelAction
  | LOrder OrderAction
  | LCancelByCloid CancelByCloidAction
  | LScheduleCancel ScheduleCancelAction
  | LTWAPOrder TWAPOrderAction
  | LTWAPCancel TWAPCancelAction
  | LSubaccountTransfer SubaccountTransferAction
  | LSubaccountSpotTransfer SubaccountSpotTransferAction
  | LVaultTransfer VaultTransferAction
  | LBatchModify BatchModifyAction
  | LUpdateLeverage UpdateLeverageAction
  | LUpdateIsolatedMargin UpdateIsolatedMarginAction
  | LTopUpIsolatedOnlyMargin TopUpIsolatedOnlyMarginAction
  | LReserveRequestWeight ReserveRequestWeightAction
  | LNoop
  | LAgentEnableDexAbstraction
  | LAgentSetAbstraction AgentSetAbstractionAction
  | LAgentSendAsset AgentSendAssetAction
  | LAuthorizeAQAV2Role AuthorizeAQAV2RoleAction
  | LHIP3LiquidatorTransfer HIP3LiquidatorTransferAction
  | LUserOutcome UserOutcomeAction
  | LValidatorL1Stream ValidatorL1StreamAction
  | LClaimRewards
  | LSetReferrer SetReferrerAction
  | LCreateSubAccount CreateSubAccountAction
  | LCreateVault CreateVaultAction
  | LVaultModify VaultModifyAction
  | LVaultDistribute VaultDistributeAction
  | LSubAccountModify SubAccountModifyAction
  | LSetDisplayName SetDisplayNameAction
  | LPerpDeploy PerpDeployAction
  | LSpotDeploy SpotDeployAction
  | LEVMUserModify EVMUserModifyAction
  | LGossipPriorityBid GossipPriorityBidAction
  | LCValidator CValidatorAction
  | LCSigner CSignerAction
  | LFinalizeEVMContract FinalizeEVMContractAction

fun MarshalMsgpack :: "lib \<Rightarrow> L1Action \<Rightarrow> tok list res" where
  "MarshalMsgpack L (LCancel a) = Inr (CancelAction_MarshalMsgpack a)"
| "MarshalMsgpack L (LOrder a) = Inr (OrderAction_MarshalMsgpack a)"
| "MarshalMsgpack L (LCancelByCloid a) = Inr (CancelByCloidAction_MarshalMsgpack a)"
| "MarshalMsgpack L (LScheduleCancel a) = Inr (ScheduleCancelAction_MarshalMsgpack a)"
| "MarshalMsgpack L (LTWAPOrder a) = Inr (TWAPOrderAction_MarshalMsgpack a)"
| "MarshalMsgpack L (LTWAPCancel a) = Inr (TWAPCancelAction_MarshalMsgpack a)"
| "MarshalMsgpack L (LSubaccountTransfer a) = Inr (SubaccountTransferAction_MarshalMsgpack a)"
| "MarshalMsgpack L (LSubaccountSpotTransfer a) = Inr (SubaccountSpotTransferAction_MarshalMsgpack a)"
| "MarshalMsgpack L (LVaultTransfer a) = Inr (VaultTransferAction_MarshalMsgpack a)"
| "MarshalMsgpack L (LBatchModify a) = Inr (BatchModifyAction_MarshalMsgpack a)"
| "MarshalMsgpack L (LUpdateLeverage a) = Inr (UpdateLeverageAction_MarshalMsgpack a)"
| "MarshalMsgpack L (LUpdateIsolatedMargin a) = Inr (UpdateIsolatedMarginAction_MarshalMsgpack a)"
| "MarshalMsgpack L (LTopUpIsolatedOnlyMargin a) = Inr (TopUpIsolatedOnlyMarginAction_MarshalMsgpack a)"
| "MarshalMsgpack L (LReserveRequestWeight a) = Inr (ReserveRequestWeightAction_MarshalMsgpack a)"
| "MarshalMsgpack L LNoop = Inr (NoopAction_MarshalMsgpack)"
| "MarshalMsgpack L LAgentEnableDexAbstraction = Inr (AgentEnableDexAbstractionAction_MarshalMsgpack)"
| "MarshalMsgpack L (LAgentSetAbstraction a) = Inr (AgentSetAbstractionAction_MarshalMsgpack a)"
| "MarshalMsgpack L (LAgentSendAsset a) = AgentSendAssetAction_MarshalMsgpack L a"
| "MarshalMsgpack L (LAuthorizeAQAV2Role a) = AuthorizeAQAV2RoleAction_MarshalMsgpack a"
| "MarshalMsgpack L (LHIP3LiquidatorTransfer a) = HIP3LiquidatorTransferAction_MarshalMsgpack a"
| "MarshalMsgpack L (LUserOutcome a) = UserOutcomeAction_MarshalMsgpack L a"
| "MarshalMsgpack L (LValidatorL1Stream a) = Inr (ValidatorL1StreamAction_MarshalMsgpack a)"
| "MarshalMsgpack L LClaimRewards = Inr (ClaimRewardsAction_MarshalMsgpack)"
| "MarshalMsgpack L (LSetReferrer a) = Inr (SetReferrerAction_MarshalMsgpack a)"
| "MarshalMsgpack L (LCreateSubAccount a) = Inr (CreateSubAccountAction_MarshalMsgpack a)"
| "MarshalMsgpack L (LCreateVault a) = Inr (CreateVaultAction_MarshalMsgpack a)"
| "MarshalMsgpack L (LVaultModify a) = Inr (VaultModifyAction_MarshalMsgpack a)"
| "MarshalMsgpack L (LVaultDistribute a) = Inr (VaultDistributeAction_MarshalMsgpack a)"
| "MarshalMsgpack L (LSubAccountModify a) = Inr (SubAccountModifyAction_MarshalMsgpack a)"
| "MarshalMsgpack L (LSetDisplayName a) = Inr (SetDisplayNameAction_MarshalMsgpack a)"
| "MarshalMsgpack L (LPerpDeploy a) = PerpDeployAction_MarshalMsgpack L a"
| "MarshalMsgpack L (LSpotDeploy a) = SpotDeployAction_MarshalMsgpack L a"
| "MarshalMsgpack L (LEVMUserModify a) = Inr (EVMUserModifyAction_MarshalMsgpack a)"
| "MarshalMsgpack L (LGossipPriorityBid a) = GossipPriorityBidAction_MarshalMsgpack L a"
| "MarshalMsgpack L (LCValidator a) = CValidatorAction_MarshalMsgpack L a"
| "MarshalMsgpack L (LCSigner a) = CSignerAction_MarshalMsgpack a"
| "MarshalMsgpack L (LFinalizeEVMContract a) = FinalizeEVMContractAction_MarshalMsgpack a"

fun MarshalJSON :: "lib \<Rightarrow> L1Action \<Rightarrow> jval res" where
  "MarshalJSON L (LCancel a) = Inr (CancelAction_MarshalJSON a)"
| "MarshalJSON L (LOrder a) = Inr (OrderAction_MarshalJSON a)"
| "MarshalJSON L (LCancelByCloid a) = Inr (CancelByCloidAction_MarshalJSON a)"
| "MarshalJSON L (LScheduleCancel a) = Inr (ScheduleCancelAction_MarshalJSON a)"
| "MarshalJSON L (LTWAPOrder a) = Inr (TWAPOrderAction_MarshalJSON a)"
| "MarshalJSON L (LTWAPCancel a) = Inr (TWAPCancelAction_MarshalJSON a)"
| "MarshalJSON L (LSubaccountTransfer a) = Inr (SubaccountTransferAction_MarshalJSON a)"
| "MarshalJSON L (LSubaccountSpotTransfer a) = Inr (SubaccountSpotTransferAction_MarshalJSON a)"
| "MarshalJSON L (LVaultTransfer a) = Inr (VaultTransferAction_MarshalJSON a)"
| "MarshalJSON L (LBatchModify a) = Inr (BatchModifyAction_MarshalJSON a)"
| "MarshalJSON L (LUpdateLeverage a) = Inr (UpdateLeverageAction_MarshalJSON a)"
| "MarshalJSON L (LUpdateIsolatedMargin a) = Inr (UpdateIsolatedMarginAction_MarshalJSON a)"
| "MarshalJSON L (LTopUpIsolatedOnlyMargin a) = Inr (TopUpIsolatedOnlyMarginAction_MarshalJSON a)"
| "MarshalJSON L (LReserveRequestWeight a) = Inr (ReserveRequestWeightAction_MarshalJSON a)"
| "MarshalJSON L LNoop = Inr (NoopAction_MarshalJSON)"
| "MarshalJSON L LAgentEnableDexAbstraction = Inr (AgentEnableDexAbstractionAction_MarshalJSON)"
| "MarshalJSON L (LAgentSetAbstraction a) = Inr (AgentSetAbstractionAction_MarshalJSON a)"
| "MarshalJSON L (LAgentSendAsset a) = AgentSendAssetAction_MarshalJSON L a"
| "MarshalJSON L (LAuthorizeAQAV2Role a) = AuthorizeAQAV2RoleAction_MarshalJSON a"
| "MarshalJSON L (LHIP3LiquidatorTransfer a) = HIP3LiquidatorTransferAction_MarshalJSON a"
| "MarshalJSON L (LUserOutcome a) = UserOutcomeAction_MarshalJSON L a"
| "MarshalJSON L (LValidatorL1Stream a) = Inr (ValidatorL1StreamAction_MarshalJSON a)"
| "MarshalJSON L LClaimRewards = Inr (ClaimRewardsAction_MarshalJSON)"
| "MarshalJSON L (LSetReferrer a) = Inr (SetReferrerAction_MarshalJSON a)"
| "MarshalJSON L (LCreateSubAccount a) = Inr (CreateSubAccountAction_MarshalJSON a)"
| "MarshalJSON L (LCreateVault a) = Inr (CreateVaultAction_MarshalJSON a)"
| "MarshalJSON L (LVaultModify a) = Inr (VaultModifyAction_MarshalJSON a)"
| "MarshalJSON L (LVaultDistribute a) = Inr (VaultDistributeAction_MarshalJSON a)"
| "MarshalJSON L (LSubAccountModify a) = Inr (SubAccountModifyAction_MarshalJSON a)"
| "MarshalJSON L (LSetDisplayName a) = Inr (SetDisplayNameAction_MarshalJSON a)"
| "MarshalJSON L (LPerpDeploy a) = PerpDeployAction_MarshalJSON L a"
| "MarshalJSON L (LSpotDeploy a) = SpotDeployAction_MarshalJSON L a"
| "MarshalJSON L (LEVMUserModify a) = Inr (EVMUserModifyAction_MarshalJSON a)"
| "MarshalJSON L (LGossipPriorityBid a) = GossipPriorityBidAction_MarshalJSON L a"
| "MarshalJSON L (LCValidator a) = CValidatorAction_MarshalJSON L a"
| "MarshalJSON L (LCSigner a) = CSignerAction_MarshalJSON a"
| "MarshalJSON L (LFinalizeEVMContract a) = FinalizeEVMContractAction_MarshalJSON a"

lemmas plain_wires =   CancelAction_wire
  OrderAction_wire
  CancelByCloidAction_wire
  ScheduleCancelAction_wire
  TWAPOrderAction_wire
  TWAPCancelAction_wire
  SubaccountTransferAction_wire
  SubaccountSpotTransferAction_wire
  VaultTransferAction_wire
  BatchModifyAction_wire
  UpdateLeverageAction_wire
  UpdateIsolatedMarginAction_wire
  TopUpIsolatedOnlyMarginAction_wire
  ReserveRequestWeightAction_wire
  NoopAction_wire
  AgentEnableDexAbstractionAction_wire
  AgentSetAbstractionAction_wire
  ValidatorL1StreamAction_wire
  ClaimRewardsAction_wire
  SetReferrerAction_wire
  CreateSubAccountAction_wire
  CreateVaultAction_wire
  VaultModifyAction_wire
  VaultDistributeAction_wire
  SubAccountModifyAction_wire
  SetDisplayNameAction_wire
  EVMUserModifyAction_wire

lemmas fallible_wires = AgentSendAssetAction_wire UserOutcomeAction_wire PerpDeployAction_wire
  SpotDeployAction_wire GossipPriorityBidAction_wire AuthorizeAQAV2RoleAction_wire
  HIP3LiquidatorTransferAction_wire FinalizeEVMContractAction_wire

lemma same_value_toks [simp]: "same_value (toks_of v) v"
  by (auto simp: same_value_def)

lemma Marshal_same:
  "rel_sum (=) same_value (MarshalMsgpack L a) (MarshalJSON L a)"
proof (cases a)
  case (LCValidator v)
  then show ?thesis by (simp add: CValidatorAction_wire)
next
  case (LCSigner v)
  then show ?thesis by (simp add: CSignerAction_wire)
qed (simp_all only: MarshalMsgpack.simps MarshalJSON.simps plain_wires fallible_wires
    rel_toks_res rel_sum_simps same_value_toks)

text \<open>
  C28: for every L1 action, either both encodings fail with the same
  error, or the encoder calls whose bytes are hashed and signed are the canonical token sequence of
  the JSON value that is sent, up to the order of the top-level fields (which differs for the two
  validator actions, whose JSON goes through a Go map).
\<close>

theorem signed_bytes_spell_the_json:
  "rel_sum (=) same_value (MarshalMsgpack L a) (MarshalJSON L a)"
  by (rule Marshal_same)

text \<open>The vault scoping methods: four actions are signed without the configured vault.\<close>

fun L1SigningVault :: "L1Action \<Rightarrow> address option \<Rightarrow> address option" where
  "L1SigningVault (LEVMUserModify _) _ = None"
| "L1SigningVault (LCValidator _) _ = None"
| "L1SigningVault (LCSigner _) _ = None"
| "L1SigningVault (LFinalizeEVMContract _) _ = None"
| "L1SigningVault _ v = v"

text \<open>
  \<^verbatim>\<open>L1OuterVault\<close> is implemented by one action only; for the others the exchange client
  keeps its own rule, so the method is partial.
\<close>

fun L1OuterVault :: "L1Action \<Rightarrow> (address option \<Rightarrow> address option) option" where
  "L1OuterVault (LFinalizeEVMContract _) = Some (\<lambda>_. None)"
| "L1OuterVault _ = None"

section \<open>The hashed byte string\<close>

definition l1_data :: "byte list \<Rightarrow> u64 \<Rightarrow> address option \<Rightarrow> u64 option \<Rightarrow> byte list" where
  "l1_data actionBytes nonce vaultAddress expiresAfter =
     actionBytes @ word_bytes 8 nonce @
     (case vaultAddress of None \<Rightarrow> [0] | Some v \<Rightarrow> 1 # word_bytes 20 v) @
     (case expiresAfter of None \<Rightarrow> [] | Some e \<Rightarrow> 0 # word_bytes 8 e)"

record L1Components =
  ActionBytes :: "byte list"
  ConnectionID :: bytes32

text \<open>
  \<open>enc\<close> is the third-party encoder, \<open>keccak\<close> go-ethereum's hash. The action is given by the
  result of its \<^verbatim>\<open>MarshalMsgpack\<close>.
\<close>

definition L1ActionComponents ::
    "(tok \<Rightarrow> byte list) \<Rightarrow> (byte list \<Rightarrow> bytes32) \<Rightarrow> tok list res \<Rightarrow> u64 \<Rightarrow> address option \<Rightarrow>
     u64 option \<Rightarrow> L1Components res" where
  "L1ActionComponents enc keccak action nonce vaultAddress expiresAfter =
     bind_res (wrap_res ''encode L1 action'' action) (\<lambda>ts.
     let actionBytes = enc_all enc ts in
     Inr \<lparr> ActionBytes = actionBytes,
       ConnectionID = keccak (l1_data actionBytes nonce vaultAddress expiresAfter) \<rparr>)"

text \<open>EIP-712 typed data, as go-ethereum's \<^verbatim>\<open>apitypes\<close> takes it.\<close>

datatype eip_val = EStr string | EUint u64 | EBool bool

record typed_data =
  td_Types :: "(string \<times> (string \<times> string) list) list"
  td_PrimaryType :: string
  td_DomainName :: string
  td_ChainId :: int
  td_Message :: "(string \<times> eip_val) list"

definition domain_fields :: "(string \<times> string) list" where
  "domain_fields = [(''name'', ''string''), (''version'', ''string''), (''chainId'', ''uint256''),
     (''verifyingContract'', ''address'')]"

definition l1_typed_data :: "bytes32 \<Rightarrow> bool \<Rightarrow> typed_data" where
  "l1_typed_data connectionID isMainnet =
     \<lparr> td_Types = [(''EIP712Domain'', domain_fields),
         (''Agent'', [(''source'', ''string''), (''connectionId'', ''bytes32'')])],
       td_PrimaryType = ''Agent'', td_DomainName = ''Exchange'', td_ChainId = 1337,
       td_Message = [(''source'', EStr (if isMainnet then ''a'' else ''b'')),
         (''connectionId'', EStr (''0x'' @ hex_encode (word_bytes 32 connectionID)))] \<rparr>"

definition ComputeL1ActionDigest ::
    "(tok \<Rightarrow> byte list) \<Rightarrow> (byte list \<Rightarrow> bytes32) \<Rightarrow> (typed_data \<Rightarrow> bytes32 res) \<Rightarrow> tok list res \<Rightarrow>
     u64 \<Rightarrow> address option \<Rightarrow> u64 option \<Rightarrow> bool \<Rightarrow> bytes32 res" where
  "ComputeL1ActionDigest enc keccak typedHash action nonce vaultAddress expiresAfter isMainnet =
     bind_res (L1ActionComponents enc keccak action nonce vaultAddress expiresAfter) (\<lambda>c.
     wrap_res ''hash L1 typed data'' (typedHash (l1_typed_data (ConnectionID c) isMainnet)))"

lemma word_bytes_not_longer [simp]:
  "word_bytes n x @ b # r \<noteq> word_bytes n y" "word_bytes n y \<noteq> word_bytes n x @ b # r"
  by (auto dest: arg_cong [where f = length])

lemma l1_data_tail:
  "word_bytes 8 n @ (case v of None \<Rightarrow> [0] | Some x \<Rightarrow> 1 # word_bytes 20 x) @
     (case e of None \<Rightarrow> [] | Some x \<Rightarrow> 0 # word_bytes 8 x) =
   word_bytes 8 n' @ (case v' of None \<Rightarrow> [0] | Some x \<Rightarrow> 1 # word_bytes 20 x) @
     (case e' of None \<Rightarrow> [] | Some x \<Rightarrow> 0 # word_bytes 8 x) \<Longrightarrow>
   n = (n' :: u64) \<and> v = (v' :: address option) \<and> e = (e' :: u64 option)"
  by (auto simp: word_bytes_inj split: option.splits)

definition sample_cancel :: L1Action where
  "sample_cancel = LCancel \<lparr> ca_Cancels = Some [\<lparr> cw_Asset = 1, cw_OID = 7 \<rparr>] \<rparr>"

definition sample_toks :: "tok list" where
  "sample_toks = [MapLen 2, Str ''type'', Str ''cancel'', Str ''cancels'', ArrayLen 1,
     MapLen 2, Str ''a'', IntT 1, Str ''o'', IntT 7]"

lemma Marshal_Inr:
  assumes "MarshalMsgpack L a = Inr ts"
  shows "\<exists>v j. MarshalJSON L a = Inr j \<and> ts = toks_of v \<and> reordered v j"
  using Marshal_same [of L a] assms
  by (cases "MarshalJSON L a") (auto simp: same_value_def)

lemma reordered_join: "reordered v w \<Longrightarrow> reordered v x \<Longrightarrow> reordered w x"
  by (auto simp: reordered_def)

text \<open>
  C27: if two requests hash the same byte string, then they sign the same
  action (the JSON values that would be sent are equal up to the order of the top-level fields), the
  same nonce, the same vault and the same expiry. No choice of these can be shifted into another.
\<close>

theorem l1_data_binds_everything:
  assumes codec: "msgpack_codec enc dec"
    and a: "MarshalMsgpack L a = Inr ts" "list_all tok_ok ts"
    and b: "MarshalMsgpack L b = Inr us" "list_all tok_ok us"
    and eq: "l1_data (enc_all enc ts) n v e = l1_data (enc_all enc us) n' v' e'"
  shows "(\<exists>ja jb. MarshalJSON L a = Inr ja \<and> MarshalJSON L b = Inr jb \<and> reordered ja jb) \<and>
    ts = us \<and> n = n' \<and> v = v' \<and> e = e'"
proof -
  obtain va ja where va: "MarshalJSON L a = Inr ja" "ts = toks_of va" "reordered va ja"
    using Marshal_Inr [OF a(1)] by blast
  obtain vb jb where vb: "MarshalJSON L b = Inr jb" "us = toks_of vb" "reordered vb jb"
    using Marshal_Inr [OF b(1)] by blast
  have "va = vb" and tail: "word_bytes 8 n @ (case v of None \<Rightarrow> [0] | Some x \<Rightarrow> 1 # word_bytes 20 x) @
     (case e of None \<Rightarrow> [] | Some x \<Rightarrow> 0 # word_bytes 8 x) =
   word_bytes 8 n' @ (case v' of None \<Rightarrow> [0] | Some x \<Rightarrow> 1 # word_bytes 20 x) @
     (case e' of None \<Rightarrow> [] | Some x \<Rightarrow> 0 # word_bytes 8 x)"
    using msgpack_codec.value_prefix [OF codec a(2) [unfolded va(2)] b(2) [unfolded vb(2)]] eq
    unfolding l1_data_def va(2) vb(2) by blast+
  then show ?thesis
    using l1_data_tail [OF tail] va vb reordered_join by blast
qed

theorem l1_data_binds_everything_witness:
  "(\<exists>ja jb. MarshalJSON sample_lib sample_cancel = Inr ja \<and>
     MarshalJSON sample_lib sample_cancel = Inr jb \<and> reordered ja jb) \<and>
   sample_toks = sample_toks \<and> (9 :: u64) = 9 \<and> Some (5 :: address) = Some 5 \<and>
   Some (3 :: u64) = Some 3"
proof (rule l1_data_binds_everything [OF mp.msgpack_codec_axioms])
  show "MarshalMsgpack sample_lib sample_cancel = Inr sample_toks"
    by (simp add: sample_cancel_def sample_toks_def CancelAction_MarshalMsgpack_def
        CancelWire_MarshalMsgpack_def EncodeSlice_def enc_defs)
  then show "MarshalMsgpack sample_lib sample_cancel = Inr sample_toks" .
  show "list_all tok_ok sample_toks" by (simp add: sample_toks_def)
  then show "list_all tok_ok sample_toks" .
  show "l1_data (enc_all mp_enc sample_toks) 9 (Some 5) (Some 3) =
    l1_data (enc_all mp_enc sample_toks) 9 (Some 5) (Some 3)" ..
qed

lemma json_slice_inj:
  "(\<And>x y. f x = f y \<longleftrightarrow> x = y) \<Longrightarrow> json_slice f p = json_slice f q \<longleftrightarrow> p = q"
  by (auto simp: json_slice_def inj_def inj_map_eq_map split: option.splits)

lemma OrderTypeWire_json_inj:
  "OrderTypeWire_MarshalJSON s = OrderTypeWire_MarshalJSON t \<longleftrightarrow> s = t"
  by (cases s; cases t) (auto simp: LimitOrderType_MarshalJSON_def TriggerOrderType_MarshalJSON_def
      intro: LimitOrderType.equality TriggerOrderType.equality)

lemma OrderTypeWire_json_not_null: "OrderTypeWire_MarshalJSON s \<noteq> JNull"
  by (cases s) (simp_all add: LimitOrderType_MarshalJSON_def TriggerOrderType_MarshalJSON_def)

lemma OrderWire_json_inj: "OrderWire_MarshalJSON v = OrderWire_MarshalJSON w \<longleftrightarrow> v = w"
proof
  assume "OrderWire_MarshalJSON v = OrderWire_MarshalJSON w"
  then show "v = w"
    by (intro OrderWire.equality)
      (auto simp: OrderWire_MarshalJSON_def json_ptr_def omit_def
        OrderTypeWire_json_inj OrderTypeWire_json_not_null
        OrderTypeWire_json_not_null [symmetric] split: option.splits)
qed simp

lemma BuilderWire_json_inj: "BuilderWire_MarshalJSON v = BuilderWire_MarshalJSON w \<longleftrightarrow> v = w"
  by (auto simp: BuilderWire_MarshalJSON_def intro: BuilderWire.equality)

lemma OrderAction_json_inj: "OrderAction_MarshalJSON v = OrderAction_MarshalJSON w \<longleftrightarrow> v = w"
proof
  assume "OrderAction_MarshalJSON v = OrderAction_MarshalJSON w"
  then show "v = w"
    by (intro OrderAction.equality)
      (auto simp: OrderAction_MarshalJSON_def omit_def json_slice_inj OrderWire_json_inj
        BuilderWire_json_inj split: option.splits)
qed simp

text \<open>
  The encoding of an order action loses nothing: two order actions
  have the same encoder calls only if they are the same action, down to the last price digit, the
  order type, the client order id and the builder fee.
\<close>

theorem order_bytes_injective:
  "OrderAction_MarshalMsgpack a = OrderAction_MarshalMsgpack b \<longleftrightarrow> a = b"
  by (simp only: OrderAction_wire toks_of_inj OrderAction_json_inj)

end
