(* ===== verification/UserActions.thy ===== *)
theory UserActions
  imports L1Action
begin

text \<open>
  The user-signed actions (\<^verbatim>\<open>signing/user_action.go\<close>, \<^verbatim>\<open>signing/advanced_actions.go\<close>,
  \<^verbatim>\<open>signing/account_management_actions.go\<close>): for each the EIP-712 typed data that is signed and the
  wire struct that is sent. A wire struct is a list of fields with both names a Go field has: the
  one in the source, which reflection-based encoders without a matching tag use, and the \<^verbatim>\<open>json\<close> tag.
\<close>

section \<open>Wire structs and typed data\<close>

datatype sfield = Field (go_name: string) (json_tag: string) (omitempty: bool) (sval: jval)

definition wire_fields :: "sfield list \<Rightarrow> (string \<times> jval) list" where
  "wire_fields w =
     map (\<lambda>f. (json_tag f, sval f)) (filter (\<lambda>f. \<not> (omitempty f \<and> sval f = JNull)) w)"

definition wire_json :: "sfield list \<Rightarrow> jval" where
  "wire_json w = JObj (wire_fields w)"

text \<open>The name, the field list and the message of an action's typed data.\<close>

type_synonym typed = "string \<times> (string \<times> string) list \<times> (string \<times> eip_val) list"

definition userActionNetwork :: "bool \<Rightarrow> string" where
  "userActionNetwork isMainnet = (if isMainnet then ''Mainnet'' else ''Testnet'')"

definition wire_head :: "string \<Rightarrow> bool \<Rightarrow> sfield list" where
  "wire_head ty net =
     [Field ''Type'' ''type'' False (JStr ty),
      Field ''HyperliquidChain'' ''hyperliquidChain'' False (JStr (userActionNetwork net)),
      Field ''SignatureChainID'' ''signatureChainId'' False (JStr ''0x66eee'')]"

definition usdSendFields :: "(string \<times> string) list" where
  "usdSendFields = [(''hyperliquidChain'', ''string''), (''destination'', ''string''),
     (''amount'', ''string''), (''time'', ''uint64'')]"

definition spotSendFields :: "(string \<times> string) list" where
  "spotSendFields = [(''hyperliquidChain'', ''string''), (''destination'', ''string''),
     (''token'', ''string''), (''amount'', ''string''), (''time'', ''uint64'')]"

definition stakingFields :: "(string \<times> string) list" where
  "stakingFields = [(''hyperliquidChain'', ''string''), (''wei'', ''uint64''), (''nonce'', ''uint64'')]"

definition stakingWire :: "string \<Rightarrow> bool \<Rightarrow> u64 \<Rightarrow> u64 \<Rightarrow> sfield list" where
  "stakingWire ty net wei nonce =
     wire_head ty net @ [Field ''Wei'' ''wei'' False (json_uint wei),
       Field ''Nonce'' ''nonce'' False (json_uint nonce)]"

section \<open>Transfers\<close>

record USDSendAction =
  us_Destination :: address
  us_Amount :: string
  us_Time :: u64

definition USDSendAction_validate :: "USDSendAction \<Rightarrow> unit res" where
  "USDSendAction_validate a =
     (if (us_Destination a) = 0 then Inl (''USD send destination is required'')
      else if (us_Amount a) = '''' then Inl (''USD send amount is required'')
      else if (us_Time a) = 0 then Inl (''USD send time is required'')
      else Inr ())"

definition USDSendAction_typed :: "lib \<Rightarrow> bool \<Rightarrow> USDSendAction \<Rightarrow> typed res" where
  "USDSendAction_typed L net a = bind_res (USDSendAction_validate a) (\<lambda>_. Inr
     (''HyperliquidTransaction:UsdSend'',
      [(''hyperliquidChain'', ''string''), (''destination'', ''string''), (''amount'', ''string''), (''time'', ''uint64'')],
      [(''hyperliquidChain'', EStr (userActionNetwork net)), (''destination'', EStr (Hex L (us_Destination a))), (''amount'', EStr (us_Amount a)), (''time'', EUint (us_Time a))]))"

definition USDSendAction_wire :: "lib \<Rightarrow> bool \<Rightarrow> USDSendAction \<Rightarrow> sfield list res" where
  "USDSendAction_wire L net a = bind_res (USDSendAction_validate a) (\<lambda>_. Inr
     (wire_head ''usdSend'' net @
      [Field ''Destination'' ''destination'' False (JStr (Hex L (us_Destination a))),
       Field ''Amount'' ''amount'' False (JStr (us_Amount a)),
       Field ''Time'' ''time'' False (json_uint (us_Time a))]))"

record SpotSendAction =
  ssn_Destination :: address
  ssn_Token :: string
  ssn_Amount :: string
  ssn_Time :: u64

definition SpotSendAction_validate :: "SpotSendAction \<Rightarrow> unit res" where
  "SpotSendAction_validate a =
     guard_res (\<not> ((ssn_Destination a) = 0 \<or> (ssn_Token a) = '''' \<or> (ssn_Amount a) = '''' \<or> (ssn_Time a) = 0))
       ''spot send requires destination, token, amount, and time''"

definition SpotSendAction_typed :: "lib \<Rightarrow> bool \<Rightarrow> SpotSendAction \<Rightarrow> typed res" where
  "SpotSendAction_typed L net a = bind_res (SpotSendAction_validate a) (\<lambda>_. Inr
     (''HyperliquidTransaction:SpotSend'',
      spotSendFields,
      [(''hyperliquidChain'', EStr (userActionNetwork net)), (''destination'', EStr (Hex L (ssn_Destination a))), (''token'', EStr (ssn_Token a)), (''amount'', EStr (ssn_Amount a)), (''time'', EUint (ssn_Time a))]))"

definition SpotSendAction_wire :: "lib \<Rightarrow> bool \<Rightarrow> SpotSendAction \<Rightarrow> sfield list res" where
  "SpotSendAction_wire L net a = bind_res (SpotSendAction_validate a) (\<lambda>_. Inr
     (wire_head ''spotSend'' net @
      [Field ''Destination'' ''destination'' False (JStr (Hex L (ssn_Destination a))),
       Field ''Token'' ''token'' False (JStr (ssn_Token a)),
       Field ''Amount'' ''amount'' False (JStr (ssn_Amount a)),
       Field ''Time'' ''time'' False (json_uint (ssn_Time a))]))"

record WithdrawFromBridgeAction =
  wb_Destination :: address
  wb_Amount :: string
  wb_Time :: u64

definition WithdrawFromBridgeAction_validate :: "WithdrawFromBridgeAction \<Rightarrow> unit res" where
  "WithdrawFromBridgeAction_validate a =
     guard_res (\<not> ((wb_Destination a) = 0 \<or> (wb_Amount a) = '''' \<or> (wb_Time a) = 0))
       ''withdrawal requires destination, amount, and time''"

definition WithdrawFromBridgeAction_typed :: "lib \<Rightarrow> bool \<Rightarrow> WithdrawFromBridgeAction \<Rightarrow> typed res" where
  "WithdrawFromBridgeAction_typed L net a = bind_res (WithdrawFromBridgeAction_validate a) (\<lambda>_. Inr
     (''HyperliquidTransaction:Withdraw'',
      usdSendFields,
      [(''hyperliquidChain'', EStr (userActionNetwork net)), (''destination'', EStr (Hex L (wb_Destination a))), (''amount'', EStr (wb_Amount a)), (''time'', EUint (wb_Time a))]))"

definition WithdrawFromBridgeAction_wire :: "lib \<Rightarrow> bool \<Rightarrow> WithdrawFromBridgeAction \<Rightarrow> sfield list res" where
  "WithdrawFromBridgeAction_wire L net a = bind_res (WithdrawFromBridgeAction_validate a) (\<lambda>_. Inr
     (wire_head ''withdraw3'' net @
      [Field ''Destination'' ''destination'' False (JStr (Hex L (wb_Destination a))),
       Field ''Amount'' ''amount'' False (JStr (wb_Amount a)),
       Field ''Time'' ''time'' False (json_uint (wb_Time a))]))"

record USDClassTransferAction =
  uc_Amount :: string
  uc_ToPerp :: bool
  uc_Nonce :: u64

definition USDClassTransferAction_validate :: "USDClassTransferAction \<Rightarrow> unit res" where
  "USDClassTransferAction_validate a =
     guard_res (\<not> ((uc_Amount a) = '''' \<or> (uc_Nonce a) = 0))
       ''USD class transfer requires amount and nonce''"

definition USDClassTransferAction_typed :: "lib \<Rightarrow> bool \<Rightarrow> USDClassTransferAction \<Rightarrow> typed res" where
  "USDClassTransferAction_typed L net a = bind_res (USDClassTransferAction_validate a) (\<lambda>_. Inr
     (''HyperliquidTransaction:UsdClassTransfer'',
      [(''hyperliquidChain'', ''string''), (''amount'', ''string''), (''toPerp'', ''bool''), (''nonce'', ''uint64'')],
      [(''hyperliquidChain'', EStr (userActionNetwork net)), (''amount'', EStr (uc_Amount a)), (''toPerp'', EBool (uc_ToPerp a)), (''nonce'', EUint (uc_Nonce a))]))"

definition USDClassTransferAction_wire :: "lib \<Rightarrow> bool \<Rightarrow> USDClassTransferAction \<Rightarrow> sfield list res" where
  "USDClassTransferAction_wire L net a = bind_res (USDClassTransferAction_validate a) (\<lambda>_. Inr
     (wire_head ''usdClassTransfer'' net @
      [Field ''Amount'' ''amount'' False (JStr (uc_Amount a)),
       Field ''ToPerp'' ''toPerp'' False (JBool (uc_ToPerp a)),
       Field ''Nonce'' ''nonce'' False (json_uint (uc_Nonce a))]))"

definition SendAsset_fromSubAccount :: "lib \<Rightarrow> address option \<Rightarrow> string" where
  "SendAsset_fromSubAccount L p = (case p of None \<Rightarrow> '''' | Some a \<Rightarrow> Hex L a)"

record SendAssetAction =
  sa_Destination :: address
  sa_SourceDEX :: string
  sa_DestinationDEX :: string
  sa_Token :: string
  sa_Amount :: string
  sa_FromSubAccount :: "address option"
  sa_Nonce :: u64

definition SendAssetAction_validate :: "SendAssetAction \<Rightarrow> unit res" where
  "SendAssetAction_validate a =
     guard_res (\<not> ((sa_Destination a) = 0 \<or> (sa_Token a) = '''' \<or> (sa_Amount a) = '''' \<or> (sa_Nonce a) = 0))
       ''send asset requires destination, token, amount, and nonce''"

definition SendAssetAction_typed :: "lib \<Rightarrow> bool \<Rightarrow> SendAssetAction \<Rightarrow> typed res" where
  "SendAssetAction_typed L net a = bind_res (SendAssetAction_validate a) (\<lambda>_. Inr
     (''HyperliquidTransaction:SendAsset'',
      [(''hyperliquidChain'', ''string''), (''destination'', ''string''), (''sourceDex'', ''string''), (''destinationDex'', ''string''), (''token'', ''string''), (''amount'', ''string''), (''fromSubAccount'', ''string''), (''nonce'', ''uint64'')],
      [(''hyperliquidChain'', EStr (userActionNetwork net)), (''destination'', EStr (Hex L (sa_Destination a))), (''sourceDex'', EStr (sa_SourceDEX a)), (''destinationDex'', EStr (sa_DestinationDEX a)), (''token'', EStr (sa_Token a)), (''amount'', EStr (sa_Amount a)), (''fromSubAccount'', EStr (SendAsset_fromSubAccount L (sa_FromSubAccount a))), (''nonce'', EUint (sa_Nonce a))]))"

definition SendAssetAction_wire :: "lib \<Rightarrow> bool \<Rightarrow> SendAssetAction \<Rightarrow> sfield list res" where
  "SendAssetAction_wire L net a = bind_res (SendAssetAction_validate a) (\<lambda>_. Inr
     (wire_head ''sendAsset'' net @
      [Field ''Destination'' ''destination'' False (JStr (Hex L (sa_Destination a))),
       Field ''SourceDEX'' ''sourceDex'' False (JStr (sa_SourceDEX a)),
       Field ''DestinationDEX'' ''destinationDex'' False (JStr (sa_DestinationDEX a)),
       Field ''Token'' ''token'' False (JStr (sa_Token a)),
       Field ''Amount'' ''amount'' False (JStr (sa_Amount a)),
       Field ''FromSubAccount'' ''fromSubAccount'' False (JStr (SendAsset_fromSubAccount L (sa_FromSubAccount a))),
       Field ''Nonce'' ''nonce'' False (json_uint (sa_Nonce a))]))"

definition SendToEVM_dataHex :: "byte list \<Rightarrow> string" where
  "SendToEVM_dataHex d = ''0x'' @ hex_encode d"

record SendToEVMWithDataAction =
  se_Token :: string
  se_Amount :: string
  se_SourceDEX :: string
  se_DestinationRecipient :: string
  se_AddressEncoding :: string
  se_DestinationChainID :: u32
  se_GasLimit :: u64
  se_Data :: "byte list"
  se_Nonce :: u64

definition SendToEVMWithDataAction_validate :: "SendToEVMWithDataAction \<Rightarrow> unit res" where
  "SendToEVMWithDataAction_validate a =
     (if (se_Token a) = '''' \<or> (se_Amount a) = '''' \<or> (se_DestinationRecipient a) = '''' \<or> (se_Nonce a) = 0 then Inl (''send to EVM with data requires token, amount, recipient, and nonce'')
      else if (se_AddressEncoding a) \<noteq> ''hex'' \<and> (se_AddressEncoding a) \<noteq> ''base58'' then Inl (''unsupported EVM destination address encoding'')
      else Inr ())"

definition SendToEVMWithDataAction_typed :: "lib \<Rightarrow> bool \<Rightarrow> SendToEVMWithDataAction \<Rightarrow> typed res" where
  "SendToEVMWithDataAction_typed L net a = bind_res (SendToEVMWithDataAction_validate a) (\<lambda>_. Inr
     (''HyperliquidTransaction:SendToEvmWithData'',
      [(''hyperliquidChain'', ''string''), (''token'', ''string''), (''amount'', ''string''), (''sourceDex'', ''string''), (''destinationRecipient'', ''string''), (''addressEncoding'', ''string''), (''destinationChainId'', ''uint32''), (''gasLimit'', ''uint64''), (''data'', ''bytes''), (''nonce'', ''uint64'')],
      [(''hyperliquidChain'', EStr (userActionNetwork net)), (''token'', EStr (se_Token a)), (''amount'', EStr (se_Amount a)), (''sourceDex'', EStr (se_SourceDEX a)), (''destinationRecipient'', EStr (se_DestinationRecipient a)), (''addressEncoding'', EStr (se_AddressEncoding a)), (''destinationChainId'', EUint (ucast (se_DestinationChainID a))), (''gasLimit'', EUint (se_GasLimit a)), (''data'', EStr (SendToEVM_dataHex (se_Data a))), (''nonce'', EUint (se_Nonce a))]))"

definition SendToEVMWithDataAction_wire :: "lib \<Rightarrow> bool \<Rightarrow> SendToEVMWithDataAction \<Rightarrow> sfield list res" where
  "SendToEVMWithDataAction_wire L net a = bind_res (SendToEVMWithDataAction_validate a) (\<lambda>_. Inr
     (wire_head ''sendToEvmWithData'' net @
      [Field ''Token'' ''token'' False (JStr (se_Token a)),
       Field ''Amount'' ''amount'' False (JStr (se_Amount a)),
       Field ''SourceDEX'' ''sourceDex'' False (JStr (se_SourceDEX a)),
       Field ''DestinationRecipient'' ''destinationRecipient'' False (JStr (se_DestinationRecipient a)),
       Field ''AddressEncoding'' ''addressEncoding'' False (JStr (se_AddressEncoding a)),
       Field ''DestinationChainID'' ''destinationChainId'' False (JInt (uint (se_DestinationChainID a))),
       Field ''GasLimit'' ''gasLimit'' False (json_uint (se_GasLimit a)),
       Field ''Data'' ''data'' False (JStr (SendToEVM_dataHex (se_Data a))),
       Field ''Nonce'' ''nonce'' False (json_uint (se_Nonce a))]))"

section \<open>Approvals and staking\<close>

definition ApproveAgent_agentName :: "string option \<Rightarrow> string" where
  "ApproveAgent_agentName p = (case p of None \<Rightarrow> '''' | Some n \<Rightarrow> n)"

record ApproveAgentAction =
  aa_AgentAddress :: address
  aa_AgentName :: "string option"
  aa_Nonce :: u64

definition ApproveAgentAction_validate :: "ApproveAgentAction \<Rightarrow> unit res" where
  "ApproveAgentAction_validate a =
     guard_res (\<not> ((aa_AgentAddress a) = 0 \<or> (aa_Nonce a) = 0))
       ''approve agent requires address and nonce''"

definition ApproveAgentAction_typed :: "lib \<Rightarrow> bool \<Rightarrow> ApproveAgentAction \<Rightarrow> typed res" where
  "ApproveAgentAction_typed L net a = bind_res (ApproveAgentAction_validate a) (\<lambda>_. Inr
     (''HyperliquidTransaction:ApproveAgent'',
      [(''hyperliquidChain'', ''string''), (''agentAddress'', ''address''), (''agentName'', ''string''), (''nonce'', ''uint64'')],
      [(''hyperliquidChain'', EStr (userActionNetwork net)), (''agentAddress'', EStr (Hex L (aa_AgentAddress a))), (''agentName'', EStr (ApproveAgent_agentName (aa_AgentName a))), (''nonce'', EUint (aa_Nonce a))]))"

definition ApproveAgentAction_wire :: "lib \<Rightarrow> bool \<Rightarrow> ApproveAgentAction \<Rightarrow> sfield list res" where
  "ApproveAgentAction_wire L net a = bind_res (ApproveAgentAction_validate a) (\<lambda>_. Inr
     (wire_head ''approveAgent'' net @
      [Field ''AgentAddress'' ''agentAddress'' False (JStr (Hex L (aa_AgentAddress a))),
       Field ''AgentName'' ''agentName'' True (json_ptr JStr (aa_AgentName a)),
       Field ''Nonce'' ''nonce'' False (json_uint (aa_Nonce a))]))"

record ApproveBuilderFeeAction =
  bf_Builder :: address
  bf_MaxFeeRate :: string
  bf_Nonce :: u64

definition ApproveBuilderFeeAction_validate :: "ApproveBuilderFeeAction \<Rightarrow> unit res" where
  "ApproveBuilderFeeAction_validate a =
     guard_res (\<not> ((bf_Builder a) = 0 \<or> (bf_MaxFeeRate a) = '''' \<or> (bf_Nonce a) = 0))
       ''approve builder fee requires builder, max fee rate, and nonce''"

definition ApproveBuilderFeeAction_typed :: "lib \<Rightarrow> bool \<Rightarrow> ApproveBuilderFeeAction \<Rightarrow> typed res" where
  "ApproveBuilderFeeAction_typed L net a = bind_res (ApproveBuilderFeeAction_validate a) (\<lambda>_. Inr
     (''HyperliquidTransaction:ApproveBuilderFee'',
      [(''hyperliquidChain'', ''string''), (''maxFeeRate'', ''string''), (''builder'', ''address''), (''nonce'', ''uint64'')],
      [(''hyperliquidChain'', EStr (userActionNetwork net)), (''maxFeeRate'', EStr (bf_MaxFeeRate a)), (''builder'', EStr (Hex L (bf_Builder a))), (''nonce'', EUint (bf_Nonce a))]))"

definition ApproveBuilderFeeAction_wire :: "lib \<Rightarrow> bool \<Rightarrow> ApproveBuilderFeeAction \<Rightarrow> sfield list res" where
  "ApproveBuilderFeeAction_wire L net a = bind_res (ApproveBuilderFeeAction_validate a) (\<lambda>_. Inr
     (wire_head ''approveBuilderFee'' net @
      [Field ''MaxFeeRate'' ''maxFeeRate'' False (JStr (bf_MaxFeeRate a)),
       Field ''Builder'' ''builder'' False (JStr (Hex L (bf_Builder a))),
       Field ''Nonce'' ''nonce'' False (json_uint (bf_Nonce a))]))"

record CDepositAction =
  cd_Wei :: u64
  cd_Nonce :: u64

definition CDepositAction_validate :: "CDepositAction \<Rightarrow> unit res" where
  "CDepositAction_validate a =
     guard_res (\<not> ((cd_Wei a) = 0 \<or> (cd_Nonce a) = 0))
       ''staking deposit requires positive wei and nonce''"

definition CDepositAction_typed :: "lib \<Rightarrow> bool \<Rightarrow> CDepositAction \<Rightarrow> typed res" where
  "CDepositAction_typed L net a = bind_res (CDepositAction_validate a) (\<lambda>_. Inr
     (''HyperliquidTransaction:CDeposit'',
      stakingFields,
      [(''hyperliquidChain'', EStr (userActionNetwork net)), (''wei'', EUint (cd_Wei a)), (''nonce'', EUint (cd_Nonce a))]))"

definition CDepositAction_wire :: "lib \<Rightarrow> bool \<Rightarrow> CDepositAction \<Rightarrow> sfield list res" where
  "CDepositAction_wire L net a = bind_res (CDepositAction_validate a) (\<lambda>_. Inr
     (stakingWire ''cDeposit'' net (cd_Wei a) (cd_Nonce a)))"

record CWithdrawAction =
  cw2_Wei :: u64
  cw2_Nonce :: u64

definition CWithdrawAction_validate :: "CWithdrawAction \<Rightarrow> unit res" where
  "CWithdrawAction_validate a =
     guard_res (\<not> ((cw2_Wei a) = 0 \<or> (cw2_Nonce a) = 0))
       ''staking withdrawal requires positive wei and nonce''"

definition CWithdrawAction_typed :: "lib \<Rightarrow> bool \<Rightarrow> CWithdrawAction \<Rightarrow> typed res" where
  "CWithdrawAction_typed L net a = bind_res (CWithdrawAction_validate a) (\<lambda>_. Inr
     (''HyperliquidTransaction:CWithdraw'',
      stakingFields,
      [(''hyperliquidChain'', EStr (userActionNetwork net)), (''wei'', EUint (cw2_Wei a)), (''nonce'', EUint (cw2_Nonce a))]))"

definition CWithdrawAction_wire :: "lib \<Rightarrow> bool \<Rightarrow> CWithdrawAction \<Rightarrow> sfield list res" where
  "CWithdrawAction_wire L net a = bind_res (CWithdrawAction_validate a) (\<lambda>_. Inr
     (stakingWire ''cWithdraw'' net (cw2_Wei a) (cw2_Nonce a)))"

record TokenDelegateAction =
  td2_Validator :: address
  td2_Wei :: u64
  td2_IsUndelegate :: bool
  td2_Nonce :: u64

definition TokenDelegateAction_validate :: "TokenDelegateAction \<Rightarrow> unit res" where
  "TokenDelegateAction_validate a =
     guard_res (\<not> ((td2_Validator a) = 0 \<or> (td2_Wei a) = 0 \<or> (td2_Nonce a) = 0))
       ''token delegate requires validator, positive wei, and nonce''"

definition TokenDelegateAction_typed :: "lib \<Rightarrow> bool \<Rightarrow> TokenDelegateAction \<Rightarrow> typed res" where
  "TokenDelegateAction_typed L net a = bind_res (TokenDelegateAction_validate a) (\<lambda>_. Inr
     (''HyperliquidTransaction:TokenDelegate'',
      [(''hyperliquidChain'', ''string''), (''validator'', ''address''), (''wei'', ''uint64''), (''isUndelegate'', ''bool''), (''nonce'', ''uint64'')],
      [(''hyperliquidChain'', EStr (userActionNetwork net)), (''validator'', EStr (Hex L (td2_Validator a))), (''wei'', EUint (td2_Wei a)), (''isUndelegate'', EBool (td2_IsUndelegate a)), (''nonce'', EUint (td2_Nonce a))]))"

definition TokenDelegateAction_wire :: "lib \<Rightarrow> bool \<Rightarrow> TokenDelegateAction \<Rightarrow> sfield list res" where
  "TokenDelegateAction_wire L net a = bind_res (TokenDelegateAction_validate a) (\<lambda>_. Inr
     (wire_head ''tokenDelegate'' net @
      [Field ''Validator'' ''validator'' False (JStr (Hex L (td2_Validator a))),
       Field ''Wei'' ''wei'' False (json_uint (td2_Wei a)),
       Field ''IsUndelegate'' ''isUndelegate'' False (JBool (td2_IsUndelegate a)),
       Field ''Nonce'' ''nonce'' False (json_uint (td2_Nonce a))]))"

section \<open>Abstraction modes\<close>

record UserDexAbstractionAction =
  ux_User :: address
  ux_Enabled :: bool
  ux_Nonce :: u64

definition UserDexAbstractionAction_validate :: "UserDexAbstractionAction \<Rightarrow> unit res" where
  "UserDexAbstractionAction_validate a =
     guard_res (\<not> ((ux_User a) = 0 \<or> (ux_Nonce a) = 0))
       ''user DEX abstraction requires user and nonce''"

definition UserDexAbstractionAction_typed :: "lib \<Rightarrow> bool \<Rightarrow> UserDexAbstractionAction \<Rightarrow> typed res" where
  "UserDexAbstractionAction_typed L net a = bind_res (UserDexAbstractionAction_validate a) (\<lambda>_. Inr
     (''HyperliquidTransaction:UserDexAbstraction'',
      [(''hyperliquidChain'', ''string''), (''user'', ''address''), (''enabled'', ''bool''), (''nonce'', ''uint64'')],
      [(''hyperliquidChain'', EStr (userActionNetwork net)), (''user'', EStr (Hex L (ux_User a))), (''enabled'', EBool (ux_Enabled a)), (''nonce'', EUint (ux_Nonce a))]))"

definition UserDexAbstractionAction_wire :: "lib \<Rightarrow> bool \<Rightarrow> UserDexAbstractionAction \<Rightarrow> sfield list res" where
  "UserDexAbstractionAction_wire L net a = bind_res (UserDexAbstractionAction_validate a) (\<lambda>_. Inr
     (wire_head ''userDexAbstraction'' net @
      [Field ''User'' ''user'' False (JStr (Hex L (ux_User a))),
       Field ''Enabled'' ''enabled'' False (JBool (ux_Enabled a)),
       Field ''Nonce'' ''nonce'' False (json_uint (ux_Nonce a))]))"

record UserSetAbstractionAction =
  uz_User :: address
  uz_Abstraction :: string
  uz_Nonce :: u64

definition UserSetAbstractionAction_validate :: "UserSetAbstractionAction \<Rightarrow> unit res" where
  "UserSetAbstractionAction_validate a =
     (if (uz_User a) = 0 \<or> (uz_Nonce a) = 0 then Inl (''user abstraction requires user and nonce'')
      else if (uz_Abstraction a) \<notin> {''disabled'', ''unifiedAccount'', ''portfolioMargin''} then Inl (''unsupported user abstraction '' @ quote (uz_Abstraction a) @ '''')
      else Inr ())"

definition UserSetAbstractionAction_typed :: "lib \<Rightarrow> bool \<Rightarrow> UserSetAbstractionAction \<Rightarrow> typed res" where
  "UserSetAbstractionAction_typed L net a = bind_res (UserSetAbstractionAction_validate a) (\<lambda>_. Inr
     (''HyperliquidTransaction:UserSetAbstraction'',
      [(''hyperliquidChain'', ''string''), (''user'', ''address''), (''abstraction'', ''string''), (''nonce'', ''uint64'')],
      [(''hyperliquidChain'', EStr (userActionNetwork net)), (''user'', EStr (Hex L (uz_User a))), (''abstraction'', EStr (uz_Abstraction a)), (''nonce'', EUint (uz_Nonce a))]))"

definition UserSetAbstractionAction_wire :: "lib \<Rightarrow> bool \<Rightarrow> UserSetAbstractionAction \<Rightarrow> sfield list res" where
  "UserSetAbstractionAction_wire L net a = bind_res (UserSetAbstractionAction_validate a) (\<lambda>_. Inr
     (wire_head ''userSetAbstraction'' net @
      [Field ''User'' ''user'' False (JStr (Hex L (uz_User a))),
       Field ''Abstraction'' ''abstraction'' False (JStr (uz_Abstraction a)),
       Field ''Nonce'' ''nonce'' False (json_uint (uz_Nonce a))]))"

section \<open>Conversion to a multi-signature account\<close>

record MultiSigSignerSet =
  mss_AuthorizedUsers :: "address list"
  mss_Threshold :: u8

text \<open>
  The loop over the authorized users, and the JSON text of the sorted users (hexadecimal
  addresses need no escaping).
\<close>

fun signer_users :: "lib \<Rightarrow> address list \<Rightarrow> address list \<Rightarrow> string list res" where
  "signer_users L seen [] = Inr []"
| "signer_users L seen (u # us) =
     (if u = 0 then Inl ''multi-sig authorized user is required''
      else if u \<in> set seen then Inl ''multi-sig authorized users must be unique''
      else bind_res (signer_users L (u # seen) us) (\<lambda>r. Inr (to_lower (Hex L u) # r)))"

fun join_commas :: "string list \<Rightarrow> string" where
  "join_commas [] = ''''"
| "join_commas [s] = s"
| "join_commas (s # t # r) = s @ '','' @ join_commas (t # r)"

definition signers_text :: "string list \<Rightarrow> u8 \<Rightarrow> string" where
  "signers_text users threshold =
     ''{'' @ quote ''authorizedUsers'' @ '':['' @ join_commas (map quote users) @ ''],'' @
     quote ''threshold'' @ '':'' @ show_nat (unat threshold) @ ''}''"

definition signersJSON :: "lib \<Rightarrow> MultiSigSignerSet option \<Rightarrow> u64 \<Rightarrow> string res" where
  "signersJSON L signers nonce =
     (if nonce = 0 then Inl ''multi-sig conversion nonce is required''
      else case signers of None \<Rightarrow> Inr ''null''
      | Some s \<Rightarrow>
        (if mss_AuthorizedUsers s = [] \<or> length (mss_AuthorizedUsers s) > 10 \<or>
            mss_Threshold s = 0 \<or> unat (mss_Threshold s) > length (mss_AuthorizedUsers s)
         then Inl ''multi-sig authorized users and threshold are invalid''
         else bind_res (signer_users L [] (mss_AuthorizedUsers s)) (\<lambda>users.
           Inr (signers_text (sort users) (mss_Threshold s)))))"

record ConvertToMultiSigUserAction =
  cm_Signers :: "MultiSigSignerSet option"
  cm_Nonce :: u64

definition ConvertToMultiSigUserAction_typed :: "lib \<Rightarrow> bool \<Rightarrow> ConvertToMultiSigUserAction \<Rightarrow> typed res" where
  "ConvertToMultiSigUserAction_typed L net a = bind_res (signersJSON L (cm_Signers a) (cm_Nonce a)) (\<lambda>signers. Inr
     (''HyperliquidTransaction:ConvertToMultiSigUser'',
      [(''hyperliquidChain'', ''string''), (''signers'', ''string''), (''nonce'', ''uint64'')],
      [(''hyperliquidChain'', EStr (userActionNetwork net)), (''signers'', EStr signers), (''nonce'', EUint (cm_Nonce a))]))"

definition ConvertToMultiSigUserAction_wire :: "lib \<Rightarrow> bool \<Rightarrow> ConvertToMultiSigUserAction \<Rightarrow> sfield list res" where
  "ConvertToMultiSigUserAction_wire L net a = bind_res (signersJSON L (cm_Signers a) (cm_Nonce a)) (\<lambda>signers. Inr
     (wire_head ''convertToMultiSigUser'' net @
      [Field ''Signers'' ''signers'' False (JStr signers),
       Field ''Nonce'' ''nonce'' False (json_uint (cm_Nonce a))]))"

section \<open>The sealed interface\<close>

datatype UserSignedAction =
    UUSDSend USDSendAction
  | USpotSend SpotSendAction
  | UWithdrawFromBridge WithdrawFromBridgeAction
  | UUSDClassTransfer USDClassTransferAction
  | USendAsset SendAssetAction
  | USendToEVMWithData SendToEVMWithDataAction
  | UApproveAgent ApproveAgentAction
  | UApproveBuilderFee ApproveBuilderFeeAction
  | UCDeposit CDepositAction
  | UCWithdraw CWithdrawAction
  | UTokenDelegate TokenDelegateAction
  | UUserDexAbstraction UserDexAbstractionAction
  | UUserSetAbstraction UserSetAbstractionAction
  | UConvertToMultiSigUser ConvertToMultiSigUserAction

fun ActionNonce :: "UserSignedAction \<Rightarrow> u64" where
  "ActionNonce (UUSDSend a) = us_Time a"
| "ActionNonce (USpotSend a) = ssn_Time a"
| "ActionNonce (UWithdrawFromBridge a) = wb_Time a"
| "ActionNonce (UUSDClassTransfer a) = uc_Nonce a"
| "ActionNonce (USendAsset a) = sa_Nonce a"
| "ActionNonce (USendToEVMWithData a) = se_Nonce a"
| "ActionNonce (UApproveAgent a) = aa_Nonce a"
| "ActionNonce (UApproveBuilderFee a) = bf_Nonce a"
| "ActionNonce (UCDeposit a) = cd_Nonce a"
| "ActionNonce (UCWithdraw a) = cw2_Nonce a"
| "ActionNonce (UTokenDelegate a) = td2_Nonce a"
| "ActionNonce (UUserDexAbstraction a) = ux_Nonce a"
| "ActionNonce (UUserSetAbstraction a) = uz_Nonce a"
| "ActionNonce (UConvertToMultiSigUser a) = cm_Nonce a"

fun OmitOuterVaultAddress :: "UserSignedAction \<Rightarrow> bool" where
  "OmitOuterVaultAddress (UUSDSend a) = False"
| "OmitOuterVaultAddress (USpotSend a) = False"
| "OmitOuterVaultAddress (UWithdrawFromBridge a) = False"
| "OmitOuterVaultAddress (UUSDClassTransfer a) = True"
| "OmitOuterVaultAddress (USendAsset a) = True"
| "OmitOuterVaultAddress (USendToEVMWithData a) = True"
| "OmitOuterVaultAddress (UApproveAgent a) = False"
| "OmitOuterVaultAddress (UApproveBuilderFee a) = False"
| "OmitOuterVaultAddress (UCDeposit a) = True"
| "OmitOuterVaultAddress (UCWithdraw a) = True"
| "OmitOuterVaultAddress (UTokenDelegate a) = True"
| "OmitOuterVaultAddress (UUserDexAbstraction a) = False"
| "OmitOuterVaultAddress (UUserSetAbstraction a) = False"
| "OmitOuterVaultAddress (UConvertToMultiSigUser a) = False"

fun userSignedTypedData :: "lib \<Rightarrow> bool \<Rightarrow> UserSignedAction \<Rightarrow> typed res" where
  "userSignedTypedData L net (UUSDSend a) = USDSendAction_typed L net a"
| "userSignedTypedData L net (USpotSend a) = SpotSendAction_typed L net a"
| "userSignedTypedData L net (UWithdrawFromBridge a) = WithdrawFromBridgeAction_typed L net a"
| "userSignedTypedData L net (UUSDClassTransfer a) = USDClassTransferAction_typed L net a"
| "userSignedTypedData L net (USendAsset a) = SendAssetAction_typed L net a"
| "userSignedTypedData L net (USendToEVMWithData a) = SendToEVMWithDataAction_typed L net a"
| "userSignedTypedData L net (UApproveAgent a) = ApproveAgentAction_typed L net a"
| "userSignedTypedData L net (UApproveBuilderFee a) = ApproveBuilderFeeAction_typed L net a"
| "userSignedTypedData L net (UCDeposit a) = CDepositAction_typed L net a"
| "userSignedTypedData L net (UCWithdraw a) = CWithdrawAction_typed L net a"
| "userSignedTypedData L net (UTokenDelegate a) = TokenDelegateAction_typed L net a"
| "userSignedTypedData L net (UUserDexAbstraction a) = UserDexAbstractionAction_typed L net a"
| "userSignedTypedData L net (UUserSetAbstraction a) = UserSetAbstractionAction_typed L net a"
| "userSignedTypedData L net (UConvertToMultiSigUser a) = ConvertToMultiSigUserAction_typed L net a"

fun userSignedWire :: "lib \<Rightarrow> bool \<Rightarrow> UserSignedAction \<Rightarrow> sfield list res" where
  "userSignedWire L net (UUSDSend a) = USDSendAction_wire L net a"
| "userSignedWire L net (USpotSend a) = SpotSendAction_wire L net a"
| "userSignedWire L net (UWithdrawFromBridge a) = WithdrawFromBridgeAction_wire L net a"
| "userSignedWire L net (UUSDClassTransfer a) = USDClassTransferAction_wire L net a"
| "userSignedWire L net (USendAsset a) = SendAssetAction_wire L net a"
| "userSignedWire L net (USendToEVMWithData a) = SendToEVMWithDataAction_wire L net a"
| "userSignedWire L net (UApproveAgent a) = ApproveAgentAction_wire L net a"
| "userSignedWire L net (UApproveBuilderFee a) = ApproveBuilderFeeAction_wire L net a"
| "userSignedWire L net (UCDeposit a) = CDepositAction_wire L net a"
| "userSignedWire L net (UCWithdraw a) = CWithdrawAction_wire L net a"
| "userSignedWire L net (UTokenDelegate a) = TokenDelegateAction_wire L net a"
| "userSignedWire L net (UUserDexAbstraction a) = UserDexAbstractionAction_wire L net a"
| "userSignedWire L net (UUserSetAbstraction a) = UserSetAbstractionAction_wire L net a"
| "userSignedWire L net (UConvertToMultiSigUser a) = ConvertToMultiSigUserAction_wire L net a"

lemmas typed_defs = USDSendAction_typed_def
  SpotSendAction_typed_def
  WithdrawFromBridgeAction_typed_def
  USDClassTransferAction_typed_def
  SendAssetAction_typed_def
  SendToEVMWithDataAction_typed_def
  ApproveAgentAction_typed_def
  ApproveBuilderFeeAction_typed_def
  CDepositAction_typed_def
  CWithdrawAction_typed_def
  TokenDelegateAction_typed_def
  UserDexAbstractionAction_typed_def
  UserSetAbstractionAction_typed_def
  ConvertToMultiSigUserAction_typed_def
  usdSendFields_def spotSendFields_def stakingFields_def

lemmas user_wire_defs = USDSendAction_wire_def
  SpotSendAction_wire_def
  WithdrawFromBridgeAction_wire_def
  USDClassTransferAction_wire_def
  SendAssetAction_wire_def
  SendToEVMWithDataAction_wire_def
  ApproveAgentAction_wire_def
  ApproveBuilderFeeAction_wire_def
  CDepositAction_wire_def
  CWithdrawAction_wire_def
  TokenDelegateAction_wire_def
  UserDexAbstractionAction_wire_def
  UserSetAbstractionAction_wire_def
  ConvertToMultiSigUserAction_wire_def
  wire_head_def stakingWire_def

lemmas validate_defs = USDSendAction_validate_def
  SpotSendAction_validate_def
  WithdrawFromBridgeAction_validate_def
  USDClassTransferAction_validate_def
  SendAssetAction_validate_def
  SendToEVMWithDataAction_validate_def
  ApproveAgentAction_validate_def
  ApproveBuilderFeeAction_validate_def
  CDepositAction_validate_def
  CWithdrawAction_validate_def
  TokenDelegateAction_validate_def
  UserDexAbstractionAction_validate_def
  UserSetAbstractionAction_validate_def

definition UserSignedWire :: "lib \<Rightarrow> UserSignedAction option \<Rightarrow> bool \<Rightarrow> sfield list res" where
  "UserSignedWire L action net =
     (case action of None \<Rightarrow> Inl ''user-signed action is required''
      | Some a \<Rightarrow> userSignedWire L net a)"

definition MarshalUserSignedAction :: "lib \<Rightarrow> UserSignedAction option \<Rightarrow> bool \<Rightarrow> jval res" where
  "MarshalUserSignedAction L action net =
     bind_res (UserSignedWire L action net) (\<lambda>w. Inr (wire_json w))"

definition userActionTypedData :: "typed \<Rightarrow> typed_data" where
  "userActionTypedData t = (case t of (primaryType, flds, message) \<Rightarrow>
     \<lparr> td_Types = [(''EIP712Domain'', domain_fields), (primaryType, flds)],
       td_PrimaryType = primaryType, td_DomainName = ''HyperliquidSignTransaction'',
       td_ChainId = 0x66eee, td_Message = message \<rparr>)"

definition ComputeUserActionDigest ::
    "lib \<Rightarrow> (typed_data \<Rightarrow> bytes32 res) \<Rightarrow> UserSignedAction option \<Rightarrow> bool \<Rightarrow> bytes32 res" where
  "ComputeUserActionDigest L typedHash action net =
     (case action of None \<Rightarrow> Inl ''user-signed action is required''
      | Some a \<Rightarrow> bind_res (userSignedTypedData L net a) (\<lambda>t.
          wrap_res ''hash user-signed typed data'' (typedHash (userActionTypedData t))))"

text \<open>
  The payload a multi-signature wrapper embeds: the action's wire struct, except for the two
  abstraction actions, whose address is lowercased and whose mode has a one-letter code.
\<close>

definition abstraction_code :: "string \<Rightarrow> string" where
  "abstraction_code s =
     (if s = ''disabled'' then ''i'' else if s = ''unifiedAccount'' then ''u''
      else if s = ''portfolioMargin'' then ''p'' else '''')"

fun MultiSigUserPayloadWire :: "lib \<Rightarrow> UserSignedAction \<Rightarrow> bool \<Rightarrow> sfield list res" where
  "MultiSigUserPayloadWire L (UUserSetAbstraction a) net =
     bind_res (UserSetAbstractionAction_wire L net a) (\<lambda>_.
     let compact = abstraction_code (uz_Abstraction a) in
     if compact = '''' then Inl (''unsupported user abstraction '' @ quote (uz_Abstraction a))
     else Inr (wire_head ''userSetAbstraction'' net @
       [Field ''User'' ''user'' False (JStr (to_lower (Hex L (uz_User a)))),
        Field ''Abstraction'' ''abstraction'' False (JStr compact),
        Field ''Nonce'' ''nonce'' False (json_uint (uz_Nonce a))]))"
| "MultiSigUserPayloadWire L (UUserDexAbstraction a) net =
     bind_res (UserDexAbstractionAction_typed L net a) (\<lambda>_.
     Inr (wire_head ''userDexAbstraction'' net @
       [Field ''User'' ''user'' False (JStr (to_lower (Hex L (ux_User a)))),
        Field ''Enabled'' ''enabled'' False (JBool (ux_Enabled a)),
        Field ''Nonce'' ''nonce'' False (json_uint (ux_Nonce a))]))"
| "MultiSigUserPayloadWire L a net = UserSignedWire L (Some a) net"

section \<open>What is signed is what is sent\<close>

fun eip_json :: "eip_val \<Rightarrow> jval" where
  "eip_json (EStr s) = JStr s"
| "eip_json (EUint u) = json_uint u"
| "eip_json (EBool b) = JBool b"

fun eip_fits :: "eip_val \<Rightarrow> string \<Rightarrow> bool" where
  "eip_fits (EStr s) ty \<longleftrightarrow> ty \<in> {''string'', ''address'', ''bytes''}"
| "eip_fits (EUint u) ty \<longleftrightarrow> ty \<in> {''uint64'', ''uint32''}"
| "eip_fits (EBool b) ty \<longleftrightarrow> ty = ''bool''"

text \<open>
  Well-formed typed data: the declared fields are distinct, start with the network, and each has
  exactly one message value, of its type.
\<close>

definition typed_ok :: "typed \<Rightarrow> bool" where
  "typed_ok t = (case t of (p, fs, m) \<Rightarrow>
     distinct (map fst fs) \<and> map fst fs = map fst m \<and> fs \<noteq> [] \<and> fst (hd fs) = ''hyperliquidChain'' \<and>
     list_all2 (\<lambda>(_, ty) (_, v). eip_fits v ty) fs m)"

text \<open>
  A signed field is sent under its own name with its own value; the one exception is an absent
  agent name, which is signed as the empty string and left out of the JSON.
\<close>

definition sent :: "(string \<times> jval) list \<Rightarrow> string \<times> eip_val \<Rightarrow> bool" where
  "sent fs kv = (case kv of (k, v) \<Rightarrow> (case map_of fs k of
       Some j \<Rightarrow> j = eip_json v
     | None \<Rightarrow> k = ''agentName'' \<and> v = EStr ''''))"

definition signed_as_sent :: "typed res \<Rightarrow> sfield list res \<Rightarrow> bool" where
  "signed_as_sent t w = (case (t, w) of
       (Inl e, Inl e') \<Rightarrow> e = e'
     | (Inr (p, fs, m), Inr s) \<Rightarrow> list_all (sent (wire_fields s)) m
     | _ \<Rightarrow> False)"

lemma signed_as_sent_bind:
  "(\<And>x. r = Inr x \<Longrightarrow> signed_as_sent (f x) (g x)) \<Longrightarrow> signed_as_sent (bind_res r f) (bind_res r g)"
  by (cases r) (simp_all add: signed_as_sent_def)


lemma typed_wellformed: "userSignedTypedData L net a = Inr t \<Longrightarrow> typed_ok t"
  by (cases a; auto simp: typed_defs typed_ok_def)

text \<open>
  The typed data of every user-signed action declares each field
  once, names the network first, and gives each declared field a value of its type and nothing else.
\<close>

theorem user_typed_data_wellformed:
  assumes "userSignedTypedData L net a = Inr t"
  shows "typed_ok t \<and> td_PrimaryType (userActionTypedData t) = fst t \<and>
    map_of (td_Types (userActionTypedData t)) (fst t) = Some (fst (snd t))"
  using typed_wellformed [OF assms] assms
  by (cases a) (auto simp: userActionTypedData_def typed_defs)

theorem user_typed_data_wellformed_witness:
  "typed_ok (''HyperliquidTransaction:CDeposit'', stakingFields,
     [(''hyperliquidChain'', EStr ''Mainnet''), (''wei'', EUint 5), (''nonce'', EUint 9)])"
  using user_typed_data_wellformed [of sample_lib True "UCDeposit \<lparr> cd_Wei = 5, cd_Nonce = 9 \<rparr>"]
  by (simp add: CDepositAction_typed_def CDepositAction_validate_def userActionNetwork_def)

text \<open>
  A user-signed action that passes validation has a non-zero nonce, and the
  nonce of the request envelope is the action's own nonce or time field.
\<close>

lemma wire_nonce:
  "userSignedWire L net a = Inr w \<Longrightarrow> ActionNonce a \<noteq> 0 \<and>
     (map_of (wire_fields w) ''nonce'' = Some (json_uint (ActionNonce a)) \<or>
      map_of (wire_fields w) ''time'' = Some (json_uint (ActionNonce a)))"
  by (cases a; auto simp: user_wire_defs validate_defs wire_fields_def json_ptr_def signersJSON_def
      split: if_splits option.splits)

theorem user_nonce_is_sent:
  assumes "userSignedWire L net a = Inr w"
  shows "ActionNonce a \<noteq> 0 \<and>
    (map_of (wire_fields w) ''nonce'' = Some (json_uint (ActionNonce a)) \<or>
     map_of (wire_fields w) ''time'' = Some (json_uint (ActionNonce a)))"
  using assms by (rule wire_nonce)

definition sample_send :: UserSignedAction where
  "sample_send = UUSDSend \<lparr> us_Destination = 0xab, us_Amount = ''2.5'', us_Time = 9 \<rparr>"

theorem user_nonce_is_sent_witness:
  "\<exists>w. userSignedWire sample_lib True sample_send = Inr w \<and> ActionNonce sample_send \<noteq> 0 \<and>
    (map_of (wire_fields w) ''nonce'' = Some (json_uint (ActionNonce sample_send)) \<or>
     map_of (wire_fields w) ''time'' = Some (json_uint (ActionNonce sample_send)))"
proof -
  obtain w where w: "userSignedWire sample_lib True sample_send = Inr w"
    by (simp add: sample_send_def USDSendAction_wire_def USDSendAction_validate_def)
  show ?thesis using user_nonce_is_sent [OF w] w by blast
qed

section \<open>Conversion to a multi-signature account\<close>

lemma signer_users_ok:
  "signer_users L seen us = Inr r \<longleftrightarrow>
     0 \<notin> set us \<and> distinct us \<and> set us \<inter> set seen = {} \<and> r = map (\<lambda>u. to_lower (Hex L u)) us"
  by (induction us arbitrary: seen r) auto

lemma signersJSON_ok:
  "signersJSON L (Some s) n = Inr t \<longleftrightarrow>
     n \<noteq> 0 \<and> mss_AuthorizedUsers s \<noteq> [] \<and> length (mss_AuthorizedUsers s) \<le> 10 \<and>
     mss_Threshold s \<noteq> 0 \<and> unat (mss_Threshold s) \<le> length (mss_AuthorizedUsers s) \<and>
     0 \<notin> set (mss_AuthorizedUsers s) \<and> distinct (mss_AuthorizedUsers s) \<and>
     t = signers_text (sort (map (\<lambda>u. to_lower (Hex L u)) (mss_AuthorizedUsers s)))
       (mss_Threshold s)"
  by (auto simp: signersJSON_def signer_users_ok not_less not_le)

lemma sort_mset_eq: "mset xs = mset ys \<Longrightarrow> sort xs = sort ys"
  by (metis sorted_list_of_multiset_mset)

text \<open>
  The signed text of a conversion depends only on the set of users and
  the threshold: presenting the same users in another order is accepted too and gives the same text,
  hence the same EIP-712 signature. An accepted set has 1 to 10 distinct non-zero users and a
  threshold between 1 and their number.
\<close>

theorem signers_json_canonical:
  assumes "signersJSON L (Some s) n = Inr t"
    and "mset (mss_AuthorizedUsers s') = mset (mss_AuthorizedUsers s)"
    and "mss_Threshold s' = mss_Threshold s"
  shows "signersJSON L (Some s') n = Inr t \<and>
    card (set (mss_AuthorizedUsers s)) \<in> {1..10} \<and>
    unat (mss_Threshold s) \<in> {1..card (set (mss_AuthorizedUsers s))} \<and>
    0 \<notin> set (mss_AuthorizedUsers s)"
proof -
  let ?f = "\<lambda>u. to_lower (Hex L u)"
  have ok: "distinct (mss_AuthorizedUsers s)" "mss_AuthorizedUsers s \<noteq> []"
    using assms(1) by (auto simp: signersJSON_ok)
  have "set (mss_AuthorizedUsers s') = set (mss_AuthorizedUsers s)"
    "length (mss_AuthorizedUsers s') = length (mss_AuthorizedUsers s)"
    "distinct (mss_AuthorizedUsers s')"
    using assms(2) ok(1) by (metis mset_eq_setD mset_eq_length mset_eq_imp_distinct_iff)+
  moreover have "sort (map ?f (mss_AuthorizedUsers s')) = sort (map ?f (mss_AuthorizedUsers s))"
    using assms(2) by (intro sort_mset_eq) simp
  moreover have "mss_AuthorizedUsers s' \<noteq> []" using assms(2) ok(2) by auto
  ultimately have "signersJSON L (Some s') n = Inr t"
    using assms(1,3) by (simp only: signersJSON_ok) simp
  moreover have "card (set (mss_AuthorizedUsers s)) = length (mss_AuthorizedUsers s)"
    using ok(1) by (rule distinct_card)
  moreover have "0 < unat (mss_Threshold s)"
    using assms(1) by (simp add: signersJSON_ok unat_gt_0)
  ultimately show ?thesis
    using assms(1) by (auto simp: signersJSON_ok Suc_le_eq)
qed

theorem signers_json_canonical_witness:
  "signersJSON sample_lib (Some \<lparr> mss_AuthorizedUsers = [7, 3], mss_Threshold = 2 \<rparr>) 1 =
   signersJSON sample_lib (Some \<lparr> mss_AuthorizedUsers = [3, 7], mss_Threshold = 2 \<rparr>) 1"
proof -
  obtain t where t:
    "signersJSON sample_lib (Some \<lparr> mss_AuthorizedUsers = [3, 7], mss_Threshold = 2 \<rparr>) 1 = Inr t"
    using signersJSON_ok [of sample_lib "\<lparr> mss_AuthorizedUsers = [3, 7], mss_Threshold = 2 \<rparr>" 1]
    by simp
  show ?thesis
    using signers_json_canonical [OF t, of "\<lparr> mss_AuthorizedUsers = [7, 3], mss_Threshold = 2 \<rparr>"] t
    by simp
qed

end
