(* ===== verification/Signer.thy ===== *)
theory Signer
  imports L1Action
begin

text \<open>
  Signatures and nonces: \<^verbatim>\<open>signer/signer.go\<close>, \<^verbatim>\<open>signer/local.go\<close> and \<^verbatim>\<open>nonce/manager.go\<close>. The
  elliptic-curve and hash functions of go-ethereum are the fields of \<open>crypto\<close>.
\<close>

section \<open>Signatures\<close>

record Signature =
  sig_R :: bytes32
  sig_S :: bytes32
  sig_V :: u8

text \<open>
  go-ethereum: \<^verbatim>\<open>crypto.ValidateSignatureValues\<close> (with homestead set), \<^verbatim>\<open>crypto.SigToPub\<close>,
  \<^verbatim>\<open>crypto.PubkeyToAddress\<close>, the order of the curve, \<^verbatim>\<open>crypto.Sign\<close>, \<^verbatim>\<open>crypto.Keccak256\<close> and
  \<^verbatim>\<open>apitypes.TypedDataAndHash\<close>; and the MessagePack encoder.
\<close>

record crypto =
  ValidateSignatureValues :: "u8 \<Rightarrow> nat \<Rightarrow> nat \<Rightarrow> bool"
  SigToPub :: "bytes32 \<Rightarrow> byte list \<Rightarrow> (byte list) res"
  PubkeyToAddress :: "byte list \<Rightarrow> address"
  S256_N :: nat
  crypto_Sign :: "bytes32 \<Rightarrow> byte list \<Rightarrow> (byte list) res"
  Keccak256 :: "byte list \<Rightarrow> bytes32"
  TypedDataAndHash :: "typed_data \<Rightarrow> bytes32 res"
  msgpack_enc :: "tok \<Rightarrow> byte list"

definition NormalizeRecoveryID :: "u8 \<Rightarrow> u8 res" where
  "NormalizeRecoveryID v =
     (if v = 0 \<or> v = 1 then Inr v
      else if v = 27 \<or> v = 28 then Inr (v - 27)
      else Inl (''invalid recovery id: '' @ show_nat (unat v)))"

definition Signature_Bytes :: "Signature \<Rightarrow> (byte list) res" where
  "Signature_Bytes s =
     bind_res (NormalizeRecoveryID (sig_V s)) (\<lambda>v.
     Inr (word_bytes 32 (sig_R s) @ word_bytes 32 (sig_S s) @ [v]))"

definition Verify :: "crypto \<Rightarrow> bytes32 \<Rightarrow> Signature \<Rightarrow> address \<Rightarrow> unit res" where
  "Verify C digest signature expected =
     bind_res (Signature_Bytes signature) (\<lambda>b.
     let r = unat (sig_R signature); s = unat (sig_S signature) in
     if \<not> ValidateSignatureValues C (b ! 64) r s
     then (if s > S256_N C div 2 then Inl ''signature has non-canonical high-s value''
           else Inl ''invalid signature'')
     else bind_res (wrap_res ''signature recovery failed'' (SigToPub C digest b)) (\<lambda>pub.
       guard_res (PubkeyToAddress C pub = expected) ''signer address mismatch''))"

lemma NormalizeRecoveryID_ok:
  "NormalizeRecoveryID v = Inr w \<longleftrightarrow> w \<in> {0, 1} \<and> (v = w \<or> v = w + 27)"
  by (auto simp: NormalizeRecoveryID_def eq_diff_eq)

lemma Signature_Bytes_length: "Signature_Bytes s = Inr b \<Longrightarrow> length b = 65"
  by (auto simp: Signature_Bytes_def)

text \<open>
  The 65 bytes of a signature determine it up to the two spellings of the
  recovery id, and the last byte is 0 or 1.
\<close>

theorem signature_bytes_inj:
  assumes "Signature_Bytes s = Inr b" "Signature_Bytes t = Inr b"
  shows "sig_R s = sig_R t \<and> sig_S s = sig_S t \<and>
    NormalizeRecoveryID (sig_V s) = NormalizeRecoveryID (sig_V t) \<and>
    length b = 65 \<and> b ! 64 \<in> {0, 1}"
proof -
  obtain v w where v: "NormalizeRecoveryID (sig_V s) = Inr v"
      "b = word_bytes 32 (sig_R s) @ word_bytes 32 (sig_S s) @ [v]"
    and w: "NormalizeRecoveryID (sig_V t) = Inr w"
      "b = word_bytes 32 (sig_R t) @ word_bytes 32 (sig_S t) @ [w]"
    using assms by (auto simp: Signature_Bytes_def)
  have "v \<in> {0, 1}" using v(1) unfolding NormalizeRecoveryID_ok by blast
  moreover have "b ! 64 = v" unfolding v(2) by (simp add: nth_append)
  ultimately show ?thesis
    using v w Signature_Bytes_length [OF assms(1)] by (auto simp: word_bytes_inj)
qed

theorem signature_bytes_inj_witness:
  "\<exists>b. Signature_Bytes \<lparr> sig_R = 5, sig_S = 6, sig_V = 28 \<rparr> = Inr b \<and>
       Signature_Bytes \<lparr> sig_R = 5, sig_S = 6, sig_V = 1 \<rparr> = Inr b \<and> b ! 64 \<in> {0, 1}"
proof -
  obtain b where b: "Signature_Bytes \<lparr> sig_R = 5, sig_S = 6, sig_V = 28 \<rparr> = Inr b"
      "Signature_Bytes \<lparr> sig_R = 5, sig_S = 6, sig_V = 1 \<rparr> = Inr b"
    by (simp add: Signature_Bytes_def NormalizeRecoveryID_def)
  show ?thesis using signature_bytes_inj [OF b] b by blast
qed

text \<open>A signature is accepted only for the address its public key recovers to.\<close>

lemma Verify_ok:
  "Verify C d s a = Inr () \<longleftrightarrow>
     (\<exists>b pub. Signature_Bytes s = Inr b \<and>
       ValidateSignatureValues C (b ! 64) (unat (sig_R s)) (unat (sig_S s)) \<and>
       SigToPub C d b = Inr pub \<and> PubkeyToAddress C pub = a)"
  by (auto simp: Verify_def Let_def)

lemma Verify_one_address:
  "Verify C d s a = Inr () \<Longrightarrow> Verify C d s b = Inr () \<Longrightarrow> a = b"
  by (auto simp: Verify_ok)

section \<open>The local signer\<close>

text \<open>Its state is the key reference, which \<^verbatim>\<open>Close\<close> drops; locking is not modelled.\<close>

record LocalPrivateKeySigner =
  ls_key :: "byte list option"
  ls_address :: address

definition NewLocalPrivateKeySigner ::
    "crypto \<Rightarrow> (byte list \<Rightarrow> byte list) \<Rightarrow> byte list option \<Rightarrow> LocalPrivateKeySigner res" where
  "NewLocalPrivateKeySigner C publicKey key =
     (case key of None \<Rightarrow> Inl ''private key is nil''
      | Some k \<Rightarrow> Inr \<lparr> ls_key = Some k, ls_address = PubkeyToAddress C (publicKey k) \<rparr>)"

definition trim0x :: "string \<Rightarrow> string" where
  "trim0x s = (if has_prefix s ''0x'' \<or> has_prefix s ''0X'' then drop 2 s else s)"

definition NewLocalPrivateKeySignerFromHex ::
    "crypto \<Rightarrow> (string \<Rightarrow> (byte list) res) \<Rightarrow> (byte list \<Rightarrow> byte list) \<Rightarrow> string
     \<Rightarrow> LocalPrivateKeySigner res" where
  "NewLocalPrivateKeySignerFromHex C hexToECDSA publicKey hexKey =
     bind_res (wrap_res ''parse private key'' (hexToECDSA (trim0x hexKey))) (\<lambda>k.
     NewLocalPrivateKeySigner C publicKey (Some k))"

definition word_of_bytes :: "byte list \<Rightarrow> bytes32" where
  "word_of_bytes bs = of_nat (be_val bs)"

definition Local_SignDigest ::
    "crypto \<Rightarrow> unit res \<Rightarrow> LocalPrivateKeySigner \<Rightarrow> bytes32 \<Rightarrow> Signature res" where
  "Local_SignDigest C ctxErr s digest =
     bind_res ctxErr (\<lambda>_.
     case ls_key s of None \<Rightarrow> Inl ''local signer is closed''
     | Some key \<Rightarrow> bind_res (crypto_Sign C digest key) (\<lambda>raw.
         Inr \<lparr> sig_R = word_of_bytes (take 32 raw),
           sig_S = word_of_bytes (take 32 (drop 32 raw)), sig_V = raw ! 64 \<rparr>))"

definition Local_Close :: "LocalPrivateKeySigner \<Rightarrow> LocalPrivateKeySigner" where
  "Local_Close s = s \<lparr> ls_key := None \<rparr>"

lemma word_of_word_bytes [simp]: "word_of_bytes (word_bytes 32 w) = w"
proof -
  have "unat w < 2 ^ LENGTH(256)" by (rule unsigned_less)
  then have "unat w < 256 ^ 32" by simp
  then show ?thesis by (simp add: word_of_bytes_def word_bytes_def be_val_be_bytes)
qed

text \<open>
  The local signer splits the raw signature into the halves that \<^verbatim>\<open>Bytes\<close> joins again, and a
  closed signer signs nothing.
\<close>

lemma Local_SignDigest_bytes:
  assumes "crypto_Sign C d k = Inr (word_bytes 32 (r :: bytes32) @ word_bytes 32 (s :: bytes32) @ [v])" "v \<in> {0, 1}"
    and "ls_key l = Some k"
  shows "\<exists>sg. Local_SignDigest C (Inr ()) l d = Inr sg \<and>
    Signature_Bytes sg = crypto_Sign C d k"
  using assms
  by (auto simp: Local_SignDigest_def Signature_Bytes_def NormalizeRecoveryID_def nth_append)

lemma Local_closed: "\<not> is_ok (Local_SignDigest C e (Local_Close l) d)"
  by (cases e) (simp_all add: Local_SignDigest_def Local_Close_def)

end
