(* ===== verification/Multisig.thy ===== *)
theory Multisig
  imports UserActions Signer
begin

text \<open>
  Multi-signature submission: \<^verbatim>\<open>signing/multisig.go\<close> (compact signatures, the payload and
  envelope encodings, the inner and outer digests) and the configuration checks and signature order
  of \<^verbatim>\<open>exchange/multisig.go\<close>.
\<close>

section \<open>Compact signatures\<close>

fun trim_left_zeros :: "string \<Rightarrow> string" where
  "trim_left_zeros [] = []"
| "trim_left_zeros (c # s) = (if c = CHR ''0'' then trim_left_zeros s else c # s)"

definition compactHex :: "byte list \<Rightarrow> string" where
  "compactHex value =
     (let encoded = trim_left_zeros (hex_encode value)
      in ''0x'' @ (if encoded = '''' then ''0'' else encoded))"

record CompactSignature =
  cs_R :: string
  cs_S :: string
  cs_V :: u8

definition CompactSignature_MarshalMsgpack :: "CompactSignature \<Rightarrow> tok list" where
  "CompactSignature_MarshalMsgpack s =
     EncodeMapLen 3 @ EncodePairs [(''r'', EncodeString (cs_R s)), (''s'', EncodeString (cs_S s)),
       (''v'', EncodeUint8 (cs_V s))]"

definition CompactSignature_json :: "CompactSignature \<Rightarrow> jval" where
  "CompactSignature_json s =
     JObj [(''r'', JStr (cs_R s)), (''s'', JStr (cs_S s)), (''v'', json_uint8 (cs_V s))]"

lemma CompactSignature_wire [wire]:
  "CompactSignature_MarshalMsgpack = (\<lambda>s. toks_of (CompactSignature_json s))"
  by (rule ext) (simp add: CompactSignature_MarshalMsgpack_def CompactSignature_json_def
      EncodeUint8_def json_uint8_def enc_defs)

definition CompactSignatureFromSignature :: "Signature \<Rightarrow> CompactSignature res" where
  "CompactSignatureFromSignature s =
     bind_res (NormalizeRecoveryID (sig_V s)) (\<lambda>v.
     Inr \<lparr> cs_R = compactHex (word_bytes 32 (sig_R s)),
       cs_S = compactHex (word_bytes 32 (sig_S s)), cs_V = v + 27 \<rparr>)"

text \<open>The number a hexadecimal text denotes.\<close>

definition read_hex :: "string \<Rightarrow> nat" where
  "read_hex s = foldl (\<lambda>a c. 16 * a + the (hex_value c)) 0 s"

lemma foldl_digits:
  fixes B :: nat
  shows "foldl (\<lambda>a c. B * a + g c) x s = x * B ^ length s + foldl (\<lambda>a c. B * a + g c) 0 s"
proof (induction s arbitrary: x)
  case (Cons c s)
  have "foldl (\<lambda>a c. B * a + g c) x (c # s) = (B * x + g c) * B ^ length s +
      foldl (\<lambda>a c. B * a + g c) 0 s"
    unfolding foldl.simps by (rule Cons.IH)
  moreover have "foldl (\<lambda>a c. B * a + g c) 0 (c # s) = (B * 0 + g c) * B ^ length s +
      foldl (\<lambda>a c. B * a + g c) 0 s"
    unfolding foldl.simps by (rule Cons.IH)
  ultimately show ?case by (simp add: algebra_simps del: foldl.simps)
qed simp

lemma read_hex_Cons: "read_hex (c # s) = the (hex_value c) * 16 ^ length s + read_hex s"
  using foldl_digits [of 16 "\<lambda>c. the (hex_value c)" "the (hex_value c)" s]
  by (simp add: read_hex_def)

lemma be_val_Cons: "be_val (b # bs) = unat b * 256 ^ length bs + be_val bs"
  using foldl_digits [of 256 unat "unat b" bs]
  by (simp add: be_val_def mult.commute [of _ 256])

lemma read_hex_trim: "read_hex (trim_left_zeros s) = read_hex s"
proof (induction s)
  case (Cons c s)
  have "the (hex_value (CHR ''0'')) = 0" by (simp add: hex_value_def)
  then show ?case using Cons.IH by (simp add: read_hex_Cons)
qed simp

lemma hex_step: "q * 16 ^ Suc n + r * 16 ^ n = (16 * q + r) * (16 :: nat) ^ n"
  by (simp add: algebra_simps)

lemma read_hex_encode: "read_hex (hex_encode bs) = be_val bs"
proof (induction bs)
  case (Cons b bs)
  have "unat b div 16 < 16" using unat_byte_less [of b] by simp
  then have "read_hex (hex_encode (b # bs)) =
      (unat b div 16) * 16 ^ Suc (2 * length bs) + (unat b mod 16) * 16 ^ (2 * length bs) + be_val bs"
    using Cons.IH by (simp add: read_hex_Cons hex_value_hex_char)
  also have "\<dots> = (16 * (unat b div 16) + unat b mod 16) * 16 ^ (2 * length bs) + be_val bs"
    by (simp only: hex_step)
  also have "16 * (unat b div 16) + unat b mod 16 = unat b" by simp
  also have "(16 :: nat) ^ (2 * length bs) = 256 ^ length bs" by (simp add: power_mult)
  finally show ?case by (simp add: be_val_Cons)
qed (simp add: read_hex_def)

lemma hd_trim: "trim_left_zeros s \<noteq> '''' \<Longrightarrow> hd (trim_left_zeros s) \<noteq> CHR ''0''"
  by (induction s) auto

lemma read_hex_drop: "read_hex (drop 2 (compactHex bs)) = be_val bs"
proof -
  have "read_hex ''0'' = 0" by (simp add: read_hex_def hex_value_def)
  moreover have "read_hex '''' = 0" by (simp add: read_hex_def)
  moreover have "read_hex (trim_left_zeros (hex_encode bs)) = be_val bs"
    by (simp only: read_hex_trim read_hex_encode)
  ultimately show ?thesis
    by (cases "trim_left_zeros (hex_encode bs) = []") (simp_all add: compactHex_def Let_def)
qed

text \<open>
  The compact form of a signature loses nothing: its R and S denote
  the 32-byte integers, without leading zeros (a zero is the single digit), its V is 27 or 28 and
  carries the recovery id.
\<close>

theorem compact_signature_exact:
  assumes "CompactSignatureFromSignature s = Inr c"
  shows "read_hex (drop 2 (cs_R c)) = unat (sig_R s) \<and> read_hex (drop 2 (cs_S c)) = unat (sig_S s) \<and>
    take 2 (cs_R c) = ''0x'' \<and> take 2 (cs_S c) = ''0x'' \<and>
    cs_V c \<in> {27, 28} \<and> NormalizeRecoveryID (cs_V c) = NormalizeRecoveryID (sig_V s)"
proof -
  have val: "be_val (word_bytes 32 w) = unat w" for w :: bytes32
  proof -
    have "unat w < 2 ^ LENGTH(256)" by (rule unsigned_less)
    then have "unat w < 256 ^ 32" by simp
    then show ?thesis by (simp add: word_bytes_def be_val_be_bytes)
  qed
  obtain v where v: "NormalizeRecoveryID (sig_V s) = Inr v"
      and c: "c = \<lparr> cs_R = compactHex (word_bytes 32 (sig_R s)),
        cs_S = compactHex (word_bytes 32 (sig_S s)), cs_V = v + 27 \<rparr>"
    using assms by (auto simp: CompactSignatureFromSignature_def)
  have "v \<in> {0, 1}" using v unfolding NormalizeRecoveryID_ok by blast
  then have "v + 27 \<in> {27, 28} \<and> NormalizeRecoveryID (v + 27) = Inr v"
    by (auto simp: NormalizeRecoveryID_def)
  moreover have "take 2 (compactHex bs) = ''0x''" for bs by (simp add: compactHex_def Let_def)
  ultimately show ?thesis using v by (simp add: c read_hex_drop val)
qed

theorem compact_signature_exact_witness:
  "\<exists>c. CompactSignatureFromSignature \<lparr> sig_R = 10, sig_S = 0, sig_V = 1 \<rparr> = Inr c \<and>
     read_hex (drop 2 (cs_R c)) = 10 \<and> cs_V c \<in> {27, 28}"
proof -
  obtain c where c: "CompactSignatureFromSignature \<lparr> sig_R = 10, sig_S = 0, sig_V = 1 \<rparr> = Inr c"
    by (simp add: CompactSignatureFromSignature_def NormalizeRecoveryID_def)
  show ?thesis using compact_signature_exact [OF c] c by auto
qed

section \<open>The payload and the envelope\<close>

text \<open>
  The payload's action is an interface value: an L1 action, or the wire struct of a user-signed
  action. The encoder has no marshaler for such a struct and no \<^verbatim>\<open>msgpack\<close> tag on its fields, so it
  writes a map under the names of the Go fields.
\<close>

datatype PayloadAction = PayloadL1 L1Action | PayloadUser "sfield list"

definition reflect_struct :: "sfield list \<Rightarrow> tok list" where
  "reflect_struct w = EncodeStruct (map (\<lambda>f. (go_name f, toks_of (sval f))) w)"

fun PayloadAction_toks :: "lib \<Rightarrow> PayloadAction \<Rightarrow> tok list res" where
  "PayloadAction_toks L (PayloadL1 a) = MarshalMsgpack L a"
| "PayloadAction_toks L (PayloadUser w) = Inr (reflect_struct w)"

fun PayloadAction_json :: "lib \<Rightarrow> PayloadAction \<Rightarrow> jval res" where
  "PayloadAction_json L (PayloadL1 a) = MarshalJSON L a"
| "PayloadAction_json L (PayloadUser w) = Inr (wire_json w)"

record MultiSigPayload =
  mp_MultiSigUser :: string
  mp_OuterSigner :: string
  mp_Action :: PayloadAction

definition MultiSigPayload_MarshalMsgpack :: "lib \<Rightarrow> MultiSigPayload \<Rightarrow> tok list res" where
  "MultiSigPayload_MarshalMsgpack L p =
     bind_res (PayloadAction_toks L (mp_Action p)) (\<lambda>a.
     Inr (EncodeMapLen 3 @ EncodePairs [(''multiSigUser'', EncodeString (mp_MultiSigUser p)),
       (''outerSigner'', EncodeString (mp_OuterSigner p)), (''action'', a)]))"

definition MultiSigPayload_json :: "lib \<Rightarrow> MultiSigPayload \<Rightarrow> jval res" where
  "MultiSigPayload_json L p =
     bind_res (PayloadAction_json L (mp_Action p)) (\<lambda>a.
     Inr (JObj [(''multiSigUser'', JStr (mp_MultiSigUser p)),
       (''outerSigner'', JStr (mp_OuterSigner p)), (''action'', a)]))"

record MultiSigEnvelopeAction =
  me_SignatureChainID :: string
  me_Signatures :: "CompactSignature list option"
  me_Payload :: MultiSigPayload

definition MultiSigEnvelopeAction_MarshalJSON :: "lib \<Rightarrow> MultiSigEnvelopeAction \<Rightarrow> jval res" where
  "MultiSigEnvelopeAction_MarshalJSON L a =
     bind_res (MultiSigPayload_json L (me_Payload a)) (\<lambda>p.
     Inr (JObj [(''type'', JStr ''multiSig''),
       (''signatureChainId'', JStr (me_SignatureChainID a)),
       (''signatures'', json_slice CompactSignature_json (me_Signatures a)), (''payload'', p)]))"

definition multiSigEnvelopeBody_MarshalMsgpack :: "lib \<Rightarrow> MultiSigEnvelopeAction \<Rightarrow> tok list res" where
  "multiSigEnvelopeBody_MarshalMsgpack L a =
     bind_res (MultiSigPayload_MarshalMsgpack L (me_Payload a)) (\<lambda>p.
     Inr (EncodeMapLen 3 @ EncodePairs
       [(''signatureChainId'', EncodeString (me_SignatureChainID a)),
        (''signatures'', EncodeSlice CompactSignature_MarshalMsgpack (me_Signatures a)),
        (''payload'', p)]))"

text \<open>The actions whose JSON keeps the encoder's field order: all but the two validator actions.\<close>

fun json_ordered :: "L1Action \<Rightarrow> bool" where
  "json_ordered (LCValidator _) = False"
| "json_ordered (LCSigner _) = False"
| "json_ordered _ = True"

lemma Marshal_exact: "json_ordered a \<Longrightarrow> MarshalMsgpack L a = toks_res (MarshalJSON L a)"
  by (cases a; simp only: json_ordered.simps MarshalMsgpack.simps MarshalJSON.simps plain_wires
      fallible_wires toks_res_simps)

definition drop_type :: "jval \<Rightarrow> jval" where
  "drop_type v = (case v of JObj (f # fs) \<Rightarrow> JObj fs | _ \<Rightarrow> v)"

lemma envelope_l1_exact:
  assumes "mp_Action (me_Payload e) = PayloadL1 a" "json_ordered a"
  shows "multiSigEnvelopeBody_MarshalMsgpack L e =
    map_sum (\<lambda>e. e) (\<lambda>v. toks_of (drop_type v)) (MultiSigEnvelopeAction_MarshalJSON L e)"
proof (cases "MarshalJSON L a")
  case (Inr j)
  then show ?thesis
    using assms Marshal_exact [of a L]
    by (simp add: multiSigEnvelopeBody_MarshalMsgpack_def MultiSigEnvelopeAction_MarshalJSON_def
        MultiSigPayload_MarshalMsgpack_def MultiSigPayload_json_def drop_type_def enc_defs wire)
qed (use assms Marshal_exact [of a L] in
    \<open>simp add: multiSigEnvelopeBody_MarshalMsgpack_def MultiSigEnvelopeAction_MarshalJSON_def
        MultiSigPayload_MarshalMsgpack_def MultiSigPayload_json_def\<close>)

text \<open>
  For an L1 action (other than the two validator actions, whose
  JSON is reordered) the leader's outer hash covers exactly the envelope that is sent, without its
  type field, or both encodings fail alike.
\<close>

theorem envelope_l1_signed_as_sent:
  assumes "mp_Action (me_Payload e) = PayloadL1 a" "json_ordered a"
  shows "multiSigEnvelopeBody_MarshalMsgpack L e =
    map_sum (\<lambda>e. e) (\<lambda>v. toks_of (drop_type v)) (MultiSigEnvelopeAction_MarshalJSON L e)"
  using assms by (rule envelope_l1_exact)

definition sample_envelope :: MultiSigEnvelopeAction where
  "sample_envelope = \<lparr> me_SignatureChainID = ''0x66eee'', me_Signatures = Some [],
     me_Payload = \<lparr> mp_MultiSigUser = ''0x1'', mp_OuterSigner = ''0x2'',
       mp_Action = PayloadL1 LNoop \<rparr> \<rparr>"

theorem envelope_l1_signed_as_sent_witness:
  "multiSigEnvelopeBody_MarshalMsgpack sample_lib sample_envelope =
    map_sum (\<lambda>e. e) (\<lambda>v. toks_of (drop_type v))
      (MultiSigEnvelopeAction_MarshalJSON sample_lib sample_envelope)"
  by (rule envelope_l1_signed_as_sent [where a = LNoop]) (simp_all add: sample_envelope_def)

text \<open>The wire structs of user-signed actions all start with the type field.\<close>

lemma MultiSigUserPayloadWire_head:
  "MultiSigUserPayloadWire L a net = Inr w \<Longrightarrow>
   \<exists>ty ws. w = Field ''Type'' ''type'' False (JStr ty) # ws"
  by (cases a; auto simp: user_wire_defs UserSignedWire_def Let_def split: if_splits)

text \<open>
  For a user-signed action the bytes that the leader signs are not
  the encoding of the payload that is sent: the signed map has the Go field names (\<^verbatim>\<open>Type\<close>) where
  the JSON has the tags (\<^verbatim>\<open>type\<close>).
\<close>

theorem user_payload_keys_differ:
  assumes "MultiSigUserPayloadWire L a net = Inr w"
  shows "PayloadAction_toks L (PayloadUser w) \<noteq> toks_res (PayloadAction_json L (PayloadUser w)) \<and>
    (\<exists>ts. PayloadAction_toks L (PayloadUser w) = Inr (MapLen (length w) # Str ''Type'' # ts)) \<and>
    (\<exists>fs. PayloadAction_json L (PayloadUser w) = Inr (JObj ((''type'', sval (hd w)) # fs)))"
  using MultiSigUserPayloadWire_head [OF assms]
  by (auto simp: reflect_struct_def wire_json_def wire_fields_def enc_defs)

theorem user_payload_keys_differ_witness:
  "\<exists>w. MultiSigUserPayloadWire sample_lib sample_send True = Inr w \<and>
     PayloadAction_toks sample_lib (PayloadUser w) \<noteq>
       toks_res (PayloadAction_json sample_lib (PayloadUser w))"
proof -
  obtain w where w: "MultiSigUserPayloadWire sample_lib sample_send True = Inr w"
    by (simp add: sample_send_def UserSignedWire_def USDSendAction_wire_def
        USDSendAction_validate_def)
  show ?thesis using user_payload_keys_differ [OF w] w by blast
qed

section \<open>Digests\<close>

definition ComputeMultiSigL1PayloadDigest ::
    "lib \<Rightarrow> crypto \<Rightarrow> L1Action option \<Rightarrow> address \<Rightarrow> address \<Rightarrow> u64 \<Rightarrow> address option \<Rightarrow> u64 option
     \<Rightarrow> bool \<Rightarrow> bytes32 res" where
  "ComputeMultiSigL1PayloadDigest L C action multiSigUser outerSigner nonce vault expiresAfter net =
     (case action of
        None \<Rightarrow> Inl ''multi-sig L1 action, user, leader, and nonce are required''
      | Some a \<Rightarrow>
        (if multiSigUser = 0 \<or> outerSigner = 0 \<or> nonce = 0
         then Inl ''multi-sig L1 action, user, leader, and nonce are required''
         else ComputeL1ActionDigest (msgpack_enc C) (Keccak256 C) (TypedDataAndHash C)
           (bind_res (MarshalMsgpack L a) (\<lambda>ts. Inr (EncodeArrayLen 3 @
             EncodeString (to_lower (Hex L multiSigUser)) @
             EncodeString (to_lower (Hex L outerSigner)) @ ts)))
           nonce vault expiresAfter net))"

fun extend_fields :: "(string \<times> string) list \<Rightarrow> (string \<times> string) list" where
  "extend_fields [] = []"
| "extend_fields (f # fs) =
     f # (''payloadMultiSigUser'', ''address'') # (''outerSigner'', ''address'') # fs"

definition ComputeMultiSigUserActionDigest ::
    "lib \<Rightarrow> crypto \<Rightarrow> UserSignedAction option \<Rightarrow> address \<Rightarrow> address \<Rightarrow> bool \<Rightarrow> bytes32 res" where
  "ComputeMultiSigUserActionDigest L C action multiSigUser outerSigner net =
     (case action of
        None \<Rightarrow> Inl ''multi-sig user action, user, and leader are required''
      | Some a \<Rightarrow>
        (if multiSigUser = 0 \<or> outerSigner = 0
         then Inl ''multi-sig user action, user, and leader are required''
         else bind_res (userSignedTypedData L net a) (\<lambda>(primaryType, flds, message).
           if flds = [] then Inl ''multi-sig user action has no EIP-712 fields''
           else wrap_res ''hash user-signed typed data'' (TypedDataAndHash C (userActionTypedData
             (primaryType, extend_fields flds, message @
               [(''payloadMultiSigUser'', EStr (to_lower (Hex L multiSigUser))),
                (''outerSigner'', EStr (to_lower (Hex L outerSigner)))]))))))"

definition envelope_typed_data :: "bytes32 \<Rightarrow> u64 \<Rightarrow> bool \<Rightarrow> typed_data" where
  "envelope_typed_data hash nonce net =
     \<lparr> td_Types = [(''EIP712Domain'', domain_fields),
         (''HyperliquidTransaction:SendMultiSig'', [(''hyperliquidChain'', ''string''),
           (''multiSigActionHash'', ''bytes32''), (''nonce'', ''uint64'')])],
       td_PrimaryType = ''HyperliquidTransaction:SendMultiSig'',
       td_DomainName = ''HyperliquidSignTransaction'', td_ChainId = 0x66eee,
       td_Message = [(''hyperliquidChain'', EStr (userActionNetwork net)),
         (''multiSigActionHash'', EStr (''0x'' @ hex_encode (word_bytes 32 hash))),
         (''nonce'', EUint nonce)] \<rparr>"

definition ComputeMultiSigEnvelopeDigest ::
    "lib \<Rightarrow> crypto \<Rightarrow> MultiSigEnvelopeAction \<Rightarrow> u64 \<Rightarrow> address option \<Rightarrow> u64 option \<Rightarrow> bool
     \<Rightarrow> bytes32 res" where
  "ComputeMultiSigEnvelopeDigest L C action nonce vault expiresAfter net =
     (if nonce = 0 \<or> me_SignatureChainID action \<noteq> ''0x66eee'' \<or>
         mp_MultiSigUser (me_Payload action) = '''' \<or> mp_OuterSigner (me_Payload action) = '''' \<or>
         elems (me_Signatures action) = []
      then Inl ''invalid multi-sig envelope''
      else bind_res (L1ActionComponents (msgpack_enc C) (Keccak256 C)
          (multiSigEnvelopeBody_MarshalMsgpack L action) nonce vault expiresAfter) (\<lambda>c.
        wrap_res ''hash multi-sig envelope''
          (TypedDataAndHash C (envelope_typed_data (ConnectionID c) nonce net))))"

text \<open>
  The extended typed data stays well formed: the two inserted fields clash with none of the
  action's own.
\<close>

lemma extended_typed_ok:
  assumes "userSignedTypedData L net a = Inr (p, fs, m)"
  shows "distinct (map fst (extend_fields fs)) \<and>
    set (map fst (extend_fields fs)) = set (map fst m) \<union> {''payloadMultiSigUser'', ''outerSigner''} \<and>
    fst (hd (extend_fields fs)) = ''hyperliquidChain''"
  using assms by (cases a; auto simp: typed_defs)

section \<open>The configuration\<close>

text \<open>A digest signer is its address and its signing function.\<close>

record DigestSigner =
  ds_Address :: address
  ds_SignDigest :: "bytes32 \<Rightarrow> Signature res"

record MultiSigConfig =
  mc_MultiSigUser :: address
  mc_Leader :: "DigestSigner option"
  mc_AuthorizedUsers :: "address list"
  mc_Signers :: "DigestSigner option list"
  mc_Threshold :: u8
  mc_LeaderOwner :: "address option"

fun authorized_loop :: "address list \<Rightarrow> address list \<Rightarrow> (address list) res" where
  "authorized_loop authorized [] = Inr authorized"
| "authorized_loop authorized (a # as) =
     (if a = 0 then Inl ''multi-sig authorized user is required''
      else if a \<in> set authorized then Inl ''multi-sig authorized users must be unique''
      else authorized_loop (a # authorized) as)"

fun contributors_loop ::
    "lib \<Rightarrow> address list \<Rightarrow> address list \<Rightarrow> DigestSigner option list \<Rightarrow> unit res" where
  "contributors_loop L authorized seen [] = Inr ()"
| "contributors_loop L authorized seen (None # cs) = Inl ''multi-sig signer is required''"
| "contributors_loop L authorized seen (Some c # cs) =
     (if ds_Address c \<notin> set authorized
      then Inl (''multi-sig signer '' @ Hex L (ds_Address c) @ '' is not authorized'')
      else if ds_Address c \<in> set seen then Inl ''multi-sig signers must be unique''
      else contributors_loop L authorized (ds_Address c # seen) cs)"

definition MultiSigConfig_validate :: "lib \<Rightarrow> MultiSigConfig \<Rightarrow> unit res" where
  "MultiSigConfig_validate L c =
     (case mc_Leader c of None \<Rightarrow> Inl ''invalid multi-sig configuration''
      | Some leader \<Rightarrow>
     (if mc_MultiSigUser c = 0 \<or> mc_AuthorizedUsers c = [] \<or> length (mc_AuthorizedUsers c) > 10 \<or>
         mc_Threshold c = 0 \<or> unat (mc_Threshold c) > length (mc_AuthorizedUsers c) \<or>
         length (mc_Signers c) < unat (mc_Threshold c) \<or>
         length (mc_Signers c) > length (mc_AuthorizedUsers c)
      then Inl ''invalid multi-sig configuration''
      else bind_res (authorized_loop [] (mc_AuthorizedUsers c)) (\<lambda>authorized.
        bind_res (case mc_LeaderOwner c of
            None \<Rightarrow> guard_res (ds_Address leader \<in> set authorized)
              ''multi-sig leader is not authorized''
          | Some owner \<Rightarrow> (if owner = 0 then Inl ''multi-sig leader owner is required''
              else guard_res (owner \<in> set authorized) ''multi-sig leader owner is not authorized''))
        (\<lambda>_. contributors_loop L authorized [] (mc_Signers c)))))"

lemma authorized_loop_ok:
  "authorized_loop xs as = Inr r \<longleftrightarrow>
     0 \<notin> set as \<and> distinct as \<and> set as \<inter> set xs = {} \<and> r = rev as @ xs"
  by (induction as arbitrary: xs r) auto

lemma contributors_loop_ok:
  "contributors_loop L au seen cs = Inr () \<longleftrightarrow>
     None \<notin> set cs \<and> (\<forall>c. Some c \<in> set cs \<longrightarrow> ds_Address c \<in> set au \<and> ds_Address c \<notin> set seen) \<and>
     distinct (map (\<lambda>c. ds_Address (the c)) cs)"
proof (induction L au seen cs rule: contributors_loop.induct)
  case (3 L au seen c cs)
  show ?case
  proof (cases "ds_Address c \<in> set au \<and> ds_Address c \<notin> set seen")
    case True
    have "(\<exists>d. Some d \<in> set cs \<and> ds_Address d = ds_Address c) \<longleftrightarrow>
        ds_Address c \<in> (\<lambda>d. ds_Address (the d)) ` set cs" if "None \<notin> set cs"
      unfolding image_iff by (metis option.collapse option.sel that)
    then show ?thesis using 3 True by (auto simp: image_iff)
  qed auto
qed auto

definition contributor_addresses :: "MultiSigConfig \<Rightarrow> address list" where
  "contributor_addresses c = map (\<lambda>s. ds_Address (the s)) (mc_Signers c)"

lemma MultiSigConfig_validate_sound:
  assumes "MultiSigConfig_validate L c = Inr ()"
  shows "set (contributor_addresses c) \<subseteq> set (mc_AuthorizedUsers c) \<and>
    distinct (contributor_addresses c) \<and> distinct (mc_AuthorizedUsers c) \<and>
    0 < unat (mc_Threshold c) \<and>
    unat (mc_Threshold c) \<le> card (set (contributor_addresses c)) \<and>
    card (set (mc_AuthorizedUsers c)) \<le> 10 \<and> 0 \<notin> set (mc_AuthorizedUsers c) \<and>
    None \<notin> set (mc_Signers c) \<and>
    (\<exists>l. mc_Leader c = Some l \<and> (case mc_LeaderOwner c of
       None \<Rightarrow> ds_Address l | Some owner \<Rightarrow> owner) \<in> set (mc_AuthorizedUsers c))"
proof -
  obtain l where l: "mc_Leader c = Some l"
    using assms by (cases "mc_Leader c") (simp_all add: MultiSigConfig_validate_def)
  note ok = assms [unfolded MultiSigConfig_validate_def l option.case]
  have size: "length (mc_AuthorizedUsers c) \<le> 10" "mc_Threshold c \<noteq> 0"
      "unat (mc_Threshold c) \<le> length (mc_Signers c)"
    and auth: "authorized_loop [] (mc_AuthorizedUsers c) = Inr (rev (mc_AuthorizedUsers c))"
      "0 \<notin> set (mc_AuthorizedUsers c)" "distinct (mc_AuthorizedUsers c)"
    and leader: "(case mc_LeaderOwner c of None \<Rightarrow> ds_Address l | Some owner \<Rightarrow> owner)
      \<in> set (mc_AuthorizedUsers c)"
    and contrib: "contributors_loop L (rev (mc_AuthorizedUsers c)) [] (mc_Signers c) = Inr ()"
    using ok by (auto simp: authorized_loop_ok split: if_splits option.splits)
  have "distinct (contributor_addresses c)" "None \<notin> set (mc_Signers c)"
    and sub: "\<forall>d. Some d \<in> set (mc_Signers c) \<longrightarrow> ds_Address d \<in> set (mc_AuthorizedUsers c)"
    using contrib by (simp_all add: contributors_loop_ok contributor_addresses_def)
  moreover have "set (contributor_addresses c) \<subseteq> set (mc_AuthorizedUsers c)"
  proof
    fix x assume "x \<in> set (contributor_addresses c)"
    then obtain s where "s \<in> set (mc_Signers c)" "x = ds_Address (the s)"
      by (auto simp: contributor_addresses_def)
    moreover from this obtain d where "s = Some d"
      using \<open>None \<notin> set (mc_Signers c)\<close> by (metis option.exhaust)
    ultimately show "x \<in> set (mc_AuthorizedUsers c)" using sub by simp
  qed
  moreover have "card (set (contributor_addresses c)) = length (mc_Signers c)"
    using \<open>distinct (contributor_addresses c)\<close>
    by (simp only: distinct_card) (simp add: contributor_addresses_def)
  moreover have "0 < unat (mc_Threshold c)" using size(2) by (simp add: unat_gt_0)
  moreover have "card (set (mc_AuthorizedUsers c)) \<le> 10"
    using size(1) card_length [of "mc_AuthorizedUsers c"] by linarith
  ultimately show ?thesis
    using l size(3) auth(2,3) leader by (intro conjI exI [of _ l]) simp_all
qed

text \<open>
  An accepted configuration has between threshold and all of the
  authorized users as distinct contributors, every one of them authorized, and a leader who is
  authorized or is owned by an authorized user; there are at most ten authorized users, none the
  zero address, none twice.
\<close>

theorem multisig_config_sound:
  assumes "MultiSigConfig_validate L c = Inr ()"
  shows "set (contributor_addresses c) \<subseteq> set (mc_AuthorizedUsers c) \<and>
    distinct (contributor_addresses c) \<and> distinct (mc_AuthorizedUsers c) \<and>
    0 < unat (mc_Threshold c) \<and>
    unat (mc_Threshold c) \<le> card (set (contributor_addresses c)) \<and>
    card (set (mc_AuthorizedUsers c)) \<le> 10 \<and> 0 \<notin> set (mc_AuthorizedUsers c) \<and>
    None \<notin> set (mc_Signers c) \<and>
    (\<exists>l. mc_Leader c = Some l \<and> (case mc_LeaderOwner c of
       None \<Rightarrow> ds_Address l | Some owner \<Rightarrow> owner) \<in> set (mc_AuthorizedUsers c))"
  using assms by (rule MultiSigConfig_validate_sound)

definition sample_signer :: DigestSigner where
  "sample_signer = \<lparr> ds_Address = 5, ds_SignDigest = (\<lambda>_. Inl ''offline'') \<rparr>"

definition sample_config :: MultiSigConfig where
  "sample_config = \<lparr> mc_MultiSigUser = 9, mc_Leader = Some sample_signer,
     mc_AuthorizedUsers = [5, 6], mc_Signers = [Some sample_signer], mc_Threshold = 1,
     mc_LeaderOwner = None \<rparr>"

theorem multisig_config_sound_witness:
  "MultiSigConfig_validate sample_lib sample_config = Inr () \<and>
   set (contributor_addresses sample_config) \<subseteq> set (mc_AuthorizedUsers sample_config)"
proof -
  have ok: "MultiSigConfig_validate sample_lib sample_config = Inr ()"
    by (simp add: MultiSigConfig_validate_def sample_config_def sample_signer_def)
  show ?thesis using multisig_config_sound [OF ok] ok by blast
qed

section \<open>The order of the inner signatures\<close>

text \<open>
  \<^verbatim>\<open>sort.Slice\<close> is not stable; under a validated configuration the keys are distinct, so the
  result is the one sorted permutation (lemma \<open>sorted_entries_unique\<close>).
\<close>

definition sortMultiSigSignatures ::
    "lib \<Rightarrow> (address \<times> CompactSignature) list \<Rightarrow> CompactSignature list" where
  "sortMultiSigSignatures L entries =
     map snd (sort_key (\<lambda>e. to_lower (Hex L (fst e))) entries)"

lemma filter_same_key:
  "distinct (map key zs) \<Longrightarrow> k \<in> set zs \<Longrightarrow> filter (\<lambda>x. key k = key x) zs = [k]"
proof (induction zs)
  case (Cons a zs)
  show ?case
  proof (cases "k = a")
    case True
    then have "filter (\<lambda>x. key k = key x) zs = []"
      using Cons.prems(1) by (simp add: filter_empty_conv image_iff)
    then show ?thesis using True by simp
  next
    case False
    then have "k \<in> set zs" using Cons.prems(2) by simp
    moreover from this have "key k \<noteq> key a"
      using Cons.prems(1) by (metis distinct.simps(2) image_eqI list.set_map list.simps(9))
    ultimately show ?thesis using Cons by simp
  qed
qed simp

lemma sorted_entries_unique:
  fixes key :: "'a \<Rightarrow> string"
  assumes "mset ys = mset xs" "sorted (map key ys)" "distinct (map key xs)"
  shows "ys = sort_key key xs"
proof (rule properties_for_sort_key [symmetric])
  show "mset ys = mset xs" by (rule assms(1))
  show "sorted (map key ys)" by (rule assms(2))
  fix k assume "k \<in> set ys"
  have dist: "distinct (map key ys)"
    using assms(1,3) by (metis mset_eq_imp_distinct_iff mset_map)
  from \<open>k \<in> set ys\<close> have "k \<in> set xs" using assms(1) by (metis mset_eq_setD)
  then show "filter (\<lambda>x. key k = key x) ys = filter (\<lambda>x. key k = key x) xs"
    using dist assms(3) \<open>k \<in> set ys\<close> by (simp add: filter_same_key)
qed

text \<open>
  The order in which the contributors are listed (or in which their
  signatures were collected) does not affect the envelope: permuted entries with distinct
  addresses give the same signature list.
\<close>

theorem signature_order_canonical:
  assumes "hex_lib L" "distinct (map fst xs)" "mset ys = mset xs"
  shows "sortMultiSigSignatures L ys = sortMultiSigSignatures L xs \<and>
    mset (sortMultiSigSignatures L xs) = image_mset snd (mset xs)"
proof -
  let ?key = "\<lambda>e :: address \<times> CompactSignature. to_lower (Hex L (fst e))"
  have "?key = (\<lambda>e. hex_text (fst e))" using assms(1) by (auto simp: hex_lib_def)
  then have "distinct (map ?key xs)"
    using assms(2) by (auto simp: distinct_map inj_on_def)
  moreover have "mset (sort_key ?key ys) = mset xs" using assms(3) by simp
  ultimately have "sort_key ?key ys = sort_key ?key xs"
    by (intro sorted_entries_unique) simp_all
  then show ?thesis by (simp add: sortMultiSigSignatures_def)
qed

definition sample_compact :: CompactSignature where
  "sample_compact = \<lparr> cs_R = ''0x1'', cs_S = ''0x2'', cs_V = 27 \<rparr>"

theorem signature_order_canonical_witness:
  "sortMultiSigSignatures sample_lib [(3, sample_compact), (1, sample_compact)] =
   sortMultiSigSignatures sample_lib [(1, sample_compact), (3, sample_compact)]"
  using signature_order_canonical [OF hex_lib_sample,
      of "[(1, sample_compact), (3, sample_compact)]" "[(3, sample_compact), (1, sample_compact)]"]
  by simp

end
