(* ===== verification/Response.thy ===== *)
theory Response
  imports Wire
begin

text \<open>
  Decoding of exchange responses: \<^verbatim>\<open>exchange/response.go\<close>. The first section models how
  \<^verbatim>\<open>json.Unmarshal\<close> fills Go values from a parsed JSON value; the second has the response types and
  the decoder, the third what it guarantees.
\<close>

section \<open>Unmarshalling into Go values\<close>

text \<open>
  A setter decodes a value into a variable that already has a value (\<^verbatim>\<open>null\<close> leaves most variables
  alone). An object's keys are matched exactly, else up to case; unknown keys are skipped, a
  repeated key is decoded again over the previous result.
\<close>

type_synonym 'a setter = "jval \<Rightarrow> 'a \<Rightarrow> 'a res"

definition type_error :: "string \<Rightarrow> 'a res" where
  "type_error t = Inl (''json: cannot unmarshal value into Go value of type '' @ t)"

fun set_string :: "string setter" where
  "set_string JNull s = Inr s"
| "set_string (JStr t) s = Inr t"
| "set_string _ s = type_error ''string''"

fun set_uint64 :: "u64 setter" where
  "set_uint64 JNull n = Inr n"
| "set_uint64 (JInt i) n =
     (if 0 \<le> i \<and> i < 2 ^ 64 then Inr (word_of_int i) else type_error ''uint64'')"
| "set_uint64 _ n = type_error ''uint64''"

fun set_ptr :: "'a \<Rightarrow> 'a setter \<Rightarrow> 'a option setter" where
  "set_ptr zero f JNull p = Inr None"
| "set_ptr zero f v p =
     bind_res (f v (case p of None \<Rightarrow> zero | Some x \<Rightarrow> x)) (\<lambda>y. Inr (Some y))"

fun set_slice :: "'a \<Rightarrow> 'a setter \<Rightarrow> 'a list option setter" where
  "set_slice zero f JNull p = Inr None"
| "set_slice zero f (JArr vs) p = bind_res (map_res (\<lambda>v. f v zero) vs) (\<lambda>xs. Inr (Some xs))"
| "set_slice zero f _ p = type_error ''slice''"

definition set_raw :: "jval option setter" where
  "set_raw v p = Inr (Some v)"

definition set_field :: "(string \<times> 'a setter) list \<Rightarrow> string \<Rightarrow> 'a setter option" where
  "set_field fs k =
     (case map_of fs k of
        Some f \<Rightarrow> Some f
      | None \<Rightarrow> map_option snd (find (\<lambda>p. equal_fold (fst p) k) fs))"

fun set_members :: "(string \<times> 'a setter) list \<Rightarrow> (string \<times> jval) list \<Rightarrow> 'a \<Rightarrow> 'a res" where
  "set_members fs [] x = Inr x"
| "set_members fs ((k, v) # kvs) x =
     (case set_field fs k of
        None \<Rightarrow> set_members fs kvs x
      | Some f \<Rightarrow> bind_res (f v x) (set_members fs kvs))"

fun set_struct :: "(string \<times> 'a setter) list \<Rightarrow> 'a setter" where
  "set_struct fs JNull x = Inr x"
| "set_struct fs (JObj kvs) x = set_members fs kvs x"
| "set_struct fs _ x = type_error ''struct''"

lemma set_ptr_value: "v \<noteq> JNull \<Longrightarrow> set_ptr z f v p =
    bind_res (f v (case p of None \<Rightarrow> z | Some x \<Rightarrow> x)) (\<lambda>y. Inr (Some y))"
  by (cases v) simp_all

section \<open>Response types\<close>

record RestingOrder =
  ro_OID :: u64
  ro_Cloid :: "string option"

record FilledOrder =
  fo_TotalSize :: string
  fo_AveragePrice :: string
  fo_OID :: u64
  fo_Cloid :: "string option"

record OrderStatus =
  os_Resting :: "RestingOrder option"
  os_Filled :: "FilledOrder option"
  os_Error :: "string option"

text \<open>\<^verbatim>\<open>CancelStatus\<close> and \<^verbatim>\<open>TWAPCancelStatus\<close> have the same two fields and the same decoder.\<close>

record CancelStatus =
  cs_Success :: "string option"
  cs_Error :: "string option"

record TWAPOrderStatus =
  ts_Running :: "u64 option"
  ts_Error :: "string option"

datatype ActionResponseData =
    DefaultActionResponseData
  | CreateVaultResponseData string
  | OrderResponseData "OrderStatus list option"
  | CancelResponseData "CancelStatus list option"
  | TWAPOrderResponseData TWAPOrderStatus
  | TWAPCancelResponseData CancelStatus
  | UnknownActionResponseData "jval option"

text \<open>The raw bytes of a rejection are kept as the value they spell.\<close>

record ActionResponseError =
  ae_Status :: string
  ae_Message :: string
  ae_raw :: "jval option"

record ActionResponse =
  ar_Status :: string
  ar_Type :: string
  ar_Data :: "ActionResponseData option"
  ar_Error :: "ActionResponseError option"

section \<open>Decoding\<close>

definition set_RestingOrder :: "RestingOrder setter" where
  "set_RestingOrder = set_struct
     [(''oid'', \<lambda>v x. bind_res (set_uint64 v (ro_OID x)) (\<lambda>y. Inr (x \<lparr> ro_OID := y \<rparr>))),
      (''cloid'', \<lambda>v x. bind_res (set_ptr [] set_string v (ro_Cloid x))
        (\<lambda>y. Inr (x \<lparr> ro_Cloid := y \<rparr>)))]"

definition set_FilledOrder :: "FilledOrder setter" where
  "set_FilledOrder = set_struct
     [(''totalSz'', \<lambda>v x. bind_res (set_string v (fo_TotalSize x))
        (\<lambda>y. Inr (x \<lparr> fo_TotalSize := y \<rparr>))),
      (''avgPx'', \<lambda>v x. bind_res (set_string v (fo_AveragePrice x))
        (\<lambda>y. Inr (x \<lparr> fo_AveragePrice := y \<rparr>))),
      (''oid'', \<lambda>v x. bind_res (set_uint64 v (fo_OID x)) (\<lambda>y. Inr (x \<lparr> fo_OID := y \<rparr>))),
      (''cloid'', \<lambda>v x. bind_res (set_ptr [] set_string v (fo_Cloid x))
        (\<lambda>y. Inr (x \<lparr> fo_Cloid := y \<rparr>)))]"

definition set_OrderStatus :: "OrderStatus setter" where
  "set_OrderStatus = set_struct
     [(''resting'', \<lambda>v x. bind_res (set_ptr \<lparr> ro_OID = 0, ro_Cloid = None \<rparr> set_RestingOrder v
        (os_Resting x)) (\<lambda>y. Inr (x \<lparr> os_Resting := y \<rparr>))),
      (''filled'', \<lambda>v x. bind_res (set_ptr \<lparr> fo_TotalSize = [], fo_AveragePrice = [], fo_OID = 0,
        fo_Cloid = None \<rparr> set_FilledOrder v (os_Filled x)) (\<lambda>y. Inr (x \<lparr> os_Filled := y \<rparr>))),
      (''error'', \<lambda>v x. bind_res (set_ptr [] set_string v (os_Error x))
        (\<lambda>y. Inr (x \<lparr> os_Error := y \<rparr>)))]"

text \<open>The object with one error field that two decoders fall back to.\<close>

definition set_error_object :: "string option setter" where
  "set_error_object = set_struct [(''error'', \<lambda>v x. set_ptr [] set_string v x)]"

definition CancelStatus_UnmarshalJSON :: "CancelStatus setter" where
  "CancelStatus_UnmarshalJSON raw s =
     (case set_string raw [] of
        Inr success \<Rightarrow> Inr \<lparr> cs_Success = Some success, cs_Error = None \<rparr>
      | Inl _ \<Rightarrow> bind_res (wrap_res ''decode cancel status'' (set_error_object raw None))
          (\<lambda>e. if e = None
            then Inl ''decode cancel status: expected success string or error object''
            else Inr \<lparr> cs_Success = None, cs_Error = e \<rparr>))"

definition TWAPCancelStatus_UnmarshalJSON :: "CancelStatus setter" where
  "TWAPCancelStatus_UnmarshalJSON raw s =
     (case set_string raw [] of
        Inr success \<Rightarrow> Inr \<lparr> cs_Success = Some success, cs_Error = None \<rparr>
      | Inl _ \<Rightarrow> bind_res (wrap_res ''decode TWAP cancel status'' (set_error_object raw None))
          (\<lambda>e. if e = None
            then Inl ''decode TWAP cancel status: expected success string or error object''
            else Inr \<lparr> cs_Success = None, cs_Error = e \<rparr>))"

definition set_TWAPOrderStatus :: "TWAPOrderStatus setter" where
  "set_TWAPOrderStatus = set_struct
     [(''running'', \<lambda>v x. bind_res (set_ptr 0 (set_struct [(''twapId'', set_uint64)]) v
        (ts_Running x)) (\<lambda>y. Inr (x \<lparr> ts_Running := y \<rparr>))),
      (''error'', \<lambda>v x. bind_res (set_ptr [] set_string v (ts_Error x))
        (\<lambda>y. Inr (x \<lparr> ts_Error := y \<rparr>)))]"

definition zero_order :: OrderStatus where
  "zero_order = \<lparr> os_Resting = None, os_Filled = None, os_Error = None \<rparr>"
definition zero_cancel :: CancelStatus where
  "zero_cancel = \<lparr> cs_Success = None, cs_Error = None \<rparr>"
definition zero_twap :: TWAPOrderStatus where
  "zero_twap = \<lparr> ts_Running = None, ts_Error = None \<rparr>"

text \<open>A missing \<^verbatim>\<open>data\<close> member is an empty byte slice, which does not parse.\<close>

definition unmarshal :: "'a setter \<Rightarrow> jval option \<Rightarrow> 'a \<Rightarrow> 'a res" where
  "unmarshal f raw x =
     (case raw of None \<Rightarrow> Inl ''unexpected end of JSON input'' | Some v \<Rightarrow> f v x)"

definition decodeActionResponseData :: "string \<Rightarrow> jval option \<Rightarrow> ActionResponseData res" where
  "decodeActionResponseData kind raw =
     (let wrap = wrap_res (''decode Exchange '' @ quote kind @ '' response'') in
      if kind = ''default'' then Inr DefaultActionResponseData
      else if kind = ''createVault'' then
        bind_res (wrap (unmarshal set_string raw [])) (\<lambda>s. Inr (CreateVaultResponseData s))
      else if kind = ''order'' then
        map_sum (\<lambda>e. ''decode Exchange '' @ quote kind @ '' response: '' @ e) OrderResponseData
          (unmarshal (set_struct [(''statuses'', set_slice zero_order set_OrderStatus)]) raw None)
      else if kind = ''cancel'' then
        map_sum (\<lambda>e. ''decode Exchange '' @ quote kind @ '' response: '' @ e) CancelResponseData
          (unmarshal (set_struct [(''statuses'', set_slice zero_cancel CancelStatus_UnmarshalJSON)])
            raw None)
      else if kind = ''twapOrder'' then
        map_sum (\<lambda>e. ''decode Exchange '' @ quote kind @ '' response: '' @ e) TWAPOrderResponseData
          (unmarshal (set_struct [(''status'', set_TWAPOrderStatus)]) raw zero_twap)
      else if kind = ''twapCancel'' then
        map_sum (\<lambda>e. ''decode Exchange '' @ quote kind @ '' response: '' @ e) TWAPCancelResponseData
          (unmarshal (set_struct [(''status'', TWAPCancelStatus_UnmarshalJSON)]) raw zero_cancel)
      else Inr (UnknownActionResponseData raw))"

text \<open>\<open>txt\<close> gives the bytes in which a value was received.\<close>

definition decodeActionResponseError ::
    "(jval \<Rightarrow> string) \<Rightarrow> string \<Rightarrow> jval \<Rightarrow> ActionResponseError" where
  "decodeActionResponseError txt status raw =
     (case set_string raw [] of
        Inr message \<Rightarrow> \<lparr> ae_Status = status, ae_Message = message, ae_raw = None \<rparr>
      | Inl _ \<Rightarrow> \<lparr> ae_Status = status, ae_Message = txt raw, ae_raw = Some raw \<rparr>)"

definition set_envelope :: "(string \<times> jval option) setter" where
  "set_envelope = set_struct
     [(''status'', \<lambda>v (s, r). bind_res (set_string v s) (\<lambda>s'. Inr (s', r))),
      (''response'', \<lambda>v (s, r). Inr (s, Some v))]"

definition set_body :: "(string \<times> jval option) setter" where
  "set_body = set_struct
     [(''type'', \<lambda>v (s, r). bind_res (set_string v s) (\<lambda>s'. Inr (s', r))),
      (''data'', \<lambda>v (s, r). Inr (s, Some v))]"

definition ActionResponse_UnmarshalJSON :: "(jval \<Rightarrow> string) \<Rightarrow> jval \<Rightarrow> ActionResponse res" where
  "ActionResponse_UnmarshalJSON txt raw =
     bind_res (set_envelope raw ([], None)) (\<lambda>(status, response).
     let r = \<lparr> ar_Status = status, ar_Type = [], ar_Data = None, ar_Error = None \<rparr> in
     case response of
       None \<Rightarrow> Inr r
     | Some b \<Rightarrow>
        if b = JNull then Inr r
        else if status \<noteq> ''ok'' then
          Inr (r \<lparr> ar_Error := Some (decodeActionResponseError txt status b) \<rparr>)
        else (case set_body b ([], None) of
          Inl _ \<Rightarrow> Inr (r \<lparr> ar_Data := Some (UnknownActionResponseData (Some b)) \<rparr>)
        | Inr (kind, d) \<Rightarrow> bind_res (decodeActionResponseData kind d) (\<lambda>a.
            Inr (r \<lparr> ar_Type := kind, ar_Data := Some a \<rparr>))))"

definition ActionResponseError_Error :: "ActionResponseError \<Rightarrow> string" where
  "ActionResponseError_Error e =
     (if ae_Message e \<noteq> [] then ''Exchange action '' @ ae_Status e @ '': '' @ ae_Message e
      else ''Exchange action '' @ ae_Status e)"

section \<open>Guarantees\<close>


lemma set_envelope_eval:
  "set_envelope (JObj [(''status'', JStr s), (''response'', b)]) ([], None) = Inr (s, Some b)"
  "set_envelope (JObj [(''status'', JStr s)]) ([], None) = Inr (s, None)"
  by (simp_all add: set_envelope_def set_field_def)


text \<open>
  A response with any status but no body is decoded without an error:
  the caller sees a status other than \<^verbatim>\<open>ok\<close> as a success.
\<close>

theorem rejection_without_body:
  "ActionResponse_UnmarshalJSON txt (JObj [(''status'', JStr s)]) =
     Inr \<lparr> ar_Status = s, ar_Type = [], ar_Data = None, ar_Error = None \<rparr>"
  by (simp add: ActionResponse_UnmarshalJSON_def set_envelope_eval Let_def)

text \<open>A cancel status that is null reads as success with an empty text.\<close>

lemma null_cancel_is_success:
  "CancelStatus_UnmarshalJSON JNull s = Inr \<lparr> cs_Success = Some [], cs_Error = None \<rparr>"
  by (simp add: CancelStatus_UnmarshalJSON_def)

text \<open>The documented JSON form of a response, from the field tags.\<close>

definition json_opt :: "string \<Rightarrow> ('a \<Rightarrow> jval) \<Rightarrow> 'a option \<Rightarrow> (string \<times> jval) list" where
  "json_opt k f p = (case p of None \<Rightarrow> [] | Some x \<Rightarrow> [(k, f x)])"

definition RestingOrder_json :: "RestingOrder \<Rightarrow> jval" where
  "RestingOrder_json x = JObj ((''oid'', json_uint (ro_OID x)) # json_opt ''cloid'' JStr (ro_Cloid x))"

definition FilledOrder_json :: "FilledOrder \<Rightarrow> jval" where
  "FilledOrder_json x = JObj ([(''totalSz'', JStr (fo_TotalSize x)),
     (''avgPx'', JStr (fo_AveragePrice x)), (''oid'', json_uint (fo_OID x))] @
     json_opt ''cloid'' JStr (fo_Cloid x))"

definition OrderStatus_json :: "OrderStatus \<Rightarrow> jval" where
  "OrderStatus_json x = JObj (json_opt ''resting'' RestingOrder_json (os_Resting x) @
     json_opt ''filled'' FilledOrder_json (os_Filled x) @ json_opt ''error'' JStr (os_Error x))"

definition CancelStatus_json :: "CancelStatus \<Rightarrow> jval" where
  "CancelStatus_json x = (case cs_Success x of Some s \<Rightarrow> JStr s
     | None \<Rightarrow> JObj (json_opt ''error'' JStr (cs_Error x)))"

definition TWAPOrderStatus_json :: "TWAPOrderStatus \<Rightarrow> jval" where
  "TWAPOrderStatus_json x = JObj
     (json_opt ''running'' (\<lambda>n. JObj [(''twapId'', json_uint n)]) (ts_Running x) @
      json_opt ''error'' JStr (ts_Error x))"

text \<open>A cancel status is either a success or an error.\<close>

definition cancel_ok :: "CancelStatus \<Rightarrow> bool" where
  "cancel_ok x \<longleftrightarrow> (cs_Success x = None) \<noteq> (cs_Error x = None)"

lemma set_uint64_json [simp]: "set_uint64 (json_uint n) m = Inr n"
proof -
  have "uint n < 2 ^ LENGTH(64)" by (rule uint_lt2p)
  then show ?thesis by (simp add: json_uint_def)
qed

lemma json_uint_not_null [simp]: "json_uint n \<noteq> JNull"
  by (simp add: json_uint_def)

lemma set_ptr_str [simp]: "set_ptr [] set_string (JStr s) p = Inr (Some s)"
  by simp

lemma RestingOrder_roundtrip:
  "set_RestingOrder (RestingOrder_json x) \<lparr> ro_OID = 0, ro_Cloid = None \<rparr> = Inr x"
  by (cases x) (simp add: set_RestingOrder_def RestingOrder_json_def json_opt_def set_field_def
      split: option.splits)

lemma FilledOrder_roundtrip:
  "set_FilledOrder (FilledOrder_json x)
     \<lparr> fo_TotalSize = [], fo_AveragePrice = [], fo_OID = 0, fo_Cloid = None \<rparr> = Inr x"
  by (cases x) (simp add: set_FilledOrder_def FilledOrder_json_def json_opt_def set_field_def
      split: option.splits)

lemma status_json_not_null [simp]:
  "RestingOrder_json x \<noteq> JNull" "FilledOrder_json y \<noteq> JNull"
  by (simp_all add: RestingOrder_json_def FilledOrder_json_def)

lemma OrderStatus_roundtrip: "set_OrderStatus (OrderStatus_json x) zero_order = Inr x"
  by (cases x) (simp add: set_OrderStatus_def OrderStatus_json_def zero_order_def json_opt_def
      set_field_def set_ptr_value RestingOrder_roundtrip FilledOrder_roundtrip
      split: option.splits)

lemma CancelStatus_roundtrip:
  "cancel_ok x \<Longrightarrow> CancelStatus_UnmarshalJSON (CancelStatus_json x) s = Inr x"
  "cancel_ok x \<Longrightarrow> TWAPCancelStatus_UnmarshalJSON (CancelStatus_json x) s = Inr x"
  by (cases x; auto simp: cancel_ok_def CancelStatus_UnmarshalJSON_def
      TWAPCancelStatus_UnmarshalJSON_def CancelStatus_json_def json_opt_def set_error_object_def
      set_field_def type_error_def split: option.splits)+

lemma TWAPOrderStatus_roundtrip: "set_TWAPOrderStatus (TWAPOrderStatus_json x) zero_twap = Inr x"
  by (cases x) (simp add: set_TWAPOrderStatus_def TWAPOrderStatus_json_def zero_twap_def
      json_opt_def set_field_def set_ptr_value split: option.splits)

lemma map_res_roundtrip:
  "(\<And>x. x \<in> set xs \<Longrightarrow> f (g x) = Inr x) \<Longrightarrow> map_res f (map g xs) = Inr xs"
  by (induction xs) simp_all

text \<open>The type name and the data member of a response.\<close>

fun data_json :: "ActionResponseData \<Rightarrow> string \<times> jval option" where
  "data_json DefaultActionResponseData = (''default'', None)"
| "data_json (CreateVaultResponseData s) = (''createVault'', Some (JStr s))"
| "data_json (OrderResponseData xs) = (''order'',
     Some (JObj [(''statuses'', json_slice OrderStatus_json xs)]))"
| "data_json (CancelResponseData xs) = (''cancel'',
     Some (JObj [(''statuses'', json_slice CancelStatus_json xs)]))"
| "data_json (TWAPOrderResponseData x) = (''twapOrder'',
     Some (JObj [(''status'', TWAPOrderStatus_json x)]))"
| "data_json (TWAPCancelResponseData x) = (''twapCancel'',
     Some (JObj [(''status'', CancelStatus_json x)]))"
| "data_json (UnknownActionResponseData raw) = (''other'', raw)"

fun data_ok :: "ActionResponseData \<Rightarrow> bool" where
  "data_ok (CancelResponseData xs) = list_all cancel_ok (elems xs)"
| "data_ok (TWAPCancelResponseData x) = cancel_ok x"
| "data_ok _ = True"

definition response_json :: "ActionResponseData \<Rightarrow> jval" where
  "response_json d =
     JObj [(''status'', JStr ''ok''), (''response'',
       JObj ((''type'', JStr (fst (data_json d))) # json_opt ''data'' (\<lambda>v. v) (snd (data_json d))))]"

lemma slice_roundtrip:
  assumes "\<And>x. x \<in> set (elems xs) \<Longrightarrow> f (g x) zero = Inr x"
  shows "set_slice zero f (json_slice g xs) None = Inr xs"
proof (cases xs)
  case (Some ys)
  then have "map_res (\<lambda>v. f v zero) (map g ys) = Inr ys"
    using assms by (intro map_res_roundtrip) simp
  then show ?thesis by (simp add: Some json_slice_def)
qed (simp add: json_slice_def)

lemma set_one_field: "set_struct [(k, f)] (JObj [(k, v)]) x = f v x"
  by (cases "f v x") (simp_all add: set_field_def)

lemma set_slice_status:
  "data_ok (CancelResponseData xs) \<Longrightarrow>
     set_slice zero_cancel CancelStatus_UnmarshalJSON (json_slice CancelStatus_json xs) None = Inr xs"
  "set_slice zero_order set_OrderStatus (json_slice OrderStatus_json ys) None = Inr ys"
  by (rule slice_roundtrip; simp add: CancelStatus_roundtrip OrderStatus_roundtrip list_all_iff)+

lemma data_roundtrip:
  "data_ok d \<Longrightarrow> decodeActionResponseData (fst (data_json d)) (snd (data_json d)) = Inr d"
  using set_slice_status
  by (cases d) (simp_all add: decodeActionResponseData_def unmarshal_def set_one_field
      TWAPOrderStatus_roundtrip CancelStatus_roundtrip del: set_struct.simps)

lemma set_body_eval:
  "set_body (JObj ((''type'', JStr s) # json_opt ''data'' (\<lambda>v. v) p)) ([], None) = Inr (s, p)"
  by (simp add: set_body_def set_field_def json_opt_def split: option.splits)

text \<open>
  C38: every accepted response in its documented JSON form is decoded to the
  variant and the values it was built from, nothing lost and nothing added.
\<close>

theorem response_roundtrip:
  assumes "data_ok d"
  shows "ActionResponse_UnmarshalJSON txt (response_json d) =
    Inr \<lparr> ar_Status = ''ok'', ar_Type = fst (data_json d), ar_Data = Some d, ar_Error = None \<rparr>"
  using data_roundtrip [OF assms]
  by (simp add: ActionResponse_UnmarshalJSON_def response_json_def set_envelope_eval set_body_eval
      Let_def split_beta)

definition sample_resting :: OrderStatus where
  "sample_resting = \<lparr> os_Resting = Some \<lparr> ro_OID = 77, ro_Cloid = None \<rparr>, os_Filled = None,
     os_Error = None \<rparr>"

theorem response_roundtrip_witness:
  "ActionResponse_UnmarshalJSON (\<lambda>_. []) (response_json (OrderResponseData (Some [sample_resting]))) =
    Inr \<lparr> ar_Status = ''ok'', ar_Type = ''order'',
      ar_Data = Some (OrderResponseData (Some [sample_resting])), ar_Error = None \<rparr>"
  using response_roundtrip [of "OrderResponseData (Some [sample_resting])" "\<lambda>_. []"] by simp

end
