(* ===== verification/Nonce.thy ===== *)
theory Nonce
  imports Prelude
begin

text \<open>
  The nonce manager of \<^verbatim>\<open>nonce/manager.go\<close>: per signing address, the larger of the clock and the
  last nonce plus one. \<open>nonce_source\<close> is what the exchange client relies on.
\<close>

section \<open>What a nonce source promises\<close>

text \<open>
  \<open>next s a t\<close> allocates for address \<open>a\<close> at clock reading \<open>t\<close>. A fresh nonce exceeds the last one
  of its address, unless that was the largest 64-bit number, and other addresses are untouched.
\<close>

locale nonce_source =
  fixes next_nonce :: "'s \<Rightarrow> address \<Rightarrow> u64 \<Rightarrow> u64 \<times> 's"
    and last_nonce :: "'s \<Rightarrow> address \<Rightarrow> u64"
  assumes grows: "last_nonce s a \<noteq> - 1 \<Longrightarrow> last_nonce s a < fst (next_nonce s a t)"
    and remembers: "last_nonce (snd (next_nonce s a t)) a = fst (next_nonce s a t)"
    and separate: "b \<noteq> a \<Longrightarrow> last_nonce (snd (next_nonce s a t)) b = last_nonce s b"
begin

fun issue :: "'s \<Rightarrow> (address \<times> u64) list \<Rightarrow> (address \<times> u64) list" where
  "issue s [] = []"
| "issue s ((a, t) # ops) =
     (case next_nonce s a t of (n, s') \<Rightarrow> (a, n) # issue s' ops)"

lemma issue_increasing:
  "last_nonce s b \<noteq> - 1 \<Longrightarrow> - 1 \<notin> snd ` set (issue s ops) \<Longrightarrow>
   sorted_wrt (<) (last_nonce s b # map snd (filter (\<lambda>p. fst p = b) (issue s ops)))"
proof (induction ops arbitrary: s)
  case (Cons op ops)
  obtain a t where [simp]: "op = (a, t)" by (cases op)
  obtain n s' where next_eq: "next_nonce s a t = (n, s')" by (cases "next_nonce s a t")
  have rest: "- 1 \<notin> snd ` set (issue s' ops)" and n: "n \<noteq> - 1"
    using Cons.prems(2) next_eq by auto
  show ?case
  proof (cases "a = b")
    case True
    have "last_nonce s' b = n" using remembers [of s a t] next_eq True by simp
    moreover have "last_nonce s b < n" using grows [of s a t] Cons.prems(1) next_eq True by simp
    ultimately show ?thesis
      using Cons.IH [of s'] rest n next_eq True by (auto intro: less_trans)
  next
    case False
    have "last_nonce s' b = last_nonce s b" using separate [of b a s t] next_eq False by simp
    then show ?thesis using Cons.IH [of s'] Cons.prems(1) rest next_eq False by simp
  qed
qed simp

end

section \<open>The monotonic manager\<close>

type_synonym MonotonicManager = "address \<Rightarrow> u64 option"

definition NewMonotonicManager :: MonotonicManager where
  "NewMonotonicManager = (\<lambda>_. None)"

text \<open>A missing map entry reads as zero.\<close>

definition last_of :: "MonotonicManager \<Rightarrow> address \<Rightarrow> u64" where
  "last_of m a = (case m a of None \<Rightarrow> 0 | Some n \<Rightarrow> n)"

text \<open>\<open>now\<close> is \<^verbatim>\<open>uint64(m.now().UnixMilli())\<close>; the addition wraps.\<close>

definition allocate :: "MonotonicManager \<Rightarrow> address \<Rightarrow> u64 \<Rightarrow> u64 \<times> MonotonicManager" where
  "allocate m a now =
     (let n = (if now \<le> last_of m a then last_of m a + 1 else now) in (n, m(a \<mapsto> n)))"

definition MonotonicManager_Next ::
    "unit res \<Rightarrow> u64 \<Rightarrow> MonotonicManager \<Rightarrow> address \<Rightarrow> u64 res \<times> MonotonicManager" where
  "MonotonicManager_Next ctxErr now m a =
     (case ctxErr of Inl e \<Rightarrow> (Inl e, m)
      | Inr _ \<Rightarrow> (case allocate m a now of (n, m') \<Rightarrow> (Inr n, m')))"

lemma last_of_update [simp]:
  "last_of (m(a \<mapsto> n)) b = (if b = a then n else last_of m b)"
  by (simp add: last_of_def)

lemma word_less_succ:
  fixes x :: u64
  assumes "x \<noteq> - 1"
  shows "x < x + 1"
proof -
  have "1 + x \<noteq> 0" using assms by (metis add.commute add_eq_0_iff2 eq_neg_iff_add_eq_0)
  then have "unat (1 + x) = Suc (unat x)" by (rule unatSuc)
  then show ?thesis by (simp add: word_less_nat_alt add.commute)
qed

interpretation mono: nonce_source allocate last_of
proof
  fix m :: MonotonicManager and a t
  assume "last_of m a \<noteq> - 1"
  then show "last_of m a < fst (allocate m a t)"
    using word_less_succ [of "last_of m a"] by (auto simp: allocate_def Let_def not_le)
next
  fix m :: MonotonicManager and a t
  show "last_of (snd (allocate m a t)) a = fst (allocate m a t)"
    by (simp add: allocate_def Let_def)
next
  fix b a :: address and m :: MonotonicManager and t
  assume "b \<noteq> a"
  then show "last_of (snd (allocate m a t)) b = last_of m b"
    by (simp add: allocate_def Let_def)
qed

lemma allocate_not_before: "last_of m a \<noteq> - 1 \<Longrightarrow> now \<le> fst (allocate m a now)"
  using word_less_succ [of "last_of m a"] by (auto simp: allocate_def Let_def)

fun issued :: "MonotonicManager \<Rightarrow> (address \<times> u64) list \<Rightarrow> (address \<times> u64) list" where
  "issued m [] = []"
| "issued m ((a, now) # calls) =
     (case allocate m a now of (n, m') \<Rightarrow> (a, n) # issued m' calls)"

lemma issued_issue: "issued m calls = mono.issue m calls"
  by (induction m calls rule: issued.induct) (simp_all split: prod.splits)

text \<open>
  Over any interleaving of calls for any addresses, with any clock
  (one that stands still or runs backwards included), the nonces handed out for one address strictly
  increase, hence never repeat, until the largest 64-bit number has been handed out.
\<close>

theorem nonces_strictly_increase:
  assumes "- 1 \<notin> snd ` set (issued NewMonotonicManager calls)"
  shows "sorted_wrt (<) (map snd (filter (\<lambda>p. fst p = a) (issued NewMonotonicManager calls)))"
  using mono.issue_increasing [of NewMonotonicManager a calls] assms
  by (simp add: issued_issue last_of_def NewMonotonicManager_def)

theorem nonces_strictly_increase_witness:
  "sorted_wrt (<) [1000 :: u64, 1001, 1002]"
  using nonces_strictly_increase [of "[(7, 1000), (8, 5), (7, 1000), (7, 3)]" 7]
  by (simp add: allocate_def last_of_def NewMonotonicManager_def)

text \<open>At the very end the counter wraps to zero, which the submission path refuses as a nonce.\<close>

lemma allocate_wraps: "fst (allocate [a \<mapsto> - 1] a now) = 0"
  by (simp add: allocate_def last_of_def)

end
