(* ===== verification/Exchange.thy ===== *)
theory Exchange
  imports Multisig Response Nonce
begin

text \<open>
  The submission paths of \<^verbatim>\<open>exchange/submit.go\<close>, \<^verbatim>\<open>exchange/client.go\<close> and \<^verbatim>\<open>exchange/multisig.go\<close>. A
  client call is a function on a world: the nonce manager's state and the list of requests that
  have left the client. What surrounds the client (the nonce manager's answers, the transport's
  replies) is an environment record; \<open>behaves\<close> is the contract that every call keeps.
\<close>

section \<open>Client, environment and world\<close>

record Client =
  cl_network :: string
  cl_signer :: "DigestSigner option"
  cl_has_nonce :: bool
  cl_vaultAddress :: "address option"
  cl_expiresAfter :: "u64 option"

definition mainnet :: "Client \<Rightarrow> bool" where
  "mainnet c \<longleftrightarrow> cl_network c = ''mainnet''"

record wireSignature =
  ws_R :: string
  ws_S :: string
  ws_V :: u8

text \<open>
  The payload structs of the three submission paths, as sent: the action is its JSON value.
\<close>

record request =
  rq_Action :: jval
  rq_Nonce :: u64
  rq_Signature :: wireSignature
  rq_VaultAddress :: "address option"
  rq_ExpiresAfter :: "u64 option"

text \<open>
  What the HTTP transport can come back with: an error, no response, an unreadable body, or a status
  and a body.
\<close>

datatype reply = DoFails string | NilResponse | ReadFails string | Body nat string

record 'n env =
  en_Next :: "'n \<Rightarrow> address \<Rightarrow> u64 res \<times> 'n"          \<comment> \<open>the nonce manager\<close>
  en_NewRequest :: "unit res"                        \<comment> \<open>building the HTTP request\<close>
  en_Do :: "request \<Rightarrow> reply"                         \<comment> \<open>the HTTP transport\<close>
  en_request :: "(request \<Rightarrow> ActionResponse res) option" \<comment> \<open>a request transport, if set\<close>
  en_json :: "string \<Rightarrow> jval option"                  \<comment> \<open>the value that a text spells, if any\<close>
  en_txt :: "jval \<Rightarrow> string"                          \<comment> \<open>the bytes in which a value arrived\<close>

record 'n world =
  w_nonce :: 'n
  w_sent :: "request list"

text \<open>
  A call ends with an error of its own, with a response that carries a rejection, or with a response.
\<close>

datatype outcome = Failed string | Rejected ActionResponse ActionResponseError | Accepted ActionResponse

type_synonym 'n call = "'n world \<Rightarrow> outcome \<times> 'n world"

definition fail :: "string \<Rightarrow> 'n call" where
  "fail e w = (Failed e, w)"

definition attempt :: "'a res \<Rightarrow> ('a \<Rightarrow> 'n call) \<Rightarrow> 'n call" where
  "attempt r f = (case r of Inl e \<Rightarrow> fail e | Inr x \<Rightarrow> f x)"

definition with_next :: "'n env \<Rightarrow> address \<Rightarrow> (u64 \<Rightarrow> 'n call) \<Rightarrow> 'n call" where
  "with_next E a f w =
     (case en_Next E (w_nonce w) a of
        (Inl e, s) \<Rightarrow> (Failed e, w \<lparr> w_nonce := s \<rparr>)
      | (Inr n, s) \<Rightarrow> f n (w \<lparr> w_nonce := s \<rparr>))"

section \<open>Posting\<close>

definition outcome_of :: "ActionResponse \<Rightarrow> outcome" where
  "outcome_of r = (case ar_Error r of None \<Rightarrow> Accepted r | Some e \<Rightarrow> Rejected r e)"

definition receive :: "'n env \<Rightarrow> request \<Rightarrow> outcome" where
  "receive E rq =
     (case en_request E of
        Some f \<Rightarrow> (case f rq of Inl e \<Rightarrow> Failed e | Inr r \<Rightarrow> outcome_of r)
      | None \<Rightarrow> (case en_Do E rq of
          DoFails e \<Rightarrow> Failed e
        | NilResponse \<Rightarrow> Failed ''unexpected API response: nil HTTP response''
        | ReadFails e \<Rightarrow> Failed e
        | Body status body \<Rightarrow>
            if status < 200 \<or> 300 \<le> status then Failed (''hyperliquid API error ('' @ show_nat status @ ''): '' @ body)
            else (case en_json E body of
              None \<Rightarrow> Failed ''unexpected API response: invalid JSON''
            | Some v \<Rightarrow> (case ActionResponse_UnmarshalJSON (en_txt E) v of
                Inl e \<Rightarrow> Failed (''unexpected API response: '' @ e)
              | Inr r \<Rightarrow> outcome_of r))))"

text \<open>The payload's own encoding may fail, and so may the construction of the HTTP request.\<close>

definition post :: "'n env \<Rightarrow> request res \<Rightarrow> 'n call" where
  "post E payload =
     attempt payload (\<lambda>rq.
     attempt (if en_request E = None then en_NewRequest E else Inr ()) (\<lambda>_.
     \<lambda>w. (receive E rq, w \<lparr> w_sent := w_sent w @ [rq] \<rparr>)))"

section \<open>Signing\<close>

definition signAndVerify :: "crypto \<Rightarrow> DigestSigner \<Rightarrow> bytes32 \<Rightarrow> Signature res" where
  "signAndVerify C s digest =
     bind_res (wrap_res ''sign digest'' (ds_SignDigest s digest)) (\<lambda>sg.
     bind_res (wrap_res ''verify signature'' (Verify C digest sg (ds_Address s))) (\<lambda>_. Inr sg))"

definition wireSignatureFrom :: "Signature \<Rightarrow> wireSignature" where
  "wireSignatureFrom sg =
     \<lparr> ws_R = ''0x'' @ hex_encode (word_bytes 32 (sig_R sg)),
       ws_S = ''0x'' @ hex_encode (word_bytes 32 (sig_S sg)),
       ws_V = (case NormalizeRecoveryID (sig_V sg) of Inl _ \<Rightarrow> 0 | Inr v \<Rightarrow> v) + 27 \<rparr>"

text \<open>The two single-signature paths normalize before they build the payload.\<close>

definition signed_wire :: "crypto \<Rightarrow> DigestSigner \<Rightarrow> bytes32 \<Rightarrow> wireSignature res" where
  "signed_wire C s digest =
     bind_res (signAndVerify C s digest) (\<lambda>sg.
     bind_res (NormalizeRecoveryID (sig_V sg)) (\<lambda>v. Inr (wireSignatureFrom sg)))"

section \<open>Single-signature submission\<close>

definition submitL1AtNonceWithOuter ::
    "lib \<Rightarrow> crypto \<Rightarrow> 'n env \<Rightarrow> Client \<Rightarrow> L1Action \<Rightarrow> u64 \<Rightarrow> address option \<Rightarrow> u64 option
     \<Rightarrow> address option \<Rightarrow> 'n call" where
  "submitL1AtNonceWithOuter L C E c action nonceValue vaultAddress expiresAfter outer =
     (case cl_signer c of None \<Rightarrow> fail ''digest signer is required''
      | Some s \<Rightarrow>
        if nonceValue = 0 then fail ''L1 nonce must be positive''
        else attempt (ComputeL1ActionDigest (msgpack_enc C) (Keccak256 C) (TypedDataAndHash C)
            (MarshalMsgpack L action) nonceValue vaultAddress expiresAfter (mainnet c)) (\<lambda>digest.
          attempt (signed_wire C s digest) (\<lambda>sg.
          post E (bind_res (MarshalJSON L action) (\<lambda>j. Inr
            \<lparr> rq_Action = j, rq_Nonce = nonceValue, rq_Signature = sg,
              rq_VaultAddress = outer, rq_ExpiresAfter = expiresAfter \<rparr>)))))"

definition outerVaultAddress :: "Client \<Rightarrow> address option \<Rightarrow> address option" where
  "outerVaultAddress c signingVault =
     (if signingVault \<noteq> None then signingVault else cl_vaultAddress c)"

definition submitL1AtNonce ::
    "lib \<Rightarrow> crypto \<Rightarrow> 'n env \<Rightarrow> Client \<Rightarrow> L1Action \<Rightarrow> u64 \<Rightarrow> address option \<Rightarrow> u64 option
     \<Rightarrow> 'n call" where
  "submitL1AtNonce L C E c action n vaultAddress expiresAfter =
     submitL1AtNonceWithOuter L C E c action n vaultAddress expiresAfter
       (outerVaultAddress c vaultAddress)"

definition with_managed_nonce :: "'n env \<Rightarrow> Client \<Rightarrow> string \<Rightarrow> string \<Rightarrow> (u64 \<Rightarrow> 'n call) \<Rightarrow> 'n call" where
  "with_managed_nonce E c noSigner noNonce f =
     (case cl_signer c of None \<Rightarrow> fail noSigner
      | Some s \<Rightarrow> if \<not> cl_has_nonce c then fail noNonce else with_next E (ds_Address s) f)"

definition submitL1For ::
    "lib \<Rightarrow> crypto \<Rightarrow> 'n env \<Rightarrow> Client \<Rightarrow> L1Action \<Rightarrow> address option \<Rightarrow> u64 option \<Rightarrow> 'n call" where
  "submitL1For L C E c action vaultAddress expiresAfter =
     with_managed_nonce E c ''digest signer is required'' ''nonce manager is required''
       (\<lambda>n. submitL1AtNonce L C E c action n vaultAddress expiresAfter)"

definition submitL1 :: "lib \<Rightarrow> crypto \<Rightarrow> 'n env \<Rightarrow> Client \<Rightarrow> L1Action \<Rightarrow> 'n call" where
  "submitL1 L C E c action =
     submitL1For L C E c action (cl_vaultAddress c) (cl_expiresAfter c)"

definition submitL1WithoutVault ::
    "lib \<Rightarrow> crypto \<Rightarrow> 'n env \<Rightarrow> Client \<Rightarrow> L1Action \<Rightarrow> u64 option \<Rightarrow> 'n call" where
  "submitL1WithoutVault L C E c action expiresAfter =
     with_managed_nonce E c ''digest signer is required'' ''nonce manager is required''
       (\<lambda>n. submitL1AtNonceWithOuter L C E c action n None expiresAfter None)"

definition submitUserSigned ::
    "lib \<Rightarrow> crypto \<Rightarrow> 'n env \<Rightarrow> Client \<Rightarrow> UserSignedAction \<Rightarrow> 'n call" where
  "submitUserSigned L C E c action =
     (case cl_signer c of None \<Rightarrow> fail ''digest signer is required''
      | Some s \<Rightarrow>
        attempt (MarshalUserSignedAction L (Some action) (mainnet c)) (\<lambda>rawAction.
        attempt (ComputeUserActionDigest L (TypedDataAndHash C) (Some action) (mainnet c)) (\<lambda>digest.
        attempt (signed_wire C s digest) (\<lambda>sg.
        post E (Inr \<lparr> rq_Action = rawAction, rq_Nonce = ActionNonce action, rq_Signature = sg,
          rq_VaultAddress = (if OmitOuterVaultAddress action then None else cl_vaultAddress c),
          rq_ExpiresAfter = None \<rparr>)))))"

definition userActionNonce :: "'n env \<Rightarrow> Client \<Rightarrow> (u64 \<Rightarrow> 'n call) \<Rightarrow> 'n call" where
  "userActionNonce E c f =
     with_managed_nonce E c ''user-signed action: signer is required''
       ''user-signed action: nonce manager is required'' f"

section \<open>The contract of a call\<close>

text \<open>
  A request is vouched for by a signer when its signature, as written in the request, is one that
  verifies for the signer's address over the digest of exactly what the request carries: the action
  whose JSON is sent, its nonce, its expiry, the network, and as vault either the one the request
  routes to or none.
\<close>

definition vouched_l1 :: "lib \<Rightarrow> crypto \<Rightarrow> bool \<Rightarrow> address \<Rightarrow> request \<Rightarrow> bool" where
  "vouched_l1 L C net a rq \<longleftrightarrow>
     rq_Nonce rq \<noteq> 0 \<and>
     (\<exists>action vault digest sg.
        MarshalJSON L action = Inr (rq_Action rq) \<and> (vault = None \<or> vault = rq_VaultAddress rq) \<and>
        ComputeL1ActionDigest (msgpack_enc C) (Keccak256 C) (TypedDataAndHash C)
          (MarshalMsgpack L action) (rq_Nonce rq) vault (rq_ExpiresAfter rq) net = Inr digest \<and>
        Verify C digest sg a = Inr () \<and> rq_Signature rq = wireSignatureFrom sg)"

definition vouched_user :: "lib \<Rightarrow> crypto \<Rightarrow> bool \<Rightarrow> address \<Rightarrow> request \<Rightarrow> bool" where
  "vouched_user L C net a rq \<longleftrightarrow>
     rq_ExpiresAfter rq = None \<and>
     (\<exists>action digest sg.
        MarshalUserSignedAction L (Some action) net = Inr (rq_Action rq) \<and>
        rq_Nonce rq = ActionNonce action \<and>
        (OmitOuterVaultAddress action \<longrightarrow> rq_VaultAddress rq = None) \<and>
        ComputeUserActionDigest L (TypedDataAndHash C) (Some action) net = Inr digest \<and>
        Verify C digest sg a = Inr () \<and> rq_Signature rq = wireSignatureFrom sg)"

definition vouched :: "lib \<Rightarrow> crypto \<Rightarrow> bool \<Rightarrow> address \<Rightarrow> request \<Rightarrow> bool" where
  "vouched L C net a rq \<longleftrightarrow> vouched_l1 L C net a rq \<or> vouched_user L C net a rq"

text \<open>
  A call at nonce \<open>n\<close> leaves the nonce manager alone and posts at most one request: a good one at
  \<open>n\<close>, whose reply is its outcome; if nothing is posted it fails.
\<close>

definition posts_at :: "(request \<Rightarrow> bool) \<Rightarrow> 'n env \<Rightarrow> u64 \<Rightarrow> 'n call \<Rightarrow> bool" where
  "posts_at good E n call \<longleftrightarrow> (\<forall>w.
     (\<exists>e. call w = (Failed e, w)) \<or>
     (\<exists>rq. call w = (receive E rq, w \<lparr> w_sent := w_sent w @ [rq] \<rparr>) \<and> rq_Nonce rq = n \<and> good rq))"

text \<open>
  A managed call also takes at most one nonce, of the given address, and posts at that nonce only.
\<close>

definition behaves :: "(request \<Rightarrow> bool) \<Rightarrow> 'n env \<Rightarrow> address \<Rightarrow> 'n call \<Rightarrow> bool" where
  "behaves good E a call \<longleftrightarrow> (\<forall>w.
     (\<exists>e. call w = (Failed e, w)) \<or>
     (\<exists>e r s. call w = (Failed e, w \<lparr> w_nonce := s \<rparr>) \<and> en_Next E (w_nonce w) a = (r, s)) \<or>
     (\<exists>rq s. call w = (receive E rq, \<lparr> w_nonce = s, w_sent = w_sent w @ [rq] \<rparr>) \<and>
       en_Next E (w_nonce w) a = (Inr (rq_Nonce rq), s) \<and> good rq))"

lemma posts_at_fail [intro, simp]: "posts_at good E n (fail e)"
  by (simp add: posts_at_def fail_def)

lemma behaves_fail [intro, simp]: "behaves good E a (fail e)"
  by (simp add: behaves_def fail_def)

lemma posts_at_attempt [intro]:
  "(\<And>x. r = Inr x \<Longrightarrow> posts_at good E n (f x)) \<Longrightarrow> posts_at good E n (attempt r f)"
  by (cases r) (simp_all add: attempt_def)

lemma behaves_attempt [intro]:
  "(\<And>x. r = Inr x \<Longrightarrow> behaves good E a (f x)) \<Longrightarrow> behaves good E a (attempt r f)"
  by (cases r) (simp_all add: attempt_def)

lemma behaves_if [intro]:
  "(b \<Longrightarrow> behaves good E a f) \<Longrightarrow> (\<not> b \<Longrightarrow> behaves good E a g) \<Longrightarrow> behaves good E a (if b then f else g)"
  by simp

lemma posts_at_post:
  "(\<And>rq. p = Inr rq \<Longrightarrow> rq_Nonce rq = n \<and> good rq) \<Longrightarrow> posts_at good E n (post E p)"
  by (cases p) (auto simp: posts_at_def post_def attempt_def fail_def split: sum.splits)

lemma behaves_with_next:
  assumes "\<And>n. posts_at good E n (f n)"
  shows "behaves good E a (with_next E a f)"
  unfolding behaves_def
proof
  fix w :: "'a world"
  obtain r s where rs: "en_Next E (w_nonce w) a = (r, s)" by (cases "en_Next E (w_nonce w) a")
  show "(\<exists>e. with_next E a f w = (Failed e, w)) \<or>
     (\<exists>e r s. with_next E a f w = (Failed e, w \<lparr> w_nonce := s \<rparr>) \<and> en_Next E (w_nonce w) a = (r, s)) \<or>
     (\<exists>rq s. with_next E a f w = (receive E rq, \<lparr> w_nonce = s, w_sent = w_sent w @ [rq] \<rparr>) \<and>
       en_Next E (w_nonce w) a = (Inr (rq_Nonce rq), s) \<and> good rq)"
  proof (cases r)
    case (Inl e)
    then show ?thesis using rs by (auto simp: with_next_def)
  next
    case (Inr n)
    from assms [of n, unfolded posts_at_def, rule_format, of "w \<lparr> w_nonce := s \<rparr>"] show ?thesis
    proof (elim disjE exE conjE)
      fix e assume "f n (w \<lparr> w_nonce := s \<rparr>) = (Failed e, w \<lparr> w_nonce := s \<rparr>)"
      then show ?thesis using rs Inr by (auto simp: with_next_def)
    next
      fix rq
      assume "f n (w \<lparr> w_nonce := s \<rparr>) = (receive E rq,
          w \<lparr> w_nonce := s, w_sent := w_sent (w \<lparr> w_nonce := s \<rparr>) @ [rq] \<rparr>)"
        and "rq_Nonce rq = n" "good rq"
      then have "with_next E a f w = (receive E rq, \<lparr> w_nonce = s, w_sent = w_sent w @ [rq] \<rparr>) \<and>
          en_Next E (w_nonce w) a = (Inr (rq_Nonce rq), s) \<and> good rq"
        using rs Inr by (cases w) (simp add: with_next_def)
      then show ?thesis by blast
    qed
  qed
qed

text \<open>The address whose nonces and signatures a client uses.\<close>

definition client_address :: "Client \<Rightarrow> address" where
  "client_address c = (case cl_signer c of None \<Rightarrow> 0 | Some s \<Rightarrow> ds_Address s)"

abbreviation client_vouched :: "lib \<Rightarrow> crypto \<Rightarrow> Client \<Rightarrow> request \<Rightarrow> bool" where
  "client_vouched L C c \<equiv> vouched L C (mainnet c) (client_address c)"

lemma signAndVerify_ok:
  "signAndVerify C s d = Inr sg \<longleftrightarrow> ds_SignDigest s d = Inr sg \<and> Verify C d sg (ds_Address s) = Inr ()"
  by (auto simp: signAndVerify_def)

lemma signed_wire_ok:
  "signed_wire C s d = Inr ws \<Longrightarrow> \<exists>sg. Verify C d sg (ds_Address s) = Inr () \<and> ws = wireSignatureFrom sg"
  by (auto simp: signed_wire_def signAndVerify_ok)

lemma submitL1AtNonceWithOuter_posts:
  assumes "vault = None \<or> vault = outer"
  shows "posts_at (client_vouched L C c) E n
    (submitL1AtNonceWithOuter L C E c action n vault expires outer)"
proof (cases "cl_signer c")
  case (Some s)
  then have a: "client_address c = ds_Address s" by (simp add: client_address_def)
  have "client_vouched L C c \<lparr> rq_Action = j, rq_Nonce = n, rq_Signature = ws,
      rq_VaultAddress = outer, rq_ExpiresAfter = expires \<rparr>"
    if "n \<noteq> 0" "MarshalJSON L action = Inr j" "signed_wire C s d = Inr ws"
      "ComputeL1ActionDigest (msgpack_enc C) (Keccak256 C) (TypedDataAndHash C)
        (MarshalMsgpack L action) n vault expires (mainnet c) = Inr d" for j ws d
    using that assms signed_wire_ok [OF that(3)]
    by (auto simp: vouched_def vouched_l1_def a)
  then show ?thesis
    unfolding submitL1AtNonceWithOuter_def Some option.case
    by (cases "n = 0") (simp, simp only: if_False, intro posts_at_attempt posts_at_post, auto)
qed (simp add: submitL1AtNonceWithOuter_def)

lemma with_managed_nonce_behaves:
  "(\<And>n. posts_at good E n (f n)) \<Longrightarrow>
   behaves good E (client_address c) (with_managed_nonce E c m m' f)"
  unfolding with_managed_nonce_def client_address_def
  by (cases "cl_signer c") (auto intro: behaves_with_next)

lemma submitL1For_behaves:
  "behaves (client_vouched L C c) E (client_address c) (submitL1For L C E c action vault expires)"
  unfolding submitL1For_def submitL1AtNonce_def
  by (intro with_managed_nonce_behaves submitL1AtNonceWithOuter_posts)
    (auto simp: outerVaultAddress_def)

lemma submitL1_behaves:
  "behaves (client_vouched L C c) E (client_address c) (submitL1 L C E c action)"
  unfolding submitL1_def by (rule submitL1For_behaves)

lemma submitL1WithoutVault_behaves:
  "behaves (client_vouched L C c) E (client_address c)
     (submitL1WithoutVault L C E c action expires)"
  unfolding submitL1WithoutVault_def
  by (intro with_managed_nonce_behaves submitL1AtNonceWithOuter_posts) simp

lemma submitUserSigned_posts:
  "posts_at (client_vouched L C c) E (ActionNonce action) (submitUserSigned L C E c action)"
proof (cases "cl_signer c")
  case (Some s)
  then have a: "client_address c = ds_Address s" by (simp add: client_address_def)
  show ?thesis
    unfolding submitUserSigned_def Some option.case
  proof (intro posts_at_attempt posts_at_post)
    fix j d ws rq
    assume "MarshalUserSignedAction L (Some action) (mainnet c) = Inr j"
      "ComputeUserActionDigest L (TypedDataAndHash C) (Some action) (mainnet c) = Inr d"
      "signed_wire C s d = Inr ws"
      "(Inr \<lparr> rq_Action = j, rq_Nonce = ActionNonce action, rq_Signature = ws,
        rq_VaultAddress = (if OmitOuterVaultAddress action then None else cl_vaultAddress c),
        rq_ExpiresAfter = None \<rparr> :: request res) = Inr rq"
    then have "vouched_user L C (mainnet c) (ds_Address s) rq \<and> rq_Nonce rq = ActionNonce action"
      unfolding vouched_user_def using signed_wire_ok [of C s d ws]
      by (intro conjI exI [of _ action] exI [of _ d]) auto
    then show "rq_Nonce rq = ActionNonce action \<and> client_vouched L C c rq"
      by (simp add: vouched_def a)
  qed
qed (simp add: submitUserSigned_def)

lemma userActionNonce_behaves:
  assumes "\<And>n. ActionNonce (action n) = n"
  shows "behaves (client_vouched L C c) E (client_address c)
    (userActionNonce E c (\<lambda>n. submitUserSigned L C E c (action n)))"
  unfolding userActionNonce_def
proof (rule with_managed_nonce_behaves)
  fix n
  show "posts_at (client_vouched L C c) E n (submitUserSigned L C E c (action n))"
    using submitUserSigned_posts [of L C c E "action n"] assms by simp
qed

lemmas call_behaves = submitL1For_behaves submitL1_behaves submitL1WithoutVault_behaves

end
