(* ===== verification/Assets.thy ===== *)
theory Assets
  imports Prelude
begin

text \<open>
  Asset resolution: \<^verbatim>\<open>types/market.go\<close>, \<^verbatim>\<open>asset/resolver.go\<close> and the snapshot construction and lookups
  of \<^verbatim>\<open>asset/meta_resolver.go\<close>. \<open>market_resolver\<close> is what the exchange client relies on; the static
  resolver and a metadata snapshot both provide it.
\<close>

section \<open>Markets\<close>

text \<open>\<^verbatim>\<open>MarketKind\<close> is a string type with four constants.\<close>

type_synonym MarketKind = string

definition Perp :: MarketKind where "Perp = ''perp''"
definition Spot :: MarketKind where "Spot = ''spot''"
definition HIP3 :: MarketKind where "HIP3 = ''hip3''"
definition Outcome :: MarketKind where "Outcome = ''outcome''"

lemmas kind_defs = Perp_def Spot_def HIP3_def Outcome_def

record Asset =
  a_ID :: int
  a_Symbol :: string
  a_Name :: string
  a_Kind :: MarketKind
  a_SzDecimals :: int
  a_DEX :: string

record MarketRef =
  r_Symbol :: string
  r_Kind :: MarketKind
  r_DEX :: string

text \<open>\<^verbatim>\<open>strconv.ParseUint(s, 10, 64)\<close>: decimal digits only, below 2 to the 64.\<close>

definition is_dec :: "char \<Rightarrow> bool" where
  "is_dec c \<longleftrightarrow> 48 \<le> (of_char c :: nat) \<and> (of_char c :: nat) \<le> 57"

definition ParseUint :: "string \<Rightarrow> nat option" where
  "ParseUint s =
     (if s \<noteq> [] \<and> list_all is_dec s \<and> read_nat s < 2 ^ 64 then Some (read_nat s) else None)"

definition validateMarketRef :: "MarketRef \<Rightarrow> unit res" where
  "validateMarketRef ref =
     (if r_Symbol ref = [] then Inl ''market symbol is required''
      else if r_Kind ref \<in> {Perp, Spot, Outcome} then
        (if r_DEX ref \<noteq> [] then Inl (r_Kind ref @ '' market reference must not specify a DEX'')
         else if r_Kind ref = Outcome then
           (let sym = r_Symbol ref;
                encoding = ParseUint (if has_prefix sym ''#'' then drop 1 sym else sym)
            in if \<not> has_prefix sym ''#'' \<or> length sym = 1 \<or> encoding = None \<or> the encoding mod 10 > 1
               then Inl ''outcome market symbol must use #<outcome><side> notation with binary side''
               else Inr ())
         else Inr ())
      else if r_Kind ref = HIP3 then
        (let prefix = r_DEX ref @ '':'' in
         if r_DEX ref = [] then Inl ''HIP-3 market reference requires a DEX''
         else if \<not> has_prefix (r_Symbol ref) prefix \<or> drop (length prefix) (r_Symbol ref) = []
         then Inl (''HIP-3 market symbol must use '' @ quote prefix @ '' namespace'')
         else Inr ())
      else Inl (''unsupported market kind: '' @ quote (r_Kind ref)))"

section \<open>What a resolver promises\<close>

text \<open>
  A successful market lookup answers exactly the reference it was given, and only for a reference
  that is well formed; a symbol lookup succeeds only when one asset has the symbol.
\<close>

locale market_resolver =
  fixes resolve_market :: "'r \<Rightarrow> MarketRef \<Rightarrow> Asset res"
    and resolve_symbol :: "'r \<Rightarrow> string \<Rightarrow> Asset res"
    and assets_of :: "'r \<Rightarrow> string \<Rightarrow> Asset list"
  assumes market_sound: "resolve_market r ref = Inr a \<Longrightarrow>
      validateMarketRef ref = Inr () \<and> a \<in> set (assets_of r (r_Symbol ref)) \<and>
      a_Kind a = r_Kind ref \<and> a_DEX a = r_DEX ref"
    and market_complete: "validateMarketRef ref = Inr () \<Longrightarrow>
      a \<in> set (assets_of r (r_Symbol ref)) \<Longrightarrow> a_Kind a = r_Kind ref \<Longrightarrow> a_DEX a = r_DEX ref \<Longrightarrow>
      is_ok (resolve_market r ref)"
    and symbol_unique: "resolve_symbol r s = Inr a \<longleftrightarrow> assets_of r s = [a]"
begin

lemma market_namespace:
  assumes "resolve_market r ref = Inr a" "resolve_market r ref' = Inr a"
    and "r_Symbol ref = r_Symbol ref'"
  shows "ref = ref'"
  using market_sound [OF assms(1)] market_sound [OF assms(2)] assms(3)
  by (intro MarketRef.equality) auto

lemma ambiguous_symbol_refused:
  "length (assets_of r s) \<noteq> 1 \<Longrightarrow> \<not> is_ok (resolve_symbol r s)"
  using symbol_unique by (auto simp: is_ok_iff)

end

section \<open>The static resolver\<close>

text \<open>A Go map of slices is a function that reads as the empty list where there is no entry.\<close>

record StaticResolver =
  sr_assets :: "string \<Rightarrow> Asset list"
  sr_byID :: "int \<Rightarrow> Asset list"

fun index_by :: "('a \<Rightarrow> 'k) \<Rightarrow> ('k \<Rightarrow> 'a list) \<Rightarrow> 'a list \<Rightarrow> ('k \<Rightarrow> 'a list)" where
  "index_by key m [] = m"
| "index_by key m (a # as) = index_by key (m (key a := m (key a) @ [a])) as"

definition NewStaticResolver :: "Asset list \<Rightarrow> StaticResolver" where
  "NewStaticResolver assets =
     \<lparr> sr_assets = index_by a_Symbol (\<lambda>_. []) assets, sr_byID = index_by a_ID (\<lambda>_. []) assets \<rparr>"

lemma index_by_filter: "index_by key m as k = m k @ filter (\<lambda>a. key a = k) as"
  by (induction as arbitrary: m) auto

definition Static_ResolveID :: "unit res \<Rightarrow> StaticResolver \<Rightarrow> int \<Rightarrow> Asset res" where
  "Static_ResolveID ctxErr r i =
     bind_res ctxErr (\<lambda>_.
     let assets = sr_byID r i in
     if assets = [] then Inl (''asset not found: '' @ show_int i)
     else if length assets \<noteq> 1 then Inl (''ambiguous asset ID: '' @ show_int i)
     else Inr (hd assets))"

definition Static_Resolve :: "unit res \<Rightarrow> StaticResolver \<Rightarrow> string \<Rightarrow> Asset res" where
  "Static_Resolve ctxErr r symbol =
     bind_res ctxErr (\<lambda>_.
     let assets = sr_assets r symbol in
     if assets = [] then Inl (''asset not found: '' @ symbol)
     else if length assets \<noteq> 1 then Inl (''ambiguous asset symbol: '' @ symbol)
     else Inr (hd assets))"

definition first_match :: "MarketRef \<Rightarrow> Asset list \<Rightarrow> Asset res" where
  "first_match ref as =
     (case find (\<lambda>a. a_Kind a = r_Kind ref \<and> a_DEX a = r_DEX ref) as of
        Some a \<Rightarrow> Inr a | None \<Rightarrow> Inl (''asset not found: '' @ r_Symbol ref))"

definition Static_ResolveMarket :: "unit res \<Rightarrow> StaticResolver \<Rightarrow> MarketRef \<Rightarrow> Asset res" where
  "Static_ResolveMarket ctxErr r ref =
     bind_res ctxErr (\<lambda>_. bind_res (validateMarketRef ref) (\<lambda>_.
     first_match ref (sr_assets r (r_Symbol ref))))"

lemma one_asset: "(if as = [] then Inl e else if length as \<noteq> 1 then Inl e' else Inr (hd as)) = Inr a
    \<longleftrightarrow> as = [a]"
  by (cases as) auto

lemma first_match_ok:
  "first_match ref as = Inr a \<Longrightarrow> a \<in> set as \<and> a_Kind a = r_Kind ref \<and> a_DEX a = r_DEX ref"
  by (auto simp: first_match_def find_Some_iff split: option.splits)

lemma first_match_some:
  "a \<in> set as \<Longrightarrow> a_Kind a = r_Kind ref \<Longrightarrow> a_DEX a = r_DEX ref \<Longrightarrow> is_ok (first_match ref as)"
  by (auto simp: first_match_def find_None_iff split: option.splits)

interpretation static: market_resolver "Static_ResolveMarket (Inr ())" "Static_Resolve (Inr ())"
  sr_assets
  by unfold_locales
    (auto simp: Static_ResolveMarket_def Static_Resolve_def Let_def one_asset
      dest: first_match_ok intro: first_match_some)

text \<open>
  The static resolver answers a symbol exactly when one and only one of
  its assets has it, an ID exactly when one and only one has it, and a market reference with an asset
  of that symbol, kind and DEX whenever the reference is well formed and there is one.
\<close>

theorem static_resolver_exact:
  "(Static_Resolve (Inr ()) (NewStaticResolver as) s = Inr a \<longleftrightarrow>
      filter (\<lambda>x. a_Symbol x = s) as = [a]) \<and>
   (Static_ResolveID (Inr ()) (NewStaticResolver as) i = Inr a \<longleftrightarrow>
      filter (\<lambda>x. a_ID x = i) as = [a]) \<and>
   (is_ok (Static_ResolveMarket (Inr ()) (NewStaticResolver as) ref) \<longleftrightarrow>
      validateMarketRef ref = Inr () \<and> (\<exists>x. x \<in> set as \<and> a_Symbol x = r_Symbol ref \<and>
        a_Kind x = r_Kind ref \<and> a_DEX x = r_DEX ref))"
proof (intro conjI)
  have sym: "sr_assets (NewStaticResolver as) t = filter (\<lambda>x. a_Symbol x = t) as" for t
    by (simp add: NewStaticResolver_def index_by_filter)
  show "Static_Resolve (Inr ()) (NewStaticResolver as) s = Inr a \<longleftrightarrow>
      filter (\<lambda>x. a_Symbol x = s) as = [a]"
    using static.symbol_unique [of "NewStaticResolver as" s a] by (simp add: sym)
  show "Static_ResolveID (Inr ()) (NewStaticResolver as) i = Inr a \<longleftrightarrow>
      filter (\<lambda>x. a_ID x = i) as = [a]"
    by (simp add: Static_ResolveID_def Let_def one_asset NewStaticResolver_def index_by_filter)
  show "is_ok (Static_ResolveMarket (Inr ()) (NewStaticResolver as) ref) \<longleftrightarrow>
      validateMarketRef ref = Inr () \<and> (\<exists>x. x \<in> set as \<and> a_Symbol x = r_Symbol ref \<and>
        a_Kind x = r_Kind ref \<and> a_DEX x = r_DEX ref)"
    using static.market_sound [of "NewStaticResolver as" ref]
      static.market_complete [of ref _ "NewStaticResolver as"]
    by (auto simp: is_ok_iff sym)
qed

section \<open>The cache\<close>

text \<open>
  Entries carry their expiry; the source's answer and the clock readings are arguments. A source
  without market references is \<open>None\<close>.
\<close>

type_synonym cache = "string \<Rightarrow> (Asset \<times> int) option"

definition symbolCacheKey :: "string \<Rightarrow> string" where
  "symbolCacheKey symbol = ''symbol:'' @ symbol"

definition marketCacheKey :: "MarketRef \<Rightarrow> string" where
  "marketCacheKey ref = ''market:'' @ r_Kind ref @ '':'' @ r_DEX ref @ '':'' @ r_Symbol ref"

definition NewCachedResolver :: "(string \<Rightarrow> Asset res) option \<Rightarrow> int \<Rightarrow>
    ((string \<Rightarrow> Asset res) \<times> int \<times> cache) res" where
  "NewCachedResolver source ttl =
     (case source of
        None \<Rightarrow> Inl ''nil resolver''
      | Some src \<Rightarrow> if ttl \<le> 0 then Inl ''invalid cache TTL'' else Inr (src, ttl, \<lambda>_. None))"

text \<open>\<^verbatim>\<open>ResolveID\<close> passes the call on to a source that has it; its answers are not cached.\<close>

definition Cached_ResolveID :: "(int \<Rightarrow> Asset res) option \<Rightarrow> int \<Rightarrow> Asset res" where
  "Cached_ResolveID source i =
     (case source of None \<Rightarrow> Inl ''source does not support asset IDs'' | Some src \<Rightarrow> src i)"

definition Cached_Resolve ::
    "unit res \<Rightarrow> (string \<Rightarrow> Asset res) \<Rightarrow> int \<Rightarrow> int \<Rightarrow> int \<Rightarrow> cache \<Rightarrow> string \<Rightarrow> Asset res \<times> cache" where
  "Cached_Resolve ctxErr source ttl now now' entries symbol =
     (case ctxErr of Inl e \<Rightarrow> (Inl e, entries) | Inr _ \<Rightarrow>
      let key = symbolCacheKey symbol;
          fetch = (case source symbol of Inl e \<Rightarrow> (Inl e, entries)
            | Inr a \<Rightarrow> (Inr a, entries(key \<mapsto> (a, now' + ttl))))
      in case entries key of
           Some (a, expires) \<Rightarrow> if now < expires then (Inr a, entries) else fetch
         | None \<Rightarrow> fetch)"

definition Cached_ResolveMarket ::
    "unit res \<Rightarrow> (MarketRef \<Rightarrow> Asset res) option \<Rightarrow> int \<Rightarrow> int \<Rightarrow> int \<Rightarrow> cache \<Rightarrow> MarketRef
     \<Rightarrow> Asset res \<times> cache" where
  "Cached_ResolveMarket ctxErr source ttl now now' entries ref =
     (case bind_res ctxErr (\<lambda>_. validateMarketRef ref) of Inl e \<Rightarrow> (Inl e, entries) | Inr _ \<Rightarrow>
      (case source of None \<Rightarrow> (Inl ''source does not support market references'', entries)
       | Some src \<Rightarrow>
        let key = marketCacheKey ref;
            fetch = (case src ref of Inl e \<Rightarrow> (Inl e, entries)
              | Inr a \<Rightarrow> (Inr a, entries(key \<mapsto> (a, now' + ttl))))
        in case entries key of
             Some (a, expires) \<Rightarrow> if now < expires then (Inr a, entries) else fetch
           | None \<Rightarrow> fetch))"

definition Cached_Refresh ::
    "(string \<Rightarrow> Asset res) \<Rightarrow> int \<Rightarrow> int \<Rightarrow> cache \<Rightarrow> string \<Rightarrow> Asset res \<times> cache" where
  "Cached_Refresh source ttl now entries symbol =
     (case source symbol of Inl e \<Rightarrow> (Inl e, entries)
      | Inr a \<Rightarrow> (Inr a, entries(symbolCacheKey symbol \<mapsto> (a, now + ttl))))"

definition Cached_RefreshMarket ::
    "unit res \<Rightarrow> (MarketRef \<Rightarrow> Asset res) option \<Rightarrow> int \<Rightarrow> int \<Rightarrow> cache \<Rightarrow> MarketRef
     \<Rightarrow> Asset res \<times> cache" where
  "Cached_RefreshMarket ctxErr source ttl now entries ref =
     (case bind_res ctxErr (\<lambda>_. validateMarketRef ref) of Inl e \<Rightarrow> (Inl e, entries) | Inr _ \<Rightarrow>
      (case source of None \<Rightarrow> (Inl ''source does not support market references'', entries)
       | Some src \<Rightarrow> (case src ref of Inl e \<Rightarrow> (Inl e, entries)
           | Inr a \<Rightarrow> (Inr a, entries(marketCacheKey ref \<mapsto> (a, now + ttl))))))"

text \<open>
  What the source has answered so far: the key, the answer and the clock reading at which it was
  stored. A cache is honest when each entry is such an answer and expires one TTL later.
\<close>

definition honest :: "int \<Rightarrow> (string \<times> Asset \<times> int) set \<Rightarrow> cache \<Rightarrow> bool" where
  "honest ttl hist entries \<longleftrightarrow>
     (\<forall>k a e. entries k = Some (a, e) \<longrightarrow> (\<exists>t. (k, a, t) \<in> hist \<and> e = t + ttl))"

lemma honest_update:
  "honest ttl hist c \<Longrightarrow> honest ttl (insert (k, a, t) hist) (c(k \<mapsto> (a, t + ttl)))"
  by (auto simp: honest_def)

lemma honest_mono: "honest ttl hist c \<Longrightarrow> hist \<subseteq> hist' \<Longrightarrow> honest ttl hist' c"
  by (force simp: honest_def)

text \<open>
  What the cached resolver answers is either the source's current
  answer or one the source gave for the same key less than one TTL ago, and the cache stays honest.
\<close>

theorem cache_bounded_staleness:
  assumes "honest ttl hist c"
    and "Cached_Resolve ctx source ttl now now' c s = (Inr a, c')"
  shows "(source s = Inr a \<and> honest ttl (insert (symbolCacheKey s, a, now') hist) c') \<or>
    (c' = c \<and> (\<exists>t. (symbolCacheKey s, a, t) \<in> hist \<and> now - t < ttl))"
proof -
  obtain u where ctx: "ctx = Inr u" using assms(2) by (cases ctx) (auto simp: Cached_Resolve_def)
  show ?thesis
  proof (cases "\<exists>b e. c (symbolCacheKey s) = Some (b, e) \<and> now < e")
    case True
    then obtain b e where e: "c (symbolCacheKey s) = Some (b, e)" "now < e" by blast
    then have "b = a" "c' = c" using assms(2) ctx by (auto simp: Cached_Resolve_def Let_def)
    then show ?thesis using assms(1) e by (force simp: honest_def)
  next
    case False
    then have "(case source s of Inl e \<Rightarrow> (Inl e, c)
        | Inr x \<Rightarrow> (Inr x, c(symbolCacheKey s \<mapsto> (x, now' + ttl)))) = (Inr a, c')"
      using assms(2) ctx by (auto simp: Cached_Resolve_def Let_def split: option.splits)
    then show ?thesis
      using honest_update [OF assms(1), of "symbolCacheKey s" a now']
      by (auto split: sum.splits)
  qed
qed

definition sample_asset :: Asset where
  "sample_asset = \<lparr> a_ID = 3, a_Symbol = ''BTC'', a_Name = ''BTC'', a_Kind = Perp,
     a_SzDecimals = 5, a_DEX = [] \<rparr>"

theorem cache_bounded_staleness_witness:
  "\<exists>c'. Cached_Resolve (Inr ()) (\<lambda>_. Inr sample_asset) 300 7 8 (\<lambda>_. None) ''BTC'' =
     (Inr sample_asset, c') \<and>
   honest 300 {(symbolCacheKey ''BTC'', sample_asset, 8)} c'"
proof -
  have "honest 300 {} (\<lambda>_. None)" by (simp add: honest_def)
  moreover obtain c' where
    c': "Cached_Resolve (Inr ()) (\<lambda>_. Inr sample_asset) 300 7 8 (\<lambda>_. None) ''BTC'' =
      (Inr sample_asset, c')"
    by (simp add: Cached_Resolve_def)
  ultimately show ?thesis using cache_bounded_staleness [of 300 "{}" "\<lambda>_. None"] by blast
qed

text \<open>
  Symbol and market keys never meet. Two valid references without a colon in their DEX share a key
  only if they are equal; with a colon in a DEX name they can collide.
\<close>

lemma cache_keys_apart: "symbolCacheKey s \<noteq> marketCacheKey ref"
  by (simp add: symbolCacheKey_def marketCacheKey_def)

lemma split_at_colon:
  assumes "CHR '':'' \<notin> set xs" "CHR '':'' \<notin> set ys" "xs @ CHR '':'' # u = ys @ CHR '':'' # v"
  shows "xs = ys \<and> u = v"
  using assms
proof (induction xs arbitrary: ys)
  case Nil
  then show ?case by (cases ys) auto
next
  case (Cons x xs)
  then show ?case by (cases ys) auto
qed

lemma valid_kind: "validateMarketRef ref = Inr () \<Longrightarrow> CHR '':'' \<notin> set (r_Kind ref)"
  by (auto simp: validateMarketRef_def kind_defs split: if_splits)

text \<open>
  Among well-formed references whose DEX name has no colon, the
  cache key determines the reference.
\<close>

theorem market_cache_key_injective:
  assumes "validateMarketRef r = Inr ()" "validateMarketRef r' = Inr ()"
    and "CHR '':'' \<notin> set (r_DEX r)" "CHR '':'' \<notin> set (r_DEX r')"
    and "marketCacheKey r = marketCacheKey r'"
  shows "r = r'"
proof -
  have "r_Kind r @ CHR '':'' # (r_DEX r @ CHR '':'' # r_Symbol r) =
      r_Kind r' @ CHR '':'' # (r_DEX r' @ CHR '':'' # r_Symbol r')"
    using assms(5) by (simp add: marketCacheKey_def)
  then have "r_Kind r = r_Kind r'"
    and rest: "r_DEX r @ CHR '':'' # r_Symbol r = r_DEX r' @ CHR '':'' # r_Symbol r'"
    using split_at_colon assms(1,2) [THEN valid_kind] by blast+
  moreover have "r_DEX r = r_DEX r' \<and> r_Symbol r = r_Symbol r'"
    using split_at_colon [OF assms(3,4) rest] .
  ultimately show ?thesis by (intro MarketRef.equality) simp_all
qed

theorem market_cache_key_injective_witness:
  "\<exists>r. validateMarketRef r = Inr () \<and> r = \<lparr> r_Symbol = ''xyz:GOLD'', r_Kind = HIP3, r_DEX = ''xyz'' \<rparr>"
proof -
  let ?r = "\<lparr> r_Symbol = ''xyz:GOLD'', r_Kind = HIP3, r_DEX = ''xyz'' \<rparr>"
  have ok: "validateMarketRef ?r = Inr ()" by (simp add: validateMarketRef_def kind_defs Let_def)
  have "?r = ?r" by (rule market_cache_key_injective [OF ok ok]) simp_all
  then show ?thesis using ok by blast
qed

text \<open>
  Without the restriction on DEX names the key is not injective:
  two well-formed references in different DEX namespaces share a cache entry.
\<close>

theorem market_cache_key_collision:
  "\<exists>r r'. validateMarketRef r = Inr () \<and> validateMarketRef r' = Inr () \<and>
     r_DEX r \<noteq> r_DEX r' \<and> marketCacheKey r = marketCacheKey r'"
proof (intro exI conjI)
  let ?r = "\<lparr> r_Symbol = ''a:a:a:x'', r_Kind = HIP3, r_DEX = ''a'' \<rparr>"
  let ?r' = "\<lparr> r_Symbol = ''a:a:x'', r_Kind = HIP3, r_DEX = ''a:a'' \<rparr>"
  show "validateMarketRef ?r = Inr ()" by (simp add: validateMarketRef_def kind_defs Let_def)
  show "validateMarketRef ?r' = Inr ()" by (simp add: validateMarketRef_def kind_defs Let_def)
  show "r_DEX ?r \<noteq> r_DEX ?r'" by simp
  show "marketCacheKey ?r = marketCacheKey ?r'" by (simp add: marketCacheKey_def)
qed

section \<open>Metadata snapshots\<close>

text \<open>The metadata that the info client returns.\<close>

record SpotToken =
  tk_Name :: string
  tk_SzDecimals :: int
  tk_Index :: int

record SpotPair =
  sp2_Name :: string
  sp2_Base :: int
  sp2_Quote :: int
  sp2_Index :: int

record OutcomeInfo =
  oc_Outcome :: int
  oc_SideSpecs :: nat

record metaSnapshot =
  ms_assets :: "Asset list"
  ms_bySymbol :: "string \<Rightarrow> Asset list"
  ms_byID :: "int \<Rightarrow> Asset list"

definition indexAssets :: "Asset list \<Rightarrow> metaSnapshot" where
  "indexAssets assets =
     \<lparr> ms_assets = assets, ms_bySymbol = index_by a_Symbol (\<lambda>_. []) assets,
       ms_byID = index_by a_ID (\<lambda>_. []) assets \<rparr>"

fun appendPerps :: "nat \<Rightarrow> (string \<times> int) list \<Rightarrow> string \<Rightarrow> int \<Rightarrow> MarketKind \<Rightarrow> Asset list" where
  "appendPerps index [] dex offset kind = []"
| "appendPerps index ((name, sz) # items) dex offset kind =
     \<lparr> a_ID = offset + int index, a_Symbol = name, a_Name = name, a_Kind = kind,
       a_SzDecimals = sz, a_DEX = dex \<rparr> # appendPerps (Suc index) items dex offset kind"

fun appendOutcomes :: "OutcomeInfo list \<Rightarrow> Asset list" where
  "appendOutcomes [] = []"
| "appendOutcomes (oc # ocs) =
     (if oc_Outcome oc < 0 \<or> oc_SideSpecs oc \<noteq> 2 then appendOutcomes ocs
      else map (\<lambda>side. let encoding = oc_Outcome oc * 10 + side in
          \<lparr> a_ID = 100000000 + encoding, a_Symbol = ''#'' @ show_int encoding,
            a_Name = ''+'' @ show_int encoding, a_Kind = Outcome, a_SzDecimals = 0, a_DEX = [] \<rparr>)
        [0, 1] @ appendOutcomes ocs)"

text \<open>
  The spot loop: the token map keeps the last token of an index; the aliases are collected per
  human-readable name. The result is the pair assets and the alias entries in order.
\<close>

definition token_map :: "SpotToken list \<Rightarrow> int \<Rightarrow> SpotToken option" where
  "token_map tokens = map_of (rev (map (\<lambda>t. (tk_Index t, t)) tokens))"

fun spot_loop :: "(int \<Rightarrow> SpotToken option) \<Rightarrow> SpotPair list \<Rightarrow> (Asset \<times> string) list res" where
  "spot_loop tokens [] = Inr []"
| "spot_loop tokens (p # ps) =
     (case tokens (sp2_Base p) of
        None \<Rightarrow> Inl (''spot pair '' @ quote (sp2_Name p) @ '' has unknown base token index '' @
          show_int (sp2_Base p))
      | Some base \<Rightarrow> (case tokens (sp2_Quote p) of
        None \<Rightarrow> Inl (''spot pair '' @ quote (sp2_Name p) @ '' has unknown quote token index '' @
          show_int (sp2_Quote p))
      | Some quote_tok \<Rightarrow> bind_res (spot_loop tokens ps) (\<lambda>r. Inr
          ((\<lparr> a_ID = 10000 + sp2_Index p, a_Symbol = sp2_Name p, a_Name = sp2_Name p, a_Kind = Spot,
              a_SzDecimals = tk_SzDecimals base, a_DEX = [] \<rparr>,
            tk_Name base @ ''/'' @ tk_Name quote_tok) # r))))"

definition fetchBase ::
    "((string \<times> int) list) res \<Rightarrow> (SpotToken list \<times> SpotPair list) res \<Rightarrow> metaSnapshot res" where
  "fetchBase meta spotMeta =
     bind_res (wrap_res ''load perpetual metadata'' meta) (\<lambda>universe.
     bind_res (wrap_res ''load spot metadata'' spotMeta) (\<lambda>(tokens, pairs).
     bind_res (spot_loop (token_map tokens) pairs) (\<lambda>spots.
     let s = indexAssets (appendPerps 0 universe [] 0 Perp @ map fst spots);
         aliases = filter (\<lambda>(a, al). al \<noteq> a_Name a) spots
     in Inr (s \<lparr> ms_bySymbol := (\<lambda>sym. ms_bySymbol s sym @
          map fst (filter (\<lambda>(a, al). al = sym) aliases)) \<rparr>))))"

text \<open>One entry of the DEX list: a null or unnamed one is skipped but keeps its position.\<close>

fun hip3_loop ::
    "(string \<Rightarrow> ((string \<times> int) list) res) \<Rightarrow> nat \<Rightarrow> string option list \<Rightarrow> Asset list res" where
  "hip3_loop metaForDEX index [] = Inr []"
| "hip3_loop metaForDEX index (d # ds) =
     (if d = None \<or> d = Some [] then hip3_loop metaForDEX (Suc index) ds
      else bind_res (wrap_res (''load HIP-3 metadata for '' @ quote (the d)) (metaForDEX (the d)))
        (\<lambda>universe. bind_res (hip3_loop metaForDEX (Suc index) ds) (\<lambda>rest.
          Inr (appendPerps 0 universe (the d) (100000 + int index * 10000) HIP3 @ rest))))"

definition fetchHIP3 ::
    "(string option list) res \<Rightarrow> (string \<Rightarrow> ((string \<times> int) list) res) \<Rightarrow> metaSnapshot res" where
  "fetchHIP3 perpDEXs metaForDEX =
     bind_res (wrap_res ''load perpetual DEX metadata'' perpDEXs) (\<lambda>dexes.
     bind_res (hip3_loop metaForDEX 0 dexes) (\<lambda>assets. Inr (indexAssets assets)))"

definition fetchOutcomes :: "(OutcomeInfo list) res \<Rightarrow> metaSnapshot res" where
  "fetchOutcomes meta =
     bind_res (wrap_res ''load outcome metadata'' meta) (\<lambda>ocs.
     Inr (indexAssets (appendOutcomes ocs)))"

definition resolveSymbol :: "metaSnapshot \<Rightarrow> string \<Rightarrow> Asset res" where
  "resolveSymbol s symbol =
     (let assets = ms_bySymbol s symbol in
      if assets = [] then Inl (''asset not found: '' @ symbol)
      else if length assets \<noteq> 1 then Inl (''ambiguous asset symbol: '' @ symbol)
      else Inr (hd assets))"

definition resolveID :: "metaSnapshot \<Rightarrow> int \<Rightarrow> Asset res" where
  "resolveID s i =
     (let assets = ms_byID s i in
      if assets = [] then Inl (''asset not found: '' @ show_int i)
      else if length assets \<noteq> 1 then Inl (''ambiguous asset ID: '' @ show_int i)
      else Inr (hd assets))"

text \<open>The lookup of a market reference in the snapshot of its namespace.\<close>

definition snapshot_market :: "metaSnapshot \<Rightarrow> MarketRef \<Rightarrow> Asset res" where
  "snapshot_market s ref =
     bind_res (validateMarketRef ref) (\<lambda>_. first_match ref (ms_bySymbol s (r_Symbol ref)))"

interpretation snap: market_resolver snapshot_market resolveSymbol ms_bySymbol
  by unfold_locales
    (auto simp: snapshot_market_def resolveSymbol_def Let_def one_asset
      dest: first_match_ok intro: first_match_some)

lemma ms_byID_filter: "ms_byID (indexAssets as) i = filter (\<lambda>a. a_ID a = i) as"
  by (simp add: indexAssets_def index_by_filter)

lemma filter_unique_key:
  "distinct (map key as) \<Longrightarrow> a \<in> set as \<Longrightarrow> filter (\<lambda>x. key x = key a) as = [a]"
proof (induction as)
  case (Cons x xs)
  then show ?case
    by (cases "x = a") (auto simp: filter_empty_conv image_iff)
qed simp

lemma resolveID_unique:
  "distinct (map a_ID as) \<Longrightarrow> a \<in> set as \<Longrightarrow> resolveID (indexAssets as) (a_ID a) = Inr a"
  by (simp add: resolveID_def Let_def ms_byID_filter filter_unique_key)

lemma appendPerps_ids:
  "map a_ID (appendPerps index items dex offset kind) =
     map (\<lambda>i. offset + int i) [index..<index + length items]"
proof (induction index items dex offset kind rule: appendPerps.induct)
  case (2 index name sz items dex offset kind)
  have "[index..<index + length ((name, sz) # items)] = index # [Suc index..<Suc index + length items]"
    by (subst upt_conv_Cons) (simp_all del: upt_Suc)
  with 2 show ?case by (simp del: upt_Suc)
qed simp

lemma hip3_ids:
  "hip3_loop f index ds = Inr as \<Longrightarrow> (\<forall>d u. f d = Inr u \<longrightarrow> length u \<le> 10000) \<Longrightarrow>
   distinct (map a_ID as) \<and>
   (\<forall>a \<in> set as. 100000 + int index * 10000 \<le> a_ID a \<and>
     a_ID a < 100000 + int (index + length ds) * 10000)"
proof (induction f index ds arbitrary: as rule: hip3_loop.induct)
  case (2 f index d ds)
  show ?case
  proof (cases "d = None \<or> d = Some []")
    case True
    then show ?thesis using 2(1) [of as] 2(3,4) by force
  next
    case False
    then obtain u rest where u: "f (the d) = Inr u" and r: "hip3_loop f (Suc index) ds = Inr rest"
        and as: "as = appendPerps 0 u (the d) (100000 + int index * 10000) HIP3 @ rest"
      using 2(3) unfolding hip3_loop.simps if_not_P [OF False] by auto
    have IH: "distinct (map a_ID rest)"
        "\<forall>a \<in> set rest. 100000 + int (Suc index) * 10000 \<le> a_ID a \<and>
          a_ID a < 100000 + int (Suc index + length ds) * 10000"
      using 2(2) [OF False r 2(4)] by blast+
    have new: "map a_ID (appendPerps 0 u (the d) (100000 + int index * 10000) HIP3) =
        map (\<lambda>i. 100000 + int index * 10000 + int i) [0..<length u]"
      by (simp add: appendPerps_ids)
    have len: "length u \<le> 10000" using 2(4) u by blast
    have range: "100000 + int index * 10000 \<le> x \<and> x < 100000 + int (Suc index) * 10000"
      if "x \<in> a_ID ` set (appendPerps 0 u (the d) (100000 + int index * 10000) HIP3)" for x
    proof -
      have "x \<in> set (map (\<lambda>i. 100000 + int index * 10000 + int i) [0..<length u])"
        using that unfolding new [symmetric] by simp
      then show ?thesis using len by auto
    qed
    have "distinct (map a_ID (appendPerps 0 u (the d) (100000 + int index * 10000) HIP3))"
      unfolding new by (simp add: distinct_map inj_on_def)
    then show ?thesis
      using IH range unfolding as by (fastforce simp: image_iff)
  qed
qed simp

text \<open>
  As long as no DEX lists more than 10,000 markets, the IDs computed for
  the HIP-3 markets of all DEXs are distinct and at least 100,000, so that every market listed is
  found again by its own ID.
\<close>

theorem hip3_ids_unambiguous:
  assumes "hip3_loop metaForDEX 0 dexes = Inr as"
    and "\<forall>d u. metaForDEX d = Inr u \<longrightarrow> length u \<le> 10000" and "a \<in> set as"
  shows "resolveID (indexAssets as) (a_ID a) = Inr a \<and> 100000 \<le> a_ID a"
  using hip3_ids [OF assms(1,2)] assms(3) by (force intro: resolveID_unique)

theorem hip3_ids_unambiguous_witness:
  "\<exists>as. hip3_loop (\<lambda>d. Inr [(d @ '':A'', 2), (d @ '':B'', 3)]) 0 [None, Some ''x'', Some ''y''] = Inr as \<and>
     resolveID (indexAssets as) 120001 =
       Inr \<lparr> a_ID = 120001, a_Symbol = ''y:B'', a_Name = ''y:B'', a_Kind = HIP3,
         a_SzDecimals = 3, a_DEX = ''y'' \<rparr>"
proof -
  let ?a = "\<lparr> a_ID = 120001, a_Symbol = ''y:B'', a_Name = ''y:B'', a_Kind = HIP3,
         a_SzDecimals = 3, a_DEX = ''y'' \<rparr>"
  obtain as where as:
      "hip3_loop (\<lambda>d. Inr [(d @ '':A'', 2), (d @ '':B'', 3)]) 0 [None, Some ''x'', Some ''y''] = Inr as"
      "?a \<in> set as"
    by simp
  show ?thesis using hip3_ids_unambiguous [OF as(1) _ as(2)] as(1) by auto
qed

text \<open>Outcome markets: the symbol of each is one that its own market reference accepts.\<close>

lemma show_nat_digits: "list_all is_dec (show_nat n) \<and> show_nat n \<noteq> []"
proof (induction n rule: show_nat.induct)
  case (1 n)
  show ?case
  proof (cases "n < 10")
    case True
    then show ?thesis by (simp add: show_nat.simps [of n] is_dec_def)
  next
    case False
    then show ?thesis using 1 by (simp add: show_nat.simps [of n] is_dec_def)
  qed
qed

text \<open>
  Every outcome market of the metadata (below the 64-bit limit) is found
  under its own symbol in the outcome namespace.
\<close>

theorem outcome_market_found:
  assumes "a \<in> set (appendOutcomes ocs)" "\<forall>oc \<in> set ocs. oc_Outcome oc < 10 ^ 18"
  shows "is_ok (snapshot_market (indexAssets (appendOutcomes ocs))
    \<lparr> r_Symbol = a_Symbol a, r_Kind = Outcome, r_DEX = [] \<rparr>)"
proof -
  have shape: "\<exists>n side. a_Symbol a = ''#'' @ show_nat (n * 10 + side) \<and> side < 2 \<and> n < 10 ^ 18 \<and>
      a_Kind a = Outcome \<and> a_DEX a = []"
    using assms
  proof (induction ocs rule: appendOutcomes.induct)
    case (2 oc ocs)
    show ?case
    proof (cases "oc_Outcome oc < 0 \<or> oc_SideSpecs oc \<noteq> 2 \<or> a \<in> set (appendOutcomes ocs)")
      case True
      then show ?thesis using 2 by auto
    next
      case False
      then obtain n where n: "oc_Outcome oc = int n" by (metis not_less nonneg_int_cases)
      have sym: "show_int (int n * 10) = show_nat (n * 10 + 0)"
          "show_int (int n * 10 + 1) = show_nat (n * 10 + 1)"
        by (simp_all add: show_int_def nat_add_distrib nat_mult_distrib)
      have "n < 10 ^ 18" using 2(4) n by simp
      then show ?thesis
        using 2(3) False n sym by (auto simp: Let_def intro: exI [of _ n])
    qed
  qed simp
  then obtain n side where s: "a_Symbol a = ''#'' @ show_nat (n * 10 + side)" "side < 2"
      "n < 10 ^ 18" "a_Kind a = Outcome" "a_DEX a = []" by blast
  let ?ref = "\<lparr> r_Symbol = a_Symbol a, r_Kind = Outcome, r_DEX = [] \<rparr>"
  have "n * 10 + side < 2 ^ 64" "(n * 10 + side) mod 10 \<le> 1" using s(2,3) by simp_all
  then have "validateMarketRef ?ref = Inr ()"
    using s show_nat_digits [of "n * 10 + side"]
    by (simp add: validateMarketRef_def kind_defs Let_def ParseUint_def)
  moreover have "a \<in> set (ms_bySymbol (indexAssets (appendOutcomes ocs)) (a_Symbol a))"
    using assms(1) by (simp add: indexAssets_def index_by_filter)
  ultimately show ?thesis
    using s by (intro snap.market_complete [of _ a]) simp_all
qed

theorem outcome_market_found_witness:
  "is_ok (snapshot_market (indexAssets (appendOutcomes [\<lparr> oc_Outcome = 12, oc_SideSpecs = 2 \<rparr>]))
    \<lparr> r_Symbol = ''#121'', r_Kind = Outcome, r_DEX = [] \<rparr>)"
proof -
  let ?a = "\<lparr> a_ID = 100000121, a_Symbol = ''#121'', a_Name = ''+121'', a_Kind = Outcome,
    a_SzDecimals = 0, a_DEX = [] \<rparr>"
  have "?a \<in> set (appendOutcomes [\<lparr> oc_Outcome = 12, oc_SideSpecs = 2 \<rparr>])"
    by (simp add: show_int_def show_nat.simps) code_simp
  then have "is_ok (snapshot_market (indexAssets (appendOutcomes [\<lparr> oc_Outcome = 12, oc_SideSpecs = 2 \<rparr>]))
      \<lparr> r_Symbol = a_Symbol ?a, r_Kind = Outcome, r_DEX = [] \<rparr>)"
    by (rule outcome_market_found) simp
  then show ?thesis by (simp only: Asset.simps)
qed

section \<open>Client order identifiers\<close>

text \<open>\<^verbatim>\<open>types/common.go\<close>: 16 bytes, written as \<^verbatim>\<open>0x\<close> and 32 digits.\<close>

definition ParseCloid :: "string \<Rightarrow> (byte list) res" where
  "ParseCloid raw =
     (if length raw \<noteq> 34 \<or> take 2 raw \<noteq> ''0x'' then Inl ''invalid cloid''
      else case hex_decode (drop 2 raw) of None \<Rightarrow> Inl ''invalid cloid'' | Some bs \<Rightarrow> Inr bs)"

definition Cloid_String :: "byte list \<Rightarrow> string" where
  "Cloid_String c = ''0x'' @ hex_encode c"

text \<open>
  Parsing the text of a 16-byte identifier gives it back, and whatever parses
  has 16 bytes.
\<close>

lemma hex_decode_length: "hex_decode s = Some bs \<Longrightarrow> length s = 2 * length bs"
  by (induction s arbitrary: bs rule: hex_decode.induct) (auto split: option.splits)

theorem cloid_roundtrip:
  "(length c = 16 \<longrightarrow> ParseCloid (Cloid_String c) = Inr c) \<and>
   (ParseCloid s = Inr d \<longrightarrow> length d = 16 \<and> take 2 s = ''0x'')"
  by (auto simp: ParseCloid_def Cloid_String_def dest: hex_decode_length split: if_splits option.splits)

theorem cloid_roundtrip_witness:
  "ParseCloid (Cloid_String (replicate 16 0xab)) = Inr (replicate 16 0xab)"
  using cloid_roundtrip [of "replicate 16 0xab" "[]" "[]"] by simp

end
