(* ===== verification/Decimals.thy ===== *)
theory Decimals
  imports Externals
begin

text \<open>
  The decimal numbers of \<^verbatim>\<open>github.com/shopspring/decimal\<close>, which the exchange client takes from its
  callers. The package is not part of the repository: its functions are the fields of a record, what
  its documentation says of them is the predicate \<open>decimal_laws\<close>, relative to the rational number
  that a decimal denotes. The second section has a concrete implementation on which witnesses
  evaluate, the third the micro-unit conversions of the client.
\<close>

section \<open>The interface\<close>

record 'd dec =
  IsPositive :: "'d \<Rightarrow> bool"
  IsNegative :: "'d \<Rightarrow> bool"
  IsZero :: "'d \<Rightarrow> bool"
  Truncate :: "'d \<Rightarrow> int \<Rightarrow> 'd"
  Equal :: "'d \<Rightarrow> 'd \<Rightarrow> bool"
  GreaterThanOrEqual :: "'d \<Rightarrow> 'd \<Rightarrow> bool"
  LessThanOrEqual :: "'d \<Rightarrow> 'd \<Rightarrow> bool"
  Mul :: "'d \<Rightarrow> 'd \<Rightarrow> 'd"
  New :: "int \<Rightarrow> int \<Rightarrow> 'd"
  NewFromInt :: "int \<Rightarrow> 'd"
  IntPart :: "'d \<Rightarrow> i64"
  dec_String :: "'d \<Rightarrow> string"

text \<open>Truncation drops digits, towards zero.\<close>

definition rat_trunc :: "rat \<Rightarrow> int" where
  "rat_trunc q = (if q < 0 then \<lceil>q\<rceil> else \<lfloor>q\<rfloor>)"

definition decimal_laws :: "'d dec \<Rightarrow> ('d \<Rightarrow> rat) \<Rightarrow> bool" where
  "decimal_laws D val \<longleftrightarrow>
     (\<forall>d. IsPositive D d \<longleftrightarrow> 0 < val d) \<and>
     (\<forall>d. IsNegative D d \<longleftrightarrow> val d < 0) \<and>
     (\<forall>d. IsZero D d \<longleftrightarrow> val d = 0) \<and>
     (\<forall>d n. 0 \<le> n \<longrightarrow> val (Truncate D d n) = of_int (rat_trunc (val d * 10 ^ nat n)) / 10 ^ nat n) \<and>
     (\<forall>c d. Equal D c d \<longleftrightarrow> val c = val d) \<and>
     (\<forall>c d. GreaterThanOrEqual D c d \<longleftrightarrow> val d \<le> val c) \<and>
     (\<forall>c d. LessThanOrEqual D c d \<longleftrightarrow> val c \<le> val d) \<and>
     (\<forall>c d. val (Mul D c d) = val c * val d) \<and>
     (\<forall>c n. 0 \<le> n \<longrightarrow> val (New D c n) = of_int c * 10 ^ nat n) \<and>
     (\<forall>c. val (NewFromInt D c) = of_int c) \<and>
     (\<forall>d i. val d = of_int i \<longrightarrow> in_i64 i \<longrightarrow> IntPart D d = word_of_int i) \<and>
     (\<forall>d. parse_decimal (dec_String D d) = Some (val d))"

text \<open>\<^verbatim>\<open>validation.Positive\<close>\<close>

definition Positive :: "'d dec \<Rightarrow> string \<Rightarrow> 'd \<Rightarrow> unit res" where
  "Positive D field value =
     (if \<not> IsPositive D value then Inl (field @ '' must be positive'') else Inr ())"

lemma Positive_ok: "decimal_laws D val \<Longrightarrow> Positive D field d = Inr () \<longleftrightarrow> 0 < val d"
  by (simp add: Positive_def decimal_laws_def)

lemma rat_trunc_int [simp]: "rat_trunc (of_int i) = i"
  by (simp add: rat_trunc_def)

lemma trunc_eq_iff:
  "of_int (rat_trunc (q * 10 ^ n)) / 10 ^ n = q \<longleftrightarrow> (\<exists>i. q * 10 ^ n = of_int i)"
proof
  assume "of_int (rat_trunc (q * 10 ^ n)) / 10 ^ n = q"
  then have "of_int (rat_trunc (q * 10 ^ n)) = q * 10 ^ n" by (simp add: field_simps)
  then show "\<exists>i. q * 10 ^ n = of_int i" by metis
next
  assume "\<exists>i. q * 10 ^ n = of_int i"
  then obtain i where i: "q * 10 ^ n = of_int i" by blast
  then show "of_int (rat_trunc (q * 10 ^ n)) / 10 ^ n = q"
    by (simp add: i) (simp add: i [symmetric])
qed

lemma Truncate_exact:
  assumes "decimal_laws D val" "0 \<le> n"
  shows "Equal D (Truncate D d n) d \<longleftrightarrow> (\<exists>i. val d * 10 ^ nat n = of_int i)"
    and "Equal D d (Truncate D d n) \<longleftrightarrow> (\<exists>i. val d * 10 ^ nat n = of_int i)"
proof -
  have "val (Truncate D d n) = of_int (rat_trunc (val d * 10 ^ nat n)) / 10 ^ nat n"
    using assms unfolding decimal_laws_def by blast
  moreover have "Equal D c e \<longleftrightarrow> val c = val e" for c e
    using assms(1) unfolding decimal_laws_def by blast
  ultimately show "Equal D (Truncate D d n) d \<longleftrightarrow> (\<exists>i. val d * 10 ^ nat n = of_int i)"
    "Equal D d (Truncate D d n) \<longleftrightarrow> (\<exists>i. val d * 10 ^ nat n = of_int i)"
    by (simp_all add: trunc_eq_iff) (metis trunc_eq_iff)
qed

section \<open>Decimal text\<close>

lemma is_digit_val: "is_digit c \<Longrightarrow> digit_val c \<le> 9"
  unfolding is_digit_def digit_val_def by linarith

lemma read_nat_append: "read_nat (xs @ ys) = read_nat xs * 10 ^ length ys + read_nat ys"
proof -
  have "foldl (\<lambda>a c. a * 10 + digit_val c) x s = x * 10 ^ length s + read_nat s" for x s
    unfolding read_nat_def
  proof (induction s arbitrary: x)
    case (Cons c s)
    have "foldl (\<lambda>a c. a * 10 + digit_val c) x (c # s) =
        (x * 10 + digit_val c) * 10 ^ length s + foldl (\<lambda>a c. a * 10 + digit_val c) 0 s"
      unfolding foldl.simps by (rule Cons.IH)
    moreover have "foldl (\<lambda>a c. a * 10 + digit_val c) 0 (c # s) =
        (0 * 10 + digit_val c) * 10 ^ length s + foldl (\<lambda>a c. a * 10 + digit_val c) 0 s"
      unfolding foldl.simps by (rule Cons.IH)
    ultimately show ?case by (simp add: algebra_simps del: foldl.simps)
  qed simp
  from this [of "read_nat xs" ys] show ?thesis by (simp add: read_nat_def)
qed

lemma read_nat_single [simp]: "read_nat [c] = digit_val c" "read_nat [] = 0"
  by (simp_all add: read_nat_def)

lemma read_nat_bound: "list_all is_digit s \<Longrightarrow> read_nat s < 10 ^ length s"
proof (induction s rule: rev_induct)
  case (snoc c s)
  then show ?case using is_digit_val [of c] by (simp add: read_nat_append)
qed simp

lemma read_nat_zeros: "list_all (\<lambda>c. c = CHR ''0'') z \<Longrightarrow> read_nat z = 0"
proof (induction z rule: rev_induct)
  case (snoc c z)
  then show ?case by (simp add: read_nat_append digit_val_def)
qed simp

lemma read_nat_replicate [simp]: "read_nat (replicate n (CHR ''0'')) = 0"
  by (rule read_nat_zeros) (simp add: list_all_iff)

lemma read_nat_dropWhile: "read_nat (dropWhile (\<lambda>c. c = CHR ''0'') s) = read_nat s"
proof -
  have "list_all (\<lambda>c. c = CHR ''0'') (takeWhile (\<lambda>c. c = CHR ''0'') s)"
    by (auto simp: list_all_iff dest: set_takeWhileD)
  then have "read_nat (takeWhile (\<lambda>c. c = CHR ''0'') s @ dropWhile (\<lambda>c. c = CHR ''0'') s) =
      read_nat (dropWhile (\<lambda>c. c = CHR ''0'') s)"
    by (simp only: read_nat_append read_nat_zeros)
  then show ?thesis by simp
qed

text \<open>\<^verbatim>\<open>strings.Trim(s, "0")\<close>.\<close>

definition trim_zeros :: "string \<Rightarrow> string" where
  "trim_zeros s = rev (dropWhile (\<lambda>c. c = CHR ''0'') (rev (dropWhile (\<lambda>c. c = CHR ''0'') s)))"

lemma trim_tail:
  "\<exists>z. s = rev (dropWhile (\<lambda>c. c = CHR ''0'') (rev s)) @ z \<and> list_all (\<lambda>c. c = CHR ''0'') z"
proof (intro exI conjI)
  let ?z = "rev (takeWhile (\<lambda>c. c = CHR ''0'') (rev s))"
  have "s = rev (takeWhile (\<lambda>c. c = CHR ''0'') (rev s) @ dropWhile (\<lambda>c. c = CHR ''0'') (rev s))"
    by (simp only: takeWhile_dropWhile_id rev_rev_ident)
  then show "s = rev (dropWhile (\<lambda>c. c = CHR ''0'') (rev s)) @ ?z" by (simp only: rev_append)
  show "list_all (\<lambda>c. c = CHR ''0'') ?z" by (auto simp: list_all_iff dest: set_takeWhileD)
qed

lemma trim_zeros_value: "\<exists>t. read_nat s = read_nat (trim_zeros s) * 10 ^ t"
proof -
  let ?d = "dropWhile (\<lambda>c. c = CHR ''0'') s"
  obtain z where z: "?d = trim_zeros s @ z" "list_all (\<lambda>c. c = CHR ''0'') z"
    using trim_tail [of ?d] by (auto simp: trim_zeros_def)
  then have "read_nat ?d = read_nat (trim_zeros s) * 10 ^ length z"
    by (simp add: read_nat_append read_nat_zeros)
  then show ?thesis by (metis read_nat_dropWhile)
qed

lemma trim_zeros_digits: "list_all is_digit s \<Longrightarrow> list_all is_digit (trim_zeros s)"
  by (auto simp: trim_zeros_def list_all_iff dest!: set_dropWhileD)

text \<open>A positive numeral without a sign: its digits, and the digits after the point.\<close>

lemma parse_decimal_digits:
  assumes "parse_decimal s = Some q" "0 < q"
  shows "\<exists>n. q = of_nat (read_nat (filter (\<lambda>c. c \<noteq> CHR ''.'') s)) / 10 ^ n \<and>
    list_all is_digit (filter (\<lambda>c. c \<noteq> CHR ''.'') s)"
proof -
  have nonneg: "(0 :: rat) \<le> of_nat m / 10 ^ k" for m k :: nat by simp
  have "\<not> has_prefix s ''-''"
  proof
    assume neg: "has_prefix s ''-''"
    have "\<exists>m k. q = - (of_nat m / 10 ^ k)"
      using assms(1) neg by (auto simp: parse_decimal_def Let_def split: if_splits)
    then show False using assms(2) nonneg by (metis neg_le_0_iff_le not_le)
  qed
  let ?w = "takeWhile is_digit s" and ?r = "dropWhile is_digit s"
  have q: "q = of_nat (read_nat (?w @ tl ?r)) / 10 ^ length (tl ?r)"
    and r: "?r = [] \<or> hd ?r = CHR ''.'' \<and> tl ?r \<noteq> [] \<and> list_all is_digit (tl ?r)"
    using assms(1) \<open>\<not> has_prefix s ''-''\<close>
    by (auto simp: parse_decimal_def Let_def split: if_splits)
  have no_dot: "filter (\<lambda>c. c \<noteq> CHR ''.'') xs = xs" if "list_all is_digit xs" for xs
  proof (rule filter_True)
    have "\<not> is_digit (CHR ''.'')" by (simp add: is_digit_def)
    then show "\<forall>c \<in> set xs. c \<noteq> CHR ''.''" using that by (auto simp: list_all_iff)
  qed
  have w: "list_all is_digit ?w" by (auto simp: list_all_iff dest: set_takeWhileD)
  have "filter (\<lambda>c. c \<noteq> CHR ''.'') x = tl x"
    if "x = [] \<or> hd x = CHR ''.'' \<and> tl x \<noteq> [] \<and> list_all is_digit (tl x)" for x
    using that no_dot [of "tl x"] by (cases x) auto
  from this [OF r] have "filter (\<lambda>c. c \<noteq> CHR ''.'') ?r = tl ?r" .
  then have "filter (\<lambda>c. c \<noteq> CHR ''.'') (?w @ ?r) = ?w @ tl ?r"
    unfolding filter_append using no_dot [OF w] by simp
  then have "filter (\<lambda>c. c \<noteq> CHR ''.'') s = ?w @ tl ?r" by simp
  moreover have "list_all is_digit (tl ?r)" using r by (metis list.sel(2) list.pred_inject(1))
  then have "list_all is_digit (?w @ tl ?r)" using w by simp
  ultimately show ?thesis using q by auto
qed

section \<open>A concrete implementation\<close>

text \<open>A coefficient and a number of decimal places.\<close>

type_synonym sdec = "int \<times> nat"

fun sdec_val :: "sdec \<Rightarrow> rat" where
  "sdec_val (c, k) = of_int c / 10 ^ k"

definition int_trunc_div :: "int \<Rightarrow> int \<Rightarrow> int" where
  "int_trunc_div a b = (if a < 0 then - ((- a) div b) else a div b)"

fun sdec_Truncate :: "sdec \<Rightarrow> int \<Rightarrow> sdec" where
  "sdec_Truncate (c, k) n =
     (if n < 0 \<or> k \<le> nat n then (c, k) else (int_trunc_div c (10 ^ (k - nat n)), nat n))"

fun sdec_String :: "sdec \<Rightarrow> string" where
  "sdec_String (c, k) =
     (let d = show_nat (nat \<bar>c\<bar>);
          p = replicate (Suc k - length d) (CHR ''0'') @ d;
          w = take (length p - k) p;
          f = drop (length p - k) p
      in (if c < 0 then ''-'' else []) @ w @ (if k = 0 then [] else CHR ''.'' # f))"

definition sample_dec :: "sdec dec" where
  "sample_dec = \<lparr>
     IsPositive = (\<lambda>d. 0 < fst d), IsNegative = (\<lambda>d. fst d < 0), IsZero = (\<lambda>d. fst d = 0),
     Truncate = sdec_Truncate,
     Equal = (\<lambda>(a, k) (b, l). a * 10 ^ l = b * 10 ^ k),
     GreaterThanOrEqual = (\<lambda>(a, k) (b, l). b * 10 ^ k \<le> a * 10 ^ l),
     LessThanOrEqual = (\<lambda>(a, k) (b, l). a * 10 ^ l \<le> b * 10 ^ k),
     Mul = (\<lambda>(a, k) (b, l). (a * b, k + l)),
     New = (\<lambda>c n. if 0 \<le> n then (c * 10 ^ nat n, 0) else (c, nat (- n))),
     NewFromInt = (\<lambda>c. (c, 0)),
     IntPart = (\<lambda>(c, k). word_of_int (int_trunc_div c (10 ^ k))),
     dec_String = sdec_String \<rparr>"

lemma frac_eq: "(of_int a / 10 ^ k = (of_int b / 10 ^ l :: rat)) \<longleftrightarrow> a * 10 ^ l = b * 10 ^ k"
proof -
  have "(of_int a / 10 ^ k = (of_int b / 10 ^ l :: rat)) \<longleftrightarrow>
      (of_int (a * 10 ^ l) :: rat) = of_int (b * 10 ^ k)"
    by (simp add: field_simps)
  then show ?thesis by (simp only: of_int_eq_iff)
qed

lemma frac_le: "(of_int a / 10 ^ k \<le> (of_int b / 10 ^ l :: rat)) \<longleftrightarrow> a * 10 ^ l \<le> b * 10 ^ k"
proof -
  have "(of_int a / 10 ^ k \<le> (of_int b / 10 ^ l :: rat)) \<longleftrightarrow>
      (of_int (a * 10 ^ l) :: rat) \<le> of_int (b * 10 ^ k)"
    by (simp add: field_simps)
  then show ?thesis by (simp only: of_int_le_iff)
qed

lemma rat_trunc_frac: "rat_trunc (of_int c / 10 ^ k) = int_trunc_div c (10 ^ k)"
proof -
  have fl: "\<lfloor>(of_int c / 10 ^ k :: rat)\<rfloor> = c div 10 ^ k" for c
    using floor_divide_of_int_eq [of c "10 ^ k", where 'a = rat] by simp
  have "\<lceil>(of_int c / 10 ^ k :: rat)\<rceil> = - ((- c) div 10 ^ k)"
    using fl [of "- c"] by (simp add: ceiling_def)
  then show ?thesis
    by (auto simp: rat_trunc_def int_trunc_div_def fl divide_less_0_iff)
qed

lemma sdec_Truncate_val:
  assumes "0 \<le> n"
  shows "sdec_val (sdec_Truncate d n) = of_int (rat_trunc (sdec_val d * 10 ^ nat n)) / 10 ^ nat n"
proof -
  obtain c k where d: "d = (c, k)" by (cases d)
  show ?thesis
  proof (cases "k \<le> nat n")
    case True
    then have "(10 :: rat) ^ nat n = 10 ^ k * 10 ^ (nat n - k)" by (simp flip: power_add)
    then have "sdec_val d * 10 ^ nat n = of_int (c * 10 ^ (nat n - k))" by (simp add: d)
    moreover from this have "sdec_val d = of_int (c * 10 ^ (nat n - k)) / 10 ^ nat n"
      by (simp add: field_simps)
    ultimately show ?thesis using True by (simp only: rat_trunc_int) (simp add: d)
  next
    case False
    then have "(10 :: rat) ^ k = 10 ^ nat n * 10 ^ (k - nat n)" by (simp flip: power_add)
    then have "sdec_val d * 10 ^ nat n = of_int c / 10 ^ (k - nat n)" by (simp add: d)
    then show ?thesis using False assms by (simp add: d rat_trunc_frac)
  qed
qed

lemma show_nat_is_digit: "list_all is_digit (show_nat n)"
proof (induction n rule: show_nat.induct)
  case (1 n)
  then show ?case by (cases "n < 10") (simp_all add: show_nat.simps [of n] is_digit_def)
qed

lemma show_nat_not_Nil [simp]: "show_nat n \<noteq> []"
  by (simp add: show_nat.simps [of n])

lemma parse_decimal_unsigned:
  assumes "list_all is_digit w" "w \<noteq> []"
  shows "list_all is_digit f \<Longrightarrow> f \<noteq> [] \<Longrightarrow>
      parse_decimal (w @ CHR ''.'' # f) = Some (of_nat (read_nat (w @ f)) / 10 ^ length f)"
    and "list_all is_digit f \<Longrightarrow> f \<noteq> [] \<Longrightarrow> parse_decimal (CHR ''-'' # w @ CHR ''.'' # f) =
      Some (- (of_nat (read_nat (w @ f)) / 10 ^ length f))"
    and "parse_decimal w = Some (of_nat (read_nat w))"
    and "parse_decimal (CHR ''-'' # w) = Some (- of_nat (read_nat w))"
proof -
  have dot: "\<not> is_digit (CHR ''.'')" by (simp add: is_digit_def)
  have tw: "takeWhile is_digit (w @ CHR ''.'' # f) = w" "dropWhile is_digit (w @ CHR ''.'' # f) = CHR ''.'' # f"
    "takeWhile is_digit w = w" "dropWhile is_digit w = []"
    using assms(1) dot by (auto simp: list_all_iff takeWhile_append2 dropWhile_append2 dropWhile_eq_Nil_conv takeWhile_eq_all_conv)
  have "\<not> has_prefix (w @ x) ''-''" for x
    using assms(1,2) by (cases w) (auto simp: is_digit_def)
  from this [of "CHR ''.'' # f"] this [of "[]"] show
    "list_all is_digit f \<Longrightarrow> f \<noteq> [] \<Longrightarrow>
      parse_decimal (w @ CHR ''.'' # f) = Some (of_nat (read_nat (w @ f)) / 10 ^ length f)"
    "list_all is_digit f \<Longrightarrow> f \<noteq> [] \<Longrightarrow> parse_decimal (CHR ''-'' # w @ CHR ''.'' # f) =
      Some (- (of_nat (read_nat (w @ f)) / 10 ^ length f))"
    "parse_decimal w = Some (of_nat (read_nat w))"
    "parse_decimal (CHR ''-'' # w) = Some (- of_nat (read_nat w))"
    using assms by (simp_all add: parse_decimal_def Let_def tw) (simp_all add: list_all_iff)
qed

lemma sdec_String_val: "parse_decimal (sdec_String d) = Some (sdec_val d)"
proof -
  obtain c k where d: "d = (c, k)" by (cases d)
  let ?d = "show_nat (nat \<bar>c\<bar>)"
  define p where "p = replicate (Suc k - length ?d) (CHR ''0'') @ ?d"
  let ?w = "take (length p - k) p" and ?f = "drop (length p - k) p"
  have str: "sdec_String d = (if c < 0 then ''-'' else []) @ ?w @ (if k = 0 then [] else CHR ''.'' # ?f)"
    by (simp only: d sdec_String.simps Let_def p_def)
  have len: "k < length p" by (simp add: p_def)
  have "list_all is_digit p"
    using show_nat_is_digit by (auto simp: p_def list_all_iff is_digit_def)
  then have wf: "list_all is_digit ?w" "list_all is_digit ?f"
    by (auto simp: list_all_iff dest: in_set_takeD in_set_dropD)
  have w: "?w \<noteq> []" and f: "length ?f = k" using len by auto
  have "read_nat (?w @ ?f) = read_nat p" by (simp only: append_take_drop_id)
  also have "\<dots> = nat \<bar>c\<bar>" by (simp add: p_def read_nat_append)
  finally have rd: "read_nat (?w @ ?f) = nat \<bar>c\<bar>" .
  show ?thesis
  proof (cases "k = 0")
    case True
    then have "read_nat ?w = nat \<bar>c\<bar>" using rd by simp
    then show ?thesis
      using parse_decimal_unsigned(3,4) [OF wf(1) w] True unfolding str by (simp add: d)
  next
    case False
    then have "?f \<noteq> []" using f by auto
    from parse_decimal_unsigned(1,2) [OF wf(1) w wf(2) this(1)] show ?thesis
      using False rd f unfolding str by (simp add: d)
  qed
qed

lemma decimal_laws_sample: "decimal_laws sample_dec sdec_val"
  unfolding decimal_laws_def
proof (intro conjI allI impI)
  fix c d :: sdec and n i :: int
  obtain a k where c: "c = (a, k)" by (cases c)
  obtain b l where d: "d = (b, l)" by (cases d)
  show "IsPositive sample_dec d \<longleftrightarrow> 0 < sdec_val d"
    "IsNegative sample_dec d \<longleftrightarrow> sdec_val d < 0" "IsZero sample_dec d \<longleftrightarrow> sdec_val d = 0"
    by (simp_all add: sample_dec_def d zero_less_divide_iff divide_less_0_iff)
  show "Equal sample_dec c d \<longleftrightarrow> sdec_val c = sdec_val d"
    "GreaterThanOrEqual sample_dec c d \<longleftrightarrow> sdec_val d \<le> sdec_val c"
    "LessThanOrEqual sample_dec c d \<longleftrightarrow> sdec_val c \<le> sdec_val d"
    by (simp_all add: sample_dec_def c d frac_eq frac_le)
  show "sdec_val (Mul sample_dec c d) = sdec_val c * sdec_val d"
    by (simp add: sample_dec_def c d power_add)
  show "sdec_val (NewFromInt sample_dec n) = of_int n" by (simp add: sample_dec_def)
  show "parse_decimal (dec_String sample_dec d) = Some (sdec_val d)"
    by (simp add: sample_dec_def sdec_String_val del: sdec_String.simps)
  show "sdec_val (Truncate sample_dec d n) =
      of_int (rat_trunc (sdec_val d * 10 ^ nat n)) / 10 ^ nat n" if "0 \<le> n"
    using sdec_Truncate_val [OF that, of d] by (simp add: sample_dec_def)
  show "sdec_val (New sample_dec i n) = of_int i * 10 ^ nat n" if "0 \<le> n"
    using that by (simp add: sample_dec_def)
  assume "sdec_val d = of_int i"
  then have "rat_trunc (of_int b / 10 ^ l) = i" by (simp add: d)
  then show "IntPart sample_dec d = word_of_int i"
    by (simp add: sample_dec_def d rat_trunc_frac)
qed

end
