(* ===== verification/Orders.thy ===== *)
theory Orders
  imports L1Wire Assets Decimals
begin

text \<open>
  From order requests to order wires: \<^verbatim>\<open>exchange/order.go\<close>, the batch checks of
  \<^verbatim>\<open>exchange/modify.go\<close>, \<^verbatim>\<open>exchange/cancel.go\<close> and \<^verbatim>\<open>exchange/twap.go\<close>, and the micro-unit conversions
  of \<^verbatim>\<open>exchange/core_actions.go\<close> and \<^verbatim>\<open>exchange/account_management.go\<close>. Each definition builds the
  action of one client method; sending it is the subject of the theory \<open>Exchange\<close>.
\<close>

section \<open>Prices and sizes\<close>

definition wrap_i32 :: "int \<Rightarrow> int" where
  "wrap_i32 x = (x + 2 ^ 31) mod 2 ^ 32 - 2 ^ 31"

text \<open>\<^verbatim>\<open>strings.Trim(strings.TrimLeft(strings.ReplaceAll(s, ".", ""), "0"), "0")\<close>.\<close>

definition significant :: "string \<Rightarrow> string" where
  "significant s = trim_zeros (dropWhile (\<lambda>c. c = CHR ''0'') (filter (\<lambda>c. c \<noteq> CHR ''.'') s))"

text \<open>The number of decimals that a market's prices may have.\<close>

definition price_decimals :: "Asset \<Rightarrow> int" where
  "price_decimals a =
     (if a_Kind a = Spot \<or> a_Kind a = Outcome then wrap_i32 (8 - wrap_i32 (a_SzDecimals a))
      else wrap_i32 (6 - a_SzDecimals a))"

definition formatPrice :: "'d dec \<Rightarrow> 'd \<Rightarrow> Asset \<Rightarrow> string res" where
  "formatPrice D value a =
     (if \<not> IsPositive D value then Inl ''invalid price''
      else if \<not> Equal D (Truncate D value (price_decimals a)) value then Inl ''invalid price''
      else if Equal D value (Truncate D value 0) then Inr (dec_String D value)
      else if length (significant (dec_String D value)) > 5 then Inl ''invalid price''
      else Inr (dec_String D value))"

definition formatSize :: "'d dec \<Rightarrow> 'd \<Rightarrow> int \<Rightarrow> string res" where
  "formatSize D value szDecimals =
     (if \<not> IsPositive D value \<or> \<not> Equal D (Truncate D value (wrap_i32 szDecimals)) value
      then Inl ''invalid size'' else Inr (dec_String D value))"

lemma significant_value: "\<exists>t. read_nat s' = read_nat (significant s) * 10 ^ t"
  if "s' = filter (\<lambda>c. c \<noteq> CHR ''.'') s" for s'
  using trim_zeros_value [of "dropWhile (\<lambda>c. c = CHR ''0'') s'"]
  by (simp add: significant_def that read_nat_dropWhile)

lemma significant_bound:
  assumes "list_all is_digit (filter (\<lambda>c. c \<noteq> CHR ''.'') s)"
  shows "read_nat (significant s) < 10 ^ length (significant s)"
proof (rule read_nat_bound)
  have "list_all is_digit (dropWhile (\<lambda>c. c = CHR ''0'') (filter (\<lambda>c. c \<noteq> CHR ''.'') s))"
    using assms by (auto simp: list_all_iff dest!: set_dropWhileD)
  then show "list_all is_digit (significant s)"
    unfolding significant_def by (rule trim_zeros_digits)
qed

lemma formatPrice_ok:
  assumes "decimal_laws D val" "formatPrice D x a = Inr s"
  shows "s = dec_String D x" "parse_decimal s = Some (val x)" "0 < val x"
proof -
  show "s = dec_String D x"
    using assms(2) by (auto simp: formatPrice_def split: if_splits)
  then show "parse_decimal s = Some (val x)" using assms(1) unfolding decimal_laws_def by blast
  have "IsPositive D x" using assms(2) by (auto simp: formatPrice_def split: if_splits)
  then show "0 < val x" using assms(1) unfolding decimal_laws_def by blast
qed

text \<open>
  C36: an accepted price is sent as a numeral of exactly the caller's value, which is
  positive, has no more decimals than the market allows, and is an integer or has at most five
  significant figures.
\<close>

theorem price_exact:
  assumes "decimal_laws D val" "formatPrice D x a = Inr s"
  shows "parse_decimal s = Some (val x) \<and> 0 < val x \<and>
    (0 \<le> price_decimals a \<longrightarrow> (\<exists>i. val x * 10 ^ nat (price_decimals a) = of_int i)) \<and>
    ((\<exists>i. val x = of_int i) \<or> (\<exists>m j k. m < 100000 \<and> val x * 10 ^ k = of_nat m * 10 ^ j))"
proof (intro conjI impI)
  note ok = formatPrice_ok [OF assms]
  show "parse_decimal s = Some (val x)" "0 < val x" by (rule ok)+
  show "\<exists>i. val x * 10 ^ nat (price_decimals a) = of_int i" if "0 \<le> price_decimals a"
    using assms(2) Truncate_exact(1) [OF assms(1) that, of x]
    by (auto simp: formatPrice_def split: if_splits)
  show "(\<exists>i. val x = of_int i) \<or> (\<exists>m j k. m < 100000 \<and> val x * 10 ^ k = of_nat m * 10 ^ j)"
  proof (cases "Equal D x (Truncate D x 0)")
    case True
    then show ?thesis using Truncate_exact(2) [OF assms(1), of 0 x] by simp
  next
    case False
    then have len: "length (significant s) \<le> 5"
      using assms(2) by (auto simp: formatPrice_def split: if_splits)
    obtain n where n: "val x = of_nat (read_nat (filter (\<lambda>c. c \<noteq> CHR ''.'') s)) / 10 ^ n"
        "list_all is_digit (filter (\<lambda>c. c \<noteq> CHR ''.'') s)"
      using parse_decimal_digits [OF ok(2,3)] by blast
    obtain t where t: "read_nat (filter (\<lambda>c. c \<noteq> CHR ''.'') s) = read_nat (significant s) * 10 ^ t"
      using significant_value [OF refl] by blast
    have "read_nat (significant s) < 10 ^ length (significant s)"
      by (rule significant_bound [OF n(2)])
    also have "\<dots> \<le> 10 ^ 5" using len by (intro power_increasing) simp_all
    finally have "read_nat (significant s) < 100000" by simp
    moreover have "val x * 10 ^ n = of_nat (read_nat (significant s)) * 10 ^ t"
      using n(1) t by simp
    ultimately show ?thesis by blast
  qed
qed

definition sample_perp :: Asset where
  "sample_perp = \<lparr> a_ID = 3, a_Symbol = ''ETH'', a_Name = ''ETH'', a_Kind = Perp,
     a_SzDecimals = 4, a_DEX = [] \<rparr>"

lemma sample_price: "formatPrice sample_dec (19255, 1) sample_perp = Inr ''1925.5''"
  by (simp add: formatPrice_def sample_dec_def sample_perp_def price_decimals_def kind_defs
      wrap_i32_def int_trunc_div_def significant_def trim_zeros_def show_nat.simps Let_def) code_simp

theorem price_exact_witness:
  "formatPrice sample_dec (19255, 1) sample_perp = Inr ''1925.5'' \<and>
   parse_decimal ''1925.5'' = Some (sdec_val (19255, 1))"
  using price_exact [OF decimal_laws_sample sample_price] sample_price by blast

text \<open>
  An accepted size is sent as a numeral of exactly the caller's value, positive and
  a whole number of the market's size steps.
\<close>

theorem size_exact:
  assumes "decimal_laws D val" "0 \<le> sz" "sz < 2 ^ 31"
  shows "formatSize D x sz = Inr s \<longleftrightarrow>
    s = dec_String D x \<and> 0 < val x \<and> (\<exists>i. val x * 10 ^ nat sz = of_int i)"
proof -
  have "wrap_i32 sz = sz" using assms(2,3) by (simp add: wrap_i32_def)
  moreover have "IsPositive D x \<longleftrightarrow> 0 < val x" using assms(1) unfolding decimal_laws_def by blast
  ultimately show ?thesis
    using Truncate_exact(1) [OF assms(1,2), of x] by (auto simp: formatSize_def)
qed

theorem size_exact_witness:
  "formatSize sample_dec (15, 1) 4 = Inr (dec_String sample_dec (15, 1)) \<and>
   \<not> is_ok (formatSize sample_dec (15, 6) 4)"
proof
  have "\<exists>i. sdec_val (15, 1) * 10 ^ nat 4 = of_int i" by (rule exI [of _ 15000]) simp
  then show "formatSize sample_dec (15, 1) 4 = Inr (dec_String sample_dec (15, 1))"
    by (subst size_exact [OF decimal_laws_sample]) simp_all
  show "\<not> is_ok (formatSize sample_dec (15, 6) 4)"
    by (simp add: formatSize_def sample_dec_def wrap_i32_def int_trunc_div_def)
qed

section \<open>Micro units\<close>

definition usdcMicros :: "'d dec \<Rightarrow> 'd \<Rightarrow> i64 res" where
  "usdcMicros D amount =
     (if IsZero D amount then Inl ''isolated margin amount must be non-zero''
      else let scaled = Mul D amount (New D 1 6) in
        if \<not> Equal D scaled (Truncate D scaled 0)
        then Inl ''isolated margin supports at most 6 decimal places''
        else if \<not> GreaterThanOrEqual D scaled (NewFromInt D min_i64) \<or>
            \<not> LessThanOrEqual D scaled (NewFromInt D max_i64)
        then Inl ''isolated margin amount is outside protocol range''
        else Inr (IntPart D scaled))"

definition nonNegativeUSDCMicros :: "'d dec \<Rightarrow> 'd \<Rightarrow> i64 res" where
  "nonNegativeUSDCMicros D amount =
     (if IsNegative D amount then Inl ''USD amount must be non-negative''
      else let scaled = Mul D amount (New D 1 6) in
        if \<not> Equal D scaled (Truncate D scaled 0)
        then Inl ''USD amount supports at most 6 decimal places''
        else if \<not> LessThanOrEqual D scaled (NewFromInt D max_i64)
        then Inl ''USD amount is outside protocol range''
        else Inr (IntPart D scaled))"

lemma sint_i64: "in_i64 (sint (w :: i64))"
proof -
  have "- (2 ^ (LENGTH(64) - 1)) \<le> sint w" "sint w < 2 ^ (LENGTH(64) - 1)"
    by (rule sint_ge, rule sint_lt)
  then show ?thesis by (simp add: in_i64_def min_i64_def max_i64_def)
qed

lemma sint_word_of_int: "in_i64 i \<Longrightarrow> sint (word_of_int i :: i64) = i"
  by (simp add: in_i64_def min_i64_def max_i64_def sint_sbintrunc' signed_take_bit_int_eq_self)

text \<open>What the range checks leave: the integer part of an integer in range.\<close>

lemma micros_value:
  assumes "decimal_laws D val" "val y = q * 10 ^ 6"
    and "\<exists>i. val y = of_int i" "of_int min_i64 \<le> val y" "val y \<le> of_int max_i64"
  shows "IntPart D y = m \<longleftrightarrow> of_int (sint m) = q * 10 ^ 6"
proof -
  obtain i where i: "val y = of_int i" using assms(3) by blast
  then have "in_i64 i" using assms(4,5) by (simp add: in_i64_def)
  then have "IntPart D y = word_of_int i" using assms(1) i unfolding decimal_laws_def by blast
  moreover have "word_of_int i = m \<longleftrightarrow> i = sint m" using sint_word_of_int [OF \<open>in_i64 i\<close>] by auto
  ultimately show ?thesis using assms(2) i by (metis of_int_eq_iff)
qed

lemma micros_scaled:
  assumes "decimal_laws D val"
  shows "val (Mul D x (New D 1 6)) = val x * 10 ^ 6"
    and "Equal D y (Truncate D y 0) \<longleftrightarrow> (\<exists>i. val y = of_int i)"
    and "GreaterThanOrEqual D y (NewFromInt D i) \<longleftrightarrow> of_int i \<le> val y"
    and "LessThanOrEqual D y (NewFromInt D i) \<longleftrightarrow> val y \<le> of_int i"
    and "IsZero D x \<longleftrightarrow> val x = 0" and "IsNegative D x \<longleftrightarrow> val x < 0"
proof -
  note laws = assms [unfolded decimal_laws_def]
  have "val (New D 1 6) = of_int 1 * 10 ^ nat 6"
    using laws by (metis zero_le_numeral)
  then show "val (Mul D x (New D 1 6)) = val x * 10 ^ 6" using laws by simp
  show "Equal D y (Truncate D y 0) \<longleftrightarrow> (\<exists>i. val y = of_int i)"
    using Truncate_exact(2) [OF assms, of 0 y] by simp
  show "GreaterThanOrEqual D y (NewFromInt D i) \<longleftrightarrow> of_int i \<le> val y"
    "LessThanOrEqual D y (NewFromInt D i) \<longleftrightarrow> val y \<le> of_int i" using laws by simp_all
  show "IsZero D x \<longleftrightarrow> val x = 0" "IsNegative D x \<longleftrightarrow> val x < 0" using laws by simp_all
qed

text \<open>
  The conversions to micro units accept exactly the amounts that are a whole number
  of micros within 64 bits (non-zero, respectively non-negative), and give that number: no rounding
  and no wrap-around.
\<close>

theorem micros_exact:
  assumes "decimal_laws D val"
  shows "(usdcMicros D x = Inr m \<longleftrightarrow> val x \<noteq> 0 \<and> of_int (sint m) = val x * 10 ^ 6) \<and>
    (nonNegativeUSDCMicros D x = Inr m \<longleftrightarrow> 0 \<le> val x \<and> of_int (sint m) = val x * 10 ^ 6)"
proof -
  let ?y = "Mul D x (New D 1 6)"
  note sc = micros_scaled [OF assms]
  have in_range: "(\<exists>i. val ?y = of_int i) \<and> of_int min_i64 \<le> val ?y \<and> val ?y \<le> of_int max_i64"
    if "of_int (sint m) = val x * 10 ^ 6"
  proof -
    have "val ?y = of_int (sint m)" using that sc(1) by simp
    then show ?thesis using sint_i64 [of m] by (auto simp: in_i64_def simp del: of_int_sint)
  qed
  have low: "of_int min_i64 \<le> val ?y" if "0 \<le> val x"
  proof -
    have "of_int min_i64 \<le> (0 :: rat)" by (simp add: min_i64_def)
    also have "0 \<le> val ?y" using that sc(1) by simp
    finally show ?thesis .
  qed
  have "usdcMicros D x = Inr m \<longleftrightarrow> val x \<noteq> 0 \<and> (\<exists>i. val ?y = of_int i) \<and>
      of_int min_i64 \<le> val ?y \<and> val ?y \<le> of_int max_i64 \<and> IntPart D ?y = m"
    by (auto simp: usdcMicros_def Let_def sc(2-6))
  moreover have "nonNegativeUSDCMicros D x = Inr m \<longleftrightarrow> 0 \<le> val x \<and> (\<exists>i. val ?y = of_int i) \<and>
      val ?y \<le> of_int max_i64 \<and> IntPart D ?y = m"
    by (auto simp: nonNegativeUSDCMicros_def Let_def sc(2-6))
  ultimately show ?thesis
    using micros_value [OF assms sc(1), where m = m] in_range low by blast
qed

theorem micros_exact_witness:
  "usdcMicros sample_dec (- 15, 1) = Inr (- 1500000) \<and>
   \<not> is_ok (nonNegativeUSDCMicros sample_dec (- 15, 1))"
proof
  have "sint (- 1500000 :: i64) = - 1500000" by simp
  then show "usdcMicros sample_dec (- 15, 1) = Inr (- 1500000)"
    using micros_exact [OF decimal_laws_sample, of "(- 15, 1)" "- 1500000"] by simp
  show "\<not> is_ok (nonNegativeUSDCMicros sample_dec (- 15, 1))"
    by (simp add: nonNegativeUSDCMicros_def sample_dec_def)
qed

section \<open>Requests\<close>

text \<open>
  The resolver as the client sees it during one call: its answers, and whether it also answers
  market references (a Go type assertion).
\<close>

record Resolver =
  rs_Resolve :: "string \<Rightarrow> Asset res"
  rs_ResolveMarket :: "(MarketRef \<Rightarrow> Asset res) option"

text \<open>The two order types; a nil interface is \<^const>\<open>None\<close> in a request.\<close>

datatype 'd orderType = LimitOrder string | TriggerOrder bool 'd string

record Builder =
  bu_Address :: address
  bu_Fee :: u64

record 'd OrderRequest =
  or_Coin :: string
  or_Market :: "MarketRef option"
  or_IsBuy :: bool
  or_Price :: 'd
  or_Size :: 'd
  or_ReduceOnly :: bool
  or_Type :: "'d orderType option"
  or_ClientOrderID :: "byte list option"
  or_Builder :: "Builder option"

definition resolveAsset :: "Resolver \<Rightarrow> 'd OrderRequest \<Rightarrow> Asset res" where
  "resolveAsset R r =
     (case or_Market r of
        Some m \<Rightarrow> (case rs_ResolveMarket R of
            None \<Rightarrow> Inl ''asset resolver does not support market references''
          | Some f \<Rightarrow> f m)
      | None \<Rightarrow> (if or_Coin r = [] then Inl ''coin is required'' else rs_Resolve R (or_Coin r)))"

text \<open>The text of the trigger price; the switch over the order type.\<close>

fun order_type_wire :: "'d dec \<Rightarrow> Asset \<Rightarrow> 'd orderType option \<Rightarrow> OrderTypeWire res" where
  "order_type_wire D a (Some (LimitOrder tif)) =
     (if tif \<notin> {''Gtc'', ''Ioc'', ''Alo'', ''FrontendMarket''} then Inl ''invalid time in force''
      else Inr (Limit \<lparr> lo_TIF = tif \<rparr>))"
| "order_type_wire D a (Some (TriggerOrder isMarket px tpsl)) =
     (if tpsl \<notin> {''tp'', ''sl''} then Inl ''invalid trigger type''
      else bind_res (wrap_res ''invalid trigger price'' (formatPrice D px a)) (\<lambda>t.
        Inr (Trigger \<lparr> to_IsMarket = isMarket, to_TriggerPx = t, to_TPSL = tpsl \<rparr>)))"
| "order_type_wire D a None = Inl ''invalid order type''"

definition orderWire :: "'d dec \<Rightarrow> 'd OrderRequest \<Rightarrow> Asset \<Rightarrow> OrderWire res" where
  "orderWire D r a =
     bind_res (formatPrice D (or_Price r) a) (\<lambda>p.
     bind_res (formatSize D (or_Size r) (a_SzDecimals a)) (\<lambda>s.
     bind_res (order_type_wire D a (or_Type r)) (\<lambda>kind.
     Inr \<lparr> ow_Asset = word_of_int (a_ID a), ow_IsBuy = or_IsBuy r, ow_Price = p, ow_Size = s,
       ow_ReduceOnly = or_ReduceOnly r, ow_Type = Some kind,
       ow_Cloid = map_option Cloid_String (or_ClientOrderID r) \<rparr>)))"

definition builder_cap :: "Asset \<Rightarrow> u64" where
  "builder_cap a = (if a_Kind a = Spot \<or> a_Kind a = Outcome then 1000 else 100)"

fun builder_loop ::
    "lib \<Rightarrow> bool \<Rightarrow> BuilderWire option \<Rightarrow> ('d OrderRequest \<times> Asset) list \<Rightarrow> BuilderWire option res" where
  "builder_loop L firstHas output [] = Inr output"
| "builder_loop L firstHas output ((r, a) # ras) =
     (if (or_Builder r \<noteq> None) \<noteq> firstHas
      then Inl ''all orders in a batch must use the same builder''
      else case or_Builder r of
        None \<Rightarrow> builder_loop L firstHas output ras
      | Some b \<Rightarrow>
          if bu_Address b = 0 then Inl ''builder address is required''
          else if bu_Fee b = 0 then Inl ''builder fee must be positive''
          else if bu_Fee b > builder_cap a then
            Inl (''builder fee '' @ show_nat (unat (bu_Fee b)) @ '' exceeds maximum '' @
              show_nat (unat (builder_cap a)) @ '' for '' @ a_Kind a)
          else let candidate = \<lparr> bw_Address = to_lower (Hex L (bu_Address b)), bw_Fee = bu_Fee b \<rparr> in
            (case output of
               None \<Rightarrow> builder_loop L firstHas (Some candidate) ras
             | Some w \<Rightarrow> if w \<noteq> candidate
                 then Inl ''all orders in a batch must use the same builder''
                 else builder_loop L firstHas output ras))"

text \<open>The callers have checked that there is a first request.\<close>

definition builderForOrders ::
    "lib \<Rightarrow> 'd OrderRequest list \<Rightarrow> Asset list \<Rightarrow> BuilderWire option res" where
  "builderForOrders L requests assets =
     (if length requests \<noteq> length assets then Inl ''builder validation requires resolved assets''
      else builder_loop L (or_Builder (hd requests) \<noteq> None) None (zip requests assets))"

definition place_one ::
    "'d dec \<Rightarrow> Resolver \<Rightarrow> 'd OrderRequest \<Rightarrow> (OrderWire \<times> Asset) res" where
  "place_one D R r =
     bind_res (resolveAsset R r) (\<lambda>a.
     if a_Kind a \<notin> {Perp, Spot, HIP3, Outcome} then Inl ''unsupported asset kind''
     else bind_res (orderWire D r a) (\<lambda>w. Inr (w, a)))"

definition PlaceOrders_action ::
    "lib \<Rightarrow> 'd dec \<Rightarrow> Resolver option \<Rightarrow> 'd OrderRequest list \<Rightarrow> OrderAction res" where
  "PlaceOrders_action L D assets requests =
     (if requests = [] then Inl ''at least one order is required''
      else case assets of None \<Rightarrow> Inl ''asset resolver is required''
      | Some R \<Rightarrow> bind_res (map_res (place_one D R) requests) (\<lambda>was.
          bind_res (builderForOrders L requests (map snd was)) (\<lambda>b.
          Inr \<lparr> oa_Orders = Some (map fst was), oa_Grouping = ''na'', oa_Builder = b \<rparr>)))"

text \<open>What is promised of one order: asset, side, flags, identifier and the exact numbers.\<close>

definition faithful_order ::
    "('d \<Rightarrow> rat) \<Rightarrow> Resolver \<Rightarrow> 'd OrderRequest \<Rightarrow> OrderWire \<Rightarrow> bool" where
  "faithful_order val R r w \<longleftrightarrow>
     (\<exists>a. resolveAsset R r = Inr a \<and> ow_Asset w = word_of_int (a_ID a)) \<and>
     ow_IsBuy w = or_IsBuy r \<and> ow_ReduceOnly w = or_ReduceOnly r \<and>
     ow_Cloid w = map_option Cloid_String (or_ClientOrderID r) \<and>
     parse_decimal (ow_Price w) = Some (val (or_Price r)) \<and> 0 < val (or_Price r) \<and>
     parse_decimal (ow_Size w) = Some (val (or_Size r)) \<and> 0 < val (or_Size r) \<and>
     (case or_Type r of
        None \<Rightarrow> False
      | Some (LimitOrder tif) \<Rightarrow> ow_Type w = Some (Limit \<lparr> lo_TIF = tif \<rparr>)
      | Some (TriggerOrder m px tpsl) \<Rightarrow> (\<exists>t. parse_decimal t = Some (val px) \<and> 0 < val px \<and>
          ow_Type w = Some (Trigger \<lparr> to_IsMarket = m, to_TriggerPx = t, to_TPSL = tpsl \<rparr>)))"

lemma formatSize_ok:
  assumes "decimal_laws D val" "formatSize D x sz = Inr s"
  shows "parse_decimal s = Some (val x) \<and> 0 < val x"
  using assms by (auto simp: formatSize_def decimal_laws_def split: if_splits)

lemma order_type_wire_ok:
  assumes "decimal_laws D val" "order_type_wire D a ty = Inr k"
  shows "case ty of None \<Rightarrow> False | Some (LimitOrder tif) \<Rightarrow> k = Limit \<lparr> lo_TIF = tif \<rparr>
    | Some (TriggerOrder m px tpsl) \<Rightarrow> (\<exists>t. parse_decimal t = Some (val px) \<and> 0 < val px \<and>
        k = Trigger \<lparr> to_IsMarket = m, to_TriggerPx = t, to_TPSL = tpsl \<rparr>)"
proof (cases ty)
  case (Some t)
  then show ?thesis
    using assms(2) formatPrice_ok(2,3) [OF assms(1)] by (cases t) (auto split: if_splits)
qed (use assms(2) in simp)

lemma orderWire_faithful:
  assumes laws: "decimal_laws D val" and "resolveAsset R r = Inr a" "orderWire D r a = Inr w"
  shows "faithful_order val R r w"
proof -
  obtain p s k where p: "formatPrice D (or_Price r) a = Inr p"
      and s: "formatSize D (or_Size r) (a_SzDecimals a) = Inr s"
      and k: "order_type_wire D a (or_Type r) = Inr k"
      and w: "w = \<lparr> ow_Asset = word_of_int (a_ID a), ow_IsBuy = or_IsBuy r, ow_Price = p,
        ow_Size = s, ow_ReduceOnly = or_ReduceOnly r, ow_Type = Some k,
        ow_Cloid = map_option Cloid_String (or_ClientOrderID r) \<rparr>"
    using assms(3) by (auto simp: orderWire_def)
  show ?thesis
    using formatPrice_ok(2,3) [OF laws p] formatSize_ok [OF laws s] order_type_wire_ok [OF laws k]
      assms(2)
    by (auto simp: faithful_order_def w split: option.splits orderType.splits)
qed

lemma place_one_faithful:
  "decimal_laws D val \<Longrightarrow> place_one D R r = Inr (w, a) \<Longrightarrow> faithful_order val R r w"
  by (auto simp: place_one_def orderWire_faithful split: if_splits)

lemma PlaceOrders_faithful:
  assumes "decimal_laws D val" "PlaceOrders_action L D (Some R) rs = Inr act"
  shows "oa_Grouping act = ''na'' \<and>
    (\<exists>ws. oa_Orders act = Some ws \<and> list_all2 (faithful_order val R) rs ws)"
proof -
  obtain was b where was: "map_res (place_one D R) rs = Inr was"
      and act: "act = \<lparr> oa_Orders = Some (map fst was), oa_Grouping = ''na'', oa_Builder = b \<rparr>"
    using assms(2) by (auto simp: PlaceOrders_action_def split: if_splits)
  have "list_all2 (\<lambda>r x. place_one D R r = Inr x) rs was" using was by (simp add: map_res_Inr)
  then have "list_all2 (faithful_order val R) rs (map fst was)"
    unfolding list_all2_map2
    by (rule list.rel_mono_strong) (metis place_one_faithful [OF assms(1)] prod.collapse)
  then show ?thesis by (simp add: act)
qed

text \<open>
  C30: the action that is signed for a batch of orders has one order per request,
  in the caller's order, each on the asset the resolver answered, with the caller's side, flags,
  order type and client order id, and with price, size and trigger price texts that denote exactly
  the caller's positive values.
\<close>

theorem orders_faithful:
  assumes "decimal_laws D val" "PlaceOrders_action L D (Some R) rs = Inr act"
  shows "oa_Grouping act = ''na'' \<and>
    (\<exists>ws. oa_Orders act = Some ws \<and> list_all2 (faithful_order val R) rs ws)"
  using assms by (rule PlaceOrders_faithful)

definition sample_order :: "sdec OrderRequest" where
  "sample_order = \<lparr> or_Coin = ''ETH'', or_Market = None, or_IsBuy = True, or_Price = (19255, 1),
     or_Size = (2, 0), or_ReduceOnly = False, or_Type = Some (LimitOrder ''Gtc''),
     or_ClientOrderID = None, or_Builder = Some \<lparr> bu_Address = 7, bu_Fee = 10 \<rparr> \<rparr>"

definition sample_resolver :: Resolver where
  "sample_resolver = \<lparr> rs_Resolve = (\<lambda>_. Inr sample_perp), rs_ResolveMarket = None \<rparr>"

lemma sample_size: "formatSize sample_dec (2, 0) 4 = Inr ''2''"
  by (simp add: formatSize_def sample_dec_def wrap_i32_def int_trunc_div_def show_nat.simps Let_def)
    code_simp

lemma sample_place: "\<exists>act. PlaceOrders_action sample_lib sample_dec (Some sample_resolver)
    [sample_order] = Inr act"
proof -
  have sz: "a_SzDecimals sample_perp = 4" and kind: "a_Kind sample_perp = Perp"
    by (simp_all add: sample_perp_def)
  show ?thesis
    by (simp add: PlaceOrders_action_def place_one_def resolveAsset_def orderWire_def
        sample_order_def sample_resolver_def sample_price sample_size sz kind builderForOrders_def
        builder_cap_def kind_defs del: One_nat_def)
qed

theorem orders_faithful_witness:
  "\<exists>act. PlaceOrders_action sample_lib sample_dec (Some sample_resolver) [sample_order] = Inr act \<and>
     oa_Grouping act = ''na''"
  using sample_place orders_faithful [OF decimal_laws_sample] by blast

text \<open>
  The builder: \<open>bs\<close> are the builder fields of the requests with the fee cap of each market.
\<close>

lemma builder_loop_ok:
  "builder_loop L has out ras = Inr b \<Longrightarrow>
   (\<forall>(r, a) \<in> set ras. (or_Builder r \<noteq> None) = has \<and> (case or_Builder r of None \<Rightarrow> True
      | Some x \<Rightarrow> bu_Address x \<noteq> 0 \<and> bu_Fee x \<noteq> 0 \<and> bu_Fee x \<le> builder_cap a \<and>
          b = Some \<lparr> bw_Address = to_lower (Hex L (bu_Address x)), bw_Fee = bu_Fee x \<rparr>)) \<and>
   (out \<noteq> None \<or> \<not> has \<or> ras = [] \<longrightarrow> b = out)"
proof (induction ras arbitrary: out)
  case (Cons ra ras)
  obtain r a where ra: "ra = (r, a)" by (cases ra)
  show ?case
  proof (cases "or_Builder r")
    case None
    then show ?thesis using Cons.IH [of out] Cons.prems ra by (auto split: if_splits)
  next
    case (Some x)
    let ?c = "\<lparr> bw_Address = to_lower (Hex L (bu_Address x)), bw_Fee = bu_Fee x \<rparr>"
    have ok: has "bu_Address x \<noteq> 0" "bu_Fee x \<noteq> 0" "bu_Fee x \<le> builder_cap a"
      using Cons.prems Some ra by (auto simp: not_less split: if_splits)
    have out: "out = None \<or> out = Some ?c" and rest: "builder_loop L has (Some ?c) ras = Inr b"
      using Cons.prems Some ra ok
      by (auto simp: Let_def not_less split: if_splits option.splits)
    have "b = Some ?c" using Cons.IH [OF rest] by blast
    then show ?thesis using Cons.IH [OF rest] ok out Some ra by auto
  qed
qed simp

text \<open>
  If a batch is accepted, its builder is the one builder that every request
  names (none if no request names one): the same non-zero address and the same fee, positive and
  within the cap of every market in the batch (1,000 tenths of a basis point for spot and outcome
  markets, 100 for perpetuals).
\<close>

theorem builder_sound:
  assumes "builderForOrders L rs as = Inr b" "(r, a) \<in> set (zip rs as)"
  shows "(case or_Builder r of
      None \<Rightarrow> b = None
    | Some x \<Rightarrow> b = Some \<lparr> bw_Address = to_lower (Hex L (bu_Address x)), bw_Fee = bu_Fee x \<rparr> \<and>
        bu_Address x \<noteq> 0 \<and> 0 < bu_Fee x \<and> bu_Fee x \<le> builder_cap a)"
proof -
  have loop: "builder_loop L (or_Builder (hd rs) \<noteq> None) None (zip rs as) = Inr b"
    using assms(1) by (simp add: builderForOrders_def split: if_splits)
  from builder_loop_ok [OF this] assms(2) show ?thesis
    by (cases "or_Builder r") (force simp: word_neq_0_conv)+
qed

theorem builder_sound_witness:
  "builderForOrders sample_lib [sample_order] [sample_perp] =
     Inr (Some \<lparr> bw_Address = to_lower (Hex sample_lib 7), bw_Fee = 10 \<rparr>)"
proof -
  obtain b where b: "builderForOrders sample_lib [sample_order] [sample_perp] = Inr b"
    by (simp add: builderForOrders_def sample_order_def builder_cap_def sample_perp_def kind_defs)
  from builder_sound [OF b, of sample_order sample_perp] b show ?thesis
    by (simp add: sample_order_def)
qed

section \<open>Client order identifiers in JSON\<close>

text \<open>\<open>random\<close> is what the random source fills the 16 bytes with, or its error.\<close>

definition NewCloid :: "byte list res \<Rightarrow> byte list res" where
  "NewCloid random = wrap_res ''generate cloid'' random"

definition Cloid_MarshalJSON :: "byte list \<Rightarrow> jval" where
  "Cloid_MarshalJSON c = JStr (Cloid_String c)"

text \<open>A JSON null leaves the string empty, which is no identifier.\<close>

definition Cloid_UnmarshalJSON :: "jval \<Rightarrow> byte list res" where
  "Cloid_UnmarshalJSON v =
     (case v of JStr raw \<Rightarrow> ParseCloid raw | JNull \<Rightarrow> ParseCloid [] | _ \<Rightarrow> Inl ''json: cannot unmarshal into string'')"

lemma cloid_json_roundtrip:
  "length c = 16 \<Longrightarrow> Cloid_UnmarshalJSON (Cloid_MarshalJSON c) = Inr c"
  by (simp add: Cloid_UnmarshalJSON_def Cloid_MarshalJSON_def ParseCloid_def Cloid_String_def)

lemma cloid_json_checked:
  "Cloid_UnmarshalJSON v = Inr c \<Longrightarrow> length c = 16 \<and> (\<exists>s. v = JStr s)"
  by (auto simp: Cloid_UnmarshalJSON_def ParseCloid_def dest: hex_decode_length split: jval.splits if_splits
      option.splits)

end
