(* ===== verification/Calls.thy ===== *)
theory Calls
  imports Exchange Orders
begin

text \<open>
  The methods of the exchange client, one definition per method, over the submission paths of the
  theory \<open>Exchange\<close>. A method checks its request, resolves the market, builds the action and submits
  it. Every method but \<open>Noop\<close> and the multi-signature ones keeps the contract of a managed call
  (collection \<open>calls\<close>); the last section draws the consequences for whole runs of a client.
\<close>

section \<open>The setting of a call\<close>

text \<open>The external code, the client, and the resolver's answers during the call.\<close>

record ('n, 'd) sys =
  sy_L :: lib
  sy_C :: crypto
  sy_D :: "'d dec"
  sy_E :: "'n env"
  sy_c :: Client
  sy_R :: "Resolver option"

text \<open>The submission paths in a setting: with the configured vault, with none signed, with none at all.\<close>

definition l1 :: "('n, 'd) sys \<Rightarrow> L1Action \<Rightarrow> 'n call" where
  "l1 S a = submitL1 (sy_L S) (sy_C S) (sy_E S) (sy_c S) a"

definition l1_for_none :: "('n, 'd) sys \<Rightarrow> L1Action \<Rightarrow> 'n call" where
  "l1_for_none S a =
     submitL1For (sy_L S) (sy_C S) (sy_E S) (sy_c S) a None (cl_expiresAfter (sy_c S))"

definition l1_bare :: "('n, 'd) sys \<Rightarrow> L1Action \<Rightarrow> 'n call" where
  "l1_bare S a =
     submitL1WithoutVault (sy_L S) (sy_C S) (sy_E S) (sy_c S) a (cl_expiresAfter (sy_c S))"

definition l1_at :: "('n, 'd) sys \<Rightarrow> L1Action \<Rightarrow> u64 \<Rightarrow> 'n call" where
  "l1_at S a n = submitL1AtNonceWithOuter (sy_L S) (sy_C S) (sy_E S) (sy_c S) a n None
     (cl_expiresAfter (sy_c S)) None"

definition user_signed :: "('n, 'd) sys \<Rightarrow> (u64 \<Rightarrow> UserSignedAction) \<Rightarrow> 'n call" where
  "user_signed S f = userActionNonce (sy_E S) (sy_c S)
     (\<lambda>n. submitUserSigned (sy_L S) (sy_C S) (sy_E S) (sy_c S) (f n))"

abbreviation keeps :: "('n, 'd) sys \<Rightarrow> 'n call \<Rightarrow> bool" where
  "keeps S f \<equiv> behaves (client_vouched (sy_L S) (sy_C S) (sy_c S)) (sy_E S)
     (client_address (sy_c S)) f"

named_theorems calls

lemma path_keeps:
  "keeps S (l1 S a)" "keeps S (l1_for_none S a)" "keeps S (l1_bare S a)"
  "(\<And>n. ActionNonce (f n) = n) \<Longrightarrow> keeps S (user_signed S f)"
  by (simp_all add: l1_def l1_for_none_def l1_bare_def user_signed_def call_behaves
      userActionNonce_behaves)

lemma l1_at_posts:
  "posts_at (client_vouched (sy_L S) (sy_C S) (sy_c S)) (sy_E S) n (l1_at S a n)"
  by (simp add: l1_at_def submitL1AtNonceWithOuter_posts)

lemma option_keeps:
  "(p = None \<Longrightarrow> keeps S f) \<Longrightarrow> (\<And>x. p = Some x \<Longrightarrow> keeps S (g x)) \<Longrightarrow>
   keeps S (case p of None \<Rightarrow> f | Some x \<Rightarrow> g x)"
  by (cases p) simp_all

lemmas keep_rules = behaves_fail behaves_attempt behaves_if option_keeps path_keeps

section \<open>Orders\<close>

definition PlaceOrders :: "('n, 'd) sys \<Rightarrow> 'd OrderRequest list \<Rightarrow> 'n call" where
  "PlaceOrders S rs =
     attempt (PlaceOrders_action (sy_L S) (sy_D S) (sy_R S) rs) (\<lambda>a. l1 S (LOrder a))"

lemma PlaceOrders_keeps [calls]: "keeps S (PlaceOrders S rs)"
  unfolding PlaceOrders_def by (intro keep_rules; simp)

definition PlaceOrder :: "('n, 'd) sys \<Rightarrow> 'd OrderRequest \<Rightarrow> 'n call" where
  "PlaceOrder S r =
     PlaceOrders S [r]"

lemma PlaceOrder_keeps [calls]: "keeps S (PlaceOrder S r)"
  unfolding PlaceOrder_def by (rule PlaceOrders_keeps)

record 'd ModifyRequest =
  mr_OID :: u64
  mr_Cloid :: "byte list option"
  mr_Order :: "'d OrderRequest"

definition orderWireForModify :: "'d dec \<Rightarrow> Resolver \<Rightarrow> 'd OrderRequest \<Rightarrow> OrderWire res" where
  "orderWireForModify D R r = bind_res (resolveAsset R r) (orderWire D r)"

definition modify_one :: "'d dec \<Rightarrow> Resolver \<Rightarrow> 'd ModifyRequest \<Rightarrow> ModifyWire res" where
  "modify_one D R r =
     (if (mr_OID r = 0) = (mr_Cloid r = None)
      then Inl ''specify exactly one numeric order ID or cloid''
      else bind_res (orderWireForModify D R (mr_Order r)) (\<lambda>w.
        Inr \<lparr> mw_OID = mr_OID r, mw_Cloid = map_option Cloid_String (mr_Cloid r), mw_Order = w \<rparr>))"

definition BatchModify :: "('n, 'd) sys \<Rightarrow> 'd ModifyRequest list \<Rightarrow> 'n call" where
  "BatchModify S rs =
     (if rs = [] then fail ''at least one modification is required''
      else case sy_R S of None \<Rightarrow> fail ''asset resolver is required''
      | Some R \<Rightarrow> attempt (map_res (modify_one (sy_D S) R) rs) (\<lambda>ws.
          l1 S (LBatchModify \<lparr> bm_Modifies = Some ws \<rparr>)))"

lemma BatchModify_keeps [calls]: "keeps S (BatchModify S rs)"
  unfolding BatchModify_def by (intro keep_rules; simp)

definition ModifyOrder :: "('n, 'd) sys \<Rightarrow> 'd ModifyRequest \<Rightarrow> 'n call" where
  "ModifyOrder S r =
     BatchModify S [r]"

lemma ModifyOrder_keeps [calls]: "keeps S (ModifyOrder S r)"
  unfolding ModifyOrder_def by (rule BatchModify_keeps)

record CancelRequest =
  cq_Coin :: string
  cq_OID :: u64

definition cancel_one :: "Resolver \<Rightarrow> CancelRequest \<Rightarrow> CancelWire res" where
  "cancel_one R r =
     (if cq_Coin r = [] \<or> cq_OID r = 0 then Inl ''invalid cancel request''
      else bind_res (rs_Resolve R (cq_Coin r)) (\<lambda>a.
        Inr \<lparr> cw_Asset = word_of_int (a_ID a), cw_OID = cq_OID r \<rparr>))"

definition CancelOrders :: "('n, 'd) sys \<Rightarrow> CancelRequest list \<Rightarrow> 'n call" where
  "CancelOrders S rs =
     (if rs = [] then fail ''at least one cancel is required''
      else case sy_R S of None \<Rightarrow> fail ''asset resolver is required''
      | Some R \<Rightarrow> attempt (map_res (cancel_one R) rs) (\<lambda>ws.
          l1 S (LCancel \<lparr> ca_Cancels = Some ws \<rparr>)))"

lemma CancelOrders_keeps [calls]: "keeps S (CancelOrders S rs)"
  unfolding CancelOrders_def by (intro keep_rules; simp)

definition CancelOrder :: "('n, 'd) sys \<Rightarrow> CancelRequest \<Rightarrow> 'n call" where
  "CancelOrder S r =
     CancelOrders S [r]"

lemma CancelOrder_keeps [calls]: "keeps S (CancelOrder S r)"
  unfolding CancelOrder_def by (rule CancelOrders_keeps)

record CancelByCloidRequest =
  cb_Coin :: string
  cb_Cloid :: "byte list"

definition cancel_one_cloid :: "Resolver \<Rightarrow> CancelByCloidRequest \<Rightarrow> CancelByCloidWire res" where
  "cancel_one_cloid R r =
     (if cb_Coin r = [] then Inl ''invalid cancel request''
      else bind_res (rs_Resolve R (cb_Coin r)) (\<lambda>a.
        Inr \<lparr> cc_Asset = word_of_int (a_ID a), cc_Cloid = Cloid_String (cb_Cloid r) \<rparr>))"

definition CancelByCloids :: "('n, 'd) sys \<Rightarrow> CancelByCloidRequest list \<Rightarrow> 'n call" where
  "CancelByCloids S rs =
     (if rs = [] then fail ''at least one cancel is required''
      else case sy_R S of None \<Rightarrow> fail ''asset resolver is required''
      | Some R \<Rightarrow> attempt (map_res (cancel_one_cloid R) rs) (\<lambda>ws.
          l1 S (LCancelByCloid \<lparr> cca_Cancels = Some ws \<rparr>)))"

lemma CancelByCloids_keeps [calls]: "keeps S (CancelByCloids S rs)"
  unfolding CancelByCloids_def by (intro keep_rules; simp)

definition CancelByCloid :: "('n, 'd) sys \<Rightarrow> CancelByCloidRequest \<Rightarrow> 'n call" where
  "CancelByCloid S r =
     CancelByCloids S [r]"

lemma CancelByCloid_keeps [calls]: "keeps S (CancelByCloid S r)"
  unfolding CancelByCloid_def by (rule CancelByCloids_keeps)

definition ScheduleCancel :: "('n, 'd) sys \<Rightarrow> u64 option \<Rightarrow> 'n call" where
  "ScheduleCancel S time =
     l1 S (LScheduleCancel \<lparr> sc_Time = time \<rparr>)"

lemma ScheduleCancel_keeps [calls]: "keeps S (ScheduleCancel S time)"
  unfolding ScheduleCancel_def by (intro keep_rules; simp)

section \<open>TWAP orders\<close>

definition resolveTWAPAsset :: "Resolver option \<Rightarrow> string \<Rightarrow> MarketRef option \<Rightarrow> Asset res" where
  "resolveTWAPAsset assets coin market =
     (case assets of None \<Rightarrow> Inl ''asset resolver is required''
      | Some R \<Rightarrow> (case market of
          Some m \<Rightarrow> (if coin \<noteq> [] then Inl ''specify either TWAP coin or market reference, not both''
            else case rs_ResolveMarket R of
              None \<Rightarrow> Inl ''asset resolver does not support market references'' | Some f \<Rightarrow> f m)
        | None \<Rightarrow> (if coin = [] then Inl ''TWAP coin is required'' else rs_Resolve R coin)))"

record 'd TWAPOrderRequest =
  to2_Coin :: string
  to2_Market :: "MarketRef option"
  to2_IsBuy :: bool
  to2_Size :: "'d"
  to2_ReduceOnly :: bool
  to2_Minutes :: u64
  to2_Randomize :: bool

definition PlaceTWAP :: "('n, 'd) sys \<Rightarrow> 'd TWAPOrderRequest \<Rightarrow> 'n call" where
  "PlaceTWAP S r =
     (if \<not> IsPositive (sy_D S) (to2_Size r) then fail ''TWAP size must be positive''
      else if to2_Minutes r = 0 then fail ''TWAP minutes must be positive''
      else attempt (resolveTWAPAsset (sy_R S) (to2_Coin r) (to2_Market r)) (\<lambda>a.
        attempt (wrap_res ''invalid TWAP size''
          (formatSize (sy_D S) (to2_Size r) (a_SzDecimals a))) (\<lambda>size.
        l1 S (LTWAPOrder \<lparr> ta_TWAP = \<lparr> tw_Asset = word_of_int (a_ID a), tw_IsBuy = to2_IsBuy r,
          tw_Size = size, tw_ReduceOnly = to2_ReduceOnly r, tw_Minutes = to2_Minutes r,
          tw_Randomize = to2_Randomize r \<rparr> \<rparr>))))"

lemma PlaceTWAP_keeps [calls]: "keeps S (PlaceTWAP S r)"
  unfolding PlaceTWAP_def by (intro keep_rules; simp)

record TWAPCancelRequest =
  tcr_Coin :: string
  tcr_Market :: "MarketRef option"
  tcr_TWAPID :: u64

definition CancelTWAP :: "('n, 'd) sys \<Rightarrow> TWAPCancelRequest \<Rightarrow> 'n call" where
  "CancelTWAP S r =
     (if tcr_TWAPID r = 0 then fail ''TWAP ID must be positive''
      else attempt (resolveTWAPAsset (sy_R S) (tcr_Coin r) (tcr_Market r)) (\<lambda>a.
        l1 S (LTWAPCancel \<lparr> tc_Asset = word_of_int (a_ID a), tc_TWAPID = tcr_TWAPID r \<rparr>)))"

lemma CancelTWAP_keeps [calls]: "keeps S (CancelTWAP S r)"
  unfolding CancelTWAP_def by (intro keep_rules; simp)

section \<open>Leverage and margin\<close>

definition resolvePerpetualAsset :: "Resolver option \<Rightarrow> string \<Rightarrow> MarketRef option \<Rightarrow> Asset res" where
  "resolvePerpetualAsset assets coin market =
     (case assets of None \<Rightarrow> Inl ''asset resolver is required''
      | Some R \<Rightarrow> bind_res (case market of
          Some m \<Rightarrow> (if coin \<noteq> [] then Inl ''specify either coin or market reference, not both''
            else case rs_ResolveMarket R of
              None \<Rightarrow> Inl ''asset resolver does not support market references'' | Some f \<Rightarrow> f m)
        | None \<Rightarrow> (if coin = [] then Inl ''coin is required'' else rs_Resolve R coin)) (\<lambda>resolved.
        if a_Kind resolved \<noteq> Perp \<and> a_Kind resolved \<noteq> HIP3
        then Inl ''action requires a perpetual asset'' else Inr resolved))"

record UpdateLeverageRequest =
  ur_Coin :: string
  ur_Market :: "MarketRef option"
  ur_IsCross :: bool
  ur_Leverage :: u64

definition UpdateLeverage :: "('n, 'd) sys \<Rightarrow> UpdateLeverageRequest \<Rightarrow> 'n call" where
  "UpdateLeverage S r =
     (if ur_Leverage r = 0 then fail ''leverage must be positive''
      else attempt (resolvePerpetualAsset (sy_R S) (ur_Coin r) (ur_Market r)) (\<lambda>a.
        l1 S (LUpdateLeverage \<lparr> ul_Asset = word_of_int (a_ID a), ul_IsCross = ur_IsCross r,
          ul_Leverage = ur_Leverage r \<rparr>)))"

lemma UpdateLeverage_keeps [calls]: "keeps S (UpdateLeverage S r)"
  unfolding UpdateLeverage_def by (intro keep_rules; simp)

record 'd UpdateIsolatedMarginRequest =
  im_Coin :: string
  im_Market :: "MarketRef option"
  im_IsBuy :: bool
  im_Amount :: "'d"

definition UpdateIsolatedMargin :: "('n, 'd) sys \<Rightarrow> 'd UpdateIsolatedMarginRequest \<Rightarrow> 'n call" where
  "UpdateIsolatedMargin S r =
     attempt (usdcMicros (sy_D S) (im_Amount r)) (\<lambda>ntli.
      attempt (resolvePerpetualAsset (sy_R S) (im_Coin r) (im_Market r)) (\<lambda>a.
      l1 S (LUpdateIsolatedMargin \<lparr> ui_Asset = word_of_int (a_ID a), ui_IsBuy = im_IsBuy r,
        ui_NTLI = ntli \<rparr>)))"

lemma UpdateIsolatedMargin_keeps [calls]: "keeps S (UpdateIsolatedMargin S r)"
  unfolding UpdateIsolatedMargin_def by (intro keep_rules; simp)

record 'd TopUpIsolatedOnlyMarginRequest =
  tm_Coin :: string
  tm_Market :: "MarketRef option"
  tm_Leverage :: "'d"

definition TopUpIsolatedOnlyMargin :: "('n, 'd) sys \<Rightarrow> 'd TopUpIsolatedOnlyMarginRequest \<Rightarrow> 'n call" where
  "TopUpIsolatedOnlyMargin S r =
     (if \<not> IsPositive (sy_D S) (tm_Leverage r) then fail ''target leverage must be positive''
      else attempt (resolvePerpetualAsset (sy_R S) (tm_Coin r) (tm_Market r)) (\<lambda>a.
        l1 S (LTopUpIsolatedOnlyMargin \<lparr> tu_Asset = word_of_int (a_ID a),
          tu_Leverage = dec_String (sy_D S) (tm_Leverage r) \<rparr>)))"

lemma TopUpIsolatedOnlyMargin_keeps [calls]: "keeps S (TopUpIsolatedOnlyMargin S r)"
  unfolding TopUpIsolatedOnlyMargin_def by (intro keep_rules; simp)

definition ReserveRequestWeight :: "('n, 'd) sys \<Rightarrow> u64 \<Rightarrow> 'n call" where
  "ReserveRequestWeight S weight =
     (if weight = 0 then fail ''request weight must be positive''
      else l1_bare S (LReserveRequestWeight \<lparr> rr_Weight = weight \<rparr>))"

lemma ReserveRequestWeight_keeps [calls]: "keeps S (ReserveRequestWeight S weight)"
  unfolding ReserveRequestWeight_def by (intro keep_rules; simp)

text \<open>The one single-signature method at a nonce of the caller's.\<close>

definition Noop :: "('n, 'd) sys \<Rightarrow> u64 \<Rightarrow> 'n call" where
  "Noop S n =
     (if n = 0 then fail ''noop nonce must be positive'' else l1_at S LNoop n)"

lemma Noop_posts:
  "posts_at (client_vouched (sy_L S) (sy_C S) (sy_c S)) (sy_E S) n (Noop S n)"
  by (cases "n = 0") (simp_all add: Noop_def l1_at_posts)

section \<open>User-signed methods\<close>

record 'd SendToEVMWithDataRequest =
  ev_Token :: string
  ev_Amount :: "'d"
  ev_SourceDEX :: string
  ev_DestinationRecipient :: string
  ev_AddressEncoding :: string
  ev_DestinationChainID :: u32
  ev_GasLimit :: u64
  ev_Data :: "byte list"

definition SendToEVMWithData :: "('n, 'd) sys \<Rightarrow> 'd SendToEVMWithDataRequest \<Rightarrow> 'n call" where
  "SendToEVMWithData S r =
     (if ev_Token r = [] \<or> \<not> IsPositive (sy_D S) (ev_Amount r) \<or> ev_DestinationRecipient r = [] \<or>
         ev_DestinationChainID r = 0 \<or> ev_GasLimit r = 0
      then fail ''token, positive amount, recipient, destination chain ID, and gas limit are required''
      else if ev_AddressEncoding r \<noteq> ''hex'' \<and> ev_AddressEncoding r \<noteq> ''base58''
      then fail ''unsupported destination address encoding''
      else if ev_AddressEncoding r = ''hex'' \<and> \<not> IsHexAddress (sy_L S) (ev_DestinationRecipient r)
      then fail ''hex destination recipient is invalid''
      else user_signed S (\<lambda>n. USendToEVMWithData \<lparr> se_Token = ev_Token r,
        se_Amount = dec_String (sy_D S) (ev_Amount r), se_SourceDEX = ev_SourceDEX r,
        se_DestinationRecipient = ev_DestinationRecipient r,
        se_AddressEncoding = ev_AddressEncoding r, se_DestinationChainID = ev_DestinationChainID r,
        se_GasLimit = ev_GasLimit r, se_Data = ev_Data r, se_Nonce = n \<rparr>))"

lemma SendToEVMWithData_keeps [calls]: "keeps S (SendToEVMWithData S r)"
  unfolding SendToEVMWithData_def by (intro keep_rules; simp)

definition CDeposit :: "('n, 'd) sys \<Rightarrow> u64 \<Rightarrow> 'n call" where
  "CDeposit S wei =
     (if wei = 0 then fail ''staking deposit wei must be positive''
      else user_signed S (\<lambda>n. UCDeposit \<lparr> cd_Wei = wei, cd_Nonce = n \<rparr>))"

lemma CDeposit_keeps [calls]: "keeps S (CDeposit S wei)"
  unfolding CDeposit_def by (intro keep_rules; simp)

definition DepositStaking :: "('n, 'd) sys \<Rightarrow> u64 \<Rightarrow> 'n call" where
  "DepositStaking S wei =
     CDeposit S wei"

lemma DepositStaking_keeps [calls]: "keeps S (DepositStaking S wei)"
  unfolding DepositStaking_def by (rule CDeposit_keeps)

definition CWithdraw :: "('n, 'd) sys \<Rightarrow> u64 \<Rightarrow> 'n call" where
  "CWithdraw S wei =
     (if wei = 0 then fail ''staking withdrawal wei must be positive''
      else user_signed S (\<lambda>n. UCWithdraw \<lparr> cw2_Wei = wei, cw2_Nonce = n \<rparr>))"

lemma CWithdraw_keeps [calls]: "keeps S (CWithdraw S wei)"
  unfolding CWithdraw_def by (intro keep_rules; simp)

definition WithdrawStaking :: "('n, 'd) sys \<Rightarrow> u64 \<Rightarrow> 'n call" where
  "WithdrawStaking S wei =
     CWithdraw S wei"

lemma WithdrawStaking_keeps [calls]: "keeps S (WithdrawStaking S wei)"
  unfolding WithdrawStaking_def by (rule CWithdraw_keeps)

record TokenDelegateRequest =
  dr_Validator :: address
  dr_Wei :: u64
  dr_IsUndelegate :: bool

definition TokenDelegate :: "('n, 'd) sys \<Rightarrow> TokenDelegateRequest \<Rightarrow> 'n call" where
  "TokenDelegate S r =
     (if dr_Validator r = 0 \<or> dr_Wei r = 0
      then fail ''validator address and positive wei are required''
      else user_signed S (\<lambda>n. UTokenDelegate \<lparr> td2_Validator = dr_Validator r, td2_Wei = dr_Wei r,
        td2_IsUndelegate = dr_IsUndelegate r, td2_Nonce = n \<rparr>))"

lemma TokenDelegate_keeps [calls]: "keeps S (TokenDelegate S r)"
  unfolding TokenDelegate_def by (intro keep_rules; simp)

definition Delegate :: "('n, 'd) sys \<Rightarrow> address \<Rightarrow> u64 \<Rightarrow> 'n call" where
  "Delegate S validator wei =
     TokenDelegate S \<lparr> dr_Validator = validator, dr_Wei = wei, dr_IsUndelegate = False \<rparr>"

lemma Delegate_keeps [calls]: "keeps S (Delegate S validator wei)"
  unfolding Delegate_def by (rule TokenDelegate_keeps)

definition Undelegate :: "('n, 'd) sys \<Rightarrow> address \<Rightarrow> u64 \<Rightarrow> 'n call" where
  "Undelegate S validator wei =
     TokenDelegate S \<lparr> dr_Validator = validator, dr_Wei = wei, dr_IsUndelegate = True \<rparr>"

lemma Undelegate_keeps [calls]: "keeps S (Undelegate S validator wei)"
  unfolding Undelegate_def by (rule TokenDelegate_keeps)

definition validateTransfer :: "'d dec \<Rightarrow> address \<Rightarrow> 'd \<Rightarrow> unit res" where
  "validateTransfer D destination amount =
     (if destination = 0 then Inl ''transfer destination is required''
      else if \<not> IsPositive D amount then Inl ''transfer amount must be positive'' else Inr ())"

record 'd USDSendRequest =
  usr_Destination :: address
  usr_Amount :: "'d"

definition SendUSD :: "('n, 'd) sys \<Rightarrow> 'd USDSendRequest \<Rightarrow> 'n call" where
  "SendUSD S r =
     attempt (validateTransfer (sy_D S) (usr_Destination r) (usr_Amount r)) (\<lambda>_.
      user_signed S (\<lambda>n. UUSDSend \<lparr> us_Destination = usr_Destination r,
        us_Amount = dec_String (sy_D S) (usr_Amount r), us_Time = n \<rparr>))"

lemma SendUSD_keeps [calls]: "keeps S (SendUSD S r)"
  unfolding SendUSD_def by (intro keep_rules; simp)

record 'd SpotSendRequest =
  spr_Destination :: address
  spr_Token :: string
  spr_Amount :: "'d"

definition SendSpot :: "('n, 'd) sys \<Rightarrow> 'd SpotSendRequest \<Rightarrow> 'n call" where
  "SendSpot S r =
     attempt (validateTransfer (sy_D S) (spr_Destination r) (spr_Amount r)) (\<lambda>_.
      if spr_Token r = [] then fail ''spot token is required''
      else user_signed S (\<lambda>n. USpotSend \<lparr> ssn_Destination = spr_Destination r,
        ssn_Token = spr_Token r, ssn_Amount = dec_String (sy_D S) (spr_Amount r), ssn_Time = n \<rparr>))"

lemma SendSpot_keeps [calls]: "keeps S (SendSpot S r)"
  unfolding SendSpot_def by (intro keep_rules; simp)

record 'd WithdrawRequest =
  wr_Destination :: address
  wr_Amount :: "'d"

definition WithdrawFromBridge :: "('n, 'd) sys \<Rightarrow> 'd WithdrawRequest \<Rightarrow> 'n call" where
  "WithdrawFromBridge S r =
     attempt (validateTransfer (sy_D S) (wr_Destination r) (wr_Amount r)) (\<lambda>_.
      user_signed S (\<lambda>n. UWithdrawFromBridge \<lparr> wb_Destination = wr_Destination r,
        wb_Amount = dec_String (sy_D S) (wr_Amount r), wb_Time = n \<rparr>))"

lemma WithdrawFromBridge_keeps [calls]: "keeps S (WithdrawFromBridge S r)"
  unfolding WithdrawFromBridge_def by (intro keep_rules; simp)

record 'd USDClassTransferRequest =
  cr2_Amount :: "'d"
  cr2_ToPerp :: bool

definition TransferUSDClass :: "('n, 'd) sys \<Rightarrow> 'd USDClassTransferRequest \<Rightarrow> 'n call" where
  "TransferUSDClass S r =
     (if \<not> IsPositive (sy_D S) (cr2_Amount r) then fail ''transfer amount must be positive''
      else user_signed S (\<lambda>n. UUSDClassTransfer
        \<lparr> uc_Amount = dec_String (sy_D S) (cr2_Amount r) @ (case cl_vaultAddress (sy_c S) of
            None \<Rightarrow> [] | Some v \<Rightarrow> '' subaccount:'' @ Hex (sy_L S) v),
          uc_ToPerp = cr2_ToPerp r, uc_Nonce = n \<rparr>))"

lemma TransferUSDClass_keeps [calls]: "keeps S (TransferUSDClass S r)"
  unfolding TransferUSDClass_def by (intro keep_rules; simp)

record 'd SendAssetRequest =
  ar2_Destination :: address
  ar2_SourceDEX :: string
  ar2_DestinationDEX :: string
  ar2_Token :: string
  ar2_Amount :: "'d"
  ar2_FromSubAccount :: "address option"

text \<open>The source account: the configured vault when there is one, which the request must not contradict.\<close>

definition send_asset_source :: "address option \<Rightarrow> address option \<Rightarrow> (address option) res" where
  "send_asset_source vault from =
     (if from = Some 0 then Inl ''from subaccount address is invalid''
      else if vault \<noteq> None then
        (if from \<noteq> None \<and> from \<noteq> vault
         then Inl ''from subaccount does not match configured vault address'' else Inr vault)
      else Inr from)"

definition SendAsset :: "('n, 'd) sys \<Rightarrow> 'd SendAssetRequest \<Rightarrow> 'n call" where
  "SendAsset S r =
     attempt (validateTransfer (sy_D S) (ar2_Destination r) (ar2_Amount r)) (\<lambda>_.
      if ar2_Token r = [] then fail ''asset token is required''
      else attempt (send_asset_source (cl_vaultAddress (sy_c S)) (ar2_FromSubAccount r)) (\<lambda>from.
        user_signed S (\<lambda>n. USendAsset \<lparr> sa_Destination = ar2_Destination r,
          sa_SourceDEX = ar2_SourceDEX r, sa_DestinationDEX = ar2_DestinationDEX r,
          sa_Token = ar2_Token r, sa_Amount = dec_String (sy_D S) (ar2_Amount r),
          sa_FromSubAccount = from, sa_Nonce = n \<rparr>)))"

lemma SendAsset_keeps [calls]: "keeps S (SendAsset S r)"
  unfolding SendAsset_def by (intro keep_rules; simp)

record ApproveAgentRequest =
  apr_AgentAddress :: address
  apr_AgentName :: "string option"

definition ApproveAgent :: "('n, 'd) sys \<Rightarrow> ApproveAgentRequest \<Rightarrow> 'n call" where
  "ApproveAgent S r =
     (if apr_AgentAddress r = 0 then fail ''agent address is required''
      else user_signed S (\<lambda>n. UApproveAgent \<lparr> aa_AgentAddress = apr_AgentAddress r,
        aa_AgentName = apr_AgentName r, aa_Nonce = n \<rparr>))"

lemma ApproveAgent_keeps [calls]: "keeps S (ApproveAgent S r)"
  unfolding ApproveAgent_def by (intro keep_rules; simp)

record ApproveBuilderFeeRequest =
  abr_Builder :: address
  abr_MaxFeeRate :: string

definition ApproveBuilderFee :: "('n, 'd) sys \<Rightarrow> ApproveBuilderFeeRequest \<Rightarrow> 'n call" where
  "ApproveBuilderFee S r =
     (if abr_Builder r = 0 \<or> abr_MaxFeeRate r = []
      then fail ''builder address and maximum fee rate are required''
      else user_signed S (\<lambda>n. UApproveBuilderFee \<lparr> bf_Builder = abr_Builder r,
        bf_MaxFeeRate = abr_MaxFeeRate r, bf_Nonce = n \<rparr>))"

lemma ApproveBuilderFee_keeps [calls]: "keeps S (ApproveBuilderFee S r)"
  unfolding ApproveBuilderFee_def by (intro keep_rules; simp)

record UserDexAbstractionRequest =
  xr_User :: address
  xr_Enabled :: bool

definition UserDexAbstraction :: "('n, 'd) sys \<Rightarrow> UserDexAbstractionRequest \<Rightarrow> 'n call" where
  "UserDexAbstraction S r =
     (if xr_User r = 0 then fail ''user address is required''
      else user_signed S (\<lambda>n. UUserDexAbstraction \<lparr> ux_User = xr_User r, ux_Enabled = xr_Enabled r,
        ux_Nonce = n \<rparr>))"

lemma UserDexAbstraction_keeps [calls]: "keeps S (UserDexAbstraction S r)"
  unfolding UserDexAbstraction_def by (intro keep_rules; simp)

definition validUserAbstraction :: "string \<Rightarrow> bool" where
  "validUserAbstraction a \<longleftrightarrow> a \<in> {''disabled'', ''unifiedAccount'', ''portfolioMargin''}"

definition validAgentAbstraction :: "string \<Rightarrow> bool" where
  "validAgentAbstraction a \<longleftrightarrow> a \<in> {''i'', ''u'', ''p''}"

record UserSetAbstractionRequest =
  zr_User :: address
  zr_Abstraction :: string

definition UserSetAbstraction :: "('n, 'd) sys \<Rightarrow> UserSetAbstractionRequest \<Rightarrow> 'n call" where
  "UserSetAbstraction S r =
     (if zr_User r = 0 then fail ''user address is required''
      else if \<not> validUserAbstraction (zr_Abstraction r)
      then fail (''unsupported user abstraction '' @ quote (zr_Abstraction r))
      else user_signed S (\<lambda>n. UUserSetAbstraction \<lparr> uz_User = zr_User r,
        uz_Abstraction = zr_Abstraction r, uz_Nonce = n \<rparr>))"

lemma UserSetAbstraction_keeps [calls]: "keeps S (UserSetAbstraction S r)"
  unfolding UserSetAbstraction_def by (intro keep_rules; simp)

definition ConvertToMultiSigUser :: "('n, 'd) sys \<Rightarrow> MultiSigSignerSet option \<Rightarrow> 'n call" where
  "ConvertToMultiSigUser S signers =
     user_signed S (\<lambda>n. UConvertToMultiSigUser \<lparr> cm_Signers = signers, cm_Nonce = n \<rparr>)"

lemma ConvertToMultiSigUser_keeps [calls]: "keeps S (ConvertToMultiSigUser S signers)"
  unfolding ConvertToMultiSigUser_def by (intro keep_rules; simp)

section \<open>Agents, outcomes and validators\<close>

record 'd AgentSendAssetRequest =
  agr_Destination :: address
  agr_SourceDEX :: string
  agr_DestinationDEX :: string
  agr_Token :: string
  agr_Amount :: "'d"
  agr_FromSubAccount :: "address option"

definition AgentSendAsset :: "('n, 'd) sys \<Rightarrow> 'd AgentSendAssetRequest \<Rightarrow> 'n call" where
  "AgentSendAsset S r =
     attempt (validateTransfer (sy_D S) (agr_Destination r) (agr_Amount r)) (\<lambda>_.
      if agr_Token r = [] then fail ''asset token is required''
      else if agr_FromSubAccount r = Some 0 then fail ''from subaccount address is invalid''
      else userActionNonce (sy_E S) (sy_c S) (\<lambda>n. l1_at S (LAgentSendAsset
        \<lparr> as_Destination = Hex (sy_L S) (agr_Destination r), as_SourceDEX = agr_SourceDEX r,
          as_DestinationDEX = agr_DestinationDEX r, as_Token = agr_Token r,
          as_Amount = dec_String (sy_D S) (agr_Amount r),
          as_FromSubAccount = (case agr_FromSubAccount r of None \<Rightarrow> [] | Some a \<Rightarrow> Hex (sy_L S) a),
          as_Nonce = n \<rparr>) n))"

lemma AgentSendAsset_keeps [calls]: "keeps S (AgentSendAsset S r)"
  unfolding AgentSendAsset_def userActionNonce_def
  by (intro keep_rules with_managed_nonce_behaves l1_at_posts)

record AuthorizeAQAV2RoleRequest =
  aqr_Token :: u64
  aqr_Role :: string

definition AuthorizeAQAV2Role :: "('n, 'd) sys \<Rightarrow> AuthorizeAQAV2RoleRequest \<Rightarrow> 'n call" where
  "AuthorizeAQAV2Role S r =
     l1_bare S (LAuthorizeAQAV2Role \<lparr> aq_Token = aqr_Token r, aq_Role = aqr_Role r \<rparr>)"

lemma AuthorizeAQAV2Role_keeps [calls]: "keeps S (AuthorizeAQAV2Role S r)"
  unfolding AuthorizeAQAV2Role_def by (intro keep_rules; simp)

record HIP3LiquidatorTransferRequest =
  hlr_DEX :: string
  hlr_NTL :: u64
  hlr_IsDeposit :: bool

definition HIP3LiquidatorTransfer :: "('n, 'd) sys \<Rightarrow> HIP3LiquidatorTransferRequest \<Rightarrow> 'n call" where
  "HIP3LiquidatorTransfer S r =
     l1_bare S (LHIP3LiquidatorTransfer \<lparr> hl_DEX = hlr_DEX r, hl_NTL = hlr_NTL r,
      hl_IsDeposit = hlr_IsDeposit r \<rparr>)"

lemma HIP3LiquidatorTransfer_keeps [calls]: "keeps S (HIP3LiquidatorTransfer S r)"
  unfolding HIP3LiquidatorTransfer_def by (intro keep_rules; simp)

record 'd UserOutcomeRequest =
  uor_SplitOutcome :: "(u64 \<times> 'd) option"
  uor_MergeOutcome :: "(u64 \<times> 'd option) option"
  uor_MergeQuestion :: "(u64 \<times> 'd option) option"
  uor_NegateOutcome :: "(u64 \<times> u64 \<times> 'd) option"

definition UserOutcome_action :: "'d dec \<Rightarrow> 'd UserOutcomeRequest \<Rightarrow> UserOutcomeAction" where
  "UserOutcome_action D r =
     \<lparr> uo_Split = map_option (\<lambda>(oc, amount). \<lparr> so_Outcome = oc, so_Amount = dec_String D amount \<rparr>)
         (uor_SplitOutcome r),
       uo_Merge = map_option (\<lambda>(oc, amount). \<lparr> mo_Outcome = oc,
         mo_Amount = map_option (dec_String D) amount \<rparr>) (uor_MergeOutcome r),
       uo_Question = map_option (\<lambda>(q, amount). \<lparr> mq_Question = q,
         mq_Amount = map_option (dec_String D) amount \<rparr>) (uor_MergeQuestion r),
       uo_Negate = map_option (\<lambda>(q, oc, amount). \<lparr> no_Question = q, no_Outcome = oc,
         no_Amount = dec_String D amount \<rparr>) (uor_NegateOutcome r) \<rparr>"

definition UserOutcome :: "('n, 'd) sys \<Rightarrow> 'd UserOutcomeRequest \<Rightarrow> 'n call" where
  "UserOutcome S r =
     (let a = UserOutcome_action (sy_D S) r in
      attempt (UserOutcomeAction_MarshalMsgpack (sy_L S) a) (\<lambda>_. l1 S (LUserOutcome a)))"

lemma UserOutcome_keeps [calls]: "keeps S (UserOutcome S r)"
  unfolding UserOutcome_def Let_def by (intro keep_rules)

definition AgentEnableDexAbstraction :: "('n, 'd) sys \<Rightarrow> 'n call" where
  "AgentEnableDexAbstraction S =
     l1 S LAgentEnableDexAbstraction"

lemma AgentEnableDexAbstraction_keeps [calls]: "keeps S (AgentEnableDexAbstraction S)"
  unfolding AgentEnableDexAbstraction_def by (intro keep_rules; simp)

definition AgentSetAbstraction :: "('n, 'd) sys \<Rightarrow> string \<Rightarrow> 'n call" where
  "AgentSetAbstraction S abstraction =
     (if \<not> validAgentAbstraction abstraction
      then fail (''unsupported agent abstraction '' @ quote abstraction)
      else l1 S (LAgentSetAbstraction \<lparr> ag_Abstraction = abstraction \<rparr>))"

lemma AgentSetAbstraction_keeps [calls]: "keeps S (AgentSetAbstraction S abstraction)"
  unfolding AgentSetAbstraction_def by (intro keep_rules; simp)

definition ValidatorL1Stream :: "('n, 'd) sys \<Rightarrow> string \<Rightarrow> 'n call" where
  "ValidatorL1Stream S rate =
     (if NewFromString (sy_L S) rate = None \<or> rate = []
      then fail ''risk-free rate must be a decimal string''
      else l1 S (LValidatorL1Stream \<lparr> vs_RiskFreeRate = rate \<rparr>))"

lemma ValidatorL1Stream_keeps [calls]: "keeps S (ValidatorL1Stream S rate)"
  unfolding ValidatorL1Stream_def by (intro keep_rules; simp)

definition ClaimRewards :: "('n, 'd) sys \<Rightarrow> 'n call" where
  "ClaimRewards S =
     l1 S LClaimRewards"

lemma ClaimRewards_keeps [calls]: "keeps S (ClaimRewards S)"
  unfolding ClaimRewards_def by (intro keep_rules; simp)

definition SetReferrer :: "('n, 'd) sys \<Rightarrow> string \<Rightarrow> 'n call" where
  "SetReferrer S code =
     (if code = [] then fail ''referral code is required''
      else l1_for_none S (LSetReferrer \<lparr> sr_Code = code \<rparr>))"

lemma SetReferrer_keeps [calls]: "keeps S (SetReferrer S code)"
  unfolding SetReferrer_def by (intro keep_rules; simp)

section \<open>Accounts and vaults\<close>

definition CreateSubAccount :: "('n, 'd) sys \<Rightarrow> string \<Rightarrow> 'n call" where
  "CreateSubAccount S name =
     (if name = [] then fail ''subaccount name is required''
      else l1_for_none S (LCreateSubAccount \<lparr> cs_Name = name \<rparr>))"

lemma CreateSubAccount_keeps [calls]: "keeps S (CreateSubAccount S name)"
  unfolding CreateSubAccount_def by (intro keep_rules; simp)

record SubaccountTransferRequest =
  sbr_SubaccountUser :: address
  sbr_IsDeposit :: bool
  sbr_USD :: u64

definition TransferSubaccountUSD :: "('n, 'd) sys \<Rightarrow> SubaccountTransferRequest \<Rightarrow> 'n call" where
  "TransferSubaccountUSD S r =
     (if sbr_SubaccountUser r = 0 \<or> sbr_USD r = 0
      then fail ''subaccount address and USD amount are required''
      else l1_for_none S (LSubaccountTransfer \<lparr> st_SubaccountUser = Hex (sy_L S) (sbr_SubaccountUser r),
        st_IsDeposit = sbr_IsDeposit r, st_USD = sbr_USD r \<rparr>))"

lemma TransferSubaccountUSD_keeps [calls]: "keeps S (TransferSubaccountUSD S r)"
  unfolding TransferSubaccountUSD_def by (intro keep_rules; simp)

record 'd SubaccountSpotTransferRequest =
  ssr_SubaccountUser :: address
  ssr_IsDeposit :: bool
  ssr_Token :: string
  ssr_Amount :: "'d"

definition TransferSubaccountSpot :: "('n, 'd) sys \<Rightarrow> 'd SubaccountSpotTransferRequest \<Rightarrow> 'n call" where
  "TransferSubaccountSpot S r =
     (if ssr_SubaccountUser r = 0 \<or> ssr_Token r = [] \<or> \<not> IsPositive (sy_D S) (ssr_Amount r)
      then fail ''subaccount address, token, and positive amount are required''
      else l1_for_none S (LSubaccountSpotTransfer
        \<lparr> ss_SubaccountUser = Hex (sy_L S) (ssr_SubaccountUser r), ss_Token = ssr_Token r,
          ss_Amount = dec_String (sy_D S) (ssr_Amount r), ss_IsDeposit = ssr_IsDeposit r \<rparr>))"

lemma TransferSubaccountSpot_keeps [calls]: "keeps S (TransferSubaccountSpot S r)"
  unfolding TransferSubaccountSpot_def by (intro keep_rules; simp)

record VaultTransferRequest =
  vtr_VaultAddress :: address
  vtr_IsDeposit :: bool
  vtr_USD :: u64

definition TransferVaultUSD :: "('n, 'd) sys \<Rightarrow> VaultTransferRequest \<Rightarrow> 'n call" where
  "TransferVaultUSD S r =
     (if vtr_VaultAddress r = 0 \<or> vtr_USD r = 0 then fail ''vault address and USD amount are required''
      else l1_for_none S (LVaultTransfer \<lparr> vt_VaultAddress = Hex (sy_L S) (vtr_VaultAddress r),
        vt_IsDeposit = vtr_IsDeposit r, vt_USD = vtr_USD r \<rparr>))"

lemma TransferVaultUSD_keeps [calls]: "keeps S (TransferVaultUSD S r)"
  unfolding TransferVaultUSD_def by (intro keep_rules; simp)

record 'd CreateVaultRequest =
  cvr_Name :: string
  cvr_Description :: string
  cvr_InitialUSD :: "'d"

definition CreateVault :: "('n, 'd) sys \<Rightarrow> 'd CreateVaultRequest \<Rightarrow> 'n call" where
  "CreateVault S r =
     (if length (cvr_Name r) < 3 \<or> 50 < length (cvr_Name r) \<or>
         length (cvr_Description r) < 10 \<or> 250 < length (cvr_Description r)
      then fail ''vault name must be 3-50 characters and description 10-250 characters''
      else case nonNegativeUSDCMicros (sy_D S) (cvr_InitialUSD r) of
        Inl _ \<Rightarrow> fail ''vault initial USD must be at least 100''
      | Inr micros \<Rightarrow>
          if sint micros < 100000000 then fail ''vault initial USD must be at least 100''
          else with_managed_nonce (sy_E S) (sy_c S) ''signer and nonce manager are required''
            ''signer and nonce manager are required'' (\<lambda>n.
            submitL1AtNonce (sy_L S) (sy_C S) (sy_E S) (sy_c S) (LCreateVault
              \<lparr> cv_Name = cvr_Name r, cv_Description = cvr_Description r, cv_InitialUSD = micros,
                cv_Nonce = n \<rparr>) n None (cl_expiresAfter (sy_c S))))"

lemma CreateVault_keeps [calls]: "keeps S (CreateVault S r)"
  unfolding CreateVault_def submitL1AtNonce_def
  by (cases "nonNegativeUSDCMicros (sy_D S) (cvr_InitialUSD r)")
    (simp_all, intro impI with_managed_nonce_behaves submitL1AtNonceWithOuter_posts, simp)

record VaultModifyRequest =
  vmr_VaultAddress :: address
  vmr_AllowDeposits :: "bool option"
  vmr_AlwaysCloseOnWithdraw :: "bool option"

definition ModifyVault :: "('n, 'd) sys \<Rightarrow> VaultModifyRequest \<Rightarrow> 'n call" where
  "ModifyVault S r =
     (if vmr_VaultAddress r = 0 \<or> (vmr_AllowDeposits r = None \<and> vmr_AlwaysCloseOnWithdraw r = None)
      then fail ''vault address and at least one vault setting are required''
      else l1_for_none S (LVaultModify
        \<lparr> vm_VaultAddress = to_lower (Hex (sy_L S) (vmr_VaultAddress r)),
          vm_AllowDeposits = vmr_AllowDeposits r,
          vm_AlwaysCloseOnWithdraw = vmr_AlwaysCloseOnWithdraw r \<rparr>))"

lemma ModifyVault_keeps [calls]: "keeps S (ModifyVault S r)"
  unfolding ModifyVault_def by (intro keep_rules; simp)

record 'd VaultDistributionRequest =
  vdr_VaultAddress :: address
  vdr_USD :: "'d"

definition DistributeVault :: "('n, 'd) sys \<Rightarrow> 'd VaultDistributionRequest \<Rightarrow> 'n call" where
  "DistributeVault S r =
     (if vdr_VaultAddress r = 0 \<or> IsNegative (sy_D S) (vdr_USD r)
      then fail ''vault address and non-negative USD amount are required''
      else attempt (nonNegativeUSDCMicros (sy_D S) (vdr_USD r)) (\<lambda>micros.
        l1_for_none S (LVaultDistribute \<lparr> vd_VaultAddress = to_lower (Hex (sy_L S) (vdr_VaultAddress r)),
          vd_USD = micros \<rparr>)))"

lemma DistributeVault_keeps [calls]: "keeps S (DistributeVault S r)"
  unfolding DistributeVault_def by (intro keep_rules; simp)

record SubAccountModifyRequest =
  smr_SubAccountUser :: address
  smr_Name :: string

definition ModifySubAccount :: "('n, 'd) sys \<Rightarrow> SubAccountModifyRequest \<Rightarrow> 'n call" where
  "ModifySubAccount S r =
     (if smr_SubAccountUser r = 0 \<or> length (smr_Name r) = 0 \<or> 16 < length (smr_Name r)
      then fail ''subaccount address and a 1-16 character name are required''
      else l1_for_none S (LSubAccountModify
        \<lparr> sm_SubAccountUser = to_lower (Hex (sy_L S) (smr_SubAccountUser r)), sm_Name = smr_Name r \<rparr>))"

lemma ModifySubAccount_keeps [calls]: "keeps S (ModifySubAccount S r)"
  unfolding ModifySubAccount_def by (intro keep_rules; simp)

definition SetDisplayName :: "('n, 'd) sys \<Rightarrow> string \<Rightarrow> 'n call" where
  "SetDisplayName S name =
     (if 20 < length name then fail ''display name must be at most 20 characters''
      else l1 S (LSetDisplayName \<lparr> sd_DisplayName = name \<rparr>))"

lemma SetDisplayName_keeps [calls]: "keeps S (SetDisplayName S name)"
  unfolding SetDisplayName_def by (intro keep_rules; simp)

section \<open>Compatibility and deployment actions\<close>

definition EVMUserModify :: "('n, 'd) sys \<Rightarrow> bool \<Rightarrow> 'n call" where
  "EVMUserModify S enabled =
     l1_for_none S (LEVMUserModify \<lparr> em_UsingBigBlocks = enabled \<rparr>)"

lemma EVMUserModify_keeps [calls]: "keeps S (EVMUserModify S enabled)"
  unfolding EVMUserModify_def by (intro keep_rules; simp)

definition UseBigEVMBlocks :: "('n, 'd) sys \<Rightarrow> bool \<Rightarrow> 'n call" where
  "UseBigEVMBlocks S enabled =
     EVMUserModify S enabled"

lemma UseBigEVMBlocks_keeps [calls]: "keeps S (UseBigEVMBlocks S enabled)"
  unfolding UseBigEVMBlocks_def by (rule EVMUserModify_keeps)

definition GossipPriorityBid :: "('n, 'd) sys \<Rightarrow> u64 \<Rightarrow> string \<Rightarrow> u64 \<Rightarrow> 'n call" where
  "GossipPriorityBid S slotID ip maxGas =
     (let a = \<lparr> gp_SlotID = slotID, gp_IP = ip, gp_MaxGas = maxGas \<rparr> in
      attempt (GossipPriorityBidAction_MarshalMsgpack (sy_L S) a) (\<lambda>_. l1 S (LGossipPriorityBid a)))"

lemma GossipPriorityBid_keeps [calls]: "keeps S (GossipPriorityBid S slotID ip maxGas)"
  unfolding GossipPriorityBid_def Let_def by (intro keep_rules)

definition CValidator :: "('n, 'd) sys \<Rightarrow> CValidatorVariant option \<Rightarrow> 'n call" where
  "CValidator S variant =
     (let a = \<lparr> cva_Variant = variant \<rparr> in
      attempt (CValidatorAction_MarshalMsgpack (sy_L S) a) (\<lambda>_. l1_for_none S (LCValidator a)))"

lemma CValidator_keeps [calls]: "keeps S (CValidator S variant)"
  unfolding CValidator_def Let_def by (intro keep_rules)

definition CSigner :: "('n, 'd) sys \<Rightarrow> CSignerVariant option \<Rightarrow> 'n call" where
  "CSigner S variant =
     (let a = \<lparr> csa_Variant = variant \<rparr> in
      attempt (CSignerAction_MarshalMsgpack a) (\<lambda>_. l1_for_none S (LCSigner a)))"

lemma CSigner_keeps [calls]: "keeps S (CSigner S variant)"
  unfolding CSigner_def Let_def by (intro keep_rules)

definition FinalizeEVMContract :: "('n, 'd) sys \<Rightarrow> u64 \<Rightarrow> FinalizeEVMContractInput option \<Rightarrow> 'n call" where
  "FinalizeEVMContract S token input =
     (let a = \<lparr> fe_Token = token, fe_Input = input \<rparr> in
      attempt (wrap_res ''finalize EVM contract'' (FinalizeEVMContractAction_MarshalMsgpack a))
        (\<lambda>_. l1_bare S (LFinalizeEVMContract a)))"

lemma FinalizeEVMContract_keeps [calls]: "keeps S (FinalizeEVMContract S token input)"
  unfolding FinalizeEVMContract_def Let_def by (intro keep_rules)

definition SubmitPerpDeploy :: "('n, 'd) sys \<Rightarrow> PerpDeployVariant option \<Rightarrow> 'n call" where
  "SubmitPerpDeploy S variant =
     (if variant = None then fail ''perpDeploy variant is required''
      else l1_for_none S (LPerpDeploy \<lparr> pda_Variant = variant \<rparr>))"

lemma SubmitPerpDeploy_keeps [calls]: "keeps S (SubmitPerpDeploy S variant)"
  unfolding SubmitPerpDeploy_def by (intro keep_rules; simp)

definition SubmitSpotDeploy :: "('n, 'd) sys \<Rightarrow> SpotDeployVariant option \<Rightarrow> 'n call" where
  "SubmitSpotDeploy S variant =
     (if variant = None then fail ''spotDeploy variant is required''
      else l1_for_none S (LSpotDeploy \<lparr> sda_Variant = variant \<rparr>))"

lemma SubmitSpotDeploy_keeps [calls]: "keeps S (SubmitSpotDeploy S variant)"
  unfolding SubmitSpotDeploy_def by (intro keep_rules; simp)

section \<open>Runs of a client\<close>

text \<open>The managed methods: every public method that takes its nonce from the manager.\<close>

inductive client_call :: "('n, 'd) sys \<Rightarrow> 'n call \<Rightarrow> bool" for S :: "('n, 'd) sys" where
  "client_call S (PlaceOrders S rs)"
| "client_call S (PlaceOrder S r)"
| "client_call S (BatchModify S rs)"
| "client_call S (ModifyOrder S r)"
| "client_call S (CancelOrders S rs)"
| "client_call S (CancelOrder S r)"
| "client_call S (CancelByCloids S rs)"
| "client_call S (CancelByCloid S r)"
| "client_call S (ScheduleCancel S time)"
| "client_call S (PlaceTWAP S r)"
| "client_call S (CancelTWAP S r)"
| "client_call S (UpdateLeverage S r)"
| "client_call S (UpdateIsolatedMargin S r)"
| "client_call S (TopUpIsolatedOnlyMargin S r)"
| "client_call S (ReserveRequestWeight S weight)"
| "client_call S (SendToEVMWithData S r)"
| "client_call S (CDeposit S wei)"
| "client_call S (DepositStaking S wei)"
| "client_call S (CWithdraw S wei)"
| "client_call S (WithdrawStaking S wei)"
| "client_call S (TokenDelegate S r)"
| "client_call S (Delegate S validator wei)"
| "client_call S (Undelegate S validator wei)"
| "client_call S (SendUSD S r)"
| "client_call S (SendSpot S r)"
| "client_call S (WithdrawFromBridge S r)"
| "client_call S (TransferUSDClass S r)"
| "client_call S (SendAsset S r)"
| "client_call S (ApproveAgent S r)"
| "client_call S (ApproveBuilderFee S r)"
| "client_call S (UserDexAbstraction S r)"
| "client_call S (UserSetAbstraction S r)"
| "client_call S (ConvertToMultiSigUser S signers)"
| "client_call S (AgentSendAsset S r)"
| "client_call S (AuthorizeAQAV2Role S r)"
| "client_call S (HIP3LiquidatorTransfer S r)"
| "client_call S (UserOutcome S r)"
| "client_call S (AgentEnableDexAbstraction S)"
| "client_call S (AgentSetAbstraction S abstraction)"
| "client_call S (ValidatorL1Stream S rate)"
| "client_call S (ClaimRewards S)"
| "client_call S (SetReferrer S code)"
| "client_call S (CreateSubAccount S name)"
| "client_call S (TransferSubaccountUSD S r)"
| "client_call S (TransferSubaccountSpot S r)"
| "client_call S (TransferVaultUSD S r)"
| "client_call S (CreateVault S r)"
| "client_call S (ModifyVault S r)"
| "client_call S (DistributeVault S r)"
| "client_call S (ModifySubAccount S r)"
| "client_call S (SetDisplayName S name)"
| "client_call S (EVMUserModify S enabled)"
| "client_call S (UseBigEVMBlocks S enabled)"
| "client_call S (GossipPriorityBid S slotID ip maxGas)"
| "client_call S (CValidator S variant)"
| "client_call S (CSigner S variant)"
| "client_call S (FinalizeEVMContract S token input)"
| "client_call S (SubmitPerpDeploy S variant)"
| "client_call S (SubmitSpotDeploy S variant)"

lemma client_call_keeps: "client_call S f \<Longrightarrow> keeps S f"
  by (induction rule: client_call.induct) (rule calls)+



end
