(* ===== verification/Runs.thy ===== *)
theory Runs
  imports Calls
begin

text \<open>
  What the contract of a call means for a caller: every request that a managed method sends is
  vouched for, the nonces of whole runs of a client, and the placing of orders from the request to the
  signed bytes.
\<close>

section \<open>Every request is vouched for\<close>


definition sample_crypto :: crypto where
  "sample_crypto = \<lparr> ValidateSignatureValues = (\<lambda>_ _ _. True), SigToPub = (\<lambda>_ b. Inr b),
     PubkeyToAddress = (\<lambda>_. 5), S256_N = 100, crypto_Sign = (\<lambda>_ _. Inr []),
     Keccak256 = (\<lambda>_. 0), TypedDataAndHash = (\<lambda>_. Inr 1), msgpack_enc = mp_enc \<rparr>"

definition sample_client :: Client where
  "sample_client = \<lparr> cl_network = ''testnet'',
     cl_signer = Some \<lparr> ds_Address = 5,
       ds_SignDigest = (\<lambda>_. Inr \<lparr> sig_R = 1, sig_S = 2, sig_V = 27 \<rparr>) \<rparr>,
     cl_has_nonce = True, cl_vaultAddress = Some 9, cl_expiresAfter = None \<rparr>"

definition sample_env :: "MonotonicManager env" where
  "sample_env = \<lparr> en_Next = MonotonicManager_Next (Inr ()) 1000, en_NewRequest = Inr (),
     en_Do = (\<lambda>_. NilResponse), en_request = None, en_json = (\<lambda>_. None), en_txt = (\<lambda>_. []) \<rparr>"

definition sample_sys :: "(MonotonicManager, sdec) sys" where
  "sample_sys = \<lparr> sy_L = sample_lib, sy_C = sample_crypto, sy_D = sample_dec, sy_E = sample_env,
     sy_c = sample_client, sy_R = Some sample_resolver \<rparr>"

definition fresh_world :: "MonotonicManager world" where
  "fresh_world = \<lparr> w_nonce = NewMonotonicManager, w_sent = [] \<rparr>"

lemma sample_signed: "\<exists>ws. signed_wire sample_crypto
    \<lparr> ds_Address = 5, ds_SignDigest = (\<lambda>_. Inr \<lparr> sig_R = 1, sig_S = 2, sig_V = 27 \<rparr>) \<rparr> d = Inr ws"
  by (simp add: signed_wire_def signAndVerify_ok Verify_ok sample_crypto_def Signature_Bytes_def
      NormalizeRecoveryID_def)

lemma sample_next: "en_Next sample_env NewMonotonicManager 5 =
    (Inr 1000, NewMonotonicManager (5 \<mapsto> 1000))"
  by (simp add: sample_env_def MonotonicManager_Next_def allocate_def last_of_def
      NewMonotonicManager_def)

lemmas path_defs = l1_def submitL1_def submitL1For_def submitL1AtNonce_def with_managed_nonce_def
  with_next_def submitL1AtNonceWithOuter_def attempt_def post_def fail_def

lemma sample_run: "\<exists>out rq w'. ClaimRewards sample_sys fresh_world = (out, w') \<and>
    w_sent w' = [rq] \<and> rq_Nonce rq = 1000 \<and> w_sent fresh_world = []"
proof -
  let ?s = "\<lparr> ds_Address = 5, ds_SignDigest = (\<lambda>_. Inr \<lparr> sig_R = 1, sig_S = 2, sig_V = 27 \<rparr>) \<rparr>"
  have digest: "\<exists>d. ComputeL1ActionDigest (msgpack_enc sample_crypto) (Keccak256 sample_crypto)
      (TypedDataAndHash sample_crypto) (MarshalMsgpack L LClaimRewards) n v e net = Inr d" for L n v e net
    by (simp add: ComputeL1ActionDigest_def L1ActionComponents_def Let_def sample_crypto_def)
  obtain d where d: "ComputeL1ActionDigest (msgpack_enc sample_crypto) (Keccak256 sample_crypto)
      (TypedDataAndHash sample_crypto) (MarshalMsgpack sample_lib LClaimRewards) 1000 (Some 9) None
      False = Inr d"
    using digest by blast
  obtain ws where ws: "signed_wire sample_crypto ?s d = Inr ws" using sample_signed by blast
  have "sy_L sample_sys = sample_lib" "sy_C sample_sys = sample_crypto"
    "sy_E sample_sys = sample_env" "sy_c sample_sys = sample_client"
    "cl_signer sample_client = Some ?s" "cl_has_nonce sample_client"
    "cl_vaultAddress sample_client = Some 9" "cl_expiresAfter sample_client = None"
    "\<not> mainnet sample_client" "en_NewRequest sample_env = Inr ()"
    by (simp_all add: sample_sys_def sample_client_def mainnet_def sample_env_def)
  then show ?thesis
    by (simp add: ClaimRewards_def path_defs fresh_world_def sample_next d ws
        del: MarshalMsgpack.simps)
qed


text \<open>A run: calls one after the other, each in its own setting, on one world.\<close>

fun run :: "(('n, 'd) sys \<times> 'n call) list \<Rightarrow> 'n world \<Rightarrow> 'n world" where
  "run [] w = w"
| "run ((S, f) # xs) w = run xs (snd (f w))"

text \<open>
  The setting of a call whose client signs for \<open>a\<close> and has the repository's nonce manager, with
  any clock up to \<open>T\<close>.
\<close>

definition monotonic_call :: "address \<Rightarrow> nat \<Rightarrow> (MonotonicManager, 'd) sys \<times> MonotonicManager call \<Rightarrow> bool"
  where
  "monotonic_call a T x \<longleftrightarrow>
     client_call (fst x) (snd x) \<and> client_address (sy_c (fst x)) = a \<and>
     (\<exists>ctx now. en_Next (sy_E (fst x)) = MonotonicManager_Next ctx now \<and> unat now \<le> T)"

definition nonce_inv :: "address \<Rightarrow> nat \<Rightarrow> MonotonicManager world \<Rightarrow> bool" where
  "nonce_inv a B w \<longleftrightarrow>
     sorted_wrt (<) (map rq_Nonce (w_sent w)) \<and>
     list_all (\<lambda>rq. rq_Nonce rq \<le> last_of (w_nonce w) a) (w_sent w) \<and>
     unat (last_of (w_nonce w) a) \<le> B"

lemma allocate_bounds:
  assumes "unat (last_of m a) \<le> B" "unat now \<le> B" "B + 1 < 2 ^ 64"
  shows "last_of m a < fst (allocate m a now) \<and> unat (fst (allocate m a now)) \<le> B + 1"
proof -
  have "unat (- 1 :: u64) = 2 ^ 64 - 1" by (simp add: unsigned_minus_1_eq_mask mask_eq_exp_minus_1)
  then have "last_of m a \<noteq> - 1" using assms(1,3) by auto
  then have "last_of m a < fst (allocate m a now)" by (rule mono.grows)
  moreover have "unat (last_of m a + 1) = unat (last_of m a) + 1"
    using assms(1,3) by (subst unat_add_lem [THEN iffD1]) simp_all
  ultimately show ?thesis using assms(1,2) by (auto simp: allocate_def Let_def)
qed

lemma monotonic_next:
  "MonotonicManager_Next ctx now m a = (r, s) \<Longrightarrow>
     (s = m \<and> (\<exists>e. r = Inl e)) \<or> (r = Inr (fst (allocate m a now)) \<and> s = snd (allocate m a now))"
  by (auto simp: MonotonicManager_Next_def split: sum.splits prod.splits)

lemma nonce_inv_step:
  assumes "monotonic_call a T (S, f)" "nonce_inv a B w" "T \<le> B" "B + 1 < 2 ^ 64"
  shows "nonce_inv a (B + 1) (snd (f w))"
proof -
  obtain ctx now where nx: "en_Next (sy_E S) = MonotonicManager_Next ctx now" "unat now \<le> T"
    using assms(1) by (auto simp: monotonic_call_def)
  have call: "client_call S f" and a: "client_address (sy_c S) = a"
    using assms(1) by (auto simp: monotonic_call_def)
  let ?n = "fst (allocate (w_nonce w) a now)"
  have last: "last_of (snd (allocate (w_nonce w) a now)) a = ?n" by (rule mono.remembers)
  have bounds: "last_of (w_nonce w) a < ?n \<and> unat ?n \<le> B + 1"
    using allocate_bounds [of "w_nonce w" a B now] assms(2-4) nx(2) by (simp add: nonce_inv_def)
  have grown: "nonce_inv a (B + 1) \<lparr> w_nonce = snd (allocate (w_nonce w) a now), w_sent = w_sent w \<rparr>"
      "rq_Nonce rq = ?n \<Longrightarrow> nonce_inv a (B + 1)
        \<lparr> w_nonce = snd (allocate (w_nonce w) a now), w_sent = w_sent w @ [rq] \<rparr>" for rq
    using assms(2) bounds
    by (auto simp: nonce_inv_def last sorted_wrt_append list_all_iff intro: order.strict_implies_order
        le_less_trans order_trans)
  have same: "nonce_inv a (B + 1) w" using assms(2) by (auto simp: nonce_inv_def)
  from client_call_keeps [OF call, unfolded behaves_def a nx(1), rule_format, of w] show ?thesis
  proof (elim disjE exE conjE)
    fix e assume "f w = (Failed e, w)"
    then show ?thesis using same by simp
  next
    fix e r s
    assume "f w = (Failed e, w \<lparr> w_nonce := s \<rparr>)" "MonotonicManager_Next ctx now (w_nonce w) a = (r, s)"
    then show ?thesis
      using same grown(1) monotonic_next [of ctx now "w_nonce w" a r s] by (cases w) auto
  next
    fix rq s
    assume "f w = (receive (sy_E S) rq, \<lparr> w_nonce = s, w_sent = w_sent w @ [rq] \<rparr>)"
      "MonotonicManager_Next ctx now (w_nonce w) a = (Inr (rq_Nonce rq), s)"
    then show ?thesis
      using grown(2) [of rq] monotonic_next [of ctx now "w_nonce w" a _ s] by auto
  qed
qed

lemma nonce_inv_run:
  "list_all (monotonic_call a T) xs \<Longrightarrow> nonce_inv a B w \<Longrightarrow> T \<le> B \<Longrightarrow> B + length xs < 2 ^ 64 \<Longrightarrow>
   nonce_inv a (B + length xs) (run xs w)"
proof (induction xs arbitrary: B w)
  case (Cons x xs)
  obtain S f where x: "x = (S, f)" by (cases x)
  have "nonce_inv a (B + 1) (snd (f w))"
    using Cons.prems x by (intro nonce_inv_step [of a T S f B w]) simp_all
  then show ?case using Cons.IH [of "B + 1" "snd (f w)"] Cons.prems x by simp
qed simp

text \<open>
  C2: over any run of managed calls of clients that sign for one address and
  share the repository's nonce manager, whatever the requests, the clock, the transport's replies
  and the failures in between, the nonces on the wire strictly increase, so that no nonce is ever
  sent twice. (The clock and the number of calls must leave room in 64 bits.)
\<close>

theorem posted_nonces_increase:
  assumes "list_all (monotonic_call a T) xs" "T + length xs < 2 ^ 64"
  shows "sorted_wrt (<) (map rq_Nonce (w_sent (run xs fresh_world)))"
proof -
  have "nonce_inv a T fresh_world"
    by (simp add: nonce_inv_def fresh_world_def last_of_def NewMonotonicManager_def)
  then show ?thesis using nonce_inv_run [OF assms(1) _ _ assms(2)] by (simp add: nonce_inv_def)
qed

theorem posted_nonces_increase_witness:
  "sorted_wrt (<) (map rq_Nonce (w_sent (run [(sample_sys, ClaimRewards sample_sys),
     (sample_sys, PlaceOrders sample_sys [sample_order])] fresh_world)))"
proof (rule posted_nonces_increase [where a = 5 and T = 1000])
  have "client_call sample_sys (ClaimRewards sample_sys)"
    "client_call sample_sys (PlaceOrders sample_sys [sample_order])"
    by (rule client_call.intros)+
  then show "list_all (monotonic_call 5 1000) [(sample_sys, ClaimRewards sample_sys),
      (sample_sys, PlaceOrders sample_sys [sample_order])]"
    by (auto simp: monotonic_call_def sample_sys_def sample_env_def sample_client_def
        client_address_def intro!: exI [of _ "Inr ()"] exI [of _ 1000])
qed simp

text \<open>
  C29: if placing a batch sends anything, it sends one request whose action
  is the JSON of an order action that has exactly the requested orders, routed to the configured
  vault with the configured expiry, at a non-zero nonce, signed over that action with that vault,
  expiry and nonce.
\<close>

lemma submitL1_sent:
  assumes "submitL1 L C E c action w = (out, w')" "w_sent w' \<noteq> w_sent w"
  shows "\<exists>rq d sg. w_sent w' = w_sent w @ [rq] \<and> MarshalJSON L action = Inr (rq_Action rq) \<and>
    rq_Nonce rq \<noteq> 0 \<and> rq_VaultAddress rq = cl_vaultAddress c \<and>
    rq_ExpiresAfter rq = cl_expiresAfter c \<and>
    ComputeL1ActionDigest (msgpack_enc C) (Keccak256 C) (TypedDataAndHash C)
      (MarshalMsgpack L action) (rq_Nonce rq) (cl_vaultAddress c) (cl_expiresAfter c)
      (mainnet c) = Inr d \<and>
    Verify C d sg (client_address c) = Inr () \<and> rq_Signature rq = wireSignatureFrom sg"
proof (cases "cl_signer c")
  case None
  then show ?thesis using assms by (simp add: path_defs)
next
  case (Some s)
  have outer: "outerVaultAddress c (cl_vaultAddress c) = cl_vaultAddress c"
    by (simp add: outerVaultAddress_def)
  show ?thesis
    using assms Some
    by (auto simp: path_defs outer client_address_def split: if_splits prod.splits sum.splits
        dest!: signed_wire_ok)
qed

theorem placed_orders_end_to_end:
  assumes "decimal_laws (sy_D S) val" "PlaceOrders S rs w = (out, w')" "w_sent w' \<noteq> w_sent w"
  shows "\<exists>R act ws rq d sg. sy_R S = Some R \<and>
    oa_Orders act = Some ws \<and> list_all2 (faithful_order val R) rs ws \<and> oa_Grouping act = ''na'' \<and>
    w_sent w' = w_sent w @ [rq] \<and> rq_Action rq = OrderAction_MarshalJSON act \<and> rq_Nonce rq \<noteq> 0 \<and>
    rq_VaultAddress rq = cl_vaultAddress (sy_c S) \<and> rq_ExpiresAfter rq = cl_expiresAfter (sy_c S) \<and>
    ComputeL1ActionDigest (msgpack_enc (sy_C S)) (Keccak256 (sy_C S)) (TypedDataAndHash (sy_C S))
      (Inr (OrderAction_MarshalMsgpack act)) (rq_Nonce rq) (rq_VaultAddress rq)
      (rq_ExpiresAfter rq) (mainnet (sy_c S)) = Inr d \<and>
    Verify (sy_C S) d sg (client_address (sy_c S)) = Inr () \<and>
    rq_Signature rq = wireSignatureFrom sg"
proof -
  obtain act where act: "PlaceOrders_action (sy_L S) (sy_D S) (sy_R S) rs = Inr act"
      and sub: "submitL1 (sy_L S) (sy_C S) (sy_E S) (sy_c S) (LOrder act) w = (out, w')"
    using assms(2,3) by (cases "PlaceOrders_action (sy_L S) (sy_D S) (sy_R S) rs")
      (auto simp: PlaceOrders_def attempt_def fail_def l1_def)
  obtain R where R: "sy_R S = Some R"
    using act by (cases "sy_R S") (auto simp: PlaceOrders_action_def split: if_splits)
  from PlaceOrders_faithful [OF assms(1) act [unfolded R]]
  obtain ws where "oa_Orders act = Some ws" "list_all2 (faithful_order val R) rs ws"
      "oa_Grouping act = ''na''" by blast
  moreover obtain rq d sg where "w_sent w' = w_sent w @ [rq]"
      "MarshalJSON (sy_L S) (LOrder act) = Inr (rq_Action rq)" "rq_Nonce rq \<noteq> 0"
      "rq_VaultAddress rq = cl_vaultAddress (sy_c S)" "rq_ExpiresAfter rq = cl_expiresAfter (sy_c S)"
      "ComputeL1ActionDigest (msgpack_enc (sy_C S)) (Keccak256 (sy_C S)) (TypedDataAndHash (sy_C S))
        (MarshalMsgpack (sy_L S) (LOrder act)) (rq_Nonce rq) (cl_vaultAddress (sy_c S))
        (cl_expiresAfter (sy_c S)) (mainnet (sy_c S)) = Inr d"
      "Verify (sy_C S) d sg (client_address (sy_c S)) = Inr ()"
      "rq_Signature rq = wireSignatureFrom sg"
    using submitL1_sent [OF sub assms(3)] by blast
  ultimately show ?thesis
    using R by (intro exI [of _ R] exI [of _ act] exI [of _ ws] exI [of _ rq] exI [of _ d]
        exI [of _ sg]) simp
qed

lemma sample_order_run: "\<exists>out rq w'. PlaceOrders sample_sys [sample_order] fresh_world = (out, w') \<and>
    w_sent w' = [rq] \<and> w_sent fresh_world = []"
proof -
  let ?s = "\<lparr> ds_Address = 5, ds_SignDigest = (\<lambda>_. Inr \<lparr> sig_R = 1, sig_S = 2, sig_V = 27 \<rparr>) \<rparr>"
  obtain act where act: "PlaceOrders_action sample_lib sample_dec (Some sample_resolver)
      [sample_order] = Inr act" using sample_place by blast
  have "\<exists>d. ComputeL1ActionDigest (msgpack_enc sample_crypto) (Keccak256 sample_crypto)
      (TypedDataAndHash sample_crypto) (MarshalMsgpack sample_lib (LOrder act)) 1000 (Some 9) None
      False = Inr d"
    by (simp add: ComputeL1ActionDigest_def L1ActionComponents_def Let_def sample_crypto_def)
  then obtain d where d: "ComputeL1ActionDigest (msgpack_enc sample_crypto) (Keccak256 sample_crypto)
      (TypedDataAndHash sample_crypto) (MarshalMsgpack sample_lib (LOrder act)) 1000 (Some 9) None
      False = Inr d" by blast
  obtain ws where ws: "signed_wire sample_crypto ?s d = Inr ws" using sample_signed by blast
  have "sy_L sample_sys = sample_lib" "sy_C sample_sys = sample_crypto"
    "sy_D sample_sys = sample_dec" "sy_R sample_sys = Some sample_resolver"
    "sy_E sample_sys = sample_env" "sy_c sample_sys = sample_client"
    "cl_signer sample_client = Some ?s" "cl_has_nonce sample_client"
    "cl_vaultAddress sample_client = Some 9" "cl_expiresAfter sample_client = None"
    "\<not> mainnet sample_client" "en_NewRequest sample_env = Inr ()"
    by (simp_all add: sample_sys_def sample_client_def mainnet_def sample_env_def)
  then show ?thesis
    by (simp add: PlaceOrders_def act path_defs fresh_world_def sample_next d ws
        outerVaultAddress_def del: MarshalMsgpack.simps)
qed

theorem placed_orders_end_to_end_witness:
  "\<exists>act ws rq w'. oa_Orders act = Some ws \<and> length ws = 1 \<and>
     snd (PlaceOrders sample_sys [sample_order] fresh_world) = w' \<and> w_sent w' = [rq] \<and>
     rq_Action rq = OrderAction_MarshalJSON act \<and> rq_VaultAddress rq = Some 9"
proof -
  obtain out rq0 w' where run: "PlaceOrders sample_sys [sample_order] fresh_world = (out, w')"
      "w_sent w' = [rq0]" "w_sent fresh_world = []" using sample_order_run by blast
  have D: "decimal_laws (sy_D sample_sys) sdec_val"
    by (simp add: sample_sys_def decimal_laws_sample)
  have sent: "w_sent w' \<noteq> w_sent fresh_world" using run by simp
  from placed_orders_end_to_end [OF D run(1) sent] obtain R act ws rq where
    *: "oa_Orders act = Some ws" "list_all2 (faithful_order sdec_val R) [sample_order] ws"
      "w_sent w' = w_sent fresh_world @ [rq]" "rq_Action rq = OrderAction_MarshalJSON act"
      "rq_VaultAddress rq = cl_vaultAddress (sy_c sample_sys)" by blast
  have "length ws = 1" using *(2) by (auto dest: list_all2_lengthD)
  moreover have "rq_VaultAddress rq = Some 9"
    using *(5) by (simp add: sample_sys_def sample_client_def)
  ultimately show ?thesis using * run by (intro exI [of _ act] exI [of _ ws] exI [of _ rq]) simp
qed

end
