(* ===== verification/MultisigCalls.thy ===== *)
theory MultisigCalls
  imports Exchange
begin

text \<open>
  The two multi-signature submissions of \<^verbatim>\<open>exchange/multisig.go\<close>: the contributors' signatures over
  the inner digest are collected, checked, sorted and wrapped, and the leader signs the wrapper.
\<close>

section \<open>Collecting the inner signatures\<close>

text \<open>One contribution. The source computes the same digest again for each contributor.\<close>

definition contribution ::
    "crypto \<Rightarrow> bytes32 res \<Rightarrow> DigestSigner \<Rightarrow> (address \<times> CompactSignature) res" where
  "contribution C digest s =
     bind_res digest (\<lambda>d. bind_res (signAndVerify C s d) (\<lambda>sg.
     bind_res (CompactSignatureFromSignature sg) (\<lambda>cs. Inr (ds_Address s, cs))))"

definition collectMultiSigL1Signatures ::
    "lib \<Rightarrow> crypto \<Rightarrow> Client \<Rightarrow> MultiSigConfig \<Rightarrow> DigestSigner \<Rightarrow> L1Action \<Rightarrow> u64 \<Rightarrow> address option
     \<Rightarrow> u64 option \<Rightarrow> CompactSignature list res" where
  "collectMultiSigL1Signatures L C c cfg leader action nonceValue vault expires =
     bind_res (map_res (contribution C (ComputeMultiSigL1PayloadDigest L C (Some action)
         (mc_MultiSigUser cfg) (ds_Address leader) nonceValue vault expires (mainnet c)))
       (map the (mc_Signers cfg)))
     (\<lambda>entries. Inr (sortMultiSigSignatures L entries))"

definition collectMultiSigUserSignatures ::
    "lib \<Rightarrow> crypto \<Rightarrow> Client \<Rightarrow> MultiSigConfig \<Rightarrow> DigestSigner \<Rightarrow> UserSignedAction
     \<Rightarrow> CompactSignature list res" where
  "collectMultiSigUserSignatures L C c cfg leader action =
     bind_res (map_res (contribution C (ComputeMultiSigUserActionDigest L C (Some action)
         (mc_MultiSigUser cfg) (ds_Address leader) (mainnet c)))
       (map the (mc_Signers cfg)))
     (\<lambda>entries. Inr (sortMultiSigSignatures L entries))"

section \<open>Submission\<close>

definition multiSig_envelope ::
    "lib \<Rightarrow> MultiSigConfig \<Rightarrow> DigestSigner \<Rightarrow> CompactSignature list \<Rightarrow> PayloadAction
     \<Rightarrow> MultiSigEnvelopeAction" where
  "multiSig_envelope L cfg leader inner action =
     \<lparr> me_SignatureChainID = ''0x66eee'', me_Signatures = Some inner,
       me_Payload = \<lparr> mp_MultiSigUser = to_lower (Hex L (mc_MultiSigUser cfg)),
         mp_OuterSigner = to_lower (Hex L (ds_Address leader)), mp_Action = action \<rparr> \<rparr>"

text \<open>The leader's signature and the post, shared by both flows.\<close>

definition submit_envelope ::
    "lib \<Rightarrow> crypto \<Rightarrow> 'n env \<Rightarrow> Client \<Rightarrow> DigestSigner \<Rightarrow> MultiSigEnvelopeAction \<Rightarrow> u64
     \<Rightarrow> address option \<Rightarrow> address option \<Rightarrow> u64 option \<Rightarrow> 'n call" where
  "submit_envelope L C E c leader envelope nonceValue vault outer expires =
     attempt (ComputeMultiSigEnvelopeDigest L C envelope nonceValue vault expires (mainnet c)) (\<lambda>digest.
     attempt (signAndVerify C leader digest) (\<lambda>sg.
     post E (bind_res (MultiSigEnvelopeAction_MarshalJSON L envelope) (\<lambda>j. Inr
       \<lparr> rq_Action = j, rq_Nonce = nonceValue, rq_Signature = wireSignatureFrom sg,
         rq_VaultAddress = outer, rq_ExpiresAfter = expires \<rparr>))))"

definition submitMultiSigL1AtNonce ::
    "lib \<Rightarrow> crypto \<Rightarrow> 'n env \<Rightarrow> Client \<Rightarrow> MultiSigConfig \<Rightarrow> DigestSigner \<Rightarrow> L1Action \<Rightarrow> u64
     \<Rightarrow> address option \<Rightarrow> address option \<Rightarrow> u64 option \<Rightarrow> 'n call" where
  "submitMultiSigL1AtNonce L C E c cfg leader action nonceValue vault outer expires =
     (if nonceValue = 0 then fail ''multi-sig L1 nonce is required''
      else attempt (collectMultiSigL1Signatures L C c cfg leader action nonceValue vault expires)
        (\<lambda>inner. submit_envelope L C E c leader
          (multiSig_envelope L cfg leader inner (PayloadL1 action)) nonceValue vault outer expires))"

definition multiSigL1SigningVault :: "Client \<Rightarrow> L1Action \<Rightarrow> address option" where
  "multiSigL1SigningVault c action = L1SigningVault action (cl_vaultAddress c)"

definition multiSigL1OuterVault :: "Client \<Rightarrow> L1Action \<Rightarrow> address option \<Rightarrow> address option" where
  "multiSigL1OuterVault c action signingVault =
     (case L1OuterVault action of Some f \<Rightarrow> f (cl_vaultAddress c)
      | None \<Rightarrow> outerVaultAddress c signingVault)"

definition SubmitMultiSigL1 ::
    "lib \<Rightarrow> crypto \<Rightarrow> 'n env \<Rightarrow> Client \<Rightarrow> MultiSigConfig \<Rightarrow> L1Action option \<Rightarrow> 'n call" where
  "SubmitMultiSigL1 L C E c cfg action =
     (case action of None \<Rightarrow> fail ''multi-sig L1 action is required''
      | Some a \<Rightarrow>
        if \<not> cl_has_nonce c then fail ''nonce manager is required''
        else attempt (MultiSigConfig_validate L cfg) (\<lambda>_.
          with_next E (ds_Address (the (mc_Leader cfg))) (\<lambda>n.
          let signingVault = multiSigL1SigningVault c a in
          submitMultiSigL1AtNonce L C E c cfg (the (mc_Leader cfg)) a n signingVault
            (multiSigL1OuterVault c a signingVault) (cl_expiresAfter c))))"

definition SubmitMultiSigUserAction ::
    "lib \<Rightarrow> crypto \<Rightarrow> 'n env \<Rightarrow> Client \<Rightarrow> MultiSigConfig \<Rightarrow> UserSignedAction option \<Rightarrow> 'n call" where
  "SubmitMultiSigUserAction L C E c cfg action =
     (case action of None \<Rightarrow> fail ''multi-sig user action is required''
      | Some a \<Rightarrow>
        attempt (MultiSigConfig_validate L cfg) (\<lambda>_.
        let leader = the (mc_Leader cfg); n = ActionNonce a in
        if n = 0 then fail ''multi-sig user action nonce is required''
        else attempt (collectMultiSigUserSignatures L C c cfg leader a) (\<lambda>inner.
          attempt (MultiSigUserPayloadWire L a (mainnet c)) (\<lambda>wireAction.
          let vault = (if OmitOuterVaultAddress a then None else cl_vaultAddress c) in
          submit_envelope L C E c leader
            (multiSig_envelope L cfg leader inner (PayloadUser wireAction)) n vault vault
            (cl_expiresAfter c)))))"

section \<open>What is submitted\<close>

text \<open>
  The inner signatures of an envelope are endorsed for a digest when they are, in some order, the
  compact forms of signatures that verify over it for distinct authorized addresses, at least
  threshold many.
\<close>

definition endorsed :: "crypto \<Rightarrow> MultiSigConfig \<Rightarrow> bytes32 \<Rightarrow> CompactSignature list \<Rightarrow> bool" where
  "endorsed C cfg d inner \<longleftrightarrow>
     (\<exists>entries. mset inner = image_mset snd (mset entries) \<and>
        distinct (map fst entries) \<and> set (map fst entries) \<subseteq> set (mc_AuthorizedUsers cfg) \<and>
        unat (mc_Threshold cfg) \<le> length entries \<and>
        list_all (\<lambda>(a, cs). \<exists>sg. Verify C d sg a = Inr () \<and> CompactSignatureFromSignature sg = Inr cs)
          entries)"

definition vouched_multi ::
    "lib \<Rightarrow> crypto \<Rightarrow> bool \<Rightarrow> MultiSigConfig \<Rightarrow> PayloadAction \<Rightarrow> (u64 \<Rightarrow> address option \<Rightarrow> u64 option \<Rightarrow>
      bytes32 res) \<Rightarrow> request \<Rightarrow> bool" where
  "vouched_multi L C net cfg action digest rq \<longleftrightarrow>
     rq_Nonce rq \<noteq> 0 \<and>
     (\<exists>leader inner vault d d' sg.
        mc_Leader cfg = Some leader \<and> (vault = None \<or> vault = rq_VaultAddress rq) \<and>
        MultiSigEnvelopeAction_MarshalJSON L (multiSig_envelope L cfg leader inner action) =
          Inr (rq_Action rq) \<and>
        digest (rq_Nonce rq) vault (rq_ExpiresAfter rq) = Inr d \<and> endorsed C cfg d inner \<and>
        ComputeMultiSigEnvelopeDigest L C (multiSig_envelope L cfg leader inner action)
          (rq_Nonce rq) vault (rq_ExpiresAfter rq) net = Inr d' \<and>
        Verify C d' sg (ds_Address leader) = Inr () \<and> rq_Signature rq = wireSignatureFrom sg)"

lemma contribution_ok:
  "contribution C digest s = Inr (a, cs) \<longleftrightarrow> a = ds_Address s \<and>
     (\<exists>d sg. digest = Inr d \<and> ds_SignDigest s d = Inr sg \<and> Verify C d sg a = Inr () \<and>
        CompactSignatureFromSignature sg = Inr cs)"
  by (auto simp: contribution_def signAndVerify_ok)

lemma validated_signers:
  assumes "MultiSigConfig_validate L cfg = Inr ()"
  shows "\<exists>leader. mc_Leader cfg = Some leader"
    and "distinct (contributor_addresses cfg)"
    and "set (contributor_addresses cfg) \<subseteq> set (mc_AuthorizedUsers cfg)"
    and "0 < unat (mc_Threshold cfg)" and "unat (mc_Threshold cfg) \<le> length (mc_Signers cfg)"
proof -
  note sound = MultiSigConfig_validate_sound [OF assms]
  show "\<exists>leader. mc_Leader cfg = Some leader" "distinct (contributor_addresses cfg)"
    "set (contributor_addresses cfg) \<subseteq> set (mc_AuthorizedUsers cfg)" "0 < unat (mc_Threshold cfg)"
    using sound by blast+
  have "card (set (contributor_addresses cfg)) \<le> length (mc_Signers cfg)"
    using card_length [of "contributor_addresses cfg"] by (simp add: contributor_addresses_def)
  then show "unat (mc_Threshold cfg) \<le> length (mc_Signers cfg)" using sound by linarith
qed

lemma collected_endorsed:
  assumes "MultiSigConfig_validate L cfg = Inr ()"
    and "map_res (contribution C digest) (map the (mc_Signers cfg)) = Inr entries"
  shows "\<exists>d. digest = Inr d \<and> endorsed C cfg d (sortMultiSigSignatures L entries)"
proof -
  note v = validated_signers [OF assms(1)]
  have pairs: "list_all2 (\<lambda>s e. contribution C digest s = Inr e) (map the (mc_Signers cfg)) entries"
    using assms(2) by (simp add: map_res_Inr)
  have len: "length entries = length (mc_Signers cfg)" using map_res_length [OF assms(2)] by simp
  have nth: "contribution C digest (the (mc_Signers cfg ! i)) = Inr (entries ! i)"
    if "i < length entries" for i
    using pairs that len by (auto simp: list_all2_conv_all_nth)
  have "0 < length entries" using v(4,5) len by linarith
  then have "contribution C digest (the (mc_Signers cfg ! 0)) = Inr (entries ! 0)" by (rule nth)
  then obtain d where d: "digest = Inr d" by (cases "entries ! 0") (auto simp: contribution_ok)
  have fst: "fst (entries ! i) = ds_Address (the (mc_Signers cfg ! i))" if "i < length entries" for i
    using nth [OF that] by (cases "entries ! i") (simp add: contribution_ok)
  then have "map fst entries = contributor_addresses cfg"
    using len by (intro nth_equalityI) (simp_all add: contributor_addresses_def)
  moreover have "list_all (\<lambda>(a, cs). \<exists>sg. Verify C d sg a = Inr () \<and>
      CompactSignatureFromSignature sg = Inr cs) entries"
    unfolding list_all_length
  proof (intro allI impI)
    fix i assume "i < length entries"
    from nth [OF this] show "case entries ! i of (a, cs) \<Rightarrow> \<exists>sg. Verify C d sg a = Inr () \<and>
        CompactSignatureFromSignature sg = Inr cs"
      by (cases "entries ! i") (auto simp: contribution_ok d)
  qed
  ultimately have "endorsed C cfg d (sortMultiSigSignatures L entries)"
    unfolding endorsed_def using v(2,3,5) len
    by (intro exI [of _ entries]) (simp add: sortMultiSigSignatures_def)
  then show ?thesis using d by blast
qed

lemma submit_envelope_posts:
  assumes "\<And>j d' sg. MultiSigEnvelopeAction_MarshalJSON L envelope = Inr j \<Longrightarrow>
      ComputeMultiSigEnvelopeDigest L C envelope n vault expires (mainnet c) = Inr d' \<Longrightarrow>
      Verify C d' sg (ds_Address leader) = Inr () \<Longrightarrow>
      good \<lparr> rq_Action = j, rq_Nonce = n, rq_Signature = wireSignatureFrom sg,
        rq_VaultAddress = outer, rq_ExpiresAfter = expires \<rparr>"
  shows "posts_at good E n (submit_envelope L C E c leader envelope n vault outer expires)"
  unfolding submit_envelope_def
  by (intro posts_at_attempt posts_at_post) (auto simp: signAndVerify_ok intro: assms)

lemma multisig_vaults:
  "multiSigL1SigningVault c a = None \<or>
   multiSigL1SigningVault c a = multiSigL1OuterVault c a (multiSigL1SigningVault c a)"
  by (cases a) (auto simp: multiSigL1SigningVault_def multiSigL1OuterVault_def outerVaultAddress_def)

lemma SubmitMultiSigL1_behaves:
  "behaves (vouched_multi L C (mainnet c) cfg (PayloadL1 a) (\<lambda>n v e.
       ComputeMultiSigL1PayloadDigest L C (Some a) (mc_MultiSigUser cfg)
         (ds_Address (the (mc_Leader cfg))) n v e (mainnet c)))
     E (ds_Address (the (mc_Leader cfg))) (SubmitMultiSigL1 L C E c cfg (Some a))"
  unfolding SubmitMultiSigL1_def option.case
proof (intro behaves_if behaves_fail behaves_attempt behaves_with_next)
  fix x n
  assume "MultiSigConfig_validate L cfg = Inr x"
  then have valid: "MultiSigConfig_validate L cfg = Inr ()" by simp
  obtain leader where leader: "mc_Leader cfg = Some leader"
    using validated_signers(1) valid by auto
  let ?v = "multiSigL1SigningVault c a"
  let ?good = "vouched_multi L C (mainnet c) cfg (PayloadL1 a) (\<lambda>n v e.
       ComputeMultiSigL1PayloadDigest L C (Some a) (mc_MultiSigUser cfg)
         (ds_Address (the (mc_Leader cfg))) n v e (mainnet c))"
  show "posts_at ?good E n (let signingVault = ?v in submitMultiSigL1AtNonce L C E c cfg
      (the (mc_Leader cfg)) a n signingVault (multiSigL1OuterVault c a signingVault)
      (cl_expiresAfter c))"
  proof (cases "n = 0")
    case False
    have good: "?good \<lparr> rq_Action = j, rq_Nonce = n, rq_Signature = wireSignatureFrom sg,
        rq_VaultAddress = multiSigL1OuterVault c a ?v, rq_ExpiresAfter = cl_expiresAfter c \<rparr>"
      if "collectMultiSigL1Signatures L C c cfg leader a n ?v (cl_expiresAfter c) = Inr inner"
        "MultiSigEnvelopeAction_MarshalJSON L (multiSig_envelope L cfg leader inner (PayloadL1 a)) = Inr j"
        "ComputeMultiSigEnvelopeDigest L C (multiSig_envelope L cfg leader inner (PayloadL1 a)) n ?v
          (cl_expiresAfter c) (mainnet c) = Inr d'"
        "Verify C d' sg (ds_Address leader) = Inr ()" for inner j d' sg
    proof -
      note prems = that
      obtain d where "ComputeMultiSigL1PayloadDigest L C (Some a) (mc_MultiSigUser cfg)
          (ds_Address leader) n ?v (cl_expiresAfter c) (mainnet c) = Inr d" "endorsed C cfg d inner"
        using prems(1)
        by (auto simp: collectMultiSigL1Signatures_def dest!: collected_endorsed [OF valid])
      then show ?thesis
        unfolding vouched_multi_def using prems False leader multisig_vaults [of c a]
        by (intro conjI exI [of _ leader] exI [of _ inner] exI [of _ ?v] exI [of _ d] exI [of _ d']
            exI [of _ sg]) simp_all
    qed
    show ?thesis
      unfolding Let_def submitMultiSigL1AtNonce_def leader option.sel using False
      by (simp only: if_False, intro posts_at_attempt submit_envelope_posts
        good [unfolded leader option.sel])
  qed (simp add: submitMultiSigL1AtNonce_def)
qed


definition multi_crypto :: crypto where
  "multi_crypto = \<lparr> ValidateSignatureValues = (\<lambda>_ _ _. True), SigToPub = (\<lambda>_ b. Inr b),
     PubkeyToAddress = (\<lambda>_. 5), S256_N = 100, crypto_Sign = (\<lambda>_ _. Inr []),
     Keccak256 = (\<lambda>_. 0), TypedDataAndHash = (\<lambda>_. Inr 1), msgpack_enc = mp_enc \<rparr>"

definition multi_signer :: DigestSigner where
  "multi_signer = \<lparr> ds_Address = 5, ds_SignDigest = (\<lambda>_. Inr \<lparr> sig_R = 1, sig_S = 2, sig_V = 27 \<rparr>) \<rparr>"

definition multi_config :: MultiSigConfig where
  "multi_config = \<lparr> mc_MultiSigUser = 9, mc_Leader = Some multi_signer,
     mc_AuthorizedUsers = [5, 6], mc_Signers = [Some multi_signer], mc_Threshold = 1,
     mc_LeaderOwner = None \<rparr>"

definition multi_client :: Client where
  "multi_client = \<lparr> cl_network = ''mainnet'', cl_signer = None, cl_has_nonce = True,
     cl_vaultAddress = None, cl_expiresAfter = None \<rparr>"

definition multi_env :: "u64 env" where
  "multi_env = \<lparr> en_Next = (\<lambda>n _. (Inr (n + 1), n + 1)), en_NewRequest = Inr (),
     en_Do = (\<lambda>_. NilResponse), en_request = None, en_json = (\<lambda>_. None), en_txt = (\<lambda>_. []) \<rparr>"

lemma multi_run:
  "\<exists>out w' rq. SubmitMultiSigL1 sample_lib multi_crypto multi_env multi_client multi_config
     (Some LClaimRewards) \<lparr> w_nonce = 1, w_sent = [] \<rparr> = (out, w') \<and> w_sent w' = [rq]"
proof -
  have valid: "MultiSigConfig_validate sample_lib multi_config = Inr ()"
    by (simp add: MultiSigConfig_validate_def multi_config_def multi_signer_def)
  have sign: "signAndVerify multi_crypto multi_signer d = Inr \<lparr> sig_R = 1, sig_S = 2, sig_V = 27 \<rparr>" for d
    by (simp add: signAndVerify_ok Verify_ok multi_crypto_def multi_signer_def Signature_Bytes_def
        NormalizeRecoveryID_def)
  obtain cs where cs: "CompactSignatureFromSignature \<lparr> sig_R = 1, sig_S = 2, sig_V = 27 \<rparr> = Inr cs"
    by (simp add: CompactSignatureFromSignature_def NormalizeRecoveryID_def)
  have inner: "\<exists>d. ComputeMultiSigL1PayloadDigest sample_lib multi_crypto (Some LClaimRewards) 9 5 n v e net = Inr d"
    if "n \<noteq> 0" for n v e net
    using that by (simp add: ComputeMultiSigL1PayloadDigest_def ComputeL1ActionDigest_def
        L1ActionComponents_def multi_crypto_def)
  have Hex: "Hex sample_lib x = hex_text x" for x by (simp add: sample_lib_def)
  have outer: "\<exists>d. ComputeMultiSigEnvelopeDigest sample_lib multi_crypto
      (multiSig_envelope sample_lib multi_config multi_signer [x] (PayloadL1 LClaimRewards)) n v e net = Inr d"
    if "n \<noteq> 0" for n v e net x
    using that by (simp add: ComputeMultiSigEnvelopeDigest_def multiSig_envelope_def multi_crypto_def
        L1ActionComponents_def multiSigEnvelopeBody_MarshalMsgpack_def MultiSigPayload_MarshalMsgpack_def
        Hex) (simp add: hex_text_def)
  obtain d where d: "ComputeMultiSigL1PayloadDigest sample_lib multi_crypto (Some LClaimRewards) 9 5 2
      None None True = Inr d" using inner by fastforce
  obtain d' where d': "ComputeMultiSigEnvelopeDigest sample_lib multi_crypto
      (multiSig_envelope sample_lib multi_config multi_signer [cs] (PayloadL1 LClaimRewards)) 2 None None
      True = Inr d'" using outer by fastforce
  have conf: "mc_Leader multi_config = Some multi_signer" "ds_Address multi_signer = 5"
      "mc_MultiSigUser multi_config = 9" "mc_Signers multi_config = [Some multi_signer]"
      "mainnet multi_client" "cl_vaultAddress multi_client = None"
      "cl_expiresAfter multi_client = None" "cl_has_nonce multi_client"
      "en_NewRequest multi_env = Inr ()" "en_Next multi_env n x = (Inr (n + 1), n + 1)" for n x
    by (simp_all add: multi_config_def multi_signer_def multi_client_def mainnet_def multi_env_def)
  have collect: "collectMultiSigL1Signatures sample_lib multi_crypto multi_client multi_config multi_signer
      LClaimRewards 2 None None = Inr [cs]"
    by (simp add: collectMultiSigL1Signatures_def conf d contribution_def sign cs
        sortMultiSigSignatures_def)
  obtain j where j: "MultiSigEnvelopeAction_MarshalJSON sample_lib
      (multiSig_envelope sample_lib multi_config multi_signer [cs] (PayloadL1 LClaimRewards)) = Inr j"
    by (simp add: MultiSigEnvelopeAction_MarshalJSON_def MultiSigPayload_json_def multiSig_envelope_def)
  show ?thesis
    by (simp add: SubmitMultiSigL1_def conf valid attempt_def with_next_def Let_def
        submitMultiSigL1AtNonce_def multiSigL1SigningVault_def multiSigL1OuterVault_def
        outerVaultAddress_def collect submit_envelope_def d' sign j post_def)
qed


end
