(* ===== verification/Transport.thy ===== *)
theory Transport
  imports Wire "HOL-Library.Sublist"
begin

text \<open>
  The transport primitives: retry timing (\<^verbatim>\<open>transport/retry.go\<close>), the official request weights and
  the weighted token bucket (\<^verbatim>\<open>transport/weighted_rate_limit.go\<close>), and the spacing limiter of
  \<^verbatim>\<open>transport/middleware.go\<close>. The two limiters are state machines driven by the sections that run
  under their mutex; time is an integer of nanoseconds, and the bucket's floating-point numbers are
  rationals.
\<close>

section \<open>Retry timing\<close>

record RetryPolicy =
  rp_MaxAttempts :: int
  rp_BaseDelay :: int
  rp_MaxDelay :: int
  rp_Jitter :: "(int \<Rightarrow> int) option"

text \<open>The defaults: three attempts, 100 milliseconds, 2 seconds (the random jitter is a parameter).\<close>

definition DefaultRetryPolicy :: "(int \<Rightarrow> int) \<Rightarrow> RetryPolicy" where
  "DefaultRetryPolicy jitter = \<lparr> rp_MaxAttempts = 3, rp_BaseDelay = 100000000,
     rp_MaxDelay = 2000000000, rp_Jitter = Some jitter \<rparr>"

definition normalized :: "RetryPolicy \<Rightarrow> RetryPolicy" where
  "normalized p =
     (let base = (if rp_BaseDelay p \<le> 0 then 100000000 else rp_BaseDelay p);
          mx = (if rp_MaxDelay p \<le> 0 then 2000000000 else rp_MaxDelay p)
      in \<lparr> rp_MaxAttempts = (if rp_MaxAttempts p \<le> 0 then 3 else rp_MaxAttempts p),
           rp_BaseDelay = (if base > mx then mx else base), rp_MaxDelay = mx,
           rp_Jitter = rp_Jitter p \<rparr>)"

fun delay_loop :: "nat \<Rightarrow> int \<Rightarrow> int \<Rightarrow> int" where
  "delay_loop 0 mx d = d"
| "delay_loop (Suc n) mx d =
     (if d \<ge> wrap_i64 (mx - d) then mx else delay_loop n mx (wrap_i64 (d * 2)))"

definition Delay :: "RetryPolicy \<Rightarrow> int \<Rightarrow> int" where
  "Delay policy n =
     (let p = normalized policy;
          d0 = delay_loop (nat (max n 0)) (rp_MaxDelay p) (rp_BaseDelay p);
          d = (case rp_Jitter p of None \<Rightarrow> d0 | Some j \<Rightarrow> wrap_i64 (d0 + j d0))
      in if d < 0 then 0 else if d > rp_MaxDelay p then rp_MaxDelay p else d)"

text \<open>
  \<^verbatim>\<open>value\<close> is the trimmed header, \<open>ParseInt\<close> and \<open>ParseTime\<close> the two standard parsers,
  \<open>since_now\<close> the saturating difference to the current time.
\<close>

definition RetryAfterDelay ::
    "(string \<Rightarrow> int option) \<Rightarrow> (string \<Rightarrow> int option) \<Rightarrow> (int \<Rightarrow> int) \<Rightarrow> RetryPolicy \<Rightarrow> string
     \<Rightarrow> int option" where
  "RetryAfterDelay ParseInt ParseTime since_now p value =
     (let clip = (\<lambda>d. Some (if d > rp_MaxDelay (normalized p) then rp_MaxDelay (normalized p) else d))
      in if value = [] then None
         else case ParseInt value of
           Some seconds \<Rightarrow> (if seconds < 0 \<or> seconds > max_i64 div 1000000000 then None
             else clip (wrap_i64 (seconds * 1000000000)))
         | None \<Rightarrow> (case ParseTime value of None \<Rightarrow> None
             | Some t \<Rightarrow> (if since_now t \<le> 0 then None else clip (since_now t))))"

lemma normalized_bounds:
  "0 < rp_BaseDelay (normalized p)" "rp_BaseDelay (normalized p) \<le> rp_MaxDelay (normalized p)"
  "in_i64 (rp_MaxDelay p) \<Longrightarrow> rp_MaxDelay (normalized p) \<le> max_i64"
  by (auto simp: normalized_def Let_def in_i64_def max_i64_def)

lemma delay_loop_exact:
  "0 < d \<Longrightarrow> d \<le> mx \<Longrightarrow> mx \<le> max_i64 \<Longrightarrow> delay_loop n mx d = min mx (d * 2 ^ n)"
proof (induction n arbitrary: d)
  case (Suc n)
  have wrap: "wrap_i64 (mx - d) = mx - d"
    using Suc.prems by (intro wrap_i64_id) (simp add: in_i64_def min_i64_def max_i64_def)
  have pow: "1 \<le> (2 :: int) ^ n" by simp
  show ?case
  proof (cases "d \<ge> mx - d")
    case True
    have "mx \<le> d * 2" using True by linarith
    also have "d * 2 \<le> d * 2 * 2 ^ n" using Suc.prems(1) pow by simp
    finally show ?thesis using True wrap by (simp add: min_def)
  next
    case False
    then have "wrap_i64 (d * 2) = d * 2"
      using Suc.prems by (intro wrap_i64_id) (simp add: in_i64_def min_i64_def max_i64_def)
    then show ?thesis using Suc.IH [of "d * 2"] Suc.prems False wrap by simp
  qed
qed simp

text \<open>
  Whatever the policy, the attempt number and the jitter function, the
  delay lies between zero and the maximum delay, in 64-bit arithmetic; without jitter it is exactly
  the base delay doubled once per attempt, capped at the maximum.
\<close>

theorem retry_delay_bounded:
  assumes "in_i64 (rp_MaxDelay p)"
  shows "0 \<le> Delay p n \<and> Delay p n \<le> rp_MaxDelay (normalized p) \<and>
    (rp_Jitter p = None \<longrightarrow> Delay p n =
       min (rp_MaxDelay (normalized p)) (rp_BaseDelay (normalized p) * 2 ^ nat n))"
proof -
  let ?q = "normalized p"
  have loop: "delay_loop (nat (max n 0)) (rp_MaxDelay ?q) (rp_BaseDelay ?q) =
      min (rp_MaxDelay ?q) (rp_BaseDelay ?q * 2 ^ nat n)"
    using delay_loop_exact normalized_bounds assms by (simp add: max_def)
  have pos: "0 \<le> rp_MaxDelay ?q" "0 \<le> rp_BaseDelay ?q * 2 ^ nat n"
    using normalized_bounds(1,2) [of p] by simp_all
  have jit: "rp_Jitter ?q = rp_Jitter p" by (simp add: normalized_def Let_def)
  show ?thesis
    unfolding Delay_def Let_def loop jit using pos by (auto split: option.splits)
qed

theorem retry_delay_bounded_witness:
  "Delay \<lparr> rp_MaxAttempts = 3, rp_BaseDelay = 100, rp_MaxDelay = 1000, rp_Jitter = None \<rparr> 2 = 400 \<and>
   Delay \<lparr> rp_MaxAttempts = 3, rp_BaseDelay = 100, rp_MaxDelay = 1000, rp_Jitter = None \<rparr> 62 = 1000"
  using retry_delay_bounded
    [of "\<lparr> rp_MaxAttempts = 3, rp_BaseDelay = 100, rp_MaxDelay = 1000, rp_Jitter = None \<rparr>"]
  by (simp add: normalized_def Let_def in_i64_def min_i64_def max_i64_def min_def)

lemma RetryAfter_bounded:
  assumes "RetryAfterDelay ParseInt ParseTime f p v = Some d"
  shows "0 \<le> d \<and> d \<le> rp_MaxDelay (normalized p)"
proof -
  have pos: "0 < rp_MaxDelay (normalized p)" using normalized_bounds(1,2) [of p] by linarith
  have wrap: "wrap_i64 (s * 1000000000) = s * 1000000000" if "0 \<le> s" "s \<le> max_i64 div 1000000000" for s
    using that by (intro wrap_i64_id) (simp add: in_i64_def min_i64_def max_i64_def)
  show ?thesis
    using assms pos wrap
    by (auto simp: RetryAfterDelay_def Let_def not_less split: if_splits option.splits)
qed

section \<open>Request weights\<close>

text \<open>A JSON object as a Go map: the last of repeated keys counts.\<close>

definition object :: "jval \<Rightarrow> (string \<Rightarrow> jval option) option" where
  "object v = (case v of JObj fs \<Rightarrow> Some (map_of (rev fs)) | JNull \<Rightarrow> Some (\<lambda>_. None) | _ \<Rightarrow> None)"

text \<open>\<^verbatim>\<open>payloadObject\<close>, as the map it gives: empty where it gives nil.\<close>

definition payloadObject :: "jval \<Rightarrow> string \<Rightarrow> jval option" where
  "payloadObject v = (case object v of None \<Rightarrow> (\<lambda>_. None) | Some m \<Rightarrow> m)"

definition as_string :: "jval option \<Rightarrow> string" where
  "as_string v = (case v of Some (JStr s) \<Rightarrow> s | _ \<Rightarrow> [])"

definition requestType :: "jval \<Rightarrow> string" where
  "requestType payload = as_string (payloadObject payload ''type'')"

definition batchLength :: "jval option \<Rightarrow> nat" where
  "batchLength v = (case v of Some (JArr xs) \<Rightarrow> length xs | _ \<Rightarrow> 0)"

definition exchangeBatchField :: "(string \<Rightarrow> jval option) \<Rightarrow> string" where
  "exchangeBatchField action =
     (let ty = as_string (action ''type'') in
      if ty = ''order'' then ''orders''
      else if ty = ''cancel'' \<or> ty = ''cancelByCloid'' then ''cancels''
      else if ty = ''batchModify'' then ''modifies''
      else if ty = ''perpDeploy'' then
        (case find (\<lambda>f. action f \<noteq> None) [''setFundingMultipliers'', ''setFundingInterestRates'',
            ''setMarginTableIds'', ''setOpenInterestCaps'', ''setMarginModes'', ''setGrowthModes''] of
           Some f \<Rightarrow> f | None \<Rightarrow> [])
      else [])"

text \<open>The recursion through nested multi-signature envelopes; \<open>n\<close> is 8 less the depth.\<close>

fun nestedExchangeBatchLength :: "nat \<Rightarrow> jval \<Rightarrow> nat" where
  "nestedExchangeBatchLength 0 action = 0"
| "nestedExchangeBatchLength (Suc n) action =
     (let m = payloadObject action; f = exchangeBatchField m in
      if f \<noteq> [] then batchLength (m f)
      else if as_string (m ''type'') = ''multiSig'' then
        (case m ''payload'' of None \<Rightarrow> 0
         | Some p \<Rightarrow> (case payloadObject p ''action'' of None \<Rightarrow> 0
             | Some a \<Rightarrow> nestedExchangeBatchLength n a))
      else 0)"

definition exchangeBatchLength :: "jval \<Rightarrow> nat" where
  "exchangeBatchLength payload =
     (case payloadObject payload ''action'' of None \<Rightarrow> 0 | Some a \<Rightarrow> nestedExchangeBatchLength 8 a)"

definition RequestWeight :: "string \<Rightarrow> jval \<Rightarrow> nat" where
  "RequestWeight kind payload =
     (if kind = ''action'' then 1 + exchangeBatchLength payload div 40
      else if kind = ''explorer'' then 40
      else if kind = ''info'' then
        (if requestType payload \<in> {''l2Book'', ''allMids'', ''clearinghouseState'', ''orderStatus'',
            ''spotClearinghouseState'', ''exchangeStatus''} then 2
         else if requestType payload = ''userRole'' then 60 else 20)
      else 1)"

definition ResponseWeight :: "string \<Rightarrow> jval \<Rightarrow> jval option \<Rightarrow> nat" where
  "ResponseWeight kind payload response =
     (let items = batchLength response in
      if items = 0 then 0
      else if kind = ''explorer'' \<and> requestType payload = ''blockList'' then items
      else if kind \<noteq> ''info'' then 0
      else if requestType payload \<in> {''recentTrades'', ''historicalOrders'', ''userFills'',
          ''userFillsByTime'', ''fundingHistory'', ''userFunding'', ''nonUserFundingUpdates'',
          ''twapHistory'', ''userTwapSliceFills'', ''userTwapSliceFillsByTime'', ''delegatorHistory'',
          ''delegatorRewards'', ''validatorStats''} then items div 20
      else if requestType payload = ''candleSnapshot'' then items div 60
      else 0)"

section \<open>The weighted token bucket\<close>

text \<open>A waiter is its identity and its weight.\<close>

record limiter =
  lm_budget :: nat
  lm_window :: int
  lm_tokens :: rat
  lm_updated :: int
  lm_queue :: "(nat \<times> nat) list"

definition newWeightedRateLimiter :: "nat \<Rightarrow> int \<Rightarrow> int \<Rightarrow> limiter" where
  "newWeightedRateLimiter budget window now =
     \<lparr> lm_budget = budget, lm_window = window, lm_tokens = of_nat budget, lm_updated = now,
       lm_queue = [] \<rparr>"

definition NewValidatedWeightLimiter :: "nat \<Rightarrow> int \<Rightarrow> int \<Rightarrow> limiter res" where
  "NewValidatedWeightLimiter capacity window now =
     (if window \<le> 0 then Inl ''rate limit refill window must be positive''
      else Inr (newWeightedRateLimiter capacity window now))"

definition refillLocked :: "int \<Rightarrow> limiter \<Rightarrow> limiter" where
  "refillLocked now l =
     (if lm_window l \<le> 0 \<or> lm_budget l = 0 \<or> now - lm_updated l \<le> 0 then l
      else l \<lparr> lm_tokens := min (of_nat (lm_budget l)) (lm_tokens l +
            of_int (now - lm_updated l) * of_nat (lm_budget l) / of_int (lm_window l)),
          lm_updated := now \<rparr>)"

definition delayLocked :: "limiter \<Rightarrow> nat \<Rightarrow> int" where
  "delayLocked l weight =
     (if lm_budget l = 0 \<or> lm_window l \<le> 0 then 3600000000000
      else let missing = of_nat weight - lm_tokens l in
        if missing \<le> 0 then 1000000
        else let delay = \<lceil>missing / of_nat (lm_budget l) * of_int (lm_window l)\<rceil>
          in if delay \<le> 0 then 1 else delay)"

text \<open>
  The atomic sections: a call of \<^verbatim>\<open>Wait\<close> enters the queue (or is answered at once), polls, and leaves
  when its context ends; \<^verbatim>\<open>Charge\<close> takes tokens without waiting.
\<close>

datatype limiter_op = Enter nat nat | Poll nat int | Leave nat | Charge nat int

datatype limiter_event = Admitted nat nat | Rejected_weight nat | Charged nat

fun remove_waiter :: "nat \<Rightarrow> (nat \<times> nat) list \<Rightarrow> (nat \<times> nat) list" where
  "remove_waiter i [] = []"
| "remove_waiter i ((j, k) # q) = (if j = i then q else (j, k) # remove_waiter i q)"

fun limiter_step :: "limiter \<Rightarrow> limiter_op \<Rightarrow> limiter \<times> limiter_event list" where
  "limiter_step l (Enter i k) =
     (if k = 0 then (l, [Admitted i 0])
      else if k > lm_budget l then (l, [Rejected_weight i])
      else (l \<lparr> lm_queue := lm_queue l @ [(i, k)] \<rparr>, []))"
| "limiter_step l (Poll i now) =
     (let l' = refillLocked now l in
      case lm_queue l' of
        (j, k) # q \<Rightarrow> (if j = i \<and> lm_tokens l' \<ge> of_nat k
          then (l' \<lparr> lm_tokens := lm_tokens l' - of_nat k, lm_queue := q \<rparr>, [Admitted i k])
          else (l', []))
      | [] \<Rightarrow> (l', []))"
| "limiter_step l (Leave i) = (l \<lparr> lm_queue := remove_waiter i (lm_queue l) \<rparr>, [])"
| "limiter_step l (Charge k now) =
     (if k = 0 then (l, [])
      else let l' = refillLocked now l in
        (l' \<lparr> lm_tokens := lm_tokens l' - of_nat k \<rparr>, [Charged k]))"

fun limiter_run :: "limiter \<Rightarrow> limiter_op list \<Rightarrow> limiter \<times> limiter_event list" where
  "limiter_run l [] = (l, [])"
| "limiter_run l (x # xs) =
     (let (l1, e1) = limiter_step l x; (l2, e2) = limiter_run l1 xs in (l2, e1 @ e2))"

fun used :: "limiter_event \<Rightarrow> nat" where
  "used (Admitted i k) = k"
| "used (Rejected_weight i) = 0"
| "used (Charged k) = k"

definition total_used :: "limiter_event list \<Rightarrow> nat" where
  "total_used es = sum_list (map used es)"

text \<open>The tokens that time has added at most.\<close>

definition refill_bound :: "limiter \<Rightarrow> limiter \<Rightarrow> rat" where
  "refill_bound l l' =
     of_int (lm_updated l' - lm_updated l) * of_nat (lm_budget l) / of_int (lm_window l)"

lemma refill_facts:
  assumes "0 < lm_window l"
  shows "lm_budget (refillLocked now l) = lm_budget l" "lm_window (refillLocked now l) = lm_window l"
    "lm_tokens (refillLocked now l) \<le> lm_tokens l + refill_bound l (refillLocked now l)"
  by (auto simp: refillLocked_def refill_bound_def)

text \<open>What one step may do to the bucket: nothing, or a refill after which some tokens are taken.\<close>

definition spends :: "limiter \<Rightarrow> nat \<Rightarrow> limiter \<Rightarrow> bool" where
  "spends l k l' \<longleftrightarrow> lm_budget l' = lm_budget l \<and> lm_window l' = lm_window l \<and>
     lm_updated l' = lm_updated l \<and> lm_tokens l' = lm_tokens l - of_nat k"

lemma step_shape:
  assumes "limiter_step l x = (l', es)"
  shows "spends l (total_used es) l' \<or> (\<exists>now. spends (refillLocked now l) (total_used es) l')"
proof (cases x)
  case (Poll i now)
  then have "spends (refillLocked now l) (total_used es) l'"
    using assms by (auto simp: spends_def Let_def total_used_def split: list.splits if_splits)
  then show ?thesis by blast
next
  case (Charge k now)
  then have "spends l (total_used es) l' \<or> spends (refillLocked now l) (total_used es) l'"
    using assms by (auto simp: spends_def Let_def total_used_def split: if_splits)
  then show ?thesis by blast
qed (use assms in \<open>auto simp: spends_def total_used_def split: if_splits\<close>)

lemma step_facts:
  assumes "limiter_step l x = (l', es)" "0 < lm_window l"
  shows "lm_budget l' = lm_budget l" "lm_window l' = lm_window l"
    "of_nat (total_used es) + lm_tokens l' \<le> lm_tokens l + refill_bound l l'"
proof -
  have "lm_budget l' = lm_budget l \<and> lm_window l' = lm_window l \<and>
      of_nat (total_used es) + lm_tokens l' \<le> lm_tokens l + refill_bound l l'"
    using step_shape [OF assms(1)]
  proof (elim disjE exE)
    assume "spends l (total_used es) l'"
    then show ?thesis by (simp add: spends_def refill_bound_def)
  next
    fix now assume "spends (refillLocked now l) (total_used es) l'"
    then show ?thesis
      using refill_facts [OF assms(2), of now] by (simp add: spends_def refill_bound_def)
  qed
  then show "lm_budget l' = lm_budget l" "lm_window l' = lm_window l"
    "of_nat (total_used es) + lm_tokens l' \<le> lm_tokens l + refill_bound l l'" by blast+
qed

lemma refill_bound_trans:
  "lm_budget m = lm_budget l \<Longrightarrow> lm_window m = lm_window l \<Longrightarrow>
   refill_bound l m + refill_bound m n = refill_bound l n"
  by (simp add: refill_bound_def left_diff_distrib diff_divide_distrib)

lemma total_used_append [simp]: "total_used (xs @ ys) = total_used xs + total_used ys"
  by (simp add: total_used_def)

lemma run_budget:
  "limiter_run l xs = (l', es) \<Longrightarrow> 0 < lm_window l \<Longrightarrow>
     lm_budget l' = lm_budget l \<and> lm_window l' = lm_window l \<and>
     of_nat (total_used es) + lm_tokens l' \<le> lm_tokens l + refill_bound l l'"
proof (induction xs arbitrary: l l' es)
  case Nil
  then show ?case by (simp add: total_used_def refill_bound_def)
next
  case (Cons x xs)
  obtain m e1 where m: "limiter_step l x = (m, e1)" by (cases "limiter_step l x")
  obtain n e2 where n: "limiter_run m xs = (n, e2)" by (cases "limiter_run m xs")
  have eq: "l' = n" "es = e1 @ e2" using Cons.prems(1) m n by simp_all
  note s = step_facts [OF m Cons.prems(2)]
  have "0 < lm_window m" using s(2) Cons.prems(2) by simp
  from Cons.IH [OF n this] s refill_bound_trans [OF s(1,2), of n] show ?case
    unfolding eq by simp
qed

lemma admitted_nonneg:
  assumes "limiter_step l (Poll i now) = (l', [Admitted i k])"
  shows "0 \<le> lm_tokens l'"
  using assms by (auto simp: Let_def split: list.splits if_splits)

text \<open>
  C37: at the moment a request is admitted, the weight admitted and charged since
  the limiter was created is at most one full budget plus what the elapsed time refills at budget per
  window, whatever calls were made, in whatever order.
\<close>

theorem limiter_rate_bound:
  assumes "NewValidatedWeightLimiter budget window start = Inr l"
    and "limiter_run l xs = (m, es)" "limiter_step m (Poll i now) = (n, [Admitted i k])"
  shows "of_nat (total_used es + k) \<le>
    (of_nat budget :: rat) + of_int (lm_updated n - start) * of_nat budget / of_int window"
proof -
  have l: "l = newWeightedRateLimiter budget window start" "0 < window"
    using assms(1) by (auto simp: NewValidatedWeightLimiter_def split: if_splits)
  then have w: "0 < lm_window l" by (simp add: newWeightedRateLimiter_def)
  note r = run_budget [OF assms(2) w]
  then have "0 < lm_window m" using w by simp
  note s = step_facts [OF assms(3) this]
  have "refill_bound l m + refill_bound m n = refill_bound l n"
    using r by (intro refill_bound_trans) simp_all
  then have "of_nat (total_used es) + of_nat k + lm_tokens n \<le> lm_tokens l + refill_bound l n"
    using r s(3) by (simp add: total_used_def)
  then show ?thesis
    using admitted_nonneg [OF assms(3)]
    by (simp add: l newWeightedRateLimiter_def refill_bound_def)
qed

theorem limiter_rate_bound_witness:
  "\<exists>l m es n. NewValidatedWeightLimiter 10 60 0 = Inr l \<and>
     limiter_run l [Enter 1 8, Enter 2 5, Poll 1 0, Poll 2 1] = (m, es) \<and> es = [Admitted 1 8] \<and>
     limiter_step m (Poll 2 30) = (n, [Admitted 2 5]) \<and>
     (of_nat (total_used es + 5) :: rat) \<le> 10 + 30 * 10 / 60"
proof -
  obtain l where l: "NewValidatedWeightLimiter 10 60 0 = Inr l"
      "l = newWeightedRateLimiter 10 60 0" by (simp add: NewValidatedWeightLimiter_def)
  define m where "m = \<lparr> lm_budget = 10, lm_window = 60, lm_tokens = 13 / 6, lm_updated = 1,
    lm_queue = [(2, 5)] \<rparr>"
  have m: "limiter_run l [Enter 1 8, Enter 2 5, Poll 1 0, Poll 2 1] = (m, [Admitted 1 8])"
    by (simp add: l(2) m_def newWeightedRateLimiter_def refillLocked_def)
  obtain n where n: "limiter_step m (Poll 2 30) = (n, [Admitted 2 5])" "lm_updated n = 30"
    by (simp add: m_def refillLocked_def)
  show ?thesis using limiter_rate_bound [OF l(1) m n(1)] l(1) m n by simp
qed

text \<open>
  Requests are admitted in the order in which they entered: those admitted with a
  weight, followed by those still waiting, are a subsequence of those that entered; nobody overtakes.
\<close>

definition entered :: "nat \<Rightarrow> limiter_op list \<Rightarrow> (nat \<times> nat) list" where
  "entered budget xs =
     concat (map (\<lambda>x. case x of Enter i k \<Rightarrow> if k = 0 \<or> k > budget then [] else [(i, k)] | _ \<Rightarrow> []) xs)"

definition admitted :: "limiter_event list \<Rightarrow> (nat \<times> nat) list" where
  "admitted es = concat (map (\<lambda>e. case e of Admitted i k \<Rightarrow> if k = 0 then [] else [(i, k)] | _ \<Rightarrow> []) es)"

lemma remove_waiter_subseq: "subseq (remove_waiter i q) q"
  by (induction i q rule: remove_waiter.induct) auto

lemma refill_queue [simp]: "lm_queue (refillLocked now l) = lm_queue l"
    "lm_budget (refillLocked now l) = lm_budget l"
  by (simp_all add: refillLocked_def)

lemma entered_Cons: "entered b (x # xs) = entered b [x] @ entered b xs"
  by (simp add: entered_def)

lemma admitted_append: "admitted (xs @ ys) = admitted xs @ admitted ys"
  by (simp add: admitted_def)

lemma step_queue:
  assumes "limiter_step l x = (l', es)" "list_all (\<lambda>(i, k). 0 < k) (lm_queue l)"
  shows "subseq (admitted es @ lm_queue l') (lm_queue l @ entered (lm_budget l) [x])"
    "list_all (\<lambda>(i, k). 0 < k) (lm_queue l')" "lm_budget l' = lm_budget l"
proof -
  have rm: "list_all P (remove_waiter i q)" if "list_all P q" for P i q
    using that by (induction i q rule: remove_waiter.induct) auto
  show "subseq (admitted es @ lm_queue l') (lm_queue l @ entered (lm_budget l) [x])"
    "list_all (\<lambda>(i, k). 0 < k) (lm_queue l')" "lm_budget l' = lm_budget l"
    using assms rm by (cases x; auto simp: admitted_def entered_def Let_def remove_waiter_subseq
        split: if_splits list.splits)+
qed

lemma run_fifo:
  "limiter_run l xs = (l', es) \<Longrightarrow> list_all (\<lambda>(i, k). 0 < k) (lm_queue l) \<Longrightarrow>
   subseq (admitted es @ lm_queue l') (lm_queue l @ entered (lm_budget l) xs)"
proof (induction xs arbitrary: l l' es)
  case Nil
  then show ?case by (simp add: admitted_def entered_def)
next
  case (Cons x xs)
  obtain m e1 where m: "limiter_step l x = (m, e1)" by (cases "limiter_step l x")
  obtain n e2 where n: "limiter_run m xs = (n, e2)" by (cases "limiter_run m xs")
  have eq: "l' = n" "es = e1 @ e2" using Cons.prems(1) m n by simp_all
  note s = step_queue [OF m Cons.prems(2)]
  have "subseq (admitted e2 @ lm_queue n) (lm_queue m @ entered (lm_budget l) xs)"
    using Cons.IH [OF n s(2)] s(3) by simp
  then have "subseq (admitted e1 @ admitted e2 @ lm_queue n)
      ((admitted e1 @ lm_queue m) @ entered (lm_budget l) xs)"
    by (simp add: list_emb_append_mono)
  also have "subseq ((admitted e1 @ lm_queue m) @ entered (lm_budget l) xs)
      ((lm_queue l @ entered (lm_budget l) [x]) @ entered (lm_budget l) xs)"
    by (rule list_emb_append_mono [OF s(1) subseq_order.order_refl])
  finally show ?case by (simp add: eq admitted_append entered_Cons [of _ x xs])
qed

theorem limiter_fifo:
  assumes "limiter_run (newWeightedRateLimiter budget window start) xs = (m, es)"
  shows "subseq (admitted es @ lm_queue m) (entered budget xs)"
  using run_fifo [OF assms] by (simp add: newWeightedRateLimiter_def)

theorem limiter_fifo_witness:
  "subseq [(1, 8), (2, 5)] (entered 10 [Enter 1 8, Enter 2 5, Poll 2 0, Poll 1 0, Poll 2 1])"
proof -
  obtain m where m: "limiter_run (newWeightedRateLimiter 10 60 0)
      [Enter 1 8, Enter 2 5, Poll 2 0, Poll 1 0, Poll 2 1] = (m, [Admitted 1 8])"
      "lm_queue m = [(2, 5)]"
    by (simp add: newWeightedRateLimiter_def refillLocked_def)
  from limiter_fifo [OF m(1)] m(2) show ?thesis by (simp add: admitted_def)
qed

text \<open>
  The request at the head of the queue is admitted when it polls again
  after the delay it was told to sleep: no waiter at the head starves.
\<close>

theorem limiter_wait_suffices:
  assumes "0 < lm_window l" "0 < k" "k \<le> lm_budget l" "lm_queue l = (i, k) # q"
    and "lm_updated l + delayLocked l k \<le> now"
  shows "snd (limiter_step l (Poll i now)) = [Admitted i k]"
proof -
  let ?t = "lm_tokens l" and ?b = "of_nat (lm_budget l) :: rat" and ?w = "of_int (lm_window l) :: rat"
  have b: "0 < ?b" "0 < ?w" using assms(1-3) by simp_all
  have d: "0 < delayLocked l k"
    using assms(1-3) by (simp add: delayLocked_def Let_def)
  then have pos: "0 < now - lm_updated l" using assms(5) by linarith
  have "of_nat k \<le> ?t + of_int (now - lm_updated l) * ?b / ?w"
  proof (cases "of_nat k - ?t \<le> 0")
    case True
    have "0 \<le> of_int (now - lm_updated l) * ?b / ?w" using pos b by simp
    then show ?thesis using True by linarith
  next
    case False
    let ?m = "of_nat k - ?t"
    have "delayLocked l k = (if \<lceil>?m / ?b * ?w\<rceil> \<le> 0 then 1 else \<lceil>?m / ?b * ?w\<rceil>)"
      unfolding delayLocked_def Let_def using assms(1-3) False by (simp only: if_False) auto
    then have "\<lceil>?m / ?b * ?w\<rceil> \<le> delayLocked l k" by simp
    then have "?m / ?b * ?w \<le> of_int (delayLocked l k)" by (simp add: ceiling_le_iff)
    also have "\<dots> \<le> of_int (now - lm_updated l)" using assms(5) by simp
    finally have "?m / ?b * ?w * ?b / ?w \<le> of_int (now - lm_updated l) * ?b / ?w"
      using b by (intro divide_right_mono mult_right_mono) simp_all
    moreover have "?m / ?b * ?w * ?b / ?w = ?m" using b by simp
    ultimately show ?thesis by linarith
  qed
  moreover have "(of_nat k :: rat) \<le> ?b" using assms(3) by simp
  ultimately show ?thesis
    using assms(1-4) pos by (simp add: refillLocked_def Let_def)
qed

theorem limiter_wait_suffices_witness:
  "snd (limiter_step \<lparr> lm_budget = 10, lm_window = 60, lm_tokens = - 2, lm_updated = 5,
     lm_queue = [(7, 4)] \<rparr> (Poll 7 41)) = [Admitted 7 4]"
  by (rule limiter_wait_suffices) (simp_all add: delayLocked_def)

section \<open>The spacing limiter\<close>

record spacing =
  sp_next :: int
  sp_interval :: int
  sp_queue :: "nat list"

datatype spacing_op = SEnter nat | SPoll nat int | SLeave nat

text \<open>The loop body of \<^verbatim>\<open>wait\<close>: the admitted waiter and its time, if any.\<close>

fun spacing_step :: "spacing \<Rightarrow> spacing_op \<Rightarrow> spacing \<times> (nat \<times> int) list" where
  "spacing_step l (SEnter i) = (l \<lparr> sp_queue := sp_queue l @ [i] \<rparr>, [])"
| "spacing_step l (SPoll i now) =
     (case sp_queue l of
        j # q \<Rightarrow> (if j = i \<and> \<not> sp_next l > now
          then (l \<lparr> sp_queue := q, sp_next := now + sp_interval l \<rparr>, [(i, now)]) else (l, []))
      | [] \<Rightarrow> (l, []))"
| "spacing_step l (SLeave i) = (l \<lparr> sp_queue := remove1 i (sp_queue l) \<rparr>, [])"

fun spacing_run :: "spacing \<Rightarrow> spacing_op list \<Rightarrow> (nat \<times> int) list" where
  "spacing_run l [] = []"
| "spacing_run l (x # xs) = (let (m, e) = spacing_step l x in e @ spacing_run m xs)"

lemma spacing_lower:
  "0 \<le> sp_interval l \<Longrightarrow>
   sorted_wrt (\<lambda>s t. s + sp_interval l \<le> t) (map snd (spacing_run l xs)) \<and>
   (\<forall>t \<in> set (map snd (spacing_run l xs)). sp_next l \<le> t)"
proof (induction xs arbitrary: l)
  case (Cons x xs)
  obtain m e where m: "spacing_step l x = (m, e)" by (cases "spacing_step l x")
  have cases: "(e = [] \<and> sp_next m = sp_next l \<and> sp_interval m = sp_interval l) \<or>
      (\<exists>i now. e = [(i, now)] \<and> sp_next l \<le> now \<and> sp_next m = now + sp_interval l \<and>
        sp_interval m = sp_interval l)"
    using m by (cases x) (auto split: list.splits if_splits)
  then show ?case
  proof (elim disjE exE conjE)
    assume "e = []" "sp_next m = sp_next l" "sp_interval m = sp_interval l"
    then show ?thesis using Cons.IH [of m] Cons.prems m by simp
  next
    fix i now
    assume "e = [(i, now)]" "sp_next l \<le> now" "sp_next m = now + sp_interval l"
      "sp_interval m = sp_interval l"
    then show ?thesis using Cons.IH [of m] Cons.prems m by force
  qed
qed simp

text \<open>
  Any two requests that the spacing limiter lets through are at least one
  interval apart, whatever the order of arrivals, polls and cancellations.
\<close>

theorem requests_spaced:
  "sorted_wrt (\<lambda>s t. s + int interval \<le> t)
     (map snd (spacing_run \<lparr> sp_next = start, sp_interval = int interval, sp_queue = [] \<rparr> xs))"
  using spacing_lower [of "\<lparr> sp_next = start, sp_interval = int interval, sp_queue = [] \<rparr>" xs]
  by simp

end
