(* ===== verification/Middleware.thy ===== *)
theory Middleware
  imports Transport
begin

text \<open>
  The HTTP middlewares of \<^verbatim>\<open>transport/middleware.go\<close> and \<^verbatim>\<open>transport/weighted_rate_limit.go\<close> and
  the default transport of \<^verbatim>\<open>transport/http.go\<close>. A transport is a function on a world that records what
  happens: requests that reach the server, admissions, surcharges and reports to observers. What the
  server, the limiters, the clock and the generator of identifiers answer is part of the world; the
  limiters' own behaviour is in \<open>Transport\<close>.
\<close>

section \<open>Requests, responses and the world\<close>

text \<open>A context is known by the request metadata it carries, a kind and a payload.\<close>

type_synonym handle = nat
type_synonym metadata = "string \<times> jval"

text \<open>
  Header names are in their canonical form. The body of a response is what reading it gives: the bytes and
  then the end or an error.
\<close>

record http_request =
  hr_Method :: string
  hr_Path :: string
  hr_Header :: "string \<rightharpoonup> string list"
  hr_Context :: "metadata option"

record http_body =
  bd_Data :: string
  bd_Error :: "string option"

record http_response =
  hp_StatusCode :: int
  hp_Body :: "http_body option"

type_synonym http_reply = "http_response option \<times> string option"

record requestEvent =
  re_Method :: string
  re_Path :: string
  re_RequestID :: string
  re_StatusCode :: int
  re_Duration :: int
  re_Err :: "string option"

text \<open>
  A limiter admits with a weight or refuses; the spacing limiter has the weight one. \<open>Sent\<close> is a request
  that reaches the server, \<open>Tick\<close> a reading of the clock, \<open>Generated\<close> a call of the identifier function.
\<close>

datatype http_step = Waited handle nat | Refused handle string | Sent http_request
  | Surcharged handle nat | Observed handle requestEvent | Tick | Generated

record http_world =
  hw_answers :: "nat \<Rightarrow> http_reply"
  hw_refusals :: "nat \<Rightarrow> string option"
  hw_clock :: "nat \<Rightarrow> int"
  hw_ids :: "nat \<Rightarrow> string"
  hw_trace :: "http_step list"

definition happened :: "(http_step \<Rightarrow> bool) \<Rightarrow> http_world \<Rightarrow> nat" where
  "happened P w = length (filter P (hw_trace w))"

definition record_step :: "http_step \<Rightarrow> http_world \<Rightarrow> http_world" where
  "record_step s w = w\<lparr>hw_trace := hw_trace w @ [s]\<rparr>"

fun is_sent :: "http_step \<Rightarrow> bool" where
  "is_sent (Sent r) = True" | "is_sent _ = False"

fun is_admission :: "http_step \<Rightarrow> bool" where
  "is_admission (Waited h n) = True" | "is_admission (Refused h e) = True" | "is_admission _ = False"

type_synonym HTTPTransport = "metadata option \<Rightarrow> http_request \<Rightarrow> http_world \<Rightarrow> http_reply \<times> http_world"

definition default_Do :: HTTPTransport where
  "default_Do ctx rq w =
     (hw_answers w (happened is_sent w), record_step (Sent (rq\<lparr>hr_Context := ctx\<rparr>)) w)"

section \<open>Identifiers and observers\<close>

definition request_id_key :: string where "request_id_key = ''X-Request-Id''"

definition header_get :: "http_request \<Rightarrow> string" where
  "header_get rq = (case hr_Header rq request_id_key of Some (v # _) \<Rightarrow> v | _ \<Rightarrow> [])"

text \<open>\<open>generate\<close> says whether there is a function to generate identifiers.\<close>

definition RequestID :: "bool \<Rightarrow> HTTPTransport \<Rightarrow> HTTPTransport" where
  "RequestID generate next_do ctx rq w =
     (if \<not> generate \<or> header_get rq \<noteq> [] then next_do ctx rq w
      else let i = hw_ids w (happened ((=) Generated) w); w = record_step Generated w
        in next_do ctx (rq\<lparr>hr_Header := (hr_Header rq)(request_id_key \<mapsto> [i]), hr_Context := ctx\<rparr>) w)"

definition read_clock :: "http_world \<Rightarrow> int \<times> http_world" where
  "read_clock w = (hw_clock w (happened ((=) Tick) w), record_step Tick w)"

definition observe :: "(requestEvent \<Rightarrow> http_world \<Rightarrow> http_world) \<Rightarrow> HTTPTransport \<Rightarrow> HTTPTransport" where
  "observe callback next_do ctx rq w =
     (let (started, w) = read_clock w; ((response, err), w) = next_do ctx rq w; (now, w) = read_clock w;
        event = \<lparr> re_Method = hr_Method rq, re_Path = hr_Path rq, re_RequestID = header_get rq,
          re_StatusCode = (case response of None \<Rightarrow> 0 | Some r \<Rightarrow> hp_StatusCode r),
          re_Duration = wrap_i64 (now - started), re_Err = err \<rparr>
      in ((response, err), callback event w))"

text \<open>The log and the metric are the event under another type.\<close>

definition report :: "handle option \<Rightarrow> requestEvent \<Rightarrow> http_world \<Rightarrow> http_world" where
  "report h event w = (case h of None \<Rightarrow> w | Some i \<Rightarrow> record_step (Observed i event) w)"

definition Logging :: "handle option \<Rightarrow> HTTPTransport \<Rightarrow> HTTPTransport" where
  "Logging logger = observe (report logger)"

definition Metrics :: "handle option \<Rightarrow> HTTPTransport \<Rightarrow> HTTPTransport" where
  "Metrics observeMetric = observe (report observeMetric)"

section \<open>Rate limits\<close>

text \<open>What the limiter \<open>h\<close> says to a request of weight \<open>n\<close>.\<close>

definition admit :: "handle \<Rightarrow> nat \<Rightarrow> http_world \<Rightarrow> string option \<times> http_world" where
  "admit h n w =
     (case hw_refusals w (happened is_admission w) of
        None \<Rightarrow> (None, record_step (Waited h n) w)
      | Some e \<Rightarrow> (Some e, record_step (Refused h e) w))"

definition RateLimit :: "int \<Rightarrow> handle \<Rightarrow> HTTPTransport \<Rightarrow> HTTPTransport" where
  "RateLimit interval limiter next_do ctx rq w =
     (if interval \<le> 0 then next_do ctx rq w
      else let (err, w) = admit limiter 1 w
        in case err of Some e \<Rightarrow> ((None, Some e), w) | None \<Rightarrow> next_do ctx rq w)"

record WeightPolicy =
  wp_RequestWeight :: "string \<Rightarrow> jval \<Rightarrow> nat"
  wp_ResponseWeight :: "string \<Rightarrow> jval \<Rightarrow> jval option \<Rightarrow> nat"

definition OfficialWeightPolicy :: WeightPolicy where
  "OfficialWeightPolicy = \<lparr> wp_RequestWeight = RequestWeight, wp_ResponseWeight = ResponseWeight \<rparr>"

text \<open>
  The body is read to its end and put back: \<^verbatim>\<open>io.ReadAll\<close> gives the bytes and the error that stopped it,
  and the body that takes its place gives the same. \<open>decode\<close> is the parser of JSON.
\<close>

definition WeightedRateLimitWithLimiter ::
    "(string \<Rightarrow> jval option) \<Rightarrow> WeightPolicy option \<Rightarrow> handle option \<Rightarrow> HTTPTransport \<Rightarrow> HTTPTransport" where
  "WeightedRateLimitWithLimiter decode policy limiter next_do ctx rq w =
     (case (policy, limiter) of
        (Some p, Some l) \<Rightarrow>
          (case (case ctx of Some m \<Rightarrow> Some m | None \<Rightarrow> hr_Context rq) of
             None \<Rightarrow> next_do ctx rq w
           | Some (kind, payload) \<Rightarrow>
               let (err, w) = admit l (wp_RequestWeight p kind payload) w
               in case err of
                 Some e \<Rightarrow> ((None, Some e), w)
               | None \<Rightarrow>
                   let ((response, err), w) = next_do ctx rq w
                   in case (err, response) of
                     (None, Some r) \<Rightarrow>
                       (case hp_Body r of
                          None \<Rightarrow> ((response, err), w)
                        | Some b \<Rightarrow>
                            if hp_StatusCode r < 200 \<or> 300 \<le> hp_StatusCode r then ((response, err), w)
                            else let w = (case decode (bd_Data b) of
                                     None \<Rightarrow> w
                                   | Some v \<Rightarrow> record_step (Surcharged l (wp_ResponseWeight p kind payload (Some v))) w)
                              in ((Some (r\<lparr>hp_Body := Some \<lparr> bd_Data = bd_Data b, bd_Error = bd_Error b \<rparr>\<rparr>),
                                   bd_Error b), w))
                   | _ \<Rightarrow> ((response, err), w))
      | _ \<Rightarrow> next_do ctx rq w)"

text \<open>A limiter made with a window that cannot refill refuses every wait.\<close>

datatype admission_limiter = Bucket limiter | RejectedAdmission string

definition NewWeightLimiter :: "nat \<Rightarrow> int \<Rightarrow> int \<Rightarrow> admission_limiter" where
  "NewWeightLimiter capacity window now =
     (case NewValidatedWeightLimiter capacity window now of Inl e \<Rightarrow> RejectedAdmission e | Inr l \<Rightarrow> Bucket l)"

text \<open>\<open>fresh\<close> is the handle of the limiter that is made for the official budget.\<close>

definition WeightedRateLimit :: "(string \<Rightarrow> jval option) \<Rightarrow> WeightPolicy option \<Rightarrow> handle \<Rightarrow> HTTPTransport \<Rightarrow> HTTPTransport" where
  "WeightedRateLimit decode policy fresh = WeightedRateLimitWithLimiter decode policy (Some fresh)"

section \<open>The replayed body\<close>

text \<open>
  The body that is put back after a failed read: its bytes, then the error once, then the end. \<open>read_all\<close>
  is \<^verbatim>\<open>io.ReadAll\<close> with a buffer that has room for \<open>Suc k\<close> bytes.
\<close>

record replayReadCloser =
  rp_reader :: string
  rp_err :: "string option"

datatype read_error = EOF | Failed string

definition replay_Read :: "nat \<Rightarrow> replayReadCloser \<Rightarrow> (string \<times> read_error option) \<times> replayReadCloser" where
  "replay_Read room r =
     (if rp_reader r \<noteq> [] then ((take room (rp_reader r), None), r\<lparr>rp_reader := drop room (rp_reader r)\<rparr>)
      else case rp_err r of
        Some e \<Rightarrow> (([], Some (Failed e)), r\<lparr>rp_err := None\<rparr>)
      | None \<Rightarrow> (([], Some EOF), r))"

function read_all :: "nat \<Rightarrow> replayReadCloser \<Rightarrow> string \<times> string option" where
  "read_all k r =
     (case replay_Read (Suc k) r of
        ((bytes, None), r') \<Rightarrow> (let (rest, err) = read_all k r' in (bytes @ rest, err))
      | ((bytes, Some EOF), r') \<Rightarrow> (bytes, None)
      | ((bytes, Some (Failed e)), r') \<Rightarrow> (bytes, Some e))"
  by pat_completeness auto
termination
  by (relation "measure (\<lambda>(k, r). length (rp_reader r))")
    (auto simp: replay_Read_def split: if_splits option.splits)

declare read_all.simps [simp del]

lemma read_all_replay: "read_all k \<lparr> rp_reader = s, rp_err = e \<rparr> = (s, e)"
proof (induction s rule: length_induct)
  case (1 s)
  show ?case
  proof (cases s)
    case Nil
    then show ?thesis by (cases e; subst read_all.simps; simp add: replay_Read_def)
  next
    case (Cons c cs)
    then have "read_all k \<lparr> rp_reader = drop (Suc k) s, rp_err = e \<rparr> = (drop (Suc k) s, e)"
      using 1 by simp
    moreover have "s = take (Suc k) s @ drop (Suc k) s" by simp
    ultimately show ?thesis using Cons by (subst read_all.simps) (simp add: replay_Read_def)
  qed
qed

section \<open>Stacks of middlewares\<close>

datatype http_middleware = MRequestID bool | MLogging "handle option" | MMetrics "handle option"
  | MRateLimit int handle | MWeighted "WeightPolicy option" "handle option"

primrec apply_middleware :: "(string \<Rightarrow> jval option) \<Rightarrow> http_middleware \<Rightarrow> HTTPTransport \<Rightarrow> HTTPTransport" where
  "apply_middleware decode (MRequestID g) = RequestID g"
| "apply_middleware decode (MLogging h) = Logging h"
| "apply_middleware decode (MMetrics h) = Metrics h"
| "apply_middleware decode (MRateLimit i h) = RateLimit i h"
| "apply_middleware decode (MWeighted p l) = WeightedRateLimitWithLimiter decode p l"

text \<open>\<^verbatim>\<open>NewClient\<close> wraps from the last middleware to the first.\<close>

definition stack_Do :: "(string \<Rightarrow> jval option) \<Rightarrow> http_middleware list \<Rightarrow> HTTPTransport" where
  "stack_Do decode ms = foldr (apply_middleware decode) ms default_Do"

text \<open>The admissions that a stack must obtain for a request with metadata \<open>ctx\<close>, in order.\<close>

primrec admission :: "metadata option \<Rightarrow> http_middleware \<Rightarrow> (handle \<times> nat) list" where
  "admission ctx (MRequestID g) = []"
| "admission ctx (MLogging h) = []"
| "admission ctx (MMetrics h) = []"
| "admission ctx (MRateLimit i h) = (if i \<le> 0 then [] else [(h, 1)])"
| "admission ctx (MWeighted p l) =
     (case (p, l, ctx) of (Some p, Some l, Some (kind, payload)) \<Rightarrow> [(l, wp_RequestWeight p kind payload)]
      | _ \<Rightarrow> [])"

fun waits :: "http_step list \<Rightarrow> (handle \<times> nat) list" where
  "waits [] = []" | "waits (Waited h n # tr) = (h, n) # waits tr" | "waits (_ # tr) = waits tr"

fun refusals :: "http_step list \<Rightarrow> string list" where
  "refusals [] = []" | "refusals (Refused h e # tr) = e # refusals tr" | "refusals (_ # tr) = refusals tr"

fun sends :: "http_step list \<Rightarrow> http_request list" where
  "sends [] = []" | "sends (Sent r # tr) = r # sends tr" | "sends (_ # tr) = sends tr"

lemma waits_append [simp]: "waits (a @ b) = waits a @ waits b"
  by (induction a rule: waits.induct) simp_all

lemma refusals_append [simp]: "refusals (a @ b) = refusals a @ refusals b"
  by (induction a rule: refusals.induct) simp_all

lemma sends_append [simp]: "sends (a @ b) = sends a @ sends b"
  by (induction a rule: sends.induct) simp_all

text \<open>
  A request that differs at most in its context and, where it had none, in its identifier; a reply
  that differs at most in that a failed read of the body is reported.
\<close>

definition same_request :: "http_request \<Rightarrow> http_request \<Rightarrow> bool" where
  "same_request r s = (hr_Method r = hr_Method s \<and> hr_Path r = hr_Path s \<and>
     (\<forall>k. k \<noteq> request_id_key \<longrightarrow> hr_Header r k = hr_Header s k) \<and>
     (header_get s \<noteq> [] \<longrightarrow> hr_Header r = hr_Header s))"

definition same_reply :: "http_reply \<Rightarrow> http_reply \<Rightarrow> bool" where
  "same_reply a b = (fst a = fst b \<and> (snd a = snd b \<or>
     snd b = None \<and> (\<exists>r bd. fst b = Some r \<and> hp_Body r = Some bd \<and> bd_Error bd = snd a)))"

text \<open>What a transport does for one request, as a contract.\<close>

definition outcome :: "(handle \<times> nat) list \<Rightarrow> metadata option \<Rightarrow> http_request \<Rightarrow> http_reply \<Rightarrow> http_reply \<Rightarrow>
    http_step list \<Rightarrow> bool" where
  "outcome adm ctx rq answer reply new =
     (sends new = [] \<and> (\<exists>e. reply = (None, Some e) \<and> refusals new = [e]) \<and>
        prefix (waits new) adm \<and> waits new \<noteq> adm \<or>
      refusals new = [] \<and> waits new = adm \<and>
        (\<exists>r. sends new = [r] \<and> same_request r rq \<and> hr_Context r = ctx) \<and> same_reply reply answer)"

definition transparent :: "(metadata option \<Rightarrow> (handle \<times> nat) list) \<Rightarrow> HTTPTransport \<Rightarrow> bool" where
  "transparent adm t = (\<forall>ctx rq w. hr_Context rq = ctx \<longrightarrow>
     (\<exists>new. snd (t ctx rq w) = w\<lparr>hw_trace := hw_trace w @ new\<rparr> \<and>
        outcome (adm ctx) ctx rq (hw_answers w (happened is_sent w)) (fst (t ctx rq w)) new))"

lemma same_request_trans: "same_request r s \<Longrightarrow> same_request s q \<Longrightarrow> same_request r q"
  by (auto simp: same_request_def header_get_def)

lemma outcome_quiet:
  assumes "outcome adm ctx rq answer reply new" "waits pre = []" "refusals pre = []" "sends pre = []"
    "waits post = []" "refusals post = []" "sends post = []"
  shows "outcome adm ctx rq answer reply (pre @ new @ post)"
  using assms by (simp add: outcome_def)

lemma outcome_wait:
  "outcome adm ctx rq answer reply new \<Longrightarrow> outcome ((h, n) # adm) ctx rq answer reply ([Waited h n] @ new)"
  by (auto simp: outcome_def)

lemma outcome_refuse: "outcome ((h, n) # adm) ctx rq answer (None, Some e) [Refused h e]"
  by (simp add: outcome_def)

lemma outcome_request:
  "outcome adm ctx s answer reply new \<Longrightarrow> same_request s rq \<Longrightarrow> outcome adm ctx rq answer reply new"
  by (auto simp: outcome_def intro: same_request_trans)

lemma outcome_read:
  assumes "outcome adm ctx rq answer (Some r, None) new" "hp_Body r = Some b" "e = bd_Error b"
  shows "outcome adm ctx rq answer (Some r, e) new"
  using assms by (cases answer) (auto simp: outcome_def same_reply_def)

lemma record_step_simps [simp]:
  "happened is_sent (record_step s w) = happened is_sent w + (if is_sent s then 1 else 0)"
  "hw_answers (record_step s w) = hw_answers w"
  "hw_trace (record_step s w) = hw_trace w @ [s]"
  "(record_step s w)\<lparr>hw_trace := tr\<rparr> = w\<lparr>hw_trace := tr\<rparr>"
  by (simp_all add: record_step_def happened_def)

lemma transparentD:
  "transparent adm t \<Longrightarrow> hr_Context rq = ctx \<Longrightarrow>
    \<exists>new. snd (t ctx rq w) = w\<lparr>hw_trace := hw_trace w @ new\<rparr> \<and>
      outcome (adm ctx) ctx rq (hw_answers w (happened is_sent w)) (fst (t ctx rq w)) new"
  by (auto simp: transparent_def)

lemma transparentE:
  assumes "transparent adm t" "hr_Context rq = ctx" "t ctx rq w = (reply, w')"
  obtains new where "w' = w\<lparr>hw_trace := hw_trace w @ new\<rparr>"
    "outcome (adm ctx) ctx rq (hw_answers w (happened is_sent w)) reply new"
  using transparentD [OF assms(1,2), of w] assms(3) by auto

lemma default_transparent: "transparent (\<lambda>ctx. []) default_Do"
  by (auto simp: transparent_def default_Do_def outcome_def same_reply_def same_request_def header_get_def
      record_step_def intro!: exI [of _ "[Sent _]"])

lemma RequestID_transparent:
  assumes "transparent adm t"
  shows "transparent adm (RequestID g t)"
  unfolding transparent_def
proof (intro allI impI)
  fix ctx and rq :: http_request and w
  assume ctx: "hr_Context rq = ctx"
  show "\<exists>new. snd (RequestID g t ctx rq w) = w\<lparr>hw_trace := hw_trace w @ new\<rparr> \<and>
    outcome (adm ctx) ctx rq (hw_answers w (happened is_sent w)) (fst (RequestID g t ctx rq w)) new"
  proof (cases "\<not> g \<or> header_get rq \<noteq> []")
    case True
    then have "RequestID g t ctx rq w = t ctx rq w" by (auto simp: RequestID_def)
    then show ?thesis using transparentD [OF assms ctx] by simp
  next
    case False
    define i where "i = hw_ids w (happened ((=) Generated) w)"
    define rq' where "rq' = rq\<lparr>hr_Header := (hr_Header rq)(request_id_key \<mapsto> [i]), hr_Context := ctx\<rparr>"
    obtain reply w' where t: "t ctx rq' (record_step Generated w) = (reply, w')" by fastforce
    obtain new where new: "w' = w\<lparr>hw_trace := (hw_trace w @ [Generated]) @ new\<rparr>"
      "outcome (adm ctx) ctx rq' (hw_answers w (happened is_sent w)) reply new"
      using transparentE [OF assms _ t] by (auto simp: rq'_def)
    have "same_request rq' rq" using False by (simp add: same_request_def rq'_def)
    from outcome_quiet [OF outcome_request [OF new(2) this], of "[Generated]" "[]"]
    have "outcome (adm ctx) ctx rq (hw_answers w (happened is_sent w)) reply ([Generated] @ new)" by simp
    moreover have "RequestID g t ctx rq w = (reply, w')"
      using False t by (simp add: RequestID_def Let_def i_def rq'_def)
    ultimately show ?thesis using new(1) by (intro exI [of _ "[Generated] @ new"]) simp
  qed
qed

lemma report_quiet:
  "\<exists>post. report h ev w = w\<lparr>hw_trace := hw_trace w @ post\<rparr> \<and> waits post = [] \<and> refusals post = [] \<and> sends post = []"
  by (cases h) (auto simp: report_def record_step_def intro: exI [of _ "[]"] exI [of _ "[Observed _ ev]"])

lemma observe_transparent:
  assumes "transparent adm t"
  shows "transparent adm (observe (report h) t)"
  unfolding transparent_def
proof (intro allI impI)
  fix ctx and rq :: http_request and w
  assume ctx: "hr_Context rq = ctx"
  obtain reply w1 where t: "t ctx rq (record_step Tick w) = (reply, w1)" by fastforce
  obtain new where new: "w1 = w\<lparr>hw_trace := (hw_trace w @ [Tick]) @ new\<rparr>"
    "outcome (adm ctx) ctx rq (hw_answers w (happened is_sent w)) reply new"
    using transparentE [OF assms ctx t] by auto
  obtain ev where run: "observe (report h) t ctx rq w = (reply, report h ev (record_step Tick w1))"
    using t by (cases reply) (simp add: observe_def read_clock_def Let_def)
  obtain post where post: "report h ev (record_step Tick w1) =
      w\<lparr>hw_trace := hw_trace (record_step Tick w1) @ post\<rparr>" "waits post = []" "refusals post = []" "sends post = []"
    using report_quiet [of h ev "record_step Tick w1"] new(1) by (auto simp: record_step_def)
  have "outcome (adm ctx) ctx rq (hw_answers w (happened is_sent w)) reply ([Tick] @ new @ ([Tick] @ post))"
    using new(2) post(2-) by (intro outcome_quiet) simp_all
  then show "\<exists>new. snd (observe (report h) t ctx rq w) = w\<lparr>hw_trace := hw_trace w @ new\<rparr> \<and>
    outcome (adm ctx) ctx rq (hw_answers w (happened is_sent w)) (fst (observe (report h) t ctx rq w)) new"
    unfolding run using post(1) new(1) by (intro exI [of _ "[Tick] @ new @ ([Tick] @ post)"]) simp
qed

text \<open>Both limiters ask for an admission first, and go on only with it.\<close>

lemma admitted_transparent:
  assumes "transparent adm t" "hr_Context rq = ctx"
    and "admit h n w = (err, w1)" "t ctx rq w1 = (reply, w2)"
  shows "err = None \<Longrightarrow> \<exists>new. w2 = w\<lparr>hw_trace := hw_trace w @ [Waited h n] @ new\<rparr> \<and>
      outcome ((h, n) # adm ctx) ctx rq (hw_answers w (happened is_sent w)) reply ([Waited h n] @ new)"
    and "err = Some e \<Longrightarrow> w1 = w\<lparr>hw_trace := hw_trace w @ [Refused h e]\<rparr>"
proof -
  assume "err = None"
  then have w1: "w1 = record_step (Waited h n) w"
    using assms(3) by (auto simp: admit_def split: option.splits)
  obtain new where "w2 = w1\<lparr>hw_trace := hw_trace w1 @ new\<rparr>"
    "outcome (adm ctx) ctx rq (hw_answers w1 (happened is_sent w1)) reply new"
    using transparentE [OF assms(1,2,4)] by auto
  then show "\<exists>new. w2 = w\<lparr>hw_trace := hw_trace w @ [Waited h n] @ new\<rparr> \<and>
      outcome ((h, n) # adm ctx) ctx rq (hw_answers w (happened is_sent w)) reply ([Waited h n] @ new)"
    unfolding w1 by (intro exI [of _ new] conjI outcome_wait) simp_all
next
  assume "err = Some e"
  then show "w1 = w\<lparr>hw_trace := hw_trace w @ [Refused h e]\<rparr>"
    using assms(3) by (auto simp: admit_def record_step_def split: option.splits)
qed

lemma RateLimit_transparent:
  assumes "transparent adm t"
  shows "transparent (\<lambda>ctx. admission ctx (MRateLimit i h) @ adm ctx) (RateLimit i h t)"
  unfolding transparent_def
proof (intro allI impI)
  fix ctx and rq :: http_request and w
  assume ctx: "hr_Context rq = ctx"
  obtain err w1 where a: "admit h 1 w = (err, w1)" by fastforce
  obtain reply w2 where t: "t ctx rq w1 = (reply, w2)" by fastforce
  note steps = admitted_transparent [OF assms ctx a t]
  show "\<exists>new. snd (RateLimit i h t ctx rq w) = w\<lparr>hw_trace := hw_trace w @ new\<rparr> \<and>
    outcome (admission ctx (MRateLimit i h) @ adm ctx) ctx rq (hw_answers w (happened is_sent w))
      (fst (RateLimit i h t ctx rq w)) new"
  proof (cases "i \<le> 0")
    case True
    then have "RateLimit i h t ctx rq w = t ctx rq w" by (simp add: RateLimit_def)
    then show ?thesis using transparentD [OF assms ctx] True by simp
  next
    case False
    show ?thesis
    proof (cases err)
      case None
      then have "RateLimit i h t ctx rq w = (reply, w2)" using False a t by (simp add: RateLimit_def)
      then show ?thesis using steps(1) [OF None] False by auto
    next
      case (Some e)
      then have "RateLimit i h t ctx rq w = ((None, Some e), w1)" using False a by (simp add: RateLimit_def)
      then show ?thesis using steps(2) [OF Some] False outcome_refuse by fastforce
    qed
  qed
qed

text \<open>After the reply: the surcharge is recorded, and the body put back.\<close>

lemma weighted_reply:
  assumes "outcome adm ctx rq answer (response, err) new"
    and "hp_Body r = Some b" "response = Some r" "err = None"
  shows "outcome adm ctx rq answer
    (Some (r\<lparr>hp_Body := Some \<lparr> bd_Data = bd_Data b, bd_Error = bd_Error b \<rparr>\<rparr>), bd_Error b) (new @ [Surcharged l n])"
    and "outcome adm ctx rq answer
    (Some (r\<lparr>hp_Body := Some \<lparr> bd_Data = bd_Data b, bd_Error = bd_Error b \<rparr>\<rparr>), bd_Error b) new"
proof -
  have b: "\<lparr> bd_Data = bd_Data b, bd_Error = bd_Error b \<rparr> = b" by (cases b) simp
  have r: "r\<lparr>hp_Body := Some \<lparr> bd_Data = bd_Data b, bd_Error = bd_Error b \<rparr>\<rparr> = r"
    unfolding b using assms(2) by (cases r) simp
  have two: "outcome adm ctx rq answer (Some r, bd_Error b) new"
    by (rule outcome_read [OF _ assms(2) refl]) (use assms in simp)
  then show "outcome adm ctx rq answer
    (Some (r\<lparr>hp_Body := Some \<lparr> bd_Data = bd_Data b, bd_Error = bd_Error b \<rparr>\<rparr>), bd_Error b) new"
    unfolding r .
  show "outcome adm ctx rq answer
    (Some (r\<lparr>hp_Body := Some \<lparr> bd_Data = bd_Data b, bd_Error = bd_Error b \<rparr>\<rparr>), bd_Error b) (new @ [Surcharged l n])"
    unfolding r using outcome_quiet [OF two, of "[]" "[Surcharged l n]"] by simp
qed

lemma Weighted_transparent:
  assumes "transparent adm t"
  shows "transparent (\<lambda>ctx. admission ctx (MWeighted p l) @ adm ctx) (WeightedRateLimitWithLimiter decode p l t)"
  unfolding transparent_def
proof (intro allI impI)
  fix ctx and rq :: http_request and w
  assume ctx: "hr_Context rq = ctx"
  let ?W = "WeightedRateLimitWithLimiter decode p l t ctx rq w"
  let ?goal = "\<exists>new. snd ?W = w\<lparr>hw_trace := hw_trace w @ new\<rparr> \<and>
    outcome (admission ctx (MWeighted p l) @ adm ctx) ctx rq (hw_answers w (happened is_sent w)) (fst ?W) new"
  show ?goal
  proof (cases "\<exists>q h kind payload. p = Some q \<and> l = Some h \<and> ctx = Some (kind, payload)")
    case False
    then have "?W = t ctx rq w" "admission ctx (MWeighted p l) = []"
      using ctx by (auto simp: WeightedRateLimitWithLimiter_def split: option.splits)
    then show ?thesis using transparentD [OF assms ctx] by (simp del: admission.simps)
  next
    case True
    then obtain q h kind payload where p: "p = Some q" "l = Some h" "ctx = Some (kind, payload)" by blast
    define n where "n = wp_RequestWeight q kind payload"
    obtain err w1 where a: "admit h n w = (err, w1)" by fastforce
    obtain response e2 w2 where t: "t ctx rq w1 = ((response, e2), w2)" by (metis prod.exhaust)
    note steps = admitted_transparent [OF assms ctx a t]
    have adm: "admission ctx (MWeighted p l) = [(h, n)]" by (simp add: p n_def)
    show ?thesis
    proof (cases err)
      case (Some e)
      then have "?W = ((None, Some e), w1)" using a by (simp add: WeightedRateLimitWithLimiter_def p n_def)
      then show ?thesis using steps(2) [OF Some] outcome_refuse adm by fastforce
    next
      case None
      obtain new where new: "w2 = w\<lparr>hw_trace := hw_trace w @ [Waited h n] @ new\<rparr>"
        "outcome ((h, n) # adm ctx) ctx rq (hw_answers w (happened is_sent w)) (response, e2) ([Waited h n] @ new)"
        using steps(1) [OF None] by blast
      show ?thesis
      proof (cases "\<exists>r b. e2 = None \<and> response = Some r \<and> hp_Body r = Some b \<and> 200 \<le> hp_StatusCode r \<and>
          hp_StatusCode r < 300")
        case False
        then have "?W = ((response, e2), w2)"
          using a t None by (auto simp: WeightedRateLimitWithLimiter_def p n_def Let_def split: option.splits)
        then show ?thesis using new adm by (intro exI [of _ "[Waited h n] @ new"]) simp
      next
        case True
        then obtain r b where r: "e2 = None" "response = Some r" "hp_Body r = Some b" "200 \<le> hp_StatusCode r"
          "hp_StatusCode r < 300" by blast
        note replies = weighted_reply [OF new(2) r(3,2,1)]
        let ?again = "(Some (r\<lparr>hp_Body := Some \<lparr> bd_Data = bd_Data b, bd_Error = bd_Error b \<rparr>\<rparr>), bd_Error b)"
        show ?thesis
        proof (cases "decode (bd_Data b)")
          case None
          then have "?W = (?again, w2)"
            using a t r \<open>err = None\<close> by (simp add: WeightedRateLimitWithLimiter_def p n_def)
          then show ?thesis using new(1) replies(2) adm by (intro exI [of _ "[Waited h n] @ new"]) simp
        next
          case (Some v)
          let ?s = "Surcharged h (wp_ResponseWeight q kind payload (Some v))"
          have "?W = (?again, record_step ?s w2)"
            using a t r \<open>err = None\<close> Some by (simp add: WeightedRateLimitWithLimiter_def p n_def)
          then show ?thesis using new(1) replies(1) [of h] adm
            by (intro exI [of _ "([Waited h n] @ new) @ [?s]"]) (simp add: record_step_def)
        qed
      qed
    qed
  qed
qed

definition admissions :: "http_middleware list \<Rightarrow> metadata option \<Rightarrow> (handle \<times> nat) list" where
  "admissions ms ctx = concat (map (admission ctx) ms)"

lemma stack_transparent: "transparent (admissions ms) (stack_Do decode ms)"
proof (induction ms)
  case Nil
  then show ?case using default_transparent by (simp add: stack_Do_def admissions_def [abs_def])
next
  case (Cons m ms)
  then have "transparent (\<lambda>ctx. admission ctx m @ admissions ms ctx)
      (apply_middleware decode m (stack_Do decode ms))"
    by (cases m) (simp_all add: RequestID_transparent observe_transparent RateLimit_transparent
        Weighted_transparent Logging_def Metrics_def del: admission.simps(4,5))
  then show ?case by (simp add: stack_Do_def admissions_def [abs_def])
qed

text \<open>
  C4: a stack of the package's middlewares, in any number and order, never repeats
  a request and never alters one. Either one of its limiters refuses, after the ones before it have
  admitted, nothing is sent and that error is returned; or every limiter admits the request, in
  the order of the stack and with its own weight, and the request reaches the server exactly once, the same up to
  a generated identifier that it did not have. Then the caller gets the server's reply with its whole
  body, and the server's error or the one that stopped reading the body.
\<close>

theorem middleware_transparent:
  assumes "hr_Context rq = ctx" "stack_Do decode ms ctx rq w = (reply, w')"
  shows "\<exists>new. w' = w\<lparr>hw_trace := hw_trace w @ new\<rparr> \<and>
    (sends new = [] \<and> (\<exists>e. reply = (None, Some e) \<and> refusals new = [e]) \<and>
       prefix (waits new) (admissions ms ctx) \<and> waits new \<noteq> admissions ms ctx \<or>
     refusals new = [] \<and> waits new = admissions ms ctx \<and>
       (\<exists>r. sends new = [r] \<and> same_request r rq \<and> hr_Context r = ctx) \<and>
       same_reply reply (hw_answers w (happened is_sent w)))"
  using transparentE [OF stack_transparent assms] unfolding outcome_def by metis

definition sample_request :: http_request where
  "sample_request = \<lparr> hr_Method = ''POST'', hr_Path = ''/info'', hr_Header = Map.empty,
     hr_Context = Some (''info'', JObj [(''type'', JStr ''allMids'')]) \<rparr>"

definition sample_world :: http_world where
  "sample_world = \<lparr> hw_answers = (\<lambda>n. (Some \<lparr> hp_StatusCode = 200, hp_Body = Some \<lparr> bd_Data = ''1'', bd_Error = None \<rparr> \<rparr>, None)),
     hw_refusals = (\<lambda>n. None), hw_clock = (\<lambda>n. int n), hw_ids = (\<lambda>n. ''id''), hw_trace = [] \<rparr>"

definition sample_stack :: "http_middleware list" where
  "sample_stack = [MRequestID True, MRateLimit 5 1, MWeighted (Some OfficialWeightPolicy) (Some 2), MLogging (Some 3)]"

theorem middleware_transparent_witness:
  "fst (stack_Do (\<lambda>s. Some (JInt 1)) sample_stack (hr_Context sample_request) sample_request sample_world) =
     hw_answers sample_world 0 \<and>
   waits (hw_trace (snd (stack_Do (\<lambda>s. Some (JInt 1)) sample_stack (hr_Context sample_request) sample_request
     sample_world))) = [(1, 1), (2, 2)]"
proof -
  obtain reply w' where run: "stack_Do (\<lambda>s. Some (JInt 1)) sample_stack (hr_Context sample_request) sample_request
      sample_world = (reply, w')" by fastforce
  have adm: "admissions sample_stack (hr_Context sample_request) = [(1, 1), (2, 2)]"
    by (simp add: admissions_def sample_stack_def sample_request_def OfficialWeightPolicy_def RequestWeight_def
        requestType_def payloadObject_def object_def as_string_def)
  have "fst reply = Some \<lparr> hp_StatusCode = 200, hp_Body = Some \<lparr> bd_Data = ''1'', bd_Error = None \<rparr> \<rparr>"
    using run by (auto simp: stack_Do_def sample_stack_def sample_request_def sample_world_def RequestID_def
        header_get_def RateLimit_def admit_def WeightedRateLimitWithLimiter_def Logging_def observe_def
        read_clock_def default_Do_def record_step_def happened_def Let_def)
  with middleware_transparent [OF refl run] have "waits (hw_trace w') = [(1, 1), (2, 2)]"
    "same_reply reply (hw_answers sample_world 0)"
    by (auto simp: adm sample_world_def happened_def)+
  then show ?thesis unfolding run fst_conv snd_conv by (auto simp: same_reply_def sample_world_def prod_eq_iff)
qed

end
