(* ===== verification/UpstreamCheck.thy ===== *)
theory UpstreamCheck
  imports Prelude
begin

text \<open>
  The release check \<^verbatim>\<open>scripts/upstreamcheck/main.go\<close>: the validation of the lock of upstream contracts
  and its comparison with the documents and files that are online. The parser of URLs, the matches of the
  regular expressions with a search, the HTML entities and SHA-256 are parameters; upper and lower case are
  those of ASCII. A Go map used as a set is the sorted list of its keys wherever the order can be seen.
\<close>

section \<open>The lock\<close>

record semanticLock =
  sm_Name :: string
  sm_Values :: "string list"

record documentLock =
  dl_Name :: string
  dl_URL :: string
  dl_Revision :: string
  dl_CanonicalSHA256 :: string
  dl_Summary :: string
  dl_RequiredMarkers :: "string list"
  dl_Semantics :: "semanticLock list"

record pythonFileLock =
  pf_Path :: string
  pf_SHA256 :: string
  pf_RequiredMarkers :: "string list"

record pythonSDKLock =
  ps_Repository :: string
  ps_HeadAPIURL :: string
  ps_RawBaseURL :: string
  ps_Revision :: string
  ps_Files :: "pythonFileLock list"

record lockFile =
  lk_Version :: int
  lk_Documents :: "documentLock list"
  lk_PythonSDK :: pythonSDKLock

text \<open>What the check uses of a parsed URL, and of the other library functions.\<close>

record parsed_url =
  pu_Scheme :: string
  pu_Host :: string
  pu_Hostname :: string
  pu_Port :: string
  pu_HasUser :: bool
  pu_RawQuery :: string
  pu_ForceQuery :: bool
  pu_Fragment :: string
  pu_Path :: string
  pu_RawPath :: string

record upstream_lib =
  ul_Parse :: "string \<Rightarrow> parsed_url option"
  ul_Unescape :: "string \<Rightarrow> string"
  ul_SHA256 :: "string \<Rightarrow> string"
  ul_StripTags :: "string \<Rightarrow> string"
  ul_ActionTypes :: "string \<Rightarrow> string list"
  ul_InfoTypes :: "string \<Rightarrow> string list"
  ul_Methods :: "string \<Rightarrow> string list"
  ul_SigningMarkers :: "string \<Rightarrow> string list"

section \<open>What the lock must cover\<close>

definition gitbook :: string where "gitbook = ''hyperliquid.gitbook.io''"

definition allowedGitBookPaths :: "string list" where
  "allowedGitBookPaths = map ((@) ''/hyperliquid-docs/'')
     [''for-developers/api'', ''for-developers/api/signing'', ''for-developers/api/exchange-endpoint'',
      ''for-developers/api/info-endpoint'', ''for-developers/api/websocket'',
      ''for-developers/api/websocket/subscriptions'', ''for-developers/api/rate-limits-and-user-limits'',
      ''trading/fees'', ''hypercore/staking'', ''trading/account-abstraction-modes'', ''trading/portfolio-margin'']"

definition semanticInfoRequestTypes :: string where "semanticInfoRequestTypes = ''info-request-types''"
definition semanticExchangeActionTypes :: string where "semanticExchangeActionTypes = ''exchange-action-types''"
definition semanticWebSocketSubscription :: string where
  "semanticWebSocketSubscription = ''websocket-subscription-types''"
definition semanticSigningMarkers :: string where "semanticSigningMarkers = ''signing-markers''"

text \<open>Each required document with its URL and the name of its snapshot, empty if it has none.\<close>

definition requiredDocuments :: "(string \<times> string \<times> string) list" where
  "requiredDocuments =
     (let url = (\<lambda>p. ''https://hyperliquid.gitbook.io/hyperliquid-docs/'' @ p) in
     [(''official-api-index'', url ''for-developers/api'', []),
      (''official-signing'', url ''for-developers/api/signing'', semanticSigningMarkers),
      (''official-exchange-endpoint'', url ''for-developers/api/exchange-endpoint'', semanticExchangeActionTypes),
      (''official-info-endpoint'', url ''for-developers/api/info-endpoint'', semanticInfoRequestTypes),
      (''official-websocket'', url ''for-developers/api/websocket'', []),
      (''official-websocket-subscriptions'', url ''for-developers/api/websocket/subscriptions'',
        semanticWebSocketSubscription),
      (''official-rate-limits'', url ''for-developers/api/rate-limits-and-user-limits'', []),
      (''official-fees'', url ''trading/fees'', []),
      (''official-staking'', url ''hypercore/staking'', []),
      (''official-account-abstraction-modes'', url ''trading/account-abstraction-modes'', []),
      (''official-portfolio-margin'', url ''trading/portfolio-margin'', [])])"

definition requiredPythonSDKFiles :: "string list" where
  "requiredPythonSDKFiles = [''hyperliquid/exchange.py'', ''hyperliquid/info.py'', ''hyperliquid/utils/signing.py'',
     ''hyperliquid/utils/types.py'']"

definition knownSemanticNames :: "string list" where
  "knownSemanticNames = [semanticInfoRequestTypes, semanticExchangeActionTypes, semanticWebSocketSubscription,
     semanticSigningMarkers]"

section \<open>Text\<close>

definition is_lower_letter :: "char \<Rightarrow> bool" where "is_lower_letter c = (CHR ''a'' \<le> c \<and> c \<le> CHR ''z'')"
definition is_letter :: "char \<Rightarrow> bool" where
  "is_letter c = (is_lower_letter c \<or> CHR ''A'' \<le> c \<and> c \<le> CHR ''Z'')"
definition is_number :: "char \<Rightarrow> bool" where "is_number c = (CHR ''0'' \<le> c \<and> c \<le> CHR ''9'')"

text \<open>The patterns that are anchored at both ends.\<close>

definition semantic_value :: "string \<Rightarrow> bool" where
  "semantic_value v = (case v of [] \<Rightarrow> False
     | c # cs \<Rightarrow> is_letter c \<and> list_all (\<lambda>d. is_letter d \<or> is_number d \<or> d = CHR ''_'') cs)"

definition validGitRevision :: "string \<Rightarrow> bool" where
  "validGitRevision v = (length v = 40 \<and> list_all (\<lambda>c. is_number c \<or> CHR ''a'' \<le> c \<and> c \<le> CHR ''f'') v)"

definition python_path :: "string \<Rightarrow> bool" where
  "python_path v = (case v of [] \<Rightarrow> False
     | c # cs \<Rightarrow> (is_letter c \<or> is_number c) \<and>
         list_all (\<lambda>d. is_letter d \<or> is_number d \<or> d \<in> set ''._/-'') cs)"

text \<open>\<^verbatim>\<open>strings.Split\<close> at one character, \<^verbatim>\<open>strings.Join\<close> and \<^verbatim>\<open>strings.Fields\<close>.\<close>

fun split_at :: "char \<Rightarrow> string \<Rightarrow> string list" where
  "split_at c [] = [[]]"
| "split_at c (x # xs) = (if x = c then [] # split_at c xs
     else case split_at c xs of [] \<Rightarrow> [[x]] | y # ys \<Rightarrow> (x # y) # ys)"

fun join :: "string \<Rightarrow> string list \<Rightarrow> string" where
  "join s [] = []" | "join s [x] = x" | "join s (x # y # ys) = x @ s @ join s (y # ys)"

definition text_fields :: "string \<Rightarrow> string list" where
  "text_fields s = filter (\<lambda>w. w \<noteq> []) (split_at CHR '' '' (map (\<lambda>c. if is_space c then CHR '' '' else c) s))"

fun contains_text :: "string \<Rightarrow> string \<Rightarrow> bool" where
  "contains_text [] part = (part = [])"
| "contains_text (c # cs) part = (has_prefix (c # cs) part \<or> contains_text cs part)"

function replace_all :: "string \<Rightarrow> string \<Rightarrow> string \<Rightarrow> string" where
  "replace_all old new [] = []"
| "replace_all old new (c # cs) =
     (if old \<noteq> [] \<and> has_prefix (c # cs) old then new @ replace_all old new (drop (length old) (c # cs))
      else c # replace_all old new cs)"
  by pat_completeness auto
termination by (relation "measure (\<lambda>(a, b, s). length s)") auto

definition validSHA256 :: "string \<Rightarrow> bool" where
  "validSHA256 v = (length v = 64 \<and> hex_decode v \<noteq> None \<and> v = to_lower v)"

definition validPythonFilePath :: "string \<Rightarrow> bool" where
  "validPythonFilePath path =
     (python_path path \<and> \<not> has_prefix path ''/'' \<and> \<not> has_prefix (rev path) ''/'' \<and>
      list_all (\<lambda>s. s \<notin> {[], ''.'', ''..''}) (split_at CHR ''/'' path))"

section \<open>Validation of the lock\<close>

definition parseCanonicalHTTPSURL :: "upstream_lib \<Rightarrow> string \<Rightarrow> string \<Rightarrow> parsed_url res" where
  "parseCanonicalHTTPSURL L rawURL expectedHost =
     (case ul_Parse L rawURL of
        None \<Rightarrow> Inl ''invalid URL''
      | Some p \<Rightarrow>
          if pu_Scheme p \<noteq> ''https'' \<or> pu_Hostname p \<noteq> expectedHost \<or> pu_Port p \<noteq> [] \<or> pu_HasUser p \<or>
             pu_RawQuery p \<noteq> [] \<or> pu_ForceQuery p \<or> pu_Fragment p \<noteq> [] \<or> pu_RawPath p \<noteq> []
          then Inl (''must be a canonical https URL for '' @ expectedHost @
            '' without userinfo, port, query, fragment, or escaped path'')
          else if pu_Host p \<noteq> expectedHost \<or> rawURL \<noteq> ''https://'' @ expectedHost @ pu_Path p
          then Inl ''must use canonical host and path''
          else Inr p)"

definition validateGitBookDocumentURL :: "upstream_lib \<Rightarrow> string \<Rightarrow> unit res" where
  "validateGitBookDocumentURL L rawURL =
     bind_res (parseCanonicalHTTPSURL L rawURL gitbook) (\<lambda>p.
       guard_res (pu_Path p \<in> set allowedGitBookPaths)
         (''path '' @ quote (pu_Path p) @ '' is not an approved official GitBook document''))"

definition validateCanonicalHTTPSURL :: "upstream_lib \<Rightarrow> string \<Rightarrow> string \<Rightarrow> string \<Rightarrow> unit res" where
  "validateCanonicalHTTPSURL L rawURL host expectedPath =
     bind_res (parseCanonicalHTTPSURL L rawURL host) (\<lambda>p.
       guard_res (pu_Path p = expectedPath) (''path must be '' @ quote expectedPath))"

fun markers_loop :: "string list \<Rightarrow> string list \<Rightarrow> string \<Rightarrow> unit res" where
  "markers_loop [] seen scope = Inr ()"
| "markers_loop (m # ms) seen scope =
     (let marker = trim_space m in
      if marker = [] then Inl (scope @ '' contains an empty required marker'')
      else if marker \<in> set seen then Inl (scope @ '' has duplicate required marker '' @ quote marker)
      else markers_loop ms (marker # seen) scope)"

definition validateMarkers :: "string list \<Rightarrow> string \<Rightarrow> unit res" where
  "validateMarkers markers scope = markers_loop markers [] scope"

text \<open>The values of a snapshot, each beside the one before it.\<close>

fun values_loop :: "string option \<Rightarrow> string list \<Rightarrow> string \<Rightarrow> string \<Rightarrow> unit res" where
  "values_loop previous [] name scope = Inr ()"
| "values_loop previous (v # vs) name scope =
     (if \<not> semantic_value v
      then Inl (scope @ '' semantic snapshot '' @ quote name @ '' has invalid value '' @ quote v)
      else if (case previous of None \<Rightarrow> False | Some p \<Rightarrow> v \<le> p)
      then Inl (scope @ '' semantic snapshot '' @ quote name @ '' values must be strictly sorted'')
      else values_loop (Some v) vs name scope)"

fun semantics_loop :: "semanticLock list \<Rightarrow> string list \<Rightarrow> string \<Rightarrow> unit res" where
  "semantics_loop [] seen scope = Inr ()"
| "semantics_loop (s # ss) seen scope =
     (if sm_Name s \<notin> set knownSemanticNames
      then Inl (scope @ '' has unknown semantic snapshot '' @ quote (sm_Name s))
      else if sm_Name s \<in> set seen
      then Inl (scope @ '' has duplicate semantic snapshot '' @ quote (sm_Name s))
      else if sm_Values s = []
      then Inl (scope @ '' semantic snapshot '' @ quote (sm_Name s) @ '' must not be empty'')
      else bind_res (values_loop None (sm_Values s) (sm_Name s) scope) (\<lambda>_.
        semantics_loop ss (sm_Name s # seen) scope))"

definition validateSemantics :: "semanticLock list \<Rightarrow> string \<Rightarrow> unit res" where
  "validateSemantics semantics scope = semantics_loop semantics [] scope"

definition validateDocumentSemanticBinding :: "semanticLock list \<Rightarrow> string \<Rightarrow> string \<Rightarrow> unit res" where
  "validateDocumentSemanticBinding semantics requiredName documentName =
     (if requiredName = []
      then guard_res (semantics = []) (''document '' @ quote documentName @ '' must not have a semantic snapshot'')
      else guard_res (length semantics = 1 \<and> sm_Name (hd semantics) = requiredName)
        (''document '' @ quote documentName @ '' must have exactly the '' @ quote requiredName @ '' semantic snapshot''))"

definition validate_document :: "upstream_lib \<Rightarrow> string list \<Rightarrow> documentLock \<Rightarrow> unit res" where
  "validate_document L seen d =
     (if dl_Name d = [] then Inl ''document name must not be empty''
      else if dl_Name d \<in> set seen then Inl (''duplicate document '' @ quote (dl_Name d))
      else case map_of requiredDocuments (dl_Name d) of
        None \<Rightarrow> Inl (''document '' @ quote (dl_Name d) @ '' is not part of the required upstream contract coverage'')
      | Some (url, semantic) \<Rightarrow>
          if dl_URL d \<noteq> url then Inl (''document '' @ quote (dl_Name d) @ '' URL must be '' @ quote url)
          else bind_res (wrap_res (''document '' @ quote (dl_Name d) @ '' URL'') (validateGitBookDocumentURL L (dl_URL d))) (\<lambda>_.
          if dl_Revision d \<noteq> ''sha256:'' @ dl_CanonicalSHA256 d \<or> \<not> validSHA256 (dl_CanonicalSHA256 d)
          then Inl (''document '' @ quote (dl_Name d) @ '' revision must equal sha256:<canonical digest>'')
          else if trim_space (dl_Summary d) = []
          then Inl (''document '' @ quote (dl_Name d) @ '' summary must not be empty'')
          else bind_res (validateMarkers (dl_RequiredMarkers d) (''document '' @ dl_Name d)) (\<lambda>_.
          bind_res (validateSemantics (dl_Semantics d) (''document '' @ dl_Name d)) (\<lambda>_.
          validateDocumentSemanticBinding (dl_Semantics d) semantic (dl_Name d)))))"

fun documents_loop :: "upstream_lib \<Rightarrow> string list \<Rightarrow> documentLock list \<Rightarrow> string list res" where
  "documents_loop L seen [] = Inr seen"
| "documents_loop L seen (d # ds) =
     bind_res (validate_document L seen d) (\<lambda>_. documents_loop L (dl_Name d # seen) ds)"

definition validate_file :: "string list \<Rightarrow> pythonFileLock \<Rightarrow> unit res" where
  "validate_file seen f =
     (if \<not> validPythonFilePath (pf_Path f) then Inl (''invalid python_sdk file path '' @ quote (pf_Path f))
      else if pf_Path f \<in> set seen then Inl (''duplicate python_sdk file '' @ quote (pf_Path f))
      else if pf_Path f \<notin> set requiredPythonSDKFiles
      then Inl (''python_sdk file '' @ quote (pf_Path f) @ '' is not part of the required upstream contract coverage'')
      else if \<not> validSHA256 (pf_SHA256 f) then Inl (''python_sdk file '' @ quote (pf_Path f) @ '' has invalid sha256'')
      else validateMarkers (pf_RequiredMarkers f) (''python_sdk file '' @ pf_Path f))"

fun files_loop :: "string list \<Rightarrow> pythonFileLock list \<Rightarrow> string list res" where
  "files_loop seen [] = Inr seen"
| "files_loop seen (f # fs) = bind_res (validate_file seen f) (\<lambda>_. files_loop (pf_Path f # seen) fs)"

definition validateLock :: "upstream_lib \<Rightarrow> lockFile \<Rightarrow> unit res" where
  "validateLock L lock =
     (if lk_Version lock \<noteq> 3 then Inl (''unsupported version '' @ show_int (lk_Version lock))
      else if lk_Documents lock = [] then Inl ''documents must not be empty''
      else bind_res (documents_loop L [] (lk_Documents lock)) (\<lambda>seen.
      let missing = filter (\<lambda>n. n \<notin> set seen) (map fst requiredDocuments) in
      if missing \<noteq> [] then Inl (''missing required document coverage: '' @ join '', '' (sort missing))
      else let python = lk_PythonSDK lock in
      bind_res (wrap_res ''python_sdk.repository'' (validateCanonicalHTTPSURL L (ps_Repository python)
        ''github.com'' ''/hyperliquid-dex/hyperliquid-python-sdk'')) (\<lambda>_.
      bind_res (wrap_res ''python_sdk.head_api_url'' (validateCanonicalHTTPSURL L (ps_HeadAPIURL python)
        ''api.github.com'' ''/repos/hyperliquid-dex/hyperliquid-python-sdk/commits/HEAD'')) (\<lambda>_.
      bind_res (wrap_res ''python_sdk.raw_base_url'' (validateCanonicalHTTPSURL L (ps_RawBaseURL python)
        ''raw.githubusercontent.com'' ''/hyperliquid-dex/hyperliquid-python-sdk'')) (\<lambda>_.
      if \<not> validGitRevision (ps_Revision python)
      then Inl ''python_sdk revision must be a 40-character lowercase git revision''
      else if ps_Files python = [] then Inl ''python_sdk files must not be empty''
      else bind_res (files_loop [] (ps_Files python)) (\<lambda>files.
      let absent = filter (\<lambda>p. p \<notin> set files) requiredPythonSDKFiles in
      if absent \<noteq> [] then Inl (''missing required python_sdk files: '' @ join '', '' (sort absent))
      else Inr ()))))))"

section \<open>Comparison with what is online\<close>

text \<open>What normalization makes of a text: entities, an escaped quote and an escaped line break.\<close>

definition normalizeUpstreamText :: "upstream_lib \<Rightarrow> string \<Rightarrow> string" where
  "normalizeUpstreamText L contents =
     replace_all [CHR 0x5C, CHR 0x5C, CHR ''n''] '' ''
       (replace_all [CHR 0x5C, CHR 0x5C, CHR 0x22] [CHR 0x22] (ul_Unescape L contents))"

definition missingMarkers :: "upstream_lib \<Rightarrow> string \<Rightarrow> string list \<Rightarrow> string list" where
  "missingMarkers L contents required =
     (let text = to_lower (normalizeUpstreamText L contents)
      in sort (filter (\<lambda>m. \<not> contains_text text (to_lower m)) required))"

text \<open>A set of strings as the sorted list of its elements.\<close>

definition setValues :: "string list \<Rightarrow> string list" where
  "setValues values = sort (remdups values)"

definition setDifference :: "string list \<Rightarrow> string list \<Rightarrow> string list" where
  "setDifference left right = setValues (filter (\<lambda>v. v \<notin> set right) left)"

definition actionTypes :: "upstream_lib \<Rightarrow> string \<Rightarrow> string list" where
  "actionTypes L contents =
     filter (\<lambda>v. v \<notin> set [''bool'', ''bytes'', ''default'', ''string'', ''uint64''])
       (ul_ActionTypes L (normalizeUpstreamText L contents))"

definition infoRequestTypes :: "upstream_lib \<Rightarrow> string \<Rightarrow> string list" where
  "infoRequestTypes L text = ul_InfoTypes L (join '' '' (text_fields (ul_StripTags L text)))"

definition semanticValues :: "upstream_lib \<Rightarrow> string \<Rightarrow> string \<Rightarrow> string list" where
  "semanticValues L name contents =
     (let text = normalizeUpstreamText L contents in
      if name = semanticInfoRequestTypes
      then (if infoRequestTypes L text \<noteq> [] then infoRequestTypes L text else actionTypes L text)
      else if name = semanticExchangeActionTypes \<or> name = semanticWebSocketSubscription then actionTypes L text
      else if name = semanticSigningMarkers then ul_SigningMarkers L text
      else [])"

text \<open>The parts of a difference that are there.\<close>

definition delta :: "string \<Rightarrow> string list \<Rightarrow> string list \<Rightarrow> string" where
  "delta label added removed =
     join ''; '' ((if added \<noteq> [] then [label @ '' added: '' @ join '', '' added] else []) @
       (if removed \<noteq> [] then [label @ '' removed: '' @ join '', '' removed] else []))"

definition upper_char :: "char \<Rightarrow> char" where
  "upper_char c = (if is_lower_letter c then char_of (of_char c - 32 :: nat) else c)"

definition formatSemanticDelta :: "string \<Rightarrow> string list \<Rightarrow> string list \<Rightarrow> string" where
  "formatSemanticDelta name added removed =
     delta (map upper_char (map (\<lambda>c. if c = CHR ''-'' then CHR ''_'' else c) name)) added removed"

definition documentSemanticDelta :: "upstream_lib \<Rightarrow> semanticLock \<Rightarrow> string \<Rightarrow> string" where
  "documentSemanticDelta L semantic contents =
     (let observed = semanticValues L (sm_Name semantic) contents in
      if observed = [] then ''semantic extraction unavailable: '' @ sm_Name semantic
      else formatSemanticDelta (sm_Name semantic) (setDifference observed (sm_Values semantic))
        (setDifference (sm_Values semantic) observed))"

definition actionTypeDelta :: "upstream_lib \<Rightarrow> string \<Rightarrow> string \<Rightarrow> string" where
  "actionTypeDelta L locked upstream =
     (let before = actionTypes L locked; after = actionTypes L upstream
      in delta ''action-types'' (setDifference after before) (setDifference before after))"

definition pythonMethodDelta :: "upstream_lib \<Rightarrow> string \<Rightarrow> string \<Rightarrow> string" where
  "pythonMethodDelta L locked upstream =
     (let before = ul_Methods L locked; after = ul_Methods L upstream
      in delta ''python-methods'' (setDifference after before) (setDifference before after))"

definition canonicalMarker :: "upstream_lib \<Rightarrow> string \<Rightarrow> string" where
  "canonicalMarker L marker = to_lower (join '' '' (text_fields (normalizeUpstreamText L marker)))"

definition canonicalDocument :: "upstream_lib \<Rightarrow> documentLock \<Rightarrow> string \<Rightarrow> string" where
  "canonicalDocument L d contents =
     (let marker_lines = map (\<lambda>m. ''marker='' @ canonicalMarker L m @ '';present='' @
            (if missingMarkers L contents [m] = [] then ''true'' else ''false'')) (dl_RequiredMarkers d);
          semantic_lines = map (\<lambda>s. ''semantic='' @ sm_Name s @ '';values='' @
            join '','' (setValues (semanticValues L (sm_Name s) contents))) (dl_Semantics d)
      in join [CHR 0x0A] (sort (marker_lines @ semantic_lines)) @ [CHR 0x0A])"

definition canonicalDocumentDigest :: "upstream_lib \<Rightarrow> documentLock \<Rightarrow> string \<Rightarrow> string" where
  "canonicalDocumentDigest L d contents = ul_SHA256 L (canonicalDocument L d contents)"

definition rawPythonURL :: "pythonSDKLock \<Rightarrow> string \<Rightarrow> string \<Rightarrow> string" where
  "rawPythonURL lock revision path =
     rev (dropWhile (\<lambda>c. c = CHR ''/'') (rev (ps_RawBaseURL lock))) @ ''/'' @ revision @ ''/'' @ path"

definition formatFindings :: "string list \<Rightarrow> string" where
  "formatFindings findings =
     (if findings = [] then [] else join [CHR 0x0A, CHR 0x0A] findings @ [CHR 0x0A])"

text \<open>
  A GET that follows no redirect: the status and its text, and the body, of which 20 MiB are read; and
  the head revision, whose JSON \<open>decode\<close> reads.
\<close>

record http_get =
  hg_StatusCode :: int
  hg_Status :: string
  hg_Body :: "string res"

definition fetchURL :: "(string \<Rightarrow> http_get res) \<Rightarrow> string \<Rightarrow> string res" where
  "fetchURL get_url rawURL =
     bind_res (get_url rawURL) (\<lambda>response.
     if hg_StatusCode response < 200 \<or> 300 \<le> hg_StatusCode response
     then Inl (''GET '' @ rawURL @ '': '' @ hg_Status response)
     else bind_res (hg_Body response) (\<lambda>body. Inr (take 20971520 body)))"

definition pythonHead :: "(string \<Rightarrow> string res) \<Rightarrow> (string \<Rightarrow> string res) \<Rightarrow> string \<Rightarrow> string res" where
  "pythonHead decode fetch headAPIURL =
     bind_res (fetch headAPIURL) (\<lambda>contents.
     bind_res (wrap_res ''decode Python SDK HEAD response'' (decode contents)) (\<lambda>sha.
     if \<not> validGitRevision sha then Inl (''python SDK HEAD response has invalid SHA '' @ quote sha) else Inr sha))"

definition line :: "string \<Rightarrow> string" where "line s = CHR 0x0A # '' '' @ '' '' @ s"

text \<open>The findings for one document whose contents are there.\<close>

definition document_findings :: "upstream_lib \<Rightarrow> documentLock \<Rightarrow> string \<Rightarrow> string list" where
  "document_findings L d contents =
     (let observed = canonicalDocumentDigest L d contents; missing = missingMarkers L contents (dl_RequiredMarkers d)
      in (if observed \<noteq> dl_CanonicalSHA256 d
          then [''DOCUMENT_CONTRACT_DRIFT name='' @ dl_Name d @ line (''url='' @ dl_URL d) @
            line (''locked_normalized_sha256='' @ dl_CanonicalSHA256 d) @
            line (''observed_normalized_sha256='' @ observed)]
          else []) @
         (if missing \<noteq> []
          then [''DOCUMENT_STRUCTURE_DRIFT name='' @ dl_Name d @ line (''missing required markers: '' @ join '', '' missing)]
          else []) @
         map (\<lambda>d'. ''DOCUMENT_SEMANTIC_DRIFT name='' @ dl_Name d @ line d')
           (filter (\<lambda>x. x \<noteq> []) (map (\<lambda>s. documentSemanticDelta L s contents) (dl_Semantics d))))"

fun check_documents :: "upstream_lib \<Rightarrow> (string \<Rightarrow> string res) \<Rightarrow> documentLock list \<Rightarrow> string list res" where
  "check_documents L fetch [] = Inr []"
| "check_documents L fetch (d # ds) =
     bind_res (wrap_res (''fetch official document '' @ quote (dl_Name d)) (fetch (dl_URL d))) (\<lambda>contents.
     bind_res (check_documents L fetch ds) (\<lambda>rest. Inr (document_findings L d contents @ rest)))"

text \<open>One file: an error, or the findings.\<close>

definition check_file :: "upstream_lib \<Rightarrow> (string \<Rightarrow> string res) \<Rightarrow> pythonSDKLock \<Rightarrow> string \<Rightarrow> pythonFileLock \<Rightarrow>
    string list res" where
  "check_file L fetch python head f =
     bind_res (wrap_res (''fetch locked Python SDK file '' @ quote (pf_Path f))
       (fetch (rawPythonURL python (ps_Revision python) (pf_Path f)))) (\<lambda>locked.
     if ul_SHA256 L locked \<noteq> pf_SHA256 f
     then Inl (''locked Python SDK file '' @ quote (pf_Path f) @ '' digest mismatch: lock='' @ pf_SHA256 f @
       '' observed='' @ ul_SHA256 L locked)
     else if missingMarkers L locked (pf_RequiredMarkers f) \<noteq> []
     then Inl (''locked Python SDK file '' @ quote (pf_Path f) @ '' lacks required markers: '' @
       join '', '' (missingMarkers L locked (pf_RequiredMarkers f)))
     else if head = ps_Revision python then Inr []
     else bind_res (wrap_res (''fetch upstream Python SDK file '' @ quote (pf_Path f))
       (fetch (rawPythonURL python head (pf_Path f)))) (\<lambda>upstream.
     if ul_SHA256 L upstream = pf_SHA256 f then Inr []
     else let missing = missingMarkers L upstream (pf_RequiredMarkers f); methods = pythonMethodDelta L locked upstream;
         actions = actionTypeDelta L locked upstream
       in Inr [''PYTHON_SDK_FILE_DRIFT path='' @ pf_Path f @ line (''locked_sha256='' @ pf_SHA256 f) @
         line (''upstream_sha256='' @ ul_SHA256 L upstream) @
         (if actions \<noteq> [] then line actions else []) @ (if methods \<noteq> [] then line methods else []) @
         (if missing \<noteq> [] then line (''missing required markers: '' @ join '', '' missing) else [])]))"

text \<open>The files in order, with the findings so far; an error stops the loop but keeps them.\<close>

fun check_files :: "upstream_lib \<Rightarrow> (string \<Rightarrow> string res) \<Rightarrow> pythonSDKLock \<Rightarrow> string \<Rightarrow> pythonFileLock list \<Rightarrow>
    string list \<Rightarrow> string list \<times> string option" where
  "check_files L fetch python head [] findings = (findings, None)"
| "check_files L fetch python head (f # fs) findings =
     (case check_file L fetch python head f of
        Inl e \<Rightarrow> (findings, Some e)
      | Inr new \<Rightarrow> check_files L fetch python head fs (findings @ new))"

definition checkNetwork :: "upstream_lib \<Rightarrow> (string \<Rightarrow> string res) \<Rightarrow> (string \<Rightarrow> string res) \<Rightarrow> lockFile \<Rightarrow>
    string \<times> string option" where
  "checkNetwork L fetch head_of lock =
     (case check_documents L fetch (lk_Documents lock) of
        Inl e \<Rightarrow> ([], Some e)
      | Inr findings \<Rightarrow>
          let python = lk_PythonSDK lock in
          (case head_of (ps_HeadAPIURL python) of
             Inl e \<Rightarrow> (formatFindings findings, Some (''read official Python SDK HEAD: '' @ e))
           | Inr head \<Rightarrow>
               let revision = (if head \<noteq> ps_Revision python
                     then [''PYTHON_SDK_REVISION_DRIFT'' @ line (''repository='' @ ps_Repository python) @
                       line (''locked_revision='' @ ps_Revision python) @ line (''upstream_revision='' @ head)]
                     else []);
                 (all, err) = check_files L fetch python head (ps_Files python) (findings @ revision)
               in case err of
                    Some e \<Rightarrow> (formatFindings all, Some e)
                  | None \<Rightarrow> if all = [] then ([], None)
                      else (formatFindings all, Some ''official upstream changed; lock not updated automatically'')))"

section \<open>What an accepted lock is\<close>

definition markers_ok :: "string list \<Rightarrow> bool" where
  "markers_ok ms = (distinct (map trim_space ms) \<and> [] \<notin> set (map trim_space ms))"

definition values_ok :: "string list \<Rightarrow> bool" where
  "values_ok vs = (vs \<noteq> [] \<and> list_all semantic_value vs \<and> sorted_wrt (<) vs)"

definition snapshot_ok :: "string \<Rightarrow> semanticLock list \<Rightarrow> bool" where
  "snapshot_ok required ss =
     (if required = [] then ss = [] else \<exists>s. ss = [s] \<and> sm_Name s = required \<and> values_ok (sm_Values s))"

definition document_ok :: "upstream_lib \<Rightarrow> documentLock \<Rightarrow> bool" where
  "document_ok L d =
     (\<exists>semantic. (dl_Name d, dl_URL d, semantic) \<in> set requiredDocuments \<and>
        is_ok (validateGitBookDocumentURL L (dl_URL d)) \<and> dl_Revision d = ''sha256:'' @ dl_CanonicalSHA256 d \<and>
        validSHA256 (dl_CanonicalSHA256 d) \<and> trim_space (dl_Summary d) \<noteq> [] \<and>
        markers_ok (dl_RequiredMarkers d) \<and> snapshot_ok semantic (dl_Semantics d))"

definition file_ok :: "pythonFileLock \<Rightarrow> bool" where
  "file_ok f = (validSHA256 (pf_SHA256 f) \<and> markers_ok (pf_RequiredMarkers f))"

definition canonical_url :: "upstream_lib \<Rightarrow> string \<Rightarrow> string \<Rightarrow> string \<Rightarrow> bool" where
  "canonical_url L u host path = (u = ''https://'' @ host @ path \<and> is_ok (validateCanonicalHTTPSURL L u host path))"

definition lock_ok :: "upstream_lib \<Rightarrow> lockFile \<Rightarrow> bool" where
  "lock_ok L lock =
     (lk_Version lock = 3 \<and>
      distinct (map dl_Name (lk_Documents lock)) \<and>
      set (map dl_Name (lk_Documents lock)) = set (map fst requiredDocuments) \<and>
      (\<forall>d \<in> set (lk_Documents lock). document_ok L d) \<and>
      canonical_url L (ps_Repository (lk_PythonSDK lock)) ''github.com'' ''/hyperliquid-dex/hyperliquid-python-sdk'' \<and>
      canonical_url L (ps_HeadAPIURL (lk_PythonSDK lock)) ''api.github.com''
        ''/repos/hyperliquid-dex/hyperliquid-python-sdk/commits/HEAD'' \<and>
      canonical_url L (ps_RawBaseURL (lk_PythonSDK lock)) ''raw.githubusercontent.com''
        ''/hyperliquid-dex/hyperliquid-python-sdk'' \<and>
      validGitRevision (ps_Revision (lk_PythonSDK lock)) \<and>
      distinct (map pf_Path (ps_Files (lk_PythonSDK lock))) \<and>
      set (map pf_Path (ps_Files (lk_PythonSDK lock))) = set requiredPythonSDKFiles \<and>
      (\<forall>f \<in> set (ps_Files (lk_PythonSDK lock)). file_ok f))"

lemma markers_loop_iff:
  "is_ok (markers_loop ms seen scope) \<longleftrightarrow>
     distinct (map trim_space ms) \<and> [] \<notin> set (map trim_space ms) \<and> set (map trim_space ms) \<inter> set seen = {}"
  by (induction ms arbitrary: seen) (auto simp: Let_def)

lemma validateMarkers_iff: "is_ok (validateMarkers ms scope) \<longleftrightarrow> markers_ok ms"
  by (auto simp: validateMarkers_def markers_loop_iff markers_ok_def)

lemma validateMarkers_ok: "validateMarkers ms scope = Inr () \<longleftrightarrow> markers_ok ms"
  using validateMarkers_iff [of ms scope] by (cases "validateMarkers ms scope") auto

lemma values_loop_iff:
  "is_ok (values_loop p vs name scope) \<longleftrightarrow> list_all semantic_value vs \<and>
     sorted_wrt (<) ((case p of None \<Rightarrow> [] | Some x \<Rightarrow> [x]) @ vs)"
proof (induction vs arbitrary: p)
  case (Cons v vs)
  show ?case
    using Cons.IH [of "Some v"] by (cases p) (auto simp: not_le intro: less_trans)
qed (simp split: option.split)

lemma is_ok_bind: "is_ok (bind_res r f) \<longleftrightarrow> (\<exists>x. r = Inr x \<and> is_ok (f x))"
  by (cases r) auto

lemma is_ok_unit: "is_ok (r :: unit res) \<longleftrightarrow> r = Inr ()"
  by (cases r) auto

lemma one_semantic_iff:
  "sm_Name s \<in> set knownSemanticNames \<Longrightarrow>
    is_ok (validateSemantics [s] scope) \<longleftrightarrow> values_ok (sm_Values s)"
  using values_loop_iff [of None "sm_Values s" "sm_Name s" scope]
  by (auto simp: validateSemantics_def values_ok_def is_ok_bind is_ok_unit)

lemma required_semantics:
  "(name, url, semantic) \<in> set requiredDocuments \<Longrightarrow> semantic \<noteq> [] \<Longrightarrow> semantic \<in> set knownSemanticNames"
  by (auto simp: requiredDocuments_def knownSemanticNames_def Let_def)

lemma snapshot_iff:
  assumes "(name, url, semantic) \<in> set requiredDocuments"
  shows "is_ok (validateSemantics ss scope) \<and> is_ok (validateDocumentSemanticBinding ss semantic name) \<longleftrightarrow>
    snapshot_ok semantic ss"
proof (cases "semantic = []")
  case True
  then show ?thesis
    by (cases ss) (auto simp: snapshot_ok_def validateDocumentSemanticBinding_def guard_res_def validateSemantics_def)
next
  case False
  then have known: "semantic \<in> set knownSemanticNames" using required_semantics [OF assms] by simp
  have bind: "is_ok (validateDocumentSemanticBinding ss semantic name) \<longleftrightarrow> (\<exists>s. ss = [s] \<and> sm_Name s = semantic)"
    using False by (cases ss; cases "tl ss") (auto simp: validateDocumentSemanticBinding_def guard_res_def)
  show ?thesis
    unfolding bind snapshot_ok_def using False known one_semantic_iff by auto
qed

lemma required_distinct: "distinct (map fst requiredDocuments)"
  by (simp add: requiredDocuments_def Let_def)

lemma validate_document_iff:
  "is_ok (validate_document L seen d) \<longleftrightarrow> dl_Name d \<notin> set seen \<and> document_ok L d"
proof (cases "map_of requiredDocuments (dl_Name d)")
  case None
  then have "(dl_Name d, u, s) \<notin> set requiredDocuments" for u s
    by (auto simp: map_of_eq_None_iff image_iff)
  then show ?thesis using None by (auto simp: validate_document_def document_ok_def)
next
  case (Some p)
  obtain url semantic where p: "p = (url, semantic)" by fastforce
  have mem: "(dl_Name d, u, s) \<in> set requiredDocuments \<longleftrightarrow> u = url \<and> s = semantic" for u s
    using Some p required_distinct by (metis map_of_eq_Some_iff option.inject prod.inject)
  have name: "dl_Name d \<noteq> []" using mem [of url semantic] by (auto simp: requiredDocuments_def Let_def)
  show ?thesis
    unfolding document_ok_def mem
    using snapshot_iff [of "dl_Name d" url semantic "dl_Semantics d" "''document '' @ dl_Name d"] mem
    by (auto simp: validate_document_def Some p name is_ok_bind validateMarkers_ok is_ok_unit)
qed

lemma documents_loop_iff:
  "documents_loop L seen ds = Inr r \<longleftrightarrow> distinct (map dl_Name ds) \<and> set (map dl_Name ds) \<inter> set seen = {} \<and>
     (\<forall>d \<in> set ds. document_ok L d) \<and> r = rev (map dl_Name ds) @ seen"
proof (induction ds arbitrary: seen)
  case (Cons d ds)
  have "documents_loop L seen (d # ds) = Inr r \<longleftrightarrow>
      is_ok (validate_document L seen d) \<and> documents_loop L (dl_Name d # seen) ds = Inr r"
    by (cases "validate_document L seen d") auto
  then show ?case unfolding Cons.IH validate_document_iff by auto
qed auto

lemma validate_file_iff:
  "is_ok (validate_file seen f) \<longleftrightarrow> pf_Path f \<notin> set seen \<and> pf_Path f \<in> set requiredPythonSDKFiles \<and> file_ok f"
proof -
  have "validPythonFilePath p" if "p \<in> set requiredPythonSDKFiles" for p
    using that by (auto simp: requiredPythonSDKFiles_def validPythonFilePath_def python_path_def is_letter_def
        is_lower_letter_def is_number_def less_eq_char_def)
  then show ?thesis by (auto simp: validate_file_def file_ok_def validateMarkers_iff)
qed

lemma files_loop_iff:
  "files_loop seen fs = Inr r \<longleftrightarrow> distinct (map pf_Path fs) \<and> set (map pf_Path fs) \<inter> set seen = {} \<and>
     (\<forall>f \<in> set fs. pf_Path f \<in> set requiredPythonSDKFiles \<and> file_ok f) \<and> r = rev (map pf_Path fs) @ seen"
proof (induction fs arbitrary: seen)
  case (Cons f fs)
  have "files_loop seen (f # fs) = Inr r \<longleftrightarrow>
      is_ok (validate_file seen f) \<and> files_loop (pf_Path f # seen) fs = Inr r"
    by (cases "validate_file seen f") auto
  then show ?case unfolding Cons.IH validate_file_iff by auto
qed auto

lemma canonical_url_iff: "validateCanonicalHTTPSURL L u host path = Inr () \<longleftrightarrow> canonical_url L u host path"
  by (auto simp: canonical_url_def is_ok_unit validateCanonicalHTTPSURL_def parseCanonicalHTTPSURL_def bind_res_Inr
      split: option.splits if_splits)

lemma document_named: "document_ok L d \<Longrightarrow> dl_Name d \<in> set (map fst requiredDocuments)"
  by (force simp: document_ok_def)

text \<open>The loops and the two searches for what is missing, put together.\<close>

lemma lock_documents_iff:
  "(\<exists>seen. documents_loop L [] ds = Inr seen \<and> filter (\<lambda>n. n \<notin> set seen) (map fst requiredDocuments) = []) \<longleftrightarrow>
     distinct (map dl_Name ds) \<and> set (map dl_Name ds) = set (map fst requiredDocuments) \<and>
     (\<forall>d \<in> set ds. document_ok L d)"
  using document_named by (auto simp: documents_loop_iff filter_empty_conv)

lemma lock_files_iff:
  "(\<exists>seen. files_loop [] fs = Inr seen \<and> filter (\<lambda>p. p \<notin> set seen) requiredPythonSDKFiles = []) \<longleftrightarrow>
     distinct (map pf_Path fs) \<and> set (map pf_Path fs) = set requiredPythonSDKFiles \<and> (\<forall>f \<in> set fs. file_ok f)"
  by (auto simp: files_loop_iff filter_empty_conv)

theorem lock_valid_iff: "validateLock L lock = Inr () \<longleftrightarrow> lock_ok L lock"
proof -
  define ds where "ds = lk_Documents lock"
  define py where "py = lk_PythonSDK lock"
  have "map fst requiredDocuments \<noteq> []" "requiredPythonSDKFiles \<noteq> []"
    by (simp_all add: requiredDocuments_def requiredPythonSDKFiles_def Let_def)
  then have "set (map dl_Name ds) = set (map fst requiredDocuments) \<Longrightarrow> ds \<noteq> []"
    "set (map pf_Path (ps_Files py)) = set requiredPythonSDKFiles \<Longrightarrow> ps_Files py \<noteq> []"
    by (metis list.map_disc_iff set_empty)+
  moreover have "validateLock L lock = Inr () \<longleftrightarrow> lk_Version lock = 3 \<and> ds \<noteq> [] \<and>
      (\<exists>seen. documents_loop L [] ds = Inr seen \<and> filter (\<lambda>n. n \<notin> set seen) (map fst requiredDocuments) = []) \<and>
      canonical_url L (ps_Repository py) ''github.com'' ''/hyperliquid-dex/hyperliquid-python-sdk'' \<and>
      canonical_url L (ps_HeadAPIURL py) ''api.github.com''
        ''/repos/hyperliquid-dex/hyperliquid-python-sdk/commits/HEAD'' \<and>
      canonical_url L (ps_RawBaseURL py) ''raw.githubusercontent.com'' ''/hyperliquid-dex/hyperliquid-python-sdk'' \<and>
      validGitRevision (ps_Revision py) \<and> ps_Files py \<noteq> [] \<and>
      (\<exists>seen. files_loop [] (ps_Files py) = Inr seen \<and> filter (\<lambda>p. p \<notin> set seen) requiredPythonSDKFiles = [])"
    unfolding validateLock_def ds_def [symmetric] py_def [symmetric] canonical_url_iff [symmetric]
    by (simp add: bind_res_Inr Let_def del: documents_loop.simps files_loop.simps) blast
  ultimately show ?thesis
    unfolding lock_documents_iff lock_files_iff lock_ok_def ds_def py_def by blast
qed

section \<open>What a clean check is\<close>

lemma contains_text_iff: "contains_text t p \<longleftrightarrow> (\<exists>a b. t = a @ p @ b)"
proof (induction t)
  case (Cons c t)
  show ?case
  proof
    assume "contains_text (c # t) p"
    then consider "has_prefix (c # t) p" | "contains_text t p" by auto
    then show "\<exists>a b. c # t = a @ p @ b"
    proof cases
      case 1
      then obtain r where "c # t = [] @ p @ r" by (auto simp: has_prefix_iff)
      then show ?thesis by blast
    next
      case 2
      then obtain a b where "c # t = (c # a) @ p @ b" using Cons.IH by auto
      then show ?thesis by blast
    qed
  next
    assume "\<exists>a b. c # t = a @ p @ b"
    then obtain a b where "c # t = a @ p @ b" by blast
    then have "has_prefix (c # t) p \<or> (\<exists>a b. t = a @ p @ b)"
      by (cases a) (auto simp: has_prefix_iff)
    then show "contains_text (c # t) p" using Cons.IH by auto
  qed
qed auto

lemma sort_Nil_iff: "sort xs = [] \<longleftrightarrow> xs = ([] :: string list)"
  by (metis set_empty set_sort)

lemma missing_Nil_iff:
  "missingMarkers L c ms = [] \<longleftrightarrow>
     (\<forall>m \<in> set ms. \<exists>a b. to_lower (normalizeUpstreamText L c) = a @ to_lower m @ b)"
  by (auto simp: missingMarkers_def Let_def sort_Nil_iff filter_empty_conv contains_text_iff)

lemma difference_Nil_iff: "setDifference l r = [] \<longleftrightarrow> set l \<subseteq> set r"
  by (auto simp: setDifference_def setValues_def sort_Nil_iff filter_empty_conv)

lemma delta_Nil_iff: "delta label added removed = [] \<longleftrightarrow> added = [] \<and> removed = []"
  by (simp add: delta_def)

lemma semantic_delta_Nil_iff:
  "documentSemanticDelta L s c = [] \<longleftrightarrow>
     semanticValues L (sm_Name s) c \<noteq> [] \<and> set (semanticValues L (sm_Name s) c) = set (sm_Values s)"
  by (auto simp: documentSemanticDelta_def Let_def formatSemanticDelta_def delta_Nil_iff difference_Nil_iff)

text \<open>What the check looks for in a document and in a file.\<close>

definition document_current :: "upstream_lib \<Rightarrow> documentLock \<Rightarrow> string \<Rightarrow> bool" where
  "document_current L d c =
     (ul_SHA256 L (canonicalDocument L d c) = dl_CanonicalSHA256 d \<and>
      (\<forall>m \<in> set (dl_RequiredMarkers d). \<exists>a b. to_lower (normalizeUpstreamText L c) = a @ to_lower m @ b) \<and>
      (\<forall>s \<in> set (dl_Semantics d). semanticValues L (sm_Name s) c \<noteq> [] \<and>
         set (semanticValues L (sm_Name s) c) = set (sm_Values s)))"

definition file_current :: "upstream_lib \<Rightarrow> pythonFileLock \<Rightarrow> string \<Rightarrow> bool" where
  "file_current L f c =
     (ul_SHA256 L c = pf_SHA256 f \<and>
      (\<forall>m \<in> set (pf_RequiredMarkers f). \<exists>a b. to_lower (normalizeUpstreamText L c) = a @ to_lower m @ b))"

lemma document_findings_Nil_iff: "document_findings L d c = [] \<longleftrightarrow> document_current L d c"
  by (auto simp: document_findings_def Let_def document_current_def canonicalDocumentDigest_def missing_Nil_iff
      filter_empty_conv semantic_delta_Nil_iff)

lemma check_documents_Nil_iff:
  "check_documents L fetch ds = Inr [] \<longleftrightarrow> (\<forall>d \<in> set ds. \<exists>c. fetch (dl_URL d) = Inr c \<and> document_current L d c)"
  by (induction ds) (auto simp: bind_res_Inr document_findings_Nil_iff)

lemma check_file_current_iff:
  "check_file L fetch py (ps_Revision py) f = Inr new \<longleftrightarrow>
     new = [] \<and> (\<exists>c. fetch (rawPythonURL py (ps_Revision py) (pf_Path f)) = Inr c \<and> file_current L f c)"
  by (auto simp: check_file_def bind_res_Inr file_current_def missing_Nil_iff)

lemma check_files_keep: "fst (check_files L fetch py head fs findings) = [] \<Longrightarrow> findings = []"
proof (induction fs arbitrary: findings)
  case (Cons f fs)
  then show ?case by (auto split: sum.splits)
qed simp

lemma check_files_iff:
  "check_files L fetch py (ps_Revision py) fs [] = ([], None) \<longleftrightarrow>
     (\<forall>f \<in> set fs. \<exists>c. fetch (rawPythonURL py (ps_Revision py) (pf_Path f)) = Inr c \<and> file_current L f c)"
proof (induction fs)
  case (Cons f fs)
  note one = check_file_current_iff [of L fetch py f]
  show ?case
  proof (cases "check_file L fetch py (ps_Revision py) f")
    case (Inl e)
    then have "\<not> (\<exists>c. fetch (rawPythonURL py (ps_Revision py) (pf_Path f)) = Inr c \<and> file_current L f c)"
      using one [of "[]"] by simp
    then show ?thesis using Inl by auto
  next
    case (Inr new)
    then have "new = []" "\<exists>c. fetch (rawPythonURL py (ps_Revision py) (pf_Path f)) = Inr c \<and> file_current L f c"
      using one [of new] by blast+
    then show ?thesis using Inr Cons.IH by simp
  qed
qed simp

lemma check_network_None_iff:
  "snd (checkNetwork L fetch head_of lock) = None \<longleftrightarrow> check_documents L fetch (lk_Documents lock) = Inr [] \<and>
     head_of (ps_HeadAPIURL (lk_PythonSDK lock)) = Inr (ps_Revision (lk_PythonSDK lock)) \<and>
     check_files L fetch (lk_PythonSDK lock) (ps_Revision (lk_PythonSDK lock)) (ps_Files (lk_PythonSDK lock)) [] =
       ([], None)"
proof -
  define py where "py = lk_PythonSDK lock"
  show ?thesis
  proof (cases "check_documents L fetch (lk_Documents lock)")
    case (Inl e)
    then show ?thesis by (simp add: checkNetwork_def)
  next
    case docs: (Inr findings)
    show ?thesis
    proof (cases "head_of (ps_HeadAPIURL py)")
      case (Inl e)
      then show ?thesis using docs by (simp add: checkNetwork_def py_def)
    next
      case (Inr head)
      define new where "new = (if head \<noteq> ps_Revision py
        then [''PYTHON_SDK_REVISION_DRIFT'' @ line (''repository='' @ ps_Repository py) @
          line (''locked_revision='' @ ps_Revision py) @ line (''upstream_revision='' @ head)] else [])"
      obtain all err where run: "check_files L fetch py head (ps_Files py) (findings @ new) = (all, err)" by fastforce
      have "snd (checkNetwork L fetch head_of lock) = None \<longleftrightarrow> err = None \<and> all = []"
        using docs Inr run by (cases err) (simp_all add: checkNetwork_def py_def [symmetric] new_def Let_def)
      moreover have "findings = [] \<and> head = ps_Revision py" if "all = []"
        using check_files_keep [of L fetch py head "ps_Files py" "findings @ new"] run that
        by (simp add: new_def split: if_splits)
      moreover have "new = []" if "head = ps_Revision py" using that by (simp add: new_def)
      ultimately show ?thesis using docs Inr run unfolding py_def [symmetric] by auto
    qed
  qed
qed

text \<open>
  C39: the online check reports success exactly when every document of the lock could be
  fetched and has the locked digest, all its markers and exactly the locked snapshot values, the official SDK
  is at the locked revision, and every locked file could be fetched and has its digest and markers; then
  nothing is printed. Any drift, and any failed request, ends in an error.
\<close>

theorem upstream_clean_iff:
  "(snd (checkNetwork L fetch head_of lock) = None \<longleftrightarrow>
     (\<forall>d \<in> set (lk_Documents lock). \<exists>c. fetch (dl_URL d) = Inr c \<and> document_current L d c) \<and>
     head_of (ps_HeadAPIURL (lk_PythonSDK lock)) = Inr (ps_Revision (lk_PythonSDK lock)) \<and>
     (\<forall>f \<in> set (ps_Files (lk_PythonSDK lock)). \<exists>c.
        fetch (rawPythonURL (lk_PythonSDK lock) (ps_Revision (lk_PythonSDK lock)) (pf_Path f)) = Inr c \<and>
        file_current L f c)) \<and>
   (snd (checkNetwork L fetch head_of lock) = None \<longrightarrow> fst (checkNetwork L fetch head_of lock) = [])"
proof
  show "snd (checkNetwork L fetch head_of lock) = None \<longrightarrow> fst (checkNetwork L fetch head_of lock) = []"
    by (simp add: checkNetwork_def Let_def split: sum.split prod.split option.split)
qed (simp only: check_network_None_iff check_documents_Nil_iff check_files_iff)

definition sample_upstream :: upstream_lib where
  "sample_upstream = \<lparr> ul_Parse = (\<lambda>u. None), ul_Unescape = (\<lambda>t. t), ul_SHA256 = (\<lambda>t. ''d''), ul_StripTags = (\<lambda>t. t),
     ul_ActionTypes = (\<lambda>t. [''order'', ''cancel'', ''order'']), ul_InfoTypes = (\<lambda>t. []), ul_Methods = (\<lambda>t. []),
     ul_SigningMarkers = (\<lambda>t. []) \<rparr>"

definition sample_lock :: lockFile where
  "sample_lock = \<lparr> lk_Version = 3,
     lk_Documents = [\<lparr> dl_Name = ''n'', dl_URL = ''u'', dl_Revision = ''r'', dl_CanonicalSHA256 = ''d'',
       dl_Summary = ''s'', dl_RequiredMarkers = [''AcTion''],
       dl_Semantics = [\<lparr> sm_Name = ''exchange-action-types'', sm_Values = [''cancel'', ''order''] \<rparr>] \<rparr>],
     lk_PythonSDK = \<lparr> ps_Repository = ''g'', ps_HeadAPIURL = ''h'', ps_RawBaseURL = ''b'', ps_Revision = ''0'',
       ps_Files = [\<lparr> pf_Path = ''p'', pf_SHA256 = ''d'', pf_RequiredMarkers = [] \<rparr>] \<rparr> \<rparr>"

theorem upstream_clean_iff_witness:
  "snd (checkNetwork sample_upstream (\<lambda>u. Inr ''an ACTION'') (\<lambda>u. Inr ''0'') sample_lock) = None"
proof -
  have "contains_text (to_lower (normalizeUpstreamText sample_upstream ''an ACTION'')) (to_lower ''AcTion'')"
    by code_simp
  then have "\<exists>a b. to_lower (normalizeUpstreamText sample_upstream ''an ACTION'') = a @ to_lower ''AcTion'' @ b"
    by (simp only: contains_text_iff)
  moreover have "semanticValues sample_upstream ''exchange-action-types'' ''an ACTION'' = [''order'', ''cancel'', ''order'']"
    by code_simp
  ultimately have "document_current sample_upstream (hd (lk_Documents sample_lock)) ''an ACTION''"
    by (auto simp: document_current_def sample_lock_def sample_upstream_def)
  then show ?thesis
    using upstream_clean_iff [of sample_upstream "\<lambda>u. Inr ''an ACTION''" "\<lambda>u. Inr ''0''" sample_lock]
    by (simp add: sample_lock_def file_current_def sample_upstream_def)
qed

end
