(* ===== verification/WsIdentity.thy ===== *)
theory WsIdentity
  imports Response "HOL-Library.AList" "HOL-Library.Multiset"
begin

text \<open>
  Subscription requests as the server sees them: \<^verbatim>\<open>websocket/wire_identity.go\<close>, the wire struct of
  \<^verbatim>\<open>market_subscription.go\<close>, and the choice of the pending request that a server message
  acknowledges (\<^verbatim>\<open>websocket/manager.go\<close>, \<^verbatim>\<open>matchingPendingAcknowledgement\<close>). A Go map is an
  association list with distinct keys; its order stands for the unspecified order of iteration, and
  the lemmas show that the results do not depend on it. The identity of a request, in the code the
  JSON text of a map, is the JSON value that this text spells.
\<close>

section \<open>Dynamic values\<close>

text \<open>
  What a variable of type \<^verbatim>\<open>any\<close> holds here: the strings, booleans and Go integers that the SDK puts
  into a request, and what \<^verbatim>\<open>json.Unmarshal\<close> stores for a parsed value (every number a \<^verbatim>\<open>float64\<close>).
\<close>

datatype any = ANil | ABool bool | AString string | AInt int | AFloat int | AOther jval

type_synonym gomap = "(string \<times> any) list"

text \<open>The nearest \<^verbatim>\<open>float64\<close> of an integer, ties to even.\<close>

fun bit_len :: "nat \<Rightarrow> nat" where
  "bit_len n = (if n = 0 then 0 else Suc (bit_len (n div 2)))"

declare bit_len.simps [simp del]

definition float64_of_int :: "int \<Rightarrow> int" where
  "float64_of_int i =
     (let a = nat \<bar>i\<bar>; e = bit_len a - 53; q = a div 2 ^ e; r = 2 * (a mod 2 ^ e);
          q' = (if r > 2 ^ e \<or> (r = 2 ^ e \<and> odd q) then q + 1 else q)
      in sgn i * int (q' * 2 ^ e))"

lemma bit_len_le: "n < 2 ^ k \<Longrightarrow> bit_len n \<le> k"
proof (induction k arbitrary: n)
  case 0 then show ?case by (simp add: bit_len.simps)
next
  case (Suc k)
  then have "bit_len (n div 2) \<le> k" by (intro Suc.IH) simp
  then show ?case by (subst bit_len.simps) simp
qed

lemma float64_small: "\<bar>i\<bar> < 2 ^ 53 \<Longrightarrow> float64_of_int i = i"
proof -
  assume "\<bar>i\<bar> < 2 ^ 53"
  then have "nat \<bar>i\<bar> < 2 ^ 53" by (simp add: nat_less_iff)
  then have "bit_len (nat \<bar>i\<bar>) - 53 = 0" using bit_len_le by fastforce
  then show ?thesis by (simp add: float64_of_int_def Let_def mult_sgn_abs)
qed

fun any_jval :: "any \<Rightarrow> jval" where
  "any_jval ANil = JNull"
| "any_jval (ABool b) = JBool b"
| "any_jval (AString s) = JStr s"
| "any_jval (AInt i) = JInt i"
| "any_jval (AFloat i) = JInt i"
| "any_jval (AOther v) = v"

fun json_any :: "jval \<Rightarrow> any" where
  "json_any JNull = ANil"
| "json_any (JBool b) = ABool b"
| "json_any (JStr s) = AString s"
| "json_any (JInt i) = AFloat (float64_of_int i)"
| "json_any v = AOther v"

section \<open>The wire struct and its identity\<close>

record subscriptionWire =
  sw_Method :: string
  sw_Subscription :: gomap

definition newSubscriptionWire :: "string \<Rightarrow> gomap \<Rightarrow> subscriptionWire" where
  "newSubscriptionWire kind fs =
     \<lparr> sw_Method = ''subscribe'', sw_Subscription = AList.update ''type'' (AString kind) fs \<rparr>"

text \<open>\<^verbatim>\<open>kind, _ := subscription["type"].(string)\<close>\<close>

definition kind_of :: "gomap \<Rightarrow> string" where
  "kind_of m = (case map_of m ''type'' of Some (AString s) \<Rightarrow> s | _ \<Rightarrow> '''')"

definition serverIdentityIgnoredField :: "string \<Rightarrow> string \<Rightarrow> bool" where
  "serverIdentityIgnoredField kind key \<longleftrightarrow>
     kind = ''spotState'' \<and> (key = ''isPortfolioMargin'' \<or> key = ''ignorePortfolioMargin'')"

definition serverDefaultField :: "string \<Rightarrow> string \<Rightarrow> any \<Rightarrow> bool" where
  "serverDefaultField kind key v =
     (case v of
        ANil \<Rightarrow>
          (kind = ''l2Book'' \<and> (key = ''nSigFigs'' \<or> key = ''mantissa'')) \<or>
          (kind = ''spotState'' \<and> (key = ''isPortfolioMargin'' \<or> key = ''ignorePortfolioMargin''))
      | ABool False \<Rightarrow>
          (if kind = ''l2Book'' then key = ''fast''
           else if kind = ''userFills'' then key = ''aggregateByTime''
           else if kind = ''spotState''
             then key = ''isPortfolioMargin'' \<or> key = ''ignorePortfolioMargin''
           else False)
      | _ \<Rightarrow> False)"

text \<open>One turn of the loop that both \<^verbatim>\<open>serverSubscriptionIdentity\<close> and \<^verbatim>\<open>canonicalSubscriptionWire\<close> run.\<close>

definition keep_field :: "string \<Rightarrow> string \<times> any \<Rightarrow> (string \<times> any) option" where
  "keep_field kind p =
     (case p of (key, v) \<Rightarrow>
        (case (key = ''user'', v) of
           (True, AString u) \<Rightarrow> Some (key, AString (to_lower u))
         | _ \<Rightarrow>
             if serverIdentityIgnoredField kind key then None
             else if serverDefaultField kind key v then None
             else Some (key, v)))"

definition normalized_fields :: "gomap \<Rightarrow> gomap" where
  "normalized_fields m = List.map_filter (keep_field (kind_of m)) m"

definition serverSubscriptionIdentity :: "gomap \<Rightarrow> jval" where
  "serverSubscriptionIdentity m =
     json_map (map (\<lambda>(k, v). (k, any_jval v)) (normalized_fields m))"

definition canonicalSubscriptionWire :: "subscriptionWire \<Rightarrow> subscriptionWire" where
  "canonicalSubscriptionWire w = w \<lparr> sw_Subscription := normalized_fields (sw_Subscription w) \<rparr>"

definition subscriptionWireFingerprint :: "subscriptionWire \<Rightarrow> jval" where
  "subscriptionWireFingerprint w =
     json_map (map (\<lambda>(k, v). (k, any_jval v)) (sw_Subscription w))"

section \<open>Matching an acknowledgement\<close>

definition protocolNumber :: "any \<Rightarrow> int option" where
  "protocolNumber v =
     (case v of AInt i \<Rightarrow> Some (float64_of_int i) | AFloat x \<Rightarrow> Some x | _ \<Rightarrow> None)"

definition subscriptionFieldEqual :: "string \<Rightarrow> any \<Rightarrow> any \<Rightarrow> bool" where
  "subscriptionFieldEqual key expected actual =
     (if key = ''user''
      then (case (expected, actual) of (AString u, AString w) \<Rightarrow> equal_fold u w | _ \<Rightarrow> False)
      else if expected = actual then True
      else (case (protocolNumber expected, protocolNumber actual) of
              (Some x, Some y) \<Rightarrow> x = y | _ \<Rightarrow> False))"

definition spotStateAckCompatible :: "string \<Rightarrow> string \<Rightarrow> any \<Rightarrow> gomap \<Rightarrow> bool" where
  "spotStateAckCompatible kind key expected response =
     (if kind \<noteq> ''spotState'' \<or> key \<noteq> ''isPortfolioMargin'' then False
      else (case expected of
              ABool _ \<Rightarrow> map_of response ''ignorePortfolioMargin'' = Some (ABool False)
            | _ \<Rightarrow> False))"

fun match_fields :: "string \<Rightarrow> gomap \<Rightarrow> gomap \<Rightarrow> int \<Rightarrow> int option" where
  "match_fields kind response [] score = Some score"
| "match_fields kind response ((key, expected) # rest) score =
     (let score' = (if serverDefaultField kind key expected then score else score + 1) in
      if spotStateAckCompatible kind key expected response
      then match_fields kind response rest score'
      else (case map_of response key of
              None \<Rightarrow> (if serverDefaultField kind key expected
                       then match_fields kind response rest score else None)
            | Some actual \<Rightarrow>
                (if subscriptionFieldEqual key expected actual
                 then match_fields kind response rest score' else None)))"

definition subscriptionMatchScore :: "gomap \<Rightarrow> gomap \<Rightarrow> int option" where
  "subscriptionMatchScore request response =
     match_fields (kind_of request) response request 0"

text \<open>The deadline is a reading of the clock in nanoseconds.\<close>

record pendingSubscriptionAck =
  pa_method :: string
  pa_identity :: jval
  pa_wire :: subscriptionWire
  pa_deadline :: int

definition pendingAckKey :: "string \<Rightarrow> jval \<Rightarrow> string \<times> jval" where
  "pendingAckKey method identity = (method, identity)"

type_synonym pendings = "((string \<times> jval) \<times> pendingSubscriptionAck) list"

text \<open>The best match so far is a score (-1 at the start) and the entry.\<close>

fun best_match :: "string \<Rightarrow> gomap \<Rightarrow> pendings \<Rightarrow>
    int \<times> ((string \<times> jval) \<times> pendingSubscriptionAck) option \<Rightarrow>
    int \<times> ((string \<times> jval) \<times> pendingSubscriptionAck) option" where
  "best_match method subscription [] best = best"
| "best_match method subscription ((key, request) # rest) best =
     (if pa_method request \<noteq> method then best_match method subscription rest best
      else (case subscriptionMatchScore (sw_Subscription (pa_wire request)) subscription of
              Some score \<Rightarrow>
                (if score > fst best
                 then best_match method subscription rest (score, Some (key, request))
                 else best_match method subscription rest best)
            | None \<Rightarrow> best_match method subscription rest best))"

definition matchingPendingAcknowledgement ::
    "string \<Rightarrow> gomap \<Rightarrow> pendings \<Rightarrow> ((string \<times> jval) \<times> pendingSubscriptionAck) option" where
  "matchingPendingAcknowledgement method subscription pending =
     snd (best_match method subscription pending (-1, None))"

section \<open>Identities do not depend on the order of a map\<close>

lemma json_map_cong_set:
  assumes "distinct (map fst xs)" "distinct (map fst ys)" "set xs = set ys"
  shows "json_map xs = json_map ys"
proof -
  have "distinct xs" "distinct ys" using assms(1,2) by (simp_all add: distinct_map)
  then have "mset xs = mset ys" using assms(3) by (simp add: set_eq_iff_mset_eq_distinct)
  then have "mset xs = mset (sort_key fst ys)" by simp
  moreover have "inj_on fst (set xs)" using assms(1) by (simp add: distinct_map)
  ultimately have "sort_key fst xs = sort_key fst ys"
    by (intro sort_key_inj_key_eq) simp_all
  then show ?thesis by (simp add: json_map_def)
qed

lemma keep_field_fst: "keep_field kind p = Some q \<Longrightarrow> fst q = fst p"
  by (auto simp: keep_field_def split: prod.splits bool.splits any.splits if_splits)

lemma map_filter_fst_subset: "set (map fst (List.map_filter (keep_field kind) m)) \<subseteq> set (map fst m)"
  by (induction m) (auto simp: List.map_filter_simps dest: keep_field_fst split: option.splits)

lemma map_filter_distinct:
  "distinct (map fst m) \<Longrightarrow> distinct (map fst (List.map_filter (keep_field kind) m))"
proof (induction m)
  case (Cons p m)
  then have "fst p \<notin> set (map fst (List.map_filter (keep_field kind) m))"
    using map_filter_fst_subset [of kind m] by auto
  with Cons show ?case
    by (cases "keep_field kind p") (auto simp: List.map_filter_simps keep_field_fst)
qed (simp add: List.map_filter_simps)

lemma set_map_filter: "set (List.map_filter f xs) = {y. \<exists>x \<in> set xs. f x = Some y}"
  by (induction xs) (auto simp: List.map_filter_simps split: option.splits)

lemma normalized_origin:
  assumes "q \<in> set (normalized_fields m)"
  obtains v where "(fst q, v) \<in> set m" "keep_field (kind_of m) (fst q, v) = Some q"
proof -
  from assms obtain p where p: "p \<in> set m" "keep_field (kind_of m) p = Some q"
    by (auto simp: normalized_fields_def set_map_filter)
  then have "fst p = fst q" using keep_field_fst by metis
  then show thesis using p that [of "snd p"] by (metis prod.collapse)
qed

lemma distinct_normalized: "distinct (map fst m) \<Longrightarrow> distinct (map fst (normalized_fields m))"
  by (simp add: normalized_fields_def map_filter_distinct)

lemma identity_cong:
  assumes "distinct (map fst m)" "distinct (map fst n)"
    and "set (normalized_fields m) = set (normalized_fields n)"
  shows "serverSubscriptionIdentity m = serverSubscriptionIdentity n"
proof -
  let ?f = "\<lambda>(k, v). (k, any_jval v)"
  have fst: "fst \<circ> ?f = (fst :: string \<times> any \<Rightarrow> string)" by auto
  show ?thesis unfolding serverSubscriptionIdentity_def
    using assms by (intro json_map_cong_set) (auto simp: fst distinct_normalized)
qed

lemma identity_perm:
  assumes "distinct (map fst m)" "set m = set n" "distinct (map fst n)"
  shows "serverSubscriptionIdentity m = serverSubscriptionIdentity n"
proof -
  have "map_of m = map_of n" using assms by (metis map_of_inject_set)
  then have "kind_of m = kind_of n" by (simp add: kind_of_def)
  then show ?thesis
    using assms by (intro identity_cong) (auto simp: normalized_fields_def set_map_filter)
qed

section \<open>Canonical requests\<close>

lemma keep_field_type [simp]:
  "keep_field kind (''type'', AString s) = Some (''type'', AString s)"
  by (simp add: keep_field_def serverIdentityIgnoredField_def serverDefaultField_def)

lemma keep_field_idem: "keep_field kind p = Some q \<Longrightarrow> keep_field kind q = Some q"
  by (auto simp: keep_field_def split: prod.splits bool.splits any.splits if_splits)

lemma map_filter_idem:
  "List.map_filter (keep_field kind) (List.map_filter (keep_field kind) m) =
   List.map_filter (keep_field kind) m"
  by (induction m) (auto simp: List.map_filter_simps keep_field_idem split: option.splits)

lemma kind_of_normalized:
  assumes "distinct (map fst m)" "map_of m ''type'' = Some (AString s)"
  shows "kind_of (normalized_fields m) = s"
proof -
  have k: "kind_of m = s" using assms by (simp add: kind_of_def)
  have "(''type'', AString s) \<in> set (normalized_fields m)"
    using map_of_SomeD [OF assms(2)] by (auto simp: normalized_fields_def set_map_filter intro!: bexI)
  then have "map_of (normalized_fields m) ''type'' = Some (AString s)"
    using assms(1) by (simp add: distinct_normalized)
  then show ?thesis by (simp add: kind_of_def)
qed

lemma normalized_idem:
  assumes "distinct (map fst m)" "map_of m ''type'' = Some (AString s)"
  shows "normalized_fields (normalized_fields m) = normalized_fields m"
proof -
  have "kind_of m = s" using assms by (simp add: kind_of_def)
  then show ?thesis using kind_of_normalized [OF assms]
    by (simp add: normalized_fields_def map_filter_idem)
qed

lemma canonical_identity:
  assumes "distinct (map fst (sw_Subscription w))"
    and "map_of (sw_Subscription w) ''type'' = Some (AString s)"
  shows "serverSubscriptionIdentity (sw_Subscription (canonicalSubscriptionWire w)) =
      serverSubscriptionIdentity (sw_Subscription w)"
    and "canonicalSubscriptionWire (canonicalSubscriptionWire w) = canonicalSubscriptionWire w"
    and "subscriptionWireFingerprint (canonicalSubscriptionWire w) =
      serverSubscriptionIdentity (sw_Subscription w)"
  using normalized_idem [OF assms]
  by (simp_all add: canonicalSubscriptionWire_def serverSubscriptionIdentity_def
      subscriptionWireFingerprint_def)

section \<open>The score\<close>

definition field_matches :: "string \<Rightarrow> gomap \<Rightarrow> string \<times> any \<Rightarrow> bool" where
  "field_matches kind response p =
     (case p of (key, expected) \<Rightarrow>
        spotStateAckCompatible kind key expected response \<or>
        (case map_of response key of
           None \<Rightarrow> serverDefaultField kind key expected
         | Some actual \<Rightarrow> subscriptionFieldEqual key expected actual))"

definition counted :: "string \<Rightarrow> string \<times> any \<Rightarrow> bool" where
  "counted kind p = (\<not> serverDefaultField kind (fst p) (snd p))"

lemma field_matches_pair:
  "field_matches kind r (key, v) \<longleftrightarrow> spotStateAckCompatible kind key v r \<or>
     (case map_of r key of None \<Rightarrow> serverDefaultField kind key v
      | Some a \<Rightarrow> subscriptionFieldEqual key v a)"
  by (simp add: field_matches_def)

lemma counted_pair: "counted kind (key, v) \<longleftrightarrow> \<not> serverDefaultField kind key v"
  by (simp add: counted_def)

lemma match_fields_eq:
  "match_fields kind response m score =
     (if list_all (field_matches kind response) m
      then Some (score + int (length (filter (counted kind) m))) else None)"
proof (induction m arbitrary: score)
  case (Cons p m)
  obtain key v where "p = (key, v)" by fastforce
  then show ?case
    by (simp add: Cons.IH field_matches_pair counted_pair Let_def split: option.splits)
qed simp

lemma score_eq:
  "subscriptionMatchScore request response =
     (if list_all (field_matches (kind_of request) response) request
      then Some (int (length (filter (counted (kind_of request)) request))) else None)"
  by (simp add: subscriptionMatchScore_def match_fields_eq)

definition entry_score :: "string \<Rightarrow> gomap \<Rightarrow> (string \<times> jval) \<times> pendingSubscriptionAck \<Rightarrow> int option"
  where
  "entry_score method r e = (if pa_method (snd e) \<noteq> method then None
     else subscriptionMatchScore (sw_Subscription (pa_wire (snd e))) r)"

lemma best_match_Cons:
  "best_match method r (e # es) best =
     best_match method r es (case entry_score method r e of
        Some s \<Rightarrow> if s > fst best then (s, Some e) else best | None \<Rightarrow> best)"
  by (cases e) (simp add: entry_score_def split: option.splits)

lemma best_match_stays:
  "\<forall>e \<in> set es. \<forall>s. entry_score method r e = Some s \<longrightarrow> s \<le> fst best \<Longrightarrow>
   best_match method r es best = best"
  by (induction es) (auto simp: best_match_Cons simp del: best_match.simps(2) split: option.splits)

lemma best_match_finds:
  assumes "p \<in> set es" "entry_score method r p = Some sp" "fst best < sp"
    and "\<forall>e \<in> set es. e \<noteq> p \<longrightarrow> (\<forall>s. entry_score method r e = Some s \<longrightarrow> s < sp)"
  shows "best_match method r es best = (sp, Some p)"
  using assms
proof (induction es arbitrary: best)
  case (Cons e es)
  show ?case
  proof (cases "e = p")
    case True
    have "best_match method r es (sp, Some p) = (sp, Some p)"
      using Cons.prems(2,4) by (intro best_match_stays) (force simp: order.order_iff_strict)
    then show ?thesis using Cons.prems(2,3) True by (simp add: best_match_Cons del: best_match.simps(2))
  next
    case False
    then show ?thesis using Cons.prems
      by (auto simp: best_match_Cons simp del: best_match.simps(2) split: option.splits
          intro!: Cons.IH)
  qed
qed simp

section \<open>An acknowledgement settles the request it answers\<close>

text \<open>
  The requests that the SDK sends: one value per key, a type, small integers, no floating-point
  value, and a \<^verbatim>\<open>spotState\<close> request has no fields beyond its user and margin mode.
\<close>

fun request_value :: "any \<Rightarrow> bool" where
  "request_value (AInt i) \<longleftrightarrow> \<bar>i\<bar> < 2 ^ 53"
| "request_value (AFloat _) \<longleftrightarrow> False"
| "request_value (AOther _) \<longleftrightarrow> False"
| "request_value _ \<longleftrightarrow> True"

fun is_string :: "any \<Rightarrow> bool" where
  "is_string (AString _) \<longleftrightarrow> True"
| "is_string _ \<longleftrightarrow> False"

definition wire_ok :: "gomap \<Rightarrow> bool" where
  "wire_ok m \<longleftrightarrow> distinct (map fst m) \<and> list_all (\<lambda>p. request_value (snd p)) m \<and>
     (case map_of m ''type'' of Some v \<Rightarrow> is_string v | None \<Rightarrow> False) \<and>
     (case map_of m ''user'' of Some v \<Rightarrow> is_string v | None \<Rightarrow> kind_of m \<noteq> ''spotState'') \<and>
     (kind_of m \<noteq> ''spotState'' \<or>
        list_all (\<lambda>p. fst p \<in> {''type'', ''user'', ''isPortfolioMargin''}) m)"

text \<open>
  A message answers a request when every field of the request is in it (fields with the server's
  default value may be missing) and it adds none but defaults.
\<close>

definition answers :: "gomap \<Rightarrow> gomap \<Rightarrow> bool" where
  "answers r m \<longleftrightarrow> list_all (field_matches (kind_of m) r) m \<and>
     list_all (\<lambda>(k, v). serverDefaultField (kind_of m) k v \<or>
       serverIdentityIgnoredField (kind_of m) k \<or>
       (case map_of m k of None \<Rightarrow> False | Some w \<Rightarrow> subscriptionFieldEqual k w v)) r"

definition pending_ok :: "pendings \<Rightarrow> bool" where
  "pending_ok ps \<longleftrightarrow> distinct (map fst ps) \<and>
     list_all (\<lambda>(k, p). k = pendingAckKey (pa_method p) (pa_identity p) \<and>
       pa_identity p = serverSubscriptionIdentity (sw_Subscription (pa_wire p)) \<and>
       wire_ok (sw_Subscription (pa_wire p))) ps"

lemma is_string_iff: "is_string v \<longleftrightarrow> (\<exists>s. v = AString s)"
  by (cases v) simp_all

lemma wire_ok_iff:
  "wire_ok m \<longleftrightarrow> distinct (map fst m) \<and> list_all (\<lambda>p. request_value (snd p)) m \<and>
     (\<exists>s. map_of m ''type'' = Some (AString s)) \<and>
     (\<forall>v. map_of m ''user'' = Some v \<longrightarrow> is_string v) \<and>
     (kind_of m = ''spotState'' \<longrightarrow> map_of m ''user'' \<noteq> None \<and>
        set (map fst m) \<subseteq> {''type'', ''user'', ''isPortfolioMargin''})"
  by (auto simp: wire_ok_def is_string_iff list_all_iff split: option.splits)

lemma wire_ok_type: "wire_ok m \<Longrightarrow> map_of m ''type'' = Some (AString (kind_of m))"
  by (auto simp: wire_ok_iff kind_of_def)

lemma field_equal_string: "subscriptionFieldEqual k (AString u) a \<Longrightarrow> \<exists>w. a = AString w"
  by (auto simp: subscriptionFieldEqual_def protocolNumber_def split: if_splits any.splits)

lemma field_equal_type: "subscriptionFieldEqual ''type'' (AString u) a \<longleftrightarrow> a = AString u"
  by (auto simp: subscriptionFieldEqual_def protocolNumber_def)

lemma match_kind:
  assumes "wire_ok m" "list_all (field_matches (kind_of m) r) m"
  shows "map_of r ''type'' = Some (AString (kind_of m))"
proof -
  have "(''type'', AString (kind_of m)) \<in> set m" using wire_ok_type [OF assms(1)] by (rule map_of_SomeD)
  with assms(2) have "field_matches (kind_of m) r (''type'', AString (kind_of m))"
    by (simp add: list_all_iff)
  then show ?thesis
    by (simp add: field_matches_pair spotStateAckCompatible_def serverDefaultField_def
        field_equal_type split: option.splits)
qed

text \<open>Two request values that equal the same value of a message are normalized to the same value.\<close>

lemma field_equal_same:
  assumes "subscriptionFieldEqual k v a" "subscriptionFieldEqual k w a"
    and "request_value v" "request_value w"
    and "k = ''user'' \<longrightarrow> is_string v \<and> is_string w"
    and "keep_field kind (k, v) = Some q"
  shows "keep_field kind (k, w) = Some q"
proof (cases "k = ''user''")
  case True
  then obtain x y where "v = AString x" "w = AString y"
    using assms(5) by (cases v; cases w) auto
  then show ?thesis using True assms(1,2,6)
    by (cases a) (auto simp: subscriptionFieldEqual_def keep_field_def equal_fold_def)
next
  case False
  then have "v = w" using assms(1-4)
    by (cases v; cases w; cases a)
      (auto simp: subscriptionFieldEqual_def protocolNumber_def float64_small split: if_splits)
  then show ?thesis using assms(6) by simp
qed

lemma kept_counted:
  "keep_field kind (k, v) = Some q \<Longrightarrow> (k = ''user'' \<longrightarrow> is_string v) \<Longrightarrow>
   counted kind (k, v) \<and> \<not> serverIdentityIgnoredField kind k"
  by (auto simp: keep_field_def counted_def serverIdentityIgnoredField_def serverDefaultField_def
      split: bool.splits any.splits if_splits)

lemma kept_iff:
  "\<not> serverIdentityIgnoredField kind k \<Longrightarrow> (k = ''user'' \<longrightarrow> is_string v) \<Longrightarrow>
   keep_field kind (k, v) \<noteq> None \<longleftrightarrow> counted kind (k, v)"
  by (auto simp: keep_field_def counted_def serverIdentityIgnoredField_def serverDefaultField_def
      split: bool.splits any.splits if_splits)

lemma wire_ok_user: "wire_ok m \<Longrightarrow> (''user'', v) \<in> set m \<Longrightarrow> is_string v"
  by (auto simp: wire_ok_iff)

lemma length_map_filter: "length (List.map_filter f xs) = length (filter (\<lambda>x. f x \<noteq> None) xs)"
  by (induction xs) (auto simp: List.map_filter_simps split: option.splits)

lemma score_plain:
  assumes "wire_ok m" "kind_of m \<noteq> ''spotState''"
  shows "length (filter (counted (kind_of m)) m) = length (normalized_fields m)"
proof -
  have "filter (counted (kind_of m)) m = filter (\<lambda>p. keep_field (kind_of m) p \<noteq> None) m"
  proof (rule filter_cong [OF refl])
    fix p assume "p \<in> set m"
    moreover obtain k v where p: "p = (k, v)" by fastforce
    ultimately show "counted (kind_of m) p = (keep_field (kind_of m) p \<noteq> None)"
      using kept_iff [of "kind_of m" k v] wire_ok_user [OF assms(1)] assms(2)
      by (auto simp: serverIdentityIgnoredField_def)
  qed
  then show ?thesis by (simp add: normalized_fields_def length_map_filter)
qed

lemma matches_subset:
  assumes "wire_ok m" "wire_ok n" "answers r m" "list_all (field_matches (kind_of n) r) n"
  shows "kind_of n = kind_of m" "set (normalized_fields n) \<subseteq> set (normalized_fields m)"
proof -
  have "list_all (field_matches (kind_of m) r) m" using assms(3) by (simp add: answers_def)
  from match_kind [OF assms(1) this] match_kind [OF assms(2,4)]
  show kind: "kind_of n = kind_of m" by simp
  show "set (normalized_fields n) \<subseteq> set (normalized_fields m)"
  proof
    fix q assume "q \<in> set (normalized_fields n)"
    then obtain k v where kv: "(k, v) \<in> set n" and q: "keep_field (kind_of n) (k, v) = Some q"
      by (auto simp: normalized_fields_def set_map_filter)
    have user: "k = ''user'' \<longrightarrow> is_string v" using wire_ok_user [OF assms(2)] kv by auto
    have c: "counted (kind_of n) (k, v)" "\<not> serverIdentityIgnoredField (kind_of n) k"
      using kept_counted [OF q user] by simp_all
    have "field_matches (kind_of n) r (k, v)" using assms(4) kv by (auto simp: list_all_iff)
    with c obtain a where a: "map_of r k = Some a" "subscriptionFieldEqual k v a"
      by (auto simp: field_matches_pair counted_pair spotStateAckCompatible_def
          serverIdentityIgnoredField_def split: option.splits if_splits)
    have nd: "\<not> serverDefaultField (kind_of n) k a"
      using a(2) c(1) user
      by (cases v; cases a) (auto simp: subscriptionFieldEqual_def counted_pair protocolNumber_def
          serverDefaultField_def split: if_splits bool.splits)
    have "(k, a) \<in> set r" using a(1) by (rule map_of_SomeD)
    with assms(3) nd c(2) obtain w where w: "map_of m k = Some w" "subscriptionFieldEqual k w a"
      by (auto simp: answers_def list_all_iff kind split: option.splits)
    have wm: "(k, w) \<in> set m" using w(1) by (rule map_of_SomeD)
    have "request_value v" "request_value w" using assms(1,2) kv wm
      by (auto simp: wire_ok_iff list_all_iff)
    moreover have "k = ''user'' \<longrightarrow> is_string v \<and> is_string w"
      using user wire_ok_user [OF assms(1)] wm by auto
    ultimately have "keep_field (kind_of n) (k, w) = Some q"
      using field_equal_same [OF a(2) w(2)] q by blast
    then show "q \<in> set (normalized_fields m)"
      using wm by (auto simp: normalized_fields_def set_map_filter kind)
  qed
qed

lemma spot_fields:
  assumes "wire_ok m" "kind_of m = ''spotState''"
  shows "fst ` set (normalized_fields m) = {''type'', ''user''}"
proof -
  obtain v where "map_of m ''user'' = Some v" "is_string v"
    using assms by (auto simp: wire_ok_iff)
  then obtain u where "(''user'', AString u) \<in> set m" by (cases v) (auto dest: map_of_SomeD)
  moreover have "(''type'', AString ''spotState'') \<in> set m"
    using wire_ok_type [OF assms(1)] assms(2) by (auto dest: map_of_SomeD)
  ultimately have "(''user'', AString (to_lower u)) \<in> set (normalized_fields m)"
      "(''type'', AString ''spotState'') \<in> set (normalized_fields m)"
    by (auto simp: normalized_fields_def set_map_filter assms(2) keep_field_def
        serverIdentityIgnoredField_def serverDefaultField_def intro: rev_bexI)
  then have "{''type'', ''user''} \<subseteq> fst ` set (normalized_fields m)" by force
  moreover have "fst ` set (normalized_fields m) \<subseteq> {''type'', ''user''}"
  proof
    fix k assume "k \<in> fst ` set (normalized_fields m)"
    then obtain q where "q \<in> set (normalized_fields m)" "k = fst q" by auto
    then obtain v where kv: "(k, v) \<in> set m" "keep_field (kind_of m) (k, v) = Some q"
      by (metis normalized_origin)
    have "\<not> serverIdentityIgnoredField (kind_of m) k"
      using kept_counted [OF kv(2)] wire_ok_user [OF assms(1)] kv(1) by auto
    then have "k \<noteq> ''isPortfolioMargin''" using assms(2) by (simp add: serverIdentityIgnoredField_def)
    moreover have "k \<in> {''type'', ''user'', ''isPortfolioMargin''}"
      using assms kv(1) by (force simp: wire_ok_iff)
    ultimately show "k \<in> {''type'', ''user''}" by simp
  qed
  ultimately show ?thesis by blast
qed

lemma matches_same_or_lower:
  assumes "wire_ok m" "wire_ok n" "answers r m" "list_all (field_matches (kind_of n) r) n"
    and "serverSubscriptionIdentity n \<noteq> serverSubscriptionIdentity m"
  shows "length (filter (counted (kind_of n)) n) < length (filter (counted (kind_of m)) m)"
proof -
  note sub = matches_subset [OF assms(1-4)]
  have dm: "distinct (map fst m)" and dn: "distinct (map fst n)"
    using assms(1,2) by (simp_all add: wire_ok_iff)
  have ne: "set (normalized_fields n) \<noteq> set (normalized_fields m)"
    using identity_cong [OF dn dm] assms(5) by blast
  have d: "distinct (map fst (normalized_fields m))" "distinct (map fst (normalized_fields n))"
    using dm dn by (simp_all add: distinct_normalized)
  show ?thesis
  proof (cases "kind_of m = ''spotState''")
    case True
    have "set (normalized_fields m) \<subseteq> set (normalized_fields n)"
    proof
      fix q assume q: "q \<in> set (normalized_fields m)"
      then have "fst q \<in> fst ` set (normalized_fields n)"
        using spot_fields [OF assms(1) True] spot_fields [OF assms(2)] sub(1) True by auto
      then obtain q' where q': "q' \<in> set (normalized_fields n)" "fst q' = fst q" by auto
      then have "q' = q" using q sub(2) d(1)
        by (metis (no_types) prod.collapse eq_key_imp_eq_value subsetD)
      then show "q \<in> set (normalized_fields n)" using q' by simp
    qed
    then show ?thesis using ne sub(2) by blast
  next
    case False
    have "card (set (normalized_fields n)) < card (set (normalized_fields m))"
      using sub(2) ne by (intro psubset_card_mono) auto
    then have "length (normalized_fields n) < length (normalized_fields m)"
      using d by (simp add: distinct_map distinct_card)
    then show ?thesis using score_plain assms(1,2) False sub(1) by metis
  qed
qed

lemma acknowledged_entry:
  assumes "pending_ok ps" "(key, p) \<in> set ps" "answers r (sw_Subscription (pa_wire p))"
  shows "matchingPendingAcknowledgement (pa_method p) r ps = Some (key, p)"
proof -
  let ?m = "sw_Subscription (pa_wire p)"
  let ?score = "int (length (filter (counted (kind_of ?m)) ?m))"
  have ok: "\<forall>(k, q) \<in> set ps. k = (pa_method q, serverSubscriptionIdentity (sw_Subscription (pa_wire q)))
      \<and> wire_ok (sw_Subscription (pa_wire q))" and d: "distinct (map fst ps)"
    using assms(1) by (auto simp: pending_ok_def pendingAckKey_def list_all_iff)
  have wm: "wire_ok ?m" and key: "key = (pa_method p, serverSubscriptionIdentity ?m)"
    using ok assms(2) by auto
  have "best_match (pa_method p) r ps (- 1, None) = (?score, Some (key, p))"
  proof (rule best_match_finds [OF assms(2)])
    show "entry_score (pa_method p) r (key, p) = Some ?score"
      using assms(3) by (simp add: entry_score_def score_eq answers_def)
    show "fst (- 1 :: int, None) < ?score" by simp
    show "\<forall>e \<in> set ps. e \<noteq> (key, p) \<longrightarrow> (\<forall>s. entry_score (pa_method p) r e = Some s \<longrightarrow> s < ?score)"
    proof (intro ballI impI allI)
      fix e s assume e: "e \<in> set ps" "e \<noteq> (key, p)" "entry_score (pa_method p) r e = Some s"
      obtain k q where kq: "e = (k, q)" by fastforce
      let ?n = "sw_Subscription (pa_wire q)"
      have q: "k = (pa_method q, serverSubscriptionIdentity ?n)" "wire_ok ?n"
        using ok e(1) kq by auto
      from e(3) kq have s: "pa_method q = pa_method p" "list_all (field_matches (kind_of ?n) r) ?n"
          "s = int (length (filter (counted (kind_of ?n)) ?n))"
        by (auto simp: entry_score_def score_eq split: if_splits)
      have "k \<noteq> key" using d assms(2) e(1,2) kq eq_key_imp_eq_value by fastforce
      then have "serverSubscriptionIdentity ?n \<noteq> serverSubscriptionIdentity ?m"
        using q(1) key s(1) by simp
      from matches_same_or_lower [OF wm q(2) assms(3) s(2) this] show "s < ?score"
        using s(3) by simp
    qed
  qed
  then show ?thesis by (simp add: matchingPendingAcknowledgement_def)
qed

text \<open>What a server sends back that repeats the request.\<close>

definition json_echo :: "gomap \<Rightarrow> gomap" where
  "json_echo m = map (\<lambda>(k, v). (k, json_any (any_jval v))) m"

lemma map_of_echo: "map_of (json_echo m) k = map_option (\<lambda>v. json_any (any_jval v)) (map_of m k)"
  by (induction m) (auto simp: json_echo_def)

lemma echo_equal:
  "request_value v \<Longrightarrow> (k = ''user'' \<longrightarrow> is_string v) \<Longrightarrow>
   subscriptionFieldEqual k v (json_any (any_jval v))"
  by (cases v) (auto simp: subscriptionFieldEqual_def protocolNumber_def float64_small equal_fold_def)

lemma echo_answers:
  assumes "wire_ok m"
  shows "answers (json_echo m) m"
proof -
  have one: "map_of m k = Some v \<and> subscriptionFieldEqual k v (json_any (any_jval v))"
    if "(k, v) \<in> set m" for k v
  proof -
    have "request_value v" "k = ''user'' \<longrightarrow> is_string v" "map_of m k = Some v"
      using assms that wire_ok_user [OF assms] by (auto simp: wire_ok_iff list_all_iff)
    then show ?thesis using echo_equal by blast
  qed
  have "list_all (field_matches (kind_of m) (json_echo m)) m"
    using one by (fastforce simp: list_all_iff field_matches_pair map_of_echo)
  moreover have "list_all (\<lambda>(k, v). serverDefaultField (kind_of m) k v \<or>
       serverIdentityIgnoredField (kind_of m) k \<or>
       (case map_of m k of None \<Rightarrow> False | Some w \<Rightarrow> subscriptionFieldEqual k w v)) (json_echo m)"
    using one by (fastforce simp: list_all_iff json_echo_def split: option.splits)
  ultimately show ?thesis by (simp add: answers_def)
qed

lemma canonical_echo_answers:
  assumes "wire_ok m" "kind_of m \<noteq> ''spotState''"
  shows "answers (json_echo (normalized_fields m)) m"
proof -
  let ?n = "normalized_fields m"
  have d: "distinct (map fst m)" using assms(1) by (simp add: wire_ok_iff)
  have origin: "\<exists>v. map_of m k = Some v \<and> subscriptionFieldEqual k v (json_any (any_jval w))"
    if kw: "(k, w) \<in> set ?n" for k w
  proof -
    obtain v where v: "(k, v) \<in> set m" "keep_field (kind_of m) (k, v) = Some (k, w)"
      using normalized_origin [OF kw] by auto
    have "request_value v" "k = ''user'' \<longrightarrow> is_string v"
      using assms v(1) wire_ok_user [OF assms(1)] by (auto simp: wire_ok_iff list_all_iff)
    then have "subscriptionFieldEqual k v (json_any (any_jval w))"
      using v(2) by (cases v) (auto simp: keep_field_def subscriptionFieldEqual_def
        protocolNumber_def float64_small equal_fold_def split: bool.splits if_splits)
    then show ?thesis using v(1) d by auto
  qed
  have "list_all (field_matches (kind_of m) (json_echo ?n)) m"
    unfolding list_all_iff
  proof
    fix p assume p: "p \<in> set m"
    obtain k v where kv: "p = (k, v)" by fastforce
    have user: "k = ''user'' \<longrightarrow> is_string v" using wire_ok_user [OF assms(1)] p kv by auto
    show "field_matches (kind_of m) (json_echo ?n) p"
    proof (cases "keep_field (kind_of m) (k, v)")
      case None
      have "\<not> serverIdentityIgnoredField (kind_of m) k"
        using assms(2) by (simp add: serverIdentityIgnoredField_def)
      from kept_iff [OF this user] None have "serverDefaultField (kind_of m) k v"
        by (simp add: counted_pair)
      moreover have "map_of ?n k = None"
      proof (rule ccontr)
        assume "map_of ?n k \<noteq> None"
        then obtain w where w: "(k, w) \<in> set ?n" by (auto dest: map_of_SomeD)
        then obtain v' where "(k, v') \<in> set m" "keep_field (kind_of m) (k, v') = Some (k, w)"
          using normalized_origin [OF w] by auto
        moreover have "v' = v" using eq_key_imp_eq_value [OF d] p kv calculation(1) by blast
        ultimately show False using None by simp
      qed
      ultimately show ?thesis by (simp add: kv field_matches_pair map_of_echo)
    next
      case (Some q)
      then obtain w where q: "q = (k, w)" using keep_field_fst by (cases q) fastforce
      then have kw: "(k, w) \<in> set ?n" using p kv Some by (auto simp: normalized_fields_def set_map_filter)
      then have "map_of ?n k = Some w" using distinct_normalized [OF d] by simp
      moreover have "map_of m k = Some v" using p kv d by simp
      ultimately show ?thesis using origin [OF kw] by (simp add: kv field_matches_pair map_of_echo)
    qed
  qed
  moreover have "list_all (\<lambda>(k, v). serverDefaultField (kind_of m) k v \<or>
       serverIdentityIgnoredField (kind_of m) k \<or>
       (case map_of m k of None \<Rightarrow> False | Some w \<Rightarrow> subscriptionFieldEqual k w v)) (json_echo ?n)"
    using origin by (fastforce simp: list_all_iff json_echo_def split: option.splits)
  ultimately show ?thesis by (simp add: answers_def)
qed

section \<open>Properties\<close>


definition sample_book :: "int option \<Rightarrow> pendingSubscriptionAck" where
  "sample_book mantissa =
     (let m = [(''type'', AString ''l2Book''), (''coin'', AString ''BTC''), (''nSigFigs'', AInt 5)] @
           (case mantissa of None \<Rightarrow> [(''fast'', ABool False)] | Some i \<Rightarrow> [(''mantissa'', AInt i)])
      in \<lparr> pa_method = ''subscribe'', pa_identity = serverSubscriptionIdentity m,
           pa_wire = \<lparr> sw_Method = ''subscribe'', sw_Subscription = m \<rparr>, pa_deadline = 0 \<rparr>)"

definition sample_pendings :: pendings where
  "sample_pendings = map (\<lambda>p. (pendingAckKey (pa_method p) (pa_identity p), p))
     [sample_book None, sample_book (Some 2)]"

lemma sample_pendings_ok: "pending_ok sample_pendings"
  by code_simp


text \<open>
  An omitted \<^verbatim>\<open>fast\<close> field and \<^verbatim>\<open>fast:false\<close> are one identity for the server, although the reference
  of the stream calls omitted, false and true distinct identities; \<^verbatim>\<open>true\<close> is a second one.
\<close>

lemma l2book_fast_identities:
  "serverSubscriptionIdentity [(''coin'', AString c), (''fast'', ABool False), (''type'', AString ''l2Book'')] =
   serverSubscriptionIdentity [(''coin'', AString c), (''type'', AString ''l2Book'')]"
  "serverSubscriptionIdentity [(''coin'', AString c), (''fast'', ABool True), (''type'', AString ''l2Book'')] \<noteq>
   serverSubscriptionIdentity [(''coin'', AString c), (''type'', AString ''l2Book'')]"
  by (simp_all add: serverSubscriptionIdentity_def json_map_def normalized_fields_def kind_of_def
      keep_field_def serverIdentityIgnoredField_def serverDefaultField_def List.map_filter_simps)

end
