(* ===== verification/WsAdmission.thy ===== *)
theory WsAdmission
  imports Response "HOL-Library.AList" "HOL-Library.Multiset"
begin

text \<open>
  The admission gates of the WebSocket client: \<^verbatim>\<open>websocket/admission.go\<close> (active subscriptions and
  unique users, shared between clients) and \<^verbatim>\<open>websocket/post_admission.go\<close> (posts in flight). A
  critical section of a gate's mutex is one step. The release function that an acquisition returns
  is a lease; \<^verbatim>\<open>sync.Once\<close> is the flag that the lease is still live. The subscription gate is shown
  to implement its specification, a multiset of leases with two caps.
\<close>

section \<open>Reference-counted maps\<close>

definition ref_count :: "('k \<times> nat) list \<Rightarrow> 'k \<Rightarrow> nat" where
  "ref_count m k = (case map_of m k of Some n \<Rightarrow> n | None \<Rightarrow> 0)"

definition counts_ok :: "('k \<times> nat) list \<Rightarrow> bool" where
  "counts_ok m \<longleftrightarrow> distinct (map fst m) \<and> list_all (\<lambda>p. 0 < snd p) m"

lemma ref_count_update [simp]:
  "ref_count (AList.update k n m) j = (if j = k then n else ref_count m j)"
  by (simp add: ref_count_def update_conv')

lemma ref_count_delete [simp]:
  "ref_count (AList.delete k m) j = (if j = k then 0 else ref_count m j)"
  by (simp add: ref_count_def delete_conv')

lemma counts_ok_Nil [simp]: "counts_ok []"
  by (simp add: counts_ok_def)

lemma counts_ok_iff: "counts_ok m \<longleftrightarrow> distinct (map fst m) \<and> (\<forall>k n. map_of m k = Some n \<longrightarrow> 0 < n)"
proof -
  have "(\<forall>p \<in> set m. 0 < snd p) \<longleftrightarrow> (\<forall>k n. map_of m k = Some n \<longrightarrow> 0 < n)" if "distinct (map fst m)"
    using that by (metis map_of_SomeD map_of_is_SomeI prod.collapse snd_conv)
  then show ?thesis by (auto simp: counts_ok_def list_all_iff)
qed

lemma counts_ok_update: "counts_ok m \<Longrightarrow> 0 < n \<Longrightarrow> counts_ok (AList.update k n m)"
  by (auto simp: counts_ok_iff distinct_update update_conv' split: if_splits)

lemma counts_ok_delete: "counts_ok m \<Longrightarrow> counts_ok (AList.delete k m)"
  by (auto simp: counts_ok_iff distinct_delete delete_conv' split: if_splits)

lemma ref_count_pos: "counts_ok m \<Longrightarrow> 0 < ref_count m k \<longleftrightarrow> k \<in> fst ` set m"
  by (auto simp: counts_ok_iff ref_count_def split: option.splits
      simp flip: dom_map_of_conv_image_fst)

lemma counts_ok_length: "counts_ok m \<Longrightarrow> length m = card {k. 0 < ref_count m k}"
proof -
  assume ok: "counts_ok m"
  then have "{k. 0 < ref_count m k} = set (map fst m)" by (auto simp: ref_count_pos)
  then show ?thesis using ok distinct_card [of "map fst m"] by (simp add: counts_ok_iff)
qed

section \<open>The subscription gate\<close>

text \<open>The identity is the JSON value of theory \<^verbatim>\<open>WsIdentity\<close>.\<close>

record SubscriptionAdmissionRequest =
  sr_OwnerID :: u64
  sr_ServerIdentity :: jval
  sr_User :: string

record subscriptionAdmissionKey =
  ak_owner :: u64
  ak_identity :: jval
  ak_user :: string

record subscriptionGate =
  ag_maxSubscriptions :: int
  ag_maxUsers :: int
  ag_references :: "(subscriptionAdmissionKey \<times> nat) list"
  ag_userReferences :: "(string \<times> nat) list"

definition DefaultMaxActiveSubscriptions :: int where "DefaultMaxActiveSubscriptions = 1000"
definition DefaultMaxUniqueUsers :: int where "DefaultMaxUniqueUsers = 10"
definition ErrActiveSubscriptionLimit :: string where
  "ErrActiveSubscriptionLimit = ''websocket active subscription limit reached''"
definition ErrUniqueUserLimit :: string where
  "ErrUniqueUserLimit = ''websocket unique user limit reached''"

definition NewSubscriptionAdmissionGate :: "int \<Rightarrow> int \<Rightarrow> subscriptionGate" where
  "NewSubscriptionAdmissionGate maxSubscriptions maxUsers =
     \<lparr> ag_maxSubscriptions =
         (if maxSubscriptions \<le> 0 then DefaultMaxActiveSubscriptions else maxSubscriptions),
       ag_maxUsers = (if maxUsers \<le> 0 then DefaultMaxUniqueUsers else maxUsers),
       ag_references = [], ag_userReferences = [] \<rparr>"

definition normalizeSubscriptionUser :: "string \<Rightarrow> string" where
  "normalizeSubscriptionUser user = to_lower (trim_space user)"

definition admission_key :: "SubscriptionAdmissionRequest \<Rightarrow> subscriptionAdmissionKey" where
  "admission_key request =
     \<lparr> ak_owner = sr_OwnerID request, ak_identity = sr_ServerIdentity request,
       ak_user = normalizeSubscriptionUser (sr_User request) \<rparr>"

definition Acquire :: "subscriptionGate \<Rightarrow> SubscriptionAdmissionRequest \<Rightarrow>
    (subscriptionGate \<times> subscriptionAdmissionKey) res" where
  "Acquire g request =
     (let key = admission_key request; user = ak_user key;
          references = AList.update key (Suc (ref_count (ag_references g) key)) (ag_references g) in
      if ref_count (ag_references g) key = 0
      then if int (length (ag_references g)) \<ge> ag_maxSubscriptions g
           then Inl ErrActiveSubscriptionLimit
           else if user \<noteq> '''' \<and> ref_count (ag_userReferences g) user = 0 \<and>
                int (length (ag_userReferences g)) \<ge> ag_maxUsers g
           then Inl ErrUniqueUserLimit
           else Inr (g \<lparr> ag_references := references,
                ag_userReferences :=
                  (if user \<noteq> ''''
                   then AList.update user (Suc (ref_count (ag_userReferences g) user))
                     (ag_userReferences g)
                   else ag_userReferences g) \<rparr>, key)
      else Inr (g \<lparr> ag_references := references \<rparr>, key))"

text \<open>The function that \<^verbatim>\<open>once\<close> runs when the lease is released.\<close>

definition Release :: "subscriptionGate \<Rightarrow> subscriptionAdmissionKey \<Rightarrow> subscriptionGate" where
  "Release g key =
     (if ref_count (ag_references g) key > 1
      then g \<lparr> ag_references :=
             AList.update key (ref_count (ag_references g) key - 1) (ag_references g) \<rparr>
      else g \<lparr> ag_references := AList.delete key (ag_references g),
             ag_userReferences :=
               (if ak_user key \<noteq> ''''
                then if ref_count (ag_userReferences g) (ak_user key) > 1
                  then AList.update (ak_user key)
                    (ref_count (ag_userReferences g) (ak_user key) - 1) (ag_userReferences g)
                  else AList.delete (ak_user key) (ag_userReferences g)
                else ag_userReferences g) \<rparr>)"

section \<open>The specification of the gate\<close>

text \<open>
  What a gate promises: it holds a multiset of leases. A lease for a new key is refused when the
  number of distinct keys, or, for a new user, of distinct users, is at its cap.
\<close>

definition lease_users :: "subscriptionAdmissionKey multiset \<Rightarrow> string set" where
  "lease_users M = ak_user ` set_mset M - {''''}"

definition spec_acquire :: "int \<Rightarrow> int \<Rightarrow> subscriptionAdmissionKey multiset \<Rightarrow>
    subscriptionAdmissionKey \<Rightarrow> (subscriptionAdmissionKey multiset) res" where
  "spec_acquire maxS maxU M key =
     (if key \<in># M then Inr (add_mset key M)
      else if int (card (set_mset M)) \<ge> maxS then Inl ErrActiveSubscriptionLimit
      else if ak_user key \<notin> insert '''' (lease_users M) \<and> int (card (lease_users M)) \<ge> maxU
        then Inl ErrUniqueUserLimit
      else Inr (add_mset key M))"

definition held :: "subscriptionGate \<Rightarrow> subscriptionAdmissionKey multiset" where
  "held g = sum_list (map (\<lambda>(k, n). replicate_mset n k) (ag_references g))"

definition user_keys :: "subscriptionGate \<Rightarrow> string \<Rightarrow> subscriptionAdmissionKey set" where
  "user_keys g u = {k. 0 < ref_count (ag_references g) k \<and> ak_user k = u}"

definition gate_inv :: "subscriptionGate \<Rightarrow> bool" where
  "gate_inv g \<longleftrightarrow> counts_ok (ag_references g) \<and> counts_ok (ag_userReferences g) \<and>
     (\<forall>u. ref_count (ag_userReferences g) u = (if u = '''' then 0 else card (user_keys g u)))"

lemma count_replicates:
  "distinct (map fst m) \<Longrightarrow>
   count (sum_list (map (\<lambda>(k, n). replicate_mset n k) m)) j = ref_count m j"
proof (induction m)
  case (Cons p m)
  obtain k n where p: "p = (k, n)" by fastforce
  with Cons.prems have "ref_count m k = 0" by (simp add: ref_count_def map_of_eq_None_iff [THEN iffD2])
  moreover have "ref_count (p # m) j = (if j = k then n else ref_count m j)"
    by (simp add: ref_count_def p)
  ultimately show ?case using Cons by (simp add: p count_replicate_mset)
qed (simp add: ref_count_def)

lemma count_held: "gate_inv g \<Longrightarrow> count (held g) k = ref_count (ag_references g) k"
  by (simp add: gate_inv_def counts_ok_def held_def count_replicates)

lemma in_held: "gate_inv g \<Longrightarrow> k \<in># held g \<longleftrightarrow> 0 < ref_count (ag_references g) k"
  by (simp flip: count_greater_zero_iff add: count_held)

lemma card_held: "gate_inv g \<Longrightarrow> card (set_mset (held g)) = length (ag_references g)"
proof -
  assume inv: "gate_inv g"
  then have "set_mset (held g) = {k. 0 < ref_count (ag_references g) k}" by (auto simp: in_held)
  then show ?thesis using inv counts_ok_length [of "ag_references g"] by (simp add: gate_inv_def)
qed

lemma finite_user_keys: "gate_inv g \<Longrightarrow> finite (user_keys g u)"
  by (rule finite_subset [of _ "fst ` set (ag_references g)"])
    (auto simp: user_keys_def gate_inv_def ref_count_pos)

lemma lease_users_held:
  assumes "gate_inv g"
  shows "lease_users (held g) = {u. 0 < ref_count (ag_userReferences g) u}"
proof (rule set_eqI)
  fix u
  have "u \<in> lease_users (held g) \<longleftrightarrow> u \<noteq> '''' \<and> user_keys g u \<noteq> {}"
    using assms by (auto simp: lease_users_def user_keys_def in_held)
  then show "u \<in> lease_users (held g) \<longleftrightarrow> u \<in> {u. 0 < ref_count (ag_userReferences g) u}"
    using assms finite_user_keys [OF assms, of u] by (auto simp: gate_inv_def card_gt_0_iff)
qed

lemma in_lease_users:
  "gate_inv g \<Longrightarrow> u \<in> lease_users (held g) \<longleftrightarrow> 0 < ref_count (ag_userReferences g) u"
  by (simp add: lease_users_held)

lemma card_lease_users:
  "gate_inv g \<Longrightarrow> card (lease_users (held g)) = length (ag_userReferences g)"
  using counts_ok_length [of "ag_userReferences g"] by (simp add: lease_users_held gate_inv_def)

text \<open>A change that keeps the set of keys, or adds or removes one key, with its effect on the users.\<close>

lemma gate_inv_same_keys:
  assumes "gate_inv g" "counts_ok r" "\<And>k. 0 < ref_count r k \<longleftrightarrow> 0 < ref_count (ag_references g) k"
  shows "gate_inv (g \<lparr> ag_references := r \<rparr>)"
  using assms by (simp add: gate_inv_def user_keys_def)

lemma held_eqI:
  assumes "gate_inv g'" "\<And>k. ref_count (ag_references g') k = count M k"
  shows "held g' = M"
  using assms by (intro multiset_eqI) (simp add: count_held)

lemma acquire_implements:
  assumes inv: "gate_inv g"
  shows "case Acquire g rq of
      Inl e \<Rightarrow> spec_acquire (ag_maxSubscriptions g) (ag_maxUsers g) (held g) (admission_key rq) = Inl e
    | Inr (g', k) \<Rightarrow> k = admission_key rq \<and> gate_inv g' \<and>
        spec_acquire (ag_maxSubscriptions g) (ag_maxUsers g) (held g) k = Inr (held g') \<and>
        held g' = add_mset k (held g) \<and>
        ag_maxSubscriptions g' = ag_maxSubscriptions g \<and> ag_maxUsers g' = ag_maxUsers g"
proof -
  let ?k = "admission_key rq" and ?u = "ak_user (admission_key rq)"
  let ?refs = "AList.update ?k (Suc (ref_count (ag_references g) ?k)) (ag_references g)"
  have ok: "counts_ok ?refs" using inv by (simp add: gate_inv_def counts_ok_update)
  show ?thesis
  proof (cases "ref_count (ag_references g) ?k = 0")
    case False
    let ?g = "g \<lparr> ag_references := ?refs \<rparr>"
    have i: "gate_inv ?g" using inv ok False by (intro gate_inv_same_keys) auto
    have "held ?g = add_mset ?k (held g)" using inv i by (intro held_eqI) (simp_all add: count_held)
    then show ?thesis using False inv i
      by (simp add: Acquire_def Let_def spec_acquire_def in_held)
  next
    case new: True
    let ?urefs = "(if ?u \<noteq> '''' then AList.update ?u (Suc (ref_count (ag_userReferences g) ?u))
         (ag_userReferences g) else ag_userReferences g)"
    define g' where "g' = g \<lparr> ag_references := ?refs, ag_userReferences := ?urefs \<rparr>"
    have refs: "ag_references g' = ?refs" by (simp add: g'_def)
    have urefs: "ref_count (ag_userReferences g') u = (if u = ?u \<and> u \<noteq> '''' then
        Suc (ref_count (ag_userReferences g) u) else ref_count (ag_userReferences g) u)" for u
      by (simp add: g'_def)
    have ok': "counts_ok (ag_userReferences g')"
      using inv by (simp add: g'_def gate_inv_def counts_ok_update)
    have keys: "user_keys g' u = (if u = ?u then insert ?k (user_keys g u) else user_keys g u)" for u
      using new by (auto simp: user_keys_def refs)
    have "?k \<notin> user_keys g ?u" using new by (simp add: user_keys_def)
    then have i: "gate_inv g'"
      using inv ok ok' finite_user_keys [OF inv, of ?u]
      by (auto simp: gate_inv_def keys refs urefs)
    have h: "held g' = add_mset ?k (held g)"
      using inv i by (intro held_eqI) (simp_all add: count_held refs)
    have "ag_maxSubscriptions g' = ag_maxSubscriptions g" "ag_maxUsers g' = ag_maxUsers g"
      by (simp_all add: g'_def)
    moreover have "Acquire g rq = (if int (length (ag_references g)) \<ge> ag_maxSubscriptions g
        then Inl ErrActiveSubscriptionLimit
        else if ?u \<noteq> '''' \<and> ref_count (ag_userReferences g) ?u = 0 \<and>
          int (length (ag_userReferences g)) \<ge> ag_maxUsers g
        then Inl ErrUniqueUserLimit else Inr (g', ?k))"
      using new by (simp add: Acquire_def Let_def g'_def)
    ultimately show ?thesis using new inv i h
      by (auto simp: spec_acquire_def in_held card_held card_lease_users in_lease_users)
  qed
qed

lemma release_implements:
  assumes inv: "gate_inv g" and k: "k \<in># held g"
  shows "gate_inv (Release g k)" "held (Release g k) = held g - {#k#}"
    "ag_maxSubscriptions (Release g k) = ag_maxSubscriptions g"
    "ag_maxUsers (Release g k) = ag_maxUsers g"
proof -
  have pos: "0 < ref_count (ag_references g) k" using inv k by (simp add: in_held)
  show i: "gate_inv (Release g k)"
  proof (cases "ref_count (ag_references g) k > 1")
    case True
    then show ?thesis using inv
      by (simp add: Release_def) (intro gate_inv_same_keys, auto simp: gate_inv_def counts_ok_update)
  next
    case False
    then have one: "ref_count (ag_references g) k = 1" using pos by simp
    let ?g = "Release g k"
    have refs: "ag_references ?g = AList.delete k (ag_references g)" using one by (simp add: Release_def)
    have urefs: "ref_count (ag_userReferences ?g) u =
        (if u = ak_user k then ref_count (ag_userReferences g) u - 1
         else ref_count (ag_userReferences g) u)" for u
      using one inv by (auto simp: Release_def gate_inv_def)
    have keys: "user_keys ?g u = (if u = ak_user k then user_keys g u - {k} else user_keys g u)" for u
      using one by (auto simp: user_keys_def refs)
    have "k \<in> user_keys g (ak_user k)" using one by (simp add: user_keys_def)
    moreover have "counts_ok (ag_userReferences ?g)"
      using one inv by (auto simp: Release_def gate_inv_def counts_ok_update counts_ok_delete)
    ultimately show ?thesis
      using inv finite_user_keys [OF inv, of "ak_user k"]
      by (auto simp: gate_inv_def refs urefs keys counts_ok_delete card_Diff_singleton)
  qed
  show "held (Release g k) = held g - {#k#}"
    using inv i pos by (intro held_eqI) (auto simp: Release_def count_held)
  show "ag_maxSubscriptions (Release g k) = ag_maxSubscriptions g"
    "ag_maxUsers (Release g k) = ag_maxUsers g" by (simp_all add: Release_def)
qed

section \<open>Runs of the gate and its specification\<close>

text \<open>
  A lease is the key and whether its release function has yet to run; the calls arrive in any order,
  and a release function may be called again.
\<close>

datatype gate_op = GAcquire SubscriptionAdmissionRequest | GRelease nat

type_synonym leases = "(subscriptionAdmissionKey \<times> bool) list"

definition live :: "leases \<Rightarrow> subscriptionAdmissionKey multiset" where
  "live ls = mset (map fst (filter snd ls))"

fun gate_step :: "subscriptionGate \<times> leases \<Rightarrow> gate_op \<Rightarrow> (subscriptionGate \<times> leases) \<times> string option" where
  "gate_step (g, ls) (GAcquire rq) =
     (case Acquire g rq of
        Inl e \<Rightarrow> ((g, ls), Some e)
      | Inr (g', k) \<Rightarrow> ((g', ls @ [(k, True)]), None))"
| "gate_step (g, ls) (GRelease i) =
     (if i < length ls \<and> snd (ls ! i)
      then ((Release g (fst (ls ! i)), ls[i := (fst (ls ! i), False)]), None)
      else ((g, ls), None))"

fun lease_step :: "int \<Rightarrow> int \<Rightarrow> leases \<Rightarrow> gate_op \<Rightarrow> leases \<times> string option" where
  "lease_step maxS maxU ls (GAcquire rq) =
     (case spec_acquire maxS maxU (live ls) (admission_key rq) of
        Inl e \<Rightarrow> (ls, Some e)
      | Inr _ \<Rightarrow> (ls @ [(admission_key rq, True)], None))"
| "lease_step maxS maxU ls (GRelease i) =
     (if i < length ls then (ls[i := (fst (ls ! i), False)], None) else (ls, None))"

fun run_ops :: "('s \<Rightarrow> 'o \<Rightarrow> 's \<times> 'e) \<Rightarrow> 's \<Rightarrow> 'o list \<Rightarrow> 's \<times> 'e list" where
  "run_ops step s [] = (s, [])"
| "run_ops step s (x # xs) =
     (let (s1, e) = step s x; (s2, es) = run_ops step s1 xs in (s2, e # es))"

lemma live_append [simp]: "live (ls @ [(k, True)]) = add_mset k (live ls)"
  by (simp add: live_def)

lemma live_release:
  "i < length ls \<Longrightarrow>
   live (ls[i := (k, False)]) = (if snd (ls ! i) then live ls - {#fst (ls ! i)#} else live ls)"
  by (induction ls arbitrary: i)
    (auto simp: live_def less_Suc_eq_0_disj nth_Cons' split: nat.splits)

lemma live_member: "i < length ls \<Longrightarrow> snd (ls ! i) \<Longrightarrow> fst (ls ! i) \<in># live ls"
  by (auto simp: live_def intro!: imageI)

lemma release_again: "i < length ls \<Longrightarrow> \<not> snd (ls ! i) \<Longrightarrow> ls[i := (fst (ls ! i), False)] = ls"
  by (metis (full_types) list_update_id prod.collapse)

text \<open>The simulation: the gate holds exactly the live leases.\<close>

definition gate_sim :: "int \<Rightarrow> int \<Rightarrow> subscriptionGate \<times> leases \<Rightarrow> leases \<Rightarrow> bool" where
  "gate_sim maxS maxU c ls \<longleftrightarrow> snd c = ls \<and> gate_inv (fst c) \<and> held (fst c) = live ls \<and>
     ag_maxSubscriptions (fst c) = maxS \<and> ag_maxUsers (fst c) = maxU \<and>
     int (card (set_mset (live ls))) \<le> maxS \<and> int (card (lease_users (live ls))) \<le> maxU"

lemma lease_users_add: "lease_users (add_mset k M) = (if ak_user k = '''' then lease_users M
    else insert (ak_user k) (lease_users M))"
  by (auto simp: lease_users_def)

lemma finite_lease_users [simp]: "finite (lease_users M)"
  by (simp add: lease_users_def)

lemma spec_acquire_bounds:
  assumes "spec_acquire maxS maxU M k = Inr M'"
    and "int (card (set_mset M)) \<le> maxS" "int (card (lease_users M)) \<le> maxU"
  shows "int (card (set_mset M')) \<le> maxS \<and> int (card (lease_users M')) \<le> maxU"
  using assms
  by (auto simp: spec_acquire_def lease_users_add insert_absorb card_insert_if
      split: if_splits) (auto simp: lease_users_def)

lemma gate_simulation:
  assumes "gate_sim maxS maxU c ls"
  shows "gate_sim maxS maxU (fst (gate_step c op)) (fst (lease_step maxS maxU ls op)) \<and>
    snd (gate_step c op) = snd (lease_step maxS maxU ls op)"
proof (cases op)
  case (GAcquire rq)
  obtain g where c: "c = (g, ls)" using assms by (cases c) (simp add: gate_sim_def)
  have inv: "gate_inv g" and h: "held g = live ls" and caps: "ag_maxSubscriptions g = maxS"
      "ag_maxUsers g = maxU" using assms by (simp_all add: gate_sim_def c)
  note step = acquire_implements [OF inv, of rq, unfolded h caps]
  show ?thesis
  proof (cases "Acquire g rq")
    case (Inl e)
    then show ?thesis using step assms by (simp add: GAcquire c)
  next
    case (Inr p)
    then obtain g' k where p: "p = (g', k)" by fastforce
    have *: "k = admission_key rq" "gate_inv g'"
      "spec_acquire maxS maxU (live ls) k = Inr (held g')" "held g' = add_mset k (live ls)"
      "ag_maxSubscriptions g' = maxS" "ag_maxUsers g' = maxU"
      using step unfolding Inr p sum.case prod.case by blast+
    have "int (card (set_mset (held g'))) \<le> maxS \<and> int (card (lease_users (held g'))) \<le> maxU"
      using assms by (intro spec_acquire_bounds [OF *(3)]) (simp_all add: gate_sim_def)
    moreover have "spec_acquire maxS maxU (live ls) (admission_key rq) =
        Inr (add_mset (admission_key rq) (live ls))" using *(1,3,4) by metis
    ultimately show ?thesis using *(1,2,4-6) Inr by (simp add: GAcquire c p gate_sim_def)
  qed
next
  case (GRelease i)
  obtain g where c: "c = (g, ls)" using assms by (cases c) (simp add: gate_sim_def)
  show ?thesis
  proof (cases "i < length ls \<and> snd (ls ! i)")
    case True
    have k: "fst (ls ! i) \<in># held g" using True assms by (simp add: gate_sim_def c live_member)
    have inv: "gate_inv g" using assms by (simp add: gate_sim_def c)
    let ?M = "live ls - {#fst (ls ! i)#}"
    have "set_mset ?M \<subseteq> set_mset (live ls)" by (auto dest: in_diffD)
    then have "card (set_mset ?M) \<le> card (set_mset (live ls))"
      "card (lease_users ?M) \<le> card (lease_users (live ls))"
      by (auto intro!: card_mono simp: lease_users_def)
    then show ?thesis using release_implements [OF inv k] assms True
      by (simp add: GRelease c gate_sim_def live_release)
  next
    case False
    then show ?thesis using assms by (auto simp: GRelease c release_again)
  qed
qed

lemma gate_run_simulation:
  assumes "gate_sim maxS maxU c ls"
  shows "gate_sim maxS maxU (fst (run_ops gate_step c ops))
      (fst (run_ops (lease_step maxS maxU) ls ops)) \<and>
    snd (run_ops gate_step c ops) = snd (run_ops (lease_step maxS maxU) ls ops)"
  using assms
proof (induction ops arbitrary: c ls)
  case (Cons op ops)
  from gate_simulation [OF Cons.prems, of op] Cons.IH
  show ?case by (auto simp: Let_def split: prod.splits) (metis fst_conv snd_conv)+
qed simp

section \<open>The post gate\<close>

text \<open>
  A buffered channel whose elements are the permits in use. \<^verbatim>\<open>select\<close> takes a ready case, any of them
  when both are: \<open>pick\<close> is its choice. A call that finds no ready case waits and tries again.
\<close>

record postGate =
  pg_limit :: int
  pg_permits :: nat

definition DefaultMaxConcurrentPosts :: int where "DefaultMaxConcurrentPosts = 100"

definition NewPostAdmissionGate :: "int \<Rightarrow> postGate" where
  "NewPostAdmissionGate limit =
     \<lparr> pg_limit = (if limit \<le> 0 then DefaultMaxConcurrentPosts else limit), pg_permits = 0 \<rparr>"

datatype post_gate_op = PAcquire bool bool | PRelease nat

datatype post_gate_event = PGranted | PCancelled | PWaits | PReleased | PIgnored

fun post_gate_step :: "postGate \<times> bool list \<Rightarrow> post_gate_op \<Rightarrow>
    (postGate \<times> bool list) \<times> post_gate_event" where
  "post_gate_step (g, ls) (PAcquire cancelled pick) =
     (if int (pg_permits g) < pg_limit g \<and> (\<not> cancelled \<or> pick)
      then ((g \<lparr> pg_permits := pg_permits g + 1 \<rparr>, ls @ [True]), PGranted)
      else if cancelled then ((g, ls), PCancelled)
      else ((g, ls), PWaits))"
| "post_gate_step (g, ls) (PRelease i) =
     (if i < length ls \<and> ls ! i
      then ((g \<lparr> pg_permits := pg_permits g - 1 \<rparr>, ls[i := False]), PReleased)
      else ((g, ls), PIgnored))"

definition post_gate_inv :: "int \<Rightarrow> postGate \<times> bool list \<Rightarrow> bool" where
  "post_gate_inv limit s \<longleftrightarrow> pg_limit (fst s) = limit \<and> int (pg_permits (fst s)) \<le> limit \<and>
     pg_permits (fst s) = length (filter (\<lambda>b. b) (snd s))"

lemma filter_list_update:
  "i < length ls \<Longrightarrow> ls ! i \<Longrightarrow> length (filter (\<lambda>b. b) (ls[i := False])) = length (filter (\<lambda>b. b) ls) - 1"
proof (induction ls arbitrary: i)
  case (Cons b ls)
  have "0 < length (filter (\<lambda>b. b) ls)" if "j < length ls" "ls ! j" for j
    using that nth_mem [of j ls] by (auto simp: length_greater_0_conv filter_empty_conv)
  note pos = this
  show ?case
  proof (cases i)
    case 0
    then show ?thesis using Cons.prems by simp
  next
    case (Suc j)
    then have "0 < length (filter (\<lambda>b. b) ls)" using pos [of j] Cons.prems by simp
    then show ?thesis using Cons.IH [of j] Cons.prems Suc
      by (cases b) (simp_all del: length_greater_0_conv)
  qed
qed simp

lemma post_gate_inv_step:
  "post_gate_inv limit s \<Longrightarrow> post_gate_inv limit (fst (post_gate_step s op))"
  by (cases s; cases op) (auto simp: post_gate_inv_def filter_list_update)

lemma post_gate_inv_run:
  "post_gate_inv limit s \<Longrightarrow> post_gate_inv limit (fst (run_ops post_gate_step s ops))"
  by (induction ops arbitrary: s)
    (auto simp: Let_def split: prod.splits dest: post_gate_inv_step, metis fst_conv post_gate_inv_step)

section \<open>Properties\<close>

text \<open>
  C7: through any sequence of acquisitions and (possibly repeated) releases the
  gate answers exactly as its specification over the multiset of live leases does, and the numbers
  of distinct live keys and of distinct users stay within the caps. Its maps have one entry per live
  key and per user, so nothing is left of a released lease.
\<close>

theorem gate_refines_leases:
  "let maxS = (if ms \<le> 0 then DefaultMaxActiveSubscriptions else ms);
       maxU = (if mu \<le> 0 then DefaultMaxUniqueUsers else mu);
       concrete = run_ops gate_step (NewSubscriptionAdmissionGate ms mu, []) ops;
       abstract = run_ops (lease_step maxS maxU) [] ops
   in snd concrete = snd abstract \<and> snd (fst concrete) = fst abstract \<and>
      held (fst (fst concrete)) = live (fst abstract) \<and>
      length (ag_references (fst (fst concrete))) = card (set_mset (live (fst abstract))) \<and>
      length (ag_userReferences (fst (fst concrete))) = card (lease_users (live (fst abstract))) \<and>
      int (card (set_mset (live (fst abstract)))) \<le> maxS \<and>
      int (card (lease_users (live (fst abstract)))) \<le> maxU"
proof -
  let ?S = "if ms \<le> 0 then DefaultMaxActiveSubscriptions else ms"
  let ?U = "if mu \<le> 0 then DefaultMaxUniqueUsers else mu"
  have "gate_sim ?S ?U (NewSubscriptionAdmissionGate ms mu, []) []"
    by (auto simp: gate_sim_def NewSubscriptionAdmissionGate_def gate_inv_def ref_count_def
        user_keys_def held_def live_def lease_users_def DefaultMaxActiveSubscriptions_def
        DefaultMaxUniqueUsers_def)
  from gate_run_simulation [OF this, of ops] show ?thesis
    by (auto simp: gate_sim_def Let_def simp flip: card_held card_lease_users)
qed

end
