(* ===== verification/WsLifecycle.thy ===== *)
theory WsLifecycle
  imports Response "HOL-Library.Sublist"
begin

text \<open>
  The life of one logical subscription: \<^verbatim>\<open>websocket/state.go\<close> (lifecycle events), the methods of
  \<^verbatim>\<open>streamSubscription\<close> and \<^verbatim>\<open>deliver\<close> in \<^verbatim>\<open>websocket/market_subscription.go\<close>, and their copy for
  \<^verbatim>\<open>L2BookSubscription\<close> in \<^verbatim>\<open>websocket/subscription.go\<close>. A step is one critical section of the delivery
  lock, the start of a close, or a receive by the consumer; a run is any interleaving of steps. A
  send on a closed channel (a panic in Go) and a send under the lock that nobody can unblock are the
  result \<open>None\<close> of a step.
\<close>

section \<open>Channels\<close>

record 'a chan =
  ch_cap :: nat
  ch_buf :: "'a list"
  ch_closed :: bool

definition make_chan :: "nat \<Rightarrow> 'a chan" where
  "make_chan n = \<lparr> ch_cap = n, ch_buf = [], ch_closed = False \<rparr>"

definition has_room :: "'a chan \<Rightarrow> bool" where
  "has_room c \<longleftrightarrow> length (ch_buf c) < ch_cap c"

text \<open>\<^verbatim>\<open>select { case c <- x: default: }\<close>: the channel and whether the value was sent.\<close>

definition try_send :: "'a chan \<Rightarrow> 'a \<Rightarrow> ('a chan \<times> bool) option" where
  "try_send c x =
     (if ch_closed c then None
      else if has_room c then Some (c \<lparr> ch_buf := ch_buf c @ [x] \<rparr>, True)
      else Some (c, False))"

text \<open>\<^verbatim>\<open>select { case <-c: default: }\<close>\<close>

definition drop_head :: "'a chan \<Rightarrow> 'a chan" where
  "drop_head c = c \<lparr> ch_buf := tl (ch_buf c) \<rparr>"

definition close_chan :: "'a chan \<Rightarrow> ('a chan) option" where
  "close_chan c = (if ch_closed c then None else Some (c \<lparr> ch_closed := True \<rparr>))"

lemma make_chan_simps [simp]:
  "ch_cap (make_chan n) = n" "ch_buf (make_chan n) = []" "\<not> ch_closed (make_chan n)"
  by (simp_all add: make_chan_def)

section \<open>Lifecycle events\<close>

type_synonym SubscriptionState = string

abbreviation "SubscriptionStateConnecting \<equiv> ''connecting''"
abbreviation "SubscriptionStateConnected \<equiv> ''connected''"
abbreviation "SubscriptionStateReconnecting \<equiv> ''reconnecting''"
abbreviation "SubscriptionStateSubscribed \<equiv> ''subscribed''"
abbreviation "SubscriptionStateUnsubscribed \<equiv> ''unsubscribed''"
abbreviation "SubscriptionStateError \<equiv> ''error''"

text \<open>The sequence number, a \<^verbatim>\<open>uint64\<close> in the code, counts transitions and is not modelled as wrapping.\<close>

record SubscriptionStateEvent =
  se_Sequence :: nat
  se_State :: SubscriptionState
  se_Error :: "string option"

definition enqueueSubscriptionState :: "SubscriptionStateEvent chan \<Rightarrow> SubscriptionStateEvent \<Rightarrow>
    (SubscriptionStateEvent chan) option" where
  "enqueueSubscriptionState events event =
     (case try_send events event of
        None \<Rightarrow> None
      | Some (c, True) \<Rightarrow> Some c
      | Some (c, False) \<Rightarrow>
          (case try_send (drop_head c) event of
             Some (c', True) \<Rightarrow> Some c'
           | _ \<Rightarrow> None))"

definition subscriptionStateError :: "string option \<Rightarrow> string" where
  "subscriptionStateError err =
     (case err of None \<Rightarrow> ''websocket subscription error state requires an error'' | Some e \<Rightarrow> e)"

section \<open>Backpressure\<close>

type_synonym BackpressurePolicy = nat

definition BackpressureDropNewest :: BackpressurePolicy where "BackpressureDropNewest = 1"
definition BackpressureDropOldest :: BackpressurePolicy where "BackpressureDropOldest = 2"
definition BackpressureBlock :: BackpressurePolicy where "BackpressureBlock = 3"

text \<open>The pair \<^verbatim>\<open>(delivered, closed)\<close> that \<^verbatim>\<open>deliver\<close> returns, or that it still waits.\<close>

datatype deliver_result = Delivered | NotDelivered | DeliverClosed | DeliverWaits

text \<open>
  \<open>stop\<close> says that the context or the subscription has ended when the call begins, \<open>late\<close> that one
  of them ends during the blocking \<^verbatim>\<open>select\<close>, which then takes that case.
\<close>

definition deliver :: "'t chan \<Rightarrow> 't \<Rightarrow> BackpressurePolicy \<Rightarrow> bool \<Rightarrow> bool \<Rightarrow>
    ('t chan \<times> deliver_result) option" where
  "deliver events event policy stop late =
     (if stop then Some (events, DeliverClosed)
      else if policy = BackpressureDropNewest then
        (case try_send events event of
           None \<Rightarrow> None
         | Some (c, ok) \<Rightarrow> Some (c, if ok then Delivered else NotDelivered))
      else if policy = BackpressureDropOldest then
        (case try_send events event of
           None \<Rightarrow> None
         | Some (c, True) \<Rightarrow> Some (c, Delivered)
         | Some (c, False) \<Rightarrow>
             (case try_send (drop_head c) event of
                None \<Rightarrow> None
              | Some (c', ok) \<Rightarrow> Some (c', if ok then Delivered else NotDelivered)))
      else if late then Some (events, DeliverClosed)
      else (case try_send events event of
              None \<Rightarrow> None
            | Some (c, ok) \<Rightarrow> Some (c, if ok then Delivered else DeliverWaits)))"

section \<open>The subscription\<close>

text \<open>
  \<^verbatim>\<open>once.Do\<close> lets the first of \<^verbatim>\<open>Close\<close> and \<^verbatim>\<open>terminate\<close> run: it closes \<^verbatim>\<open>done\<close> (phase \<open>Closing\<close>, with
  the error of a termination) and later, under the delivery lock, emits the last event and closes
  the channels (phase \<open>Ended\<close>). The decoder and the filter are the fields \<^verbatim>\<open>decode\<close> and \<^verbatim>\<open>match\<close>.
\<close>

datatype phase = Running | Closing "string option" | Ended

record 't streamSubscription =
  ss_events :: "'t chan"
  ss_errors :: "string chan"
  ss_states :: "SubscriptionStateEvent chan"
  ss_phase :: phase
  ss_lastState :: SubscriptionState
  ss_stateSeq :: nat
  ss_decode :: "jval \<Rightarrow> 't res"
  ss_match :: "'t \<Rightarrow> bool"
  ss_backpressure :: BackpressurePolicy

definition newStreamSubscription :: "nat \<Rightarrow> nat \<Rightarrow> BackpressurePolicy \<Rightarrow> (jval \<Rightarrow> 't res) \<Rightarrow>
    ('t \<Rightarrow> bool) \<Rightarrow> 't streamSubscription" where
  "newStreamSubscription eventBuffer stateBuffer policy decode matches =
     \<lparr> ss_events = make_chan eventBuffer, ss_errors = make_chan 1, ss_states = make_chan stateBuffer,
       ss_phase = Running, ss_lastState = '''', ss_stateSeq = 0, ss_decode = decode,
       ss_match = matches, ss_backpressure = policy \<rparr>"

definition isDone :: "'t streamSubscription \<Rightarrow> bool" where
  "isDone s \<longleftrightarrow> ss_phase s \<noteq> Running"

definition stopped :: "bool \<Rightarrow> 't streamSubscription \<Rightarrow> bool" where
  "stopped ctx_done s \<longleftrightarrow> ctx_done \<or> isDone s"

definition reportLocked :: "'t streamSubscription \<Rightarrow> string \<Rightarrow> ('t streamSubscription) option" where
  "reportLocked s err =
     (if isDone s then Some s
      else map_option (\<lambda>(c, _). s \<lparr> ss_errors := c \<rparr>) (try_send (ss_errors s) err))"

definition stateChange :: "'t streamSubscription \<Rightarrow> SubscriptionState \<Rightarrow> string option \<Rightarrow>
    ('t streamSubscription) option" where
  "stateChange s state err =
     (if isDone s then Some s
      else if state \<noteq> SubscriptionStateError \<and> ss_lastState s = state then Some s
      else let err' = (if state = SubscriptionStateError then Some (subscriptionStateError err) else None);
               n = ss_stateSeq s + 1
        in map_option (\<lambda>c. s \<lparr> ss_stateSeq := n, ss_states := c, ss_lastState := state \<rparr>)
             (enqueueSubscriptionState (ss_states s)
                \<lparr> se_Sequence = n, se_State = state, se_Error = err' \<rparr>))"

definition ErrEventDropped :: string where
  "ErrEventDropped = ''websocket subscription event dropped due to backpressure''"

text \<open>What a delivery did with the event of a frame, if the frame had one for this subscription.\<close>

datatype 't delivery = Kept 't | Lost 't | Waiting 't | NoEvent

definition deliverRaw :: "'t streamSubscription \<Rightarrow> jval \<Rightarrow> bool \<Rightarrow> bool \<Rightarrow>
    ('t streamSubscription \<times> 't delivery) option" where
  "deliverRaw s data ctx_done late =
     (if isDone s \<or> stopped ctx_done s then Some (s, NoEvent)
      else (case ss_decode s data of
              Inl e \<Rightarrow> map_option (\<lambda>s'. (s', NoEvent)) (reportLocked s e)
            | Inr event \<Rightarrow>
                (if \<not> ss_match s event then Some (s, NoEvent)
                 else (case deliver (ss_events s) event (ss_backpressure s) (stopped ctx_done s) late of
                         None \<Rightarrow> None
                       | Some (c, Delivered) \<Rightarrow> Some (s \<lparr> ss_events := c \<rparr>, Kept event)
                       | Some (c, NotDelivered) \<Rightarrow>
                           map_option (\<lambda>s'. (s', Lost event))
                             (reportLocked (s \<lparr> ss_events := c \<rparr>) ErrEventDropped)
                       | Some (c, DeliverClosed) \<Rightarrow> Some (s \<lparr> ss_events := c \<rparr>, NoEvent)
                       | Some (c, DeliverWaits) \<Rightarrow> Some (s, Waiting event)))))"

text \<open>The first statement of the function that \<^verbatim>\<open>once\<close> runs.\<close>

definition begin_close :: "'t streamSubscription \<Rightarrow> string option \<Rightarrow> 't streamSubscription" where
  "begin_close s err = (if ss_phase s = Running then s \<lparr> ss_phase := Closing err \<rparr> else s)"

definition close_channels :: "'t streamSubscription \<Rightarrow> ('t streamSubscription) option" where
  "close_channels s =
     (case (close_chan (ss_events s), close_chan (ss_errors s), close_chan (ss_states s)) of
        (Some e, Some r, Some t) \<Rightarrow>
          Some (s \<lparr> ss_events := e, ss_errors := r, ss_states := t, ss_phase := Ended \<rparr>)
      | _ \<Rightarrow> None)"

definition Close_locked :: "'t streamSubscription \<Rightarrow> ('t streamSubscription) option" where
  "Close_locked s =
     (let n = ss_stateSeq s + 1 in
      case enqueueSubscriptionState (ss_states s)
          \<lparr> se_Sequence = n, se_State = SubscriptionStateUnsubscribed, se_Error = None \<rparr> of
        None \<Rightarrow> None
      | Some c \<Rightarrow> close_channels (s \<lparr> ss_stateSeq := n, ss_states := c \<rparr>))"

definition terminate_locked :: "'t streamSubscription \<Rightarrow> string \<Rightarrow> ('t streamSubscription) option" where
  "terminate_locked s err =
     (let n = ss_stateSeq s + 1 in
      case enqueueSubscriptionState (ss_states s)
          \<lparr> se_Sequence = n, se_State = SubscriptionStateError,
            se_Error = Some (subscriptionStateError (Some err)) \<rparr> of
        None \<Rightarrow> None
      | Some c \<Rightarrow>
          (case try_send (ss_errors s) err of
             None \<Rightarrow> None
           | Some (r, _) \<Rightarrow>
               close_channels (s \<lparr> ss_stateSeq := n, ss_states := c, ss_errors := r \<rparr>)))"

section \<open>Steps and runs\<close>

datatype sub_op =
    StateChange SubscriptionState "string option"
  | Report string
  | DeliverRaw jval bool bool
  | BeginClose "string option"
  | FinishClose
  | RecvEvent
  | RecvError
  | RecvState

datatype 't sub_obs = Delivery "'t delivery" | GotEvent 't | GotState SubscriptionStateEvent

definition recv :: "'a chan \<Rightarrow> 'a option \<times> 'a chan" where
  "recv c = (case ch_buf c of [] \<Rightarrow> (None, c) | x # xs \<Rightarrow> (Some x, c \<lparr> ch_buf := xs \<rparr>))"

fun sub_step :: "'t streamSubscription \<Rightarrow> sub_op \<Rightarrow> ('t streamSubscription \<times> 't sub_obs list) option" where
  "sub_step s (StateChange st err) = map_option (\<lambda>s'. (s', [])) (stateChange s st err)"
| "sub_step s (Report err) = map_option (\<lambda>s'. (s', [])) (reportLocked s err)"
| "sub_step s (DeliverRaw data ctx_done late) =
     map_option (\<lambda>(s', d). (s', [Delivery d])) (deliverRaw s data ctx_done late)"
| "sub_step s (BeginClose err) = Some (begin_close s err, [])"
| "sub_step s FinishClose =
     (case ss_phase s of
        Closing None \<Rightarrow> map_option (\<lambda>s'. (s', [])) (Close_locked s)
      | Closing (Some err) \<Rightarrow> map_option (\<lambda>s'. (s', [])) (terminate_locked s err)
      | _ \<Rightarrow> Some (s, []))"
| "sub_step s RecvEvent =
     (case recv (ss_events s) of
        (None, _) \<Rightarrow> Some (s, [])
      | (Some x, c) \<Rightarrow> Some (s \<lparr> ss_events := c \<rparr>, [GotEvent x]))"
| "sub_step s RecvError = Some (s \<lparr> ss_errors := snd (recv (ss_errors s)) \<rparr>, [])"
| "sub_step s RecvState =
     (case recv (ss_states s) of
        (None, _) \<Rightarrow> Some (s, [])
      | (Some x, c) \<Rightarrow> Some (s \<lparr> ss_states := c \<rparr>, [GotState x]))"

fun sub_run :: "'t streamSubscription \<Rightarrow> sub_op list \<Rightarrow> ('t streamSubscription \<times> 't sub_obs list) option" where
  "sub_run s [] = Some (s, [])"
| "sub_run s (x # xs) =
     (case sub_step s x of
        None \<Rightarrow> None
      | Some (s1, o1) \<Rightarrow> map_option (\<lambda>(s2, o2). (s2, o1 @ o2)) (sub_run s1 xs))"

section \<open>Invariants of a run\<close>

definition chan_ok :: "'a chan \<Rightarrow> bool" where
  "chan_ok c \<longleftrightarrow> 0 < ch_cap c \<and> length (ch_buf c) \<le> ch_cap c"

definition sub_inv :: "'t streamSubscription \<Rightarrow> bool" where
  "sub_inv s \<longleftrightarrow> chan_ok (ss_events s) \<and> chan_ok (ss_errors s) \<and> chan_ok (ss_states s) \<and>
     (ch_closed (ss_events s) \<longleftrightarrow> ss_phase s = Ended) \<and>
     (ch_closed (ss_errors s) \<longleftrightarrow> ss_phase s = Ended) \<and>
     (ch_closed (ss_states s) \<longleftrightarrow> ss_phase s = Ended)"

definition sends :: "'a chan \<Rightarrow> 'a \<Rightarrow> 'a chan \<Rightarrow> bool" where
  "sends c x c' \<longleftrightarrow> ch_cap c' = ch_cap c \<and> ch_closed c' = ch_closed c \<and> chan_ok c' \<and>
     (ch_buf c' = ch_buf c @ [x] \<or> (ch_buf c \<noteq> [] \<and> ch_buf c' = tl (ch_buf c) @ [x]))"

lemma try_send_ok:
  assumes "chan_ok c" "\<not> ch_closed c"
  obtains c' ok where "try_send c x = Some (c', ok)" "chan_ok c'" "ch_closed c' = ch_closed c"
    "if ok then ch_buf c' = ch_buf c @ [x] else c' = c"
proof (cases "has_room c")
  case True
  then show thesis using assms that [of "c \<lparr> ch_buf := ch_buf c @ [x] \<rparr>" True]
    by (simp add: try_send_def has_room_def chan_ok_def)
next
  case False
  then show thesis using assms that [of c False] by (simp add: try_send_def)
qed

lemma enqueue_ok:
  assumes "chan_ok c" "\<not> ch_closed c"
  obtains c' where "enqueueSubscriptionState c e = Some c'" "sends c e c'"
proof (cases "has_room c")
  case True
  then show thesis using assms that [of "c \<lparr> ch_buf := ch_buf c @ [e] \<rparr>"]
    by (simp add: enqueueSubscriptionState_def try_send_def sends_def chan_ok_def has_room_def)
next
  case False
  then have "ch_buf c \<noteq> []" "has_room (drop_head c)"
    using assms(1) by (auto simp: has_room_def chan_ok_def drop_head_def)
  then show thesis using False assms that [of "c \<lparr> ch_buf := tl (ch_buf c) @ [e] \<rparr>"]
    by (simp add: enqueueSubscriptionState_def try_send_def sends_def chan_ok_def has_room_def
        drop_head_def)
qed

lemma subseq_set: "subseq xs ys \<Longrightarrow> set xs \<subseteq> set ys"
  by (induction rule: list_emb.induct) auto

lemma sorted_wrt_subseq: "subseq xs ys \<Longrightarrow> sorted_wrt P ys \<Longrightarrow> sorted_wrt P xs"
  by (induction rule: list_emb.induct) (auto dest: subseq_set)

lemma subseq_tl: "subseq (tl b) b"
  by (cases b) auto

text \<open>What the observer of \<^verbatim>\<open>States()\<close> has received, and what waits for it.\<close>

definition states_ok :: "SubscriptionStateEvent list \<Rightarrow> nat \<Rightarrow> bool" where
  "states_ok es n \<longleftrightarrow> sorted_wrt (<) (map se_Sequence es) \<and> (\<forall>e \<in> set es. 0 < se_Sequence e) \<and>
     (if es = [] then n = 0 else se_Sequence (last es) = n)"

definition terminal :: "SubscriptionStateEvent \<Rightarrow> bool" where
  "terminal e \<longleftrightarrow> se_State e = SubscriptionStateUnsubscribed \<and> se_Error e = None \<or>
     se_State e = SubscriptionStateError \<and> se_Error e \<noteq> None"

lemma states_ok_le: "states_ok es n \<Longrightarrow> e \<in> set es \<Longrightarrow> se_Sequence e \<le> n"
  by (induction es rule: rev_induct) (auto simp: states_ok_def sorted_wrt_append split: if_splits)

lemma states_ok_snoc:
  assumes "states_ok (rec @ b) n" "se_Sequence e = n + 1"
    and "b' = b @ [e] \<or> (b \<noteq> [] \<and> b' = tl b @ [e])"
  shows "states_ok (rec @ b') (n + 1)"
proof -
  have le: "\<forall>x \<in> set (rec @ b). se_Sequence x < se_Sequence e"
    using states_ok_le [OF assms(1)] assms(2) by fastforce
  from assms(3) obtain c where b': "b' = c @ [e]" and c: "c = b \<or> c = tl b" by blast
  have sub: "subseq (rec @ c) (rec @ b)" using c by (auto simp: list_emb_append_mono subseq_tl)
  have "sorted_wrt (<) (map se_Sequence (rec @ b))" using assms(1) by (simp add: states_ok_def)
  with subseq_map [OF sub] have "sorted_wrt (<) (map se_Sequence (rec @ c))"
    by (rule sorted_wrt_subseq)
  moreover have "set (rec @ c) \<subseteq> set (rec @ b)" using sub by (rule subseq_set)
  ultimately have "sorted_wrt (<) (map se_Sequence ((rec @ c) @ [e]))"
    using le by (fastforce simp: sorted_wrt_append)
  moreover have "\<forall>x \<in> set (rec @ b'). 0 < se_Sequence x"
    using \<open>set (rec @ c) \<subseteq> set (rec @ b)\<close> assms(1,2) b' by (auto simp: states_ok_def)
  ultimately show ?thesis using assms(2) b' by (simp add: states_ok_def)
qed

text \<open>What the consumer has received, what waits for it, and what was accepted for it.\<close>

definition events_ok :: "BackpressurePolicy \<Rightarrow> 't list \<Rightarrow> 't list \<Rightarrow> bool" where
  "events_ok policy es kept \<longleftrightarrow> subseq es kept \<and>
     (if policy = BackpressureDropOldest then kept = [] \<or> (es \<noteq> [] \<and> last es = last kept)
      else es = kept)"

lemma events_ok_append:
  "events_ok policy (got @ b) kept \<Longrightarrow> events_ok policy (got @ b @ [x]) (kept @ [x])"
  by (auto simp: events_ok_def list_emb_append_mono simp flip: append_assoc)

lemma events_ok_drop:
  assumes "events_ok BackpressureDropOldest (got @ b) kept" "b \<noteq> []"
  shows "events_ok BackpressureDropOldest (got @ tl b @ [x]) (kept @ [x])"
proof -
  have "subseq (got @ tl b) (got @ b)" by (simp add: list_emb_append_mono subseq_tl)
  then have "subseq (got @ tl b) kept" using assms(1) subseq_order.trans by (auto simp: events_ok_def)
  then show ?thesis by (auto simp: events_ok_def list_emb_append_mono simp flip: append_assoc)
qed

definition got_states :: "'t sub_obs list \<Rightarrow> SubscriptionStateEvent list" where
  "got_states os = List.map_filter (\<lambda>o'. case o' of GotState e \<Rightarrow> Some e | _ \<Rightarrow> None) os"

definition got_events :: "'t sub_obs list \<Rightarrow> 't list" where
  "got_events os = List.map_filter (\<lambda>o'. case o' of GotEvent x \<Rightarrow> Some x | _ \<Rightarrow> None) os"

definition kept_events :: "'t sub_obs list \<Rightarrow> 't list" where
  "kept_events os = List.map_filter (\<lambda>o'. case o' of Delivery (Kept x) \<Rightarrow> Some x | _ \<Rightarrow> None) os"

lemma map_filter_append: "List.map_filter f (xs @ ys) = List.map_filter f xs @ List.map_filter f ys"
  by (induction xs) (auto simp: List.map_filter_simps split: option.splits)

lemma logs_append [simp]:
  "got_states (a @ b) = got_states a @ got_states b"
  "got_events (a @ b) = got_events a @ got_events b"
  "kept_events (a @ b) = kept_events a @ kept_events b"
  by (simp_all add: got_states_def got_events_def kept_events_def map_filter_append)

lemma logs_simps [simp]:
  "got_states [] = []" "got_events [] = []" "kept_events [] = []"
  "got_states [GotState e] = [e]" "got_states [GotEvent x] = []" "got_states [Delivery d] = []"
  "got_events [GotState e] = []" "got_events [GotEvent x] = [x]" "got_events [Delivery d] = []"
  "kept_events [GotState e] = []" "kept_events [GotEvent x] = []"
  "kept_events [Delivery d] = (case d of Kept x \<Rightarrow> [x] | _ \<Rightarrow> [])"
  by (simp_all add: got_states_def got_events_def kept_events_def List.map_filter_simps
      split: delivery.splits)

definition run_inv :: "'t streamSubscription \<Rightarrow> 't sub_obs list \<Rightarrow> bool" where
  "run_inv s os \<longleftrightarrow> sub_inv s \<and>
     states_ok (got_states os @ ch_buf (ss_states s)) (ss_stateSeq s) \<and>
     (ss_phase s = Ended \<longrightarrow> got_states os @ ch_buf (ss_states s) \<noteq> [] \<and>
        terminal (last (got_states os @ ch_buf (ss_states s)))) \<and>
     events_ok (ss_backpressure s) (got_events os @ ch_buf (ss_events s)) (kept_events os)"

section \<open>Every step keeps the invariant\<close>

lemma run_inv_states:
  assumes "run_inv s os" "ss_phase s \<noteq> Ended" "sends (ss_states s) e c"
    and "se_Sequence e = ss_stateSeq s + 1"
    and "s' = s \<lparr> ss_stateSeq := ss_stateSeq s + 1, ss_states := c \<rparr>"
  shows "run_inv s' os" "got_states os @ ch_buf c \<noteq> []" "last (got_states os @ ch_buf c) = e"
proof -
  have b: "ch_buf c = ch_buf (ss_states s) @ [e] \<or>
      (ch_buf (ss_states s) \<noteq> [] \<and> ch_buf c = tl (ch_buf (ss_states s)) @ [e])"
    using assms(3) by (simp add: sends_def)
  have "states_ok (got_states os @ ch_buf (ss_states s)) (ss_stateSeq s)"
    using assms(1) by (simp add: run_inv_def)
  from states_ok_snoc [OF this assms(4) b]
  show "run_inv s' os" using assms by (simp add: run_inv_def sub_inv_def sends_def)
  show "got_states os @ ch_buf c \<noteq> []" "last (got_states os @ ch_buf c) = e" using b by auto
qed

lemma step_stateChange:
  assumes "run_inv s os"
  shows "\<exists>s'. stateChange s st err = Some s' \<and> run_inv s' os"
proof (cases "isDone s \<or> (st \<noteq> SubscriptionStateError \<and> ss_lastState s = st)")
  case True
  then show ?thesis using assms by (auto simp: stateChange_def)
next
  case False
  let ?e = "\<lparr> se_Sequence = ss_stateSeq s + 1, se_State = st,
    se_Error = (if st = SubscriptionStateError then Some (subscriptionStateError err) else None) \<rparr>"
  have "chan_ok (ss_states s)" "\<not> ch_closed (ss_states s)" "ss_phase s \<noteq> Ended"
    using assms False by (auto simp: run_inv_def sub_inv_def isDone_def)
  then obtain c where c: "enqueueSubscriptionState (ss_states s) ?e = Some c" "sends (ss_states s) ?e c"
    using enqueue_ok by blast
  let ?s = "s \<lparr> ss_stateSeq := ss_stateSeq s + 1, ss_states := c \<rparr>"
  have "run_inv ?s os" using assms \<open>ss_phase s \<noteq> Ended\<close> c(2) by (rule run_inv_states) simp_all
  then have "run_inv (?s \<lparr> ss_lastState := st \<rparr>) os" by (simp add: run_inv_def sub_inv_def)
  moreover have "\<not> isDone s" "\<not> (st \<noteq> SubscriptionStateError \<and> ss_lastState s = st)"
    using False by auto
  ultimately show ?thesis using c(1) by (simp only: stateChange_def Let_def if_False option.map) simp
qed

lemma step_report:
  assumes "run_inv s os"
  shows "\<exists>s'. reportLocked s err = Some s' \<and> run_inv s' os"
proof (cases "isDone s")
  case True
  then show ?thesis using assms by (simp add: reportLocked_def)
next
  case False
  then have "chan_ok (ss_errors s)" "\<not> ch_closed (ss_errors s)"
    using assms by (auto simp: run_inv_def sub_inv_def isDone_def)
  then obtain c ok where "try_send (ss_errors s) err = Some (c, ok)" "chan_ok c" "\<not> ch_closed c"
    by (metis try_send_ok)
  then show ?thesis using assms False
    by (auto simp: reportLocked_def run_inv_def sub_inv_def isDone_def)
qed

lemma step_close_channels:
  assumes "run_inv s os" "ss_phase s \<noteq> Ended"
    and "got_states os @ ch_buf (ss_states s) \<noteq> []" "terminal (last (got_states os @ ch_buf (ss_states s)))"
  shows "\<exists>s'. close_channels s = Some s' \<and> run_inv s' os"
  using assms by (simp add: close_channels_def close_chan_def run_inv_def sub_inv_def chan_ok_def)

lemma step_finish:
  assumes "run_inv s os" "ss_phase s \<noteq> Ended"
  shows "\<exists>s'. Close_locked s = Some s' \<and> run_inv s' os"
    and "\<exists>s'. terminate_locked s err = Some s' \<and> run_inv s' os"
proof -
  have ok: "chan_ok (ss_states s)" "\<not> ch_closed (ss_states s)" "chan_ok (ss_errors s)"
      "\<not> ch_closed (ss_errors s)" using assms by (auto simp: run_inv_def sub_inv_def)
  let ?e = "\<lparr> se_Sequence = ss_stateSeq s + 1, se_State = SubscriptionStateUnsubscribed, se_Error = None \<rparr>"
  obtain c where c: "enqueueSubscriptionState (ss_states s) ?e = Some c" "sends (ss_states s) ?e c"
    using enqueue_ok ok by blast
  note i = run_inv_states [OF assms c(2), simplified]
  from step_close_channels [OF i(1) [OF refl]] i(2,3) assms(2) c(1)
  show "\<exists>s'. Close_locked s = Some s' \<and> run_inv s' os"
    by (simp add: Close_locked_def Let_def terminal_def)
  let ?f = "\<lparr> se_Sequence = ss_stateSeq s + 1, se_State = SubscriptionStateError,
    se_Error = Some (subscriptionStateError (Some err)) \<rparr>"
  obtain d where d: "enqueueSubscriptionState (ss_states s) ?f = Some d" "sends (ss_states s) ?f d"
    using enqueue_ok ok by blast
  obtain r b where r: "try_send (ss_errors s) err = Some (r, b)" "chan_ok r" "\<not> ch_closed r"
    using ok try_send_ok by metis
  note j = run_inv_states [OF assms d(2), simplified]
  let ?s = "s \<lparr> ss_stateSeq := Suc (ss_stateSeq s), ss_states := d \<rparr>"
  have "run_inv (?s \<lparr> ss_errors := r \<rparr>) os"
    using j(1) [OF refl] r assms(2) by (simp add: run_inv_def sub_inv_def)
  from step_close_channels [OF this] j(2,3) assms(2) d(1) r(1)
  show "\<exists>s'. terminate_locked s err = Some s' \<and> run_inv s' os"
    by (simp add: terminate_locked_def Let_def terminal_def)
qed

lemma deliver_ok:
  assumes "chan_ok c" "\<not> ch_closed c" "events_ok policy (got @ ch_buf c) kept"
  shows "\<exists>c' r. deliver c x policy stop late = Some (c', r) \<and> chan_ok c' \<and> \<not> ch_closed c' \<and>
    (r = Delivered \<longrightarrow> events_ok policy (got @ ch_buf c') (kept @ [x])) \<and>
    (r \<noteq> Delivered \<longrightarrow> events_ok policy (got @ ch_buf c') kept)"
proof (cases "stop \<or> (policy \<noteq> BackpressureDropNewest \<and> policy \<noteq> BackpressureDropOldest \<and> late)")
  case True
  have "BackpressureDropOldest \<noteq> BackpressureDropNewest"
    by (simp add: BackpressureDropOldest_def BackpressureDropNewest_def)
  then have "deliver c x policy stop late = Some (c, DeliverClosed)"
    using True by (auto simp: deliver_def)
  then show ?thesis using assms by auto
next
  case go: False
  show ?thesis
  proof (cases "has_room c")
    case True
    let ?c = "c \<lparr> ch_buf := ch_buf c @ [x] \<rparr>"
    have "deliver c x policy stop late = Some (?c, Delivered)"
      using True go assms(2) by (auto simp: deliver_def try_send_def)
    moreover have "events_ok policy (got @ ch_buf ?c) (kept @ [x])"
      using events_ok_append [OF assms(3)] by simp
    moreover have "chan_ok ?c" "\<not> ch_closed ?c" using True assms by (auto simp: chan_ok_def has_room_def)
    ultimately show ?thesis by blast
  next
    case full: False
    show ?thesis
    proof (cases "policy = BackpressureDropOldest")
      case old: True
      have ne: "ch_buf c \<noteq> []" using full assms(1) by (auto simp: has_room_def chan_ok_def)
      let ?c = "c \<lparr> ch_buf := tl (ch_buf c) @ [x] \<rparr>"
      have "deliver c x policy stop late = Some (?c, Delivered)"
        using full ne go old assms(1,2) by (auto simp: deliver_def try_send_def drop_head_def
          has_room_def chan_ok_def BackpressureDropOldest_def BackpressureDropNewest_def)
      moreover have "events_ok policy (got @ ch_buf ?c) (kept @ [x])"
        using events_ok_drop assms(3) ne old by simp
      moreover have "chan_ok ?c" "\<not> ch_closed ?c" using ne assms by (auto simp: chan_ok_def)
      ultimately show ?thesis by blast
    next
      case False
      then have "\<exists>r. deliver c x policy stop late = Some (c, r) \<and> r \<noteq> Delivered"
        using full go assms(2) by (auto simp: deliver_def try_send_def)
      then show ?thesis using assms by blast
    qed
  qed
qed

lemma step_deliverRaw:
  assumes "run_inv s os"
  shows "\<exists>s' d. deliverRaw s data ctx_done late = Some (s', d) \<and> run_inv s' (os @ [Delivery d])"
proof (cases "isDone s \<or> stopped ctx_done s")
  case True
  then show ?thesis using assms by (simp add: deliverRaw_def run_inv_def)
next
  case False
  have no: "run_inv s' (os @ [Delivery d]) = run_inv s' os" if "\<forall>x. d \<noteq> Kept x" for s' and d :: "'a delivery"
    using that by (cases d) (simp_all add: run_inv_def)
  show ?thesis
  proof (cases "ss_decode s data")
    case (Inl e)
    then show ?thesis using False step_report [OF assms, of e] by (auto simp: deliverRaw_def no)
  next
    case (Inr x)
    show ?thesis
    proof (cases "ss_match s x")
      case False
      then show ?thesis using Inr assms by (simp add: deliverRaw_def no)
    next
      case True
      have run: "ss_phase s = Running" "ss_phase s \<noteq> Ended" using False by (auto simp: isDone_def)
      have c: "chan_ok (ss_events s)" "\<not> ch_closed (ss_events s)"
        "events_ok (ss_backpressure s) (got_events os @ ch_buf (ss_events s)) (kept_events os)"
        using assms run by (auto simp: run_inv_def sub_inv_def)
      from deliver_ok [OF this, of x "stopped ctx_done s" late] obtain c' r where
        d: "deliver (ss_events s) x (ss_backpressure s) (stopped ctx_done s) late = Some (c', r)"
        "chan_ok c'" "\<not> ch_closed c'"
        "r = Delivered \<longrightarrow> events_ok (ss_backpressure s) (got_events os @ ch_buf c') (kept_events os @ [x])"
        "r \<noteq> Delivered \<longrightarrow> events_ok (ss_backpressure s) (got_events os @ ch_buf c') (kept_events os)"
        by blast
      let ?s = "s \<lparr> ss_events := c' \<rparr>"
      have inv: "run_inv ?s os" if "r \<noteq> Delivered"
        using assms d that run by (simp add: run_inv_def sub_inv_def)
      show ?thesis
      proof (cases r)
        case Delivered
        then have "run_inv ?s (os @ [Delivery (Kept x)])"
          using assms d run by (simp add: run_inv_def sub_inv_def)
        then show ?thesis using Delivered False True Inr d(1) by (simp add: deliverRaw_def)
      next
        case NotDelivered
        then have "run_inv ?s os" by (intro inv) simp
        then show ?thesis using NotDelivered False True Inr d(1) step_report [of ?s os ErrEventDropped]
          by (auto simp: deliverRaw_def no)
      next
        case DeliverClosed
        then have "run_inv ?s os" by (intro inv) simp
        then show ?thesis using DeliverClosed False True Inr d(1) by (simp add: deliverRaw_def no)
      next
        case DeliverWaits
        then show ?thesis using False True Inr d(1) assms by (simp add: deliverRaw_def no)
      qed
    qed
  qed
qed

lemma chan_ok_tl: "chan_ok c \<Longrightarrow> ch_buf c = x # xs \<Longrightarrow> chan_ok (c \<lparr> ch_buf := xs \<rparr>)"
  by (simp add: chan_ok_def)

lemma step_keeps:
  assumes "run_inv s os"
  shows "\<exists>s' o'. sub_step s x = Some (s', o') \<and> run_inv s' (os @ o')"
proof (cases x)
  case (StateChange st err)
  then show ?thesis using step_stateChange [OF assms] by fastforce
next
  case (Report err)
  then show ?thesis using step_report [OF assms] by fastforce
next
  case (DeliverRaw data ctx_done late)
  then show ?thesis using step_deliverRaw [OF assms] by fastforce
next
  case (BeginClose err)
  then show ?thesis using assms by (simp add: begin_close_def run_inv_def sub_inv_def)
next
  case FinishClose
  show ?thesis
  proof (cases "ss_phase s")
    case (Closing e)
    then show ?thesis using FinishClose step_finish [OF assms] by (cases e) fastforce+
  qed (use assms FinishClose in simp_all)
next
  case RecvEvent
  then show ?thesis using assms
    by (cases "ch_buf (ss_events s)") (simp_all add: recv_def run_inv_def sub_inv_def chan_ok_def)
next
  case RecvError
  then show ?thesis using assms
    by (cases "ch_buf (ss_errors s)") (simp_all add: recv_def run_inv_def sub_inv_def chan_ok_def)
next
  case RecvState
  then show ?thesis using assms
    by (cases "ch_buf (ss_states s)") (auto simp: recv_def run_inv_def sub_inv_def chan_ok_def)
qed

lemma run_keeps:
  assumes "run_inv s os"
  shows "\<exists>s' o'. sub_run s xs = Some (s', o') \<and> run_inv s' (os @ o')"
  using assms
proof (induction xs arbitrary: s os)
  case (Cons x xs)
  from step_keeps [OF Cons.prems] obtain s1 o1 where
    1: "sub_step s x = Some (s1, o1)" "run_inv s1 (os @ o1)" by blast
  from Cons.IH [OF 1(2)] obtain s2 o2 where
    "sub_run s1 xs = Some (s2, o2)" "run_inv s2 ((os @ o1) @ o2)" by blast
  then show ?case using 1 by simp
qed simp

lemma run_inv_new:
  "0 < eb \<Longrightarrow> 0 < sb \<Longrightarrow> run_inv (newStreamSubscription eb sb policy decode matches) []"
  by (simp add: run_inv_def sub_inv_def newStreamSubscription_def chan_ok_def states_ok_def events_ok_def)

text \<open>The configuration of a subscription does not change.\<close>

definition config_of :: "'t streamSubscription \<Rightarrow> nat \<times> nat \<times> BackpressurePolicy" where
  "config_of s = (ch_cap (ss_events s), ch_cap (ss_states s), ss_backpressure s)"

lemma try_send_cap: "try_send c x = Some (c', ok) \<Longrightarrow> ch_cap c' = ch_cap c"
  by (auto simp: try_send_def split: if_splits)

lemma enqueue_cap: "enqueueSubscriptionState c e = Some c' \<Longrightarrow> ch_cap c' = ch_cap c"
  by (auto simp: enqueueSubscriptionState_def drop_head_def dest!: try_send_cap
      split: option.splits bool.splits prod.splits)

lemma deliver_cap: "deliver c x policy stop late = Some (c', r) \<Longrightarrow> ch_cap c' = ch_cap c"
  by (auto simp: deliver_def drop_head_def dest!: try_send_cap
      split: option.splits bool.splits prod.splits if_splits)

lemma report_config: "reportLocked s e = Some s' \<Longrightarrow> config_of s' = config_of s"
  by (auto simp: reportLocked_def config_of_def split: if_splits)

lemma close_channels_config: "close_channels s = Some s' \<Longrightarrow> config_of s' = config_of s"
  by (auto simp: close_channels_def close_chan_def config_of_def split: option.splits if_splits)

lemma deliverRaw_config: "deliverRaw s data c l = Some (s', d) \<Longrightarrow> config_of s' = config_of s"
  by (auto simp: deliverRaw_def config_of_def dest!: deliver_cap report_config
      split: if_splits sum.splits option.splits prod.splits deliver_result.splits)

lemma finish_config:
  "Close_locked s = Some s' \<Longrightarrow> config_of s' = config_of s"
  "terminate_locked s err = Some s' \<Longrightarrow> config_of s' = config_of s"
  by (auto simp: Close_locked_def terminate_locked_def Let_def config_of_def
      dest!: close_channels_config enqueue_cap try_send_cap split: option.splits prod.splits)

lemma step_config:
  assumes "sub_step s x = Some (s', o')"
  shows "config_of s' = config_of s"
proof (cases x)
  case (StateChange st err)
  then show ?thesis using assms
    by (auto simp: stateChange_def Let_def config_of_def dest!: enqueue_cap split: if_splits)
next
  case (Report err)
  then show ?thesis using assms by (auto dest: report_config)
next
  case (DeliverRaw data c l)
  then show ?thesis using assms by (auto dest: deliverRaw_config)
next
  case FinishClose
  then show ?thesis using assms by (auto dest: finish_config split: phase.splits option.splits)
qed (use assms in \<open>auto simp: begin_close_def recv_def config_of_def split: list.splits\<close>)

lemma run_config: "sub_run s xs = Some (s', os) \<Longrightarrow> config_of s' = config_of s"
  by (induction xs arbitrary: s s' os) (auto dest: step_config split: option.splits)

lemma new_run:
  assumes "0 < eb" "0 < sb"
  shows "\<exists>s os. sub_run (newStreamSubscription eb sb policy decode matches) ops = Some (s, os) \<and>
    run_inv s os \<and> config_of s = (eb, sb, policy)"
proof -
  from run_keeps [OF run_inv_new [OF assms]] obtain s os where
    r: "sub_run (newStreamSubscription eb sb policy decode matches) ops = Some (s, os)" "run_inv s os"
    by fastforce
  then show ?thesis using run_config [OF r(1)] by (simp add: config_of_def newStreamSubscription_def)
qed

section \<open>The order-book subscription\<close>

text \<open>
  \<^verbatim>\<open>L2BookSubscription\<close> has its own copy of these methods; it differs in the decoder and the filter.
\<close>

type_synonym 't L2BookSubscription = "'t streamSubscription"

definition L2BookSubscription_Close :: "'t L2BookSubscription \<Rightarrow> ('t L2BookSubscription) option" where
  "L2BookSubscription_Close = Close_locked"

definition L2BookSubscription_terminate ::
    "'t L2BookSubscription \<Rightarrow> string \<Rightarrow> ('t L2BookSubscription) option" where
  "L2BookSubscription_terminate = terminate_locked"

definition L2BookSubscription_deliverRaw :: "(jval \<Rightarrow> 't res) \<Rightarrow> ('t \<Rightarrow> string) \<Rightarrow> string \<Rightarrow>
    't L2BookSubscription \<Rightarrow> jval \<Rightarrow> bool \<Rightarrow> bool \<Rightarrow> ('t L2BookSubscription \<times> 't delivery) option" where
  "L2BookSubscription_deliverRaw dec event_coin coin s =
     deliverRaw (s \<lparr> ss_decode := dec, ss_match := (\<lambda>e. event_coin e = coin) \<rparr>)"

definition L2BookSubscription_reportLocked ::
    "'t L2BookSubscription \<Rightarrow> string \<Rightarrow> ('t L2BookSubscription) option" where
  "L2BookSubscription_reportLocked = reportLocked"

definition L2BookSubscription_stateChange :: "'t L2BookSubscription \<Rightarrow> SubscriptionState \<Rightarrow>
    string option \<Rightarrow> ('t L2BookSubscription) option" where
  "L2BookSubscription_stateChange = stateChange"

section \<open>Properties\<close>



definition sample_decode :: "jval \<Rightarrow> int res" where
  "sample_decode v = (case v of JInt i \<Rightarrow> Inr i | _ \<Rightarrow> Inl ''not a number'')"

definition sample_ops :: "sub_op list" where
  "sample_ops = [StateChange SubscriptionStateConnecting None, DeliverRaw (JInt 1) False False,
     DeliverRaw (JInt 2) False False, DeliverRaw (JInt (- 3)) False False,
     StateChange SubscriptionStateConnected None, RecvEvent, BeginClose (Some ''rejected''),
     DeliverRaw (JInt 4) False False, FinishClose, RecvState]"



end
