(* ===== verification/WsTiming.thy ===== *)
theory WsTiming
  imports WsAdmission WsLifecycle
begin

text \<open>
  Configuration and timing of the WebSocket client: \<^verbatim>\<open>websocket/config.go\<close> (defaults),
  \<^verbatim>\<open>websocket/reconnect.go\<close> (backoff between connections) and \<^verbatim>\<open>websocket/rate.go\<close> (the rolling window
  of outgoing messages). Durations and clock readings are nanoseconds; the random jitter is a
  parameter.
\<close>

section \<open>Reconnect delays\<close>

definition second :: int where "second = 1000000000"

definition defaultReconnectDelay :: int where "defaultReconnectDelay = second"
definition defaultReconnectMaxDelay :: int where "defaultReconnectMaxDelay = 30 * second"

record ExponentialReconnectPolicy =
  rp_InitialDelay :: int
  rp_MaxDelay :: int
  rp_Jitter :: "(int \<Rightarrow> int) option"

text \<open>\<open>random\<close> is \<^verbatim>\<open>rand.Int64N\<close>, a number below its argument.\<close>

definition equalReconnectJitter :: "(int \<Rightarrow> int) \<Rightarrow> int \<Rightarrow> int" where
  "equalReconnectJitter random delay =
     (if delay \<le> 0 then 0
      else let half = delay div 2 in half + random (wrap_i64 (delay - half + 1)))"

definition NewExponentialReconnectPolicy :: "(int \<Rightarrow> int) \<Rightarrow> int \<Rightarrow> int \<Rightarrow> (int \<Rightarrow> int) option \<Rightarrow>
    ExponentialReconnectPolicy" where
  "NewExponentialReconnectPolicy random initialDelay maxDelay jitter =
     (let initialDelay = (if initialDelay \<le> 0 then defaultReconnectDelay else initialDelay);
          maxDelay = (if maxDelay \<le> 0 then defaultReconnectMaxDelay else maxDelay);
          maxDelay = (if maxDelay < initialDelay then initialDelay else maxDelay);
          jitter = (case jitter of None \<Rightarrow> equalReconnectJitter random | Some j \<Rightarrow> j)
      in \<lparr> rp_InitialDelay = initialDelay, rp_MaxDelay = maxDelay, rp_Jitter = Some jitter \<rparr>)"

text \<open>\<^verbatim>\<open>for range attempt { ... }\<close>: the doubling is 64-bit arithmetic.\<close>

fun backoff :: "nat \<Rightarrow> int \<Rightarrow> int \<Rightarrow> int" where
  "backoff 0 maxDelay delay = delay"
| "backoff (Suc n) maxDelay delay =
     (if delay \<ge> maxDelay \<or> delay > maxDelay div 2 then maxDelay
      else backoff n maxDelay (wrap_i64 (delay * 2)))"

definition Reconnect_Delay :: "(int \<Rightarrow> int) \<Rightarrow> ExponentialReconnectPolicy option \<Rightarrow> int \<Rightarrow> int" where
  "Reconnect_Delay random p attempt =
     (case p of
        None \<Rightarrow> 0
      | Some p \<Rightarrow>
          let initialDelay = (if rp_InitialDelay p \<le> 0 then defaultReconnectDelay else rp_InitialDelay p);
              maxDelay = (if rp_MaxDelay p \<le> 0 then defaultReconnectMaxDelay else rp_MaxDelay p);
              maxDelay = (if maxDelay < initialDelay then initialDelay else maxDelay);
              attempt = (if attempt < 0 then 0 else attempt);
              delay = backoff (nat attempt) maxDelay initialDelay;
              jitter = (case rp_Jitter p of None \<Rightarrow> equalReconnectJitter random | Some j \<Rightarrow> j);
              delay = jitter delay
          in if delay < 0 then 0 else if delay > maxDelay then maxDelay else delay)"

lemma backoff_exact:
  assumes "0 < d" "d \<le> m" "m \<le> max_i64"
  shows "backoff n m d = min m (d * 2 ^ n)"
  using assms
proof (induction n arbitrary: d)
  case (Suc n)
  show ?case
  proof (cases "d \<ge> m \<or> d > m div 2")
    case True
    then have "m < d * 2 \<or> d = m" using Suc.prems by linarith
    then have "m \<le> d * 2" using Suc.prems by linarith
    moreover have "d * 2 * 1 \<le> d * 2 * 2 ^ n" using Suc.prems by (intro mult_left_mono) auto
    ultimately have "m \<le> d * 2 ^ Suc n" by simp
    then show ?thesis using True by auto
  next
    case False
    then have d: "d * 2 \<le> m" by linarith
    then have "wrap_i64 (d * 2) = d * 2"
      using Suc.prems by (intro wrap_i64_id) (simp add: in_i64_def min_i64_def max_i64_def)
    then show ?thesis using False d Suc.IH [of "d * 2"] Suc.prems by (simp add: mult.assoc)
  qed
qed simp

lemma equal_jitter_range:
  assumes "\<And>n. 0 < n \<Longrightarrow> 0 \<le> random n \<and> random n < n" "0 < d" "d \<le> max_i64"
  shows "d div 2 \<le> equalReconnectJitter random d \<and> equalReconnectJitter random d \<le> d"
proof -
  have "in_i64 (d - d div 2 + 1)" using assms(2,3) by (simp add: in_i64_def min_i64_def max_i64_def)
  moreover have "d div 2 \<le> d" using assms(2) by linarith
  ultimately show ?thesis using assms(1) [of "d - d div 2 + 1"] assms(2)
    by (simp add: equalReconnectJitter_def Let_def wrap_i64_id)
qed

section \<open>The rolling window of messages\<close>

record messageRateLimiter =
  rl_limit :: int
  rl_window :: int
  rl_sent :: "int list"

definition newMessageRateLimiter :: "int \<Rightarrow> int \<Rightarrow> messageRateLimiter" where
  "newMessageRateLimiter limit window = \<lparr> rl_limit = limit, rl_window = window, rl_sent = [] \<rparr>"

definition DefaultMaxOutgoingMessagesPerMinute :: int where
  "DefaultMaxOutgoingMessagesPerMinute = 2000"

definition NewMessageAdmissionLimiter :: "int \<Rightarrow> int \<Rightarrow> messageRateLimiter" where
  "NewMessageAdmissionLimiter limit window =
     newMessageRateLimiter
       (if limit \<le> 0 then DefaultMaxOutgoingMessagesPerMinute else limit)
       (if window \<le> 0 then 60 * second else window)"

text \<open>
  One turn of the loop of \<^verbatim>\<open>Wait\<close> at clock reading \<open>now\<close>; \<open>later\<close> is the reading that \<^verbatim>\<open>time.Until\<close>
  takes. The result is \<open>None\<close> for an admission, or the time to sleep before the next turn.
\<close>

definition rate_turn :: "messageRateLimiter \<Rightarrow> int \<Rightarrow> int \<Rightarrow> messageRateLimiter \<times> int option" where
  "rate_turn l now later =
     (let cutoff = now - rl_window l;
          sent = dropWhile (\<lambda>t. \<not> t > cutoff) (rl_sent l)
      in if int (length sent) < rl_limit l
         then (l \<lparr> rl_sent := sent @ [now] \<rparr>, None)
         else (l \<lparr> rl_sent := sent \<rparr>, Some (hd sent + rl_window l - later)))"

text \<open>The whole call: the turns at which it wakes, each with whether its context has ended.\<close>

fun message_Wait :: "messageRateLimiter \<Rightarrow> (int \<times> int \<times> bool) list \<Rightarrow>
    messageRateLimiter \<times> bool option" where
  "message_Wait l [] = (l, None)"
| "message_Wait l ((now, later, ended) # turns) =
     (if ended then (l, Some False)
      else (case rate_turn l now later of
              (l', None) \<Rightarrow> (l', Some True)
            | (l', Some wait) \<Rightarrow> message_Wait l' turns))"

text \<open>Turns of any number of callers: the times of the admissions.\<close>

fun rate_run :: "messageRateLimiter \<Rightarrow> (int \<times> int) list \<Rightarrow> messageRateLimiter \<times> int list" where
  "rate_run l [] = (l, [])"
| "rate_run l ((now, later) # turns) =
     (let (l1, r) = rate_turn l now later; (l2, ts) = rate_run l1 turns
      in (l2, (case r of None \<Rightarrow> [now] | Some _ \<Rightarrow> []) @ ts))"

text \<open>
  Invariant after a turn: the admissions are sorted, \<open>sent\<close> is their end, what was dropped
  left the window by \<open>last\<close>, and admissions that are \<open>limit\<close> apart are a window apart.
\<close>

definition spread :: "int \<Rightarrow> int \<Rightarrow> int list \<Rightarrow> bool" where
  "spread limit window adm \<longleftrightarrow>
     (\<forall>i j. j < length adm \<longrightarrow> i + nat limit \<le> j \<longrightarrow> adm ! i + window \<le> adm ! j)"

definition rate_inv :: "messageRateLimiter \<Rightarrow> int list \<Rightarrow> int \<Rightarrow> bool" where
  "rate_inv l adm upto_t \<longleftrightarrow> sorted adm \<and> (\<forall>t \<in> set adm. t \<le> upto_t) \<and>
     (\<exists>old. adm = old @ rl_sent l \<and> (\<forall>t \<in> set old. t + rl_window l \<le> upto_t)) \<and>
     spread (rl_limit l) (rl_window l) adm"

lemma rate_turn_inv:
  assumes inv: "rate_inv l adm upto_t" and "upto_t \<le> now" and pos: "0 < rl_limit l"
  shows "rate_inv (fst (rate_turn l now later))
    (adm @ (case snd (rate_turn l now later) of None \<Rightarrow> [now] | Some _ \<Rightarrow> [])) now"
    and "rl_limit (fst (rate_turn l now later)) = rl_limit l"
    and "rl_window (fst (rate_turn l now later)) = rl_window l"
proof -
  let ?P = "\<lambda>t. \<not> t > now - rl_window l"
  let ?sent = "dropWhile ?P (rl_sent l)"
  obtain old where old: "adm = old @ rl_sent l" "\<forall>t \<in> set old. t + rl_window l \<le> upto_t"
    using inv by (auto simp: rate_inv_def)
  define old' where "old' = old @ takeWhile ?P (rl_sent l)"
  have adm: "adm = old' @ ?sent" by (simp add: old'_def old(1))
  have out: "\<forall>t \<in> set old'. t + rl_window l \<le> now"
    using old(2) assms(2) by (auto simp: old'_def dest!: set_takeWhileD)
  have srt: "sorted adm" "\<forall>t \<in> set adm. t \<le> now" "spread (rl_limit l) (rl_window l) adm"
    using inv assms(2) by (auto simp: rate_inv_def)
  have keep: "rate_inv (l \<lparr> rl_sent := ?sent \<rparr>) adm now"
    using srt adm out by (auto simp: rate_inv_def)
  have add: "rate_inv (l \<lparr> rl_sent := ?sent @ [now] \<rparr>) (adm @ [now]) now"
    if room: "int (length ?sent) < rl_limit l"
  proof -
    have "spread (rl_limit l) (rl_window l) (adm @ [now])"
      unfolding spread_def
    proof (intro allI impI)
      fix i j assume j: "j < length (adm @ [now])" and ij: "i + nat (rl_limit l) \<le> j"
      show "(adm @ [now]) ! i + rl_window l \<le> (adm @ [now]) ! j"
      proof (cases "j < length adm")
        case True
        then show ?thesis using srt(3) ij pos by (simp add: spread_def nth_append)
      next
        case False
        then have "j = length adm" using j by simp
        then have "i < length old'" using ij room adm by simp
        then have "adm ! i \<in> set old'" "i < length adm" using adm by (simp_all add: nth_append)
        then show ?thesis using out \<open>j = length adm\<close> by (simp add: nth_append)
      qed
    qed
    moreover have "\<exists>o'. adm @ [now] = o' @ ?sent @ [now] \<and> (\<forall>t \<in> set o'. t + rl_window l \<le> now)"
      using adm out by (intro exI [of _ old']) simp
    ultimately show ?thesis using srt by (auto simp: rate_inv_def sorted_append)
  qed
  show "rate_inv (fst (rate_turn l now later))
    (adm @ (case snd (rate_turn l now later) of None \<Rightarrow> [now] | Some _ \<Rightarrow> [])) now"
    using keep add by (simp add: rate_turn_def Let_def)
  show "rl_limit (fst (rate_turn l now later)) = rl_limit l"
    "rl_window (fst (rate_turn l now later)) = rl_window l"
    by (simp_all add: rate_turn_def Let_def)
qed

lemma rate_run_inv:
  assumes "rate_inv l adm upto_t" "sorted (upto_t # map fst turns)" "0 < rl_limit l"
  shows "spread (rl_limit l) (rl_window l) (adm @ snd (rate_run l turns)) \<and>
    sorted (adm @ snd (rate_run l turns))"
  using assms
proof (induction turns arbitrary: l adm upto_t)
  case Nil
  then show ?case by (simp add: rate_inv_def)
next
  case (Cons x turns)
  obtain now later where x: "x = (now, later)" by fastforce
  obtain l1 r where t: "rate_turn l now later = (l1, r)" by fastforce
  have "upto_t \<le> now" using Cons.prems(2) by (simp add: x)
  note step = rate_turn_inv [OF Cons.prems(1) this Cons.prems(3), of later, unfolded t fst_conv snd_conv]
  show ?case
    using Cons.IH [OF step(1)] Cons.prems(2,3) step(2,3)
    by (auto simp: x t Let_def split: prod.splits)
qed

lemma spread_window:
  assumes "spread limit window adm" "sorted adm" "0 < limit"
  shows "int (length (filter (\<lambda>a. t < a \<and> a \<le> t + window) adm)) \<le> limit"
proof (rule ccontr)
  let ?F = "filter (\<lambda>a. t < a \<and> a \<le> t + window) adm"
  assume "\<not> int (length ?F) \<le> limit"
  then have "limit < int (length ?F)" by simp
  then have len: "nat limit < length ?F" using assms(3) by (simp add: nat_less_iff)
  let ?I = "{i. i < length adm \<and> t < adm ! i \<and> adm ! i \<le> t + window}"
  have card: "card ?I = length ?F" by (simp add: length_filter_conv_card conj_commute)
  have fin: "finite ?I" by simp
  have "0 < card ?I" using card len by linarith
  then have ne: "?I \<noteq> {}" using card_gt_0_iff by blast
  let ?a = "Min ?I" and ?b = "Max ?I"
  have "?I \<subseteq> {?a..?b}" using fin by auto
  then have "card ?I \<le> card {?a..?b}" by (intro card_mono) simp_all
  then have "?a + nat limit \<le> ?b" using len card by simp
  moreover have "?a \<in> ?I" "?b \<in> ?I" using Min_in [OF fin ne] Max_in [OF fin ne] by blast+
  ultimately show False using assms(1) unfolding spread_def by fastforce
qed

section \<open>Configuration\<close>

text \<open>
  A policy is the closure for a fixed delay, the exponential policy, one of the caller's own, or an
  interface that holds a nil pointer.
\<close>

datatype ReconnectPolicy =
    FixedDelay int
  | ExponentialPolicy ExponentialReconnectPolicy
  | CustomPolicy "int \<Rightarrow> int"
  | NilPolicy

fun policy_delay :: "(int \<Rightarrow> int) \<Rightarrow> ReconnectPolicy \<Rightarrow> int \<Rightarrow> int" where
  "policy_delay random (FixedDelay d) attempt = d"
| "policy_delay random (ExponentialPolicy p) attempt = Reconnect_Delay random (Some p) attempt"
| "policy_delay random (CustomPolicy f) attempt = f attempt"
| "policy_delay random NilPolicy attempt = Reconnect_Delay random None attempt"

definition reconnectPolicyIsNil :: "ReconnectPolicy option \<Rightarrow> bool" where
  "reconnectPolicyIsNil policy = (case policy of None \<Rightarrow> True | Some NilPolicy \<Rightarrow> True | Some _ \<Rightarrow> False)"

record 'd Config =
  cf_ReconnectDelay :: int
  cf_ReconnectMaxDelay :: int
  cf_ReconnectJitter :: "(int \<Rightarrow> int) option"
  cf_ReconnectPolicy :: "ReconnectPolicy option"
  cf_EventBuffer :: int
  cf_StateBuffer :: int
  cf_PingInterval :: int
  cf_PongWait :: int
  cf_Dialer :: "'d option"
  cf_Backpressure :: BackpressurePolicy
  cf_SubscriptionAckTimeout :: int
  cf_MaxActiveSubscriptions :: int
  cf_MaxUniqueUsers :: int
  cf_MaxOutgoingMessagesPerMinute :: int
  cf_MaxConcurrentPosts :: int
  cf_MessageAdmission :: "messageRateLimiter option"
  cf_SubscriptionAdmission :: "subscriptionGate option"
  cf_PostAdmission :: "postGate option"

definition or_default :: "int \<Rightarrow> int \<Rightarrow> int" where
  "or_default d x = (if x \<le> 0 then d else x)"

definition or_given :: "'a \<Rightarrow> 'a option \<Rightarrow> 'a option" where
  "or_given d x = (case x of None \<Rightarrow> Some d | Some _ \<Rightarrow> x)"

definition normalized :: "(int \<Rightarrow> int) \<Rightarrow> 'd \<Rightarrow> 'd Config \<Rightarrow> 'd Config" where
  "normalized random defaultDialer c =
     (let legacyReconnectDelay = (cf_ReconnectDelay c > 0 \<and> cf_ReconnectMaxDelay c \<le> 0 \<and>
            cf_ReconnectJitter c = None);
          initial = or_default defaultReconnectDelay (cf_ReconnectDelay c);
          maxDelay = or_default defaultReconnectMaxDelay (cf_ReconnectMaxDelay c);
          maxDelay = (if maxDelay < initial then initial else maxDelay);
          policy = (if reconnectPolicyIsNil (cf_ReconnectPolicy c)
            then Some (if legacyReconnectDelay then FixedDelay initial
              else ExponentialPolicy
                (NewExponentialReconnectPolicy random initial maxDelay (cf_ReconnectJitter c)))
            else cf_ReconnectPolicy c);
          messages = or_default DefaultMaxOutgoingMessagesPerMinute (cf_MaxOutgoingMessagesPerMinute c);
          subs = or_default DefaultMaxActiveSubscriptions (cf_MaxActiveSubscriptions c);
          users = or_default DefaultMaxUniqueUsers (cf_MaxUniqueUsers c);
          posts = or_default DefaultMaxConcurrentPosts (cf_MaxConcurrentPosts c)
      in c \<lparr> cf_ReconnectDelay := initial, cf_ReconnectMaxDelay := maxDelay,
           cf_ReconnectPolicy := policy,
           cf_EventBuffer := or_default 64 (cf_EventBuffer c),
           cf_StateBuffer := or_default 64 (cf_StateBuffer c),
           cf_PingInterval := or_default (15 * second) (cf_PingInterval c),
           cf_PongWait := or_default (45 * second) (cf_PongWait c),
           cf_Dialer := or_given defaultDialer (cf_Dialer c),
           cf_Backpressure :=
             (if cf_Backpressure c \<in>
                {BackpressureDropNewest, BackpressureDropOldest, BackpressureBlock}
              then cf_Backpressure c else BackpressureDropOldest),
           cf_SubscriptionAckTimeout := or_default (10 * second) (cf_SubscriptionAckTimeout c),
           cf_MaxActiveSubscriptions := subs, cf_MaxUniqueUsers := users,
           cf_MaxOutgoingMessagesPerMinute := messages, cf_MaxConcurrentPosts := posts,
           cf_MessageAdmission :=
             or_given (NewMessageAdmissionLimiter messages (60 * second)) (cf_MessageAdmission c),
           cf_SubscriptionAdmission :=
             or_given (NewSubscriptionAdmissionGate subs users) (cf_SubscriptionAdmission c),
           cf_PostAdmission := or_given (NewPostAdmissionGate posts) (cf_PostAdmission c) \<rparr>)"

lemma or_default_pos: "0 < d \<Longrightarrow> 0 < or_default d x"
  by (simp add: or_default_def)

lemma or_default_idem: "or_default d (or_default d x) = or_default d x"
  by (simp add: or_default_def)

lemma or_given_idem: "or_given d (or_given e x) = or_given e x" "or_given d x \<noteq> None"
  by (simp_all add: or_given_def split: option.splits)

lemmas default_values = defaultReconnectDelay_def defaultReconnectMaxDelay_def second_def
  DefaultMaxOutgoingMessagesPerMinute_def DefaultMaxActiveSubscriptions_def
  DefaultMaxUniqueUsers_def DefaultMaxConcurrentPosts_def

lemma normalized_positive:
  "0 < cf_ReconnectDelay (normalized random d c)"
  "cf_ReconnectDelay (normalized random d c) \<le> cf_ReconnectMaxDelay (normalized random d c)"
  "0 < cf_EventBuffer (normalized random d c)" "0 < cf_StateBuffer (normalized random d c)"
  "0 < cf_PingInterval (normalized random d c)" "0 < cf_PongWait (normalized random d c)"
  "0 < cf_SubscriptionAckTimeout (normalized random d c)"
  "0 < cf_MaxActiveSubscriptions (normalized random d c)"
  "0 < cf_MaxUniqueUsers (normalized random d c)"
  "0 < cf_MaxOutgoingMessagesPerMinute (normalized random d c)"
  "0 < cf_MaxConcurrentPosts (normalized random d c)"
  "\<not> reconnectPolicyIsNil (cf_ReconnectPolicy (normalized random d c))"
  "cf_Backpressure (normalized random d c) \<in>
     {BackpressureDropNewest, BackpressureDropOldest, BackpressureBlock}"
  by (auto simp: normalized_def Let_def or_default_pos default_values reconnectPolicyIsNil_def)

lemma config_normalized_idem: "normalized random d (normalized random d c) = normalized random d c"
proof -
  let ?n = "normalized random d c"
  have a: "or_default k x = x" if "0 < x" for k x :: int using that by (simp add: or_default_def)
  note p = normalized_positive [of random d c]
  have m: "0 < cf_ReconnectMaxDelay ?n" using p(1,2) by linarith
  have g: "cf_Dialer ?n \<noteq> None" "cf_MessageAdmission ?n \<noteq> None"
    "cf_SubscriptionAdmission ?n \<noteq> None" "cf_PostAdmission ?n \<noteq> None"
    by (simp_all add: normalized_def Let_def or_given_idem)
  then have o': "or_given x (cf_Dialer ?n) = cf_Dialer ?n"
    "or_given y (cf_MessageAdmission ?n) = cf_MessageAdmission ?n"
    "or_given z (cf_SubscriptionAdmission ?n) = cf_SubscriptionAdmission ?n"
    "or_given w (cf_PostAdmission ?n) = cf_PostAdmission ?n" for x y z w
    by (auto simp: or_given_def)
  show ?thesis
    by (subst (1) normalized_def)
      (use p in \<open>simp add: Let_def a [OF p(1)] a [OF m] a [OF p(3)] a [OF p(4)] a [OF p(5)]
        a [OF p(6)] a [OF p(7)] a [OF p(8)] a [OF p(9)] a [OF p(10)] a [OF p(11)] o'\<close>)
qed

section \<open>Properties\<close>

text \<open>
  C34: however many callers share the limiter, as long as the clock does not run
  backwards no interval as long as the window contains more than \<^verbatim>\<open>limit\<close> admitted messages.
\<close>

theorem message_budget:
  assumes "sorted (map fst turns)"
  shows "int (length (filter (\<lambda>a. t < a \<and> a \<le> t + rl_window (NewMessageAdmissionLimiter limit window))
      (snd (rate_run (NewMessageAdmissionLimiter limit window) turns))))
    \<le> rl_limit (NewMessageAdmissionLimiter limit window)"
proof (cases turns)
  case Nil
  then show ?thesis
    by (simp add: NewMessageAdmissionLimiter_def newMessageRateLimiter_def default_values)
next
  case (Cons x xs)
  let ?l = "NewMessageAdmissionLimiter limit window"
  have pos: "0 < rl_limit ?l"
    by (simp add: NewMessageAdmissionLimiter_def newMessageRateLimiter_def default_values)
  have "rate_inv ?l [] (fst x)"
    by (simp add: rate_inv_def spread_def NewMessageAdmissionLimiter_def newMessageRateLimiter_def)
  moreover have "sorted (fst x # map fst turns)" using assms Cons by auto
  ultimately show ?thesis
    using rate_run_inv [of ?l "[]" "fst x" turns] pos spread_window by fastforce
qed

lemma message_budget_witness:
  "int (length (filter (\<lambda>a. 0 < a \<and> a \<le> 0 + rl_window (NewMessageAdmissionLimiter 2 10))
      (snd (rate_run (NewMessageAdmissionLimiter 2 10) [(1, 1), (2, 2), (3, 3), (11, 11)]))))
    \<le> rl_limit (NewMessageAdmissionLimiter 2 10)"
  using message_budget [of "[(1, 1), (2, 2), (3, 3), (11, 11)]" 0 2 10] by simp

lemma rate_turn_length:
  "int (length (rl_sent l)) \<le> rl_limit l \<Longrightarrow>
   int (length (rl_sent (fst (rate_turn l now later)))) \<le> rl_limit (fst (rate_turn l now later))"
  using length_dropWhile_le [of "\<lambda>t. \<not> t > now - rl_window l" "rl_sent l"]
  by (simp add: rate_turn_def Let_def)

lemma rate_turn_limits:
  "rl_limit (fst (rate_turn l now later)) = rl_limit l"
  "rl_window (fst (rate_turn l now later)) = rl_window l"
  by (simp_all add: rate_turn_def Let_def)

lemma rate_run_length:
  "int (length (rl_sent l)) \<le> rl_limit l \<Longrightarrow>
   int (length (rl_sent (fst (rate_run l turns)))) \<le> rl_limit (fst (rate_run l turns)) \<and>
   rl_limit (fst (rate_run l turns)) = rl_limit l"
proof (induction turns arbitrary: l)
  case (Cons x turns)
  obtain now later where x: "x = (now, later)" by fastforce
  show ?case using Cons.IH [of "fst (rate_turn l now later)"] rate_turn_length [OF Cons.prems]
    by (auto simp: x Let_def rate_turn_limits split: prod.splits)
qed simp

lemma turn_after_wait:
  assumes "rate_turn l now later = (l', Some w)" "later + w \<le> now'"
    and "int (length (rl_sent l)) \<le> rl_limit l" "0 < rl_limit l"
  shows "snd (rate_turn l' now' later') = None"
proof -
  let ?sent = "dropWhile (\<lambda>t. \<not> t > now - rl_window l) (rl_sent l)"
  have l': "l' = l \<lparr> rl_sent := ?sent \<rparr>" and w: "w = hd ?sent + rl_window l - later"
    and full: "rl_limit l \<le> int (length ?sent)"
    using assms(1) by (auto simp: rate_turn_def Let_def split: if_splits)
  obtain t ts where s: "?sent = t # ts" using full assms(4) by (cases ?sent) auto
  have "length ?sent \<le> length (rl_sent l)" by (rule length_dropWhile_le)
  then have len: "int (length (t # ts)) \<le> rl_limit l" using assms(3) s by simp
  have "t \<le> now' - rl_window l" using assms(2) w s by simp
  then have "length (dropWhile (\<lambda>t. \<not> t > now' - rl_window l) (t # ts)) \<le> length ts"
    by (simp add: length_dropWhile_le)
  then show ?thesis using len l' s by (simp add: rate_turn_def Let_def)
qed

text \<open>
  A call of \<^verbatim>\<open>Wait\<close> whose timer is not early, and whose freed slot no other
  caller takes first, ends in at most two turns: the message is admitted, or the context has ended.
\<close>

theorem message_wait_returns:
  assumes "\<forall>w. snd (rate_turn (fst (rate_run (NewMessageAdmissionLimiter limit window) earlier)) n1 t1) =
      Some w \<longrightarrow> t1 + w \<le> n2"
  shows "snd (message_Wait (fst (rate_run (NewMessageAdmissionLimiter limit window) earlier))
      ((n1, t1, e1) # (n2, t2, e2) # turns)) = Some (\<not> (e1 \<or> (e2 \<and>
        snd (rate_turn (fst (rate_run (NewMessageAdmissionLimiter limit window) earlier)) n1 t1) \<noteq> None)))"
proof -
  let ?new = "NewMessageAdmissionLimiter limit window"
  let ?l = "fst (rate_run ?new earlier)"
  have "0 < rl_limit ?new" "int (length (rl_sent ?new)) \<le> rl_limit ?new"
    by (simp_all add: NewMessageAdmissionLimiter_def newMessageRateLimiter_def default_values)
  then have l: "int (length (rl_sent ?l)) \<le> rl_limit ?l" "0 < rl_limit ?l"
    using rate_run_length [of ?new earlier] by auto
  obtain l' r where t: "rate_turn ?l n1 t1 = (l', r)" by fastforce
  show ?thesis
  proof (cases r)
    case None
    then show ?thesis using t by simp
  next
    case (Some w)
    have "t1 + w \<le> n2" using assms t Some by simp
    from turn_after_wait [OF t [unfolded Some] this l]
    obtain l2 where "rate_turn l' n2 t2 = (l2, None)" by (metis prod.collapse)
    then show ?thesis using t Some by simp
  qed
qed

lemma message_wait_returns_witness:
  "snd (message_Wait (fst (rate_run (NewMessageAdmissionLimiter 1 10) [(0, 0)]))
     ((3, 3, False) # (10, 10, False) # [])) = Some True"
  using message_wait_returns [of 1 10 "[(0, 0)]" 3 3 10 False 10 False "[]"]
  by (simp add: NewMessageAdmissionLimiter_def newMessageRateLimiter_def rate_turn_def Let_def)

text \<open>
  Before jitter the delay before reconnect attempt \<open>n\<close> is the initial delay
  doubled \<open>n\<close> times, capped at the maximum, without overflow for any attempt; with the default jitter
  the result lies between half of that and all of it.
\<close>

theorem reconnect_delay_exact:
  assumes "0 < initial" "initial \<le> m" "m \<le> max_i64"
    and "\<forall>k > 0. 0 \<le> random k \<and> random k < k"
  shows "Reconnect_Delay random (Some (NewExponentialReconnectPolicy random initial m (Some (\<lambda>d. d)))) (int n) =
      min m (initial * 2 ^ n) \<and>
    (let d = Reconnect_Delay random (Some (NewExponentialReconnectPolicy random initial m None)) (int n)
     in min m (initial * 2 ^ n) div 2 \<le> d \<and> d \<le> min m (initial * 2 ^ n))"
proof -
  define b where "b = min m (initial * 2 ^ n)"
  have b: "backoff n m initial = b" unfolding b_def using assms(1-3) by (rule backoff_exact)
  have pos: "0 < b" "b \<le> m" "b \<le> max_i64" using assms(1-3) by (auto simp: b_def)
  have j: "b div 2 \<le> equalReconnectJitter random b \<and> equalReconnectJitter random b \<le> b"
    using assms(4) pos by (intro equal_jitter_range) auto
  have "0 \<le> b div 2" using pos by simp
  then have nn: "0 \<le> equalReconnectJitter random b" "equalReconnectJitter random b \<le> m"
    using j pos by linarith+
  show ?thesis unfolding b_def [symmetric] using assms(1,2) b j nn pos
    by (simp add: Reconnect_Delay_def NewExponentialReconnectPolicy_def Let_def)
qed

lemma reconnect_delay_exact_witness:
  "Reconnect_Delay (\<lambda>k. k - 1) (Some (NewExponentialReconnectPolicy (\<lambda>k. k - 1) 1000 5000 (Some (\<lambda>d. d))))
     (int 2) = min 5000 (1000 * 2 ^ 2)"
  using reconnect_delay_exact [of 1000 5000 "\<lambda>k. k - 1" 2] by (simp add: max_i64_def)

end
