(* ===== verification/WsClient.thy ===== *)
theory WsClient
  imports WsIdentity WsTiming
begin

text \<open>
  The subscription registry of a WebSocket client: \<^verbatim>\<open>websocket/client.go\<close>, \<^verbatim>\<open>admitSubscription\<close> in
  \<^verbatim>\<open>admission.go\<close>, \<^verbatim>\<open>subscribeStream\<close> in \<^verbatim>\<open>market_subscription.go\<close>, the handle cache and the channel
  checks of \<^verbatim>\<open>private_subscription.go\<close>, and the wire admissions of \<^verbatim>\<open>manager.go\<close>. Every operation is one
  critical section of the commit lock and the client lock. The admission gate is the interface
  \<open>admission_gate\<close>: the client's accounting of its leases is proved against its laws, which the
  gate of theory \<^verbatim>\<open>WsAdmission\<close> fulfils.
\<close>

section \<open>The gate interface\<close>

record ('g, 'l) gate_ops =
  go_acquire :: "'g \<Rightarrow> SubscriptionAdmissionRequest \<Rightarrow> ('g \<times> 'l) res"
  go_release :: "'g \<Rightarrow> 'l \<Rightarrow> 'g"

locale admission_gate =
  fixes ops :: "('g, 'l) gate_ops"
    and ok :: "'g \<Rightarrow> bool"
    and leased :: "'g \<Rightarrow> 'l multiset"
  assumes acquire_adds: "ok g \<Longrightarrow> go_acquire ops g rq = Inr (g', l) \<Longrightarrow>
      ok g' \<and> leased g' = add_mset l (leased g)"
    and release_removes: "ok g \<Longrightarrow> l \<in># leased g \<Longrightarrow>
      ok (go_release ops g l) \<and> leased (go_release ops g l) = leased g - {#l#}"

definition reference_ops :: "(subscriptionGate, subscriptionAdmissionKey) gate_ops" where
  "reference_ops = \<lparr> go_acquire = Acquire, go_release = Release \<rparr>"

interpretation ref: admission_gate reference_ops gate_inv held
proof
  show "gate_inv g' \<and> held g' = add_mset l (held g)"
    if "gate_inv g" "go_acquire reference_ops g rq = Inr (g', l)" for g rq g' l
    using acquire_implements [OF that(1), of rq] that(2) by (simp add: reference_ops_def)
  show "gate_inv (go_release reference_ops g l) \<and> held (go_release reference_ops g l) = held g - {#l#}"
    if "gate_inv g" "l \<in># held g" for g l
    using release_implements [OF that] by (simp add: reference_ops_def)
qed

section \<open>Registry, leases and handles\<close>

text \<open>
  A registered subscription is its pointer (a number), its registry key, channel and request, and
  whether its \<^verbatim>\<open>done\<close> channel is closed.
\<close>

record managedSubscription =
  ms_ptr :: nat
  ms_key :: string
  ms_channel :: string
  ms_wire :: subscriptionWire
  ms_done :: bool

text \<open>
  A wire admission: the generation-bound write that waits for its turn (\<^verbatim>\<open>manager.go\<close>); its \<^verbatim>\<open>cancel\<close>
  function is the flag that it has become stale. \<open>wc_releasing\<close> holds the release functions that
  \<^verbatim>\<open>remove\<close> and \<^verbatim>\<open>detachSubscriptionIdentity\<close> call after they have unlocked.
\<close>

record wireAdmission =
  wa_token :: nat
  wa_wantPresent :: bool
  wa_fingerprint :: jval
  wa_stale :: bool

record 'l Client =
  wc_closed :: bool
  wc_subs :: "(string \<times> managedSubscription) list"
  wc_handles :: "(string \<times> nat) list"
  wc_subOwner :: u64
  wc_subLeases :: "(jval \<times> 'l) list"
  wc_releasing :: "'l list"
  wc_admissions :: "(jval \<times> wireAdmission) list"
  wc_admissionSeq :: nat
  wc_wake :: bool

definition NewClient :: "u64 \<Rightarrow> u64 \<times> 'l Client" where
  "NewClient nextOwner =
     (nextOwner + 1,
      \<lparr> wc_closed = False, wc_subs = [], wc_handles = [], wc_subOwner = nextOwner + 1,
        wc_subLeases = [], wc_releasing = [], wc_admissions = [], wc_admissionSeq = 0,
        wc_wake = False \<rparr>)"

definition sub_identity :: "managedSubscription \<Rightarrow> jval" where
  "sub_identity s = serverSubscriptionIdentity (sw_Subscription (ms_wire s))"

definition with_identity :: "'l Client \<Rightarrow> jval \<Rightarrow> (string \<times> managedSubscription) list" where
  "with_identity c identity = filter (\<lambda>p. sub_identity (snd p) = identity) (wc_subs c)"

text \<open>
  The last matching subscription of the iteration is the representative. The fingerprint of an
  absent identity is the empty string.
\<close>

definition subscriptionIdentityStateLocked :: "'l Client \<Rightarrow> jval \<Rightarrow> bool \<times> jval" where
  "subscriptionIdentityStateLocked c identity =
     (case with_identity c identity of
        [] \<Rightarrow> (False, JStr '''')
      | m # ms \<Rightarrow>
          let representative = ms_wire (snd (last (m # ms)));
              representative = (if length (m # ms) > 1 then canonicalSubscriptionWire representative
                                else representative)
          in (True, subscriptionWireFingerprint representative))"

definition hasSubscriptionIdentity :: "'l Client \<Rightarrow> jval \<Rightarrow> bool" where
  "hasSubscriptionIdentity c identity =
     list_ex (\<lambda>p. sub_identity (snd p) = identity) (wc_subs c)"

definition subscriptionsForIdentity :: "'l Client \<Rightarrow> jval \<Rightarrow> managedSubscription list" where
  "subscriptionsForIdentity c identity = map snd (with_identity c identity)"

definition notify :: "'l Client \<Rightarrow> 'l Client" where
  "notify c = c \<lparr> wc_wake := True \<rparr>"

definition registryChangedLocked :: "'l Client \<Rightarrow> jval \<Rightarrow> bool \<Rightarrow> jval \<Rightarrow> 'l Client" where
  "registryChangedLocked c identity present fingerprint =
     notify (case map_of (wc_admissions c) identity of
        None \<Rightarrow> c
      | Some admission \<Rightarrow>
          if wa_wantPresent admission \<noteq> present \<or>
             (present \<and> wa_wantPresent admission \<and> wa_fingerprint admission \<noteq> fingerprint)
          then c \<lparr> wc_admissions :=
                 AList.update identity (admission \<lparr> wa_stale := True \<rparr>) (wc_admissions c) \<rparr>
          else c)"

definition admitSubscription :: "('g, 'l) gate_ops \<Rightarrow> 'g \<Rightarrow> 'l Client \<Rightarrow> subscriptionWire \<Rightarrow>
    ('g \<times> 'l Client) res" where
  "admitSubscription ops g c wire =
     (let identity = serverSubscriptionIdentity (sw_Subscription wire) in
      if map_of (wc_subLeases c) identity \<noteq> None then Inr (g, c)
      else let user = (case map_of (sw_Subscription wire) ''user'' of
                         Some (AString u) \<Rightarrow> u | _ \<Rightarrow> '''')
        in bind_res (go_acquire ops g
             \<lparr> sr_OwnerID = wc_subOwner c, sr_ServerIdentity = identity,
               sr_User = normalizeSubscriptionUser user \<rparr>)
           (\<lambda>(g', release).
             Inr (g', c \<lparr> wc_subLeases := AList.update identity release (wc_subLeases c) \<rparr>)))"

definition ErrWebSocketClosed :: string where
  "ErrWebSocketClosed = ''websocket client is closed''"

text \<open>
  \<open>kind_ok\<close> says whether an existing subscription under the key has the asked event type; \<open>ptr\<close> is
  the address of the new object. The result has the pointer and whether it is new.
\<close>

definition subscribeStream :: "('g, 'l) gate_ops \<Rightarrow> string option \<Rightarrow> nat \<Rightarrow>
    (managedSubscription \<Rightarrow> bool) \<Rightarrow>
    string \<Rightarrow> string \<Rightarrow> subscriptionWire \<Rightarrow> ((string \<times> managedSubscription) list \<Rightarrow> unit res) option \<Rightarrow>
    'g \<times> 'l Client \<Rightarrow> ((nat \<times> bool) \<times> 'g \<times> 'l Client) res" where
  "subscribeStream ops ctx_err ptr kind_ok key channel wire validate gc =
     (case ctx_err of Some e \<Rightarrow> Inl e | None \<Rightarrow>
      if wc_closed (snd gc) then Inl ErrWebSocketClosed
      else case map_of (wc_subs (snd gc)) key of
        Some existing \<Rightarrow>
          if \<not> kind_ok existing then Inl ''websocket subscription registry type conflict''
          else Inr ((ms_ptr existing, False), gc)
      | None \<Rightarrow>
          bind_res (case validate of None \<Rightarrow> Inr () | Some v \<Rightarrow> v (wc_subs (snd gc))) (\<lambda>_.
          bind_res (admitSubscription ops (fst gc) (snd gc) wire) (\<lambda>(g', c').
            let s = \<lparr> ms_ptr = ptr, ms_key = key, ms_channel = channel, ms_wire = wire,
                  ms_done = False \<rparr>;
                c'' = c' \<lparr> wc_subs := AList.update key s (wc_subs c') \<rparr>;
                identity = serverSubscriptionIdentity (sw_Subscription wire)
            in Inr ((ptr, True), g', registryChangedLocked c'' identity True
                 (snd (subscriptionIdentityStateLocked c'' identity))))))"

text \<open>
  The lease of an identity whose last subscription has gone moves to the pending releases. \<^verbatim>\<open>remove\<close>
  is called with the key and the pointer of a subscription.
\<close>

definition drop_lease :: "jval \<Rightarrow> 'l Client \<Rightarrow> 'l Client" where
  "drop_lease identity c =
     c \<lparr> wc_subLeases := AList.delete identity (wc_subLeases c),
       wc_releasing := (case map_of (wc_subLeases c) identity of
          None \<Rightarrow> wc_releasing c | Some l \<Rightarrow> wc_releasing c @ [l]) \<rparr>"

definition Client_remove :: "string \<Rightarrow> nat \<Rightarrow> 'l Client \<Rightarrow> 'l Client" where
  "Client_remove key ptr c =
     (case map_of (wc_subs c) key of
        None \<Rightarrow> notify c
      | Some s \<Rightarrow>
          if ms_ptr s = ptr
          then let identity = sub_identity s;
                   c1 = c \<lparr> wc_subs := AList.delete key (wc_subs c),
                     wc_handles := AList.delete key (wc_handles c) \<rparr>;
                   (present, fingerprint) = subscriptionIdentityStateLocked c1 identity;
                   c2 = (if \<not> present then drop_lease identity c1 else c1)
               in registryChangedLocked c2 identity present fingerprint
          else notify c)"

definition detachSubscriptionIdentity :: "jval \<Rightarrow> 'l Client \<Rightarrow> managedSubscription list \<times> 'l Client" where
  "detachSubscriptionIdentity identity c =
     (let detached = with_identity c identity;
          c1 = drop_lease identity
            (c \<lparr> wc_subs := filter (\<lambda>p. sub_identity (snd p) \<noteq> identity) (wc_subs c),
               wc_handles := filter (\<lambda>p. fst p \<notin> fst ` set detached) (wc_handles c) \<rparr>)
      in (map snd detached,
          if detached \<noteq> [] then registryChangedLocked c1 identity False (JStr '''') else c1))"

text \<open>A release function runs.\<close>

definition run_release :: "('g, 'l) gate_ops \<Rightarrow> 'g \<times> 'l Client \<Rightarrow> 'g \<times> 'l Client" where
  "run_release ops gc =
     (case wc_releasing (snd gc) of
        [] \<Rightarrow> gc
      | l # ls \<Rightarrow> (go_release ops (fst gc) l, (snd gc) \<lparr> wc_releasing := ls \<rparr>))"

definition cachePrivateHandle :: "string \<Rightarrow> nat \<Rightarrow> 'l Client \<Rightarrow> nat option \<times> 'l Client" where
  "cachePrivateHandle key ptr c =
     (case map_of (wc_subs c) key of
        None \<Rightarrow> (None, c)
      | Some s \<Rightarrow>
          if ms_ptr s \<noteq> ptr \<or> ms_done s then (None, c)
          else (case map_of (wc_handles c) key of
                  Some h \<Rightarrow> (Some h, c)
                | None \<Rightarrow> (Some ptr, c \<lparr> wc_handles := AList.update key ptr (wc_handles c) \<rparr>)))"

definition onePerChannel :: "string \<Rightarrow> (string \<times> managedSubscription) list \<Rightarrow> unit res" where
  "onePerChannel channel subs =
     (if list_ex (\<lambda>p. ms_channel (snd p) = channel) subs
      then Inl (channel @ '' cannot be multiplexed because its messages omit user'') else Inr ())"

text \<open>\<^verbatim>\<open>Client.Close\<close> marks the client closed; the subscriptions it found are closed one by one.\<close>

definition Client_Close :: "'l Client \<Rightarrow> managedSubscription list \<times> 'l Client" where
  "Client_Close c =
     (if wc_closed c then ([], c) else (map snd (wc_subs c), c \<lparr> wc_closed := True \<rparr>))"

section \<open>Steps of a client beside other clients of the same gate\<close>

datatype client_op =
    Subscribe "string option" nat "managedSubscription \<Rightarrow> bool" string string subscriptionWire
      "((string \<times> managedSubscription) list \<Rightarrow> unit res) option"
  | MarkDone string
  | Remove string nat
  | Detach jval
  | RunRelease
  | CacheHandle string nat
  | CloseClient
  | OtherAcquire SubscriptionAdmissionRequest
  | OtherRelease

type_synonym ('g, 'l) client_state = "('g \<times> 'l Client) \<times> 'l list"

fun client_step :: "('g, 'l) gate_ops \<Rightarrow> ('g, 'l) client_state \<Rightarrow> client_op \<Rightarrow> ('g, 'l) client_state" where
  "client_step ops (gc, others) (Subscribe ctx_err ptr kind_ok key channel wire validate) =
     (case subscribeStream ops ctx_err ptr kind_ok key channel wire validate gc of
        Inl e \<Rightarrow> (gc, others) | Inr (_, gc') \<Rightarrow> (gc', others))"
| "client_step ops (gc, others) (MarkDone key) =
     ((fst gc, (snd gc) \<lparr> wc_subs := (case map_of (wc_subs (snd gc)) key of
         None \<Rightarrow> wc_subs (snd gc)
       | Some s \<Rightarrow> AList.update key (s \<lparr> ms_done := True \<rparr>) (wc_subs (snd gc))) \<rparr>), others)"
| "client_step ops (gc, others) (Remove key ptr) = ((fst gc, Client_remove key ptr (snd gc)), others)"
| "client_step ops (gc, others) (Detach identity) =
     ((fst gc, snd (detachSubscriptionIdentity identity (snd gc))), others)"
| "client_step ops (gc, others) RunRelease = (run_release ops gc, others)"
| "client_step ops (gc, others) (CacheHandle key ptr) =
     ((fst gc, snd (cachePrivateHandle key ptr (snd gc))), others)"
| "client_step ops (gc, others) CloseClient = ((fst gc, snd (Client_Close (snd gc))), others)"
| "client_step ops (gc, others) (OtherAcquire rq) =
     (case go_acquire ops (fst gc) rq of
        Inl e \<Rightarrow> (gc, others) | Inr (g', l) \<Rightarrow> ((g', snd gc), l # others))"
| "client_step ops (gc, others) OtherRelease =
     (case others of [] \<Rightarrow> (gc, others)
      | l # ls \<Rightarrow> ((go_release ops (fst gc) l, snd gc), ls))"

section \<open>The registry invariant\<close>

definition identities :: "'l Client \<Rightarrow> jval set" where
  "identities c = {j. \<exists>s key. map_of (wc_subs c) key = Some s \<and> sub_identity s = j}"

definition handles_ok :: "(string \<times> managedSubscription) list \<Rightarrow> (string \<times> nat) list \<Rightarrow> bool" where
  "handles_ok subs handles \<longleftrightarrow>
     (\<forall>key h. map_of handles key = Some h \<longrightarrow> map_option ms_ptr (map_of subs key) = Some h)"

definition client_inv :: "'l Client \<Rightarrow> bool" where
  "client_inv c \<longleftrightarrow> distinct (map fst (wc_subs c)) \<and> distinct (map fst (wc_subLeases c)) \<and>
     (\<forall>key s. map_of (wc_subs c) key = Some s \<longrightarrow> ms_key s = key) \<and>
     dom (map_of (wc_subLeases c)) = identities c \<and> handles_ok (wc_subs c) (wc_handles c)"

definition own :: "'l Client \<Rightarrow> 'l multiset" where
  "own c = mset (map snd (wc_subLeases c)) + mset (wc_releasing c)"

lemma map_of_filter_snd:
  "distinct (map fst xs) \<Longrightarrow> map_of (filter (\<lambda>p. P (snd p)) xs) k =
     (case map_of xs k of Some v \<Rightarrow> if P v then Some v else None | None \<Rightarrow> None)"
proof (induction xs)
  case (Cons p xs)
  obtain j v where p: "p = (j, v)" by fastforce
  have "map_of xs j = None" using Cons.prems by (simp add: p map_of_eq_None_iff)
  then show ?case using Cons by (cases "k = j") (auto simp: p)
qed simp

lemma map_of_filter_fst:
  "map_of (filter (\<lambda>p. P (fst p)) xs) k = (if P k then map_of xs k else None)"
  by (induction xs) auto

lemma mset_update: "k \<notin> dom (map_of al) \<Longrightarrow>
    mset (map snd (AList.update k v al)) = add_mset v (mset (map snd al))"
  by (induction al) (auto split: if_splits)

lemma delete_absent: "map_of al k = None \<Longrightarrow> AList.delete k al = al"
  by (induction al) (auto split: if_splits)

lemma mset_delete: "distinct (map fst al) \<Longrightarrow> map_of al k = Some l \<Longrightarrow>
    mset (map snd al) = add_mset l (mset (map snd (AList.delete k al)))"
proof (induction al)
  case (Cons p al)
  obtain j v where p: "p = (j, v)" by fastforce
  show ?case
  proof (cases "j = k")
    case True
    then have "map_of al k = None" using Cons.prems by (simp add: p map_of_eq_None_iff)
    then show ?thesis using True Cons.prems by (simp add: p delete_absent)
  next
    case False
    then show ?thesis using Cons by (simp add: p)
  qed
qed simp

lemma notify_simps [simp]:
  "wc_subs (notify c) = wc_subs c" "wc_handles (notify c) = wc_handles c"
  "wc_subLeases (notify c) = wc_subLeases c" "wc_releasing (notify c) = wc_releasing c"
  "wc_closed (notify c) = wc_closed c" "wc_subOwner (notify c) = wc_subOwner c"
  by (simp_all add: notify_def)

lemma registryChanged_simps [simp]:
  "wc_subs (registryChangedLocked c i p f) = wc_subs c"
  "wc_handles (registryChangedLocked c i p f) = wc_handles c"
  "wc_subLeases (registryChangedLocked c i p f) = wc_subLeases c"
  "wc_releasing (registryChangedLocked c i p f) = wc_releasing c"
  "wc_subOwner (registryChangedLocked c i p f) = wc_subOwner c"
  by (simp_all add: registryChangedLocked_def split: option.splits)

lemma client_view_cong:
  assumes "wc_subs c' = wc_subs c" "wc_handles c' = wc_handles c" "wc_subLeases c' = wc_subLeases c"
  shows "client_inv c' = client_inv c" "identities c' = identities c"
  using assms by (simp_all add: client_inv_def identities_def)

lemma own_cong:
  "wc_subLeases c' = wc_subLeases c \<Longrightarrow> wc_releasing c' = wc_releasing c \<Longrightarrow> own c' = own c"
  by (simp add: own_def)

lemma identity_present:
  assumes "distinct (map fst (wc_subs c))"
  shows "fst (subscriptionIdentityStateLocked c i) \<longleftrightarrow> i \<in> identities c"
proof -
  have "i \<in> identities c \<longleftrightarrow> with_identity c i \<noteq> []"
    using assms by (fastforce simp: identities_def with_identity_def filter_empty_conv dest: map_of_SomeD)
  then show ?thesis
    by (auto simp: subscriptionIdentityStateLocked_def Let_def split: list.splits)
qed

lemma own_drop_lease:
  "distinct (map fst (wc_subLeases c)) \<Longrightarrow> own (drop_lease i c) = own c"
  using mset_delete [of "wc_subLeases c" i]
  by (cases "map_of (wc_subLeases c) i") (simp_all add: own_def drop_lease_def delete_absent)

lemma client_inv_drop:
  assumes "distinct (map fst (wc_subs c))" "distinct (map fst (wc_subLeases c))"
    and "\<forall>key s. map_of (wc_subs c) key = Some s \<longrightarrow> ms_key s = key"
    and "handles_ok (wc_subs c) (wc_handles c)"
    and "dom (map_of (wc_subLeases c)) = insert i (identities c)" "i \<notin> identities c"
  shows "client_inv (drop_lease i c)"
  using assms by (auto simp: client_inv_def drop_lease_def identities_def delete_conv' distinct_delete)

lemma ex_update:
  "(\<exists>x k. (m(key \<mapsto> s)) k = Some x \<and> P x) \<longleftrightarrow> P s \<or> (\<exists>x k. k \<noteq> key \<and> m k = Some x \<and> P x)"
  by (metis fun_upd_apply option.inject)

lemma identities_update:
  "identities (c \<lparr> wc_subs := AList.update key s (wc_subs c) \<rparr>) =
     insert (sub_identity s) {j. \<exists>x k. k \<noteq> key \<and> map_of (wc_subs c) k = Some x \<and> sub_identity x = j}"
  using ex_update [of "map_of (wc_subs c)" key s]
  by (auto simp: identities_def update_conv' simp del: map_of_eq_Some_iff fun_upd_apply)

lemma identities_add:
  assumes "map_of (wc_subs c) key = None"
  shows "identities (c \<lparr> wc_subs := AList.update key s (wc_subs c) \<rparr>) =
    insert (sub_identity s) (identities c)"
proof -
  have "{j. \<exists>x k. k \<noteq> key \<and> map_of (wc_subs c) k = Some x \<and> sub_identity x = j} = identities c"
    unfolding identities_def using assms by (metis option.distinct(1))
  then show ?thesis by (simp only: identities_update)
qed

lemma identities_split:
  assumes "map_of (wc_subs c) key = Some s"
  shows "identities c =
     insert (sub_identity s) {j. \<exists>x k. k \<noteq> key \<and> map_of (wc_subs c) k = Some x \<and> sub_identity x = j}"
proof -
  have "(map_of (wc_subs c))(key \<mapsto> s) = map_of (wc_subs c)" using assms by (rule fun_upd_idem)
  then show ?thesis using ex_update [of "map_of (wc_subs c)" key s]
    by (auto simp: identities_def simp del: map_of_eq_Some_iff fun_upd_apply)
qed

lemma identities_leases [simp]: "identities (c \<lparr> wc_subLeases := ls \<rparr>) = identities c"
  by (simp add: identities_def)

lemma subscribe_new_inv:
  assumes inv: "client_inv c" and new: "map_of (wc_subs c) key = None"
    and s: "ms_key s = key" "sub_identity s = i"
    and l: "distinct (map fst ls)" "dom (map_of ls) = insert i (dom (map_of (wc_subLeases c)))"
  shows "client_inv (c \<lparr> wc_subLeases := ls, wc_subs := AList.update key s (wc_subs c) \<rparr>)"
proof -
  have "handles_ok (AList.update key s (wc_subs c)) (wc_handles c)"
    using inv new by (auto simp: handles_ok_def client_inv_def update_conv' simp del: map_of_eq_Some_iff)
      (metis option.distinct(1))
  moreover have "identities (c \<lparr> wc_subLeases := ls, wc_subs := AList.update key s (wc_subs c) \<rparr>) =
      insert i (identities c)"
    using identities_add [of "c \<lparr> wc_subLeases := ls \<rparr>" key s] new s(2) by simp
  ultimately show ?thesis using inv s l
    by (auto simp: client_inv_def distinct_update update_conv' simp del: map_of_eq_Some_iff
        split: if_splits)
qed

lemma remove_inv:
  assumes inv: "client_inv c"
  shows "client_inv (Client_remove key ptr c) \<and> own (Client_remove key ptr c) = own c"
proof (cases "map_of (wc_subs c) key")
  case None
  then show ?thesis using inv client_view_cong [of "notify c" c] own_cong [of "notify c" c]
    by (simp add: Client_remove_def)
next
  case (Some s)
  show ?thesis
  proof (cases "ms_ptr s = ptr")
    case False
    then show ?thesis using Some inv client_view_cong [of "notify c" c] own_cong [of "notify c" c]
      by (simp add: Client_remove_def)
  next
    case True
    define c1 where "c1 = c \<lparr> wc_subs := AList.delete key (wc_subs c),
      wc_handles := AList.delete key (wc_handles c) \<rparr>"
    define i where "i = sub_identity s"
    have d: "distinct (map fst (wc_subs c1))" "distinct (map fst (wc_subLeases c1))"
      using inv by (simp_all add: client_inv_def distinct_delete c1_def)
    have keys: "\<forall>k s. map_of (wc_subs c1) k = Some s \<longrightarrow> ms_key s = k"
      and handles: "handles_ok (wc_subs c1) (wc_handles c1)"
      using inv by (auto simp: client_inv_def handles_ok_def delete_conv' c1_def simp del: map_of_eq_Some_iff)
    have ids: "identities c = insert i (identities c1)"
      using Some by (auto simp: identities_def delete_conv' c1_def i_def split: if_splits)
        (metis option.inject)
    then have dom: "dom (map_of (wc_subLeases c1)) = insert i (identities c1)"
      using inv by (simp add: client_inv_def c1_def)
    have own1: "own c1 = own c" by (rule own_cong) (simp_all add: c1_def)
    define c2 where "c2 = (if i \<notin> identities c1 then drop_lease i c1 else c1)"
    have "client_inv c2 \<and> own c2 = own c"
    proof (cases "i \<in> identities c1")
      case False
      then show ?thesis
        using client_inv_drop [OF d keys handles dom] own_drop_lease [OF d(2), of i] own1
        by (simp add: c2_def)
    next
      case True
      then show ?thesis using d keys handles dom own1
        by (auto simp: c2_def client_inv_def insert_absorb)
    qed
    moreover obtain p f where st: "subscriptionIdentityStateLocked c1 i = (p, f)" by fastforce
    moreover have "p \<longleftrightarrow> i \<in> identities c1" using identity_present [OF d(1), of i] st by simp
    ultimately have "Client_remove key ptr c = registryChangedLocked c2 i p f"
      using Some True by (simp add: Client_remove_def Let_def c1_def [symmetric] i_def [symmetric] c2_def)
    with \<open>client_inv c2 \<and> own c2 = own c\<close> show ?thesis
      using client_view_cong [of "registryChangedLocked c2 i p f" c2]
        own_cong [of "registryChangedLocked c2 i p f" c2] by simp
  qed
qed

lemma detach_inv:
  assumes inv: "client_inv c"
  shows "client_inv (snd (detachSubscriptionIdentity i c)) \<and>
    own (snd (detachSubscriptionIdentity i c)) = own c"
proof -
  define c0 where "c0 = c \<lparr> wc_subs := filter (\<lambda>p. sub_identity (snd p) \<noteq> i) (wc_subs c),
      wc_handles := filter (\<lambda>p. fst p \<notin> fst ` set (with_identity c i)) (wc_handles c) \<rparr>"
  have ds: "distinct (map fst (wc_subs c))" using inv by (simp add: client_inv_def)
  have d: "distinct (map fst (wc_subs c0))" "distinct (map fst (wc_subLeases c0))"
    using inv by (simp_all add: client_inv_def c0_def distinct_map_filter)
  have subs: "map_of (wc_subs c0) k = Some s \<longleftrightarrow> map_of (wc_subs c) k = Some s \<and> sub_identity s \<noteq> i" for k s
    using map_of_filter_snd [OF ds, of "\<lambda>s. sub_identity s \<noteq> i" k]
    by (auto simp: c0_def split: option.splits if_splits)
  have keys: "\<forall>k s. map_of (wc_subs c0) k = Some s \<longrightarrow> ms_key s = k"
    using inv by (simp add: subs client_inv_def)
  have handles: "handles_ok (wc_subs c0) (wc_handles c0)"
    unfolding handles_ok_def
  proof (intro allI impI)
    fix k h assume "map_of (wc_handles c0) k = Some h"
    then have h: "map_of (wc_handles c) k = Some h" "k \<notin> fst ` set (with_identity c i)"
      using map_of_filter_fst [of "\<lambda>k. k \<notin> fst ` set (with_identity c i)" "wc_handles c" k]
      by (auto simp: c0_def split: if_splits)
    then have "map_option ms_ptr (map_of (wc_subs c) k) = Some h"
      using inv unfolding client_inv_def handles_ok_def by blast
    then obtain s where s: "map_of (wc_subs c) k = Some s" "ms_ptr s = h"
      by (cases "map_of (wc_subs c) k") simp_all
    have "(k, s) \<in> set (wc_subs c)" using s(1) by (rule map_of_SomeD)
    then have "sub_identity s \<noteq> i" using h(2) by (force simp: with_identity_def)
    then have "map_of (wc_subs c0) k = Some s" using s(1) subs by blast
    then show "map_option ms_ptr (map_of (wc_subs c0) k) = Some h" using s(2) by (simp only: option.map)
  qed
  have ids: "identities c0 = identities c - {i}" by (auto simp: identities_def subs)
  have own0: "own c0 = own c" by (rule own_cong) (simp_all add: c0_def)
  have 1: "client_inv (drop_lease i c0)"
  proof (cases "i \<in> identities c")
    case True
    have "dom (map_of (wc_subLeases c0)) = identities c" using inv by (simp add: client_inv_def c0_def)
    then have "dom (map_of (wc_subLeases c0)) = insert i (identities c0)" using True ids by auto
    then show ?thesis using client_inv_drop [OF d keys handles] ids by simp
  next
    case False
    then have "map_of (wc_subLeases c0) i = None" "dom (map_of (wc_subLeases c0)) = identities c0"
      using inv ids by (auto simp: client_inv_def c0_def)
    then show ?thesis using d keys handles
      by (simp add: drop_lease_def delete_absent client_inv_def identities_def)
  qed
  moreover have "own (drop_lease i c0) = own c" using own_drop_lease [OF d(2), of i] own0 by simp
  moreover have "snd (detachSubscriptionIdentity i c) = drop_lease i c0 \<or>
      (\<exists>f. snd (detachSubscriptionIdentity i c) = registryChangedLocked (drop_lease i c0) i False f)"
    by (auto simp: detachSubscriptionIdentity_def Let_def c0_def)
  moreover have "client_inv (registryChangedLocked x i False f) = client_inv x"
    "own (registryChangedLocked x i False f) = own x" for x :: "'a Client" and f
    by (intro client_view_cong own_cong; simp)+
  ultimately show ?thesis by metis
qed

lemma registry_changed_same:
  "client_inv (registryChangedLocked x i p f) = client_inv x"
  "own (registryChangedLocked x i p f) = own x"
  by (intro client_view_cong own_cong; simp)+

text \<open>The accounting of leases, for any gate that keeps the laws of the interface.\<close>

context admission_gate
begin

lemma admit_accounts:
  assumes "ok g" "client_inv c" "leased g = own c + rest"
    and adm: "admitSubscription ops g c wire = Inr (g', c')"
  defines "i \<equiv> serverSubscriptionIdentity (sw_Subscription wire)"
  shows "ok g' \<and> leased g' = own c' + rest \<and>
    (\<exists>ls. c' = c \<lparr> wc_subLeases := ls \<rparr> \<and> distinct (map fst ls) \<and>
      dom (map_of ls) = insert i (dom (map_of (wc_subLeases c))))"
proof (cases "map_of (wc_subLeases c) i = None")
  case False
  then have "g' = g" "c' = c" using adm by (simp_all add: admitSubscription_def Let_def i_def)
  then show ?thesis using assms False
    by (intro conjI exI [of _ "wc_subLeases c"]) (auto simp: client_inv_def)
next
  case True
  then obtain rq l where a: "go_acquire ops g rq = Inr (g', l)"
    and c': "c' = c \<lparr> wc_subLeases := AList.update i l (wc_subLeases c) \<rparr>"
    using adm by (auto simp: admitSubscription_def Let_def i_def)
  have "mset (map snd (AList.update i l (wc_subLeases c))) = add_mset l (mset (map snd (wc_subLeases c)))"
    by (intro mset_update) (simp add: True domIff)
  then have "own c' = add_mset l (own c)" by (simp add: c' own_def)
  moreover have "distinct (map fst (wc_subLeases c))" using assms(2) by (simp add: client_inv_def)
  ultimately show ?thesis using acquire_adds [OF assms(1) a] assms(3)
    by (intro conjI exI [of _ "AList.update i l (wc_subLeases c)"])
      (simp_all add: c' distinct_update update_conv')
qed

lemma subscribe_accounts:
  assumes "ok (fst gc)" "client_inv (snd gc)" "leased (fst gc) = own (snd gc) + rest"
    and "subscribeStream ops ctx_err ptr kind_ok key channel wire validate gc = Inr (r, gc')"
  shows "ok (fst gc') \<and> client_inv (snd gc') \<and> leased (fst gc') = own (snd gc') + rest"
proof (cases "map_of (wc_subs (snd gc)) key")
  case (Some e)
  then have "gc' = gc" using assms(4)
    by (simp add: subscribeStream_def split: option.splits if_splits)
  then show ?thesis using assms(1-3) by simp
next
  case None
  obtain g c where gc: "gc = (g, c)" by fastforce
  let ?i = "serverSubscriptionIdentity (sw_Subscription wire)"
  let ?s = "\<lparr> ms_ptr = ptr, ms_key = key, ms_channel = channel, ms_wire = wire, ms_done = False \<rparr>"
  obtain g' c' f where adm: "admitSubscription ops g c wire = Inr (g', c')"
    and gc': "gc' = (g', registryChangedLocked (c' \<lparr> wc_subs := AList.update key ?s (wc_subs c') \<rparr>) ?i True f)"
    using assms(4) None
    by (auto simp: subscribeStream_def gc Let_def split: option.splits if_splits)
  from admit_accounts [OF _ _ _ adm] assms(1-3) obtain ls where
    a: "ok g'" "leased g' = own c' + rest" and c': "c' = c \<lparr> wc_subLeases := ls \<rparr>" and
    ls: "distinct (map fst ls)" "dom (map_of ls) = insert ?i (dom (map_of (wc_subLeases c)))"
    by (auto simp: gc)
  have "client_inv (c \<lparr> wc_subLeases := ls, wc_subs := AList.update key ?s (wc_subs c) \<rparr>)"
    using assms(2) None ls by (intro subscribe_new_inv) (simp_all add: gc sub_identity_def)
  then show ?thesis using a by (simp add: gc' c' registry_changed_same own_def)
qed

definition accounts :: "('g, 'l) client_state \<Rightarrow> bool" where
  "accounts s \<longleftrightarrow> ok (fst (fst s)) \<and> client_inv (snd (fst s)) \<and>
     leased (fst (fst s)) = own (snd (fst s)) + mset (snd s)"

lemma cache_inv:
  assumes "client_inv c"
  shows "client_inv (snd (cachePrivateHandle key ptr c)) \<and>
    own (snd (cachePrivateHandle key ptr c)) = own c"
  using assms
  by (auto simp: cachePrivateHandle_def client_inv_def identities_def own_def handles_ok_def update_conv'
      simp del: map_of_eq_Some_iff split: option.splits)

lemma mark_done_inv:
  assumes "client_inv c" "map_of (wc_subs c) key = Some s"
  shows "client_inv (c \<lparr> wc_subs := AList.update key (s \<lparr> ms_done := True \<rparr>) (wc_subs c) \<rparr>)"
proof -
  let ?s = "s \<lparr> ms_done := True \<rparr>"
  have "sub_identity ?s = sub_identity s" by (simp add: sub_identity_def)
  then have "identities (c \<lparr> wc_subs := AList.update key ?s (wc_subs c) \<rparr>) = identities c"
    unfolding identities_update identities_split [OF assms(2)] by (simp only:)
  moreover have "handles_ok (AList.update key ?s (wc_subs c)) (wc_handles c)"
    using assms by (auto simp: client_inv_def handles_ok_def update_conv' simp del: map_of_eq_Some_iff)
      (metis option.inject)
  ultimately show ?thesis using assms
    by (auto simp: client_inv_def distinct_update update_conv' simp del: map_of_eq_Some_iff
        split: if_splits)
qed

lemma step_accounts:
  assumes "accounts s"
  shows "accounts (client_step ops s op)"
proof -
  obtain g c others where s: "s = ((g, c), others)" by (metis prod.collapse)
  have a: "ok g" "client_inv c" "leased g = own c + mset others" using assms by (simp_all add: accounts_def s)
  show ?thesis
  proof (cases op)
    case (Subscribe ctx_err ptr kind_ok key channel wire validate)
    then show ?thesis using subscribe_accounts [of "(g, c)" "mset others"] a
      by (cases "subscribeStream ops ctx_err ptr kind_ok key channel wire validate (g, c)")
        (auto simp: s accounts_def)
  next
    case (MarkDone key)
    then show ?thesis using a mark_done_inv [OF a(2), of key]
      by (cases "map_of (wc_subs c) key") (simp_all add: s accounts_def own_def)
  next
    case (Remove key ptr)
    then show ?thesis using a remove_inv [OF a(2)] by (simp add: s accounts_def)
  next
    case (Detach i)
    then show ?thesis using a detach_inv [OF a(2)] by (simp add: s accounts_def)
  next
    case RunRelease
    show ?thesis
    proof (cases "wc_releasing c")
      case Nil
      then show ?thesis using RunRelease assms by (simp add: s run_release_def)
    next
      case (Cons l ls)
      have "l \<in># leased g" using a(3) by (simp add: own_def Cons)
      from release_removes [OF a(1) this] show ?thesis using RunRelease a Cons
        by (simp add: s run_release_def accounts_def own_def client_inv_def identities_def)
    qed
  next
    case (CacheHandle key ptr)
    then show ?thesis using a cache_inv [OF a(2)] by (simp add: s accounts_def)
  next
    case CloseClient
    then show ?thesis using a
      by (simp add: s accounts_def Client_Close_def own_def client_inv_def identities_def)
  next
    case (OtherAcquire rq)
    then show ?thesis using a acquire_adds [OF a(1), of rq]
      by (cases "go_acquire ops g rq") (auto simp: s accounts_def)
  next
    case OtherRelease
    show ?thesis
    proof (cases others)
      case Nil
      then show ?thesis using OtherRelease assms by (simp add: s)
    next
      case (Cons l ls)
      have "l \<in># leased g" using a(3) Cons by simp
      from release_removes [OF a(1) this] show ?thesis using OtherRelease a Cons
        by (simp add: s accounts_def)
    qed
  qed
qed

lemma run_accounts: "accounts s \<Longrightarrow> accounts (foldl (client_step ops) s xs)"
  by (induction xs arbitrary: s) (simp_all add: step_accounts)

end

text \<open>The registries that a client reaches beside others that share its gate.\<close>

definition reached :: "int \<Rightarrow> int \<Rightarrow> u64 \<Rightarrow> client_op list \<Rightarrow>
    (subscriptionGate, subscriptionAdmissionKey) client_state" where
  "reached ms mu n xs = foldl (client_step reference_ops)
     ((NewSubscriptionAdmissionGate ms mu, snd (NewClient n)), []) xs"

lemma reached_accounts: "ref.accounts (reached ms mu n xs)"
  unfolding reached_def
  by (rule ref.run_accounts)
    (auto simp: ref.accounts_def NewClient_def NewSubscriptionAdmissionGate_def gate_inv_def
        ref_count_def user_keys_def held_def client_inv_def identities_def own_def handles_ok_def)

lemma reached_inv: "client_inv (snd (fst (reached ms mu n xs)))"
  using reached_accounts [of ms mu n xs] by (simp add: ref.accounts_def)

lemma registered_identities:
  assumes "client_inv c"
  shows "sub_identity ` snd ` set (wc_subs c) = identities c"
proof -
  have d: "distinct (map fst (wc_subs c))" using assms by (simp add: client_inv_def)
  have "j \<in> identities c \<longleftrightarrow> (\<exists>x k. (k, x) \<in> set (wc_subs c) \<and> sub_identity x = j)" for j
    using d by (auto simp: identities_def)
  then show ?thesis by force
qed

section \<open>Properties\<close>

text \<open>
  C9: a client that shares the gate with others holds, after any sequence of
  subscriptions, removals, rejections, releases and handle look-ups, exactly one lease per server
  identity that it has registered, besides those whose release is still to run. Every cached handle
  belongs to the subscription that is registered under its key.
\<close>

theorem client_leases_exact:
  "case reached ms mu n xs of ((g, c), others) \<Rightarrow>
    held g = mset (map snd (wc_subLeases c)) + mset (wc_releasing c) + mset others \<and>
    distinct (map fst (wc_subLeases c)) \<and>
    set (map fst (wc_subLeases c)) = sub_identity ` snd ` set (wc_subs c) \<and>
    handles_ok (wc_subs c) (wc_handles c)"
proof -
  obtain g c others where s: "reached ms mu n xs = ((g, c), others)" by (metis prod.collapse)
  with reached_accounts [of ms mu n xs]
  have a: "client_inv c" "held g = own c + mset others" by (simp_all add: ref.accounts_def)
  then have "set (map fst (wc_subLeases c)) = identities c"
    by (simp add: client_inv_def flip: dom_map_of_conv_image_fst)
  also have "\<dots> = sub_identity ` snd ` set (wc_subs c)" using registered_identities [OF a(1)] by simp
  finally show ?thesis using a s by (simp add: own_def client_inv_def)
qed

end
