(* ===== verification/WsManager.thy ===== *)
theory WsManager
  imports WsClient
begin

text \<open>
  The connection manager of the WebSocket client: \<^verbatim>\<open>websocket/manager.go\<close>. One generation (one
  connection) keeps the wire subscriptions it has sent, their acknowledgements that are pending, and
  the progress of its synchronizer, which sends one subscribe or unsubscribe frame at a time and
  waits for the rate limiter in between. The steps of a generation are the critical sections of the
  protocol and commit locks; the registry may change between any two of them. The specification
  is what the server knows of the connection: the set of identities it has been told.
\<close>

section \<open>State of a generation\<close>

text \<open>A member of a wire subscription is its registry key and pointer.\<close>

record activeWireSubscription =
  aw_wire :: subscriptionWire
  aw_members :: "(string \<times> nat) list"
  aw_acked :: bool

type_synonym groups = "(jval \<times> activeWireSubscription) list"

text \<open>
  The synchronizer: what is left of its two loops (first over the identities that were subscribed,
  then over the groups of its snapshot), and the write that waits for admission.
\<close>

datatype intent = Examine jval | Offer jval activeWireSubscription

datatype frame = WriteUnsubscribe jval subscriptionWire | WriteSubscribe jval activeWireSubscription

record synchronizer =
  sy_current :: groups
  sy_intents :: "intent list"
  sy_waiting :: "frame option"

record generation =
  gn_subscribed :: groups
  gn_pending :: pendings
  gn_sync :: "synchronizer option"

definition new_generation :: generation where
  "new_generation = \<lparr> gn_subscribed = [], gn_pending = [], gn_sync = None \<rparr>"

text \<open>What a step does that others can see.\<close>

datatype gen_event =
    Sent string jval subscriptionWire
  | Acked jval
  | RejectedRequest string jval
  | Notified nat jval SubscriptionState
  | Terminated nat jval string
  | ReportedTo nat string
  | Delivered nat "jval option"
  | Opened
  | ReportedAll string

section \<open>The snapshot of the registry\<close>

definition add_member :: "managedSubscription \<Rightarrow> groups \<Rightarrow> groups" where
  "add_member s current =
     (let identity = sub_identity s;
          grp = (case map_of current identity of
             None \<Rightarrow> \<lparr> aw_wire = ms_wire s, aw_members = [], aw_acked = False \<rparr>
           | Some grp \<Rightarrow> grp)
      in AList.update identity
           (grp \<lparr> aw_members := AList.update (ms_key s) (ms_ptr s) (aw_members grp) \<rparr>) current)"

definition canonical_group :: "activeWireSubscription \<Rightarrow> activeWireSubscription" where
  "canonical_group grp =
     (if length (aw_members grp) > 1
      then grp \<lparr> aw_wire := canonicalSubscriptionWire (aw_wire grp) \<rparr> else grp)"

definition current_groups :: "'l Client \<Rightarrow> groups" where
  "current_groups c =
     map (\<lambda>(identity, grp). (identity, canonical_group grp))
       (fold add_member (map snd (wc_subs c)) [])"

section \<open>The synchronizer\<close>

definition sync_start :: "'l Client \<Rightarrow> generation \<Rightarrow> generation" where
  "sync_start c gn =
     (case gn_sync gn of
        Some _ \<Rightarrow> gn
      | None \<Rightarrow>
          let current = current_groups c
          in gn \<lparr> gn_sync := Some \<lparr> sy_current = current,
               sy_intents = map (\<lambda>p. Examine (fst p)) (gn_subscribed gn) @
                 map (\<lambda>(identity, grp). Offer identity grp) current,
               sy_waiting = None \<rparr> \<rparr>)"

text \<open>The states that the members of \<open>grp\<close> which are new to \<open>active\<close> are told.\<close>

definition adopt_events :: "jval \<Rightarrow> activeWireSubscription \<Rightarrow> activeWireSubscription \<Rightarrow> gen_event list" where
  "adopt_events identity active grp =
     concat (map (\<lambda>(key, ptr).
       if map_of (aw_members active) key = Some ptr then []
       else Notified ptr identity SubscriptionStateConnected #
         (if aw_acked active then [Notified ptr identity SubscriptionStateSubscribed] else []))
       (aw_members grp))"

definition sync_turn :: "generation \<Rightarrow> generation \<times> gen_event list" where
  "sync_turn gn =
     (case gn_sync gn of
        None \<Rightarrow> (gn, [])
      | Some sy \<Rightarrow>
          (case (sy_waiting sy, sy_intents sy) of
             (None, Examine identity # rest) \<Rightarrow>
               let sy' = sy \<lparr> sy_intents := rest \<rparr> in
               (case map_of (gn_subscribed gn) identity of
                  None \<Rightarrow> (gn \<lparr> gn_sync := Some sy' \<rparr>, [])
                | Some active \<Rightarrow>
                    (case map_of (sy_current sy) identity of
                       Some grp \<Rightarrow>
                         (gn \<lparr> gn_subscribed := AList.update identity
                                (active \<lparr> aw_members := aw_members grp \<rparr>) (gn_subscribed gn),
                              gn_sync := Some sy' \<rparr>,
                          adopt_events identity active grp)
                     | None \<Rightarrow>
                         (gn \<lparr> gn_sync := Some (sy' \<lparr> sy_waiting := Some (WriteUnsubscribe identity
                              (aw_wire active \<lparr> sw_Method := ''unsubscribe'' \<rparr>)) \<rparr>) \<rparr>, [])))
           | (None, Offer identity grp # rest) \<Rightarrow>
               let sy' = sy \<lparr> sy_intents := rest \<rparr> in
               if map_of (gn_subscribed gn) identity \<noteq> None
               then (gn \<lparr> gn_sync := Some sy' \<rparr>, [])
               else (gn \<lparr> gn_sync := Some (sy' \<lparr> sy_waiting := Some (WriteSubscribe identity grp) \<rparr>) \<rparr>,
                     map (\<lambda>(key, ptr). Notified ptr identity SubscriptionStateConnected)
                       (aw_members grp))
           | (None, []) \<Rightarrow> (gn \<lparr> gn_sync := None \<rparr>, [])
           | (Some _, _) \<Rightarrow> (gn, [])))"

section \<open>The write of a frame\<close>

text \<open>
  How a waiting write ends: its admission became stale, its context ended, the socket failed, or the
  frame was written. \<^verbatim>\<open>writeJSON\<close> takes the registry's state of the identity at the commit point, where
  it must still be what the frame says.
\<close>

datatype write_end = Stale | ContextEnded | SocketError string | SocketOk

definition commit_allowed :: "'l Client \<Rightarrow> jval \<Rightarrow> bool \<Rightarrow> jval \<Rightarrow> bool" where
  "commit_allowed c identity wantPresent fingerprint =
     (let (present, currentFingerprint) = subscriptionIdentityStateLocked c identity
      in present = wantPresent \<and> (\<not> wantPresent \<or> currentFingerprint = fingerprint))"

datatype write_result = Skipped | WriteFailed "string option" | Written

definition writeJSON :: "'l Client \<Rightarrow> jval \<Rightarrow> bool \<Rightarrow> subscriptionWire \<Rightarrow> write_end \<Rightarrow> write_result" where
  "writeJSON c identity wantPresent wire e =
     (case e of
        Stale \<Rightarrow> Skipped
      | ContextEnded \<Rightarrow> WriteFailed None
      | SocketError err \<Rightarrow>
          (if commit_allowed c identity wantPresent (subscriptionWireFingerprint wire)
           then WriteFailed (Some err) else Skipped)
      | SocketOk \<Rightarrow>
          (if commit_allowed c identity wantPresent (subscriptionWireFingerprint wire)
           then Written else Skipped))"

text \<open>A failed write ends the generation: the result is \<open>None\<close> with what was reported.\<close>

definition sync_commit :: "int \<Rightarrow> int \<Rightarrow> 'l Client \<Rightarrow> write_end \<Rightarrow> generation \<Rightarrow>
    generation option \<times> gen_event list" where
  "sync_commit timeout now c e gn =
     (case gn_sync gn of
        None \<Rightarrow> (Some gn, [])
      | Some sy \<Rightarrow>
          let gn0 = gn \<lparr> gn_sync := Some (sy \<lparr> sy_waiting := None \<rparr>) \<rparr>;
              failed = (\<lambda>err. (None, case err of None \<Rightarrow> [] | Some m \<Rightarrow> [ReportedAll m])) in
          (case sy_waiting sy of
             None \<Rightarrow> (Some gn, [])
           | Some (WriteUnsubscribe identity wire) \<Rightarrow>
               (case writeJSON c identity False wire e of
                  Skipped \<Rightarrow> (Some gn0, [])
                | WriteFailed err \<Rightarrow> failed err
                | Written \<Rightarrow>
                    (Some (gn0 \<lparr> gn_pending :=
                         AList.update (pendingAckKey ''unsubscribe'' identity)
                           \<lparr> pa_method = ''unsubscribe'', pa_identity = identity, pa_wire = wire,
                             pa_deadline = now + timeout \<rparr>
                           (AList.delete (pendingAckKey ''subscribe'' identity) (gn_pending gn)),
                         gn_subscribed := AList.delete identity (gn_subscribed gn) \<rparr>),
                     [Sent ''unsubscribe'' identity wire]))
           | Some (WriteSubscribe identity grp) \<Rightarrow>
               (case writeJSON c identity True (aw_wire grp) e of
                  Skipped \<Rightarrow> (Some gn0, [])
                | WriteFailed err \<Rightarrow> failed err
                | Written \<Rightarrow>
                    (Some (gn0 \<lparr> gn_subscribed := AList.update identity grp (gn_subscribed gn),
                         gn_pending :=
                           AList.update (pendingAckKey ''subscribe'' identity)
                             \<lparr> pa_method = ''subscribe'', pa_identity = identity,
                               pa_wire = aw_wire grp, pa_deadline = now + timeout \<rparr>
                             (gn_pending gn) \<rparr>),
                     [Sent ''subscribe'' identity (aw_wire grp)]))))"

section \<open>Acknowledgements and rejections\<close>

definition ErrSubscriptionRejected :: string where
  "ErrSubscriptionRejected = ''websocket subscription rejected''"

definition ErrSubscriptionAckTimeout :: string where
  "ErrSubscriptionAckTimeout = ''websocket subscription acknowledgement timed out''"

definition rejectWireSubscription :: "jval \<Rightarrow> string \<Rightarrow> 'l Client \<times> generation \<Rightarrow>
    ('l Client \<times> generation) \<times> gen_event list" where
  "rejectWireSubscription identity err cg =
     (let (c, gn) = cg;
          active = map_of (gn_subscribed gn) identity;
          (detached, c') = detachSubscriptionIdentity identity c;
          members = map (\<lambda>s. (ms_key s, ms_ptr s)) detached @
            (case active of
               None \<Rightarrow> []
             | Some a \<Rightarrow> filter (\<lambda>(key, ptr). key \<notin> ms_key ` set detached) (aw_members a))
      in ((c', gn \<lparr> gn_pending := AList.delete (pendingAckKey ''subscribe'' identity) (gn_pending gn),
                  gn_subscribed := AList.delete identity (gn_subscribed gn) \<rparr>),
          map (\<lambda>(key, ptr). Terminated ptr identity err) members))"

text \<open>
  A \<^verbatim>\<open>map[string]any\<close> decoded from an object: a repeated key overwrites. \<open>raw\<close> gives the text that
  spelt a value in the frame.
\<close>

definition object_map :: "(string \<times> jval) list \<Rightarrow> gomap \<Rightarrow> gomap" where
  "object_map kvs m = fold (\<lambda>(k, v). AList.update k (json_any v)) kvs m"

fun set_map :: "gomap option setter" where
  "set_map JNull p = Inr None"
| "set_map (JObj kvs) p = Inr (Some (object_map kvs (case p of None \<Rightarrow> [] | Some m \<Rightarrow> m)))"
| "set_map _ p = type_error ''map''"

record subscriptionResponse =
  re_Method :: string
  re_Subscription :: "gomap option"
  re_Error :: "jval option"

definition set_subscriptionResponse :: "subscriptionResponse setter" where
  "set_subscriptionResponse = set_struct
     [(''method'', \<lambda>v x. bind_res (set_string v (re_Method x)) (\<lambda>y. Inr (x \<lparr> re_Method := y \<rparr>))),
      (''subscription'', \<lambda>v x. bind_res (set_map v (re_Subscription x))
        (\<lambda>y. Inr (x \<lparr> re_Subscription := y \<rparr>))),
      (''error'', \<lambda>v x. bind_res (set_raw v (re_Error x)) (\<lambda>y. Inr (x \<lparr> re_Error := y \<rparr>)))]"

text \<open>A missing \<^verbatim>\<open>data\<close> member is an empty text, which does not parse.\<close>

definition parse :: "'a setter \<Rightarrow> 'a \<Rightarrow> jval option \<Rightarrow> 'a res" where
  "parse f zero data = (case data of
     None \<Rightarrow> Inl ''unexpected end of JSON input'' | Some v \<Rightarrow> f v zero)"

fun error_text :: "(jval \<Rightarrow> string) \<Rightarrow> jval \<Rightarrow> string \<Rightarrow> string" where
  "error_text raw (JStr s) old = s"
| "error_text raw JNull old = old"
| "error_text raw v old = raw v"

definition acknowledgeSubscription :: "(jval \<Rightarrow> string) \<Rightarrow> jval option \<Rightarrow> 'l Client \<times> generation \<Rightarrow>
    ('l Client \<times> generation) option \<times> gen_event list" where
  "acknowledgeSubscription raw data cg =
     (let malformed = (None, [ReportedAll (ErrSubscriptionRejected @ '': malformed subscriptionResponse'')])
      in case parse set_subscriptionResponse
          \<lparr> re_Method = '''', re_Subscription = None, re_Error = None \<rparr> data of
        Inl e \<Rightarrow> malformed
      | Inr response \<Rightarrow>
          if re_Method response = '''' then malformed
          else (case re_Subscription response of
            None \<Rightarrow> malformed
          | Some subscription \<Rightarrow>
          (case matchingPendingAcknowledgement (re_Method response) subscription
              (gn_pending (snd cg)) of
             None \<Rightarrow> (Some cg, [])
           | Some (key, request) \<Rightarrow>
               let c = fst cg;
                   gn1 = (snd cg) \<lparr> gn_pending := AList.delete key (gn_pending (snd cg)) \<rparr> in
               if re_Error response \<noteq> None \<and> re_Error response \<noteq> Some JNull
               then let message = error_text raw (the (re_Error response)) '''';
                      (cg', es) = rejectWireSubscription (pa_identity request)
                        (ErrSubscriptionRejected @ '': '' @ message) (c, gn1)
                    in (Some cg', RejectedRequest (pa_method request) (pa_identity request) # es)
               else if pa_method request = ''subscribe''
               then (case map_of (gn_subscribed gn1) (pa_identity request) of
                       None \<Rightarrow> (Some (c, gn1), [Acked (pa_identity request)])
                     | Some active \<Rightarrow>
                         (Some (c, gn1 \<lparr> gn_subscribed := AList.update (pa_identity request)
                              (active \<lparr> aw_acked := True \<rparr>) (gn_subscribed gn1) \<rparr>),
                          Acked (pa_identity request) # map (\<lambda>(key, ptr).
                            Notified ptr (pa_identity request) SubscriptionStateSubscribed)
                            (aw_members active)))
               else (Some (c, gn1), []))))"

definition rejectPendingAcknowledgement :: "string \<times> jval \<Rightarrow> pendingSubscriptionAck \<Rightarrow> string \<Rightarrow>
    'l Client \<times> generation \<Rightarrow> ('l Client \<times> generation) \<times> gen_event list" where
  "rejectPendingAcknowledgement key request err cg =
     (let (c, gn) = cg;
          gn1 = gn \<lparr> gn_pending := AList.delete key (gn_pending gn) \<rparr> in
      if pa_method request = ''subscribe''
      then let (cg', es) = rejectWireSubscription (pa_identity request) err (c, gn1)
           in (cg', RejectedRequest ''subscribe'' (pa_identity request) # es)
      else ((c, gn1), [RejectedRequest (pa_method request) (pa_identity request)]))"

text \<open>\<open>Some\<close> if exactly one pending request, of whatever method, matches.\<close>

definition matchingErrorAcknowledgement :: "string \<Rightarrow> gomap \<Rightarrow> pendings \<Rightarrow>
    ((string \<times> jval) \<times> pendingSubscriptionAck) option" where
  "matchingErrorAcknowledgement method subscription pending =
     (if method \<noteq> '''' then matchingPendingAcknowledgement method subscription pending
      else (case filter (\<lambda>(key, request).
          subscriptionMatchScore (sw_Subscription (pa_wire request)) subscription \<noteq> None) pending of
             [e] \<Rightarrow> Some e
           | _ \<Rightarrow> None))"

text \<open>
  A request embedded in a text is the first object in it that names one; \<open>decode\<close> is what a JSON
  decoder reads from the start of a text, if it is an object.
\<close>

fun any_object :: "any option \<Rightarrow> gomap option" where
  "any_object (Some (AOther (JObj kvs))) = Some (object_map kvs [])"
| "any_object _ = None"

fun embeddedSubscriptionRequest :: "(string \<Rightarrow> (string \<times> jval) list option) \<Rightarrow> string \<Rightarrow>
    (string \<times> gomap) option" where
  "embeddedSubscriptionRequest decode [] = None"
| "embeddedSubscriptionRequest decode (ch # message) =
     (let next = embeddedSubscriptionRequest decode message in
      if ch \<noteq> CHR ''{'' then next
      else (case decode (ch # message) of
        None \<Rightarrow> next
      | Some kvs \<Rightarrow>
          let obj = object_map kvs [];
              method = (case map_of obj ''method'' of Some (AString m) \<Rightarrow> m | _ \<Rightarrow> '''') in
          (case (method \<noteq> '''', any_object (map_of obj ''subscription'')) of
             (True, Some subscription) \<Rightarrow> Some (method, subscription)
           | _ \<Rightarrow> (case map_of obj ''type'' of
                Some (AString _) \<Rightarrow> Some ('''', obj) | _ \<Rightarrow> next))))"

text \<open>
  The payload of an error frame: an object that names a request, a text with an embedded request, or
  neither; each with the message that the subscribers get.
\<close>

datatype error_payload =
    NamesRequest string gomap string
  | EmbedsRequest string gomap string
  | Unrelated string

record errorResponse =
  er_Error :: "jval option"
  er_Message :: string
  er_Method :: string
  er_Subscription :: "gomap option"
  er_Request :: "string \<times> gomap option"

definition set_errorResponse :: "errorResponse setter" where
  "set_errorResponse = set_struct
     [(''error'', \<lambda>v x. bind_res (set_raw v (er_Error x)) (\<lambda>y. Inr (x \<lparr> er_Error := y \<rparr>))),
      (''message'', \<lambda>v x. bind_res (set_string v (er_Message x)) (\<lambda>y. Inr (x \<lparr> er_Message := y \<rparr>))),
      (''method'', \<lambda>v x. bind_res (set_string v (er_Method x)) (\<lambda>y. Inr (x \<lparr> er_Method := y \<rparr>))),
      (''subscription'', \<lambda>v x. bind_res (set_map v (er_Subscription x))
        (\<lambda>y. Inr (x \<lparr> er_Subscription := y \<rparr>))),
      (''request'', \<lambda>v x. bind_res (set_struct
         [(''method'', \<lambda>v r. bind_res (set_string v (fst r)) (\<lambda>m. Inr (m, snd r))),
          (''subscription'', \<lambda>v r. bind_res (set_map v (snd r)) (\<lambda>m. Inr (fst r, m)))]
         v (er_Request x)) (\<lambda>y. Inr (x \<lparr> er_Request := y \<rparr>)))]"

definition error_payload_of :: "(jval \<Rightarrow> string) \<Rightarrow> (string \<Rightarrow> (string \<times> jval) list option) \<Rightarrow>
    jval option \<Rightarrow> error_payload" where
  "error_payload_of raw decode data =
     (let message = (case data of None \<Rightarrow> '''' | Some v \<Rightarrow> raw v) in
      case parse set_errorResponse \<lparr> er_Error = None, er_Message = '''', er_Method = '''',
          er_Subscription = None, er_Request = ('''', None) \<rparr> data of
        Inr response \<Rightarrow>
          let message = (if er_Message response \<noteq> '''' then er_Message response
                else (case er_Error response of None \<Rightarrow> message | Some v \<Rightarrow> error_text raw v message));
              (method, subscription) =
                (if fst (er_Request response) = '''' then (er_Method response, er_Subscription response)
                 else er_Request response)
          in (case (method \<noteq> '''', subscription) of
                (True, Some sub) \<Rightarrow> NamesRequest method sub message
              | _ \<Rightarrow> Unrelated message)
      | Inl _ \<Rightarrow>
          (case data of
             Some (JStr s) \<Rightarrow>
               (case embeddedSubscriptionRequest decode s of
                  Some (method, sub) \<Rightarrow> EmbedsRequest method sub s
                | None \<Rightarrow> Unrelated s)
           | _ \<Rightarrow> Unrelated message))"

fun reject_all :: "string \<Rightarrow> jval list \<Rightarrow> 'l Client \<times> generation \<Rightarrow> ('l Client \<times> generation) \<times> gen_event list" where
  "reject_all err [] cg = (cg, [])"
| "reject_all err (identity # rest) cg =
     (let (cg1, e1) = rejectWireSubscription identity err cg; (cg2, e2) = reject_all err rest cg1
      in (cg2, RejectedRequest ''subscribe'' identity # e1 @ e2))"

definition rejectPendingSubscriptions :: "error_payload \<Rightarrow> 'l Client \<times> generation \<Rightarrow>
    ('l Client \<times> generation) \<times> gen_event list" where
  "rejectPendingSubscriptions data cg =
     (case data of
        NamesRequest method subscription message \<Rightarrow>
          (case matchingPendingAcknowledgement method subscription (gn_pending (snd cg)) of
             Some (key, request) \<Rightarrow> rejectPendingAcknowledgement key request
               (ErrSubscriptionRejected @ '': '' @ message) cg
           | None \<Rightarrow> (cg, []))
      | EmbedsRequest method subscription message \<Rightarrow>
          (case matchingErrorAcknowledgement method subscription (gn_pending (snd cg)) of
             Some (key, request) \<Rightarrow> rejectPendingAcknowledgement key request
               (ErrSubscriptionRejected @ '': '' @ message) cg
           | None \<Rightarrow> (cg, []))
      | Unrelated message \<Rightarrow>
          reject_all (ErrSubscriptionRejected @ '': '' @ message)
            (map (\<lambda>e. pa_identity (snd e))
              (filter (\<lambda>e. pa_method (snd e) = ''subscribe'') (gn_pending (snd cg)))) cg)"

definition failExpiredAcknowledgement :: "int \<Rightarrow> 'l Client \<times> generation \<Rightarrow>
    ('l Client \<times> generation) \<times> gen_event list" where
  "failExpiredAcknowledgement now cg =
     (let (c, gn) = cg; expired = filter (\<lambda>e. \<not> pa_deadline (snd e) > now) (gn_pending gn) in
      ((c, gn \<lparr> gn_pending := filter (\<lambda>e. pa_deadline (snd e) > now) (gn_pending gn) \<rparr>),
       concat (map (\<lambda>e. if pa_method (snd e) = ''subscribe''
         then map (\<lambda>s. ReportedTo (ms_ptr s) ErrSubscriptionAckTimeout)
           (subscriptionsForIdentity c (pa_identity (snd e))) else []) expired)))"

text \<open>The deadline for which the acknowledgement timer is set.\<close>

definition resetSubscriptionAckTimer :: "int \<Rightarrow> pendings \<Rightarrow> int option" where
  "resetSubscriptionAckTimer now pending =
     (case map (\<lambda>e. pa_deadline (snd e)) pending of
        [] \<Rightarrow> None
      | d # ds \<Rightarrow> Some (max 0 (fold min ds d - now)))"

section \<open>Dispatch of a frame\<close>

text \<open>\<^verbatim>\<open>explorerRawChannel\<close>: the two streams that arrive as bare arrays of objects.\<close>

fun raw_entry :: "jval \<Rightarrow> (string \<times> jval) list option" where
  "raw_entry (JObj kvs) = Some kvs"
| "raw_entry JNull = Some []"
| "raw_entry _ = None"

definition explorerRawChannel :: "jval \<Rightarrow> string option" where
  "explorerRawChannel v =
     (case v of
        JArr (e # es) \<Rightarrow>
          (if list_all (\<lambda>x. raw_entry x \<noteq> None) (e # es)
           then let has = (\<lambda>k. k \<in> fst ` set (the (raw_entry e))) in
             (if list_all has [''blockTime'', ''height'', ''numTxs'', ''proposer'', ''hash'']
              then Some ''explorerBlock_''
              else if list_all has [''action'', ''block'', ''error'', ''hash'', ''time'', ''user'']
              then Some ''explorerTxs_'' else None)
           else None)
      | _ \<Rightarrow> None)"

definition dispatchChannel :: "'l Client \<Rightarrow> string \<Rightarrow> jval option \<Rightarrow> gen_event list" where
  "dispatchChannel c channel data =
     map (\<lambda>p. Delivered (ms_ptr (snd p)) data) (filter (\<lambda>p. ms_channel (snd p) = channel) (wc_subs c))"

definition set_envelope_frame :: "(string \<times> jval option) setter" where
  "set_envelope_frame = set_struct
     [(''channel'', \<lambda>v x. bind_res (set_string v (fst x)) (\<lambda>y. Inr (y, snd x))),
      (''data'', \<lambda>v x. bind_res (set_raw v (snd x)) (\<lambda>y. Inr (fst x, y)))]"

text \<open>A frame is the value that it spells, or \<open>None\<close> if it is not JSON.\<close>

definition dispatch :: "(jval \<Rightarrow> string) \<Rightarrow> (string \<Rightarrow> (string \<times> jval) list option) \<Rightarrow> jval option \<Rightarrow>
    'l Client \<times> generation \<Rightarrow> ('l Client \<times> generation) option \<times> gen_event list" where
  "dispatch raw decode data cg =
     (case parse set_envelope_frame ('''', None) data of
        Inr (ch # rest, payload) \<Rightarrow>
          let channel = ch # rest in
          if channel = ''subscriptionResponse'' then acknowledgeSubscription raw payload cg
          else if channel = ''error'' \<and> gn_pending (snd cg) \<noteq> []
          then (let (cg', es) = rejectPendingSubscriptions (error_payload_of raw decode payload) cg
                in (Some cg', es))
          else (Some cg, dispatchChannel (fst cg) channel payload)
      | _ \<Rightarrow>
          (case (case data of None \<Rightarrow> None | Some v \<Rightarrow> explorerRawChannel v) of
             Some channel \<Rightarrow> (Some cg, dispatchChannel (fst cg) channel data)
           | None \<Rightarrow> (Some cg, [ReportedAll ''unexpected websocket message''])))"

section \<open>The admission of a write\<close>

text \<open>The registration gives the token that its removal checks.\<close>

definition registerWireAdmission :: "jval \<Rightarrow> bool \<Rightarrow> jval \<Rightarrow> 'l Client \<Rightarrow> nat \<times> 'l Client" where
  "registerWireAdmission identity wantPresent fingerprint c =
     (let token = wc_admissionSeq c + 1;
          stale = (hasSubscriptionIdentity c identity \<noteq> wantPresent \<or>
            (wantPresent \<and> snd (subscriptionIdentityStateLocked c identity) \<noteq> fingerprint))
      in (token, c \<lparr> wc_admissionSeq := token,
            wc_admissions := AList.update identity
              \<lparr> wa_token = token, wa_wantPresent = wantPresent, wa_fingerprint = fingerprint,
                wa_stale = stale \<rparr> (wc_admissions c) \<rparr>))"

definition unregisterWireAdmission :: "jval \<Rightarrow> nat \<Rightarrow> 'l Client \<Rightarrow> 'l Client" where
  "unregisterWireAdmission identity token c =
     (case map_of (wc_admissions c) identity of
        None \<Rightarrow> c
      | Some admission \<Rightarrow>
          if wa_token admission = token
          then c \<lparr> wc_admissions := AList.delete identity (wc_admissions c) \<rparr> else c)"

section \<open>Reconnecting\<close>

datatype reconnectWaitResult = ReconnectWaitStopped | ReconnectWaitElapsed | ReconnectWaitWoken

text \<open>
  What a wait meets: whether the manager is closed before and after, whether subscriptions are
  registered (and if not, whether one comes before the client closes), and what ends the select.
\<close>

record reconnect_wait =
  rw_closed_before :: bool
  rw_subscriptions :: bool
  rw_one_comes :: bool
  rw_select :: reconnectWaitResult
  rw_closed_after :: bool

definition waitReconnect :: "reconnect_wait \<Rightarrow> reconnectWaitResult" where
  "waitReconnect w =
     (if rw_closed_before w then ReconnectWaitStopped
      else if \<not> rw_subscriptions w
      then (if rw_one_comes w then ReconnectWaitWoken else ReconnectWaitStopped)
      else if rw_closed_after w then ReconnectWaitStopped else rw_select w)"

text \<open>
  The turns of \<^verbatim>\<open>run\<close>: whether the dial succeeded and the wait that follows. The result has the
  attempt number with which each wait was entered.
\<close>

fun run_turns :: "(bool \<times> reconnect_wait) list \<Rightarrow> nat \<Rightarrow> nat list" where
  "run_turns [] reconnectAttempt = []"
| "run_turns ((dialed, w) # rest) reconnectAttempt =
     (let attempt = (if dialed then 0 else reconnectAttempt) in
      attempt # (case waitReconnect w of
         ReconnectWaitStopped \<Rightarrow> []
       | ReconnectWaitElapsed \<Rightarrow> run_turns rest (attempt + 1)
       | ReconnectWaitWoken \<Rightarrow> run_turns rest attempt))"

section \<open>Steps of a manager\<close>

text \<open>
  \<^verbatim>\<open>serve\<close> runs the sections below in any order beside the registry; the connection, the timer and
  the socket decide which. A generation ends where \<^verbatim>\<open>serve\<close> returns.
\<close>

datatype manager_op =
    Registry client_op
  | Connect
  | Synchronize
  | SyncTurn
  | SyncCommit int write_end
  | Frame "jval option"
  | AckTimer int
  | Disconnect

type_synonym ('g, 'l) manager_state = "('g, 'l) client_state \<times> generation option"

definition put :: "('g, 'l) client_state \<Rightarrow> ('l Client \<times> generation) option \<times> gen_event list \<Rightarrow>
    ('g, 'l) manager_state \<times> gen_event list" where
  "put cs r = (case r of
     (None, es) \<Rightarrow> ((cs, None), es)
   | (Some (c, gn), es) \<Rightarrow> ((((fst (fst cs), c), snd cs), Some gn), es))"

fun manager_step :: "('g, 'l) gate_ops \<Rightarrow> (jval \<Rightarrow> string) \<Rightarrow> (string \<Rightarrow> (string \<times> jval) list option) \<Rightarrow>
    int \<Rightarrow> manager_op \<Rightarrow> ('g, 'l) manager_state \<Rightarrow> ('g, 'l) manager_state \<times> gen_event list" where
  "manager_step ops raw decode timeout (Registry op) (cs, g) = ((client_step ops cs op, g), [])"
| "manager_step ops raw decode timeout Connect (cs, None) = ((cs, Some new_generation), [Opened])"
| "manager_step ops raw decode timeout Connect (cs, Some gn) = ((cs, Some gn), [])"
| "manager_step ops raw decode timeout op (cs, None) = ((cs, None), [])"
| "manager_step ops raw decode timeout Synchronize (cs, Some gn) =
     ((cs, Some (sync_start (snd (fst cs)) gn)), [])"
| "manager_step ops raw decode timeout SyncTurn (cs, Some gn) =
     (let (gn', es) = sync_turn gn in ((cs, Some gn'), es))"
| "manager_step ops raw decode timeout (SyncCommit now e) (cs, Some gn) =
     (let (r, es) = sync_commit timeout now (snd (fst cs)) e gn in ((cs, r), es))"
| "manager_step ops raw decode timeout (Frame data) (cs, Some gn) =
     put cs (dispatch raw decode data (snd (fst cs), gn))"
| "manager_step ops raw decode timeout (AckTimer now) (cs, Some gn) =
     ((cs, None), snd (failExpiredAcknowledgement now (snd (fst cs), gn)))"
| "manager_step ops raw decode timeout Disconnect (cs, Some gn) = ((cs, None), [])"

fun manager_run :: "('g, 'l) gate_ops \<Rightarrow> (jval \<Rightarrow> string) \<Rightarrow> (string \<Rightarrow> (string \<times> jval) list option) \<Rightarrow>
    int \<Rightarrow> manager_op list \<Rightarrow> ('g, 'l) manager_state \<Rightarrow> ('g, 'l) manager_state \<times> gen_event list" where
  "manager_run ops raw decode timeout [] s = (s, [])"
| "manager_run ops raw decode timeout (x # xs) s =
     (let (s1, e1) = manager_step ops raw decode timeout x s;
          (s2, e2) = manager_run ops raw decode timeout xs s1
      in (s2, e1 @ e2))"

end
