(* ===== verification/WsSession.thy ===== *)
theory WsSession
  imports WsManager
begin

text \<open>
  What a connection generation promises the server: its events are a session in which no identity is
  subscribed twice, an acknowledgement or rejection answers an outstanding request, and a stream is
  told that it is subscribed only while the server has acknowledged its identity.
\<close>

section \<open>The session\<close>

record session =
  se_told :: "jval set"
  se_outstanding :: "jval set"
  se_live :: "jval set"

definition fresh_session :: session where
  "fresh_session = \<lparr> se_told = {}, se_outstanding = {}, se_live = {} \<rparr>"

definition forget :: "jval \<Rightarrow> session \<Rightarrow> session" where
  "forget i s = \<lparr> se_told = se_told s - {i}, se_outstanding = se_outstanding s - {i},
     se_live = se_live s - {i} \<rparr>"

fun session_step :: "session \<Rightarrow> gen_event \<Rightarrow> session option" where
  "session_step s Opened = Some fresh_session"
| "session_step s (Sent method i w) =
     (if method = ''subscribe''
      then (if i \<in> se_told s then None
            else Some \<lparr> se_told = insert i (se_told s), se_outstanding = insert i (se_outstanding s),
                   se_live = se_live s - {i} \<rparr>)
      else Some (forget i s))"
| "session_step s (Acked i) =
     (if i \<in> se_outstanding s
      then Some (s \<lparr> se_outstanding := se_outstanding s - {i}, se_live := insert i (se_live s) \<rparr>)
      else None)"
| "session_step s (RejectedRequest method i) =
     (if method = ''subscribe''
      then (if i \<in> se_outstanding s then Some (forget i s) else None)
      else Some s)"
| "session_step s (Notified ptr i st) =
     (if st = SubscriptionStateSubscribed \<and> i \<notin> se_live s then None else Some s)"
| "session_step s _ = Some s"

fun session_run :: "session \<Rightarrow> gen_event list \<Rightarrow> session option" where
  "session_run s [] = Some s"
| "session_run s (e # es) = Option.bind (session_step s e) (\<lambda>s'. session_run s' es)"

lemma session_run_append:
  "session_run s (xs @ ys) = Option.bind (session_run s xs) (\<lambda>s'. session_run s' ys)"
  by (induction xs arbitrary: s) (auto split: bind_split)

text \<open>Events that leave the session as it is.\<close>

definition quiet :: "session \<Rightarrow> gen_event \<Rightarrow> bool" where
  "quiet s e \<longleftrightarrow> session_step s e = Some s"

lemma session_run_quiet: "list_all (quiet s) es \<Longrightarrow> session_run s es = Some s"
  by (induction es) (simp_all add: quiet_def)

section \<open>The invariant of a generation\<close>

definition entry_ok :: "groups \<Rightarrow> (string \<times> jval) \<times> pendingSubscriptionAck \<Rightarrow> bool" where
  "entry_ok subscribed e \<longleftrightarrow> fst e = (pa_method (snd e), pa_identity (snd e)) \<and>
     pa_method (snd e) \<in> {''subscribe'', ''unsubscribe''} \<and>
     (pa_method (snd e) = ''subscribe'' \<longrightarrow> pa_identity (snd e) \<in> fst ` set subscribed)"

definition pendings_ok :: "groups \<Rightarrow> pendings \<Rightarrow> bool" where
  "pendings_ok subscribed pending \<longleftrightarrow>
     distinct (map fst pending) \<and> (\<forall>e \<in> set pending. entry_ok subscribed e)"

definition unacked :: "activeWireSubscription \<Rightarrow> bool" where
  "unacked g \<longleftrightarrow> \<not> aw_acked g"

fun intent_ok :: "intent \<Rightarrow> bool" where
  "intent_ok (Examine i) \<longleftrightarrow> True"
| "intent_ok (Offer i g) \<longleftrightarrow> unacked g"

definition waiting_ok :: "groups \<Rightarrow> frame option \<Rightarrow> bool" where
  "waiting_ok subscribed w \<longleftrightarrow> (case w of
     Some (WriteSubscribe i g) \<Rightarrow> unacked g \<and> i \<notin> fst ` set subscribed | _ \<Rightarrow> True)"

definition sync_ok :: "groups \<Rightarrow> synchronizer option \<Rightarrow> bool" where
  "sync_ok subscribed sy \<longleftrightarrow> (case sy of None \<Rightarrow> True | Some y \<Rightarrow>
     list_all intent_ok (sy_intents y) \<and> waiting_ok subscribed (sy_waiting y))"

definition generation_inv :: "generation \<Rightarrow> bool" where
  "generation_inv gn \<longleftrightarrow> distinct (map fst (gn_subscribed gn)) \<and>
     pendings_ok (gn_subscribed gn) (gn_pending gn) \<and> sync_ok (gn_subscribed gn) (gn_sync gn)"

definition live_of :: "groups \<Rightarrow> jval set" where
  "live_of subscribed = fst ` {p \<in> set subscribed. aw_acked (snd p)}"

definition outstanding_of :: "pendings \<Rightarrow> jval set" where
  "outstanding_of pending = {i. (''subscribe'', i) \<in> fst ` set pending}"

text \<open>The session that a generation stands for.\<close>

definition session_of :: "generation \<Rightarrow> session" where
  "session_of gn = \<lparr> se_told = fst ` set (gn_subscribed gn),
     se_outstanding = outstanding_of (gn_pending gn), se_live = live_of (gn_subscribed gn) \<rparr>"

section \<open>Updates of the maps\<close>

lemma keys_update [simp]: "fst ` set (AList.update k v al) = insert k (fst ` set al)"
  by (induction al) auto

lemma keys_delete [simp]: "fst ` set (AList.delete k al) = fst ` set al - {k}"
  by (induction al) auto

lemma live_delete [simp]: "live_of (AList.delete k al) = live_of al - {k}"
  by (auto simp: live_of_def AList.delete_eq)

lemma live_update:
  "distinct (map fst al) \<Longrightarrow> live_of (AList.update k g al) =
     (if aw_acked g then insert k (live_of al) else live_of al - {k})"
proof (induction al)
  case (Cons p al)
  obtain j h where p: "p = (j, h)" by fastforce
  have ins: "live_of ((i, x) # xs) = (if aw_acked x then insert i (live_of xs) else live_of xs)" for i x xs
    by (cases "aw_acked x") (auto simp: live_of_def image_iff Bex_def)
  have "j \<notin> live_of al" using Cons.prems by (auto simp: live_of_def p)
  then show ?case using Cons by (auto simp: p ins)
qed (auto simp: live_of_def image_iff)

lemma live_subset: "live_of al \<subseteq> fst ` set al"
  by (auto simp: live_of_def)

lemma outstanding_update [simp]: "outstanding_of (AList.update (m, i) p ps) =
    (if m = ''subscribe'' then insert i (outstanding_of ps) else outstanding_of ps)"
  by (auto simp: outstanding_of_def)

lemma outstanding_delete [simp]: "outstanding_of (AList.delete (m, i) ps) =
    (if m = ''subscribe'' then outstanding_of ps - {i} else outstanding_of ps)"
  by (auto simp: outstanding_of_def)

lemma acked_live: "map_of al k = Some g \<Longrightarrow> aw_acked g \<Longrightarrow> k \<in> live_of al"
  by (force simp: live_of_def dest: map_of_SomeD)

lemma map_of_keys: "(map_of al k = None) \<longleftrightarrow> k \<notin> fst ` set al"
  by (simp add: map_of_eq_None_iff)

section \<open>Pending acknowledgements\<close>

lemma pendings_ok_delete:
  assumes "pendings_ok s ps"
  shows "pendings_ok s (AList.delete k ps)"
  using assms by (auto simp: pendings_ok_def AList.delete_eq distinct_map_filter)

lemma pendings_ok_forget:
  assumes "pendings_ok s ps"
  shows "pendings_ok (AList.delete i s) (AList.delete (''subscribe'', i) ps)"
proof -
  have "entry_ok (AList.delete i s) e" if "entry_ok s e" "fst e \<noteq> (''subscribe'', i)" for e
    using that by (auto simp: entry_ok_def)
  then show ?thesis using assms
    by (auto simp: pendings_ok_def distinct_map_filter AList.delete_eq [of "(''subscribe'', i)"])
qed

lemma pendings_ok_update:
  assumes "pendings_ok s ps" "pa_method p \<in> {''subscribe'', ''unsubscribe''}"
    and "pa_method p = ''subscribe'' \<Longrightarrow> pa_identity p \<in> fst ` set s"
  shows "pendings_ok s (AList.update (pa_method p, pa_identity p) p ps)"
proof -
  have "set (AList.update k q ps) \<subseteq> insert (k, q) (set ps)" for k :: "string \<times> jval" and q
    by (induction ps) auto
  then have "e = ((pa_method p, pa_identity p), p) \<or> e \<in> set ps"
    if "e \<in> set (AList.update (pa_method p, pa_identity p) p ps)" for e
    using that by blast
  moreover have "entry_ok s ((pa_method p, pa_identity p), p)"
    using assms(2,3) by (auto simp: entry_ok_def)
  ultimately show ?thesis using assms(1) unfolding pendings_ok_def by (auto simp: distinct_update)
qed

lemma pendings_ok_keys:
  "pendings_ok s ps \<Longrightarrow> fst ` set s \<subseteq> fst ` set t \<Longrightarrow> pendings_ok t ps"
  by (auto simp: pendings_ok_def entry_ok_def)

lemma pending_entry:
  assumes "pendings_ok s ps" "(k, p) \<in> set ps"
  shows "k = (pa_method p, pa_identity p)" "pa_method p = ''subscribe'' \<or> pa_method p = ''unsubscribe''"
    "pa_method p = ''subscribe'' \<Longrightarrow> pa_identity p \<in> fst ` set s \<and> pa_identity p \<in> outstanding_of ps"
  using assms by (force simp: pendings_ok_def entry_ok_def outstanding_of_def)+

lemma best_match_in:
  "snd (best_match m r es b) = Some e \<Longrightarrow> e \<in> set es \<and> pa_method (snd e) = m \<or> snd b = Some e"
proof (induction es arbitrary: b)
  case (Cons x es)
  obtain k p where x: "x = (k, p)" by fastforce
  define b' where "b' = (if pa_method p \<noteq> m then b
    else case subscriptionMatchScore (sw_Subscription (pa_wire p)) r of None \<Rightarrow> b
      | Some s \<Rightarrow> if s > fst b then (s, Some x) else b)"
  have "best_match m r (x # es) b = best_match m r es b'"
      "b' = b \<or> snd b' = Some x \<and> pa_method (snd x) = m"
    by (auto simp: b'_def x split: option.splits)
  with Cons.prems Cons.IH [of b'] show ?case by auto
qed simp

lemma matching_in:
  "matchingPendingAcknowledgement m r ps = Some (k, p) \<Longrightarrow> (k, p) \<in> set ps \<and> pa_method p = m"
  unfolding matchingPendingAcknowledgement_def by (drule best_match_in) simp

lemma matching_error_in: "matchingErrorAcknowledgement m r ps = Some (k, p) \<Longrightarrow> (k, p) \<in> set ps"
proof (cases "m = ''''")
  case True
  assume "matchingErrorAcknowledgement m r ps = Some (k, p)"
  then have "filter (\<lambda>(k, q). subscriptionMatchScore (sw_Subscription (pa_wire q)) r \<noteq> None) ps = [(k, p)]"
    using True by (simp add: matchingErrorAcknowledgement_def split: list.splits)
  then have "(k, p) \<in> set (filter (\<lambda>(k, q). subscriptionMatchScore (sw_Subscription (pa_wire q)) r \<noteq> None) ps)"
    by simp
  then show ?thesis by simp
qed (auto simp: matchingErrorAcknowledgement_def dest: matching_in)

section \<open>Every step is a step of the session\<close>

definition simulates :: "generation \<Rightarrow> generation \<Rightarrow> gen_event list \<Rightarrow> bool" where
  "simulates gn gn' es \<longleftrightarrow>
     session_run (session_of gn) es = Some (session_of gn') \<and> generation_inv gn'"

lemma simulates_quiet:
  assumes "list_all (quiet (session_of gn)) es" "session_of gn' = session_of gn" "generation_inv gn'"
  shows "simulates gn gn' es"
  using assms session_run_quiet [OF assms(1)] by (simp add: simulates_def)

lemma update_unacked:
  assumes "\<forall>p \<in> set gs. unacked (snd p)" "unacked g"
  shows "\<forall>p \<in> set (AList.update i g gs). unacked (snd p)"
proof -
  have "set (AList.update i g gs) \<subseteq> insert (i, g) (set gs)" by (induction gs) auto
  then show ?thesis using assms by auto
qed

lemma add_member_unacked:
  assumes "\<forall>p \<in> set gs. unacked (snd p)"
  shows "\<forall>p \<in> set (add_member s gs). unacked (snd p)"
  unfolding add_member_def Let_def
  using assms by (intro update_unacked [OF assms])
    (auto simp: unacked_def split: option.splits dest!: map_of_SomeD)

lemma current_unacked: "\<forall>p \<in> set (current_groups c). unacked (snd p)"
proof -
  have "\<forall>p \<in> set gs. unacked (snd p) \<Longrightarrow> \<forall>p \<in> set (fold add_member ss gs). unacked (snd p)" for ss gs
  proof (induction ss arbitrary: gs)
    case (Cons s ss)
    then show ?case using add_member_unacked [OF Cons.prems, of s] by (simp only: fold_simps)
  qed simp
  from this [of "[]"] have "\<forall>p \<in> set (fold add_member (map snd (wc_subs c)) []). unacked (snd p)" by simp
  moreover have "unacked (canonical_group g) = unacked g" for g
    by (simp add: canonical_group_def unacked_def)
  ultimately show ?thesis by (auto simp: current_groups_def)
qed

lemma start_simulates:
  assumes "generation_inv gn"
  shows "simulates gn (sync_start c gn) []"
proof (cases "gn_sync gn")
  case None
  have "list_all intent_ok (map (\<lambda>(identity, grp). Offer identity grp) (current_groups c))"
    using current_unacked [of c] by (auto simp: list_all_iff)
  moreover have "list_all intent_ok (map (\<lambda>p. Examine (fst p)) (gn_subscribed gn))"
    by (simp add: list_all_iff)
  ultimately show ?thesis using assms None
    by (simp add: simulates_def sync_start_def Let_def session_of_def generation_inv_def sync_ok_def
        waiting_ok_def)
qed (use assms in \<open>simp add: simulates_def sync_start_def\<close>)

lemma quiet_connected: "list_all (quiet s) (map (\<lambda>(key, ptr). Notified ptr i SubscriptionStateConnected) ms)"
  by (auto simp: list_all_iff quiet_def)

lemma quiet_subscribed: "i \<in> se_live s \<Longrightarrow> list_all (quiet s) (map (\<lambda>(key, ptr). Notified ptr i st) ms)"
  by (auto simp: list_all_iff quiet_def)

lemma quiet_adopt:
  "(aw_acked active \<Longrightarrow> i \<in> se_live s) \<Longrightarrow> list_all (quiet s) (adopt_events i active grp)"
  by (auto simp: adopt_events_def list_all_iff quiet_def)

lemma turn_simulates:
  assumes inv: "generation_inv gn" and t: "sync_turn gn = (gn', es)"
  shows "simulates gn gn' es"
proof (cases "gn_sync gn")
  case None
  then show ?thesis using inv t by (simp add: sync_turn_def simulates_def)
next
  case (Some sy)
  have d: "distinct (map fst (gn_subscribed gn))" and p: "pendings_ok (gn_subscribed gn) (gn_pending gn)"
    and ok: "list_all intent_ok (sy_intents sy)" "waiting_ok (gn_subscribed gn) (sy_waiting sy)"
    using inv by (simp_all add: generation_inv_def Some sync_ok_def)
  show ?thesis
  proof (cases "sy_waiting sy")
    case (Some w)
    then show ?thesis using inv t \<open>gn_sync gn = Some sy\<close> by (simp add: sync_turn_def simulates_def)
  next
    case waiting: None
    show ?thesis
    proof (cases "sy_intents sy")
      case Nil
      then show ?thesis using t d p waiting Some
        by (auto simp: sync_turn_def simulates_def session_of_def generation_inv_def sync_ok_def)
    next
      case (Cons x rest)
      show ?thesis
      proof (cases x)
        case (Examine i)
        show ?thesis
        proof (cases "map_of (gn_subscribed gn) i")
          case None
          then show ?thesis using t d p ok waiting Some Cons Examine
            by (auto simp: sync_turn_def simulates_def session_of_def generation_inv_def sync_ok_def Let_def)
        next
          case (Some active)
          show ?thesis
          proof (cases "map_of (sy_current sy) i")
            case None
            then show ?thesis using t d p ok waiting \<open>gn_sync gn = Some sy\<close> Some Cons Examine
              by (auto simp: sync_turn_def simulates_def session_of_def generation_inv_def sync_ok_def
                  Let_def waiting_ok_def)
          next
            case (Some grp)
            have i: "(i, active) \<in> set (gn_subscribed gn)"
              using \<open>map_of _ i = Some active\<close> by (rule map_of_SomeD)
            then have k: "insert i (fst ` set (gn_subscribed gn)) = fst ` set (gn_subscribed gn)" by force
            have live: "aw_acked active \<longleftrightarrow> i \<in> live_of (gn_subscribed gn)"
              using i d by (force simp: live_of_def dest: eq_key_imp_eq_value)
            have e: "es = adopt_events i active grp" and
              g: "gn' = gn \<lparr> gn_subscribed := AList.update i (active \<lparr> aw_members := aw_members grp \<rparr>)
                (gn_subscribed gn), gn_sync := Some (sy \<lparr> sy_intents := rest \<rparr>) \<rparr>"
              using t waiting \<open>gn_sync gn = Some sy\<close> \<open>map_of _ i = Some active\<close> Some Cons Examine
              by (simp_all add: sync_turn_def Let_def)
            show ?thesis
            proof (rule simulates_quiet)
              show "list_all (quiet (session_of gn)) es"
                unfolding e using live by (intro quiet_adopt) (simp add: session_of_def)
              show "session_of gn' = session_of gn"
                using live k by (auto simp: g session_of_def live_update d)
              show "generation_inv gn'" using d ok Cons waiting pendings_ok_keys [OF p]
                by (simp add: g generation_inv_def distinct_update sync_ok_def waiting_ok_def subset_insertI)
            qed
          qed
        qed
      next
        case (Offer i grp)
        then show ?thesis using t d p ok waiting Some Cons
          session_run_quiet [OF quiet_connected, of "session_of gn" i "aw_members grp"]
          by (auto simp: sync_turn_def simulates_def session_of_def generation_inv_def sync_ok_def Let_def
            waiting_ok_def map_of_keys split: if_splits)
      qed
    qed
  qed
qed

text \<open>The frames: a written frame is a step of the session, and a skipped one changes nothing.\<close>

lemma waiting_cleared:
  "generation_inv gn \<Longrightarrow> gn_sync gn = Some sy \<Longrightarrow>
   generation_inv (gn \<lparr> gn_sync := Some (sy \<lparr> sy_waiting := None \<rparr>) \<rparr>)"
  by (simp add: generation_inv_def sync_ok_def waiting_ok_def)

lemma session_of_sync [simp]: "session_of (gn \<lparr> gn_sync := x \<rparr>) = session_of gn"
  by (simp add: session_of_def)

lemma unsubscribe_simulates:
  assumes "generation_inv gn" "gn_sync gn = Some sy" "pa_method p = ''unsubscribe''" "pa_identity p = i"
  shows "simulates gn (gn \<lparr> gn_sync := Some (sy \<lparr> sy_waiting := None \<rparr>),
      gn_pending := AList.update (''unsubscribe'', i) p
        (AList.delete (''subscribe'', i) (gn_pending gn)),
      gn_subscribed := AList.delete i (gn_subscribed gn) \<rparr>) [Sent ''unsubscribe'' i w]"
proof -
  have "pendings_ok (AList.delete i (gn_subscribed gn))
      (AList.delete (''subscribe'', i) (gn_pending gn))"
    using assms(1) by (simp add: generation_inv_def pendings_ok_forget)
  then have "pendings_ok (AList.delete i (gn_subscribed gn))
      (AList.update (pa_method p, pa_identity p) p (AList.delete (''subscribe'', i) (gn_pending gn)))"
    by (rule pendings_ok_update) (simp_all add: assms(3))
  then show ?thesis unfolding assms(3,4) using assms(1,2)
    by (simp add: simulates_def session_of_def forget_def generation_inv_def sync_ok_def
        waiting_ok_def distinct_delete)
qed

lemma subscribe_simulates:
  assumes "generation_inv gn" "gn_sync gn = Some sy" "pa_method p = ''subscribe''" "pa_identity p = i"
    and "unacked g" "i \<notin> fst ` set (gn_subscribed gn)"
  shows "simulates gn (gn \<lparr> gn_sync := Some (sy \<lparr> sy_waiting := None \<rparr>),
      gn_subscribed := AList.update i g (gn_subscribed gn),
      gn_pending := AList.update (''subscribe'', i) p (gn_pending gn) \<rparr>) [Sent ''subscribe'' i w]"
proof -
  have "pendings_ok (AList.update i g (gn_subscribed gn)) (gn_pending gn)"
    using assms(1) pendings_ok_keys [of "gn_subscribed gn" "gn_pending gn" "AList.update i g (gn_subscribed gn)"]
    by (simp add: generation_inv_def subset_insertI)
  then have "pendings_ok (AList.update i g (gn_subscribed gn))
      (AList.update (pa_method p, pa_identity p) p (gn_pending gn))"
    by (rule pendings_ok_update) (simp_all add: assms(3,4))
  then show ?thesis unfolding assms(3,4) using assms(1,2,5,6)
    by (simp add: simulates_def session_of_def generation_inv_def sync_ok_def
        waiting_ok_def distinct_update live_update unacked_def)
qed

lemma commit_simulates:
  assumes inv: "generation_inv gn" and r: "sync_commit timeout now c e gn = (Some gn', es)"
  shows "simulates gn gn' es"
proof (cases "gn_sync gn")
  case None
  then show ?thesis using assms by (simp add: sync_commit_def simulates_def)
next
  case (Some sy)
  show ?thesis
  proof (cases "sy_waiting sy")
    case None
    then show ?thesis using assms Some by (simp add: sync_commit_def simulates_def)
  next
    case waiting: (Some w)
    show ?thesis
    proof (cases w)
      case (WriteUnsubscribe i wire)
      show ?thesis
      proof (cases "writeJSON c i False wire e")
        case Written
        then show ?thesis using r Some waiting WriteUnsubscribe unsubscribe_simulates [OF inv Some]
          by (auto simp: sync_commit_def Let_def pendingAckKey_def)
      qed (use r Some waiting WriteUnsubscribe waiting_cleared [OF inv Some] in
          \<open>auto simp: sync_commit_def Let_def simulates_def\<close>)
    next
      case (WriteSubscribe i g)
      have ok: "unacked g" "i \<notin> fst ` set (gn_subscribed gn)"
        using inv Some waiting WriteSubscribe by (simp_all add: generation_inv_def sync_ok_def waiting_ok_def)
      show ?thesis
      proof (cases "writeJSON c i True (aw_wire g) e")
        case Written
        then show ?thesis using r Some waiting WriteSubscribe subscribe_simulates [OF inv Some _ _ ok]
          by (auto simp: sync_commit_def Let_def pendingAckKey_def)
      qed (use r Some waiting WriteSubscribe waiting_cleared [OF inv Some] in
          \<open>auto simp: sync_commit_def Let_def simulates_def\<close>)
    qed
  qed
qed

lemma quiet_reported: "quiet s (ReportedAll m)" "quiet s (ReportedTo p m)"
    "quiet s (Terminated p i m)" "quiet s (Delivered p d)"
  by (simp_all add: quiet_def)

lemma commit_failure_quiet:
  "sync_commit timeout now c e gn = (None, es) \<Longrightarrow> list_all (quiet s) es"
  by (auto simp: sync_commit_def Let_def quiet_reported
      split: option.splits frame.splits write_result.splits)

text \<open>Rejections.\<close>

lemma waiting_ok_delete: "waiting_ok s w \<Longrightarrow> waiting_ok (AList.delete i s) w"
  by (auto simp: waiting_ok_def split: option.splits frame.splits)

lemma sync_ok_delete: "sync_ok s sy \<Longrightarrow> sync_ok (AList.delete i s) sy"
  by (auto simp: sync_ok_def waiting_ok_delete split: option.splits)

lemma reject_forgets:
  assumes inv: "generation_inv gn" and r: "rejectWireSubscription i err (c, gn) = ((c', gn'), es)"
  shows "session_of gn' = forget i (session_of gn)" "generation_inv gn'" "list_all (quiet s) es"
    "gn_pending gn' = AList.delete (''subscribe'', i) (gn_pending gn)"
proof -
  obtain d c1 where dt: "detachSubscriptionIdentity i c = (d, c1)" by fastforce
  have g: "gn' = gn \<lparr> gn_pending := AList.delete (''subscribe'', i) (gn_pending gn),
      gn_subscribed := AList.delete i (gn_subscribed gn) \<rparr>"
    and e: "es = map (\<lambda>(key, ptr). Terminated ptr i err)
      (map (\<lambda>s. (ms_key s, ms_ptr s)) d @
       (case map_of (gn_subscribed gn) i of None \<Rightarrow> [] | Some a \<Rightarrow> filter (\<lambda>(key, ptr).
          key \<notin> ms_key ` set d) (aw_members a)))"
    using r [symmetric] by (simp_all add: rejectWireSubscription_def pendingAckKey_def Let_def dt)
  show "session_of gn' = forget i (session_of gn)" by (simp add: g session_of_def forget_def)
  show "generation_inv gn'" using inv
    by (simp add: g generation_inv_def distinct_delete pendings_ok_forget sync_ok_delete)
  have "list_all (quiet s) (map (\<lambda>(key, ptr). Terminated ptr i err) ms)" for ms :: "(string \<times> nat) list"
    by (auto simp: list_all_iff quiet_reported)
  then show "list_all (quiet s) es" unfolding e .
  show "gn_pending gn' = AList.delete (''subscribe'', i) (gn_pending gn)" by (simp add: g)
qed

lemma forget_absent:
  "i \<notin> se_told s \<Longrightarrow> i \<notin> se_outstanding s \<Longrightarrow> i \<notin> se_live s \<Longrightarrow> forget i s = s"
  by (simp add: forget_def)

lemma forget_forget [simp]: "forget i (forget i s) = forget i s"
  by (simp add: forget_def)

lemma pending_outstanding:
  assumes "generation_inv gn" "(k, p) \<in> set (gn_pending gn)" "pa_method p = ''subscribe''"
  shows "pa_identity p \<in> se_outstanding (session_of gn)" "k = (''subscribe'', pa_identity p)"
  using pending_entry [of "gn_subscribed gn" "gn_pending gn" k p] assms
  by (simp_all add: generation_inv_def session_of_def)

lemma delete_pending_inv:
  "generation_inv gn \<Longrightarrow> generation_inv (gn \<lparr> gn_pending := AList.delete k (gn_pending gn) \<rparr>)"
  by (simp add: generation_inv_def pendings_ok_delete)

lemma session_delete_subscribe:
  "forget i (session_of (gn \<lparr> gn_pending := AList.delete (''subscribe'', i) (gn_pending gn) \<rparr>)) =
   forget i (session_of gn)"
  by (auto simp: session_of_def forget_def)

lemma session_delete_other:
  "fst k \<noteq> ''subscribe'' \<Longrightarrow>
   session_of (gn \<lparr> gn_pending := AList.delete k (gn_pending gn) \<rparr>) = session_of gn"
  by (cases k) (simp add: session_of_def)

lemma reject_simulates:
  assumes inv: "generation_inv gn" and i: "i \<in> se_outstanding (session_of gn)"
    and g1: "gn1 = gn \<or> gn1 = gn \<lparr> gn_pending := AList.delete (''subscribe'', i) (gn_pending gn) \<rparr>"
    and r: "rejectWireSubscription i err (c, gn1) = ((c', gn'), es)"
  shows "simulates gn gn' (RejectedRequest ''subscribe'' i # es)"
proof -
  have inv1: "generation_inv gn1" using g1 inv delete_pending_inv by metis
  note f = reject_forgets [OF inv1 r]
  have "session_of gn' = forget i (session_of gn)" using f(1) g1 session_delete_subscribe by metis
  then show ?thesis using f(2) i session_run_quiet [OF f(3)] by (simp add: simulates_def)
qed

lemma reject_pending_simulates:
  assumes inv: "generation_inv gn" and p: "(key, request) \<in> set (gn_pending gn)"
    and r: "rejectPendingAcknowledgement key request err (c, gn) = ((c', gn'), es)"
  shows "simulates gn gn' es"
proof (cases "pa_method request = ''subscribe''")
  case True
  note o = pending_outstanding [OF inv p True]
  obtain e1 where "rejectWireSubscription (pa_identity request) err
      (c, gn \<lparr> gn_pending := AList.delete (''subscribe'', pa_identity request) (gn_pending gn) \<rparr>) =
      ((c', gn'), e1)" "es = RejectedRequest ''subscribe'' (pa_identity request) # e1"
    using r True by (auto simp: rejectPendingAcknowledgement_def Let_def o(2) split: prod.splits)
  then show ?thesis using reject_simulates [OF inv o(1) disjI2 [OF refl]] by simp
next
  case False
  have "pendings_ok (gn_subscribed gn) (gn_pending gn)" using inv by (simp add: generation_inv_def)
  then have "fst key \<noteq> ''subscribe''" using pending_entry(1) [OF _ p] False by fastforce
  then show ?thesis using r False inv
    by (auto simp: rejectPendingAcknowledgement_def simulates_def session_delete_other delete_pending_inv)
qed

lemma simulates_trans:
  "simulates g1 g2 e1 \<Longrightarrow> simulates g2 g3 e2 \<Longrightarrow> simulates g1 g3 (e1 @ e2)"
  by (simp add: simulates_def session_run_append)

lemma reject_all_simulates:
  assumes "generation_inv gn" "distinct ids" "set ids \<subseteq> se_outstanding (session_of gn)"
    and "reject_all err ids (c, gn) = ((c', gn'), es)"
  shows "simulates gn gn' es"
  using assms
proof (induction ids arbitrary: c gn es)
  case Nil
  then show ?case by (simp add: simulates_def)
next
  case (Cons i ids)
  obtain c1 gn1 e1 where r: "rejectWireSubscription i err (c, gn) = ((c1, gn1), e1)"
    by (metis prod.collapse)
  obtain e2 where r2: "reject_all err ids (c1, gn1) = ((c', gn'), e2)"
    and es: "es = RejectedRequest ''subscribe'' i # e1 @ e2"
    using Cons.prems(4) by (auto simp: r split: prod.splits)
  have s1: "simulates gn gn1 (RejectedRequest ''subscribe'' i # e1)"
    using Cons.prems by (intro reject_simulates [OF _ _ _ r]) simp_all
  have "session_of gn1 = forget i (session_of gn)" using reject_forgets(1) [OF Cons.prems(1) r] .
  then have "set ids \<subseteq> se_outstanding (session_of gn1)"
    using Cons.prems(2,3) by (auto simp: forget_def)
  then have "simulates gn1 gn' e2"
    using Cons.IH [OF _ _ _ r2] s1 Cons.prems(2) by (simp add: simulates_def)
  from simulates_trans [OF s1 this] show ?case by (simp add: es)
qed

lemma pending_identities:
  assumes "generation_inv gn"
  defines "ids \<equiv> map (\<lambda>e. pa_identity (snd e))
      (filter (\<lambda>e. pa_method (snd e) = ''subscribe'') (gn_pending gn))"
  shows "distinct ids" "set ids \<subseteq> se_outstanding (session_of gn)"
proof -
  have p: "pendings_ok (gn_subscribed gn) (gn_pending gn)" using assms(1) by (simp add: generation_inv_def)
  have k: "fst e = (''subscribe'', pa_identity (snd e))"
    if "e \<in> set (filter (\<lambda>e. pa_method (snd e) = ''subscribe'') (gn_pending gn))" for e
    using pending_entry(1) [OF p, of "fst e" "snd e"] that by simp
  then have "map fst (filter (\<lambda>e. pa_method (snd e) = ''subscribe'') (gn_pending gn)) =
      map (Pair ''subscribe'') ids"
    by (simp add: ids_def)
  moreover have "distinct (map fst (filter (\<lambda>e. pa_method (snd e) = ''subscribe'') (gn_pending gn)))"
    using p by (simp add: pendings_ok_def distinct_map_filter)
  ultimately show "distinct ids" by (simp add: distinct_map)
  show "set ids \<subseteq> se_outstanding (session_of gn)"
    using pending_outstanding(1) [OF assms(1)] by (force simp: ids_def)
qed

lemma error_simulates:
  assumes inv: "generation_inv gn"
    and r: "rejectPendingSubscriptions payload (c, gn) = ((c', gn'), es)"
  shows "simulates gn gn' es"
proof (cases payload)
  case (NamesRequest m sub msg)
  then show ?thesis using r inv reject_pending_simulates [OF inv] matching_in
    by (fastforce simp: rejectPendingSubscriptions_def simulates_def split: option.splits)
next
  case (EmbedsRequest m sub msg)
  then show ?thesis using r inv reject_pending_simulates [OF inv] matching_error_in
    by (fastforce simp: rejectPendingSubscriptions_def simulates_def split: option.splits)
next
  case (Unrelated msg)
  then show ?thesis using r reject_all_simulates [OF inv pending_identities [OF inv]]
    by (simp add: rejectPendingSubscriptions_def)
qed

text \<open>
  A refused unsubscription: the code forgets the identity, which the server keeps. The session
  is only followed up to such an answer.
\<close>

fun accepted :: "gen_event \<Rightarrow> bool" where
  "accepted (RejectedRequest method i) \<longleftrightarrow> method = ''subscribe''"
| "accepted _ \<longleftrightarrow> True"

lemma sync_ok_cong: "fst ` set s = fst ` set t \<Longrightarrow> sync_ok s y = sync_ok t y"
  by (simp add: sync_ok_def waiting_ok_def split: option.splits frame.splits)

lemma acked_simulates:
  assumes inv: "generation_inv gn" and p: "((''subscribe'', i), request) \<in> set (gn_pending gn)"
    and a: "map_of (gn_subscribed gn) i = Some active"
  shows "simulates gn (gn \<lparr> gn_pending := AList.delete (''subscribe'', i) (gn_pending gn),
      gn_subscribed := AList.update i (active \<lparr> aw_acked := True \<rparr>) (gn_subscribed gn) \<rparr>)
    (Acked i # map (\<lambda>(key, ptr). Notified ptr i SubscriptionStateSubscribed) ms)"
proof -
  let ?gn = "gn \<lparr> gn_pending := AList.delete (''subscribe'', i) (gn_pending gn),
      gn_subscribed := AList.update i (active \<lparr> aw_acked := True \<rparr>) (gn_subscribed gn) \<rparr>"
  have d: "distinct (map fst (gn_subscribed gn))" using inv by (simp add: generation_inv_def)
  have i: "insert i (fst ` set (gn_subscribed gn)) = fst ` set (gn_subscribed gn)"
    using a by (force dest: map_of_SomeD)
  have o: "i \<in> outstanding_of (gn_pending gn)" using p by (force simp: outstanding_of_def)
  have "session_step (session_of gn) (Acked i) = Some (session_of ?gn)"
    using o i by (simp add: session_of_def live_update d)
  moreover have "list_all (quiet (session_of ?gn))
      (map (\<lambda>(key, ptr). Notified ptr i SubscriptionStateSubscribed) ms)"
    by (rule quiet_subscribed) (simp add: session_of_def live_update d)
  moreover have "generation_inv ?gn"
  proof -
    have "pendings_ok (AList.update i (active \<lparr> aw_acked := True \<rparr>) (gn_subscribed gn))
        (AList.delete (''subscribe'', i) (gn_pending gn))"
      using inv pendings_ok_keys [OF pendings_ok_delete [of "gn_subscribed gn" "gn_pending gn"]]
      by (simp add: generation_inv_def subset_insertI)
    moreover have "sync_ok (AList.update i (active \<lparr> aw_acked := True \<rparr>) (gn_subscribed gn)) (gn_sync gn)"
      using inv sync_ok_cong [of "AList.update i (active \<lparr> aw_acked := True \<rparr>) (gn_subscribed gn)"] i
      by (simp add: generation_inv_def)
    ultimately show ?thesis by (simp add: generation_inv_def distinct_update d)
  qed
  ultimately show ?thesis using session_run_quiet by (simp add: simulates_def)
qed

lemma ack_simulates:
  assumes inv: "generation_inv gn"
    and r: "acknowledgeSubscription raw data (c, gn) = (Some (c', gn'), es)"
    and ok: "list_all accepted es"
  shows "simulates gn gn' es"
proof -
  obtain response sub where m: "parse set_subscriptionResponse
      \<lparr> re_Method = '''', re_Subscription = None, re_Error = None \<rparr> data = Inr response"
    "re_Method response \<noteq> ''''" "re_Subscription response = Some sub"
    using r by (auto simp: acknowledgeSubscription_def Let_def split: sum.splits option.splits if_splits)
  show ?thesis
  proof (cases "matchingPendingAcknowledgement (re_Method response) sub (gn_pending gn)")
    case None
    then show ?thesis using r m inv by (simp add: acknowledgeSubscription_def Let_def simulates_def)
  next
    case (Some kp)
    obtain key p where kp: "kp = (key, p)" by fastforce
    have e: "(key, p) \<in> set (gn_pending gn)" using matching_in Some kp by blast
    have po: "pendings_ok (gn_subscribed gn) (gn_pending gn)" using inv by (simp add: generation_inv_def)
    have key: "key = (pa_method p, pa_identity p)" by (rule pending_entry(1) [OF po e])
    let ?gn1 = "gn \<lparr> gn_pending := AList.delete key (gn_pending gn) \<rparr>"
    show ?thesis
    proof (cases "re_Error response \<noteq> None \<and> re_Error response \<noteq> Some JNull")
      case True
      obtain err e1 where x: "rejectWireSubscription (pa_identity p) err (c, ?gn1) = ((c', gn'), e1)"
        "es = RejectedRequest (pa_method p) (pa_identity p) # e1"
        using r True m Some kp by (auto simp: acknowledgeSubscription_def Let_def split: prod.splits)
      then have s: "pa_method p = ''subscribe''" using ok by simp
      show ?thesis using reject_simulates [OF inv pending_outstanding(1) [OF inv e s] _ x(1)] x(2)
        by (simp add: key s)
    next
      case False
      then have err: "re_Error response = None \<or> re_Error response = Some JNull" by blast
      show ?thesis
      proof (cases "pa_method p = ''subscribe''")
        case True
        obtain active where a: "map_of (gn_subscribed gn) (pa_identity p) = Some active"
          using pending_entry(3) [OF po e True] map_of_keys [of "gn_subscribed gn" "pa_identity p"]
          by blast
        have "((''subscribe'', pa_identity p), p) \<in> set (gn_pending gn)" using e key True by simp
        from acked_simulates [OF inv this a] show ?thesis
          using r m Some kp key True a err unfolding acknowledgeSubscription_def
          by (auto simp: Let_def simp del: map_of_eq_Some_iff)
      next
        case False
        then show ?thesis using r m Some kp key inv session_delete_other [of key gn] delete_pending_inv
          err unfolding acknowledgeSubscription_def by (auto simp: Let_def simulates_def)
      qed
    qed
  qed
qed

lemma dispatch_channel:
  "parse set_envelope_frame ('''', None) data = Inr (ch, payload) \<Longrightarrow> ch \<noteq> '''' \<Longrightarrow>
   dispatch raw decode data cg =
     (if ch = ''subscriptionResponse'' then acknowledgeSubscription raw payload cg
      else if ch = ''error'' \<and> gn_pending (snd cg) \<noteq> []
      then (let (cg', es) = rejectPendingSubscriptions (error_payload_of raw decode payload) cg
            in (Some cg', es))
      else (Some cg, dispatchChannel (fst cg) ch payload))"
  unfolding dispatch_def by (cases ch) (simp_all only: Let_def sum.case prod.case list.case)

lemma dispatch_simulates:
  assumes inv: "generation_inv gn"
    and r: "dispatch raw decode data (c, gn) = (Some (c', gn'), es)" and ok: "list_all accepted es"
  shows "simulates gn gn' es"
proof -
  have delivered: "simulates gn gn (dispatchChannel x ch d)" for x :: "'a Client" and ch d
    using inv by (intro simulates_quiet) (auto simp: dispatchChannel_def list_all_iff quiet_reported)
  have reported: "simulates gn gn [ReportedAll m]" for m
    using inv by (intro simulates_quiet) (simp_all add: quiet_reported)
  consider ch payload where "parse set_envelope_frame ('''', None) data = Inr (ch, payload)" "ch \<noteq> ''''"
    | "dispatch raw decode data (c, gn) =
        (case (case data of None \<Rightarrow> None | Some v \<Rightarrow> explorerRawChannel v) of
           Some channel \<Rightarrow> (Some (c, gn), dispatchChannel (fst (c, gn)) channel data)
         | None \<Rightarrow> (Some (c, gn), [ReportedAll ''unexpected websocket message'']))"
  proof (cases "parse set_envelope_frame ('''', None) data")
    case (Inl e)
    then show ?thesis by (intro that(2)) (simp add: dispatch_def)
  next
    case (Inr p)
    obtain ch payload where p: "p = (ch, payload)" by fastforce
    show ?thesis
    proof (cases ch)
      case Nil
      then show ?thesis using Inr p by (intro that(2)) (simp add: dispatch_def)
    next
      case (Cons x rest)
      then show ?thesis using Inr p that(1) [of ch payload] by simp
    qed
  qed
  then show ?thesis
  proof cases
    case 1
    note d = dispatch_channel [OF this, of raw decode "(c, gn)"]
    consider "ch = ''subscriptionResponse''" | "ch \<noteq> ''subscriptionResponse''"
        "ch = ''error''" "gn_pending gn \<noteq> []" | "ch \<noteq> ''subscriptionResponse''"
        "ch \<noteq> ''error'' \<or> gn_pending gn = []" by blast
    then show ?thesis
    proof cases
      case a: 1
      have "acknowledgeSubscription raw payload (c, gn) = (Some (c', gn'), es)"
        using r d a by simp
      then show ?thesis using ack_simulates [OF inv] ok by blast
    next
      case a: 2
      have "rejectPendingSubscriptions (error_payload_of raw decode payload) (c, gn) = ((c', gn'), es)"
        using r d a by (simp split: prod.splits)
      then show ?thesis using error_simulates [OF inv] by blast
    next
      case 3
      have "gn' = gn" "es = dispatchChannel c ch payload"
        using r d 3 by (auto split: if_splits)
      then show ?thesis using delivered by simp
    qed
  next
    case 2
    then show ?thesis using r delivered reported by (auto split: option.splits)
  qed
qed

lemma dispatch_end_quiet:
  "dispatch raw decode data cg = (None, es) \<Longrightarrow> list_all (quiet s) es"
  by (auto simp: dispatch_def acknowledgeSubscription_def Let_def quiet_reported
      split: sum.splits list.splits prod.splits option.splits if_splits)

lemma expiry_quiet: "list_all (quiet s) (snd (failExpiredAcknowledgement now cg))"
  by (auto simp: failExpiredAcknowledgement_def list_all_iff quiet_reported split: prod.splits)

definition follows :: "generation option \<Rightarrow> session \<Rightarrow> bool" where
  "follows g s \<longleftrightarrow> (case g of None \<Rightarrow> True | Some gn \<Rightarrow> generation_inv gn \<and> s = session_of gn)"

lemma simulates_follows:
  "simulates gn gn' es \<Longrightarrow> \<exists>s'. session_run (session_of gn) es = Some s' \<and> follows (Some gn') s'"
  by (simp add: simulates_def follows_def)

lemma quiet_follows:
  "list_all (quiet s) es \<Longrightarrow> \<exists>s'. session_run s es = Some s' \<and> follows None s'"
  by (simp add: follows_def session_run_quiet)

lemma step_follows:
  assumes f: "follows g s" and ok: "list_all accepted es"
    and st: "manager_step ops raw decode timeout x (cs, g) = ((cs', g'), es)"
  shows "\<exists>s'. session_run s es = Some s' \<and> follows g' s'"
proof (cases g)
  case None
  have new: "follows (Some new_generation) fresh_session"
    by (simp add: follows_def new_generation_def fresh_session_def session_of_def generation_inv_def
        pendings_ok_def sync_ok_def outstanding_of_def live_of_def)
  show ?thesis using st f new by (cases x) (auto simp: None)
next
  case (Some gn)
  have inv: "generation_inv gn" and s: "s = session_of gn" using f by (simp_all add: follows_def Some)
  show ?thesis
  proof (cases x)
    case Synchronize
    then show ?thesis using st simulates_follows [OF start_simulates [OF inv, of "snd (fst cs)"]]
      by (auto simp: Some s)
  next
    case SyncTurn
    then show ?thesis using st turn_simulates [OF inv] simulates_follows
      by (auto simp: Some s split: prod.splits)
  next
    case (SyncCommit now e)
    then have c: "sync_commit timeout now (snd (fst cs)) e gn = (g', es)"
      using st by (auto simp: Some split: prod.splits)
    show ?thesis
    proof (cases g')
      case None
      then show ?thesis using commit_failure_quiet c quiet_follows by metis
    next
      case (Some gn')
      then show ?thesis using commit_simulates [OF inv] c simulates_follows s by metis
    qed
  next
    case (Frame data)
    obtain r where d: "dispatch raw decode data (snd (fst cs), gn) = (r, es)"
      and p: "put cs (r, es) = ((cs', g'), es)"
      using st Frame by (cases "dispatch raw decode data (snd (fst cs), gn)")
        (auto simp: Some put_def split: option.splits)
    show ?thesis
    proof (cases r)
      case None
      have "g' = None" using p None by (simp add: put_def)
      moreover have "list_all (quiet s) es" using dispatch_end_quiet d None by blast
      ultimately show ?thesis using quiet_follows by blast
    next
      case (Some cg)
      then show ?thesis using dispatch_simulates [OF inv, of raw decode data "snd (fst cs)"] d p ok s
        simulates_follows by (cases cg) (auto simp: put_def)
    qed
  next
    case (AckTimer now)
    then have e: "g' = None" "es = snd (failExpiredAcknowledgement now (snd (fst cs), gn))"
      using st by (auto simp: Some)
    show ?thesis unfolding e by (intro quiet_follows expiry_quiet)
  qed (use st f in \<open>auto simp: Some follows_def\<close>)
qed

lemma run_follows:
  assumes "follows g s" "list_all accepted es"
    and "manager_run ops raw decode timeout xs (cs, g) = ((cs', g'), es)"
  shows "\<exists>s'. session_run s es = Some s' \<and> follows g' s'"
  using assms
proof (induction xs arbitrary: cs g s es)
  case (Cons x xs)
  obtain cs1 g1 e1 where st: "manager_step ops raw decode timeout x (cs, g) = ((cs1, g1), e1)"
    by (metis prod.collapse)
  obtain e2 where rn: "manager_run ops raw decode timeout xs (cs1, g1) = ((cs', g'), e2)"
    and es: "es = e1 @ e2"
    using Cons.prems(3) by (auto simp: st split: prod.splits)
  have ok: "list_all accepted e1" "list_all accepted e2" using Cons.prems(2) by (simp_all add: es)
  from step_follows [OF Cons.prems(1) ok(1) st] obtain s1
    where s1: "session_run s e1 = Some s1" "follows g1 s1" by blast
  from Cons.IH [OF s1(2) ok(2) rn] show ?case by (auto simp: es session_run_append s1(1))
qed simp

section \<open>Properties\<close>

text \<open>
  C3: whatever the order in which registry changes, synchronization, writes,
  frames and timeouts come, what the manager sends is a session that subscribes no identity twice on
  a connection, takes each acknowledgement or rejection as the answer to an outstanding request, and
  reports a stream as subscribed only while its identity is acknowledged; and the tables of the
  generation are the state of that session, as long as no unsubscription is refused.
\<close>

theorem manager_keeps_session:
  "case manager_run ops raw decode timeout xs (cs, None) of ((cs', g), events) \<Rightarrow>
     list_all accepted events \<longrightarrow>
     (case g of None \<Rightarrow> session_run fresh_session events \<noteq> None
      | Some gn \<Rightarrow> session_run fresh_session events = Some (session_of gn))"
proof -
  obtain cs' g events where r: "manager_run ops raw decode timeout xs (cs, None) = ((cs', g), events)"
    by (metis prod.collapse)
  have "follows None fresh_session" by (simp add: follows_def)
  from run_follows [OF this _ r] show ?thesis
    by (fastforce simp: r follows_def split: option.splits)
qed

text \<open>A client that subscribes to two books and drops one, against a server that refuses nothing.\<close>

definition book_fields :: "string \<Rightarrow> gomap" where
  "book_fields coin = [(''coin'', AString coin), (''type'', AString ''l2Book'')]"

definition book_wire :: "string \<Rightarrow> subscriptionWire" where
  "book_wire coin = \<lparr> sw_Method = ''subscribe'', sw_Subscription = book_fields coin \<rparr>"

definition book_op :: "nat \<Rightarrow> string \<Rightarrow> manager_op" where
  "book_op ptr coin = Registry (Subscribe None ptr (\<lambda>_. True) (''l2:'' @ coin) ''l2Book''
     (book_wire coin) None)"

definition response_frame :: "string \<Rightarrow> string \<Rightarrow> (string \<times> jval) list \<Rightarrow> manager_op" where
  "response_frame method coin err = Frame (Some (JObj
     [(''channel'', JStr ''subscriptionResponse''),
      (''data'', JObj ([(''method'', JStr method),
         (''subscription'', JObj [(''coin'', JStr coin), (''type'', JStr ''l2Book'')])] @ err))]))"

definition one_pass :: "nat \<Rightarrow> manager_op list" where
  "one_pass n = Synchronize # concat (replicate n [SyncTurn, SyncCommit 0 SocketOk]) @ [SyncTurn]"

definition sample_ops :: "manager_op list" where
  "sample_ops = [book_op 1 ''BTC'', book_op 2 ''ETH'', Connect] @ one_pass 2 @
     [response_frame ''subscribe'' ''ETH'' [], Registry (Remove ''l2:BTC'' 1)] @ one_pass 3 @
     [response_frame ''unsubscribe'' ''BTC'' [], book_op 3 ''BTC''] @ one_pass 3"

definition sample_run :: "manager_op list \<Rightarrow>
    (subscriptionGate, subscriptionAdmissionKey) manager_state \<times> gen_event list" where
  "sample_run xs = manager_run reference_ops (\<lambda>_. '''') (\<lambda>_. None) 10 xs
     (((NewSubscriptionAdmissionGate 10 10, snd (NewClient 0)), []), None)"

lemma sample_run_ok:
  "list_all accepted (snd (sample_run sample_ops)) \<and>
   map_option (\<lambda>gn. length (gn_subscribed gn)) (snd (fst (sample_run sample_ops))) = Some 2 \<and>
   length (filter (\<lambda>e. case e of Sent m i w \<Rightarrow> True | _ \<Rightarrow> False) (snd (sample_run sample_ops))) = 4"
  by code_simp

lemma manager_keeps_session_witness:
  "case sample_run sample_ops of ((cs', g), events) \<Rightarrow>
     list_all accepted events \<and>
     (case g of None \<Rightarrow> False
      | Some gn \<Rightarrow> length (gn_subscribed gn) = 2 \<and> session_run fresh_session events = Some (session_of gn))"
  using manager_keeps_session [of reference_ops "\<lambda>_. ''''" "\<lambda>_. None" 10 sample_ops
      "((NewSubscriptionAdmissionGate 10 10, snd (NewClient 0)), [])"] sample_run_ok
  by (auto simp: sample_run_def split: option.splits)

text \<open>
  A refused unsubscription ends the stream that has subscribed the same identity again meanwhile:
  stream 2 is terminated and leaves the registry.
\<close>

definition refused_ops :: "manager_op list" where
  "refused_ops = [book_op 1 ''BTC'', Connect] @ one_pass 1 @
     [response_frame ''subscribe'' ''BTC'' [], Registry (Remove ''l2:BTC'' 1)] @ one_pass 1 @
     [book_op 2 ''BTC'', response_frame ''unsubscribe'' ''BTC'' [(''error'', JStr ''busy'')]]"

lemma refused_unsubscription_ends_stream:
  "case sample_run refused_ops of ((cs', g), events) \<Rightarrow>
     list_ex (\<lambda>e. case e of Terminated ptr i err \<Rightarrow> ptr = 2 | _ \<Rightarrow> False) events \<and>
     wc_subs (snd (fst cs')) = []"
  by code_simp

end
