(* ===== verification/WsSync.thy ===== *)
theory WsSync
  imports WsManager
begin

text \<open>
  What the synchronizer of a connection achieves: a frame is only written when the registry agrees
  with it, every pass ends, and a pass beside an unchanged registry leaves the server with exactly
  the identities that are registered.
\<close>

section \<open>The snapshot\<close>

lemma map_of_canonical:
  "map_of (map (\<lambda>(identity, grp). (identity, canonical_group grp)) gs) i =
   map_option canonical_group (map_of gs i)"
  by (induction gs) auto

definition member :: "managedSubscription \<Rightarrow> string \<times> nat" where
  "member s = (ms_key s, ms_ptr s)"

definition group_of :: "managedSubscription list \<Rightarrow> activeWireSubscription option" where
  "group_of ss = (case ss of [] \<Rightarrow> None
     | s # _ \<Rightarrow> Some \<lparr> aw_wire = ms_wire s, aw_members = map member ss, aw_acked = False \<rparr>)"

lemma group_of_snoc: "group_of (ss @ [s]) = Some (case group_of ss of
     None \<Rightarrow> \<lparr> aw_wire = ms_wire s, aw_members = [member s], aw_acked = False \<rparr>
   | Some g \<Rightarrow> g \<lparr> aw_members := aw_members g @ [member s] \<rparr>)"
  by (cases ss) (simp_all add: group_of_def)

lemma update_new: "k \<notin> fst ` set al \<Longrightarrow> AList.update k v al = al @ [(k, v)]"
  by (induction al) auto

lemma map_of_add_member:
  "map_of (add_member s gs) i =
     (if i \<noteq> sub_identity s then map_of gs i
      else Some (case map_of gs i of
          None \<Rightarrow> \<lparr> aw_wire = ms_wire s, aw_members = [member s], aw_acked = False \<rparr>
        | Some g \<Rightarrow> g \<lparr> aw_members := AList.update (ms_key s) (ms_ptr s) (aw_members g) \<rparr>))"
  by (simp add: add_member_def Let_def update_conv' member_def split: option.splits)

lemma fold_add_member:
  "distinct (map ms_key ss) \<Longrightarrow> map_of (fold add_member ss []) i =
     group_of (filter (\<lambda>s. sub_identity s = i) ss)"
proof (induction ss arbitrary: i rule: rev_induct)
  case Nil
  then show ?case by (simp add: group_of_def)
next
  case (snoc s ss)
  let ?ms = "filter (\<lambda>x. sub_identity x = sub_identity s) ss"
  have IH: "map_of (fold add_member ss []) j = group_of (filter (\<lambda>s. sub_identity s = j) ss)" for j
    using snoc by simp
  have new: "ms_key s \<notin> fst ` set (map member ?ms)"
    using snoc.prems by (auto simp: member_def)
  have "AList.update (ms_key s) (ms_ptr s) (aw_members g) = aw_members g @ [member s]"
    if "group_of ?ms = Some g" for g
  proof -
    have "aw_members g = map member ?ms" using that by (auto simp: group_of_def split: list.splits)
    then show ?thesis using update_new [OF new] by (simp add: member_def)
  qed
  then show ?case using IH [of i] IH [of "sub_identity s"]
    by (simp add: map_of_add_member group_of_snoc member_def split: option.splits)
qed

lemma keys_distinct:
  assumes "client_inv c"
  shows "distinct (map ms_key (map snd (wc_subs c)))"
proof -
  have "ms_key (snd p) = fst p" if "p \<in> set (wc_subs c)" for p
    using assms that by (cases p) (auto simp: client_inv_def)
  then have "map ms_key (map snd (wc_subs c)) = map fst (wc_subs c)" by simp
  moreover have "distinct (map fst (wc_subs c))" using assms by (simp add: client_inv_def)
  ultimately show ?thesis by (simp only:)
qed

lemma current_group:
  assumes "client_inv c"
  shows "map_of (current_groups c) i =
    map_option canonical_group (group_of (map snd (with_identity c i)))"
  using fold_add_member [OF keys_distinct [OF assms]]
  by (simp add: current_groups_def map_of_canonical with_identity_def filter_map comp_def)

lemma current_distinct: "distinct (map fst (current_groups c))"
proof -
  have "distinct (map fst gs) \<Longrightarrow> distinct (map fst (fold add_member ss gs))" for ss gs
  proof (induction ss arbitrary: gs)
    case (Cons s ss)
    have "distinct (map fst (add_member s gs))"
      using Cons.prems by (simp add: add_member_def Let_def distinct_update)
    from Cons.IH [OF this] show ?case by simp
  qed simp
  from this [of "[]" "map snd (wc_subs c)"] show ?thesis
    by (simp add: current_groups_def comp_def case_prod_unfold)
qed

lemma identities_with: "client_inv c \<Longrightarrow> i \<in> identities c \<longleftrightarrow> with_identity c i \<noteq> []"
  using identity_present [of c i]
  by (auto simp: client_inv_def subscriptionIdentityStateLocked_def Let_def split: list.splits)

lemma current_keys: "client_inv c \<Longrightarrow> fst ` set (current_groups c) = identities c"
proof -
  assume c: "client_inv c"
  have "i \<in> fst ` set (current_groups c) \<longleftrightarrow> i \<in> identities c" for i
    using current_group [OF c, of i] map_of_eq_None_iff [of "current_groups c" i] identities_with [OF c, of i]
    by (cases "with_identity c i") (auto simp: group_of_def)
  then show ?thesis by blast
qed

section \<open>Writes that the registry allows\<close>

lemma canonical_fingerprint:
  "subscriptionWireFingerprint (canonicalSubscriptionWire w) =
   serverSubscriptionIdentity (sw_Subscription w)"
  by (simp add: subscriptionWireFingerprint_def canonicalSubscriptionWire_def serverSubscriptionIdentity_def)

text \<open>What the snapshot offers is what the commit point asks for, if the registry has not changed.\<close>

lemma offer_allowed:
  assumes c: "client_inv c" and g: "(i, g) \<in> set (current_groups c)"
  shows "commit_allowed c i True (subscriptionWireFingerprint (aw_wire g))"
proof -
  have "map_of (current_groups c) i = Some g" using g current_distinct [of c] by simp
  then obtain h where h: "group_of (map snd (with_identity c i)) = Some h" "g = canonical_group h"
    using current_group [OF c] by auto
  then obtain s ms where w: "with_identity c i = s # ms" "aw_wire h = ms_wire (snd s)"
    "aw_members h = map member (map snd (s # ms))"
    by (cases "with_identity c i") (auto simp: group_of_def)
  have id: "serverSubscriptionIdentity (sw_Subscription (ms_wire (snd x))) = i"
    if "x \<in> set (with_identity c i)" for x
    using that by (simp add: with_identity_def sub_identity_def)
  show ?thesis
  proof (cases ms)
    case Nil
    then show ?thesis using w h(2)
      by (simp add: commit_allowed_def subscriptionIdentityStateLocked_def canonical_group_def)
  next
    case (Cons t ts)
    have "last (s # ms) \<in> set (with_identity c i)" using w(1) by simp
    from id [OF this] id [of s] w(1) w(2,3) h(2) Cons show ?thesis
      by (simp add: commit_allowed_def subscriptionIdentityStateLocked_def canonical_group_def
          canonical_fingerprint Let_def)
  qed
qed

lemma withdraw_allowed:
  assumes c: "client_inv c" and g: "map_of (current_groups c) i = None"
  shows "commit_allowed c i False f"
proof -
  have "with_identity c i = []" using current_group [OF c, of i] g
    by (cases "with_identity c i") (simp_all add: group_of_def)
  then show ?thesis by (simp add: commit_allowed_def subscriptionIdentityStateLocked_def)
qed

section \<open>A pass\<close>

text \<open>
  A pass as a sequence of cycles: a turn and, if it left a write waiting, the end of that write, each
  with the time and the registry that it meets. \<open>None\<close> is the end of the generation.
\<close>

definition sync_cycle :: "int \<Rightarrow> int \<times> 'l Client \<times> write_end \<Rightarrow> generation \<Rightarrow> generation option" where
  "sync_cycle timeout x gn =
     (case x of (now, c, e) \<Rightarrow> fst (sync_commit timeout now c e (fst (sync_turn gn))))"

fun sync_cycles :: "int \<Rightarrow> (int \<times> 'l Client \<times> write_end) list \<Rightarrow> generation \<Rightarrow> generation option" where
  "sync_cycles timeout [] gn = Some gn"
| "sync_cycles timeout (x # xs) gn = Option.bind (sync_cycle timeout x gn) (sync_cycles timeout xs)"

text \<open>What a pass does to the table, one identity at a time.\<close>

fun apply_intent :: "groups \<Rightarrow> intent \<Rightarrow> groups \<Rightarrow> groups" where
  "apply_intent cur (Examine i) subscribed =
     (case map_of subscribed i of
        None \<Rightarrow> subscribed
      | Some active \<Rightarrow>
          (case map_of cur i of
             None \<Rightarrow> AList.delete i subscribed
           | Some g \<Rightarrow> AList.update i (active \<lparr> aw_members := aw_members g \<rparr>) subscribed))"
| "apply_intent cur (Offer i g) subscribed =
     (if map_of subscribed i \<noteq> None then subscribed else AList.update i g subscribed)"

fun offered :: "'l Client \<Rightarrow> intent \<Rightarrow> bool" where
  "offered c (Examine i) \<longleftrightarrow> True"
| "offered c (Offer i g) \<longleftrightarrow> (i, g) \<in> set (current_groups c)"

definition progress :: "groups \<Rightarrow> groups \<Rightarrow> intent list \<Rightarrow> generation \<Rightarrow> bool" where
  "progress cur subscribed intents gn \<longleftrightarrow> gn_subscribed gn = subscribed \<and>
     gn_sync gn = Some \<lparr> sy_current = cur, sy_intents = intents, sy_waiting = None \<rparr>"

lemma cycle_applies:
  assumes c: "client_inv c" and o: "offered c x"
    and p: "progress (current_groups c) s (x # rest) gn"
  shows "\<exists>gn'. sync_cycle timeout (now, c, SocketOk) gn = Some gn' \<and>
    progress (current_groups c) (apply_intent (current_groups c) x s) rest gn'"
proof (cases x)
  case (Examine i)
  show ?thesis
  proof (cases "map_of s i")
    case None
    then show ?thesis using p Examine
      by (simp add: progress_def sync_cycle_def sync_turn_def sync_commit_def Let_def)
  next
    case (Some active)
    then show ?thesis using p Examine withdraw_allowed [OF c]
      by (cases "map_of (current_groups c) i")
        (simp_all add: progress_def sync_cycle_def sync_turn_def sync_commit_def writeJSON_def Let_def)
  qed
next
  case (Offer i g)
  then show ?thesis using p o offer_allowed [OF c]
    by (cases "map_of s i")
      (simp_all add: progress_def sync_cycle_def sync_turn_def sync_commit_def writeJSON_def Let_def)
qed

lemma cycles_apply:
  assumes c: "client_inv c"
  shows "progress (current_groups c) s xs gn \<Longrightarrow> list_all (offered c) xs \<Longrightarrow>
    \<exists>gn'. sync_cycles timeout (replicate (Suc (length xs)) (now, c, SocketOk)) gn = Some gn' \<and>
      gn_subscribed gn' = fold (apply_intent (current_groups c)) xs s \<and> gn_sync gn' = None"
proof (induction xs arbitrary: s gn)
  case Nil
  then show ?case by (simp add: progress_def sync_cycle_def sync_turn_def sync_commit_def)
next
  case (Cons x xs)
  from cycle_applies [OF c, of x s xs gn timeout now] Cons.prems obtain gn1 where
    "sync_cycle timeout (now, c, SocketOk) gn = Some gn1"
    "progress (current_groups c) (apply_intent (current_groups c) x s) xs gn1" by auto
  with Cons.IH Cons.prems(2) show ?case by simp
qed

lemma map_of_examined:
  "map_of (fold (apply_intent cur) (map Examine ks) s) i =
     (if i \<notin> set ks then map_of s i
      else case map_of s i of None \<Rightarrow> None
        | Some active \<Rightarrow> map_option (\<lambda>g. active \<lparr> aw_members := aw_members g \<rparr>) (map_of cur i))"
proof (induction ks arbitrary: s)
  case (Cons k ks)
  have "map_of (apply_intent cur (Examine k) s) j =
     (if j \<noteq> k then map_of s j
      else case map_of s j of None \<Rightarrow> None
        | Some active \<Rightarrow> map_option (\<lambda>g. active \<lparr> aw_members := aw_members g \<rparr>) (map_of cur j))" for j
    by (auto simp: delete_conv' update_conv' split: option.splits)
  then show ?case using Cons.IH [of "apply_intent cur (Examine k) s"]
    by (auto split: option.splits simp del: apply_intent.simps)
qed simp

lemma map_of_offered:
  "map_of (fold (apply_intent cur) (map (\<lambda>(i, g). Offer i g) gs) s) i =
     (case map_of s i of None \<Rightarrow> map_of gs i | Some a \<Rightarrow> Some a)"
proof (induction gs arbitrary: s)
  case (Cons p gs)
  obtain j g where p: "p = (j, g)" by fastforce
  show ?case using Cons.IH [of "apply_intent cur (Offer j g) s"]
    by (auto simp: p update_conv' split: option.splits)
qed (simp split: option.splits)

lemma pass_result:
  fixes gn :: generation
  assumes c: "client_inv c"
  defines "gn0 \<equiv> sync_start c (gn \<lparr> gn_sync := None \<rparr>)"
  defines "n \<equiv> length (gn_subscribed gn) + length (current_groups c)"
  shows "\<exists>gn'. sync_cycles timeout (replicate (Suc n) (now, c, SocketOk)) gn0 = Some gn' \<and>
    gn_sync gn' = None \<and>
    (\<forall>i. map_of (gn_subscribed gn') i = (case map_of (gn_subscribed gn) i of
       None \<Rightarrow> map_of (current_groups c) i
     | Some a \<Rightarrow> map_option (\<lambda>g. a \<lparr> aw_members := aw_members g \<rparr>) (map_of (current_groups c) i)))"
proof -
  let ?xs = "map (\<lambda>p. Examine (fst p)) (gn_subscribed gn) @ map (\<lambda>(i, g). Offer i g) (current_groups c)"
  have "progress (current_groups c) (gn_subscribed gn) ?xs gn0"
    by (simp add: gn0_def progress_def sync_start_def Let_def)
  moreover have "list_all (offered c) ?xs" by (auto simp: list_all_iff)
  moreover have "length ?xs = n" by (simp add: n_def)
  ultimately obtain gn' where g: "sync_cycles timeout (replicate (Suc n) (now, c, SocketOk)) gn0 = Some gn'"
    "gn_subscribed gn' = fold (apply_intent (current_groups c)) ?xs (gn_subscribed gn)" "gn_sync gn' = None"
    using cycles_apply [OF c] by metis
  have e: "map (\<lambda>p. Examine (fst p)) (gn_subscribed gn) = map Examine (map fst (gn_subscribed gn))"
    by simp
  have "map_of (gn_subscribed gn') i = (case map_of (gn_subscribed gn) i of
       None \<Rightarrow> map_of (current_groups c) i
     | Some a \<Rightarrow> map_option (\<lambda>g. a \<lparr> aw_members := aw_members g \<rparr>) (map_of (current_groups c) i))" for i
    unfolding g(2) fold_append comp_apply map_of_offered e map_of_examined
    using map_of_eq_None_iff [of "gn_subscribed gn" i]
    by (cases "map_of (gn_subscribed gn) i"; cases "map_of (current_groups c) i") auto
  then show ?thesis using g by blast
qed

lemma cycle_ends:
  "gn_sync gn = Some \<lparr> sy_current = cur, sy_intents = xs, sy_waiting = None \<rparr> \<Longrightarrow>
   case sync_cycle timeout (now, c, e) gn of
     None \<Rightarrow> e = ContextEnded \<or> (\<exists>m. e = SocketError m)
   | Some gn' \<Rightarrow> gn_sync gn' = (case xs of [] \<Rightarrow> None
       | _ # rest \<Rightarrow> Some \<lparr> sy_current = cur, sy_intents = rest, sy_waiting = None \<rparr>)"
  by (cases xs; cases "hd xs"; cases e)
    (auto simp: sync_cycle_def sync_turn_def sync_commit_def writeJSON_def Let_def
      split: option.splits if_splits)

text \<open>A write that did not fail.\<close>

fun write_failed :: "int \<times> 'l Client \<times> write_end \<Rightarrow> bool" where
  "write_failed (now, c, ContextEnded) \<longleftrightarrow> True"
| "write_failed (now, c, SocketError m) \<longleftrightarrow> True"
| "write_failed _ \<longleftrightarrow> False"

lemma cycles_idle:
  "gn_sync gn = None \<Longrightarrow> sync_cycles timeout ys gn = Some gn"
proof (induction ys)
  case (Cons y ys)
  then show ?case by (cases y) (simp add: sync_cycle_def sync_turn_def sync_commit_def)
qed simp

lemma cycles_end:
  "gn_sync gn = Some \<lparr> sy_current = cur, sy_intents = xs, sy_waiting = None \<rparr> \<Longrightarrow>
   length xs < length ys \<Longrightarrow>
   case sync_cycles timeout ys gn of
     None \<Rightarrow> list_ex write_failed ys | Some gn' \<Rightarrow> gn_sync gn' = None"
proof (induction ys arbitrary: xs gn)
  case (Cons y ys)
  obtain now c e where y: "y = (now, c, e)" by (cases y)
  show ?case
  proof (cases "sync_cycle timeout y gn")
    case None
    then show ?thesis
      using cycle_ends [OF Cons.prems(1), where timeout = timeout and now = now and c = c and e = e]
      by (auto simp: y)
  next
    case (Some gn1)
    note s = cycle_ends [OF Cons.prems(1), where timeout = timeout and now = now and c = c and e = e]
    show ?thesis
    proof (cases xs)
      case Nil
      then have "gn_sync gn1 = None" using s Some by (simp add: y)
      then show ?thesis using Some by (simp add: cycles_idle)
    next
      case (Cons x rest)
      then have "gn_sync gn1 = Some \<lparr> sy_current = cur, sy_intents = rest, sy_waiting = None \<rparr>"
        using s Some by (simp add: y)
      from Cons.IH [OF this] Cons.prems(2) Cons Some show ?thesis
        by (auto split: option.splits)
    qed
  qed
qed simp

section \<open>Properties\<close>

text \<open>Only the end of a write sends.\<close>

lemma no_sent_reject: "rejectWireSubscription j err cg = (cg', es) \<Longrightarrow> Sent m i w \<notin> set es"
  by (auto simp: rejectWireSubscription_def Let_def split: prod.splits option.splits)

lemma no_sent_reject_all: "reject_all err js cg = (cg', es) \<Longrightarrow> Sent m i w \<notin> set es"
  by (induction js arbitrary: cg es) (auto split: prod.splits dest: no_sent_reject)

lemma no_sent_reject_pending:
  "rejectPendingAcknowledgement key rq err cg = (cg', es) \<Longrightarrow> Sent m i w \<notin> set es"
  by (auto simp: rejectPendingAcknowledgement_def Let_def split: prod.splits if_splits dest: no_sent_reject)

lemma no_sent_rejections: "rejectPendingSubscriptions payload cg = (cg', es) \<Longrightarrow> Sent m i w \<notin> set es"
  by (auto simp: rejectPendingSubscriptions_def split: error_payload.splits option.splits
      dest: no_sent_reject_pending no_sent_reject_all)

lemma no_sent_ack: "acknowledgeSubscription raw data cg = (r, es) \<Longrightarrow> Sent m i w \<notin> set es"
  by (auto simp: acknowledgeSubscription_def Let_def dest: no_sent_reject
      split: sum.splits option.splits prod.splits if_splits)

lemma no_sent_dispatch: "dispatch raw decode data cg = (r, es) \<Longrightarrow> Sent m i w \<notin> set es"
  by (auto simp: dispatch_def Let_def dispatchChannel_def dest: no_sent_ack no_sent_rejections
      split: sum.splits list.splits prod.splits option.splits if_splits)

lemma no_sent_turn: "sync_turn gn = (gn', es) \<Longrightarrow> Sent m i w \<notin> set es"
  by (auto simp: sync_turn_def Let_def adopt_events_def
      split: option.splits list.splits intent.splits if_splits)

lemma sent_by_commit:
  assumes "Sent m i w \<in> set (snd (sync_commit timeout now c e gn))"
  shows "commit_allowed c i (m = ''subscribe'') (subscriptionWireFingerprint w)"
  using assms
  by (auto simp: sync_commit_def Let_def writeJSON_def
      split: option.splits frame.splits write_result.splits write_end.splits if_splits)

text \<open>
  C12: a subscribe frame is written only for an identity that is registered at
  that moment, with the request that the registry has for it, and an unsubscribe frame only for one
  that is not.
\<close>

theorem frames_match_registry:
  assumes "Sent method i w \<in> set (snd (manager_step ops raw decode timeout x ((gc, others), g)))"
  shows "case subscriptionIdentityStateLocked (snd gc) i of (present, fingerprint) \<Rightarrow>
    if method = ''subscribe'' then present \<and> subscriptionWireFingerprint w = fingerprint
    else \<not> present"
  using assms
proof (cases x)
  case (SyncCommit now e)
  show ?thesis
  proof (cases g)
    case (Some gn)
    have "Sent method i w \<in> set (snd (sync_commit timeout now (snd gc) e gn))"
      using assms SyncCommit Some by (simp split: prod.splits)
    from sent_by_commit [OF this] show ?thesis
      by (auto simp: commit_allowed_def split: prod.splits)
  qed (use assms SyncCommit in simp)
next
  case (Frame data)
  then show ?thesis using assms
    by (cases g) (auto simp: put_def split: option.splits prod.splits dest: no_sent_dispatch)
next
  case SyncTurn
  then show ?thesis using assms
    by (cases g) (auto split: prod.splits dest: no_sent_turn)
qed (cases g; auto simp: failExpiredAcknowledgement_def split: if_splits)+

text \<open>A client with one registered book, and a generation that is about to subscribe it.\<close>

definition one_book :: subscriptionWire where
  "one_book = newSubscriptionWire ''l2Book'' [(''coin'', AString ''BTC'')]"

definition one_book_client :: "(subscriptionGate, subscriptionAdmissionKey) client_state" where
  "one_book_client = reached 10 10 0 [Subscribe None 1 (\<lambda>_. True) ''l2:BTC'' ''l2Book'' one_book None]"

definition offering :: generation where
  "offering = fst (sync_turn (sync_start (snd (fst one_book_client)) new_generation))"

lemma frames_match_registry_witness:
  "fst (subscriptionIdentityStateLocked (snd (fst one_book_client))
     (serverSubscriptionIdentity (sw_Subscription one_book)))"
proof -
  have "Sent ''subscribe'' (serverSubscriptionIdentity (sw_Subscription one_book)) one_book
    \<in> set (snd (manager_step reference_ops (\<lambda>_. '''') (\<lambda>_. None) 10 (SyncCommit 0 SocketOk)
        ((fst one_book_client, []), Some offering)))"
    by code_simp
  from frames_match_registry [OF this] show ?thesis by (simp split: prod.splits)
qed

text \<open>
  C10: beside an unchanged registry and with successful writes a pass ends and leaves
  the connection subscribed to exactly the identities that are registered, each with all its
  streams as members; identities that were subscribed before keep their request and their
  acknowledgement.
\<close>

theorem sync_converges:
  "let c = snd (fst (reached ms mu n xs));
       k = length (gn_subscribed gn) + length (current_groups c)
   in case sync_cycles timeout (replicate (Suc k) (now, c, SocketOk))
             (sync_start c (gn \<lparr> gn_sync := None \<rparr>)) of
        None \<Rightarrow> False
      | Some gn' \<Rightarrow> gn_sync gn' = None \<and>
          fst ` set (gn_subscribed gn') = sub_identity ` snd ` set (wc_subs c) \<and>
          (\<forall>i. map_option aw_members (map_of (gn_subscribed gn') i) =
             (case map snd (with_identity c i) of [] \<Rightarrow> None | ss \<Rightarrow> Some (map member ss)) \<and>
           (case (map_of (gn_subscribed gn) i, map_of (gn_subscribed gn') i) of
              (Some a, Some a') \<Rightarrow> aw_wire a' = aw_wire a \<and> aw_acked a' = aw_acked a
            | _ \<Rightarrow> True))"
proof -
  let ?c = "snd (fst (reached ms mu n xs))"
  have c: "client_inv ?c" by (rule reached_inv)
  let ?k = "length (gn_subscribed gn) + length (current_groups ?c)"
  from pass_result [OF c, where gn = gn and timeout = timeout and now = now] obtain gn' where
    g: "sync_cycles timeout (replicate (Suc ?k) (now, ?c, SocketOk))
        (sync_start ?c (gn \<lparr> gn_sync := None \<rparr>)) = Some gn'" "gn_sync gn' = None" and
    m: "\<forall>i. map_of (gn_subscribed gn') i = (case map_of (gn_subscribed gn) i of
       None \<Rightarrow> map_of (current_groups ?c) i
     | Some a \<Rightarrow> map_option (\<lambda>g. a \<lparr> aw_members := aw_members g \<rparr>) (map_of (current_groups ?c) i))"
    by blast
  have "map_of (gn_subscribed gn') i = None \<longleftrightarrow> map_of (current_groups ?c) i = None" for i
    using m by (auto split: option.splits)
  then have "fst ` set (gn_subscribed gn') = fst ` set (current_groups ?c)"
    by (auto simp: map_of_eq_None_iff)
  then have keys: "fst ` set (gn_subscribed gn') = sub_identity ` snd ` set (wc_subs ?c)"
    using current_keys [OF c] registered_identities [OF c] by simp
  have "aw_members (canonical_group h) = aw_members h" for h by (simp add: canonical_group_def)
  then have "map_option aw_members (map_of (gn_subscribed gn') i) =
      (case map snd (with_identity ?c i) of [] \<Rightarrow> None | ss \<Rightarrow> Some (map member ss))" for i
    using m current_group [OF c, of i]
    by (auto simp: group_of_def split: option.splits list.splits)
  moreover have "case (map_of (gn_subscribed gn) i, map_of (gn_subscribed gn') i) of
      (Some a, Some a') \<Rightarrow> aw_wire a' = aw_wire a \<and> aw_acked a' = aw_acked a | _ \<Rightarrow> True" for i
    using m by (auto split: option.splits)
  ultimately show ?thesis using g keys by (simp add: Let_def)
qed

text \<open>
  C11: a pass takes one cycle for each identity it was subscribed to and each group of
  its snapshot, and one more to end, whatever the registry and the writes do meanwhile; it ends the
  connection only if a write fails.
\<close>

theorem sync_pass_ends:
  assumes "length (gn_subscribed gn) + length (current_groups c) < length xs"
  shows "case sync_cycles timeout xs (sync_start c (gn \<lparr> gn_sync := None \<rparr>)) of
     None \<Rightarrow> list_ex write_failed xs | Some gn' \<Rightarrow> gn_sync gn' = None"
proof (rule cycles_end)
  show "gn_sync (sync_start c (gn \<lparr> gn_sync := None \<rparr>)) = Some \<lparr> sy_current = current_groups c,
      sy_intents = map (\<lambda>p. Examine (fst p)) (gn_subscribed gn) @
        map (\<lambda>(identity, grp). Offer identity grp) (current_groups c), sy_waiting = None \<rparr>"
    by (simp add: sync_start_def Let_def)
qed (use assms in simp)

lemma sync_pass_ends_witness:
  "case sync_cycles 10 (replicate 2 (0, snd (fst one_book_client), Stale))
       (sync_start (snd (fst one_book_client)) (new_generation \<lparr> gn_sync := None \<rparr>)) of
     None \<Rightarrow> False | Some gn' \<Rightarrow> gn_sync gn' = None"
proof -
  have "length (gn_subscribed new_generation) + length (current_groups (snd (fst one_book_client))) < 2"
    by code_simp
  then show ?thesis
    using sync_pass_ends [of new_generation "snd (fst one_book_client)"
        "replicate 2 (0, snd (fst one_book_client), Stale)" 10]
    by (simp add: numeral_2_eq_2 split: option.splits)
qed

end
