(* ===== verification/WsStreams.thy ===== *)
theory WsStreams
  imports WsClient
begin

text \<open>
  The streams of the WebSocket client: the \<^verbatim>\<open>Subscribe\<close> methods of \<^verbatim>\<open>market_subscription.go\<close>,
  \<^verbatim>\<open>private_subscription.go\<close>, \<^verbatim>\<open>extended_subscription.go\<close>, \<^verbatim>\<open>explorer_subscription.go\<close> and
  \<^verbatim>\<open>subscription.go\<close>, with the registry keys of \<^verbatim>\<open>registry.go\<close> and the checks of
  \<^verbatim>\<open>internal/validation/l2book.go\<close>. A method is described by a \<open>stream\<close>: its registry key, channel,
  request, conflict check and filter; \<open>open_stream\<close> is what all methods do with it.
\<close>

section \<open>Checks of the arguments\<close>

definition L2BookAggregation :: "int option \<Rightarrow> int option \<Rightarrow> unit res" where
  "L2BookAggregation nSigFigs mantissa =
     (if (case nSigFigs of None \<Rightarrow> False | Some n \<Rightarrow> n \<noteq> 2 \<and> n \<noteq> 3 \<and> n \<noteq> 4 \<and> n \<noteq> 5)
      then Inl ''nSigFigs must be 2, 3, 4, or 5''
      else (case mantissa of
        None \<Rightarrow> Inr ()
      | Some m \<Rightarrow>
          if nSigFigs \<noteq> Some 5 then Inl ''mantissa requires nSigFigs=5''
          else if m \<noteq> 1 \<and> m \<noteq> 2 \<and> m \<noteq> 5 then Inl ''mantissa must be 1, 2, or 5''
          else Inr ()))"

definition CandleInterval :: "string \<Rightarrow> unit res" where
  "CandleInterval interval =
     (if interval \<in> {''1m'', ''3m'', ''5m'', ''15m'', ''30m'', ''1h'', ''2h'', ''4h'', ''8h'', ''12h'',
          ''1d'', ''3d'', ''1w'', ''1M''}
      then Inr () else Inl (''unsupported candle interval '' @ interval))"

definition requireUser :: "string \<Rightarrow> unit res" where
  "requireUser user = (if trim_space user = '''' then Inl ''user is required'' else Inr ())"

definition require_coin :: "string \<Rightarrow> unit res" where
  "require_coin coin = (if coin = '''' then Inl ''coin is required'' else Inr ())"

section \<open>Registry keys\<close>

definition optionalKey :: "('a \<Rightarrow> string) \<Rightarrow> 'a option \<Rightarrow> string" where
  "optionalKey sprint v = (case v of None \<Rightarrow> ''omitted'' | Some x \<Rightarrow> sprint x)"

definition show_bool :: "bool \<Rightarrow> string" where
  "show_bool b = (if b then ''true'' else ''false'')"

definition join_key :: "string list \<Rightarrow> string" where
  "join_key parts = (case parts of [] \<Rightarrow> '''' | p # ps \<Rightarrow> p @ concat (map (\<lambda>x. CHR '':'' # x) ps))"

definition l2BookKey :: "string \<Rightarrow> int option \<Rightarrow> int option \<Rightarrow> bool option \<Rightarrow> string" where
  "l2BookKey coin nSigFigs mantissa fast =
     join_key [''l2Book'', coin, optionalKey show_int nSigFigs, optionalKey show_int mantissa,
       optionalKey show_bool fast]"

definition allMidsKey :: "string \<Rightarrow> string" where
  "allMidsKey dex = join_key [''allMids'', dex]"

definition tradesKey :: "string \<Rightarrow> string" where
  "tradesKey coin = join_key [''trades'', coin]"

definition candleKey :: "string \<Rightarrow> string \<Rightarrow> string" where
  "candleKey coin interval = join_key [''candle'', coin, interval]"

definition bboKey :: "string \<Rightarrow> string" where
  "bboKey coin = join_key [''bbo'', coin]"

definition activeAssetCtxKey :: "string \<Rightarrow> string" where
  "activeAssetCtxKey coin = join_key [''activeAssetCtx'', coin]"

section \<open>Streams\<close>

text \<open>
  What a filter looks at: the fields of an event, or of the first event of a batch; \<open>None\<close> is an
  empty batch. A field that an event does not have is empty.
\<close>

record route =
  rt_user :: string
  rt_dex :: string
  rt_coin :: string
  rt_interval :: string

text \<open>
  How the methods turn the registered subscription into a handle: the market methods and the
  private ones retry when the subscription has gone meanwhile, the extended ones fail; the
  order-book method returns the subscription itself.
\<close>

datatype handle_policy = MarketHandle | PrivateHandle | ExtendedHandle | NoHandle

record stream =
  st_key :: string
  st_channel :: string
  st_wire :: subscriptionWire
  st_check :: "((string \<times> managedSubscription) list \<Rightarrow> unit res) option"
  st_match :: "route option \<Rightarrow> bool"
  st_policy :: handle_policy
  st_aggregate :: "bool option"

definition stream_of :: "string \<Rightarrow> string \<Rightarrow> gomap \<Rightarrow> (route \<Rightarrow> bool) \<Rightarrow> handle_policy \<Rightarrow> stream" where
  "stream_of kind key fs pred policy =
     \<lparr> st_key = key, st_channel = kind, st_wire = newSubscriptionWire kind fs, st_check = None,
       st_match = (\<lambda>r. case r of None \<Rightarrow> False | Some e \<Rightarrow> pred e), st_policy = policy,
       st_aggregate = None \<rparr>"

definition any_event :: "route \<Rightarrow> bool" where
  "any_event r \<longleftrightarrow> True"

definition of_user :: "string \<Rightarrow> route \<Rightarrow> bool" where
  "of_user user r \<longleftrightarrow> equal_fold (rt_user r) user"

definition of_user_dex :: "string \<Rightarrow> string \<Rightarrow> route \<Rightarrow> bool" where
  "of_user_dex user dex r \<longleftrightarrow> equal_fold (rt_user r) user \<and> rt_dex r = dex"

definition of_coin :: "string \<Rightarrow> route \<Rightarrow> bool" where
  "of_coin coin r \<longleftrightarrow> rt_coin r = coin"

subsection \<open>Market streams\<close>

definition newL2SubscriptionWire :: "string \<Rightarrow> int option \<Rightarrow> int option \<Rightarrow> bool option \<Rightarrow> subscriptionWire" where
  "newL2SubscriptionWire coin nSigFigs mantissa fast =
     newSubscriptionWire ''l2Book''
       ([(''coin'', AString coin)] @
        (case nSigFigs of None \<Rightarrow> [] | Some n \<Rightarrow> [(''nSigFigs'', AInt n)]) @
        (case mantissa of None \<Rightarrow> [] | Some m \<Rightarrow> [(''mantissa'', AInt m)]) @
        (case fast of None \<Rightarrow> [] | Some b \<Rightarrow> [(''fast'', ABool b)]))"

definition SubscribeL2Book :: "string \<Rightarrow> int option \<Rightarrow> int option \<Rightarrow> bool option \<Rightarrow> stream res" where
  "SubscribeL2Book coin nSigFigs mantissa fast =
     bind_res (require_coin coin) (\<lambda>_.
     bind_res (L2BookAggregation nSigFigs mantissa) (\<lambda>_.
     Inr ((stream_of ''l2Book'' (l2BookKey coin nSigFigs mantissa fast) [] (of_coin coin) NoHandle)
       \<lparr> st_wire := newL2SubscriptionWire coin nSigFigs mantissa fast \<rparr>)))"

definition SubscribeAllMids :: "string \<Rightarrow> stream res" where
  "SubscribeAllMids dex =
     (let key = allMidsKey dex in
      Inr ((stream_of ''allMids'' key (if dex \<noteq> '''' then [(''dex'', AString dex)] else [])
          any_event MarketHandle)
        \<lparr> st_check := Some (\<lambda>subscriptions.
            if list_ex (\<lambda>(otherKey, other). ms_channel other = ''allMids'' \<and> otherKey \<noteq> key) subscriptions
            then Inl ''only one allMids DEX subscription is supported per WebSocket client''
            else Inr ()) \<rparr>))"

definition SubscribeTrades :: "string \<Rightarrow> stream res" where
  "SubscribeTrades coin =
     bind_res (require_coin coin) (\<lambda>_.
     Inr (stream_of ''trades'' (tradesKey coin) [(''coin'', AString coin)] (of_coin coin) MarketHandle))"

definition SubscribeCandle :: "string \<Rightarrow> string \<Rightarrow> stream res" where
  "SubscribeCandle coin interval =
     bind_res (require_coin coin) (\<lambda>_.
     if interval = '''' then Inl ''interval is required''
     else bind_res (CandleInterval interval) (\<lambda>_.
     Inr (stream_of ''candle'' (candleKey coin interval)
       [(''coin'', AString coin), (''interval'', AString interval)]
       (\<lambda>r. rt_coin r = coin \<and> rt_interval r = interval) MarketHandle)))"

definition SubscribeBBO :: "string \<Rightarrow> stream res" where
  "SubscribeBBO coin =
     bind_res (require_coin coin) (\<lambda>_.
     Inr (stream_of ''bbo'' (bboKey coin) [(''coin'', AString coin)] (of_coin coin) MarketHandle))"

definition SubscribeActiveAssetCtx :: "string \<Rightarrow> stream res" where
  "SubscribeActiveAssetCtx coin =
     bind_res (require_coin coin) (\<lambda>_.
     Inr (stream_of ''activeAssetCtx'' (activeAssetCtxKey coin) [(''coin'', AString coin)]
       (of_coin coin) MarketHandle))"

definition SubscribeActiveSpotAssetCtx :: "string \<Rightarrow> stream res" where
  "SubscribeActiveSpotAssetCtx = SubscribeActiveAssetCtx"

subsection \<open>Private streams\<close>

definition private_stream :: "string \<Rightarrow> string \<Rightarrow> gomap \<Rightarrow> (route \<Rightarrow> bool) \<Rightarrow> stream res" where
  "private_stream kind user fs pred =
     bind_res (requireUser user) (\<lambda>_.
     Inr (stream_of kind (join_key [kind, to_lower user]) ((''user'', AString user) # fs)
       pred PrivateHandle))"

definition SubscribeUserEvents :: "string \<Rightarrow> stream res" where
  "SubscribeUserEvents user =
     bind_res (private_stream ''userEvents'' user [] any_event) (\<lambda>s.
     Inr (s \<lparr> st_check := Some (onePerChannel ''userEvents'') \<rparr>))"

definition SubscribeOrderUpdates :: "string \<Rightarrow> stream res" where
  "SubscribeOrderUpdates user =
     bind_res (private_stream ''orderUpdates'' user [] any_event) (\<lambda>s.
     Inr (s \<lparr> st_check := Some (onePerChannel ''orderUpdates'') \<rparr>))"

definition aggregationMode :: "subscriptionWire \<Rightarrow> bool" where
  "aggregationMode w = (map_of (sw_Subscription w) ''aggregateByTime'' = Some (ABool True))"

definition SubscribeUserFills :: "string \<Rightarrow> bool \<Rightarrow> stream res" where
  "SubscribeUserFills user aggregateByTime =
     bind_res (private_stream ''userFills'' user
       (if aggregateByTime then [(''aggregateByTime'', ABool True)] else []) (of_user user)) (\<lambda>s.
     Inr (s \<lparr> st_aggregate := Some aggregateByTime \<rparr>))"

definition SubscribeUserFundings :: "string \<Rightarrow> stream res" where
  "SubscribeUserFundings user = private_stream ''userFundings'' user [] (of_user user)"

definition SubscribeUserNonFundingLedgerUpdates :: "string \<Rightarrow> stream res" where
  "SubscribeUserNonFundingLedgerUpdates user =
     private_stream ''userNonFundingLedgerUpdates'' user [] (of_user user)"

subsection \<open>Extended streams\<close>

definition subscribeUser :: "string \<Rightarrow> string \<Rightarrow> string \<Rightarrow> gomap \<Rightarrow> (route \<Rightarrow> bool) \<Rightarrow> bool \<Rightarrow> stream res" where
  "subscribeUser kind key user fs pred oneChannel =
     bind_res (requireUser user) (\<lambda>_.
     Inr ((stream_of kind key fs pred ExtendedHandle)
       \<lparr> st_check := Some (\<lambda>subscriptions.
           if oneChannel then onePerChannel kind subscriptions else Inr ()) \<rparr>))"

definition subscribePublic :: "string \<Rightarrow> string \<Rightarrow> gomap \<Rightarrow> (route \<Rightarrow> bool) \<Rightarrow> stream res" where
  "subscribePublic kind key fs pred = Inr (stream_of kind key fs pred ExtendedHandle)"

definition SubscribeNotification :: "string \<Rightarrow> stream res" where
  "SubscribeNotification user =
     subscribeUser ''notification'' (join_key [''notification'', to_lower user]) user
       [(''user'', AString user)] (any_event) True"

definition SubscribeWebData3 :: "string \<Rightarrow> stream res" where
  "SubscribeWebData3 user =
     subscribeUser ''webData3'' (join_key [''webData3'', to_lower user]) user
       [(''user'', AString user)] (of_user user) False"

definition SubscribeOpenOrders :: "string \<Rightarrow> string \<Rightarrow> stream res" where
  "SubscribeOpenOrders user dex =
     subscribeUser ''openOrders'' (join_key [''openOrders'', to_lower user, dex]) user
       [(''user'', AString user), (''dex'', AString dex)] (of_user_dex user dex) False"

definition SubscribeClearinghouseState :: "string \<Rightarrow> string \<Rightarrow> stream res" where
  "SubscribeClearinghouseState user dex =
     subscribeUser ''clearinghouseState'' (join_key [''clearinghouseState'', to_lower user, dex]) user
       [(''user'', AString user), (''dex'', AString dex)] (of_user_dex user dex) False"

definition SubscribeActiveAssetData :: "string \<Rightarrow> string \<Rightarrow> stream res" where
  "SubscribeActiveAssetData user coin =
     (if trim_space coin = '''' then Inl ''coin is required''
      else subscribeUser ''activeAssetData'' (join_key [''activeAssetData'', to_lower user, coin]) user
        [(''user'', AString user), (''coin'', AString coin)]
        (\<lambda>r. equal_fold (rt_user r) user \<and> rt_coin r = coin) False)"

definition SubscribeTWAPStates :: "string \<Rightarrow> string \<Rightarrow> stream res" where
  "SubscribeTWAPStates user dex =
     subscribeUser ''twapStates'' (join_key [''twapStates'', to_lower user, dex]) user
       [(''user'', AString user), (''dex'', AString dex)] (of_user_dex user dex) False"

definition SubscribeUserTWAPSliceFills :: "string \<Rightarrow> stream res" where
  "SubscribeUserTWAPSliceFills user =
     subscribeUser ''userTwapSliceFills'' (join_key [''userTwapSliceFills'', to_lower user]) user
       [(''user'', AString user)] (of_user user) False"

definition SubscribeUserTWAPHistory :: "string \<Rightarrow> stream res" where
  "SubscribeUserTWAPHistory user =
     subscribeUser ''userTwapHistory'' (join_key [''userTwapHistory'', to_lower user]) user
       [(''user'', AString user)] (of_user user) False"

definition SubscribeSpotState :: "string \<Rightarrow> bool option \<Rightarrow> stream res" where
  "SubscribeSpotState user isPortfolioMargin =
     subscribeUser ''spotState''
       (join_key [''spotState'', to_lower user, optionalKey show_bool isPortfolioMargin]) user
       ([(''user'', AString user)] @
        (case isPortfolioMargin of None \<Rightarrow> [] | Some b \<Rightarrow> [(''isPortfolioMargin'', ABool b)]))
       (of_user user) False"

definition SubscribeAllDEXsClearinghouseState :: "string \<Rightarrow> stream res" where
  "SubscribeAllDEXsClearinghouseState user =
     subscribeUser ''allDexsClearinghouseState'' (join_key [''allDexsClearinghouseState'', to_lower user]) user
       [(''user'', AString user)] (of_user user) False"

definition SubscribeUserHistoricalOrders :: "string \<Rightarrow> stream res" where
  "SubscribeUserHistoricalOrders user =
     subscribeUser ''userHistoricalOrders'' (join_key [''userHistoricalOrders'', to_lower user]) user
       [(''user'', AString user)] (of_user user) False"

definition SubscribeAllDEXsAssetCtxs :: "stream res" where
  "SubscribeAllDEXsAssetCtxs = subscribePublic ''allDexsAssetCtxs'' ''allDexsAssetCtxs'' [] any_event"

definition SubscribeAssetCtxs :: "string \<Rightarrow> stream res" where
  "SubscribeAssetCtxs dex =
     subscribePublic ''assetCtxs'' (join_key [''assetCtxs'', dex]) [(''dex'', AString dex)]
       (\<lambda>r. rt_dex r = dex)"

definition SubscribeFastAssetCtxs :: "stream res" where
  "SubscribeFastAssetCtxs = subscribePublic ''fastAssetCtxs'' ''fastAssetCtxs'' [] any_event"

definition SubscribeSpotAssetCtxs :: "stream res" where
  "SubscribeSpotAssetCtxs = subscribePublic ''spotAssetCtxs'' ''spotAssetCtxs'' [] any_event"

definition SubscribeOutcomeMetaUpdates :: "stream res" where
  "SubscribeOutcomeMetaUpdates = subscribePublic ''outcomeMetaUpdates'' ''outcomeMetaUpdates'' [] any_event"

subsection \<open>Explorer streams\<close>

definition SubscribeExplorerBlock :: "stream res" where
  "SubscribeExplorerBlock =
     Inr ((stream_of ''explorerBlock'' ''explorerBlock'' [] any_event PrivateHandle)
       \<lparr> st_channel := ''explorerBlock_'' \<rparr>)"

definition SubscribeExplorerTxs :: "stream res" where
  "SubscribeExplorerTxs =
     Inr ((stream_of ''explorerTxs'' ''explorerTxs'' [] any_event PrivateHandle)
       \<lparr> st_channel := ''explorerTxs_'' \<rparr>)"

section \<open>Opening a stream\<close>

text \<open>
  \<^verbatim>\<open>open_stream\<close> is one turn of a method: \<open>between\<close> is what others do to the client between the
  registration and the handle, \<open>ctx_after\<close> the context's error at that point. \<open>OpenAgain\<close> is the
  method's call of itself.
\<close>

datatype open_result = OpenHandle nat | OpenFailed string | OpenAgain

definition cacheMarketHandle :: "string \<Rightarrow> nat \<Rightarrow> 'l Client \<Rightarrow> nat option \<times> 'l Client" where
  "cacheMarketHandle key ptr c =
     (case map_of (wc_subs c) key of
        None \<Rightarrow> (None, c)
      | Some s \<Rightarrow>
          if ms_ptr s \<noteq> ptr \<or> ms_done s then (None, c)
          else if map_of (wc_handles c) key = Some ptr then (Some ptr, c)
          else (Some ptr, c \<lparr> wc_handles :=
            AList.update key ptr (AList.delete key (wc_handles c)) \<rparr>))"

definition extendedHandle :: "string \<Rightarrow> nat \<Rightarrow> 'l Client \<Rightarrow> nat res \<times> 'l Client" where
  "extendedHandle key ptr c =
     (case cachePrivateHandle key ptr c of
        (None, c') \<Rightarrow> (Inl ErrWebSocketClosed, c')
      | (Some h, c') \<Rightarrow> (Inr h, c'))"

definition again :: "string option \<Rightarrow> open_result" where
  "again ctx_after = (case ctx_after of Some e \<Rightarrow> OpenFailed e | None \<Rightarrow> OpenAgain)"

definition open_stream :: "('g, 'l) gate_ops \<Rightarrow> string option \<Rightarrow> string option \<Rightarrow>
    ('g \<times> 'l Client \<Rightarrow> 'g \<times> 'l Client) \<Rightarrow> nat \<Rightarrow> stream \<Rightarrow> 'g \<times> 'l Client \<Rightarrow>
    open_result \<times> 'g \<times> 'l Client" where
  "open_stream ops ctx_err ctx_after between ptr st gc =
     (case subscribeStream ops ctx_err ptr (\<lambda>s. ms_channel s = st_channel st) (st_key st)
         (st_channel st) (st_wire st) (st_check st) gc of
        Inl e \<Rightarrow> (OpenFailed e, gc)
      | Inr ((p, _), gc1) \<Rightarrow>
          let registered = map_of (wc_subs (snd gc1)) (st_key st);
              conflict = (case (st_aggregate st, registered) of
                (Some mode, Some s) \<Rightarrow> aggregationMode (ms_wire s) \<noteq> mode | _ \<Rightarrow> False);
              (g2, c2) = between gc1 in
          if conflict
          then (OpenFailed
             ''userFills aggregation mode conflicts with an active subscription for the same user'', gc1)
          else (case st_policy st of
             NoHandle \<Rightarrow> (OpenHandle p, gc1)
           | MarketHandle \<Rightarrow>
               (case cacheMarketHandle (st_key st) p c2 of
                  (None, c3) \<Rightarrow> (again ctx_after, g2, c3) | (Some h, c3) \<Rightarrow> (OpenHandle h, g2, c3))
           | PrivateHandle \<Rightarrow>
               (case cachePrivateHandle (st_key st) p c2 of
                  (None, c3) \<Rightarrow> (again ctx_after, g2, c3) | (Some h, c3) \<Rightarrow> (OpenHandle h, g2, c3))
           | ExtendedHandle \<Rightarrow>
               (case extendedHandle (st_key st) p c2 of
                  (Inl e, c3) \<Rightarrow> (OpenFailed e, g2, c3) | (Inr h, c3) \<Rightarrow> (OpenHandle h, g2, c3))))"

section \<open>All requests\<close>

datatype stream_request =
    RL2Book string "int option" "int option" "bool option" | RAllMids string | RTrades string
  | RCandle string string | RBBO string | RActiveAssetCtx string | RActiveSpotAssetCtx string
  | RUserEvents string | ROrderUpdates string | RUserFills string bool | RUserFundings string
  | RUserLedger string | RNotification string | RWebData3 string | ROpenOrders string string
  | RClearinghouseState string string | RActiveAssetData string string | RTWAPStates string string
  | RUserTWAPSliceFills string | RUserTWAPHistory string | RSpotState string "bool option"
  | RAllDEXsClearinghouseState string | RUserHistoricalOrders string | RAllDEXsAssetCtxs
  | RAssetCtxs string | RFastAssetCtxs | RSpotAssetCtxs | ROutcomeMetaUpdates | RExplorerBlock
  | RExplorerTxs

fun stream_for :: "stream_request \<Rightarrow> stream res" where
  "stream_for (RL2Book coin n m f) = SubscribeL2Book coin n m f"
| "stream_for (RAllMids dex) = SubscribeAllMids dex"
| "stream_for (RTrades coin) = SubscribeTrades coin"
| "stream_for (RCandle coin interval) = SubscribeCandle coin interval"
| "stream_for (RBBO coin) = SubscribeBBO coin"
| "stream_for (RActiveAssetCtx coin) = SubscribeActiveAssetCtx coin"
| "stream_for (RActiveSpotAssetCtx coin) = SubscribeActiveSpotAssetCtx coin"
| "stream_for (RUserEvents user) = SubscribeUserEvents user"
| "stream_for (ROrderUpdates user) = SubscribeOrderUpdates user"
| "stream_for (RUserFills user mode) = SubscribeUserFills user mode"
| "stream_for (RUserFundings user) = SubscribeUserFundings user"
| "stream_for (RUserLedger user) = SubscribeUserNonFundingLedgerUpdates user"
| "stream_for (RNotification user) = SubscribeNotification user"
| "stream_for (RWebData3 user) = SubscribeWebData3 user"
| "stream_for (ROpenOrders user dex) = SubscribeOpenOrders user dex"
| "stream_for (RClearinghouseState user dex) = SubscribeClearinghouseState user dex"
| "stream_for (RActiveAssetData user coin) = SubscribeActiveAssetData user coin"
| "stream_for (RTWAPStates user dex) = SubscribeTWAPStates user dex"
| "stream_for (RUserTWAPSliceFills user) = SubscribeUserTWAPSliceFills user"
| "stream_for (RUserTWAPHistory user) = SubscribeUserTWAPHistory user"
| "stream_for (RSpotState user margin) = SubscribeSpotState user margin"
| "stream_for (RAllDEXsClearinghouseState user) = SubscribeAllDEXsClearinghouseState user"
| "stream_for (RUserHistoricalOrders user) = SubscribeUserHistoricalOrders user"
| "stream_for RAllDEXsAssetCtxs = SubscribeAllDEXsAssetCtxs"
| "stream_for (RAssetCtxs dex) = SubscribeAssetCtxs dex"
| "stream_for RFastAssetCtxs = SubscribeFastAssetCtxs"
| "stream_for RSpotAssetCtxs = SubscribeSpotAssetCtxs"
| "stream_for ROutcomeMetaUpdates = SubscribeOutcomeMetaUpdates"
| "stream_for RExplorerBlock = SubscribeExplorerBlock"
| "stream_for RExplorerTxs = SubscribeExplorerTxs"

end
