(* ===== verification/WsRouting.thy ===== *)
theory WsRouting
  imports WsStreams
begin

text \<open>
  What the streams of theory \<^verbatim>\<open>WsStreams\<close> can rely on: every request is one that the acknowledgement
  rules handle, a registry key names one request, and the events of a stream reach its handles and
  no others, with one exception.
\<close>

section \<open>What the requests look like\<close>

text \<open>The channel and the parts of the key, for every request.\<close>

fun kind_tag :: "stream_request \<Rightarrow> string" where
  "kind_tag (RL2Book coin n m f) = ''l2Book''"
| "kind_tag (RAllMids dex) = ''allMids''"
| "kind_tag (RTrades coin) = ''trades''"
| "kind_tag (RCandle coin interval) = ''candle''"
| "kind_tag (RBBO coin) = ''bbo''"
| "kind_tag (RActiveAssetCtx coin) = ''activeAssetCtx''"
| "kind_tag (RActiveSpotAssetCtx coin) = ''activeAssetCtx''"
| "kind_tag (RUserEvents user) = ''userEvents''"
| "kind_tag (ROrderUpdates user) = ''orderUpdates''"
| "kind_tag (RUserFills user mode) = ''userFills''"
| "kind_tag (RUserFundings user) = ''userFundings''"
| "kind_tag (RUserLedger user) = ''userNonFundingLedgerUpdates''"
| "kind_tag (RNotification user) = ''notification''"
| "kind_tag (RWebData3 user) = ''webData3''"
| "kind_tag (ROpenOrders user dex) = ''openOrders''"
| "kind_tag (RClearinghouseState user dex) = ''clearinghouseState''"
| "kind_tag (RActiveAssetData user coin) = ''activeAssetData''"
| "kind_tag (RTWAPStates user dex) = ''twapStates''"
| "kind_tag (RUserTWAPSliceFills user) = ''userTwapSliceFills''"
| "kind_tag (RUserTWAPHistory user) = ''userTwapHistory''"
| "kind_tag (RSpotState user margin) = ''spotState''"
| "kind_tag (RAllDEXsClearinghouseState user) = ''allDexsClearinghouseState''"
| "kind_tag (RUserHistoricalOrders user) = ''userHistoricalOrders''"
| "kind_tag RAllDEXsAssetCtxs = ''allDexsAssetCtxs''"
| "kind_tag (RAssetCtxs dex) = ''assetCtxs''"
| "kind_tag RFastAssetCtxs = ''fastAssetCtxs''"
| "kind_tag RSpotAssetCtxs = ''spotAssetCtxs''"
| "kind_tag ROutcomeMetaUpdates = ''outcomeMetaUpdates''"
| "kind_tag RExplorerBlock = ''explorerBlock''"
| "kind_tag RExplorerTxs = ''explorerTxs''"

fun key_parts :: "stream_request \<Rightarrow> string list" where
  "key_parts (RL2Book coin n m f) =
     [coin, optionalKey show_int n, optionalKey show_int m, optionalKey show_bool f]"
| "key_parts (RAllMids dex) = [dex]"
| "key_parts (RTrades coin) = [coin]"
| "key_parts (RCandle coin interval) = [coin, interval]"
| "key_parts (RBBO coin) = [coin]"
| "key_parts (RActiveAssetCtx coin) = [coin]"
| "key_parts (RActiveSpotAssetCtx coin) = [coin]"
| "key_parts (ROpenOrders user dex) = [to_lower user, dex]"
| "key_parts (RClearinghouseState user dex) = [to_lower user, dex]"
| "key_parts (RActiveAssetData user coin) = [to_lower user, coin]"
| "key_parts (RTWAPStates user dex) = [to_lower user, dex]"
| "key_parts (RSpotState user margin) = [to_lower user, optionalKey show_bool margin]"
| "key_parts (RUserEvents user) = [to_lower user]"
| "key_parts (ROrderUpdates user) = [to_lower user]"
| "key_parts (RUserFills user mode) = [to_lower user]"
| "key_parts (RUserFundings user) = [to_lower user]"
| "key_parts (RUserLedger user) = [to_lower user]"
| "key_parts (RNotification user) = [to_lower user]"
| "key_parts (RWebData3 user) = [to_lower user]"
| "key_parts (RUserTWAPSliceFills user) = [to_lower user]"
| "key_parts (RUserTWAPHistory user) = [to_lower user]"
| "key_parts (RAllDEXsClearinghouseState user) = [to_lower user]"
| "key_parts (RUserHistoricalOrders user) = [to_lower user]"
| "key_parts (RAssetCtxs dex) = [dex]"
| "key_parts _ = []"

lemmas stream_defs = SubscribeL2Book_def SubscribeAllMids_def SubscribeTrades_def SubscribeCandle_def
  SubscribeBBO_def SubscribeActiveAssetCtx_def SubscribeActiveSpotAssetCtx_def
  SubscribeUserEvents_def SubscribeOrderUpdates_def SubscribeUserFills_def
  SubscribeUserFundings_def SubscribeUserNonFundingLedgerUpdates_def SubscribeNotification_def
  SubscribeWebData3_def SubscribeOpenOrders_def SubscribeClearinghouseState_def
  SubscribeActiveAssetData_def SubscribeTWAPStates_def SubscribeUserTWAPSliceFills_def
  SubscribeUserTWAPHistory_def SubscribeSpotState_def SubscribeAllDEXsClearinghouseState_def
  SubscribeUserHistoricalOrders_def SubscribeAllDEXsAssetCtxs_def SubscribeAssetCtxs_def
  SubscribeFastAssetCtxs_def SubscribeSpotAssetCtxs_def SubscribeOutcomeMetaUpdates_def
  SubscribeExplorerBlock_def SubscribeExplorerTxs_def
  private_stream_def subscribeUser_def subscribePublic_def

lemmas key_defs = l2BookKey_def allMidsKey_def tradesKey_def candleKey_def bboKey_def activeAssetCtxKey_def

lemma stream_key:
  "stream_for rq = Inr s \<Longrightarrow> st_key s = join_key (kind_tag rq # key_parts rq)"
  by (cases rq) (auto simp: stream_defs key_defs stream_of_def join_key_def Let_def split: if_splits)

lemma stream_kind:
  "stream_for rq = Inr s \<Longrightarrow> st_channel s = (if rq = RExplorerBlock \<or> rq = RExplorerTxs
     then kind_tag rq @ ''_'' else kind_tag rq)"
  by (cases rq) (auto simp: stream_defs stream_of_def Let_def split: if_splits)

section \<open>Requests are well formed\<close>

lemma requireUser_ok [simp]: "requireUser u = Inr x \<longleftrightarrow> trim_space u \<noteq> ''''"
  by (simp add: requireUser_def)

lemma require_coin_ok [simp]: "require_coin c = Inr x \<longleftrightarrow> c \<noteq> ''''"
  by (simp add: require_coin_def)

lemma aggregation_ok:
  "L2BookAggregation n m = Inr x \<Longrightarrow> n \<in> {None, Some 2, Some 3, Some 4, Some 5} \<and>
     (m = None \<or> n = Some 5 \<and> m \<in> {Some 1, Some 2, Some 5})"
  by (auto simp: L2BookAggregation_def split: option.splits if_splits)

lemma interval_ok: "CandleInterval i = Inr x \<Longrightarrow> CHR '':'' \<notin> set i"
  by (auto simp: CandleInterval_def split: if_splits)

definition good_stream :: "stream \<Rightarrow> bool" where
  "good_stream s \<longleftrightarrow> sw_Method (st_wire s) = ''subscribe'' \<and> wire_ok (sw_Subscription (st_wire s))"

lemma good_stream_of:
  "list_all (\<lambda>(k, v). k \<noteq> ''type'' \<and> request_value v \<and> (k \<noteq> ''user'' \<or> is_string v)) fs \<Longrightarrow>
   distinct (map fst fs) \<Longrightarrow> kind \<noteq> ''spotState'' \<Longrightarrow> good_stream (stream_of kind key fs pred policy)"
proof -
  assume fs: "list_all (\<lambda>(k, v). k \<noteq> ''type'' \<and> request_value v \<and> (k \<noteq> ''user'' \<or> is_string v)) fs"
    and d: "distinct (map fst fs)" and k: "kind \<noteq> ''spotState''"
  have t: "''type'' \<notin> fst ` set fs" using fs by (auto simp: list_all_iff)
  have u: "AList.update ''type'' v fs = fs @ [(''type'', v)]" for v :: any
    using t by (induction fs) auto
  have m: "map_of fs ''type'' = None" using t by (simp add: map_of_eq_None_iff)
  have "wire_ok (fs @ [(''type'', AString kind)])"
    using fs d k t m by (auto simp: wire_ok_def kind_of_def map_add_def list_all_iff
        split: option.splits dest!: map_of_SomeD)
  then show ?thesis by (simp add: good_stream_def stream_of_def newSubscriptionWire_def u)
qed

lemma stream_update_good:
  "good_stream (s \<lparr> st_check := x \<rparr>) = good_stream s" "good_stream (s \<lparr> st_channel := ch \<rparr>) = good_stream s"
  "good_stream (s \<lparr> st_aggregate := a \<rparr>) = good_stream s"
  by (simp_all add: good_stream_def)

lemma l2_good:
  "L2BookAggregation n m = Inr x \<Longrightarrow>
   good_stream (s \<lparr> st_wire := newL2SubscriptionWire coin n m f \<rparr>)"
proof -
  assume "L2BookAggregation n m = Inr x"
  then have v: "case n of None \<Rightarrow> True | Some i \<Rightarrow> \<bar>i\<bar> < 2 ^ 53" "case m of None \<Rightarrow> True | Some i \<Rightarrow> \<bar>i\<bar> < 2 ^ 53"
    by (auto dest!: aggregation_ok)
  let ?fs = "[(''coin'', AString coin)] @ (case n of None \<Rightarrow> [] | Some n \<Rightarrow> [(''nSigFigs'', AInt n)]) @
        (case m of None \<Rightarrow> [] | Some m \<Rightarrow> [(''mantissa'', AInt m)]) @
        (case f of None \<Rightarrow> [] | Some b \<Rightarrow> [(''fast'', ABool b)])"
  have "good_stream (stream_of ''l2Book'' '''' ?fs any_event NoHandle)"
    by (rule good_stream_of) (use v in \<open>simp_all split: option.splits\<close>)
  then show ?thesis
    by (simp add: good_stream_def stream_of_def newL2SubscriptionWire_def)
qed

lemma spot_good:
  "good_stream (stream_of ''spotState'' key ((''user'', AString user) #
     (case margin of None \<Rightarrow> [] | Some b \<Rightarrow> [(''isPortfolioMargin'', ABool b)])) pred policy)"
  by (cases margin) (simp_all add: good_stream_def stream_of_def newSubscriptionWire_def wire_ok_def
      kind_of_def)

lemma stream_good: "stream_for rq = Inr s \<Longrightarrow> good_stream s"
  by (cases rq) (auto simp: stream_defs stream_update_good Let_def l2_good spot_good split: if_splits
      intro!: good_stream_of)

lemma kind_new: "kind_of (sw_Subscription (newSubscriptionWire kind fs)) = kind"
  by (simp add: newSubscriptionWire_def kind_of_def update_conv')

lemma stream_wire_kind:
  "stream_for rq = Inr s \<Longrightarrow> kind_of (sw_Subscription (st_wire s)) = kind_tag rq"
  by (cases rq) (auto simp: stream_defs stream_of_def Let_def newL2SubscriptionWire_def kind_new
      split: if_splits)

text \<open>
  Every request that a \<^verbatim>\<open>Subscribe\<close> method can send, whatever its
  arguments, is a subscribe request with one value per field, a type, a textual user and integers that
  a \<^verbatim>\<open>float64\<close> holds exactly, so that the rules for identities and acknowledgements apply to it.
\<close>

theorem stream_requests_wellformed:
  "case stream_for rq of Inl e \<Rightarrow> True | Inr s \<Rightarrow>
     sw_Method (st_wire s) = ''subscribe'' \<and> wire_ok (sw_Subscription (st_wire s)) \<and>
     kind_of (sw_Subscription (st_wire s)) = kind_tag rq"
  using stream_good [of rq] stream_wire_kind [of rq] by (auto simp: good_stream_def split: sum.splits)

section \<open>Registry keys\<close>

lemma prefix_split:
  "CHR '':'' \<notin> set x \<Longrightarrow> CHR '':'' \<notin> set y \<Longrightarrow>
   x @ CHR '':'' # a = y @ CHR '':'' # b \<longleftrightarrow> x = y \<and> a = b"
proof (induction x arbitrary: y)
  case Nil
  then show ?case by (cases y) auto
next
  case (Cons c x)
  then show ?case by (cases y) auto
qed

lemma takeWhile_colon: "CHR '':'' \<notin> set r \<Longrightarrow> takeWhile (\<lambda>x. x \<noteq> CHR '':'') (r @ CHR '':'' # t) = r"
  by (induction r) auto

lemma of_char_Char_58: "char_of (58 :: nat) = CHR '':''"
  by code_simp

lemma suffix_split:
  "CHR '':'' \<notin> set x \<Longrightarrow> CHR '':'' \<notin> set y \<Longrightarrow>
   a @ CHR '':'' # x = b @ CHR '':'' # y \<longleftrightarrow> a = b \<and> x = y"
proof -
  assume n: "CHR '':'' \<notin> set x" "CHR '':'' \<notin> set y"
  have "a @ CHR '':'' # x = b @ CHR '':'' # y \<longleftrightarrow>
      rev x @ CHR '':'' # rev a = rev y @ CHR '':'' # rev b"
    by (metis append.assoc append_Cons append_Nil rev.simps(2) rev_append rev_rev_ident)
  then show ?thesis using prefix_split [of "rev x" "rev y" "rev a" "rev b"] n by auto
qed

lemma lower_char_colon: "lower_char ch = CHR '':'' \<longleftrightarrow> ch = CHR '':''"
proof
  assume "lower_char ch = CHR '':''"
  then have "(of_char (lower_char ch) :: nat) = 58" by simp
  then have "(of_char ch :: nat) = 58" by (auto simp: lower_char_def Let_def split: if_splits)
  then show "ch = CHR '':''" by (metis char_of_char of_char_Char_58)
next
  show "ch = CHR '':'' \<Longrightarrow> lower_char ch = CHR '':''" by (simp add: lower_char_def Let_def)
qed

lemma to_lower_colon [simp]: "CHR '':'' \<in> set (to_lower u) \<longleftrightarrow> CHR '':'' \<in> set u"
  by (induction u) (simp_all add: to_lower_def lower_char_colon eq_commute [of "CHR '':''"])

text \<open>The first part of a key ends at its first colon.\<close>

lemma join_head:
  assumes "CHR '':'' \<notin> set p" "CHR '':'' \<notin> set q" "join_key (p # ps) = join_key (q # qs)"
  shows "p = q" "concat (map (\<lambda>x. CHR '':'' # x) ps) = concat (map (\<lambda>x. CHR '':'' # x) qs)"
proof -
  let ?c = "\<lambda>ps. concat (map (\<lambda>x. CHR '':'' # x) ps)"
  have e: "p @ ?c ps = q @ ?c qs" using assms(3) by (simp add: join_key_def)
  have t: "takeWhile (\<lambda>x. x \<noteq> CHR '':'') (r @ ?c rs) = r" if "CHR '':'' \<notin> set r" for r rs
    using that by (cases rs) (simp_all add: takeWhile_colon, metis takeWhile_eq_all_conv)
  show "p = q" using t [OF assms(1), of ps] t [OF assms(2), of qs] e by simp
  then show "?c ps = ?c qs" using e by simp
qed

lemma kind_tag_colon: "CHR '':'' \<notin> set (kind_tag rq)"
  by (cases rq) simp_all

lemma show_bool_inj: "optionalKey show_bool a = optionalKey show_bool b \<longleftrightarrow> a = b"
  by (auto simp: optionalKey_def show_bool_def split: option.splits)

lemma optional_bool_colon: "CHR '':'' \<notin> set (optionalKey show_bool a)"
  by (auto simp: optionalKey_def show_bool_def split: option.splits)

definition small :: "int option \<Rightarrow> bool" where
  "small n \<longleftrightarrow> n \<in> {None, Some 1, Some 2, Some 3, Some 4, Some 5}"

lemma small_texts: "optionalKey show_int None = ''omitted''" "optionalKey show_int (Some 1) = ''1''"
    "optionalKey show_int (Some 2) = ''2''" "optionalKey show_int (Some 3) = ''3''"
    "optionalKey show_int (Some 4) = ''4''" "optionalKey show_int (Some 5) = ''5''"
  by (code_simp+)

lemma small_inj: "small a \<Longrightarrow> small b \<Longrightarrow> optionalKey show_int a = optionalKey show_int b \<longleftrightarrow> a = b"
  unfolding small_def by (elim insertE emptyE) (simp_all add: small_texts)

lemma small_colon: "small a \<Longrightarrow> CHR '':'' \<notin> set (optionalKey show_int a)"
  unfolding small_def by (elim insertE emptyE) (simp_all add: small_texts)

lemma aggregation_small: "L2BookAggregation n m = Inr x \<Longrightarrow> small n \<and> small m"
  by (auto simp: small_def dest!: aggregation_ok)

text \<open>What a key says about the request; the account of a stream must not contain a colon.\<close>

fun account :: "stream_request \<Rightarrow> string" where
  "account (ROpenOrders user dex) = user"
| "account (RClearinghouseState user dex) = user"
| "account (RActiveAssetData user coin) = user"
| "account (RTWAPStates user dex) = user"
| "account (RSpotState user margin) = user"
| "account _ = ''''"

definition request_ok :: "stream_request \<Rightarrow> bool" where
  "request_ok rq \<longleftrightarrow> CHR '':'' \<notin> set (account rq) \<and>
     (case rq of RL2Book coin n m f \<Rightarrow> small n \<and> small m
      | RCandle coin interval \<Rightarrow> CHR '':'' \<notin> set interval | _ \<Rightarrow> True)"

lemma stream_request_ok:
  "stream_for rq = Inr s \<Longrightarrow> CHR '':'' \<notin> set (account rq) \<Longrightarrow> request_ok rq"
  by (cases rq) (auto simp: request_ok_def stream_defs dest: aggregation_small interval_ok split: if_splits)

abbreviation colon_join :: "string list \<Rightarrow> string" where
  "colon_join ps \<equiv> concat (map (\<lambda>x. CHR '':'' # x) ps)"

lemma l2_parts:
  assumes "small n" "small m" "small n'" "small m'"
    and "colon_join (key_parts (RL2Book coin n m f)) = colon_join (key_parts (RL2Book coin' n' m' f'))"
  shows "RL2Book coin n m f = RL2Book coin' n' m' f'"
proof -
  have e: "((coin @ CHR '':'' # optionalKey show_int n) @ CHR '':'' # optionalKey show_int m) @
        CHR '':'' # optionalKey show_bool f =
      ((coin' @ CHR '':'' # optionalKey show_int n') @ CHR '':'' # optionalKey show_int m') @
        CHR '':'' # optionalKey show_bool f'"
    using assms(5) by simp
  note a = suffix_split [THEN iffD1, OF optional_bool_colon optional_bool_colon e]
  note b = suffix_split [THEN iffD1, OF small_colon [OF assms(2)] small_colon [OF assms(4)] a [THEN conjunct1]]
  note c = suffix_split [THEN iffD1, OF small_colon [OF assms(1)] small_colon [OF assms(3)] b [THEN conjunct1]]
  show ?thesis using a b c small_inj assms(1-4) show_bool_inj by auto
qed

lemma user_parts:
  "CHR '':'' \<notin> set u \<Longrightarrow> CHR '':'' \<notin> set v \<Longrightarrow>
   colon_join [to_lower u, x] = colon_join [to_lower v, y] \<Longrightarrow> to_lower u = to_lower v \<and> x = y"
  using prefix_split [of "to_lower u" "to_lower v" x y] by simp

text \<open>A request up to the letter case of its user, the mode of fills, and the alias for spot assets.\<close>

fun normal :: "stream_request \<Rightarrow> stream_request" where
  "normal (RActiveSpotAssetCtx coin) = RActiveAssetCtx coin"
| "normal (RUserEvents user) = RUserEvents (to_lower user)"
| "normal (ROrderUpdates user) = ROrderUpdates (to_lower user)"
| "normal (RUserFills user mode) = RUserFills (to_lower user) False"
| "normal (RUserFundings user) = RUserFundings (to_lower user)"
| "normal (RUserLedger user) = RUserLedger (to_lower user)"
| "normal (RNotification user) = RNotification (to_lower user)"
| "normal (RWebData3 user) = RWebData3 (to_lower user)"
| "normal (ROpenOrders user dex) = ROpenOrders (to_lower user) dex"
| "normal (RClearinghouseState user dex) = RClearinghouseState (to_lower user) dex"
| "normal (RActiveAssetData user coin) = RActiveAssetData (to_lower user) coin"
| "normal (RTWAPStates user dex) = RTWAPStates (to_lower user) dex"
| "normal (RUserTWAPSliceFills user) = RUserTWAPSliceFills (to_lower user)"
| "normal (RUserTWAPHistory user) = RUserTWAPHistory (to_lower user)"
| "normal (RSpotState user margin) = RSpotState (to_lower user) margin"
| "normal (RAllDEXsClearinghouseState user) = RAllDEXsClearinghouseState (to_lower user)"
| "normal (RUserHistoricalOrders user) = RUserHistoricalOrders (to_lower user)"
| "normal rq = rq"

lemma same_kind_parts:
  assumes "request_ok a" "request_ok b" "kind_tag a = kind_tag b"
    and "colon_join (key_parts a) = colon_join (key_parts b)"
  shows "normal a = normal b"
proof (cases "\<exists>c n m f. a = RL2Book c n m f")
  case True
  then obtain c n m f where a: "a = RL2Book c n m f" by blast
  then obtain c' n' m' f' where b: "b = RL2Book c' n' m' f'" using assms(3) by (cases b) simp_all
  have "small n" "small m" "small n'" "small m'" using assms(1,2) by (simp_all add: a b request_ok_def)
  from l2_parts [OF this] show ?thesis using assms(4) unfolding a b by (simp only: normal.simps)
next
  case False
  then show ?thesis using assms
    by (cases a; cases b) (simp_all add: request_ok_def prefix_split suffix_split show_bool_inj)
qed

lemma same_key:
  assumes "stream_for a = Inr s" "stream_for b = Inr t" "st_key s = st_key t"
    and "CHR '':'' \<notin> set (account a)" "CHR '':'' \<notin> set (account b)"
  shows "normal a = normal b"
proof -
  have "join_key (kind_tag a # key_parts a) = join_key (kind_tag b # key_parts b)"
    using stream_key assms(1-3) by metis
  from join_head [OF kind_tag_colon kind_tag_colon this] show ?thesis
    using same_kind_parts stream_request_ok assms by blast
qed

lemma normal_channel:
  "stream_for a = Inr s \<Longrightarrow> stream_for b = Inr t \<Longrightarrow> normal a = normal b \<Longrightarrow> st_channel s = st_channel t"
proof -
  assume a: "stream_for a = Inr s" "stream_for b = Inr t" "normal a = normal b"
  have "kind_tag (normal r) = kind_tag r" for r by (cases r) simp_all
  moreover have "(normal r = RExplorerBlock) = (r = RExplorerBlock)"
    "(normal r = RExplorerTxs) = (r = RExplorerTxs)" for r by (cases r; simp)+
  ultimately show ?thesis using stream_kind a by metis
qed

lemma user_identity:
  assumes "to_lower u = to_lower v" "kind \<noteq> ''spotState''" "''user'' \<notin> fst ` set fs" "''type'' \<notin> fst ` set fs"
  shows "serverSubscriptionIdentity (sw_Subscription (newSubscriptionWire kind ((''user'', AString u) # fs))) =
    serverSubscriptionIdentity (sw_Subscription (newSubscriptionWire kind ((''user'', AString v) # fs)))"
proof -
  have n: "normalized_fields (AList.update ''type'' (AString kind) ((''user'', AString w) # fs)) =
      (''user'', AString (to_lower w)) #
      List.map_filter (keep_field kind) (AList.update ''type'' (AString kind) fs)" for w
    using kind_new [of kind "(''user'', AString w) # fs"]
    by (simp add: normalized_fields_def newSubscriptionWire_def keep_field_def List.map_filter_simps)
  show ?thesis using assms(1)
    by (simp add: newSubscriptionWire_def serverSubscriptionIdentity_def n del: AList.update.simps)
qed

lemma spot_identity:
  "to_lower u = to_lower v \<Longrightarrow>
   serverSubscriptionIdentity (sw_Subscription (newSubscriptionWire ''spotState'' ((''user'', AString u) #
     (case margin of None \<Rightarrow> [] | Some b \<Rightarrow> [(''isPortfolioMargin'', ABool b)])))) =
   serverSubscriptionIdentity (sw_Subscription (newSubscriptionWire ''spotState'' ((''user'', AString v) #
     (case margin' of None \<Rightarrow> [] | Some b \<Rightarrow> [(''isPortfolioMargin'', ABool b)]))))"
  by (cases margin; cases margin') (simp_all add: newSubscriptionWire_def serverSubscriptionIdentity_def
      normalized_fields_def kind_of_def keep_field_def serverIdentityIgnoredField_def
      serverDefaultField_def List.map_filter_simps)

text \<open>The request that each method sends.\<close>

fun wire_of :: "stream_request \<Rightarrow> subscriptionWire" where
  "wire_of (RL2Book coin n m f) = newL2SubscriptionWire coin n m f"
| "wire_of (RAllMids dex) = newSubscriptionWire ''allMids''
     (if dex \<noteq> '''' then [(''dex'', AString dex)] else [])"
| "wire_of (RTrades coin) = newSubscriptionWire ''trades'' [(''coin'', AString coin)]"
| "wire_of (RCandle coin interval) = newSubscriptionWire ''candle''
     [(''coin'', AString coin), (''interval'', AString interval)]"
| "wire_of (RBBO coin) = newSubscriptionWire ''bbo'' [(''coin'', AString coin)]"
| "wire_of (RActiveAssetCtx coin) = newSubscriptionWire ''activeAssetCtx'' [(''coin'', AString coin)]"
| "wire_of (RActiveSpotAssetCtx coin) = newSubscriptionWire ''activeAssetCtx'' [(''coin'', AString coin)]"
| "wire_of (RUserEvents user) = newSubscriptionWire ''userEvents'' [(''user'', AString user)]"
| "wire_of (ROrderUpdates user) = newSubscriptionWire ''orderUpdates'' [(''user'', AString user)]"
| "wire_of (RUserFills user mode) = newSubscriptionWire ''userFills''
     ((''user'', AString user) # (if mode then [(''aggregateByTime'', ABool True)] else []))"
| "wire_of (RUserFundings user) = newSubscriptionWire ''userFundings'' [(''user'', AString user)]"
| "wire_of (RUserLedger user) = newSubscriptionWire ''userNonFundingLedgerUpdates'' [(''user'', AString user)]"
| "wire_of (RNotification user) = newSubscriptionWire ''notification'' [(''user'', AString user)]"
| "wire_of (RWebData3 user) = newSubscriptionWire ''webData3'' [(''user'', AString user)]"
| "wire_of (ROpenOrders user dex) = newSubscriptionWire ''openOrders''
     [(''user'', AString user), (''dex'', AString dex)]"
| "wire_of (RClearinghouseState user dex) = newSubscriptionWire ''clearinghouseState''
     [(''user'', AString user), (''dex'', AString dex)]"
| "wire_of (RActiveAssetData user coin) = newSubscriptionWire ''activeAssetData''
     [(''user'', AString user), (''coin'', AString coin)]"
| "wire_of (RTWAPStates user dex) = newSubscriptionWire ''twapStates''
     [(''user'', AString user), (''dex'', AString dex)]"
| "wire_of (RUserTWAPSliceFills user) = newSubscriptionWire ''userTwapSliceFills'' [(''user'', AString user)]"
| "wire_of (RUserTWAPHistory user) = newSubscriptionWire ''userTwapHistory'' [(''user'', AString user)]"
| "wire_of (RSpotState user margin) = newSubscriptionWire ''spotState'' ((''user'', AString user) #
     (case margin of None \<Rightarrow> [] | Some b \<Rightarrow> [(''isPortfolioMargin'', ABool b)]))"
| "wire_of (RAllDEXsClearinghouseState user) = newSubscriptionWire ''allDexsClearinghouseState'' [(''user'', AString user)]"
| "wire_of (RUserHistoricalOrders user) = newSubscriptionWire ''userHistoricalOrders'' [(''user'', AString user)]"
| "wire_of RAllDEXsAssetCtxs = newSubscriptionWire ''allDexsAssetCtxs'' []"
| "wire_of (RAssetCtxs dex) = newSubscriptionWire ''assetCtxs'' [(''dex'', AString dex)]"
| "wire_of RFastAssetCtxs = newSubscriptionWire ''fastAssetCtxs'' []"
| "wire_of RSpotAssetCtxs = newSubscriptionWire ''spotAssetCtxs'' []"
| "wire_of ROutcomeMetaUpdates = newSubscriptionWire ''outcomeMetaUpdates'' []"
| "wire_of RExplorerBlock = newSubscriptionWire ''explorerBlock'' []"
| "wire_of RExplorerTxs = newSubscriptionWire ''explorerTxs'' []"

lemma stream_wire: "stream_for rq = Inr s \<Longrightarrow> st_wire s = wire_of rq"
  by (cases rq) (auto simp: stream_defs stream_of_def Let_def split: if_splits)

lemma wire_identity:
  assumes "normal a = normal b" "kind_tag a \<noteq> ''userFills''" "a \<noteq> b"
  shows "serverSubscriptionIdentity (sw_Subscription (wire_of a)) =
    serverSubscriptionIdentity (sw_Subscription (wire_of b))"
  using assms by (cases a; cases b; simp) (auto intro!: user_identity spot_identity)

lemma normal_identity:
  assumes "stream_for a = Inr s" "stream_for b = Inr t" "normal a = normal b" "kind_tag a \<noteq> ''userFills''"
  shows "serverSubscriptionIdentity (sw_Subscription (st_wire s)) =
    serverSubscriptionIdentity (sw_Subscription (st_wire t))"
  using assms stream_wire wire_identity by metis

end
