(* ===== verification/WsDelivery.thy ===== *)
theory WsDelivery
  imports WsRouting
begin

text \<open>
  Which handles an event of the connection reaches. Two streams whose keys are equal are one for the
  server, and two streams that are registered side by side accept the same event only when they are
  the same for the server; order books of one coin at two aggregations are the exception.
\<close>

section \<open>Routing\<close>

text \<open>
  \<^verbatim>\<open>subscribeStream\<close> runs the check of a stream on the registry; one that passes is admitted beside
  the streams that are there.
\<close>


definition admitted_beside :: "stream \<Rightarrow> (string \<times> managedSubscription) list \<Rightarrow> bool" where
  "admitted_beside t subs \<longleftrightarrow>
     (case st_check t of None \<Rightarrow> True | Some check \<Rightarrow> (case check subs of Inl e \<Rightarrow> False | Inr x \<Rightarrow> True))"

lemma same_channel:
  "stream_for a = Inr s \<Longrightarrow> stream_for b = Inr t \<Longrightarrow> st_channel s = st_channel t \<Longrightarrow>
   kind_tag a = kind_tag b"
proof -
  assume a: "stream_for a = Inr s" "stream_for b = Inr t" "st_channel s = st_channel t"
  have u: "CHR ''_'' \<notin> set (kind_tag r)" for r by (cases r) simp_all
  have "last (x @ ''_'') = CHR ''_''" for x by simp
  then show ?thesis using stream_kind [OF a(1)] stream_kind [OF a(2)] a(3) u
    by (metis append1_eq_conv in_set_conv_decomp)
qed

lemma check_fails:
  assumes "(k, m) \<in> set subs" "ms_channel m = ch"
  shows "onePerChannel ch subs = Inl (ch @ '' cannot be multiplexed because its messages omit user'')"
  using assms by (force simp: onePerChannel_def list_ex_iff)

text \<open>The events that a stream lets through.\<close>

fun accepts :: "stream_request \<Rightarrow> route \<Rightarrow> bool" where
  "accepts (RL2Book coin n m f) e \<longleftrightarrow> rt_coin e = coin"
| "accepts (RTrades coin) e \<longleftrightarrow> rt_coin e = coin"
| "accepts (RBBO coin) e \<longleftrightarrow> rt_coin e = coin"
| "accepts (RActiveAssetCtx coin) e \<longleftrightarrow> rt_coin e = coin"
| "accepts (RActiveSpotAssetCtx coin) e \<longleftrightarrow> rt_coin e = coin"
| "accepts (RCandle coin interval) e \<longleftrightarrow> rt_coin e = coin \<and> rt_interval e = interval"
| "accepts (RUserFills user mode) e \<longleftrightarrow> to_lower (rt_user e) = to_lower user"
| "accepts (RUserFundings user) e \<longleftrightarrow> to_lower (rt_user e) = to_lower user"
| "accepts (RUserLedger user) e \<longleftrightarrow> to_lower (rt_user e) = to_lower user"
| "accepts (RWebData3 user) e \<longleftrightarrow> to_lower (rt_user e) = to_lower user"
| "accepts (RUserTWAPSliceFills user) e \<longleftrightarrow> to_lower (rt_user e) = to_lower user"
| "accepts (RUserTWAPHistory user) e \<longleftrightarrow> to_lower (rt_user e) = to_lower user"
| "accepts (RAllDEXsClearinghouseState user) e \<longleftrightarrow> to_lower (rt_user e) = to_lower user"
| "accepts (RUserHistoricalOrders user) e \<longleftrightarrow> to_lower (rt_user e) = to_lower user"
| "accepts (ROpenOrders user dex) e \<longleftrightarrow> to_lower (rt_user e) = to_lower user \<and> rt_dex e = dex"
| "accepts (RClearinghouseState user dex) e \<longleftrightarrow> to_lower (rt_user e) = to_lower user \<and> rt_dex e = dex"
| "accepts (RTWAPStates user dex) e \<longleftrightarrow> to_lower (rt_user e) = to_lower user \<and> rt_dex e = dex"
| "accepts (RActiveAssetData user coin) e \<longleftrightarrow> to_lower (rt_user e) = to_lower user \<and> rt_coin e = coin"
| "accepts (RSpotState user margin) e \<longleftrightarrow> to_lower (rt_user e) = to_lower user"
| "accepts (RAssetCtxs dex) e \<longleftrightarrow> rt_dex e = dex"
| "accepts _ e \<longleftrightarrow> True"

lemma stream_accepts:
  "stream_for rq = Inr s \<Longrightarrow> st_match s r = (case r of None \<Rightarrow> False | Some e \<Rightarrow> accepts rq e)"
  by (cases rq) (auto simp: stream_defs stream_of_def Let_def of_user_def of_user_dex_def of_coin_def
      any_event_def equal_fold_def split: if_splits option.splits)

text \<open>The kinds whose events do not say to whom they belong; a client has one stream of each.\<close>

definition lone_kinds :: "string set" where
  "lone_kinds = {''allMids'', ''userEvents'', ''orderUpdates'', ''notification''}"

lemma lone_not_admitted:
  assumes "stream_for b = Inr t" "kind_tag b \<in> lone_kinds"
    and "(k, m) \<in> set subs" "ms_channel m = st_channel t" "k \<noteq> st_key t"
  shows "\<not> admitted_beside t subs"
proof -
  note c = check_fails [OF assms(3,4)]
  have a: "list_ex (\<lambda>(k, m). ms_channel m = ''allMids'' \<and> k \<noteq> st_key t) subs"
    if "st_channel t = ''allMids''" using assms(3-5) that by (force simp: list_ex_iff)
  show ?thesis using assms(1,2) c a
    by (cases b) (auto simp: lone_kinds_def stream_defs stream_of_def admitted_beside_def Let_def)
qed

text \<open>The parts of the key are what the events of such a kind show.\<close>

definition shown :: "string \<Rightarrow> route \<Rightarrow> string list" where
  "shown kind e =
     (if kind \<in> {''trades'', ''bbo'', ''activeAssetCtx''} then [rt_coin e]
      else if kind = ''candle'' then [rt_coin e, rt_interval e]
      else if kind \<in> {''openOrders'', ''clearinghouseState'', ''twapStates''}
      then [to_lower (rt_user e), rt_dex e]
      else if kind = ''activeAssetData'' then [to_lower (rt_user e), rt_coin e]
      else if kind = ''assetCtxs'' then [rt_dex e]
      else if kind \<in> {''allDexsAssetCtxs'', ''fastAssetCtxs'', ''spotAssetCtxs'', ''outcomeMetaUpdates'',
        ''explorerBlock'', ''explorerTxs''} then []
      else [to_lower (rt_user e)])"

lemma accepts_shown:
  "accepts rq e \<Longrightarrow> kind_tag rq \<notin> lone_kinds \<union> {''l2Book'', ''spotState''} \<Longrightarrow>
   key_parts rq = shown (kind_tag rq) e"
  by (cases rq) (simp_all add: shown_def lone_kinds_def)

lemma l2_kind: "kind_tag a = ''l2Book'' \<Longrightarrow> \<exists>coin n m f. a = RL2Book coin n m f"
  by (cases a) simp_all

lemma spot_kind: "kind_tag a = ''spotState'' \<Longrightarrow> \<exists>u margin. a = RSpotState u margin"
  by (cases a) simp_all

section \<open>Properties\<close>

text \<open>
  Two requests that the registry takes for one, because their keys are equal,
  have the same channel and the same server identity (fills: one user, where the method compares the
  mode itself), as long as no account is written with a colon.
\<close>

theorem keys_name_streams:
  assumes "stream_for a = Inr s" "stream_for b = Inr t" "st_key s = st_key t"
    and "CHR '':'' \<notin> set (account a)" "CHR '':'' \<notin> set (account b)"
  shows "st_channel s = st_channel t \<and>
    (st_channel s = ''userFills'' \<or>
     serverSubscriptionIdentity (sw_Subscription (st_wire s)) =
     serverSubscriptionIdentity (sw_Subscription (st_wire t)))"
proof -
  have n: "normal a = normal b" by (rule same_key [OF assms])
  have "st_channel s = ''userFills''" if "kind_tag a = ''userFills''"
    using stream_kind [OF assms(1)] that by auto
  then show ?thesis using normal_channel [OF assms(1,2) n] normal_identity [OF assms(1,2) n] by blast
qed

definition sample_orders :: "string \<Rightarrow> stream" where
  "sample_orders user = projr (SubscribeOpenOrders user ''xyz:1'')"

lemma sample_orders_ok:
  "trim_space user \<noteq> '''' \<Longrightarrow> stream_for (ROpenOrders user ''xyz:1'') = Inr (sample_orders user)"
  by (simp add: sample_orders_def SubscribeOpenOrders_def subscribeUser_def requireUser_def)

lemma keys_name_streams_witness:
  "serverSubscriptionIdentity (sw_Subscription (st_wire (sample_orders ''0xAB''))) =
   serverSubscriptionIdentity (sw_Subscription (st_wire (sample_orders ''0xab'')))"
proof -
  have u: "trim_space ''0xAB'' \<noteq> ''''" "trim_space ''0xab'' \<noteq> ''''" by code_simp+
  have k: "st_key (sample_orders ''0xAB'') = st_key (sample_orders ''0xab'')" by code_simp
  have c: "st_channel (sample_orders ''0xAB'') \<noteq> ''userFills''" by code_simp
  have a: "CHR '':'' \<notin> set (account (ROpenOrders ''0xAB'' ''xyz:1''))"
    "CHR '':'' \<notin> set (account (ROpenOrders ''0xab'' ''xyz:1''))" by simp_all
  from keys_name_streams [OF sample_orders_ok [OF u(1)] sample_orders_ok [OF u(2)] k a] c
  show ?thesis by blast
qed

text \<open>With a colon in an account two users share a key.\<close>

lemma colon_key_collision:
  "st_key (projr (SubscribeOpenOrders ''a:b'' ''c'')) = st_key (projr (SubscribeOpenOrders ''a'' ''b:c''))"
  by code_simp

text \<open>
  C13: if two streams of one channel are both registered and an event passes
  both filters, they are the same for the server, or both are order books of one coin. Order books
  are the exception: their events do not say at which aggregation they were made.
\<close>

theorem events_reach_their_stream:
  assumes "stream_for a = Inr s" "stream_for b = Inr t" "st_channel s = st_channel t"
    and "(st_key s, m) \<in> set subs" "ms_channel m = st_channel s"
    and "st_key s \<noteq> st_key t" "admitted_beside t subs"
    and "st_match s r" "st_match t r"
  shows "serverSubscriptionIdentity (sw_Subscription (st_wire s)) =
      serverSubscriptionIdentity (sw_Subscription (st_wire t)) \<or>
    (\<exists>coin n m f n' m' f'. a = RL2Book coin n m f \<and> b = RL2Book coin n' m' f')"
proof -
  have k: "kind_tag a = kind_tag b" by (rule same_channel [OF assms(1-3)])
  obtain e where e: "accepts a e" "accepts b e"
    using assms(8,9) stream_accepts [OF assms(1)] stream_accepts [OF assms(2)]
    by (auto split: option.splits)
  have lone: "kind_tag a \<notin> lone_kinds"
    using lone_not_admitted [OF assms(2) _ assms(4)] assms(3,5,6,7) k by auto
  consider "kind_tag a = ''l2Book''" | "kind_tag a = ''spotState''"
    | "kind_tag a \<notin> lone_kinds \<union> {''l2Book'', ''spotState''}" using lone by auto
  then show ?thesis
  proof cases
    case 1
    obtain c n m f where a: "a = RL2Book c n m f" using l2_kind [OF 1] by blast
    obtain c' n' m' f' where b: "b = RL2Book c' n' m' f'" using l2_kind 1 k by metis
    show ?thesis using e by (simp add: a b)
  next
    case 2
    then obtain u x v y where ab: "a = RSpotState u x" "b = RSpotState v y"
      using k spot_kind by metis
    then have "to_lower u = to_lower v" using e by simp
    from spot_identity [OF this, of x y] show ?thesis
      using stream_wire [OF assms(1)] stream_wire [OF assms(2)] by (simp add: ab)
  next
    case 3
    have "key_parts a = key_parts b"
      using accepts_shown [OF e(1)] accepts_shown [OF e(2)] 3 k by simp
    then have "st_key s = st_key t" using stream_key [OF assms(1)] stream_key [OF assms(2)] k by simp
    then show ?thesis using assms(6) by simp
  qed
qed

definition sample_spot :: "bool option \<Rightarrow> stream" where
  "sample_spot margin = projr (SubscribeSpotState ''0xab'' margin)"

definition sample_entry :: "stream \<Rightarrow> managedSubscription" where
  "sample_entry s = \<lparr> ms_ptr = 0, ms_key = st_key s, ms_channel = st_channel s, ms_wire = st_wire s,
     ms_done = False \<rparr>"

definition sample_event :: "string \<Rightarrow> route" where
  "sample_event coin = \<lparr> rt_user = ''0xab'', rt_dex = [], rt_coin = coin, rt_interval = [] \<rparr>"

lemma sample_spot_ok: "stream_for (RSpotState ''0xab'' margin) = Inr (sample_spot margin)"
proof -
  have u: "trim_space ''0xab'' \<noteq> ''''" by code_simp
  show ?thesis using u
    by (simp add: sample_spot_def SubscribeSpotState_def subscribeUser_def requireUser_def)
qed

lemma events_reach_their_stream_witness:
  "serverSubscriptionIdentity (sw_Subscription (st_wire (sample_spot None))) =
   serverSubscriptionIdentity (sw_Subscription (st_wire (sample_spot (Some True))))"
proof -
  let ?s = "sample_spot None" and ?t = "sample_spot (Some True)"
  let ?subs = "[(st_key ?s, sample_entry ?s)]"
  have ch: "st_channel ?s = st_channel ?t" by code_simp
  have sub: "(st_key ?s, sample_entry ?s) \<in> set ?subs" by simp
  have e: "ms_channel (sample_entry ?s) = st_channel ?s" by (simp add: sample_entry_def)
  have k: "st_key ?s \<noteq> st_key ?t" by code_simp
  have adm: "admitted_beside ?t ?subs" by code_simp
  have m: "st_match ?s (Some (sample_event []))" "st_match ?t (Some (sample_event []))" by code_simp+
  from events_reach_their_stream [OF sample_spot_ok sample_spot_ok ch sub e k adm m]
  show ?thesis by simp
qed

text \<open>
  The exception: two books of one coin at different aggregations are different subscriptions of the
  server, the registry admits the second beside the first, and every event of the one passes the
  filter of the other.
\<close>

definition btc_book :: "int option \<Rightarrow> stream" where
  "btc_book nSigFigs = projr (SubscribeL2Book ''BTC'' nSigFigs None None)"

lemma btc_book_ok:
  "n \<in> {None, Some 2} \<Longrightarrow> stream_for (RL2Book ''BTC'' n None None) = Inr (btc_book n)"
  by (auto simp: btc_book_def SubscribeL2Book_def require_coin_def L2BookAggregation_def)

lemma books_share_events:
  "serverSubscriptionIdentity (sw_Subscription (st_wire (btc_book None))) \<noteq>
     serverSubscriptionIdentity (sw_Subscription (st_wire (btc_book (Some 2)))) \<and>
   admitted_beside (btc_book (Some 2)) [(st_key (btc_book None), sample_entry (btc_book None))]"
  by code_simp

lemma books_of_a_coin_match:
  "n \<in> {None, Some 2} \<Longrightarrow> st_match (btc_book n) (Some e) \<longleftrightarrow> rt_coin e = ''BTC''"
  using stream_accepts [OF btc_book_ok] by simp

end
