(* ===== verification/WsFanout.thy ===== *)
theory WsFanout
  imports WsManager WsLifecycle
begin

text \<open>
  The fan-out of the connection manager: what its steps (theory \<open>WsManager\<close>) do to the
  subscriptions (theory \<open>WsLifecycle\<close>). A goroutine of the manager works through a list of calls,
  one subscription after the other; between two of them the consumers receive, other goroutines
  report and close. A call that blocks (a full buffer under \<^verbatim>\<open>BackpressureBlock\<close>) holds back the calls
  behind it. The file is \<^verbatim>\<open>websocket/manager.go\<close>.
\<close>

section \<open>Calls on subscriptions\<close>

type_synonym call = "nat \<times> sub_op"

definition snapshot :: "'l Client \<Rightarrow> managedSubscription list" where
  "snapshot c = map snd (wc_subs c)"

definition stateSubscription :: "managedSubscription \<Rightarrow> SubscriptionState \<Rightarrow> string option \<Rightarrow> call list" where
  "stateSubscription s state err = (if ms_done s then [] else [(ms_ptr s, StateChange state err)])"

text \<open>What a report is to a subscription: its error channel first, then its state.\<close>

definition report_calls :: "string \<Rightarrow> nat \<Rightarrow> call list" where
  "report_calls err p = [(p, Report err), (p, StateChange SubscriptionStateError (Some err))]"

definition reportSubscription :: "managedSubscription \<Rightarrow> string \<Rightarrow> call list" where
  "reportSubscription s err = (if ms_done s then [] else report_calls err (ms_ptr s))"

definition reportAll :: "'l Client \<Rightarrow> string \<Rightarrow> call list" where
  "reportAll c err = concat (map (\<lambda>s. report_calls err (ms_ptr s)) (snapshot c))"

definition stateAll :: "'l Client \<Rightarrow> SubscriptionState \<Rightarrow> string option \<Rightarrow> call list" where
  "stateAll c state err = map (\<lambda>s. (ms_ptr s, StateChange state err)) (snapshot c)"

text \<open>
  The calls behind an event of a manager's step. A frame without a payload is an empty text to
  \<^verbatim>\<open>json.Unmarshal\<close>, which every decoder reports.
\<close>

fun calls_of :: "'l Client \<Rightarrow> gen_event \<Rightarrow> call list" where
  "calls_of c (Notified p _ state) = [(p, StateChange state None)]"
| "calls_of c (Terminated p _ err) = [(p, BeginClose (Some err)), (p, FinishClose)]"
| "calls_of c (ReportedTo p err) = report_calls err p"
| "calls_of c (Delivered p (Some v)) = [(p, DeliverRaw v False False)]"
| "calls_of c (Delivered p None) = [(p, Report ''unexpected end of JSON input'')]"
| "calls_of c (ReportedAll err) = reportAll c err"
| "calls_of c _ = []"

section \<open>The goroutine and its subscriptions\<close>

text \<open>A subscription beside what its deliveries and its consumer have seen so far.\<close>

type_synonym 't streams = "nat \<Rightarrow> ('t streamSubscription \<times> 't sub_obs list) option"

type_synonym 't fan = "'t streams \<times> call list"

text \<open>
  \<open>Advance\<close> lets the goroutine make its next call; its arguments say whether the context of the
  subscription has ended before the call or while it blocks. \<open>Meanwhile\<close> is a step of anyone else.
\<close>

datatype fan_op = Advance bool bool | Meanwhile nat sub_op

fun with_context :: "bool \<Rightarrow> bool \<Rightarrow> sub_op \<Rightarrow> sub_op" where
  "with_context ended late (DeliverRaw v _ _) = DeliverRaw v ended late"
| "with_context ended late x = x"

fun is_waiting :: "'t sub_obs \<Rightarrow> bool" where
  "is_waiting (Delivery (Waiting _)) = True"
| "is_waiting _ = False"

definition on_stream :: "nat \<Rightarrow> sub_op \<Rightarrow> 't streams \<Rightarrow> ('t streams \<times> bool) option" where
  "on_stream p x w =
     (case w p of
        None \<Rightarrow> Some (w, False)
      | Some (s, os) \<Rightarrow>
          map_option (\<lambda>(s', os'). (w(p \<mapsto> (s', os @ os')), list_ex is_waiting os')) (sub_step s x))"

fun fan_step :: "'t fan \<Rightarrow> fan_op \<Rightarrow> ('t fan) option" where
  "fan_step (w, []) (Advance _ _) = Some (w, [])"
| "fan_step (w, (p, x) # calls) (Advance ended late) =
     map_option (\<lambda>(w', waits). (w', if waits then (p, x) # calls else calls))
       (on_stream p (with_context ended late x) w)"
| "fan_step (w, calls) (Meanwhile p x) = map_option (\<lambda>(w', _). (w', calls)) (on_stream p x w)"

fun fan_run :: "'t fan \<Rightarrow> fan_op list \<Rightarrow> ('t fan) option" where
  "fan_run f [] = Some f"
| "fan_run f (x # xs) = (case fan_step f x of None \<Rightarrow> None | Some f' \<Rightarrow> fan_run f' xs)"

section \<open>No call panics\<close>

definition streams_ok :: "'t streams \<Rightarrow> bool" where
  "streams_ok w \<longleftrightarrow> (\<forall>p s os. w p = Some (s, os) \<longrightarrow> run_inv s os)"

lemma streams_okD: "streams_ok w \<Longrightarrow> w p = Some (s, os) \<Longrightarrow> run_inv s os"
  by (simp add: streams_ok_def)

lemma on_stream_keeps:
  assumes "streams_ok w"
  shows "\<exists>w' b. on_stream p x w = Some (w', b) \<and> streams_ok w' \<and> (\<forall>q. q \<noteq> p \<longrightarrow> w' q = w q)"
proof (cases "w p")
  case None
  then show ?thesis using assms by (intro exI [of _ w] exI [of _ False]) (simp add: on_stream_def)
next
  case (Some so)
  obtain s os where so: "so = (s, os)" by (cases so)
  from step_keeps [OF streams_okD [OF assms]] Some so obtain s' os' where
    s: "sub_step s x = Some (s', os')" "run_inv s' (os @ os')" by blast
  have "streams_ok (w(p \<mapsto> (s', os @ os')))" using assms s(2) by (auto simp: streams_ok_def)
  then show ?thesis using Some so s(1) by (simp add: on_stream_def)
qed

lemma fan_step_keeps:
  assumes "streams_ok (fst f)"
  shows "\<exists>f'. fan_step f x = Some f' \<and> streams_ok (fst f')"
proof -
  obtain w calls where f: "f = (w, calls)" by (cases f)
  then have w: "streams_ok w" using assms by simp
  show ?thesis
  proof (cases x)
    case (Advance ended late)
    show ?thesis
    proof (cases calls)
      case (Cons call rest)
      obtain p y where "call = (p, y)" by (cases call)
      then show ?thesis using on_stream_keeps [OF w, of p "with_context ended late y"] f Cons Advance
        by auto
    qed (use f w Advance in simp)
  next
    case (Meanwhile p y)
    then show ?thesis using on_stream_keeps [OF w, of p y] f by auto
  qed
qed

lemma fan_run_keeps: "streams_ok (fst f) \<Longrightarrow> \<exists>f'. fan_run f xs = Some f' \<and> streams_ok (fst f')"
proof (induction xs arbitrary: f)
  case (Cons x xs)
  from fan_step_keeps [OF Cons.prems] obtain f1 where
    "fan_step f x = Some f1" "streams_ok (fst f1)" by blast
  then show ?case using Cons.IH by simp
qed simp

lemma fan_run_ok: "fan_run (w, calls) xs = Some (w', calls') \<Longrightarrow> streams_ok w \<Longrightarrow> streams_ok w'"
  using fan_run_keeps [of "(w, calls)" xs] by auto

section \<open>The calls come to an end\<close>

text \<open>
  The goroutine is held up by a subscription that blocks on a full buffer. The call returns when
  the consumer receives, when the subscription is closed, or when its context ends.
\<close>

definition blocks :: "'t streams \<Rightarrow> call \<Rightarrow> bool" where
  "blocks w call = (case on_stream (fst call) (with_context False False (snd call)) w of
     Some (_, b) \<Rightarrow> b | None \<Rightarrow> False)"

lemma deliver_waits:
  assumes "deliver c e policy stop late = Some (c', DeliverWaits)"
  shows "\<not> stop \<and> \<not> late \<and> policy \<noteq> BackpressureDropNewest \<and> policy \<noteq> BackpressureDropOldest \<and>
    \<not> has_room c"
  using assms by (auto simp: deliver_def try_send_def split: if_splits option.splits bool.splits prod.splits)

lemma deliverRaw_waits:
  assumes "deliverRaw s v ended late = Some (s', Waiting e)"
  shows "ss_phase s = Running \<and> \<not> ended \<and> \<not> late \<and> s' = s \<and> ss_decode s v = Inr e \<and> ss_match s e \<and>
    ss_backpressure s \<noteq> BackpressureDropNewest \<and> ss_backpressure s \<noteq> BackpressureDropOldest \<and>
    \<not> has_room (ss_events s)"
  using assms
  by (auto simp: deliverRaw_def isDone_def stopped_def dest: deliver_waits split: if_splits sum.splits option.splits
      prod.splits deliver_result.splits)

lemma step_waits:
  assumes "sub_step s x = Some (s', os)" "list_ex is_waiting os"
  shows "\<exists>v ended late e. x = DeliverRaw v ended late \<and> deliverRaw s v ended late = Some (s', Waiting e)"
proof (cases x)
  case (DeliverRaw v ended late)
  then show ?thesis using assms by (auto elim!: is_waiting.elims)
qed (use assms in \<open>auto split: phase.splits option.splits prod.splits\<close>)

lemma on_stream_waits:
  assumes "on_stream p x w = Some (w', True)"
  shows "\<exists>s os s' os'. w p = Some (s, os) \<and> sub_step s x = Some (s', os') \<and> list_ex is_waiting os'"
  using assms by (cases "w p") (auto simp: on_stream_def)

text \<open>What a blocked call means.\<close>

lemma blocks_means:
  assumes "blocks w (p, x)"
  shows "\<exists>s os v a b e. w p = Some (s, os) \<and> x = DeliverRaw v a b \<and> ss_phase s = Running \<and>
    ss_decode s v = Inr e \<and> ss_match s e \<and> \<not> has_room (ss_events s) \<and>
    ss_backpressure s \<noteq> BackpressureDropNewest \<and> ss_backpressure s \<noteq> BackpressureDropOldest"
proof -
  from assms obtain w' where "on_stream p (with_context False False x) w = Some (w', True)"
    by (auto simp: blocks_def split: option.splits)
  from on_stream_waits [OF this] obtain s os s' os' where s: "w p = Some (s, os)"
      "sub_step s (with_context False False x) = Some (s', os')" "list_ex is_waiting os'" by blast
  from step_waits [OF s(2,3)] obtain v a b e where
    d: "with_context False False x = DeliverRaw v a b" "deliverRaw s v a b = Some (s', Waiting e)" by blast
  have "\<exists>a b. x = DeliverRaw v a b" using d(1) by (cases x) auto
  then show ?thesis using s(1) deliverRaw_waits [OF d(2)] by blast
qed

text \<open>Without them the goroutine stays where it is, and with it every call behind.\<close>

lemma blocked_stays:
  assumes "blocks w (p, x)"
  shows "\<exists>w'. on_stream p (with_context False False x) w = Some (w', True) \<and> blocks w' (p, x)"
proof -
  from assms obtain w' where o: "on_stream p (with_context False False x) w = Some (w', True)"
    by (auto simp: blocks_def split: option.splits)
  from on_stream_waits [OF this] obtain s os s' os' where s: "w p = Some (s, os)"
      "sub_step s (with_context False False x) = Some (s', os')" "list_ex is_waiting os'" by blast
  from step_waits [OF s(2,3)] obtain v a b e where "deliverRaw s v a b = Some (s', Waiting e)" by blast
  from deliverRaw_waits [OF this] have same: "s' = s" by simp
  have "w' p = Some (s', os @ os')" using o s(1,2) by (auto simp: on_stream_def)
  then have "blocks w' (p, x)" using s(2,3) unfolding same by (simp add: blocks_def on_stream_def)
  then show ?thesis using o by blast
qed

lemma blocked_forever:
  "blocks w (p, x) \<Longrightarrow> \<exists>w'. fan_run (w, (p, x) # calls) (replicate n (Advance False False)) =
     Some (w', (p, x) # calls) \<and> blocks w' (p, x)"
proof (induction n arbitrary: w)
  case (Suc n)
  from blocked_stays [OF Suc.prems] obtain w1 where
    "on_stream p (with_context False False x) w = Some (w1, True)" "blocks w1 (p, x)" by blast
  then show ?case using Suc.IH [of w1] by simp
qed simp

lemma late_advance_ends:
  assumes "streams_ok w"
  shows "\<exists>w'. fan_step (w, (p, x) # calls) (Advance False True) = Some (w', calls) \<and> streams_ok w'"
proof -
  from on_stream_keeps [OF assms] obtain w' b where
    o: "on_stream p (with_context False True x) w = Some (w', b)" "streams_ok w'" by blast
  have "\<not> b"
  proof
    assume b
    with o(1) have "on_stream p (with_context False True x) w = Some (w', True)" by simp
    from on_stream_waits [OF this] obtain s os s' os' where
      "w p = Some (s, os)" and
      s: "sub_step s (with_context False True x) = Some (s', os')" "list_ex is_waiting os'" by blast
    from step_waits [OF s] obtain v a l e where
      d: "with_context False True x = DeliverRaw v a l" "deliverRaw s v a l = Some (s', Waiting e)" by blast
    from d(1) have l by (cases x) auto
    then show False using deliverRaw_waits [OF d(2)] by simp
  qed
  then show ?thesis using o by simp
qed

section \<open>What the calls are to one subscription\<close>

definition own :: "nat \<Rightarrow> call list \<Rightarrow> sub_op list" where
  "own p calls = map (with_context False False \<circ> snd) (filter (\<lambda>c. fst c = p) calls)"

lemma own_simps [simp]:
  "own p [] = []"
  "own p (call # calls) = (if fst call = p then with_context False False (snd call) # own p calls else own p calls)"
  "own p (calls @ calls') = own p calls @ own p calls'"
  by (simp_all add: own_def)

definition advance_all :: "call list \<Rightarrow> fan_op list" where
  "advance_all calls = map (\<lambda>_. Advance False False) calls"

definition unblocked :: "'t streams \<Rightarrow> call list \<Rightarrow> bool" where
  "unblocked w calls \<longleftrightarrow> (\<forall>p s os s' os'. w p = Some (s, os) \<longrightarrow>
     sub_run s (own p calls) = Some (s', os') \<longrightarrow> \<not> list_ex is_waiting os')"

definition after :: "call list \<Rightarrow> nat \<Rightarrow> 't streamSubscription \<times> 't sub_obs list \<Rightarrow>
    ('t streamSubscription \<times> 't sub_obs list) option" where
  "after calls p so =
     map_option (\<lambda>(s', os'). (s', snd so @ os')) (sub_run (fst so) (own p calls))"

text \<open>If no call blocks, every subscription has run its own calls, in their order.\<close>

lemma calls_project:
  assumes "streams_ok w" "unblocked w calls"
  shows "fan_run (w, calls) (advance_all calls) = Some (\<lambda>p. Option.bind (w p) (after calls p), [])"
  using assms
proof (induction calls arbitrary: w)
  case Nil
  have "Option.bind (w p) (after [] p) = w p" for p by (cases "w p") (simp_all add: after_def)
  then show ?case by (simp add: advance_all_def)
next
  case (Cons call calls)
  obtain p x where call: "call = (p, x)" by (cases call)
  let ?x = "with_context False False x"
  from on_stream_keeps [OF Cons.prems(1)] obtain w1 b where
    1: "on_stream p ?x w = Some (w1, b)" "streams_ok w1" "\<forall>q. q \<noteq> p \<longrightarrow> w1 q = w q" by blast
  have step: "\<exists>s1 o1. sub_step s ?x = Some (s1, o1) \<and> w1 p = Some (s1, os @ o1) \<and> b = list_ex is_waiting o1"
    if "w p = Some (s, os)" for s os
    using 1(1) that by (auto simp: on_stream_def)
  have goes: "\<not> b"
  proof (cases "w p")
    case None
    then show ?thesis using 1(1) by (simp add: on_stream_def)
  next
    case (Some so)
    obtain s os where so: "w p = Some (s, os)" using Some by (cases so) simp
    from step [OF so] obtain s1 o1 where
      s1: "sub_step s ?x = Some (s1, o1)" "w1 p = Some (s1, os @ o1)" "b = list_ex is_waiting o1" by blast
    from run_keeps [OF streams_okD [OF 1(2) s1(2)]] obtain s2 o2 where
      "sub_run s1 (own p calls) = Some (s2, o2)" by blast
    with s1(1) have "sub_run s (own p (call # calls)) = Some (s2, o1 @ o2)" by (simp add: call)
    with Cons.prems(2) so show ?thesis unfolding unblocked_def s1(3) by fastforce
  qed
  have "unblocked w1 calls" unfolding unblocked_def
  proof (intro allI impI)
    fix q s os s' os'
    assume q: "w1 q = Some (s, os)" "sub_run s (own q calls) = Some (s', os')"
    show "\<not> list_ex is_waiting os'"
    proof (cases "q = p")
      case True
      from q(1) True 1(1) obtain s0 o0 o1 where
        s0: "w p = Some (s0, o0)" "sub_step s0 ?x = Some (s, o1)"
        by (cases "w p") (auto simp: on_stream_def)
      with q(2) True have "sub_run s0 (own p (call # calls)) = Some (s', o1 @ os')" by (simp add: call)
      with Cons.prems(2) s0(1) show ?thesis unfolding unblocked_def by fastforce
    next
      case False
      then show ?thesis using Cons.prems(2) q 1(3) call unfolding unblocked_def by fastforce
    qed
  qed
  from Cons.IH [OF 1(2) this] have
    r: "fan_run (w1, calls) (advance_all calls) = Some (\<lambda>p. Option.bind (w1 p) (after calls p), [])" .
  have "Option.bind (w1 q) (after calls q) = Option.bind (w q) (after (call # calls) q)" for q
  proof (cases "q = p")
    case True
    show ?thesis
    proof (cases "w p")
      case None
      then show ?thesis using True 1(1) by (auto simp: on_stream_def)
    next
      case (Some so)
      then obtain s os where so: "w p = Some (s, os)" by (cases so) simp
      from step [OF so] show ?thesis using True so call
        by (auto simp: after_def option.map_comp comp_def split_def)
    qed
  next
    case False
    then show ?thesis using 1(3) by (cases "w q") (auto simp: after_def call)
  qed
  then have "(\<lambda>p. Option.bind (w1 p) (after calls p)) = (\<lambda>p. Option.bind (w p) (after (call # calls) p))"
    by (rule ext)
  with r goes 1(1) show ?case by (simp add: advance_all_def call)
qed

section \<open>A frame, a state and a report to every subscription\<close>

definition listeners :: "'l Client \<Rightarrow> string \<Rightarrow> nat list" where
  "listeners c channel = map ms_ptr (filter (\<lambda>s. ms_channel s = channel) (snapshot c))"

lemma dispatch_calls:
  "concat (map (calls_of c) (dispatchChannel c channel (Some v))) =
   map (\<lambda>p. (p, DeliverRaw v False False)) (listeners c channel)"
  by (simp add: dispatchChannel_def listeners_def snapshot_def filter_map comp_def)

lemma own_same:
  "distinct ps \<Longrightarrow> own p (map (\<lambda>p. (p, x)) ps) = (if p \<in> set ps then [with_context False False x] else [])"
  by (induction ps) auto

lemma own_dispatch:
  assumes "distinct (map ms_ptr (snapshot c))"
  shows "own p (concat (map (calls_of c) (dispatchChannel c channel (Some v)))) =
    (if p \<in> set (listeners c channel) then [DeliverRaw v False False] else [])"
proof -
  have "distinct (listeners c channel)" using assms by (simp add: listeners_def distinct_map_filter)
  then show ?thesis by (simp add: dispatch_calls own_same)
qed

lemma own_stateAll:
  assumes "distinct (map ms_ptr (snapshot c))"
  shows "own p (stateAll c state err) =
    (if p \<in> set (map ms_ptr (snapshot c)) then [StateChange state err] else [])"
proof -
  have "stateAll c state err = map (\<lambda>p. (p, StateChange state err)) (map ms_ptr (snapshot c))"
    by (simp add: stateAll_def)
  then show ?thesis using own_same [OF assms] by simp
qed

lemma own_reports:
  "distinct ps \<Longrightarrow> own p (concat (map (report_calls err) ps)) =
    (if p \<in> set ps then [Report err, StateChange SubscriptionStateError (Some err)] else [])"
  by (induction ps) (auto simp: report_calls_def)

lemma own_reportAll:
  assumes "distinct (map ms_ptr (snapshot c))"
  shows "own p (reportAll c err) = (if p \<in> set (map ms_ptr (snapshot c))
     then [Report err, StateChange SubscriptionStateError (Some err)] else [])"
proof -
  have "reportAll c err = concat (map (report_calls err) (map ms_ptr (snapshot c)))"
    by (simp add: reportAll_def comp_def)
  then show ?thesis using own_reports [OF assms] by simp
qed

lemma quiet_run: "sub_run s xs = Some (s', os) \<Longrightarrow> \<forall>x \<in> set xs. \<forall>v a b. x \<noteq> DeliverRaw v a b \<Longrightarrow>
    \<not> list_ex is_waiting os"
proof (induction xs arbitrary: s s' os)
  case (Cons x xs)
  then obtain s1 o1 o2 where r: "sub_step s x = Some (s1, o1)" "sub_run s1 xs = Some (s', o2)" "os = o1 @ o2"
    by (auto split: option.splits)
  have "\<not> list_ex is_waiting o1" using step_waits [OF r(1)] Cons.prems(2) by auto
  moreover have "\<not> list_ex is_waiting o2" using Cons.IH [OF r(2)] Cons.prems(2) by simp
  ultimately show ?case by (simp add: r(3))
qed simp

text \<open>A state change and a report never block, so no subscription keeps another from them.\<close>

lemma quiet_unblocked:
  assumes "\<forall>p. \<forall>x \<in> set (own p calls). \<forall>v a b. x \<noteq> DeliverRaw v a b"
  shows "unblocked w calls"
  unfolding unblocked_def
proof (intro allI impI)
  fix p s os s' os'
  assume "sub_run s (own p calls) = Some (s', os')"
  from quiet_run [OF this] assms show "\<not> list_ex is_waiting os'" by simp
qed

section \<open>From the socket to the consumer\<close>

text \<open>The text frame in which the server sends an event of a channel.\<close>

definition event_frame :: "string \<Rightarrow> jval \<Rightarrow> jval" where
  "event_frame channel v = JObj [(''channel'', JStr channel), (''data'', v)]"

lemma parse_event_frame:
  "parse set_envelope_frame ([], None) (Some (event_frame channel v)) = Inr (channel, Some v)"
  by (simp add: event_frame_def parse_def set_envelope_frame_def set_raw_def set_field_def)

definition takes :: "'t streamSubscription \<Rightarrow> jval \<Rightarrow> 't option" where
  "takes s v = (if isDone s then None else case ss_decode s v of
     Inl _ \<Rightarrow> None | Inr e \<Rightarrow> if ss_match s e then Some e else None)"

lemma taken:
  assumes "run_inv s os" "takes s v = Some e" "has_room (ss_events s)"
  shows "sub_run s [DeliverRaw v False False] =
    Some (s \<lparr> ss_events := ss_events s \<lparr> ch_buf := ch_buf (ss_events s) @ [e] \<rparr> \<rparr>, [Delivery (Kept e)])"
proof -
  have "\<not> isDone s" "ss_decode s v = Inr e" "ss_match s e"
    using assms(2) by (auto simp: takes_def split: if_splits sum.splits)
  moreover from this have "\<not> ch_closed (ss_events s)"
    using assms(1) by (simp add: run_inv_def sub_inv_def isDone_def)
  ultimately show ?thesis using assms(3)
    by (simp add: deliverRaw_def stopped_def deliver_def try_send_def)
qed

lemma not_taken:
  assumes "run_inv s os" "takes s v = None"
  shows "\<exists>s'. sub_run s [DeliverRaw v False False] = Some (s', [Delivery NoEvent]) \<and>
    ss_events s' = ss_events s"
proof -
  have events: "ss_events s' = ss_events s" if "reportLocked s err = Some s'" for err s'
    using that by (auto simp: reportLocked_def split: if_splits)
  have "\<exists>s'. reportLocked s err = Some s' \<and> ss_events s' = ss_events s" for err
    using step_report [OF assms(1)] events by blast
  then have "\<exists>s'. deliverRaw s v False False = Some (s', NoEvent) \<and> ss_events s' = ss_events s"
    using assms(2) by (auto simp: deliverRaw_def stopped_def takes_def split: if_splits sum.splits)
  then show ?thesis by auto
qed

text \<open>
  One pass of \<^verbatim>\<open>stateAll\<close> leaves every running subscription of the registry in the state, one pass
  of \<^verbatim>\<open>reportAll\<close> in the error state, however full the buffers are.
\<close>

lemma stateChange_reaches:
  "\<not> isDone s \<Longrightarrow> stateChange s st err = Some s' \<Longrightarrow> ss_lastState s' = st"
  by (auto simp: stateChange_def Let_def split: if_splits)

lemma report_running: "\<not> isDone s \<Longrightarrow> reportLocked s err = Some s' \<Longrightarrow> \<not> isDone s'"
  by (auto simp: reportLocked_def isDone_def)

lemma stateAll_reaches:
  fixes w :: "'t streams"
  assumes "streams_ok w" "distinct (map ms_ptr (snapshot c))"
  shows "\<exists>w'. fan_run (w, stateAll c st err) (advance_all (stateAll c st err)) = Some (w', []) \<and>
    (\<forall>p s os. p \<in> set (map ms_ptr (snapshot c)) \<longrightarrow> w p = Some (s, os) \<longrightarrow> \<not> isDone s \<longrightarrow>
      (\<exists>s' os'. w' p = Some (s', os') \<and> ss_lastState s' = st))"
proof -
  let ?calls = "stateAll c st err"
  note own = own_stateAll [OF assms(2), of _ st err]
  have "\<forall>p. \<forall>x \<in> set (own p ?calls). \<forall>v a b. x \<noteq> DeliverRaw v a b" using own by auto
  note run = calls_project [OF assms(1) quiet_unblocked [OF this]]
  have "\<exists>s' os'. Option.bind (w p) (after ?calls p) = Some (s', os') \<and> ss_lastState s' = st"
    if p: "p \<in> set (map ms_ptr (snapshot c))" "w p = Some (s, os)" "\<not> isDone s" for p s os
  proof -
    from step_stateChange [OF streams_okD [OF assms(1) p(2)]] obtain s' where
      s': "stateChange s st err = Some s'" by blast
    have "sub_run s (own p ?calls) = Some (s', [])" unfolding own using p(1) s' by simp
    then show ?thesis using p(2) stateChange_reaches [OF p(3) s'] by (simp add: after_def)
  qed
  then show ?thesis using run by blast
qed

lemma reportAll_reaches:
  fixes w :: "'t streams"
  assumes "streams_ok w" "distinct (map ms_ptr (snapshot c))"
  shows "\<exists>w'. fan_run (w, reportAll c err) (advance_all (reportAll c err)) = Some (w', []) \<and>
    (\<forall>p s os. p \<in> set (map ms_ptr (snapshot c)) \<longrightarrow> w p = Some (s, os) \<longrightarrow> \<not> isDone s \<longrightarrow>
      (\<exists>s' os'. w' p = Some (s', os') \<and> ss_lastState s' = SubscriptionStateError))"
proof -
  let ?calls = "reportAll c err"
  note own = own_reportAll [OF assms(2), of _ err]
  have "\<forall>p. \<forall>x \<in> set (own p ?calls). \<forall>v a b. x \<noteq> DeliverRaw v a b" using own by auto
  note run = calls_project [OF assms(1) quiet_unblocked [OF this]]
  have "\<exists>s' os'. Option.bind (w p) (after ?calls p) = Some (s', os') \<and>
      ss_lastState s' = SubscriptionStateError"
    if p: "p \<in> set (map ms_ptr (snapshot c))" "w p = Some (s, os)" "\<not> isDone s" for p s os
  proof -
    from step_report [OF streams_okD [OF assms(1) p(2)]] obtain s1 where
      s1: "reportLocked s err = Some s1" "run_inv s1 os" by blast
    from step_stateChange [OF s1(2)] obtain s' where
      s': "stateChange s1 SubscriptionStateError (Some err) = Some s'" by blast
    have "sub_run s (own p ?calls) = Some (s', [])" unfolding own using p(1) s1(1) s' by simp
    then show ?thesis using p(2) stateChange_reaches [OF report_running [OF p(3) s1(1)] s']
      by (simp add: after_def)
  qed
  then show ?thesis using run by blast
qed

text \<open>
  C14: the frame of an event, sent on any channel but those of the protocol
  and read while no subscription of that channel is full, ends in one pass over the registry. Every
  running subscription of the channel whose decoder and filter take the event has it last in its
  buffer. Nobody else's buffer changes.
\<close>

theorem frames_reach_consumers:
  fixes w :: "'t streams"
  assumes "streams_ok w" "distinct (map ms_ptr (snapshot c))"
    and "channel \<noteq> []" "channel \<noteq> ''subscriptionResponse''" "channel = ''error'' \<longrightarrow> gn_pending gn = []"
    and room: "\<And>p s os. p \<in> set (listeners c channel) \<Longrightarrow> w p = Some (s, os) \<Longrightarrow> has_room (ss_events s)"
  shows "\<exists>es w'. dispatch raw decode (Some (event_frame channel v)) (c, gn) = (Some (c, gn), es) \<and>
    (let calls = concat (map (calls_of c) es) in
      fan_run (w, calls) (advance_all calls) = Some (w', [])) \<and> streams_ok w' \<and>
    (\<forall>p s os. w p = Some (s, os) \<longrightarrow> (\<exists>s' os'. w' p = Some (s', os') \<and>
       ch_buf (ss_events s') = ch_buf (ss_events s) @
         (if p \<in> set (listeners c channel) then (case takes s v of None \<Rightarrow> [] | Some e \<Rightarrow> [e]) else [])))"
proof -
  let ?es = "dispatchChannel c channel (Some v)"
  let ?calls = "concat (map (calls_of c) ?es)" and ?d = "[DeliverRaw v False False]"
  have es: "dispatch raw decode (Some (event_frame channel v)) (c, gn) = (Some (c, gn), ?es)"
    using assms(3-5) by (cases channel) (auto simp: dispatch_def parse_event_frame Let_def)
  note own = own_dispatch [OF assms(2), of _ channel v]
  have each: "\<exists>s' o'. sub_run s (own p ?calls) = Some (s', o') \<and> \<not> list_ex is_waiting o' \<and>
      ch_buf (ss_events s') = ch_buf (ss_events s) @ (if p \<in> set (listeners c channel)
        then (case takes s v of None \<Rightarrow> [] | Some e \<Rightarrow> [e]) else [])"
    if p: "w p = Some (s, os)" for p s os
  proof (cases "p \<in> set (listeners c channel)")
    case True
    note inv = streams_okD [OF assms(1) p]
    show ?thesis
    proof (cases "takes s v")
      case None
      from not_taken [OF inv None] obtain s' where
        "sub_run s ?d = Some (s', [Delivery NoEvent])" "ss_events s' = ss_events s" by blast
      then show ?thesis unfolding own using True None by simp
    next
      case (Some e)
      from taken [OF inv Some room [OF True p]] show ?thesis unfolding own using True Some by simp
    qed
  qed (simp add: own)
  have "unblocked w ?calls" unfolding unblocked_def using each by fastforce
  note run = calls_project [OF assms(1) this]
  have "streams_ok (\<lambda>p. Option.bind (w p) (after ?calls p))" by (rule fan_run_ok [OF run assms(1)])
  moreover have "\<exists>s' os'. Option.bind (w p) (after ?calls p) = Some (s', os') \<and>
      ch_buf (ss_events s') = ch_buf (ss_events s) @ (if p \<in> set (listeners c channel)
        then (case takes s v of None \<Rightarrow> [] | Some e \<Rightarrow> [e]) else [])"
    if "w p = Some (s, os)" for p s os
    using each [OF that] that by (auto simp: after_def)
  ultimately show ?thesis
    using es run by (intro exI [of _ ?es] exI [of _ "\<lambda>p. Option.bind (w p) (after ?calls p)"]) (simp add: Let_def)
qed

definition sample_member :: "nat \<Rightarrow> string \<Rightarrow> managedSubscription" where
  "sample_member p channel = \<lparr> ms_ptr = p, ms_key = channel, ms_channel = channel,
     ms_wire = newSubscriptionWire channel [], ms_done = False \<rparr>"

definition sample_registry :: "unit Client" where
  "sample_registry = snd (NewClient 0) \<lparr> wc_subs := [(''trades'', sample_member 0 ''trades''),
     (''bbo'', sample_member 1 ''bbo''), (''trades:2'', sample_member 2 ''trades'')] \<rparr>"

definition sample_stream :: "int streamSubscription" where
  "sample_stream = newStreamSubscription 2 4 BackpressureBlock sample_decode (\<lambda>i. 0 < i)"

definition sample_streams :: "int streams" where
  "sample_streams p = (if p < 3 then Some (sample_stream, []) else None)"

lemma sample_streams_ok: "streams_ok sample_streams"
  by (auto simp: streams_ok_def sample_streams_def sample_stream_def run_inv_new split: if_splits)

lemma sample_ptrs: "map ms_ptr (snapshot sample_registry) = [0, 1, 2]"
  by (simp add: snapshot_def sample_registry_def sample_member_def)

lemma sample_listeners: "listeners sample_registry ''trades'' = [0, 2]"
  by (simp add: listeners_def snapshot_def sample_registry_def sample_member_def)

lemma sample_room: "sample_streams p = Some (s, os) \<Longrightarrow> has_room (ss_events s)"
  by (auto simp: sample_streams_def sample_stream_def newStreamSubscription_def has_room_def
      split: if_splits)

lemma frames_reach_consumers_witness:
  "\<exists>es w'. dispatch (\<lambda>_. []) (\<lambda>_. None) (Some (event_frame ''trades'' (JInt 7)))
       (sample_registry, new_generation) = (Some (sample_registry, new_generation), es) \<and>
     fst ` set (concat (map (calls_of sample_registry) es)) = {0, 2} \<and>
     fan_run (sample_streams, concat (map (calls_of sample_registry) es))
       (advance_all (concat (map (calls_of sample_registry) es))) = Some (w', []) \<and>
     (\<exists>s os. w' 0 = Some (s, os) \<and> ch_buf (ss_events s) = [7]) \<and>
     (\<exists>s os. w' 1 = Some (s, os) \<and> ch_buf (ss_events s) = [])"
proof -
  have d: "distinct (map ms_ptr (snapshot sample_registry))" by (simp add: sample_ptrs)
  from frames_reach_consumers [OF sample_streams_ok d, of "''trades''" new_generation "\<lambda>_. []" "\<lambda>_. None"
      "JInt 7"] sample_room obtain es w' where
    r: "dispatch (\<lambda>_. []) (\<lambda>_. None) (Some (event_frame ''trades'' (JInt 7)))
       (sample_registry, new_generation) = (Some (sample_registry, new_generation), es)"
      "fan_run (sample_streams, concat (map (calls_of sample_registry) es))
       (advance_all (concat (map (calls_of sample_registry) es))) = Some (w', [])"
      "\<forall>p s os. sample_streams p = Some (s, os) \<longrightarrow> (\<exists>s' os'. w' p = Some (s', os') \<and>
       ch_buf (ss_events s') = ch_buf (ss_events s) @ (if p \<in> set (listeners sample_registry ''trades'')
         then (case takes s (JInt 7) of None \<Rightarrow> [] | Some e \<Rightarrow> [e]) else []))"
    unfolding Let_def by fastforce
  have es: "es = dispatchChannel sample_registry ''trades'' (Some (JInt 7))"
    using r(1) by (simp add: dispatch_def parse_event_frame Let_def)
  have "fst ` set (concat (map (calls_of sample_registry) es)) = {0, 2}"
    unfolding es dispatch_calls sample_listeners by simp
  moreover have "takes sample_stream (JInt 7) = Some 7"
    by (simp add: takes_def sample_stream_def newStreamSubscription_def isDone_def sample_decode_def)
  moreover have "ch_buf (ss_events sample_stream) = []"
    by (simp add: sample_stream_def newStreamSubscription_def)
  ultimately show ?thesis using r(1,2) r(3) [rule_format, of 0 sample_stream "[]"]
      r(3) [rule_format, of 1 sample_stream "[]"]
    by (intro exI [of _ es] exI [of _ w']) (auto simp: sample_streams_def sample_listeners)
qed

end
