(* ===== verification/WsPost.thy ===== *)
theory WsPost
  imports WsClient WsAdmission Response Externals "HOL-Library.AList"
begin

text \<open>
  Requests over a WebSocket: \<^verbatim>\<open>websocket/post.go\<close>. Many callers share one connection that is dialed on
  demand; a reader per connection hands every answer to the call whose number it repeats. The state
  has the fields of \<^verbatim>\<open>postManager\<close>, the variables of the calls as functions of the caller, and what other
  goroutines have under way: answers that are about to be sent on a call's channel, and callbacks of
  ended contexts. A step is what one goroutine does between two points at which it may block.
\<close>

section \<open>Errors and answers\<close>

record PostError =
  pe_Message :: string
  pe_status :: int

text \<open>\<^verbatim>\<open>strings.Fields\<close>: the maximal pieces without white space.\<close>

fun fields_of :: "string \<Rightarrow> string \<Rightarrow> string list" where
  "fields_of acc [] = (if acc = [] then [] else [acc])"
| "fields_of acc (c # s) =
     (if is_space c then (if acc = [] then fields_of [] s else acc # fields_of [] s)
      else fields_of (acc @ [c]) s)"

definition Fields :: "string \<Rightarrow> string list" where
  "Fields s = fields_of [] s"

text \<open>\<^verbatim>\<open>strconv.Atoi\<close>: an optional sign and decimal digits, within 64 bits.\<close>


definition Atoi :: "string \<Rightarrow> int option" where
  "Atoi s =
     (let neg = has_prefix s ''-'';
          body = (if neg \<or> has_prefix s ''+'' then tl s else s);
          value = (if neg then - int (read_nat body) else int (read_nat body))
      in if body \<noteq> [] \<and> list_all is_digit body \<and> in_i64 value then Some value else None)"

definition newPostError :: "string \<Rightarrow> PostError" where
  "newPostError message =
     \<lparr> pe_Message = message,
       pe_status = (case Fields message of
           [] \<Rightarrow> 0
         | f # _ \<Rightarrow> (case Atoi f of
             None \<Rightarrow> 0
           | Some value \<Rightarrow> if 100 \<le> value \<and> value \<le> 599 then value else 0)) \<rparr>"

datatype post_error = PlainError string | ProtocolError PostError

text \<open>The payload's bytes are the value they spell; \<^const>\<open>None\<close> is an empty payload.\<close>

type_synonym postResponse = "post_error + jval option"

record postPending =
  pp_kind :: string
  pp_result :: nat

definition ErrUnsupportedPostRequest :: string where
  "ErrUnsupportedPostRequest = ''unsupported WebSocket post request type''"

definition ErrUnexpectedPostResponse :: string where
  "ErrUnexpectedPostResponse = ''unexpected WebSocket post response''"

record post_frame =
  pf_Channel :: string
  pf_ID :: u64
  pf_Type :: string
  pf_Payload :: "jval option"

definition set_post_frame :: "post_frame setter" where
  "set_post_frame = set_struct
     [(''channel'', \<lambda>v x. bind_res (set_string v (pf_Channel x)) (\<lambda>y. Inr (x \<lparr> pf_Channel := y \<rparr>))),
      (''data'', set_struct
        [(''id'', \<lambda>v x. bind_res (set_uint64 v (pf_ID x)) (\<lambda>y. Inr (x \<lparr> pf_ID := y \<rparr>))),
         (''response'', set_struct
           [(''type'', \<lambda>v x. bind_res (set_string v (pf_Type x)) (\<lambda>y. Inr (x \<lparr> pf_Type := y \<rparr>))),
            (''payload'', \<lambda>v x. Inr (x \<lparr> pf_Payload := Some v \<rparr>))])])]"

definition zero_post_frame :: post_frame where
  "zero_post_frame = \<lparr> pf_Channel = [], pf_ID = 0, pf_Type = [], pf_Payload = None \<rparr>"

text \<open>A message that is not JSON, does not fit or is of another channel is skipped.\<close>

definition post_frame_of :: "jval option \<Rightarrow> post_frame option" where
  "post_frame_of raw =
     (case unmarshal set_post_frame raw zero_post_frame of
        Inl e \<Rightarrow> None
      | Inr f \<Rightarrow> if pf_Channel f = ''post'' then Some f else None)"

definition post_answer :: "string \<Rightarrow> post_frame \<Rightarrow> postResponse" where
  "post_answer kind f =
     (if pf_Type f = ''error'' then
        (case unmarshal set_string (pf_Payload f) [] of
           Inl e \<Rightarrow> Inl (PlainError (ErrUnexpectedPostResponse @ '': invalid error payload''))
         | Inr message \<Rightarrow> Inl (ProtocolError (newPostError message)))
      else if pf_Type f \<noteq> kind then
        Inl (PlainError (ErrUnexpectedPostResponse @ '': request '' @ kind @ '' received '' @ pf_Type f))
      else if pf_Type f = ''info'' then
        (case unmarshal (set_struct [(''data'', set_raw)]) (pf_Payload f) None of
           Inr (Some d) \<Rightarrow> Inr (Some d)
         | _ \<Rightarrow> Inl (PlainError (ErrUnexpectedPostResponse @ '': invalid info payload'')))
      else Inr (pf_Payload f))"

section \<open>The state\<close>

text \<open>
  A call's request and its decoder: \<^verbatim>\<open>json.Unmarshal\<close> into \<^verbatim>\<open>target\<close>, which may be nil.
\<close>

record post_call =
  pc_kind :: string
  pc_payload :: jval
  pc_target :: "(jval \<Rightarrow> string option) option"

text \<open>
  Where a call of \<^verbatim>\<open>request\<close> stands. The number is the connection that \<^verbatim>\<open>connection\<close> returned; the flag
  of a write is its atomic \<^verbatim>\<open>writing\<close>.
\<close>

datatype phase =
    PIdle | PEntered | PAdmitted | PNumbered | PRegistering | PLooking | PNeedsToken | PLookingAgain | PDialing
  | PDialed nat | PReady nat | PHolding nat | PWaiting nat | PWriting nat bool
  | PWrote nat bool "string option" | PAwaiting nat | PReturned "post_error + jval option"

text \<open>
  \<open>pm_sends\<close> are sends on a call's channel that are under way; the flag says that the send is in a
  \<^verbatim>\<open>select\<close> with a default. \<open>pm_callbacks\<close> are cancellations that have won the atomic flag and are about
  to call \<^verbatim>\<open>disconnect\<close>. \<open>pm_shut\<close> are the connections on which \<^verbatim>\<open>Close\<close> has been called.
\<close>

record postManager =
  pm_closed :: bool
  pm_conn :: "nat option"
  pm_token :: bool
  pm_nextID :: u64
  pm_pending :: "(u64 \<times> postPending) list"
  pm_gate :: postGate
  pm_phase :: "nat \<Rightarrow> phase"
  pm_call :: "nat \<Rightarrow> post_call"
  pm_id :: "nat \<Rightarrow> u64"
  pm_ctx :: "nat \<Rightarrow> string option"
  pm_requestCtx :: "nat \<Rightarrow> string option"
  pm_buffer :: "nat \<Rightarrow> postResponse option"
  pm_sends :: "(nat \<times> postResponse \<times> bool) list"
  pm_callbacks :: "(nat \<times> string) list"
  pm_readers :: "nat list"
  pm_dialed :: nat
  pm_shut :: "nat list"
  pm_written :: "(nat \<times> nat \<times> jval) list"

definition newPostManager :: "int \<Rightarrow> postManager" where
  "newPostManager limit =
     \<lparr> pm_closed = False, pm_conn = None, pm_token = True, pm_nextID = 0, pm_pending = [],
       pm_gate = NewPostAdmissionGate limit, pm_phase = (\<lambda>_. PIdle),
       pm_call = (\<lambda>_. \<lparr> pc_kind = [], pc_payload = JNull, pc_target = None \<rparr>), pm_id = (\<lambda>_. 0),
       pm_ctx = (\<lambda>_. None), pm_requestCtx = (\<lambda>_. None), pm_buffer = (\<lambda>_. None), pm_sends = [],
       pm_callbacks = [], pm_readers = [], pm_dialed = 0, pm_shut = [], pm_written = [] \<rparr>"

section \<open>Operations\<close>

definition goto :: "nat \<Rightarrow> phase \<Rightarrow> postManager \<Rightarrow> postManager" where
  "goto c p m = m \<lparr> pm_phase := (pm_phase m)(c := p) \<rparr>"

definition post_remove :: "u64 \<Rightarrow> postManager \<Rightarrow> postManager" where
  "post_remove i m = m \<lparr> pm_pending := AList.delete i (pm_pending m) \<rparr>"

text \<open>Every pending call is answered: by \<^verbatim>\<open>disconnect\<close> with a default, by \<^verbatim>\<open>close\<close> without one.\<close>

definition answer_all :: "postResponse \<Rightarrow> bool \<Rightarrow> postManager \<Rightarrow> postManager" where
  "answer_all r d m =
     m \<lparr> pm_pending := [],
         pm_sends := pm_sends m @ map (\<lambda>(i, p). (pp_result p, r, d)) (pm_pending m) \<rparr>"

definition post_disconnect :: "nat \<Rightarrow> string \<Rightarrow> postManager \<Rightarrow> postManager" where
  "post_disconnect connection err m =
     (if pm_conn m \<noteq> Some connection then m
      else answer_all (Inl (PlainError err)) True
        (m \<lparr> pm_conn := None, pm_shut := connection # pm_shut m \<rparr>))"

definition post_close :: "postManager \<Rightarrow> postManager" where
  "post_close m =
     (if pm_closed m then m
      else answer_all (Inl (PlainError ErrWebSocketClosed)) False
        (m \<lparr> pm_closed := True, pm_conn := None,
            pm_shut := (case pm_conn m of None \<Rightarrow> pm_shut m | Some n \<Rightarrow> n # pm_shut m) \<rparr>))"

definition contextError :: "nat \<Rightarrow> string \<Rightarrow> postManager \<Rightarrow> string" where
  "contextError c fallback m =
     (case pm_ctx m c of
        Some e \<Rightarrow> e
      | None \<Rightarrow> if pm_closed m then ErrWebSocketClosed else fallback)"

text \<open>
  Returning runs the deferred release of the permit; before the gate there is none to release. The
  phase has the result.
\<close>

definition permits :: "(nat \<Rightarrow> nat) \<Rightarrow> postManager \<Rightarrow> postManager" where
  "permits f m = m \<lparr> pm_gate := (pm_gate m) \<lparr> pg_permits := f (pg_permits (pm_gate m)) \<rparr> \<rparr>"

definition refuse :: "nat \<Rightarrow> string \<Rightarrow> postManager \<Rightarrow> postManager" where
  "refuse c e m = goto c (PReturned (Inl (PlainError e))) m"

definition finish :: "nat \<Rightarrow> post_error + jval option \<Rightarrow> postManager \<Rightarrow> postManager" where
  "finish c r m = permits (\<lambda>n. n - 1) (goto c (PReturned r) m)"

definition unlock :: "postManager \<Rightarrow> postManager" where
  "unlock m = m \<lparr> pm_token := True \<rparr>"

text \<open>\<^verbatim>\<open>m.remove(id); return m.contextError(ctx, err)\<close>.\<close>

definition give_up :: "nat \<Rightarrow> string \<Rightarrow> postManager \<Rightarrow> postManager" where
  "give_up c e m = finish c (Inl (PlainError (contextError c e m))) (post_remove (pm_id m c) m)"

text \<open>What the caller gets from an answer.\<close>

definition post_outcome :: "(jval \<Rightarrow> string option) option \<Rightarrow> postResponse \<Rightarrow> post_error + jval option" where
  "post_outcome target r =
     (case r of
        Inl e \<Rightarrow> Inl e
      | Inr payload \<Rightarrow>
         (case target of
            None \<Rightarrow> Inr None
          | Some f \<Rightarrow>
             (case payload of
                None \<Rightarrow> Inl (PlainError (ErrUnexpectedPostResponse @
                  '': post response: unexpected end of JSON input''))
              | Some v \<Rightarrow>
                 (case f v of
                    Some e \<Rightarrow> Inl (PlainError (ErrUnexpectedPostResponse @ '': post response: '' @ e))
                  | None \<Rightarrow> Inr (Some v)))))"

definition post_message :: "post_call \<Rightarrow> u64 \<Rightarrow> jval" where
  "post_message call i =
     JObj [(''method'', JStr ''post''), (''id'', json_uint i),
       (''request'', JObj [(''type'', JStr (pc_kind call)), (''payload'', pc_payload call)])]"

section \<open>Steps\<close>

datatype post_event =
    ECall nat post_call
  | ECtxDone nat string
  | EManagerDone nat
  | EEnter nat
  | EAcquire nat
  | EAcquireEnds nat
  | ENumber nat
  | ERegister nat
  | ELook nat
  | ETake nat
  | ETakeEnds nat
  | EDialed nat
  | EDialFails nat string
  | EStore nat
  | EChecked nat
  | EMessageAdmitted nat
  | EMessageRefused nat string
  | ECancelWrite nat
  | EWriteEnds nat "string option"
  | EWritten nat
  | EReceive nat
  | EGiveUp nat
  | ECallback nat
  | EFrame nat "jval option"
  | EReadFails nat string
  | ESend nat
  | EClose

text \<open>
  The steps of a call, by where it stands. \<open>None\<close> is a step that is not enabled: the goroutine blocks
  there, or is not there.
\<close>

definition PostInfo :: "jval \<Rightarrow> (jval \<Rightarrow> string option) option \<Rightarrow> post_call" where
  "PostInfo payload response = \<lparr> pc_kind = ''info'', pc_payload = payload, pc_target = response \<rparr>"

definition PostAction :: "jval \<Rightarrow> (jval \<Rightarrow> string option) option \<Rightarrow> post_call" where
  "PostAction payload response = \<lparr> pc_kind = ''action'', pc_payload = payload, pc_target = response \<rparr>"

definition on_call :: "nat \<Rightarrow> post_call \<Rightarrow> postManager \<Rightarrow> postManager option" where
  "on_call c call m =
     (if pm_phase m c = PIdle
      then Some (goto c PEntered (m \<lparr> pm_call := (pm_call m)(c := call) \<rparr>)) else None)"

definition on_enter :: "nat \<Rightarrow> postManager \<Rightarrow> postManager option" where
  "on_enter c m =
     (if pm_phase m c = PEntered then Some
        (case pm_ctx m c of
           Some e \<Rightarrow> refuse c e m
         | None \<Rightarrow>
            if pc_kind (pm_call m c) \<notin> {''info'', ''action''}
            then refuse c (ErrUnsupportedPostRequest @ '': '' @ quote (pc_kind (pm_call m c))) m
            else goto c PAdmitted m)
      else None)"

definition on_acquire :: "nat \<Rightarrow> postManager \<Rightarrow> postManager option" where
  "on_acquire c m =
     (if pm_phase m c = PAdmitted \<and> int (pg_permits (pm_gate m)) < pg_limit (pm_gate m)
      then Some (goto c PNumbered (permits Suc m)) else None)"

definition on_acquire_ends :: "nat \<Rightarrow> postManager \<Rightarrow> postManager option" where
  "on_acquire_ends c m =
     (case (pm_phase m c, pm_requestCtx m c) of
        (PAdmitted, Some e) \<Rightarrow> Some (refuse c (contextError c e m) m)
      | _ \<Rightarrow> None)"

definition on_number :: "nat \<Rightarrow> postManager \<Rightarrow> postManager option" where
  "on_number c m =
     (if pm_phase m c = PNumbered
      then Some (goto c PRegistering
        (m \<lparr> pm_nextID := pm_nextID m + 1, pm_id := (pm_id m)(c := pm_nextID m + 1) \<rparr>))
      else None)"

definition on_register :: "nat \<Rightarrow> postManager \<Rightarrow> postManager option" where
  "on_register c m =
     (if pm_phase m c = PRegistering then Some
        (if pm_closed m then finish c (Inl (PlainError ErrWebSocketClosed)) m
         else goto c PLooking (m \<lparr> pm_pending := AList.update (pm_id m c)
           \<lparr> pp_kind = pc_kind (pm_call m c), pp_result = c \<rparr> (pm_pending m) \<rparr>))
      else None)"

text \<open>The three sections of \<^verbatim>\<open>connection\<close>.\<close>

definition on_look :: "nat \<Rightarrow> postManager \<Rightarrow> postManager option" where
  "on_look c m =
     (case pm_phase m c of
        PLooking \<Rightarrow> Some
          (if pm_closed m then give_up c ErrWebSocketClosed m
           else (case pm_conn m of Some n \<Rightarrow> goto c (PReady n) m | None \<Rightarrow> goto c PNeedsToken m))
      | PLookingAgain \<Rightarrow> Some
          (if pm_closed m then unlock (give_up c ErrWebSocketClosed m)
           else (case pm_conn m of Some n \<Rightarrow> unlock (goto c (PReady n) m) | None \<Rightarrow> goto c PDialing m))
      | _ \<Rightarrow> None)"

definition on_dialed :: "nat \<Rightarrow> postManager \<Rightarrow> postManager option" where
  "on_dialed c m =
     (if pm_phase m c = PDialing
      then Some (goto c (PDialed (pm_dialed m)) (m \<lparr> pm_dialed := pm_dialed m + 1 \<rparr>)) else None)"

definition on_dial_fails :: "nat \<Rightarrow> string \<Rightarrow> postManager \<Rightarrow> postManager option" where
  "on_dial_fails c e m = (if pm_phase m c = PDialing then Some (unlock (give_up c e m)) else None)"

definition on_store :: "nat \<Rightarrow> postManager \<Rightarrow> postManager option" where
  "on_store c m =
     (case pm_phase m c of
        PDialed n \<Rightarrow> Some
          (if pm_closed m then unlock (give_up c ErrWebSocketClosed (m \<lparr> pm_shut := n # pm_shut m \<rparr>))
           else unlock (goto c (PReady n) (m \<lparr> pm_conn := Some n, pm_readers := n # pm_readers m \<rparr>)))
      | _ \<Rightarrow> None)"

text \<open>\<^verbatim>\<open>lockWrite\<close>, in \<^verbatim>\<open>connection\<close> and before the write.\<close>

definition on_take :: "nat \<Rightarrow> postManager \<Rightarrow> postManager option" where
  "on_take c m =
     (if \<not> pm_token m then None
      else case pm_phase m c of
        PNeedsToken \<Rightarrow> Some (goto c PLookingAgain (m \<lparr> pm_token := False \<rparr>))
      | PReady n \<Rightarrow> Some (goto c (PHolding n) (m \<lparr> pm_token := False \<rparr>))
      | _ \<Rightarrow> None)"

definition on_take_ends :: "nat \<Rightarrow> postManager \<Rightarrow> postManager option" where
  "on_take_ends c m =
     (case pm_requestCtx m c of
        None \<Rightarrow> None
      | Some e \<Rightarrow>
         (case pm_phase m c of
            PNeedsToken \<Rightarrow> Some (give_up c e m)
          | PReady n \<Rightarrow> Some (give_up c e m)
          | _ \<Rightarrow> None))"

definition on_checked :: "nat \<Rightarrow> postManager \<Rightarrow> postManager option" where
  "on_checked c m =
     (case pm_phase m c of
        PHolding n \<Rightarrow> Some
          (case pm_requestCtx m c of
             Some e \<Rightarrow> give_up c e (unlock m)
           | None \<Rightarrow> goto c (PWaiting n) m)
      | _ \<Rightarrow> None)"

definition on_message_admitted :: "nat \<Rightarrow> postManager \<Rightarrow> postManager option" where
  "on_message_admitted c m =
     (case pm_phase m c of PWaiting n \<Rightarrow> Some (goto c (PWriting n True) m) | _ \<Rightarrow> None)"

definition on_message_refused :: "nat \<Rightarrow> string \<Rightarrow> postManager \<Rightarrow> postManager option" where
  "on_message_refused c e m =
     (case pm_phase m c of PWaiting n \<Rightarrow> Some (give_up c e (unlock m)) | _ \<Rightarrow> None)"

definition on_cancel_write :: "nat \<Rightarrow> postManager \<Rightarrow> postManager option" where
  "on_cancel_write c m =
     (case pm_requestCtx m c of
        None \<Rightarrow> None
      | Some e \<Rightarrow>
         (case pm_phase m c of
            PWriting n b \<Rightarrow>
              if b then Some (goto c (PWriting n False) (m \<lparr> pm_callbacks := pm_callbacks m @ [(n, e)] \<rparr>))
              else None
          | PWrote n b r \<Rightarrow>
              if b then Some (goto c (PWrote n False r) (m \<lparr> pm_callbacks := pm_callbacks m @ [(n, e)] \<rparr>))
              else None
          | _ \<Rightarrow> None))"

definition on_write_ends :: "nat \<Rightarrow> string option \<Rightarrow> postManager \<Rightarrow> postManager option" where
  "on_write_ends c r m =
     (case pm_phase m c of
        PWriting n b \<Rightarrow> Some (goto c (PWrote n b r) (m \<lparr> pm_written := pm_written m @
          [(c, n, post_message (pm_call m c) (pm_id m c))] \<rparr>))
      | _ \<Rightarrow> None)"

definition on_written :: "nat \<Rightarrow> postManager \<Rightarrow> postManager option" where
  "on_written c m =
     (case pm_phase m c of
        PWrote n b r \<Rightarrow> Some
          (case r of
             None \<Rightarrow> goto c (PAwaiting n) (unlock m)
           | Some e \<Rightarrow>
              (let m1 = post_disconnect n e (post_remove (pm_id m c) (unlock m)) in
               finish c (Inl (PlainError
                 (case pm_requestCtx m c of Some d \<Rightarrow> contextError c d m1 | None \<Rightarrow> e))) m1))
      | _ \<Rightarrow> None)"

definition on_receive :: "nat \<Rightarrow> postManager \<Rightarrow> postManager option" where
  "on_receive c m =
     (case (pm_phase m c, pm_buffer m c) of
        (PAwaiting n, Some r) \<Rightarrow> Some (finish c (post_outcome (pc_target (pm_call m c)) r)
          (m \<lparr> pm_buffer := (pm_buffer m)(c := None) \<rparr>))
      | _ \<Rightarrow> None)"

definition on_give_up :: "nat \<Rightarrow> postManager \<Rightarrow> postManager option" where
  "on_give_up c m =
     (case (pm_phase m c, pm_requestCtx m c) of
        (PAwaiting n, Some e) \<Rightarrow> Some (give_up c e m)
      | _ \<Rightarrow> None)"

text \<open>The steps of contexts, of the reader, of callbacks and of senders.\<close>

definition on_ctx_done :: "nat \<Rightarrow> string \<Rightarrow> postManager \<Rightarrow> postManager option" where
  "on_ctx_done c e m =
     (if pm_ctx m c = None
      then Some (m \<lparr> pm_ctx := (pm_ctx m)(c := Some e),
        pm_requestCtx := (case pm_requestCtx m c of
          None \<Rightarrow> (pm_requestCtx m)(c := Some e) | Some _ \<Rightarrow> pm_requestCtx m) \<rparr>)
      else None)"

definition on_manager_done :: "nat \<Rightarrow> postManager \<Rightarrow> postManager option" where
  "on_manager_done c m =
     (if pm_closed m \<and> pm_requestCtx m c = None
      then Some (m \<lparr> pm_requestCtx := (pm_requestCtx m)(c := Some ''context canceled'') \<rparr>) else None)"

definition on_callback :: "nat \<Rightarrow> postManager \<Rightarrow> postManager option" where
  "on_callback i m =
     (if i < length (pm_callbacks m) then
        (case pm_callbacks m ! i of (n, e) \<Rightarrow> Some (post_disconnect n e
           (m \<lparr> pm_callbacks := take i (pm_callbacks m) @ drop (Suc i) (pm_callbacks m) \<rparr>)))
      else None)"

definition read_frame :: "jval option \<Rightarrow> postManager \<Rightarrow> postManager" where
  "read_frame raw m =
     (case post_frame_of raw of
        None \<Rightarrow> m
      | Some f \<Rightarrow>
         (case map_of (pm_pending m) (pf_ID f) of
            None \<Rightarrow> m
          | Some p \<Rightarrow>
             (post_remove (pf_ID f) m)
               \<lparr> pm_sends := pm_sends m @ [(pp_result p, post_answer (pp_kind p) f, False)] \<rparr>))"

definition on_frame :: "nat \<Rightarrow> jval option \<Rightarrow> postManager \<Rightarrow> postManager option" where
  "on_frame n raw m = (if n \<in> set (pm_readers m) then Some (read_frame raw m) else None)"

definition on_read_fails :: "nat \<Rightarrow> string \<Rightarrow> postManager \<Rightarrow> postManager option" where
  "on_read_fails n e m =
     (if n \<in> set (pm_readers m)
      then Some (post_disconnect n e (m \<lparr> pm_readers := removeAll n (pm_readers m) \<rparr>)) else None)"

definition on_send :: "nat \<Rightarrow> postManager \<Rightarrow> postManager option" where
  "on_send i m =
     (if i < length (pm_sends m) then
        (case pm_sends m ! i of (c, r, selects) \<Rightarrow>
           (let m1 = m \<lparr> pm_sends := take i (pm_sends m) @ drop (Suc i) (pm_sends m) \<rparr> in
            case pm_buffer m c of
              None \<Rightarrow> Some (m1 \<lparr> pm_buffer := (pm_buffer m)(c := Some r) \<rparr>)
            | Some _ \<Rightarrow> if selects then Some m1 else None))
      else None)"

fun post_step :: "post_event \<Rightarrow> postManager \<Rightarrow> postManager option" where
  "post_step (ECall c call) m = on_call c call m"
| "post_step (ECtxDone c e) m = on_ctx_done c e m"
| "post_step (EManagerDone c) m = on_manager_done c m"
| "post_step (EEnter c) m = on_enter c m"
| "post_step (EAcquire c) m = on_acquire c m"
| "post_step (EAcquireEnds c) m = on_acquire_ends c m"
| "post_step (ENumber c) m = on_number c m"
| "post_step (ERegister c) m = on_register c m"
| "post_step (ELook c) m = on_look c m"
| "post_step (ETake c) m = on_take c m"
| "post_step (ETakeEnds c) m = on_take_ends c m"
| "post_step (EDialed c) m = on_dialed c m"
| "post_step (EDialFails c e) m = on_dial_fails c e m"
| "post_step (EStore c) m = on_store c m"
| "post_step (EChecked c) m = on_checked c m"
| "post_step (EMessageAdmitted c) m = on_message_admitted c m"
| "post_step (EMessageRefused c e) m = on_message_refused c e m"
| "post_step (ECancelWrite c) m = on_cancel_write c m"
| "post_step (EWriteEnds c r) m = on_write_ends c r m"
| "post_step (EWritten c) m = on_written c m"
| "post_step (EReceive c) m = on_receive c m"
| "post_step (EGiveUp c) m = on_give_up c m"
| "post_step (ECallback i) m = on_callback i m"
| "post_step (EFrame n raw) m = on_frame n raw m"
| "post_step (EReadFails n e) m = on_read_fails n e m"
| "post_step (ESend i) m = on_send i m"
| "post_step EClose m = Some (post_close m)"

primrec post_run :: "post_event list \<Rightarrow> postManager \<Rightarrow> postManager option" where
  "post_run [] m = Some m"
| "post_run (e # es) m = (case post_step e m of None \<Rightarrow> None | Some m' \<Rightarrow> post_run es m')"

end
