(* ===== verification/WsPostRuns.thy ===== *)
theory WsPostRuns
  imports WsPost
begin

text \<open>
  What the callers of \<^verbatim>\<open>websocket/post.go\<close> can rely on, over every interleaving of the steps of theory
  \<^verbatim>\<open>WsPost\<close>: whose answer a call gets, that none is lost or sent twice, that no call waits on a
  connection that is gone, that a request is written at most once.
\<close>

section \<open>The steps as a relation\<close>

text \<open>
  The invariants look at what a step does to the state, not at how it was chosen: the steps that do the
  same are one rule. \<open>between\<close> are the steps between taking the token and the end of the write.
\<close>

fun may_give_up :: "phase \<Rightarrow> bool" where
  "may_give_up PLooking = True"
| "may_give_up PNeedsToken = True"
| "may_give_up (PReady n) = True"
| "may_give_up (PAwaiting n) = True"
| "may_give_up _ = False"

fun may_give_up_token :: "phase \<Rightarrow> bool" where
  "may_give_up_token PLookingAgain = True"
| "may_give_up_token PDialing = True"
| "may_give_up_token (PHolding n) = True"
| "may_give_up_token (PWaiting n) = True"
| "may_give_up_token _ = False"

inductive between :: "phase \<Rightarrow> phase \<Rightarrow> bool" where
  "between (PHolding n) (PWaiting n)"
| "between (PWaiting n) (PWriting n True)"
| "between (PWriting n True) (PWriting n False)"
| "between (PWrote n True r) (PWrote n False r)"

inductive moves :: "post_event \<Rightarrow> postManager \<Rightarrow> postManager \<Rightarrow> bool" where
  call: "pm_phase m c = PIdle \<Longrightarrow> moves e m (goto c PEntered (m \<lparr> pm_call := (pm_call m)(c := call) \<rparr>))"
| enter: "pm_phase m c = PEntered \<Longrightarrow> moves e m (goto c PAdmitted m)"
| refused: "pm_phase m c \<in> {PEntered, PAdmitted} \<Longrightarrow> moves e m (refuse c x m)"
| acquire: "pm_phase m c = PAdmitted \<Longrightarrow> int (pg_permits (pm_gate m)) < pg_limit (pm_gate m) \<Longrightarrow>
    moves e m (goto c PNumbered (permits Suc m))"
| number: "pm_phase m c = PNumbered \<Longrightarrow> moves e m (goto c PRegistering
    (m \<lparr> pm_nextID := pm_nextID m + 1, pm_id := (pm_id m)(c := pm_nextID m + 1) \<rparr>))"
| register_closed: "pm_phase m c = PRegistering \<Longrightarrow> pm_closed m \<Longrightarrow>
    moves e m (finish c (Inl (PlainError x)) m)"
| register: "pm_phase m c = PRegistering \<Longrightarrow> \<not> pm_closed m \<Longrightarrow>
    moves e m (goto c PLooking (m \<lparr> pm_pending := AList.update (pm_id m c)
      \<lparr> pp_kind = pc_kind (pm_call m c), pp_result = c \<rparr> (pm_pending m) \<rparr>))"
| found: "pm_phase m c = PLooking \<Longrightarrow> pm_conn m = Some n \<Longrightarrow> moves e m (goto c (PReady n) m)"
| not_found: "pm_phase m c = PLooking \<Longrightarrow> pm_conn m = None \<Longrightarrow> moves e m (goto c PNeedsToken m)"
| found_again: "pm_phase m c = PLookingAgain \<Longrightarrow> pm_conn m = Some n \<Longrightarrow>
    moves e m (unlock (goto c (PReady n) m))"
| dial: "pm_phase m c = PLookingAgain \<Longrightarrow> pm_conn m = None \<Longrightarrow> moves e m (goto c PDialing m)"
| dialed: "pm_phase m c = PDialing \<Longrightarrow>
    moves e m (goto c (PDialed (pm_dialed m)) (m \<lparr> pm_dialed := Suc (pm_dialed m) \<rparr>))"
| store: "pm_phase m c = PDialed n \<Longrightarrow> \<not> pm_closed m \<Longrightarrow>
    moves e m (unlock (goto c (PReady n) (m \<lparr> pm_conn := Some n, pm_readers := n # pm_readers m \<rparr>)))"
| store_closed: "pm_phase m c = PDialed n \<Longrightarrow> pm_closed m \<Longrightarrow>
    moves e m (unlock (give_up c x (m \<lparr> pm_shut := n # pm_shut m \<rparr>)))"
| take_to_look: "pm_token m \<Longrightarrow> pm_phase m c = PNeedsToken \<Longrightarrow>
    moves e m (goto c PLookingAgain (m \<lparr> pm_token := False \<rparr>))"
| take_to_write: "pm_token m \<Longrightarrow> pm_phase m c = PReady n \<Longrightarrow>
    moves e m (goto c (PHolding n) (m \<lparr> pm_token := False \<rparr>))"
| given_up: "may_give_up (pm_phase m c) \<Longrightarrow> moves e m (give_up c x m)"
| given_up_token: "may_give_up_token (pm_phase m c) \<Longrightarrow> moves e m (unlock (give_up c x m))"
| proceed: "between (pm_phase m c) p \<Longrightarrow> moves e m (goto c p (m \<lparr> pm_callbacks := xs \<rparr>))"
| write_ends: "pm_phase m c = PWriting n b \<Longrightarrow> e = EWriteEnds c r \<Longrightarrow>
    moves e m (goto c (PWrote n b r) (m \<lparr> pm_written := pm_written m @
       [(c, n, post_message (pm_call m c) (pm_id m c))] \<rparr>))"
| written: "pm_phase m c = PWrote n b None \<Longrightarrow> moves e m (goto c (PAwaiting n) (unlock m))"
| write_failed: "pm_phase m c = PWrote n b (Some y) \<Longrightarrow> moves e m (finish c (Inl (PlainError x))
      (post_disconnect n y (post_remove (pm_id m c) (unlock m))))"
| receive: "pm_phase m c = PAwaiting n \<Longrightarrow> pm_buffer m c = Some r \<Longrightarrow>
    moves e m (finish c (post_outcome (pc_target (pm_call m c)) r)
      (m \<lparr> pm_buffer := (pm_buffer m)(c := None) \<rparr>))"
| contexts: "moves e m (m \<lparr> pm_ctx := f, pm_requestCtx := g \<rparr>)"
| lost: "moves e m (post_disconnect n x (m \<lparr> pm_callbacks := xs \<rparr>))"
| read_fails: "moves e m (post_disconnect n x (m \<lparr> pm_readers := removeAll n (pm_readers m) \<rparr>))"
| frame: "e = EFrame n raw \<Longrightarrow> post_frame_of raw = Some f \<Longrightarrow>
    map_of (pm_pending m) (pf_ID f) = Some p \<Longrightarrow>
    moves e m ((post_remove (pf_ID f) m)
       \<lparr> pm_sends := pm_sends m @ [(pp_result p, post_answer (pp_kind p) f, False)] \<rparr>)"
| send: "i < length (pm_sends m) \<Longrightarrow> pm_sends m ! i = (c, r, s) \<Longrightarrow> pm_buffer m c = None \<Longrightarrow>
    moves e m (m \<lparr> pm_sends := take i (pm_sends m) @ drop (Suc i) (pm_sends m),
        pm_buffer := (pm_buffer m)(c := Some r) \<rparr>)"
| drop: "i < length (pm_sends m) \<Longrightarrow> pm_sends m ! i = (c, r, True) \<Longrightarrow> pm_buffer m c = Some y \<Longrightarrow>
    moves e m (m \<lparr> pm_sends := take i (pm_sends m) @ drop (Suc i) (pm_sends m) \<rparr>)"
| close: "moves e m (post_close m)"

lemma still: "moves e m m"
proof -
  have "m = m \<lparr> pm_ctx := pm_ctx m, pm_requestCtx := pm_requestCtx m \<rparr>" by simp
  then show ?thesis by (metis moves.contexts)
qed

lemma unlock_give_up: "give_up c x (unlock m) = unlock (give_up c x m)"
  by (simp add: give_up_def unlock_def finish_def permits_def goto_def post_remove_def contextError_def)

lemma proceed_same:
  assumes "between (pm_phase m c) p"
  shows "moves e m (goto c p m)"
proof -
  have "goto c p m = goto c p (m \<lparr> pm_callbacks := pm_callbacks m \<rparr>)" by simp
  then show ?thesis using moves.proceed [OF assms] by metis
qed

lemma callbacks_kept: "post_disconnect n x m = post_disconnect n x (m \<lparr> pm_callbacks := pm_callbacks m \<rparr>)"
  by simp

text \<open>Every step is a move.\<close>

lemma on_enter_moves: "on_enter c m = Some m' \<Longrightarrow> moves e m m'"
  by (auto simp: on_enter_def intro: moves.enter moves.refused split: if_splits option.splits)

lemma on_acquire_ends_moves: "on_acquire_ends c m = Some m' \<Longrightarrow> moves e m m'"
  by (auto simp: on_acquire_ends_def intro: moves.refused split: phase.splits option.splits)

lemma on_register_moves: "on_register c m = Some m' \<Longrightarrow> moves e m m'"
  by (auto simp: on_register_def intro: moves.register moves.register_closed split: if_splits)

lemma on_look_moves:
  assumes "on_look c m = Some m'"
  shows "moves e m m'"
proof (cases "pm_phase m c = PLooking")
  case True
  then show ?thesis using assms
    by (auto simp: on_look_def intro: moves.given_up moves.found moves.not_found
        split: if_splits option.splits)
next
  case False
  then have "pm_phase m c = PLookingAgain" using assms
    by (simp add: on_look_def split: phase.splits)
  then show ?thesis using assms
    by (auto simp: on_look_def intro: moves.given_up_token moves.found_again moves.dial
        split: if_splits option.splits)
qed

lemma on_store_moves: "on_store c m = Some m' \<Longrightarrow> moves e m m'"
  by (auto simp: on_store_def intro: moves.store moves.store_closed split: phase.splits if_splits)

lemma on_take_moves: "on_take c m = Some m' \<Longrightarrow> moves e m m'"
  by (auto simp: on_take_def intro: moves.take_to_look moves.take_to_write split: phase.splits if_splits)

lemma on_take_ends_moves: "on_take_ends c m = Some m' \<Longrightarrow> moves e m m'"
  by (auto simp: on_take_ends_def intro: moves.given_up split: phase.splits option.splits)

lemma on_checked_moves: "on_checked c m = Some m' \<Longrightarrow> moves e m m'"
  by (auto simp: on_checked_def unlock_give_up intro: moves.given_up_token
      intro!: proceed_same between.intros split: phase.splits option.splits)

lemma on_message_moves:
  "on_message_admitted c m = Some m' \<Longrightarrow> moves e m m'"
  "on_message_refused c x m = Some m' \<Longrightarrow> moves e m m'"
  by (auto simp: on_message_admitted_def on_message_refused_def unlock_give_up
      intro: moves.given_up_token intro!: proceed_same between.intros split: phase.splits)

lemma on_cancel_write_moves: "on_cancel_write c m = Some m' \<Longrightarrow> moves e m m'"
  by (auto simp: on_cancel_write_def intro!: moves.proceed between.intros
      split: phase.splits option.splits if_splits)

lemma on_written_moves: "on_written c m = Some m' \<Longrightarrow> moves e m m'"
  by (auto simp: on_written_def Let_def intro: moves.written moves.write_failed
      split: phase.splits option.splits)

lemma on_receive_moves: "on_receive c m = Some m' \<Longrightarrow> moves e m m'"
  by (auto simp: on_receive_def intro: moves.receive split: phase.splits option.splits)

lemma on_give_up_moves: "on_give_up c m = Some m' \<Longrightarrow> moves e m m'"
  by (auto simp: on_give_up_def intro: moves.given_up split: phase.splits option.splits)

lemma on_ctx_done_moves: "on_ctx_done c x m = Some m' \<Longrightarrow> moves e m m'"
  using moves.contexts by (auto simp: on_ctx_done_def split: if_splits)

lemma on_manager_done_moves:
  assumes "on_manager_done c m = Some m'"
  shows "moves e m m'"
proof -
  have "m' = m \<lparr> pm_ctx := pm_ctx m, pm_requestCtx := (pm_requestCtx m)(c := Some ''context canceled'') \<rparr>"
    using assms by (simp add: on_manager_done_def split: if_splits)
  then show ?thesis by (metis moves.contexts)
qed

lemma on_callback_moves: "on_callback i m = Some m' \<Longrightarrow> moves e m m'"
  by (auto simp: on_callback_def intro: moves.lost split: if_splits prod.splits)

lemma on_frame_moves:
  assumes "on_frame n raw m = Some m'"
  shows "moves (EFrame n raw) m m'"
proof -
  have r: "m' = read_frame raw m" using assms by (simp add: on_frame_def split: if_splits)
  show ?thesis
  proof (cases "post_frame_of raw")
    case None
    with r still show ?thesis by (simp add: read_frame_def)
  next
    case (Some f)
    show ?thesis
    proof (cases "map_of (pm_pending m) (pf_ID f)")
      case None
      with r Some still show ?thesis by (simp add: read_frame_def)
    next
      case p: (Some p)
      show ?thesis using moves.frame [OF refl Some p] r Some p by (simp add: read_frame_def)
    qed
  qed
qed

lemma on_send_moves:
  assumes "on_send i m = Some m'"
  shows "moves e m m'"
proof -
  obtain c r s where i: "i < length (pm_sends m)" "pm_sends m ! i = (c, r, s)"
    using assms by (cases "pm_sends m ! i") (simp add: on_send_def split: if_splits)
  then show ?thesis using assms moves.send [OF i] moves.drop [OF i(1)]
    by (auto simp: on_send_def Let_def split: option.splits if_splits)
qed

lemma step_moves:
  assumes "post_step e m = Some m'"
  shows "moves e m m'"
proof (cases e)
  case (EFrame n raw)
  then show ?thesis using assms on_frame_moves by simp
next
  case (EWriteEnds c r)
  then show ?thesis using assms
    by (auto simp: on_write_ends_def intro: moves.write_ends split: phase.splits)
qed (use assms in \<open>auto simp: on_call_def on_acquire_def on_number_def on_dialed_def on_dial_fails_def
    on_read_fails_def intro: moves.call moves.acquire moves.number moves.dialed moves.given_up_token
    moves.read_fails moves.close on_enter_moves on_acquire_ends_moves on_register_moves
    on_look_moves on_store_moves on_take_moves on_take_ends_moves on_checked_moves on_message_moves
    on_cancel_write_moves on_written_moves on_receive_moves on_give_up_moves on_ctx_done_moves
    on_manager_done_moves on_callback_moves on_send_moves split: if_splits\<close>)

lemmas post_parts = goto_def refuse_def finish_def give_up_def permits_def unlock_def post_remove_def
  post_disconnect_def answer_all_def post_close_def

section \<open>The write token and the connections\<close>

fun holds_token :: "phase \<Rightarrow> bool" where
  "holds_token PLookingAgain = True"
| "holds_token PDialing = True"
| "holds_token (PDialed n) = True"
| "holds_token (PHolding n) = True"
| "holds_token (PWaiting n) = True"
| "holds_token (PWriting n b) = True"
| "holds_token (PWrote n b r) = True"
| "holds_token _ = False"

fun dials :: "phase \<Rightarrow> bool" where
  "dials PDialing = True"
| "dials (PDialed n) = True"
| "dials _ = False"

lemma between_phase:
  "between p q \<Longrightarrow> holds_token p \<and> holds_token q \<and> \<not> dials p \<and> \<not> dials q"
  by (induction rule: between.induct) simp_all

lemma may_give_up_holds:
  "may_give_up p \<Longrightarrow> \<not> holds_token p" "may_give_up_token p \<Longrightarrow> holds_token p"
  by (cases p; simp)+

definition token_ok :: "postManager \<Rightarrow> bool" where
  "token_ok m \<longleftrightarrow>
     (\<forall>c. holds_token (pm_phase m c) \<longrightarrow> \<not> pm_token m \<and>
       (dials (pm_phase m c) \<longrightarrow> pm_conn m = None) \<and>
       (\<forall>d. holds_token (pm_phase m d) \<longrightarrow> d = c))"

lemma token_okD:
  assumes "token_ok m" "holds_token (pm_phase m c)"
  shows "\<not> pm_token m" "dials (pm_phase m c) \<Longrightarrow> pm_conn m = None" "holds_token (pm_phase m d) \<Longrightarrow> d = c"
  using assms by (auto simp: token_ok_def)

lemma token_ok_same:
  "token_ok m \<Longrightarrow> pm_phase m' = pm_phase m \<Longrightarrow> pm_token m' = pm_token m \<Longrightarrow> pm_conn m' = pm_conn m \<Longrightarrow>
   token_ok m'"
  by (simp only: token_ok_def)

lemma token_ok_goto:
  assumes "token_ok m" "holds_token p \<longrightarrow> holds_token (pm_phase m c) \<and> (dials p \<longrightarrow> pm_conn m = None)"
  shows "token_ok (goto c p m)"
  using assms by (auto simp: token_ok_def goto_def)


lemma token_ok_moves: "moves e m m' \<Longrightarrow> token_ok m \<Longrightarrow> token_ok m'"
proof (induction rule: moves.induct)
  case (store m c n e)
  then show ?case by (auto simp: token_ok_def goto_def unlock_def)
next
  case (take_to_look m c e)
  then show ?case by (auto simp: token_ok_def goto_def)
next
  case (take_to_write m c n e)
  then show ?case by (auto simp: token_ok_def goto_def)
next
  case (dial m c e)
  then show ?case using token_ok_goto [of m PDialing c] by simp
next
  case (dialed m c e)
  have "pm_conn m = None" using token_okD(2) [OF dialed(2), of c] dialed(1) by simp
  then have "token_ok (goto c (PDialed (pm_dialed m)) m)"
    using token_ok_goto [OF dialed(2), of "PDialed (pm_dialed m)" c] dialed(1) by simp
  then show ?case by (rule token_ok_same) (simp_all add: goto_def)
next
  case (write_ends m c n b e r)
  then have "token_ok (goto c (PWrote n b r) m)" using token_ok_goto [of m "PWrote n b r" c] by simp
  then show ?case by (rule token_ok_same) (simp_all add: goto_def)
qed (auto simp: token_ok_def post_parts dest: between_phase may_give_up_holds split: if_splits)

text \<open>\<open>fresh_of\<close> are the connections that are dialed but not yet stored.\<close>

fun dialed_conn :: "phase \<Rightarrow> nat set" where
  "dialed_conn (PDialed n) = {n}"
| "dialed_conn _ = {}"

definition fresh_of :: "(nat \<Rightarrow> phase) \<Rightarrow> nat set" where
  "fresh_of f = (\<Union>c. dialed_conn (f c))"

lemma fresh_split: "fresh_of f = dialed_conn (f c) \<union> (\<Union>d \<in> - {c}. dialed_conn (f d))"
  by (auto simp: fresh_of_def)

lemma fresh_upd [simp]:
  "dialed_conn (f c) = {} \<Longrightarrow> fresh_of (f(c := p)) = dialed_conn p \<union> fresh_of f"
  by (simp add: fresh_split [of _ c])

lemma dialed_conn_empty:
  "\<not> dials p \<Longrightarrow> dialed_conn p = {}"
  "may_give_up p \<or> may_give_up_token p \<Longrightarrow> dialed_conn p = {}"
  by (cases p; simp)+

lemma fresh_last:
  assumes "token_ok m" "pm_phase m c = PDialed n" "dialed_conn p = {}"
  shows "fresh_of (pm_phase m) = {n}" "fresh_of ((pm_phase m)(c := p)) = {}"
proof -
  have "dialed_conn (pm_phase m d) = {}" if "d \<noteq> c" for d
    using token_okD(3) [OF assms(1), of c d] assms(2) that by (cases "pm_phase m d") auto
  then show "fresh_of (pm_phase m) = {n}" "fresh_of ((pm_phase m)(c := p)) = {}"
    using assms(2,3) by (simp_all add: fresh_split [of _ c])
qed

definition conn_ok :: "postManager \<Rightarrow> bool" where
  "conn_ok m \<longleftrightarrow>
     set_option (pm_conn m) \<subseteq> set (pm_readers m) - set (pm_shut m) \<and>
     fresh_of (pm_phase m) \<inter> (set (pm_readers m) \<union> set (pm_shut m)) = {} \<and>
     {..< pm_dialed m} = set_option (pm_conn m) \<union> set (pm_shut m) \<union> fresh_of (pm_phase m) \<and>
     set (pm_readers m) \<subseteq> {..< pm_dialed m} \<and>
     (pm_closed m \<longrightarrow> pm_conn m = None \<and> pm_pending m = [])"

lemma conn_ok_frame:
  "conn_ok m \<Longrightarrow> fresh_of (pm_phase m') = fresh_of (pm_phase m) \<Longrightarrow> pm_conn m' = pm_conn m \<Longrightarrow>
   pm_readers m' = pm_readers m \<Longrightarrow> pm_shut m' = pm_shut m \<Longrightarrow> pm_dialed m' = pm_dialed m \<Longrightarrow>
   pm_closed m' = pm_closed m \<Longrightarrow> (pm_closed m \<Longrightarrow> pm_pending m = [] \<Longrightarrow> pm_pending m' = []) \<Longrightarrow> conn_ok m'"
  by (simp only: conn_ok_def) blast

lemma conn_ok_disconnect: "conn_ok m \<Longrightarrow> conn_ok (post_disconnect n x m)"
  by (auto simp: conn_ok_def post_disconnect_def answer_all_def)

lemma conn_ok_moves: "moves e m m' \<Longrightarrow> token_ok m \<Longrightarrow> conn_ok m \<Longrightarrow> conn_ok m'"
proof (induction rule: moves.induct)
  case (store m c n e)
  have "pm_conn m = None" using token_okD(2) [OF store(3), of c] store(1) by simp
  then show ?case using store fresh_last [OF store(3,1), of "PReady n"]
    by (auto simp: conn_ok_def goto_def unlock_def)
next
  case (store_closed m c n e x)
  then show ?case using fresh_last [OF store_closed(3,1), of "PReturned r" for r]
    by (auto simp: conn_ok_def post_parts AList.delete_eq)
next
  case (dialed m c e)
  then show ?case by (auto simp: conn_ok_def goto_def lessThan_Suc)
next
  case (close e m)
  then show ?case by (auto simp: conn_ok_def post_close_def answer_all_def split: option.splits)
next
  case (lost e m n x xs)
  have "conn_ok (m \<lparr> pm_callbacks := xs \<rparr>)" by (rule conn_ok_frame [OF lost(2)]) simp_all
  then show ?case by (rule conn_ok_disconnect)
next
  case (read_fails e m n x)
  then show ?case by (auto simp: conn_ok_def post_disconnect_def answer_all_def)
next
  case (write_failed m c n b y e x)
  have "conn_ok (post_remove (pm_id m c) (unlock m))"
    by (rule conn_ok_frame [OF write_failed(3)]) (simp_all add: post_remove_def unlock_def)
  then have "conn_ok (post_disconnect n y (post_remove (pm_id m c) (unlock m)))"
    by (rule conn_ok_disconnect)
  then show ?case
    by (rule conn_ok_frame) (use write_failed in \<open>simp_all add: post_parts\<close>)
qed (erule conn_ok_frame; auto simp: post_parts AList.delete_eq dialed_conn_empty dest: between_phase)+

section \<open>Answers\<close>

text \<open>
  From its registration to its return a call has exactly one of three things: an entry in the table
  of pending calls, a send on its channel under way, or an answer in its channel's buffer.
\<close>

fun waits :: "phase \<Rightarrow> bool" where
  "waits PIdle = False"
| "waits PEntered = False"
| "waits PAdmitted = False"
| "waits PNumbered = False"
| "waits PRegistering = False"
| "waits (PReturned r) = False"
| "waits _ = True"

fun returned :: "phase \<Rightarrow> bool" where
  "returned (PReturned r) = True"
| "returned _ = False"

definition numbered :: "phase \<Rightarrow> bool" where
  "numbered p \<longleftrightarrow> p = PRegistering \<or> waits p"

definition pend_of :: "(u64 \<times> postPending) list \<Rightarrow> nat \<Rightarrow> nat" where
  "pend_of ps c = length (filter (\<lambda>e. pp_result (snd e) = c) ps)"

definition way_of :: "(nat \<times> postResponse \<times> bool) list \<Rightarrow> nat \<Rightarrow> nat" where
  "way_of ss c = length (filter (\<lambda>e. fst e = c) ss)"

definition held_of :: "postResponse option \<Rightarrow> nat" where
  "held_of b = (case b of None \<Rightarrow> 0 | Some _ \<Rightarrow> 1)"

definition load :: "postManager \<Rightarrow> nat \<Rightarrow> nat" where
  "load m c = pend_of (pm_pending m) c + way_of (pm_sends m) c + held_of (pm_buffer m c)"

definition ids_ok :: "postManager \<Rightarrow> bool" where
  "ids_ok m \<longleftrightarrow>
     (\<forall>c. numbered (pm_phase m c) \<longrightarrow> 0 < pm_id m c \<and> pm_id m c \<le> pm_nextID m \<and>
       (\<forall>d. numbered (pm_phase m d) \<and> pm_id m d = pm_id m c \<longrightarrow> d = c))"

definition table_ok :: "postManager \<Rightarrow> bool" where
  "table_ok m \<longleftrightarrow> distinct (map fst (pm_pending m)) \<and>
     (\<forall>(k, p) \<in> set (pm_pending m). waits (pm_phase m (pp_result p)) \<and> k = pm_id m (pp_result p) \<and>
       pp_kind p = pc_kind (pm_call m (pp_result p)))"

definition fits :: "phase \<Rightarrow> nat \<Rightarrow> bool" where
  "fits p n \<longleftrightarrow> (if waits p then n = 1 else if returned p then n \<le> 1 else n = 0)"

definition load_ok :: "postManager \<Rightarrow> bool" where
  "load_ok m \<longleftrightarrow> (\<forall>c. fits (pm_phase m c) (load m c))"

lemma fits_returned: "fits p n \<Longrightarrow> k \<le> n \<Longrightarrow> fits (PReturned r) k"
  by (auto simp: fits_def split: if_splits)

lemma way_of_simps [simp]:
  "way_of [] c = 0"
  "way_of (xs @ ys) c = way_of xs c + way_of ys c"
  "way_of ((d, r) # xs) c = (if d = c then 1 else 0) + way_of xs c"
  by (simp_all add: way_of_def)

lemma pend_of_simps [simp]:
  "pend_of [] c = 0"
  "pend_of (xs @ ys) c = pend_of xs c + pend_of ys c"
  "pend_of (e # xs) c = (if pp_result (snd e) = c then 1 else 0) + pend_of xs c"
  by (simp_all add: pend_of_def)

lemma held_of_simps [simp]: "held_of None = 0" "held_of (Some r) = 1"
  by (simp_all add: held_of_def)

lemma way_of_all: "way_of (map (\<lambda>(i, p). (pp_result p, r, d)) ps) c = pend_of ps c"
  by (induction ps) auto

lemma way_of_remove:
  assumes "i < length ss" "ss ! i = (d, r)"
  shows "way_of (take i ss @ drop (Suc i) ss) c + (if d = c then 1 else 0) = way_of ss c"
proof -
  have "ss = take i ss @ (d, r) # drop (Suc i) ss" using assms by (metis id_take_nth_drop)
  then have "way_of ss c = way_of (take i ss @ (d, r) # drop (Suc i) ss) c" by simp
  then show ?thesis by simp
qed

lemma pend_of_delete:
  assumes "\<forall>(k, p) \<in> set ps. k = i \<longleftrightarrow> pp_result p = c"
  shows "pend_of (AList.delete i ps) d = (if d = c then 0 else pend_of ps d)"
  using assms by (induction ps) (auto simp: AList.delete_eq pend_of_def)

lemma pend_of_0: "pend_of ps c = 0 \<longleftrightarrow> c \<notin> (pp_result \<circ> snd) ` set ps"
  by (auto simp: pend_of_def filter_empty_conv)

lemma update_fresh: "k \<notin> fst ` set ps \<Longrightarrow> AList.update k v ps = ps @ [(k, v)]"
  by (induction ps) auto

text \<open>The entry of a call is the one under its number.\<close>

lemma own_entry:
  assumes "ids_ok m" "table_ok m" "numbered (pm_phase m c)"
  shows "\<forall>(k, p) \<in> set (pm_pending m). k = pm_id m c \<longleftrightarrow> pp_result p = c"
  using assms by (fastforce simp: ids_ok_def table_ok_def numbered_def)

lemma ids_ok_frame:
  assumes "ids_ok m" "pm_nextID m' = pm_nextID m"
    "\<And>c. numbered (pm_phase m' c) \<Longrightarrow> numbered (pm_phase m c) \<and> pm_id m' c = pm_id m c"
  shows "ids_ok m'"
  unfolding ids_ok_def using assms by (metis ids_ok_def)

lemma ids_ok_number:
  assumes "ids_ok m" "pm_phase m c = PNumbered" "pm_nextID m \<noteq> - 1"
  shows "ids_ok (goto c PRegistering
    (m \<lparr> pm_nextID := pm_nextID m + 1, pm_id := (pm_id m)(c := pm_nextID m + 1) \<rparr>))"
proof -
  have "1 + pm_nextID m \<noteq> 0" using assms(3) by (metis add.commute eq_neg_iff_add_eq_0)
  then have lt: "pm_nextID m < pm_nextID m + 1"
    by (simp add: word_less_nat_alt add.commute unatSuc)
  have old: "0 < pm_id m d \<and> pm_id m d \<le> pm_nextID m" if "numbered (pm_phase m d)" for d
    using assms(1) that by (simp add: ids_ok_def)
  have pos: "0 < pm_nextID m + 1" using \<open>1 + pm_nextID m \<noteq> 0\<close> by (simp add: word_gt_0 add.commute)
  have new: "pm_id m d < pm_nextID m + 1" if "numbered (pm_phase m d)" for d
    using old [OF that] lt by (meson order_le_less_trans)
  have uniq: "d = c'" if "numbered (pm_phase m c')" "numbered (pm_phase m d)" "pm_id m d = pm_id m c'"
    for c' d using assms(1) that by (simp add: ids_ok_def)
  let ?id = "(pm_id m)(c := pm_nextID m + 1)" and ?ph = "(pm_phase m)(c := PRegistering)"
  have "0 < ?id d \<and> ?id d \<le> pm_nextID m + 1 \<and> (\<forall>d'. numbered (?ph d') \<and> ?id d' = ?id d \<longrightarrow> d' = d)"
    if "numbered (?ph d)" for d
  proof (cases "d = c")
    case True
    then show ?thesis using pos new by (auto dest: order_less_imp_not_eq)
  next
    case False
    then have d: "numbered (pm_phase m d)" using that by simp
    have "d' = d" if "numbered (?ph d')" "?id d' = ?id d" for d'
      using that False d new [OF d] uniq [OF d, of d'] by (cases "d' = c") auto
    then show ?thesis using False old [OF d] new [OF d] by (auto simp: order_less_imp_le)
  qed
  then show ?thesis by (simp add: ids_ok_def goto_def)
qed

definition answers_ok :: "postManager \<Rightarrow> bool" where
  "answers_ok m \<longleftrightarrow> ids_ok m \<and> table_ok m \<and> load_ok m"

text \<open>A step that leaves every call on its side of registration and return.\<close>

lemma answers_ok_keep:
  assumes "answers_ok m"
    and "pm_nextID m' = pm_nextID m" "pm_pending m' = pm_pending m" "pm_sends m' = pm_sends m"
    "pm_buffer m' = pm_buffer m"
    and c: "\<And>c. waits (pm_phase m' c) = waits (pm_phase m c) \<and>
      returned (pm_phase m' c) = returned (pm_phase m c) \<and>
      numbered (pm_phase m' c) = numbered (pm_phase m c) \<and>
      (numbered (pm_phase m c) \<longrightarrow> pm_id m' c = pm_id m c \<and> pm_call m' c = pm_call m c)"
  shows "answers_ok m'"
proof -
  have "ids_ok m'" by (rule ids_ok_frame [of m]) (use assms in \<open>auto simp: answers_ok_def\<close>)
  moreover have "table_ok m'" using assms
    by (fastforce simp: answers_ok_def table_ok_def numbered_def)
  moreover have "load m' = load m" by (rule ext) (simp add: load_def assms)
  moreover have "fits (pm_phase m' c) n = fits (pm_phase m c) n" for c n using c by (simp add: fits_def)
  moreover have "load_ok m" using assms(1) by (simp add: answers_ok_def)
  ultimately have "ids_ok m'" "table_ok m'" "load_ok m'" by (simp_all add: load_ok_def)
  then show ?thesis by (simp add: answers_ok_def)
qed

text \<open>A call that returns takes its entry with it.\<close>

lemma answers_ok_return:
  assumes "answers_ok m" "waits (pm_phase m c)"
  shows "answers_ok (finish c r (post_remove (pm_id m c) m))"
proof -
  let ?m = "finish c r (post_remove (pm_id m c) m)"
  have ok: "ids_ok m" "table_ok m" "load_ok m" using assms(1) by (simp_all add: answers_ok_def)
  have n: "numbered (pm_phase m c)" using assms(2) by (simp add: numbered_def)
  note entry = own_entry [OF ok(1,2) n]
  have "ids_ok ?m" by (rule ids_ok_frame [OF ok(1)]) (auto simp: post_parts numbered_def split: if_splits)
  moreover have "table_ok ?m" using ok(2) entry
    by (fastforce simp: table_ok_def post_parts AList.delete_eq distinct_map_filter)
  moreover have "load_ok ?m"
    unfolding load_ok_def
  proof
    fix d
    have "load ?m d \<le> load m d" using pend_of_delete [OF entry, of d] by (simp add: load_def post_parts)
    moreover have "load ?m d = load m d" if "d \<noteq> c"
      using pend_of_delete [OF entry, of d] that by (simp add: load_def post_parts)
    moreover have "fits (pm_phase m d) (load m d)" using ok(3) by (simp add: load_ok_def)
    ultimately show "fits (pm_phase ?m d) (load ?m d)"
      using fits_returned by (cases "d = c") (auto simp: post_parts)
  qed
  ultimately show ?thesis by (simp add: answers_ok_def)
qed

lemma answers_ok_answer_all:
  assumes "answers_ok m"
  shows "answers_ok (answer_all r d m)"
proof -
  have "load (answer_all r d m) = load m"
    by (rule ext) (simp add: load_def answer_all_def way_of_all)
  then show ?thesis using assms
    by (simp add: answers_ok_def ids_ok_def table_ok_def load_ok_def answer_all_def)
qed

text \<open>A call that is not registered returns.\<close>

lemma answers_ok_leave:
  assumes "answers_ok m" "\<not> waits (pm_phase m c)" "\<not> returned (pm_phase m c)"
  shows "answers_ok (goto c (PReturned r) m)"
proof -
  have ok: "ids_ok m" "table_ok m" "load_ok m" using assms(1) by (simp_all add: answers_ok_def)
  have "ids_ok (goto c (PReturned r) m)"
    by (rule ids_ok_frame [OF ok(1)]) (auto simp: goto_def numbered_def split: if_splits)
  moreover have "table_ok (goto c (PReturned r) m)"
    using ok(2) assms(2) by (fastforce simp: table_ok_def goto_def)
  moreover have "load_ok (goto c (PReturned r) m)"
    using ok(3) assms(2,3) by (auto simp: load_ok_def load_def fits_def goto_def split: if_splits)
  ultimately show ?thesis by (simp add: answers_ok_def)
qed

lemma answers_ok_register:
  assumes "answers_ok m" "pm_phase m c = PRegistering"
  shows "answers_ok (goto c PLooking (m \<lparr> pm_pending := AList.update (pm_id m c)
      \<lparr> pp_kind = pc_kind (pm_call m c), pp_result = c \<rparr> (pm_pending m) \<rparr>))" (is "answers_ok ?m")
proof -
  have ok: "ids_ok m" "table_ok m" "load_ok m" using assms(1) by (simp_all add: answers_ok_def)
  have n: "numbered (pm_phase m c)" using assms(2) by (simp add: numbered_def)
  have c: "pp_result p \<noteq> c" if "(k, p) \<in> set (pm_pending m)" for k p
    using ok(2) that assms(2) by (fastforce simp: table_ok_def)
  then have fresh: "pm_id m c \<notin> fst ` set (pm_pending m)"
    using own_entry [OF ok(1,2) n] by fastforce
  note u = update_fresh [OF fresh]
  have "ids_ok ?m"
    by (rule ids_ok_frame [OF ok(1)]) (use assms(2) in \<open>auto simp: goto_def numbered_def split: if_splits\<close>)
  moreover have "table_ok ?m" using ok(2) c fresh
    by (auto simp: table_ok_def goto_def u)
  moreover have "load_ok ?m"
    using ok(3) assms(2)
    by (auto simp: load_ok_def load_def fits_def goto_def u split: if_splits dest: spec [of _ c])
  ultimately show ?thesis by (simp add: answers_ok_def)
qed

lemma load_one:
  assumes "load_ok m"
  shows "load m c \<le> 1"
  using assms by (auto simp: load_ok_def fits_def split: if_splits dest: spec [of _ c])

lemma answers_ok_receive:
  assumes "answers_ok m" "pm_buffer m c = Some b" "\<not> returned (pm_phase m c)"
  shows "answers_ok (finish c r (m \<lparr> pm_buffer := (pm_buffer m)(c := None) \<rparr>))" (is "answers_ok ?m")
proof -
  have ok: "ids_ok m" "table_ok m" "load_ok m" using assms(1) by (simp_all add: answers_ok_def)
  have 0: "pend_of (pm_pending m) c = 0"
    using load_one [OF ok(3), of c] assms(2) by (simp add: load_def)
  have "ids_ok ?m" by (rule ids_ok_frame [OF ok(1)]) (auto simp: post_parts numbered_def split: if_splits)
  moreover have "table_ok ?m" using ok(2) 0
    by (fastforce simp: table_ok_def post_parts pend_of_0 image_iff)
  moreover have "load_ok ?m"
    unfolding load_ok_def
  proof
    fix d
    have "load ?m d \<le> load m d" "d \<noteq> c \<Longrightarrow> load ?m d = load m d" by (simp_all add: load_def post_parts)
    moreover have "fits (pm_phase m d) (load m d)" using ok(3) by (simp add: load_ok_def)
    ultimately show "fits (pm_phase ?m d) (load ?m d)"
      using fits_returned by (cases "d = c") (auto simp: post_parts)
  qed
  ultimately show ?thesis by (simp add: answers_ok_def)
qed

lemma answers_ok_frame:
  assumes "answers_ok m" "map_of (pm_pending m) i = Some p"
  shows "answers_ok ((post_remove i m) \<lparr> pm_sends := pm_sends m @ [(pp_result p, r, s)] \<rparr>)"
    (is "answers_ok ?m")
proof -
  have ok: "ids_ok m" "table_ok m" "load_ok m" using assms(1) by (simp_all add: answers_ok_def)
  have e: "(i, p) \<in> set (pm_pending m)" using assms(2) by (rule map_of_SomeD)
  then have w: "waits (pm_phase m (pp_result p))" "i = pm_id m (pp_result p)"
    using ok(2) by (auto simp: table_ok_def)
  then have n: "numbered (pm_phase m (pp_result p))" by (simp add: numbered_def)
  note entry = own_entry [OF ok(1,2) n, folded w(2)]
  have "pp_result p \<in> (pp_result \<circ> snd) ` set (pm_pending m)"
    using e by (metis comp_apply image_eqI snd_conv)
  then have "pend_of (pm_pending m) (pp_result p) \<noteq> 0" by (simp only: pend_of_0 not_not)
  moreover have "pend_of (pm_pending m) (pp_result p) \<le> 1"
    using load_one [OF ok(3), of "pp_result p"] by (simp add: load_def)
  ultimately have one: "pend_of (pm_pending m) (pp_result p) = 1" by simp
  have "ids_ok ?m" by (rule ids_ok_frame [OF ok(1)]) (auto simp: post_parts)
  moreover have "table_ok ?m" using ok(2)
    by (fastforce simp: table_ok_def post_parts AList.delete_eq distinct_map_filter)
  moreover have "load ?m = load m"
    using pend_of_delete [OF entry] one by (intro ext) (auto simp: load_def post_parts)
  ultimately show ?thesis using ok(3) by (simp add: answers_ok_def load_ok_def post_parts)
qed

lemma answers_ok_send:
  assumes "answers_ok m" "i < length (pm_sends m)" "pm_sends m ! i = (c, r, s)"
  shows "pm_buffer m c = None"
    "answers_ok (m \<lparr> pm_sends := take i (pm_sends m) @ drop (Suc i) (pm_sends m),
        pm_buffer := (pm_buffer m)(c := Some r) \<rparr>)" (is "answers_ok ?m")
proof -
  have ok: "ids_ok m" "table_ok m" "load_ok m" using assms(1) by (simp_all add: answers_ok_def)
  note way = way_of_remove [OF assms(2,3)]
  have "0 < way_of (pm_sends m) c" using way [of c] by simp
  then show b: "pm_buffer m c = None"
    using load_one [OF ok(3), of c] by (cases "pm_buffer m c") (auto simp: load_def)
  have "load ?m d = load m d" for d using way [of d] b by (auto simp: load_def split: if_splits)
  then show "answers_ok ?m"
    using ok by (simp add: answers_ok_def ids_ok_def table_ok_def load_ok_def)
qed

text \<open>The order of returning and of answering the others does not matter.\<close>

lemma finish_disconnect:
  "finish c r (post_disconnect n x m) = post_disconnect n x (finish c r m)"
  by (simp add: post_parts)

lemma answers_ok_same:
  "answers_ok m \<Longrightarrow> pm_nextID m' = pm_nextID m \<Longrightarrow> pm_pending m' = pm_pending m \<Longrightarrow>
   pm_sends m' = pm_sends m \<Longrightarrow> pm_buffer m' = pm_buffer m \<Longrightarrow> pm_phase m' = pm_phase m \<Longrightarrow>
   pm_id m' = pm_id m \<Longrightarrow> pm_call m' = pm_call m \<Longrightarrow> answers_ok m'"
  by (erule answers_ok_keep) auto

lemma answers_ok_disconnect:
  assumes "answers_ok m"
  shows "answers_ok (post_disconnect n x m)"
proof -
  have "answers_ok (m \<lparr> pm_conn := None, pm_shut := n # pm_shut m \<rparr>)"
    by (rule answers_ok_same [OF assms]) simp_all
  then show ?thesis using assms by (simp add: post_disconnect_def answers_ok_answer_all)
qed

lemma give_up_waits:
  "may_give_up p \<Longrightarrow> waits p" "may_give_up_token p \<Longrightarrow> waits p"
  by (cases p; simp)+

lemma between_waits: "between p q \<Longrightarrow> waits p \<and> waits q \<and> \<not> returned p \<and> \<not> returned q"
  by (induction rule: between.induct) simp_all

lemma answers_ok_give_up:
  "answers_ok m \<Longrightarrow> waits (pm_phase m c) \<Longrightarrow> answers_ok (give_up c x m)"
  by (simp add: give_up_def answers_ok_return)

lemma answers_ok_unlock: "answers_ok m \<Longrightarrow> answers_ok (unlock m)"
  by (rule answers_ok_same) (simp_all add: unlock_def)

lemma answers_ok_moves:
  "moves e m m' \<Longrightarrow> answers_ok m \<Longrightarrow> pm_nextID m \<noteq> - 1 \<Longrightarrow> answers_ok m'"
proof (induction rule: moves.induct)
  case (refused m c e x)
  then show ?case by (auto simp: refuse_def intro!: answers_ok_leave)
next
  case (number m c e)
  have ok: "ids_ok m" "table_ok m" "load_ok m" using number(2) by (simp_all add: answers_ok_def)
  have "table_ok (goto c PRegistering
      (m \<lparr> pm_nextID := pm_nextID m + 1, pm_id := (pm_id m)(c := pm_nextID m + 1) \<rparr>))"
    using ok(2) number(1) by (fastforce simp: table_ok_def goto_def)
  moreover have "fits (if d = c then PRegistering else pm_phase m d) (load m d)" for d
    using ok(3) number(1) by (auto simp: load_ok_def fits_def dest: spec [of _ d])
  then have "load_ok (goto c PRegistering
      (m \<lparr> pm_nextID := pm_nextID m + 1, pm_id := (pm_id m)(c := pm_nextID m + 1) \<rparr>))"
    by (simp add: load_ok_def load_def goto_def)
  ultimately show ?case using ids_ok_number [OF ok(1) number(1,3)] by (simp add: answers_ok_def)
next
  case (register_closed m c e x)
  have "answers_ok (goto c (PReturned (Inl (PlainError x))) m)"
    using register_closed by (intro answers_ok_leave) simp_all
  then show ?case by (rule answers_ok_same) (simp_all add: finish_def permits_def)
next
  case (register m c e)
  then show ?case by (intro answers_ok_register)
next
  case (store_closed m c n e x)
  have "answers_ok (m \<lparr> pm_shut := n # pm_shut m \<rparr>)"
    by (rule answers_ok_same [OF store_closed(3)]) simp_all
  with store_closed(1) show ?case by (intro answers_ok_unlock answers_ok_give_up) simp_all
next
  case (given_up m c e x)
  then show ?case by (intro answers_ok_give_up) (simp_all add: give_up_waits)
next
  case (given_up_token m c e x)
  then show ?case by (intro answers_ok_unlock answers_ok_give_up) (simp_all add: give_up_waits)
next
  case (write_failed m c n b y e x)
  then have "answers_ok (finish c (Inl (PlainError x)) (post_remove (pm_id (unlock m) c) (unlock m)))"
    by (intro answers_ok_return answers_ok_unlock) (simp_all add: unlock_def)
  then show ?case by (simp add: finish_disconnect answers_ok_disconnect unlock_def)
next
  case (receive m c n r e)
  then show ?case by (intro answers_ok_receive) simp_all
next
  case (lost e m n x xs)
  have "answers_ok (m \<lparr> pm_callbacks := xs \<rparr>)" by (rule answers_ok_same [OF lost(1)]) simp_all
  then show ?case by (rule answers_ok_disconnect)
next
  case (read_fails e m n x)
  have "answers_ok (m \<lparr> pm_readers := removeAll n (pm_readers m) \<rparr>)"
    by (rule answers_ok_same [OF read_fails(1)]) simp_all
  then show ?case by (rule answers_ok_disconnect)
next
  case (frame e n raw f m p)
  then show ?case by (intro answers_ok_frame)
next
  case (send i m c r s e)
  then show ?case by (intro answers_ok_send)
next
  case (drop i m c r y e)
  then show ?case using answers_ok_send(1) [OF drop(4,1,2)] by simp
next
  case (close e m)
  have "answers_ok (m \<lparr> pm_closed := True, pm_conn := None,
      pm_shut := (case pm_conn m of None \<Rightarrow> pm_shut m | Some n \<Rightarrow> n # pm_shut m) \<rparr>)"
    by (rule answers_ok_same [OF close(1)]) simp_all
  with close(1) show ?case by (simp add: post_close_def answers_ok_answer_all)
qed (erule answers_ok_keep; auto simp: goto_def permits_def unlock_def numbered_def dest: between_waits)+

section \<open>Live connections\<close>

fun on_conn :: "phase \<Rightarrow> nat option" where
  "on_conn (PReady n) = Some n"
| "on_conn (PHolding n) = Some n"
| "on_conn (PWaiting n) = Some n"
| "on_conn (PWriting n b) = Some n"
| "on_conn (PWrote n b r) = Some n"
| "on_conn (PAwaiting n) = Some n"
| "on_conn _ = None"

text \<open>A call that is still in the table and has a connection has the current one.\<close>

definition live_ok :: "postManager \<Rightarrow> bool" where
  "live_ok m \<longleftrightarrow> (\<forall>(k, p) \<in> set (pm_pending m).
     case on_conn (pm_phase m (pp_result p)) of None \<Rightarrow> True | Some n \<Rightarrow> pm_conn m = Some n)"

lemma live_ok_frame:
  assumes "live_ok m" "pm_conn m' = pm_conn m" "set (pm_pending m') \<subseteq> set (pm_pending m)"
    "\<And>c. on_conn (pm_phase m' c) \<in> {None, pm_conn m, on_conn (pm_phase m c)}"
  shows "live_ok m'"
  unfolding live_ok_def
proof (clarify)
  fix k p
  assume "(k, p) \<in> set (pm_pending m')"
  then have "case on_conn (pm_phase m (pp_result p)) of None \<Rightarrow> True | Some n \<Rightarrow> pm_conn m = Some n"
    using assms(1,3) by (auto simp: live_ok_def)
  then show "case on_conn (pm_phase m' (pp_result p)) of None \<Rightarrow> True | Some n \<Rightarrow> pm_conn m' = Some n"
    using assms(2) assms(4) [of "pp_result p"] by (auto split: option.splits)
qed

lemma between_conn: "between p q \<Longrightarrow> on_conn q = on_conn p"
  by (induction rule: between.induct) simp_all

lemma live_ok_disconnect: "live_ok m \<Longrightarrow> live_ok (post_disconnect n x m)"
  by (simp add: live_ok_def post_disconnect_def answer_all_def)

lemma in_delete: "e \<in> set (AList.delete k ps) \<Longrightarrow> e \<in> set ps"
  by (auto simp: AList.delete_eq)

lemma live_ok_moves: "moves e m m' \<Longrightarrow> token_ok m \<Longrightarrow> answers_ok m \<Longrightarrow> live_ok m \<Longrightarrow> live_ok m'"
proof (induction rule: moves.induct)
  case (store m c n e)
  have "pm_conn m = None" using token_okD(2) [OF store(3), of c] store(1) by simp
  then show ?case using store(5)
    by (fastforce simp: live_ok_def goto_def unlock_def split: option.splits if_splits)
next
  case (register m c e)
  have sub: "set (AList.update i v ps) \<subseteq> insert (i, v) (set ps)"
    for i v and ps :: "(u64 \<times> postPending) list"
    by (induction ps) auto
  let ?v = "\<lparr> pp_kind = pc_kind (pm_call m c), pp_result = c \<rparr>"
  have "pm_conn m = Some n"
    if "(k, p) \<in> set (AList.update (pm_id m c) ?v (pm_pending m))" "pp_result p \<noteq> c"
      "on_conn (pm_phase m (pp_result p)) = Some n" for k p n
    using register(5) sub that by (fastforce simp: live_ok_def)
  then show ?case by (auto simp: live_ok_def goto_def split: option.splits)
next
  case (write_failed m c n b y e x)
  have "live_ok (finish c (Inl (PlainError x)) (post_remove (pm_id m c) (unlock m)))"
    by (rule live_ok_frame [OF write_failed(4)]) (auto simp: post_parts dest: in_delete)
  then show ?case by (simp add: finish_disconnect live_ok_disconnect)
next
  case (lost e m n x xs)
  have "live_ok (m \<lparr> pm_callbacks := xs \<rparr>)" by (rule live_ok_frame [OF lost(3)]) simp_all
  then show ?case by (rule live_ok_disconnect)
next
  case (read_fails e m n x)
  have "live_ok (m \<lparr> pm_readers := removeAll n (pm_readers m) \<rparr>)"
    by (rule live_ok_frame [OF read_fails(3)]) simp_all
  then show ?case by (rule live_ok_disconnect)
next
  case (close e m)
  then show ?case by (simp add: post_close_def answer_all_def live_ok_def)
qed (erule live_ok_frame; auto simp: post_parts dest: between_conn in_delete)+

section \<open>Writes\<close>

fun has_written :: "phase \<Rightarrow> bool" where
  "has_written (PWrote n b r) = True"
| "has_written (PAwaiting n) = True"
| "has_written (PReturned r) = True"
| "has_written _ = False"

definition writes_of :: "postManager \<Rightarrow> nat \<Rightarrow> (nat \<times> nat \<times> jval) list" where
  "writes_of m c = filter (\<lambda>w. fst w = c) (pm_written m)"

definition writes_ok :: "postManager \<Rightarrow> bool" where
  "writes_ok m \<longleftrightarrow> (\<forall>c. length (writes_of m c) \<le> (if has_written (pm_phase m c) then 1 else 0))"

lemma writes_ok_frame:
  assumes "writes_ok m" "pm_written m' = pm_written m"
    "\<And>c. has_written (pm_phase m c) \<Longrightarrow> has_written (pm_phase m' c)"
  shows "writes_ok m'"
  using assms by (force simp: writes_ok_def writes_of_def split: if_splits)

lemma between_written: "between p q \<Longrightarrow> has_written p \<Longrightarrow> has_written q"
  by (induction rule: between.induct) simp_all

lemma writes_ok_moves: "moves e m m' \<Longrightarrow> writes_ok m \<Longrightarrow> writes_ok m'"
proof (induction rule: moves.induct)
  case (write_ends m c n b e r)
  then show ?case
    by (auto simp: writes_ok_def writes_of_def goto_def split: if_splits dest: spec [of _ c])
qed (erule writes_ok_frame; auto simp: post_parts dest: between_written)+

end
