(* ===== verification/WsPostAnswers.thy ===== *)
theory WsPostAnswers
  imports WsPostRuns
begin

text \<open>
  The properties of posts over a WebSocket, from the invariants of theory \<^verbatim>\<open>WsPostRuns\<close>: where
  a result comes from, how many calls are in flight, that every call is answered, and a run
  in which a call gets the error of a connection on which it was not sent.
\<close>

section \<open>Where results come from\<close>

text \<open>The frame \<open>f\<close> is one that some reader received, and it carries the call's number.\<close>

definition answered_by :: "post_event set \<Rightarrow> postManager \<Rightarrow> nat \<Rightarrow> post_frame \<Rightarrow> bool" where
  "answered_by es m c f \<longleftrightarrow> pm_id m c \<noteq> 0 \<and> pf_ID f = pm_id m c \<and>
     (\<exists>n raw. EFrame n raw \<in> es \<and> post_frame_of raw = Some f)"

definition sourced :: "post_event set \<Rightarrow> postManager \<Rightarrow> nat \<Rightarrow> postResponse \<Rightarrow> bool" where
  "sourced es m c r \<longleftrightarrow> (\<exists>x. r = Inl (PlainError x)) \<or>
     (\<exists>f. answered_by es m c f \<and> r = post_answer (pc_kind (pm_call m c)) f)"

definition result_ok :: "post_event set \<Rightarrow> postManager \<Rightarrow> nat \<Rightarrow> phase \<Rightarrow> bool" where
  "result_ok es m c p \<longleftrightarrow> (case p of
     PReturned r \<Rightarrow> (\<exists>x. r = Inl (PlainError x)) \<or>
       (\<exists>f. answered_by es m c f \<and>
         r = post_outcome (pc_target (pm_call m c)) (post_answer (pc_kind (pm_call m c)) f))
   | _ \<Rightarrow> True)"

definition origin_ok :: "post_event set \<Rightarrow> postManager \<Rightarrow> bool" where
  "origin_ok es m \<longleftrightarrow>
     (\<forall>(c, r, s) \<in> set (pm_sends m). sourced es m c r) \<and>
     (\<forall>c. case pm_buffer m c of None \<Rightarrow> True | Some r \<Rightarrow> sourced es m c r) \<and>
     (\<forall>c. result_ok es m c (pm_phase m c))"

lemma answered_by_same:
  "pm_id m' c = pm_id m c \<Longrightarrow> answered_by es m' c f = answered_by es m c f"
  by (simp add: answered_by_def)

lemma sourced_same:
  "pm_id m' c = pm_id m c \<Longrightarrow> pm_call m' c = pm_call m c \<Longrightarrow> sourced es m' c r = sourced es m c r"
  by (simp add: sourced_def answered_by_def)

lemma result_ok_same:
  "pm_id m' c = pm_id m c \<Longrightarrow> pm_call m' c = pm_call m c \<Longrightarrow> result_ok es m' c p = result_ok es m c p"
  by (simp add: result_ok_def answered_by_def split: phase.splits)

lemma result_ok_simps:
  "\<not> returned p \<Longrightarrow> result_ok es m c p"
  "result_ok es m c (PReturned (Inl (PlainError x)))"
  by (auto simp: result_ok_def split: phase.splits)

text \<open>Steps that change neither numbers nor requests.\<close>

lemma origin_ok_frame:
  assumes "origin_ok es m" "pm_id m' = pm_id m" "pm_call m' = pm_call m"
    "\<And>c r s. (c, r, s) \<in> set (pm_sends m') \<Longrightarrow> (c, r, s) \<in> set (pm_sends m) \<or> sourced es m c r"
    "\<And>c. pm_buffer m' c \<in> {None, pm_buffer m c} \<or> (\<exists>r. pm_buffer m' c = Some r \<and> sourced es m c r)"
    "\<And>c. pm_phase m' c = pm_phase m c \<or> result_ok es m c (pm_phase m' c)"
  shows "origin_ok es m'"
proof -
  have s: "sourced es m' = sourced es m" "result_ok es m' = result_ok es m"
    by (intro ext sourced_same result_ok_same; simp add: assms(2,3))+
  have "sourced es m c r" if "(c, r, s) \<in> set (pm_sends m')" for c r s
    using assms(1) assms(4) [OF that] by (auto simp: origin_ok_def)
  moreover have "sourced es m c r" if "pm_buffer m' c = Some r" for c r
    using assms(1) assms(5) [of c] that by (auto simp: origin_ok_def split: option.splits)
  moreover have "result_ok es m c (pm_phase m' c)" for c
    using assms(1) assms(6) [of c] by (auto simp: origin_ok_def)
  ultimately show ?thesis by (auto simp: origin_ok_def s split: option.splits)
qed

lemma no_answer:
  assumes "load_ok m" "\<not> waits (pm_phase m c)" "\<not> returned (pm_phase m c)"
  shows "pm_buffer m c = None" "(c, r, s) \<notin> set (pm_sends m)"
proof -
  have 0: "load m c = 0" using assms by (auto simp: load_ok_def fits_def split: if_splits dest: spec [of _ c])
  then show "pm_buffer m c = None" by (cases "pm_buffer m c") (auto simp: load_def)
  have "way_of (pm_sends m) c = 0" using 0 by (simp add: load_def)
  then show "(c, r, s) \<notin> set (pm_sends m)" by (force simp: way_of_def filter_empty_conv)
qed

text \<open>A step that changes a call's number or request, which has no answer yet.\<close>

lemma origin_ok_early:
  assumes "origin_ok es m" "load_ok m" "\<not> waits (pm_phase m c)" "\<not> returned (pm_phase m c)"
    "\<And>d. d \<noteq> c \<Longrightarrow> pm_id m' d = pm_id m d \<and> pm_call m' d = pm_call m d \<and> pm_phase m' d = pm_phase m d"
    "pm_sends m' = pm_sends m" "pm_buffer m' = pm_buffer m" "\<not> returned (pm_phase m' c)"
  shows "origin_ok es m'"
proof -
  note no = no_answer [OF assms(2,3,4)]
  have "sourced es m' d r" if "(d, r, s) \<in> set (pm_sends m)" for d r s
  proof -
    have "d \<noteq> c" using no(2) that by auto
    then show ?thesis using assms(1,5) that sourced_same [of m' d m] by (auto simp: origin_ok_def)
  qed
  moreover have "sourced es m' d r" if "pm_buffer m d = Some r" for d r
  proof -
    have "d \<noteq> c" using no(1) that by auto
    then show ?thesis using assms(1,5) that sourced_same [of m' d m]
      by (auto simp: origin_ok_def split: option.splits)
  qed
  moreover have "result_ok es m' d (pm_phase m' d)" for d
  proof (cases "d = c")
    case True
    then show ?thesis using assms(8) by (simp add: result_ok_simps)
  next
    case False
    then show ?thesis using assms(1,5) result_ok_same [of m' d m] by (auto simp: origin_ok_def)
  qed
  ultimately show ?thesis using assms(6,7) by (auto simp: origin_ok_def split: option.splits)
qed

lemma origin_ok_plain: "origin_ok es m \<Longrightarrow> origin_ok es (answer_all (Inl (PlainError x)) d m)"
  by (erule origin_ok_frame) (auto simp: answer_all_def sourced_def)

lemma origin_ok_disconnect:
  assumes "origin_ok es m"
  shows "origin_ok es (post_disconnect n x m)"
proof -
  have "origin_ok es (m \<lparr> pm_conn := None, pm_shut := n # pm_shut m \<rparr>)"
    by (rule origin_ok_frame [OF assms]) simp_all
  then show ?thesis using assms by (simp add: post_disconnect_def origin_ok_plain)
qed

lemma between_returned: "between p q \<Longrightarrow> \<not> returned q"
  by (induction rule: between.induct) simp_all

lemma origin_ok_moves:
  "moves e m m' \<Longrightarrow> e \<in> es \<Longrightarrow> answers_ok m \<Longrightarrow> origin_ok es m \<Longrightarrow> origin_ok es m'"
proof (induction rule: moves.induct)
  case (call m c e req)
  have "load_ok m" using call(3) by (simp add: answers_ok_def)
  from origin_ok_early [OF call(4) this, of c] call(1) show ?case by (simp add: goto_def)
next
  case (number m c e)
  have "load_ok m" using number(3) by (simp add: answers_ok_def)
  from origin_ok_early [OF number(4) this, of c] number(1) show ?case by (simp add: goto_def)
next
  case (write_failed m c n b y e x)
  have "origin_ok es (finish c (Inl (PlainError x)) (post_remove (pm_id m c) (unlock m)))"
    by (rule origin_ok_frame [OF write_failed(4)]) (auto simp: post_parts result_ok_simps)
  then show ?case by (simp add: finish_disconnect origin_ok_disconnect)
next
  case (receive m c n r e)
  have s: "sourced es m c r" using receive(2,5) by (auto simp: origin_ok_def split: option.splits)
  have "result_ok es m c (PReturned (post_outcome (pc_target (pm_call m c)) r))"
    using s by (auto simp: sourced_def result_ok_def post_outcome_def)
  then show ?case by (intro origin_ok_frame [OF receive(5)]) (auto simp: post_parts)
next
  case (lost e m n x xs)
  have "origin_ok es (m \<lparr> pm_callbacks := xs \<rparr>)" by (rule origin_ok_frame [OF lost(3)]) simp_all
  then show ?case by (rule origin_ok_disconnect)
next
  case (read_fails e m n x)
  have "origin_ok es (m \<lparr> pm_readers := removeAll n (pm_readers m) \<rparr>)"
    by (rule origin_ok_frame [OF read_fails(3)]) simp_all
  then show ?case by (rule origin_ok_disconnect)
next
  case (close e m)
  have "origin_ok es (m \<lparr> pm_closed := True, pm_conn := None,
      pm_shut := (case pm_conn m of None \<Rightarrow> pm_shut m | Some n \<Rightarrow> n # pm_shut m) \<rparr>)"
    by (rule origin_ok_frame [OF close(3)]) simp_all
  with close(3) show ?case by (simp add: post_close_def origin_ok_plain)
next
  case (frame e n raw f m p)
  have e: "(pf_ID f, p) \<in> set (pm_pending m)" using frame(3) by (rule map_of_SomeD)
  then have p: "waits (pm_phase m (pp_result p))" "pf_ID f = pm_id m (pp_result p)"
    "pp_kind p = pc_kind (pm_call m (pp_result p))"
    using frame(5) by (auto simp: answers_ok_def table_ok_def)
  have "pm_id m (pp_result p) \<noteq> 0"
    using p(1) frame(5) by (auto simp: answers_ok_def ids_ok_def numbered_def)
  then have "sourced es m (pp_result p) (post_answer (pp_kind p) f)"
    using frame(1,2,4) p by (auto simp: sourced_def answered_by_def)
  then show ?case by (intro origin_ok_frame [OF frame(6)]) (auto simp: post_parts)
next
  case (send i m c r s e)
  have c: "(c, r, s) \<in> set (pm_sends m)" using send(1,2) by (metis nth_mem)
  then have "sourced es m c r" using send(6) by (auto simp: origin_ok_def)
  then show ?case
    by (intro origin_ok_frame [OF send(6)]) (auto dest: in_set_takeD in_set_dropD)
next
  case (drop i m c r y e)
  show ?case by (rule origin_ok_frame [OF drop(6)]) (auto dest: in_set_takeD in_set_dropD)
qed (erule origin_ok_frame; auto simp: post_parts result_ok_simps dest: between_returned)+

section \<open>Numbers and permits\<close>

text \<open>No two calls ever get the same number, also after they have returned.\<close>

definition numbers_ok :: "postManager \<Rightarrow> bool" where
  "numbers_ok m \<longleftrightarrow>
     (\<forall>c. pm_id m c \<le> pm_nextID m \<and> (pm_id m c \<noteq> 0 \<longrightarrow> (\<forall>d. pm_id m d = pm_id m c \<longrightarrow> d = c)))"

lemma numbers_ok_frame:
  "numbers_ok m \<Longrightarrow> pm_id m' = pm_id m \<Longrightarrow> pm_nextID m' = pm_nextID m \<Longrightarrow> numbers_ok m'"
  by (simp add: numbers_ok_def)

lemma numbers_ok_moves: "moves e m m' \<Longrightarrow> pm_nextID m \<noteq> - 1 \<Longrightarrow> numbers_ok m \<Longrightarrow> numbers_ok m'"
proof (induction rule: moves.induct)
  case (number m c e)
  have "1 + pm_nextID m \<noteq> 0" using number(2) by (metis add.commute eq_neg_iff_add_eq_0)
  then have lt: "pm_nextID m < pm_nextID m + 1" by (simp add: word_less_nat_alt add.commute unatSuc)
  have new: "pm_id m d < pm_nextID m + 1" for d
    using number(3) lt by (auto simp: numbers_ok_def intro: order_le_less_trans)
  then have ne: "pm_id m d \<noteq> pm_nextID m + 1" "pm_nextID m + 1 \<noteq> pm_id m d" for d
    by (metis order_less_irrefl)+
  have uniq: "d' = d" if "pm_id m d \<noteq> 0" "pm_id m d' = pm_id m d" for d d'
    using number(3) that by (simp add: numbers_ok_def)
  let ?id = "(pm_id m)(c := pm_nextID m + 1)"
  have "?id d \<le> pm_nextID m + 1 \<and> (?id d \<noteq> 0 \<longrightarrow> (\<forall>d'. ?id d' = ?id d \<longrightarrow> d' = d))" for d
    using uniq [of d] order_less_imp_le [OF new [of d]] by (cases "d = c") (simp_all add: ne)
  then show ?case by (simp add: numbers_ok_def goto_def)
qed (erule numbers_ok_frame; simp add: post_parts)+

lemma unat_next: "unat (w + 1 :: u64) \<le> unat w + 1"
  using mod_less_eq_dividend [of "unat w + 1" "2 ^ 64"] by (simp add: unat_word_ariths)

lemma nextID_moves: "moves e m m' \<Longrightarrow> unat (pm_nextID m') \<le> unat (pm_nextID m) + 1"
proof (induction rule: moves.induct)
  case (number m c e)
  show ?case using unat_next [of "pm_nextID m"] by (simp add: goto_def)
qed (auto simp: post_parts)

fun has_permit :: "phase \<Rightarrow> bool" where
  "has_permit PIdle = False"
| "has_permit PEntered = False"
| "has_permit PAdmitted = False"
| "has_permit (PReturned r) = False"
| "has_permit _ = True"

definition in_flight :: "postManager \<Rightarrow> nat set" where
  "in_flight m = {c. has_permit (pm_phase m c)}"

definition gate_ok :: "int \<Rightarrow> postManager \<Rightarrow> bool" where
  "gate_ok l m \<longleftrightarrow> finite (in_flight m) \<and> pg_permits (pm_gate m) = card (in_flight m) \<and>
     pg_limit (pm_gate m) = l \<and> int (pg_permits (pm_gate m)) \<le> l"

lemma gate_ok_frame:
  "gate_ok l m \<Longrightarrow> in_flight m' = in_flight m \<Longrightarrow> pm_gate m' = pm_gate m \<Longrightarrow> gate_ok l m'"
  by (simp add: gate_ok_def)

lemma gate_ok_leave:
  assumes "gate_ok l m" "has_permit (pm_phase m c)" "pm_phase m' = (pm_phase m)(c := PReturned r)"
    "pm_gate m' = (pm_gate m) \<lparr> pg_permits := pg_permits (pm_gate m) - 1 \<rparr>"
  shows "gate_ok l m'"
proof -
  have "in_flight m' = in_flight m - {c}" using assms(3) by (auto simp: in_flight_def split: if_splits)
  moreover have "c \<in> in_flight m" using assms(2) by (simp add: in_flight_def)
  moreover have "int (n - 1) \<le> l" if "int n \<le> l" for n using that by arith
  ultimately show ?thesis using assms(1,4) by (auto simp: gate_ok_def card_Diff_singleton)
qed

lemma permit_phases:
  "may_give_up p \<Longrightarrow> has_permit p" "may_give_up_token p \<Longrightarrow> has_permit p"
  by (cases p; simp)+

lemma between_permit: "between p q \<Longrightarrow> has_permit p \<and> has_permit q"
  by (induction rule: between.induct) simp_all

lemma gate_ok_disconnect: "gate_ok l m \<Longrightarrow> gate_ok l (post_disconnect n x m)"
  by (erule gate_ok_frame) (simp_all add: post_disconnect_def answer_all_def in_flight_def)

lemma gate_ok_moves: "moves e m m' \<Longrightarrow> gate_ok l m \<Longrightarrow> gate_ok l m'"
proof (induction rule: moves.induct)
  case (acquire m c e)
  have "in_flight (goto c PNumbered (permits Suc m)) = insert c (in_flight m)" "c \<notin> in_flight m"
    using acquire(1) by (auto simp: in_flight_def goto_def permits_def split: if_splits)
  then show ?case using acquire by (auto simp: gate_ok_def goto_def permits_def)
next
  case (register_closed m c e x)
  then show ?case by (intro gate_ok_leave [OF register_closed(3)]) (auto simp: post_parts)
next
  case (store_closed m c n e x)
  then show ?case by (intro gate_ok_leave [OF store_closed(3)]) (auto simp: post_parts)
next
  case (given_up m c e x)
  then show ?case
    by (intro gate_ok_leave [OF given_up(2) permit_phases(1)]) (auto simp: post_parts)
next
  case (given_up_token m c e x)
  then show ?case
    by (intro gate_ok_leave [OF given_up_token(2) permit_phases(2)]) (auto simp: post_parts)
next
  case (write_failed m c n b y e x)
  have "gate_ok l (finish c (Inl (PlainError x)) (post_remove (pm_id m c) (unlock m)))"
    by (rule gate_ok_leave [OF write_failed(2), of c]) (use write_failed(1) in \<open>auto simp: post_parts\<close>)
  then show ?case by (simp add: finish_disconnect gate_ok_disconnect)
next
  case (receive m c n r e)
  then show ?case by (intro gate_ok_leave [OF receive(3), of c]) (auto simp: post_parts)
qed (erule gate_ok_frame; auto simp: post_parts in_flight_def dest: between_permit split: if_splits)+

section \<open>Runs\<close>

definition post_inv :: "int \<Rightarrow> post_event set \<Rightarrow> postManager \<Rightarrow> bool" where
  "post_inv l es m \<longleftrightarrow> token_ok m \<and> conn_ok m \<and> answers_ok m \<and> live_ok m \<and> writes_ok m \<and>
     origin_ok es m \<and> numbers_ok m \<and> gate_ok l m"

lemma post_inv_start:
  "post_inv (if l \<le> 0 then DefaultMaxConcurrentPosts else l) es (newPostManager l)"
  by (simp add: post_inv_def newPostManager_def NewPostAdmissionGate_def token_ok_def conn_ok_def
      fresh_of_def answers_ok_def ids_ok_def numbered_def table_ok_def load_ok_def load_def fits_def
      live_ok_def writes_ok_def writes_of_def origin_ok_def result_ok_def numbers_ok_def gate_ok_def
      in_flight_def DefaultMaxConcurrentPosts_def)

lemma post_inv_step:
  assumes "post_step e m = Some m'" "e \<in> es" "pm_nextID m \<noteq> - 1" "post_inv l es m"
  shows "post_inv l es m'"
  using step_moves [OF assms(1)] assms(2-4) unfolding post_inv_def
  by (metis token_ok_moves conn_ok_moves answers_ok_moves live_ok_moves writes_ok_moves origin_ok_moves
      numbers_ok_moves gate_ok_moves)

lemma post_inv_run:
  assumes "post_run evs m = Some m'" "post_inv l es m" "set evs \<subseteq> es"
    "unat (pm_nextID m) + length evs < 2 ^ 64"
  shows "post_inv l es m'"
  using assms
proof (induction evs arbitrary: m)
  case (Cons e evs)
  obtain m1 where m1: "post_step e m = Some m1" "post_run evs m1 = Some m'"
    using Cons.prems(1) by (auto split: option.splits)
  have "pm_nextID m \<noteq> - 1"
  proof
    assume "pm_nextID m = - 1"
    then have "unat (pm_nextID m) = 2 ^ 64 - 1" by (simp add: unsigned_minus_1_eq_mask mask_eq_exp_minus_1)
    then show False using Cons.prems(4) by simp
  qed
  then have "post_inv l es m1" using post_inv_step [OF m1(1)] Cons.prems(2,3) by simp
  then show ?case
    using Cons.IH [OF m1(2)] Cons.prems(3,4) nextID_moves [OF step_moves [OF m1(1)]] by simp
qed simp

lemma post_reachable:
  assumes "post_run evs (newPostManager l) = Some m" "length evs < 2 ^ 64"
  shows "post_inv (if l \<le> 0 then DefaultMaxConcurrentPosts else l) (set evs) m"
  by (rule post_inv_run [OF assms(1) post_inv_start subset_refl])
    (use assms(2) in \<open>simp add: newPostManager_def\<close>)

section \<open>Properties\<close>

lemma post_answer_kind: "post_answer k f = Inr v \<Longrightarrow> pf_Type f = k"
  by (auto simp: post_answer_def split: if_splits sum.splits)

lemma post_outcome_payload: "post_outcome t r = Inr v \<Longrightarrow> \<exists>w. r = Inr w"
  by (cases r) (simp_all add: post_outcome_def)

text \<open>
  C16: what a call returns is a plain error (of its context, of the connection,
  of closing), or it is made from a frame of channel \<^verbatim>\<open>post\<close> that a reader received and that carries
  the number of this call and of no other; a payload is only accepted from a frame of the call's kind.
\<close>

theorem posts_get_their_answer:
  assumes "post_run evs (newPostManager limit) = Some m" "length evs < 2 ^ 64"
    and "pm_phase m c = PReturned r"
  shows "(\<exists>x. r = Inl (PlainError x)) \<or>
    (\<exists>n raw f. EFrame n raw \<in> set evs \<and> post_frame_of raw = Some f \<and> pf_ID f = pm_id m c \<and>
      (\<forall>d. pm_id m d = pm_id m c \<longrightarrow> d = c) \<and>
      r = post_outcome (pc_target (pm_call m c)) (post_answer (pc_kind (pm_call m c)) f) \<and>
      (\<forall>v. r = Inr v \<longrightarrow> pf_Type f = pc_kind (pm_call m c)))"
proof -
  have inv: "origin_ok (set evs) m" "numbers_ok m"
    using post_reachable [OF assms(1,2)] by (simp_all add: post_inv_def)
  have "result_ok (set evs) m c (PReturned r)" using inv(1) assms(3) by (metis origin_ok_def)
  then consider x where "r = Inl (PlainError x)"
    | f where "answered_by (set evs) m c f"
      "r = post_outcome (pc_target (pm_call m c)) (post_answer (pc_kind (pm_call m c)) f)"
    by (auto simp: result_ok_def)
  then show ?thesis
  proof cases
    case 2
    have "pf_Type f = pc_kind (pm_call m c)" if "r = Inr v" for v
      using 2(2) that post_outcome_payload post_answer_kind by metis
    moreover have "d = c" if "pm_id m d = pm_id m c" for d
      using inv(2) 2(1) that by (simp add: numbers_ok_def answered_by_def)
    moreover obtain n raw where "EFrame n raw \<in> set evs" "post_frame_of raw = Some f" "pf_ID f = pm_id m c"
      using 2(1) by (auto simp: answered_by_def)
    ultimately show ?thesis using 2(2) by blast
  qed simp
qed

text \<open>A call of kind \<^verbatim>\<open>action\<close>, its answer, and the steps of both.\<close>

definition sample_answer :: jval where
  "sample_answer = JObj [(''channel'', JStr ''post''), (''data'', JObj [(''id'', JInt 1),
     (''response'', JObj [(''type'', JStr ''action''), (''payload'', JStr ''done'')])])]"

definition sample_call_run :: "nat \<Rightarrow> post_event list" where
  "sample_call_run c = [ECall c (PostAction JNull (Some (\<lambda>_. None))), EEnter c, EAcquire c, ENumber c,
     ERegister c, ELook c]"

definition sample_dial :: "nat \<Rightarrow> post_event list" where
  "sample_dial c = [ETake c, ELook c, EDialed c, EStore c]"

definition sample_write :: "nat \<Rightarrow> post_event list" where
  "sample_write c = [ETake c, EChecked c, EMessageAdmitted c, EWriteEnds c None, EWritten c]"

definition sample_posts :: "post_event list" where
  "sample_posts = sample_call_run 7 @ sample_dial 7 @ sample_write 7 @
     [EFrame 0 (Some sample_answer), ESend 0, EReceive 7]"

definition post_end :: "post_event list \<Rightarrow> postManager" where
  "post_end evs = (case post_run evs (newPostManager 2) of Some m \<Rightarrow> m | None \<Rightarrow> newPostManager 2)"

lemma post_end_run:
  "post_run evs (newPostManager 2) \<noteq> None \<Longrightarrow> post_run evs (newPostManager 2) = Some (post_end evs)"
  by (auto simp: post_end_def)

lemma sample_posts_end:
  "post_run sample_posts (newPostManager 2) \<noteq> None"
  "pm_phase (post_end sample_posts) 7 = PReturned (Inr (Some (JStr ''done'')))"
  "pc_kind (pm_call (post_end sample_posts) 7) = ''action''"
  by code_simp+

lemma posts_get_their_answer_witness:
  "\<exists>f :: post_frame. pf_ID f = pm_id (post_end sample_posts) 7 \<and> pf_Type f = ''action''"
proof -
  have l: "length sample_posts < 2 ^ 64"
    by (simp add: sample_posts_def sample_call_run_def sample_dial_def sample_write_def)
  from posts_get_their_answer [OF post_end_run [OF sample_posts_end(1)] l sample_posts_end(2)]
  show ?thesis by (simp add: sample_posts_end(3)) blast
qed

text \<open>
  C17: a call that waits for its answer is either in the table of pending calls, and
  then its connection is the current one, with a reader, and the client is open; or its answer is in its
  channel, or on the way there, and it returns with it by at most two steps, which nothing can block.
\<close>

theorem posts_are_answered:
  assumes "post_run evs (newPostManager limit) = Some m" "length evs < 2 ^ 64"
    and "pm_phase m c = PAwaiting n"
  shows "(c \<in> (pp_result \<circ> snd) ` set (pm_pending m) \<and> pm_conn m = Some n \<and> n \<in> set (pm_readers m) \<and>
      n \<notin> set (pm_shut m) \<and> \<not> pm_closed m) \<or>
    (\<exists>es m' r. length es \<le> 2 \<and> post_run es m = Some m' \<and> pm_phase m' c = PReturned r)"
proof -
  have inv: "conn_ok m" "answers_ok m" "live_ok m"
    using post_reachable [OF assms(1,2)] by (simp_all add: post_inv_def)
  have returns: "\<exists>m' r. post_run [EReceive c] k = Some m' \<and> pm_phase m' c = PReturned r"
    if "pm_phase k c = PAwaiting n" "pm_buffer k c = Some b" for k b
    using that by (simp add: on_receive_def post_parts)
  have "load m c = 1" using inv(2) assms(3)
    by (auto simp: answers_ok_def load_ok_def fits_def dest: spec [of _ c])
  then consider "pend_of (pm_pending m) c \<noteq> 0" | "way_of (pm_sends m) c \<noteq> 0"
    | b where "pm_buffer m c = Some b"
    by (cases "pm_buffer m c"; cases "pend_of (pm_pending m) c") (auto simp: load_def)
  then show ?thesis
  proof cases
    case 1
    then have p: "c \<in> (pp_result \<circ> snd) ` set (pm_pending m)" by (simp only: pend_of_0 not_not)
    then have "pm_conn m = Some n" using inv(3) assms(3) by (fastforce simp: live_ok_def)
    then show ?thesis using p inv(1) by (auto simp: conn_ok_def)
  next
    case 2
    then have "\<exists>e \<in> set (pm_sends m). fst e = c" by (auto simp: way_of_def filter_empty_conv)
    then obtain i r s where i: "i < length (pm_sends m)" "pm_sends m ! i = (c, r, s)"
      by (metis in_set_conv_nth prod.collapse)
    then have "pm_buffer m c = None" using answers_ok_send(1) [OF inv(2)] by blast
    with i obtain k where k: "post_step (ESend i) m = Some k" "pm_phase k c = PAwaiting n"
      "pm_buffer k c = Some r"
      using assms(3) by (simp add: on_send_def)
    with returns obtain m' x where "post_run [ESend i, EReceive c] m = Some m'" "pm_phase m' c = PReturned x"
      by fastforce
    then show ?thesis by (intro disjI2 exI [of _ "[ESend i, EReceive c]"]) auto
  next
    case 3
    with returns [OF assms(3)] show ?thesis by (intro disjI2 exI [of _ "[EReceive c]"]) auto
  qed
qed

text \<open>The connection of a waiting call fails.\<close>

definition sample_loss :: "post_event list" where
  "sample_loss = sample_call_run 7 @ sample_dial 7 @ sample_write 7 @ [EReadFails 0 ''reset'']"

lemma sample_loss_end:
  "post_run sample_loss (newPostManager 2) \<noteq> None"
  "pm_phase (post_end sample_loss) 7 = PAwaiting 0"
  "pm_conn (post_end sample_loss) = None"
  by code_simp+

lemma posts_are_answered_witness:
  "\<exists>es m' r. length es \<le> 2 \<and> post_run es (post_end sample_loss) = Some m' \<and> pm_phase m' 7 = PReturned r"
proof -
  have l: "length sample_loss < 2 ^ 64"
    by (simp add: sample_loss_def sample_call_run_def sample_dial_def sample_write_def)
  from posts_are_answered [OF post_end_run [OF sample_loss_end(1)] l sample_loss_end(2)]
  show ?thesis by (simp add: sample_loss_end(3))
qed



section \<open>A stale error\<close>

text \<open>
  A call registers itself before it has a connection. If the old connection fails in between, the
  call's channel gets the old connection's error and its entry is gone; it dials a new
  connection, writes its action there, and returns the old error at once. The answer is skipped.
\<close>

definition stale_run :: "post_event list" where
  "stale_run =
     sample_call_run 7 @ sample_dial 7 @ sample_write 7 @
     [ECall 8 (PostAction JNull (Some (\<lambda>_. None))), EEnter 8, EAcquire 8, ENumber 8, ERegister 8,
      EReadFails 0 ''reset'', ESend 1, ELook 8] @
     sample_dial 8 @ sample_write 8 @ [EReceive 8]"

lemma stale_error:
  "pm_phase (post_end stale_run) 8 = PReturned (Inl (PlainError ''reset''))"
  "map (\<lambda>w. (fst w, fst (snd w))) (pm_written (post_end stale_run)) = [(7, 0), (8, 1)]"
  "pm_conn (post_end stale_run) = Some 1"
  by code_simp+

end
