(* ===== verification/WsRun.thy ===== *)
theory WsRun
  imports Prelude
begin

text \<open>
  The life of the connection manager's goroutine and how it ends: \<^verbatim>\<open>run\<close>, \<^verbatim>\<open>waitForSubscriptions\<close>,
  \<^verbatim>\<open>dial\<close> with its watcher, the two ends of \<^verbatim>\<open>serve\<close>, \<^verbatim>\<open>waitReconnect\<close> (\<^verbatim>\<open>websocket/manager.go\<close>) and
  \<^verbatim>\<open>Client.Close\<close> (\<^verbatim>\<open>websocket/client.go\<close>). A step is what one goroutine does under one lock or
  at one channel; the registry changes beside it. Sockets are numbered in the order in which they are
  opened. What a generation sends and receives is in \<open>WsManager\<close>.
\<close>

section \<open>The goroutines\<close>

text \<open>
  Where the manager is. The flag says that \<^verbatim>\<open>waitReconnect\<close> called \<^verbatim>\<open>waitForSubscriptions\<close>: \<open>Top\<close> is
  its first test, \<open>Look\<close> its section under \<^verbatim>\<open>commitMu\<close>, \<open>Found\<close> and \<open>Absent\<close> the tests after it, \<open>Sleep\<close>
  its select. \<open>Connected\<close> is before \<^verbatim>\<open>activateConnection\<close>, \<open>Served\<close> after \<^verbatim>\<open>serve\<close> has returned; \<open>Paused\<close>
  and \<open>Resume\<close> are the select of \<^verbatim>\<open>waitReconnect\<close> and the test after it.
\<close>

datatype manager_at = Top bool | Look bool | Found bool | Absent bool | Sleep bool
  | Dialing | DialFailed | Connected nat | Serving nat | Served nat | Waiting | Paused | Resume | Stopped

text \<open>
  Where the first caller of \<^verbatim>\<open>Client.Close\<close> is: before, with the client closed, with \<^verbatim>\<open>done\<close> closed, with
  the connection taken out, with it shut, closing the subscriptions, waiting for the manager, done.
\<close>

datatype closer_at = NotClosed | Closed | DoneClosed | Taken "nat option" | SocketShut | ClosingSubs | Joining | Returned

text \<open>
  \<open>rn_watchers\<close> are goroutines of earlier dials that have not yet returned; \<open>rn_stolen\<close> records that such a
  watcher has received a wake.
\<close>

record run_state =
  rn_subs :: "nat list"
  rn_wake :: bool
  rn_cancelled :: bool
  rn_connection :: "nat option"
  rn_opened :: nat
  rn_shut :: "nat list"
  rn_manager :: manager_at
  rn_dialCancelled :: bool
  rn_watchers :: nat
  rn_stolen :: bool
  rn_closer :: closer_at
  rn_closing :: "nat list"

definition newConnectionManager :: run_state where
  "newConnectionManager =
     \<lparr> rn_subs = [], rn_wake = False, rn_cancelled = False, rn_connection = None, rn_opened = 0, rn_shut = [],
       rn_manager = Top False, rn_dialCancelled = False, rn_watchers = 0, rn_stolen = False,
       rn_closer = NotClosed, rn_closing = [] \<rparr>"

text \<open>How far the closer is; \<^verbatim>\<open>done\<close> is closed from the second stage on.\<close>

primrec stage :: "closer_at \<Rightarrow> nat" where
  "stage NotClosed = 0" | "stage Closed = 1" | "stage DoneClosed = 2" | "stage (Taken c) = 3"
| "stage SocketShut = 4" | "stage ClosingSubs = 5" | "stage Joining = 6" | "stage Returned = 7"

definition isClosed :: "run_state \<Rightarrow> bool" where
  "isClosed s = (2 \<le> stage (rn_closer s))"

text \<open>\<open>notify\<close> fills the buffer of the wake channel unless it is full.\<close>

definition wake_up :: "run_state \<Rightarrow> run_state" where
  "wake_up s = s\<lparr>rn_wake := True\<rparr>"

definition move :: "manager_at \<Rightarrow> run_state \<Rightarrow> run_state" where
  "move p s = s\<lparr>rn_manager := p\<rparr>"

definition shut :: "nat \<Rightarrow> run_state \<Rightarrow> run_state" where
  "shut c s = s\<lparr>rn_shut := rn_shut s @ [c]\<rparr>"

section \<open>The registry\<close>

datatype registry_op = Register nat | Unregister nat

text \<open>Both publish the change and the wake in one section; nothing is registered with a closed client.\<close>

fun registry_change :: "registry_op \<Rightarrow> run_state \<Rightarrow> run_state option" where
  "registry_change (Register k) s =
     (if rn_closer s = NotClosed \<and> k \<notin> set (rn_subs s)
      then Some (wake_up (s\<lparr>rn_subs := rn_subs s @ [k]\<rparr>)) else None)"
| "registry_change (Unregister k) s =
     (if k \<in> set (rn_subs s) then Some (wake_up (s\<lparr>rn_subs := removeAll k (rn_subs s)\<rparr>)) else None)"

section \<open>Waiting for subscriptions\<close>

datatype wait_op = Check | TakeStock | Go | SleepDone | SleepWake

fun waitForSubscriptions :: "wait_op \<Rightarrow> run_state \<Rightarrow> run_state option" where
  "waitForSubscriptions Check s =
     (case rn_manager s of Top i \<Rightarrow> Some (move (if isClosed s then Stopped else Look i) s) | _ \<Rightarrow> None)"
| "waitForSubscriptions TakeStock s =
     (case rn_manager s of
        Look i \<Rightarrow> Some (if rn_subs s \<noteq> [] then move (Found i) (s\<lparr>rn_wake := False\<rparr>) else move (Absent i) s)
      | _ \<Rightarrow> None)"
| "waitForSubscriptions Go s =
     (case rn_manager s of
        Found i \<Rightarrow> Some (if isClosed s then move Stopped s
           else if i then move (Top False) s else move Dialing (s\<lparr>rn_dialCancelled := False\<rparr>))
      | Absent i \<Rightarrow> Some (move (if isClosed s then Stopped else Sleep i) s)
      | _ \<Rightarrow> None)"
| "waitForSubscriptions SleepDone s =
     (case rn_manager s of Sleep i \<Rightarrow> if isClosed s then Some (move Stopped s) else None | _ \<Rightarrow> None)"
| "waitForSubscriptions SleepWake s =
     (case rn_manager s of Sleep i \<Rightarrow> if rn_wake s then Some (move (Top i) (s\<lparr>rn_wake := False\<rparr>)) else None
      | _ \<Rightarrow> None)"

section \<open>Dialing\<close>

datatype dial_op = WatchWake | WatchDone | DialOk | DialError | StaleWake | StaleExit

text \<open>
  The watcher of a dial receives wakes and cancels it when no subscription is left or the manager is closed.
  The dial's return cancels the watcher's context but does not wait for it: the watcher may still
  receive from the wake channel before it sees that.
\<close>

fun dial :: "dial_op \<Rightarrow> run_state \<Rightarrow> run_state option" where
  "dial WatchWake s =
     (if rn_manager s = Dialing \<and> \<not> rn_dialCancelled s \<and> rn_wake s
      then Some (s\<lparr>rn_wake := False, rn_dialCancelled := (rn_subs s = [])\<rparr>) else None)"
| "dial WatchDone s =
     (if rn_manager s = Dialing \<and> \<not> rn_dialCancelled s \<and> isClosed s
      then Some (s\<lparr>rn_dialCancelled := True\<rparr>) else None)"
| "dial DialOk s =
     (if rn_manager s = Dialing
      then Some (move (Connected (rn_opened s)) (s\<lparr>rn_opened := rn_opened s + 1,
        rn_watchers := rn_watchers s + (if rn_dialCancelled s then 0 else 1)\<rparr>)) else None)"
| "dial DialError s =
     (if rn_manager s = Dialing
      then Some (move DialFailed (s\<lparr>rn_watchers := rn_watchers s + (if rn_dialCancelled s then 0 else 1)\<rparr>))
      else None)"
| "dial StaleWake s =
     (if 0 < rn_watchers s \<and> rn_wake s
      then Some (s\<lparr>rn_wake := False, rn_stolen := True,
        rn_watchers := (if rn_subs s = [] then rn_watchers s - 1 else rn_watchers s)\<rparr>) else None)"
| "dial StaleExit s =
     (if 0 < rn_watchers s then Some (s\<lparr>rn_watchers := rn_watchers s - 1\<rparr>) else None)"

section \<open>A generation and the pause after it\<close>

definition activateConnection :: "nat \<Rightarrow> run_state \<Rightarrow> bool \<times> run_state" where
  "activateConnection c s =
     (if isClosed s then (False, shut c s) else (True, s\<lparr>rn_connection := Some c\<rparr>))"

definition closeGenerationConnection :: "nat \<Rightarrow> run_state \<Rightarrow> run_state" where
  "closeGenerationConnection c s =
     shut c (if rn_connection s = Some c then s\<lparr>rn_connection := None\<rparr> else s)"

datatype serve_op = Activate | TakeWake | EndGeneration

text \<open>\<open>EndGeneration\<close> is every return of the loop, or of the failed first deadline.\<close>

fun serve_ends :: "serve_op \<Rightarrow> run_state \<Rightarrow> run_state option" where
  "serve_ends Activate s =
     (case rn_manager s of
        Connected c \<Rightarrow> (let (ok, s') = activateConnection c s in Some (move (if ok then Serving c else Served c) s'))
      | _ \<Rightarrow> None)"
| "serve_ends TakeWake s =
     (case rn_manager s of Serving c \<Rightarrow> if rn_wake s then Some (s\<lparr>rn_wake := False\<rparr>) else None | _ \<Rightarrow> None)"
| "serve_ends EndGeneration s =
     (case rn_manager s of Serving c \<Rightarrow> Some (move (Served c) (closeGenerationConnection c s)) | _ \<Rightarrow> None)"

datatype turn_op = Report | EndTurn | WaitEntry | PauseDone | PauseWake | PauseTimer | Recheck

fun run_turn :: "turn_op \<Rightarrow> run_state \<Rightarrow> run_state option" where
  "run_turn Report s = (if rn_manager s = DialFailed then Some (move Waiting s) else None)"
| "run_turn EndTurn s =
     (case rn_manager s of Served c \<Rightarrow> Some (move Waiting (shut c s)) | _ \<Rightarrow> None)"
| "run_turn WaitEntry s =
     (if rn_manager s = Waiting
      then Some (move (if isClosed s then Stopped else if rn_subs s = [] then Top True else Paused) s) else None)"
| "run_turn PauseDone s =
     (if rn_manager s = Paused \<and> isClosed s then Some (move Resume s) else None)"
| "run_turn PauseWake s =
     (if rn_manager s = Paused \<and> rn_wake s then Some (move Resume (s\<lparr>rn_wake := False\<rparr>)) else None)"
| "run_turn PauseTimer s = (if rn_manager s = Paused then Some (move Resume s) else None)"
| "run_turn Recheck s =
     (if rn_manager s = Resume then Some (move (if isClosed s then Stopped else Top False) s) else None)"

section \<open>Closing the client\<close>

datatype close_op = CloseClient | CloseDone | TakeConnection | ShutSocket | CancelContext | CloseSub | AllSubs | Join

text \<open>
  The steps of \<^verbatim>\<open>Client.Close\<close> and of \<^verbatim>\<open>beginClose\<close> within it. A subscription that was closed
  before is not removed again.
\<close>

fun client_close :: "close_op \<Rightarrow> run_state \<Rightarrow> run_state option" where
  "client_close CloseClient s =
     (if rn_closer s = NotClosed then Some (s\<lparr>rn_closer := Closed, rn_closing := rn_subs s\<rparr>) else None)"
| "client_close CloseDone s = (if rn_closer s = Closed then Some (s\<lparr>rn_closer := DoneClosed\<rparr>) else None)"
| "client_close TakeConnection s =
     (if rn_closer s = DoneClosed
      then Some (s\<lparr>rn_closer := Taken (rn_connection s), rn_connection := None\<rparr>) else None)"
| "client_close ShutSocket s =
     (case rn_closer s of
        Taken c \<Rightarrow> Some ((case c of None \<Rightarrow> s | Some k \<Rightarrow> shut k s)\<lparr>rn_closer := SocketShut\<rparr>)
      | _ \<Rightarrow> None)"
| "client_close CancelContext s =
     (if rn_closer s = SocketShut then Some (s\<lparr>rn_closer := ClosingSubs, rn_cancelled := True\<rparr>) else None)"
| "client_close CloseSub s =
     (case (rn_closer s, rn_closing s) of
        (ClosingSubs, k # ks) \<Rightarrow> Some (let s' = s\<lparr>rn_closing := ks\<rparr> in
           case registry_change (Unregister k) s' of None \<Rightarrow> s' | Some s'' \<Rightarrow> s'')
      | _ \<Rightarrow> None)"
| "client_close AllSubs s =
     (if rn_closer s = ClosingSubs \<and> rn_closing s = [] then Some (s\<lparr>rn_closer := Joining\<rparr>) else None)"
| "client_close Join s =
     (if rn_closer s = Joining \<and> rn_manager s = Stopped then Some (s\<lparr>rn_closer := Returned\<rparr>) else None)"

text \<open>\<^verbatim>\<open>beginClose\<close> is the first half of it, with the shutting of the current socket.\<close>

definition closeActiveConnection :: "close_op list" where
  "closeActiveConnection = [TakeConnection, ShutSocket]"

definition beginClose :: "close_op list" where
  "beginClose = [CloseDone] @ closeActiveConnection @ [CancelContext]"

definition manager_close :: "close_op list" where
  "manager_close = beginClose @ [Join]"

section \<open>Runs\<close>

datatype run_op = Registry registry_op | Wait wait_op | Dial dial_op | Serve serve_op | Turn turn_op | Close close_op

primrec run_step :: "run_op \<Rightarrow> run_state \<Rightarrow> run_state option" where
  "run_step (Registry x) = registry_change x"
| "run_step (Wait x) = waitForSubscriptions x"
| "run_step (Dial x) = dial x"
| "run_step (Serve x) = serve_ends x"
| "run_step (Turn x) = run_turn x"
| "run_step (Close x) = client_close x"

fun run_steps :: "run_op list \<Rightarrow> run_state \<Rightarrow> run_state option" where
  "run_steps [] s = Some s"
| "run_steps (x # xs) s = (case run_step x s of None \<Rightarrow> None | Some s' \<Rightarrow> run_steps xs s')"

definition manager_reached :: "run_state \<Rightarrow> bool" where
  "manager_reached s = (\<exists>xs. run_steps xs newConnectionManager = Some s)"

lemma run_steps_append:
  "run_steps (xs @ ys) s = (case run_steps xs s of None \<Rightarrow> None | Some s' \<Rightarrow> run_steps ys s')"
  by (induction xs arbitrary: s) (auto split: option.splits)

lemma manager_reached_new: "manager_reached newConnectionManager"
  unfolding manager_reached_def by (rule exI [of _ "[]"]) simp

lemma manager_reached_step: "manager_reached s \<Longrightarrow> run_step x s = Some s' \<Longrightarrow> manager_reached s'"
  unfolding manager_reached_def by (elim exE) (rule_tac x = "xs @ [x]" in exI, simp add: run_steps_append)

lemma manager_reached_steps: "manager_reached s \<Longrightarrow> run_steps xs s = Some s' \<Longrightarrow> manager_reached s'"
  by (induction xs arbitrary: s) (auto split: option.splits dest: manager_reached_step)

lemma reached_induct [consumes 1, case_names new step]:
  assumes "manager_reached s" "P newConnectionManager"
    and "\<And>s x s'. manager_reached s \<Longrightarrow> P s \<Longrightarrow> run_step x s = Some s' \<Longrightarrow> P s'"
  shows "P s"
proof -
  obtain xs where "run_steps xs newConnectionManager = Some s"
    using assms(1) unfolding manager_reached_def by blast
  then show ?thesis
  proof (induction xs arbitrary: s rule: rev_induct)
    case Nil
    then show ?case using assms(2) by simp
  next
    case (snoc x xs)
    then obtain s1 where s1: "run_steps xs newConnectionManager = Some s1" "run_step x s1 = Some s"
      by (auto simp: run_steps_append split: option.splits)
    then show ?case using snoc.IH assms(3) unfolding manager_reached_def by blast
  qed
qed

text \<open>Alone, \<^verbatim>\<open>beginClose\<close> shuts the current socket and cancels the context.\<close>

lemma beginClose_alone:
  assumes "rn_closer s = Closed"
  shows "\<exists>s'. run_steps (map Close beginClose) s = Some s' \<and> rn_closer s' = ClosingSubs \<and> rn_cancelled s' \<and>
    rn_connection s' = None \<and> set (rn_shut s') = set (rn_shut s) \<union> set_option (rn_connection s)"
  using assms by (cases "rn_connection s") (auto simp: beginClose_def closeActiveConnection_def shut_def)

section \<open>Invariants\<close>

text \<open>Every socket is shut or in the manager's hands; the current one is the one that is served.\<close>

definition sockets_held :: "run_state \<Rightarrow> bool" where
  "sockets_held s =
     (\<forall>c < rn_opened s. c \<in> set (rn_shut s) \<or> rn_manager s = Connected c \<or> rn_manager s = Serving c)"

definition current_served :: "run_state \<Rightarrow> bool" where
  "current_served s = (\<forall>c. rn_connection s = Some c \<longrightarrow> rn_manager s = Serving c)"

text \<open>What the closer has already achieved.\<close>

definition connection_out :: "run_state \<Rightarrow> bool" where
  "connection_out s = (3 \<le> stage (rn_closer s) \<longrightarrow> rn_connection s = None)"

definition subs_closing :: "run_state \<Rightarrow> bool" where
  "subs_closing s = (1 \<le> stage (rn_closer s) \<longrightarrow> set (rn_subs s) \<subseteq> set (rn_closing s))"

definition subs_closed :: "run_state \<Rightarrow> bool" where
  "subs_closed s = (6 \<le> stage (rn_closer s) \<longrightarrow> rn_closing s = [])"

definition context_cancelled :: "run_state \<Rightarrow> bool" where
  "context_cancelled s = (5 \<le> stage (rn_closer s) \<longrightarrow> rn_cancelled s)"

definition manager_joined :: "run_state \<Rightarrow> bool" where
  "manager_joined s = (7 \<le> stage (rn_closer s) \<longrightarrow> rn_manager s = Stopped)"

text \<open>A wake is there when the manager goes to sleep or sleeps beside a registered subscription.\<close>

primrec asleep :: "manager_at \<Rightarrow> bool" where
  "asleep (Top i) = False" | "asleep (Look i) = False" | "asleep (Found i) = False"
| "asleep (Absent i) = True" | "asleep (Sleep i) = True" | "asleep Dialing = False"
| "asleep DialFailed = False" | "asleep (Connected c) = False" | "asleep (Serving c) = False"
| "asleep (Served c) = False" | "asleep Waiting = False" | "asleep Paused = False"
| "asleep Resume = False" | "asleep Stopped = False"

definition wake_ok :: "run_state \<Rightarrow> bool" where
  "wake_ok s = (\<not> rn_stolen s \<longrightarrow> asleep (rn_manager s) \<longrightarrow> rn_subs s \<noteq> [] \<longrightarrow> rn_wake s)"

lemmas run_state_defs = wake_up_def move_def shut_def isClosed_def activateConnection_def
  closeGenerationConnection_def

text \<open>When a step is possible, and what it does.\<close>

lemma wait_iff:
  "waitForSubscriptions Check s = Some s' \<longleftrightarrow> (\<exists>i. rn_manager s = Top i \<and>
     (isClosed s \<and> s' = move Stopped s \<or> \<not> isClosed s \<and> s' = move (Look i) s))"
  "waitForSubscriptions TakeStock s = Some s' \<longleftrightarrow> (\<exists>i. rn_manager s = Look i \<and>
     (rn_subs s \<noteq> [] \<and> s' = move (Found i) (s\<lparr>rn_wake := False\<rparr>) \<or> rn_subs s = [] \<and> s' = move (Absent i) s))"
  "waitForSubscriptions Go s = Some s' \<longleftrightarrow>
     (\<exists>i. rn_manager s \<in> {Found i, Absent i} \<and> isClosed s \<and> s' = move Stopped s) \<or>
     \<not> isClosed s \<and> (rn_manager s = Found True \<and> s' = move (Top False) s \<or>
       rn_manager s = Found False \<and> s' = move Dialing (s\<lparr>rn_dialCancelled := False\<rparr>) \<or>
       (\<exists>i. rn_manager s = Absent i \<and> s' = move (Sleep i) s))"
  "waitForSubscriptions SleepDone s = Some s' \<longleftrightarrow>
     (\<exists>i. rn_manager s = Sleep i \<and> isClosed s \<and> s' = move Stopped s)"
  "waitForSubscriptions SleepWake s = Some s' \<longleftrightarrow>
     (\<exists>i. rn_manager s = Sleep i \<and> rn_wake s \<and> s' = move (Top i) (s\<lparr>rn_wake := False\<rparr>))"
  by (cases "rn_manager s"; auto)+

lemma serve_iff:
  "serve_ends Activate s = Some s' \<longleftrightarrow> (\<exists>c. rn_manager s = Connected c \<and>
     (isClosed s \<and> s' = move (Served c) (shut c s) \<or>
      \<not> isClosed s \<and> s' = move (Serving c) (s\<lparr>rn_connection := Some c\<rparr>)))"
  "serve_ends TakeWake s = Some s' \<longleftrightarrow>
     (\<exists>c. rn_manager s = Serving c) \<and> rn_wake s \<and> s' = s\<lparr>rn_wake := False\<rparr>"
  "serve_ends EndGeneration s = Some s' \<longleftrightarrow>
     (\<exists>c. rn_manager s = Serving c \<and> s' = move (Served c) (closeGenerationConnection c s))"
  by (cases "rn_manager s"; auto simp: activateConnection_def)+

lemma turn_iff:
  "run_turn EndTurn s = Some s' \<longleftrightarrow> (\<exists>c. rn_manager s = Served c \<and> s' = move Waiting (shut c s))"
  by (cases "rn_manager s"; auto)

lemma close_iff:
  "client_close ShutSocket s = Some s' \<longleftrightarrow> (\<exists>c. rn_closer s = Taken c \<and>
     s' = (case c of None \<Rightarrow> s | Some k \<Rightarrow> shut k s)\<lparr>rn_closer := SocketShut\<rparr>)"
  "client_close CloseSub s = Some s' \<longleftrightarrow> (\<exists>k ks. rn_closer s = ClosingSubs \<and> rn_closing s = k # ks \<and>
     (k \<in> set (rn_subs s) \<and> s' = s\<lparr>rn_closing := ks, rn_wake := True, rn_subs := removeAll k (rn_subs s)\<rparr> \<or>
      k \<notin> set (rn_subs s) \<and> s' = s\<lparr>rn_closing := ks\<rparr>))"
  by (cases "rn_closer s"; cases "rn_closing s"; auto simp: Let_def wake_up_def)+

lemmas step_iffs = wait_iff serve_iff turn_iff close_iff

lemmas step_equations = waitForSubscriptions.simps serve_ends.simps run_turn.simps(2) client_close.simps(4,6)

lemmas [simp del] = waitForSubscriptions.simps serve_ends.simps run_turn.simps(2) client_close.simps(4,6)

lemma sockets_held_kept: "run_step x s = Some s' \<Longrightarrow> sockets_held s \<Longrightarrow> sockets_held s'"
  by (cases x; rename_tac y; case_tac y)
    (auto simp: sockets_held_def less_Suc_eq run_state_defs step_iffs split: if_split_asm option.split_asm)

lemma current_served_kept: "run_step x s = Some s' \<Longrightarrow> current_served s \<Longrightarrow> current_served s'"
  by (cases x; rename_tac y; case_tac y)
    (auto simp: current_served_def run_state_defs step_iffs split: if_split_asm option.split_asm)

lemma connection_out_kept: "run_step x s = Some s' \<Longrightarrow> connection_out s \<Longrightarrow> connection_out s'"
  by (cases x; rename_tac y; case_tac y)
    (auto simp: connection_out_def run_state_defs step_iffs split: if_split_asm option.split_asm)

lemma subs_closing_kept: "run_step x s = Some s' \<Longrightarrow> subs_closing s \<Longrightarrow> subs_closing s'"
  by (cases x; rename_tac y; case_tac y)
    (auto simp: subs_closing_def run_state_defs step_iffs split: if_split_asm option.split_asm)

lemma subs_closed_kept: "run_step x s = Some s' \<Longrightarrow> subs_closed s \<Longrightarrow> subs_closed s'"
  by (cases x; rename_tac y; case_tac y)
    (auto simp: subs_closed_def run_state_defs step_iffs split: if_split_asm option.split_asm)

lemma context_cancelled_kept: "run_step x s = Some s' \<Longrightarrow> context_cancelled s \<Longrightarrow> context_cancelled s'"
  by (cases x; rename_tac y; case_tac y)
    (auto simp: context_cancelled_def run_state_defs step_iffs split: if_split_asm option.split_asm)

lemma manager_joined_kept: "run_step x s = Some s' \<Longrightarrow> manager_joined s \<Longrightarrow> manager_joined s'"
  by (cases x; rename_tac y; case_tac y)
    (auto simp: manager_joined_def run_state_defs step_iffs split: if_split_asm option.split_asm)

lemma wake_ok_kept: "run_step x s = Some s' \<Longrightarrow> wake_ok s \<Longrightarrow> wake_ok s'"
  by (cases x; rename_tac y; case_tac y)
    (auto simp: wake_ok_def run_state_defs step_iffs split: if_split_asm option.split_asm)

definition run_ok :: "run_state \<Rightarrow> bool" where
  "run_ok s = (sockets_held s \<and> current_served s \<and> connection_out s \<and> subs_closing s \<and> subs_closed s \<and> context_cancelled s \<and> manager_joined s \<and> wake_ok s)"

lemmas clauses_kept = sockets_held_kept current_served_kept connection_out_kept subs_closing_kept subs_closed_kept context_cancelled_kept manager_joined_kept wake_ok_kept

lemma reached_ok: "manager_reached s \<Longrightarrow> run_ok s"
proof (induction rule: reached_induct)
  case new
  show ?case
    by (simp add: run_ok_def newConnectionManager_def sockets_held_def current_served_def connection_out_def subs_closing_def subs_closed_def context_cancelled_def manager_joined_def wake_ok_def)
next
  case (step s x s')
  then show ?case unfolding run_ok_def by (blast intro: clauses_kept)
qed

section \<open>Closing ends\<close>

primrec manager_rank :: "manager_at \<Rightarrow> nat" where
  "manager_rank (Top i) = 1" | "manager_rank (Look i) = 3" | "manager_rank (Found i) = 2"
| "manager_rank (Absent i) = 2" | "manager_rank (Sleep i) = 2" | "manager_rank Dialing = 10"
| "manager_rank DialFailed = 4" | "manager_rank (Connected c) = 6" | "manager_rank (Serving c) = 5"
| "manager_rank (Served c) = 4" | "manager_rank Waiting = 3" | "manager_rank Paused = 3"
| "manager_rank Resume = 2" | "manager_rank Stopped = 0"

definition steps_left :: "run_state \<Rightarrow> nat" where
  "steps_left s = manager_rank (rn_manager s) + (7 - stage (rn_closer s)) + 2 * length (rn_closing s) +
     2 * length (rn_subs s) + 2 * rn_watchers s + (if rn_wake s then 1 else 0) +
     (if rn_dialCancelled s then 0 else 1)"

lemma length_removeAll_member: "k \<in> set xs \<Longrightarrow> Suc (2 * length (removeAll k xs)) < 2 * length xs"
  using length_filter_less [of k xs "\<lambda>x. k \<noteq> x"] by (simp add: removeAll_filter_not_eq)

lemma close_descends:
  assumes "isClosed s" "client_close y s = Some s'"
  shows "isClosed s' \<and> steps_left s' < steps_left s"
proof (cases y)
  case ShutSocket
  then obtain c where "rn_closer s = Taken c"
    "s' = (case c of None \<Rightarrow> s | Some k \<Rightarrow> shut k s)\<lparr>rn_closer := SocketShut\<rparr>"
    using assms(2) by (auto simp: step_iffs)
  then show ?thesis by (cases c) (simp_all add: steps_left_def run_state_defs)
next
  case CloseSub
  then obtain k ks where k: "rn_closer s = ClosingSubs" "rn_closing s = k # ks" and
    s': "k \<in> set (rn_subs s) \<and> s' = s\<lparr>rn_closing := ks, rn_wake := True, rn_subs := removeAll k (rn_subs s)\<rparr> \<or>
      k \<notin> set (rn_subs s) \<and> s' = s\<lparr>rn_closing := ks\<rparr>"
    using assms(2) by (auto simp: step_iffs)
  from s' show ?thesis
  proof
    assume "k \<in> set (rn_subs s) \<and> s' = s\<lparr>rn_closing := ks, rn_wake := True, rn_subs := removeAll k (rn_subs s)\<rparr>"
    then show ?thesis using k length_removeAll_member [of k "rn_subs s"] by (simp add: steps_left_def isClosed_def)
  next
    assume "k \<notin> set (rn_subs s) \<and> s' = s\<lparr>rn_closing := ks\<rparr>"
    then show ?thesis using k by (simp add: steps_left_def isClosed_def)
  qed
qed (use assms in \<open>auto simp: steps_left_def isClosed_def split: if_split_asm\<close>)

lemma step_descends:
  assumes "isClosed s" "run_step x s = Some s'"
  shows "isClosed s' \<and> steps_left s' < steps_left s"
proof (cases x)
  case (Registry y)
  then show ?thesis
    using assms by (cases y) (auto simp: steps_left_def run_state_defs split: if_split_asm
      dest!: length_removeAll_member)
next
  case (Wait y)
  then show ?thesis
    using assms by (cases y) (auto simp: steps_left_def run_state_defs step_iffs split: if_split_asm)
next
  case (Dial y)
  then show ?thesis
    using assms by (cases y) (auto simp: steps_left_def run_state_defs step_iffs split: if_split_asm)
next
  case (Serve y)
  then show ?thesis
    using assms by (cases y) (auto simp: steps_left_def run_state_defs step_iffs split: if_split_asm)
next
  case (Turn y)
  then show ?thesis
    using assms by (cases y) (auto simp: steps_left_def run_state_defs step_iffs split: if_split_asm)
next
  case (Close y)
  then show ?thesis using assms close_descends by simp
qed

text \<open>The steps that the manager, its dialer and the closer take by themselves.\<close>

primrec own_step :: "run_op \<Rightarrow> bool" where
  "own_step (Registry y) = False" | "own_step (Wait y) = True"
| "own_step (Dial y) = (y = DialOk \<or> y = DialError)" | "own_step (Serve y) = True"
| "own_step (Turn y) = True" | "own_step (Close y) = True"

definition goes_on :: "run_state \<Rightarrow> bool" where
  "goes_on s = (\<exists>x s'. own_step x \<and> run_step x s = Some s')"

lemma goes_onI: "own_step x \<Longrightarrow> run_step x s = Some s' \<Longrightarrow> goes_on s"
  by (auto simp: goes_on_def)

lemma manager_goes_on:
  assumes "isClosed s" "rn_manager s \<noteq> Stopped"
  shows "goes_on s"
proof (cases "rn_manager s")
  case (Top i) then show ?thesis using assms by (intro goes_onI [of "Wait Check"]) (simp_all add: step_equations)
next
  case (Look i) then show ?thesis by (intro goes_onI [of "Wait TakeStock"]) (simp_all add: step_equations)
next
  case (Found i) then show ?thesis using assms by (intro goes_onI [of "Wait Go"]) (simp_all add: step_equations)
next
  case (Absent i) then show ?thesis using assms by (intro goes_onI [of "Wait Go"]) (simp_all add: step_equations)
next
  case (Sleep i) then show ?thesis using assms by (intro goes_onI [of "Wait SleepDone"]) (simp_all add: step_equations)
next
  case Dialing then show ?thesis by (intro goes_onI [of "Dial DialError"]) simp_all
next
  case DialFailed then show ?thesis by (intro goes_onI [of "Turn Report"]) simp_all
next
  case (Connected c) then show ?thesis using assms by (intro goes_onI [of "Serve Activate"]) (simp_all add: step_equations activateConnection_def)
next
  case (Serving c) then show ?thesis by (intro goes_onI [of "Serve EndGeneration"]) (simp_all add: step_equations)
next
  case (Served c) then show ?thesis by (intro goes_onI [of "Turn EndTurn"]) (simp_all add: step_equations)
next
  case Waiting then show ?thesis by (intro goes_onI [of "Turn WaitEntry"]) simp_all
next
  case Paused then show ?thesis by (intro goes_onI [of "Turn PauseTimer"]) simp_all
next
  case Resume then show ?thesis by (intro goes_onI [of "Turn Recheck"]) simp_all
qed (use assms in simp)

lemma closer_goes_on:
  assumes "1 \<le> stage (rn_closer s)" "rn_closer s \<noteq> Joining" "rn_closer s \<noteq> Returned"
  shows "goes_on s"
proof (cases "rn_closer s")
  case Closed then show ?thesis by (intro goes_onI [of "Close CloseDone"]) simp_all
next
  case DoneClosed then show ?thesis by (intro goes_onI [of "Close TakeConnection"]) simp_all
next
  case (Taken c) then show ?thesis by (intro goes_onI [of "Close ShutSocket"]) (simp_all add: step_equations)
next
  case SocketShut then show ?thesis by (intro goes_onI [of "Close CancelContext"]) simp_all
next
  case ClosingSubs
  then show ?thesis
  proof (cases "rn_closing s")
    case Nil then show ?thesis using ClosingSubs by (intro goes_onI [of "Close AllSubs"]) simp_all
  next
    case (Cons k ks)
    then show ?thesis
      using ClosingSubs by (cases "k \<in> set (rn_subs s)") (auto intro!: goes_onI [of "Close CloseSub"] simp: step_iffs)
  qed
qed (use assms in simp_all)

lemma close_goes_on:
  assumes "isClosed s" "rn_closer s \<noteq> Returned"
  shows "goes_on s"
proof (cases "rn_closer s = Joining \<and> rn_manager s = Stopped")
  case True
  then show ?thesis by (intro goes_onI [of "Close Join"]) simp_all
next
  case False
  then show ?thesis using assms manager_goes_on closer_goes_on by (auto simp: isClosed_def)
qed

lemma close_completes:
  assumes "isClosed s"
  shows "\<exists>xs s'. list_all own_step xs \<and> run_steps xs s = Some s' \<and> rn_closer s' = Returned"
  using assms
proof (induction "steps_left s" arbitrary: s rule: less_induct)
  case less
  show ?case
  proof (cases "rn_closer s = Returned")
    case True
    then show ?thesis by (intro exI [of _ "[]"]) simp
  next
    case False
    then obtain x s1 where x: "own_step x" "run_step x s = Some s1"
      using close_goes_on less.prems unfolding goes_on_def by blast
    then obtain xs s' where "list_all own_step xs" "run_steps xs s1 = Some s'" "rn_closer s' = Returned"
      using less.hyps step_descends [OF less.prems x(2)] by blast
    then show ?thesis using x by (intro exI [of _ "x # xs"]) simp
  qed
qed

lemma close_bounded: "isClosed s \<Longrightarrow> run_steps xs s = Some s' \<Longrightarrow> length xs + steps_left s' \<le> steps_left s"
proof (induction xs arbitrary: s)
  case (Cons x xs)
  then obtain s1 where s1: "run_step x s = Some s1" "run_steps xs s1 = Some s'" by (auto split: option.splits)
  then show ?case using Cons.IH [OF _ s1(2)] step_descends [OF Cons.prems(1) s1(1)] by simp
qed simp

lemma returned_stays:
  "manager_reached s \<Longrightarrow> rn_closer s = Returned \<Longrightarrow> run_steps xs s = Some s' \<Longrightarrow>
    rn_closer s' = Returned \<and> rn_opened s' = rn_opened s"
proof (induction xs arbitrary: s)
  case (Cons x xs)
  then obtain s1 where s1: "run_step x s = Some s1" "run_steps xs s1 = Some s'" by (auto split: option.splits)
  have "rn_manager s = Stopped"
    using reached_ok [OF Cons.prems(1)] Cons.prems(2) by (simp add: run_ok_def manager_joined_def)
  then have "rn_closer s1 = Returned \<and> rn_opened s1 = rn_opened s"
    using s1(1) Cons.prems(2)
    by (cases x; rename_tac y; case_tac y) (auto simp: step_iffs run_state_defs split: if_split_asm)
  then show ?case using Cons.IH [OF manager_reached_step [OF Cons.prems(1) s1(1)] _ s1(2)] by simp
qed simp

lemma returned_clean:
  assumes "manager_reached s" "rn_closer s = Returned"
  shows "rn_manager s = Stopped \<and> rn_connection s = None \<and> rn_subs s = [] \<and> rn_cancelled s \<and>
    (\<forall>c < rn_opened s. c \<in> set (rn_shut s))"
  using reached_ok [OF assms(1)] assms(2)
  by (auto simp: run_ok_def sockets_held_def connection_out_def subs_closing_def subs_closed_def
      context_cancelled_def manager_joined_def)

text \<open>
  C5: once \<^verbatim>\<open>Client.Close\<close> has closed the done channel, whatever the manager, its
  dialer, the watchers and other goroutines do, at most \<open>steps_left\<close> steps follow, and until the call
  returns the manager or the closer can take one by itself, also with a dial in progress, with a generation that is
  being served or with the manager asleep. When it returns the manager has stopped, every socket that was
  ever opened is shut, also one whose dial ended after the close began, no subscription is left,
  the context is cancelled, and no socket is opened afterwards.
\<close>

theorem client_close_ends:
  assumes "manager_reached s" "isClosed s"
  shows "(\<forall>xs s'. run_steps xs s = Some s' \<longrightarrow> length xs \<le> steps_left s \<and>
      (rn_closer s' \<noteq> Returned \<longrightarrow> (\<exists>x s''. own_step x \<and> run_step x s' = Some s'')) \<and>
      (rn_closer s' = Returned \<longrightarrow> rn_manager s' = Stopped \<and> rn_connection s' = None \<and> rn_subs s' = [] \<and>
         rn_cancelled s' \<and> (\<forall>c < rn_opened s'. c \<in> set (rn_shut s')) \<and>
         (\<forall>ys t. run_steps ys s' = Some t \<longrightarrow> rn_opened t = rn_opened s'))) \<and>
    (\<exists>xs s'. list_all own_step xs \<and> run_steps xs s = Some s' \<and> rn_closer s' = Returned)"
proof (intro conjI allI impI)
  fix xs s' assume run: "run_steps xs s = Some s'"
  show "length xs \<le> steps_left s" using close_bounded [OF assms(2) run] by simp
  have closed: "isClosed s'"
    using assms(2) run
  proof (induction xs arbitrary: s)
    case (Cons x xs)
    then show ?case using step_descends by (auto split: option.splits)
  qed simp
  have reached: "manager_reached s'" by (rule manager_reached_steps [OF assms(1) run])
  show "\<exists>x s''. own_step x \<and> run_step x s' = Some s''" if "rn_closer s' \<noteq> Returned"
    using close_goes_on [OF closed that] by (simp add: goes_on_def)
  assume r: "rn_closer s' = Returned"
  note clean = returned_clean [OF reached r]
  show "rn_manager s' = Stopped" "rn_connection s' = None" "rn_subs s' = []" "rn_cancelled s'"
    using clean by simp_all
  show "c \<in> set (rn_shut s')" if "c < rn_opened s'" for c using clean that by simp
  show "rn_opened t = rn_opened s'" if "run_steps ys s' = Some t" for ys t
    using returned_stays [OF reached r that] by simp
qed (rule close_completes [OF assms(2)])

definition sample_run :: "run_op list" where
  "sample_run = [Registry (Register 7), Wait Check, Wait TakeStock, Wait Go, Close CloseClient, Close CloseDone,
     Dial DialOk]"

theorem client_close_ends_witness:
  "\<exists>s. run_steps sample_run newConnectionManager = Some s \<and> rn_manager s = Connected 0 \<and>
     (\<exists>xs s'. list_all own_step xs \<and> run_steps xs s = Some s' \<and> rn_closer s' = Returned)"
proof -
  obtain s where s: "run_steps sample_run newConnectionManager = Some s" "rn_manager s = Connected 0" "isClosed s"
    by (simp add: sample_run_def newConnectionManager_def waitForSubscriptions.simps run_state_defs)
  have "manager_reached s" using s(1) unfolding manager_reached_def by blast
  from client_close_ends [OF this s(3)] s show ?thesis by blast
qed

section \<open>Wakes\<close>

text \<open>
  C15: a subscription that is registered while the manager sleeps, whatever happened
  before, wakes it: by its own steps the manager goes on to dial with that registry. The one exception is that
  a goroutine of an earlier dial has received a wake.
\<close>

theorem registrations_wake_manager:
  assumes "manager_reached s" "\<not> rn_stolen s" "\<not> isClosed s" "rn_manager s = Sleep i" "rn_subs s \<noteq> []"
  shows "\<exists>xs s'. list_all own_step xs \<and> run_steps xs s = Some s' \<and> rn_manager s' = Dialing \<and>
    rn_subs s' = rn_subs s"
proof -
  have "rn_wake s"
    using reached_ok [OF assms(1)] assms(2,4,5) by (simp add: run_ok_def wake_ok_def)
  then show ?thesis
    using assms(3,4,5)
    by (cases i; intro exI [of _ "[Wait SleepWake, Wait Check, Wait TakeStock, Wait Go] @
        (if i then [Wait Check, Wait TakeStock, Wait Go] else [])"])
      (simp_all add: waitForSubscriptions.simps run_state_defs)
qed

theorem registrations_wake_manager_witness:
  "\<exists>s xs s'. run_steps [Wait Check, Wait TakeStock, Wait Go, Registry (Register 7)] newConnectionManager = Some s \<and>
     list_all own_step xs \<and> run_steps xs s = Some s' \<and> rn_manager s' = Dialing \<and> rn_subs s' = [7]"
proof -
  obtain s where s: "run_steps [Wait Check, Wait TakeStock, Wait Go, Registry (Register 7)] newConnectionManager = Some s"
    "rn_manager s = Sleep False" "\<not> isClosed s" "\<not> rn_stolen s" "rn_subs s = [7]"
    by (simp add: newConnectionManager_def waitForSubscriptions.simps run_state_defs)
  have "manager_reached s" using s(1) unfolding manager_reached_def by blast
  from registrations_wake_manager [OF this s(4,3,2)] s show ?thesis by fastforce
qed

text \<open>
  The exception is real. A dial that fails before its watcher runs leaves the watcher behind; when the
  client has no subscription for a while the manager sleeps; and when one is registered the watcher may
  receive its wake. The manager then sleeps beside a registered subscription, and no goroutine of the client can
  take a step: only another change of the registry, or closing the client, helps.
\<close>

definition stolen_wake :: "run_op list" where
  "stolen_wake = [Registry (Register 1), Wait Check, Wait TakeStock, Wait Go, Dial DialError,
     Registry (Unregister 1), Turn Report, Turn WaitEntry, Wait Check, Wait TakeStock, Wait Go, Wait SleepWake,
     Wait Check, Wait TakeStock, Wait Go, Registry (Register 2), Dial StaleWake, Dial StaleExit]"

lemma stale_watcher_loses_wake:
  "\<exists>s. manager_reached s \<and> rn_subs s = [2] \<and> rn_manager s = Sleep True \<and> \<not> isClosed s \<and>
     (\<forall>x s'. run_step x s = Some s' \<longrightarrow> (\<exists>y. x = Registry y) \<or> x = Close CloseClient)"
proof -
  obtain s where s: "run_steps stolen_wake newConnectionManager = Some s" "rn_subs s = [2]"
    "rn_manager s = Sleep True" "rn_closer s = NotClosed" "\<not> rn_wake s" "rn_watchers s = 0"
    by (simp add: stolen_wake_def newConnectionManager_def waitForSubscriptions.simps run_state_defs)
  have "(\<exists>y. x = Registry y) \<or> x = Close CloseClient" if "run_step x s = Some s'" for x s'
    using that s(3-6)
    by (cases x; rename_tac y; case_tac y) (auto simp: step_iffs isClosed_def split: if_split_asm)
  then show ?thesis using s unfolding manager_reached_def by (intro exI [of _ s]) (auto simp: isClosed_def)
qed

section \<open>The heartbeat\<close>

text \<open>
  What the heartbeat of a generation meets: a tick, with the error of writing the ping and whether the
  context is cancelled by then, or the cancellation. The result is the number of pings and the error that is
  handed to \<^verbatim>\<open>serve\<close>.
\<close>

datatype heartbeat_event = Tick "string option" bool | Cancelled

fun startHeartbeat :: "heartbeat_event list \<Rightarrow> nat \<times> string option" where
  "startHeartbeat [] = (0, None)"
| "startHeartbeat (Cancelled # es) = (0, None)"
| "startHeartbeat (Tick None c # es) = (let (n, e) = startHeartbeat es in (Suc n, e))"
| "startHeartbeat (Tick (Some e) c # es) = (1, if c then None else Some e)"

lemma heartbeat_stops: "startHeartbeat (es @ Cancelled # fs) = startHeartbeat es"
  by (induction es rule: startHeartbeat.induct) (simp_all split: prod.split)

lemma heartbeat_reports_last:
  "startHeartbeat es = (n, Some e) \<Longrightarrow> \<exists>fs gs. es = fs @ Tick (Some e) False # gs \<and> n = Suc (length fs) \<and>
    (\<forall>f \<in> set fs. \<exists>c. f = Tick None c)"
proof (induction es arbitrary: n rule: startHeartbeat.induct)
  case (3 c es)
  then obtain k where "n = Suc k" "startHeartbeat es = (k, Some e)" by (auto split: prod.splits)
  with 3 obtain fs gs where "es = fs @ Tick (Some e) False # gs" "n = Suc (Suc (length fs))"
    "\<forall>f \<in> set fs. \<exists>c. f = Tick None c" by blast
  then show ?case by (intro exI [of _ "Tick None c # fs"] exI [of _ gs]) auto
next
  case (4 e' c es)
  then show ?case by (intro exI [of _ "[]"] exI [of _ es]) (auto split: if_splits)
qed auto

end
