(* ===== verification/GoJson.thy ===== *)
theory GoJson
  imports Response "HOL-Library.AList"
begin

text \<open>
  How \<^verbatim>\<open>encoding/json\<close> fills a Go value by reflection: the type of the target and its field tags
  are data (\<open>gotype\<close>), and \<open>decode\<close> interprets them. The packages \<^verbatim>\<open>types\<close>, \<^verbatim>\<open>info\<close>,
  \<^verbatim>\<open>explorer\<close> and \<^verbatim>\<open>websocket\<close> declare more than a hundred structs that are only ever filled
  this way; each of them is one \<open>gotype\<close>. A type with an \<^verbatim>\<open>UnmarshalJSON\<close> method of its own carries
  that method. Values that are not integers are outside \<^typ>\<open>jval\<close>; decimals are texts.
\<close>

section \<open>Values and types\<close>

text \<open>
  The decimal package is a parameter: \<^verbatim>\<open>NewFromString\<close> and its inverse, with the law that its texts
  can be read back.
\<close>

record 'd decimal_text =
  NewFromString :: "string \<Rightarrow> 'd option"
  decimal_String :: "'d \<Rightarrow> string"
  decimal_zero :: 'd

definition decimal_text_laws :: "'d decimal_text \<Rightarrow> bool" where
  "decimal_text_laws D \<longleftrightarrow> (\<forall>d. NewFromString D (decimal_String D d) = Some d)"

datatype 'd gval =
    VString string
  | VBool bool
  | VInt int
  | VDecimal 'd
  | VRaw "jval option"
  | VPtr "'d gval option"
  | VSlice "'d gval list option"
  | VMap "(string \<times> 'd gval) list option"
  | VStruct "'d gval list"

text \<open>
  The field of a struct has its Go name, its tag and its type. \<open>TInt\<close> is \<^verbatim>\<open>int\<close> and \<^verbatim>\<open>int64\<close>, \<open>TRaw\<close> is
  \<^verbatim>\<open>json.RawMessage\<close>, \<open>TAny\<close> the empty interface. \<open>TTuple\<close> is a struct or array whose
  \<^verbatim>\<open>UnmarshalJSON\<close> reads a JSON array element by element: \<^verbatim>\<open>len(tuple)\<close> must be its length, or at least that.
  \<open>TCustom\<close> is a type with another \<^verbatim>\<open>UnmarshalJSON\<close> method.
\<close>

datatype 'd gotype =
    TString
  | TBool
  | TInt
  | TUint64
  | TDecimal
  | TRaw
  | TAny
  | TPtr "'d gotype"
  | TSlice "'d gotype"
  | TArray nat "'d gotype"
  | TMap "'d gotype"
  | TStruct "(string \<times> string \<times> 'd gotype) list"
  | TTuple string bool "'d gotype list"
  | TCustom "'d gotype" "'d decimal_text \<Rightarrow> jval \<Rightarrow> 'd gval \<Rightarrow> 'd gval res"

primrec zero :: "'d decimal_text \<Rightarrow> 'd gotype \<Rightarrow> 'd gval" where
  "zero D TString = VString []"
| "zero D TBool = VBool False"
| "zero D TInt = VInt 0"
| "zero D TUint64 = VInt 0"
| "zero D TDecimal = VDecimal (decimal_zero D)"
| "zero D TRaw = VRaw None"
| "zero D TAny = VRaw None"
| "zero D (TPtr t) = VPtr None"
| "zero D (TSlice t) = VSlice None"
| "zero D (TArray n t) = VStruct (replicate n (zero D t))"
| "zero D (TMap t) = VMap None"
| "zero D (TStruct fs) = VStruct (map (snd \<circ> snd) (map (map_prod id (map_prod id (zero D))) fs))"
| "zero D (TTuple e x ts) = VStruct (map (zero D) ts)"
| "zero D (TCustom t f) = zero D t"

section \<open>Decoding\<close>

type_synonym 'd gsetter = "jval \<Rightarrow> 'd gval \<Rightarrow> 'd gval res"

definition decode_string :: "'d gsetter" where
  "decode_string j z = (case j of JNull \<Rightarrow> Inr z | JStr s \<Rightarrow> Inr (VString s) | _ \<Rightarrow> type_error ''string'')"

definition decode_bool :: "'d gsetter" where
  "decode_bool j z = (case j of JNull \<Rightarrow> Inr z | JBool b \<Rightarrow> Inr (VBool b) | _ \<Rightarrow> type_error ''bool'')"

definition decode_int :: "int \<Rightarrow> int \<Rightarrow> string \<Rightarrow> 'd gsetter" where
  "decode_int lo hi name j z =
     (case j of
        JNull \<Rightarrow> Inr z
      | JInt i \<Rightarrow> if lo \<le> i \<and> i \<le> hi then Inr (VInt i) else type_error name
      | _ \<Rightarrow> type_error name)"

text \<open>\<^verbatim>\<open>decimal.UnmarshalJSON\<close> takes a text or a number.\<close>

definition decode_decimal :: "'d decimal_text \<Rightarrow> 'd gsetter" where
  "decode_decimal D j z =
     (let read = (\<lambda>s. case NewFromString D s of
          None \<Rightarrow> Inl (''can't convert '' @ s @ '' to decimal'') | Some d \<Rightarrow> Inr (VDecimal d))
      in case j of
        JNull \<Rightarrow> Inr z
      | JStr s \<Rightarrow> read s
      | JInt i \<Rightarrow> read (show_int i)
      | _ \<Rightarrow> type_error ''decimal'')"

definition decode_ptr :: "'d gval \<Rightarrow> 'd gsetter \<Rightarrow> 'd gsetter" where
  "decode_ptr zv f j z =
     (if j = JNull then Inr (VPtr None)
      else bind_res (f j (case z of VPtr (Some x) \<Rightarrow> x | _ \<Rightarrow> zv)) (\<lambda>v. Inr (VPtr (Some v))))"

definition decode_slice :: "'d gval \<Rightarrow> 'd gsetter \<Rightarrow> 'd gsetter" where
  "decode_slice zv f j z =
     (case j of
        JNull \<Rightarrow> Inr (VSlice None)
      | JArr js \<Rightarrow> bind_res (map_res (\<lambda>j. f j zv) js) (\<lambda>vs. Inr (VSlice (Some vs)))
      | _ \<Rightarrow> type_error ''slice'')"

definition vals :: "'d gval \<Rightarrow> 'd gval list" where
  "vals z = (case z of VStruct vs \<Rightarrow> vs | _ \<Rightarrow> [])"

text \<open>
  Elements beyond a Go array's length are skipped; missing ones get the zero value.
\<close>

fun zip_res :: "'d gsetter list \<Rightarrow> jval list \<Rightarrow> 'd gval list \<Rightarrow> 'd gval list res" where
  "zip_res (f # fs) (j # js) (v # vs) =
     bind_res (f j v) (\<lambda>x. bind_res (zip_res fs js vs) (\<lambda>xs. Inr (x # xs)))"
| "zip_res _ _ vs = Inr []"

definition decode_array :: "nat \<Rightarrow> 'd gval \<Rightarrow> 'd gsetter \<Rightarrow> 'd gsetter" where
  "decode_array n zv f j z =
     (case j of
        JNull \<Rightarrow> Inr z
      | JArr js \<Rightarrow> bind_res (zip_res (replicate n f) js (vals z))
          (\<lambda>vs. Inr (VStruct (vs @ replicate (n - length vs) zv)))
      | _ \<Rightarrow> type_error ''array'')"

definition decode_map :: "'d gval \<Rightarrow> 'd gsetter \<Rightarrow> 'd gsetter" where
  "decode_map zv f j z =
     (case j of
        JNull \<Rightarrow> Inr (VMap None)
      | JObj kvs \<Rightarrow> bind_res (map_res (\<lambda>(k, j). bind_res (f j zv) (\<lambda>v. Inr (k, v))) kvs)
          (\<lambda>vs. Inr (VMap (Some (fold (\<lambda>(k, v). AList.update k v) vs
             (case z of VMap (Some m) \<Rightarrow> m | _ \<Rightarrow> [])))))
      | _ \<Rightarrow> type_error ''map'')"

text \<open>The position of the field that a member goes to: an exact match of the tag, else one up to case.\<close>

fun index_of :: "('a \<Rightarrow> bool) \<Rightarrow> 'a list \<Rightarrow> nat option" where
  "index_of p [] = None"
| "index_of p (x # xs) = (if p x then Some 0 else map_option Suc (index_of p xs))"

definition field_index :: "string list \<Rightarrow> string \<Rightarrow> nat option" where
  "field_index tags k =
     (case index_of (\<lambda>t. t = k) tags of
        Some i \<Rightarrow> Some i
      | None \<Rightarrow> index_of (\<lambda>t. equal_fold t k) tags)"

lemma index_of_some: "index_of p xs = Some i \<Longrightarrow> i < length xs \<and> p (xs ! i)"
  by (induction xs arbitrary: i) (auto split: if_splits)

lemma index_of_none: "index_of p xs = None \<longleftrightarrow> (\<forall>x \<in> set xs. \<not> p x)"
  by (induction xs) auto

lemma field_index_bound: "field_index tags k = Some i \<Longrightarrow> i < length tags"
  by (auto simp: field_index_def split: option.splits dest: index_of_some)

fun decode_members :: "string list \<Rightarrow> 'd gsetter list \<Rightarrow> (string \<times> jval) list \<Rightarrow> 'd gval list \<Rightarrow>
    'd gval list res" where
  "decode_members tags fs [] vs = Inr vs"
| "decode_members tags fs ((k, j) # kvs) vs =
     (case field_index tags k of
        None \<Rightarrow> decode_members tags fs kvs vs
      | Some i \<Rightarrow> bind_res ((fs ! i) j (vs ! i)) (\<lambda>v. decode_members tags fs kvs (vs[i := v])))"

definition decode_struct :: "string list \<Rightarrow> 'd gsetter list \<Rightarrow> 'd gsetter" where
  "decode_struct tags fs j z =
     (case j of
        JNull \<Rightarrow> Inr z
      | JObj kvs \<Rightarrow> bind_res (decode_members tags fs kvs (vals z)) (\<lambda>vs. Inr (VStruct vs))
      | _ \<Rightarrow> type_error ''struct'')"

text \<open>
  \<^verbatim>\<open>UnmarshalJSON\<close> of the tuples: \<^verbatim>\<open>null\<close> is an empty array of raw messages.
\<close>

definition raw_tuple :: "string \<Rightarrow> bool \<Rightarrow> nat \<Rightarrow> jval \<Rightarrow> jval list res" where
  "raw_tuple e exact n j =
     (let read = (\<lambda>js. if (if exact then length js \<noteq> n else length js < n) then Inl e else Inr js)
      in case j of JNull \<Rightarrow> read [] | JArr js \<Rightarrow> read js | _ \<Rightarrow> type_error ''slice'')"

definition decode_tuple :: "string \<Rightarrow> bool \<Rightarrow> 'd gsetter list \<Rightarrow> 'd gsetter" where
  "decode_tuple e exact fs j z =
     bind_res (raw_tuple e exact (length fs) j) (\<lambda>js.
     bind_res (zip_res fs js (vals z)) (\<lambda>vs. Inr (VStruct vs)))"

primrec decode :: "'d decimal_text \<Rightarrow> 'd gotype \<Rightarrow> 'd gsetter" where
  "decode D TString = decode_string"
| "decode D TBool = decode_bool"
| "decode D TInt = decode_int min_i64 max_i64 ''int64''"
| "decode D TUint64 = decode_int 0 (2 ^ 64 - 1) ''uint64''"
| "decode D TDecimal = decode_decimal D"
| "decode D TRaw = (\<lambda>j z. Inr (VRaw (Some j)))"
| "decode D TAny = (\<lambda>j z. Inr (VRaw (if j = JNull then None else Some j)))"
| "decode D (TPtr t) = decode_ptr (zero D t) (decode D t)"
| "decode D (TSlice t) = decode_slice (zero D t) (decode D t)"
| "decode D (TArray n t) = decode_array n (zero D t) (decode D t)"
| "decode D (TMap t) = decode_map (zero D t) (decode D t)"
| "decode D (TStruct fs) = decode_struct (map (fst \<circ> snd) fs)
     (map (snd \<circ> snd) (map (map_prod id (map_prod id (decode D))) fs))"
| "decode D (TTuple e x ts) = decode_tuple e x (map (decode D) ts)"
| "decode D (TCustom t f) = f D"

text \<open>\<^verbatim>\<open>json.Unmarshal(raw, &r)\<close> into a variable that has its zero value; an empty text does not parse.\<close>

definition unmarshal_into :: "'d decimal_text \<Rightarrow> 'd gotype \<Rightarrow> jval option \<Rightarrow> 'd gval res" where
  "unmarshal_into D t raw =
     (case raw of
        None \<Rightarrow> Inl ''unexpected end of JSON input''
      | Some j \<Rightarrow> decode D t j (zero D t))"

section \<open>Typed values\<close>

primrec has_type :: "'d gotype \<Rightarrow> 'd gval \<Rightarrow> bool" where
  "has_type TString = (\<lambda>v. case v of VString s \<Rightarrow> True | _ \<Rightarrow> False)"
| "has_type TBool = (\<lambda>v. case v of VBool b \<Rightarrow> True | _ \<Rightarrow> False)"
| "has_type TInt = (\<lambda>v. case v of VInt i \<Rightarrow> in_i64 i | _ \<Rightarrow> False)"
| "has_type TUint64 = (\<lambda>v. case v of VInt i \<Rightarrow> 0 \<le> i \<and> i < 2 ^ 64 | _ \<Rightarrow> False)"
| "has_type TDecimal = (\<lambda>v. case v of VDecimal d \<Rightarrow> True | _ \<Rightarrow> False)"
| "has_type TRaw = (\<lambda>v. case v of VRaw r \<Rightarrow> True | _ \<Rightarrow> False)"
| "has_type TAny = (\<lambda>v. case v of VRaw r \<Rightarrow> True | _ \<Rightarrow> False)"
| "has_type (TPtr t) = (\<lambda>v. case v of VPtr p \<Rightarrow> pred_option (has_type t) p | _ \<Rightarrow> False)"
| "has_type (TSlice t) =
     (\<lambda>v. case v of VSlice p \<Rightarrow> pred_option (list_all (has_type t)) p | _ \<Rightarrow> False)"
| "has_type (TArray n t) =
     (\<lambda>v. case v of VStruct vs \<Rightarrow> length vs = n \<and> list_all (has_type t) vs | _ \<Rightarrow> False)"
| "has_type (TMap t) = (\<lambda>v. case v of
     VMap p \<Rightarrow> pred_option (\<lambda>m. distinct (map fst m) \<and> list_all (has_type t) (map snd m)) p | _ \<Rightarrow> False)"
| "has_type (TStruct fs) = (\<lambda>v. case v of VStruct vs \<Rightarrow>
     list_all2 (\<lambda>f x. f x) (map (snd \<circ> snd) (map (map_prod id (map_prod id has_type)) fs)) vs | _ \<Rightarrow> False)"
| "has_type (TTuple e x ts) =
     (\<lambda>v. case v of VStruct vs \<Rightarrow> list_all2 (\<lambda>f x. f x) (map has_type ts) vs | _ \<Rightarrow> False)"
| "has_type (TCustom t f) = has_type t"

definition keeps :: "'d gotype \<Rightarrow> 'd gsetter \<Rightarrow> bool" where
  "keeps t f \<longleftrightarrow> (\<forall>j z v. has_type t z \<and> f j z = Inr v \<longrightarrow> has_type t v)"

text \<open>
  What a declaration must satisfy: the tags of a struct are distinct, and an \<^verbatim>\<open>UnmarshalJSON\<close> method
  returns values of the type it belongs to.
\<close>

primrec wf_type :: "'d gotype \<Rightarrow> bool" where
  "wf_type TString = True"
| "wf_type TBool = True"
| "wf_type TInt = True"
| "wf_type TUint64 = True"
| "wf_type TDecimal = True"
| "wf_type TRaw = True"
| "wf_type TAny = True"
| "wf_type (TPtr t) = wf_type t"
| "wf_type (TSlice t) = wf_type t"
| "wf_type (TArray n t) = wf_type t"
| "wf_type (TMap t) = wf_type t"
| "wf_type (TStruct fs) = (distinct (map (fst \<circ> snd) fs) \<and>
     list_all (snd \<circ> snd) (map (map_prod id (map_prod id wf_type)) fs))"
| "wf_type (TTuple e x ts) = list_all id (map wf_type ts)"
| "wf_type (TCustom t f) = (\<forall>D. keeps t (f D))"

abbreviation ftype :: "string \<times> string \<times> 'd gotype \<Rightarrow> 'd gotype" where
  "ftype f \<equiv> snd (snd f)"

lemma zero_struct: "zero D (TStruct fs) = VStruct (map (\<lambda>f. zero D (ftype f)) fs)"
  by (simp add: comp_def)

lemma decode_struct_type: "decode D (TStruct fs) =
    decode_struct (map (fst \<circ> snd) fs) (map (\<lambda>f. decode D (ftype f)) fs)"
  by (simp add: comp_def)

lemma has_type_struct: "has_type (TStruct fs) v =
    (case v of VStruct vs \<Rightarrow> list_all2 (\<lambda>f x. has_type (ftype f) x) fs vs | _ \<Rightarrow> False)"
  by (simp add: comp_def list_all2_map1 split: gval.splits)

lemma wf_type_struct: "wf_type (TStruct fs) \<longleftrightarrow>
    distinct (map (fst \<circ> snd) fs) \<and> (\<forall>f \<in> set fs. wf_type (ftype f))"
  by (auto simp: list_all_iff)

lemma has_type_tuple: "has_type (TTuple e x ts) v =
    (case v of VStruct vs \<Rightarrow> list_all2 has_type ts vs | _ \<Rightarrow> False)"
  by (simp add: list_all2_map1 split: gval.splits)

lemma wf_type_tuple: "wf_type (TTuple e x ts) \<longleftrightarrow> (\<forall>t \<in> set ts. wf_type t)"
  by (auto simp: list_all_iff)

declare zero.simps(12) [simp del] decode.simps(12) [simp del] has_type.simps(12) [simp del]
  has_type.simps(13) [simp del] wf_type.simps(12) [simp del] wf_type.simps(13) [simp del]

lemmas struct_simps = zero_struct decode_struct_type has_type_struct wf_type_struct has_type_tuple
  wf_type_tuple

lemma ftype_snds: "f \<in> set fs \<Longrightarrow> snd f \<in> Basic_BNFs.snds f \<and> ftype f \<in> Basic_BNFs.snds (snd f)"
  by (cases f) (auto simp: prod_set_simps)

text \<open>Induction over types, with the types of a struct's fields.\<close>

lemma gotype_induct [case_names string bool int uint64 decimal raw any ptr slice array map_of struct tuple custom]:
  assumes "P TString" "P TBool" "P TInt" "P TUint64" "P TDecimal" "P TRaw" "P TAny"
    and "\<And>t. P t \<Longrightarrow> P (TPtr t)" "\<And>t. P t \<Longrightarrow> P (TSlice t)" "\<And>n t. P t \<Longrightarrow> P (TArray n t)"
    and "\<And>t. P t \<Longrightarrow> P (TMap t)" "\<And>fs. (\<And>f. f \<in> set fs \<Longrightarrow> P (ftype f)) \<Longrightarrow> P (TStruct fs)"
    and "\<And>e x ts. (\<And>t. t \<in> set ts \<Longrightarrow> P t) \<Longrightarrow> P (TTuple e x ts)" "\<And>t f. P t \<Longrightarrow> P (TCustom t f)"
  shows "P t"
proof (induction t)
  case (TStruct fs)
  show ?case by (rule assms(12)) (use TStruct ftype_snds in blast)
qed (use assms in simp_all)

lemma zero_typed: "has_type t (zero D t)"
proof (induction t rule: gotype_induct)
  case (struct fs)
  then show ?case by (simp add: struct_simps list_all2_conv_all_nth)
next
  case (tuple e x ts)
  then show ?case by (simp add: struct_simps list_all2_conv_all_nth)
qed (simp_all add: list_all_iff in_i64_def min_i64_def max_i64_def)

section \<open>Decoding keeps the type\<close>

lemma no_type_error [simp]: "type_error e \<noteq> Inr v" "Inr v \<noteq> type_error e"
  by (simp_all add: type_error_def)

lemma map_res_all:
  assumes "map_res f js = Inr vs" "\<And>j v. f j = Inr v \<Longrightarrow> P v"
  shows "list_all P vs"
  using assms(1)
proof (induction js arbitrary: vs)
  case (Cons j js)
  then show ?case using assms(2) by auto
qed simp

lemma zip_res_typed:
  assumes "list_all2 keeps ts fs" "zip_res fs js vs = Inr ws" "list_all2 has_type ts vs"
  shows "list_all2 has_type (take (length ws) ts) ws \<and> length ws = min (length js) (length ts)"
  using assms
proof (induction ts arbitrary: fs js vs ws)
  case (Cons t ts)
  obtain f fs' v vs' where vs: "fs = f # fs'" "keeps t f" "list_all2 keeps ts fs'"
    "vs = v # vs'" "has_type t v" "list_all2 has_type ts vs'"
    using Cons.prems(1,3) by (auto simp: list_all2_Cons1)
  show ?case
  proof (cases js)
    case Nil
    then show ?thesis using Cons.prems(2) vs by simp
  next
    case (Cons j js')
    with Cons.prems(2) vs obtain x xs where x: "f j v = Inr x" "zip_res fs' js' vs' = Inr xs" "ws = x # xs"
      by auto
    have "has_type t x" using vs(2,5) x(1) by (auto simp: keeps_def)
    moreover have "list_all2 has_type (take (length xs) ts) xs \<and> length xs = min (length js') (length ts)"
      by (rule Cons.IH [OF vs(3) x(2) vs(6)])
    ultimately show ?thesis using x(3) Cons by auto
  qed
qed auto

lemma members_typed:
  assumes "\<And>f j z v. f \<in> set fs \<Longrightarrow> has_type (ftype f) z \<Longrightarrow> dec (ftype f) j z = Inr v \<Longrightarrow>
      has_type (ftype f) v"
    and "decode_members tags (map (\<lambda>f. dec (ftype f)) fs) kvs vs = Inr ws" "length tags = length fs"
    "list_all2 (\<lambda>f x. has_type (ftype f) x) fs vs"
  shows "list_all2 (\<lambda>f x. has_type (ftype f) x) fs ws"
  using assms(2,4)
proof (induction kvs arbitrary: vs)
  case (Cons kv kvs)
  obtain k j where kv: "kv = (k, j)" by (cases kv)
  show ?case
  proof (cases "field_index tags k")
    case None
    then show ?thesis using Cons kv by simp
  next
    case (Some i)
    have i: "i < length fs" using field_index_bound [OF Some] assms(3) by simp
    with Cons.prems(1) kv Some obtain v where v: "dec (ftype (fs ! i)) j (vs ! i) = Inr v"
      "decode_members tags (map (\<lambda>f. dec (ftype f)) fs) kvs (vs[i := v]) = Inr ws" by auto
    have "has_type (ftype (fs ! i)) (vs ! i)" using Cons.prems(2) i by (simp add: list_all2_conv_all_nth)
    then have "has_type (ftype (fs ! i)) v" using assms(1) v(1) i by simp
    then have "list_all2 (\<lambda>f x. has_type (ftype f) x) fs (vs[i := v])"
      using Cons.prems(2) i by (simp add: list_all2_conv_all_nth nth_list_update)
    then show ?thesis using Cons.IH v(2) by simp
  qed
qed simp

lemma fold_update_typed:
  "distinct (map fst m) \<Longrightarrow> list_all P (map snd m) \<Longrightarrow> list_all P (map snd vs) \<Longrightarrow>
   distinct (map fst (fold (\<lambda>(k, v). AList.update k v) vs m)) \<and>
   list_all P (map snd (fold (\<lambda>(k, v). AList.update k v) vs m))"
proof (induction vs arbitrary: m)
  case (Cons kv vs)
  obtain k v where kv: "kv = (k, v)" by (cases kv)
  have "distinct (map fst (AList.update k v m))" using Cons.prems(1) by (simp add: distinct_update)
  moreover have "set (AList.update k v m) \<subseteq> insert (k, v) (set m)" by (induction m) auto
  then have "list_all P (map snd (AList.update k v m))"
    using Cons.prems(2,3) kv by (fastforce simp: list_all_iff)
  ultimately show ?case using Cons.IH Cons.prems(3) kv by simp
qed simp

lemma tuple_keeps:
  assumes "list_all2 keeps ts fs"
  shows "keeps (TTuple e x ts) (decode_tuple e' x' fs)"
  unfolding keeps_def
proof (intro allI impI, elim conjE)
  fix j z v
  assume z: "has_type (TTuple e x ts) z" and v: "decode_tuple e' x' fs j z = Inr v"
  have z: "list_all2 has_type ts (vals z)"
    using z by (auto simp: struct_simps vals_def split: gval.splits)
  obtain js vs where vs: "zip_res fs js (vals z) = Inr vs" "v = VStruct vs" "length js \<ge> length fs"
    using v by (auto simp: decode_tuple_def raw_tuple_def Let_def split: jval.splits if_splits)
  have "list_all2 has_type (take (length vs) ts) vs \<and> length vs = min (length js) (length ts)"
    by (rule zip_res_typed [OF assms vs(1) z])
  moreover have "length fs = length ts" using assms by (auto dest: list_all2_lengthD)
  ultimately have "list_all2 has_type ts vs" using vs(3) by auto
  then show "has_type (TTuple e x ts) v" using vs(2) by (simp add: struct_simps)
qed

text \<open>Whatever is decoded, the result has the type of the variable.\<close>

lemma decode_typed:
  "wf_type t \<Longrightarrow> has_type t z \<Longrightarrow> decode D t j z = Inr v \<Longrightarrow> has_type t v"
proof (induction t arbitrary: j z v rule: gotype_induct)
  case (ptr t)
  have "has_type t (case z of VPtr (Some x) \<Rightarrow> x | _ \<Rightarrow> zero D t)"
    using ptr.prems(2) zero_typed by (auto split: gval.splits option.splits)
  then show ?case using ptr by (auto simp: decode_ptr_def split: if_splits)
next
  case (slice t)
  have w: "wf_type t" using slice.prems(1) by simp
  have "list_all (has_type t) vs" if "map_res (\<lambda>j. decode D t j (zero D t)) js = Inr vs" for js vs
    by (rule map_res_all [OF that]) (rule slice.IH [OF w zero_typed])
  then show ?case using slice.prems by (auto simp: decode_slice_def split: jval.splits)
next
  case (array n t)
  show ?case
  proof (cases j)
    case (JArr js)
    then obtain vs where vs: "zip_res (replicate n (decode D t)) js (vals z) = Inr vs"
      "v = VStruct (vs @ replicate (n - length vs) (zero D t))"
      using array.prems(3) by (auto simp: decode_array_def)
    have "list_all2 has_type (replicate n t) (vals z)"
      using array.prems(2) by (auto simp: vals_def list_all2_conv_all_nth list_all_length split: gval.splits)
    note this [simp]
    have "keeps t (decode D t)"
      unfolding keeps_def using array.IH array.prems(1) by (metis wf_type.simps(10))
    then have keep: "list_all2 keeps (replicate n t) (map (decode D) (replicate n t))"
      by (simp add: list_all2_conv_all_nth)
    have r: "zip_res (map (decode D) (replicate n t)) js (vals z) = Inr vs"
      using vs(1) by (simp add: map_replicate)
    have "list_all2 has_type (take (length vs) (replicate n t)) vs \<and>
        length vs = min (length js) (length (replicate n t))"
      by (rule zip_res_typed [OF keep r]) simp
    then have "list_all (has_type t) vs" "length vs \<le> n"
      by (auto simp: list_all2_conv_all_nth list_all_length)
    then show ?thesis using vs(2) zero_typed by (auto simp: list_all_iff)
  qed (use array.prems in \<open>auto simp: decode_array_def type_error_def\<close>)
next
  case (map_of t)
  have w: "wf_type t" using map_of.prems(1) by simp
  have all: "list_all (has_type t) (map snd vs)"
    if "map_res (\<lambda>(k, j). bind_res (decode D t j (zero D t)) (\<lambda>v. Inr (k, v))) kvs = Inr vs" for kvs vs
  proof -
    have "list_all (\<lambda>p. has_type t (snd p)) vs"
      by (rule map_res_all [OF that]) (auto intro: map_of.IH [OF w zero_typed])
    then show ?thesis by (simp add: list.pred_map comp_def)
  qed
  have "distinct (map fst m) \<and> list_all (has_type t) (map snd m)"
    if "m = (case z of VMap (Some m) \<Rightarrow> m | _ \<Rightarrow> [])" for m
    using map_of.prems(2) that by (auto split: gval.splits option.splits)
  then show ?case using map_of.prems(3) all fold_update_typed
    by (fastforce simp: decode_map_def type_error_def split: jval.splits)
next
  case (struct fs)
  have z: "list_all2 (\<lambda>f x. has_type (ftype f) x) fs (vals z)" if "\<exists>kvs. j = JObj kvs"
    using struct.prems(2) by (auto simp: struct_simps vals_def split: gval.splits)
  show ?case
  proof (cases j)
    case (JObj kvs)
    then obtain vs where vs: "decode_members (map (fst \<circ> snd) fs) (map (\<lambda>f. decode D (ftype f)) fs) kvs
        (vals z) = Inr vs" "v = VStruct vs"
      using struct.prems(3) by (auto simp: struct_simps decode_struct_def)
    have "list_all2 (\<lambda>f x. has_type (ftype f) x) fs vs"
      by (rule members_typed [OF _ vs(1)]) (use struct z JObj in \<open>auto simp: struct_simps\<close>)
    then show ?thesis using vs(2) by (simp add: struct_simps)
  qed (use struct.prems in \<open>auto simp: struct_simps decode_struct_def type_error_def\<close>)
next
  case (tuple e x ts)
  have "list_all2 keeps ts (map (decode D) ts)"
    using tuple.IH tuple.prems(1) by (auto simp: keeps_def list_all2_conv_all_nth struct_simps)
  then show ?case using tuple.prems tuple_keeps [of ts "map (decode D) ts" e x e x] by (auto simp: keeps_def)
next
  case (custom t f)
  show ?case using custom.prems by (auto simp: keeps_def)
qed (auto simp: decode_string_def decode_bool_def decode_int_def decode_decimal_def type_error_def
    in_i64_def Let_def split: jval.splits gval.splits if_splits option.splits)

lemma unmarshal_typed: "wf_type t \<Longrightarrow> unmarshal_into D t raw = Inr v \<Longrightarrow> has_type t v"
  by (auto simp: unmarshal_into_def intro: decode_typed [OF _ zero_typed] split: option.splits)

section \<open>Documented forms\<close>

text \<open>
  \<open>documents D t j v\<close>: \<open>j\<close> is a form in which an API may send \<open>v\<close>. The members of an object come in any
  order, members that no field takes are allowed, and so are missing ones, whose fields are zero. A type
  with its own method is documented by what the method does; that is stated type by type.
\<close>

primrec documents :: "'d decimal_text \<Rightarrow> 'd gotype \<Rightarrow> jval \<Rightarrow> 'd gval \<Rightarrow> bool" where
  "documents D TString = (\<lambda>j v. \<exists>s. j = JStr s \<and> v = VString s)"
| "documents D TBool = (\<lambda>j v. \<exists>b. j = JBool b \<and> v = VBool b)"
| "documents D TInt = (\<lambda>j v. \<exists>i. j = JInt i \<and> v = VInt i \<and> in_i64 i)"
| "documents D TUint64 = (\<lambda>j v. \<exists>i. j = JInt i \<and> v = VInt i \<and> 0 \<le> i \<and> i < 2 ^ 64)"
| "documents D TDecimal = (\<lambda>j v. \<exists>s d. j = JStr s \<and> v = VDecimal d \<and> NewFromString D s = Some d)"
| "documents D TRaw = (\<lambda>j v. v = VRaw (Some j))"
| "documents D TAny = (\<lambda>j v. v = VRaw (if j = JNull then None else Some j))"
| "documents D (TPtr t) = (\<lambda>j v. j = JNull \<and> v = VPtr None \<or>
     j \<noteq> JNull \<and> (\<exists>x. v = VPtr (Some x) \<and> documents D t j x))"
| "documents D (TSlice t) = (\<lambda>j v. \<exists>js vs. j = JArr js \<and> v = VSlice (Some vs) \<and>
     list_all2 (documents D t) js vs)"
| "documents D (TArray n t) = (\<lambda>j v. \<exists>js vs. j = JArr js \<and> v = VStruct vs \<and> length js = n \<and>
     list_all2 (documents D t) js vs)"
| "documents D (TMap t) = (\<lambda>j v. \<exists>kvs m. j = JObj kvs \<and> v = VMap (Some m) \<and> distinct (map fst kvs) \<and>
     list_all2 (\<lambda>(k, j) (l, x). k = l \<and> documents D t j x) kvs m)"
| "documents D (TStruct fs) = (\<lambda>j v. \<exists>kvs vs. j = JObj kvs \<and> v = VStruct vs \<and> distinct (map fst kvs) \<and>
     (\<forall>(k, j) \<in> set kvs. k \<in> set (map (fst \<circ> snd) fs) \<or> field_index (map (fst \<circ> snd) fs) k = None) \<and>
     list_all2 (\<lambda>(tag, doc, zv) x. case map_of kvs tag of None \<Rightarrow> x = zv | Some j \<Rightarrow> doc j x)
       (map (\<lambda>(n, tag, doc, zv). (tag, doc, zv))
         (map (map_prod id (map_prod id (\<lambda>t. (documents D t, zero D t)))) fs)) vs)"
| "documents D (TTuple e x ts) = (\<lambda>j v. \<exists>js vs. j = JArr js \<and> v = VStruct vs \<and> length js = length ts \<and>
     list_all2 (\<lambda>(doc, j) x. doc j x) (zip (map (documents D) ts) js) vs)"
| "documents D (TCustom t f) = (\<lambda>j v. f D j (zero D t) = Inr v)"

lemma documents_struct: "documents D (TStruct fs) j v \<longleftrightarrow>
    (\<exists>kvs vs. j = JObj kvs \<and> v = VStruct vs \<and> distinct (map fst kvs) \<and>
     (\<forall>(k, j) \<in> set kvs. k \<in> set (map (fst \<circ> snd) fs) \<or> field_index (map (fst \<circ> snd) fs) k = None) \<and>
     list_all2 (\<lambda>f x. case map_of kvs (fst (snd f)) of
       None \<Rightarrow> x = zero D (ftype f) | Some j \<Rightarrow> documents D (ftype f) j x) fs vs)"
  by (simp add: list_all2_map1 comp_def case_prod_beta cong: option.case_cong)

lemma documents_tuple: "documents D (TTuple e x ts) j v \<longleftrightarrow>
    (\<exists>js vs. j = JArr js \<and> v = VStruct vs \<and> length js = length ts \<and>
      list_all2 (\<lambda>p. documents D (fst p) (snd p)) (zip ts js) vs)"
  by (simp add: list_all2_map1 zip_map1 case_prod_beta)

declare documents.simps(12) [simp del] documents.simps(13) [simp del]

lemma field_index_exact:
  assumes "k \<in> set tags"
  obtains i where "field_index tags k = Some i" "i < length tags" "tags ! i = k"
proof (cases "index_of (\<lambda>t. t = k) tags")
  case None
  then show ?thesis using assms by (auto simp: index_of_none)
next
  case (Some i)
  then show ?thesis using that [of i] index_of_some [OF Some] by (simp add: field_index_def)
qed

lemma field_index_none: "field_index tags k = None \<Longrightarrow> k \<notin> set tags"
  by (auto elim: field_index_exact)

lemma members_documented:
  assumes "distinct tags" "length fs = length tags" "length ws = length tags" "length vs = length tags"
    "distinct (map fst kvs)" "\<forall>(k, j) \<in> set kvs. k \<in> set tags \<or> field_index tags k = None"
    "\<forall>i < length tags. case map_of kvs (tags ! i) of
       None \<Rightarrow> vs ! i = ws ! i | Some j \<Rightarrow> (fs ! i) j (vs ! i) = Inr (ws ! i)"
  shows "decode_members tags fs kvs vs = Inr ws"
  using assms(4-)
proof (induction kvs arbitrary: vs)
  case Nil
  then show ?case using assms(3) by (simp add: list_eq_iff_nth_eq)
next
  case (Cons kv kvs)
  obtain k j where kv: "kv = (k, j)" by (cases kv)
  show ?case
  proof (cases "k \<in> set tags")
    case False
    then have none: "field_index tags k = None" using Cons.prems(3) kv by auto
    have "tags ! i \<noteq> k" if "i < length tags" for i using False that by auto
    then have "\<forall>i < length tags. case map_of kvs (tags ! i) of
       None \<Rightarrow> vs ! i = ws ! i | Some j \<Rightarrow> (fs ! i) j (vs ! i) = Inr (ws ! i)"
      using Cons.prems(4) kv by (auto split: if_splits)
    then show ?thesis using Cons.IH Cons.prems(1-3) kv none by simp
  next
    case True
    then obtain i where i: "field_index tags k = Some i" "i < length tags" "tags ! i = k"
      by (rule field_index_exact)
    have new: "map_of kvs k = None" using Cons.prems(2) kv by (auto simp: map_of_eq_None_iff)
    have d: "(fs ! i) j (vs ! i) = Inr (ws ! i)" using Cons.prems(4) i kv by auto
    have other: "tags ! l \<noteq> k" if "l < length tags" "l \<noteq> i" for l
      using assms(1) i that by (metis nth_eq_iff_index_eq)
    have "case map_of kvs (tags ! l) of None \<Rightarrow> vs[i := ws ! i] ! l = ws ! l
       | Some j \<Rightarrow> (fs ! l) j (vs[i := ws ! i] ! l) = Inr (ws ! l)" if "l < length tags" for l
    proof (cases "l = i")
      case True
      then show ?thesis using new i Cons.prems(1) by simp
    next
      case False
      have "case map_of (kv # kvs) (tags ! l) of None \<Rightarrow> vs ! l = ws ! l
        | Some j \<Rightarrow> (fs ! l) j (vs ! l) = Inr (ws ! l)" using Cons.prems(4) that by blast
      then show ?thesis using False kv other [OF that False] by (auto split: option.splits if_splits)
    qed
    then have "decode_members tags fs kvs (vs[i := ws ! i]) = Inr ws"
      using Cons.IH [of "vs[i := ws ! i]"] Cons.prems(1-3) kv by simp
    then show ?thesis using kv i d by simp
  qed
qed

lemma zip_res_documented:
  assumes "\<And>t j v. t \<in> set ts \<Longrightarrow> documents D t j v \<Longrightarrow> decode D t j (zero D t) = Inr v"
    and "list_all2 (\<lambda>p. documents D (fst p) (snd p)) (zip ts js) vs" "length js = length ts"
  shows "zip_res (map (decode D) ts) js (map (zero D) ts) = Inr vs"
  using assms
proof (induction ts arbitrary: js vs)
  case (Cons t ts)
  obtain j js' where js: "js = j # js'" using Cons.prems(3) by (cases js) auto
  then obtain v vs' where vs: "vs = v # vs'" "documents D t j v"
    "list_all2 (\<lambda>p. documents D (fst p) (snd p)) (zip ts js') vs'"
    using Cons.prems(2) by (auto simp: list_all2_Cons1)
  have "zip_res (map (decode D) ts) js' (map (zero D) ts) = Inr vs'"
    by (rule Cons.IH [OF _ vs(3)]) (use Cons.prems js in auto)
  then show ?case using Cons.prems(1) vs js by simp
qed simp

lemma map_res_documented:
  "list_all2 (\<lambda>j v. f j = Inr v) js vs \<Longrightarrow> map_res f js = Inr vs"
  by (simp add: map_res_Inr)

lemma fold_update_new:
  "distinct (map fst m @ map fst vs) \<Longrightarrow> fold (\<lambda>(k, v). AList.update k v) vs m = m @ vs"
proof (induction vs arbitrary: m)
  case (Cons kv vs)
  obtain k v where kv: "kv = (k, v)" by (cases kv)
  have "AList.update k v m = m @ [(k, v)]" using Cons.prems kv by (induction m) auto
  then show ?case using Cons.IH [of "m @ [(k, v)]"] Cons.prems kv by simp
qed simp

text \<open>A documented form is decoded to exactly the value that it is a form of.\<close>

lemma documented_decodes:
  "wf_type t \<Longrightarrow> documents D t j v \<Longrightarrow> decode D t j (zero D t) = Inr v"
proof (induction t arbitrary: j v rule: gotype_induct)
  case (slice t)
  then obtain js vs where js: "j = JArr js" "v = VSlice (Some vs)" "list_all2 (documents D t) js vs" by auto
  have "list_all2 (\<lambda>j v. decode D t j (zero D t) = Inr v) js vs"
    using js(3) by (rule list_all2_mono) (use slice in auto)
  then show ?case using js(1,2) by (simp add: decode_slice_def map_res_Inr)
next
  case (array n t)
  then obtain js vs where js: "j = JArr js" "v = VStruct vs" "length js = n"
    "list_all2 (documents D t) js vs" by auto
  have "list_all2 (\<lambda>p. documents D (fst p) (snd p)) (zip (replicate n t) js) vs"
    using js(3,4) by (simp add: list_all2_conv_all_nth)
  then have "zip_res (map (decode D) (replicate n t)) js (map (zero D) (replicate n t)) = Inr vs"
    by (rule zip_res_documented [rotated]) (use array js in auto)
  moreover have "length vs = n" using js(3,4) by (auto dest: list_all2_lengthD)
  ultimately show ?case using js(1,2) by (simp add: decode_array_def vals_def map_replicate)
next
  case (map_of t)
  then obtain kvs m where m: "j = JObj kvs" "v = VMap (Some m)" "distinct (map fst kvs)"
    "list_all2 (\<lambda>(k, j) (l, x). k = l \<and> documents D t j x) kvs m" by auto
  have "list_all2 (\<lambda>p q. (case p of (k, j) \<Rightarrow> bind_res (decode D t j (zero D t)) (\<lambda>v. Inr (k, v))) = Inr q)
      kvs m"
    using m(4) by (rule list_all2_mono) (use map_of in \<open>auto split: prod.splits\<close>)
  moreover have "map fst m = map fst kvs" using m(4)
    by (induction rule: list_all2_induct) auto
  ultimately show ?case using m(1-3) fold_update_new [of "[]" m]
    by (auto simp: decode_map_def map_res_Inr)
next
  case (struct fs)
  let ?tags = "map (fst \<circ> snd) fs"
  obtain kvs vs where kv: "j = JObj kvs" "v = VStruct vs" "distinct (map fst kvs)"
    "\<forall>(k, j) \<in> set kvs. k \<in> set ?tags \<or> field_index ?tags k = None"
    "list_all2 (\<lambda>f x. case map_of kvs (fst (snd f)) of
       None \<Rightarrow> x = zero D (ftype f) | Some j \<Rightarrow> documents D (ftype f) j x) fs vs"
    using struct.prems(2) by (auto simp: documents_struct)
  have len: "length vs = length fs" using kv(5) by (simp add: list_all2_lengthD)
  have all: "case map_of kvs (?tags ! i) of None \<Rightarrow> map (\<lambda>f. zero D (ftype f)) fs ! i = vs ! i
      | Some j \<Rightarrow> (map (\<lambda>f. decode D (ftype f)) fs ! i) j (map (\<lambda>f. zero D (ftype f)) fs ! i) = Inr (vs ! i)"
    if "i < length ?tags" for i
  proof -
    have i: "i < length fs" using that by simp
    then have w: "wf_type (ftype (fs ! i))" using struct.prems(1) by (simp add: struct_simps)
    have "case map_of kvs (fst (snd (fs ! i))) of None \<Rightarrow> vs ! i = zero D (ftype (fs ! i))
      | Some j \<Rightarrow> documents D (ftype (fs ! i)) j (vs ! i)"
      using kv(5) i by (auto simp: list_all2_conv_all_nth)
    then show ?thesis using struct.IH [OF _ w] i by (auto split: option.splits)
  qed
  have "decode_members ?tags (map (\<lambda>f. decode D (ftype f)) fs) kvs (map (\<lambda>f. zero D (ftype f)) fs) = Inr vs"
    by (rule members_documented) (use struct.prems(1) kv(3,4) len all in \<open>auto simp: struct_simps\<close>)
  then show ?case using kv(1,2) by (simp add: struct_simps decode_struct_def vals_def)
next
  case (tuple e x ts)
  then obtain js vs where js: "j = JArr js" "v = VStruct vs" "length js = length ts"
    "list_all2 (\<lambda>p. documents D (fst p) (snd p)) (zip ts js) vs" by (auto simp: documents_tuple)
  have "zip_res (map (decode D) ts) js (map (zero D) ts) = Inr vs"
    by (rule zip_res_documented [OF _ js(4,3)]) (use tuple in \<open>auto simp: struct_simps\<close>)
  then show ?case using js(1-3) by (simp add: decode_tuple_def raw_tuple_def vals_def)
qed (auto simp: decode_string_def decode_bool_def decode_int_def decode_decimal_def decode_ptr_def in_i64_def)

section \<open>Methods that occur more than once\<close>

definition is_nil :: "'d gval \<Rightarrow> bool" where
  "is_nil v = (case v of VPtr p \<Rightarrow> p = None | VSlice p \<Rightarrow> p = None | VMap p \<Rightarrow> p = None | _ \<Rightarrow> False)"

text \<open>The tagged unions: the wire struct is decoded afresh, and exactly one of its pointers must be set.\<close>

definition exactly_one :: "string \<Rightarrow> 'd gotype \<Rightarrow> 'd decimal_text \<Rightarrow> 'd gsetter" where
  "exactly_one e t D j z =
     bind_res (decode D t j (zero D t)) (\<lambda>v.
     if length (filter (\<lambda>x. \<not> is_nil x) (vals v)) \<noteq> 1 then Inl e else Inr v)"

lemma decode_keeps: "wf_type t \<Longrightarrow> keeps t (decode D t)"
  by (auto simp: keeps_def intro: decode_typed)

lemma exactly_one_keeps [simp]: "wf_type t \<Longrightarrow> keeps t (exactly_one e t D)"
  by (auto simp: keeps_def exactly_one_def intro: decode_typed [OF _ zero_typed] split: if_splits)

text \<open>A union is accepted exactly when its wire struct is and one branch is set.\<close>

lemma exactly_one_accepts:
  "exactly_one e t D j z = Inr v \<longleftrightarrow>
   decode D t j (zero D t) = Inr v \<and> length (filter (\<lambda>x. \<not> is_nil x) (vals v)) = 1"
  by (auto simp: exactly_one_def split: if_splits)

text \<open>The tuples whose \<^verbatim>\<open>UnmarshalJSON\<close> says which element did not decode.\<close>

definition labelled :: "string \<Rightarrow> 'd gsetter \<Rightarrow> 'd gsetter" where
  "labelled e f j z = wrap_res e (f j z)"

lemma labelled_keeps [simp]: "keeps t f \<Longrightarrow> keeps t (labelled e f)"
  by (auto simp: keeps_def labelled_def wrap_res_ok)

text \<open>The fields of a struct value by their Go names.\<close>

definition field_at :: "(string \<times> string \<times> 'd gotype) list \<Rightarrow> string \<Rightarrow> nat" where
  "field_at fs n = the (index_of (\<lambda>f. fst f = n) fs)"

definition get :: "(string \<times> string \<times> 'd gotype) list \<Rightarrow> string \<Rightarrow> 'd gval \<Rightarrow> 'd gval" where
  "get fs n v = vals v ! field_at fs n"

definition put_field :: "(string \<times> string \<times> 'd gotype) list \<Rightarrow> string \<Rightarrow> 'd gval \<Rightarrow> 'd gval \<Rightarrow> 'd gval" where
  "put_field fs n x v = VStruct ((vals v)[field_at fs n := x])"

definition has_field :: "(string \<times> string \<times> 'd gotype) list \<Rightarrow> string \<Rightarrow> 'd gotype \<Rightarrow> bool" where
  "has_field fs n t \<longleftrightarrow> field_at fs n < length fs \<and> ftype (fs ! field_at fs n) = t"

lemma get_typed:
  assumes "has_type (TStruct fs) v" "has_field fs n t"
  shows "has_type t (get fs n v)"
  using assms by (auto simp: struct_simps get_def has_field_def vals_def list_all2_conv_all_nth
      split: gval.splits)

lemma put_field_typed:
  assumes "has_type (TStruct fs) v" "has_field fs n t" "has_type t x"
  shows "has_type (TStruct fs) (put_field fs n x v)"
  using assms by (auto simp: struct_simps put_field_def has_field_def vals_def list_all2_conv_all_nth
      nth_list_update split: gval.splits)

lemmas field_simps = has_field_def field_at_def

text \<open>The text of a raw message is empty when the member was missing.\<close>

definition raw_of :: "'d gval \<Rightarrow> jval option" where
  "raw_of v = (case v of VRaw r \<Rightarrow> r | _ \<Rightarrow> None)"

definition text_of :: "'d gval \<Rightarrow> string" where
  "text_of v = (case v of VString s \<Rightarrow> s | _ \<Rightarrow> [])"

definition elements :: "'d gval \<Rightarrow> 'd gval list" where
  "elements v = (case v of VSlice (Some vs) \<Rightarrow> vs | _ \<Rightarrow> [])"

lemma elements_typed: "has_type (TSlice t) v \<Longrightarrow> list_all (has_type t) (elements v)"
  by (auto simp: elements_def split: gval.splits option.splits)

text \<open>A \<^verbatim>\<open>map[string]json.RawMessage\<close>.\<close>

definition raw_members :: "'d gval \<Rightarrow> (string \<times> jval) list" where
  "raw_members v = (case v of VMap (Some m) \<Rightarrow> map (\<lambda>(k, x). (k, the (raw_of x))) m | _ \<Rightarrow> [])"

text \<open>\<^verbatim>\<open>len(raw) == 0 || string(raw) == "null"\<close>.\<close>

definition raw_empty :: "jval option \<Rightarrow> bool" where
  "raw_empty r \<longleftrightarrow> r = None \<or> r = Some JNull"

end
