(* ===== verification/InfoClient.thy ===== *)
theory InfoClient
  imports GoJson Transport
begin

text \<open>
  \<^verbatim>\<open>info/client.go\<close>: one call of the info endpoint. The HTTP client, the alternative request
  transport, the clock and the context are an oracle: what attempt \<open>k\<close> comes back with, and whether the
  context ends during the pause after it. The JSON parser is a parameter; what it yields is decoded by
  \<open>GoJson\<close>. The model records the requests that leave and the pauses between them.
\<close>

lemma requestType_JObj [simp]:
  "requestType (JObj ms) = as_string (map_of (rev ms) ''type'')"
  by (simp add: requestType_def payloadObject_def object_def)

lemma as_string_Some [simp]: "as_string (Some (JStr s)) = s"
  by (simp add: as_string_def)

section \<open>Answers and errors\<close>

text \<open>\<^verbatim>\<open>Do\<close> fails, gives no response, or gives a status, the \<^verbatim>\<open>Retry-After\<close> header and a body.\<close>

record http_response =
  hr_Status :: int
  hr_RetryAfter :: string
  hr_Body :: "string res"

datatype http_outcome =
    Do_Error string
  | No_Response
  | Responds http_response

datatype call_error =
    APIError int string string string
  | Other_Error string

text \<open>The text of an API error.\<close>

fun APIError_Error :: "call_error \<Rightarrow> string" where
  "APIError_Error (APIError status code message body) =
     (if code \<noteq> [] then ''hyperliquid API error ('' @ show_int status @ '', '' @ code @ ''): '' @ message
      else ''hyperliquid API error ('' @ show_int status @ ''): '' @ message)"
| "APIError_Error (Other_Error e) = e"

type_synonym 'a call_res = "call_error + 'a"

definition other :: "'a res \<Rightarrow> 'a call_res" where
  "other r = map_sum Other_Error (\<lambda>x. x) r"

lemma other_simps [simp]: "other (Inr x) = Inr x" "other (Inl e) = Inl (Other_Error e)"
  by (simp_all add: other_def)

lemma other_Inr [simp]: "other r = Inr x \<longleftrightarrow> r = Inr x"
  by (cases r) (simp_all add: other_def)

definition ErrUnexpectedResponse :: string where
  "ErrUnexpectedResponse = ''unexpected API response''"

text \<open>\<^verbatim>\<open>json.Unmarshal\<close> of a text: it is parsed before anything is stored.\<close>

definition unmarshal_text :: "(string \<Rightarrow> jval res) \<Rightarrow> 'd decimal_text \<Rightarrow> 'd gotype \<Rightarrow> string \<Rightarrow> 'd gval res" where
  "unmarshal_text parse D t raw = bind_res (parse raw) (\<lambda>j. unmarshal_into D t (Some j))"

text \<open>\<^verbatim>\<open>jsonutil.Decode\<close> has an error text of its own for an empty response.\<close>

definition jsonutil_Decode :: "(string \<Rightarrow> jval res) \<Rightarrow> 'd decimal_text \<Rightarrow> 'd gotype \<Rightarrow> string \<Rightarrow> 'd gval res" where
  "jsonutil_Decode parse D t raw =
     (if raw = [] then Inl ''empty JSON response'' else unmarshal_text parse D t raw)"

lemma jsonutil_Decode_typed:
  "wf_type t \<Longrightarrow> jsonutil_Decode parse D t raw = Inr v \<Longrightarrow> raw \<noteq> [] \<and> has_type t v"
  by (cases "parse raw") (auto simp: jsonutil_Decode_def unmarshal_text_def
      dest: unmarshal_typed split: if_splits)

definition structured_fields :: "(string \<times> string \<times> 'd gotype) list" where
  "structured_fields = [(''Code'', ''code'', TString), (''Message'', ''message'', TString)]"

text \<open>
  The error for a status outside 200..299: when the body decodes as an object its members replace the
  default message, also when they are missing.
\<close>

definition apiError :: "(string \<Rightarrow> jval res) \<Rightarrow> 'd decimal_text \<Rightarrow> int \<Rightarrow> string \<Rightarrow> call_error" where
  "apiError parse D status raw =
     (case unmarshal_text parse D (TStruct structured_fields) raw of
        Inl e \<Rightarrow> APIError status [] raw raw
      | Inr s \<Rightarrow> APIError status (text_of (get structured_fields ''Code'' s))
          (text_of (get structured_fields ''Message'' s)) raw)"

definition read_response :: "(string \<Rightarrow> jval res) \<Rightarrow> 'd decimal_text \<Rightarrow> 'd gotype \<Rightarrow> http_response \<Rightarrow>
    'd gval call_res" where
  "read_response parse D t resp =
     (case hr_Body resp of
        Inl e \<Rightarrow> Inl (Other_Error e)
      | Inr raw \<Rightarrow>
          if hr_Status resp < 200 \<or> 300 \<le> hr_Status resp then Inl (apiError parse D (hr_Status resp) raw)
          else if raw = [] then Inl (Other_Error (ErrUnexpectedResponse @ '': empty response''))
          else other (wrap_res ErrUnexpectedResponse (unmarshal_text parse D t raw)))"

section \<open>The retry loop over HTTP\<close>

definition retryable :: "int \<Rightarrow> bool" where
  "retryable status \<longleftrightarrow> status = 429 \<or> status = 502 \<or> status = 503 \<or> status = 504"

text \<open>
  The oracle of one call, and the client's configuration. \<open>hw_Ended k\<close> is the context's error when it
  ends during the pause after attempt \<open>k\<close>.
\<close>

record http_world =
  hw_Outcome :: "nat \<Rightarrow> http_outcome"
  hw_Ended :: "nat \<Rightarrow> string option"

record request_world =
  rw_Outcome :: "nat \<Rightarrow> ((int option \<times> string) + jval)"
  rw_Ended :: "nat \<Rightarrow> string option"

record info_config =
  ic_Policy :: RetryPolicy
  ic_Jitter :: "int \<Rightarrow> int"
  ic_ParseInt :: "string \<Rightarrow> int option"
  ic_ParseTime :: "string \<Rightarrow> int option"
  ic_SinceNow :: "int \<Rightarrow> int"
  ic_Parse :: "string \<Rightarrow> jval res"

definition policy_of :: "info_config \<Rightarrow> RetryPolicy" where
  "policy_of c = (if rp_MaxAttempts (ic_Policy c) \<le> 0 then DefaultRetryPolicy (ic_Jitter c) else ic_Policy c)"

definition pause :: "info_config \<Rightarrow> nat \<Rightarrow> string \<Rightarrow> int" where
  "pause c attempt header =
     (case RetryAfterDelay (ic_ParseInt c) (ic_ParseTime c) (ic_SinceNow c) (policy_of c) header of
        Some d \<Rightarrow> d
      | None \<Rightarrow> Delay (policy_of c) (int attempt))"

text \<open>
  The loop from \<open>attempt\<close> on with \<open>left\<close> attempts to go: the pauses made, the requests sent, and the
  response with which the loop is left.
\<close>

fun http_loop :: "info_config \<Rightarrow> http_world \<Rightarrow> nat \<Rightarrow> nat \<Rightarrow> int list \<times> nat \<times> http_response res" where
  "http_loop c w 0 attempt = ([], 0, Inl ''no attempt left'')"
| "http_loop c w (Suc left) attempt =
     (case hw_Outcome w attempt of
        Do_Error e \<Rightarrow> ([], 1, Inl e)
      | No_Response \<Rightarrow> ([], 1, Inl (ErrUnexpectedResponse @ '': nil HTTP response''))
      | Responds resp \<Rightarrow>
          if \<not> retryable (hr_Status resp) \<or> left = 0 then ([], 1, Inr resp)
          else let d = pause c attempt (hr_RetryAfter resp) in
            case hw_Ended w attempt of
              Some e \<Rightarrow> ([d], 1, Inl e)
            | None \<Rightarrow> (case http_loop c w left (attempt + 1) of
                (ds, n, r) \<Rightarrow> (d # ds, n + 1, r)))"

definition info_call_http :: "info_config \<Rightarrow> 'd decimal_text \<Rightarrow> http_world \<Rightarrow> 'd gotype \<Rightarrow>
    int list \<times> nat \<times> 'd gval call_res" where
  "info_call_http c D w t =
     (case http_loop c w (nat (rp_MaxAttempts (policy_of c))) 0 of
        (ds, n, Inl e) \<Rightarrow> (ds, n, Inl (Other_Error e))
      | (ds, n, Inr resp) \<Rightarrow> (ds, n, read_response (ic_Parse c) D t resp))"

section \<open>The retry loop over another request transport\<close>

definition retryableRequestError :: "int option \<times> string \<Rightarrow> bool" where
  "retryableRequestError err = (case fst err of None \<Rightarrow> False | Some status \<Rightarrow> retryable status)"

text \<open>
  \<^verbatim>\<open>Request\<close> decodes its answer into the target; its error may carry a status code.
\<close>

definition request_outcome :: "'d decimal_text \<Rightarrow> 'd gotype \<Rightarrow> (int option \<times> string) + jval \<Rightarrow>
    (int option \<times> string) + 'd gval" where
  "request_outcome D t r =
     (case r of
        Inl e \<Rightarrow> Inl e
      | Inr j \<Rightarrow> map_sum (Pair None) (\<lambda>x. x) (unmarshal_into D t (Some j)))"

fun request_loop :: "info_config \<Rightarrow> (nat \<Rightarrow> (int option \<times> string) + 'd gval) \<Rightarrow> (nat \<Rightarrow> string option) \<Rightarrow>
    nat \<Rightarrow> nat \<Rightarrow> int list \<times> nat \<times> ((int option \<times> string) + 'd gval)" where
  "request_loop c outcome ended 0 attempt = ([], 0, Inl (None, ''no attempt left''))"
| "request_loop c outcome ended (Suc left) attempt =
     (case outcome attempt of
        Inr v \<Rightarrow> ([], 1, Inr v)
      | Inl e \<Rightarrow>
          if left = 0 \<or> \<not> retryableRequestError e then ([], 1, Inl e)
          else let d = Delay (policy_of c) (int attempt) in
            case ended attempt of
              Some e \<Rightarrow> ([d], 1, Inl (None, e))
            | None \<Rightarrow> (case request_loop c outcome ended left (attempt + 1) of
                (ds, n, r) \<Rightarrow> (d # ds, n + 1, r)))"

definition info_call_request :: "info_config \<Rightarrow> 'd decimal_text \<Rightarrow> request_world \<Rightarrow> 'd gotype \<Rightarrow>
    int list \<times> nat \<times> ((int option \<times> string) + 'd gval)" where
  "info_call_request c D w t =
     request_loop c (\<lambda>k. request_outcome D t (rw_Outcome w k)) (rw_Ended w)
       (nat (rp_MaxAttempts (policy_of c))) 0"

section \<open>How often a request is sent\<close>

lemma policy_attempts: "0 < rp_MaxAttempts (policy_of c)"
  by (simp add: policy_of_def DefaultRetryPolicy_def)

definition pauses_bounded :: "info_config \<Rightarrow> int list \<Rightarrow> bool" where
  "pauses_bounded c ds \<longleftrightarrow> (\<forall>d \<in> set ds. 0 \<le> d \<and> d \<le> rp_MaxDelay (normalized (policy_of c)))"

lemma pause_bounded:
  assumes "in_i64 (rp_MaxDelay (policy_of c))"
  shows "0 \<le> pause c k h \<and> pause c k h \<le> rp_MaxDelay (normalized (policy_of c))"
  using retry_delay_bounded [OF assms] RetryAfter_bounded
  by (auto simp: pause_def split: option.splits)

definition retried :: "http_world \<Rightarrow> nat \<Rightarrow> bool" where
  "retried w k \<longleftrightarrow> (\<exists>resp. hw_Outcome w k = Responds resp \<and> retryable (hr_Status resp))"

lemma http_loop_bounded:
  assumes "in_i64 (rp_MaxDelay (policy_of c))"
  shows "http_loop c w (Suc left) a = (ds, n, r) \<Longrightarrow>
    1 \<le> n \<and> n \<le> Suc left \<and> pauses_bounded c ds \<and> n \<le> length ds + 1 \<and> length ds \<le> n \<and>
    (\<forall>i < n - 1. retried w (a + i)) \<and> (n \<le> left \<and> n = length ds + 1 \<longrightarrow> \<not> retried w (a + n - 1))"
proof (induction left arbitrary: a ds n r)
  case 0
  then show ?case by (auto simp: pauses_bounded_def Let_def split: http_outcome.splits if_splits option.splits)
next
  case (Suc left)
  show ?case
  proof (cases "\<exists>resp. hw_Outcome w a = Responds resp \<and> retryable (hr_Status resp) \<and> hw_Ended w a = None")
    case False
    then show ?thesis using Suc.prems pause_bounded [OF assms]
      by (auto simp: pauses_bounded_def Let_def retried_def simp del: http_loop.simps(2)
          simp: http_loop.simps(2) [of c w "Suc left"]
          split: http_outcome.splits if_splits option.splits prod.splits)
  next
    case True
    then obtain resp ds' n' where more: "hw_Outcome w a = Responds resp" "retryable (hr_Status resp)"
      "http_loop c w (Suc left) (a + 1) = (ds', n', r)"
      "ds = pause c a (hr_RetryAfter resp) # ds'" "n = n' + 1"
      using Suc.prems
      by (auto simp: Let_def simp del: http_loop.simps(2) simp: http_loop.simps(2) [of c w "Suc left"]
          split: prod.splits)
    note ih = Suc.IH [OF more(3)]
    have "retried w (a + i)" if "i < n - 1" for i
      using that ih more by (cases i) (auto simp: retried_def)
    then show ?thesis using ih more pause_bounded [OF assms] by (auto simp: pauses_bounded_def)
  qed
qed

lemma request_loop_bounded:
  assumes "in_i64 (rp_MaxDelay (policy_of c))"
  shows "request_loop c outcome ended (Suc left) a = (ds, n, r) \<Longrightarrow>
    1 \<le> n \<and> n \<le> Suc left \<and> pauses_bounded c ds \<and>
    (\<forall>i < n - 1. \<exists>e. outcome (a + i) = Inl e \<and> retryableRequestError e) \<and>
    (\<forall>v. r = Inr v \<longrightarrow> outcome (a + n - 1) = Inr v)"
proof (induction left arbitrary: a ds n r)
  case 0
  then show ?case by (auto simp: pauses_bounded_def split: sum.splits if_splits)
next
  case (Suc left)
  show ?case
  proof (cases "\<exists>e. outcome a = Inl e \<and> retryableRequestError e \<and> ended a = None")
    case False
    then show ?thesis using Suc.prems retry_delay_bounded [OF assms]
      by (auto simp: pauses_bounded_def Let_def simp del: request_loop.simps(2)
          simp: request_loop.simps(2) [of c outcome ended "Suc left"]
          split: sum.splits if_splits option.splits prod.splits)
  next
    case True
    then obtain e ds' n' where more: "outcome a = Inl e" "retryableRequestError e"
      "request_loop c outcome ended (Suc left) (a + 1) = (ds', n', r)"
      "ds = Delay (policy_of c) (int a) # ds'" "n = n' + 1"
      using Suc.prems
      by (auto simp: Let_def simp del: request_loop.simps(2)
          simp: request_loop.simps(2) [of c outcome ended "Suc left"] split: prod.splits)
    note ih = Suc.IH [OF more(3)]
    have "\<exists>e. outcome (a + i) = Inl e \<and> retryableRequestError e" if "i < n - 1" for i
      using that ih more by (cases i) auto
    then show ?thesis using ih more retry_delay_bounded [OF assms] by (auto simp: pauses_bounded_def)
  qed
qed

text \<open>
  C22: a call sends its request at least once and at most \<^verbatim>\<open>MaxAttempts\<close> times,
  pauses only between attempts (once more when the context ends in a pause) and each time between zero
  and the policy's largest delay; every attempt but the last was answered with one of the statuses 429,
  502, 503 and 504, and it goes on until another outcome or the last attempt.
\<close>

theorem info_call_bounded:
  assumes "in_i64 (rp_MaxDelay (policy_of c))"
    and "info_call_http c D w t = (ds, n, r)"
  shows "1 \<le> n \<and> int n \<le> rp_MaxAttempts (policy_of c) \<and> pauses_bounded c ds \<and>
    n \<le> length ds + 1 \<and> length ds \<le> n \<and> (\<forall>i < n - 1. retried w i) \<and>
    (n = length ds + 1 \<and> int n < rp_MaxAttempts (policy_of c) \<longrightarrow> \<not> retried w (n - 1))"
proof -
  obtain left where left: "nat (rp_MaxAttempts (policy_of c)) = Suc left"
    using policy_attempts [of c] by (metis gr0_implies_Suc zero_less_nat_eq)
  obtain r' where "http_loop c w (Suc left) 0 = (ds, n, r')"
    using assms(2) left by (auto simp: info_call_http_def split: prod.splits sum.splits)
  from http_loop_bounded [OF assms(1) this] show ?thesis using left by auto
qed

definition sample_config :: info_config where
  "sample_config = \<lparr> ic_Policy = \<lparr> rp_MaxAttempts = 0, rp_BaseDelay = 0, rp_MaxDelay = 0, rp_Jitter = None \<rparr>,
     ic_Jitter = (\<lambda>_. 0), ic_ParseInt = (\<lambda>_. None), ic_ParseTime = (\<lambda>_. None), ic_SinceNow = (\<lambda>t. t),
     ic_Parse = (\<lambda>s. if s = ''5'' then Inr (JInt 5) else Inl ''invalid'') \<rparr>"

definition sample_decimals :: "int decimal_text" where
  "sample_decimals = \<lparr> NewFromString = (\<lambda>_. None), decimal_String = (\<lambda>_. []), decimal_zero = 0 \<rparr>"

text \<open>The server is overloaded twice and then answers.\<close>

definition sample_world :: http_world where
  "sample_world = \<lparr> hw_Outcome = (\<lambda>k. Responds \<lparr> hr_Status = (if k < 2 then 503 else 200),
       hr_RetryAfter = [], hr_Body = Inr ''5'' \<rparr>), hw_Ended = (\<lambda>_. None) \<rparr>"

lemma sample_call:
  "info_call_http sample_config sample_decimals sample_world TInt = ([100000000, 200000000], 3, Inr (VInt 5))"
  by (simp add: info_call_http_def policy_of_def sample_config_def DefaultRetryPolicy_def numeral_3_eq_3
      sample_world_def retryable_def pause_def RetryAfterDelay_def Delay_def normalized_def Let_def
      read_response_def unmarshal_text_def unmarshal_into_def decode_int_def other_def in_i64_def
      min_i64_def max_i64_def wrap_i64_def)

theorem info_call_bounded_witness:
  "retried sample_world 0 \<and> retried sample_world 1 \<and> pauses_bounded sample_config [100000000, 200000000]"
proof -
  have "in_i64 (rp_MaxDelay (policy_of sample_config))"
    by (simp add: policy_of_def sample_config_def DefaultRetryPolicy_def in_i64_def min_i64_def max_i64_def)
  from info_call_bounded [OF this sample_call]
  have "\<forall>i < 2. retried sample_world i" "pauses_bounded sample_config [100000000, 200000000]" by simp_all
  then show ?thesis by simp
qed

section \<open>What a call returns\<close>

lemma http_loop_retries:
  assumes "\<forall>i < k. retried w (a + i) \<and> hw_Ended w (a + i) = None" "k < left"
    and "hw_Outcome w (a + k) = Responds resp" "\<not> retryable (hr_Status resp)"
  shows "\<exists>ds. http_loop c w left a = (ds, k + 1, Inr resp) \<and> length ds = k"
  using assms
proof (induction k arbitrary: left a)
  case 0
  then show ?case by (cases left) auto
next
  case (Suc k)
  from Suc.prems(1) obtain r where r: "hw_Outcome w a = Responds r" "retryable (hr_Status r)"
    "hw_Ended w a = None" by (force simp: retried_def)
  obtain l where l: "left = Suc l" "k < l" using Suc.prems(2) by (cases left) auto
  have "\<exists>ds. http_loop c w l (a + 1) = (ds, k + 1, Inr resp) \<and> length ds = k"
  proof (rule Suc.IH)
    show "\<forall>i < k. retried w (a + 1 + i) \<and> hw_Ended w (a + 1 + i) = None"
      using Suc.prems(1) by (metis Suc_less_eq add.assoc add_Suc_right plus_1_eq_Suc)
  qed (use Suc.prems l in auto)
  then show ?case using r l by (auto simp: Let_def)
qed

text \<open>
  C19: when the first attempts are turned away with a retryable status
  and the next one within the policy's limit is answered with a body that is a documented form of a value
  of the response type, then the call returns exactly that value, after exactly that many requests.
\<close>

theorem documented_answers_are_returned:
  assumes "\<forall>i < k. retried w i \<and> hw_Ended w i = None" "int k < rp_MaxAttempts (policy_of c)"
    and "hw_Outcome w k = Responds resp" "200 \<le> hr_Status resp" "hr_Status resp < 300"
    and "hr_Body resp = Inr raw" "raw \<noteq> []" "ic_Parse c raw = Inr j"
    and "wf_type t" "documents D t j v"
  shows "\<exists>ds. info_call_http c D w t = (ds, k + 1, Inr v) \<and> length ds = k"
proof -
  have "\<exists>ds. http_loop c w (nat (rp_MaxAttempts (policy_of c))) 0 = (ds, k + 1, Inr resp) \<and> length ds = k"
    by (rule http_loop_retries) (use assms(1-5) in \<open>auto simp: retryable_def\<close>)
  moreover have "read_response (ic_Parse c) D t resp = Inr v"
    using assms(4-8) documented_decodes [OF assms(9,10)]
    by (simp add: read_response_def unmarshal_text_def unmarshal_into_def other_def)
  ultimately show ?thesis by (auto simp: info_call_http_def)
qed

theorem documented_answers_are_returned_witness:
  "\<exists>ds. info_call_http sample_config sample_decimals sample_world TInt = (ds, 3, Inr (VInt 5)) \<and> length ds = 2"
  using documented_answers_are_returned [of 2 sample_world sample_config _ "''5''" "JInt 5" TInt sample_decimals
      "VInt 5"]
  by (simp add: sample_world_def sample_config_def retried_def retryable_def policy_of_def DefaultRetryPolicy_def
      in_i64_def min_i64_def max_i64_def numeral_3_eq_3)

lemma read_response_typed:
  "wf_type t \<Longrightarrow> read_response parse D t resp = Inr v \<Longrightarrow> has_type t v"
  by (auto simp: read_response_def unmarshal_text_def split: sum.splits if_splits intro: unmarshal_typed)

lemma info_call_http_typed:
  "wf_type t \<Longrightarrow> info_call_http c D w t = (ds, n, Inr v) \<Longrightarrow> has_type t v"
  by (auto simp: info_call_http_def split: prod.splits sum.splits intro: read_response_typed)

lemma info_call_request_typed:
  assumes "wf_type t" "info_call_request c D w t = (ds, n, Inr v)"
  shows "has_type t v"
proof -
  have "request_loop c outcome ended left a = (ds, n, Inr v) \<Longrightarrow> \<exists>k. outcome k = Inr v"
    for outcome :: "nat \<Rightarrow> (int option \<times> string) + 'd gval" and ended left a ds n v
    by (induction left arbitrary: a ds n)
      (auto simp: Let_def split: sum.splits if_splits option.splits prod.splits)
  then obtain k where "request_outcome D t (rw_Outcome w k) = Inr v"
    using assms(2) unfolding info_call_request_def by blast
  then show ?thesis using unmarshal_typed [OF assms(1)]
    by (auto simp: request_outcome_def map_sum_def split: sum.splits)
qed

text \<open>An error body that is an object without a message loses the message that the text gave.\<close>

lemma error_message_lost:
  assumes "parse raw = Inr (JObj [(''error'', JStr e)])"
  shows "apiError parse D status raw = APIError status [] [] raw"
proof -
  have "field_index [''code'', ''message''] ''error'' = None" by code_simp
  then show ?thesis
    using assms by (simp add: apiError_def unmarshal_text_def unmarshal_into_def structured_fields_def
        decode_struct_type zero_struct decode_struct_def vals_def get_def field_at_def text_of_def)
qed

end
