(* ===== verification/StreamModels.thy ===== *)
theory StreamModels
  imports GoJson
begin

text \<open>
  The payload types that the info endpoint and the WebSocket streams share: the structs of
  \<^verbatim>\<open>types/stream_models.go\<close> and \<^verbatim>\<open>types/active_asset_data.go\<close>, each as the \<open>gotype\<close> that
  \<^verbatim>\<open>encoding/json\<close> fills. The name of a type is its Go name.
\<close>

definition Leverage_type :: "'d gotype" where
  "Leverage_type = TStruct
    [(''Type'', ''type'', TString),
     (''Value'', ''value'', TInt),
     (''RawUsd'', ''rawUsd'', (TPtr TDecimal))]"

definition ActiveAssetDataResponse_type :: "'d gotype" where
  "ActiveAssetDataResponse_type = TStruct
    [(''User'', ''user'', TString),
     (''Coin'', ''coin'', TString),
     (''Leverage'', ''leverage'', Leverage_type),
     (''MaxTradeSizes'', ''maxTradeSzs'', (TArray 2 TDecimal)),
     (''AvailableToTrade'', ''availableToTrade'', (TArray 2 TDecimal)),
     (''MarkPx'', ''markPx'', TDecimal)]"

definition OpenOrder_fields :: "(string \<times> string \<times> 'd gotype) list" where
  "OpenOrder_fields =
    [(''Coin'', ''coin'', TString),
     (''LimitPx'', ''limitPx'', TDecimal),
     (''OID'', ''oid'', TUint64),
     (''Side'', ''side'', TString),
     (''Size'', ''sz'', TDecimal),
     (''Timestamp'', ''timestamp'', TInt),
     (''Cloid'', ''cloid'', (TPtr TString))]"

definition OpenOrder_type :: "'d gotype" where
  "OpenOrder_type = TStruct OpenOrder_fields"

definition FrontendOpenOrder_fields :: "(string \<times> string \<times> 'd gotype) list" where
  "FrontendOpenOrder_fields = OpenOrder_fields @
    [(''IsPositionTPSL'', ''isPositionTpsl'', TBool),
     (''IsTrigger'', ''isTrigger'', TBool),
     (''OrderType'', ''orderType'', TString),
     (''OriginalSize'', ''origSz'', TDecimal),
     (''ReduceOnly'', ''reduceOnly'', TBool),
     (''TimeInForce'', ''tif'', TString),
     (''TriggerCondition'', ''triggerCondition'', TString),
     (''TriggerPx'', ''triggerPx'', TDecimal)]"

text \<open>
  The envelope's own \<^verbatim>\<open>order\<close> member replaces the embedded base order, also when it is missing.
\<close>

definition nested_fields :: "(string \<times> string \<times> 'd gotype) list" where
  "nested_fields = (''Order'', ''order'', OpenOrder_type) # FrontendOpenOrder_fields"

definition FrontendOpenOrder_UnmarshalJSON :: "'d decimal_text \<Rightarrow> jval \<Rightarrow> 'd gval \<Rightarrow> 'd gval res" where
  "FrontendOpenOrder_UnmarshalJSON D j z =
     bind_res (unmarshal_into D (TStruct FrontendOpenOrder_fields) (Some j)) (\<lambda>decoded.
     if get FrontendOpenOrder_fields ''OID'' decoded \<noteq> VInt 0 then Inr decoded
     else bind_res (unmarshal_into D (TStruct nested_fields) (Some j)) (\<lambda>nested.
       Inr (VStruct (vals (get nested_fields ''Order'' nested) @
         drop (1 + length (OpenOrder_fields :: (string \<times> string \<times> 'd gotype) list)) (vals nested)))))"

definition FrontendOpenOrder_type :: "'d gotype" where
  "FrontendOpenOrder_type = TCustom (TStruct FrontendOpenOrder_fields) FrontendOpenOrder_UnmarshalJSON"

lemma OpenOrder_fields_wf:
  "wf_type OpenOrder_type" "wf_type (TStruct FrontendOpenOrder_fields)" "wf_type (TStruct nested_fields)"
  by (simp_all add: struct_simps OpenOrder_type_def OpenOrder_fields_def FrontendOpenOrder_fields_def
      nested_fields_def)

lemma FrontendOpenOrder_keeps:
  fixes D :: "'d decimal_text"
  shows "keeps (TStruct FrontendOpenOrder_fields) (FrontendOpenOrder_UnmarshalJSON D)"
  unfolding keeps_def
proof (intro allI impI, elim conjE)
  fix j and z v :: "'d gval"
  assume v: "FrontendOpenOrder_UnmarshalJSON D j z = Inr v"
  then obtain d where d: "unmarshal_into D (TStruct FrontendOpenOrder_fields) (Some j) = Inr d"
    by (auto simp: FrontendOpenOrder_UnmarshalJSON_def)
  show "has_type (TStruct FrontendOpenOrder_fields) v"
  proof (cases "get FrontendOpenOrder_fields ''OID'' d = VInt 0")
    case False
    then show ?thesis
      using v d unmarshal_typed [OF OpenOrder_fields_wf(2) d]
      by (simp add: FrontendOpenOrder_UnmarshalJSON_def)
  next
    case True
    with v d obtain n where n: "unmarshal_into D (TStruct nested_fields) (Some j) = Inr n"
      "v = VStruct (vals (get nested_fields ''Order'' n) @ drop (1 + length (OpenOrder_fields :: (string \<times> string \<times> 'd gotype) list)) (vals n))"
      by (auto simp: FrontendOpenOrder_UnmarshalJSON_def)
    have t: "has_type (TStruct nested_fields) n" by (rule unmarshal_typed [OF OpenOrder_fields_wf(3) n(1)])
    then have "has_type OpenOrder_type (get nested_fields ''Order'' n)"
      by (rule get_typed) (simp add: field_simps nested_fields_def)
    then have "list_all2 (\<lambda>f. has_type (ftype f)) OpenOrder_fields (vals (get nested_fields ''Order'' n))"
      by (auto simp: OpenOrder_type_def struct_simps vals_def split: gval.splits)
    moreover have "list_all2 (\<lambda>f. has_type (ftype f)) nested_fields (vals n)"
      using t by (auto simp: struct_simps vals_def split: gval.splits)
    then have "list_all2 (\<lambda>f. has_type (ftype f)) (drop (1 + length (OpenOrder_fields :: (string \<times> string \<times> 'd gotype) list)) nested_fields)
        (drop (1 + length (OpenOrder_fields :: (string \<times> string \<times> 'd gotype) list)) (vals n))"
      by (rule list_all2_dropI)
    moreover have "OpenOrder_fields @ drop (1 + length (OpenOrder_fields :: (string \<times> string \<times> 'd gotype) list)) nested_fields =
        FrontendOpenOrder_fields"
      by (simp add: nested_fields_def FrontendOpenOrder_fields_def OpenOrder_fields_def)
    ultimately have "list_all2 (\<lambda>f. has_type (ftype f)) FrontendOpenOrder_fields
        (vals (get nested_fields ''Order'' n) @ drop (1 + length (OpenOrder_fields :: (string \<times> string \<times> 'd gotype) list)) (vals n))"
      by (metis list_all2_appendI)
    then show ?thesis using n(2) by (simp add: struct_simps)
  qed
qed

lemma FrontendOpenOrder_wf [simp]: "wf_type FrontendOpenOrder_type"
  by (simp add: FrontendOpenOrder_type_def FrontendOpenOrder_keeps)

definition UserFill_type :: "'d gotype" where
  "UserFill_type = TStruct
    [(''ClosedPnl'', ''closedPnl'', TDecimal),
     (''Coin'', ''coin'', TString),
     (''Crossed'', ''crossed'', TBool),
     (''Dir'', ''dir'', TString),
     (''Hash'', ''hash'', TString),
     (''OID'', ''oid'', TUint64),
     (''Px'', ''px'', TDecimal),
     (''Side'', ''side'', TString),
     (''StartPosition'', ''startPosition'', TDecimal),
     (''Size'', ''sz'', TDecimal),
     (''Time'', ''time'', TInt),
     (''Fee'', ''fee'', TDecimal),
     (''FeeToken'', ''feeToken'', TString),
     (''Tid'', ''tid'', TUint64),
     (''Cloid'', ''cloid'', (TPtr TString))]"

definition HistoricalOrder_type :: "'d gotype" where
  "HistoricalOrder_type = TStruct
    [(''Order'', ''order'', FrontendOpenOrder_type),
     (''Status'', ''status'', TString),
     (''StatusTimestamp'', ''statusTimestamp'', TInt)]"

definition TwapSliceFill_type :: "'d gotype" where
  "TwapSliceFill_type = TStruct
    [(''Fill'', ''fill'', UserFill_type),
     (''TWAPID'', ''twapId'', TUint64)]"

definition AssetContext_type :: "'d gotype" where
  "AssetContext_type = TStruct
    [(''DayNtlVlm'', ''dayNtlVlm'', TDecimal),
     (''Funding'', ''funding'', TDecimal),
     (''MarkPx'', ''markPx'', TDecimal),
     (''MidPx'', ''midPx'', (TPtr TDecimal)),
     (''OpenInterest'', ''openInterest'', TDecimal),
     (''OraclePx'', ''oraclePx'', TDecimal),
     (''Premium'', ''premium'', (TPtr TDecimal)),
     (''PrevDayPx'', ''prevDayPx'', TDecimal),
     (''ImpactPxs'', ''impactPxs'', (TSlice (TPtr TDecimal)))]"

definition SpotAssetContext_type :: "'d gotype" where
  "SpotAssetContext_type = TStruct
    [(''DayNtlVlm'', ''dayNtlVlm'', TDecimal),
     (''MarkPx'', ''markPx'', (TPtr TDecimal)),
     (''MidPx'', ''midPx'', (TPtr TDecimal)),
     (''PrevDayPx'', ''prevDayPx'', (TPtr TDecimal)),
     (''CirculatingSupply'', ''circulatingSupply'', (TPtr TDecimal)),
     (''Coin'', ''coin'', TString)]"

definition MarginSummary_type :: "'d gotype" where
  "MarginSummary_type = TStruct
    [(''AccountValue'', ''accountValue'', TDecimal),
     (''TotalMarginUsed'', ''totalMarginUsed'', TDecimal),
     (''TotalNtlPos'', ''totalNtlPos'', TDecimal),
     (''TotalRawUsd'', ''totalRawUsd'', TDecimal)]"

definition Funding_type :: "'d gotype" where
  "Funding_type = TStruct
    [(''AllTime'', ''allTime'', TDecimal),
     (''SinceOpen'', ''sinceOpen'', TDecimal),
     (''SinceChange'', ''sinceChange'', TDecimal)]"

definition Position_fields :: "'d gotype \<Rightarrow> (string \<times> string \<times> 'd gotype) list" where
  "Position_fields liquidation =
    [(''Coin'', ''coin'', TString),
     (''CumFunding'', ''cumFunding'', Funding_type),
     (''EntryPx'', ''entryPx'', (TPtr TDecimal)),
     (''Leverage'', ''leverage'', Leverage_type),
     (''LiquidationPx'', ''liquidationPx'', liquidation),
     (''MarginUsed'', ''marginUsed'', TDecimal),
     (''MaxLeverage'', ''maxLeverage'', TInt),
     (''MaxTradeSizes'', ''maxTradeSzs'', (TArray 2 TDecimal)),
     (''PositionValue'', ''positionValue'', TDecimal),
     (''ReturnOnEquity'', ''returnOnEquity'', TDecimal),
     (''Szi'', ''szi'', TDecimal),
     (''UnrealizedPnl'', ''unrealizedPnl'', TDecimal)]"

text \<open>
  The wire struct embeds the position itself, so that its other fields are filled in place; only
  \<^verbatim>\<open>liquidationPx\<close> is kept as it was sent.
\<close>

abbreviation position_wire :: "(string \<times> string \<times> 'd gotype) list" where
  "position_wire \<equiv> Position_fields TRaw"

definition Position_UnmarshalJSON :: "'d decimal_text \<Rightarrow> jval \<Rightarrow> 'd gval \<Rightarrow> 'd gval res" where
  "Position_UnmarshalJSON D j z =
     bind_res (decode D (TStruct position_wire) j (put_field position_wire ''LiquidationPx'' (VRaw None) z))
     (\<lambda>wire.
       let raw = raw_of (get position_wire ''LiquidationPx'' wire);
         put = (\<lambda>px. Inr (put_field position_wire ''LiquidationPx'' (VPtr px) wire))
       in if raw_empty raw then put None
       else bind_res (unmarshal_into D TString raw) (\<lambda>s.
         if text_of s = ''NaN'' then put None
         else case NewFromString D (text_of s) of
             None \<Rightarrow> Inl (''liquidation price: can't convert '' @ text_of s @ '' to decimal'')
           | Some d \<Rightarrow> put (Some (VDecimal d))))"

definition Position_type :: "'d gotype" where
  "Position_type = TCustom (TStruct (Position_fields (TPtr TDecimal))) Position_UnmarshalJSON"

lemma put_liquidation:
  assumes "has_type (TStruct (Position_fields t)) v" "has_type u x"
  shows "has_type (TStruct (Position_fields u)) (put_field (Position_fields t) ''LiquidationPx'' x v)"
proof -
  have f: "field_at (Position_fields t) ''LiquidationPx'' = 4"
    by (simp add: field_at_def Position_fields_def)
  have u: "Position_fields u = (Position_fields t)[4 := (''LiquidationPx'', ''liquidationPx'', u)]"
    by (simp add: Position_fields_def)
  obtain vs where v: "v = VStruct vs" "list_all2 (\<lambda>f. has_type (ftype f)) (Position_fields t) vs"
    using assms(1) by (auto simp: struct_simps split: gval.splits)
  have "list_all2 (\<lambda>f. has_type (ftype f))
      ((Position_fields t)[4 := (''LiquidationPx'', ''liquidationPx'', u)]) (vs[4 := x])"
    using v(2) by (rule list_all2_update_cong) (use assms(2) in simp)
  then show ?thesis using v(1) unfolding u put_field_def f by (simp add: struct_simps vals_def)
qed

lemma Position_keeps: "keeps (TStruct (Position_fields (TPtr TDecimal))) (Position_UnmarshalJSON D)"
  unfolding keeps_def
proof (intro allI impI, elim conjE)
  fix j z v
  let ?t = "TStruct (Position_fields (TPtr TDecimal))"
  assume z: "has_type ?t z" and v: "Position_UnmarshalJSON D j z = Inr v"
  have start: "put_field position_wire ''LiquidationPx'' (VRaw None) z =
      put_field (Position_fields (TPtr TDecimal)) ''LiquidationPx'' (VRaw None) z"
    by (simp add: put_field_def field_at_def Position_fields_def)
  have "has_type (TStruct position_wire) (put_field position_wire ''LiquidationPx'' (VRaw None) z)"
    unfolding start by (rule put_liquidation [OF z]) simp
  moreover have "wf_type (TStruct position_wire)"
    by (simp add: struct_simps Position_fields_def Funding_type_def Leverage_type_def)
  ultimately have wire: "has_type (TStruct position_wire) w"
    if "decode D (TStruct position_wire) j (put_field position_wire ''LiquidationPx'' (VRaw None) z) = Inr w" for w
    using that by (blast intro: decode_typed)
  have "has_type ?t (put_field position_wire ''LiquidationPx'' (VPtr p) w)"
    if "has_type (TStruct position_wire) w" "p = None \<or> (\<exists>d. p = Some (VDecimal d))" for p w
    by (rule put_liquidation [OF that(1)]) (use that(2) in auto)
  with v wire show "has_type ?t v"
    by (auto simp: Position_UnmarshalJSON_def Let_def split: if_splits option.splits)
qed

lemma Position_wf [simp]: "wf_type Position_type"
  by (simp add: Position_type_def Position_keeps)

definition AssetPosition_type :: "'d gotype" where
  "AssetPosition_type = TStruct
    [(''Position'', ''position'', Position_type),
     (''Type'', ''type'', TString)]"

definition ClearinghouseStateResponse_type :: "'d gotype" where
  "ClearinghouseStateResponse_type = TStruct
    [(''AssetPositions'', ''assetPositions'', (TSlice AssetPosition_type)),
     (''CrossMaintenanceMarginUsed'', ''crossMaintenanceMarginUsed'', TDecimal),
     (''CrossMarginSummary'', ''crossMarginSummary'', MarginSummary_type),
     (''MarginSummary'', ''marginSummary'', MarginSummary_type),
     (''Time'', ''time'', TInt),
     (''Withdrawable'', ''withdrawable'', TDecimal)]"

definition TokenAvailableAfterMaintenance_fields :: "'d gotype list" where
  "TokenAvailableAfterMaintenance_fields = [TInt, TDecimal]"

definition TokenAvailableAfterMaintenance_type :: "'d gotype" where
  "TokenAvailableAfterMaintenance_type = TTuple ''available-after-maintenance pair must contain token and amount'' True TokenAvailableAfterMaintenance_fields"

definition TokenDecimalPair_fields :: "'d gotype list" where
  "TokenDecimalPair_fields = [TInt, TDecimal]"

definition TokenDecimalPair_type :: "'d gotype" where
  "TokenDecimalPair_type = TTuple ''token decimal pair must contain token and value'' True TokenDecimalPair_fields"

definition SpotEscrow_type :: "'d gotype" where
  "SpotEscrow_type = TStruct
    [(''Coin'', ''coin'', TString),
     (''Token'', ''token'', TInt),
     (''Total'', ''total'', TDecimal)]"

definition SpotBalance_type :: "'d gotype" where
  "SpotBalance_type = TStruct
    [(''Coin'', ''coin'', TString),
     (''Token'', ''token'', TInt),
     (''Hold'', ''hold'', TDecimal),
     (''Total'', ''total'', TDecimal),
     (''EntryNtl'', ''entryNtl'', (TPtr TDecimal)),
     (''SpotHold'', ''spotHold'', (TPtr TDecimal)),
     (''LTV'', ''ltv'', (TPtr TDecimal)),
     (''Borrowed'', ''borrowed'', (TPtr TDecimal)),
     (''Supplied'', ''supplied'', (TPtr TDecimal))]"

definition SpotClearinghouseStateResponse_type :: "'d gotype" where
  "SpotClearinghouseStateResponse_type = TStruct
    [(''PortfolioMarginEnabled'', ''portfolioMarginEnabled'', (TPtr TBool)),
     (''Balances'', ''balances'', (TSlice SpotBalance_type)),
     (''EVMEscrows'', ''evmEscrows'', (TSlice SpotEscrow_type)),
     (''PortfolioMarginRatio'', ''portfolioMarginRatio'', (TPtr TDecimal)),
     (''TokenToPortfolioBorrowRatio'', ''tokenToPortfolioBorrowRatio'', (TSlice TokenDecimalPair_type)),
     (''TokenToAvailableAfterMaintenance'', ''tokenToAvailableAfterMaintenance'', (TSlice TokenAvailableAfterMaintenance_type))]"

section \<open>Every declaration is well formed\<close>

lemma stream_wf1 [simp]:
  "wf_type Leverage_type"
  "wf_type ActiveAssetDataResponse_type"
  "wf_type OpenOrder_type"
  "wf_type UserFill_type"
  "wf_type HistoricalOrder_type"
  "wf_type TwapSliceFill_type"
  "wf_type AssetContext_type"
  "wf_type SpotAssetContext_type"
  "wf_type MarginSummary_type"
  "wf_type Funding_type"
  "wf_type AssetPosition_type"
  "wf_type ClearinghouseStateResponse_type"
  by (simp_all add: struct_simps Leverage_type_def ActiveAssetDataResponse_type_def
      OpenOrder_type_def OpenOrder_fields_def UserFill_type_def HistoricalOrder_type_def
      TwapSliceFill_type_def AssetContext_type_def SpotAssetContext_type_def MarginSummary_type_def
      Funding_type_def AssetPosition_type_def ClearinghouseStateResponse_type_def)

lemma stream_wf2 [simp]:
  "wf_type TokenAvailableAfterMaintenance_type"
  "wf_type TokenDecimalPair_type"
  "wf_type SpotEscrow_type"
  "wf_type SpotBalance_type"
  "wf_type SpotClearinghouseStateResponse_type"
  by (simp_all add: struct_simps TokenAvailableAfterMaintenance_type_def
      TokenAvailableAfterMaintenance_fields_def TokenDecimalPair_type_def
      TokenDecimalPair_fields_def SpotEscrow_type_def SpotBalance_type_def
      SpotClearinghouseStateResponse_type_def)

end
