(* ===== verification/InfoModels.thy ===== *)
theory InfoModels
  imports StreamModels
begin

text \<open>
  The response types of the info endpoint (\<^verbatim>\<open>info/*.go\<close>), each as the \<open>gotype\<close> that
  \<^verbatim>\<open>encoding/json\<close> fills. A struct with tags is a \<open>TStruct\<close>, an array-shaped one a \<open>TTuple\<close>, a
  tagged union \<open>exactly_one\<close> of its branches; the others carry their own \<^verbatim>\<open>UnmarshalJSON\<close>.
\<close>

definition AllMidsResponse_type :: "'d gotype" where
  "AllMidsResponse_type = TMap TDecimal"

definition PerpAsset_type :: "'d gotype" where
  "PerpAsset_type = TStruct
    [(''Name'', ''name'', TString),
     (''SzDecimals'', ''szDecimals'', TInt),
     (''MaxLeverage'', ''maxLeverage'', TInt),
     (''MarginTableID'', ''marginTableId'', TInt),
     (''OnlyIsolated'', ''onlyIsolated'', (TPtr TBool)),
     (''IsDelisted'', ''isDelisted'', TBool),
     (''MarginMode'', ''marginMode'', TString)]"

definition MarginTier_type :: "'d gotype" where
  "MarginTier_type = TStruct
    [(''LowerBound'', ''lowerBound'', TDecimal),
     (''MaxLeverage'', ''maxLeverage'', TInt)]"

definition MarginTable_fields :: "(string \<times> string \<times> 'd gotype) list" where
  "MarginTable_fields =
    [(''ID'', ''ID'', TInt),
     (''Description'', ''description'', TString),
     (''MarginTiers'', ''marginTiers'', (TSlice MarginTier_type))]"

text \<open>The second element is decoded over the table itself.\<close>

definition MarginTable_UnmarshalJSON :: "'d decimal_text \<Rightarrow> jval \<Rightarrow> 'd gval \<Rightarrow> 'd gval res" where
  "MarginTable_UnmarshalJSON D j z =
     bind_res (raw_tuple ''margin table must contain ID and definition'' True 2 j) (\<lambda>tuple.
     bind_res (decode D TInt (tuple ! 0) (get MarginTable_fields ''ID'' z)) (\<lambda>i.
     decode D (TStruct MarginTable_fields) (tuple ! 1) (put_field MarginTable_fields ''ID'' i z)))"

definition MarginTable_type :: "'d gotype" where
  "MarginTable_type = TCustom (TStruct MarginTable_fields) MarginTable_UnmarshalJSON"

lemma MarginTable_keeps: "keeps (TStruct MarginTable_fields) (MarginTable_UnmarshalJSON D)"
  unfolding keeps_def
proof (intro allI impI, elim conjE)
  fix j z v
  let ?t = "TStruct MarginTable_fields"
  assume z: "has_type ?t z" and "MarginTable_UnmarshalJSON D j z = Inr v"
  then obtain i tuple where i: "decode D TInt (tuple ! 0) (get MarginTable_fields ''ID'' z) = Inr i"
    "decode D ?t (tuple ! 1) (put_field MarginTable_fields ''ID'' i z) = Inr v"
    by (auto simp: MarginTable_UnmarshalJSON_def)
  have f: "has_field MarginTable_fields ''ID'' TInt" by (simp add: field_simps MarginTable_fields_def)
  have "has_type TInt i" by (rule decode_typed [OF _ get_typed [OF z f] i(1)]) simp
  then have "has_type ?t (put_field MarginTable_fields ''ID'' i z)" by (rule put_field_typed [OF z f])
  then show "has_type ?t v"
    by (rule decode_typed [OF _ _ i(2), rotated])
      (simp add: struct_simps MarginTable_fields_def MarginTier_type_def)
qed

lemma MarginTable_wf [simp]: "wf_type MarginTable_type"
  by (simp add: MarginTable_type_def MarginTable_keeps)

definition MetaResponse_type :: "'d gotype" where
  "MetaResponse_type = TStruct
    [(''Universe'', ''universe'', (TSlice PerpAsset_type)),
     (''MarginTables'', ''marginTables'', (TSlice MarginTable_type)),
     (''CollateralToken'', ''collateralToken'', TInt)]"

definition BookLevel_type :: "'d gotype" where
  "BookLevel_type = TStruct
    [(''Price'', ''px'', TDecimal),
     (''Size'', ''sz'', TDecimal),
     (''OrderCount'', ''n'', TInt)]"

definition L2BookResponse_type :: "'d gotype" where
  "L2BookResponse_type = TStruct
    [(''Coin'', ''coin'', TString),
     (''Time'', ''time'', TInt),
     (''Spread'', ''spread'', (TPtr TDecimal)),
     (''Levels'', ''levels'', (TArray 2 (TSlice BookLevel_type)))]"

definition Candle_type :: "'d gotype" where
  "Candle_type = TStruct
    [(''Time'', ''t'', TInt),
     (''CloseTime'', ''T'', TInt),
     (''Symbol'', ''s'', TString),
     (''Interval'', ''i'', TString),
     (''Open'', ''o'', TDecimal),
     (''Close'', ''c'', TDecimal),
     (''High'', ''h'', TDecimal),
     (''Low'', ''l'', TDecimal),
     (''Volume'', ''v'', TDecimal),
     (''TradeCount'', ''n'', TInt)]"

definition MetaAndAssetContextsResponse_fields :: "'d gotype list" where
  "MetaAndAssetContextsResponse_fields = [MetaResponse_type, (TSlice AssetContext_type)]"

definition MetaAndAssetContextsResponse_type :: "'d gotype" where
  "MetaAndAssetContextsResponse_type = TTuple ''meta and asset contexts must contain two elements'' True MetaAndAssetContextsResponse_fields"

definition RecentTrade_type :: "'d gotype" where
  "RecentTrade_type = TStruct
    [(''Coin'', ''coin'', TString),
     (''Side'', ''side'', TString),
     (''Px'', ''px'', TDecimal),
     (''Sz'', ''sz'', TDecimal),
     (''Time'', ''time'', TInt),
     (''Hash'', ''hash'', TString),
     (''Tid'', ''tid'', TUint64),
     (''Users'', ''users'', (TSlice TString))]"

definition FundingHistoryEntry_type :: "'d gotype" where
  "FundingHistoryEntry_type = TStruct
    [(''Coin'', ''coin'', TString),
     (''FundingRate'', ''fundingRate'', TDecimal),
     (''Premium'', ''premium'', TDecimal),
     (''Time'', ''time'', TInt)]"

definition PerpDEX_type :: "'d gotype" where
  "PerpDEX_type = TStruct
    [(''Name'', ''name'', TString),
     (''FullName'', ''fullName'', TString),
     (''Deployer'', ''deployer'', TString),
     (''OracleUpdater'', ''oracleUpdater'', (TPtr TString)),
     (''FeeRecipient'', ''feeRecipient'', (TPtr TString))]"

definition PredictedFundingData_type :: "'d gotype" where
  "PredictedFundingData_type = TStruct
    [(''FundingRate'', ''fundingRate'', TDecimal),
     (''NextFundingTime'', ''nextFundingTime'', TInt),
     (''FundingIntervalHours'', ''fundingIntervalHours'', (TPtr TInt))]"

definition PredictedFundingVenue_fields :: "'d gotype list" where
  "PredictedFundingVenue_fields = [TString, TPtr PredictedFundingData_type]"

text \<open>The data are decoded into a new struct, not over those of an earlier value.\<close>

definition PredictedFundingVenue_UnmarshalJSON :: "'d decimal_text \<Rightarrow> jval \<Rightarrow> 'd gval \<Rightarrow> 'd gval res" where
  "PredictedFundingVenue_UnmarshalJSON D =
     decode_tuple ''predicted funding venue must contain exchange and data'' False
       [labelled ''decode predicted funding exchange'' (decode D TString),
        labelled ''decode predicted funding data''
          (\<lambda>j z. decode D (TPtr PredictedFundingData_type) j (VPtr None))]"

definition PredictedFundingVenue_type :: "'d gotype" where
  "PredictedFundingVenue_type =
     TCustom (TTuple [] False PredictedFundingVenue_fields) PredictedFundingVenue_UnmarshalJSON"

lemma fresh_keeps: "wf_type t \<Longrightarrow> keeps (TPtr t) (\<lambda>j z. decode D (TPtr t) j (VPtr None))"
  unfolding keeps_def by (metis decode_typed wf_type.simps(8) zero.simps(8) zero_typed)

lemma PredictedFundingVenue_wf [simp]: "wf_type PredictedFundingVenue_type"
  unfolding PredictedFundingVenue_type_def wf_type.simps PredictedFundingVenue_UnmarshalJSON_def
    PredictedFundingVenue_fields_def
  by (intro allI tuple_keeps) (simp add: decode_keeps fresh_keeps struct_simps
      PredictedFundingData_type_def del: decode.simps)

definition PredictedFunding_fields :: "'d gotype list" where
  "PredictedFunding_fields = [TString, TSlice PredictedFundingVenue_type]"

definition PredictedFunding_UnmarshalJSON :: "'d decimal_text \<Rightarrow> jval \<Rightarrow> 'd gval \<Rightarrow> 'd gval res" where
  "PredictedFunding_UnmarshalJSON D =
     decode_tuple ''predicted funding must contain asset and exchanges'' False
       [labelled ''decode predicted funding asset'' (decode D TString),
        labelled ''decode predicted funding venues'' (decode D (TSlice PredictedFundingVenue_type))]"

definition PredictedFunding_type :: "'d gotype" where
  "PredictedFunding_type =
     TCustom (TTuple [] False PredictedFunding_fields) PredictedFunding_UnmarshalJSON"

lemma PredictedFunding_wf [simp]: "wf_type PredictedFunding_type"
  unfolding PredictedFunding_type_def wf_type.simps PredictedFunding_UnmarshalJSON_def
    PredictedFunding_fields_def
  by (intro allI tuple_keeps) (simp add: decode_keeps del: decode.simps)

definition OrderStatusResponse_fields :: "(string \<times> string \<times> 'd gotype) list" where
  "OrderStatusResponse_fields =
    [(''Status'', ''status'', TString),
     (''Order'', ''order'', (TPtr FrontendOpenOrder_type)),
     (''StatusTimestamp'', ''statusTimestamp'', TInt)]"

text \<open>
  Two wire structs: the outer one keeps the order raw; when the outer status is \<^verbatim>\<open>order\<close>, the
  order member is itself an envelope with the lifecycle status.
\<close>

definition order_outer :: "(string \<times> string \<times> 'd gotype) list" where
  "order_outer =
    [(''Status'', ''status'', TString),
     (''Order'', ''order'', TRaw),
     (''StatusTimestamp'', ''statusTimestamp'', TInt)]"

definition order_nested :: "(string \<times> string \<times> 'd gotype) list" where
  "order_nested =
    [(''Order'', ''order'', FrontendOpenOrder_type),
     (''Status'', ''status'', TString),
     (''StatusTimestamp'', ''statusTimestamp'', TInt)]"

definition OrderStatusResponse_UnmarshalJSON :: "'d decimal_text \<Rightarrow> jval \<Rightarrow> 'd gval \<Rightarrow> 'd gval res" where
  "OrderStatusResponse_UnmarshalJSON D j z =
     bind_res (unmarshal_into D (TStruct order_outer) (Some j)) (\<lambda>outer.
       let raw = raw_of (get order_outer ''Order'' outer);
         status = get order_outer ''Status'' outer;
         timestamp = get order_outer ''StatusTimestamp'' outer
       in if raw_empty raw then Inr (VStruct [status, VPtr None, timestamp])
       else if text_of status \<noteq> ''order'' then
         bind_res (unmarshal_into D FrontendOpenOrder_type raw) (\<lambda>order.
           Inr (VStruct [status, VPtr (Some order), timestamp]))
       else
         bind_res (unmarshal_into D (TStruct order_nested) raw) (\<lambda>nested.
           Inr (VStruct [get order_nested ''Status'' nested,
             VPtr (Some (get order_nested ''Order'' nested)),
             get order_nested ''StatusTimestamp'' nested])))"

definition OrderStatusResponse_type :: "'d gotype" where
  "OrderStatusResponse_type =
     TCustom (TStruct OrderStatusResponse_fields) OrderStatusResponse_UnmarshalJSON"

lemma order_wires: "wf_type (TStruct order_outer)" "wf_type (TStruct order_nested)"
  by (simp_all add: struct_simps order_outer_def order_nested_def)

lemma order_fields:
  "has_field order_outer ''Status'' TString" "has_field order_outer ''StatusTimestamp'' TInt"
  "has_field order_nested ''Status'' TString" "has_field order_nested ''StatusTimestamp'' TInt"
  "has_field order_nested ''Order'' FrontendOpenOrder_type"
  by (simp_all add: field_simps order_outer_def order_nested_def)

lemma order_status_typed:
  "has_type (TStruct OrderStatusResponse_fields) (VStruct [s, VPtr p, t]) \<longleftrightarrow>
   has_type TString s \<and> pred_option (has_type FrontendOpenOrder_type) p \<and> has_type TInt t"
  by (simp add: struct_simps OrderStatusResponse_fields_def)

lemma OrderStatusResponse_keeps:
  "keeps (TStruct OrderStatusResponse_fields) (OrderStatusResponse_UnmarshalJSON D)"
  unfolding keeps_def
proof (intro allI impI, elim conjE)
  fix j z v
  assume v: "OrderStatusResponse_UnmarshalJSON D j z = Inr v"
  then obtain outer where o: "unmarshal_into D (TStruct order_outer) (Some j) = Inr outer"
    by (auto simp: OrderStatusResponse_UnmarshalJSON_def)
  note t = unmarshal_typed [OF order_wires(1) o]
  note ot = get_typed [OF t order_fields(1)] get_typed [OF t order_fields(2)]
  have nt: "has_type TString (get order_nested ''Status'' n)" "has_type TInt (get order_nested ''StatusTimestamp'' n)"
    "has_type FrontendOpenOrder_type (get order_nested ''Order'' n)"
    if "unmarshal_into D (TStruct order_nested) raw = Inr n" for raw n
    using unmarshal_typed [OF order_wires(2) that] order_fields by (auto intro: get_typed simp del: has_type.simps)
  show "has_type (TStruct OrderStatusResponse_fields) v"
    using v o ot nt unmarshal_typed [OF FrontendOpenOrder_wf]
    by (auto simp: OrderStatusResponse_UnmarshalJSON_def Let_def order_status_typed
        simp del: has_type.simps split: if_splits)
qed

lemma OrderStatusResponse_wf [simp]: "wf_type OrderStatusResponse_type"
  by (simp add: OrderStatusResponse_type_def OrderStatusResponse_keeps)

text \<open>The envelope of a found order is opened: the caller sees the order and its lifecycle status.\<close>

lemma order_envelope_opened:
  assumes "in_i64 t"
  shows "OrderStatusResponse_UnmarshalJSON D (JObj [(''status'', JStr ''order''),
      (''order'', JObj [(''order'', flat), (''status'', JStr s), (''statusTimestamp'', JInt t)])]) z =
    bind_res (decode D FrontendOpenOrder_type flat (zero D FrontendOpenOrder_type))
      (\<lambda>x. Inr (VStruct [VString s, VPtr (Some x), VInt t]))"
  using assms
  by (cases "decode D FrontendOpenOrder_type flat (zero D FrontendOpenOrder_type)")
    (simp_all add: OrderStatusResponse_UnmarshalJSON_def order_outer_def order_nested_def unmarshal_into_def
      decode_struct_type zero_struct decode_struct_def vals_def field_index_def decode_string_def decode_int_def
      get_def field_at_def text_of_def raw_of_def raw_empty_def Let_def in_i64_def)

text \<open>An order that is not found has no order.\<close>

lemma order_missing:
  "OrderStatusResponse_UnmarshalJSON D (JObj [(''status'', JStr s)]) z =
   Inr (VStruct [VString s, VPtr None, VInt 0])"
  by (simp add: OrderStatusResponse_UnmarshalJSON_def order_outer_def unmarshal_into_def decode_struct_type
      zero_struct decode_struct_def vals_def field_index_def decode_string_def get_def field_at_def raw_of_def
      raw_empty_def)

definition SpotToken_type :: "'d gotype" where
  "SpotToken_type = TStruct
    [(''Name'', ''name'', TString),
     (''SzDecimals'', ''szDecimals'', TInt),
     (''WeiDecimals'', ''weiDecimals'', TInt),
     (''Index'', ''index'', TInt),
     (''TokenID'', ''tokenId'', TString),
     (''IsCanonical'', ''isCanonical'', TBool)]"

definition SpotPair_type :: "'d gotype" where
  "SpotPair_type = TStruct
    [(''Name'', ''name'', TString),
     (''Tokens'', ''tokens'', (TArray 2 TInt)),
     (''Index'', ''index'', TInt),
     (''IsCanonical'', ''isCanonical'', TBool)]"

definition SpotMetaResponse_type :: "'d gotype" where
  "SpotMetaResponse_type = TStruct
    [(''Tokens'', ''tokens'', (TSlice SpotToken_type)),
     (''Universe'', ''universe'', (TSlice SpotPair_type))]"

definition SpotMetaAndAssetContextsResponse_fields :: "'d gotype list" where
  "SpotMetaAndAssetContextsResponse_fields = [SpotMetaResponse_type, (TSlice SpotAssetContext_type)]"

definition SpotMetaAndAssetContextsResponse_type :: "'d gotype" where
  "SpotMetaAndAssetContextsResponse_type = TTuple ''spot meta and asset contexts must contain two elements'' True SpotMetaAndAssetContextsResponse_fields"

definition PortfolioValuePoint_fields :: "'d gotype list" where
  "PortfolioValuePoint_fields = [TInt, TDecimal]"

definition PortfolioValuePoint_type :: "'d gotype" where
  "PortfolioValuePoint_type = TTuple ''portfolio value point must contain timestamp and value'' True PortfolioValuePoint_fields"

definition PortfolioPeriodData_type :: "'d gotype" where
  "PortfolioPeriodData_type = TStruct
    [(''AccountValueHistory'', ''accountValueHistory'', (TSlice PortfolioValuePoint_type)),
     (''PnLHistory'', ''pnlHistory'', (TSlice PortfolioValuePoint_type)),
     (''Volume'', ''vlm'', TDecimal)]"

definition PortfolioPeriod_fields :: "'d gotype list" where
  "PortfolioPeriod_fields = [TString, PortfolioPeriodData_type]"

definition PortfolioPeriod_type :: "'d gotype" where
  "PortfolioPeriod_type = TTuple ''portfolio period must contain period and data'' True PortfolioPeriod_fields"

definition UserFundingDelta_type :: "'d gotype" where
  "UserFundingDelta_type = TStruct
    [(''Type'', ''type'', TString),
     (''Coin'', ''coin'', TString),
     (''FundingRate'', ''fundingRate'', TDecimal),
     (''Size'', ''szi'', TDecimal),
     (''USDC'', ''usdc'', TDecimal),
     (''Samples'', ''nSamples'', (TPtr TInt))]"

definition UserFundingEntry_type :: "'d gotype" where
  "UserFundingEntry_type = TStruct
    [(''Delta'', ''delta'', UserFundingDelta_type),
     (''Hash'', ''hash'', TString),
     (''Time'', ''time'', TInt)]"

definition DailyUserVolume_type :: "'d gotype" where
  "DailyUserVolume_type = TStruct
    [(''Date'', ''date'', TString),
     (''UserCross'', ''userCross'', TDecimal),
     (''UserAdd'', ''userAdd'', TDecimal),
     (''Exchange'', ''exchange'', TDecimal)]"

definition StakingLink_type :: "'d gotype" where
  "StakingLink_type = TStruct
    [(''Type'', ''type'', TString),
     (''StakingUser'', ''stakingUser'', TString)]"

definition StakingDiscountTier_type :: "'d gotype" where
  "StakingDiscountTier_type = TStruct
    [(''BPSOfMaxSupply'', ''bpsOfMaxSupply'', TDecimal),
     (''Discount'', ''discount'', TDecimal)]"

definition MMFeeTier_type :: "'d gotype" where
  "MMFeeTier_type = TStruct
    [(''MakerFractionCutoff'', ''makerFractionCutoff'', TDecimal),
     (''Add'', ''add'', TDecimal)]"

definition VIPFeeTier_type :: "'d gotype" where
  "VIPFeeTier_type = TStruct
    [(''NotionalCutoff'', ''ntlCutoff'', TDecimal),
     (''Cross'', ''cross'', TDecimal),
     (''Add'', ''add'', TDecimal),
     (''SpotCross'', ''spotCross'', TDecimal),
     (''SpotAdd'', ''spotAdd'', TDecimal)]"

definition FeeTiers_type :: "'d gotype" where
  "FeeTiers_type = TStruct
    [(''VIP'', ''vip'', (TSlice VIPFeeTier_type)),
     (''MM'', ''mm'', (TSlice MMFeeTier_type))]"

definition FeeSchedule_type :: "'d gotype" where
  "FeeSchedule_type = TStruct
    [(''Cross'', ''cross'', TDecimal),
     (''Add'', ''add'', TDecimal),
     (''SpotCross'', ''spotCross'', TDecimal),
     (''SpotAdd'', ''spotAdd'', TDecimal),
     (''Tiers'', ''tiers'', FeeTiers_type),
     (''ReferralDiscount'', ''referralDiscount'', TDecimal),
     (''StakingDiscountTiers'', ''stakingDiscountTiers'', (TSlice StakingDiscountTier_type))]"

definition UserFeesResponse_type :: "'d gotype" where
  "UserFeesResponse_type = TStruct
    [(''Trial'', ''trial'', TAny),
     (''DailyUserVolume'', ''dailyUserVlm'', (TSlice DailyUserVolume_type)),
     (''FeeSchedule'', ''feeSchedule'', FeeSchedule_type),
     (''UserCrossRate'', ''userCrossRate'', TDecimal),
     (''UserAddRate'', ''userAddRate'', TDecimal),
     (''UserSpotCrossRate'', ''userSpotCrossRate'', TDecimal),
     (''UserSpotAddRate'', ''userSpotAddRate'', TDecimal),
     (''ActiveReferralDiscount'', ''activeReferralDiscount'', TDecimal),
     (''FeeTrialEscrow'', ''feeTrialEscrow'', TDecimal),
     (''NextTrialAvailableAt'', ''nextTrialAvailableTimestamp'', (TPtr TInt)),
     (''StakingLink'', ''stakingLink'', (TPtr StakingLink_type)),
     (''ActiveStakingDiscount'', ''activeStakingDiscount'', StakingDiscountTier_type)]"

definition UserRateLimitResponse_type :: "'d gotype" where
  "UserRateLimitResponse_type = TStruct
    [(''CumulativeVolume'', ''cumVlm'', TDecimal),
     (''RequestsUsed'', ''nRequestsUsed'', TInt),
     (''RequestsCap'', ''nRequestsCap'', TInt),
     (''RequestsSurplus'', ''nRequestsSurplus'', TInt)]"

definition DelegatorSummaryResponse_type :: "'d gotype" where
  "DelegatorSummaryResponse_type = TStruct
    [(''Delegated'', ''delegated'', TDecimal),
     (''Undelegated'', ''undelegated'', TDecimal),
     (''TotalPendingWithdrawal'', ''totalPendingWithdrawal'', TDecimal),
     (''PendingWithdrawals'', ''nPendingWithdrawals'', TInt)]"

definition Subaccount_type :: "'d gotype" where
  "Subaccount_type = TStruct
    [(''Name'', ''name'', TString),
     (''SubaccountUser'', ''subAccountUser'', TString),
     (''Master'', ''master'', TString),
     (''ClearinghouseState'', ''clearinghouseState'', ClearinghouseStateResponse_type),
     (''SpotState'', ''spotState'', SpotClearinghouseStateResponse_type)]"

definition VaultRelationshipData_type :: "'d gotype" where
  "VaultRelationshipData_type = TStruct
    [(''ChildAddresses'', ''childAddresses'', (TSlice TString))]"

definition VaultRelationship_type :: "'d gotype" where
  "VaultRelationship_type = TStruct
    [(''Type'', ''type'', TString),
     (''Data'', ''data'', VaultRelationshipData_type)]"

definition VaultFollower_type :: "'d gotype" where
  "VaultFollower_type = TStruct
    [(''User'', ''user'', TString),
     (''VaultEquity'', ''vaultEquity'', TDecimal),
     (''PnL'', ''pnl'', TDecimal),
     (''AllTimePnL'', ''allTimePnl'', TDecimal),
     (''DaysFollowing'', ''daysFollowing'', TInt),
     (''VaultEntryTime'', ''vaultEntryTime'', TInt),
     (''LockupUntil'', ''lockupUntil'', TInt)]"

definition VaultDetailsResponse_type :: "'d gotype" where
  "VaultDetailsResponse_type = TStruct
    [(''Name'', ''name'', TString),
     (''VaultAddress'', ''vaultAddress'', TString),
     (''Leader'', ''leader'', TString),
     (''Description'', ''description'', TString),
     (''Portfolio'', ''portfolio'', (TSlice PortfolioPeriod_type)),
     (''LeaderFraction'', ''leaderFraction'', TDecimal),
     (''LeaderCommission'', ''leaderCommission'', TDecimal),
     (''FollowerState'', ''followerState'', (TPtr VaultFollower_type)),
     (''Followers'', ''followers'', (TSlice VaultFollower_type)),
     (''MaxDistributable'', ''maxDistributable'', TDecimal),
     (''MaxWithdrawable'', ''maxWithdrawable'', TDecimal),
     (''AllowDeposits'', ''allowDeposits'', TBool),
     (''AlwaysCloseOnWithdraw'', ''alwaysCloseOnWithdraw'', TBool),
     (''IsClosed'', ''isClosed'', TBool),
     (''APR'', ''apr'', TDecimal),
     (''Relationship'', ''relationship'', VaultRelationship_type)]"

definition userRequest_type :: "'d gotype" where
  "userRequest_type = TStruct
    [(''Type'', ''type'', TString),
     (''User'', ''user'', TString)]"

definition userFundingRequest_type :: "'d gotype" where
  "userFundingRequest_type = TStruct
    [(''Type'', ''type'', TString),
     (''User'', ''user'', TString),
     (''StartTime'', ''startTime'', (TPtr TInt)),
     (''EndTime'', ''endTime'', (TPtr TInt))]"

definition vaultDetailsRequest_type :: "'d gotype" where
  "vaultDetailsRequest_type = TStruct
    [(''Type'', ''type'', TString),
     (''VaultAddress'', ''vaultAddress'', TString),
     (''User'', ''user'', (TPtr TString))]"

definition UserVaultEquity_type :: "'d gotype" where
  "UserVaultEquity_type = TStruct
    [(''VaultAddress'', ''vaultAddress'', TString),
     (''Equity'', ''equity'', TDecimal),
     (''LockedUntilTimestamp'', ''lockedUntilTimestamp'', TInt)]"

definition UserRoleData_type :: "'d gotype" where
  "UserRoleData_type = TStruct
    [(''User'', ''user'', TString),
     (''Master'', ''master'', TString)]"

definition UserRoleResponse_type :: "'d gotype" where
  "UserRoleResponse_type = TStruct
    [(''Role'', ''role'', TString),
     (''Data'', ''data'', (TPtr UserRoleData_type))]"

definition ReferralRewardState_type :: "'d gotype" where
  "ReferralRewardState_type = TStruct
    [(''CumulativeVolume'', ''cumVlm'', TDecimal),
     (''UnclaimedRewards'', ''unclaimedRewards'', TDecimal),
     (''ClaimedRewards'', ''claimedRewards'', TDecimal),
     (''BuilderRewards'', ''builderRewards'', TDecimal)]"

definition TokenRewardState_fields :: "'d gotype list" where
  "TokenRewardState_fields = [TInt, ReferralRewardState_type]"

definition TokenRewardState_type :: "'d gotype" where
  "TokenRewardState_type = TTuple ''token reward state must contain token and state'' True TokenRewardState_fields"

definition ReferralFeeState_type :: "'d gotype" where
  "ReferralFeeState_type = TStruct
    [(''CumulativeVolume'', ''cumVlm'', TDecimal),
     (''RewardedFees'', ''cumRewardedFeesSinceReferred'', TDecimal),
     (''ReferrerFees'', ''cumFeesRewardedToReferrer'', TDecimal)]"

definition TokenReferralState_fields :: "'d gotype list" where
  "TokenReferralState_fields = [TInt, ReferralFeeState_type]"

definition TokenReferralState_type :: "'d gotype" where
  "TokenReferralState_type = TTuple ''token referral state must contain token and state'' True TokenReferralState_fields"

definition ReferralAccountState_type :: "'d gotype" where
  "ReferralAccountState_type = TStruct
    [(''CumulativeVolume'', ''cumVlm'', TDecimal),
     (''RewardedFees'', ''cumRewardedFeesSinceReferred'', TDecimal),
     (''ReferrerFees'', ''cumFeesRewardedToReferrer'', TDecimal),
     (''TimeJoined'', ''timeJoined'', TInt),
     (''User'', ''user'', TString),
     (''TokenToState'', ''tokenToState'', (TSlice TokenReferralState_type))]"

definition ReferralStateData_type :: "'d gotype" where
  "ReferralStateData_type = TStruct
    [(''Code'', ''code'', TString),
     (''Required'', ''required'', TDecimal),
     (''Referrals'', ''nReferrals'', TInt),
     (''ReferralStates'', ''referralStates'', (TSlice ReferralAccountState_type))]"

definition ReferralState_type :: "'d gotype" where
  "ReferralState_type = TStruct
    [(''Stage'', ''stage'', TString),
     (''Data'', ''data'', (TPtr ReferralStateData_type))]"

definition Referrer_type :: "'d gotype" where
  "Referrer_type = TStruct
    [(''Referrer'', ''referrer'', TString),
     (''Code'', ''code'', TString)]"

definition ReferralReward_type :: "'d gotype" where
  "ReferralReward_type = TStruct
    [(''Earned'', ''earned'', TDecimal),
     (''Volume'', ''vlm'', TDecimal),
     (''ReferralVolume'', ''referralVlm'', TDecimal),
     (''Time'', ''time'', TInt)]"

definition ReferralResponse_type :: "'d gotype" where
  "ReferralResponse_type = TStruct
    [(''ReferredBy'', ''referredBy'', (TPtr Referrer_type)),
     (''CumulativeVolume'', ''cumVlm'', TDecimal),
     (''UnclaimedRewards'', ''unclaimedRewards'', TDecimal),
     (''ClaimedRewards'', ''claimedRewards'', TDecimal),
     (''BuilderRewards'', ''builderRewards'', TDecimal),
     (''ReferrerState'', ''referrerState'', ReferralState_type),
     (''RewardHistory'', ''rewardHistory'', (TSlice ReferralReward_type)),
     (''TokenToState'', ''tokenToState'', (TSlice TokenRewardState_type))]"

definition Delegation_type :: "'d gotype" where
  "Delegation_type = TStruct
    [(''Validator'', ''validator'', TString),
     (''Amount'', ''amount'', TDecimal),
     (''LockedUntilTimestamp'', ''lockedUntilTimestamp'', TInt)]"

definition DelegatorDelegateUpdate_type :: "'d gotype" where
  "DelegatorDelegateUpdate_type = TStruct
    [(''Validator'', ''validator'', TString),
     (''Amount'', ''amount'', TDecimal),
     (''IsUndelegate'', ''isUndelegate'', TBool)]"

definition DelegatorDepositUpdate_type :: "'d gotype" where
  "DelegatorDepositUpdate_type = TStruct
    [(''Amount'', ''amount'', TDecimal)]"

definition DelegatorWithdrawalUpdate_type :: "'d gotype" where
  "DelegatorWithdrawalUpdate_type = TStruct
    [(''Amount'', ''amount'', TDecimal),
     (''Phase'', ''phase'', TString)]"

definition DelegatorHistoryDelta_wire :: "'d gotype" where
  "DelegatorHistoryDelta_wire = TStruct
    [(''Delegate'', ''delegate'', (TPtr DelegatorDelegateUpdate_type)),
     (''CDeposit'', ''cDeposit'', (TPtr DelegatorDepositUpdate_type)),
     (''Withdrawal'', ''withdrawal'', (TPtr DelegatorWithdrawalUpdate_type))]"

definition DelegatorHistoryDelta_type :: "'d gotype" where
  "DelegatorHistoryDelta_type = TCustom DelegatorHistoryDelta_wire (exactly_one ''delegator history delta must contain exactly one known action'' DelegatorHistoryDelta_wire)"

definition DelegatorHistoryEntry_type :: "'d gotype" where
  "DelegatorHistoryEntry_type = TStruct
    [(''Time'', ''time'', TInt),
     (''Hash'', ''hash'', TString),
     (''Delta'', ''delta'', DelegatorHistoryDelta_type)]"

definition DelegatorReward_type :: "'d gotype" where
  "DelegatorReward_type = TStruct
    [(''Time'', ''time'', TInt),
     (''Source'', ''source'', TString),
     (''TotalAmount'', ''totalAmount'', TDecimal)]"

definition BorrowLendReserveState_type :: "'d gotype" where
  "BorrowLendReserveState_type = TStruct
    [(''BorrowYearlyRate'', ''borrowYearlyRate'', TDecimal),
     (''SupplyYearlyRate'', ''supplyYearlyRate'', TDecimal),
     (''Balance'', ''balance'', TDecimal),
     (''Utilization'', ''utilization'', TDecimal),
     (''OraclePx'', ''oraclePx'', TDecimal),
     (''LTV'', ''ltv'', TDecimal),
     (''TotalSupplied'', ''totalSupplied'', TDecimal),
     (''TotalBorrowed'', ''totalBorrowed'', TDecimal)]"

definition BorrowLendReserve_fields :: "'d gotype list" where
  "BorrowLendReserve_fields = [TInt, BorrowLendReserveState_type]"

definition BorrowLendReserve_type :: "'d gotype" where
  "BorrowLendReserve_type = TTuple ''borrow lend reserve must contain token and state'' True BorrowLendReserve_fields"

definition BorrowLendAmount_type :: "'d gotype" where
  "BorrowLendAmount_type = TStruct
    [(''Basis'', ''basis'', TDecimal),
     (''Value'', ''value'', TDecimal)]"

definition BorrowLendTokenStateValue_type :: "'d gotype" where
  "BorrowLendTokenStateValue_type = TStruct
    [(''Borrow'', ''borrow'', BorrowLendAmount_type),
     (''Supply'', ''supply'', BorrowLendAmount_type)]"

definition BorrowLendTokenState_fields :: "'d gotype list" where
  "BorrowLendTokenState_fields = [TInt, BorrowLendTokenStateValue_type]"

definition BorrowLendTokenState_type :: "'d gotype" where
  "BorrowLendTokenState_type = TTuple ''borrow lend token state must contain token and state'' True BorrowLendTokenState_fields"

definition BorrowLendUserStateResponse_type :: "'d gotype" where
  "BorrowLendUserStateResponse_type = TStruct
    [(''TokenToState'', ''tokenToState'', (TSlice BorrowLendTokenState_type)),
     (''Health'', ''health'', TString),
     (''HealthFactor'', ''healthFactor'', (TPtr TDecimal))]"

definition UserAbstraction_type :: "'d gotype" where
  "UserAbstraction_type = TString"

definition DeployAuctionStatus_type :: "'d gotype" where
  "DeployAuctionStatus_type = TStruct
    [(''CurrentGas'', ''currentGas'', (TPtr TDecimal)),
     (''DurationSeconds'', ''durationSeconds'', TInt),
     (''EndGas'', ''endGas'', (TPtr TDecimal)),
     (''StartGas'', ''startGas'', TDecimal),
     (''StartTimeSeconds'', ''startTimeSeconds'', TInt)]"

definition CoinOICap_fields :: "'d gotype list" where
  "CoinOICap_fields = [TString, TDecimal]"

definition CoinOICap_type :: "'d gotype" where
  "CoinOICap_type = TTuple ''coin OI cap must contain coin and cap'' True CoinOICap_fields"

definition PerpDEXLimitsResponse_type :: "'d gotype" where
  "PerpDEXLimitsResponse_type = TStruct
    [(''TotalOICap'', ''totalOiCap'', TDecimal),
     (''OISzCapPerPerp'', ''oiSzCapPerPerp'', TDecimal),
     (''MaxTransferNtl'', ''maxTransferNtl'', TDecimal),
     (''CoinToOICap'', ''coinToOiCap'', (TSlice CoinOICap_type))]"

definition PerpDEXStatusResponse_type :: "'d gotype" where
  "PerpDEXStatusResponse_type = TStruct
    [(''TotalNetDeposit'', ''totalNetDeposit'', TDecimal)]"

definition PerpAnnotationResponse_type :: "'d gotype" where
  "PerpAnnotationResponse_type = TStruct
    [(''Category'', ''category'', TString),
     (''Description'', ''description'', TString),
     (''DisplayName'', ''displayName'', TString),
     (''Keywords'', ''keywords'', (TSlice TString))]"

definition PerpCategory_fields :: "'d gotype list" where
  "PerpCategory_fields = [TString, TString]"

definition PerpCategory_type :: "'d gotype" where
  "PerpCategory_type = TTuple ''perp category must contain coin and category'' True PerpCategory_fields"

definition ConcisePerpAnnotation_type :: "'d gotype" where
  "ConcisePerpAnnotation_type = TStruct
    [(''Category'', ''category'', TString),
     (''DisplayName'', ''displayName'', TString),
     (''Keywords'', ''keywords'', (TSlice TString))]"

definition PerpConciseAnnotation_fields :: "'d gotype list" where
  "PerpConciseAnnotation_fields = [TString, ConcisePerpAnnotation_type]"

definition PerpConciseAnnotation_type :: "'d gotype" where
  "PerpConciseAnnotation_type = TTuple ''concise perp annotation must contain coin and annotation'' True PerpConciseAnnotation_fields"

definition SpotDeployTokenSpec_type :: "'d gotype" where
  "SpotDeployTokenSpec_type = TStruct
    [(''Name'', ''name'', TString),
     (''SzDecimals'', ''szDecimals'', TInt),
     (''WeiDecimals'', ''weiDecimals'', TInt)]"

definition AddressBalance_fields :: "'d gotype list" where
  "AddressBalance_fields = [TString, TDecimal]"

definition AddressBalance_type :: "'d gotype" where
  "AddressBalance_type = TTuple ''address balance must contain address and balance'' True AddressBalance_fields"

definition TokenBalance_fields :: "'d gotype list" where
  "TokenBalance_fields = [TInt, TDecimal]"

definition TokenBalance_type :: "'d gotype" where
  "TokenBalance_type = TTuple ''token balance must contain token and balance'' True TokenBalance_fields"

definition SpotDeployTokenState_type :: "'d gotype" where
  "SpotDeployTokenState_type = TStruct
    [(''Token'', ''token'', TInt),
     (''Spec'', ''spec'', SpotDeployTokenSpec_type),
     (''FullName'', ''fullName'', (TPtr TString)),
     (''DeployerTradingFeeShare'', ''deployerTradingFeeShare'', TDecimal),
     (''Spots'', ''spots'', (TSlice TInt)),
     (''MaxSupply'', ''maxSupply'', (TPtr TDecimal)),
     (''HyperliquidityGenesisBalance'', ''hyperliquidityGenesisBalance'', TDecimal),
     (''TotalGenesisBalanceWei'', ''totalGenesisBalanceWei'', TDecimal),
     (''UserGenesisBalances'', ''userGenesisBalances'', (TSlice AddressBalance_type)),
     (''ExistingTokenGenesisBalances'', ''existingTokenGenesisBalances'', (TSlice TokenBalance_type)),
     (''BlacklistUsers'', ''blacklistUsers'', (TSlice TString))]"

definition SpotDeployStateResponse_type :: "'d gotype" where
  "SpotDeployStateResponse_type = TStruct
    [(''States'', ''states'', (TSlice SpotDeployTokenState_type)),
     (''GasAuction'', ''gasAuction'', DeployAuctionStatus_type)]"

definition TokenGenesis_type :: "'d gotype" where
  "TokenGenesis_type = TStruct
    [(''UserBalances'', ''userBalances'', (TSlice AddressBalance_type)),
     (''ExistingTokenBalances'', ''existingTokenBalances'', (TSlice TokenBalance_type)),
     (''BlacklistUsers'', ''blacklistUsers'', (TSlice TString))]"

definition TokenDetailsResponse_type :: "'d gotype" where
  "TokenDetailsResponse_type = TStruct
    [(''Name'', ''name'', TString),
     (''MaxSupply'', ''maxSupply'', TDecimal),
     (''TotalSupply'', ''totalSupply'', TDecimal),
     (''CirculatingSupply'', ''circulatingSupply'', TDecimal),
     (''SzDecimals'', ''szDecimals'', TInt),
     (''WeiDecimals'', ''weiDecimals'', TInt),
     (''MidPx'', ''midPx'', TDecimal),
     (''MarkPx'', ''markPx'', TDecimal),
     (''PrevDayPx'', ''prevDayPx'', TDecimal),
     (''Genesis'', ''genesis'', (TPtr TokenGenesis_type)),
     (''Deployer'', ''deployer'', (TPtr TString)),
     (''DeployGas'', ''deployGas'', (TPtr TDecimal)),
     (''DeployTime'', ''deployTime'', (TPtr TString)),
     (''SeededUSDC'', ''seededUsdc'', TDecimal),
     (''NonCirculatingUserBalances'', ''nonCirculatingUserBalances'', (TSlice AddressBalance_type)),
     (''FutureEmissions'', ''futureEmissions'', TDecimal)]"

definition OutcomeSideSpec_type :: "'d gotype" where
  "OutcomeSideSpec_type = TStruct
    [(''Name'', ''name'', TString),
     (''Token'', ''token'', (TPtr TInt))]"

definition Outcome_type :: "'d gotype" where
  "Outcome_type = TStruct
    [(''Outcome'', ''outcome'', TInt),
     (''Name'', ''name'', TString),
     (''Description'', ''description'', TString),
     (''SideSpecs'', ''sideSpecs'', (TSlice OutcomeSideSpec_type)),
     (''QuoteToken'', ''quoteToken'', TString)]"

definition OutcomeQuestion_type :: "'d gotype" where
  "OutcomeQuestion_type = TStruct
    [(''Question'', ''question'', TInt),
     (''Name'', ''name'', TString),
     (''Description'', ''description'', TString),
     (''FallbackOutcome'', ''fallbackOutcome'', TInt),
     (''NamedOutcomes'', ''namedOutcomes'', (TSlice TInt)),
     (''SettledNamedOutcomes'', ''settledNamedOutcomes'', (TSlice TInt))]"

definition OutcomeMetaResponse_type :: "'d gotype" where
  "OutcomeMetaResponse_type = TStruct
    [(''Outcomes'', ''outcomes'', (TSlice Outcome_type)),
     (''Questions'', ''questions'', (TSlice OutcomeQuestion_type))]"

definition LiquidatedPosition_type :: "'d gotype" where
  "LiquidatedPosition_type = TStruct
    [(''Coin'', ''coin'', TString),
     (''Size'', ''szi'', TDecimal)]"

definition LedgerDelta_type :: "'d gotype" where
  "LedgerDelta_type = TStruct
    [(''Type'', ''type'', TString),
     (''USDC'', ''usdc'', TDecimal),
     (''ToPerp'', ''toPerp'', TBool),
     (''User'', ''user'', TString),
     (''Destination'', ''destination'', TString),
     (''Fee'', ''fee'', TDecimal),
     (''NativeTokenFee'', ''nativeTokenFee'', TDecimal),
     (''FeeToken'', ''feeToken'', TString),
     (''Nonce'', ''nonce'', (TPtr TInt)),
     (''Token'', ''token'', TString),
     (''Amount'', ''amount'', TDecimal),
     (''USDCValue'', ''usdcValue'', TDecimal),
     (''LiquidatedNtlPos'', ''liquidatedNtlPos'', TDecimal),
     (''AccountValue'', ''accountValue'', TDecimal),
     (''LeverageType'', ''leverageType'', TString),
     (''LiquidatedPositions'', ''liquidatedPositions'', (TSlice LiquidatedPosition_type)),
     (''Vault'', ''vault'', TString),
     (''RequestedUSD'', ''requestedUsd'', TDecimal),
     (''Commission'', ''commission'', TDecimal),
     (''ClosingCost'', ''closingCost'', TDecimal),
     (''Basis'', ''basis'', TDecimal),
     (''NetWithdrawnUSD'', ''netWithdrawnUsd'', TDecimal),
     (''SourceDEX'', ''sourceDex'', TString),
     (''DestinationDEX'', ''destinationDex'', TString),
     (''IsDeposit'', ''isDeposit'', (TPtr TBool)),
     (''Operation'', ''operation'', TString),
     (''InterestAmount'', ''interestAmount'', TDecimal),
     (''DEX'', ''dex'', TString)]"

definition NonFundingLedgerUpdate_type :: "'d gotype" where
  "NonFundingLedgerUpdate_type = TStruct
    [(''Time'', ''time'', TInt),
     (''Hash'', ''hash'', TString),
     (''Delta'', ''delta'', LedgerDelta_type)]"

definition BorrowLendInterest_type :: "'d gotype" where
  "BorrowLendInterest_type = TStruct
    [(''Time'', ''time'', TInt),
     (''Token'', ''token'', TString),
     (''Borrow'', ''borrow'', TDecimal),
     (''Supply'', ''supply'', TDecimal)]"

definition ExchangeStatusResponse_type :: "'d gotype" where
  "ExchangeStatusResponse_type = TStruct
    [(''Time'', ''time'', TInt),
     (''SpecialStatuses'', ''specialStatuses'', (TPtr TString))]"

definition ExtraAgent_type :: "'d gotype" where
  "ExtraAgent_type = TStruct
    [(''Address'', ''address'', TString),
     (''Name'', ''name'', TString),
     (''ValidUntil'', ''validUntil'', (TPtr TInt))]"

definition GossipPriorityAuctionStatusResponse_fields :: "'d gotype list" where
  "GossipPriorityAuctionStatusResponse_fields = [(TSlice (TPtr TString)), (TSlice DeployAuctionStatus_type)]"

definition GossipPriorityAuctionStatusResponse_type :: "'d gotype" where
  "GossipPriorityAuctionStatusResponse_type = TTuple ''gossip priority auction status must contain winners and auctions'' True GossipPriorityAuctionStatusResponse_fields"

definition LegalCheckResponse_type :: "'d gotype" where
  "LegalCheckResponse_type = TStruct
    [(''AcceptedTerms'', ''acceptedTerms'', TBool),
     (''UserAllowed'', ''userAllowed'', TBool),
     (''Restrictions'', ''restrictions'', TString)]"

definition PreTransferCheckResponse_type :: "'d gotype" where
  "PreTransferCheckResponse_type = TStruct
    [(''Fee'', ''fee'', TDecimal),
     (''IsSanctioned'', ''isSanctioned'', TBool),
     (''UserExists'', ''userExists'', TBool),
     (''UserHasSentTx'', ''userHasSentTx'', TBool)]"

definition VaultSummary_type :: "'d gotype" where
  "VaultSummary_type = TStruct
    [(''Name'', ''name'', TString),
     (''VaultAddress'', ''vaultAddress'', TString),
     (''Leader'', ''leader'', TString),
     (''TVL'', ''tvl'', TDecimal),
     (''IsClosed'', ''isClosed'', TBool),
     (''Relationship'', ''relationship'', VaultRelationship_type),
     (''CreateTimeMillis'', ''createTimeMillis'', TInt)]"

definition ValidatorStats_type :: "'d gotype" where
  "ValidatorStats_type = TStruct
    [(''UptimeFraction'', ''uptimeFraction'', TDecimal),
     (''PredictedAPR'', ''predictedApr'', TDecimal),
     (''Samples'', ''nSamples'', TInt)]"

definition ValidatorPeriodStats_fields :: "'d gotype list" where
  "ValidatorPeriodStats_fields = [TString, ValidatorStats_type]"

definition ValidatorPeriodStats_type :: "'d gotype" where
  "ValidatorPeriodStats_type = TTuple ''validator period stats must contain period and stats'' True ValidatorPeriodStats_fields"

text \<open>The periods must come in the order day, week, month.\<close>

fun periods_ordered :: "nat \<Rightarrow> string list \<Rightarrow> 'd gval list \<Rightarrow> unit res" where
  "periods_ordered i (expected # es) (p # ps) =
     (let got = text_of (vals p ! 0)
      in if got \<noteq> expected
         then Inl (''validator stats period '' @ show_nat i @ '' must be '' @ quote expected @ '', got '' @ quote got)
         else periods_ordered (i + 1) es ps)"
| "periods_ordered i _ _ = Inr ()"

definition ValidatorStatsPeriods_UnmarshalJSON :: "'d decimal_text \<Rightarrow> jval \<Rightarrow> 'd gval \<Rightarrow> 'd gval res" where
  "ValidatorStatsPeriods_UnmarshalJSON D j z =
     bind_res (unmarshal_into D (TSlice ValidatorPeriodStats_type) (Some j)) (\<lambda>s.
       let periods = elements s
       in if length periods \<noteq> 3 then Inl ''validator stats must contain day, week, and month''
       else bind_res (periods_ordered 0 [''day'', ''week'', ''month''] periods) (\<lambda>_.
         Inr (VStruct periods)))"

definition ValidatorStatsPeriods_type :: "'d gotype" where
  "ValidatorStatsPeriods_type =
     TCustom (TArray 3 ValidatorPeriodStats_type) ValidatorStatsPeriods_UnmarshalJSON"

lemma ValidatorStatsPeriods_wf [simp]: "wf_type ValidatorStatsPeriods_type"
proof -
  have "wf_type (TSlice ValidatorPeriodStats_type)"
    by (simp add: struct_simps ValidatorPeriodStats_type_def ValidatorPeriodStats_fields_def
        ValidatorStats_type_def)
  note elements = elements_typed [OF unmarshal_typed [OF this]]
  show ?thesis
    by (auto simp: ValidatorStatsPeriods_type_def keeps_def ValidatorStatsPeriods_UnmarshalJSON_def Let_def
        split: if_splits dest: elements)
qed

definition ValidatorSummary_type :: "'d gotype" where
  "ValidatorSummary_type = TStruct
    [(''Validator'', ''validator'', TString),
     (''Signer'', ''signer'', TString),
     (''Name'', ''name'', TString),
     (''Description'', ''description'', TString),
     (''RecentBlocks'', ''nRecentBlocks'', TInt),
     (''Stake'', ''stake'', TDecimal),
     (''IsJailed'', ''isJailed'', TBool),
     (''UnjailableAfter'', ''unjailableAfter'', (TPtr TInt)),
     (''IsActive'', ''isActive'', TBool),
     (''Commission'', ''commission'', TDecimal),
     (''Stats'', ''stats'', ValidatorStatsPeriods_type)]"

definition TokenTreasuryGovernance_type :: "'d gotype" where
  "TokenTreasuryGovernance_type = TStruct
    [(''Token'', ''token'', TInt),
     (''TechnicalStaker'', ''technicalStaker'', TString),
     (''TreasuryStaker'', ''treasuryStaker'', TString),
     (''TreasuryEVMAddress'', ''treasuryEvmAddress'', TString),
     (''EVMRebalanceContract'', ''evmRebalanceContract'', TString)]"

definition StringPair_type :: "'d gotype" where
  "StringPair_type = TTuple ''string pair must contain exactly two values'' True [TString, TString]"

definition RegisterStandaloneOutcome_type :: "'d gotype" where
  "RegisterStandaloneOutcome_type = TStruct
    [(''QuoteToken'', ''quoteToken'', TInt),
     (''NameAndDescription'', ''nameAndDescription'', StringPair_type),
     (''SideNames'', ''sideNames'', (TSlice TString))]"

definition RegisterQuestion_type :: "'d gotype" where
  "RegisterQuestion_type = TStruct
    [(''QuoteToken'', ''quoteToken'', TInt),
     (''QuestionNameAndDescription'', ''questionNameAndDescription'', StringPair_type),
     (''FallbackNameAndDescription'', ''fallbackNameAndDescription'', StringPair_type),
     (''NamedOutcomes'', ''namedOutcomes'', (TSlice StringPair_type))]"

definition OutcomeSettlement2_type :: "'d gotype" where
  "OutcomeSettlement2_type = TStruct
    [(''Outcome'', ''outcome'', TInt),
     (''SettleFraction'', ''settleFraction'', TDecimal),
     (''Details'', ''details'', TString),
     (''NameAndDescription'', ''nameAndDescription'', StringPair_type),
     (''SideNames'', ''sideNames'', (TSlice TString))]"

definition SettleQuestion2Vote_type :: "'d gotype" where
  "SettleQuestion2Vote_type = TStruct
    [(''Question'', ''question'', TInt),
     (''OutcomeSettlements'', ''outcomeSettlements'', (TSlice OutcomeSettlement2_type)),
     (''NameAndDescription'', ''nameAndDescription'', StringPair_type)]"

definition SettleOutcomeVote_type :: "'d gotype" where
  "SettleOutcomeVote_type = TStruct
    [(''Outcome'', ''outcome'', TInt),
     (''SettleFraction'', ''settleFraction'', TDecimal),
     (''Details'', ''details'', TString),
     (''NameAndDescription'', ''nameAndDescription'', StringPair_type),
     (''SideNames'', ''sideNames'', (TSlice TString))]"

definition SettlementFractionDetails_fields :: "'d gotype list" where
  "SettlementFractionDetails_fields = [TDecimal, TString]"

definition SettlementFractionDetails_type :: "'d gotype" where
  "SettlementFractionDetails_type = TTuple ''settlement details must contain fraction and details'' True SettlementFractionDetails_fields"

definition QuestionSettlement_fields :: "'d gotype list" where
  "QuestionSettlement_fields = [TInt, SettlementFractionDetails_type]"

definition QuestionSettlement_type :: "'d gotype" where
  "QuestionSettlement_type = TTuple ''question settlement must contain outcome and details'' True QuestionSettlement_fields"

definition SettleQuestionVote_type :: "'d gotype" where
  "SettleQuestionVote_type = TStruct
    [(''Question'', ''question'', TInt),
     (''SettleFractionsAndDetails'', ''settleFractionsAndDetails'', (TSlice QuestionSettlement_type))]"

definition OutcomeGovernanceVote_wire :: "'d gotype" where
  "OutcomeGovernanceVote_wire = TStruct
    [(''RegisterTokensAndStandaloneOutcome'', ''registerTokensAndStandaloneOutcome'', (TPtr RegisterStandaloneOutcome_type)),
     (''RegisterTokensAndQuestion'', ''registerTokensAndQuestion'', (TPtr RegisterQuestion_type)),
     (''SettleOutcome'', ''settleOutcome'', (TPtr SettleOutcomeVote_type)),
     (''SettleQuestion'', ''settleQuestion'', (TPtr SettleQuestionVote_type)),
     (''SettleQuestion2'', ''settleQuestion2'', (TPtr SettleQuestion2Vote_type))]"

definition OutcomeGovernanceVote_type :: "'d gotype" where
  "OutcomeGovernanceVote_type = TCustom OutcomeGovernanceVote_wire (exactly_one ''outcome governance vote must contain exactly one action'' OutcomeGovernanceVote_wire)"

definition ValidatorL1VoteAction_wire :: "'d gotype" where
  "ValidatorL1VoteAction_wire = TStruct
    [(''D'', ''D'', (TPtr TString)),
     (''C'', ''C'', (TPtr (TSlice TString))),
     (''O'', ''O'', (TPtr OutcomeGovernanceVote_type)),
     (''E'', ''E'', (TPtr TokenTreasuryGovernance_type))]"

definition ValidatorL1VoteAction_type :: "'d gotype" where
  "ValidatorL1VoteAction_type = TCustom ValidatorL1VoteAction_wire (exactly_one ''validator L1 vote action must contain exactly one action'' ValidatorL1VoteAction_wire)"

definition ValidatorL1Vote_type :: "'d gotype" where
  "ValidatorL1Vote_type = TStruct
    [(''ExpireTime'', ''expireTime'', TInt),
     (''Action'', ''action'', ValidatorL1VoteAction_type),
     (''Votes'', ''votes'', (TSlice TString)),
     (''QuorumReached'', ''quorumReached'', TBool)]"

definition MarginTableResponse_type :: "'d gotype" where
  "MarginTableResponse_type = TStruct
    [(''Description'', ''description'', TString),
     (''MarginTiers'', ''marginTiers'', (TSlice MarginTier_type))]"

definition LeadingVault_type :: "'d gotype" where
  "LeadingVault_type = TStruct
    [(''Address'', ''address'', TString),
     (''Name'', ''name'', TString)]"

definition DEXClearinghouseState_fields :: "'d gotype list" where
  "DEXClearinghouseState_fields = [TString, ClearinghouseStateResponse_type]"

definition DEXClearinghouseState_type :: "'d gotype" where
  "DEXClearinghouseState_type = TTuple ''DEX clearinghouse state must contain DEX and state'' True DEXClearinghouseState_fields"

definition SubaccountV2_type :: "'d gotype" where
  "SubaccountV2_type = TStruct
    [(''Name'', ''name'', TString),
     (''User'', ''subAccountUser'', TString),
     (''Master'', ''master'', TString),
     (''DEXStates'', ''dexToClearinghouseState'', (TSlice DEXClearinghouseState_type)),
     (''SpotState'', ''spotState'', SpotClearinghouseStateResponse_type)]"

definition TWAPState_type :: "'d gotype" where
  "TWAPState_type = TStruct
    [(''Coin'', ''coin'', TString),
     (''ExecutedNotional'', ''executedNtl'', TDecimal),
     (''ExecutedSize'', ''executedSz'', TDecimal),
     (''Minutes'', ''minutes'', TUint64),
     (''ReduceOnly'', ''reduceOnly'', TBool),
     (''Randomize'', ''randomize'', TBool),
     (''Side'', ''side'', TString),
     (''Size'', ''size'', TDecimal),
     (''Timestamp'', ''timestamp'', TInt),
     (''User'', ''user'', TString)]"

definition TWAPHistoryStatus_fields :: "(string \<times> string \<times> 'd gotype) list" where
  "TWAPHistoryStatus_fields =
    [(''Status'', ''status'', TString),
     (''Description'', ''description'', TString)]"

definition twap_wire :: "(string \<times> string \<times> 'd gotype) list" where
  "twap_wire =
    [(''Status'', ''status'', TString),
     (''Description'', ''description'', TRaw)]"

definition TWAPHistoryStatus_UnmarshalJSON :: "'d decimal_text \<Rightarrow> jval \<Rightarrow> 'd gval \<Rightarrow> 'd gval res" where
  "TWAPHistoryStatus_UnmarshalJSON D j z =
     bind_res (unmarshal_into D (TStruct twap_wire) (Some j)) (\<lambda>wire.
       let status = text_of (get twap_wire ''Status'' wire);
         description = raw_of (get twap_wire ''Description'' wire)
       in if status \<in> {''finished'', ''activated'', ''terminated''} then
         (if \<not> raw_empty description
          then Inl (''TWAP '' @ status @ '' status must not carry a description'')
          else Inr (VStruct [VString status, VString []]))
       else if status = ''error'' then
         (if raw_empty description then Inl ''TWAP error status requires a description''
          else bind_res (decode D TString (the description) (get TWAPHistoryStatus_fields ''Description'' z))
            (\<lambda>d. Inr (VStruct [VString status, d])))
       else Inl (''unknown TWAP history status '' @ quote status))"

definition TWAPHistoryStatus_type :: "'d gotype" where
  "TWAPHistoryStatus_type = TCustom (TStruct TWAPHistoryStatus_fields) TWAPHistoryStatus_UnmarshalJSON"

lemma TWAPHistoryStatus_keeps: "keeps (TStruct TWAPHistoryStatus_fields) (TWAPHistoryStatus_UnmarshalJSON D)"
  unfolding keeps_def
proof (intro allI impI, elim conjE)
  fix j z v
  assume z: "has_type (TStruct TWAPHistoryStatus_fields) z"
    and v: "TWAPHistoryStatus_UnmarshalJSON D j z = Inr v"
  have "has_field TWAPHistoryStatus_fields ''Description'' TString"
    by (simp add: field_simps TWAPHistoryStatus_fields_def)
  note d = get_typed [OF z this]
  have "has_type TString x"
    if "decode D TString j' (get TWAPHistoryStatus_fields ''Description'' z) = Inr x" for j' x
    by (rule decode_typed [OF _ d that]) simp
  moreover have "has_type (TStruct TWAPHistoryStatus_fields) (VStruct [VString s, x]) \<longleftrightarrow> has_type TString x"
    for s x
    by (simp add: struct_simps TWAPHistoryStatus_fields_def)
  ultimately show "has_type (TStruct TWAPHistoryStatus_fields) v" using v
    by (auto simp: TWAPHistoryStatus_UnmarshalJSON_def Let_def simp del: decode.simps split: if_splits)
qed

lemma TWAPHistoryStatus_wf [simp]: "wf_type TWAPHistoryStatus_type"
  by (simp add: TWAPHistoryStatus_type_def TWAPHistoryStatus_keeps)

definition TWAPHistoryEntry_type :: "'d gotype" where
  "TWAPHistoryEntry_type = TStruct
    [(''Time'', ''time'', TInt),
     (''State'', ''state'', TWAPState_type),
     (''Status'', ''status'', TWAPHistoryStatus_type),
     (''TWAPID'', ''twapId'', (TPtr TUint64))]"

definition MultiSigSigners_type :: "'d gotype" where
  "MultiSigSigners_type = TStruct
    [(''AuthorizedUsers'', ''authorizedUsers'', (TSlice TString)),
     (''Threshold'', ''threshold'', TInt)]"

definition MaxMarketOrderNotional_fields :: "'d gotype list" where
  "MaxMarketOrderNotional_fields = [TInt, TDecimal]"

definition MaxMarketOrderNotional_type :: "'d gotype" where
  "MaxMarketOrderNotional_type = TTuple ''max market order notional must contain leverage and notional'' True MaxMarketOrderNotional_fields"

definition LiquidatableIsolatedPosition_type :: "'d gotype" where
  "LiquidatableIsolatedPosition_type = TStruct
    [(''Asset'', ''asset'', TInt)]"

definition LiquidatablePositionIndex_type :: "'d gotype" where
  "LiquidatablePositionIndex_type = TStruct
    [(''Isolated'', ''isolated'', (TPtr LiquidatableIsolatedPosition_type))]"

definition DecimalPair_type :: "'d gotype" where
  "DecimalPair_type = TTuple ''decimal pair must contain exactly two values'' True [TDecimal, TDecimal]"

definition LiquidatablePosition_type :: "'d gotype" where
  "LiquidatablePosition_type = TStruct
    [(''User'', ''user'', TString),
     (''PositionIndex'', ''positionIndex'', LiquidatablePositionIndex_type),
     (''MarginAvailable'', ''marginAvailable'', DecimalPair_type)]"

definition SettledOutcomeQuestionID_wire :: "(string \<times> string \<times> 'd gotype) list" where
  "SettledOutcomeQuestionID_wire =
    [(''Active'', ''active'', (TPtr TInt)),
     (''Settled'', ''settled'', (TPtr TInt))]"

definition SettledOutcomeQuestionID_UnmarshalJSON :: "'d decimal_text \<Rightarrow> jval \<Rightarrow> 'd gval \<Rightarrow> 'd gval res" where
  "SettledOutcomeQuestionID_UnmarshalJSON D j z =
     bind_res (unmarshal_into D (TStruct SettledOutcomeQuestionID_wire) (Some j)) (\<lambda>decoded.
     if is_nil (get SettledOutcomeQuestionID_wire ''Active'' decoded) =
        is_nil (get SettledOutcomeQuestionID_wire ''Settled'' decoded)
     then Inl ''settled outcome question must contain exactly one of active or settled''
     else Inr decoded)"

definition SettledOutcomeQuestionID_type :: "'d gotype" where
  "SettledOutcomeQuestionID_type =
     TCustom (TStruct SettledOutcomeQuestionID_wire) SettledOutcomeQuestionID_UnmarshalJSON"

lemma SettledOutcomeQuestionID_wf [simp]: "wf_type SettledOutcomeQuestionID_type"
proof -
  have "wf_type (TStruct SettledOutcomeQuestionID_wire)"
    by (simp add: struct_simps SettledOutcomeQuestionID_wire_def)
  from unmarshal_typed [OF this] show ?thesis
    by (auto simp: SettledOutcomeQuestionID_type_def keeps_def SettledOutcomeQuestionID_UnmarshalJSON_def
        split: if_splits)
qed

definition SettledOutcomeQuestion_type :: "'d gotype" where
  "SettledOutcomeQuestion_type = TStruct
    [(''ID'', ''question'', SettledOutcomeQuestionID_type),
     (''Name'', ''name'', TString),
     (''Description'', ''description'', TString)]"

definition SettledOutcomeResponse_type :: "'d gotype" where
  "SettledOutcomeResponse_type = TStruct
    [(''Spec'', ''spec'', Outcome_type),
     (''SettleFraction'', ''settleFraction'', TDecimal),
     (''Details'', ''details'', TString),
     (''Question'', ''question'', (TPtr SettledOutcomeQuestion_type))]"

section \<open>Every declaration is well formed\<close>

lemma info_wf1 [simp]:
  "wf_type AllMidsResponse_type"
  "wf_type PerpAsset_type"
  "wf_type MarginTier_type"
  "wf_type MetaResponse_type"
  "wf_type BookLevel_type"
  "wf_type L2BookResponse_type"
  "wf_type Candle_type"
  "wf_type MetaAndAssetContextsResponse_type"
  "wf_type RecentTrade_type"
  "wf_type FundingHistoryEntry_type"
  "wf_type PerpDEX_type"
  "wf_type PredictedFundingData_type"
  by (simp_all add: struct_simps AllMidsResponse_type_def PerpAsset_type_def MarginTier_type_def
      MetaResponse_type_def BookLevel_type_def L2BookResponse_type_def Candle_type_def
      MetaAndAssetContextsResponse_type_def MetaAndAssetContextsResponse_fields_def
      RecentTrade_type_def FundingHistoryEntry_type_def PerpDEX_type_def
      PredictedFundingData_type_def)

lemma info_wf2 [simp]:
  "wf_type SpotToken_type"
  "wf_type SpotPair_type"
  "wf_type SpotMetaResponse_type"
  "wf_type SpotMetaAndAssetContextsResponse_type"
  "wf_type PortfolioValuePoint_type"
  "wf_type PortfolioPeriodData_type"
  "wf_type PortfolioPeriod_type"
  "wf_type UserFundingDelta_type"
  "wf_type UserFundingEntry_type"
  "wf_type DailyUserVolume_type"
  "wf_type StakingLink_type"
  "wf_type StakingDiscountTier_type"
  by (simp_all add: struct_simps SpotToken_type_def SpotPair_type_def SpotMetaResponse_type_def
      SpotMetaAndAssetContextsResponse_type_def SpotMetaAndAssetContextsResponse_fields_def
      PortfolioValuePoint_type_def PortfolioValuePoint_fields_def PortfolioPeriodData_type_def
      PortfolioPeriod_type_def PortfolioPeriod_fields_def UserFundingDelta_type_def
      UserFundingEntry_type_def DailyUserVolume_type_def StakingLink_type_def
      StakingDiscountTier_type_def)

lemma info_wf3 [simp]:
  "wf_type MMFeeTier_type"
  "wf_type VIPFeeTier_type"
  "wf_type FeeTiers_type"
  "wf_type FeeSchedule_type"
  "wf_type UserFeesResponse_type"
  "wf_type UserRateLimitResponse_type"
  "wf_type DelegatorSummaryResponse_type"
  "wf_type Subaccount_type"
  "wf_type VaultRelationshipData_type"
  "wf_type VaultRelationship_type"
  "wf_type VaultFollower_type"
  "wf_type VaultDetailsResponse_type"
  by (simp_all add: struct_simps MMFeeTier_type_def VIPFeeTier_type_def FeeTiers_type_def
      FeeSchedule_type_def UserFeesResponse_type_def UserRateLimitResponse_type_def
      DelegatorSummaryResponse_type_def Subaccount_type_def VaultRelationshipData_type_def
      VaultRelationship_type_def VaultFollower_type_def VaultDetailsResponse_type_def)

lemma info_wf4 [simp]:
  "wf_type userRequest_type"
  "wf_type userFundingRequest_type"
  "wf_type vaultDetailsRequest_type"
  "wf_type UserVaultEquity_type"
  "wf_type UserRoleData_type"
  "wf_type UserRoleResponse_type"
  "wf_type ReferralRewardState_type"
  "wf_type TokenRewardState_type"
  "wf_type ReferralFeeState_type"
  "wf_type TokenReferralState_type"
  "wf_type ReferralAccountState_type"
  "wf_type ReferralStateData_type"
  by (simp_all add: struct_simps userRequest_type_def userFundingRequest_type_def
      vaultDetailsRequest_type_def UserVaultEquity_type_def UserRoleData_type_def
      UserRoleResponse_type_def ReferralRewardState_type_def TokenRewardState_type_def
      TokenRewardState_fields_def ReferralFeeState_type_def TokenReferralState_type_def
      TokenReferralState_fields_def ReferralAccountState_type_def ReferralStateData_type_def)

lemma info_wf5 [simp]:
  "wf_type ReferralState_type"
  "wf_type Referrer_type"
  "wf_type ReferralReward_type"
  "wf_type ReferralResponse_type"
  "wf_type Delegation_type"
  "wf_type DelegatorDelegateUpdate_type"
  "wf_type DelegatorDepositUpdate_type"
  "wf_type DelegatorWithdrawalUpdate_type"
  "wf_type DelegatorHistoryDelta_type"
  "wf_type DelegatorHistoryEntry_type"
  "wf_type DelegatorReward_type"
  "wf_type BorrowLendReserveState_type"
  by (simp_all add: struct_simps ReferralState_type_def Referrer_type_def ReferralReward_type_def
      ReferralResponse_type_def Delegation_type_def DelegatorDelegateUpdate_type_def
      DelegatorDepositUpdate_type_def DelegatorWithdrawalUpdate_type_def
      DelegatorHistoryDelta_type_def DelegatorHistoryDelta_wire_def DelegatorHistoryEntry_type_def
      DelegatorReward_type_def BorrowLendReserveState_type_def)

lemma info_wf6 [simp]:
  "wf_type BorrowLendReserve_type"
  "wf_type BorrowLendAmount_type"
  "wf_type BorrowLendTokenStateValue_type"
  "wf_type BorrowLendTokenState_type"
  "wf_type BorrowLendUserStateResponse_type"
  "wf_type UserAbstraction_type"
  "wf_type DeployAuctionStatus_type"
  "wf_type CoinOICap_type"
  "wf_type PerpDEXLimitsResponse_type"
  "wf_type PerpDEXStatusResponse_type"
  "wf_type PerpAnnotationResponse_type"
  "wf_type PerpCategory_type"
  by (simp_all add: struct_simps BorrowLendReserve_type_def BorrowLendReserve_fields_def
      BorrowLendAmount_type_def BorrowLendTokenStateValue_type_def BorrowLendTokenState_type_def
      BorrowLendTokenState_fields_def BorrowLendUserStateResponse_type_def UserAbstraction_type_def
      DeployAuctionStatus_type_def CoinOICap_type_def CoinOICap_fields_def
      PerpDEXLimitsResponse_type_def PerpDEXStatusResponse_type_def PerpAnnotationResponse_type_def
      PerpCategory_type_def PerpCategory_fields_def)

lemma info_wf7 [simp]:
  "wf_type ConcisePerpAnnotation_type"
  "wf_type PerpConciseAnnotation_type"
  "wf_type SpotDeployTokenSpec_type"
  "wf_type AddressBalance_type"
  "wf_type TokenBalance_type"
  "wf_type SpotDeployTokenState_type"
  "wf_type SpotDeployStateResponse_type"
  "wf_type TokenGenesis_type"
  "wf_type TokenDetailsResponse_type"
  "wf_type OutcomeSideSpec_type"
  "wf_type Outcome_type"
  "wf_type OutcomeQuestion_type"
  by (simp_all add: struct_simps ConcisePerpAnnotation_type_def PerpConciseAnnotation_type_def
      PerpConciseAnnotation_fields_def SpotDeployTokenSpec_type_def AddressBalance_type_def
      AddressBalance_fields_def TokenBalance_type_def TokenBalance_fields_def
      SpotDeployTokenState_type_def SpotDeployStateResponse_type_def TokenGenesis_type_def
      TokenDetailsResponse_type_def OutcomeSideSpec_type_def Outcome_type_def
      OutcomeQuestion_type_def)

lemma info_wf8 [simp]:
  "wf_type OutcomeMetaResponse_type"
  "wf_type LiquidatedPosition_type"
  "wf_type LedgerDelta_type"
  "wf_type NonFundingLedgerUpdate_type"
  "wf_type BorrowLendInterest_type"
  "wf_type ExchangeStatusResponse_type"
  "wf_type ExtraAgent_type"
  "wf_type GossipPriorityAuctionStatusResponse_type"
  "wf_type LegalCheckResponse_type"
  "wf_type PreTransferCheckResponse_type"
  "wf_type VaultSummary_type"
  "wf_type ValidatorStats_type"
  by (simp_all add: struct_simps OutcomeMetaResponse_type_def LiquidatedPosition_type_def
      LedgerDelta_type_def NonFundingLedgerUpdate_type_def BorrowLendInterest_type_def
      ExchangeStatusResponse_type_def ExtraAgent_type_def
      GossipPriorityAuctionStatusResponse_type_def GossipPriorityAuctionStatusResponse_fields_def
      LegalCheckResponse_type_def PreTransferCheckResponse_type_def VaultSummary_type_def
      ValidatorStats_type_def)

lemma info_wf9 [simp]:
  "wf_type ValidatorPeriodStats_type"
  "wf_type ValidatorSummary_type"
  "wf_type TokenTreasuryGovernance_type"
  "wf_type StringPair_type"
  "wf_type RegisterStandaloneOutcome_type"
  "wf_type RegisterQuestion_type"
  "wf_type OutcomeSettlement2_type"
  "wf_type SettleQuestion2Vote_type"
  "wf_type SettleOutcomeVote_type"
  "wf_type SettlementFractionDetails_type"
  "wf_type QuestionSettlement_type"
  "wf_type SettleQuestionVote_type"
  by (simp_all add: struct_simps ValidatorPeriodStats_type_def ValidatorPeriodStats_fields_def
      ValidatorSummary_type_def TokenTreasuryGovernance_type_def StringPair_type_def
      RegisterStandaloneOutcome_type_def RegisterQuestion_type_def OutcomeSettlement2_type_def
      SettleQuestion2Vote_type_def SettleOutcomeVote_type_def SettlementFractionDetails_type_def
      SettlementFractionDetails_fields_def QuestionSettlement_type_def QuestionSettlement_fields_def
      SettleQuestionVote_type_def)

lemma info_wf10 [simp]:
  "wf_type OutcomeGovernanceVote_type"
  "wf_type ValidatorL1VoteAction_type"
  "wf_type ValidatorL1Vote_type"
  "wf_type MarginTableResponse_type"
  "wf_type LeadingVault_type"
  "wf_type DEXClearinghouseState_type"
  "wf_type SubaccountV2_type"
  "wf_type TWAPState_type"
  "wf_type TWAPHistoryEntry_type"
  "wf_type MultiSigSigners_type"
  "wf_type MaxMarketOrderNotional_type"
  "wf_type LiquidatableIsolatedPosition_type"
  by (simp_all add: struct_simps OutcomeGovernanceVote_type_def OutcomeGovernanceVote_wire_def
      ValidatorL1VoteAction_type_def ValidatorL1VoteAction_wire_def ValidatorL1Vote_type_def
      MarginTableResponse_type_def LeadingVault_type_def DEXClearinghouseState_type_def
      DEXClearinghouseState_fields_def SubaccountV2_type_def TWAPState_type_def
      TWAPHistoryEntry_type_def MultiSigSigners_type_def MaxMarketOrderNotional_type_def
      MaxMarketOrderNotional_fields_def LiquidatableIsolatedPosition_type_def)

lemma info_wf11 [simp]:
  "wf_type LiquidatablePositionIndex_type"
  "wf_type DecimalPair_type"
  "wf_type LiquidatablePosition_type"
  "wf_type SettledOutcomeQuestion_type"
  "wf_type SettledOutcomeResponse_type"
  by (simp_all add: struct_simps LiquidatablePositionIndex_type_def DecimalPair_type_def
      LiquidatablePosition_type_def SettledOutcomeQuestion_type_def SettledOutcomeResponse_type_def)

end
