(* ===== verification/InfoMethods.thy ===== *)
theory InfoMethods
  imports InfoClient InfoModels WsStreams Assets
begin

text \<open>
  The methods of the info client (\<^verbatim>\<open>info/*.go\<close>): each checks its arguments and then gives the
  request that \<^verbatim>\<open>call\<close> sends and the type of the answer. The request structs of
  \<^verbatim>\<open>info/requests.go\<close> and \<^verbatim>\<open>info/accounts.go\<close> are functions to JSON.
\<close>

type_synonym 'd info_method = "(jval \<times> 'd gotype) res"

definition omit_text :: "string \<Rightarrow> string \<Rightarrow> (string \<times> jval) list" where
  "omit_text k s = (if s = [] then [] else [(k, JStr s)])"

section \<open>Request structs\<close>

definition AllMidsRequest :: "string \<Rightarrow> string \<Rightarrow> jval" where
  "AllMidsRequest dex ty = JObj (omit_text ''dex'' dex @ [(''type'', JStr ty)])"

definition MetaRequest :: "string \<Rightarrow> string \<Rightarrow> jval" where
  "MetaRequest ty dex = JObj ([(''type'', JStr ty)] @ omit_text ''dex'' dex)"

record L2BookRequest =
  lb_Coin :: string
  lb_NSigFigs :: "int option"
  lb_Mantissa :: "int option"

definition L2BookRequest_json :: "string \<Rightarrow> L2BookRequest \<Rightarrow> jval" where
  "L2BookRequest_json ty request =
     JObj ([(''type'', JStr ty), (''coin'', JStr (lb_Coin request))] @
       omit ''nSigFigs'' JInt (lb_NSigFigs request) @ omit ''mantissa'' JInt (lb_Mantissa request))"

record CandleRequest =
  cr_Coin :: string
  cr_Interval :: string
  cr_StartTime :: int
  cr_EndTime :: "int option"

definition CandleSnapshotRequest :: "string \<Rightarrow> CandleRequest \<Rightarrow> jval" where
  "CandleSnapshotRequest ty request =
     JObj [(''type'', JStr ty),
       (''req'', JObj ([(''coin'', JStr (cr_Coin request)), (''interval'', JStr (cr_Interval request)),
         (''startTime'', JInt (cr_StartTime request))] @ omit ''endTime'' JInt (cr_EndTime request)))]"

definition ClearinghouseStateRequest :: "string \<Rightarrow> string \<Rightarrow> string \<Rightarrow> jval" where
  "ClearinghouseStateRequest ty user dex =
     JObj ([(''type'', JStr ty), (''user'', JStr user)] @ omit_text ''dex'' dex)"

definition SpotClearinghouseStateRequest :: "string \<Rightarrow> string \<Rightarrow> jval" where
  "SpotClearinghouseStateRequest ty user = JObj [(''type'', JStr ty), (''user'', JStr user)]"

definition userRequest :: "string \<Rightarrow> string \<Rightarrow> jval" where
  "userRequest ty user = JObj [(''type'', JStr ty), (''user'', JStr user)]"

definition userFundingRequest :: "string \<Rightarrow> string \<Rightarrow> int option \<Rightarrow> int option \<Rightarrow> jval" where
  "userFundingRequest ty user startTime endTime =
     JObj ([(''type'', JStr ty), (''user'', JStr user)] @
       omit ''startTime'' JInt startTime @ omit ''endTime'' JInt endTime)"

definition vaultDetailsRequest :: "string \<Rightarrow> string \<Rightarrow> string option \<Rightarrow> jval" where
  "vaultDetailsRequest ty vaultAddress user =
     JObj ([(''type'', JStr ty), (''vaultAddress'', JStr vaultAddress)] @ omit ''user'' JStr user)"

section \<open>Methods\<close>

definition info_AllMids :: "'d info_method" where
  "info_AllMids =
     Inr (AllMidsRequest '''' ''allMids'',
       AllMidsResponse_type)"

definition info_MetaForDEX :: "string \<Rightarrow> 'd info_method" where
  "info_MetaForDEX dex =
     Inr (MetaRequest ''meta'' dex,
       MetaResponse_type)"

definition info_L2BookWithOptions :: "L2BookRequest \<Rightarrow> 'd info_method" where
  "info_L2BookWithOptions request =
     (if lb_Coin request = [] then Inl ''coin is required''
      else bind_res (L2BookAggregation (lb_NSigFigs request) (lb_Mantissa request)) (\<lambda>_. Inr (L2BookRequest_json ''l2Book'' request,
       L2BookResponse_type)))"

definition info_CandleSnapshot :: "CandleRequest \<Rightarrow> 'd info_method" where
  "info_CandleSnapshot request =
     (if cr_Coin request = [] \<or> cr_Interval request = [] \<or> cr_StartTime request < 0 \<or>
        (case cr_EndTime request of None \<Rightarrow> False | Some e \<Rightarrow> e < cr_StartTime request)
      then Inl ''invalid candle request''
      else bind_res (CandleInterval (cr_Interval request)) (\<lambda>_. Inr (CandleSnapshotRequest ''candleSnapshot'' request,
       TSlice Candle_type)))"

definition info_ClearinghouseStateForDEX :: "string \<Rightarrow> string \<Rightarrow> 'd info_method" where
  "info_ClearinghouseStateForDEX user dex =
     (if user = [] then Inl ''user is required''
      else Inr (ClearinghouseStateRequest ''clearinghouseState'' user dex,
       ClearinghouseStateResponse_type))"

definition info_SpotClearinghouseState :: "string \<Rightarrow> 'd info_method" where
  "info_SpotClearinghouseState user =
     (if user = [] then Inl ''user is required''
      else Inr (SpotClearinghouseStateRequest ''spotClearinghouseState'' user,
       SpotClearinghouseStateResponse_type))"

definition info_MetaAndAssetContexts :: "'d info_method" where
  "info_MetaAndAssetContexts =
     Inr (JObj [(''type'', JStr ''metaAndAssetCtxs'')],
       MetaAndAssetContextsResponse_type)"

definition info_RecentTrades :: "string \<Rightarrow> 'd info_method" where
  "info_RecentTrades coin =
     (if coin = [] then Inl ''coin is required''
      else Inr (JObj [(''type'', JStr ''recentTrades''), (''coin'', JStr coin)],
       TSlice RecentTrade_type))"

definition info_FundingHistory :: "string \<Rightarrow> int \<Rightarrow> int option \<Rightarrow> 'd info_method" where
  "info_FundingHistory coin startTime endTime =
     (if coin = [] \<or> startTime < 0 then Inl ''invalid funding history request''
      else Inr (JObj ([(''type'', JStr ''fundingHistory''), (''coin'', JStr coin),
          (''startTime'', JInt startTime)] @ omit ''endTime'' JInt endTime),
       TSlice FundingHistoryEntry_type))"

definition info_PredictedFundings :: "'d info_method" where
  "info_PredictedFundings =
     Inr (JObj [(''type'', JStr ''predictedFundings'')],
       TSlice PredictedFunding_type)"

definition info_PerpDEXs :: "'d info_method" where
  "info_PerpDEXs =
     Inr (JObj [(''type'', JStr ''perpDexs'')],
       TSlice (TPtr PerpDEX_type))"

definition info_OpenOrders :: "string \<Rightarrow> 'd info_method" where
  "info_OpenOrders user =
     (if user = [] then Inl ''user is required''
      else Inr (JObj [(''type'', JStr ''openOrders''), (''user'', JStr user)],
       TSlice OpenOrder_type))"

definition info_FrontendOpenOrders :: "string \<Rightarrow> 'd info_method" where
  "info_FrontendOpenOrders user =
     (if user = [] then Inl ''user is required''
      else Inr (JObj [(''type'', JStr ''frontendOpenOrders''), (''user'', JStr user)],
       TSlice FrontendOpenOrder_type))"

definition info_OrderStatus :: "string \<Rightarrow> int \<Rightarrow> 'd info_method" where
  "info_OrderStatus user oid =
     (if user = [] \<or> oid = 0 then Inl ''invalid order status request''
      else Inr (JObj [(''type'', JStr ''orderStatus''), (''user'', JStr user), (''oid'', JInt oid)],
       OrderStatusResponse_type))"

definition info_OrderStatusByCloid :: "string \<Rightarrow> byte list \<Rightarrow> 'd info_method" where
  "info_OrderStatusByCloid user cloid =
     (if user = [] then Inl ''invalid order status request''
      else Inr (JObj [(''type'', JStr ''orderStatus''), (''user'', JStr user),
          (''oid'', JStr (Cloid_String cloid))],
       OrderStatusResponse_type))"

definition info_UserFills :: "string \<Rightarrow> bool \<Rightarrow> 'd info_method" where
  "info_UserFills user aggregateByTime =
     (if user = [] then Inl ''user is required''
      else Inr (JObj [(''type'', JStr ''userFills''), (''user'', JStr user),
          (''aggregateByTime'', JBool aggregateByTime)],
       TSlice UserFill_type))"

definition info_UserFillsByTime :: "string \<Rightarrow> int \<Rightarrow> int option \<Rightarrow> bool \<Rightarrow> 'd info_method" where
  "info_UserFillsByTime user startTime endTime aggregateByTime =
     (if user = [] \<or> startTime < 0 then Inl ''invalid fills request''
      else Inr (JObj ([(''type'', JStr ''userFillsByTime''), (''user'', JStr user),
          (''startTime'', JInt startTime)] @ omit ''endTime'' JInt endTime @
          [(''aggregateByTime'', JBool aggregateByTime)]),
       TSlice UserFill_type))"

definition info_SpotMeta :: "'d info_method" where
  "info_SpotMeta =
     Inr (JObj [(''type'', JStr ''spotMeta'')],
       SpotMetaResponse_type)"

definition info_SpotMetaAndAssetContexts :: "'d info_method" where
  "info_SpotMetaAndAssetContexts =
     Inr (JObj [(''type'', JStr ''spotMetaAndAssetCtxs'')],
       SpotMetaAndAssetContextsResponse_type)"

definition info_Portfolio :: "string \<Rightarrow> 'd info_method" where
  "info_Portfolio user =
     (if user = [] then Inl ''user is required''
      else Inr (userRequest ''portfolio'' user,
       TSlice PortfolioPeriod_type))"

definition info_UserFunding :: "string \<Rightarrow> int option \<Rightarrow> int option \<Rightarrow> 'd info_method" where
  "info_UserFunding user startTime endTime =
     (if user = [] \<or> (case startTime of None \<Rightarrow> False | Some s \<Rightarrow> s < 0) \<or>
        (case endTime of None \<Rightarrow> False | Some e \<Rightarrow> e < 0) \<or>
        (case (startTime, endTime) of (Some s, Some e) \<Rightarrow> e < s | _ \<Rightarrow> False)
      then Inl ''invalid user funding request''
      else Inr (userFundingRequest ''userFunding'' user startTime endTime,
       TSlice UserFundingEntry_type))"

definition info_UserFees :: "string \<Rightarrow> 'd info_method" where
  "info_UserFees user =
     (if user = [] then Inl ''user is required''
      else Inr (userRequest ''userFees'' user,
       UserFeesResponse_type))"

definition info_UserRateLimit :: "string \<Rightarrow> 'd info_method" where
  "info_UserRateLimit user =
     (if user = [] then Inl ''user is required''
      else Inr (userRequest ''userRateLimit'' user,
       UserRateLimitResponse_type))"

definition info_DelegatorSummary :: "string \<Rightarrow> 'd info_method" where
  "info_DelegatorSummary user =
     (if user = [] then Inl ''user is required''
      else Inr (userRequest ''delegatorSummary'' user,
       DelegatorSummaryResponse_type))"

definition info_Subaccounts :: "string \<Rightarrow> 'd info_method" where
  "info_Subaccounts user =
     (if user = [] then Inl ''user is required''
      else Inr (userRequest ''subAccounts'' user,
       TSlice Subaccount_type))"

definition info_VaultDetails :: "string \<Rightarrow> string option \<Rightarrow> 'd info_method" where
  "info_VaultDetails vaultAddress user =
     (if vaultAddress = [] then Inl ''vault address is required''
      else Inr (vaultDetailsRequest ''vaultDetails'' vaultAddress user,
       TPtr VaultDetailsResponse_type))"

definition info_AllMidsForDEX :: "string \<Rightarrow> 'd info_method" where
  "info_AllMidsForDEX dex =
     Inr (AllMidsRequest dex ''allMids'',
       AllMidsResponse_type)"

definition info_MetaAndAssetContextsForDEX :: "string \<Rightarrow> 'd info_method" where
  "info_MetaAndAssetContextsForDEX dex =
     Inr (MetaRequest ''metaAndAssetCtxs'' dex,
       MetaAndAssetContextsResponse_type)"

definition info_OpenOrdersForDEX :: "string \<Rightarrow> string \<Rightarrow> 'd info_method" where
  "info_OpenOrdersForDEX user dex =
     (if user = [] then Inl ''user is required''
      else Inr (JObj ([(''type'', JStr ''openOrders''), (''user'', JStr user)] @ omit_text ''dex'' dex),
       TSlice OpenOrder_type))"

definition info_FrontendOpenOrdersForDEX :: "string \<Rightarrow> string \<Rightarrow> 'd info_method" where
  "info_FrontendOpenOrdersForDEX user dex =
     (if user = [] then Inl ''user is required''
      else Inr (JObj ([(''type'', JStr ''frontendOpenOrders''), (''user'', JStr user)] @
          omit_text ''dex'' dex),
       TSlice FrontendOpenOrder_type))"

definition info_MaxBuilderFee :: "string \<Rightarrow> string \<Rightarrow> 'd info_method" where
  "info_MaxBuilderFee user builder =
     (if user = [] \<or> builder = [] then Inl ''user and builder are required''
      else Inr (JObj [(''type'', JStr ''maxBuilderFee''), (''user'', JStr user),
          (''builder'', JStr builder)],
       TInt))"

definition info_HistoricalOrders :: "string \<Rightarrow> 'd info_method" where
  "info_HistoricalOrders user =
     (if user = [] then Inl ''user is required''
      else Inr (userRequest ''historicalOrders'' user,
       TSlice HistoricalOrder_type))"

definition info_UserTwapSliceFills :: "string \<Rightarrow> 'd info_method" where
  "info_UserTwapSliceFills user =
     (if user = [] then Inl ''user is required''
      else Inr (userRequest ''userTwapSliceFills'' user,
       TSlice TwapSliceFill_type))"

definition info_UserVaultEquities :: "string \<Rightarrow> 'd info_method" where
  "info_UserVaultEquities user =
     (if user = [] then Inl ''user is required''
      else Inr (userRequest ''userVaultEquities'' user,
       TSlice UserVaultEquity_type))"

definition info_UserRole :: "string \<Rightarrow> 'd info_method" where
  "info_UserRole user =
     (if user = [] then Inl ''user is required''
      else Inr (userRequest ''userRole'' user,
       UserRoleResponse_type))"

definition info_Referral :: "string \<Rightarrow> 'd info_method" where
  "info_Referral user =
     (if user = [] then Inl ''user is required''
      else Inr (userRequest ''referral'' user,
       ReferralResponse_type))"

definition info_Delegations :: "string \<Rightarrow> 'd info_method" where
  "info_Delegations user =
     (if user = [] then Inl ''user is required''
      else Inr (userRequest ''delegations'' user,
       TSlice Delegation_type))"

definition info_DelegatorHistory :: "string \<Rightarrow> 'd info_method" where
  "info_DelegatorHistory user =
     (if user = [] then Inl ''user is required''
      else Inr (userRequest ''delegatorHistory'' user,
       TSlice DelegatorHistoryEntry_type))"

definition info_DelegatorRewards :: "string \<Rightarrow> 'd info_method" where
  "info_DelegatorRewards user =
     (if user = [] then Inl ''user is required''
      else Inr (userRequest ''delegatorRewards'' user,
       TSlice DelegatorReward_type))"

definition info_ApprovedBuilders :: "string \<Rightarrow> 'd info_method" where
  "info_ApprovedBuilders user =
     (if user = [] then Inl ''user is required''
      else Inr (userRequest ''approvedBuilders'' user,
       TSlice TString))"

definition info_UserDEXAbstraction :: "string \<Rightarrow> 'd info_method" where
  "info_UserDEXAbstraction user =
     (if user = [] then Inl ''user is required''
      else Inr (userRequest ''userDexAbstraction'' user,
       TPtr TBool))"

definition info_UserAbstraction :: "string \<Rightarrow> 'd info_method" where
  "info_UserAbstraction user =
     (if user = [] then Inl ''user is required''
      else Inr (userRequest ''userAbstraction'' user,
       UserAbstraction_type))"

definition info_BorrowLendReserveState :: "int \<Rightarrow> 'd info_method" where
  "info_BorrowLendReserveState token =
     (if token < 0 then Inl ''token must be non-negative''
      else Inr (JObj [(''type'', JStr ''borrowLendReserveState''), (''token'', JInt token)],
       BorrowLendReserveState_type))"

definition info_BorrowLendUserState :: "string \<Rightarrow> 'd info_method" where
  "info_BorrowLendUserState user =
     (if user = [] then Inl ''user is required''
      else Inr (userRequest ''borrowLendUserState'' user,
       BorrowLendUserStateResponse_type))"

definition info_AllBorrowLendReserveStates :: "'d info_method" where
  "info_AllBorrowLendReserveStates =
     Inr (JObj [(''type'', JStr ''allBorrowLendReserveStates'')],
       TSlice BorrowLendReserve_type)"

definition info_PerpsAtOpenInterestCap :: "string \<Rightarrow> 'd info_method" where
  "info_PerpsAtOpenInterestCap dex =
     Inr (JObj ([(''type'', JStr ''perpsAtOpenInterestCap'')] @ omit_text ''dex'' dex),
       TSlice TString)"

definition info_PerpDeployAuctionStatus :: "'d info_method" where
  "info_PerpDeployAuctionStatus =
     Inr (JObj [(''type'', JStr ''perpDeployAuctionStatus'')],
       DeployAuctionStatus_type)"

definition info_ActiveAssetData :: "string \<Rightarrow> string \<Rightarrow> 'd info_method" where
  "info_ActiveAssetData user coin =
     (if user = [] \<or> coin = [] then Inl ''user and coin are required''
      else Inr (JObj [(''type'', JStr ''activeAssetData''), (''user'', JStr user),
          (''coin'', JStr coin)],
       ActiveAssetDataResponse_type))"

definition info_PerpDEXLimits :: "string \<Rightarrow> 'd info_method" where
  "info_PerpDEXLimits dex =
     (if dex = [] then Inl ''DEX is required''
      else Inr (JObj [(''type'', JStr ''perpDexLimits''), (''dex'', JStr dex)],
       TPtr PerpDEXLimitsResponse_type))"

definition info_PerpDEXStatus :: "string \<Rightarrow> 'd info_method" where
  "info_PerpDEXStatus dex =
     (if dex = [] then Inl ''DEX is required''
      else Inr (JObj [(''type'', JStr ''perpDexStatus''), (''dex'', JStr dex)],
       PerpDEXStatusResponse_type))"

definition info_AllPerpMetas :: "'d info_method" where
  "info_AllPerpMetas =
     Inr (JObj [(''type'', JStr ''allPerpMetas'')],
       TSlice MetaResponse_type)"

definition info_PerpAnnotation :: "string \<Rightarrow> 'd info_method" where
  "info_PerpAnnotation coin =
     (if coin = [] then Inl ''coin is required''
      else Inr (JObj [(''type'', JStr ''perpAnnotation''), (''coin'', JStr coin)],
       TPtr PerpAnnotationResponse_type))"

definition info_PerpCategories :: "'d info_method" where
  "info_PerpCategories =
     Inr (JObj [(''type'', JStr ''perpCategories'')],
       TSlice PerpCategory_type)"

definition info_PerpConciseAnnotations :: "'d info_method" where
  "info_PerpConciseAnnotations =
     Inr (JObj [(''type'', JStr ''perpConciseAnnotations'')],
       TSlice PerpConciseAnnotation_type)"

definition info_SpotDeployState :: "string \<Rightarrow> 'd info_method" where
  "info_SpotDeployState user =
     (if user = [] then Inl ''user is required''
      else Inr (userRequest ''spotDeployState'' user,
       SpotDeployStateResponse_type))"

definition info_SpotPairDeployAuctionStatus :: "'d info_method" where
  "info_SpotPairDeployAuctionStatus =
     Inr (JObj [(''type'', JStr ''spotPairDeployAuctionStatus'')],
       DeployAuctionStatus_type)"

definition info_TokenDetails :: "string \<Rightarrow> 'd info_method" where
  "info_TokenDetails tokenID =
     (if tokenID = [] then Inl ''token ID is required''
      else Inr (JObj [(''type'', JStr ''tokenDetails''), (''tokenId'', JStr tokenID)],
       TokenDetailsResponse_type))"

definition info_OutcomeMeta :: "'d info_method" where
  "info_OutcomeMeta =
     Inr (JObj [(''type'', JStr ''outcomeMeta'')],
       OutcomeMetaResponse_type)"

definition info_UserNonFundingLedgerUpdates :: "string \<Rightarrow> int \<Rightarrow> int option \<Rightarrow> 'd info_method" where
  "info_UserNonFundingLedgerUpdates user startTime endTime =
     (if user = [] \<or> startTime < 0 \<or> (case endTime of None \<Rightarrow> False | Some e \<Rightarrow> e < startTime \<or> e < 0)
      then Inl ''invalid non-funding ledger request''
      else Inr (JObj ([(''type'', JStr ''userNonFundingLedgerUpdates''), (''user'', JStr user),
          (''startTime'', JInt startTime)] @ omit ''endTime'' JInt endTime),
       TSlice NonFundingLedgerUpdate_type))"

definition info_UserTwapSliceFillsByTime :: "string \<Rightarrow> int \<Rightarrow> int option \<Rightarrow> 'd info_method" where
  "info_UserTwapSliceFillsByTime user startTime endTime =
     (if user = [] \<or> startTime < 0 \<or> (case endTime of None \<Rightarrow> False | Some e \<Rightarrow> e < startTime \<or> e < 0)
      then Inl ''invalid TWAP fills request''
      else Inr (JObj ([(''type'', JStr ''userTwapSliceFillsByTime''), (''user'', JStr user),
          (''startTime'', JInt startTime)] @ omit ''endTime'' JInt endTime),
       TSlice TwapSliceFill_type))"

definition info_UserBorrowLendInterest :: "string \<Rightarrow> int \<Rightarrow> int option \<Rightarrow> 'd info_method" where
  "info_UserBorrowLendInterest user startTime endTime =
     (if user = [] \<or> startTime < 0 \<or> (case endTime of None \<Rightarrow> False | Some e \<Rightarrow> e < startTime \<or> e < 0)
      then Inl ''invalid borrow/lend interest request''
      else Inr (JObj ([(''type'', JStr ''userBorrowLendInterest''), (''user'', JStr user),
          (''startTime'', JInt startTime)] @ omit ''endTime'' JInt endTime),
       TSlice BorrowLendInterest_type))"

definition info_ExchangeStatus :: "'d info_method" where
  "info_ExchangeStatus =
     Inr (JObj [(''type'', JStr ''exchangeStatus'')],
       ExchangeStatusResponse_type)"

definition info_ExtraAgents :: "string \<Rightarrow> 'd info_method" where
  "info_ExtraAgents user =
     (if user = [] then Inl ''user is required''
      else Inr (userRequest ''extraAgents'' user,
       TSlice ExtraAgent_type))"

definition info_GossipPriorityAuctionStatus :: "'d info_method" where
  "info_GossipPriorityAuctionStatus =
     Inr (JObj [(''type'', JStr ''gossipPriorityAuctionStatus'')],
       GossipPriorityAuctionStatusResponse_type)"

definition info_GossipRootIPs :: "'d info_method" where
  "info_GossipRootIPs =
     Inr (JObj [(''type'', JStr ''gossipRootIps'')],
       TSlice TString)"

definition info_IsVIP :: "string \<Rightarrow> 'd info_method" where
  "info_IsVIP user =
     (if user = [] then Inl ''user is required''
      else Inr (userRequest ''isVip'' user,
       TPtr TBool))"

definition info_LegalCheck :: "string \<Rightarrow> 'd info_method" where
  "info_LegalCheck user =
     (if user = [] then Inl ''user is required''
      else Inr (userRequest ''legalCheck'' user,
       LegalCheckResponse_type))"

definition info_PreTransferCheck :: "string \<Rightarrow> string \<Rightarrow> 'd info_method" where
  "info_PreTransferCheck user source =
     (if user = [] \<or> source = [] then Inl ''user and source are required''
      else Inr (JObj [(''type'', JStr ''preTransferCheck''), (''user'', JStr user),
          (''source'', JStr source)],
       PreTransferCheckResponse_type))"

definition info_VaultSummaries :: "'d info_method" where
  "info_VaultSummaries =
     Inr (JObj [(''type'', JStr ''vaultSummaries'')],
       TSlice VaultSummary_type)"

definition info_ValidatorSummaries :: "'d info_method" where
  "info_ValidatorSummaries =
     Inr (JObj [(''type'', JStr ''validatorSummaries'')],
       TSlice ValidatorSummary_type)"

definition info_ValidatorL1Votes :: "'d info_method" where
  "info_ValidatorL1Votes =
     Inr (JObj [(''type'', JStr ''validatorL1Votes'')],
       TSlice ValidatorL1Vote_type)"

definition info_MarginTable :: "int \<Rightarrow> 'd info_method" where
  "info_MarginTable i =
     (if i < 0 then Inl ''margin table ID must be non-negative''
      else Inr (JObj [(''type'', JStr ''marginTable''), (''id'', JInt i)],
       MarginTableResponse_type))"

definition info_LeadingVaults :: "string \<Rightarrow> 'd info_method" where
  "info_LeadingVaults user =
     (if user = [] then Inl ''user is required''
      else Inr (userRequest ''leadingVaults'' user,
       TSlice LeadingVault_type))"

definition info_Subaccounts2 :: "string \<Rightarrow> 'd info_method" where
  "info_Subaccounts2 user =
     (if user = [] then Inl ''user is required''
      else Inr (userRequest ''subAccounts2'' user,
       TPtr (TSlice SubaccountV2_type)))"

definition info_TWAPHistory :: "string \<Rightarrow> 'd info_method" where
  "info_TWAPHistory user =
     (if user = [] then Inl ''user is required''
      else Inr (userRequest ''twapHistory'' user,
       TSlice TWAPHistoryEntry_type))"

definition info_UserToMultiSigSigners :: "string \<Rightarrow> 'd info_method" where
  "info_UserToMultiSigSigners user =
     (if user = [] then Inl ''user is required''
      else Inr (userRequest ''userToMultiSigSigners'' user,
       TPtr MultiSigSigners_type))"

definition info_MaxMarketOrderNotionals :: "'d info_method" where
  "info_MaxMarketOrderNotionals =
     Inr (JObj [(''type'', JStr ''maxMarketOrderNtls'')],
       TSlice MaxMarketOrderNotional_type)"

definition info_Liquidatable :: "'d info_method" where
  "info_Liquidatable =
     Inr (JObj [(''type'', JStr ''liquidatable'')],
       TSlice LiquidatablePosition_type)"

definition info_SettledOutcome :: "int \<Rightarrow> 'd info_method" where
  "info_SettledOutcome outcome =
     (if outcome < 0 then Inl ''outcome must be non-negative''
      else Inr (JObj [(''type'', JStr ''settledOutcome''), (''outcome'', JInt outcome)],
       TPtr SettledOutcomeResponse_type))"

definition info_Meta :: "'d info_method" where
  "info_Meta =
     info_MetaForDEX ''''"

definition info_L2Book :: "string \<Rightarrow> 'd info_method" where
  "info_L2Book coin =
     info_L2BookWithOptions \<lparr> lb_Coin = coin, lb_NSigFigs = None, lb_Mantissa = None \<rparr>"

definition info_ClearinghouseState :: "string \<Rightarrow> 'd info_method" where
  "info_ClearinghouseState user =
     info_ClearinghouseStateForDEX user ''''"

section \<open>All of them\<close>

text \<open>The arguments of a call; each method takes those it needs.\<close>

record info_args =
  a_builder :: string
  a_coin :: string
  a_dex :: string
  a_source :: string
  a_tokenID :: string
  a_user :: string
  a_vaultAddress :: string
  a_follower :: "string option"
  a_oid :: int
  a_cloid :: "byte list"
  a_aggregate :: bool
  a_from :: "int option"
  a_startTime :: int
  a_endTime :: "int option"
  a_number :: int
  a_book :: L2BookRequest
  a_candle :: CandleRequest

text \<open>A method's name, the type that its request has, and what it does.\<close>

definition info_methods :: "info_args \<Rightarrow> (string \<times> string \<times> 'd info_method) list" where
  "info_methods a =
    [(''AllMids'', ''allMids'', info_AllMids),
     (''Meta'', ''meta'', info_Meta),
     (''MetaForDEX'', ''meta'', info_MetaForDEX (a_dex a)),
     (''L2Book'', ''l2Book'', info_L2Book (a_coin a)),
     (''L2BookWithOptions'', ''l2Book'', info_L2BookWithOptions (a_book a)),
     (''CandleSnapshot'', ''candleSnapshot'', info_CandleSnapshot (a_candle a)),
     (''ClearinghouseState'', ''clearinghouseState'', info_ClearinghouseState (a_user a)),
     (''ClearinghouseStateForDEX'', ''clearinghouseState'', info_ClearinghouseStateForDEX (a_user a) (a_dex a)),
     (''SpotClearinghouseState'', ''spotClearinghouseState'', info_SpotClearinghouseState (a_user a)),
     (''MetaAndAssetContexts'', ''metaAndAssetCtxs'', info_MetaAndAssetContexts),
     (''RecentTrades'', ''recentTrades'', info_RecentTrades (a_coin a)),
     (''FundingHistory'', ''fundingHistory'', info_FundingHistory (a_coin a) (a_startTime a) (a_endTime a)),
     (''PredictedFundings'', ''predictedFundings'', info_PredictedFundings),
     (''PerpDEXs'', ''perpDexs'', info_PerpDEXs),
     (''OpenOrders'', ''openOrders'', info_OpenOrders (a_user a)),
     (''FrontendOpenOrders'', ''frontendOpenOrders'', info_FrontendOpenOrders (a_user a)),
     (''OrderStatus'', ''orderStatus'', info_OrderStatus (a_user a) (a_oid a)),
     (''OrderStatusByCloid'', ''orderStatus'', info_OrderStatusByCloid (a_user a) (a_cloid a)),
     (''UserFills'', ''userFills'', info_UserFills (a_user a) (a_aggregate a)),
     (''UserFillsByTime'', ''userFillsByTime'', info_UserFillsByTime (a_user a) (a_startTime a) (a_endTime a) (a_aggregate a)),
     (''SpotMeta'', ''spotMeta'', info_SpotMeta),
     (''SpotMetaAndAssetContexts'', ''spotMetaAndAssetCtxs'', info_SpotMetaAndAssetContexts),
     (''Portfolio'', ''portfolio'', info_Portfolio (a_user a)),
     (''UserFunding'', ''userFunding'', info_UserFunding (a_user a) (a_from a) (a_endTime a)),
     (''UserFees'', ''userFees'', info_UserFees (a_user a)),
     (''UserRateLimit'', ''userRateLimit'', info_UserRateLimit (a_user a)),
     (''DelegatorSummary'', ''delegatorSummary'', info_DelegatorSummary (a_user a)),
     (''Subaccounts'', ''subAccounts'', info_Subaccounts (a_user a)),
     (''VaultDetails'', ''vaultDetails'', info_VaultDetails (a_vaultAddress a) (a_follower a)),
     (''AllMidsForDEX'', ''allMids'', info_AllMidsForDEX (a_dex a)),
     (''MetaAndAssetContextsForDEX'', ''metaAndAssetCtxs'', info_MetaAndAssetContextsForDEX (a_dex a)),
     (''OpenOrdersForDEX'', ''openOrders'', info_OpenOrdersForDEX (a_user a) (a_dex a)),
     (''FrontendOpenOrdersForDEX'', ''frontendOpenOrders'', info_FrontendOpenOrdersForDEX (a_user a) (a_dex a)),
     (''MaxBuilderFee'', ''maxBuilderFee'', info_MaxBuilderFee (a_user a) (a_builder a)),
     (''HistoricalOrders'', ''historicalOrders'', info_HistoricalOrders (a_user a)),
     (''UserTwapSliceFills'', ''userTwapSliceFills'', info_UserTwapSliceFills (a_user a)),
     (''UserVaultEquities'', ''userVaultEquities'', info_UserVaultEquities (a_user a)),
     (''UserRole'', ''userRole'', info_UserRole (a_user a)),
     (''Referral'', ''referral'', info_Referral (a_user a)),
     (''Delegations'', ''delegations'', info_Delegations (a_user a)),
     (''DelegatorHistory'', ''delegatorHistory'', info_DelegatorHistory (a_user a)),
     (''DelegatorRewards'', ''delegatorRewards'', info_DelegatorRewards (a_user a)),
     (''ApprovedBuilders'', ''approvedBuilders'', info_ApprovedBuilders (a_user a)),
     (''UserDEXAbstraction'', ''userDexAbstraction'', info_UserDEXAbstraction (a_user a)),
     (''UserAbstraction'', ''userAbstraction'', info_UserAbstraction (a_user a)),
     (''BorrowLendReserveState'', ''borrowLendReserveState'', info_BorrowLendReserveState (a_number a)),
     (''BorrowLendUserState'', ''borrowLendUserState'', info_BorrowLendUserState (a_user a)),
     (''AllBorrowLendReserveStates'', ''allBorrowLendReserveStates'', info_AllBorrowLendReserveStates),
     (''PerpsAtOpenInterestCap'', ''perpsAtOpenInterestCap'', info_PerpsAtOpenInterestCap (a_dex a)),
     (''PerpDeployAuctionStatus'', ''perpDeployAuctionStatus'', info_PerpDeployAuctionStatus),
     (''ActiveAssetData'', ''activeAssetData'', info_ActiveAssetData (a_user a) (a_coin a)),
     (''PerpDEXLimits'', ''perpDexLimits'', info_PerpDEXLimits (a_dex a)),
     (''PerpDEXStatus'', ''perpDexStatus'', info_PerpDEXStatus (a_dex a)),
     (''AllPerpMetas'', ''allPerpMetas'', info_AllPerpMetas),
     (''PerpAnnotation'', ''perpAnnotation'', info_PerpAnnotation (a_coin a)),
     (''PerpCategories'', ''perpCategories'', info_PerpCategories),
     (''PerpConciseAnnotations'', ''perpConciseAnnotations'', info_PerpConciseAnnotations),
     (''SpotDeployState'', ''spotDeployState'', info_SpotDeployState (a_user a)),
     (''SpotPairDeployAuctionStatus'', ''spotPairDeployAuctionStatus'', info_SpotPairDeployAuctionStatus),
     (''TokenDetails'', ''tokenDetails'', info_TokenDetails (a_tokenID a)),
     (''OutcomeMeta'', ''outcomeMeta'', info_OutcomeMeta),
     (''UserNonFundingLedgerUpdates'', ''userNonFundingLedgerUpdates'', info_UserNonFundingLedgerUpdates (a_user a) (a_startTime a) (a_endTime a)),
     (''UserTwapSliceFillsByTime'', ''userTwapSliceFillsByTime'', info_UserTwapSliceFillsByTime (a_user a) (a_startTime a) (a_endTime a)),
     (''UserBorrowLendInterest'', ''userBorrowLendInterest'', info_UserBorrowLendInterest (a_user a) (a_startTime a) (a_endTime a)),
     (''ExchangeStatus'', ''exchangeStatus'', info_ExchangeStatus),
     (''ExtraAgents'', ''extraAgents'', info_ExtraAgents (a_user a)),
     (''GossipPriorityAuctionStatus'', ''gossipPriorityAuctionStatus'', info_GossipPriorityAuctionStatus),
     (''GossipRootIPs'', ''gossipRootIps'', info_GossipRootIPs),
     (''IsVIP'', ''isVip'', info_IsVIP (a_user a)),
     (''LegalCheck'', ''legalCheck'', info_LegalCheck (a_user a)),
     (''PreTransferCheck'', ''preTransferCheck'', info_PreTransferCheck (a_user a) (a_source a)),
     (''VaultSummaries'', ''vaultSummaries'', info_VaultSummaries),
     (''ValidatorSummaries'', ''validatorSummaries'', info_ValidatorSummaries),
     (''ValidatorL1Votes'', ''validatorL1Votes'', info_ValidatorL1Votes),
     (''MarginTable'', ''marginTable'', info_MarginTable (a_number a)),
     (''LeadingVaults'', ''leadingVaults'', info_LeadingVaults (a_user a)),
     (''Subaccounts2'', ''subAccounts2'', info_Subaccounts2 (a_user a)),
     (''TWAPHistory'', ''twapHistory'', info_TWAPHistory (a_user a)),
     (''UserToMultiSigSigners'', ''userToMultiSigSigners'', info_UserToMultiSigSigners (a_user a)),
     (''MaxMarketOrderNotionals'', ''maxMarketOrderNtls'', info_MaxMarketOrderNotionals),
     (''Liquidatable'', ''liquidatable'', info_Liquidatable),
     (''SettledOutcome'', ''settledOutcome'', info_SettledOutcome (a_number a))]"

text \<open>A request of the named type, each member once, and an answer type that is well formed.\<close>

definition sends :: "string \<Rightarrow> 'd info_method \<Rightarrow> bool" where
  "sends ty m \<longleftrightarrow> (\<forall>req t. m = Inr (req, t) \<longrightarrow>
     (\<exists>ms. req = JObj ms \<and> distinct (map fst ms)) \<and> requestType req = ty \<and> wf_type t)"

named_theorems request_defs

declare userRequest_def [request_defs] AllMidsRequest_def [request_defs] MetaRequest_def [request_defs]
  L2BookRequest_json_def [request_defs] CandleSnapshotRequest_def [request_defs]
  ClearinghouseStateRequest_def [request_defs] SpotClearinghouseStateRequest_def [request_defs]
  userFundingRequest_def [request_defs] vaultDetailsRequest_def [request_defs] omit_def [request_defs]
  omit_text_def [request_defs] sends_def [request_defs]

lemma info_sends1:
  "sends ''allMids'' (info_AllMids)"
  "sends ''meta'' (info_MetaForDEX dex)"
  "sends ''l2Book'' (info_L2BookWithOptions request)"
  "sends ''candleSnapshot'' (info_CandleSnapshot candle)"
  "sends ''clearinghouseState'' (info_ClearinghouseStateForDEX user dex)"
  "sends ''spotClearinghouseState'' (info_SpotClearinghouseState user)"
  "sends ''metaAndAssetCtxs'' (info_MetaAndAssetContexts)"
  "sends ''recentTrades'' (info_RecentTrades coin)"
  "sends ''fundingHistory'' (info_FundingHistory coin startTime endTime)"
  by (simp_all add: request_defs
      info_AllMids_def
      info_MetaForDEX_def
      info_L2BookWithOptions_def
      info_CandleSnapshot_def
      info_ClearinghouseStateForDEX_def
      info_SpotClearinghouseState_def
      info_MetaAndAssetContexts_def
      info_RecentTrades_def
      info_FundingHistory_def
      split: option.splits)

lemma info_sends2:
  "sends ''predictedFundings'' (info_PredictedFundings)"
  "sends ''perpDexs'' (info_PerpDEXs)"
  "sends ''openOrders'' (info_OpenOrders user)"
  "sends ''frontendOpenOrders'' (info_FrontendOpenOrders user)"
  "sends ''orderStatus'' (info_OrderStatus user oid)"
  "sends ''orderStatus'' (info_OrderStatusByCloid user cloid)"
  "sends ''userFills'' (info_UserFills user aggregateByTime)"
  "sends ''userFillsByTime'' (info_UserFillsByTime user startTime endTime aggregateByTime)"
  "sends ''spotMeta'' (info_SpotMeta)"
  by (simp_all add: request_defs
      info_PredictedFundings_def
      info_PerpDEXs_def
      info_OpenOrders_def
      info_FrontendOpenOrders_def
      info_OrderStatus_def
      info_OrderStatusByCloid_def
      info_UserFills_def
      info_UserFillsByTime_def
      info_SpotMeta_def
      split: option.splits)

lemma info_sends3:
  "sends ''spotMetaAndAssetCtxs'' (info_SpotMetaAndAssetContexts)"
  "sends ''portfolio'' (info_Portfolio user)"
  "sends ''userFunding'' (info_UserFunding user from_time endTime)"
  "sends ''userFees'' (info_UserFees user)"
  "sends ''userRateLimit'' (info_UserRateLimit user)"
  "sends ''delegatorSummary'' (info_DelegatorSummary user)"
  "sends ''subAccounts'' (info_Subaccounts user)"
  "sends ''vaultDetails'' (info_VaultDetails vaultAddress follower)"
  "sends ''allMids'' (info_AllMidsForDEX dex)"
  by (simp_all add: request_defs
      info_SpotMetaAndAssetContexts_def
      info_Portfolio_def
      info_UserFunding_def
      info_UserFees_def
      info_UserRateLimit_def
      info_DelegatorSummary_def
      info_Subaccounts_def
      info_VaultDetails_def
      info_AllMidsForDEX_def
      split: option.splits)

lemma info_sends4:
  "sends ''metaAndAssetCtxs'' (info_MetaAndAssetContextsForDEX dex)"
  "sends ''openOrders'' (info_OpenOrdersForDEX user dex)"
  "sends ''frontendOpenOrders'' (info_FrontendOpenOrdersForDEX user dex)"
  "sends ''maxBuilderFee'' (info_MaxBuilderFee user builder)"
  "sends ''historicalOrders'' (info_HistoricalOrders user)"
  "sends ''userTwapSliceFills'' (info_UserTwapSliceFills user)"
  "sends ''userVaultEquities'' (info_UserVaultEquities user)"
  "sends ''userRole'' (info_UserRole user)"
  "sends ''referral'' (info_Referral user)"
  by (simp_all add: request_defs
      info_MetaAndAssetContextsForDEX_def
      info_OpenOrdersForDEX_def
      info_FrontendOpenOrdersForDEX_def
      info_MaxBuilderFee_def
      info_HistoricalOrders_def
      info_UserTwapSliceFills_def
      info_UserVaultEquities_def
      info_UserRole_def
      info_Referral_def
      split: option.splits)

lemma info_sends5:
  "sends ''delegations'' (info_Delegations user)"
  "sends ''delegatorHistory'' (info_DelegatorHistory user)"
  "sends ''delegatorRewards'' (info_DelegatorRewards user)"
  "sends ''approvedBuilders'' (info_ApprovedBuilders user)"
  "sends ''userDexAbstraction'' (info_UserDEXAbstraction user)"
  "sends ''userAbstraction'' (info_UserAbstraction user)"
  "sends ''borrowLendReserveState'' (info_BorrowLendReserveState token)"
  "sends ''borrowLendUserState'' (info_BorrowLendUserState user)"
  "sends ''allBorrowLendReserveStates'' (info_AllBorrowLendReserveStates)"
  by (simp_all add: request_defs
      info_Delegations_def
      info_DelegatorHistory_def
      info_DelegatorRewards_def
      info_ApprovedBuilders_def
      info_UserDEXAbstraction_def
      info_UserAbstraction_def
      info_BorrowLendReserveState_def
      info_BorrowLendUserState_def
      info_AllBorrowLendReserveStates_def
      split: option.splits)

lemma info_sends6:
  "sends ''perpsAtOpenInterestCap'' (info_PerpsAtOpenInterestCap dex)"
  "sends ''perpDeployAuctionStatus'' (info_PerpDeployAuctionStatus)"
  "sends ''activeAssetData'' (info_ActiveAssetData user coin)"
  "sends ''perpDexLimits'' (info_PerpDEXLimits dex)"
  "sends ''perpDexStatus'' (info_PerpDEXStatus dex)"
  "sends ''allPerpMetas'' (info_AllPerpMetas)"
  "sends ''perpAnnotation'' (info_PerpAnnotation coin)"
  "sends ''perpCategories'' (info_PerpCategories)"
  "sends ''perpConciseAnnotations'' (info_PerpConciseAnnotations)"
  by (simp_all add: request_defs
      info_PerpsAtOpenInterestCap_def
      info_PerpDeployAuctionStatus_def
      info_ActiveAssetData_def
      info_PerpDEXLimits_def
      info_PerpDEXStatus_def
      info_AllPerpMetas_def
      info_PerpAnnotation_def
      info_PerpCategories_def
      info_PerpConciseAnnotations_def
      split: option.splits)

lemma info_sends7:
  "sends ''spotDeployState'' (info_SpotDeployState user)"
  "sends ''spotPairDeployAuctionStatus'' (info_SpotPairDeployAuctionStatus)"
  "sends ''tokenDetails'' (info_TokenDetails tokenID)"
  "sends ''outcomeMeta'' (info_OutcomeMeta)"
  "sends ''userNonFundingLedgerUpdates'' (info_UserNonFundingLedgerUpdates user startTime endTime)"
  "sends ''userTwapSliceFillsByTime'' (info_UserTwapSliceFillsByTime user startTime endTime)"
  "sends ''userBorrowLendInterest'' (info_UserBorrowLendInterest user startTime endTime)"
  "sends ''exchangeStatus'' (info_ExchangeStatus)"
  "sends ''extraAgents'' (info_ExtraAgents user)"
  by (simp_all add: request_defs
      info_SpotDeployState_def
      info_SpotPairDeployAuctionStatus_def
      info_TokenDetails_def
      info_OutcomeMeta_def
      info_UserNonFundingLedgerUpdates_def
      info_UserTwapSliceFillsByTime_def
      info_UserBorrowLendInterest_def
      info_ExchangeStatus_def
      info_ExtraAgents_def
      split: option.splits)

lemma info_sends8:
  "sends ''gossipPriorityAuctionStatus'' (info_GossipPriorityAuctionStatus)"
  "sends ''gossipRootIps'' (info_GossipRootIPs)"
  "sends ''isVip'' (info_IsVIP user)"
  "sends ''legalCheck'' (info_LegalCheck user)"
  "sends ''preTransferCheck'' (info_PreTransferCheck user source)"
  "sends ''vaultSummaries'' (info_VaultSummaries)"
  "sends ''validatorSummaries'' (info_ValidatorSummaries)"
  "sends ''validatorL1Votes'' (info_ValidatorL1Votes)"
  "sends ''marginTable'' (info_MarginTable i)"
  by (simp_all add: request_defs
      info_GossipPriorityAuctionStatus_def
      info_GossipRootIPs_def
      info_IsVIP_def
      info_LegalCheck_def
      info_PreTransferCheck_def
      info_VaultSummaries_def
      info_ValidatorSummaries_def
      info_ValidatorL1Votes_def
      info_MarginTable_def
      split: option.splits)

lemma info_sends9:
  "sends ''leadingVaults'' (info_LeadingVaults user)"
  "sends ''subAccounts2'' (info_Subaccounts2 user)"
  "sends ''twapHistory'' (info_TWAPHistory user)"
  "sends ''userToMultiSigSigners'' (info_UserToMultiSigSigners user)"
  "sends ''maxMarketOrderNtls'' (info_MaxMarketOrderNotionals)"
  "sends ''liquidatable'' (info_Liquidatable)"
  "sends ''settledOutcome'' (info_SettledOutcome outcome)"
  by (simp_all add: request_defs
      info_LeadingVaults_def
      info_Subaccounts2_def
      info_TWAPHistory_def
      info_UserToMultiSigSigners_def
      info_MaxMarketOrderNotionals_def
      info_Liquidatable_def
      info_SettledOutcome_def
      split: option.splits)

lemmas info_sends_direct = info_sends1 info_sends2 info_sends3 info_sends4 info_sends5 info_sends6 info_sends7 info_sends8 info_sends9

lemma info_sends_wrappers:
  "sends ''meta'' (info_Meta)"
  "sends ''l2Book'' (info_L2Book coin)"
  "sends ''clearinghouseState'' (info_ClearinghouseState user)"
  by (simp_all add: info_sends_direct info_ClearinghouseState_def info_L2Book_def info_Meta_def)

text \<open>Every name occurs once.\<close>

text \<open>The names and types alone.\<close>

definition info_names :: "(string \<times> string) list" where
  "info_names = [(''AllMids'', ''allMids''), (''Meta'', ''meta''),
     (''MetaForDEX'', ''meta''), (''L2Book'', ''l2Book''),
     (''L2BookWithOptions'', ''l2Book''), (''CandleSnapshot'', ''candleSnapshot''),
     (''ClearinghouseState'', ''clearinghouseState''), (''ClearinghouseStateForDEX'', ''clearinghouseState''),
     (''SpotClearinghouseState'', ''spotClearinghouseState''), (''MetaAndAssetContexts'', ''metaAndAssetCtxs''),
     (''RecentTrades'', ''recentTrades''), (''FundingHistory'', ''fundingHistory''),
     (''PredictedFundings'', ''predictedFundings''), (''PerpDEXs'', ''perpDexs''),
     (''OpenOrders'', ''openOrders''), (''FrontendOpenOrders'', ''frontendOpenOrders''),
     (''OrderStatus'', ''orderStatus''), (''OrderStatusByCloid'', ''orderStatus''),
     (''UserFills'', ''userFills''), (''UserFillsByTime'', ''userFillsByTime''),
     (''SpotMeta'', ''spotMeta''), (''SpotMetaAndAssetContexts'', ''spotMetaAndAssetCtxs''),
     (''Portfolio'', ''portfolio''), (''UserFunding'', ''userFunding''),
     (''UserFees'', ''userFees''), (''UserRateLimit'', ''userRateLimit''),
     (''DelegatorSummary'', ''delegatorSummary''), (''Subaccounts'', ''subAccounts''),
     (''VaultDetails'', ''vaultDetails''), (''AllMidsForDEX'', ''allMids''),
     (''MetaAndAssetContextsForDEX'', ''metaAndAssetCtxs''), (''OpenOrdersForDEX'', ''openOrders''),
     (''FrontendOpenOrdersForDEX'', ''frontendOpenOrders''), (''MaxBuilderFee'', ''maxBuilderFee''),
     (''HistoricalOrders'', ''historicalOrders''), (''UserTwapSliceFills'', ''userTwapSliceFills''),
     (''UserVaultEquities'', ''userVaultEquities''), (''UserRole'', ''userRole''),
     (''Referral'', ''referral''), (''Delegations'', ''delegations''),
     (''DelegatorHistory'', ''delegatorHistory''), (''DelegatorRewards'', ''delegatorRewards''),
     (''ApprovedBuilders'', ''approvedBuilders''), (''UserDEXAbstraction'', ''userDexAbstraction''),
     (''UserAbstraction'', ''userAbstraction''), (''BorrowLendReserveState'', ''borrowLendReserveState''),
     (''BorrowLendUserState'', ''borrowLendUserState''), (''AllBorrowLendReserveStates'', ''allBorrowLendReserveStates''),
     (''PerpsAtOpenInterestCap'', ''perpsAtOpenInterestCap''), (''PerpDeployAuctionStatus'', ''perpDeployAuctionStatus''),
     (''ActiveAssetData'', ''activeAssetData''), (''PerpDEXLimits'', ''perpDexLimits''),
     (''PerpDEXStatus'', ''perpDexStatus''), (''AllPerpMetas'', ''allPerpMetas''),
     (''PerpAnnotation'', ''perpAnnotation''), (''PerpCategories'', ''perpCategories''),
     (''PerpConciseAnnotations'', ''perpConciseAnnotations''), (''SpotDeployState'', ''spotDeployState''),
     (''SpotPairDeployAuctionStatus'', ''spotPairDeployAuctionStatus''), (''TokenDetails'', ''tokenDetails''),
     (''OutcomeMeta'', ''outcomeMeta''), (''UserNonFundingLedgerUpdates'', ''userNonFundingLedgerUpdates''),
     (''UserTwapSliceFillsByTime'', ''userTwapSliceFillsByTime''), (''UserBorrowLendInterest'', ''userBorrowLendInterest''),
     (''ExchangeStatus'', ''exchangeStatus''), (''ExtraAgents'', ''extraAgents''),
     (''GossipPriorityAuctionStatus'', ''gossipPriorityAuctionStatus''), (''GossipRootIPs'', ''gossipRootIps''),
     (''IsVIP'', ''isVip''), (''LegalCheck'', ''legalCheck''),
     (''PreTransferCheck'', ''preTransferCheck''), (''VaultSummaries'', ''vaultSummaries''),
     (''ValidatorSummaries'', ''validatorSummaries''), (''ValidatorL1Votes'', ''validatorL1Votes''),
     (''MarginTable'', ''marginTable''), (''LeadingVaults'', ''leadingVaults''),
     (''Subaccounts2'', ''subAccounts2''), (''TWAPHistory'', ''twapHistory''),
     (''UserToMultiSigSigners'', ''userToMultiSigSigners''), (''MaxMarketOrderNotionals'', ''maxMarketOrderNtls''),
     (''Liquidatable'', ''liquidatable''), (''SettledOutcome'', ''settledOutcome'')]"

lemma info_methods_names: "map (\<lambda>(name, ty, m). (name, ty)) (info_methods a) = info_names"
  by (simp add: info_methods_def info_names_def)

lemma info_names_distinct: "distinct (map fst info_names)"
  by code_simp

lemma info_methods_distinct:
  "distinct (map fst (info_methods a :: (string \<times> string \<times> 'd info_method) list))"
proof -
  have "map fst (map (\<lambda>(name, ty, m). (name, ty)) (info_methods a :: (string \<times> string \<times> 'd info_method) list)) =
      map fst info_names"
    by (simp only: info_methods_names)
  then show ?thesis using info_names_distinct by (simp add: split_def comp_def)
qed

lemma info_names_all:
  assumes "list_all P info_names"
  shows "list_all (\<lambda>(name, ty, m). P (name, ty)) (info_methods a :: (string \<times> string \<times> 'd info_method) list)"
proof -
  have "list_all P (map (\<lambda>(name, ty, m). (name, ty)) (info_methods a :: (string \<times> string \<times> 'd info_method) list))"
    using assms by (simp only: info_methods_names)
  then show ?thesis by (simp add: list.pred_map comp_def split_def)
qed

lemma info_methods_send: "list_all (\<lambda>(name, ty, m). sends ty m) (info_methods a)"
  by (simp add: info_methods_def info_sends_direct info_sends_wrappers)

text \<open>The methods whose requests cost 2.\<close>

definition light_methods :: "string list" where
  "light_methods = [''AllMids'', ''AllMidsForDEX'', ''L2Book'', ''L2BookWithOptions'', ''ClearinghouseState'',
     ''ClearinghouseStateForDEX'', ''SpotClearinghouseState'', ''OrderStatus'', ''OrderStatusByCloid'',
     ''ExchangeStatus'']"

definition light_types :: "string set" where
  "light_types = {''l2Book'', ''allMids'', ''clearinghouseState'', ''orderStatus'',
     ''spotClearinghouseState'', ''exchangeStatus''}"

lemma info_methods_types:
  "list_all (\<lambda>(name, ty, m). (ty \<in> light_types \<longleftrightarrow> name \<in> set light_methods) \<and>
     (ty = ''userRole'' \<longleftrightarrow> name = ''UserRole'')) (info_methods a)"
proof -
  have "list_all (\<lambda>(name, ty). (ty \<in> light_types \<longleftrightarrow> name \<in> set light_methods) \<and>
     (ty = ''userRole'' \<longleftrightarrow> name = ''UserRole'')) info_names"
    unfolding light_types_def light_methods_def info_names_def by code_simp
  from info_names_all [OF this, of a] show ?thesis by simp
qed

lemma info_weight: "RequestWeight ''info'' req =
    (if requestType req \<in> light_types then 2 else if requestType req = ''userRole'' then 60 else 20)"
  by (simp add: RequestWeight_def light_types_def)

text \<open>
  C21: whatever the arguments, a method of the info client that does not refuse them
  sends an object with each member once, whose type is the method's own; the type that the answer is
  decoded into is well formed; and the official weight charged for the request is 2, 60 or 20 as the
  documentation has it for that method.
\<close>

theorem info_requests_exact:
  assumes "(name, ty, m) \<in> set (info_methods a)" "m = Inr (req, t)"
  shows "(\<exists>ms. req = JObj ms \<and> distinct (map fst ms)) \<and> requestType req = ty \<and> wf_type t \<and>
    RequestWeight ''info'' req = (if name \<in> set light_methods then 2 else if name = ''UserRole'' then 60 else 20)"
proof -
  have "sends ty m" "(ty \<in> light_types \<longleftrightarrow> name \<in> set light_methods) \<and> (ty = ''userRole'' \<longleftrightarrow> name = ''UserRole'')"
    using assms(1) info_methods_send [of a] info_methods_types [of a] by (auto simp: list_all_iff)
  then show ?thesis using assms(2) by (simp add: sends_def info_weight)
qed

definition sample_args :: info_args where
  "sample_args = \<lparr> a_builder = [], a_coin = [], a_dex = [], a_source = [], a_tokenID = [], a_user = ''0xab'', a_vaultAddress = [],
     a_follower = None, a_oid = 7, a_cloid = [], a_aggregate = True, a_from = None, a_startTime = 0,
     a_endTime = None, a_number = 3, a_book = \<lparr> lb_Coin = ''BTC'', lb_NSigFigs = Some 5, lb_Mantissa = Some 2 \<rparr>,
     a_candle = \<lparr> cr_Coin = ''BTC'', cr_Interval = ''1m'', cr_StartTime = 0, cr_EndTime = None \<rparr> \<rparr>"

lemma sample_method:
  "(''UserRole'', ''userRole'', Inr (userRequest ''userRole'' ''0xab'', UserRoleResponse_type)) \<in>
   set (info_methods sample_args)"
  by (simp add: info_methods_def sample_args_def info_UserRole_def)

theorem info_requests_exact_witness:
  "RequestWeight ''info'' (userRequest ''userRole'' ''0xab'') = 60"
  using info_requests_exact [OF sample_method refl] by (simp add: light_methods_def)


lemma sample_role:
  "info_call_http (sample_config\<lparr>ic_Parse := \<lambda>_. Inr (JObj [(''role'', JStr ''user'')])\<rparr>) sample_decimals
     sample_world UserRoleResponse_type = ([100000000, 200000000], 3, Inr (VStruct [VString ''user'', VPtr None]))"
  by (simp add: info_call_http_def policy_of_def sample_config_def DefaultRetryPolicy_def numeral_3_eq_3
      sample_world_def retryable_def pause_def RetryAfterDelay_def Delay_def Transport.normalized_def Let_def
      read_response_def unmarshal_text_def unmarshal_into_def other_def wrap_i64_def UserRoleResponse_type_def
      decode_struct_type zero_struct decode_struct_def vals_def field_index_def decode_string_def)


text \<open>
  The two time-range methods that do not check the order of their bounds send a range that ends before
  it starts; the other four refuse it.
\<close>

lemma reversed_range_sent:
  "is_ok (info_UserFillsByTime ''u'' 5 (Some 1) True) \<and> is_ok (info_FundingHistory ''BTC'' 5 (Some 1)) \<and>
   \<not> is_ok (info_UserNonFundingLedgerUpdates ''u'' 5 (Some 1)) \<and> \<not> is_ok (info_UserTwapSliceFillsByTime ''u'' 5 (Some 1))"
  by (simp add: info_UserFillsByTime_def info_FundingHistory_def info_UserNonFundingLedgerUpdates_def
      info_UserTwapSliceFillsByTime_def is_ok_iff)

text \<open>
  The surcharge for long answers names a request that no method sends, so the ledger updates that the
  client does request are never charged for their length.
\<close>

lemma ledger_surcharge_unreachable:
  "\<forall>(name, ty, m) \<in> set (info_methods a). ty \<noteq> ''nonUserFundingUpdates''"
  "ResponseWeight ''info'' (JObj [(''type'', JStr ''nonUserFundingUpdates'')]) (Some (JArr (replicate 40 JNull))) = 2"
  "info_UserNonFundingLedgerUpdates user start_time end_time = Inr (req, t) \<Longrightarrow> ResponseWeight ''info'' req answer = 0"
proof -
  show "\<forall>(name, ty, m) \<in> set (info_methods a). ty \<noteq> ''nonUserFundingUpdates''"
  proof -
    have "list_all (\<lambda>(name, ty). ty \<noteq> ''nonUserFundingUpdates'') info_names" by code_simp
    from info_names_all [OF this, of a] show ?thesis by (simp add: list_all_iff)
  qed
  show "ResponseWeight ''info'' (JObj [(''type'', JStr ''nonUserFundingUpdates'')]) (Some (JArr (replicate 40 JNull))) = 2"
    by (simp add: ResponseWeight_def batchLength_def)
next
  assume "info_UserNonFundingLedgerUpdates user start_time end_time = Inr (req, t)"
  then have "requestType req = ''userNonFundingLedgerUpdates''"
    by (auto simp: info_UserNonFundingLedgerUpdates_def omit_def split: if_splits option.splits)
  then show "ResponseWeight ''info'' req answer = 0" by (simp add: ResponseWeight_def Let_def)
qed

end
