(* ===== verification/WsEvents.thy ===== *)
theory WsEvents
  imports InfoModels
begin

text \<open>
  The payload types of the WebSocket streams (\<^verbatim>\<open>websocket/events.go\<close>,
  \<^verbatim>\<open>websocket/extended_subscription.go\<close>, \<^verbatim>\<open>websocket/explorer_subscription.go\<close>) and of the explorer
  RPC. Types whose Go name is also one of \<^verbatim>\<open>types\<close> or \<^verbatim>\<open>info\<close> have the prefix \<open>ws_\<close>.
\<close>

definition Level_type :: "'d gotype" where
  "Level_type = TStruct
    [(''Price'', ''px'', TDecimal),
     (''Size'', ''sz'', TDecimal),
     (''Count'', ''n'', TInt)]"

definition BookLevels_type :: "'d gotype" where
  "BookLevels_type = TArray 2 (TSlice Level_type)"

definition L2BookEvent_type :: "'d gotype" where
  "L2BookEvent_type = TStruct
    [(''Coin'', ''coin'', TString),
     (''Time'', ''time'', TInt),
     (''Spread'', ''spread'', (TPtr TDecimal)),
     (''Levels'', ''levels'', BookLevels_type)]"

definition AllMidsEvent_type :: "'d gotype" where
  "AllMidsEvent_type = TStruct
    [(''Mids'', ''mids'', (TMap TDecimal))]"

definition TradeEvent_type :: "'d gotype" where
  "TradeEvent_type = TStruct
    [(''Coin'', ''coin'', TString),
     (''Side'', ''side'', TString),
     (''Price'', ''px'', TDecimal),
     (''Size'', ''sz'', TDecimal),
     (''Hash'', ''hash'', TString),
     (''Time'', ''time'', TInt),
     (''TID'', ''tid'', TInt),
     (''Users'', ''users'', (TArray 2 TString))]"

definition CandleEvent_type :: "'d gotype" where
  "CandleEvent_type = TStruct
    [(''OpenTime'', ''t'', TInt),
     (''CloseTime'', ''T'', TInt),
     (''Coin'', ''s'', TString),
     (''Interval'', ''i'', TString),
     (''Open'', ''o'', TDecimal),
     (''Close'', ''c'', TDecimal),
     (''High'', ''h'', TDecimal),
     (''Low'', ''l'', TDecimal),
     (''Volume'', ''v'', TDecimal),
     (''NumTrades'', ''n'', TInt)]"

definition BBOEvent_fields :: "(string \<times> string \<times> 'd gotype) list" where
  "BBOEvent_fields =
    [(''Coin'', ''coin'', TString),
     (''Time'', ''time'', TInt),
     (''Bid'', ''-'', (TPtr Level_type)),
     (''Ask'', ''-'', (TPtr Level_type))]"

definition bbo_wire :: "(string \<times> string \<times> 'd gotype) list" where
  "bbo_wire =
    [(''Coin'', ''coin'', TString),
     (''Time'', ''time'', TInt),
     (''BBO'', ''bbo'', (TArray 2 (TPtr Level_type)))]"

definition BBOEvent_UnmarshalJSON :: "'d decimal_text \<Rightarrow> jval \<Rightarrow> 'd gval \<Rightarrow> 'd gval res" where
  "BBOEvent_UnmarshalJSON D j z =
     bind_res (unmarshal_into D (TStruct bbo_wire) (Some j)) (\<lambda>wire.
     Inr (VStruct [get bbo_wire ''Coin'' wire, get bbo_wire ''Time'' wire,
       vals (get bbo_wire ''BBO'' wire) ! 0, vals (get bbo_wire ''BBO'' wire) ! 1]))"

definition BBOEvent_type :: "'d gotype" where
  "BBOEvent_type = TCustom (TStruct BBOEvent_fields) BBOEvent_UnmarshalJSON"

lemma array_element:
  assumes "has_type (TArray n t) v" "i < n"
  shows "has_type t (vals v ! i)"
  using assms by (auto simp: vals_def list_all_length split: gval.splits)

lemma BBOEvent_wf [simp]: "wf_type (BBOEvent_type :: 'd gotype)"
  unfolding BBOEvent_type_def wf_type.simps keeps_def
proof (intro allI impI, elim conjE)
  fix D :: "'d decimal_text" and j z v
  assume "BBOEvent_UnmarshalJSON D j z = Inr v"
  then obtain w where w: "unmarshal_into D (TStruct bbo_wire) (Some j) = Inr w"
    and v: "v = VStruct [get bbo_wire ''Coin'' w, get bbo_wire ''Time'' w,
       vals (get bbo_wire ''BBO'' w) ! 0, vals (get bbo_wire ''BBO'' w) ! 1]"
    by (auto simp: BBOEvent_UnmarshalJSON_def)
  have "wf_type (TStruct bbo_wire)" by (simp add: struct_simps bbo_wire_def Level_type_def)
  note t = unmarshal_typed [OF this w]
  have "has_type TString (get bbo_wire ''Coin'' w)" "has_type TInt (get bbo_wire ''Time'' w)"
    "has_type (TArray 2 (TPtr Level_type)) (get bbo_wire ''BBO'' w)"
    by (rule get_typed [OF t], simp add: field_simps bbo_wire_def)+
  moreover note array_element [OF this(3), of 0] array_element [OF this(3), of 1]
  ultimately show "has_type (TStruct BBOEvent_fields) v"
    by (simp add: v struct_simps BBOEvent_fields_def del: has_type.simps)
qed

definition SharedAssetCtx_fields :: "(string \<times> string \<times> 'd gotype) list" where
  "SharedAssetCtx_fields =
    [(''DayNotionalVolume'', ''dayNtlVlm'', TDecimal),
     (''PreviousDayPrice'', ''prevDayPx'', TDecimal),
     (''MarkPrice'', ''markPx'', TDecimal),
     (''MidPrice'', ''midPx'', (TPtr TDecimal))]"

definition SharedAssetCtx_type :: "'d gotype" where
  "SharedAssetCtx_type = TStruct SharedAssetCtx_fields"

definition PerpAssetCtx_type :: "'d gotype" where
  "PerpAssetCtx_type = TStruct (SharedAssetCtx_fields @
    [(''Funding'', ''funding'', TDecimal),
     (''OpenInterest'', ''openInterest'', TDecimal),
     (''OraclePrice'', ''oraclePx'', TDecimal)])"

definition SpotAssetCtx_type :: "'d gotype" where
  "SpotAssetCtx_type = TStruct (SharedAssetCtx_fields @
    [(''CirculatingSupply'', ''circulatingSupply'', TDecimal)])"

definition ActiveAssetCtxEvent_fields :: "(string \<times> string \<times> 'd gotype) list" where
  "ActiveAssetCtxEvent_fields =
    [(''Coin'', ''coin'', TString),
     (''Perp'', ''-'', (TPtr PerpAssetCtx_type)),
     (''Spot'', ''-'', (TPtr SpotAssetCtx_type))]"

text \<open>
  The event carries a raw context; a second look at it finds the discriminating members, of which exactly
  one must be there (and not null), and a third decodes the context itself.
\<close>

definition asset_ctx_wire :: "(string \<times> string \<times> 'd gotype) list" where
  "asset_ctx_wire =
    [(''Coin'', ''coin'', TString),
     (''Ctx'', ''ctx'', TRaw)]"

definition asset_ctx_tag :: "(string \<times> string \<times> 'd gotype) list" where
  "asset_ctx_tag =
    [(''Funding'', ''funding'', (TPtr TRaw)),
     (''CirculatingSupply'', ''circulatingSupply'', (TPtr TRaw))]"

definition ActiveAssetCtxEvent_UnmarshalJSON :: "'d decimal_text \<Rightarrow> jval \<Rightarrow> 'd gval \<Rightarrow> 'd gval res" where
  "ActiveAssetCtxEvent_UnmarshalJSON D j z =
     bind_res (unmarshal_into D (TStruct asset_ctx_wire) (Some j)) (\<lambda>wire.
       let coin = get asset_ctx_wire ''Coin'' wire; ctx = raw_of (get asset_ctx_wire ''Ctx'' wire)
       in if text_of coin = [] then Inl ''active asset context coin is required''
       else bind_res (unmarshal_into D (TStruct asset_ctx_tag) ctx) (\<lambda>tag.
         let funding = \<not> is_nil (get asset_ctx_tag ''Funding'' tag);
           supply = \<not> is_nil (get asset_ctx_tag ''CirculatingSupply'' tag)
         in if funding \<and> \<not> supply then
           bind_res (unmarshal_into D PerpAssetCtx_type ctx) (\<lambda>perp.
             Inr (VStruct [coin, VPtr (Some perp), VPtr None]))
         else if supply \<and> \<not> funding then
           bind_res (unmarshal_into D SpotAssetCtx_type ctx) (\<lambda>spot.
             Inr (VStruct [coin, VPtr None, VPtr (Some spot)]))
         else if funding \<and> supply
         then Inl ''active asset context has both perp and spot discriminator fields''
         else Inl ''active asset context has no perp or spot discriminator field''))"

definition ActiveAssetCtxEvent_type :: "'d gotype" where
  "ActiveAssetCtxEvent_type =
     TCustom (TStruct ActiveAssetCtxEvent_fields) ActiveAssetCtxEvent_UnmarshalJSON"

lemma asset_ctx_wf [simp]: "wf_type PerpAssetCtx_type" "wf_type SpotAssetCtx_type"
  by (simp_all add: struct_simps PerpAssetCtx_type_def SpotAssetCtx_type_def SharedAssetCtx_fields_def)

lemma ActiveAssetCtxEvent_wf [simp]: "wf_type (ActiveAssetCtxEvent_type :: 'd gotype)"
proof -
  have "wf_type (TStruct asset_ctx_wire)" by (simp add: struct_simps asset_ctx_wire_def)
  moreover have "has_field asset_ctx_wire ''Coin'' TString" by (simp add: field_simps asset_ctx_wire_def)
  ultimately have coin: "has_type TString (get asset_ctx_wire ''Coin'' w)"
    if "unmarshal_into D (TStruct asset_ctx_wire) (Some j) = Inr w" for D :: "'d decimal_text" and j w
    using unmarshal_typed [OF _ that] by (blast intro: get_typed)
  have ctx: "has_type t x" if "unmarshal_into D t r = Inr x" "t = PerpAssetCtx_type \<or> t = SpotAssetCtx_type"
    for D :: "'d decimal_text" and t r x
    using unmarshal_typed [OF _ that(1)] that(2) by fastforce
  have fields: "has_type (TStruct ActiveAssetCtxEvent_fields) (VStruct [c, VPtr p, VPtr s]) \<longleftrightarrow>
      has_type TString c \<and> pred_option (has_type PerpAssetCtx_type) p \<and>
      pred_option (has_type SpotAssetCtx_type) s" for c and p s :: "'d gval option"
    by (simp add: struct_simps ActiveAssetCtxEvent_fields_def)
  show ?thesis
    by (auto simp: ActiveAssetCtxEvent_type_def keeps_def ActiveAssetCtxEvent_UnmarshalJSON_def Let_def fields
        simp del: has_type.simps split: if_splits dest: coin ctx)
qed

definition LiquidationEvent_type :: "'d gotype" where
  "LiquidationEvent_type = TStruct
    [(''LiquidationID'', ''lid'', TInt),
     (''Liquidator'', ''liquidator'', TString),
     (''LiquidatedUser'', ''liquidated_user'', TString),
     (''LiquidatedNotionalSize'', ''liquidated_ntl_pos'', TDecimal),
     (''LiquidatedAccountValue'', ''liquidated_account_value'', TDecimal)]"

definition NonUserCancelEvent_type :: "'d gotype" where
  "NonUserCancelEvent_type = TStruct
    [(''Coin'', ''coin'', TString),
     (''OrderID'', ''oid'', TInt)]"

definition UserFunding_type :: "'d gotype" where
  "UserFunding_type = TStruct
    [(''Time'', ''time'', TInt),
     (''Coin'', ''coin'', TString),
     (''USDC'', ''usdc'', TDecimal),
     (''Size'', ''szi'', TDecimal),
     (''FundingRate'', ''fundingRate'', TDecimal),
     (''Samples'', ''nSamples'', (TPtr TInt))]"

definition FillLiquidation_type :: "'d gotype" where
  "FillLiquidation_type = TStruct
    [(''LiquidatedUser'', ''liquidatedUser'', TString),
     (''MarkPrice'', ''markPx'', TDecimal),
     (''Method'', ''method'', TString)]"

definition ws_UserFill_type :: "'d gotype" where
  "ws_UserFill_type = TStruct
    [(''Coin'', ''coin'', TString),
     (''Price'', ''px'', TDecimal),
     (''Size'', ''sz'', TDecimal),
     (''Side'', ''side'', TString),
     (''Time'', ''time'', TInt),
     (''StartPosition'', ''startPosition'', TDecimal),
     (''Direction'', ''dir'', TString),
     (''ClosedPnL'', ''closedPnl'', TDecimal),
     (''Hash'', ''hash'', TString),
     (''OrderID'', ''oid'', TInt),
     (''Crossed'', ''crossed'', TBool),
     (''Fee'', ''fee'', TDecimal),
     (''TradeID'', ''tid'', TInt),
     (''FeeToken'', ''feeToken'', TString),
     (''BuilderFee'', ''builderFee'', (TPtr TDecimal)),
     (''Liquidation'', ''liquidation'', (TPtr FillLiquidation_type))]"

definition UserEvent_type :: "'d gotype" where
  "UserEvent_type = TStruct
    [(''Fills'', ''fills'', (TSlice ws_UserFill_type)),
     (''Funding'', ''funding'', (TPtr UserFunding_type)),
     (''Liquidation'', ''liquidation'', (TPtr LiquidationEvent_type)),
     (''NonUserCancel'', ''nonUserCancel'', (TSlice NonUserCancelEvent_type))]"

definition BasicOrder_type :: "'d gotype" where
  "BasicOrder_type = TStruct
    [(''Coin'', ''coin'', TString),
     (''Side'', ''side'', TString),
     (''LimitPrice'', ''limitPx'', TDecimal),
     (''Size'', ''sz'', TDecimal),
     (''OrderID'', ''oid'', TInt),
     (''Timestamp'', ''timestamp'', TInt),
     (''OriginalSz'', ''origSz'', TDecimal),
     (''Cloid'', ''cloid'', TString)]"

definition OrderUpdate_type :: "'d gotype" where
  "OrderUpdate_type = TStruct
    [(''Order'', ''order'', BasicOrder_type),
     (''Status'', ''status'', TString),
     (''StatusTimestamp'', ''statusTimestamp'', TInt)]"

definition UserFillsEvent_type :: "'d gotype" where
  "UserFillsEvent_type = TStruct
    [(''IsSnapshot'', ''isSnapshot'', TBool),
     (''User'', ''user'', TString),
     (''Fills'', ''fills'', (TSlice ws_UserFill_type))]"

definition UserFundingsEvent_type :: "'d gotype" where
  "UserFundingsEvent_type = TStruct
    [(''IsSnapshot'', ''isSnapshot'', TBool),
     (''User'', ''user'', TString),
     (''Fundings'', ''fundings'', (TSlice UserFunding_type))]"

definition LedgerDeposit_type :: "'d gotype" where
  "LedgerDeposit_type = TStruct
    [(''Type'', ''type'', TString),
     (''USDC'', ''usdc'', TDecimal)]"

definition LedgerWithdraw_type :: "'d gotype" where
  "LedgerWithdraw_type = TStruct
    [(''Type'', ''type'', TString),
     (''USDC'', ''usdc'', TDecimal),
     (''Nonce'', ''nonce'', TInt),
     (''Fee'', ''fee'', TDecimal)]"

definition LedgerInternalTransfer_type :: "'d gotype" where
  "LedgerInternalTransfer_type = TStruct
    [(''Type'', ''type'', TString),
     (''USDC'', ''usdc'', TDecimal),
     (''User'', ''user'', TString),
     (''Destination'', ''destination'', TString),
     (''Fee'', ''fee'', TDecimal)]"

definition LedgerSubaccountTransfer_type :: "'d gotype" where
  "LedgerSubaccountTransfer_type = TStruct
    [(''Type'', ''type'', TString),
     (''USDC'', ''usdc'', TDecimal),
     (''User'', ''user'', TString),
     (''Destination'', ''destination'', TString)]"

definition ws_LiquidatedPosition_type :: "'d gotype" where
  "ws_LiquidatedPosition_type = TStruct
    [(''Coin'', ''coin'', TString),
     (''Size'', ''szi'', TDecimal)]"

definition LedgerLiquidation_type :: "'d gotype" where
  "LedgerLiquidation_type = TStruct
    [(''Type'', ''type'', TString),
     (''AccountValue'', ''accountValue'', TDecimal),
     (''LeverageType'', ''leverageType'', TString),
     (''LiquidatedPositions'', ''liquidatedPositions'', (TSlice ws_LiquidatedPosition_type))]"

definition LedgerVaultDelta_type :: "'d gotype" where
  "LedgerVaultDelta_type = TStruct
    [(''Type'', ''type'', TString),
     (''Vault'', ''vault'', TString),
     (''USDC'', ''usdc'', TDecimal)]"

definition LedgerVaultWithdrawal_type :: "'d gotype" where
  "LedgerVaultWithdrawal_type = TStruct
    [(''Type'', ''type'', TString),
     (''Vault'', ''vault'', TString),
     (''User'', ''user'', TString),
     (''RequestedUSD'', ''requestedUsd'', TDecimal),
     (''Commission'', ''commission'', TDecimal),
     (''ClosingCost'', ''closingCost'', TDecimal),
     (''Basis'', ''basis'', TDecimal),
     (''NetWithdrawnUSD'', ''netWithdrawnUsd'', TDecimal)]"

definition LedgerVaultLeaderCommission_type :: "'d gotype" where
  "LedgerVaultLeaderCommission_type = TStruct
    [(''Type'', ''type'', TString),
     (''User'', ''user'', TString),
     (''USDC'', ''usdc'', TDecimal)]"

definition LedgerSpotTransfer_type :: "'d gotype" where
  "LedgerSpotTransfer_type = TStruct
    [(''Type'', ''type'', TString),
     (''Token'', ''token'', TString),
     (''Amount'', ''amount'', TDecimal),
     (''USDCValue'', ''usdcValue'', TDecimal),
     (''User'', ''user'', TString),
     (''Destination'', ''destination'', TString),
     (''Fee'', ''fee'', TDecimal)]"

definition LedgerAccountClassTransfer_type :: "'d gotype" where
  "LedgerAccountClassTransfer_type = TStruct
    [(''Type'', ''type'', TString),
     (''USDC'', ''usdc'', TDecimal),
     (''ToPerp'', ''toPerp'', TBool)]"

definition LedgerSpotGenesis_type :: "'d gotype" where
  "LedgerSpotGenesis_type = TStruct
    [(''Type'', ''type'', TString),
     (''Token'', ''token'', TString),
     (''Amount'', ''amount'', TDecimal)]"

definition LedgerRewardsClaim_type :: "'d gotype" where
  "LedgerRewardsClaim_type = TStruct
    [(''Type'', ''type'', TString),
     (''Amount'', ''amount'', TDecimal)]"

definition ws_LedgerDelta_fields :: "(string \<times> string \<times> 'd gotype) list" where
  "ws_LedgerDelta_fields =
    [(''Type'', ''type'', TString),
     (''Deposit'', ''-'', (TPtr LedgerDeposit_type)),
     (''Withdraw'', ''-'', (TPtr LedgerWithdraw_type)),
     (''InternalTransfer'', ''-'', (TPtr LedgerInternalTransfer_type)),
     (''SubaccountTransfer'', ''-'', (TPtr LedgerSubaccountTransfer_type)),
     (''Liquidation'', ''-'', (TPtr LedgerLiquidation_type)),
     (''VaultDelta'', ''-'', (TPtr LedgerVaultDelta_type)),
     (''VaultWithdrawal'', ''-'', (TPtr LedgerVaultWithdrawal_type)),
     (''VaultLeaderCommission'', ''-'', (TPtr LedgerVaultLeaderCommission_type)),
     (''SpotTransfer'', ''-'', (TPtr LedgerSpotTransfer_type)),
     (''AccountClassTransfer'', ''-'', (TPtr LedgerAccountClassTransfer_type)),
     (''SpotGenesis'', ''-'', (TPtr LedgerSpotGenesis_type)),
     (''RewardsClaim'', ''-'', (TPtr LedgerRewardsClaim_type)),
     (''Raw'', ''-'', TRaw)]"

text \<open>The branch that a type tag selects: the field it fills and the type of that field.\<close>

definition ledger_branches :: "(string \<times> string \<times> 'd gotype) list" where
  "ledger_branches =
    [(''deposit'', (''Deposit'', LedgerDeposit_type)),
     (''withdraw'', (''Withdraw'', LedgerWithdraw_type)),
     (''internalTransfer'', (''InternalTransfer'', LedgerInternalTransfer_type)),
     (''subAccountTransfer'', (''SubaccountTransfer'', LedgerSubaccountTransfer_type)),
     (''liquidation'', (''Liquidation'', LedgerLiquidation_type)),
     (''vaultCreate'', (''VaultDelta'', LedgerVaultDelta_type)),
     (''vaultDeposit'', (''VaultDelta'', LedgerVaultDelta_type)),
     (''vaultDistribution'', (''VaultDelta'', LedgerVaultDelta_type)),
     (''vaultWithdraw'', (''VaultWithdrawal'', LedgerVaultWithdrawal_type)),
     (''vaultLeaderCommission'', (''VaultLeaderCommission'', LedgerVaultLeaderCommission_type)),
     (''spotTransfer'', (''SpotTransfer'', LedgerSpotTransfer_type)),
     (''accountClassTransfer'', (''AccountClassTransfer'', LedgerAccountClassTransfer_type)),
     (''spotGenesis'', (''SpotGenesis'', LedgerSpotGenesis_type)),
     (''rewardsClaim'', (''RewardsClaim'', LedgerRewardsClaim_type))]"

definition ledger_tag :: "(string \<times> string \<times> 'd gotype) list" where
  "ledger_tag = [(''Type'', ''type'', TString)]"

definition ws_LedgerDelta_UnmarshalJSON :: "'d decimal_text \<Rightarrow> jval \<Rightarrow> 'd gval \<Rightarrow> 'd gval res" where
  "ws_LedgerDelta_UnmarshalJSON D j z =
     bind_res (unmarshal_into D (TStruct ledger_tag) (Some j)) (\<lambda>tag.
       let ty = text_of (get ledger_tag ''Type'' tag);
         delta = put_field ws_LedgerDelta_fields ''Raw'' (VRaw (Some j))
           (put_field ws_LedgerDelta_fields ''Type'' (VString ty) (zero D (TStruct ws_LedgerDelta_fields)))
       in case map_of ledger_branches ty of
           Some (field, t) \<Rightarrow> bind_res (unmarshal_into D t (Some j)) (\<lambda>x.
             Inr (put_field ws_LedgerDelta_fields field (VPtr (Some x)) delta))
         | None \<Rightarrow> if ty = [] then Inl ''ledger delta type is required'' else Inr delta)"

definition ws_LedgerDelta_type :: "'d gotype" where
  "ws_LedgerDelta_type = TCustom (TStruct ws_LedgerDelta_fields) ws_LedgerDelta_UnmarshalJSON"

lemma ledger_payloads_wf [simp]:
  "wf_type LedgerDeposit_type"
  "wf_type LedgerWithdraw_type"
  "wf_type LedgerInternalTransfer_type"
  "wf_type LedgerSubaccountTransfer_type"
  "wf_type LedgerLiquidation_type"
  "wf_type LedgerVaultDelta_type"
  "wf_type LedgerVaultWithdrawal_type"
  "wf_type LedgerVaultLeaderCommission_type"
  "wf_type LedgerSpotTransfer_type"
  "wf_type LedgerAccountClassTransfer_type"
  "wf_type LedgerSpotGenesis_type"
  "wf_type LedgerRewardsClaim_type"
  by (simp_all add: struct_simps ws_LiquidatedPosition_type_def
      LedgerDeposit_type_def
      LedgerWithdraw_type_def
      LedgerInternalTransfer_type_def
      LedgerSubaccountTransfer_type_def
      LedgerLiquidation_type_def
      LedgerVaultDelta_type_def
      LedgerVaultWithdrawal_type_def
      LedgerVaultLeaderCommission_type_def
      LedgerSpotTransfer_type_def
      LedgerAccountClassTransfer_type_def
      LedgerSpotGenesis_type_def
      LedgerRewardsClaim_type_def)

lemma ledger_fields:
  "has_field ws_LedgerDelta_fields ''Deposit'' (TPtr LedgerDeposit_type)"
  "has_field ws_LedgerDelta_fields ''Withdraw'' (TPtr LedgerWithdraw_type)"
  "has_field ws_LedgerDelta_fields ''InternalTransfer'' (TPtr LedgerInternalTransfer_type)"
  "has_field ws_LedgerDelta_fields ''SubaccountTransfer'' (TPtr LedgerSubaccountTransfer_type)"
  "has_field ws_LedgerDelta_fields ''Liquidation'' (TPtr LedgerLiquidation_type)"
  "has_field ws_LedgerDelta_fields ''VaultDelta'' (TPtr LedgerVaultDelta_type)"
  "has_field ws_LedgerDelta_fields ''VaultWithdrawal'' (TPtr LedgerVaultWithdrawal_type)"
  "has_field ws_LedgerDelta_fields ''VaultLeaderCommission'' (TPtr LedgerVaultLeaderCommission_type)"
  "has_field ws_LedgerDelta_fields ''SpotTransfer'' (TPtr LedgerSpotTransfer_type)"
  "has_field ws_LedgerDelta_fields ''AccountClassTransfer'' (TPtr LedgerAccountClassTransfer_type)"
  "has_field ws_LedgerDelta_fields ''SpotGenesis'' (TPtr LedgerSpotGenesis_type)"
  "has_field ws_LedgerDelta_fields ''RewardsClaim'' (TPtr LedgerRewardsClaim_type)"
  "has_field ws_LedgerDelta_fields ''Type'' TString" "has_field ws_LedgerDelta_fields ''Raw'' TRaw"
  by (simp_all add: field_simps ws_LedgerDelta_fields_def)

lemma ledger_branch_sound:
  assumes "map_of ledger_branches ty = Some (f, t)"
  shows "has_field ws_LedgerDelta_fields f (TPtr t)" "wf_type t"
proof -
  have "(ty, f, t) \<in> set ledger_branches" using assms by (rule map_of_SomeD)
  then show "has_field ws_LedgerDelta_fields f (TPtr t)" "wf_type t"
    unfolding ledger_branches_def by (simp; elim disjE; simp add: ledger_fields)+
qed

lemma ws_LedgerDelta_wf [simp]: "wf_type ws_LedgerDelta_type"
  unfolding ws_LedgerDelta_type_def wf_type.simps keeps_def
proof (intro allI impI, elim conjE)
  fix D :: "'d decimal_text" and j z v
  let ?fs = ws_LedgerDelta_fields
  assume v: "ws_LedgerDelta_UnmarshalJSON D j z = Inr v"
  have start: "has_type (TStruct ?fs) (put_field ?fs ''Raw'' (VRaw (Some j))
      (put_field ?fs ''Type'' (VString ty) (zero D (TStruct ?fs))))" for ty
    by (rule put_field_typed [OF put_field_typed [OF zero_typed ledger_fields(13)] ledger_fields(14)])
      simp_all
  have "has_type (TStruct ?fs) (put_field ?fs f (VPtr (Some x)) (put_field ?fs ''Raw'' (VRaw (Some j))
      (put_field ?fs ''Type'' (VString ty) (zero D (TStruct ?fs)))))"
    if "map_of ledger_branches ty = Some (f, t)" "unmarshal_into D t (Some j) = Inr x" for ty f t x
    using put_field_typed [OF start] ledger_branch_sound [OF that(1)] unmarshal_typed [OF _ that(2)] by simp
  then show "has_type (TStruct ?fs) v"
    using v start by (auto simp: ws_LedgerDelta_UnmarshalJSON_def Let_def split: option.splits if_splits)
qed

definition LedgerEntry_type :: "'d gotype" where
  "LedgerEntry_type = TStruct
    [(''Time'', ''time'', TInt),
     (''Hash'', ''hash'', TString),
     (''Delta'', ''delta'', ws_LedgerDelta_type)]"

definition UserLedgerEvent_type :: "'d gotype" where
  "UserLedgerEvent_type = TStruct
    [(''IsSnapshot'', ''isSnapshot'', TBool),
     (''User'', ''user'', TString),
     (''Updates'', ''nonFundingLedgerUpdates'', (TSlice LedgerEntry_type))]"

definition NotificationEvent_type :: "'d gotype" where
  "NotificationEvent_type = TStruct
    [(''Notification'', ''notification'', TString)]"

definition WebData3UserState_type :: "'d gotype" where
  "WebData3UserState_type = TStruct
    [(''AgentAddress'', ''agentAddress'', (TPtr TString)),
     (''AgentValidUntil'', ''agentValidUntil'', (TPtr TInt)),
     (''CumulativeLedger'', ''cumLedger'', TDecimal),
     (''ServerTime'', ''serverTime'', TInt),
     (''IsVault'', ''isVault'', TBool),
     (''User'', ''user'', TString),
     (''OptOutOfSpotDusting'', ''optOutOfSpotDusting'', TBool),
     (''DEXAbstractionEnabled'', ''dexAbstractionEnabled'', TBool),
     (''Abstraction'', ''abstraction'', TString)]"

definition ws_LeadingVault_type :: "'d gotype" where
  "ws_LeadingVault_type = TStruct
    [(''Address'', ''address'', TString),
     (''Name'', ''name'', TString)]"

definition WebData3PerpDEXState_type :: "'d gotype" where
  "WebData3PerpDEXState_type = TStruct
    [(''TotalVaultEquity'', ''totalVaultEquity'', TDecimal),
     (''PerpsAtOpenInterestCap'', ''perpsAtOpenInterestCap'', (TSlice TString)),
     (''LeadingVaults'', ''leadingVaults'', (TSlice ws_LeadingVault_type))]"

definition WebData3Event_type :: "'d gotype" where
  "WebData3Event_type = TStruct
    [(''UserState'', ''userState'', WebData3UserState_type),
     (''PerpDEXStates'', ''perpDexStates'', (TSlice WebData3PerpDEXState_type))]"

definition OpenOrdersEvent_type :: "'d gotype" where
  "OpenOrdersEvent_type = TStruct
    [(''DEX'', ''dex'', TString),
     (''User'', ''user'', TString),
     (''Orders'', ''orders'', (TSlice FrontendOpenOrder_type))]"

definition ClearinghouseStateEvent_type :: "'d gotype" where
  "ClearinghouseStateEvent_type = TStruct
    [(''DEX'', ''dex'', TString),
     (''User'', ''user'', TString),
     (''ClearinghouseState'', ''clearinghouseState'', ClearinghouseStateResponse_type)]"

definition ws_TWAPState_type :: "'d gotype" where
  "ws_TWAPState_type = TStruct
    [(''Coin'', ''coin'', TString),
     (''ExecutedNtl'', ''executedNtl'', TDecimal),
     (''ExecutedSz'', ''executedSz'', TDecimal),
     (''Minutes'', ''minutes'', TInt),
     (''Randomize'', ''randomize'', TBool),
     (''ReduceOnly'', ''reduceOnly'', TBool),
     (''Side'', ''side'', TString),
     (''Size'', ''sz'', TDecimal),
     (''Timestamp'', ''timestamp'', TInt),
     (''User'', ''user'', TString)]"

definition TWAPStateEntry_fields :: "'d gotype list" where
  "TWAPStateEntry_fields = [TUint64, ws_TWAPState_type]"

definition TWAPStateEntry_type :: "'d gotype" where
  "TWAPStateEntry_type = TTuple ''TWAP state must contain ID and state'' True TWAPStateEntry_fields"

definition TWAPStatesEvent_type :: "'d gotype" where
  "TWAPStatesEvent_type = TStruct
    [(''DEX'', ''dex'', TString),
     (''User'', ''user'', TString),
     (''States'', ''states'', (TSlice TWAPStateEntry_type))]"

definition UserTWAPSliceFillsEvent_type :: "'d gotype" where
  "UserTWAPSliceFillsEvent_type = TStruct
    [(''User'', ''user'', TString),
     (''TWAPSliceFills'', ''twapSliceFills'', (TSlice TwapSliceFill_type)),
     (''IsSnapshot'', ''isSnapshot'', TBool)]"

definition ws_TWAPHistoryStatus_type :: "'d gotype" where
  "ws_TWAPHistoryStatus_type = TStruct
    [(''Status'', ''status'', TString),
     (''Description'', ''description'', TString)]"

definition ws_TWAPHistoryEntry_type :: "'d gotype" where
  "ws_TWAPHistoryEntry_type = TStruct
    [(''Time'', ''time'', TInt),
     (''State'', ''state'', ws_TWAPState_type),
     (''Status'', ''status'', ws_TWAPHistoryStatus_type),
     (''TWAPID'', ''twapId'', (TPtr TUint64))]"

definition UserTWAPHistoryEvent_type :: "'d gotype" where
  "UserTWAPHistoryEvent_type = TStruct
    [(''User'', ''user'', TString),
     (''History'', ''history'', (TSlice ws_TWAPHistoryEntry_type)),
     (''IsSnapshot'', ''isSnapshot'', TBool)]"

definition SpotStateEvent_type :: "'d gotype" where
  "SpotStateEvent_type = TStruct
    [(''User'', ''user'', TString),
     (''SpotState'', ''spotState'', SpotClearinghouseStateResponse_type)]"

definition ws_DEXClearinghouseState_fields :: "'d gotype list" where
  "ws_DEXClearinghouseState_fields = [TString, ClearinghouseStateResponse_type]"

definition ws_DEXClearinghouseState_type :: "'d gotype" where
  "ws_DEXClearinghouseState_type = TTuple ''DEX clearinghouse state must contain DEX and state'' True ws_DEXClearinghouseState_fields"

definition AllDEXsClearinghouseStateEvent_type :: "'d gotype" where
  "AllDEXsClearinghouseStateEvent_type = TStruct
    [(''User'', ''user'', TString),
     (''ClearinghouseStates'', ''clearinghouseStates'', (TSlice ws_DEXClearinghouseState_type))]"

definition DEXAssetContexts_fields :: "'d gotype list" where
  "DEXAssetContexts_fields = [TString, (TSlice AssetContext_type)]"

definition DEXAssetContexts_type :: "'d gotype" where
  "DEXAssetContexts_type = TTuple ''DEX asset contexts must contain DEX and contexts'' True DEXAssetContexts_fields"

definition AllDEXsAssetCtxsEvent_type :: "'d gotype" where
  "AllDEXsAssetCtxsEvent_type = TStruct
    [(''Contexts'', ''ctxs'', (TSlice DEXAssetContexts_type))]"

definition AssetCtxsEvent_type :: "'d gotype" where
  "AssetCtxsEvent_type = TStruct
    [(''DEX'', ''dex'', TString),
     (''Contexts'', ''ctxs'', (TSlice AssetContext_type))]"

definition FastAssetCtx_type :: "'d gotype" where
  "FastAssetCtx_type = TStruct
    [(''MarkPrice'', ''markPx'', (TPtr TDecimal)),
     (''MidPrice'', ''midPx'', (TPtr TDecimal))]"

definition FastAssetCtxsEvent_type :: "'d gotype" where
  "FastAssetCtxsEvent_type = TMap FastAssetCtx_type"

definition SpotAssetCtxsEvent_type :: "'d gotype" where
  "SpotAssetCtxsEvent_type = TSlice SpotAssetContext_type"

definition UserHistoricalOrdersEvent_type :: "'d gotype" where
  "UserHistoricalOrdersEvent_type = TStruct
    [(''User'', ''user'', TString),
     (''OrderHistory'', ''orderHistory'', (TSlice HistoricalOrder_type)),
     (''IsSnapshot'', ''isSnapshot'', TBool)]"

definition ws_OutcomeSideSpec_type :: "'d gotype" where
  "ws_OutcomeSideSpec_type = TStruct
    [(''Name'', ''name'', TString),
     (''Token'', ''token'', (TPtr TUint64))]"

definition OutcomeCreatedEvent_type :: "'d gotype" where
  "OutcomeCreatedEvent_type = TStruct
    [(''Outcome'', ''outcome'', TUint64),
     (''Name'', ''name'', TString),
     (''Description'', ''description'', TString),
     (''SideSpecs'', ''sideSpecs'', (TSlice ws_OutcomeSideSpec_type)),
     (''QuoteToken'', ''quoteToken'', TString)]"

definition OutcomeSettledEvent_type :: "'d gotype" where
  "OutcomeSettledEvent_type = TStruct
    [(''Outcome'', ''outcome'', TUint64)]"

definition QuestionUpdatedEvent_type :: "'d gotype" where
  "QuestionUpdatedEvent_type = TStruct
    [(''Question'', ''question'', TUint64),
     (''Name'', ''name'', TString),
     (''Description'', ''description'', TString),
     (''FallbackOutcome'', ''fallbackOutcome'', TUint64),
     (''NamedOutcomes'', ''namedOutcomes'', (TSlice TUint64)),
     (''SettledNamedOutcomes'', ''settledNamedOutcomes'', (TSlice TUint64))]"

definition QuestionSettledEvent_type :: "'d gotype" where
  "QuestionSettledEvent_type = TStruct
    [(''Question'', ''question'', TUint64)]"

definition OutcomeMetaUpdate_fields :: "(string \<times> string \<times> 'd gotype) list" where
  "OutcomeMetaUpdate_fields =
    [(''OutcomeCreated'', ''-'', (TPtr OutcomeCreatedEvent_type)),
     (''OutcomeSettled'', ''-'', (TPtr OutcomeSettledEvent_type)),
     (''QuestionUpdated'', ''-'', (TPtr QuestionUpdatedEvent_type)),
     (''QuestionSettled'', ''-'', (TPtr QuestionSettledEvent_type)),
     (''Raw'', ''-'', TRaw)]"

text \<open>The members are looked up in this order; the first one that is there is decoded.\<close>

definition outcome_branches :: "(string \<times> string \<times> 'd gotype) list" where
  "outcome_branches =
    [(''outcomeCreated'', ''OutcomeCreated'', OutcomeCreatedEvent_type),
     (''outcomeSettled'', ''OutcomeSettled'', OutcomeSettledEvent_type),
     (''questionUpdated'', ''QuestionUpdated'', QuestionUpdatedEvent_type),
     (''questionSettled'', ''QuestionSettled'', QuestionSettledEvent_type)]"

definition OutcomeMetaUpdate_UnmarshalJSON :: "'d decimal_text \<Rightarrow> jval \<Rightarrow> 'd gval \<Rightarrow> 'd gval res" where
  "OutcomeMetaUpdate_UnmarshalJSON D j z =
     bind_res (unmarshal_into D (TMap TRaw) (Some j)) (\<lambda>m.
       let tag = map_of (raw_members m);
         u = put_field OutcomeMetaUpdate_fields ''Raw'' (VRaw (Some j)) (zero D (TStruct OutcomeMetaUpdate_fields))
       in case find (\<lambda>(k, _). tag k \<noteq> None) outcome_branches of
           None \<Rightarrow> Inr u
         | Some (k, field, t) \<Rightarrow> bind_res (unmarshal_into D t (tag k)) (\<lambda>x.
             Inr (put_field OutcomeMetaUpdate_fields field (VPtr (Some x)) u)))"

definition OutcomeMetaUpdate_type :: "'d gotype" where
  "OutcomeMetaUpdate_type = TCustom (TStruct OutcomeMetaUpdate_fields) OutcomeMetaUpdate_UnmarshalJSON"

lemma outcome_payloads_wf [simp]:
  "wf_type OutcomeCreatedEvent_type" "wf_type OutcomeSettledEvent_type"
  "wf_type QuestionUpdatedEvent_type" "wf_type QuestionSettledEvent_type"
  by (simp_all add: struct_simps OutcomeCreatedEvent_type_def OutcomeSettledEvent_type_def
      QuestionUpdatedEvent_type_def QuestionSettledEvent_type_def ws_OutcomeSideSpec_type_def)

lemma outcome_raw: "has_field OutcomeMetaUpdate_fields ''Raw'' TRaw"
  by (simp add: field_simps OutcomeMetaUpdate_fields_def)

lemma outcome_branch_sound:
  assumes "find p outcome_branches = Some (k, f, t)"
  shows "has_field OutcomeMetaUpdate_fields f (TPtr t)" "wf_type t"
proof -
  have "(k, f, t) \<in> set outcome_branches" using assms by (metis find_Some_iff nth_mem)
  then show "has_field OutcomeMetaUpdate_fields f (TPtr t)" "wf_type t"
    unfolding outcome_branches_def
    by (simp; elim disjE; simp add: field_simps OutcomeMetaUpdate_fields_def)+
qed

lemma OutcomeMetaUpdate_wf [simp]: "wf_type OutcomeMetaUpdate_type"
  unfolding OutcomeMetaUpdate_type_def wf_type.simps keeps_def
proof (intro allI impI, elim conjE)
  fix D :: "'d decimal_text" and j z v
  let ?fs = OutcomeMetaUpdate_fields
  assume v: "OutcomeMetaUpdate_UnmarshalJSON D j z = Inr v"
  have start: "has_type (TStruct ?fs) (put_field ?fs ''Raw'' (VRaw (Some j)) (zero D (TStruct ?fs)))"
    by (rule put_field_typed [OF zero_typed outcome_raw]) simp
  have "has_type (TStruct ?fs) (put_field ?fs f (VPtr (Some x)) (put_field ?fs ''Raw'' (VRaw (Some j))
      (zero D (TStruct ?fs))))"
    if "find p outcome_branches = Some (k, f, t)" "unmarshal_into D t r = Inr x" for p k f t r x
    using put_field_typed [OF start] outcome_branch_sound [OF that(1)] unmarshal_typed [OF _ that(2)] by simp
  then show "has_type (TStruct ?fs) v"
    using v start by (auto simp: OutcomeMetaUpdate_UnmarshalJSON_def Let_def split: option.splits)
qed

definition OutcomeMetaUpdatesEvent_type :: "'d gotype" where
  "OutcomeMetaUpdatesEvent_type = TStruct
    [(''Updates'', ''updates'', (TSlice OutcomeMetaUpdate_type))]"

definition ExplorerAction_fields :: "(string \<times> string \<times> 'd gotype) list" where
  "ExplorerAction_fields =
    [(''Type'', ''-'', TString),
     (''Object'', ''-'', (TMap TRaw)),
     (''Tuple'', ''-'', (TSlice TRaw)),
     (''Raw'', ''-'', TRaw)]"

definition ExplorerAction_UnmarshalJSON :: "'d decimal_text \<Rightarrow> jval \<Rightarrow> 'd gval \<Rightarrow> 'd gval res" where
  "ExplorerAction_UnmarshalJSON D j z =
     (case j of
        JObj kvs \<Rightarrow> bind_res (unmarshal_into D (TMap TRaw) (Some j)) (\<lambda>object.
          bind_res (case map_of (raw_members object) ''type'' of
              None \<Rightarrow> Inr (VString [])
            | Some ty \<Rightarrow> unmarshal_into D TString (Some ty)) (\<lambda>ty.
          Inr (VStruct [ty, object, VSlice None, VRaw (Some j)])))
      | JArr js \<Rightarrow> bind_res (unmarshal_into D (TSlice TRaw) (Some j)) (\<lambda>tuple.
          Inr (VStruct [VString [], VMap None, tuple, VRaw (Some j)]))
      | _ \<Rightarrow> Inl ''explorer action must be an object or tuple'')"

definition ExplorerAction_type :: "'d gotype" where
  "ExplorerAction_type = TCustom (TStruct ExplorerAction_fields) ExplorerAction_UnmarshalJSON"

lemma ExplorerAction_wf [simp]: "wf_type (ExplorerAction_type :: 'd gotype)"
proof -
  have typed: "unmarshal_into D (TMap TRaw) r = Inr v \<Longrightarrow> has_type (TMap TRaw) v"
    "unmarshal_into D (TSlice TRaw) r = Inr v \<Longrightarrow> has_type (TSlice TRaw) v"
    "unmarshal_into D TString r = Inr v \<Longrightarrow> has_type TString v" for D :: "'d decimal_text" and r v
    by (erule unmarshal_typed [rotated], simp)+
  have fields: "has_type (TStruct ExplorerAction_fields) (VStruct [a, b, c, VRaw r]) \<longleftrightarrow>
      has_type TString a \<and> has_type (TMap TRaw) b \<and> has_type (TSlice TRaw) c" for a b c r
    by (simp add: struct_simps ExplorerAction_fields_def)
  have "has_type TString (VString [])" "has_type (TMap TRaw) (VMap None)" "has_type (TSlice TRaw) (VSlice None)"
    by simp_all
  then have "has_type (TStruct ExplorerAction_fields) v"
    if v: "ExplorerAction_UnmarshalJSON D j z = Inr v" for D :: "'d decimal_text" and j z v
  proof (cases j)
    case (JArr js)
    then show ?thesis using v typed(2) [of D "Some j"]
      by (auto simp: ExplorerAction_UnmarshalJSON_def fields simp del: has_type.simps) simp_all
  next
    case (JObj kvs)
    with v obtain m ty where m: "unmarshal_into D (TMap TRaw) (Some j) = Inr m"
      "(case map_of (raw_members m) ''type'' of None \<Rightarrow> Inr (VString [])
        | Some ty \<Rightarrow> unmarshal_into D TString (Some ty)) = Inr ty"
      "v = VStruct [ty, m, VSlice None, VRaw (Some j)]"
      by (auto simp: ExplorerAction_UnmarshalJSON_def)
    have "has_type TString ty" using m(2) typed(3) by (auto simp del: has_type.simps split: option.splits) simp
    then show ?thesis using typed(1) [OF m(1)] m(3) by (simp add: fields del: has_type.simps) simp
  qed (use v in \<open>simp_all add: ExplorerAction_UnmarshalJSON_def\<close>)
  then show ?thesis unfolding ExplorerAction_type_def wf_type.simps keeps_def by blast
qed

definition ExplorerTransaction_type :: "'d gotype" where
  "ExplorerTransaction_type = TStruct
    [(''Action'', ''action'', ExplorerAction_type),
     (''Block'', ''block'', TUint64),
     (''Error'', ''error'', (TPtr TString)),
     (''Hash'', ''hash'', TString),
     (''Time'', ''time'', TInt),
     (''User'', ''user'', TString)]"

definition ExplorerBlock_fields :: "(string \<times> string \<times> 'd gotype) list" where
  "ExplorerBlock_fields =
    [(''BlockTime'', ''blockTime'', TInt),
     (''Hash'', ''hash'', TString),
     (''Height'', ''height'', TUint64),
     (''NumTransactions'', ''numTxs'', TUint64),
     (''Proposer'', ''proposer'', TString)]"

definition ExplorerBlock_type :: "'d gotype" where
  "ExplorerBlock_type = TStruct ExplorerBlock_fields"

section \<open>Explorer responses\<close>

text \<open>The block's own members and its transactions are side by side in the inner object.\<close>

definition BlockDetailsResponse_type :: "'d gotype" where
  "BlockDetailsResponse_type = TStruct
    [(''Type'', ''type'', TString),
     (''BlockDetails'', ''blockDetails'', TStruct (ExplorerBlock_fields @
       [(''Transactions'', ''txs'', (TSlice ExplorerTransaction_type))]))]"

definition TxDetailsResponse_type :: "'d gotype" where
  "TxDetailsResponse_type = TStruct
    [(''Type'', ''type'', TString),
     (''Transaction'', ''tx'', ExplorerTransaction_type)]"

definition UserDetailsResponse_type :: "'d gotype" where
  "UserDetailsResponse_type = TStruct
    [(''Type'', ''type'', TString),
     (''Transactions'', ''txs'', (TSlice ExplorerTransaction_type))]"

section \<open>Every declaration is well formed\<close>

lemma events_wf1 [simp]:
  "wf_type Level_type"
  "wf_type BookLevels_type"
  "wf_type L2BookEvent_type"
  "wf_type AllMidsEvent_type"
  "wf_type TradeEvent_type"
  "wf_type CandleEvent_type"
  "wf_type SharedAssetCtx_type"
  "wf_type PerpAssetCtx_type"
  "wf_type SpotAssetCtx_type"
  "wf_type LiquidationEvent_type"
  "wf_type NonUserCancelEvent_type"
  "wf_type UserFunding_type"
  by (simp_all add: struct_simps Level_type_def BookLevels_type_def L2BookEvent_type_def
      AllMidsEvent_type_def TradeEvent_type_def CandleEvent_type_def SharedAssetCtx_type_def
      SharedAssetCtx_fields_def PerpAssetCtx_type_def SpotAssetCtx_type_def
      LiquidationEvent_type_def NonUserCancelEvent_type_def UserFunding_type_def)

lemma events_wf2 [simp]:
  "wf_type FillLiquidation_type"
  "wf_type ws_UserFill_type"
  "wf_type UserEvent_type"
  "wf_type BasicOrder_type"
  "wf_type OrderUpdate_type"
  "wf_type UserFillsEvent_type"
  "wf_type UserFundingsEvent_type"
  "wf_type LedgerDeposit_type"
  "wf_type LedgerWithdraw_type"
  "wf_type LedgerInternalTransfer_type"
  "wf_type LedgerSubaccountTransfer_type"
  "wf_type ws_LiquidatedPosition_type"
  by (simp_all add: struct_simps FillLiquidation_type_def ws_UserFill_type_def UserEvent_type_def
      BasicOrder_type_def OrderUpdate_type_def UserFillsEvent_type_def UserFundingsEvent_type_def
      LedgerDeposit_type_def LedgerWithdraw_type_def LedgerInternalTransfer_type_def
      LedgerSubaccountTransfer_type_def ws_LiquidatedPosition_type_def)

lemma events_wf3 [simp]:
  "wf_type LedgerLiquidation_type"
  "wf_type LedgerVaultDelta_type"
  "wf_type LedgerVaultWithdrawal_type"
  "wf_type LedgerVaultLeaderCommission_type"
  "wf_type LedgerSpotTransfer_type"
  "wf_type LedgerAccountClassTransfer_type"
  "wf_type LedgerSpotGenesis_type"
  "wf_type LedgerRewardsClaim_type"
  "wf_type LedgerEntry_type"
  "wf_type UserLedgerEvent_type"
  "wf_type NotificationEvent_type"
  "wf_type WebData3UserState_type"
  by (simp_all add: struct_simps LedgerLiquidation_type_def LedgerVaultDelta_type_def
      LedgerVaultWithdrawal_type_def LedgerVaultLeaderCommission_type_def
      LedgerSpotTransfer_type_def LedgerAccountClassTransfer_type_def LedgerSpotGenesis_type_def
      LedgerRewardsClaim_type_def LedgerEntry_type_def UserLedgerEvent_type_def
      NotificationEvent_type_def WebData3UserState_type_def)

lemma events_wf4 [simp]:
  "wf_type ws_LeadingVault_type"
  "wf_type WebData3PerpDEXState_type"
  "wf_type WebData3Event_type"
  "wf_type OpenOrdersEvent_type"
  "wf_type ClearinghouseStateEvent_type"
  "wf_type ws_TWAPState_type"
  "wf_type TWAPStateEntry_type"
  "wf_type TWAPStatesEvent_type"
  "wf_type UserTWAPSliceFillsEvent_type"
  "wf_type ws_TWAPHistoryStatus_type"
  "wf_type ws_TWAPHistoryEntry_type"
  "wf_type UserTWAPHistoryEvent_type"
  by (simp_all add: struct_simps ws_LeadingVault_type_def WebData3PerpDEXState_type_def
      WebData3Event_type_def OpenOrdersEvent_type_def ClearinghouseStateEvent_type_def
      ws_TWAPState_type_def TWAPStateEntry_type_def TWAPStateEntry_fields_def
      TWAPStatesEvent_type_def UserTWAPSliceFillsEvent_type_def ws_TWAPHistoryStatus_type_def
      ws_TWAPHistoryEntry_type_def UserTWAPHistoryEvent_type_def)

lemma events_wf5 [simp]:
  "wf_type SpotStateEvent_type"
  "wf_type ws_DEXClearinghouseState_type"
  "wf_type AllDEXsClearinghouseStateEvent_type"
  "wf_type DEXAssetContexts_type"
  "wf_type AllDEXsAssetCtxsEvent_type"
  "wf_type AssetCtxsEvent_type"
  "wf_type FastAssetCtx_type"
  "wf_type FastAssetCtxsEvent_type"
  "wf_type SpotAssetCtxsEvent_type"
  "wf_type UserHistoricalOrdersEvent_type"
  "wf_type ws_OutcomeSideSpec_type"
  "wf_type OutcomeCreatedEvent_type"
  by (simp_all add: struct_simps SpotStateEvent_type_def ws_DEXClearinghouseState_type_def
      ws_DEXClearinghouseState_fields_def AllDEXsClearinghouseStateEvent_type_def
      DEXAssetContexts_type_def DEXAssetContexts_fields_def AllDEXsAssetCtxsEvent_type_def
      AssetCtxsEvent_type_def FastAssetCtx_type_def FastAssetCtxsEvent_type_def
      SpotAssetCtxsEvent_type_def UserHistoricalOrdersEvent_type_def ws_OutcomeSideSpec_type_def
      OutcomeCreatedEvent_type_def)

lemma events_wf6 [simp]:
  "wf_type OutcomeSettledEvent_type"
  "wf_type QuestionUpdatedEvent_type"
  "wf_type QuestionSettledEvent_type"
  "wf_type OutcomeMetaUpdatesEvent_type"
  "wf_type ExplorerTransaction_type"
  "wf_type ExplorerBlock_type"
  "wf_type BlockDetailsResponse_type"
  "wf_type TxDetailsResponse_type"
  "wf_type UserDetailsResponse_type"
  by (simp_all add: struct_simps OutcomeSettledEvent_type_def QuestionUpdatedEvent_type_def
      QuestionSettledEvent_type_def OutcomeMetaUpdatesEvent_type_def ExplorerTransaction_type_def
      ExplorerBlock_type_def ExplorerBlock_fields_def BlockDetailsResponse_type_def
      TxDetailsResponse_type_def UserDetailsResponse_type_def)

lemma FastAssetCtxs_wf: "wf_type FastAssetCtxsEvent_type"
  by simp

section \<open>The compressed stream\<close>

text \<open>
  \<^verbatim>\<open>fastAssetCtxs\<close> sends its events as base64 text of a raw deflate stream; both decoders and the
  JSON parser are parameters.
\<close>

definition decodeFastAssetCtxs :: "(string \<Rightarrow> string res) \<Rightarrow> (string \<Rightarrow> string res) \<Rightarrow> (string \<Rightarrow> jval res) \<Rightarrow>
    'd decimal_text \<Rightarrow> jval \<Rightarrow> 'd gval res" where
  "decodeFastAssetCtxs base64 inflate parse D data =
     bind_res (unmarshal_into D TString (Some data)) (\<lambda>encoded.
     bind_res (wrap_res ''decode fast asset contexts base64'' (base64 (text_of encoded))) (\<lambda>compressed.
     bind_res (wrap_res ''inflate fast asset contexts'' (inflate compressed)) (\<lambda>plain.
     wrap_res ''decode fast asset contexts JSON''
       (bind_res (parse plain) (\<lambda>j. unmarshal_into D FastAssetCtxsEvent_type (Some j))))))"

lemma decodeFastAssetCtxs_typed:
  "decodeFastAssetCtxs base64 inflate parse D data = Inr v \<Longrightarrow> has_type FastAssetCtxsEvent_type v"
  by (auto simp: decodeFastAssetCtxs_def simp del: has_type.simps
      dest: unmarshal_typed [OF FastAssetCtxs_wf])

section \<open>What a stream delivers\<close>

definition decodeJSON :: "'d decimal_text \<Rightarrow> 'd gotype \<Rightarrow> jval \<Rightarrow> 'd gval res" where
  "decodeJSON D t data = unmarshal_into D t (Some data)"

text \<open>The type that each \<^verbatim>\<open>Subscribe\<close> method instantiates its decoder with, by the type of its request.\<close>

definition stream_payloads :: "(string \<times> 'd gotype) list" where
  "stream_payloads =
    [(''l2Book'', L2BookEvent_type),
     (''allMids'', AllMidsEvent_type),
     (''trades'', TSlice TradeEvent_type),
     (''candle'', TSlice CandleEvent_type),
     (''bbo'', BBOEvent_type),
     (''activeAssetCtx'', ActiveAssetCtxEvent_type),
     (''userEvents'', UserEvent_type),
     (''orderUpdates'', TSlice OrderUpdate_type),
     (''userFills'', UserFillsEvent_type),
     (''userFundings'', UserFundingsEvent_type),
     (''userNonFundingLedgerUpdates'', UserLedgerEvent_type),
     (''notification'', NotificationEvent_type),
     (''webData3'', WebData3Event_type),
     (''openOrders'', OpenOrdersEvent_type),
     (''clearinghouseState'', ClearinghouseStateEvent_type),
     (''activeAssetData'', ActiveAssetDataResponse_type),
     (''twapStates'', TWAPStatesEvent_type),
     (''userTwapSliceFills'', UserTWAPSliceFillsEvent_type),
     (''userTwapHistory'', UserTWAPHistoryEvent_type),
     (''spotState'', SpotStateEvent_type),
     (''allDexsClearinghouseState'', AllDEXsClearinghouseStateEvent_type),
     (''allDexsAssetCtxs'', AllDEXsAssetCtxsEvent_type),
     (''assetCtxs'', AssetCtxsEvent_type),
     (''spotAssetCtxs'', SpotAssetCtxsEvent_type),
     (''userHistoricalOrders'', UserHistoricalOrdersEvent_type),
     (''outcomeMetaUpdates'', OutcomeMetaUpdatesEvent_type),
     (''explorerBlock'', TSlice ExplorerBlock_type),
     (''explorerTxs'', TSlice ExplorerTransaction_type)]"

lemma stream_payloads_wf: "list_all (\<lambda>(kind, t). wf_type t) stream_payloads"
  by (simp add: stream_payloads_def)


definition word_decimals :: "string decimal_text" where
  "word_decimals = \<lparr> NewFromString = Some, decimal_String = (\<lambda>s. s), decimal_zero = ''0'' \<rparr>"

lemma sample_trade: "documents word_decimals NotificationEvent_type
    (JObj [(''extra'', JNull), (''notification'', JStr ''hi'')]) (VStruct [VString ''hi''])"
proof -
  have "\<not> equal_fold ''notification'' ''extra''" by code_simp
  then show ?thesis by (simp add: NotificationEvent_type_def documents_struct field_index_def)
qed


definition is_set :: "'d gval \<Rightarrow> bool" where
  "is_set v = (case v of VPtr (Some x) \<Rightarrow> True | _ \<Rightarrow> False)"

definition branches :: "'d gval \<Rightarrow> nat" where
  "branches v = length (filter is_set (vals v))"

lemma one_branch:
  assumes "list_all (\<lambda>x. \<not> is_set x) vs" "i < length vs"
  shows "length (filter is_set (vs[i := VPtr (Some x)])) = 1"
  using assms
proof (induction vs arbitrary: i)
  case (Cons v vs)
  then show ?case by (cases i) (auto simp: is_set_def list_all_iff filter_empty_conv)
qed simp

lemma branches_after_set:
  assumes "v = VStruct vs" "list_all (\<lambda>x. \<not> is_set x) vs" "has_field fs n t" "length vs = length fs"
  shows "branches (put_field fs n (VPtr (Some x)) v) = 1"
  using assms one_branch [of vs "field_at fs n" x] by (simp add: branches_def put_field_def vals_def has_field_def)

lemma get_other:
  assumes "has_field fs n t" "has_field fs m u" "t \<noteq> u"
  shows "get fs m (put_field fs n x v) = get fs m v"
  using assms by (auto simp: get_def put_field_def vals_def has_field_def intro!: nth_list_update_neq)

definition ledger_types :: "string set" where
  "ledger_types = fst ` set (ledger_branches :: (string \<times> string \<times> unit gotype) list)"

definition outcome_keys :: "string set" where
  "outcome_keys = fst ` set (outcome_branches :: (string \<times> string \<times> unit gotype) list)"

lemma ledger_known: "map_of ledger_branches ty = None \<longleftrightarrow> ty \<notin> ledger_types"
  by (simp add: map_of_eq_None_iff ledger_types_def ledger_branches_def)

lemma outcome_known: "fst ` set outcome_branches = outcome_keys"
  by (simp add: outcome_keys_def outcome_branches_def)

lemma ledger_start:
  "put_field ws_LedgerDelta_fields ''Raw'' (VRaw r)
     (put_field ws_LedgerDelta_fields ''Type'' (VString ty) (zero D (TStruct ws_LedgerDelta_fields))) =
   VStruct (VString ty # replicate 12 (VPtr None) @ [VRaw r])"
  by (simp add: put_field_def field_at_def ws_LedgerDelta_fields_def struct_simps vals_def eval_nat_numeral)

lemma ledger_exact:
  fixes D :: "'d decimal_text"
  assumes "ws_LedgerDelta_UnmarshalJSON D j z = Inr v"
  shows "branches v = (if text_of (get ws_LedgerDelta_fields ''Type'' v) \<in> ledger_types then 1 else 0) \<and>
     get ws_LedgerDelta_fields ''Raw'' v = VRaw (Some j)"
proof -
  let ?fs = ws_LedgerDelta_fields
  let ?start = "\<lambda>ty. VStruct (VString ty # replicate 12 (VPtr None) @ [VRaw (Some j)]) :: 'd gval"
  have get: "get ?fs ''Type'' (?start ty) = VString ty" "get ?fs ''Raw'' (?start ty) = VRaw (Some j)" for ty
    by (simp_all add: get_def field_at_def ws_LedgerDelta_fields_def vals_def eval_nat_numeral)
  have none: "list_all (\<lambda>x. \<not> is_set x) (VString ty # replicate 12 (VPtr None) @ [VRaw (Some j)])" for ty
    by (simp add: is_set_def list_all_iff)
  then have zero: "branches (?start ty) = 0" for ty
    by (auto simp: branches_def vals_def filter_empty_conv list_all_iff)
  obtain ty where ty: "(case map_of ledger_branches ty of
      Some (f, t) \<Rightarrow> bind_res (unmarshal_into D t (Some j)) (\<lambda>x. Inr (put_field ?fs f (VPtr (Some x)) (?start ty)))
    | None \<Rightarrow> if ty = [] then Inl ''ledger delta type is required'' else Inr (?start ty)) = Inr v"
    using assms by (auto simp: ws_LedgerDelta_UnmarshalJSON_def Let_def ledger_start)
  show ?thesis
  proof (cases "map_of (ledger_branches :: (string \<times> string \<times> 'd gotype) list) ty")
    case None
    have "v = ?start ty" using ty unfolding None by (simp split: if_splits)
    then show ?thesis using ledger_known [THEN iffD1, OF None] get zero by (simp add: text_of_def)
  next
    case (Some ft)
    obtain f t where ft: "ft = (f, t)" by (cases ft)
    obtain x where v: "v = put_field ?fs f (VPtr (Some x)) (?start ty)" using ty Some ft by auto
    note field = ledger_branch_sound(1) [OF Some [unfolded ft]]
    have "branches v = 1" unfolding v
      by (rule branches_after_set [OF refl none field]) (simp add: ws_LedgerDelta_fields_def)
    moreover have "get ?fs ''Type'' v = VString ty" "get ?fs ''Raw'' v = VRaw (Some j)"
      unfolding v using get_other [OF field ledger_fields(13)] get_other [OF field ledger_fields(14)] get by auto
    moreover have "ty \<in> ledger_types"
      using ledger_known [where 'a = 'd, of ty] Some by simp
    ultimately show ?thesis by (simp add: text_of_def)
  qed
qed

lemma asset_ctx_exact: "ActiveAssetCtxEvent_UnmarshalJSON D j z = Inr v \<Longrightarrow> branches v = 1"
proof -
  have "has_type (TStruct asset_ctx_wire) w \<Longrightarrow> \<not> is_set (get asset_ctx_wire ''Coin'' w)" for w :: "'a gval"
    using get_typed [of asset_ctx_wire w "''Coin''" TString]
    by (auto simp: is_set_def field_simps asset_ctx_wire_def split: gval.splits)
  moreover have "wf_type (TStruct asset_ctx_wire)" by (simp add: struct_simps asset_ctx_wire_def)
  ultimately show "ActiveAssetCtxEvent_UnmarshalJSON D j z = Inr v \<Longrightarrow> branches v = 1"
    using unmarshal_typed
    by (fastforce simp: ActiveAssetCtxEvent_UnmarshalJSON_def Let_def branches_def vals_def is_set_def
        split: if_splits)
qed

definition member_keys :: "jval \<Rightarrow> string set" where
  "member_keys j = (case j of JObj kvs \<Rightarrow> fst ` set kvs | _ \<Rightarrow> {})"

lemma fold_update_keys:
  "fst ` set (fold (\<lambda>(k, v). AList.update k v) vs m) = fst ` set m \<union> fst ` set vs"
proof (induction vs arbitrary: m)
  case (Cons kv vs)
  obtain k v where kv: "kv = (k, v)" by (cases kv)
  have "fst ` set (AList.update k v m) = insert k (fst ` set m)"
    by (induction m) auto
  then show ?case using Cons.IH [of "AList.update k v m"] kv by auto
qed simp

lemma raw_member_keys:
  fixes D :: "'d decimal_text"
  assumes "unmarshal_into D (TMap TRaw) (Some j) = Inr m"
  shows "map_of (raw_members m) k \<noteq> None \<longleftrightarrow> k \<in> member_keys j"
proof -
  have map: "map_res (\<lambda>(k, j). Inr (k, VRaw (Some j))) kvs =
      (Inr (map (\<lambda>(k, j). (k, VRaw (Some j))) kvs) :: (string \<times> 'd gval) list res)"
    for kvs :: "(string \<times> jval) list"
    by (induction kvs) auto
  have "fst ` set (raw_members m) = member_keys j"
  proof (cases j)
    case (JObj kvs)
    let ?vs = "map (\<lambda>(k, j). (k, VRaw (Some j) :: 'd gval)) kvs"
    have "m = VMap (Some (fold (\<lambda>(k, v). AList.update k v) ?vs []))"
      using assms JObj map [of kvs] by (simp add: unmarshal_into_def decode_map_def)
    then have "fst ` set (raw_members m) = fst ` set (fold (\<lambda>(k, v). AList.update k v) ?vs [])"
      by (simp add: raw_members_def image_image case_prod_unfold)
    then show ?thesis using JObj unfolding fold_update_keys
      by (simp add: member_keys_def image_image case_prod_unfold)
  qed (use assms in \<open>auto simp: unmarshal_into_def decode_map_def raw_members_def member_keys_def type_error_def\<close>)
  then show ?thesis by (simp add: map_of_eq_None_iff)
qed

lemma outcome_start:
  "put_field OutcomeMetaUpdate_fields ''Raw'' (VRaw r) (zero D (TStruct OutcomeMetaUpdate_fields)) =
   VStruct (replicate 4 (VPtr None) @ [VRaw r])"
  by (simp add: put_field_def field_at_def OutcomeMetaUpdate_fields_def struct_simps vals_def eval_nat_numeral)

lemma outcome_exact:
  fixes D :: "'d decimal_text"
  assumes "OutcomeMetaUpdate_UnmarshalJSON D j z = Inr v"
  shows "branches v = (if member_keys j \<inter> outcome_keys = {} then 0 else 1) \<and>
     get OutcomeMetaUpdate_fields ''Raw'' v = VRaw (Some j)"
proof -
  let ?fs = OutcomeMetaUpdate_fields
  let ?start = "VStruct (replicate 4 (VPtr None) @ [VRaw (Some j)]) :: 'd gval"
  have known: "fst ` set (outcome_branches :: (string \<times> string \<times> 'd gotype) list) = outcome_keys"
    by (rule outcome_known)
  have get: "get ?fs ''Raw'' ?start = VRaw (Some j)"
    by (simp add: get_def field_at_def OutcomeMetaUpdate_fields_def vals_def eval_nat_numeral)
  have none: "list_all (\<lambda>x. \<not> is_set x) (replicate 4 (VPtr None) @ [VRaw (Some j)])"
    by (simp add: is_set_def list_all_iff)
  then have zero: "branches ?start = 0"
    by (auto simp: branches_def vals_def filter_empty_conv list_all_iff)
  obtain m where m: "unmarshal_into D (TMap TRaw) (Some j) = Inr m"
    "(case find (\<lambda>(k, _). map_of (raw_members m) k \<noteq> None) outcome_branches of
      None \<Rightarrow> Inr ?start
    | Some (k, f, t) \<Rightarrow> bind_res (unmarshal_into D t (map_of (raw_members m) k)) (\<lambda>x.
        Inr (put_field ?fs f (VPtr (Some x)) ?start))) = Inr v"
    using assms by (auto simp: OutcomeMetaUpdate_UnmarshalJSON_def Let_def outcome_start)
  have keys: "(\<lambda>(k, u). map_of (raw_members m) k \<noteq> None) = (\<lambda>(k, u). k \<in> member_keys j)"
    using raw_member_keys [OF m(1)] by auto
  note found = m(2) [unfolded keys]
  show ?thesis
  proof (cases "find (\<lambda>(k, _). k \<in> member_keys j) (outcome_branches :: (string \<times> string \<times> 'd gotype) list)")
    case None
    then have "member_keys j \<inter> outcome_keys = {}"
      unfolding known [symmetric] by (force simp: find_None_iff)
    then show ?thesis using found None zero get by simp
  next
    case (Some kft)
    obtain k f t where kft: "kft = (k, f, t)" by (cases kft)
    have "(k, f, t) \<in> set outcome_branches" "k \<in> member_keys j"
      using Some kft by (auto simp: find_Some_iff) (metis nth_mem)
    then have hit: "member_keys j \<inter> outcome_keys \<noteq> {}"
      unfolding known [symmetric] by force
    obtain x where v: "v = put_field ?fs f (VPtr (Some x)) ?start" using found Some kft by auto
    note field = outcome_branch_sound(1) [OF Some [unfolded kft]]
    have "branches v = 1" unfolding v
      by (rule branches_after_set [OF refl none field]) (simp add: OutcomeMetaUpdate_fields_def)
    moreover have "get ?fs ''Raw'' v = VRaw (Some j)"
      unfolding v using get_other [OF field outcome_raw] get by auto
    ultimately show ?thesis using hit by simp
  qed
qed


lemma sample_deposit:
  "ws_LedgerDelta_UnmarshalJSON word_decimals (JObj [(''type'', JStr ''deposit''), (''usdc'', JStr ''5'')]) (VStruct []) =
   Inr (VStruct (VString ''deposit'' # VPtr (Some (VStruct [VString ''deposit'', VDecimal ''5''])) #
     replicate 11 (VPtr None) @ [VRaw (Some (JObj [(''type'', JStr ''deposit''), (''usdc'', JStr ''5'')]))]))"
proof -
  have "\<not> equal_fold ''type'' ''usdc''" by code_simp
  moreover have "map_of ledger_branches ''deposit'' = Some (''Deposit'', LedgerDeposit_type :: string gotype)"
    by (simp add: ledger_branches_def)
  ultimately show ?thesis
    by (simp add: ws_LedgerDelta_UnmarshalJSON_def ledger_tag_def unmarshal_into_def decode_struct_type zero_struct
        decode_struct_def vals_def field_index_def decode_string_def get_def text_of_def LedgerDeposit_type_def
        decode_decimal_def word_decimals_def put_field_def field_at_def ws_LedgerDelta_fields_def eval_nat_numeral Let_def)
qed


end
