(* ===== verification/Explorer.thy ===== *)
theory Explorer
  imports InfoClient WsEvents Assets
begin

text \<open>
  The explorer client (\<^verbatim>\<open>explorer/client.go\<close>): three read-only requests over one HTTP call without
  retries, and the lazily created WebSocket client of its two streams. The streams themselves are those
  of \<open>WsStreams\<close>; \<open>explorer_step\<close> follows which WebSocket clients are created and closed.
\<close>

section \<open>Requests\<close>

definition validateHex :: "string \<Rightarrow> nat \<Rightarrow> string \<Rightarrow> unit res" where
  "validateHex value bytesLen field =
     (if length value \<noteq> 2 + bytesLen * 2 \<or> take 2 value \<noteq> ''0x'' then Inl (''invalid '' @ field)
      else case hex_decode (drop 2 value) of
          None \<Rightarrow> Inl (''invalid '' @ field)
        | Some bs \<Rightarrow> Inr ())"

text \<open>A request is a Go map, so its members come in the order of their keys.\<close>

definition BlockDetails :: "int \<Rightarrow> (jval \<times> 'd gotype) res" where
  "BlockDetails height =
     (if height = 0 then Inl ''invalid height''
      else Inr (JObj [(''height'', JInt height), (''type'', JStr ''blockDetails'')],
        BlockDetailsResponse_type))"

definition TxDetails :: "string \<Rightarrow> (jval \<times> 'd gotype) res" where
  "TxDetails hash =
     bind_res (validateHex hash 32 ''hash'') (\<lambda>_.
     Inr (JObj [(''hash'', JStr hash), (''type'', JStr ''txDetails'')], TxDetailsResponse_type))"

definition UserDetails :: "string \<Rightarrow> (jval \<times> 'd gotype) res" where
  "UserDetails user =
     bind_res (validateHex user 20 ''user'') (\<lambda>_.
     Inr (JObj [(''type'', JStr ''userDetails''), (''user'', JStr user)], UserDetailsResponse_type))"

section \<open>One call\<close>

text \<open>A successful status can still carry an error object.\<close>

definition protocol_error :: "(string \<times> string \<times> 'd gotype) list" where
  "protocol_error = [(''Type'', ''type'', TString), (''Message'', ''message'', TString)]"

definition explorer_response :: "(string \<Rightarrow> jval res) \<Rightarrow> 'd decimal_text \<Rightarrow> 'd gotype \<Rightarrow> http_response \<Rightarrow>
    'd gval call_res" where
  "explorer_response parse D t resp =
     (case hr_Body resp of
        Inl e \<Rightarrow> Inl (Other_Error e)
      | Inr raw \<Rightarrow>
          if hr_Status resp < 200 \<or> 300 \<le> hr_Status resp then Inl (apiError parse D (hr_Status resp) raw)
          else if raw = [] then Inl (Other_Error (ErrUnexpectedResponse @ '': empty response''))
          else case other (wrap_res ErrUnexpectedResponse (unmarshal_text parse D (TStruct protocol_error) raw)) of
              Inl e \<Rightarrow> Inl e
            | Inr p \<Rightarrow>
                if text_of (get protocol_error ''Type'' p) = ''error''
                then Inl (APIError (hr_Status resp) [] (text_of (get protocol_error ''Message'' p)) raw)
                else other (wrap_res ErrUnexpectedResponse (unmarshal_text parse D t raw)))"

definition explorer_call :: "(string \<Rightarrow> jval res) \<Rightarrow> 'd decimal_text \<Rightarrow> 'd gotype \<Rightarrow> http_outcome \<Rightarrow>
    'd gval call_res" where
  "explorer_call parse D t outcome =
     (case outcome of
        Do_Error e \<Rightarrow> Inl (Other_Error e)
      | No_Response \<Rightarrow> Inl (Other_Error (ErrUnexpectedResponse @ '': nil HTTP response''))
      | Responds resp \<Rightarrow> explorer_response parse D t resp)"

text \<open>With another request transport the call is one request of that transport.\<close>

definition explorer_call_request :: "'d decimal_text \<Rightarrow> 'd gotype \<Rightarrow> (int option \<times> string) + jval \<Rightarrow>
    (int option \<times> string) + 'd gval" where
  "explorer_call_request D t outcome = request_outcome D t outcome"

section \<open>What the requests and answers are\<close>

lemma validateHex_exact:
  "is_ok (validateHex value n field) \<longleftrightarrow>
   take 2 value = ''0x'' \<and> (\<exists>bs. hex_decode (drop 2 value) = Some bs \<and> length bs = n)"
  by (auto simp: validateHex_def dest: hex_decode_length split: option.splits)

text \<open>
  The explorer accepts exactly the heights from 1 on, hashes of \<^verbatim>\<open>0x\<close> and
  64 hexadecimal digits and users of \<^verbatim>\<open>0x\<close> and 40; what it sends has the method's type and the argument
  unchanged, costs 40, and its answer is decoded into a well-formed type.
\<close>

theorem explorer_requests_exact:
  fixes m :: "(jval \<times> 'd gotype) res"
  shows "(is_ok (BlockDetails height :: (jval \<times> 'd gotype) res) \<longleftrightarrow> height \<noteq> 0) \<and>
    (is_ok (TxDetails hash :: (jval \<times> 'd gotype) res) \<longleftrightarrow>
      take 2 hash = ''0x'' \<and> (\<exists>bs. hex_decode (drop 2 hash) = Some bs \<and> length bs = 32)) \<and>
    (is_ok (UserDetails user :: (jval \<times> 'd gotype) res) \<longleftrightarrow>
      take 2 user = ''0x'' \<and> (\<exists>bs. hex_decode (drop 2 user) = Some bs \<and> length bs = 20)) \<and>
    (m \<in> {BlockDetails height, TxDetails hash, UserDetails user} \<longrightarrow>
      (\<forall>req t. m = Inr (req, t) \<longrightarrow> wf_type t \<and> RequestWeight ''explorer'' req = 40 \<and>
        requestType req \<in> {''blockDetails'', ''txDetails'', ''userDetails''}))"
proof (intro conjI)
  show "is_ok (BlockDetails height :: (jval \<times> 'd gotype) res) \<longleftrightarrow> height \<noteq> 0"
    by (simp add: BlockDetails_def)
  show "is_ok (TxDetails hash :: (jval \<times> 'd gotype) res) \<longleftrightarrow>
      take 2 hash = ''0x'' \<and> (\<exists>bs. hex_decode (drop 2 hash) = Some bs \<and> length bs = 32)"
    unfolding validateHex_exact [of hash 32 "''hash''", symmetric]
    by (auto simp: TxDetails_def is_ok_iff)
  show "is_ok (UserDetails user :: (jval \<times> 'd gotype) res) \<longleftrightarrow>
      take 2 user = ''0x'' \<and> (\<exists>bs. hex_decode (drop 2 user) = Some bs \<and> length bs = 20)"
    unfolding validateHex_exact [of user 20 "''user''", symmetric]
    by (auto simp: UserDetails_def is_ok_iff)
  show "m \<in> {BlockDetails height, TxDetails hash, UserDetails user} \<longrightarrow>
      (\<forall>req t. m = Inr (req, t) \<longrightarrow> wf_type t \<and> RequestWeight ''explorer'' req = 40 \<and>
        requestType req \<in> {''blockDetails'', ''txDetails'', ''userDetails''})"
    by (auto simp: BlockDetails_def TxDetails_def UserDetails_def RequestWeight_def split: if_splits)
qed

theorem explorer_requests_exact_witness:
  "RequestWeight ''explorer'' (JObj [(''height'', JInt 5), (''type'', JStr ''blockDetails'')]) = 40"
  using explorer_requests_exact [where height = 5 and m = "BlockDetails 5 :: (jval \<times> int gotype) res"]
  by (simp add: BlockDetails_def)

text \<open>
  A value that a call returns has the type of the response, and it comes from
  a body that was sent with a status in 200..299 and is not an error object.
\<close>

theorem explorer_answers_sound:
  assumes "explorer_call parse D t outcome = Inr v" "wf_type t"
  shows "has_type t v \<and> (\<exists>resp raw j. outcome = Responds resp \<and> 200 \<le> hr_Status resp \<and> hr_Status resp < 300 \<and>
    hr_Body resp = Inr raw \<and> parse raw = Inr j \<and> decode D t j (zero D t) = Inr v \<and>
    (\<exists>p. unmarshal_text parse D (TStruct protocol_error) raw = Inr p \<and>
      text_of (get protocol_error ''Type'' p) \<noteq> ''error''))"
proof -
  obtain resp where r: "outcome = Responds resp" "explorer_response parse D t resp = Inr v"
    using assms(1) by (auto simp: explorer_call_def split: http_outcome.splits)
  obtain raw where raw: "hr_Body resp = Inr raw" "200 \<le> hr_Status resp" "hr_Status resp < 300" "raw \<noteq> []"
    using r(2) by (auto simp: explorer_response_def split: sum.splits if_splits)
  obtain p where p: "unmarshal_text parse D (TStruct protocol_error) raw = Inr p"
    "text_of (get protocol_error ''Type'' p) \<noteq> ''error''" "unmarshal_text parse D t raw = Inr v"
    using r(2) raw by (auto simp: explorer_response_def split: sum.splits if_splits)
  obtain j where j: "parse raw = Inr j" "decode D t j (zero D t) = Inr v"
    using p(3) by (auto simp: unmarshal_text_def unmarshal_into_def)
  have "has_type t v" by (rule decode_typed [OF assms(2) zero_typed j(2)])
  then show ?thesis using r raw j p by (auto simp: unmarshal_text_def unmarshal_into_def)
qed

definition block_body :: jval where
  "block_body = JObj [(''type'', JStr ''blockDetails''), (''blockDetails'', JObj [(''height'', JInt 5)])]"

lemma sample_block:
  "explorer_call (\<lambda>_. Inr block_body) sample_decimals BlockDetailsResponse_type
     (Responds \<lparr> hr_Status = 200, hr_RetryAfter = [], hr_Body = Inr ''{}'' \<rparr>) =
   Inr (VStruct [VString ''blockDetails'', VStruct [VInt 0, VString [], VInt 5, VInt 0, VString [], VSlice None]])"
proof -
  have [simp]: "\<not> equal_fold ''type'' ''blockDetails''" "\<not> equal_fold ''message'' ''blockDetails''" by code_simp+
  show ?thesis
    by (simp add: explorer_call_def explorer_response_def unmarshal_text_def unmarshal_into_def
      protocol_error_def block_body_def BlockDetailsResponse_type_def ExplorerBlock_fields_def
      decode_struct_type zero_struct decode_struct_def vals_def field_index_def decode_string_def
      decode_int_def get_def field_at_def text_of_def)
qed

theorem explorer_answers_sound_witness:
  "has_type BlockDetailsResponse_type
     (VStruct [VString ''blockDetails'', VStruct [VInt 0, VString [], VInt 5, VInt 0, VString [], VSlice None]] :: int gval)"
  using explorer_answers_sound [OF sample_block] by simp

section \<open>The WebSocket client of the streams\<close>

text \<open>
  \<open>es_Client\<close> is the current client: the caller's own or one that was created here, counted from 0;
  \<open>es_Closed\<close> are the ones that have been closed.
\<close>

datatype ws_client = Supplied | Created nat

record explorer_subs =
  es_Client :: "ws_client option"
  es_URL :: string
  es_Owned :: bool
  es_Created :: nat
  es_Closed :: "ws_client list"

definition explorer_new :: "bool \<Rightarrow> string \<Rightarrow> explorer_subs" where
  "explorer_new supplied url =
     \<lparr> es_Client = (if supplied then Some Supplied else None), es_URL = (if supplied then [] else url),
       es_Owned = False, es_Created = 0, es_Closed = [] \<rparr>"

definition subscriptionClient :: "explorer_subs \<Rightarrow> ws_client option \<times> explorer_subs" where
  "subscriptionClient c =
     (if es_Client c \<noteq> None then (es_Client c, c)
      else if es_URL c = [] then (None, c)
      else (Some (Created (es_Created c)),
        c\<lparr>es_Client := Some (Created (es_Created c)), es_Owned := True, es_Created := es_Created c + 1\<rparr>))"

text \<open>\<^verbatim>\<open>ExplorerBlock\<close> and \<^verbatim>\<open>ExplorerTxs\<close> first ask for the client.\<close>

definition explorer_stream :: "explorer_subs \<Rightarrow> ws_client res \<times> explorer_subs" where
  "explorer_stream c =
     (case subscriptionClient c of
        (None, c') \<Rightarrow> (Inl ''explorer websocket subscriptions are not configured'', c')
      | (Some ws, c') \<Rightarrow> (Inr ws, c'))"

definition explorer_Close :: "explorer_subs \<Rightarrow> explorer_subs" where
  "explorer_Close c =
     (let c' = c\<lparr>es_Client := None, es_Owned := False\<rparr>
      in case es_Client c of
          None \<Rightarrow> c'
        | Some ws \<Rightarrow> if \<not> es_Owned c then c' else c'\<lparr>es_Closed := es_Closed c @ [ws]\<rparr>)"

inductive explorer_run :: "explorer_subs \<Rightarrow> explorer_subs \<Rightarrow> bool" where
  run_refl: "explorer_run c c"
| run_stream: "explorer_run c d \<Longrightarrow> explorer_run c (snd (explorer_stream d))"
| run_close: "explorer_run c d \<Longrightarrow> explorer_run c (explorer_Close d)"

text \<open>
  C26: in any order of stream requests and closes, the clients created here are
  closed in the order of their creation, each once, and all of them but the current one are closed; a
  client that the caller supplied is never closed; after a \<^verbatim>\<open>Close\<close> none is open.
\<close>

definition released :: "explorer_subs \<Rightarrow> bool" where
  "released c \<longleftrightarrow>
     (if es_Owned c
      then \<exists>n. es_Created c = Suc n \<and> es_Client c = Some (Created n) \<and> es_Closed c = map Created [0..<n]
      else es_Closed c = map Created [0..<es_Created c] \<and> (\<forall>n. es_Client c \<noteq> Some (Created n)))"

lemma released_stream: "released c \<Longrightarrow> released (snd (explorer_stream c))"
  by (auto simp: released_def explorer_stream_def subscriptionClient_def split: option.splits if_splits)

lemma released_close: "released c \<Longrightarrow> released (explorer_Close c)"
  by (auto simp: released_def explorer_Close_def Let_def split: option.splits if_splits)

theorem explorer_streams_released:
  assumes "explorer_run (explorer_new supplied url) c"
  shows "(es_Owned c \<and> (\<exists>n. es_Created c = Suc n \<and> es_Client c = Some (Created n) \<and>
      es_Closed c = map Created [0..<n]) \<or>
    \<not> es_Owned c \<and> es_Closed c = map Created [0..<es_Created c]) \<and>
    es_Closed (explorer_Close c) = map Created [0..<es_Created c]"
proof -
  have "released (explorer_new supplied url)" by (simp add: released_def explorer_new_def)
  with assms have "released c"
    by (induction rule: explorer_run.induct) (auto intro: released_stream released_close)
  then show ?thesis by (auto simp: released_def explorer_Close_def Let_def split: option.splits if_splits)
qed

theorem explorer_streams_released_witness:
  "es_Closed (explorer_Close (snd (explorer_stream (explorer_new False ''wss'')))) = [Created 0]"
proof -
  have "explorer_run (explorer_new False ''wss'') (snd (explorer_stream (explorer_new False ''wss'')))"
    by (intro explorer_run.intros)
  from explorer_streams_released [OF this] show ?thesis
    by (simp add: explorer_new_def explorer_stream_def subscriptionClient_def)
qed

end
