(* ===== verification/MetaResolver.thy ===== *)
theory MetaResolver
  imports Assets
begin

text \<open>
  The refreshing resolver (\<^verbatim>\<open>asset/meta_resolver.go\<close> lines 14-332): its options, the snapshot cache
  that all its readers share, and its lookups. A cache is a state machine of the sections under the
  resolver's lock; a caller that has to load does so between two sections, callers that arrive
  meanwhile wait for the same load. The base cache and the two optional ones have the same sections and
  differ only in when a snapshot counts as one. \<open>Assets\<close> has what a load fetches.
\<close>

section \<open>Options\<close>

record meta_config =
  mt_ttl :: int
  mt_outcomes :: bool

type_synonym meta_option = "meta_config \<Rightarrow> meta_config res"

definition WithMetaRefreshTTL :: "int \<Rightarrow> meta_option" where
  "WithMetaRefreshTTL ttl r =
     (if ttl < 0 then Inl ''invalid metadata refresh TTL'' else Inr (r\<lparr>mt_ttl := ttl\<rparr>))"

definition WithOutcomeMetadata :: meta_option where
  "WithOutcomeMetadata r = Inr (r\<lparr>mt_outcomes := True\<rparr>)"

fun apply_options :: "meta_option option list \<Rightarrow> meta_config \<Rightarrow> meta_config res" where
  "apply_options [] r = Inr r"
| "apply_options (None # os) r = Inl ''nil metadata resolver option''"
| "apply_options (Some f # os) r = bind_res (f r) (apply_options os)"

text \<open>The default time to live is five minutes.\<close>

definition NewMetaResolver :: "bool \<Rightarrow> meta_option option list \<Rightarrow> meta_config res" where
  "NewMetaResolver nil_client options =
     (if nil_client then Inl ''nil info client''
      else apply_options options \<lparr> mt_ttl = 300000000000, mt_outcomes = False \<rparr>)"

section \<open>The shared cache\<close>

text \<open>
  A caller is fetching load \<open>l\<close> itself, waits for it, or has its result; \<open>force\<close> is an explicit refresh.
  The times of the start of a call and of its return, and of the end of each load, are for the
  specification only. \<open>mc_loads\<close> is the \<^verbatim>\<open>metaLoad\<close> that each waiter holds.
\<close>

datatype 's meta_call =
    Ready
  | Fetching nat bool int
  | Waiting nat bool int
  | Returned bool int "'s res" int
  | Cancelled string

record 's meta_cache =
  mc_snap :: "'s option"
  mc_expires :: int
  mc_loading :: "nat option"
  mc_loads :: "nat \<Rightarrow> ('s res \<times> int) option"
  mc_next :: nat
  mc_calls :: "nat \<Rightarrow> 's meta_call"
  mc_now :: int

definition cache_init :: "int \<Rightarrow> 's meta_cache" where
  "cache_init now = \<lparr> mc_snap = None, mc_expires = 0, mc_loading = None, mc_loads = (\<lambda>_. None), mc_next = 0,
     mc_calls = (\<lambda>_. Ready), mc_now = now \<rparr>"

definition cache_return :: "nat \<Rightarrow> bool \<Rightarrow> int \<Rightarrow> 's res \<Rightarrow> int \<Rightarrow> 's meta_cache \<Rightarrow> 's meta_cache" where
  "cache_return i force st r now c = c\<lparr>mc_calls := (mc_calls c)(i := Returned force st r now), mc_now := now\<rparr>"

text \<open>The base snapshot must have assets, the optional ones must have been loaded once.\<close>

definition base_usable :: "metaSnapshot \<Rightarrow> bool" where
  "base_usable s \<longleftrightarrow> ms_assets s \<noteq> []"

definition cache_valid :: "int \<Rightarrow> ('s \<Rightarrow> bool) \<Rightarrow> int \<Rightarrow> 's meta_cache \<Rightarrow> bool" where
  "cache_valid ttl usable now c \<longleftrightarrow>
     (case mc_snap c of None \<Rightarrow> False | Some s \<Rightarrow> usable s \<and> (ttl = 0 \<or> now < mc_expires c))"

text \<open>The first section: return what is valid, join a load, or start one.\<close>

definition cache_begin :: "int \<Rightarrow> ('s \<Rightarrow> bool) \<Rightarrow> nat \<Rightarrow> bool \<Rightarrow> int \<Rightarrow> 's meta_cache \<Rightarrow> 's meta_cache" where
  "cache_begin ttl usable i force now c =
     (if \<not> force \<and> cache_valid ttl usable now c then cache_return i force now (Inr (the (mc_snap c))) now c
      else case mc_loading c of
          Some l \<Rightarrow> c\<lparr>mc_calls := (mc_calls c)(i := Waiting l force now), mc_now := now\<rparr>
        | None \<Rightarrow> c\<lparr>mc_calls := (mc_calls c)(i := Fetching (mc_next c) force now), mc_now := now,
            mc_loading := Some (mc_next c), mc_next := mc_next c + 1\<rparr>)"

text \<open>The section after the fetch: a success replaces the snapshot, and every waiter gets the result.\<close>

definition cache_end :: "int \<Rightarrow> nat \<Rightarrow> nat \<Rightarrow> bool \<Rightarrow> int \<Rightarrow> 's res \<Rightarrow> int \<Rightarrow> 's meta_cache \<Rightarrow> 's meta_cache" where
  "cache_end ttl i l force st r now c =
     (let c' = (case r of Inl e \<Rightarrow> c
          | Inr s \<Rightarrow> c\<lparr>mc_snap := Some s, mc_expires := (if ttl > 0 then now + ttl else 0)\<rparr>)
      in cache_return i force st r now
        (c'\<lparr>mc_loads := (mc_loads c)(l := Some (r, now)), mc_loading := None\<rparr>))"

text \<open>The waiter after its load has finished.\<close>

definition cache_wake :: "int \<Rightarrow> ('s \<Rightarrow> bool) \<Rightarrow> nat \<Rightarrow> bool \<Rightarrow> int \<Rightarrow> 's res \<Rightarrow> int \<Rightarrow> 's meta_cache \<Rightarrow> 's meta_cache" where
  "cache_wake ttl usable i force st r now c =
     (case r of
        Inr s \<Rightarrow> cache_return i force st (Inr s) now c
      | Inl e \<Rightarrow>
          if \<not> force \<and> cache_valid ttl usable now c
          then cache_return i force st (Inr (the (mc_snap c))) now c
          else cache_return i force st (Inl e) now c)"

text \<open>
  The steps, for a resolver with the time to live \<open>ttl\<close>. The optional caches run the same sections
  (lines 271-324).
\<close>

inductive cache_step :: "int \<Rightarrow> ('s \<Rightarrow> bool) \<Rightarrow> 's meta_cache \<Rightarrow> 's meta_cache \<Rightarrow> bool"
  for ttl usable where
  step_begin: "mc_calls c i = Ready \<Longrightarrow> mc_now c \<le> now \<Longrightarrow>
    cache_step ttl usable c (cache_begin ttl usable i force now c)"
| step_refused: "mc_calls c i = Ready \<Longrightarrow> mc_now c \<le> now \<Longrightarrow>
    cache_step ttl usable c (c\<lparr>mc_calls := (mc_calls c)(i := Cancelled e), mc_now := now\<rparr>)"
| step_end: "mc_calls c i = Fetching l force st \<Longrightarrow> mc_now c \<le> now \<Longrightarrow>
    cache_step ttl usable c (cache_end ttl i l force st r now c)"
| step_wake: "mc_calls c i = Waiting l force st \<Longrightarrow> mc_loads c l = Some (r, t) \<Longrightarrow> mc_now c \<le> now \<Longrightarrow>
    cache_step ttl usable c (cache_wake ttl usable i force st r now c)"
| step_cancel: "mc_calls c i = Waiting l force st \<Longrightarrow> mc_now c \<le> now \<Longrightarrow>
    cache_step ttl usable c (c\<lparr>mc_calls := (mc_calls c)(i := Cancelled e), mc_now := now\<rparr>)"

inductive cache_reachable :: "int \<Rightarrow> ('s \<Rightarrow> bool) \<Rightarrow> 's meta_cache \<Rightarrow> bool" for ttl usable where
  reach_init: "cache_reachable ttl usable (cache_init now)"
| reach_step: "cache_reachable ttl usable c \<Longrightarrow> cache_step ttl usable c d \<Longrightarrow> cache_reachable ttl usable d"

section \<open>One load at a time, and fresh answers\<close>

text \<open>\<open>s\<close> comes from a load that ended at \<open>t\<close>.\<close>

definition loaded :: "'s meta_cache \<Rightarrow> 's res \<Rightarrow> int \<Rightarrow> bool" where
  "loaded c r t \<longleftrightarrow> (\<exists>l. mc_loads c l = Some (r, t))"

definition newest :: "'s meta_cache \<Rightarrow> int \<Rightarrow> int \<Rightarrow> bool" where
  "newest c t now \<longleftrightarrow> (\<forall>s u. loaded c (Inr s) u \<longrightarrow> u \<le> t \<or> now \<le> u)"

text \<open>
  What a call may return: a result whose load ended during the call; or, unless it is a refresh, the newest
  snapshot at that moment, if it has not expired.
\<close>

definition fresh :: "int \<Rightarrow> 's meta_cache \<Rightarrow> bool \<Rightarrow> int \<Rightarrow> 's res \<Rightarrow> int \<Rightarrow> bool" where
  "fresh ttl c force st r now \<longleftrightarrow> st \<le> now \<and>
     (\<exists>t. loaded c r t \<and> t \<le> now \<and>
       (st \<le> t \<or> \<not> force \<and> is_ok r \<and> (ttl = 0 \<or> now < t + ttl) \<and> newest c t now))"

definition fetching :: "'s meta_cache \<Rightarrow> nat \<Rightarrow> nat \<Rightarrow> bool" where
  "fetching c i l \<longleftrightarrow> (\<exists>force st. mc_calls c i = Fetching l force st)"

definition flights :: "'s meta_cache \<Rightarrow> bool" where
  "flights c \<longleftrightarrow>
     (\<forall>l. mc_loading c = Some l \<longleftrightarrow> (\<exists>i. fetching c i l)) \<and>
     (\<forall>i j l l'. fetching c i l \<and> fetching c j l' \<longrightarrow> i = j) \<and>
     (\<forall>l. mc_loading c = Some l \<longrightarrow> l < mc_next c \<and> mc_loads c l = None) \<and>
     (\<forall>l. mc_next c \<le> l \<longrightarrow> mc_loads c l = None)"

definition callers :: "'s meta_cache \<Rightarrow> bool" where
  "callers c \<longleftrightarrow>
     (\<forall>i l f st. mc_calls c i = Fetching l f st \<longrightarrow> st \<le> mc_now c) \<and>
     (\<forall>i l f st. mc_calls c i = Waiting l f st \<longrightarrow> st \<le> mc_now c \<and>
        (mc_loading c = Some l \<or> (\<exists>r t. mc_loads c l = Some (r, t) \<and> st \<le> t)))"

definition snapshots :: "int \<Rightarrow> 's meta_cache \<Rightarrow> bool" where
  "snapshots ttl c \<longleftrightarrow>
     (\<forall>r t. loaded c r t \<longrightarrow> t \<le> mc_now c) \<and>
     (\<forall>s. mc_snap c = Some s \<longrightarrow> (\<exists>t. loaded c (Inr s) t \<and> (0 < ttl \<longrightarrow> mc_expires c = t + ttl) \<and>
        newest c t (mc_now c + 1)))"

definition returns :: "int \<Rightarrow> 's meta_cache \<Rightarrow> bool" where
  "returns ttl c \<longleftrightarrow> (\<forall>i f st r now. mc_calls c i = Returned f st r now \<longrightarrow>
     now \<le> mc_now c \<and> fresh ttl c f st r now)"

definition cache_ok :: "int \<Rightarrow> 's meta_cache \<Rightarrow> bool" where
  "cache_ok ttl c \<longleftrightarrow> flights c \<and> callers c \<and> snapshots ttl c \<and> returns ttl c"

lemmas cache_defs = cache_begin_def cache_end_def cache_wake_def cache_return_def Let_def

lemma flights_frame:
  assumes "flights c" "fetching d = fetching c" "mc_loading d = mc_loading c" "mc_loads d = mc_loads c"
    "mc_next d = mc_next c"
  shows "flights d"
  using assms by (simp add: flights_def)

lemma loading_done:
  assumes "flights c" "mc_calls c i = Fetching l force st"
  shows "mc_loading c = Some l" "mc_loads c l = None"
  using assms unfolding flights_def fetching_def by blast+

lemma loading_other:
  assumes "flights c" "mc_loads c l = Some r"
  shows "mc_loading c \<noteq> Some l"
  using assms unfolding flights_def by force

lemma flights_step:
  assumes "cache_step ttl usable c d" "flights c"
  shows "flights d"
  using assms(1)
proof (cases rule: cache_step.cases)
  case (step_begin i now force)
  show ?thesis
  proof (cases "(\<not> force \<and> cache_valid ttl usable now c) \<or> mc_loading c \<noteq> None")
    case True
    then show ?thesis using step_begin
      by (intro flights_frame [OF assms(2)])
        (auto simp: cache_defs fetching_def fun_eq_iff split: option.splits)
  next
    case False
    then have none: "mc_loading c = None" by simp
    with assms(2) have idle: "\<not> fetching c j l" for j l by (auto simp: flights_def)
    have d: "d = c\<lparr>mc_calls := (mc_calls c)(i := Fetching (mc_next c) force now), mc_now := now,
        mc_loading := Some (mc_next c), mc_next := mc_next c + 1\<rparr>"
      using step_begin False none by (auto simp: cache_begin_def)
    have fetch: "fetching d j l \<longleftrightarrow> j = i \<and> l = mc_next c" for j l
      using idle [of j l] unfolding d by (auto simp: fetching_def)
    have "mc_loads c l = None" if "mc_next c \<le> l" for l using assms(2) that by (simp add: flights_def)
    then show ?thesis unfolding flights_def fetch by (auto simp: d)
  qed
next
  case (step_end i l force st now r)
  note l = loading_done [OF assms(2) step_end(2)]
  have gone: "\<not> fetching d j k" for j k
  proof -
    have "fetching c i l" using step_end(2) by (auto simp: fetching_def)
    then have "fetching c j k \<Longrightarrow> j = i" using assms(2) unfolding flights_def by blast
    then show ?thesis using step_end by (auto simp: cache_defs fetching_def split: sum.splits)
  qed
  have d: "mc_loading d = None" "mc_next d = mc_next c" "mc_loads d = (mc_loads c)(l := Some (r, now))"
    using step_end by (auto simp: cache_defs split: sum.splits)
  have "l < mc_next c" "\<forall>k \<ge> mc_next c. mc_loads c k = None" using assms(2) l by (auto simp: flights_def)
  then show ?thesis using gone d by (auto simp: flights_def)
next
  case (step_wake i l force st r t now)
  then show ?thesis
    by (intro flights_frame [OF assms(2)])
      (auto simp: cache_defs fetching_def fun_eq_iff split: sum.splits)
qed (rule flights_frame [OF assms(2)]; auto simp: fetching_def fun_eq_iff)+

lemma callers_step:
  assumes "cache_step ttl usable c d" "callers c" "flights c"
  shows "callers d"
  using assms(1)
proof (cases rule: cache_step.cases)
  case (step_begin i now force)
  then show ?thesis using assms(2) by (fastforce simp: cache_defs callers_def split: option.splits if_splits)
next
  case (step_end i l force st now r)
  have "mc_loading c = Some l" by (rule loading_done [OF assms(3) step_end(2)])
  then show ?thesis using step_end assms(2) by (fastforce simp: cache_defs callers_def split: sum.splits)
next
  case (step_wake i l force st r t now)
  then show ?thesis using assms(2) by (fastforce simp: cache_defs callers_def split: sum.splits)
qed (use assms(2) in \<open>fastforce simp: callers_def\<close>)+

text \<open>Loads are only added, at the current time.\<close>

lemma loads_step:
  assumes "cache_step ttl usable c d" "flights c" "loaded d r t"
  shows "loaded c r t \<or> t = mc_now d"
  using assms by (cases rule: cache_step.cases)
    (auto simp: cache_defs loaded_def split: sum.splits option.splits if_splits)

lemma loads_keep:
  assumes "cache_step ttl usable c d" "flights c" "loaded c r t"
  shows "loaded d r t"
  using assms(1)
proof (cases rule: cache_step.cases)
  case (step_end i l force st now r')
  note free = loading_done(2) [OF assms(2) step_end(2)]
  obtain k where "mc_loads c k = Some (r, t)" using assms(3) by (auto simp: loaded_def)
  moreover from this free have "k \<noteq> l" by auto
  ultimately have "mc_loads d k = Some (r, t)"
    using step_end by (auto simp: cache_defs split: sum.splits)
  then show ?thesis by (auto simp: loaded_def)
next
  case (step_begin i now force)
  then show ?thesis using assms(3) by (auto simp: cache_defs loaded_def split: option.splits)
next
  case (step_wake i l force st r t now)
  then show ?thesis using assms(3) by (auto simp: cache_defs loaded_def split: sum.splits)
qed (use assms(3) in \<open>auto simp: loaded_def\<close>)

lemma now_step: "cache_step ttl usable c d \<Longrightarrow> mc_now c \<le> mc_now d"
  by (cases rule: cache_step.cases)
    (auto simp: cache_defs split: sum.splits option.splits)

text \<open>Only the end of a load changes what is stored.\<close>

lemma stored_cases:
  assumes "cache_step ttl usable c d"
  obtains (ended) i l force st r where "mc_calls c i = Fetching l force st"
    "mc_loads d = (mc_loads c)(l := Some (r, mc_now d))"
    "mc_snap d = (case r of Inl e \<Rightarrow> mc_snap c | Inr s \<Rightarrow> Some s)"
    "mc_expires d = (case r of Inl e \<Rightarrow> mc_expires c | Inr s \<Rightarrow> if 0 < ttl then mc_now d + ttl else 0)"
  | (same) "mc_loads d = mc_loads c" "mc_snap d = mc_snap c" "mc_expires d = mc_expires c"
  using assms
proof (cases rule: cache_step.cases)
  case (step_end i l force st now r)
  show ?thesis
    by (rule ended [of i l force st r]) (use step_end in \<open>auto simp: cache_defs split: sum.splits\<close>)
next
  case (step_begin i now force)
  show ?thesis by (rule same) (use step_begin in \<open>auto simp: cache_defs split: option.splits\<close>)
next
  case (step_wake i l force st r t now)
  show ?thesis by (rule same) (use step_wake in \<open>auto simp: cache_defs split: sum.splits\<close>)
qed (simp_all add: same)

lemma snapshots_step:
  assumes "cache_step ttl usable c d" "snapshots ttl c" "flights c"
  shows "snapshots ttl d"
proof -
  have times: "t \<le> mc_now d" if "loaded d r t" for r t
    using loads_step [OF assms(1,3) that] now_step [OF assms(1)] assms(2) by (fastforce simp: snapshots_def)
  have keep: "\<exists>t. loaded d (Inr s) t \<and> (0 < ttl \<longrightarrow> mc_expires d = t + ttl) \<and> newest d t (mc_now d + 1)"
    if s: "mc_snap c = Some s" "mc_expires d = mc_expires c" "\<forall>u t. loaded d (Inr u) t \<longrightarrow> loaded c (Inr u) t" for s
  proof -
    obtain t where t: "loaded c (Inr s) t" "0 < ttl \<longrightarrow> mc_expires c = t + ttl" "newest c t (mc_now c + 1)"
      using assms(2) s(1) unfolding snapshots_def by blast
    have "newest d t (mc_now d + 1)"
      using t(3) s(3) assms(2) unfolding newest_def snapshots_def by fastforce
    then show ?thesis using t s(2) loads_keep [OF assms(1,3)] by metis
  qed
  from assms(1) have "\<exists>t. loaded d (Inr s) t \<and> (0 < ttl \<longrightarrow> mc_expires d = t + ttl) \<and> newest d t (mc_now d + 1)"
    if s: "mc_snap d = Some s" for s
  proof (cases rule: stored_cases)
    case (ended i l force st r)
    show ?thesis
    proof (cases r)
      case (Inl e)
      then have "\<forall>u t. loaded d (Inr u) t \<longrightarrow> loaded c (Inr u) t"
        using ended(2) by (auto simp: loaded_def split: if_splits)
      then show ?thesis using keep [of s] s ended Inl by simp
    next
      case (Inr u)
      then have "loaded d (Inr s) (mc_now d)" using ended s by (auto simp: loaded_def)
      moreover have "newest d (mc_now d) (mc_now d + 1)" using times by (auto simp: newest_def)
      ultimately show ?thesis using Inr ended(4) by auto
    qed
  next
    case same
    then show ?thesis using keep [of s] s by (simp add: loaded_def)
  qed
  then show ?thesis using times by (auto simp: snapshots_def)
qed

lemma fresh_keep:
  assumes "cache_step ttl usable c d" "flights c" "fresh ttl c f st r now" "now \<le> mc_now c"
  shows "fresh ttl d f st r now"
proof -
  obtain t where t: "loaded c r t" "t \<le> now"
    "st \<le> t \<or> \<not> f \<and> is_ok r \<and> (ttl = 0 \<or> now < t + ttl) \<and> newest c t now"
    using assms(3) by (auto simp: fresh_def)
  have "newest d t now" if "newest c t now"
    using that loads_step [OF assms(1,2)] now_step [OF assms(1)] assms(4) unfolding newest_def
    by (metis order_trans)
  then show ?thesis using t loads_keep [OF assms(1,2) t(1)] assms(3) by (auto simp: fresh_def)
qed

text \<open>The valid snapshot is a fresh answer of an ordinary read.\<close>

lemma valid_fresh:
  assumes "cache_valid ttl usable now c" "snapshots ttl c" "mc_now c \<le> now" "st \<le> now" "0 \<le> ttl"
  shows "fresh ttl c False st (Inr (the (mc_snap c))) now"
proof -
  obtain s where s: "mc_snap c = Some s" "ttl = 0 \<or> now < mc_expires c"
    using assms(1) by (auto simp: cache_valid_def split: option.splits)
  obtain t where t: "loaded c (Inr s) t" "0 < ttl \<longrightarrow> mc_expires c = t + ttl" "newest c t (mc_now c + 1)"
    "t \<le> mc_now c"
    using assms(2) s(1) unfolding snapshots_def by blast
  have "newest c t now" using t(3) assms(2,3) unfolding newest_def snapshots_def by fastforce
  then show ?thesis using s t assms by (auto simp: fresh_def)
qed

lemma returns_step:
  assumes "cache_step ttl usable c d" "cache_ok ttl c" "0 \<le> ttl"
  shows "returns ttl d"
proof -
  have c: "flights c" "callers c" "snapshots ttl c" "returns ttl c" using assms(2) by (simp_all add: cache_ok_def)
  have old: "now \<le> mc_now d \<and> fresh ttl d f st r now" if "mc_calls c i = Returned f st r now" for i f st r now
    using that c(4) fresh_keep [OF assms(1) c(1)] now_step [OF assms(1)] unfolding returns_def
    by (meson order_trans)
  show ?thesis unfolding returns_def
  proof (intro allI impI)
    fix i f st r now
    assume new: "mc_calls d i = Returned f st r now"
    show "now \<le> mc_now d \<and> fresh ttl d f st r now"
    proof (cases "mc_calls c i = Returned f st r now")
      case False
      from assms(1) show ?thesis
      proof (cases rule: cache_step.cases)
        case (step_begin i' now' force)
        then have d: "\<not> force" "cache_valid ttl usable now' c" "f = False" "st = now'" "now = now'"
          "r = Inr (the (mc_snap c))" "mc_now d = now'" "mc_loads d = mc_loads c"
          using new False by (auto simp: cache_defs split: if_splits option.splits)
        have "fresh ttl c False now' (Inr (the (mc_snap c))) now'"
          by (rule valid_fresh [OF d(2) c(3) step_begin(3) order_refl assms(3)])
        then show ?thesis using d by (simp add: fresh_def loaded_def newest_def)
      next
        case (step_end i' l force st' now' r')
        then have d: "f = force" "st = st'" "now = now'" "r = r'" "mc_now d = now'" "loaded d r' now'"
          using new False by (auto simp: cache_defs loaded_def split: if_splits sum.splits)
        have "st' \<le> now'" using step_end(2,3) c(2) unfolding callers_def by (meson order_trans)
        then show ?thesis using d by (auto simp: fresh_def)
      next
        case (step_wake i' l force st' r' t now')
        have start: "st' \<le> now'" "st' \<le> t" "t \<le> now'"
        proof -
          have "mc_loading c \<noteq> Some l" by (rule loading_other [OF c(1) step_wake(3)])
          then show "st' \<le> t" using step_wake(2,3) c(2) unfolding callers_def by fastforce
          show "t \<le> now'" using step_wake(3,4) c(3) unfolding snapshots_def loaded_def by fastforce
          then show "st' \<le> now'" using \<open>st' \<le> t\<close> by simp
        qed
        have same: "mc_loads d = mc_loads c" "mc_now d = now'" "f = force" "st = st'" "now = now'"
          using new False step_wake by (auto simp: cache_defs split: if_splits sum.splits)
        have "r = r' \<or> \<not> force \<and> cache_valid ttl usable now' c \<and> r = Inr (the (mc_snap c))"
          using new False step_wake by (auto simp: cache_defs split: if_splits sum.splits)
        then have "fresh ttl c force st' r now'"
        proof
          assume "r = r'"
          then show ?thesis using start step_wake(3) by (auto simp: fresh_def loaded_def)
        next
          assume "\<not> force \<and> cache_valid ttl usable now' c \<and> r = Inr (the (mc_snap c))"
          then show ?thesis using valid_fresh [OF _ c(3) step_wake(4) start(1) assms(3)] by auto
        qed
        then show ?thesis using same by (simp add: fresh_def loaded_def newest_def)
      qed (use new False in \<open>auto split: if_splits\<close>)
    qed (rule old)
  qed
qed

lemma reachable_ok:
  assumes "cache_reachable ttl usable c" "0 \<le> ttl"
  shows "cache_ok ttl c"
  using assms(1)
proof (induction rule: cache_reachable.induct)
  case (reach_init now)
  show ?case
    by (auto simp: cache_ok_def cache_init_def flights_def callers_def snapshots_def returns_def loaded_def fetching_def)
next
  case (reach_step c d)
  note ok = reach_step.IH [unfolded cache_ok_def]
  have "flights d" "callers d" "snapshots ttl d" "returns ttl d"
    using flights_step [OF reach_step.hyps(2)] callers_step [OF reach_step.hyps(2)]
      snapshots_step [OF reach_step.hyps(2)] returns_step [OF reach_step.hyps(2) reach_step.IH assms(2)] ok
    by blast+
  then show ?case by (simp add: cache_ok_def)
qed

text \<open>
  C25: however calls, loads, wake-ups and cancellations interleave, at most one load is
  in flight; a caller that waits has a load that is in flight or finished; a call returns a result whose load
  ended while it ran, or, unless it is a refresh, the newest snapshot, if it has not expired. So a refresh
  never turns a failed load into a success, and no read is staler than the time to live.
\<close>

theorem meta_cache_coherent:
  assumes "cache_reachable ttl usable c" "0 \<le> ttl"
  shows "(\<forall>i j l l'. fetching c i l \<and> fetching c j l' \<longrightarrow> i = j) \<and>
    (\<forall>i l f st. mc_calls c i = Waiting l f st \<longrightarrow> (\<exists>j. fetching c j l) \<or> mc_loads c l \<noteq> None) \<and>
    (\<forall>i f st r now. mc_calls c i = Returned f st r now \<longrightarrow> fresh ttl c f st r now)"
proof -
  have ok: "flights c" "callers c" "returns ttl c" using reachable_ok [OF assms] by (simp_all add: cache_ok_def)
  have "(\<exists>j. fetching c j l) \<or> mc_loads c l \<noteq> None" if "mc_calls c i = Waiting l f st" for i l f st
    using ok(1,2) that unfolding flights_def callers_def by (metis option.distinct(1))
  then show ?thesis using ok(1,3) unfolding flights_def returns_def by blast
qed

text \<open>Two callers share one load, whose result both get.\<close>

definition shared_run :: "nat res \<Rightarrow> nat meta_cache" where
  "shared_run r = cache_wake 10 (\<lambda>_. True) 1 True 2 r 4
     (cache_end 10 0 0 False 1 r 3
     (cache_begin 10 (\<lambda>_. True) 1 True 2
     (cache_begin 10 (\<lambda>_. True) 0 False 1 (cache_init 0))))"

lemma shared_reachable: "cache_reachable 10 (\<lambda>_. True) (shared_run r)"
proof -
  let ?a = "cache_init 0 :: nat meta_cache"
  let ?b = "cache_begin 10 (\<lambda>_. True) 0 False 1 ?a"
  let ?c = "cache_begin 10 (\<lambda>_. True) 1 True 2 ?b"
  let ?d = "cache_end 10 0 0 False 1 r 3 ?c"
  have "cache_reachable 10 (\<lambda>_. True) ?a" by (rule reach_init)
  moreover have "cache_step 10 (\<lambda>_. True) ?a ?b"
    by (rule step_begin) (simp_all add: cache_init_def)
  moreover have "cache_step 10 (\<lambda>_. True) ?b ?c"
    by (rule step_begin) (simp_all add: cache_init_def cache_begin_def cache_valid_def)
  moreover have "cache_step 10 (\<lambda>_. True) ?c ?d"
    by (rule step_end) (simp_all add: cache_init_def cache_begin_def cache_valid_def)
  moreover have "cache_step 10 (\<lambda>_. True) ?d (shared_run r)"
    unfolding shared_run_def
    by (rule step_wake [where l = 0 and t = 3])
      (simp_all add: cache_init_def cache_begin_def cache_valid_def cache_end_def cache_return_def
        Let_def split: sum.splits)
  ultimately show ?thesis by (blast intro: reach_step)
qed

lemma shared_calls:
  "mc_calls (shared_run r) 0 = Returned False 1 r 3" "mc_calls (shared_run r) 1 = Returned True 2 r 4"
  by (simp_all add: shared_run_def cache_init_def cache_begin_def cache_valid_def cache_end_def cache_wake_def
      cache_return_def Let_def split: sum.splits)

theorem meta_cache_coherent_witness:
  "fresh 10 (shared_run (Inr 7)) True 2 (Inr 7) 4"
  using meta_cache_coherent [OF shared_reachable, of "Inr 7"] shared_calls(2) [of "Inr 7"] by simp

text \<open>
  The load runs under the context of the caller that started it: when that one is cancelled, a caller that
  joined it gets the cancellation as its own error.
\<close>

lemma joined_cancellation:
  "\<exists>c :: nat meta_cache. cache_reachable 10 (\<lambda>_. True) c \<and> mc_calls c 1 = Returned True 2 (Inl ''context canceled'') 4"
  using shared_reachable [of "Inl ''context canceled''"] shared_calls(2) by blast

section \<open>Lookups\<close>

text \<open>What the snapshots of the three namespaces give to one lookup.\<close>

record meta_reads =
  md_base :: "metaSnapshot res"
  md_hip3 :: "metaSnapshot res"
  md_outcome :: "metaSnapshot res"

definition Meta_Refresh :: "bool \<Rightarrow> bool \<Rightarrow> bool \<Rightarrow> meta_reads \<Rightarrow> unit res" where
  "Meta_Refresh outcomes hip3_initialized outcome_initialized forced =
     bind_res (md_base forced) (\<lambda>_.
       let hip3 = (if hip3_initialized then map_sum (\<lambda>e. e) (\<lambda>_. ()) (md_hip3 forced) else Inr ());
         outcome = (if outcomes \<and> outcome_initialized then map_sum (\<lambda>e. e) (\<lambda>_. ()) (md_outcome forced) else Inr ())
       in case hip3 of Inl e \<Rightarrow> Inl e | Inr u \<Rightarrow> outcome)"

definition Meta_Resolve :: "meta_reads \<Rightarrow> string \<Rightarrow> Asset res" where
  "Meta_Resolve reads symbol = bind_res (md_base reads) (\<lambda>s. resolveSymbol s symbol)"

definition Meta_ResolveMarket :: "bool \<Rightarrow> unit res \<Rightarrow> meta_reads \<Rightarrow> MarketRef \<Rightarrow> Asset res" where
  "Meta_ResolveMarket outcomes ctxErr reads ref =
     bind_res ctxErr (\<lambda>_. bind_res (validateMarketRef ref) (\<lambda>_.
     bind_res (if r_Kind ref = HIP3 then md_hip3 reads
       else if r_Kind ref = Outcome then
         (if \<not> outcomes then Inl (''asset not found: '' @ r_Symbol ref) else md_outcome reads)
       else md_base reads) (\<lambda>s.
     first_match ref (ms_bySymbol s (r_Symbol ref)))))"

definition Meta_ResolveID :: "bool \<Rightarrow> unit res \<Rightarrow> meta_reads \<Rightarrow> int \<Rightarrow> Asset res" where
  "Meta_ResolveID outcomes ctxErr reads i =
     bind_res ctxErr (\<lambda>_. bind_res (md_base reads) (\<lambda>base.
     bind_res (if i \<ge> 100000 then map_sum (\<lambda>e. e) (\<lambda>s. ms_byID s i) (md_hip3 reads) else Inr []) (\<lambda>hip3.
     bind_res (if i \<ge> 100000000 \<and> outcomes then map_sum (\<lambda>e. e) (\<lambda>s. ms_byID s i) (md_outcome reads) else Inr [])
       (\<lambda>outcome.
     let assets = ms_byID base i @ hip3 @ outcome
     in if assets = [] then Inl (''asset not found: '' @ show_int i)
       else if length assets \<noteq> 1 then Inl (''ambiguous asset ID: '' @ show_int i)
       else Inr (hd assets)))))"

text \<open>A lookup in one namespace needs no other one.\<close>

lemma namespaces_independent:
  "r_Kind ref = HIP3 \<Longrightarrow> md_hip3 reads = md_hip3 reads' \<Longrightarrow>
     Meta_ResolveMarket outcomes ctxErr reads ref = Meta_ResolveMarket outcomes ctxErr reads' ref"
  "r_Kind ref = Perp \<or> r_Kind ref = Spot \<Longrightarrow> md_base reads = md_base reads' \<Longrightarrow>
     Meta_ResolveMarket outcomes ctxErr reads ref = Meta_ResolveMarket outcomes ctxErr reads' ref"
  "i < 100000 \<Longrightarrow> md_base reads = md_base reads' \<Longrightarrow>
     Meta_ResolveID outcomes ctxErr reads i = Meta_ResolveID outcomes ctxErr reads' i"
  by (auto simp: Meta_ResolveMarket_def Meta_ResolveID_def kind_defs)

end
