(* ===== verification/RootClient.thy ===== *)
theory RootClient
  imports Explorer MetaResolver Exchange
begin

text \<open>
  The root package: \<^verbatim>\<open>config.go\<close>, \<^verbatim>\<open>options.go\<close>, \<^verbatim>\<open>network.go\<close> and \<^verbatim>\<open>client.go\<close>. An option is a
  function on the configuration that may fail; \<^verbatim>\<open>NewClient\<close> applies them in order and builds the four
  clients. Objects that a caller hands in (transports, managers, middlewares) are handles; the
  configuration of the WebSocket client is a type variable.
\<close>

section \<open>Networks\<close>

definition Mainnet :: string where "Mainnet = ''mainnet''"
definition Testnet :: string where "Testnet = ''testnet''"

record Endpoints =
  ep_Info :: string
  ep_Exchange :: string
  ep_WebSocket :: string
  ep_Explorer :: string
  ep_ExplorerWebSocket :: string

definition endpoints_at :: "string \<Rightarrow> string \<Rightarrow> Endpoints" where
  "endpoints_at api rpc =
     \<lparr> ep_Info = ''https://'' @ api @ ''/info'', ep_Exchange = ''https://'' @ api @ ''/exchange'',
       ep_WebSocket = ''wss://'' @ api @ ''/ws'', ep_Explorer = ''https://'' @ rpc @ ''/explorer'',
       ep_ExplorerWebSocket = ''wss://'' @ rpc @ ''/ws'' \<rparr>"

definition endpointsFor :: "string \<Rightarrow> Endpoints res" where
  "endpointsFor network =
     (if network = Mainnet then Inr (endpoints_at ''api.hyperliquid.xyz'' ''rpc.hyperliquid.xyz'')
      else if network = Testnet
      then Inr (endpoints_at ''api.hyperliquid-testnet.xyz'' ''rpc.hyperliquid-testnet.xyz'')
      else Inl (''invalid hyperliquid network: '' @ quote network))"

section \<open>Configuration and options\<close>

type_synonym handle = nat

text \<open>An HTTP transport: the default one, one that was given, one over a given client, or a wrapped one.\<close>

datatype middleware = Given handle | Weighted handle handle

datatype http_stack = DefaultHTTP | GivenHTTP handle | ClientHTTP handle | Wrapped middleware http_stack

text \<open>The nonce manager \<open>None\<close> is the fresh monotonic one; the WebSocket configuration \<open>None\<close> the zero one.\<close>

record 'w config =
  cfg_network :: string
  cfg_endpoints :: Endpoints
  cfg_signer :: "DigestSigner option"
  cfg_nonce :: "handle option"
  cfg_asset :: "handle option"
  cfg_http :: http_stack
  cfg_request :: "handle option"
  cfg_explorerRequest :: "handle option"
  cfg_infoTimeout :: int
  cfg_exchangeTimeout :: int
  cfg_userAgent :: string
  cfg_websocket :: "'w option"
  cfg_infoRetry :: RetryPolicy
  cfg_middleware :: "middleware list"
  cfg_vaultAddress :: "address option"
  cfg_expiresAfter :: "u64 option"

definition defaultConfig :: "(int \<Rightarrow> int) \<Rightarrow> 'w config" where
  "defaultConfig jitter =
     \<lparr> cfg_network = Mainnet, cfg_endpoints = endpoints_at ''api.hyperliquid.xyz'' ''rpc.hyperliquid.xyz'',
       cfg_signer = None, cfg_nonce = None, cfg_asset = None, cfg_http = DefaultHTTP, cfg_request = None,
       cfg_explorerRequest = None, cfg_infoTimeout = 5000000000, cfg_exchangeTimeout = 5000000000,
       cfg_userAgent = ''hypersdk-go'', cfg_websocket = None, cfg_infoRetry = DefaultRetryPolicy jitter,
       cfg_middleware = [], cfg_vaultAddress = None, cfg_expiresAfter = None \<rparr>"

type_synonym 'w root_option = "'w config \<Rightarrow> 'w config res"

definition WithNetwork :: "string \<Rightarrow> 'w root_option" where
  "WithNetwork network c =
     bind_res (endpointsFor network) (\<lambda>e. Inr (c\<lparr>cfg_network := network, cfg_endpoints := e\<rparr>))"

definition WithMainnet :: "'w root_option" where
  "WithMainnet = WithNetwork Mainnet"

definition WithTestnet :: "'w root_option" where
  "WithTestnet = WithNetwork Testnet"

text \<open>\<^verbatim>\<open>url.ParseRequestURI\<close> is a parameter: the scheme and host of a URL that parses.\<close>

definition setURL :: "(string \<Rightarrow> (string \<times> string) option) \<Rightarrow> string \<Rightarrow> string \<Rightarrow>
    ('w config \<Rightarrow> string \<Rightarrow> 'w config) \<Rightarrow> 'w root_option" where
  "setURL parse_url name rawURL apply_url c =
     (case parse_url rawURL of
        None \<Rightarrow> Inl (''invalid '' @ name @ '' URL: '' @ quote rawURL)
      | Some (scheme, host) \<Rightarrow>
          if scheme = [] \<or> host = [] then Inl (''invalid '' @ name @ '' URL: '' @ quote rawURL)
          else Inr (apply_url c rawURL))"

definition WithInfoBaseURL :: "(string \<Rightarrow> (string \<times> string) option) \<Rightarrow> string \<Rightarrow> 'w root_option" where
  "WithInfoBaseURL parse_url rawURL = setURL parse_url ''info'' rawURL
     (\<lambda>c v. c\<lparr>cfg_endpoints := (cfg_endpoints c)\<lparr>ep_Info := v\<rparr>\<rparr>)"

definition WithExchangeBaseURL :: "(string \<Rightarrow> (string \<times> string) option) \<Rightarrow> string \<Rightarrow> 'w root_option" where
  "WithExchangeBaseURL parse_url rawURL = setURL parse_url ''exchange'' rawURL
     (\<lambda>c v. c\<lparr>cfg_endpoints := (cfg_endpoints c)\<lparr>ep_Exchange := v\<rparr>\<rparr>)"

definition WithExplorerBaseURL :: "(string \<Rightarrow> (string \<times> string) option) \<Rightarrow> string \<Rightarrow> 'w root_option" where
  "WithExplorerBaseURL parse_url rawURL = setURL parse_url ''explorer'' rawURL
     (\<lambda>c v. c\<lparr>cfg_endpoints := (cfg_endpoints c)\<lparr>ep_Explorer := v\<rparr>\<rparr>)"

definition WithWebSocketURL :: "(string \<Rightarrow> (string \<times> string) option) \<Rightarrow> string \<Rightarrow> 'w root_option" where
  "WithWebSocketURL parse_url rawURL = setURL parse_url ''websocket'' rawURL
     (\<lambda>c v. c\<lparr>cfg_endpoints := (cfg_endpoints c)\<lparr>ep_WebSocket := v\<rparr>\<rparr>)"

definition WithExplorerWebSocketURL :: "(string \<Rightarrow> (string \<times> string) option) \<Rightarrow> string \<Rightarrow> 'w root_option" where
  "WithExplorerWebSocketURL parse_url rawURL = setURL parse_url ''explorer websocket'' rawURL
     (\<lambda>c v. c\<lparr>cfg_endpoints := (cfg_endpoints c)\<lparr>ep_ExplorerWebSocket := v\<rparr>\<rparr>)"

definition WithDigestSigner :: "DigestSigner option \<Rightarrow> 'w root_option" where
  "WithDigestSigner s c =
     (case s of None \<Rightarrow> Inl ''invalid signer: nil'' | Some x \<Rightarrow> Inr (c\<lparr>cfg_signer := Some x\<rparr>))"

definition Root_WithVaultAddress :: "address \<Rightarrow> 'w root_option" where
  "Root_WithVaultAddress a c =
     (if a = 0 then Inl ''invalid vault address'' else Inr (c\<lparr>cfg_vaultAddress := Some a\<rparr>))"

definition Root_WithExpiresAfter :: "u64 \<Rightarrow> 'w root_option" where
  "Root_WithExpiresAfter timestamp c =
     (if timestamp = 0 then Inl ''invalid expiresAfter'' else Inr (c\<lparr>cfg_expiresAfter := Some timestamp\<rparr>))"

definition WithNonceManager :: "handle option \<Rightarrow> 'w root_option" where
  "WithNonceManager m c =
     (case m of None \<Rightarrow> Inl ''invalid nonce manager: nil'' | Some x \<Rightarrow> Inr (c\<lparr>cfg_nonce := Some x\<rparr>))"

definition WithAssetResolver :: "handle option \<Rightarrow> 'w root_option" where
  "WithAssetResolver r c =
     (case r of None \<Rightarrow> Inl ''invalid asset resolver: nil'' | Some x \<Rightarrow> Inr (c\<lparr>cfg_asset := Some x\<rparr>))"

definition WithHTTPTransport :: "handle option \<Rightarrow> 'w root_option" where
  "WithHTTPTransport t c =
     (case t of None \<Rightarrow> Inl ''invalid HTTP transport: nil'' | Some x \<Rightarrow> Inr (c\<lparr>cfg_http := GivenHTTP x\<rparr>))"

definition WithRequestTransport :: "handle option \<Rightarrow> 'w root_option" where
  "WithRequestTransport t c =
     (case t of None \<Rightarrow> Inl ''invalid request transport: nil'' | Some x \<Rightarrow> Inr (c\<lparr>cfg_request := Some x\<rparr>))"

definition WithExplorerRequestTransport :: "handle option \<Rightarrow> 'w root_option" where
  "WithExplorerRequestTransport t c =
     (case t of None \<Rightarrow> Inl ''invalid explorer request transport: nil'' | Some x \<Rightarrow> Inr (c\<lparr>cfg_explorerRequest := Some x\<rparr>))"

definition WithHTTPClient :: "handle option \<Rightarrow> 'w root_option" where
  "WithHTTPClient client c =
     (case client of None \<Rightarrow> Inl ''invalid HTTP client: nil'' | Some x \<Rightarrow> Inr (c\<lparr>cfg_http := ClientHTTP x\<rparr>))"

definition WithHTTPTimeout :: "int \<Rightarrow> 'w root_option" where
  "WithHTTPTimeout timeout c =
     (if timeout \<le> 0 then Inl ''invalid HTTP timeout''
      else Inr (c\<lparr>cfg_infoTimeout := timeout, cfg_exchangeTimeout := timeout\<rparr>))"

definition WithInfoTimeout :: "int \<Rightarrow> 'w root_option" where
  "WithInfoTimeout timeout c =
     (if timeout \<le> 0 then Inl ''invalid info timeout'' else Inr (c\<lparr>cfg_infoTimeout := timeout\<rparr>))"

definition WithInfoRetryPolicy :: "RetryPolicy \<Rightarrow> 'w root_option" where
  "WithInfoRetryPolicy policy c =
     Inr (c\<lparr>cfg_infoRetry := policy\<rparr>)"

definition WithExchangeTimeout :: "int \<Rightarrow> 'w root_option" where
  "WithExchangeTimeout timeout c =
     (if timeout \<le> 0 then Inl ''invalid exchange timeout'' else Inr (c\<lparr>cfg_exchangeTimeout := timeout\<rparr>))"

definition WithUserAgent :: "string \<Rightarrow> 'w root_option" where
  "WithUserAgent userAgent c =
     (if userAgent = [] then Inl ''invalid user agent'' else Inr (c\<lparr>cfg_userAgent := userAgent\<rparr>))"

definition WithWebSocketConfig :: "'w \<Rightarrow> 'w root_option" where
  "WithWebSocketConfig w c =
     Inr (c\<lparr>cfg_websocket := Some w\<rparr>)"

definition WithMiddleware :: "handle option list \<Rightarrow> 'w root_option" where
  "WithMiddleware items c =
     (if None \<in> set items then Inl ''nil middleware''
      else Inr (c\<lparr>cfg_middleware := cfg_middleware c @ map (Given \<circ> the) items\<rparr>))"

definition WithRateLimitPolicyAndLimiter :: "handle option \<Rightarrow> handle option \<Rightarrow> 'w root_option" where
  "WithRateLimitPolicyAndLimiter policy limiter c =
     (case (policy, limiter) of
        (None, _) \<Rightarrow> Inl ''invalid rate limit policy: nil''
      | (_, None) \<Rightarrow> Inl ''invalid rate limit limiter: nil''
      | (Some p, Some l) \<Rightarrow> Inr (c\<lparr>cfg_middleware := cfg_middleware c @ [Weighted p l]\<rparr>))"

text \<open>The limiter of the official budget is made when the option is; \<open>limiter\<close> is its handle.\<close>

definition WithRateLimitPolicy :: "handle \<Rightarrow> handle option \<Rightarrow> 'w root_option" where
  "WithRateLimitPolicy limiter policy = WithRateLimitPolicyAndLimiter policy (Some limiter)"

definition WithOfficialRateLimit :: "handle \<Rightarrow> handle \<Rightarrow> 'w root_option" where
  "WithOfficialRateLimit limiter official = WithRateLimitPolicy limiter (Some official)"

section \<open>The exchange client's options\<close>


record submitConfig =
  sc_vaultAddress :: "address option"
  sc_expiresAfter :: "u64 option"

definition Submit_WithVaultAddress :: "address \<Rightarrow> submitConfig \<Rightarrow> submitConfig res" where
  "Submit_WithVaultAddress a c =
     (if a = 0 then Inl ''vault address is required'' else Inr (c\<lparr>sc_vaultAddress := Some a\<rparr>))"

definition Submit_WithExpiresAfter :: "u64 \<Rightarrow> submitConfig \<Rightarrow> submitConfig res" where
  "Submit_WithExpiresAfter timestamp c =
     (if timestamp = 0 then Inl ''expiresAfter must be positive''
      else Inr (c\<lparr>sc_expiresAfter := Some timestamp\<rparr>))"

fun apply_all :: "('c \<Rightarrow> 'c res) option list \<Rightarrow> string \<Rightarrow> 'c \<Rightarrow> 'c res" where
  "apply_all [] nil_error c = Inr c"
| "apply_all (None # os) nil_error c = Inl nil_error"
| "apply_all (Some f # os) nil_error c = bind_res (f c) (apply_all os nil_error)"

text \<open>What an exchange client is made of: its own fields in \<open>Exchange\<close>, and how it reaches the server.\<close>

record exchange_client =
  xc_client :: Client
  xc_baseURL :: string
  xc_http :: http_stack
  xc_timeout :: int
  xc_nonce :: "handle option"
  xc_request :: "handle option"
  xc_userAgent :: string

definition NewClientWithOptions :: "string \<Rightarrow> string \<Rightarrow> http_stack option \<Rightarrow> int \<Rightarrow> DigestSigner option \<Rightarrow> handle option \<Rightarrow>
    string \<Rightarrow> (submitConfig \<Rightarrow> submitConfig res) option list \<Rightarrow> exchange_client res" where
  "NewClientWithOptions baseURL network t timeout s n userAgent options =
     bind_res (apply_all options ''nil submit option'' \<lparr> sc_vaultAddress = None, sc_expiresAfter = None \<rparr>) (\<lambda>config.
     Inr \<lparr> xc_client = \<lparr> cl_network = network, cl_signer = s, cl_has_nonce = True,
         cl_vaultAddress = sc_vaultAddress config, cl_expiresAfter = sc_expiresAfter config \<rparr>,
       xc_baseURL = baseURL, xc_http = (case t of None \<Rightarrow> DefaultHTTP | Some h \<Rightarrow> h),
       xc_timeout = (if timeout \<le> 0 then 5000000000 else timeout), xc_nonce = n, xc_request = None,
       xc_userAgent = userAgent \<rparr>)"

section \<open>The root client\<close>

text \<open>The resolver is the caller's, or a refreshing one over the info client.\<close>

datatype resolver = GivenResolver handle | OwnResolver meta_config

record info_client =
  in_baseURL :: string
  in_http :: http_stack
  in_timeout :: int
  in_userAgent :: string
  in_retry :: RetryPolicy
  in_request :: "handle option"

record explorer_client =
  xp_baseURL :: string
  xp_http :: http_stack
  xp_timeout :: int
  xp_userAgent :: string
  xp_request :: "handle option"
  xp_subs :: explorer_subs

record 'w root_client =
  rc_Info :: info_client
  rc_Exchange :: exchange_client
  rc_Assets :: resolver
  rc_Explorer :: explorer_client
  rc_WebSocket :: "string \<times> 'w option"

text \<open>The middlewares are wrapped from the last one inwards, so that the first one sees a request first.\<close>

definition wrap_http :: "middleware list \<Rightarrow> http_stack \<Rightarrow> http_stack" where
  "wrap_http ms h = foldr Wrapped ms h"

definition submit_options :: "'w config \<Rightarrow> (submitConfig \<Rightarrow> submitConfig res) option list" where
  "submit_options c =
     (case cfg_vaultAddress c of None \<Rightarrow> [] | Some a \<Rightarrow> [Some (Submit_WithVaultAddress a)]) @
     (case cfg_expiresAfter c of None \<Rightarrow> [] | Some t \<Rightarrow> [Some (Submit_WithExpiresAfter t)])"

definition build_resolver :: "'w config \<Rightarrow> resolver res" where
  "build_resolver c =
     (case cfg_asset c of
        Some r \<Rightarrow> Inr (GivenResolver r)
      | None \<Rightarrow> bind_res (NewMetaResolver False
          (if cfg_network c = Testnet then [Some WithOutcomeMetadata] else [])) (\<lambda>m. Inr (OwnResolver m)))"

definition build_clients :: "'w config \<Rightarrow> 'w root_client res" where
  "build_clients c =
     (let http = wrap_http (cfg_middleware c) (cfg_http c); e = cfg_endpoints c
      in bind_res (build_resolver c) (\<lambda>assets.
      bind_res (NewClientWithOptions (ep_Exchange e) (cfg_network c) (Some http) (cfg_exchangeTimeout c)
         (cfg_signer c) (cfg_nonce c) (cfg_userAgent c) (submit_options c)) (\<lambda>exchange.
      Inr \<lparr> rc_Info = \<lparr> in_baseURL = ep_Info e, in_http = http, in_timeout = cfg_infoTimeout c,
           in_userAgent = cfg_userAgent c, in_retry = cfg_infoRetry c, in_request = cfg_request c \<rparr>,
         rc_Exchange = exchange\<lparr>xc_request := cfg_request c\<rparr>, rc_Assets = assets,
         rc_Explorer = \<lparr> xp_baseURL = ep_Explorer e, xp_http = http, xp_timeout = cfg_infoTimeout c,
           xp_userAgent = cfg_userAgent c, xp_request = cfg_explorerRequest c,
           xp_subs = explorer_new False (ep_ExplorerWebSocket e) \<rparr>,
         rc_WebSocket = (ep_WebSocket e, cfg_websocket c) \<rparr>)))"

definition NewRootClient :: "(int \<Rightarrow> int) \<Rightarrow> 'w root_option option list \<Rightarrow> 'w root_client res" where
  "NewRootClient jitter options =
     bind_res (apply_all options ''nil client option'' (defaultConfig jitter)) build_clients"

text \<open>Both resources are closed, also when the first one fails; the errors are joined.\<close>

definition root_Close :: "unit res option \<Rightarrow> unit res option \<Rightarrow> string list" where
  "root_Close websocket explorer =
     (let err = (\<lambda>r. case r of Some (Inl e) \<Rightarrow> [e] | _ \<Rightarrow> []) in err websocket @ err explorer)"

section \<open>What the options add up to\<close>

text \<open>
  The type of the configuration is private to the package, so that an option is the value of one of the
  constructors. A call is such a value; \<open>apply_option\<close> is what it does. URLs are parsed by \<open>pu\<close>.
\<close>

datatype 'w option_call = CNetwork string | CMainnet | CTestnet
  | CInfoURL string | CExchangeURL string | CExplorerURL string | CWebSocketURL string | CExplorerWebSocketURL string
  | CSigner "DigestSigner option" | CVault address | CExpires u64
  | CNonce "handle option" | CAsset "handle option" | CHTTP "handle option"
  | CRequest "handle option" | CExplorerRequest "handle option" | CHTTPClient "handle option"
  | CHTTPTimeout int | CInfoTimeout int | CRetry RetryPolicy | CExchangeTimeout int
  | CUserAgent string | CWebSocketConfig 'w | CMiddleware "handle option list"
  | CRateLimit "handle option" "handle option"

primrec apply_option :: "(string \<Rightarrow> (string \<times> string) option) \<Rightarrow> 'w option_call \<Rightarrow> 'w root_option" where
  "apply_option pu (CNetwork n) = WithNetwork n"
| "apply_option pu CMainnet = WithMainnet"
| "apply_option pu CTestnet = WithTestnet"
| "apply_option pu (CInfoURL u) = WithInfoBaseURL pu u"
| "apply_option pu (CExchangeURL u) = WithExchangeBaseURL pu u"
| "apply_option pu (CExplorerURL u) = WithExplorerBaseURL pu u"
| "apply_option pu (CWebSocketURL u) = WithWebSocketURL pu u"
| "apply_option pu (CExplorerWebSocketURL u) = WithExplorerWebSocketURL pu u"
| "apply_option pu (CSigner s) = WithDigestSigner s"
| "apply_option pu (CVault a) = Root_WithVaultAddress a"
| "apply_option pu (CExpires t) = Root_WithExpiresAfter t"
| "apply_option pu (CNonce m) = WithNonceManager m"
| "apply_option pu (CAsset r) = WithAssetResolver r"
| "apply_option pu (CHTTP t) = WithHTTPTransport t"
| "apply_option pu (CRequest t) = WithRequestTransport t"
| "apply_option pu (CExplorerRequest t) = WithExplorerRequestTransport t"
| "apply_option pu (CHTTPClient h) = WithHTTPClient h"
| "apply_option pu (CHTTPTimeout d) = WithHTTPTimeout d"
| "apply_option pu (CInfoTimeout d) = WithInfoTimeout d"
| "apply_option pu (CRetry p) = WithInfoRetryPolicy p"
| "apply_option pu (CExchangeTimeout d) = WithExchangeTimeout d"
| "apply_option pu (CUserAgent a) = WithUserAgent a"
| "apply_option pu (CWebSocketConfig w) = WithWebSocketConfig w"
| "apply_option pu (CMiddleware ms) = WithMiddleware ms"
| "apply_option pu (CRateLimit p l) = WithRateLimitPolicyAndLimiter p l"

text \<open>The contract: every part of the configuration is set by the last option that speaks of it.\<close>

definition last_set :: "('a \<Rightarrow> 'b option) \<Rightarrow> 'b \<Rightarrow> 'a list \<Rightarrow> 'b" where
  "last_set f = foldl (\<lambda>b x. case f x of None \<Rightarrow> b | Some y \<Rightarrow> y)"

lemma last_set_simps [simp]:
  "last_set f b [] = b"
  "last_set f b (x # xs) = last_set f (case f x of None \<Rightarrow> b | Some y \<Rightarrow> y) xs"
  by (simp_all add: last_set_def)

text \<open>The network an option selects, and the value it gives to one endpoint.\<close>

fun network_of :: "'w option_call \<Rightarrow> string option" where
  "network_of (CNetwork n) = Some n"
| "network_of CMainnet = Some ''mainnet''"
| "network_of CTestnet = Some ''testnet''"
| "network_of _ = None"

definition official :: "string \<Rightarrow> Endpoints" where
  "official n = (if n = ''testnet''
     then endpoints_at ''api.hyperliquid-testnet.xyz'' ''rpc.hyperliquid-testnet.xyz''
     else endpoints_at ''api.hyperliquid.xyz'' ''rpc.hyperliquid.xyz'')"

definition url_of :: "(Endpoints \<Rightarrow> string) \<Rightarrow> ('w option_call \<Rightarrow> string option) \<Rightarrow> 'w option_call \<Rightarrow> string option" where
  "url_of ep custom call = (case network_of call of Some n \<Rightarrow> Some (ep (official n)) | None \<Rightarrow> custom call)"

fun info_url :: "'w option_call \<Rightarrow> string option" where
  "info_url (CInfoURL u) = Some u" | "info_url _ = None"

fun exchange_url :: "'w option_call \<Rightarrow> string option" where
  "exchange_url (CExchangeURL u) = Some u" | "exchange_url _ = None"

fun explorer_url :: "'w option_call \<Rightarrow> string option" where
  "explorer_url (CExplorerURL u) = Some u" | "explorer_url _ = None"

fun websocket_url :: "'w option_call \<Rightarrow> string option" where
  "websocket_url (CWebSocketURL u) = Some u" | "websocket_url _ = None"

fun signer_of :: "'w option_call \<Rightarrow> DigestSigner option option" where
  "signer_of (CSigner s) = Some s" | "signer_of _ = None"

fun vault_of :: "'w option_call \<Rightarrow> address option option" where
  "vault_of (CVault a) = Some (Some a)" | "vault_of _ = None"

fun expires_of :: "'w option_call \<Rightarrow> u64 option option" where
  "expires_of (CExpires t) = Some (Some t)" | "expires_of _ = None"

fun http_of :: "'w option_call \<Rightarrow> http_stack option" where
  "http_of (CHTTP t) = Some (GivenHTTP (the t))"
| "http_of (CHTTPClient h) = Some (ClientHTTP (the h))"
| "http_of _ = None"

fun middlewares_of :: "'w option_call \<Rightarrow> middleware list" where
  "middlewares_of (CMiddleware ms) = map (Given \<circ> the) ms"
| "middlewares_of (CRateLimit p l) = [Weighted (the p) (the l)]"
| "middlewares_of _ = []"

text \<open>What every configuration satisfies that the options leave.\<close>

definition config_ok :: "'w config \<Rightarrow> bool" where
  "config_ok c = (cfg_network c \<in> {Mainnet, Testnet} \<and> 0 < cfg_infoTimeout c \<and> 0 < cfg_exchangeTimeout c \<and>
     cfg_userAgent c \<noteq> [] \<and> cfg_vaultAddress c \<noteq> Some 0 \<and> cfg_expiresAfter c \<noteq> Some 0)"

lemmas option_setters =
  WithInfoBaseURL_def WithExchangeBaseURL_def WithExplorerBaseURL_def WithWebSocketURL_def
  WithExplorerWebSocketURL_def WithDigestSigner_def Root_WithVaultAddress_def Root_WithExpiresAfter_def
  WithNonceManager_def WithAssetResolver_def WithHTTPTransport_def WithRequestTransport_def
  WithExplorerRequestTransport_def WithHTTPClient_def WithHTTPTimeout_def WithInfoTimeout_def
  WithInfoRetryPolicy_def WithExchangeTimeout_def WithUserAgent_def WithWebSocketConfig_def
  WithMiddleware_def WithRateLimitPolicyAndLimiter_def

text \<open>The configuration an accepted option leaves.\<close>

primrec effect :: "'w option_call \<Rightarrow> 'w config \<Rightarrow> 'w config" where
  "effect (CNetwork n) c = c\<lparr>cfg_network := n, cfg_endpoints := official n\<rparr>"
| "effect CMainnet c = c\<lparr>cfg_network := ''mainnet'', cfg_endpoints := official ''mainnet''\<rparr>"
| "effect CTestnet c = c\<lparr>cfg_network := ''testnet'', cfg_endpoints := official ''testnet''\<rparr>"
| "effect (CInfoURL u) c = c\<lparr>cfg_endpoints := (cfg_endpoints c)\<lparr>ep_Info := u\<rparr>\<rparr>"
| "effect (CExchangeURL u) c = c\<lparr>cfg_endpoints := (cfg_endpoints c)\<lparr>ep_Exchange := u\<rparr>\<rparr>"
| "effect (CExplorerURL u) c = c\<lparr>cfg_endpoints := (cfg_endpoints c)\<lparr>ep_Explorer := u\<rparr>\<rparr>"
| "effect (CWebSocketURL u) c = c\<lparr>cfg_endpoints := (cfg_endpoints c)\<lparr>ep_WebSocket := u\<rparr>\<rparr>"
| "effect (CExplorerWebSocketURL u) c = c\<lparr>cfg_endpoints := (cfg_endpoints c)\<lparr>ep_ExplorerWebSocket := u\<rparr>\<rparr>"
| "effect (CSigner s) c = c\<lparr>cfg_signer := s\<rparr>"
| "effect (CVault a) c = c\<lparr>cfg_vaultAddress := Some a\<rparr>"
| "effect (CExpires t) c = c\<lparr>cfg_expiresAfter := Some t\<rparr>"
| "effect (CNonce m) c = c\<lparr>cfg_nonce := m\<rparr>"
| "effect (CAsset r) c = c\<lparr>cfg_asset := r\<rparr>"
| "effect (CHTTP t) c = c\<lparr>cfg_http := GivenHTTP (the t)\<rparr>"
| "effect (CRequest t) c = c\<lparr>cfg_request := t\<rparr>"
| "effect (CExplorerRequest t) c = c\<lparr>cfg_explorerRequest := t\<rparr>"
| "effect (CHTTPClient h) c = c\<lparr>cfg_http := ClientHTTP (the h)\<rparr>"
| "effect (CHTTPTimeout d) c = c\<lparr>cfg_infoTimeout := d, cfg_exchangeTimeout := d\<rparr>"
| "effect (CInfoTimeout d) c = c\<lparr>cfg_infoTimeout := d\<rparr>"
| "effect (CRetry p) c = c\<lparr>cfg_infoRetry := p\<rparr>"
| "effect (CExchangeTimeout d) c = c\<lparr>cfg_exchangeTimeout := d\<rparr>"
| "effect (CUserAgent a) c = c\<lparr>cfg_userAgent := a\<rparr>"
| "effect (CWebSocketConfig w) c = c\<lparr>cfg_websocket := Some w\<rparr>"
| "effect (CMiddleware ms) c = c\<lparr>cfg_middleware := cfg_middleware c @ map (Given \<circ> the) ms\<rparr>"
| "effect (CRateLimit p l) c = c\<lparr>cfg_middleware := cfg_middleware c @ [Weighted (the p) (the l)]\<rparr>"

text \<open>What an option requires of its arguments.\<close>

primrec accepted :: "'w option_call \<Rightarrow> bool" where
  "accepted (CNetwork n) = (n = ''mainnet'' \<or> n = ''testnet'')"
| "accepted CMainnet = True" | "accepted CTestnet = True"
| "accepted (CInfoURL u) = True" | "accepted (CExchangeURL u) = True"
| "accepted (CExplorerURL u) = True" | "accepted (CWebSocketURL u) = True"
| "accepted (CExplorerWebSocketURL u) = True"
| "accepted (CSigner s) = (s \<noteq> None)" | "accepted (CVault a) = (a \<noteq> 0)" | "accepted (CExpires t) = (t \<noteq> 0)"
| "accepted (CNonce m) = (m \<noteq> None)" | "accepted (CAsset r) = (r \<noteq> None)" | "accepted (CHTTP t) = (t \<noteq> None)"
| "accepted (CRequest t) = (t \<noteq> None)" | "accepted (CExplorerRequest t) = (t \<noteq> None)"
| "accepted (CHTTPClient h) = (h \<noteq> None)"
| "accepted (CHTTPTimeout d) = (0 < d)" | "accepted (CInfoTimeout d) = (0 < d)" | "accepted (CRetry p) = True"
| "accepted (CExchangeTimeout d) = (0 < d)" | "accepted (CUserAgent a) = (a \<noteq> [])"
| "accepted (CWebSocketConfig w) = True" | "accepted (CMiddleware ms) = (None \<notin> set ms)"
| "accepted (CRateLimit p l) = (p \<noteq> None \<and> l \<noteq> None)"

lemma network_effect:
  "WithNetwork n c = Inr c' \<Longrightarrow>
    c' = c\<lparr>cfg_network := n, cfg_endpoints := official n\<rparr> \<and> (n = ''mainnet'' \<or> n = ''testnet'')"
  by (auto simp: WithNetwork_def endpointsFor_def official_def Mainnet_def Testnet_def split: if_splits)

lemma setURL_effect: "setURL pu name u f c = Inr c' \<Longrightarrow> c' = f c u"
  by (auto simp: setURL_def split: option.splits if_splits)

lemma option_effect:
  assumes "apply_option pu call c = Inr c'"
  shows "c' = effect call c \<and> accepted call"
proof (cases "\<exists>n. call = CNetwork n \<or> call = CMainnet \<or> call = CTestnet")
  case True
  then show ?thesis
    using assms by (auto simp: WithMainnet_def WithTestnet_def Mainnet_def Testnet_def dest!: network_effect)
next
  case False
  then show ?thesis
    using assms by (cases call) (simp_all add: option_setters split: if_split_asm option.split_asm,
      auto dest!: setURL_effect)
qed

lemma option_keeps_ok: "accepted call \<Longrightarrow> config_ok c \<Longrightarrow> config_ok (effect call c)"
  by (cases call) (auto simp: config_ok_def Mainnet_def Testnet_def)

definition follows :: "'w option_call \<Rightarrow> 'w config \<Rightarrow> 'w config \<Rightarrow> bool" where
  "follows call c c' = (
     cfg_network c' = (case network_of call of None \<Rightarrow> cfg_network c | Some n \<Rightarrow> n) \<and>
     ep_Info (cfg_endpoints c') = (case url_of ep_Info info_url call of
       None \<Rightarrow> ep_Info (cfg_endpoints c) | Some u \<Rightarrow> u) \<and>
     ep_Exchange (cfg_endpoints c') = (case url_of ep_Exchange exchange_url call of
       None \<Rightarrow> ep_Exchange (cfg_endpoints c) | Some u \<Rightarrow> u) \<and>
     ep_Explorer (cfg_endpoints c') = (case url_of ep_Explorer explorer_url call of
       None \<Rightarrow> ep_Explorer (cfg_endpoints c) | Some u \<Rightarrow> u) \<and>
     ep_WebSocket (cfg_endpoints c') = (case url_of ep_WebSocket websocket_url call of
       None \<Rightarrow> ep_WebSocket (cfg_endpoints c) | Some u \<Rightarrow> u) \<and>
     cfg_signer c' = (case signer_of call of None \<Rightarrow> cfg_signer c | Some s \<Rightarrow> s) \<and>
     cfg_vaultAddress c' = (case vault_of call of None \<Rightarrow> cfg_vaultAddress c | Some a \<Rightarrow> a) \<and>
     cfg_expiresAfter c' = (case expires_of call of None \<Rightarrow> cfg_expiresAfter c | Some t \<Rightarrow> t) \<and>
     cfg_http c' = (case http_of call of None \<Rightarrow> cfg_http c | Some h \<Rightarrow> h) \<and>
     cfg_middleware c' = cfg_middleware c @ middlewares_of call)"

lemma option_follows: "follows call c (effect call c)"
  by (cases call) (simp_all add: follows_def url_of_def)

lemma options_fold:
  "apply_all (map (map_option (apply_option pu)) calls) e c = Inr c' \<Longrightarrow>
    \<exists>cs. calls = map Some cs \<and> list_all accepted cs \<and> c' = fold effect cs c"
proof (induction calls arbitrary: c)
  case (Cons o' calls)
  then obtain call where o: "o' = Some call" by (cases o') auto
  with Cons.prems obtain c1 where c1: "apply_option pu call c = Inr c1"
    "apply_all (map (map_option (apply_option pu)) calls) e c1 = Inr c'"
    by (auto simp: bind_res_Inr)
  obtain cs where "calls = map Some cs" "list_all accepted cs" "c' = fold effect cs c1"
    using Cons.IH [OF c1(2)] by blast
  then show ?case using option_effect [OF c1(1)] o by (intro exI [of _ "call # cs"]) simp
qed simp

lemma effects_follow:
  assumes "\<And>call c c'. follows call c c' \<Longrightarrow> sel c' = (case f call of None \<Rightarrow> sel c | Some y \<Rightarrow> y)"
  shows "sel (fold effect cs c) = last_set f (sel c) cs"
  by (induction cs arbitrary: c) (simp_all add: assms [OF option_follows])

lemma effects_middleware:
  "cfg_middleware (fold effect cs c) = cfg_middleware c @ concat (map middlewares_of cs)"
proof (induction cs arbitrary: c)
  case (Cons a cs)
  have "cfg_middleware (effect a c) = cfg_middleware c @ middlewares_of a"
    using option_follows [of a c] by (simp add: follows_def)
  with Cons show ?case by simp
qed simp

lemma effects_ok: "list_all accepted cs \<Longrightarrow> config_ok c \<Longrightarrow> config_ok (fold effect cs c)"
  by (induction cs arbitrary: c) (simp_all add: option_keeps_ok)

lemma effects_sets:
  "cfg_network (fold effect cs c) = last_set network_of (cfg_network c) cs"
  "ep_Info (cfg_endpoints (fold effect cs c)) = last_set (url_of ep_Info info_url) (ep_Info (cfg_endpoints c)) cs"
  "ep_Exchange (cfg_endpoints (fold effect cs c)) = last_set (url_of ep_Exchange exchange_url) (ep_Exchange (cfg_endpoints c)) cs"
  "ep_Explorer (cfg_endpoints (fold effect cs c)) = last_set (url_of ep_Explorer explorer_url) (ep_Explorer (cfg_endpoints c)) cs"
  "ep_WebSocket (cfg_endpoints (fold effect cs c)) = last_set (url_of ep_WebSocket websocket_url) (ep_WebSocket (cfg_endpoints c)) cs"
  "cfg_signer (fold effect cs c) = last_set signer_of (cfg_signer c) cs"
  "cfg_vaultAddress (fold effect cs c) = last_set vault_of (cfg_vaultAddress c) cs"
  "cfg_expiresAfter (fold effect cs c) = last_set expires_of (cfg_expiresAfter c) cs"
  "cfg_http (fold effect cs c) = last_set http_of (cfg_http c) cs"
  by (rule effects_follow [of "\<lambda>c. cfg_network c"], simp add: follows_def,
    rule effects_follow [of "\<lambda>c. ep_Info (cfg_endpoints c)"], simp add: follows_def,
    rule effects_follow [of "\<lambda>c. ep_Exchange (cfg_endpoints c)"], simp add: follows_def,
    rule effects_follow [of "\<lambda>c. ep_Explorer (cfg_endpoints c)"], simp add: follows_def,
    rule effects_follow [of "\<lambda>c. ep_WebSocket (cfg_endpoints c)"], simp add: follows_def,
    rule effects_follow [of "\<lambda>c. cfg_signer c"], simp add: follows_def,
    rule effects_follow [of "\<lambda>c. cfg_vaultAddress c"], simp add: follows_def,
    rule effects_follow [of "\<lambda>c. cfg_expiresAfter c"], simp add: follows_def,
    rule effects_follow [of "\<lambda>c. cfg_http c"], simp add: follows_def)

lemma defaultConfig_ok: "config_ok (defaultConfig jitter)"
  by (simp add: config_ok_def defaultConfig_def)

text \<open>How the four clients follow from the configuration.\<close>

lemma submit_options_applied:
  assumes "config_ok c"
  shows "apply_all (submit_options c) e \<lparr> sc_vaultAddress = None, sc_expiresAfter = None \<rparr> =
    Inr \<lparr> sc_vaultAddress = cfg_vaultAddress c, sc_expiresAfter = cfg_expiresAfter c \<rparr>"
  using assms by (cases "cfg_vaultAddress c"; cases "cfg_expiresAfter c")
    (simp_all add: submit_options_def config_ok_def Submit_WithVaultAddress_def Submit_WithExpiresAfter_def)

lemma resolver_built:
  "\<exists>r. build_resolver c = Inr r \<and> (\<forall>m. r = OwnResolver m \<longrightarrow> mt_outcomes m = (cfg_network c = Testnet)) \<and>
     (\<forall>h. r = GivenResolver h \<longleftrightarrow> cfg_asset c = Some h)"
  by (cases "cfg_asset c")
    (simp_all add: build_resolver_def NewMetaResolver_def WithOutcomeMetadata_def)

definition built :: "'w config \<Rightarrow> resolver \<Rightarrow> 'w root_client" where
  "built c m =
     (let http = foldr Wrapped (cfg_middleware c) (cfg_http c); e = cfg_endpoints c
      in \<lparr> rc_Info = \<lparr> in_baseURL = ep_Info e, in_http = http, in_timeout = cfg_infoTimeout c,
           in_userAgent = cfg_userAgent c, in_retry = cfg_infoRetry c, in_request = cfg_request c \<rparr>,
         rc_Exchange = \<lparr> xc_client = \<lparr> cl_network = cfg_network c, cl_signer = cfg_signer c,
             cl_has_nonce = True, cl_vaultAddress = cfg_vaultAddress c, cl_expiresAfter = cfg_expiresAfter c \<rparr>,
           xc_baseURL = ep_Exchange e, xc_http = http, xc_timeout = cfg_exchangeTimeout c,
           xc_nonce = cfg_nonce c, xc_request = cfg_request c, xc_userAgent = cfg_userAgent c \<rparr>,
         rc_Assets = m,
         rc_Explorer = \<lparr> xp_baseURL = ep_Explorer e, xp_http = http, xp_timeout = cfg_infoTimeout c,
           xp_userAgent = cfg_userAgent c, xp_request = cfg_explorerRequest c,
           xp_subs = explorer_new False (ep_ExplorerWebSocket e) \<rparr>,
         rc_WebSocket = (ep_WebSocket e, cfg_websocket c) \<rparr>)"

lemma clients_built:
  assumes "config_ok c" "build_resolver c = Inr m"
  shows "build_clients c = Inr (built c m)"
proof -
  have "\<not> cfg_exchangeTimeout c \<le> 0" using assms(1) by (simp add: config_ok_def)
  then show ?thesis
    by (simp add: build_clients_def built_def assms(2) NewClientWithOptions_def
        submit_options_applied [OF assms(1)] wrap_http_def Let_def)
qed

lemma root_built:
  assumes "NewRootClient jitter (map (map_option (apply_option pu)) calls) = Inr r"
  obtains cs m where "calls = map Some cs" "list_all accepted cs"
    "config_ok (fold effect cs (defaultConfig jitter))"
    "build_resolver (fold effect cs (defaultConfig jitter)) = Inr m"
    "r = built (fold effect cs (defaultConfig jitter)) m"
proof -
  obtain c where c: "apply_all (map (map_option (apply_option pu)) calls) ''nil client option''
      (defaultConfig jitter) = Inr c" "build_clients c = Inr r"
    using assms by (auto simp: NewRootClient_def bind_res_Inr)
  obtain cs where cs: "calls = map Some cs" "list_all accepted cs" "c = fold effect cs (defaultConfig jitter)"
    using options_fold [OF c(1)] by blast
  have ok: "config_ok c" unfolding cs(3) by (rule effects_ok [OF cs(2) defaultConfig_ok])
  obtain m where m: "build_resolver c = Inr m" using resolver_built by blast
  have "r = built c m" using c(2) clients_built [OF ok m] by simp
  with cs ok m show thesis by (intro that) simp_all
qed


definition sample_options :: "unit option_call list" where
  "sample_options = [CExchangeURL ''https://a.b'', CTestnet, CVault 7, CInfoURL ''https://c.d'', CMiddleware [Some 1]]"


end
