(* ===== verification/Spec2Isabelle.thy ===== *)
theory Spec2Isabelle
  imports Runs MultisigCalls Middleware UpstreamCheck WsSession WsSync WsDelivery WsFanout WsPostAnswers WsRun InfoMethods RootClient
begin

text \<open>
  A verification library for the Hyperliquid Go client (package \<^verbatim>\<open>hyperliquid\<close> and its
  subpackages). The client builds trading and account actions, encodes and signs them, and posts them to
  an exchange over HTTP or WebSocket; it asks the exchange for market and account data, and keeps
  subscriptions to streams of events over one reconnecting WebSocket connection.

  The program's parts and the theories that model them:

  \<^item> \<^verbatim>\<open>signing\<close> turns an action into two encodings: a sequence of MessagePack encoder calls, whose
    bytes are hashed and signed, and the JSON value that is sent. Theories \<open>Wire\<close> (values, encoder calls,
    the interface \<open>msgpack_codec\<close> of the third-party encoder and an implementation of it), \<open>L1Wire\<close>
    (\<^verbatim>\<open>signing/l1_action.go\<close>, \<^verbatim>\<open>signing/account_management_actions.go\<close>,
    \<^verbatim>\<open>signing/legacy_management_actions.go\<close>), \<open>AdvancedWire\<close> (\<^verbatim>\<open>signing/advanced_actions.go\<close>,
    \<^verbatim>\<open>signing/compat_actions.go\<close>), \<open>DeployWire\<close> (\<^verbatim>\<open>signing/deploy_actions.go\<close> with its validators),
    \<open>L1Action\<close> (the closed set of \<^verbatim>\<open>signing/l1_contract.go\<close> and the hashed byte string),
    \<open>UserActions\<close> (\<^verbatim>\<open>signing/user_action.go\<close>: EIP-712 typed data and the sent structs) and \<open>Multisig\<close>
    (\<^verbatim>\<open>signing/multisig.go\<close> and the configuration checks of \<^verbatim>\<open>exchange/multisig.go\<close>). Per struct there is
    one record with the struct's fields, and one definition per marshaler or validator; a lemma named
    after the struct with the suffix \<open>_wire\<close> says that its two marshalers agree.
  \<^item> \<^verbatim>\<open>signer\<close> and \<^verbatim>\<open>nonce\<close>: theories \<open>Signer\<close> (signatures, their verification, the local signer) and
    \<open>Nonce\<close> (the monotonic manager; its contract is the locale \<open>nonce_source\<close>).
  \<^item> \<^verbatim>\<open>asset\<close>, \<^verbatim>\<open>types\<close>: \<open>Assets\<close> (market references, static and cached resolver, metadata
    snapshots; the contract of a resolver is the locale \<open>market_resolver\<close>, interpreted for the static
    resolver and for a snapshot; client order identifiers) and \<open>MetaResolver\<close>
    (\<^verbatim>\<open>asset/meta_resolver.go\<close>: the refreshing resolver, whose shared cache is a step machine of the sections
    under its lock).
  \<^item> \<^verbatim>\<open>exchange\<close>: \<open>Decimals\<close> (the decimal package as a record with its documented laws, and an
    implementation that has them), \<open>Orders\<close> (prices, sizes, micro units, order wires, builder rules),
    \<open>Response\<close> (decoding of replies), \<open>Exchange\<close> (the submission paths as functions on a world: the nonce
    manager's state and the list of posted requests), \<open>Calls\<close> (one definition per client method),
    \<open>MultisigCalls\<close> (the two multi-signature submissions) and \<open>Runs\<close> (what a caller can rely on).
  \<^item> \<^verbatim>\<open>transport\<close>: \<open>Transport\<close> (retry timing, request weights, the weighted token bucket and the
    spacing limiter as state machines of their critical sections) and \<open>Middleware\<close> (the HTTP
    middlewares as functions on a world that records admissions, sends, surcharges and reports).
  \<^item> \<^verbatim>\<open>info\<close>, \<^verbatim>\<open>explorer\<close>: \<open>GoJson\<close> is the part of \<^verbatim>\<open>encoding/json\<close> that the models use, as a
    decoder driven by a description \<open>gotype\<close> of a Go type; \<open>StreamModels\<close> (\<^verbatim>\<open>types/stream_models.go\<close>) and
    \<open>InfoModels\<close> (\<^verbatim>\<open>info/*.go\<close>) describe the structs and translate their own \<^verbatim>\<open>UnmarshalJSON\<close> methods;
    \<open>InfoClient\<close> is the call with its retry loop (\<^verbatim>\<open>info/client.go\<close>), \<open>InfoMethods\<close> one definition per
    method, \<open>Explorer\<close> \<^verbatim>\<open>explorer/client.go\<close>.
  \<^item> \<^verbatim>\<open>websocket\<close>, the requests: \<open>WsIdentity\<close> (\<^verbatim>\<open>wire_identity.go\<close>: keys, server identities, the
    matching of acknowledgements), \<open>WsStreams\<close> (every \<^verbatim>\<open>Subscribe\<close> method: key, request, filter, conflict
    policy), \<open>WsRouting\<close> and \<open>WsDelivery\<close> (which stream gets which event), \<open>WsEvents\<close> (the event types).
  \<^item> \<^verbatim>\<open>websocket\<close>, one client: \<open>WsAdmission\<close> (\<^verbatim>\<open>admission.go\<close>, \<^verbatim>\<open>post_admission.go\<close>: gates and
    leases), \<open>WsLifecycle\<close> (\<^verbatim>\<open>subscription.go\<close>, \<^verbatim>\<open>state.go\<close>, \<^verbatim>\<open>market_subscription.go\<close>: one
    subscription's channels, deliveries, states and end), \<open>WsTiming\<close> (\<^verbatim>\<open>rate.go\<close>, \<^verbatim>\<open>reconnect.go\<close>,
    \<^verbatim>\<open>config.go\<close>), \<open>WsClient\<close> (\<^verbatim>\<open>client.go\<close>, \<^verbatim>\<open>registry.go\<close>: the registry and its operations).
  \<^item> \<^verbatim>\<open>websocket/manager.go\<close>: \<open>WsManager\<close> has one definition per section that the loop of a
    connection's generation runs, over the tables of that generation and the registry; \<open>WsSession\<close> is the
    abstract session that it refines, \<open>WsSync\<close> its synchronization passes; \<open>WsFanout\<close> is what its steps do
    to the subscriptions, one call after the other beside the consumers; \<open>WsRun\<close> is the life of the manager's
    goroutine: waiting, dialing, serving, pausing, and \<^verbatim>\<open>Client.Close\<close>.
  \<^item> \<^verbatim>\<open>websocket/post.go\<close>: \<open>WsPost\<close> (requests over the connection, as steps between the points at which a
    goroutine can block), \<open>WsPostRuns\<close> (their invariants) and \<open>WsPostAnswers\<close>.
  \<^item> The root package: \<open>RootClient\<close> (\<^verbatim>\<open>network.go\<close>, \<^verbatim>\<open>config.go\<close>, \<^verbatim>\<open>options.go\<close>, \<^verbatim>\<open>client.go\<close> and the
    options of \<^verbatim>\<open>exchange/client.go\<close>); \<open>UpstreamCheck\<close> is \<^verbatim>\<open>scripts/upstreamcheck\<close>.

  The theory \<open>Prelude\<close> has the machine integers, results, strings, big-endian bytes and decimal text that
  all share; \<open>Externals\<close> the functions of other packages that the encodings call. A fallible Go
  function is a function into \<^typ>\<open>string + 'a\<close>: the error's text or the value. Strings are byte
  strings; \<^verbatim>\<open>uint64\<close> and friends are words of their width, \<^verbatim>\<open>int64\<close> durations are integers with the
  wrap-around written out (\<^const>\<open>wrap_i64\<close>).

  What the groups of lemmas show:

  \<^item> the signed bytes spell the value that is sent, the hashed byte string determines action, nonce,
    vault and expiry, and order encodings are injective (\<open>L1Action\<close>); the typed data of a user-signed action
    covers every field of the request (\<open>UserActions\<close>); compact signatures and envelopes lose nothing, except
    that the payload of a user-signed action is hashed under other keys than it is sent (\<open>Multisig\<close>);
  \<^item> nonces increase per address (\<open>Nonce\<close>), also on the wire over whole runs of a client (\<open>Runs\<close>);
  \<^item> prices, sizes and micro amounts denote exactly the caller's values and respect the market's precision,
    and a batch has one builder within the fee caps (\<open>Orders\<close>);
  \<^item> every request that leaves the client carries a verified signature over exactly its content; a call
    posts at most once; an envelope carries verified signatures of a threshold of distinct authorized
    users (\<open>Exchange\<close>, \<open>Runs\<close>, \<open>MultisigCalls\<close>); no stack of middlewares repeats or changes a request, and
    none sends it before every limiter has admitted it (\<open>Middleware\<close>);
  \<^item> replies are decoded without loss, and rejections are reported when they have a body (\<open>Response\<close>);
    a decoded value always has the Go type that was asked for, and a documented form of a value is decoded to
    that value (\<open>GoJson\<close>, \<open>InfoModels\<close>, \<open>WsEvents\<close>); an info call is bounded and repeats only after the
    retryable statuses (\<open>InfoClient\<close>), and every method sends its own request (\<open>InfoMethods\<close>, \<open>Explorer\<close>);
  \<^item> resolvers answer only well-formed references and unique symbols, caches are not stale
    (\<open>Assets\<close>), the metadata cache has one load in flight and never hides a failed refresh (\<open>MetaResolver\<close>);
    limiters keep their rate and their order, delays their bounds (\<open>Transport\<close>, \<open>WsTiming\<close>);
  \<^item> a server identity determines a subscription up to what the server ignores, acknowledgements resolve the
    request they repeat, and an event reaches only streams it belongs to (\<open>WsIdentity\<close>, \<open>WsRouting\<close>,
    \<open>WsDelivery\<close>); a subscription never blocks or closes a channel twice (\<open>WsLifecycle\<close>); leases are exactly
    the registered identities (\<open>WsAdmission\<close>, \<open>WsClient\<close>);
  \<^item> what a generation sends and reports is a well-formed session (\<open>WsSession\<close>), a pass ends, converges and
    sends only frames that the registry asks for (\<open>WsSync\<close>); an event frame reaches every
    subscription of its channel, and a state change or a report every one of the registry, while a full
    buffer under the blocking policy holds back the others (\<open>WsFanout\<close>); closing ends, with every
    socket shut, and a registration wakes the manager (\<open>WsRun\<close>); a post gets the answer to its own number or an error, once
    (\<open>WsPostRuns\<close>, \<open>WsPostAnswers\<close>);
  \<^item> the clients that \<^verbatim>\<open>NewClient\<close> builds agree on network, endpoints and transport (\<open>RootClient\<close>); the
    release check accepts exactly the locks and the online contents that it should (\<open>UpstreamCheck\<close>).

  Bounds and fuel: the recursion through nested envelopes in \<open>nestedExchangeBatchLength\<close> has the code's own
  depth limit of 8; the retry loop of an info call counts down the policy's attempts; the steps after a close are
  bounded by \<open>steps_left\<close>; every other recursion is structural or on a decreasing number.
  \<open>posted_nonces_increase\<close> assumes that the clock and the number of calls leave room in 64 bits;
  \<open>outcome_market_found\<close> that outcome numbers are below 10 to the 18, so that the encoding fits 64 bits.

  Not modelled: the hash and signature algorithms, the MessagePack byte layout beyond its interface, the text
  of JSON (values are compared, not bytes; numbers in it are integers or their text), elements that a failed
  decode leaves behind in a slice, \<^verbatim>\<open>big.Rat\<close>, \<^verbatim>\<open>net.ParseIP\<close>, \<^verbatim>\<open>url.Parse\<close>, base64 and deflate
  (parameters), HTTP header fields other than the request identifier, sockets beyond their being open or
  shut, read deadlines, timers and the scheduling of goroutines (what a goroutine does under one lock or at one
  channel is an atomic step, in any order), contexts other than as errors or as a cancelled flag,
  floating-point rounding in the token bucket, command-line flags and the examples.
\<close>

section \<open>The weight of a posted batch\<close>

text \<open>The JSON of a posted request, from the tags of the payload structs.\<close>

definition request_json :: "request \<Rightarrow> jval" where
  "request_json rq =
     JObj ([(''action'', rq_Action rq), (''nonce'', json_uint (rq_Nonce rq)),
       (''signature'', JObj [(''r'', JStr (ws_R (rq_Signature rq))),
          (''s'', JStr (ws_S (rq_Signature rq))), (''v'', JInt (uint (ws_V (rq_Signature rq))))])] @
       omit ''vaultAddress'' (\<lambda>a. JStr (hex_text a)) (rq_VaultAddress rq) @
       omit ''expiresAfter'' json_uint (rq_ExpiresAfter rq))"

lemma request_action: "payloadObject (request_json rq) ''action'' = Some (rq_Action rq)"
  by (auto simp: payloadObject_def object_def request_json_def omit_def split: option.splits)

lemma order_batch: "nestedExchangeBatchLength (Suc n) (OrderAction_MarshalJSON a) =
    length (elems (oa_Orders a))"
  by (cases "oa_Orders a") (auto simp: OrderAction_MarshalJSON_def payloadObject_def object_def
      exchangeBatchField_def as_string_def batchLength_def json_slice_def omit_def
      split: option.splits)

lemma cancel_batch: "nestedExchangeBatchLength (Suc n) (CancelAction_MarshalJSON a) =
    length (elems (ca_Cancels a))"
  by (cases "ca_Cancels a") (auto simp: CancelAction_MarshalJSON_def payloadObject_def object_def
      exchangeBatchField_def as_string_def batchLength_def json_slice_def)

lemma envelope_batch:
  assumes "MultiSigEnvelopeAction_MarshalJSON L e = Inr j" "mp_Action (me_Payload e) = PayloadL1 a"
    "MarshalJSON L a = Inr k"
  shows "nestedExchangeBatchLength (Suc (Suc n)) j = nestedExchangeBatchLength (Suc n) k"
proof -
  have j: "j = JObj [(''type'', JStr ''multiSig''), (''signatureChainId'', JStr (me_SignatureChainID e)),
      (''signatures'', json_slice CompactSignature_json (me_Signatures e)),
      (''payload'', JObj [(''multiSigUser'', JStr (mp_MultiSigUser (me_Payload e))),
        (''outerSigner'', JStr (mp_OuterSigner (me_Payload e))), (''action'', k)])]"
    using assms by (auto simp: MultiSigEnvelopeAction_MarshalJSON_def MultiSigPayload_json_def)
  show ?thesis
    unfolding j nestedExchangeBatchLength.simps(2) [of "Suc n"]
    by (simp add: payloadObject_def object_def exchangeBatchField_def as_string_def
        del: nestedExchangeBatchLength.simps)
qed

text \<open>
  The rate limiter charges a posted batch of orders or cancels its official
  weight, one plus one per 40 items, also when the batch travels inside a multi-signature envelope.
\<close>

theorem batch_weight_exact:
  assumes "rq_Action rq = j"
    and "MarshalJSON L a = Inr j \<or> (MultiSigEnvelopeAction_MarshalJSON L e = Inr j \<and>
      mp_Action (me_Payload e) = PayloadL1 a)"
    and "(a = LOrder ord \<and> n = length (elems (oa_Orders ord))) \<or>
      (a = LCancel can \<and> n = length (elems (ca_Cancels can)))"
  shows "RequestWeight ''action'' (request_json rq) = 1 + n div 40"
proof -
  obtain k where k: "MarshalJSON L a = Inr k" using assms(3) by auto
  have len: "nestedExchangeBatchLength (Suc m) k = n" for m
    using k assms(3) order_batch cancel_batch by auto
  have "nestedExchangeBatchLength 8 j = n"
    using assms(2)
  proof
    assume "MarshalJSON L a = Inr j"
    then show ?thesis using k len [of 7] by simp
  next
    assume "MultiSigEnvelopeAction_MarshalJSON L e = Inr j \<and> mp_Action (me_Payload e) = PayloadL1 a"
    then show ?thesis using envelope_batch [OF _ _ k, of e j 6] len [of 6] by simp
  qed
  then show ?thesis
    using assms(1) by (simp add: RequestWeight_def exchangeBatchLength_def request_action)
qed

definition sample_batch :: OrderAction where
  "sample_batch = \<lparr> oa_Orders = Some (replicate 85 \<lparr> ow_Asset = 1, ow_IsBuy = True, ow_Price = ''1'',
     ow_Size = ''1'', ow_ReduceOnly = False, ow_Type = None, ow_Cloid = None \<rparr>),
     oa_Grouping = ''na'', oa_Builder = None \<rparr>"

theorem batch_weight_exact_witness:
  "RequestWeight ''action'' (request_json \<lparr> rq_Action = OrderAction_MarshalJSON sample_batch,
     rq_Nonce = 1, rq_Signature = \<lparr> ws_R = [], ws_S = [], ws_V = 27 \<rparr>, rq_VaultAddress = None,
     rq_ExpiresAfter = None \<rparr>) = 3"
proof -
  have "length (elems (oa_Orders sample_batch)) = 85" by (simp add: sample_batch_def)
  then show ?thesis
    using batch_weight_exact [where a = "LOrder sample_batch" and ord = sample_batch and n = 85
        and L = sample_lib and j = "OrderAction_MarshalJSON sample_batch"]
    by simp
qed

end
